(* ===== verification/Prelude.thy ===== *)
theory Prelude
  imports Main "HOL-Library.Word"
begin

text \<open>
  What every component of the development shares: the theorem collections, the
  key-ordered association lists that stand for Rust's \<open>BTreeMap\<close> and \<open>BTreeSet\<close>
  with their interface locale, the checked list access that stands for slice indexing
  (where Rust panics the model returns \<open>None\<close>), and a few facts on sums and options.
\<close>

named_theorems session_simps \<open>projections of the updates of a debug session\<close>
named_theorems manager_simps \<open>what an operation of the session manager leaves alone\<close>
named_theorems etw_simps \<open>what a step of the trace processor leaves alone\<close>

text \<open>Rust's \<open>u32\<close> and \<open>u64\<close>, where the code computes with their bits.\<close>

type_synonym u32 = "32 word"
type_synonym u64 = "64 word"

section \<open>Sequencing\<close>

text \<open>The operator \<open>?\<close> of Rust with a state: an error ends the operation.\<close>

definition try_then :: "('e + 'a) \<times> 's \<Rightarrow> ('a \<Rightarrow> 's \<Rightarrow> ('e + 'b) \<times> 's) \<Rightarrow> ('e + 'b) \<times> 's" where
  "try_then r f = (case r of (Inl e, s) \<Rightarrow> (Inl e, s) | (Inr x, s) \<Rightarrow> f x s)"

lemma try_then_simps [simp]:
  "try_then (Inl e, s) f = (Inl e, s)" "try_then (Inr x, s) f = f x s"
  by (simp_all add: try_then_def)

lemma try_then_state:
  "P (snd r) \<Longrightarrow> (\<And>x s. r = (Inr x, s) \<Longrightarrow> P s \<Longrightarrow> P (snd (f x s))) \<Longrightarrow> P (snd (try_then r f))"
  by (auto simp: try_then_def split: prod.split sum.split)

lemma try_then_same:
  assumes "f (snd r) = f w" "\<And>x s. r = (Inr x, s) \<Longrightarrow> f (snd (g x s)) = f s"
  shows "f (snd (try_then r g)) = f w"
  using assms by (cases r) (auto simp: try_then_def split: sum.split)

lemma try_then_Inr: "try_then r f = (Inr y, s') \<longleftrightarrow> (\<exists>x s. r = (Inr x, s) \<and> f x s = (Inr y, s'))"
  by (auto simp: try_then_def split: prod.split sum.split)

text \<open>The same without a state.\<close>

definition and_then :: "'e + 'a \<Rightarrow> ('a \<Rightarrow> 'e + 'b) \<Rightarrow> 'e + 'b" where
  "and_then x f = (case x of Inl e \<Rightarrow> Inl e | Inr v \<Rightarrow> f v)"

lemma and_then_Inr: "and_then x f = Inr y \<longleftrightarrow> (\<exists>v. x = Inr v \<and> f v = Inr y)"
  by (cases x) (auto simp: and_then_def)

lemma and_then_simps [simp]: "and_then (Inl e) f = Inl e" "and_then (Inr v) f = f v"
  by (simp_all add: and_then_def)

section \<open>Checked slice access\<close>

text \<open>\<open>xs[i]\<close> of Rust: an index out of range panics.\<close>

definition nth_opt :: "'a list \<Rightarrow> nat \<Rightarrow> 'a option" where
  "nth_opt xs i = (if i < length xs then Some (xs ! i) else None)"

lemma nth_opt_in [simp]: "i < length xs \<Longrightarrow> nth_opt xs i = Some (xs ! i)"
  by (simp add: nth_opt_def)

lemma nth_opt_out [simp]: "\<not> i < length xs \<Longrightarrow> nth_opt xs i = None"
  by (simp add: nth_opt_def)

lemma nth_opt_eq_Some: "nth_opt xs i = Some x \<longleftrightarrow> i < length xs \<and> x = xs ! i"
  by (auto simp: nth_opt_def)

text \<open>\<open>xs[i] = v\<close> of Rust.\<close>

definition update_opt :: "'a list \<Rightarrow> nat \<Rightarrow> 'a \<Rightarrow> 'a list option" where
  "update_opt xs i v = (if i < length xs then Some (xs[i := v]) else None)"

lemma update_opt_in [simp]: "i < length xs \<Longrightarrow> update_opt xs i v = Some (xs[i := v])"
  by (simp add: update_opt_def)

text \<open>\<open>Iterator::find_map\<close>: the first element the function accepts.\<close>

fun find_map :: "('a \<Rightarrow> 'b option) \<Rightarrow> 'a list \<Rightarrow> 'b option" where
  "find_map f [] = None"
| "find_map f (x # xs) = (case f x of Some y \<Rightarrow> Some y | None \<Rightarrow> find_map f xs)"

lemma find_map_None: "find_map f xs = None \<longleftrightarrow> (\<forall>x\<in>set xs. f x = None)"
  by (induction xs) (auto split: option.splits)

lemma find_map_SomeD: "find_map f xs = Some y \<Longrightarrow> \<exists>x\<in>set xs. f x = Some y"
  by (induction xs) (auto split: option.splits)

lemma List_find_None: "List.find P xs = None \<longleftrightarrow> (\<forall>x\<in>set xs. \<not> P x)"
  by (induction xs) auto

lemma List_find_SomeD: "List.find P xs = Some x \<Longrightarrow> x \<in> set xs \<and> P x"
  by (induction xs) (auto split: if_splits)

section \<open>Ordered maps\<close>

text \<open>
  The interface of \<open>std::collections::BTreeMap\<close> as the code uses it: \<open>insert\<close>,
  \<open>remove\<close>, \<open>get\<close>, \<open>len\<close> and \<open>first_key_value\<close>.
\<close>

locale ordered_map =
  fixes ins :: "'k::linorder \<Rightarrow> 'v \<Rightarrow> 'm \<Rightarrow> 'm"
    and del :: "'k \<Rightarrow> 'm \<Rightarrow> 'm"
    and get :: "'m \<Rightarrow> 'k \<Rightarrow> 'v option"
    and len :: "'m \<Rightarrow> nat"
    and first :: "'m \<Rightarrow> ('k \<times> 'v) option"
    and ok :: "'m \<Rightarrow> bool"
  assumes get_ins: "get (ins k v m) = (get m)(k \<mapsto> v)"
    and get_del: "get (del k m) = (get m)(k := None)"
    and ok_ins: "ok m \<Longrightarrow> ok (ins k v m)"
    and ok_del: "ok m \<Longrightarrow> ok (del k m)"
    and len_card: "ok m \<Longrightarrow> len m = card (dom (get m))"
    and finite_dom: "finite (dom (get m))"
    and first_None: "first m = None \<longleftrightarrow> dom (get m) = {}"
    and first_Some: "ok m \<Longrightarrow> first m = Some (k, v) \<Longrightarrow>
        get m k = Some v \<and> (\<forall>k' \<in> dom (get m). k \<le> k')"
begin

lemma len_ins: "ok m \<Longrightarrow> len (ins k v m) = (if k \<in> dom (get m) then len m else Suc (len m))"
  by (simp add: len_card ok_ins get_ins finite_dom insert_absorb)

lemma len_del: "ok m \<Longrightarrow> len (del k m) = (if k \<in> dom (get m) then len m - 1 else len m)"
  by (simp add: len_card ok_del get_del finite_dom card_Diff_singleton_if)

lemma len_pos: "ok m \<Longrightarrow> k \<in> dom (get m) \<Longrightarrow> 0 < len m"
  using card_gt_0_iff finite_dom len_card by fastforce

lemma first_least: "ok m \<Longrightarrow> first m = Some (k, v) \<Longrightarrow> k' \<in> dom (get m) \<Longrightarrow> k \<le> k'"
  using first_Some by blast

end

text \<open>The model of \<open>BTreeMap\<close>: association lists kept in strictly ascending key order.\<close>

type_synonym ('k, 'v) btree = "('k \<times> 'v) list"

fun bt_insert :: "'k::linorder \<Rightarrow> 'v \<Rightarrow> ('k, 'v) btree \<Rightarrow> ('k, 'v) btree" where
  "bt_insert k v [] = [(k, v)]"
| "bt_insert k v ((k', v') # m) =
     (if k < k' then (k, v) # (k', v') # m
      else if k = k' then (k, v) # m
      else (k', v') # bt_insert k v m)"

definition bt_remove :: "'k \<Rightarrow> ('k, 'v) btree \<Rightarrow> ('k, 'v) btree" where
  "bt_remove k m = filter (\<lambda>(k', v). k' \<noteq> k) m"

definition bt_get :: "('k, 'v) btree \<Rightarrow> 'k \<Rightarrow> 'v option" where
  "bt_get m k = map_of m k"

definition bt_first :: "('k, 'v) btree \<Rightarrow> ('k \<times> 'v) option" where
  "bt_first m = (case m of [] \<Rightarrow> None | kv # _ \<Rightarrow> Some kv)"

definition bt_ok :: "('k::linorder, 'v) btree \<Rightarrow> bool" where
  "bt_ok m = sorted_wrt (<) (map fst m)"

lemma bt_get_insert: "bt_get (bt_insert k v m) = (bt_get m)(k \<mapsto> v)"
  by (induction m) (auto simp: bt_get_def fun_eq_iff)

lemma bt_get_remove: "bt_get (bt_remove k m) = (bt_get m)(k := None)"
  by (induction m) (auto simp: bt_get_def bt_remove_def fun_eq_iff)

lemma set_fst_bt_insert: "fst ` set (bt_insert k v m) = insert k (fst ` set m)"
  by (induction k v m rule: bt_insert.induct) auto

lemma bt_ok_insert: "bt_ok m \<Longrightarrow> bt_ok (bt_insert k v m)"
proof (induction m)
  case Nil
  then show ?case by (simp add: bt_ok_def)
next
  case (Cons a m)
  then show ?case
    using set_fst_bt_insert[of k v m] by (cases a) (force simp: bt_ok_def)
qed

lemma bt_ok_remove: "bt_ok m \<Longrightarrow> bt_ok (bt_remove k m)"
  by (induction m) (auto simp: bt_ok_def bt_remove_def)

lemma bt_ok_Nil [simp]: "bt_ok []"
  by (simp add: bt_ok_def)

lemma bt_ok_distinct: "bt_ok m \<Longrightarrow> distinct (map fst m)"
  by (simp add: bt_ok_def strict_sorted_iff)

lemma dom_bt_get: "dom (bt_get m) = set (map fst m)"
  by (simp add: bt_get_def[abs_def] dom_map_of_conv_image_fst)

lemma bt_len_card: "bt_ok m \<Longrightarrow> length m = card (dom (bt_get m))"
  by (metis bt_ok_distinct distinct_card dom_bt_get length_map)

interpretation bt: ordered_map bt_insert bt_remove bt_get length bt_first bt_ok
proof unfold_locales
  fix m :: "('k::linorder, 'v) btree" and k v
  assume "bt_ok m" and "bt_first m = Some (k, v)"
  then show "bt_get m k = Some v \<and> (\<forall>k' \<in> dom (bt_get m). k \<le> k')"
    by (cases m) (auto simp: bt_first_def bt_ok_def dom_bt_get bt_get_def less_imp_le)
qed (simp_all add: bt_get_insert bt_get_remove bt_ok_insert bt_ok_remove bt_len_card
    dom_bt_get bt_first_def split: list.splits)

text \<open>A property of the stored values survives inserting one that has it, and removing.\<close>

lemma set_bt_insert: "set (bt_insert k v m) \<subseteq> insert (k, v) (set m)"
  by (induction k v m rule: bt_insert.induct) auto

lemma set_bt_remove: "set (bt_remove k m) \<subseteq> set m"
  by (auto simp: bt_remove_def)

lemma bt_get_in_set: "bt_get m k = Some v \<Longrightarrow> (k, v) \<in> set m"
  by (simp add: bt_get_def map_of_SomeD)

lemma in_set_bt_get: "bt_ok m \<Longrightarrow> (k, v) \<in> set m \<Longrightarrow> bt_get m k = Some v"
  by (simp add: bt_get_def bt_ok_distinct)

text \<open>A property of every entry of a map.\<close>

definition bt_all :: "('k \<Rightarrow> 'v \<Rightarrow> bool) \<Rightarrow> ('k, 'v) btree \<Rightarrow> bool" where
  "bt_all P m \<longleftrightarrow> (\<forall>kv \<in> set m. P (fst kv) (snd kv))"

lemma bt_all_Nil [simp]: "bt_all P []"
  by (simp add: bt_all_def)

lemma bt_all_insert: "bt_all P m \<Longrightarrow> P k v \<Longrightarrow> bt_all P (bt_insert k v m)"
  using set_bt_insert[of k v m] by (fastforce simp: bt_all_def)

lemma bt_all_remove: "bt_all P m \<Longrightarrow> bt_all P (bt_remove k m)"
  using set_bt_remove[of k m] by (auto simp: bt_all_def)

lemma bt_allD: "bt_all P m \<Longrightarrow> bt_get m k = Some v \<Longrightarrow> P k v"
  using bt_get_in_set[of m k v] by (fastforce simp: bt_all_def)

lemma bt_all_iff: "bt_ok m \<Longrightarrow> bt_all P m \<longleftrightarrow> (\<forall>k v. bt_get m k = Some v \<longrightarrow> P k v)"
  using bt_allD[of P m] in_set_bt_get[of m] by (fastforce simp: bt_all_def)

lemma bt_all_mono: "bt_all P m \<Longrightarrow> (\<And>k v. P k v \<Longrightarrow> Q k v) \<Longrightarrow> bt_all Q m"
  by (simp add: bt_all_def)

text \<open>A numeric measure summed over the stored values.\<close>

definition bt_sum :: "('v \<Rightarrow> nat) \<Rightarrow> ('k, 'v) btree \<Rightarrow> nat" where
  "bt_sum f m = sum_list (map (f \<circ> snd) m)"

lemma bt_sum_Nil [simp]: "bt_sum f [] = 0"
  by (simp add: bt_sum_def)

lemma bt_sum_remove:
  "bt_ok m \<Longrightarrow> bt_get m k = Some v \<Longrightarrow> bt_sum f m = f v + bt_sum f (bt_remove k m)"
proof (induction m)
  case Nil
  then show ?case by (simp add: bt_get_def)
next
  case (Cons a m)
  obtain k' v' where a: "a = (k', v')" by force
  show ?case
  proof (cases "k' = k")
    case True
    with Cons.prems a have "\<forall>b \<in> set m. fst b \<noteq> k"
      by (auto simp: bt_ok_def)
    then have "filter (\<lambda>(x, v). x \<noteq> k) m = m"
      by (intro filter_True) auto
    with Cons.prems a True show ?thesis
      by (auto simp: bt_sum_def bt_remove_def bt_get_def)
  next
    case False
    with Cons a show ?thesis
      by (auto simp: bt_sum_def bt_remove_def bt_get_def bt_ok_def)
  qed
qed

lemma bt_sum_insert_new:
  "bt_get m k = None \<Longrightarrow> bt_sum f (bt_insert k v m) = f v + bt_sum f m"
  by (induction m) (auto simp: bt_sum_def bt_get_def split: if_splits)

lemma bt_remove_insert: "bt_remove k (bt_insert k v m) = bt_remove k m"
  by (induction m) (auto simp: bt_remove_def)

lemma bt_sum_insert_old:
  "bt_ok m \<Longrightarrow> bt_get m k = Some w \<Longrightarrow> bt_sum f (bt_insert k v m) + f w = f v + bt_sum f m"
  using bt_sum_remove[of m k w f] bt_sum_remove[of "bt_insert k v m" k v f]
  by (simp add: bt_ok_insert bt_get_insert bt_remove_insert)

end
