(* ===== verification/Common.thy ===== *)
theory Common
  imports Prelude
begin

text \<open>
  The crate \<open>dbgflow-common\<close>: its error type (\<open>error.rs\<close>), the identifiers
  (\<open>ids.rs\<close>) and the text validation (\<open>validation.rs\<close>).
  Text that is inspected character by character is the list of its code points, as
  \<open>str::chars\<close> yields them; text that is only stored and compared is a \<open>string\<close>.
\<close>

section \<open>Identifiers and errors\<close>

text \<open>
  \<open>SessionId\<close>, \<open>ProfileId\<close> and \<open>TtdRecordingId\<close> wrap a 128-bit \<open>uuid::Uuid\<close>. How the
  \<open>uuid\<close> crate prints one is a parameter (\<open>show_id\<close>) of the definitions that print.
\<close>

type_synonym session_id = "128 word"
type_synonym profile_id = "128 word"
type_synonym ttd_recording_id = "128 word"

datatype dbgflow_error =
    BackendNotFound string
  | Backend string
  | SessionNotFound session_id
  | SessionClosed session_id
  | Artifact string

type_synonym 'a result = "dbgflow_error + 'a"

text \<open>The \<open>Display\<close> that \<open>thiserror\<close> derives from the \<open>#[error(..)]\<close> attributes.\<close>

fun error_text :: "(session_id \<Rightarrow> string) \<Rightarrow> dbgflow_error \<Rightarrow> string" where
  "error_text show_id (BackendNotFound s) = ''backend not found: '' @ s"
| "error_text show_id (Backend s) = ''backend error: '' @ s"
| "error_text show_id (SessionNotFound i) = ''session not found: '' @ show_id i"
| "error_text show_id (SessionClosed i) = ''session is closed: '' @ show_id i"
| "error_text show_id (Artifact s) = ''artifact error: '' @ s"

lemma error_text_not_empty [simp]: "error_text show_id e \<noteq> []"
  by (cases e) auto

section \<open>Text\<close>

type_synonym utext = "nat list"

abbreviation lit :: "string \<Rightarrow> utext" where
  "lit s \<equiv> map of_char s"

text \<open>\<open>char::is_control\<close>: the general category Cc.\<close>

definition is_control :: "nat \<Rightarrow> bool" where
  "is_control c = (c < 32 \<or> 127 \<le> c \<and> c < 160)"

text \<open>\<open>char::is_whitespace\<close>: the White_Space property.\<close>

definition is_whitespace :: "nat \<Rightarrow> bool" where
  "is_whitespace c = (9 \<le> c \<and> c \<le> 13 \<or> c = 32 \<or> c = 133 \<or> c = 160 \<or> c = 5760
     \<or> 8192 \<le> c \<and> c \<le> 8202 \<or> c = 8232 \<or> c = 8233 \<or> c = 8239 \<or> c = 8287 \<or> c = 12288)"

definition is_ascii_alphabetic :: "nat \<Rightarrow> bool" where
  "is_ascii_alphabetic c = (65 \<le> c \<and> c \<le> 90 \<or> 97 \<le> c \<and> c \<le> 122)"

definition validate_plain_text :: "utext \<Rightarrow> string \<Rightarrow> unit result" where
  "validate_plain_text value label =
     (if \<exists>ch \<in> set value. ch = 0 \<or> ch = 13 \<or> ch = 10 \<or> ch = 8232 \<or> ch = 8233 \<or> is_control ch
      then Inl (Backend (label @ '' contains unsupported control characters''))
      else Inr ())"

section \<open>Paths as text\<close>

text \<open>The components \<open>std::path::Path::components\<close> yields.\<close>

datatype path_component = Prefix utext | RootDir | CurDir | ParentDir | Normal utext

definition has_parent_component :: "path_component list \<Rightarrow> bool" where
  "has_parent_component components = (\<exists>c \<in> set components. c = ParentDir)"

abbreviation backslash :: nat where "backslash \<equiv> 92"
abbreviation slash :: nat where "slash \<equiv> 47"
abbreviation dot :: nat where "dot \<equiv> 46"

text \<open>\<open>str::split\<close> with a predicate: the pieces between the separators, empty ones kept.\<close>

fun split_on :: "('a \<Rightarrow> bool) \<Rightarrow> 'a list \<Rightarrow> 'a list list" where
  "split_on P [] = [[]]"
| "split_on P (x # xs) =
     (if P x then [] # split_on P xs
      else case split_on P xs of [] \<Rightarrow> [[x]] | p # ps \<Rightarrow> (x # p) # ps)"

definition is_separator :: "nat \<Rightarrow> bool" where
  "is_separator c = (c = backslash \<or> c = slash)"

definition split_path_text_has_parent :: "utext \<Rightarrow> bool" where
  "split_path_text_has_parent path = (\<exists>part \<in> set (split_on is_separator path). part = [dot, dot])"

definition path_text_has_separator :: "utext \<Rightarrow> bool" where
  "path_text_has_separator path = (backslash \<in> set path \<or> slash \<in> set path)"

text \<open>
  \<open>Path::is_absolute\<close> depends on the platform: it is the argument \<open>is_absolute\<close>.
\<close>

definition is_absolute_path_text :: "(utext \<Rightarrow> bool) \<Rightarrow> utext \<Rightarrow> bool" where
  "is_absolute_path_text is_absolute path =
     (if is_absolute path then True
      else (3 \<le> length path \<and> path ! 1 = 58 \<and> (path ! 2 = backslash \<or> path ! 2 = slash)
              \<and> is_ascii_alphabetic (path ! 0))
           \<or> take 2 path = [backslash, backslash])"

lemma split_on_not_Nil [simp]: "split_on P xs \<noteq> []"
  by (induction xs) (auto split: list.splits)

lemma split_on_no_sep: "\<forall>x \<in> set p. \<not> P x \<Longrightarrow> split_on P p = [p]"
  by (induction p) auto

lemma split_on_prefix:
  assumes "\<forall>x \<in> set p. \<not> P x" and "P s"
  shows "split_on P (p @ s # ys) = p # split_on P ys"
  using assms by (induction p) auto

lemma split_on_append_sep:
  assumes s: "P s"
  shows "split_on P (xs @ s # ys) = split_on P xs @ split_on P ys"
proof (induction xs)
  case Nil
  show ?case using s by simp
next
  case (Cons x xs)
  obtain p ps where "split_on P xs = p # ps" by (meson neq_Nil_conv split_on_not_Nil)
  with Cons show ?case by simp
qed

lemma split_on_piece:
  "p \<in> set (split_on P xs) \<Longrightarrow>
     \<exists>l r. xs = l @ p @ r \<and> (l = [] \<or> P (last l)) \<and> (r = [] \<or> P (hd r)) \<and> (\<forall>x \<in> set p. \<not> P x)"
proof (induction xs rule: length_induct)
  case (1 xs)
  show ?case
  proof (cases "\<exists>x \<in> set xs. P x")
    case False
    with "1.prems" have "p = xs" by (simp add: split_on_no_sep)
    with False show ?thesis by (intro exI[of _ "[]"]) auto
  next
    case True
    then obtain q s ys where xs: "xs = q @ s # ys" "P s" "\<forall>x \<in> set q. \<not> P x"
      using split_list_first_prop[of xs P] by blast
    then have pieces: "split_on P xs = q # split_on P ys" by (simp add: split_on_prefix)
    show ?thesis
    proof (cases "p = q")
      case True
      with xs show ?thesis by (intro exI[of _ "[]"] exI[of _ "s # ys"]) auto
    next
      case False
      with pieces "1.prems" have "p \<in> set (split_on P ys)" by simp
      moreover have "length ys < length xs" using xs by simp
      ultimately obtain l r where lr: "ys = l @ p @ r" "l = [] \<or> P (last l)"
        "r = [] \<or> P (hd r)" "\<forall>x \<in> set p. \<not> P x" using "1.IH" by meson
      have "xs = (q @ s # l) @ p @ r" "P (last (q @ s # l))"
        using xs lr by auto
      with lr show ?thesis by blast
    qed
  qed
qed

lemma split_on_piece_iff:
  assumes p: "\<forall>x \<in> set p. \<not> P x"
  shows "p \<in> set (split_on P xs) \<longleftrightarrow>
     (\<exists>l r. xs = l @ p @ r \<and> (l = [] \<or> P (last l)) \<and> (r = [] \<or> P (hd r)))"
proof
  show "p \<in> set (split_on P xs) \<Longrightarrow>
     \<exists>l r. xs = l @ p @ r \<and> (l = [] \<or> P (last l)) \<and> (r = [] \<or> P (hd r))"
    using split_on_piece[of p P xs] by blast
next
  assume "\<exists>l r. xs = l @ p @ r \<and> (l = [] \<or> P (last l)) \<and> (r = [] \<or> P (hd r))"
  then obtain l r where xs: "xs = l @ p @ r" and l: "l = [] \<or> P (last l)" and r: "r = [] \<or> P (hd r)"
    by blast
  have tail: "p \<in> set (split_on P (p @ r))"
    using r p by (cases r) (auto simp: split_on_no_sep split_on_prefix)
  show "p \<in> set (split_on P xs)"
  proof (cases "l = []")
    case True
    with tail xs show ?thesis by simp
  next
    case False
    then obtain l' s where "l = l' @ [s]" by (metis rev_exhaust)
    with l tail xs show ?thesis by (simp add: split_on_append_sep)
  qed
qed

text \<open>
  \<open>split_path_text_has_parent\<close> finds exactly the texts in which \<open>..\<close> stands between two
  boundaries, a boundary being a slash, a backslash or an end of the text: no spelling of a
  parent step with either separator passes it, and names that merely contain two dots do.
\<close>

lemma split_path_text_has_parent_iff:
  "split_path_text_has_parent path \<longleftrightarrow>
     (\<exists>l r. path = l @ [dot, dot] @ r \<and> (l = [] \<or> is_separator (last l))
            \<and> (r = [] \<or> is_separator (hd r)))"
  using split_on_piece_iff[of "[dot, dot]" is_separator path]
  by (auto simp: split_path_text_has_parent_def is_separator_def)

end
