(* ===== verification/Hex.thy ===== *)
theory Hex
  imports Prelude
begin

text \<open>
  The number formats the code writes: \<open>{x}\<close>, \<open>{016x}\<close>, \<open>{08x}\<close> and the decimal \<open>{}\<close> of
  Rust's formatter with what they preserve, and \<open>slice::join\<close>.
\<close>

definition hex_digit :: "nat \<Rightarrow> char" where
  "hex_digit d = ''0123456789abcdef'' ! d"

text \<open>\<open>format!("{:x}", n)\<close>: no leading zeros, a single 0 for zero.\<close>

fun hex_min :: "nat \<Rightarrow> string" where
  "hex_min n = (if n < 16 then [hex_digit n] else hex_min (n div 16) @ [hex_digit (n mod 16)])"

declare hex_min.simps [simp del]

text \<open>\<open>format!("{:0wx}", n)\<close>: padded with zeros on the left to width \<open>w\<close>.\<close>

definition hex_pad :: "nat \<Rightarrow> nat \<Rightarrow> string" where
  "hex_pad w n = replicate (w - length (hex_min n)) (CHR ''0'') @ hex_min n"

text \<open>Reading the digits back.\<close>

definition hex_value :: "char \<Rightarrow> nat" where
  "hex_value c = (let n = of_char c :: nat in if n < 58 then n - 48 else n - 87)"

definition hex_read :: "string \<Rightarrow> nat" where
  "hex_read s = foldl (\<lambda>acc c. 16 * acc + hex_value c) 0 s"

lemma less_16_cases: "(d::nat) < 16 \<Longrightarrow> d \<in> {0,1,2,3,4,5,6,7,8,9,10,11,12,13,14,15}"
  unfolding insert_iff empty_iff by arith

lemma hex_value_digit [simp]: "d < 16 \<Longrightarrow> hex_value (hex_digit d) = d"
  by (drule less_16_cases) (auto simp: hex_value_def hex_digit_def)

lemma hex_read_snoc [simp]: "hex_read (s @ [c]) = 16 * hex_read s + hex_value c"
  by (simp add: hex_read_def)

lemma hex_read_min [simp]: "hex_read (hex_min n) = n"
proof (induction n rule: hex_min.induct)
  case (1 n)
  show ?case
  proof (cases "n < 16")
    case True
    then show ?thesis by (subst hex_min.simps) (simp add: hex_read_def)
  next
    case False
    with 1 show ?thesis by (subst hex_min.simps) simp
  qed
qed

lemma hex_read_pad_zeros: "hex_read (replicate k (CHR ''0'') @ s) = hex_read s"
proof (induction k)
  case (Suc k)
  then show ?case by (simp add: hex_read_def hex_value_def)
qed simp

lemma hex_read_pad [simp]: "hex_read (hex_pad w n) = n"
  by (simp add: hex_pad_def hex_read_pad_zeros)

lemma length_hex_min: "n < 16 ^ w \<Longrightarrow> 0 < w \<Longrightarrow> length (hex_min n) \<le> w"
proof (induction w arbitrary: n)
  case (Suc w)
  show ?case
  proof (cases "n < 16")
    case True
    then show ?thesis by (subst hex_min.simps) simp
  next
    case False
    with Suc.prems have "0 < w" by (cases w) auto
    moreover from Suc.prems have "n div 16 < 16 ^ w" by (simp add: less_mult_imp_div_less mult.commute)
    ultimately have "length (hex_min (n div 16)) \<le> w" using Suc.IH by blast
    with False show ?thesis by (subst hex_min.simps) simp
  qed
qed simp

lemma length_hex_pad: "n < 16 ^ w \<Longrightarrow> 0 < w \<Longrightarrow> length (hex_pad w n) = w"
  using length_hex_min[of n w] by (simp add: hex_pad_def)

text \<open>The decimal formats.\<close>

fun show_nat :: "nat \<Rightarrow> string" where
  "show_nat n = (if n < 10 then [hex_digit n] else show_nat (n div 10) @ [hex_digit (n mod 10)])"

declare show_nat.simps [simp del]

definition show_int :: "int \<Rightarrow> string" where
  "show_int i = (if i < 0 then ''-'' @ show_nat (nat (- i)) else show_nat (nat i))"

text \<open>\<open>[String]::join(sep)\<close>.\<close>

fun join :: "string \<Rightarrow> string list \<Rightarrow> string" where
  "join sep [] = []"
| "join sep [s] = s"
| "join sep (s # t # ss) = s @ sep @ join sep (t # ss)"

end
