(* ===== verification/Etw_Stack.thy ===== *)
theory Etw_Stack
  imports Common Hex
begin

text \<open>
  \<open>dbgflow-trace/src/profile/native_etw/stack.rs\<close> and \<open>settings.rs\<close>: which module covers an
  address at a moment of the trace, how a frame is printed, and the collector settings.
\<close>


section \<open>Frames and modules\<close>

record stack_frame =
  frame_value :: utext
  frame_resolved :: bool

record module_interval =
  mod_base :: u64
  mod_size :: u64
  mod_name :: utext
  mod_loaded_at :: int
  mod_unloaded_at :: "int option"

text \<open>\<open>u64::saturating_add\<close>.\<close>

definition saturating_add :: "u64 \<Rightarrow> u64 \<Rightarrow> u64" where
  "saturating_add a b = (if unat a + unat b < 2 ^ 64 then a + b else - 1)"

definition contains_at :: "module_interval \<Rightarrow> u64 \<Rightarrow> int \<Rightarrow> bool" where
  "contains_at m address timestamp =
     (mod_base m \<le> address
      \<and> address < saturating_add (mod_base m) (mod_size m)
      \<and> mod_loaded_at m \<le> timestamp
      \<and> (case mod_unloaded_at m of Some unloaded_at \<Rightarrow> timestamp \<le> unloaded_at | None \<Rightarrow> True))"

text \<open>\<open>Iterator::max_by_key\<close>: of several maximal elements the last one.\<close>

fun max_by_key :: "('a \<Rightarrow> int) \<Rightarrow> 'a list \<Rightarrow> 'a option" where
  "max_by_key f [] = None"
| "max_by_key f (x # xs) =
     (case max_by_key f xs of None \<Rightarrow> Some x | Some y \<Rightarrow> if f x \<le> f y then Some y else Some x)"

definition hex64 :: "u64 \<Rightarrow> string" where
  "hex64 value = ''0x'' @ hex_pad 16 (unat value)"

definition hex32 :: "u32 \<Rightarrow> string" where
  "hex32 value = ''0x'' @ hex_pad 8 (unat value)"

definition resolve_stack_address :: "u64 \<Rightarrow> module_interval list \<Rightarrow> int \<Rightarrow> stack_frame" where
  "resolve_stack_address address modules timestamp =
     (case max_by_key mod_loaded_at (filter (\<lambda>m. contains_at m address timestamp) modules) of
        Some m \<Rightarrow> \<lparr>frame_value = mod_name m @ lit (''+0x'' @ hex_min (unat (address - mod_base m))),
                   frame_resolved = True\<rparr>
      | None \<Rightarrow> \<lparr>frame_value = lit (hex64 address), frame_resolved = False\<rparr>)"

definition resolve_stack_addresses :: "u64 list \<Rightarrow> module_interval list \<Rightarrow> int \<Rightarrow> stack_frame list" where
  "resolve_stack_addresses addresses modules timestamp =
     map (\<lambda>address. resolve_stack_address address modules timestamp) addresses"

definition event_matches_target :: "u32 \<Rightarrow> u32 \<Rightarrow> bool" where
  "event_matches_target pid target_pid = (pid = target_pid)"

lemma max_by_key_None [simp]: "max_by_key f xs = None \<longleftrightarrow> xs = []"
  by (cases xs) (auto split: option.splits)

lemma max_by_key_SomeD:
  "max_by_key f xs = Some y \<Longrightarrow> y \<in> set xs \<and> (\<forall>x \<in> set xs. f x \<le> f y)"
  by (induction xs arbitrary: y) (force split: option.splits if_splits)+

lemma saturating_add_bound:
  "unat (saturating_add a b) = min (unat a + unat b) (2 ^ 64 - 1)"
  by (auto simp: saturating_add_def unat_word_ariths unsigned_minus_1_eq_mask mask_eq_exp_minus_1)

lemma contains_at_offset:
  assumes "contains_at m address timestamp"
  shows "unat (address - mod_base m) = unat address - unat (mod_base m)"
    and "unat address - unat (mod_base m) < unat (mod_size m)"
proof -
  from assms have le: "mod_base m \<le> address"
    and lt: "unat address < unat (saturating_add (mod_base m) (mod_size m))"
    by (simp_all add: contains_at_def word_less_nat_alt)
  from le show "unat (address - mod_base m) = unat address - unat (mod_base m)"
    by (rule unat_sub)
  from le lt have "unat (mod_base m) \<le> unat address"
    and "unat address < unat (mod_base m) + unat (mod_size m)"
    by (simp_all add: saturating_add_bound word_le_nat_alt)
  then show "unat address - unat (mod_base m) < unat (mod_size m)" by linarith
qed

text \<open>
  A resolved frame names a module whose half-open address range and load interval contain
  the address at the event's time, and among those a module loaded last; the offset it prints is
  the distance to the module's base and less than the module's size. A frame is left unresolved
  only when no module contains the address, and then the printed value is the address itself.
\<close>

lemma resolve_stack_address_correct:
  "let frame = resolve_stack_address address modules timestamp;
       v = frame_value frame; r = frame_resolved frame
   in (if \<exists>m \<in> set modules. contains_at m address timestamp
      then r \<and> (\<exists>m \<in> set modules. contains_at m address timestamp
             \<and> (\<nexists>m'. m' \<in> set modules \<and> contains_at m' address timestamp
                    \<and> mod_loaded_at m < mod_loaded_at m')
             \<and> unat address - unat (mod_base m) < unat (mod_size m)
             \<and> v = mod_name m @ lit (''+0x'' @ hex_min (unat address - unat (mod_base m))))
      else \<not> r \<and> v = lit (hex64 address))"
proof -
  let ?c = "filter (\<lambda>m. contains_at m address timestamp) modules"
  show ?thesis
  proof (cases "max_by_key mod_loaded_at ?c")
    case None
    then have "\<not> (\<exists>m \<in> set modules. contains_at m address timestamp)"
      by (simp add: filter_empty_conv)
    with None show ?thesis by (simp add: resolve_stack_address_def)
  next
    case (Some m)
    then have m: "m \<in> set modules" "contains_at m address timestamp"
      and max: "\<forall>m' \<in> set modules. contains_at m' address timestamp \<longrightarrow> mod_loaded_at m' \<le> mod_loaded_at m"
      using max_by_key_SomeD[OF Some] by auto
    have "\<nexists>m'. m' \<in> set modules \<and> contains_at m' address timestamp \<and> mod_loaded_at m < mod_loaded_at m'"
      using max by fastforce
    with m contains_at_offset[OF m(2)] Some show ?thesis
      by (auto simp: resolve_stack_address_def intro!: bexI[of _ m])
  qed
qed

lemma hex64_digits:
  "take 2 (hex64 v) = ''0x'' \<and> length (hex64 v) = 18 \<and> word_of_nat (hex_read (drop 2 (hex64 v))) = v"
proof -
  have "unat v < 16 ^ 16" using unsigned_less[of v] by simp
  then show ?thesis by (simp add: hex64_def length_hex_pad)
qed

text \<open>
  The fixed-width pointer format loses nothing: \<open>hex64\<close> prints \<open>0x\<close> and exactly 16 digits,
  and reading those digits back gives the pointer.
\<close>

lemma hex64_roundtrip:
  "take 2 (hex64 v) = ''0x'' \<and> length (hex64 v) = 18 \<and> word_of_nat (hex_read (drop 2 (hex64 v))) = v"
  by (rule hex64_digits)

lemma hex64_inject: "hex64 a = hex64 b \<longleftrightarrow> a = b"
  by (metis hex64_digits)

lemma hex32_inject: "hex32 a = hex32 b \<longleftrightarrow> a = b"
proof
  assume "hex32 a = hex32 b"
  then have "hex_read (hex_pad 8 (unat a)) = hex_read (hex_pad 8 (unat b))"
    by (simp add: hex32_def)
  then show "a = b" by (simp add: word_unat_eq_iff)
qed simp

section \<open>Collector settings\<close>

datatype etw_event_set = Process | FileIo

datatype etw_profile_scope = TargetProcess

record etw_stack_config =
  stack_enabled :: bool

record native_etw_config =
  cfg_scope :: etw_profile_scope
  cfg_event_sets :: "etw_event_set list"
  cfg_stacks :: etw_stack_config

record native_etw_settings =
  set_event_sets :: "etw_event_set option list"
  set_stacks_enabled :: bool

fun event_set_name :: "etw_event_set \<Rightarrow> string" where
  "event_set_name Process = ''process''"
| "event_set_name FileIo = ''file_io''"

lemma event_set_name_iff:
  "(''process'' = event_set_name e) = (e = Process)" "(''file_io'' = event_set_name e) = (e = FileIo)"
  by (cases e; simp)+

text \<open>The loop over \<open>event_sets\<close>; \<open>all\<close> is the whole vector, which the duplicate test scans.\<close>

fun settings_loop ::
    "etw_event_set list \<Rightarrow> etw_event_set list \<Rightarrow> etw_event_set option list \<Rightarrow> etw_event_set option list result" where
  "settings_loop all [] normalized = Inr normalized"
| "settings_loop all (event_set # rest) normalized =
     (if length (filter (\<lambda>candidate. candidate = event_set) all) > 1
      then Inl (Backend (''duplicate native ETW event set is not supported: '' @ event_set_name event_set))
      else settings_loop all rest
        (case event_set of Process \<Rightarrow> normalized[0 := Some Process]
                         | FileIo \<Rightarrow> normalized[1 := Some FileIo]))"

definition native_etw_settings_of :: "native_etw_config \<Rightarrow> native_etw_settings result" where
  "native_etw_settings_of config =
     (if cfg_scope config \<noteq> TargetProcess then Inl (Backend ''native ETW scope must be target_process'')
      else if cfg_event_sets config = []
      then Inl (Backend ''native ETW event_sets must contain at least one event set'')
      else case settings_loop (cfg_event_sets config) (cfg_event_sets config) [None, None] of
        Inl e \<Rightarrow> Inl e
      | Inr normalized \<Rightarrow> Inr \<lparr>set_event_sets = normalized, set_stacks_enabled = stack_enabled (cfg_stacks config)\<rparr>)"

definition includes_set :: "native_etw_settings \<Rightarrow> etw_event_set \<Rightarrow> bool" where
  "includes_set settings event_set = (Some event_set \<in> set (set_event_sets settings))"

definition event_set_names :: "native_etw_settings \<Rightarrow> string list" where
  "event_set_names settings = map event_set_name (List.map_filter (\<lambda>x. x) (set_event_sets settings))"

lemma count_gt_1_not_distinct:
  "x \<in> set xs \<Longrightarrow> (length (filter (\<lambda>y. y = x) xs) > 1) = (\<exists>a b. xs = a @ x # b \<and> (x \<in> set a \<or> x \<in> set b))"
proof
  assume x: "x \<in> set xs" and len: "length (filter (\<lambda>y. y = x) xs) > 1"
  from x obtain a b where ab: "xs = a @ x # b" "x \<notin> set a" by (metis split_list_first)
  then have "filter (\<lambda>y. y = x) a = []" by (auto simp: filter_empty_conv)
  with len ab have "filter (\<lambda>y. y = x) b \<noteq> []" by auto
  then have "x \<in> set b" by (auto simp: filter_empty_conv)
  with ab show "\<exists>a b. xs = a @ x # b \<and> (x \<in> set a \<or> x \<in> set b)" by blast
next
  assume "\<exists>a b. xs = a @ x # b \<and> (x \<in> set a \<or> x \<in> set b)"
  then obtain a b where "xs = a @ x # b" "x \<in> set a \<or> x \<in> set b" by blast
  then have "filter (\<lambda>y. y = x) a \<noteq> [] \<or> filter (\<lambda>y. y = x) b \<noteq> []"
    by (auto simp: filter_empty_conv)
  with \<open>xs = a @ x # b\<close> show "length (filter (\<lambda>y. y = x) xs) > 1" by auto
qed

lemma settings_loop_dup:
  "\<exists>x \<in> set rest. length (filter (\<lambda>y. y = x) all) > 1 \<Longrightarrow> \<exists>m. settings_loop all rest n = Inl (Backend m)"
  by (induction all rest n rule: settings_loop.induct) auto

lemma settings_loop_ok:
  "\<forall>x \<in> set rest. \<not> length (filter (\<lambda>y. y = x) all) > 1 \<Longrightarrow>
     settings_loop all rest [a, b] =
       Inr [if Process \<in> set rest then Some Process else a,
            if FileIo \<in> set rest then Some FileIo else b]"
proof (induction rest arbitrary: a b)
  case (Cons event_set rest)
  then show ?case by (cases event_set) auto
qed simp

lemma not_distinct_iff_count: "distinct xs \<longleftrightarrow> (\<forall>x \<in> set xs. \<not> length (filter (\<lambda>y. y = x) xs) > 1)"
proof -
  have "(\<exists>x \<in> set xs. length (filter (\<lambda>y. y = x) xs) > 1) \<longleftrightarrow> \<not> distinct xs"
  proof
    assume "\<exists>x \<in> set xs. length (filter (\<lambda>y. y = x) xs) > 1"
    then show "\<not> distinct xs" using count_gt_1_not_distinct by fastforce
  next
    assume "\<not> distinct xs"
    then obtain a b c x where "xs = a @ [x] @ b @ [x] @ c" by (metis not_distinct_decomp)
    then show "\<exists>x \<in> set xs. length (filter (\<lambda>y. y = x) xs) > 1" by (intro bexI[of _ x]) auto
  qed
  then show ?thesis by blast
qed

text \<open>
  The settings are accepted exactly for a non-empty list of event sets without a duplicate;
  accepted settings include exactly the requested event sets, name them in the fixed order
  process before file_io whatever order they were requested in, and carry the stack switch over.
\<close>

lemma native_etw_settings_correct:
  "case native_etw_settings_of config of
     Inr s \<Rightarrow> cfg_event_sets config \<noteq> [] \<and> distinct (cfg_event_sets config)
        \<and> (\<forall>e. includes_set s e = (e \<in> set (cfg_event_sets config)))
        \<and> event_set_names s = filter (\<lambda>n. n \<in> event_set_name ` set (cfg_event_sets config)) [''process'', ''file_io'']
        \<and> set_stacks_enabled s = stack_enabled (cfg_stacks config)
   | Inl e \<Rightarrow> \<not> (cfg_event_sets config \<noteq> [] \<and> distinct (cfg_event_sets config))"
proof -
  let ?es = "cfg_event_sets config"
  have scope: "cfg_scope config = TargetProcess" by (cases "cfg_scope config")
  show ?thesis
  proof (cases "?es \<noteq> [] \<and> distinct ?es")
    case False
    then have "?es = [] \<or> (\<exists>m. settings_loop ?es ?es [None, None] = Inl (Backend m))"
      using settings_loop_dup[of ?es ?es "[None, None]"] not_distinct_iff_count[of ?es] by blast
    then have "\<exists>m. native_etw_settings_of config = Inl (Backend m)"
      by (auto simp: native_etw_settings_of_def scope)
    with False show ?thesis by auto
  next
    case True
    then have loop: "settings_loop ?es ?es [None, None] =
        Inr [if Process \<in> set ?es then Some Process else None, if FileIo \<in> set ?es then Some FileIo else None]"
      using settings_loop_ok[of ?es ?es None None] not_distinct_iff_count[of ?es] by simp
    have incl: "\<forall>e. (Some e \<in> set [if Process \<in> set ?es then Some Process else None,
        if FileIo \<in> set ?es then Some FileIo else None]) = (e \<in> set ?es)"
      by (rule allI, case_tac e) auto
    have names: "(''process'' \<in> event_set_name ` set ?es) = (Process \<in> set ?es)"
      "(''file_io'' \<in> event_set_name ` set ?es) = (FileIo \<in> set ?es)"
      by (auto simp: image_iff event_set_name_iff)
    show ?thesis using True loop incl
      by (simp add: native_etw_settings_of_def scope includes_set_def event_set_names_def names List.map_filter_simps)
  qed
qed

end
