(* ===== verification/Etw_Events.thy ===== *)
theory Etw_Events
  imports Etw_Stack "HOL-Library.List_Lexorder" "HOL-Library.Char_ord"
begin

text \<open>
  The data of the native ETW collector (\<open>native_etw.rs\<close>): the decoded kernel events, the rows it
  writes, its summary, and the state of the trace processor. A timestamp (\<open>i64\<close>) is an \<open>int\<close>,
  a counter (\<open>u64\<close>) and a vector index a \<open>nat\<close>, pointers and ids are words.
\<close>

section \<open>Decoded events\<close>

record decoded_lifecycle_event =
  dl_timestamp :: int
  dl_thread_id :: u32
  dl_event :: string
  dl_pid :: u32
  dl_tid :: "u32 option"
  dl_parent_pid :: "u32 option"
  dl_image_path :: "utext option"
  dl_image_base :: "u64 option"
  dl_image_size :: "u64 option"
  dl_stack_addresses :: "u64 list"

record decoded_file_io_event =
  df_timestamp :: int
  df_thread_id :: u32
  df_event :: string
  df_pid :: u32
  df_ttid :: "u32 option"
  df_path :: "utext option"
  df_path_source :: "string option"
  df_file_object :: "u64 option"
  df_file_key :: "u64 option"
  df_irp_ptr :: "u64 option"
  df_offset :: "u64 option"
  df_io_size :: "u64 option"
  df_io_flags :: "u32 option"
  df_create_options :: "u32 option"
  df_file_attributes :: "u32 option"
  df_share_access :: "u32 option"
  df_info_class :: "u32 option"
  df_extra_info :: "u64 option"
  df_nt_status :: "u32 option"
  df_stack_addresses :: "u64 list"

record decoded_stack_walk_event =
  ds_timestamp :: int
  ds_stack_process :: u32
  ds_stack_thread :: u32
  ds_stack_addresses :: "u64 list"

section \<open>Rows of the output files\<close>

record lifecycle_event =
  le_sequence :: nat
  le_event_set :: string
  le_event :: string
  le_pid :: u32
  le_tid :: "u32 option"
  le_parent_pid :: "u32 option"
  le_image_path :: "utext option"
  le_image_base :: "string option"
  le_image_size :: "string option"
  le_stack :: "utext list"

record file_io_event =
  fe_sequence :: nat
  fe_event_set :: string
  fe_event :: string
  fe_pid :: u32
  fe_tid :: "u32 option"
  fe_ttid :: "u32 option"
  fe_path :: "utext option"
  fe_path_source :: "string option"
  fe_file_object :: "string option"
  fe_file_key :: "string option"
  fe_irp_ptr :: "string option"
  fe_offset :: "string option"
  fe_io_size :: "u64 option"
  fe_io_flags :: "string option"
  fe_create_options :: "string option"
  fe_file_attributes :: "string option"
  fe_share_access :: "string option"
  fe_info_class :: "u32 option"
  fe_extra_info :: "string option"
  fe_nt_status :: "string option"
  fe_stack :: "utext list"
  fe_completion_pid :: "u32 option"
  fe_completion_tid :: "u32 option"
  fe_completion_sequence :: "nat option"

section \<open>The summary\<close>

record stack_stats =
  st_total :: nat
  st_resolved :: nat
  st_unresolved :: nat

definition stack_stats_default :: stack_stats where
  "stack_stats_default = \<lparr>st_total = 0, st_resolved = 0, st_unresolved = 0\<rparr>"

record etw_event_set_summary =
  es_event_counts :: "(string, nat) btree"
  es_stack_frames_total :: nat
  es_stack_frames_resolved :: nat
  es_stack_frames_unresolved :: nat
  es_file_path_resolved :: "nat option"
  es_file_path_unresolved :: "nat option"
  es_matched_op_end_count :: "nat option"
  es_unmatched_op_end_count :: "nat option"
  es_incomplete_io_count :: "nat option"
  es_reused_irp_without_op_end_count :: "nat option"

record etw_summary =
  sm_target_pid :: "u32 option"
  sm_requested_event_sets :: "string list"
  sm_stacks_enabled :: bool
  sm_event_sets :: "(string, etw_event_set_summary) btree"
  sm_warnings :: "string list"

definition summary_lifecycle :: "(string, nat) btree \<Rightarrow> stack_stats \<Rightarrow> etw_event_set_summary" where
  "summary_lifecycle event_counts stack =
     \<lparr>es_event_counts = event_counts,
      es_stack_frames_total = st_total stack,
      es_stack_frames_resolved = st_resolved stack,
      es_stack_frames_unresolved = st_unresolved stack,
      es_file_path_resolved = None,
      es_file_path_unresolved = None,
      es_matched_op_end_count = None,
      es_unmatched_op_end_count = None,
      es_incomplete_io_count = None,
      es_reused_irp_without_op_end_count = None\<rparr>"

definition summary_file_io ::
    "(string, nat) btree \<Rightarrow> stack_stats \<Rightarrow> nat \<Rightarrow> nat \<Rightarrow> nat \<Rightarrow> nat \<Rightarrow> nat \<Rightarrow> nat \<Rightarrow> etw_event_set_summary" where
  "summary_file_io event_counts stack path_resolved path_unresolved matched unmatched incomplete reused =
     \<lparr>es_event_counts = event_counts,
      es_stack_frames_total = st_total stack,
      es_stack_frames_resolved = st_resolved stack,
      es_stack_frames_unresolved = st_unresolved stack,
      es_file_path_resolved = Some path_resolved,
      es_file_path_unresolved = Some path_unresolved,
      es_matched_op_end_count = Some matched,
      es_unmatched_op_end_count = Some unmatched,
      es_incomplete_io_count = Some incomplete,
      es_reused_irp_without_op_end_count = Some reused\<rparr>"

definition count_map :: "string list \<Rightarrow> (string, nat) btree" where
  "count_map names = fold (\<lambda>n. bt_insert n 0) names []"

definition lifecycle_count_map :: "(string, nat) btree" where
  "lifecycle_count_map =
     count_map [''process_start'', ''process_end'', ''thread_start'', ''thread_end'',
                ''image_load'', ''image_unload'']"

definition file_io_count_map :: "(string, nat) btree" where
  "file_io_count_map =
     count_map [''file_name'', ''file_create_name'', ''file_delete_name'', ''file_rundown'',
                ''create'', ''cleanup'', ''read'', ''write'', ''set_info'', ''delete'', ''rename'',
                ''dir_enum'', ''flush'', ''query_info'', ''fs_control'', ''dir_notify'']"

text \<open>\<open>if let Some(count) = map.get_mut(key) { *count += 1 }\<close>\<close>

definition bump :: "string \<Rightarrow> (string, nat) btree \<Rightarrow> (string, nat) btree" where
  "bump k m = map (\<lambda>(k', n). if k' = k then (k', Suc n) else (k', n)) m"

definition summary_empty :: "u32 option \<Rightarrow> native_etw_settings \<Rightarrow> string list \<Rightarrow> etw_summary" where
  "summary_empty target_pid settings warnings =
     (let sets0 = [];
          sets1 = (if includes_set settings Process
                   then bt_insert ''process'' (summary_lifecycle lifecycle_count_map stack_stats_default) sets0
                   else sets0);
          sets2 = (if includes_set settings FileIo
                   then bt_insert ''file_io'' (summary_file_io file_io_count_map stack_stats_default 0 0 0 0 0 0) sets1
                   else sets1)
      in \<lparr>sm_target_pid = target_pid,
          sm_requested_event_sets = event_set_names settings,
          sm_stacks_enabled = set_stacks_enabled settings,
          sm_event_sets = sets2,
          sm_warnings = warnings\<rparr>)"

section \<open>The state of the processor\<close>

datatype stack_target_kind = LifecycleTarget | FileIoTarget

record stack_target =
  tgt_kind :: stack_target_kind
  tgt_index :: nat

record etw_processor =
  target_pid :: u32
  settings :: native_etw_settings
  lifecycle_events :: "lifecycle_event list"
  lifecycle_timestamps :: "int list"
  lifecycle_header_threads :: "u32 list"
  lifecycle_stack_addresses :: "u64 list list"
  file_io_events :: "file_io_event list"
  file_io_timestamps :: "int list"
  file_io_header_threads :: "u32 list"
  file_io_stack_addresses :: "u64 list list"
  pending_file_irps :: "(u64, nat) btree"
  ignored_file_irps :: "(u64, unit) btree"
  event_indices_by_timestamp :: "(int, stack_target list) btree"
  pending_stacks_by_timestamp :: "(int, decoded_stack_walk_event list) btree"
  file_paths_by_pointer :: "(u64, utext) btree"
  modules :: "module_interval list"
  warnings :: "string list"
  lifecycle_event_counts :: "(string, nat) btree"
  file_io_event_counts :: "(string, nat) btree"
  lifecycle_stack_stats :: stack_stats
  file_io_stack_stats :: stack_stats
  file_path_resolved :: nat
  file_path_unresolved :: nat
  file_io_raw_sequence :: nat
  matched_op_end_count :: nat
  unmatched_op_end_count :: nat
  reused_irp_without_op_end_count :: nat
  stack_walk_events :: nat
  matched_stack_walk_events :: nat
  dropped_pending_stack_walk_events :: nat
  lifecycle_match_samples :: "string list"
  stack_walk_match_samples :: "string list"

definition MAX_PENDING_STACK_TIMESTAMPS :: nat where "MAX_PENDING_STACK_TIMESTAMPS = 4096"
definition MAX_PENDING_STACKS_PER_TIMESTAMP :: nat where "MAX_PENDING_STACKS_PER_TIMESTAMP = 32"

definition etw_processor_new :: "u32 \<Rightarrow> native_etw_settings \<Rightarrow> etw_processor" where
  "etw_processor_new pid s =
     \<lparr>target_pid = pid, settings = s,
      lifecycle_events = [], lifecycle_timestamps = [], lifecycle_header_threads = [],
      lifecycle_stack_addresses = [],
      file_io_events = [], file_io_timestamps = [], file_io_header_threads = [],
      file_io_stack_addresses = [],
      pending_file_irps = [], ignored_file_irps = [], event_indices_by_timestamp = [],
      pending_stacks_by_timestamp = [], file_paths_by_pointer = [], modules = [], warnings = [],
      lifecycle_event_counts = lifecycle_count_map, file_io_event_counts = file_io_count_map,
      lifecycle_stack_stats = stack_stats_default, file_io_stack_stats = stack_stats_default,
      file_path_resolved = 0, file_path_unresolved = 0, file_io_raw_sequence = 0,
      matched_op_end_count = 0, unmatched_op_end_count = 0, reused_irp_without_op_end_count = 0,
      stack_walk_events = 0, matched_stack_walk_events = 0, dropped_pending_stack_walk_events = 0,
      lifecycle_match_samples = [], stack_walk_match_samples = []\<rparr>"

end
