(* ===== verification/Etw_Processor.thy ===== *)
theory Etw_Processor
  imports Etw_Events
begin

text \<open>
  The operations of \<open>EtwProcessor\<close> (\<open>native_etw.rs\<close>), one definition per method. A method that
  indexes a vector returns \<open>None\<close> where Rust would panic; the methods that cannot panic return
  the new state.
\<close>

section \<open>Stacks and their targets\<close>

text \<open>\<open>append_stack_frames\<close>: non-zero addresses not there yet, in order.\<close>

fun append_stack_frames :: "u64 list \<Rightarrow> u64 list \<Rightarrow> u64 list" where
  "append_stack_frames target [] = target"
| "append_stack_frames target (address # source) =
     append_stack_frames
       (if address \<noteq> 0 \<and> address \<notin> set target then target @ [address] else target) source"

definition stack_target_identity :: "etw_processor \<Rightarrow> stack_target \<Rightarrow> (u32 \<times> u32) option" where
  "stack_target_identity p t =
     (case tgt_kind t of
        LifecycleTarget \<Rightarrow>
          (case (nth_opt (lifecycle_events p) (tgt_index t), nth_opt (lifecycle_header_threads p) (tgt_index t)) of
             (Some e, Some th) \<Rightarrow> Some (le_pid e, th)
           | _ \<Rightarrow> None)
      | FileIoTarget \<Rightarrow>
          (case (nth_opt (file_io_events p) (tgt_index t), nth_opt (file_io_header_threads p) (tgt_index t)) of
             (Some e, Some th) \<Rightarrow> Some (fe_pid e, th)
           | _ \<Rightarrow> None))"

definition append_stack_frames_to_target :: "stack_target \<Rightarrow> u64 list \<Rightarrow> etw_processor \<Rightarrow> etw_processor option" where
  "append_stack_frames_to_target t frames p =
     (case tgt_kind t of
        LifecycleTarget \<Rightarrow>
          (case nth_opt (lifecycle_stack_addresses p) (tgt_index t) of
             None \<Rightarrow> None
           | Some a \<Rightarrow> Some (p\<lparr>lifecycle_stack_addresses :=
               (lifecycle_stack_addresses p)[tgt_index t := append_stack_frames a frames]\<rparr>))
      | FileIoTarget \<Rightarrow>
          (case nth_opt (file_io_stack_addresses p) (tgt_index t) of
             None \<Rightarrow> None
           | Some a \<Rightarrow> Some (p\<lparr>file_io_stack_addresses :=
               (file_io_stack_addresses p)[tgt_index t := append_stack_frames a frames]\<rparr>)))"

text \<open>The match counted: the frames go to the target and the counter of matches grows.\<close>

definition attach_to :: "stack_target \<Rightarrow> decoded_stack_walk_event \<Rightarrow> etw_processor \<Rightarrow> (bool \<times> etw_processor) option" where
  "attach_to t stack p =
     map_option (\<lambda>p'. (True, p'\<lparr>matched_stack_walk_events := Suc (matched_stack_walk_events p')\<rparr>))
       (append_stack_frames_to_target t (ds_stack_addresses stack) p)"

text \<open>The loop of \<open>attach_stack_walk_event\<close> over the targets of the timestamp, then its fallback.\<close>

fun attach_loop ::
    "decoded_stack_walk_event \<Rightarrow> stack_target list \<Rightarrow> stack_target option \<Rightarrow> etw_processor
       \<Rightarrow> (bool \<times> etw_processor) option" where
  "attach_loop stack [] fallback p =
     (case fallback of
        Some t \<Rightarrow> if ds_stack_process stack = target_pid p then attach_to t stack p else Some (False, p)
      | None \<Rightarrow> Some (False, p))"
| "attach_loop stack (t # ts) fallback p =
     (case stack_target_identity p t of
        None \<Rightarrow> None
      | Some (pid, thread) \<Rightarrow>
          if pid \<noteq> target_pid p then attach_loop stack ts fallback p
          else if thread = ds_stack_thread stack then attach_to t stack p
          else attach_loop stack ts (case fallback of None \<Rightarrow> Some t | Some f \<Rightarrow> Some f) p)"

definition attach_stack_walk_event :: "decoded_stack_walk_event \<Rightarrow> etw_processor \<Rightarrow> (bool \<times> etw_processor) option" where
  "attach_stack_walk_event stack p =
     (case bt_get (event_indices_by_timestamp p) (ds_timestamp stack) of
        None \<Rightarrow> Some (False, p)
      | Some indices \<Rightarrow> attach_loop stack indices None p)"

text \<open>\<open>for stack in pending { self.attach_stack_walk_event(stack); }\<close>\<close>

fun attach_all :: "decoded_stack_walk_event list \<Rightarrow> etw_processor \<Rightarrow> etw_processor option" where
  "attach_all [] p = Some p"
| "attach_all (stack # stacks) p =
     (case attach_stack_walk_event stack p of None \<Rightarrow> None | Some (_, p') \<Rightarrow> attach_all stacks p')"

section \<open>The cache of stacks that wait for their event\<close>

definition drop_oldest_pending_stack_timestamp :: "etw_processor \<Rightarrow> etw_processor" where
  "drop_oldest_pending_stack_timestamp p =
     (case bt_first (pending_stacks_by_timestamp p) of
        None \<Rightarrow> p
      | Some (oldest, _) \<Rightarrow>
          (case bt_get (pending_stacks_by_timestamp p) oldest of
             None \<Rightarrow> p
           | Some removed \<Rightarrow>
               p\<lparr>pending_stacks_by_timestamp := bt_remove oldest (pending_stacks_by_timestamp p),
                 dropped_pending_stack_walk_events :=
                   dropped_pending_stack_walk_events p + length removed\<rparr>))"

lemma drop_oldest_shorter:
  "bt_first (pending_stacks_by_timestamp p) = Some (k, v) \<Longrightarrow>
     length (pending_stacks_by_timestamp (drop_oldest_pending_stack_timestamp p))
       < length (pending_stacks_by_timestamp p)"
  by (cases "pending_stacks_by_timestamp p")
     (auto simp: drop_oldest_pending_stack_timestamp_def bt_first_def bt_get_def bt_remove_def
       less_Suc_eq_le)

function prune_pending_stacks_before :: "int \<Rightarrow> etw_processor \<Rightarrow> etw_processor" where
  "prune_pending_stacks_before timestamp p =
     (if (case bt_first (pending_stacks_by_timestamp p) of
            Some (pending_timestamp, _) \<Rightarrow> pending_timestamp < timestamp
          | None \<Rightarrow> False)
      then prune_pending_stacks_before timestamp (drop_oldest_pending_stack_timestamp p)
      else p)"
  by pat_completeness auto
termination
  by (relation "measure (\<lambda>(t, p). length (pending_stacks_by_timestamp p))")
     (auto split: option.splits intro: drop_oldest_shorter)

declare prune_pending_stacks_before.simps [simp del]

definition cache_pending_stack_walk_event :: "decoded_stack_walk_event \<Rightarrow> etw_processor \<Rightarrow> etw_processor" where
  "cache_pending_stack_walk_event stack p =
     (if ds_stack_process stack \<noteq> target_pid p
      then p\<lparr>dropped_pending_stack_walk_events := Suc (dropped_pending_stack_walk_events p)\<rparr>
      else
        let p1 = (if bt_get (pending_stacks_by_timestamp p) (ds_timestamp stack) = None
                     \<and> length (pending_stacks_by_timestamp p) \<ge> MAX_PENDING_STACK_TIMESTAMPS
                  then drop_oldest_pending_stack_timestamp p else p);
            pending = (case bt_get (pending_stacks_by_timestamp p1) (ds_timestamp stack) of
                         None \<Rightarrow> [] | Some l \<Rightarrow> l)
        in if length pending \<ge> MAX_PENDING_STACKS_PER_TIMESTAMP
           then p1\<lparr>pending_stacks_by_timestamp :=
                     bt_insert (ds_timestamp stack) pending (pending_stacks_by_timestamp p1),
                   dropped_pending_stack_walk_events := Suc (dropped_pending_stack_walk_events p1)\<rparr>
           else p1\<lparr>pending_stacks_by_timestamp :=
                     bt_insert (ds_timestamp stack) (pending @ [stack]) (pending_stacks_by_timestamp p1)\<rparr>)"

definition stack_sample :: "decoded_stack_walk_event \<Rightarrow> string" where
  "stack_sample stack =
     ''ts='' @ show_int (ds_timestamp stack)
     @ '',stack_process='' @ show_nat (unat (ds_stack_process stack))
     @ '',stack_thread='' @ show_nat (unat (ds_stack_thread stack))
     @ '',frames='' @ show_nat (length (ds_stack_addresses stack))"

definition process_stack_walk_event :: "decoded_stack_walk_event \<Rightarrow> etw_processor \<Rightarrow> etw_processor option" where
  "process_stack_walk_event stack p =
     (let p1 = p\<lparr>stack_walk_events := Suc (stack_walk_events p)\<rparr>;
          p2 = (if length (stack_walk_match_samples p1) < 5
                then p1\<lparr>stack_walk_match_samples := stack_walk_match_samples p1 @ [stack_sample stack]\<rparr>
                else p1)
      in case attach_stack_walk_event stack p2 of
           None \<Rightarrow> None
         | Some (attached, p3) \<Rightarrow>
             Some (if attached then p3 else cache_pending_stack_walk_event stack p3))"

section \<open>Modules and paths\<close>

definition record_module_load :: "int \<Rightarrow> u64 \<Rightarrow> u64 \<Rightarrow> utext \<Rightarrow> etw_processor \<Rightarrow> etw_processor" where
  "record_module_load timestamp base sz name p =
     p\<lparr>modules := modules p @
        [\<lparr>mod_base = base, mod_size = sz, mod_name = name,
          mod_loaded_at = timestamp, mod_unloaded_at = None\<rparr>]\<rparr>"

text \<open>\<open>iter_mut().rev().find(..)\<close>: the last module that matches is the one unloaded.\<close>

fun unload_last :: "(module_interval \<Rightarrow> bool) \<Rightarrow> int \<Rightarrow> module_interval list \<Rightarrow> module_interval list" where
  "unload_last P timestamp [] = []"
| "unload_last P timestamp (m # ms) =
     (if \<exists>m' \<in> set ms. P m' then m # unload_last P timestamp ms
      else if P m then m\<lparr>mod_unloaded_at := Some timestamp\<rparr> # ms
      else m # ms)"

definition record_module_unload :: "int \<Rightarrow> u64 \<Rightarrow> u64 option \<Rightarrow> etw_processor \<Rightarrow> etw_processor" where
  "record_module_unload timestamp base sz p =
     p\<lparr>modules := unload_last
         (\<lambda>m. mod_base m = base \<and> mod_unloaded_at m = None
              \<and> (case sz of Some image_size \<Rightarrow> image_size = mod_size m | None \<Rightarrow> True))
         timestamp (modules p)\<rparr>"

text \<open>\<open>decoded.path.as_ref().filter(|path| !path.is_empty())\<close>\<close>

definition nonempty_path :: "decoded_file_io_event \<Rightarrow> utext option" where
  "nonempty_path d = (case df_path d of Some path \<Rightarrow> (if path = [] then None else Some path) | None \<Rightarrow> None)"

definition insert_pointer :: "u64 option \<Rightarrow> utext \<Rightarrow> (u64, utext) btree \<Rightarrow> (u64, utext) btree" where
  "insert_pointer pointer path m = (case pointer of Some k \<Rightarrow> bt_insert k path m | None \<Rightarrow> m)"

definition remove_pointer :: "u64 option \<Rightarrow> (u64, utext) btree \<Rightarrow> (u64, utext) btree" where
  "remove_pointer pointer m = (case pointer of Some k \<Rightarrow> bt_remove k m | None \<Rightarrow> m)"

definition cache_file_path :: "decoded_file_io_event \<Rightarrow> etw_processor \<Rightarrow> etw_processor" where
  "cache_file_path d p =
     (case nonempty_path d of
        None \<Rightarrow> p
      | Some path \<Rightarrow>
          p\<lparr>file_paths_by_pointer :=
             insert_pointer (df_file_key d) path
               (insert_pointer (df_file_object d) path (file_paths_by_pointer p))\<rparr>)"

definition remove_file_path :: "decoded_file_io_event \<Rightarrow> etw_processor \<Rightarrow> etw_processor" where
  "remove_file_path d p =
     p\<lparr>file_paths_by_pointer :=
        remove_pointer (df_file_key d) (remove_pointer (df_file_object d) (file_paths_by_pointer p))\<rparr>"

definition lookup_pointer :: "u64 option \<Rightarrow> (u64, utext) btree \<Rightarrow> utext option" where
  "lookup_pointer pointer m = (case pointer of Some k \<Rightarrow> bt_get m k | None \<Rightarrow> None)"

definition resolve_file_path :: "decoded_file_io_event \<Rightarrow> etw_processor \<Rightarrow> utext option \<times> string option" where
  "resolve_file_path d p =
     (case nonempty_path d of
        Some path \<Rightarrow> (Some path, df_path_source d)
      | None \<Rightarrow>
          (case lookup_pointer (df_file_object d) (file_paths_by_pointer p) of
             Some path \<Rightarrow> (Some path, Some ''file_object_cache'')
           | None \<Rightarrow>
               (case lookup_pointer (df_file_key d) (file_paths_by_pointer p) of
                  Some path \<Rightarrow> (Some path, Some ''file_key_cache'')
                | None \<Rightarrow> (None, None))))"

section \<open>Lifecycle events\<close>

definition index_event :: "int \<Rightarrow> stack_target \<Rightarrow> etw_processor \<Rightarrow> etw_processor" where
  "index_event timestamp t p =
     p\<lparr>event_indices_by_timestamp :=
        bt_insert timestamp
          ((case bt_get (event_indices_by_timestamp p) timestamp of None \<Rightarrow> [] | Some ts \<Rightarrow> ts) @ [t])
          (event_indices_by_timestamp p)\<rparr>"

text \<open>The stacks that waited for an event at this timestamp are attached and leave the cache.\<close>

definition attach_pending :: "int \<Rightarrow> etw_processor \<Rightarrow> etw_processor option" where
  "attach_pending timestamp p =
     (case bt_get (pending_stacks_by_timestamp p) timestamp of
        None \<Rightarrow> Some p
      | Some pending \<Rightarrow>
          attach_all pending
            (p\<lparr>pending_stacks_by_timestamp := bt_remove timestamp (pending_stacks_by_timestamp p)\<rparr>))"

definition track_module :: "decoded_lifecycle_event \<Rightarrow> etw_processor \<Rightarrow> etw_processor" where
  "track_module d p =
     (if dl_event d = ''image_load'' then
        (case (dl_image_base d, dl_image_size d) of
           (Some base, Some sz) \<Rightarrow>
             record_module_load (dl_timestamp d) base sz
               (case dl_image_path d of Some path \<Rightarrow> path
                | None \<Rightarrow> lit (''image_'' @ hex_min (unat base))) p
         | _ \<Rightarrow> p)
      else if dl_event d = ''image_unload'' then
        (case dl_image_base d of
           Some base \<Rightarrow> record_module_unload (dl_timestamp d) base (dl_image_size d) p
         | None \<Rightarrow> p)
      else p)"

definition lifecycle_row :: "decoded_lifecycle_event \<Rightarrow> nat \<Rightarrow> lifecycle_event" where
  "lifecycle_row d sequence =
     \<lparr>le_sequence = sequence, le_event_set = ''process'', le_event = dl_event d, le_pid = dl_pid d,
      le_tid = dl_tid d, le_parent_pid = dl_parent_pid d, le_image_path = dl_image_path d,
      le_image_base = map_option hex64 (dl_image_base d),
      le_image_size = map_option hex64 (dl_image_size d), le_stack = []\<rparr>"

definition lifecycle_sample :: "decoded_lifecycle_event \<Rightarrow> string" where
  "lifecycle_sample d =
     dl_event d @ '':ts='' @ show_int (dl_timestamp d)
     @ '',header_tid='' @ show_nat (unat (dl_thread_id d))
     @ '',pid='' @ show_nat (unat (dl_pid d))"

definition push_lifecycle :: "decoded_lifecycle_event \<Rightarrow> etw_processor \<Rightarrow> etw_processor" where
  "push_lifecycle d p =
     (let samples = lifecycle_match_samples p in
      index_event (dl_timestamp d) \<lparr>tgt_kind = LifecycleTarget, tgt_index = length (lifecycle_events p)\<rparr>
       (p\<lparr>lifecycle_event_counts := bump (dl_event d) (lifecycle_event_counts p),
          lifecycle_match_samples :=
            (if length samples < 5 then samples @ [lifecycle_sample d] else samples),
          lifecycle_events := lifecycle_events p @ [lifecycle_row d (length (lifecycle_events p) + 1)],
          lifecycle_timestamps := lifecycle_timestamps p @ [dl_timestamp d],
          lifecycle_header_threads := lifecycle_header_threads p @ [dl_thread_id d],
          lifecycle_stack_addresses := lifecycle_stack_addresses p @ [dl_stack_addresses d]\<rparr>))"

definition process_lifecycle_event :: "decoded_lifecycle_event \<Rightarrow> etw_processor \<Rightarrow> etw_processor option" where
  "process_lifecycle_event d p =
     (if \<not> event_matches_target (dl_pid d) (target_pid p) then Some p
      else
        let p2 = track_module d (prune_pending_stacks_before (dl_timestamp d) p)
        in if \<not> includes_set (settings p2) Process then Some p2
           else attach_pending (dl_timestamp d) (push_lifecycle d p2))"

section \<open>File events\<close>

definition file_io_event_matches_target :: "decoded_file_io_event \<Rightarrow> etw_processor \<Rightarrow> bool" where
  "file_io_event_matches_target d p =
     (if df_event d = ''op_end'' then
        (if (case df_irp_ptr d of
               Some irp \<Rightarrow> bt_get (pending_file_irps p) irp \<noteq> None \<or> bt_get (ignored_file_irps p) irp \<noteq> None
             | None \<Rightarrow> False)
         then True
         else event_matches_target (df_pid d) (target_pid p))
      else event_matches_target (df_pid d) (target_pid p))"

definition count_unmatched :: "etw_processor \<Rightarrow> etw_processor" where
  "count_unmatched p = p\<lparr>unmatched_op_end_count := Suc (unmatched_op_end_count p)\<rparr>"

definition complete_row :: "decoded_file_io_event \<Rightarrow> nat \<Rightarrow> file_io_event \<Rightarrow> file_io_event" where
  "complete_row d raw_sequence event =
     event\<lparr>fe_extra_info := (case df_extra_info d of Some x \<Rightarrow> Some (hex64 x) | None \<Rightarrow> fe_extra_info event),
           fe_nt_status := (case df_nt_status d of Some x \<Rightarrow> Some (hex32 x) | None \<Rightarrow> fe_nt_status event),
           fe_completion_pid := Some (df_pid d),
           fe_completion_tid := Some (df_thread_id d),
           fe_completion_sequence := Some raw_sequence\<rparr>"

definition merge_file_io_completion :: "decoded_file_io_event \<Rightarrow> etw_processor \<Rightarrow> etw_processor" where
  "merge_file_io_completion d p =
     (case df_irp_ptr d of
        None \<Rightarrow> count_unmatched p
      | Some irp \<Rightarrow>
          (case bt_get (pending_file_irps p) irp of
             None \<Rightarrow>
               (if bt_get (ignored_file_irps p) irp \<noteq> None
                then p\<lparr>ignored_file_irps := bt_remove irp (ignored_file_irps p)\<rparr>
                else count_unmatched p)
           | Some event_index \<Rightarrow>
               (let p1 = p\<lparr>pending_file_irps := bt_remove irp (pending_file_irps p)\<rparr> in
                case nth_opt (file_io_events p1) event_index of
                  None \<Rightarrow> count_unmatched p1
                | Some event \<Rightarrow>
                    p1\<lparr>matched_op_end_count := Suc (matched_op_end_count p1),
                       file_io_events := (file_io_events p1)[event_index :=
                         complete_row d (file_io_raw_sequence p1) event]\<rparr>)))"

definition ignore_file_io_close :: "decoded_file_io_event \<Rightarrow> etw_processor \<Rightarrow> etw_processor" where
  "ignore_file_io_close d p =
     remove_file_path d
       (case df_irp_ptr d of
          None \<Rightarrow> p
        | Some irp \<Rightarrow>
            (let p1 = (if bt_get (pending_file_irps p) irp \<noteq> None
                       then p\<lparr>pending_file_irps := bt_remove irp (pending_file_irps p),
                              reused_irp_without_op_end_count := Suc (reused_irp_without_op_end_count p)\<rparr>
                       else p)
             in p1\<lparr>ignored_file_irps := bt_insert irp () (ignored_file_irps p1)\<rparr>))"

definition file_io_row :: "decoded_file_io_event \<Rightarrow> utext option \<Rightarrow> string option \<Rightarrow> nat \<Rightarrow> file_io_event" where
  "file_io_row d path path_source sequence =
     \<lparr>fe_sequence = sequence, fe_event_set = ''file_io'', fe_event = df_event d, fe_pid = df_pid d,
      fe_tid = Some (df_thread_id d), fe_ttid = df_ttid d, fe_path = path, fe_path_source = path_source,
      fe_file_object = map_option hex64 (df_file_object d),
      fe_file_key = map_option hex64 (df_file_key d),
      fe_irp_ptr = map_option hex64 (df_irp_ptr d),
      fe_offset = map_option hex64 (df_offset d),
      fe_io_size = df_io_size d,
      fe_io_flags = map_option hex32 (df_io_flags d),
      fe_create_options = map_option hex32 (df_create_options d),
      fe_file_attributes = map_option hex32 (df_file_attributes d),
      fe_share_access = map_option hex32 (df_share_access d),
      fe_info_class = df_info_class d,
      fe_extra_info = map_option hex64 (df_extra_info d),
      fe_nt_status = map_option hex32 (df_nt_status d),
      fe_stack = [], fe_completion_pid = None, fe_completion_tid = None, fe_completion_sequence = None\<rparr>"

text \<open>The begin of an I/O registers its IRP; an IRP still registered is counted as reused.\<close>

definition register_irp :: "u64 option \<Rightarrow> nat \<Rightarrow> etw_processor \<Rightarrow> etw_processor" where
  "register_irp irp event_index p =
     (case irp of
        None \<Rightarrow> p
      | Some k \<Rightarrow>
          p\<lparr>pending_file_irps := bt_insert k event_index (pending_file_irps p),
            reused_irp_without_op_end_count :=
              (if bt_get (pending_file_irps p) k \<noteq> None
               then Suc (reused_irp_without_op_end_count p)
               else reused_irp_without_op_end_count p)\<rparr>)"

definition push_file_io :: "decoded_file_io_event \<Rightarrow> etw_processor \<Rightarrow> etw_processor" where
  "push_file_io d p =
     (let (path, path_source) = resolve_file_path d p;
          event_index = length (file_io_events p)
      in register_irp (df_irp_ptr d) event_index
          (index_event (df_timestamp d) \<lparr>tgt_kind = FileIoTarget, tgt_index = event_index\<rparr>
            (p\<lparr>file_path_resolved := (if path \<noteq> None then Suc (file_path_resolved p) else file_path_resolved p),
               file_path_unresolved := (if path \<noteq> None then file_path_unresolved p else Suc (file_path_unresolved p)),
               file_io_event_counts := bump (df_event d) (file_io_event_counts p),
               file_io_events := file_io_events p @ [file_io_row d path path_source (event_index + 1)],
               file_io_timestamps := file_io_timestamps p @ [df_timestamp d],
               file_io_header_threads := file_io_header_threads p @ [df_thread_id d],
               file_io_stack_addresses := file_io_stack_addresses p @ [df_stack_addresses d]\<rparr>)))"

definition process_file_io_event :: "decoded_file_io_event \<Rightarrow> etw_processor \<Rightarrow> etw_processor option" where
  "process_file_io_event d p =
     (if \<not> file_io_event_matches_target d p then Some p
      else
        let p1 = prune_pending_stacks_before (df_timestamp d)
                   (p\<lparr>file_io_raw_sequence := Suc (file_io_raw_sequence p)\<rparr>)
        in if df_event d = ''op_end'' then Some (merge_file_io_completion d p1)
           else if df_event d = ''close'' then Some (ignore_file_io_close d p1)
           else
             map_option (\<lambda>p2. if df_event d = ''cleanup'' then remove_file_path d p2 else p2)
               (attach_pending (df_timestamp d) (push_file_io d (cache_file_path d p1))))"

section \<open>The stream of decoded records\<close>

text \<open>What \<open>process_record\<close> does with a record once it is decoded; the three decoders are tried in
  this order and the file events only when their event set is collected.\<close>

datatype decoded_record =
    StackWalkRecord decoded_stack_walk_event
  | LifecycleRecord decoded_lifecycle_event
  | FileIoRecord decoded_file_io_event

fun process_decoded :: "decoded_record \<Rightarrow> etw_processor \<Rightarrow> etw_processor option" where
  "process_decoded (StackWalkRecord d) p = process_stack_walk_event d p"
| "process_decoded (LifecycleRecord d) p = process_lifecycle_event d p"
| "process_decoded (FileIoRecord d) p =
     (if includes_set (settings p) FileIo then process_file_io_event d p else Some p)"

fun process_all :: "decoded_record list \<Rightarrow> etw_processor \<Rightarrow> etw_processor option" where
  "process_all [] p = Some p"
| "process_all (r # rs) p = (case process_decoded r p of None \<Rightarrow> None | Some p' \<Rightarrow> process_all rs p')"

section \<open>Finishing the trace\<close>

definition finalize_stack :: "u64 list \<Rightarrow> module_interval list \<Rightarrow> int \<Rightarrow> stack_stats \<Rightarrow> utext list \<times> stack_stats" where
  "finalize_stack addresses mods timestamp stats =
     (let stack = resolve_stack_addresses addresses mods timestamp
      in (map frame_value (rev stack),
          stats\<lparr>st_total := st_total stats + length stack,
                st_resolved := st_resolved stats + length (filter frame_resolved stack),
                st_unresolved := st_unresolved stats + length (filter (\<lambda>f. \<not> frame_resolved f) stack)\<rparr>))"

text \<open>The two loops of \<open>finalize_stacks\<close>; the index starts at 0 and the argument list is the rest of
  the address vector.\<close>

fun finalize_lifecycle :: "nat \<Rightarrow> u64 list list \<Rightarrow> etw_processor \<Rightarrow> etw_processor option" where
  "finalize_lifecycle index [] p = Some p"
| "finalize_lifecycle index (addresses # rest) p =
     (case (nth_opt (lifecycle_events p) index, nth_opt (lifecycle_timestamps p) index) of
        (Some event, Some timestamp) \<Rightarrow>
          (let (stack, stats) = finalize_stack addresses (modules p) timestamp (lifecycle_stack_stats p)
           in finalize_lifecycle (Suc index) rest
                (p\<lparr>lifecycle_events := (lifecycle_events p)[index := event\<lparr>le_stack := stack\<rparr>],
                   lifecycle_stack_stats := stats\<rparr>))
      | _ \<Rightarrow> None)"

fun finalize_file_io :: "nat \<Rightarrow> u64 list list \<Rightarrow> etw_processor \<Rightarrow> etw_processor option" where
  "finalize_file_io index [] p = Some p"
| "finalize_file_io index (addresses # rest) p =
     (case (nth_opt (file_io_events p) index, nth_opt (file_io_timestamps p) index) of
        (Some event, Some timestamp) \<Rightarrow>
          (let (stack, stats) = finalize_stack addresses (modules p) timestamp (file_io_stack_stats p)
           in finalize_file_io (Suc index) rest
                (p\<lparr>file_io_events := (file_io_events p)[index := event\<lparr>fe_stack := stack\<rparr>],
                   file_io_stack_stats := stats\<rparr>))
      | _ \<Rightarrow> None)"

definition push_warning :: "string \<Rightarrow> etw_processor \<Rightarrow> etw_processor" where
  "push_warning w p = p\<lparr>warnings := warnings p @ [w]\<rparr>"

definition warn_stacks :: "bool \<Rightarrow> etw_processor \<Rightarrow> etw_processor" where
  "warn_stacks stacks_enabled p =
     (let p1 = (if stacks_enabled \<and> stack_walk_events p > 0 \<and> matched_stack_walk_events p = 0
                then push_warning
                  (''native ETW saw '' @ show_nat (stack_walk_events p)
                   @ '' StackWalk events but none matched filtered target events; lifecycle_samples=[''
                   @ join ''; '' (lifecycle_match_samples p) @ '']; stack_samples=[''
                   @ join ''; '' (stack_walk_match_samples p) @ '']'') p
                else p)
      in if stacks_enabled \<and> dropped_pending_stack_walk_events p1 > 0
         then push_warning
           (''native ETW dropped '' @ show_nat (dropped_pending_stack_walk_events p1)
            @ '' unmatched StackWalk events while bounding the pending stack cache'') p1
         else p1)"

definition finalize_stacks :: "bool \<Rightarrow> etw_processor \<Rightarrow> etw_processor option" where
  "finalize_stacks stacks_enabled p =
     (case finalize_lifecycle 0 (lifecycle_stack_addresses p) p of
        None \<Rightarrow> None
      | Some p1 \<Rightarrow> map_option (warn_stacks stacks_enabled) (finalize_file_io 0 (file_io_stack_addresses p1) p1))"

definition warn_if_positive :: "nat \<Rightarrow> string \<Rightarrow> string \<Rightarrow> string list \<Rightarrow> string list" where
  "warn_if_positive n before after ws = (if n > 0 then ws @ [before @ show_nat n @ after] else ws)"

definition incomplete_io :: "etw_processor \<Rightarrow> nat" where
  "incomplete_io p = length (pending_file_irps p) + reused_irp_without_op_end_count p"

definition finish_warnings :: "etw_processor \<Rightarrow> string list" where
  "finish_warnings p =
     warn_if_positive (incomplete_io p) ''native ETW file_io left '' '' begin events without a matching OpEnd''
      (warn_if_positive (reused_irp_without_op_end_count p) ''native ETW file_io saw '' '' reused IrpPtr values before a matching OpEnd''
       (warn_if_positive (unmatched_op_end_count p) ''native ETW file_io saw '' '' target OpEnd events without a matching begin event''
        (warn_if_positive (file_path_unresolved p) ''native ETW file_io left '' '' target file events without a resolved path''
          (warnings p))))"

definition finish_processor :: "etw_processor \<Rightarrow> etw_summary" where
  "finish_processor p =
     (let sets1 = (if includes_set (settings p) Process
                   then bt_insert ''process'' (summary_lifecycle (lifecycle_event_counts p) (lifecycle_stack_stats p)) []
                   else []);
          sets2 = (if includes_set (settings p) FileIo
                   then bt_insert ''file_io''
                     (summary_file_io (file_io_event_counts p) (file_io_stack_stats p)
                        (file_path_resolved p) (file_path_unresolved p)
                        (matched_op_end_count p) (unmatched_op_end_count p)
                        (incomplete_io p) (reused_irp_without_op_end_count p)) sets1
                   else sets1)
      in \<lparr>sm_target_pid = Some (target_pid p),
          sm_requested_event_sets = event_set_names (settings p),
          sm_stacks_enabled = set_stacks_enabled (settings p),
          sm_event_sets = sets2,
          sm_warnings = finish_warnings p\<rparr>)"

end
