(* ===== verification/Etw_Invariants.thy ===== *)
theory Etw_Invariants
  imports Etw_Processor
begin

text \<open>
  The well-formedness of the processor's state and the proof that every record keeps it: the
  parallel vectors have one length, each row is of the target process and numbered in order, the
  timestamp index and the pending IRPs point at rows that exist, the cache of waiting stacks is
  bounded, and the counters of the summary balance. The theorems at the end are over whole streams
  of records, from a new processor.
\<close>

section \<open>The invariant\<close>

definition vectors_ok :: "etw_processor \<Rightarrow> bool" where
  "vectors_ok p \<longleftrightarrow>
     length (lifecycle_timestamps p) = length (lifecycle_events p) \<and>
     length (lifecycle_header_threads p) = length (lifecycle_events p) \<and>
     length (lifecycle_stack_addresses p) = length (lifecycle_events p) \<and>
     length (file_io_timestamps p) = length (file_io_events p) \<and>
     length (file_io_header_threads p) = length (file_io_events p) \<and>
     length (file_io_stack_addresses p) = length (file_io_events p)"

definition rows_ok :: "etw_processor \<Rightarrow> bool" where
  "rows_ok p \<longleftrightarrow>
     map le_sequence (lifecycle_events p) = [1..<Suc (length (lifecycle_events p))] \<and>
     map fe_sequence (file_io_events p) = [1..<Suc (length (file_io_events p))] \<and>
     (\<forall>e \<in> set (lifecycle_events p). le_pid e = target_pid p) \<and>
     (\<forall>e \<in> set (file_io_events p). fe_pid e = target_pid p)"

text \<open>A target of the timestamp index points at a row recorded at that timestamp.\<close>

definition target_at :: "int list \<Rightarrow> int list \<Rightarrow> int \<Rightarrow> stack_target \<Rightarrow> bool" where
  "target_at lifecycle_ts file_io_ts ts t =
     (nth_opt (case tgt_kind t of LifecycleTarget \<Rightarrow> lifecycle_ts | FileIoTarget \<Rightarrow> file_io_ts)
        (tgt_index t) = Some ts)"

definition targets_ok :: "etw_processor \<Rightarrow> bool" where
  "targets_ok p \<longleftrightarrow>
     bt_all (\<lambda>ts. list_all (target_at (lifecycle_timestamps p) (file_io_timestamps p) ts))
       (event_indices_by_timestamp p)"

definition pending_entry_ok :: "u32 \<Rightarrow> int \<Rightarrow> decoded_stack_walk_event list \<Rightarrow> bool" where
  "pending_entry_ok target ts l \<longleftrightarrow>
     length l \<le> MAX_PENDING_STACKS_PER_TIMESTAMP \<and>
     (\<forall>s \<in> set l. ds_timestamp s = ts \<and> ds_stack_process s = target)"

definition pending_ok :: "etw_processor \<Rightarrow> bool" where
  "pending_ok p \<longleftrightarrow>
     bt_ok (pending_stacks_by_timestamp p) \<and>
     length (pending_stacks_by_timestamp p) \<le> MAX_PENDING_STACK_TIMESTAMPS \<and>
     bt_all (pending_entry_ok (target_pid p)) (pending_stacks_by_timestamp p)"

definition irp_entry_ok :: "file_io_event list \<Rightarrow> u64 \<Rightarrow> nat \<Rightarrow> bool" where
  "irp_entry_ok rows irp i \<longleftrightarrow>
     i < length rows \<and> fe_irp_ptr (rows ! i) = Some (hex64 irp)
     \<and> fe_completion_sequence (rows ! i) = None"

definition irps_ok :: "etw_processor \<Rightarrow> bool" where
  "irps_ok p \<longleftrightarrow>
     bt_ok (pending_file_irps p) \<and> bt_all (irp_entry_ok (file_io_events p)) (pending_file_irps p)"

definition stack_balance :: "etw_processor \<Rightarrow> bool" where
  "stack_balance p \<longleftrightarrow>
     stack_walk_events p = matched_stack_walk_events p + dropped_pending_stack_walk_events p
       + bt_sum length (pending_stacks_by_timestamp p)"

definition irp_rows :: "etw_processor \<Rightarrow> nat" where
  "irp_rows p = length (filter (\<lambda>e. fe_irp_ptr e \<noteq> None) (file_io_events p))"

definition completed_rows :: "etw_processor \<Rightarrow> nat" where
  "completed_rows p = length (filter (\<lambda>e. fe_completion_sequence e \<noteq> None) (file_io_events p))"

text \<open>A row with an IRP is completed, still pending, or its IRP was taken over. \<close>

definition irp_balance :: "etw_processor \<Rightarrow> bool" where
  "irp_balance p \<longleftrightarrow>
     irp_rows p = matched_op_end_count p + reused_irp_without_op_end_count p + length (pending_file_irps p)
     \<and> matched_op_end_count p = completed_rows p"

definition path_balance :: "etw_processor \<Rightarrow> bool" where
  "path_balance p \<longleftrightarrow>
     file_path_resolved p = length (filter (\<lambda>e. fe_path e \<noteq> None) (file_io_events p)) \<and>
     file_path_unresolved p = length (filter (\<lambda>e. fe_path e = None) (file_io_events p))"

text \<open>The counter of an event name counts the rows of that name; the names are those of the
  table the counters start from.\<close>

definition counts_ok :: "etw_processor \<Rightarrow> bool" where
  "counts_ok p \<longleftrightarrow>
     lifecycle_event_counts p =
       map (\<lambda>(k, _). (k, length (filter (\<lambda>e. le_event e = k) (lifecycle_events p)))) lifecycle_count_map \<and>
     file_io_event_counts p =
       map (\<lambda>(k, _). (k, length (filter (\<lambda>e. fe_event e = k) (file_io_events p)))) file_io_count_map"

definition etw_inv :: "etw_processor \<Rightarrow> bool" where
  "etw_inv p \<longleftrightarrow> vectors_ok p \<and> rows_ok p \<and> targets_ok p \<and> pending_ok p \<and> irps_ok p
     \<and> stack_balance p \<and> irp_balance p \<and> path_balance p \<and> counts_ok p"

lemmas etw_inv_defs = vectors_ok_def rows_ok_def targets_ok_def pending_ok_def irps_ok_def
  stack_balance_def irp_balance_def irp_rows_def completed_rows_def path_balance_def counts_ok_def

lemma etw_invI:
  "vectors_ok p \<Longrightarrow> rows_ok p \<Longrightarrow> targets_ok p \<Longrightarrow> pending_ok p \<Longrightarrow> irps_ok p \<Longrightarrow> stack_balance p
     \<Longrightarrow> irp_balance p \<Longrightarrow> path_balance p \<Longrightarrow> counts_ok p \<Longrightarrow> etw_inv p"
  by (simp add: etw_inv_def)

lemma etw_invD:
  assumes "etw_inv p"
  shows "vectors_ok p" and "rows_ok p" and "targets_ok p" and "pending_ok p" and "irps_ok p"
    and "stack_balance p" and "irp_balance p" and "path_balance p" and "counts_ok p"
  using assms by (simp_all add: etw_inv_def)

lemma etw_inv_new: "etw_inv (etw_processor_new pid s)"
  by (auto simp: etw_inv_def etw_inv_defs etw_processor_new_def bt_sum_def stack_stats_default_def
      lifecycle_count_map_def file_io_count_map_def count_map_def)

section \<open>The cache of waiting stacks\<close>

text \<open>An operation that only touches the cache and its drop counter.\<close>

definition cache_step :: "etw_processor \<Rightarrow> etw_processor \<Rightarrow> bool" where
  "cache_step p p' \<longleftrightarrow>
     (\<exists>m d. p' = p\<lparr>pending_stacks_by_timestamp := m, dropped_pending_stack_walk_events := d\<rparr>)"

lemma cache_step_refl [simp]: "cache_step p p"
  unfolding cache_step_def by (intro exI[of _ "pending_stacks_by_timestamp p"]
      exI[of _ "dropped_pending_stack_walk_events p"]) simp

lemma cache_step_upd:
  "cache_step p (p\<lparr>pending_stacks_by_timestamp := m, dropped_pending_stack_walk_events := d\<rparr>)"
  unfolding cache_step_def by blast

lemma cache_step_upds:
  "cache_step p (p\<lparr>pending_stacks_by_timestamp := m\<rparr>)"
  "cache_step p (p\<lparr>dropped_pending_stack_walk_events := d\<rparr>)"
  using cache_step_upd[where p = p and m = m and d = "dropped_pending_stack_walk_events p"]
    cache_step_upd[where p = p and m = "pending_stacks_by_timestamp p" and d = d] by simp_all

lemma cache_step_trans: "cache_step p q \<Longrightarrow> cache_step q r \<Longrightarrow> cache_step p r"
  unfolding cache_step_def by fastforce

lemma cache_step_inv:
  assumes "cache_step p p'" and "etw_inv p" and "pending_ok p'" and "stack_balance p'"
  shows "etw_inv p'"
proof -
  obtain m d where p': "p' = p\<lparr>pending_stacks_by_timestamp := m, dropped_pending_stack_walk_events := d\<rparr>"
    using assms(1) by (auto simp: cache_step_def)
  have "vectors_ok p'" "rows_ok p'" "irp_balance p'" "path_balance p'" "counts_ok p'" "irps_ok p'"
      "targets_ok p'"
    using etw_invD[OF assms(2)] unfolding p' etw_inv_defs by simp_all
  with assms(3,4) show ?thesis by (simp add: etw_inv_def)
qed

lemma cache_stepD:
  assumes "cache_step p p'"
  shows "target_pid p' = target_pid p" and "settings p' = settings p"
    and "event_indices_by_timestamp p' = event_indices_by_timestamp p"
    and "lifecycle_events p' = lifecycle_events p" and "file_io_events p' = file_io_events p"
    and "pending_file_irps p' = pending_file_irps p" and "ignored_file_irps p' = ignored_file_irps p"
    and "stack_walk_events p' = stack_walk_events p"
    and "matched_stack_walk_events p' = matched_stack_walk_events p"
  using assms by (auto simp: cache_step_def)

lemma drop_oldest_step: "cache_step p (drop_oldest_pending_stack_timestamp p)"
  by (auto simp: drop_oldest_pending_stack_timestamp_def cache_step_def
      split: option.splits intro: cache_step_refl[unfolded cache_step_def])

lemma drop_oldest_ok:
  assumes "pending_ok p"
  shows "pending_ok (drop_oldest_pending_stack_timestamp p)"
  using assms
  by (auto simp: drop_oldest_pending_stack_timestamp_def pending_ok_def bt.ok_del bt.len_del bt_all_remove
      split: option.splits)

lemma drop_oldest_balance:
  assumes "pending_ok p"
  shows "stack_balance (drop_oldest_pending_stack_timestamp p) = stack_balance p"
  using assms
  by (auto simp: drop_oldest_pending_stack_timestamp_def stack_balance_def pending_ok_def bt_sum_remove
      split: option.splits)

lemma prune_facts:
  assumes "pending_ok p"
  shows "cache_step p (prune_pending_stacks_before t p)
    \<and> pending_ok (prune_pending_stacks_before t p)
    \<and> stack_balance (prune_pending_stacks_before t p) = stack_balance p"
  using assms
proof (induction t p rule: prune_pending_stacks_before.induct)
  case (1 t p)
  show ?case
  proof (cases "case bt_first (pending_stacks_by_timestamp p) of Some (ts, _) \<Rightarrow> ts < t | None \<Rightarrow> False")
    case True
    have "pending_ok (drop_oldest_pending_stack_timestamp p)"
      using 1(2) by (rule drop_oldest_ok)
    from 1(1)[OF True this] True show ?thesis
      using drop_oldest_step[of p] drop_oldest_balance[OF 1(2)] cache_step_trans
      by (subst (1 2 3) prune_pending_stacks_before.simps) auto
  next
    case False
    then show ?thesis
      using 1(2) by (subst (1 2 3) prune_pending_stacks_before.simps) auto
  qed
qed

lemma prune_inv: "etw_inv p \<Longrightarrow> etw_inv (prune_pending_stacks_before t p)"
  using prune_facts[of p t] cache_step_inv by (auto dest: etw_invD)

text \<open>Caching a stack keeps both bounds of the cache, and counts the stack once: in the cache or
  as dropped.\<close>

definition room_for_timestamp :: "int \<Rightarrow> etw_processor \<Rightarrow> etw_processor" where
  "room_for_timestamp ts p =
     (if bt_get (pending_stacks_by_timestamp p) ts = None
         \<and> length (pending_stacks_by_timestamp p) \<ge> MAX_PENDING_STACK_TIMESTAMPS
      then drop_oldest_pending_stack_timestamp p else p)"

lemma drop_oldest_length:
  assumes "pending_stacks_by_timestamp p \<noteq> []"
  shows "length (pending_stacks_by_timestamp (drop_oldest_pending_stack_timestamp p))
           < length (pending_stacks_by_timestamp p)"
  using assms drop_oldest_shorter[of p "fst (hd (pending_stacks_by_timestamp p))"
      "snd (hd (pending_stacks_by_timestamp p))"]
  by (cases "pending_stacks_by_timestamp p") (simp_all add: bt_first_def)

lemma room_facts:
  fixes ts
  assumes "pending_ok p"
  defines "q \<equiv> room_for_timestamp ts p"
  shows "cache_step p q" and "pending_ok q" and "stack_balance q = stack_balance p"
    and "bt_get (pending_stacks_by_timestamp q) ts = None \<Longrightarrow>
           length (pending_stacks_by_timestamp q) < MAX_PENDING_STACK_TIMESTAMPS"
proof -
  show "cache_step p q" and "pending_ok q" and "stack_balance q = stack_balance p"
    using assms(1) drop_oldest_step drop_oldest_ok drop_oldest_balance
    by (simp_all add: q_def room_for_timestamp_def)
  show "length (pending_stacks_by_timestamp q) < MAX_PENDING_STACK_TIMESTAMPS"
    if "bt_get (pending_stacks_by_timestamp q) ts = None"
    using that assms(1) drop_oldest_length[of p]
    by (cases "pending_stacks_by_timestamp p = []")
      (auto simp: q_def room_for_timestamp_def pending_ok_def MAX_PENDING_STACK_TIMESTAMPS_def
        drop_oldest_pending_stack_timestamp_def bt_first_def bt_get_def split: if_splits)
qed

definition waiting :: "int \<Rightarrow> etw_processor \<Rightarrow> decoded_stack_walk_event list" where
  "waiting ts p = (case bt_get (pending_stacks_by_timestamp p) ts of None \<Rightarrow> [] | Some l \<Rightarrow> l)"

lemma waiting_ok: "pending_ok p \<Longrightarrow> pending_entry_ok (target_pid p) ts (waiting ts p)"
  by (auto simp: waiting_def pending_ok_def pending_entry_ok_def dest: bt_allD split: option.splits)

lemma cache_pending_unfold:
  "cache_pending_stack_walk_event s p =
     (if ds_stack_process s \<noteq> target_pid p
      then p\<lparr>dropped_pending_stack_walk_events := Suc (dropped_pending_stack_walk_events p)\<rparr>
      else let q = room_for_timestamp (ds_timestamp s) p; l = waiting (ds_timestamp s) q in
        if length l \<ge> MAX_PENDING_STACKS_PER_TIMESTAMP
        then q\<lparr>pending_stacks_by_timestamp := bt_insert (ds_timestamp s) l (pending_stacks_by_timestamp q),
               dropped_pending_stack_walk_events := Suc (dropped_pending_stack_walk_events q)\<rparr>
        else q\<lparr>pending_stacks_by_timestamp :=
                 bt_insert (ds_timestamp s) (l @ [s]) (pending_stacks_by_timestamp q)\<rparr>)"
  by (simp add: cache_pending_stack_walk_event_def room_for_timestamp_def waiting_def Let_def)

lemma insert_waiting_ok:
  assumes "pending_ok q" and "pending_entry_ok (target_pid q) ts l"
    and "bt_get (pending_stacks_by_timestamp q) ts = None \<Longrightarrow>
           length (pending_stacks_by_timestamp q) < MAX_PENDING_STACK_TIMESTAMPS"
  shows "pending_ok (q\<lparr>pending_stacks_by_timestamp := bt_insert ts l (pending_stacks_by_timestamp q)\<rparr>)"
  using assms by (auto simp: pending_ok_def bt.ok_ins bt.len_ins bt_all_insert domIff)

lemma insert_waiting_sum:
  assumes "bt_ok (pending_stacks_by_timestamp q)"
  shows "bt_sum length (bt_insert ts l (pending_stacks_by_timestamp q)) + length (waiting ts q)
           = length l + bt_sum length (pending_stacks_by_timestamp q)"
  using assms bt_sum_insert_new[of "pending_stacks_by_timestamp q" ts length l]
    bt_sum_insert_old[of "pending_stacks_by_timestamp q" ts _ length l]
  by (cases "bt_get (pending_stacks_by_timestamp q) ts") (auto simp: waiting_def)

text \<open>The stack being processed has been counted but not yet placed.\<close>

definition one_unplaced :: "etw_processor \<Rightarrow> bool" where
  "one_unplaced p \<longleftrightarrow>
     stack_walk_events p = Suc (matched_stack_walk_events p + dropped_pending_stack_walk_events p
       + bt_sum length (pending_stacks_by_timestamp p))"

lemma one_unplaced_room:
  assumes "pending_ok p" and "one_unplaced p"
  shows "one_unplaced (room_for_timestamp ts p)"
proof -
  have "stack_balance (room_for_timestamp ts (p\<lparr>stack_walk_events := stack_walk_events p - 1\<rparr>))"
    using assms by (subst room_facts(3)) (auto simp: pending_ok_def stack_balance_def one_unplaced_def)
  moreover have "room_for_timestamp ts (p\<lparr>stack_walk_events := stack_walk_events p - 1\<rparr>)
      = (room_for_timestamp ts p)\<lparr>stack_walk_events := stack_walk_events p - 1\<rparr>"
    by (auto simp: room_for_timestamp_def drop_oldest_pending_stack_timestamp_def split: option.splits)
  moreover have "stack_walk_events (room_for_timestamp ts p) = stack_walk_events p"
    using room_facts(1)[OF assms(1)] by (rule cache_stepD)
  ultimately show ?thesis
    using assms(2) by (simp add: stack_balance_def one_unplaced_def)
qed

lemma place_waiting:
  assumes "one_unplaced q" and "bt_ok (pending_stacks_by_timestamp q)"
    and "length l + d = Suc (length (waiting ts q) + dropped_pending_stack_walk_events q)"
  shows "stack_balance (q\<lparr>pending_stacks_by_timestamp := bt_insert ts l (pending_stacks_by_timestamp q),
      dropped_pending_stack_walk_events := d\<rparr>)"
  using assms(1,3) insert_waiting_sum[OF assms(2), of ts l]
  unfolding one_unplaced_def stack_balance_def by simp

lemma cache_full_facts:
  assumes "pending_ok q" and "one_unplaced q" and "l = waiting ts q"
    and room: "bt_get (pending_stacks_by_timestamp q) ts = None \<Longrightarrow>
           length (pending_stacks_by_timestamp q) < MAX_PENDING_STACK_TIMESTAMPS"
  defines "r \<equiv> q\<lparr>pending_stacks_by_timestamp := bt_insert ts l (pending_stacks_by_timestamp q),
           dropped_pending_stack_walk_events := Suc (dropped_pending_stack_walk_events q)\<rparr>"
  shows "pending_ok r" and "stack_balance r"
proof -
  have "pending_entry_ok (target_pid q) ts l"
    using waiting_ok[OF assms(1)] assms(3) by simp
  then have "pending_ok (q\<lparr>pending_stacks_by_timestamp := bt_insert ts l (pending_stacks_by_timestamp q)\<rparr>)"
    by (rule insert_waiting_ok[OF assms(1) _ room])
  then show "pending_ok r"
    by (simp add: r_def pending_ok_def)
  show "stack_balance r"
    unfolding r_def using assms(1-3) by (intro place_waiting) (simp_all add: pending_ok_def)
qed

lemma cache_free_facts:
  assumes "pending_ok q" and "one_unplaced q"
    and "length (waiting ts q) < MAX_PENDING_STACKS_PER_TIMESTAMP"
    and "ds_stack_process s = target_pid q" and "ds_timestamp s = ts"
    and room: "bt_get (pending_stacks_by_timestamp q) ts = None \<Longrightarrow>
           length (pending_stacks_by_timestamp q) < MAX_PENDING_STACK_TIMESTAMPS"
  defines "r \<equiv> q\<lparr>pending_stacks_by_timestamp :=
                    bt_insert ts (waiting ts q @ [s]) (pending_stacks_by_timestamp q)\<rparr>"
  shows "pending_ok r" and "stack_balance r"
proof -
  have "pending_entry_ok (target_pid q) ts (waiting ts q @ [s])"
    using waiting_ok[OF assms(1), of ts] assms(3-5) by (auto simp: pending_entry_ok_def)
  then show "pending_ok r"
    unfolding r_def by (rule insert_waiting_ok[OF assms(1) _ room])
  have "stack_balance (q\<lparr>pending_stacks_by_timestamp :=
            bt_insert ts (waiting ts q @ [s]) (pending_stacks_by_timestamp q),
          dropped_pending_stack_walk_events := dropped_pending_stack_walk_events q\<rparr>)"
    using assms(1,2) by (intro place_waiting) (simp_all add: pending_ok_def)
  then show "stack_balance r"
    by (simp add: r_def)
qed

lemma cache_pending_facts:
  fixes s
  assumes ok: "pending_ok p" and un: "one_unplaced p"
  defines "r \<equiv> cache_pending_stack_walk_event s p"
  shows "cache_step p r" and "pending_ok r" and "stack_balance r"
proof -
  define q where "q = room_for_timestamp (ds_timestamp s) p"
  have q: "cache_step p q" "pending_ok q" "one_unplaced q"
    and room: "bt_get (pending_stacks_by_timestamp q) (ds_timestamp s) = None \<Longrightarrow>
           length (pending_stacks_by_timestamp q) < MAX_PENDING_STACK_TIMESTAMPS"
    unfolding q_def
    by (rule room_facts[OF ok] one_unplaced_room[OF ok un] | assumption)+
  have tgt: "target_pid q = target_pid p"
    using q(1) by (rule cache_stepD)
  consider (other) "ds_stack_process s \<noteq> target_pid p"
    | (full) "ds_stack_process s = target_pid p"
        "length (waiting (ds_timestamp s) q) \<ge> MAX_PENDING_STACKS_PER_TIMESTAMP"
    | (free) "ds_stack_process s = target_pid p"
        "length (waiting (ds_timestamp s) q) < MAX_PENDING_STACKS_PER_TIMESTAMP"
    by linarith
  then have "cache_step p r \<and> pending_ok r \<and> stack_balance r"
  proof cases
    case other
    then have r: "r = p\<lparr>dropped_pending_stack_walk_events := Suc (dropped_pending_stack_walk_events p)\<rparr>"
      by (simp add: r_def cache_pending_unfold)
    have "stack_balance r"
      using un unfolding r one_unplaced_def stack_balance_def by simp
    moreover have "pending_ok r"
      using ok unfolding r pending_ok_def by simp
    ultimately show ?thesis
      using cache_step_upds(2) unfolding r by simp
  next
    case full
    then have r: "r = q\<lparr>pending_stacks_by_timestamp :=
            bt_insert (ds_timestamp s) (waiting (ds_timestamp s) q) (pending_stacks_by_timestamp q),
          dropped_pending_stack_walk_events := Suc (dropped_pending_stack_walk_events q)\<rparr>"
      by (simp add: r_def cache_pending_unfold q_def[symmetric] Let_def)
    show ?thesis
      unfolding r using cache_full_facts[OF q(2,3) refl room] cache_step_trans[OF q(1) cache_step_upd]
      by (intro conjI)
  next
    case free
    then have r: "r = q\<lparr>pending_stacks_by_timestamp :=
            bt_insert (ds_timestamp s) (waiting (ds_timestamp s) q @ [s]) (pending_stacks_by_timestamp q)\<rparr>"
      by (simp add: r_def cache_pending_unfold q_def[symmetric] Let_def)
    show ?thesis
      unfolding r
      using cache_free_facts[OF q(2,3) free(2) _ refl room] free(1) tgt
        cache_step_trans[OF q(1) cache_step_upds(1)]
      by (intro conjI) simp_all
  qed
  then show "cache_step p r" and "pending_ok r" and "stack_balance r"
    by simp_all
qed

section \<open>Attaching a stack to a row\<close>

text \<open>An operation that attaches \<open>n\<close> stacks only changes the address vectors, entry by entry, and
  the counter of matches.\<close>

definition attached :: "nat \<Rightarrow> etw_processor \<Rightarrow> etw_processor \<Rightarrow> bool" where
  "attached n p p' \<longleftrightarrow>
     (\<exists>la fa. length la = length (lifecycle_stack_addresses p) \<and> length fa = length (file_io_stack_addresses p)
        \<and> p' = p\<lparr>lifecycle_stack_addresses := la, file_io_stack_addresses := fa,
                   matched_stack_walk_events := matched_stack_walk_events p + n\<rparr>)"

lemma attached_upd:
  assumes "length la = length (lifecycle_stack_addresses p)" and "length fa = length (file_io_stack_addresses p)"
  shows "attached n p (p\<lparr>lifecycle_stack_addresses := la, file_io_stack_addresses := fa,
            matched_stack_walk_events := matched_stack_walk_events p + n\<rparr>)"
  unfolding attached_def by (intro exI[of _ la] exI[of _ fa] conjI assms refl)

lemma attached_refl: "attached 0 p p"
  unfolding attached_def
  by (intro exI[of _ "lifecycle_stack_addresses p"] exI[of _ "file_io_stack_addresses p"]) simp

lemma attached_trans:
  assumes "attached m p q" and "attached n q r"
  shows "attached (m + n) p r"
  using assms unfolding attached_def by (elim exE conjE) (simp add: add.assoc, blast)

definition rest_ok :: "etw_processor \<Rightarrow> bool" where
  "rest_ok p \<longleftrightarrow> vectors_ok p \<and> rows_ok p \<and> targets_ok p \<and> pending_ok p \<and> irps_ok p
     \<and> irp_balance p \<and> path_balance p \<and> counts_ok p"

lemma etw_inv_rest: "etw_inv p \<longleftrightarrow> rest_ok p \<and> stack_balance p"
  by (auto simp: etw_inv_def rest_ok_def)

definition unplaced :: "nat \<Rightarrow> etw_processor \<Rightarrow> bool" where
  "unplaced n p \<longleftrightarrow>
     stack_walk_events p = n + matched_stack_walk_events p + dropped_pending_stack_walk_events p
       + bt_sum length (pending_stacks_by_timestamp p)"

lemma unplaced_0: "stack_balance p \<longleftrightarrow> unplaced 0 p"
  by (simp add: unplaced_def stack_balance_def)

lemma unplaced_1: "one_unplaced p \<longleftrightarrow> unplaced 1 p"
  by (simp add: unplaced_def one_unplaced_def)

lemma attached_rest:
  assumes "attached n p p'" and "rest_ok p"
  shows "rest_ok p'"
proof -
  obtain la fa where la: "length la = length (lifecycle_stack_addresses p)"
      and fa: "length fa = length (file_io_stack_addresses p)"
      and p': "p' = p\<lparr>lifecycle_stack_addresses := la, file_io_stack_addresses := fa,
                   matched_stack_walk_events := matched_stack_walk_events p + n\<rparr>"
    using assms(1) by (auto simp: attached_def)
  show ?thesis
    using assms(2) la fa unfolding p' rest_ok_def etw_inv_defs by simp
qed

lemma attached_unplaced: "attached n p p' \<Longrightarrow> unplaced (m + n) p \<Longrightarrow> unplaced m p'"
  by (auto simp: attached_def unplaced_def)

lemma attachedD:
  assumes "attached n p p'"
  shows "target_pid p' = target_pid p" and "settings p' = settings p"
    and "event_indices_by_timestamp p' = event_indices_by_timestamp p"
    and "pending_stacks_by_timestamp p' = pending_stacks_by_timestamp p"
    and "lifecycle_events p' = lifecycle_events p" and "file_io_events p' = file_io_events p"
    and "stack_walk_events p' = stack_walk_events p"
  using assms by (auto simp: attached_def)

text \<open>A target that the code can attach a stack to: its row exists and is of the traced process.\<close>

definition target_ready :: "etw_processor \<Rightarrow> stack_target \<Rightarrow> bool" where
  "target_ready p t \<longleftrightarrow> map_option fst (stack_target_identity p t) = Some (target_pid p)"

lemma target_at_ready:
  assumes "vectors_ok p" and "rows_ok p"
    and "target_at (lifecycle_timestamps p) (file_io_timestamps p) ts t"
  shows "target_ready p t"
  using assms
  by (auto simp: target_ready_def stack_target_identity_def target_at_def vectors_ok_def rows_ok_def
      nth_opt_eq_Some split: stack_target_kind.splits)

lemma attach_to_ready:
  assumes "vectors_ok p" and "target_ready p t"
  shows "\<exists>p'. attach_to t s p = Some (True, p') \<and> attached 1 p p'"
proof (cases "tgt_kind t")
  case LifecycleTarget
  with assms have i: "tgt_index t < length (lifecycle_stack_addresses p)"
    by (auto simp: target_ready_def stack_target_identity_def vectors_ok_def nth_opt_eq_Some
        split: option.splits)
  let ?la = "(lifecycle_stack_addresses p)[tgt_index t :=
      append_stack_frames (lifecycle_stack_addresses p ! tgt_index t) (ds_stack_addresses s)]"
  have "attach_to t s p = Some (True, p\<lparr>lifecycle_stack_addresses := ?la,
      file_io_stack_addresses := file_io_stack_addresses p,
      matched_stack_walk_events := matched_stack_walk_events p + 1\<rparr>)"
    using i LifecycleTarget by (simp add: attach_to_def append_stack_frames_to_target_def)
  then show ?thesis
    using attached_upd[of ?la p "file_io_stack_addresses p" 1] by simp
next
  case FileIoTarget
  with assms have i: "tgt_index t < length (file_io_stack_addresses p)"
    by (auto simp: target_ready_def stack_target_identity_def vectors_ok_def nth_opt_eq_Some
        split: option.splits)
  let ?fa = "(file_io_stack_addresses p)[tgt_index t :=
      append_stack_frames (file_io_stack_addresses p ! tgt_index t) (ds_stack_addresses s)]"
  have "attach_to t s p = Some (True, p\<lparr>lifecycle_stack_addresses := lifecycle_stack_addresses p,
      file_io_stack_addresses := ?fa,
      matched_stack_walk_events := matched_stack_walk_events p + 1\<rparr>)"
    using i FileIoTarget by (simp add: attach_to_def append_stack_frames_to_target_def)
  then show ?thesis
    using attached_upd[of "lifecycle_stack_addresses p" p ?fa 1] by simp
qed

text \<open>Which target the loop of \<open>attach_stack_walk_event\<close> chooses: the first one of the stack's thread,
  else the first one when the stack is of the traced process.\<close>

definition thread_of :: "etw_processor \<Rightarrow> stack_target \<Rightarrow> u32 option" where
  "thread_of p t = map_option snd (stack_target_identity p t)"

definition chosen_target :: "decoded_stack_walk_event \<Rightarrow> stack_target list \<Rightarrow> etw_processor \<Rightarrow> stack_target option" where
  "chosen_target s ts p =
     (case List.find (\<lambda>t. thread_of p t = Some (ds_stack_thread s)) ts of
        Some t \<Rightarrow> Some t
      | None \<Rightarrow> (if ds_stack_process s = target_pid p \<and> ts \<noteq> [] then Some (hd ts) else None))"

lemma attach_loop_fallback:
  assumes "\<forall>t \<in> set ts. target_ready p t"
  shows "attach_loop s ts fb p =
     (case List.find (\<lambda>t. thread_of p t = Some (ds_stack_thread s)) ts of
        Some t \<Rightarrow> attach_to t s p
      | None \<Rightarrow> attach_loop s [] (case fb of Some f \<Rightarrow> Some f
                  | None \<Rightarrow> (if ts = [] then None else Some (hd ts))) p)"
  using assms
proof (induction ts arbitrary: fb)
  case Nil
  then show ?case by (simp split: option.splits)
next
  case (Cons t ts)
  from Cons.prems obtain th where th: "stack_target_identity p t = Some (target_pid p, th)"
    by (auto simp: target_ready_def)
  show ?case
    using Cons.IH[of "case fb of None \<Rightarrow> Some t | Some f \<Rightarrow> Some f"] Cons.prems th
    by (auto simp: thread_of_def simp del: attach_loop.simps(1) split: option.splits)
qed

lemma attach_loop_chosen:
  assumes "\<forall>t \<in> set ts. target_ready p t"
  shows "attach_loop s ts None p =
    (case chosen_target s ts p of None \<Rightarrow> Some (False, p) | Some t \<Rightarrow> attach_to t s p)"
  unfolding attach_loop_fallback[OF assms] chosen_target_def
  by (auto split: option.splits)

lemma chosen_target_in: "chosen_target s ts p = Some t \<Longrightarrow> t \<in> set ts"
  by (auto simp: chosen_target_def dest: List_find_SomeD split: option.splits if_splits)

lemma chosen_target_exists:
  "ds_stack_process s = target_pid p \<Longrightarrow> ts \<noteq> [] \<Longrightarrow> chosen_target s ts p \<noteq> None"
  by (auto simp: chosen_target_def split: option.splits)

lemma index_ready:
  assumes "rest_ok p" and "bt_get (event_indices_by_timestamp p) ts = Some l"
  shows "\<forall>t \<in> set l. target_ready p t"
  using assms target_at_ready[of p ts] bt_allD[of _ "event_indices_by_timestamp p" ts l]
  by (fastforce simp: rest_ok_def targets_ok_def list_all_iff)

lemma attach_event_facts:
  assumes "rest_ok p"
  shows "\<exists>b p'. attach_stack_walk_event s p = Some (b, p') \<and> attached (if b then 1 else 0) p p'
    \<and> (ds_stack_process s = target_pid p \<and> bt_get (event_indices_by_timestamp p) (ds_timestamp s) \<notin> {None, Some []}
         \<longrightarrow> b)"
proof (cases "bt_get (event_indices_by_timestamp p) (ds_timestamp s)")
  case None
  then show ?thesis
    by (auto simp: attach_stack_walk_event_def attached_refl)
next
  case (Some l)
  have ready: "\<forall>t \<in> set l. target_ready p t"
    using assms Some by (rule index_ready)
  show ?thesis
  proof (cases "chosen_target s l p")
    case None
    then show ?thesis
      using Some attach_loop_chosen[OF ready] chosen_target_exists[of s p l]
      by (auto simp: attach_stack_walk_event_def attached_refl)
  next
    case (Some t)
    then have "target_ready p t"
      using ready chosen_target_in by blast
    then obtain p' where "attach_to t s p = Some (True, p')" and "attached 1 p p'"
      using attach_to_ready assms by (fastforce simp: rest_ok_def)
    then show ?thesis
      using Some \<open>bt_get _ _ = Some l\<close> attach_loop_chosen[OF ready]
      by (auto simp: attach_stack_walk_event_def)
  qed
qed

lemma attach_all_facts:
  assumes "rest_ok p" and "\<forall>s \<in> set l. ds_timestamp s = ts \<and> ds_stack_process s = target_pid p"
    and "bt_get (event_indices_by_timestamp p) ts \<notin> {None, Some []}"
  shows "\<exists>p'. attach_all l p = Some p' \<and> attached (length l) p p'"
  using assms
proof (induction l arbitrary: p)
  case Nil
  then show ?case by (simp add: attached_refl)
next
  case (Cons s l)
  have here: "ds_stack_process s = target_pid p"
      "bt_get (event_indices_by_timestamp p) (ds_timestamp s) \<notin> {None, Some []}"
    using Cons.prems(2,3) by simp_all
  obtain q where q: "attach_stack_walk_event s p = Some (True, q)" "attached 1 p q"
    using attach_event_facts[OF Cons.prems(1), of s] here by (metis (full_types))
  have "\<exists>p'. attach_all l q = Some p' \<and> attached (length l) q p'"
    using Cons.prems(2,3)
    by (intro Cons.IH attached_rest[OF q(2) Cons.prems(1)]) (simp_all add: attachedD[OF q(2)])
  then obtain p' where "attach_all l q = Some p'" and "attached (length l) q p'"
    by blast
  then show ?case
    using q attached_trans[OF q(2), of "length l" p'] by simp
qed

end
