(* ===== verification/Etw_Run.thy ===== *)
theory Etw_Run
  imports Etw_Invariants
begin

text \<open>
  Every record keeps the invariant of the processor and cannot make it panic; the properties of
  whole streams of records follow by induction over the stream.
\<close>

text \<open>What a step keeps of the run's parameters; it counts \<open>n\<close> more stack walks.\<close>

definition kept :: "nat \<Rightarrow> etw_processor \<Rightarrow> etw_processor \<Rightarrow> bool" where
  "kept n p p' \<longleftrightarrow> target_pid p' = target_pid p \<and> settings p' = settings p
     \<and> lifecycle_stack_stats p' = lifecycle_stack_stats p \<and> file_io_stack_stats p' = file_io_stack_stats p
     \<and> stack_walk_events p' = n + stack_walk_events p"

lemma kept_refl [simp]: "kept 0 p p"
  by (simp add: kept_def)

lemma kept_trans: "kept m p q \<Longrightarrow> kept n q r \<Longrightarrow> kept (n + m) p r"
  by (simp add: kept_def)

lemma kept_cache: "cache_step p p' \<Longrightarrow> kept 0 p p'"
  by (auto simp: cache_step_def kept_def)

lemma kept_attached: "attached n p p' \<Longrightarrow> kept 0 p p'"
  by (auto simp: attached_def kept_def)

section \<open>Records of the kernel's stack walks\<close>

lemma cache_step_rest:
  assumes "cache_step p p'" and "rest_ok p" and "pending_ok p'"
  shows "rest_ok p'"
proof -
  obtain m d where p': "p' = p\<lparr>pending_stacks_by_timestamp := m, dropped_pending_stack_walk_events := d\<rparr>"
    using assms(1) by (auto simp: cache_step_def)
  show ?thesis
    using assms(2,3) unfolding p' rest_ok_def etw_inv_defs by simp
qed

lemma attach_or_cache_inv:
  assumes "rest_ok p" and "unplaced 1 p"
  shows "\<exists>b q. attach_stack_walk_event s p = Some (b, q)
    \<and> etw_inv (if b then q else cache_pending_stack_walk_event s q)
    \<and> kept 0 p (if b then q else cache_pending_stack_walk_event s q)"
proof -
  obtain b q where q: "attach_stack_walk_event s p = Some (b, q)" "attached (if b then 1 else 0) p q"
    using attach_event_facts[OF assms(1), of s] by blast
  have rest: "rest_ok q"
    using q(2) assms(1) by (rule attached_rest)
  show ?thesis
  proof (cases b)
    case True
    then have "unplaced 0 q"
      using attached_unplaced[of 1 p q 0] q(2) assms(2) by simp
    with True rest q kept_attached show ?thesis
      by (auto simp: etw_inv_rest unplaced_0)
  next
    case False
    then have "one_unplaced q"
      using attached_unplaced[of 0 p q 1] q(2) assms(2) by (simp add: unplaced_1)
    with rest have "cache_step q (cache_pending_stack_walk_event s q)"
        "pending_ok (cache_pending_stack_walk_event s q)" "stack_balance (cache_pending_stack_walk_event s q)"
      using cache_pending_facts by (auto simp: rest_ok_def)
    with False rest q cache_step_rest kept_trans[OF kept_attached[OF q(2)] kept_cache] show ?thesis
      by (auto simp: etw_inv_rest)
  qed
qed

lemma count_stack_walk:
  assumes "etw_inv p"
  shows "rest_ok (p\<lparr>stack_walk_events := Suc (stack_walk_events p), stack_walk_match_samples := ss\<rparr>)"
    and "unplaced 1 (p\<lparr>stack_walk_events := Suc (stack_walk_events p), stack_walk_match_samples := ss\<rparr>)"
proof -
  show "rest_ok (p\<lparr>stack_walk_events := Suc (stack_walk_events p), stack_walk_match_samples := ss\<rparr>)"
    using assms unfolding etw_inv_def rest_ok_def etw_inv_defs by simp
  show "unplaced 1 (p\<lparr>stack_walk_events := Suc (stack_walk_events p), stack_walk_match_samples := ss\<rparr>)"
    using assms unfolding etw_inv_def stack_balance_def unplaced_def by simp
qed

lemma process_stack_walk_ok:
  assumes "etw_inv p"
  shows "\<exists>p'. process_stack_walk_event s p = Some p' \<and> etw_inv p' \<and> kept 1 p p'"
proof -
  define q where "q = p\<lparr>stack_walk_events := Suc (stack_walk_events p),
      stack_walk_match_samples := (if length (stack_walk_match_samples p) < 5
        then stack_walk_match_samples p @ [stack_sample s] else stack_walk_match_samples p)\<rparr>"
  have "process_stack_walk_event s p =
      (case attach_stack_walk_event s q of None \<Rightarrow> None
       | Some (b, p3) \<Rightarrow> Some (if b then p3 else cache_pending_stack_walk_event s p3))"
    by (simp add: process_stack_walk_event_def q_def)
  moreover have "\<exists>b r. attach_stack_walk_event s q = Some (b, r)
      \<and> etw_inv (if b then r else cache_pending_stack_walk_event s r)
      \<and> kept 0 q (if b then r else cache_pending_stack_walk_event s r)"
    unfolding q_def by (intro attach_or_cache_inv count_stack_walk assms)
  moreover have "kept 1 p q"
    by (simp add: kept_def q_def)
  ultimately show ?thesis
    using kept_trans[of 1 p q 0] by auto
qed

section \<open>The stacks that waited for a row\<close>

lemma attach_pending_ok:
  assumes "etw_inv p" and "bt_get (event_indices_by_timestamp p) ts \<notin> {None, Some []}"
  shows "\<exists>p'. attach_pending ts p = Some p' \<and> etw_inv p' \<and> kept 0 p p'"
proof (cases "bt_get (pending_stacks_by_timestamp p) ts")
  case None
  with assms(1) show ?thesis by (simp add: attach_pending_def)
next
  case (Some l)
  define q where "q = p\<lparr>pending_stacks_by_timestamp := bt_remove ts (pending_stacks_by_timestamp p)\<rparr>"
  have ok: "pending_ok p" and bal: "stack_balance p"
    using assms(1) by (auto dest: etw_invD)
  have "pending_ok q"
    using ok by (auto simp: pending_ok_def q_def bt.ok_del bt.len_del bt_all_remove)
  with assms(1) have rest: "rest_ok q"
    using cache_step_rest[of p q] cache_step_upds(1) by (simp add: etw_inv_rest q_def)
  have un: "unplaced (length l) q"
    using bal ok bt_sum_remove[of "pending_stacks_by_timestamp p" ts l length] Some
    by (simp add: unplaced_def stack_balance_def pending_ok_def q_def)
  have "\<forall>s \<in> set l. ds_timestamp s = ts \<and> ds_stack_process s = target_pid q"
    using ok Some bt_allD by (fastforce simp: pending_ok_def pending_entry_ok_def q_def)
  then obtain p' where p': "attach_all l q = Some p'" "attached (length l) q p'"
    using attach_all_facts[OF rest, of l ts] assms(2) by (auto simp: q_def)
  have "etw_inv p'"
    using attached_rest[OF p'(2) rest] attached_unplaced[OF p'(2), of 0] un
    by (simp add: etw_inv_rest unplaced_0)
  moreover have "kept 0 p p'"
    using kept_attached[OF p'(2)] by (simp add: kept_def q_def)
  ultimately show ?thesis
    using p'(1) Some by (simp add: attach_pending_def q_def)
qed

section \<open>Lifecycle events\<close>

lemma bump_counts:
  "bump k (map (\<lambda>(k', _). (k', f k')) m) = map (\<lambda>(k', _). (k', if k' = k then Suc (f k') else f k')) m"
  by (auto simp: bump_def)

lemma targets_snoc:
  assumes "targets_ok p" and "vectors_ok p"
  shows "bt_all (\<lambda>ts. list_all (target_at (lifecycle_timestamps p @ [a]) (file_io_timestamps p) ts))
           (event_indices_by_timestamp p)"
    and "bt_all (\<lambda>ts. list_all (target_at (lifecycle_timestamps p) (file_io_timestamps p @ [a]) ts))
           (event_indices_by_timestamp p)"
  using assms unfolding targets_ok_def
  by (auto elim!: bt_all_mono list.pred_mono_strong
      simp: target_at_def nth_opt_eq_Some nth_append split: stack_target_kind.splits)

lemma bt_all_snoc:
  assumes "bt_all (\<lambda>k. list_all (P k)) m" and "P k v"
  shows "bt_all (\<lambda>k. list_all (P k)) (bt_insert k ((case bt_get m k of None \<Rightarrow> [] | Some l \<Rightarrow> l) @ [v]) m)"
  using assms bt_allD[OF assms(1), of k] by (intro bt_all_insert) (auto split: option.splits)

lemma push_lifecycle_inv:
  assumes inv: "etw_inv p" and pid: "dl_pid d = target_pid p"
  shows "etw_inv (push_lifecycle d p)"
proof (rule etw_invI)
  note inv' = etw_invD[OF inv]
  show "vectors_ok (push_lifecycle d p)"
    using inv'(1) by (simp add: push_lifecycle_def index_event_def vectors_ok_def Let_def)
  show "rows_ok (push_lifecycle d p)"
    using inv'(2) pid by (simp add: push_lifecycle_def index_event_def rows_ok_def Let_def lifecycle_row_def)
  show "targets_ok (push_lifecycle d p)"
    using bt_all_snoc[OF targets_snoc(1)[OF inv'(3,1)], of "dl_timestamp d" "dl_timestamp d"
        "\<lparr>tgt_kind = LifecycleTarget, tgt_index = length (lifecycle_events p)\<rparr>"] inv'(1)
    by (simp add: push_lifecycle_def index_event_def targets_ok_def Let_def target_at_def vectors_ok_def
        nth_opt_eq_Some nth_append)
  show "pending_ok (push_lifecycle d p)"
    using inv'(4) by (simp add: push_lifecycle_def index_event_def pending_ok_def Let_def)
  show "irps_ok (push_lifecycle d p)"
    using inv'(5) by (simp add: push_lifecycle_def index_event_def irps_ok_def Let_def)
  show "stack_balance (push_lifecycle d p)"
    using inv'(6) by (simp add: push_lifecycle_def index_event_def stack_balance_def Let_def)
  show "irp_balance (push_lifecycle d p)"
    using inv'(7) by (simp add: push_lifecycle_def index_event_def irp_balance_def irp_rows_def
        completed_rows_def Let_def)
  show "path_balance (push_lifecycle d p)"
    using inv'(8) by (simp add: push_lifecycle_def index_event_def path_balance_def Let_def)
  show "counts_ok (push_lifecycle d p)"
    using inv'(9) by (auto simp: push_lifecycle_def index_event_def counts_ok_def Let_def bump_counts
        lifecycle_row_def)
qed

lemma track_module_only: "track_module d p = p\<lparr>modules := modules (track_module d p)\<rparr>"
  unfolding track_module_def record_module_load_def record_module_unload_def
  by (simp split: option.split)

lemma track_module_inv:
  assumes "etw_inv p"
  shows "etw_inv (track_module d p)"
proof -
  have "etw_inv (p\<lparr>modules := ms\<rparr>)" for ms
    using assms unfolding etw_inv_def etw_inv_defs by simp
  then show ?thesis
    using track_module_only[of d p] by metis
qed

lemma track_module_kept: "kept n p (track_module d q) = kept n p q"
  by (subst track_module_only) (simp add: kept_def)

lemma index_event_get:
  "bt_get (event_indices_by_timestamp (index_event ts t p)) ts \<notin> {None, Some []}"
  by (simp add: index_event_def bt_get_insert split: option.splits)

lemma push_lifecycle_index:
  "bt_get (event_indices_by_timestamp (push_lifecycle d p)) (dl_timestamp d) \<notin> {None, Some []}"
  unfolding push_lifecycle_def Let_def by (rule index_event_get)

lemma process_lifecycle_ok:
  assumes "etw_inv p"
  shows "\<exists>p'. process_lifecycle_event d p = Some p' \<and> etw_inv p' \<and> kept 0 p p'"
proof (cases "dl_pid d = target_pid p")
  case True
  define q where "q = track_module d (prune_pending_stacks_before (dl_timestamp d) p)"
  have q: "etw_inv q" "kept 0 p q"
    unfolding q_def using assms prune_facts[of p] kept_cache
    by (auto simp: track_module_kept etw_invD intro!: track_module_inv prune_inv)
  then have "dl_pid d = target_pid q"
    using True by (simp add: kept_def)
  then have "\<exists>p'. attach_pending (dl_timestamp d) (push_lifecycle d q) = Some p' \<and> etw_inv p'
      \<and> kept 0 (push_lifecycle d q) p'"
    by (intro attach_pending_ok push_lifecycle_inv[OF q(1)] push_lifecycle_index)
  moreover have "process_lifecycle_event d p =
      (if includes_set (settings q) Process
       then attach_pending (dl_timestamp d) (push_lifecycle d q) else Some q)"
    using True unfolding process_lifecycle_event_def q_def Let_def event_matches_target_def by argo
  moreover have "kept 0 q (push_lifecycle d q)"
    by (simp add: push_lifecycle_def index_event_def kept_def Let_def)
  ultimately show ?thesis
    using q kept_trans[of 0 q "push_lifecycle d q" 0] kept_trans[OF q(2)] by auto
next
  case False
  with assms show ?thesis
    by (simp add: process_lifecycle_event_def event_matches_target_def)
qed

section \<open>File events\<close>

lemma filter_length_update:
  "i < length xs \<Longrightarrow> length (filter P (xs[i := y])) + (if P (xs ! i) then 1 else 0)
     = length (filter P xs) + (if P y then 1 else 0)"
proof (induction xs arbitrary: i)
  case (Cons x xs)
  then show ?case by (cases i) auto
qed simp

lemma set_update_rows:
  "i < length xs \<Longrightarrow> \<forall>x \<in> set xs. Q x \<Longrightarrow> Q y \<Longrightarrow> \<forall>x \<in> set (xs[i := y]). Q x"
  using set_update_subset_insert[of xs i y] by blast

text \<open>Two pending IRPs never share a row: the row holds the IRP's own pointer.\<close>

lemma irp_entries_distinct:
  assumes "bt_all (irp_entry_ok rows) m" and "bt_get m irp = Some i" and "bt_get m irp' = Some i"
  shows "irp' = irp"
  using bt_allD[OF assms(1,2)] bt_allD[OF assms(1,3)] by (simp add: irp_entry_ok_def hex64_inject)

lemma merge_inv:
  assumes inv: "etw_inv p"
  shows "etw_inv (merge_file_io_completion d p)"
proof -
  have skip: "etw_inv (count_unmatched p)" and ignored: "etw_inv (p\<lparr>ignored_file_irps := m\<rparr>)" for m
    using inv unfolding etw_inv_def etw_inv_defs count_unmatched_def by simp_all
  show ?thesis
  proof (cases "\<exists>irp i. df_irp_ptr d = Some irp \<and> bt_get (pending_file_irps p) irp = Some i")
    case False
    then show ?thesis
      using skip ignored by (auto simp: merge_file_io_completion_def split: option.splits)
  next
    case True
    then obtain irp i where irp: "df_irp_ptr d = Some irp" and i: "bt_get (pending_file_irps p) irp = Some i"
      by blast
    note inv' = etw_invD[OF inv]
    let ?row = "complete_row d (file_io_raw_sequence p) (file_io_events p ! i)"
    let ?m = "bt_remove irp (pending_file_irps p)"
    have entry: "irp_entry_ok (file_io_events p) irp i"
      using inv'(5) i bt_allD by (fastforce simp: irps_ok_def)
    then have len: "i < length (file_io_events p)"
      by (simp add: irp_entry_ok_def)
    then have eq: "merge_file_io_completion d p =
        p\<lparr>pending_file_irps := ?m, matched_op_end_count := Suc (matched_op_end_count p),
           file_io_events := (file_io_events p)[i := ?row]\<rparr>"
      using irp i by (simp add: merge_file_io_completion_def Let_def)
    have same: "fe_pid ?row = fe_pid (file_io_events p ! i)" "fe_sequence ?row = fe_sequence (file_io_events p ! i)"
        "fe_path ?row = fe_path (file_io_events p ! i)" "fe_event ?row = fe_event (file_io_events p ! i)"
        "fe_irp_ptr ?row = fe_irp_ptr (file_io_events p ! i)"
      and complete: "fe_completion_sequence ?row \<noteq> None"
      by (simp_all add: complete_row_def)
    have filters: "length (filter P ((file_io_events p)[i := ?row])) = length (filter P (file_io_events p))"
      if "P ?row = P (file_io_events p ! i)" for P
      using filter_length_update[OF len, of P ?row] that by simp
    have map_row: "map f ((file_io_events p)[i := ?row]) = map f (file_io_events p)"
      if "f ?row = f (file_io_events p ! i)" for f :: "file_io_event \<Rightarrow> nat"
      using that by (metis list_update_id map_update)
    show ?thesis
      unfolding eq
    proof (rule etw_invI, goal_cases)
      case 2
      show ?case
        using inv'(2) set_update_rows[OF len, of "\<lambda>e. fe_pid e = target_pid p" ?row] same(1) len
          map_row[of fe_sequence, OF same(2)]
        by (simp add: rows_ok_def)
    next
      case 5
      have "irp_entry_ok ((file_io_events p)[i := ?row]) irp' j" if "bt_get ?m irp' = Some j" for irp' j
        using that len inv'(5) i irp_entries_distinct[of "file_io_events p" "pending_file_irps p" irp i irp']
          bt_allD[of "irp_entry_ok (file_io_events p)" "pending_file_irps p" irp' j]
        by (auto simp: irps_ok_def irp_entry_ok_def bt_get_remove nth_list_update split: if_splits)
      with inv'(5) show ?case
        by (simp add: irps_ok_def bt.ok_del bt_all_iff)
    next
      case 7
      have "length (pending_file_irps p) = Suc (length ?m)"
        using inv'(5) i bt.len_del[of "pending_file_irps p" irp] bt.len_pos[of "pending_file_irps p" irp]
        by (auto simp: irps_ok_def domIff)
      with inv'(7) show ?case
        using filters[of "\<lambda>e. fe_irp_ptr e \<noteq> None"] same entry
          filter_length_update[OF len, of "\<lambda>e. fe_completion_sequence e \<noteq> None" ?row] complete
        by (simp add: irp_balance_def irp_rows_def completed_rows_def irp_entry_ok_def)
    next
      case 8
      show ?case
        using inv'(8) filters[of "\<lambda>e. fe_path e \<noteq> None"] filters[of "\<lambda>e. fe_path e = None"] same
        by (simp add: path_balance_def)
    next
      case 9
      show ?case
        using inv'(9) filters[of "\<lambda>e. fe_event e = _"] same by (simp add: counts_ok_def)
    qed (use inv' in \<open>simp_all add: vectors_ok_def targets_ok_def pending_ok_def stack_balance_def\<close>)
  qed
qed

lemma paths_only_inv: "etw_inv p \<Longrightarrow> etw_inv (p\<lparr>file_paths_by_pointer := m\<rparr>)"
  unfolding etw_inv_def etw_inv_defs by simp

lemma ignored_only_inv: "etw_inv p \<Longrightarrow> etw_inv (p\<lparr>ignored_file_irps := m\<rparr>)"
  unfolding etw_inv_def etw_inv_defs by simp

lemma sequence_only_inv: "etw_inv p \<Longrightarrow> etw_inv (p\<lparr>file_io_raw_sequence := n\<rparr>)"
  unfolding etw_inv_def etw_inv_defs by simp

lemma cache_path_inv: "etw_inv p \<Longrightarrow> etw_inv (cache_file_path d p)"
  by (simp add: cache_file_path_def paths_only_inv split: option.split)

lemma paths_kept [simp]:
  "kept n p (cache_file_path d q) = kept n p q" "kept n p (remove_file_path d q) = kept n p q"
  by (simp_all add: cache_file_path_def remove_file_path_def kept_def split: option.split)

lemma irps_kept:
  "kept 0 p (merge_file_io_completion d p)" "kept 0 p (ignore_file_io_close d p)" "kept 0 p (push_file_io d p)"
  by (simp_all add: merge_file_io_completion_def ignore_file_io_close_def push_file_io_def index_event_def
      register_irp_def count_unmatched_def remove_file_path_def kept_def Let_def
      split: option.split prod.split)

lemma remove_path_inv: "etw_inv p \<Longrightarrow> etw_inv (remove_file_path d p)"
  by (simp add: remove_file_path_def paths_only_inv)

lemma pending_irp_gone:
  assumes "irps_ok p" and "bt_get (pending_file_irps p) irp = Some i"
  shows "length (pending_file_irps p) = Suc (length (bt_remove irp (pending_file_irps p)))"
  using assms bt.len_del[of "pending_file_irps p" irp] bt.len_pos[of "pending_file_irps p" irp]
  by (auto simp: irps_ok_def domIff)

lemma take_over_inv:
  assumes "etw_inv p" and i: "bt_get (pending_file_irps p) irp = Some i"
  shows "etw_inv (p\<lparr>pending_file_irps := bt_remove irp (pending_file_irps p),
      reused_irp_without_op_end_count := Suc (reused_irp_without_op_end_count p)\<rparr>)"
proof (rule etw_invI, goal_cases)
  case 7
  show ?case
    using etw_invD(7)[OF assms(1)] pending_irp_gone[OF etw_invD(5)[OF assms(1)] i]
    by (simp add: irp_balance_def irp_rows_def completed_rows_def)
qed (use etw_invD[OF assms(1)] in \<open>simp_all add: vectors_ok_def rows_ok_def targets_ok_def pending_ok_def
      irps_ok_def bt.ok_del bt_all_remove stack_balance_def path_balance_def counts_ok_def\<close>)

lemma ignore_close_inv: "etw_inv p \<Longrightarrow> etw_inv (ignore_file_io_close d p)"
  by (auto simp: ignore_file_io_close_def Let_def split: option.split
      intro!: remove_path_inv ignored_only_inv take_over_inv)

definition file_io_pushed :: "decoded_file_io_event \<Rightarrow> file_io_event \<Rightarrow> etw_processor \<Rightarrow> etw_processor" where
  "file_io_pushed d row p =
     index_event (df_timestamp d) \<lparr>tgt_kind = FileIoTarget, tgt_index = length (file_io_events p)\<rparr>
      (p\<lparr>file_path_resolved := (if fe_path row \<noteq> None then Suc (file_path_resolved p) else file_path_resolved p),
         file_path_unresolved := (if fe_path row \<noteq> None then file_path_unresolved p else Suc (file_path_unresolved p)),
         file_io_event_counts := bump (df_event d) (file_io_event_counts p),
         file_io_events := file_io_events p @ [row],
         file_io_timestamps := file_io_timestamps p @ [df_timestamp d],
         file_io_header_threads := file_io_header_threads p @ [df_thread_id d],
         file_io_stack_addresses := file_io_stack_addresses p @ [df_stack_addresses d]\<rparr>)"

definition pushed_row :: "decoded_file_io_event \<Rightarrow> etw_processor \<Rightarrow> file_io_event" where
  "pushed_row d p = file_io_row d (fst (resolve_file_path d p)) (snd (resolve_file_path d p))
     (length (file_io_events p) + 1)"

lemma push_file_io_eq:
  "push_file_io d p = register_irp (df_irp_ptr d) (length (file_io_events p)) (file_io_pushed d (pushed_row d p) p)"
  by (simp add: push_file_io_def file_io_pushed_def pushed_row_def Let_def file_io_row_def
      split: prod.split)

lemma irp_entry_snoc: "irp_entry_ok rows irp i \<Longrightarrow> irp_entry_ok (rows @ [r]) irp i"
  by (auto simp: irp_entry_ok_def nth_append)

lemma push_file_io_inv:
  assumes inv: "etw_inv p" and pid: "df_pid d = target_pid p"
  shows "etw_inv (push_file_io d p)"
proof (rule etw_invI)
  note inv' = etw_invD[OF inv]
  define row where "row = pushed_row d p"
  have row: "fe_pid row = target_pid p" "fe_sequence row = length (file_io_events p) + 1"
      "fe_event row = df_event d" "fe_irp_ptr row = map_option hex64 (df_irp_ptr d)"
      "fe_completion_sequence row = None"
    by (simp_all add: row_def pushed_row_def file_io_row_def pid)
  have eq: "push_file_io d p = register_irp (df_irp_ptr d) (length (file_io_events p)) (file_io_pushed d row p)"
    by (simp add: push_file_io_eq row_def)
  have old_irps: "bt_ok (pending_file_irps p)"
      "bt_all (irp_entry_ok (file_io_events p @ [row])) (pending_file_irps p)"
    using inv'(5) unfolding irps_ok_def by (blast intro: bt_all_mono irp_entry_snoc)+
  have new_irp: "irp_entry_ok (file_io_events p @ [row]) irp (length (file_io_events p))"
    if "df_irp_ptr d = Some irp" for irp
    using row(4,5) that by (simp add: irp_entry_ok_def)
  note defs = eq register_irp_def file_io_pushed_def index_event_def
  show "vectors_ok (push_file_io d p)"
    using inv'(1) by (simp add: defs vectors_ok_def split: option.split)
  show "rows_ok (push_file_io d p)"
    using inv'(2) row by (simp add: defs rows_ok_def Suc_le_eq split: option.split)
  show "targets_ok (push_file_io d p)"
    using bt_all_snoc[OF targets_snoc(2)[OF inv'(3,1)], of "df_timestamp d" "df_timestamp d"
        "\<lparr>tgt_kind = FileIoTarget, tgt_index = length (file_io_events p)\<rparr>"] inv'(1)
    by (simp add: defs targets_ok_def target_at_def vectors_ok_def nth_opt_eq_Some nth_append
        split: option.split)
  show "pending_ok (push_file_io d p)"
    using inv'(4) by (simp add: defs pending_ok_def split: option.split)
  show "irps_ok (push_file_io d p)"
    using old_irps new_irp by (auto simp: defs irps_ok_def bt.ok_ins intro!: bt_all_insert split: option.split)
  show "stack_balance (push_file_io d p)"
    using inv'(6) by (simp add: defs stack_balance_def split: option.split)
  show "irp_balance (push_file_io d p)"
    using inv'(5,7) row(4,5) by (auto simp: defs irp_balance_def irp_rows_def completed_rows_def
        irps_ok_def bt.len_ins domIff split: option.split)
  show "path_balance (push_file_io d p)"
    using inv'(8) by (auto simp: defs path_balance_def split: option.split)
  show "counts_ok (push_file_io d p)"
    using inv'(9) row(3) by (auto simp: defs counts_ok_def bump_counts split: option.split)
qed

lemma push_file_io_index:
  "bt_get (event_indices_by_timestamp (push_file_io d p)) (df_timestamp d) \<notin> {None, Some []}"
  unfolding push_file_io_eq register_irp_def file_io_pushed_def
  using index_event_get by (simp split: option.split del: not_None_eq)

lemma process_file_io_ok:
  assumes "etw_inv p"
  shows "\<exists>p'. process_file_io_event d p = Some p' \<and> etw_inv p' \<and> kept 0 p p'"
proof (cases "file_io_event_matches_target d p")
  case False
  with assms show ?thesis by (simp add: process_file_io_event_def)
next
  case match: True
  define q where "q = prune_pending_stacks_before (df_timestamp d)
      (p\<lparr>file_io_raw_sequence := Suc (file_io_raw_sequence p)\<rparr>)"
  have p1: "etw_inv (p\<lparr>file_io_raw_sequence := Suc (file_io_raw_sequence p)\<rparr>)"
    using assms by (rule sequence_only_inv)
  then have q: "etw_inv q"
    unfolding q_def by (rule prune_inv)
  have "kept 0 (p\<lparr>file_io_raw_sequence := Suc (file_io_raw_sequence p)\<rparr>) q"
    unfolding q_def using prune_facts p1 by (blast intro: kept_cache dest: etw_invD)
  then have kept: "kept 0 p q"
    by (simp add: kept_def)
  show ?thesis
  proof (cases "df_event d = ''op_end'' \<or> df_event d = ''close''")
    case True
    with q kept match show ?thesis
      using kept_trans[OF kept irps_kept(1)] kept_trans[OF kept irps_kept(2)]
      unfolding process_file_io_event_def q_def[symmetric] Let_def
      by (auto simp: merge_inv ignore_close_inv)
  next
    case False
    define r where "r = push_file_io d (cache_file_path d q)"
    have pid: "df_pid d = target_pid (cache_file_path d q)"
      using False match kept paths_kept(1)[of 0 p d q]
      by (simp add: file_io_event_matches_target_def event_matches_target_def kept_def)
    have "kept 0 (cache_file_path d q) r"
      unfolding r_def by (rule irps_kept)
    then have r: "kept 0 p r"
      using kept_trans[of 0 p "cache_file_path d q" 0 r] kept by simp
    have "\<exists>p'. attach_pending (df_timestamp d) r = Some p' \<and> etw_inv p' \<and> kept 0 r p'"
      unfolding r_def using pid
      by (intro attach_pending_ok push_file_io_inv cache_path_inv q push_file_io_index)
    then obtain p' where p': "attach_pending (df_timestamp d) r = Some p'" "etw_inv p'" "kept 0 p p'"
      using kept_trans[OF r] by auto
    then show ?thesis
      using False match remove_path_inv
      unfolding process_file_io_event_def q_def[symmetric] Let_def r_def[symmetric] by simp
  qed
qed

section \<open>Streams of records\<close>

fun is_stack_walk :: "decoded_record \<Rightarrow> bool" where
  "is_stack_walk (StackWalkRecord _) = True"
| "is_stack_walk _ = False"

lemma process_decoded_ok:
  "etw_inv p \<Longrightarrow> \<exists>p'. process_decoded r p = Some p' \<and> etw_inv p' \<and> kept (if is_stack_walk r then 1 else 0) p p'"
  using process_stack_walk_ok process_lifecycle_ok process_file_io_ok by (cases r) auto

lemma process_all_ok:
  "etw_inv p \<Longrightarrow> \<exists>p'. process_all rs p = Some p' \<and> etw_inv p' \<and> kept (length (filter is_stack_walk rs)) p p'"
proof (induction rs arbitrary: p)
  case (Cons r rs)
  obtain q where q: "process_decoded r p = Some q" "etw_inv q" "kept (if is_stack_walk r then 1 else 0) p q"
    using process_decoded_ok[OF Cons.prems] by blast
  obtain p' where "process_all rs q = Some p'" "etw_inv p'" "kept (length (filter is_stack_walk rs)) q p'"
    using Cons.IH[OF q(2)] by blast
  with q show ?case
    using kept_trans[OF q(3)] by (auto split: if_splits)
qed simp

lemma process_all_new:
  obtains p where "process_all rs (etw_processor_new pid s) = Some p" and "etw_inv p"
    and "target_pid p = pid" and "settings p = s"
    and "stack_walk_events p = length (filter is_stack_walk rs)"
    and "lifecycle_stack_stats p = stack_stats_default" and "file_io_stack_stats p = stack_stats_default"
  using process_all_ok[OF etw_inv_new, of rs pid s] by (auto simp: kept_def etw_processor_new_def)

end
