(* ===== verification/Etw_Trace.thy ===== *)
theory Etw_Trace
  imports Etw_Run
begin

text \<open>
  From the stream of records to the output of a trace (\<open>post_process_trace\<close>): the stacks of the rows
  are resolved once the last record is in, the rows are written and the summary is made. The
  properties of the processor are stated over arbitrary streams.
\<close>

section \<open>Post-processing\<close>

record trace_output =
  out_process :: "lifecycle_event list option"
  out_file_io :: "file_io_event list option"
  out_summary :: etw_summary

text \<open>The statuses are those of \<open>OpenTraceW\<close>, \<open>ProcessTrace\<close> and \<open>CloseTrace\<close>; \<open>fs_error\<close> tells
  whether writing a file fails. \<open>None\<close> would be a panic of the callback or of \<open>finalize_stacks\<close>.\<close>

definition etw_error :: "string \<Rightarrow> nat \<Rightarrow> dbgflow_error" where
  "etw_error operation status =
     Backend (operation @ '' failed with Win32 error '' @ show_nat status)"

definition post_process_trace ::
    "bool \<Rightarrow> nat \<Rightarrow> nat \<Rightarrow> (etw_event_set \<Rightarrow> string option) \<Rightarrow> u32 \<Rightarrow> native_etw_settings
       \<Rightarrow> decoded_record list \<Rightarrow> trace_output result option" where
  "post_process_trace open_ok process_status close_status fs_error pid s records =
     (if \<not> open_ok then Some (Inl (Backend ''OpenTraceW failed for native ETW trace''))
      else case process_all records (etw_processor_new pid s) of
        None \<Rightarrow> None
      | Some p \<Rightarrow>
          if process_status \<noteq> 0 then Some (Inl (etw_error ''ProcessTrace'' process_status))
          else
            let p1 = (if close_status \<noteq> 0
                      then push_warning (''CloseTrace returned Win32 error '' @ show_nat close_status) p
                      else p)
            in case finalize_stacks (set_stacks_enabled s) p1 of
                 None \<Rightarrow> None
               | Some q \<Rightarrow>
                   Some (case (if includes_set s Process then fs_error Process else None,
                               if includes_set s FileIo then fs_error FileIo else None) of
                           (Some e, _) \<Rightarrow> Inl (Artifact e)
                         | (None, Some e) \<Rightarrow> Inl (Artifact e)
                         | (None, None) \<Rightarrow>
                             Inr \<lparr>out_process = (if includes_set s Process then Some (lifecycle_events q) else None),
                                  out_file_io = (if includes_set s FileIo then Some (file_io_events q) else None),
                                  out_summary = finish_processor q\<rparr>))"

section \<open>Resolving the stacks\<close>

definition stack_text :: "u64 list \<Rightarrow> module_interval list \<Rightarrow> int \<Rightarrow> utext list" where
  "stack_text addresses mods timestamp =
     map frame_value (rev (resolve_stack_addresses addresses mods timestamp))"

lemma finalize_stack_text: "fst (finalize_stack a ms t st) = stack_text a ms t"
  by (simp add: finalize_stack_def stack_text_def Let_def)

definition stats_sum :: "stack_stats \<Rightarrow> bool" where
  "stats_sum st \<longleftrightarrow> st_resolved st + st_unresolved st = st_total st"

lemma finalize_stack_stats:
  "st_total (snd (finalize_stack a ms t st)) = st_total st + length a"
  "stats_sum st \<Longrightarrow> stats_sum (snd (finalize_stack a ms t st))"
proof -
  show "st_total (snd (finalize_stack a ms t st)) = st_total st + length a"
    by (simp add: finalize_stack_def resolve_stack_addresses_def Let_def)
  show "stats_sum (snd (finalize_stack a ms t st))" if "stats_sum st"
    using that sum_length_filter_compl[of frame_resolved "resolve_stack_addresses a ms t"]
    by (simp add: finalize_stack_def stats_sum_def Let_def)
qed

definition lifecycle_finished :: "etw_processor \<Rightarrow> nat \<Rightarrow> lifecycle_event" where
  "lifecycle_finished p i = (lifecycle_events p ! i)
     \<lparr>le_stack := stack_text (lifecycle_stack_addresses p ! i) (modules p) (lifecycle_timestamps p ! i)\<rparr>"

definition file_io_finished :: "etw_processor \<Rightarrow> nat \<Rightarrow> file_io_event" where
  "file_io_finished p i = (file_io_events p ! i)
     \<lparr>fe_stack := stack_text (file_io_stack_addresses p ! i) (modules p) (file_io_timestamps p ! i)\<rparr>"

lemma finalize_lifecycle_spec:
  assumes "index + length rest = length (lifecycle_events p)"
    and "length (lifecycle_timestamps p) = length (lifecycle_events p)"
  shows "\<exists>evs st. finalize_lifecycle index rest p =
        Some (p\<lparr>lifecycle_events := evs, lifecycle_stack_stats := st\<rparr>)
      \<and> length evs = length (lifecycle_events p)
      \<and> (\<forall>i. i < length evs \<longrightarrow> evs ! i = (if i < index then lifecycle_events p ! i
            else (lifecycle_events p ! i)
              \<lparr>le_stack := stack_text (rest ! (i - index)) (modules p) (lifecycle_timestamps p ! i)\<rparr>))
      \<and> st_total st = st_total (lifecycle_stack_stats p) + sum_list (map length rest)
      \<and> (stats_sum (lifecycle_stack_stats p) \<longrightarrow> stats_sum st)"
  using assms
proof (induction rest arbitrary: index p)
  case Nil
  then show ?case
    by (intro exI[of _ "lifecycle_events p"] exI[of _ "lifecycle_stack_stats p"]) simp
next
  case (Cons a rest)
  let ?ts = "lifecycle_timestamps p ! index"
  let ?st = "snd (finalize_stack a (modules p) ?ts (lifecycle_stack_stats p))"
  let ?q = "p\<lparr>lifecycle_events := (lifecycle_events p)[index := (lifecycle_events p ! index)
        \<lparr>le_stack := stack_text a (modules p) ?ts\<rparr>], lifecycle_stack_stats := ?st\<rparr>"
  have step: "finalize_lifecycle index (a # rest) p = finalize_lifecycle (Suc index) rest ?q"
    using Cons.prems by (simp add: case_prod_beta finalize_stack_text)
  obtain evs st where IH: "finalize_lifecycle (Suc index) rest ?q =
        Some (?q\<lparr>lifecycle_events := evs, lifecycle_stack_stats := st\<rparr>)"
      "length evs = length (lifecycle_events p)"
      "\<And>i. i < length evs \<Longrightarrow> evs ! i = (if i < Suc index then lifecycle_events ?q ! i
            else (lifecycle_events ?q ! i)
              \<lparr>le_stack := stack_text (rest ! (i - Suc index)) (modules p) (lifecycle_timestamps p ! i)\<rparr>)"
      "st_total st = st_total ?st + sum_list (map length rest)" "stats_sum ?st \<longrightarrow> stats_sum st"
    using Cons.IH[of "Suc index" ?q] Cons.prems by auto
  have "evs ! i = (if i < index then lifecycle_events p ! i
            else (lifecycle_events p ! i)
              \<lparr>le_stack := stack_text ((a # rest) ! (i - index)) (modules p) (lifecycle_timestamps p ! i)\<rparr>)"
    if "i < length evs" for i
    using IH(3)[OF that] IH(2) that Cons.prems(1) by (auto simp: nth_list_update less_Suc_eq nth_Cons')
  then show ?case
    using step IH(1,2,4,5) finalize_stack_stats[where a = a and ms = "modules p" and t = ?ts and st = "lifecycle_stack_stats p"]
    by (intro exI[of _ evs] exI[of _ st]) simp
qed

lemma finalize_file_io_spec:
  assumes "index + length rest = length (file_io_events p)"
    and "length (file_io_timestamps p) = length (file_io_events p)"
  shows "\<exists>evs st. finalize_file_io index rest p =
        Some (p\<lparr>file_io_events := evs, file_io_stack_stats := st\<rparr>)
      \<and> length evs = length (file_io_events p)
      \<and> (\<forall>i. i < length evs \<longrightarrow> evs ! i = (if i < index then file_io_events p ! i
            else (file_io_events p ! i)
              \<lparr>fe_stack := stack_text (rest ! (i - index)) (modules p) (file_io_timestamps p ! i)\<rparr>))
      \<and> st_total st = st_total (file_io_stack_stats p) + sum_list (map length rest)
      \<and> (stats_sum (file_io_stack_stats p) \<longrightarrow> stats_sum st)"
  using assms
proof (induction rest arbitrary: index p)
  case Nil
  then show ?case
    by (intro exI[of _ "file_io_events p"] exI[of _ "file_io_stack_stats p"]) simp
next
  case (Cons a rest)
  let ?ts = "file_io_timestamps p ! index"
  let ?st = "snd (finalize_stack a (modules p) ?ts (file_io_stack_stats p))"
  let ?q = "p\<lparr>file_io_events := (file_io_events p)[index := (file_io_events p ! index)
        \<lparr>fe_stack := stack_text a (modules p) ?ts\<rparr>], file_io_stack_stats := ?st\<rparr>"
  have step: "finalize_file_io index (a # rest) p = finalize_file_io (Suc index) rest ?q"
    using Cons.prems by (simp add: case_prod_beta finalize_stack_text)
  obtain evs st where IH: "finalize_file_io (Suc index) rest ?q =
        Some (?q\<lparr>file_io_events := evs, file_io_stack_stats := st\<rparr>)"
      "length evs = length (file_io_events p)"
      "\<And>i. i < length evs \<Longrightarrow> evs ! i = (if i < Suc index then file_io_events ?q ! i
            else (file_io_events ?q ! i)
              \<lparr>fe_stack := stack_text (rest ! (i - Suc index)) (modules p) (file_io_timestamps p ! i)\<rparr>)"
      "st_total st = st_total ?st + sum_list (map length rest)" "stats_sum ?st \<longrightarrow> stats_sum st"
    using Cons.IH[of "Suc index" ?q] Cons.prems by auto
  have "evs ! i = (if i < index then file_io_events p ! i
            else (file_io_events p ! i)
              \<lparr>fe_stack := stack_text ((a # rest) ! (i - index)) (modules p) (file_io_timestamps p ! i)\<rparr>)"
    if "i < length evs" for i
    using IH(3)[OF that] IH(2) that Cons.prems(1) by (auto simp: nth_list_update less_Suc_eq nth_Cons')
  then show ?case
    using step IH(1,2,4,5) finalize_stack_stats[where a = a and ms = "modules p" and t = ?ts and st = "file_io_stack_stats p"]
    by (intro exI[of _ evs] exI[of _ st]) simp
qed

lemma warn_stacks_only: "\<exists>ws. warn_stacks b p = p\<lparr>warnings := ws\<rparr>"
proof -
  have "warn_stacks b p = p\<lparr>warnings := warnings (warn_stacks b p)\<rparr>"
    unfolding warn_stacks_def push_warning_def Let_def by simp
  then show ?thesis by blast
qed

lemma finalize_stacks_spec:
  assumes "vectors_ok p"
  shows "\<exists>evs st fevs fstats ws. finalize_stacks b p =
        Some (p\<lparr>lifecycle_events := evs, lifecycle_stack_stats := st, file_io_events := fevs,
               file_io_stack_stats := fstats, warnings := ws\<rparr>)
      \<and> evs = map (lifecycle_finished p) [0..<length (lifecycle_events p)]
      \<and> fevs = map (file_io_finished p) [0..<length (file_io_events p)]
      \<and> st_total st = st_total (lifecycle_stack_stats p) + sum_list (map length (lifecycle_stack_addresses p))
      \<and> st_total fstats = st_total (file_io_stack_stats p) + sum_list (map length (file_io_stack_addresses p))
      \<and> (stats_sum (lifecycle_stack_stats p) \<longrightarrow> stats_sum st)
      \<and> (stats_sum (file_io_stack_stats p) \<longrightarrow> stats_sum fstats)"
proof -
  obtain evs st where l: "finalize_lifecycle 0 (lifecycle_stack_addresses p) p =
        Some (p\<lparr>lifecycle_events := evs, lifecycle_stack_stats := st\<rparr>)"
      "length evs = length (lifecycle_events p)"
      "\<forall>i. i < length evs \<longrightarrow> evs ! i = lifecycle_finished p i"
      "st_total st = st_total (lifecycle_stack_stats p) + sum_list (map length (lifecycle_stack_addresses p))"
      "stats_sum (lifecycle_stack_stats p) \<longrightarrow> stats_sum st"
    using finalize_lifecycle_spec[of 0 "lifecycle_stack_addresses p" p] assms
    by (auto simp: vectors_ok_def lifecycle_finished_def)
  let ?p1 = "p\<lparr>lifecycle_events := evs, lifecycle_stack_stats := st\<rparr>"
  obtain fevs fstats where f: "finalize_file_io 0 (file_io_stack_addresses ?p1) ?p1 =
        Some (?p1\<lparr>file_io_events := fevs, file_io_stack_stats := fstats\<rparr>)"
      "length fevs = length (file_io_events p)"
      "\<forall>i. i < length fevs \<longrightarrow> fevs ! i = file_io_finished p i"
      "st_total fstats = st_total (file_io_stack_stats p) + sum_list (map length (file_io_stack_addresses p))"
      "stats_sum (file_io_stack_stats p) \<longrightarrow> stats_sum fstats"
    using finalize_file_io_spec[of 0 "file_io_stack_addresses p" ?p1] assms
    by (auto simp: vectors_ok_def file_io_finished_def)
  obtain ws where ws: "warn_stacks b (?p1\<lparr>file_io_events := fevs, file_io_stack_stats := fstats\<rparr>) =
      ?p1\<lparr>file_io_events := fevs, file_io_stack_stats := fstats\<rparr>\<lparr>warnings := ws\<rparr>"
    using warn_stacks_only by blast
  have "evs = map (lifecycle_finished p) [0..<length (lifecycle_events p)]"
    using l(2,3) by (intro nth_equalityI) simp_all
  moreover have "fevs = map (file_io_finished p) [0..<length (file_io_events p)]"
    using f(2,3) by (intro nth_equalityI) simp_all
  moreover have "finalize_stacks b p = Some (?p1\<lparr>file_io_events := fevs, file_io_stack_stats := fstats\<rparr>\<lparr>warnings := ws\<rparr>)"
    using l(1) f(1) ws by (simp add: finalize_stacks_def)
  ultimately show ?thesis
    using l(4,5) f(4,5) by (intro exI[of _ evs] exI[of _ st] exI[of _ fevs] exI[of _ fstats] exI[of _ ws]) simp
qed

lemma post_process_run:
  assumes "process_all rs (etw_processor_new pid s) = Some p" and "vectors_ok p"
    and "st_total (lifecycle_stack_stats p) = 0" and "st_total (file_io_stack_stats p) = 0"
    and "stats_sum (lifecycle_stack_stats p)" and "stats_sum (file_io_stack_stats p)"
  obtains st fstats ws where
    "post_process_trace True 0 cs (\<lambda>_. None) pid s rs =
       Some (Inr \<lparr>out_process = (if includes_set s Process
                                then Some (map (lifecycle_finished p) [0..<length (lifecycle_events p)]) else None),
                  out_file_io = (if includes_set s FileIo
                                then Some (map (file_io_finished p) [0..<length (file_io_events p)]) else None),
                  out_summary = finish_processor
                    (p\<lparr>lifecycle_events := map (lifecycle_finished p) [0..<length (lifecycle_events p)],
                       lifecycle_stack_stats := st,
                       file_io_events := map (file_io_finished p) [0..<length (file_io_events p)],
                       file_io_stack_stats := fstats, warnings := ws\<rparr>)\<rparr>)"
    and "st_resolved st + st_unresolved st = st_total st" and "st_resolved fstats + st_unresolved fstats = st_total fstats"
    and "st_total st = sum_list (map length (lifecycle_stack_addresses p))"
    and "st_total fstats = sum_list (map length (file_io_stack_addresses p))"
proof -
  define q where "q = (if cs \<noteq> 0
      then push_warning (''CloseTrace returned Win32 error '' @ show_nat cs) p else p)"
  have "q = p\<lparr>warnings := warnings q\<rparr>"
    unfolding q_def push_warning_def by simp
  then obtain ws0 where q: "q = p\<lparr>warnings := ws0\<rparr>"
    by blast
  have same: "vectors_ok q" "lifecycle_finished q = lifecycle_finished p" "file_io_finished q = file_io_finished p"
    using assms(2) unfolding q by (simp_all add: vectors_ok_def lifecycle_finished_def[abs_def] file_io_finished_def[abs_def])
  obtain evs st fevs fstats ws where fin: "finalize_stacks (set_stacks_enabled s) q =
        Some (q\<lparr>lifecycle_events := evs, lifecycle_stack_stats := st, file_io_events := fevs,
               file_io_stack_stats := fstats, warnings := ws\<rparr>)"
      "evs = map (lifecycle_finished q) [0..<length (lifecycle_events q)]"
      "fevs = map (file_io_finished q) [0..<length (file_io_events q)]"
      "st_total st = st_total (lifecycle_stack_stats q) + sum_list (map length (lifecycle_stack_addresses q))"
      "st_total fstats = st_total (file_io_stack_stats q) + sum_list (map length (file_io_stack_addresses q))"
      "stats_sum (lifecycle_stack_stats q) \<longrightarrow> stats_sum st" "stats_sum (file_io_stack_stats q) \<longrightarrow> stats_sum fstats"
    using finalize_stacks_spec[OF same(1), of "set_stacks_enabled s"] by blast
  have run: "post_process_trace True 0 cs (\<lambda>_. None) pid s rs =
      Some (Inr \<lparr>out_process = (if includes_set s Process then Some evs else None),
                 out_file_io = (if includes_set s FileIo then Some fevs else None),
                 out_summary = finish_processor (q\<lparr>lifecycle_events := evs, lifecycle_stack_stats := st,
                    file_io_events := fevs, file_io_stack_stats := fstats, warnings := ws\<rparr>)\<rparr>)"
    using assms(1) fin(1) by (simp add: post_process_trace_def q_def)
  show thesis
  proof (rule that)
    show "st_resolved st + st_unresolved st = st_total st" "st_resolved fstats + st_unresolved fstats = st_total fstats"
      using fin(6,7) assms(5,6) by (simp_all add: stats_sum_def q)
    show "st_total st = sum_list (map length (lifecycle_stack_addresses p))"
      "st_total fstats = sum_list (map length (file_io_stack_addresses p))"
      using fin(4,5) assms(3,4) by (simp_all add: q)
    show "post_process_trace True 0 cs (\<lambda>_. None) pid s rs =
       Some (Inr \<lparr>out_process = (if includes_set s Process
                                then Some (map (lifecycle_finished p) [0..<length (lifecycle_events p)]) else None),
                  out_file_io = (if includes_set s FileIo
                                then Some (map (file_io_finished p) [0..<length (file_io_events p)]) else None),
                  out_summary = finish_processor
                    (p\<lparr>lifecycle_events := map (lifecycle_finished p) [0..<length (lifecycle_events p)],
                       lifecycle_stack_stats := st,
                       file_io_events := map (file_io_finished p) [0..<length (file_io_events p)],
                       file_io_stack_stats := fstats, warnings := ws\<rparr>)\<rparr>)"
      unfolding run fin(2,3) same(2,3) by (simp add: q)
  qed
qed

end
