(* ===== verification/Unicode.thy ===== *)
theory Unicode
  imports Common Hex
begin

text \<open>
  Text as the components share it: UTF-8 (lossy and strict, as \<open>String::from_utf8_lossy\<close> and
  \<open>str::from_utf8\<close> read it), trimming and splitting at white space, ASCII case, and decimal
  numbers (\<open>str::parse::<usize>\<close>), with the round trips of encoding and of printing.
\<close>

type_synonym byte = "8 word"

section \<open>White space and case\<close>

definition trim :: "utext \<Rightarrow> utext" where
  "trim t = rev (dropWhile is_whitespace (rev (dropWhile is_whitespace t)))"

text \<open>\<open>str::trim_end_matches\<close> with a set of characters.\<close>

definition trim_end_matches :: "(nat \<Rightarrow> bool) \<Rightarrow> utext \<Rightarrow> utext" where
  "trim_end_matches P t = rev (dropWhile P (rev t))"

text \<open>\<open>str::split_whitespace\<close>: no empty pieces.\<close>

definition split_whitespace :: "utext \<Rightarrow> utext list" where
  "split_whitespace t = filter (\<lambda>p. p \<noteq> []) (split_on is_whitespace t)"

text \<open>\<open>str::split_once\<close> at a character.\<close>

definition split_once :: "nat \<Rightarrow> utext \<Rightarrow> (utext \<times> utext) option" where
  "split_once c t =
     (if c \<in> set t then Some (takeWhile (\<lambda>x. x \<noteq> c) t, tl (dropWhile (\<lambda>x. x \<noteq> c) t)) else None)"

text \<open>\<open>str::starts_with\<close> and \<open>str::strip_prefix\<close>.\<close>

fun starts_with_text :: "'a list \<Rightarrow> 'a list \<Rightarrow> bool" where
  "starts_with_text t [] = True"
| "starts_with_text [] (p # ps) = False"
| "starts_with_text (x # t) (p # ps) = (x = p \<and> starts_with_text t ps)"

definition strip_prefix :: "'a list \<Rightarrow> 'a list \<Rightarrow> 'a list option" where
  "strip_prefix t p = (if starts_with_text t p then Some (drop (length p) t) else None)"

definition to_ascii_uppercase :: "utext \<Rightarrow> utext" where
  "to_ascii_uppercase t = map (\<lambda>c. if 97 \<le> c \<and> c \<le> 122 then c - 32 else c) t"

definition to_ascii_lowercase :: "utext \<Rightarrow> utext" where
  "to_ascii_lowercase t = map (\<lambda>c. if 65 \<le> c \<and> c \<le> 90 then c + 32 else c) t"

definition eq_ignore_ascii_case :: "utext \<Rightarrow> utext \<Rightarrow> bool" where
  "eq_ignore_ascii_case a b = (to_ascii_lowercase a = to_ascii_lowercase b)"

lemma starts_with_text_iff: "starts_with_text t p \<longleftrightarrow> (\<exists>r. t = p @ r)"
  by (induction t p rule: starts_with_text.induct) auto

lemma strip_prefix_append [simp]: "strip_prefix (p @ r) p = Some r"
  using starts_with_text_iff[of "p @ r" p] by (simp add: strip_prefix_def)

lemma strip_prefix_Some: "strip_prefix t p = Some r \<longleftrightarrow> t = p @ r"
  by (auto simp: strip_prefix_def starts_with_text_iff)

lemma dropWhile_id: "t = [] \<or> \<not> P (hd t) \<Longrightarrow> dropWhile P t = t"
  by (cases t) auto

lemma trim_id: "t = [] \<or> \<not> is_whitespace (hd t) \<and> \<not> is_whitespace (last t) \<Longrightarrow> trim t = t"
  by (auto simp: trim_def dropWhile_id hd_rev)

lemma trim_space_front: "is_whitespace c \<Longrightarrow> trim (c # t) = trim t"
  by (simp add: trim_def)

lemma split_once_append:
  "c \<notin> set a \<Longrightarrow> split_once c (a @ c # b) = Some (a, b)"
  by (induction a) (auto simp: split_once_def)

lemma split_once_None: "split_once c t = None \<longleftrightarrow> c \<notin> set t"
  by (simp add: split_once_def)

lemma split_whitespace_word:
  assumes "w \<noteq> []" and "\<forall>c \<in> set w. \<not> is_whitespace c" and "is_whitespace s"
  shows "split_whitespace (w @ s # t) = w # split_whitespace t"
  using assms by (simp add: split_whitespace_def split_on_prefix)

lemma split_whitespace_last:
  "w \<noteq> [] \<Longrightarrow> \<forall>c \<in> set w. \<not> is_whitespace c \<Longrightarrow> split_whitespace w = [w]"
  by (simp add: split_whitespace_def split_on_no_sep)

lemma split_whitespace_skip: "is_whitespace s \<Longrightarrow> split_whitespace (s # t) = split_whitespace t"
  by (simp add: split_whitespace_def)

lemma split_whitespace_Nil [simp]: "split_whitespace [] = []"
  by (simp add: split_whitespace_def)

section \<open>UTF-8\<close>

text \<open>\<open>str::len\<close>: the bytes of the UTF-8 encoding.\<close>

definition utf8_width :: "nat \<Rightarrow> nat" where
  "utf8_width c = (if c < 0x80 then 1 else if c < 0x800 then 2 else if c < 0x10000 then 3 else 4)"

definition byte_len :: "utext \<Rightarrow> nat" where
  "byte_len t = sum_list (map utf8_width t)"

text \<open>\<open>utf8_need b\<close> gives for a lead byte the number of bytes that follow it and the range of the
  first of them.\<close>

definition utf8_need :: "nat \<Rightarrow> (nat \<times> nat \<times> nat) option" where
  "utf8_need b =
     (if 0xC2 \<le> b \<and> b \<le> 0xDF then Some (1, 0x80, 0xBF)
      else if b = 0xE0 then Some (2, 0xA0, 0xBF)
      else if b = 0xED then Some (2, 0x80, 0x9F)
      else if 0xE1 \<le> b \<and> b \<le> 0xEF then Some (2, 0x80, 0xBF)
      else if b = 0xF0 then Some (3, 0x90, 0xBF)
      else if 0xF1 \<le> b \<and> b \<le> 0xF3 then Some (3, 0x80, 0xBF)
      else if b = 0xF4 then Some (3, 0x80, 0x8F)
      else None)"

text \<open>The continuation bytes at the front of the input, at most \<open>n\<close>, the first one in its range.\<close>

fun utf8_follow :: "nat \<Rightarrow> nat \<Rightarrow> nat \<Rightarrow> nat list \<Rightarrow> nat list" where
  "utf8_follow 0 lo hi bs = []"
| "utf8_follow (Suc n) lo hi [] = []"
| "utf8_follow (Suc n) lo hi (b # bs) =
     (if lo \<le> b \<and> b \<le> hi then b # utf8_follow n 0x80 0xBF bs else [])"

lemma utf8_follow_length: "length (utf8_follow n lo hi bs) \<le> length bs"
  by (induction n lo hi bs rule: utf8_follow.induct) auto

definition utf8_char :: "nat \<Rightarrow> nat list \<Rightarrow> nat" where
  "utf8_char lead follow =
     foldl (\<lambda>acc b. acc * 64 + b mod 64) (lead mod (if length follow = 1 then 32 else if length follow = 2 then 16 else 8)) follow"

text \<open>\<open>String::from_utf8_lossy\<close>: every maximal prefix of an ill-formed sequence becomes one
  replacement character.\<close>

function utf8_lossy :: "nat list \<Rightarrow> utext" where
  "utf8_lossy [] = []"
| "utf8_lossy (b # bs) =
     (if b < 0x80 then b # utf8_lossy bs
      else case utf8_need b of
        None \<Rightarrow> 0xFFFD # utf8_lossy bs
      | Some (n, lo, hi) \<Rightarrow>
          (let follow = utf8_follow n lo hi bs
           in (if length follow = n then utf8_char b follow else 0xFFFD)
                # utf8_lossy (drop (length follow) bs)))"
  by pat_completeness auto
termination by (relation "measure length") (auto intro: le_imp_less_Suc)

text \<open>\<open>str::from_utf8\<close>: \<open>None\<close> when a sequence is ill-formed; and the encoding of a text.\<close>

function utf8_decode :: "nat list \<Rightarrow> utext option" where
  "utf8_decode [] = Some []"
| "utf8_decode (b # bs) =
     (if b < 0x80 then map_option ((#) b) (utf8_decode bs)
      else case utf8_need b of
        None \<Rightarrow> None
      | Some (n, lo, hi) \<Rightarrow>
          (let follow = utf8_follow n lo hi bs
           in if length follow = n then map_option ((#) (utf8_char b follow)) (utf8_decode (drop n bs))
              else None))"
  by pat_completeness auto
termination by (relation "measure length") (auto intro: le_imp_less_Suc)

definition utf8_encode_char :: "nat \<Rightarrow> nat list" where
  "utf8_encode_char c =
     (if c < 0x80 then [c]
      else if c < 0x800 then [0xC0 + c div 64, 0x80 + c mod 64]
      else if c < 0x10000 then [0xE0 + c div 4096, 0x80 + c div 64 mod 64, 0x80 + c mod 64]
      else [0xF0 + c div 262144, 0x80 + c div 4096 mod 64, 0x80 + c div 64 mod 64, 0x80 + c mod 64])"

definition utf8_encode :: "utext \<Rightarrow> nat list" where
  "utf8_encode t = concat (map utf8_encode_char t)"

text \<open>The Unicode scalar values: what a Rust \<open>char\<close> can be.\<close>

definition is_char :: "nat \<Rightarrow> bool" where
  "is_char c = (c < 0xD800 \<or> 0xE000 \<le> c \<and> c < 0x110000)"

definition is_follow :: "nat \<Rightarrow> bool" where
  "is_follow b = (0x80 \<le> b \<and> b \<le> 0xBF)"

lemma utf8_decode_1: "utf8_need b = Some (1, lo, hi) \<Longrightarrow> \<not> b < 0x80 \<Longrightarrow> lo \<le> x \<Longrightarrow> x \<le> hi \<Longrightarrow>
    utf8_decode (b # x # bs) = map_option ((#) (utf8_char b [x])) (utf8_decode bs)"
  by simp

lemma utf8_decode_2: "utf8_need b = Some (2, lo, hi) \<Longrightarrow> \<not> b < 0x80 \<Longrightarrow> lo \<le> x \<Longrightarrow> x \<le> hi \<Longrightarrow>
    is_follow y \<Longrightarrow>
    utf8_decode (b # x # y # bs) = map_option ((#) (utf8_char b [x, y])) (utf8_decode bs)"
  by (simp add: numeral_2_eq_2 is_follow_def)

lemma utf8_decode_3: "utf8_need b = Some (3, lo, hi) \<Longrightarrow> \<not> b < 0x80 \<Longrightarrow> lo \<le> x \<Longrightarrow> x \<le> hi \<Longrightarrow>
    is_follow y \<Longrightarrow> is_follow z \<Longrightarrow>
    utf8_decode (b # x # y # z # bs) = map_option ((#) (utf8_char b [x, y, z])) (utf8_decode bs)"
  by (simp add: numeral_3_eq_3 is_follow_def)

lemma follow_mod [simp]: "is_follow (0x80 + n mod 64)"
  by (simp add: is_follow_def)

lemma lead_mod: "q < k \<Longrightarrow> (m * k + q) mod k = q" for k :: nat
  by simp

lemma lead_mod_all: "r < 64 \<Longrightarrow> (q * 64 + r) div 64 = q" "r < 64 \<Longrightarrow> (q * 64 + r) mod 64 = r" for q r :: nat
  by simp_all

lemma digits_64:
  fixes c :: nat
  obtains q r where "c = q * 64 + r" and "r < 64"
  by (metis div_mult_mod_eq mod_less_divisor zero_less_numeral)

lemma decode_width_2:
  assumes "0x80 \<le> c" "c < 0x800"
  shows "utf8_decode (utf8_encode_char c @ bs) = map_option ((#) c) (utf8_decode bs)"
proof -
  obtain q r where c: "c = q * 64 + r" "r < 64" by (rule digits_64)
  have q: "2 \<le> q" "q < 32" using assms c by simp_all
  have "utf8_need (0xC0 + q) = Some (1, 0x80, 0xBF)" using q by (simp add: utf8_need_def)
  note step = utf8_decode_1[OF this, of "0x80 + r" bs]
  have "utf8_char (0xC0 + q) [0x80 + r] = c"
    using lead_mod[of q 32 6] lead_mod[of r 64 2] q c by (simp add: utf8_char_def)
  with step q c assms show ?thesis by (simp add: utf8_encode_char_def)
qed

lemma decode_width_3:
  assumes "0x800 \<le> c" "c < 0x10000" "is_char c"
  shows "utf8_decode (utf8_encode_char c @ bs) = map_option ((#) c) (utf8_decode bs)"
proof -
  obtain p r where p: "c = p * 64 + r" "r < 64" by (rule digits_64)
  obtain n q where n: "p = n * 64 + q" "q < 64" by (rule digits_64)
  have d: "c div 64 = p" "p div 64 = n" "p mod 64 = q" "c mod 64 = r"
    using p n by (simp_all only: lead_mod_all)
  then have "c div 4096 = n" using div_mult2_eq[of c 64 64] by simp
  note d = d this
  have b: "n < 16" "n = 0 \<Longrightarrow> 32 \<le> q" "n = 13 \<Longrightarrow> q < 32" using assms p n by (auto simp: is_char_def)
  have "utf8_need (0xE0 + n) = Some (2, if n = 0 then 0xA0 else 0x80, if n = 13 then 0x9F else 0xBF)"
    using b by (auto simp: utf8_need_def)
  from utf8_decode_2[OF this, of "0x80 + q" "0x80 + r" bs]
  have step: "utf8_decode ((0xE0 + n) # (0x80 + q) # (0x80 + r) # bs)
      = map_option ((#) (utf8_char (0xE0 + n) [0x80 + q, 0x80 + r])) (utf8_decode bs)"
    using b(2,3) p n(2)
    by (cases "n = 0"; cases "n = 13") (simp_all del: utf8_decode.simps add: is_follow_def)
  have "utf8_char (0xE0 + n) [0x80 + q, 0x80 + r] = c"
    using lead_mod[of n 16 14] lead_mod[of q 64 2] lead_mod[of r 64 2] b p n by (simp add: utf8_char_def)
  moreover have "utf8_encode_char c = [0xE0 + n, 0x80 + q, 0x80 + r]"
    using assms by (simp add: utf8_encode_char_def d)
  ultimately show ?thesis using step by (simp del: utf8_decode.simps)
qed

lemma decode_width_4:
  assumes "0x10000 \<le> c" "c < 0x110000"
  shows "utf8_decode (utf8_encode_char c @ bs) = map_option ((#) c) (utf8_decode bs)"
proof -
  obtain p r where p: "c = p * 64 + r" "r < 64" by (rule digits_64)
  obtain n q where n: "p = n * 64 + q" "q < 64" by (rule digits_64)
  obtain m l where m: "n = m * 64 + l" "l < 64" by (rule digits_64)
  have d: "c div 64 = p" "p div 64 = n" "n div 64 = m" "p mod 64 = q" "c mod 64 = r" "n mod 64 = l"
    using p n m by (simp_all only: lead_mod_all)
  then have "c div 4096 = n" "c div 262144 = m"
    using div_mult2_eq[of c 64 64] div_mult2_eq[of c 64 4096] div_mult2_eq[of p 64 64] by simp_all
  note d = d this
  have b: "m < 5" "m = 0 \<Longrightarrow> 16 \<le> l" "m = 4 \<Longrightarrow> l < 16" using assms p n m by auto
  have "utf8_need (0xF0 + m) = Some (3, if m = 0 then 0x90 else 0x80, if m = 4 then 0x8F else 0xBF)"
    using b by (auto simp: utf8_need_def)
  from utf8_decode_3[OF this, of "0x80 + l" "0x80 + q" "0x80 + r" bs]
  have step: "utf8_decode ((0xF0 + m) # (0x80 + l) # (0x80 + q) # (0x80 + r) # bs)
      = map_option ((#) (utf8_char (0xF0 + m) [0x80 + l, 0x80 + q, 0x80 + r])) (utf8_decode bs)"
    using b(2,3) p(2) n(2) m(2)
    by (cases "m = 0"; cases "m = 4") (simp_all del: utf8_decode.simps add: is_follow_def)
  have "utf8_char (0xF0 + m) [0x80 + l, 0x80 + q, 0x80 + r] = c"
    using lead_mod[of m 8 30] lead_mod[of l 64 2] lead_mod[of q 64 2] lead_mod[of r 64 2] b p n m
    by (simp add: utf8_char_def)
  moreover have "utf8_encode_char c = [0xF0 + m, 0x80 + l, 0x80 + q, 0x80 + r]"
    using assms by (simp add: utf8_encode_char_def d)
  ultimately show ?thesis using step by (simp del: utf8_decode.simps)
qed

lemma utf8_decode_char:
  assumes "is_char c"
  shows "utf8_decode (utf8_encode_char c @ bs) = map_option ((#) c) (utf8_decode bs)"
proof -
  consider "c < 0x80" | "0x80 \<le> c" "c < 0x800" | "0x800 \<le> c" "c < 0x10000" | "0x10000 \<le> c" "c < 0x110000"
    using assms by (fastforce simp: is_char_def)
  then show ?thesis
    by cases (simp add: utf8_encode_char_def, (simp add: decode_width_2 decode_width_3 decode_width_4 assms)+)
qed

lemma utf8_roundtrip: "\<forall>c \<in> set t. is_char c \<Longrightarrow> utf8_decode (utf8_encode t) = Some t"
  by (induction t) (simp_all add: utf8_encode_def utf8_decode_char)

lemma utf8_encode_append [simp]: "utf8_encode (s @ t) = utf8_encode s @ utf8_encode t"
  by (simp add: utf8_encode_def)

text \<open>An ASCII character is its own encoding, and no other character's encoding has an ASCII byte.\<close>

lemma utf8_encode_ascii: "\<forall>c \<in> set t. c < 0x80 \<Longrightarrow> utf8_encode t = t"
  by (induction t) (simp_all add: utf8_encode_def utf8_encode_char_def)

lemma utf8_encode_no_ascii: "a < 0x80 \<Longrightarrow> a \<notin> set t \<Longrightarrow> a \<notin> set (utf8_encode t)"
  by (auto simp: utf8_encode_def utf8_encode_char_def split: if_splits)

lemma utf8_encode_byte: "\<forall>c \<in> set t. is_char c \<Longrightarrow> b \<in> set (utf8_encode t) \<Longrightarrow> b < 256"
  by (auto simp: utf8_encode_def utf8_encode_char_def is_char_def less_mult_imp_div_less
      split: if_splits)

section \<open>Decimal numbers\<close>

definition digit_value :: "nat \<Rightarrow> nat option" where
  "digit_value c = (if 48 \<le> c \<and> c \<le> 57 then Some (c - 48) else None)"

text \<open>\<open>usize::from_str_radix(_, 10)\<close> on a 64-bit target: one optional plus sign, at least one digit,
  no overflow.\<close>

fun parse_digits :: "nat \<Rightarrow> utext \<Rightarrow> nat option" where
  "parse_digits acc [] = Some acc"
| "parse_digits acc (c # cs) =
     (case digit_value c of
        None \<Rightarrow> None
      | Some d \<Rightarrow> (if 10 * acc + d < 2 ^ 64 then parse_digits (10 * acc + d) cs else None))"

definition parse_usize :: "utext \<Rightarrow> nat option" where
  "parse_usize t =
     (case t of
        [] \<Rightarrow> None
      | c # cs \<Rightarrow>
          (if c = 43 then (if cs = [] then None else parse_digits 0 cs)
           else parse_digits 0 (c # cs)))"

abbreviation show_text :: "nat \<Rightarrow> utext" where
  "show_text n \<equiv> lit (show_nat n)"

lemma digit_value_hex: "d < 10 \<Longrightarrow> digit_value (of_char (hex_digit d)) = Some d"
  using less_16_cases[of d] by (auto simp: digit_value_def hex_digit_def)

lemma show_nat_append: "\<exists>s c. show_nat n = s @ [c]"
  by (subst show_nat.simps) auto

lemma parse_digits_append:
  "parse_digits acc (s @ t) = Option.bind (parse_digits acc s) (\<lambda>a. parse_digits a t)"
  by (induction acc s rule: parse_digits.induct) (auto split: option.splits)

lemma parse_digits_show: "n < 2 ^ 64 \<Longrightarrow> parse_digits 0 (show_text n) = Some n"
proof (induction n rule: show_nat.induct)
  case (1 n)
  show ?case
  proof (cases "n < 10")
    case True
    then show ?thesis by (subst show_nat.simps) (simp add: digit_value_hex)
  next
    case False
    have "n div 10 < 2 ^ 64" using 1(2) by (simp add: less_mult_imp_div_less)
    then have "parse_digits 0 (show_text (n div 10)) = Some (n div 10)" using 1(1) False by simp
    with False 1(2) show ?thesis
      by (subst show_nat.simps) (simp add: parse_digits_append digit_value_hex)
  qed
qed

lemma show_nat_digits: "c \<in> set (show_text n) \<Longrightarrow> 48 \<le> c \<and> c \<le> 57"
proof (induction n rule: show_nat.induct)
  case (1 n)
  have d: "48 \<le> (of_char (hex_digit d) :: nat) \<and> (of_char (hex_digit d) :: nat) \<le> 57" if "d < 10" for d
    using digit_value_hex[OF that] by (auto simp: digit_value_def split: if_splits)
  show ?case
    using 1 d[of n] d[of "n mod 10"] by (cases "n < 10") (auto simp: show_nat.simps[of n])
qed

lemma parse_usize_show: "n < 2 ^ 64 \<Longrightarrow> parse_usize (show_text n) = Some n"
proof -
  assume n: "n < 2 ^ 64"
  obtain c cs where t: "show_text n = c # cs" using show_nat_append[of n] by (cases "show_text n") auto
  have "c \<noteq> 43" using show_nat_digits[of c n] t by auto
  with parse_digits_show[OF n] t show ?thesis by (simp add: parse_usize_def)
qed

text \<open>\<open>str::rsplit_once\<close> with a character, and \<open>parse::<u16>\<close>, which allows one plus sign.\<close>

definition rsplit_once :: "nat \<Rightarrow> utext \<Rightarrow> (utext \<times> utext) option" where
  "rsplit_once c t =
     (case split_once c (rev t) of None \<Rightarrow> None | Some (after, before) \<Rightarrow> Some (rev before, rev after))"

definition parse_u16 :: "utext \<Rightarrow> nat option" where
  "parse_u16 t =
     (case parse_usize t of Some n \<Rightarrow> if n < 2 ^ 16 then Some n else None | None \<Rightarrow> None)"

text \<open>\<open>String::from_utf16_lossy\<close>: an unpaired surrogate becomes the replacement character.\<close>

fun utf16_lossy :: "nat list \<Rightarrow> utext" where
  "utf16_lossy [] = []"
| "utf16_lossy [w] = [if 0xD800 \<le> w \<and> w < 0xE000 then 0xFFFD else w]"
| "utf16_lossy (w # w' # ws) =
     (if 0xD800 \<le> w \<and> w < 0xDC00 then
        (if 0xDC00 \<le> w' \<and> w' < 0xE000
         then (0x10000 + (w - 0xD800) * 0x400 + (w' - 0xDC00)) # utf16_lossy ws
         else 0xFFFD # utf16_lossy (w' # ws))
      else if 0xDC00 \<le> w \<and> w < 0xE000 then 0xFFFD # utf16_lossy (w' # ws)
      else w # utf16_lossy (w' # ws))"

end
