(* ===== verification/Etw_Decode.thy ===== *)
theory Etw_Decode
  imports Etw_Processor Unicode
begin

text \<open>
  Decoding the kernel's event records (\<open>native_etw.rs\<close>, from \<open>decode_lifecycle_event\<close> to
  \<open>looks_like_utf16le\<close>). What Windows' TDH library returns for a property of a record is a
  parameter of the model, carried by the record: its raw bytes, when it has the property, and the
  input type of the property. Raw bytes are little-endian, as on every Windows target.
\<close>

section \<open>Raw numbers\<close>

fun le_nat :: "byte list \<Rightarrow> nat" where
  "le_nat [] = 0"
| "le_nat (b # bs) = unat b + 256 * le_nat bs"

text \<open>\<open>chunks_exact\<close>: a shorter rest is left out.\<close>

fun chunks_exact_loop :: "nat \<Rightarrow> nat \<Rightarrow> 'a list \<Rightarrow> 'a list list" where
  "chunks_exact_loop 0 n xs = []"
| "chunks_exact_loop (Suc k) n xs =
     (if length xs < n then [] else take n xs # chunks_exact_loop k n (drop n xs))"

definition chunks_exact :: "nat \<Rightarrow> 'a list \<Rightarrow> 'a list list" where
  "chunks_exact n xs = chunks_exact_loop (length xs) n xs"

definition bytes_to_u32 :: "byte list \<Rightarrow> u32 option" where
  "bytes_to_u32 bytes = (if length bytes < 4 then None else Some (word_of_nat (le_nat (take 4 bytes))))"

definition bytes_to_u64 :: "byte list \<Rightarrow> u64 option" where
  "bytes_to_u64 bytes =
     (if length bytes \<ge> 8 then Some (word_of_nat (le_nat (take 8 bytes)))
      else if length bytes \<ge> 4 then map_option ucast (bytes_to_u32 bytes)
      else None)"

section \<open>Text\<close>

definition utf16_null_terminated_to_string :: "byte list \<Rightarrow> utext option" where
  "utf16_null_terminated_to_string bytes =
     (let words = takeWhile (\<lambda>w. w \<noteq> 0) (map le_nat (chunks_exact 2 bytes))
      in if words = [] then None else Some (utf16_lossy words))"

definition ansi_null_terminated_to_string :: "byte list \<Rightarrow> utext option" where
  "ansi_null_terminated_to_string bytes =
     (let text = takeWhile (\<lambda>b. b \<noteq> 0) bytes
      in if text = [] then None else Some (utf8_lossy (map unat text)))"

definition looks_like_utf16le :: "byte list \<Rightarrow> bool" where
  "looks_like_utf16le bytes =
     (let chunks = chunks_exact 2 bytes;
          zero_high_bytes = length (filter (\<lambda>chunk. nth_opt chunk 1 = Some 0) chunks)
      in if length bytes mod 2 \<noteq> 0 then False
         else if [0, 0] \<in> set chunks then True
         else length chunks > 0 \<and> zero_high_bytes * 2 \<ge> length chunks)"

datatype string_encoding = Unicode | Ansi | Unknown

definition bytes_to_string :: "byte list \<Rightarrow> string_encoding \<Rightarrow> utext option" where
  "bytes_to_string bytes encoding =
     (if bytes = [] then None
      else case encoding of
        Unicode \<Rightarrow> utf16_null_terminated_to_string bytes
      | Ansi \<Rightarrow> ansi_null_terminated_to_string bytes
      | Unknown \<Rightarrow>
          (if looks_like_utf16le bytes then utf16_null_terminated_to_string bytes
           else ansi_null_terminated_to_string bytes))"

section \<open>Records\<close>

datatype event_provider = ProcessGuid | ThreadGuid | ImageLoadGuid | FileIoGuid | StackWalkGuid | OtherGuid

text \<open>The input types of TDH that the code tells apart.\<close>

datatype tdh_in_type =
    TDH_UNICODESTRING | TDH_COUNTEDSTRING | TDH_MANIFEST_COUNTEDSTRING
  | TDH_NONNULLTERMINATEDSTRING | TDH_REVERSEDCOUNTEDSTRING
  | TDH_ANSISTRING | TDH_COUNTEDANSISTRING | TDH_MANIFEST_COUNTEDANSISTRING
  | TDH_NONNULLTERMINATEDANSISTRING | TDH_REVERSEDCOUNTEDANSISTRING
  | TDH_OTHER

text \<open>An extended data item: a stack of 64-bit or 32-bit frames with its declared data size, or
  anything else. The frames are those behind the 8 bytes of the match id.\<close>

datatype extended_item =
    StackTrace64 nat "u64 list option"
  | StackTrace32 nat "u32 list option"
  | OtherItem

record event_record =
  er_provider :: event_provider
  er_opcode :: nat
  er_timestamp :: int
  er_thread_id :: u32
  er_process_id :: u32
  er_user_data :: "byte list"
  er_extended_data :: "extended_item list"
  er_property :: "string \<Rightarrow> byte list option"
  er_in_type :: "string \<Rightarrow> tdh_in_type option"

text \<open>\<open>read_property\<close>: a property of size 0 counts as absent.\<close>

definition read_property :: "event_record \<Rightarrow> string \<Rightarrow> byte list option" where
  "read_property r name =
     (case er_property r name of
        None \<Rightarrow> None
      | Some bytes \<Rightarrow> if bytes = [] then None else Some bytes)"

definition read_u32_any :: "event_record \<Rightarrow> string list \<Rightarrow> u32 option" where
  "read_u32_any r names = find_map (\<lambda>name. Option.bind (read_property r name) bytes_to_u32) names"

definition read_u64_any :: "event_record \<Rightarrow> string list \<Rightarrow> u64 option" where
  "read_u64_any r names = find_map (\<lambda>name. Option.bind (read_property r name) bytes_to_u64) names"

fun is_unicode_string_in_type :: "tdh_in_type \<Rightarrow> bool" where
  "is_unicode_string_in_type t =
     (t \<in> {TDH_UNICODESTRING, TDH_COUNTEDSTRING, TDH_MANIFEST_COUNTEDSTRING,
           TDH_NONNULLTERMINATEDSTRING, TDH_REVERSEDCOUNTEDSTRING})"

fun is_ansi_string_in_type :: "tdh_in_type \<Rightarrow> bool" where
  "is_ansi_string_in_type t =
     (t \<in> {TDH_ANSISTRING, TDH_COUNTEDANSISTRING, TDH_MANIFEST_COUNTEDANSISTRING,
           TDH_NONNULLTERMINATEDANSISTRING, TDH_REVERSEDCOUNTEDANSISTRING})"

definition property_string_encoding :: "event_record \<Rightarrow> string \<Rightarrow> string_encoding option" where
  "property_string_encoding r name =
     (case er_in_type r name of
        None \<Rightarrow> None
      | Some in_type \<Rightarrow>
          (if is_unicode_string_in_type in_type then Some Unicode
           else if is_ansi_string_in_type in_type then Some Ansi
           else None))"

definition read_string_property :: "event_record \<Rightarrow> string \<Rightarrow> utext option" where
  "read_string_property r name =
     (case read_property r name of
        None \<Rightarrow> None
      | Some bytes \<Rightarrow>
          bytes_to_string bytes
            (case property_string_encoding r name of Some e \<Rightarrow> e | None \<Rightarrow> Unknown))"

definition read_string_any :: "event_record \<Rightarrow> string list \<Rightarrow> utext option" where
  "read_string_any r names = find_map (read_string_property r) names"

fun item_frames :: "extended_item \<Rightarrow> u64 list" where
  "item_frames (StackTrace64 data_size frames) =
     (case frames of
        None \<Rightarrow> []
      | Some fs \<Rightarrow> if data_size \<le> 8 then [] else take ((data_size - 8) div 8) fs)"
| "item_frames (StackTrace32 data_size frames) =
     (case frames of
        None \<Rightarrow> []
      | Some fs \<Rightarrow> if data_size \<le> 8 then [] else map ucast (take ((data_size - 8) div 4) fs))"
| "item_frames OtherItem = []"

definition stack_addresses :: "event_record \<Rightarrow> u64 list" where
  "stack_addresses r = concat (map item_frames (er_extended_data r))"

section \<open>Lifecycle events\<close>

text \<open>The event types of the classic kernel providers (\<open>evntrace.h\<close>).\<close>

definition EVENT_TRACE_TYPE_START :: nat where "EVENT_TRACE_TYPE_START = 1"
definition EVENT_TRACE_TYPE_END :: nat where "EVENT_TRACE_TYPE_END = 2"
definition EVENT_TRACE_TYPE_LOAD :: nat where "EVENT_TRACE_TYPE_LOAD = 10"

abbreviation pid_names :: "string list" where
  "pid_names \<equiv> [''ProcessId'', ''ProcessID'', ''PID'']"

text \<open>The event name of an opcode, and what is read of the record, per provider.\<close>

definition start_end_name :: "string \<Rightarrow> nat \<Rightarrow> string option" where
  "start_end_name what opcode =
     (if opcode = EVENT_TRACE_TYPE_START then Some (what @ ''_start'')
      else if opcode = EVENT_TRACE_TYPE_END then Some (what @ ''_end'')
      else None)"

definition lifecycle_of :: "event_record \<Rightarrow> string \<Rightarrow> u32 \<Rightarrow> decoded_lifecycle_event" where
  "lifecycle_of r event pid =
     \<lparr>dl_timestamp = er_timestamp r, dl_thread_id = er_thread_id r, dl_event = event, dl_pid = pid,
      dl_tid = None, dl_parent_pid = None, dl_image_path = None, dl_image_base = None,
      dl_image_size = None, dl_stack_addresses = stack_addresses r\<rparr>"

definition decode_process_event :: "event_record \<Rightarrow> decoded_lifecycle_event option" where
  "decode_process_event r =
     (case start_end_name ''process'' (er_opcode r) of
        None \<Rightarrow> None
      | Some event \<Rightarrow>
          (case read_u32_any r pid_names of
             None \<Rightarrow> None
           | Some pid \<Rightarrow>
               Some ((lifecycle_of r event pid)
                 \<lparr>dl_parent_pid := (if event = ''process_start''
                     then read_u32_any r [''ParentId'', ''ParentID'', ''ParentProcessId''] else None),
                  dl_image_path := read_string_any r [''ImageFileName'', ''ImageName'']\<rparr>)))"

definition decode_thread_event :: "event_record \<Rightarrow> decoded_lifecycle_event option" where
  "decode_thread_event r =
     (case start_end_name ''thread'' (er_opcode r) of
        None \<Rightarrow> None
      | Some event \<Rightarrow>
          (case read_u32_any r pid_names of
             None \<Rightarrow> None
           | Some pid \<Rightarrow>
               Some ((lifecycle_of r event pid)
                 \<lparr>dl_tid := read_u32_any r [''ThreadId'', ''ThreadID'', ''TThreadId'', ''TThreadID'']\<rparr>)))"

definition decode_image_event :: "event_record \<Rightarrow> string list \<Rightarrow> decoded_lifecycle_event option \<times> string list" where
  "decode_image_event r ws =
     (case (if er_opcode r = EVENT_TRACE_TYPE_LOAD then Some ''image_load''
            else if er_opcode r = EVENT_TRACE_TYPE_END then Some ''image_unload'' else None) of
        None \<Rightarrow> (None, ws)
      | Some event \<Rightarrow>
          (case read_u32_any r pid_names of
             None \<Rightarrow> (None, ws @ [''image event skipped because ProcessId is unavailable''])
           | Some pid \<Rightarrow>
               (Some ((lifecycle_of r event pid)
                  \<lparr>dl_image_path := read_string_any r [''ImageFileName'', ''FileName'', ''ImageName''],
                   dl_image_base := read_u64_any r [''ImageBase'', ''BaseAddress''],
                   dl_image_size := read_u64_any r [''ImageSize'', ''Size'']\<rparr>), ws)))"

definition decode_lifecycle_event :: "event_record \<Rightarrow> string list \<Rightarrow> decoded_lifecycle_event option \<times> string list" where
  "decode_lifecycle_event r ws =
     (case er_provider r of
        ProcessGuid \<Rightarrow> (decode_process_event r, ws)
      | ThreadGuid \<Rightarrow> (decode_thread_event r, ws)
      | ImageLoadGuid \<Rightarrow> decode_image_event r ws
      | _ \<Rightarrow> (None, ws))"

section \<open>File events\<close>

definition file_io_names :: "(nat \<times> string) list" where
  "file_io_names =
     [(0, ''file_name''), (32, ''file_create_name''), (35, ''file_delete_name''), (36, ''file_rundown''),
      (64, ''create''), (65, ''cleanup''), (66, ''close''), (67, ''read''), (68, ''write''),
      (69, ''set_info''), (70, ''delete''), (71, ''rename''), (72, ''dir_enum''), (73, ''flush''),
      (74, ''query_info''), (75, ''fs_control''), (76, ''op_end''), (77, ''dir_notify'')]"

definition file_io_path :: "event_record \<Rightarrow> utext option" where
  "file_io_path r =
     (if er_opcode r = 64 then read_string_any r [''OpenPath'', ''FileName'', ''Path'']
      else if er_opcode r \<in> {0, 32, 35, 36, 72, 77}
      then read_string_any r [''FileName'', ''OpenPath'', ''Path'']
      else None)"

definition decode_file_io_event :: "event_record \<Rightarrow> decoded_file_io_event option" where
  "decode_file_io_event r =
     (if er_provider r \<noteq> FileIoGuid then None
      else case map_of file_io_names (er_opcode r) of
        None \<Rightarrow> None
      | Some event \<Rightarrow>
          (let path = file_io_path r
           in Some \<lparr>df_timestamp = er_timestamp r, df_thread_id = er_thread_id r, df_event = event,
              df_pid = (case read_u32_any r pid_names of Some pid \<Rightarrow> pid | None \<Rightarrow> er_process_id r),
              df_ttid = read_u32_any r [''TTID'', ''TThreadId'', ''TThreadID'', ''ThreadId'', ''ThreadID''],
              df_path = path,
              df_path_source = map_option (\<lambda>_. if er_opcode r = 64 then ''open_path'' else ''file_name'') path,
              df_file_object = read_u64_any r [''FileObject'', ''FileObj''],
              df_file_key = read_u64_any r [''FileKey'', ''FileObjectKey''],
              df_irp_ptr = read_u64_any r [''IrpPtr'', ''Irp'', ''IrpPointer''],
              df_offset = read_u64_any r [''Offset'', ''ByteOffset''],
              df_io_size = read_u64_any r [''IoSize'', ''Size'', ''TransferSize''],
              df_io_flags = read_u32_any r [''IoFlags'', ''Flags''],
              df_create_options = read_u32_any r [''CreateOptions''],
              df_file_attributes = read_u32_any r [''FileAttributes''],
              df_share_access = read_u32_any r [''ShareAccess''],
              df_info_class = read_u32_any r [''InfoClass''],
              df_extra_info = read_u64_any r [''ExtraInfo''],
              df_nt_status = read_u32_any r [''NtStatus'', ''Status''],
              df_stack_addresses = (if er_opcode r = 76 then [] else stack_addresses r)\<rparr>))"

section \<open>Stack walks\<close>

definition STACK_WALK_EVENT_TYPE :: nat where "STACK_WALK_EVENT_TYPE = 32"

text \<open>The loop over \<open>Stack1\<close> .. \<open>Stack192\<close>: it stops at the first property that is missing.\<close>

fun tdh_frames :: "event_record \<Rightarrow> nat list \<Rightarrow> u64 list" where
  "tdh_frames r [] = []"
| "tdh_frames r (index # rest) =
     (case read_u64_any r [''Stack'' @ show_nat index] of
        None \<Rightarrow> []
      | Some address \<Rightarrow> (if address \<noteq> 0 then [address] else []) @ tdh_frames r rest)"

definition decode_stack_walk_event_with_tdh :: "event_record \<Rightarrow> decoded_stack_walk_event option" where
  "decode_stack_walk_event_with_tdh r =
     (case (read_u64_any r [''EventTimeStamp''], read_u32_any r [''StackProcess''], read_u32_any r [''StackThread'']) of
        (Some timestamp, Some stack_process, Some stack_thread) \<Rightarrow>
          Some \<lparr>ds_timestamp = sint timestamp, ds_stack_process = stack_process,
                ds_stack_thread = stack_thread, ds_stack_addresses = tdh_frames r [1..<193]\<rparr>
      | _ \<Rightarrow> None)"

definition decode_stack_walk_user_data :: "byte list \<Rightarrow> decoded_stack_walk_event option" where
  "decode_stack_walk_user_data data =
     (if length data < 16 then None
      else
        let stack_data = drop 16 data;
            pointer_size = (if length stack_data mod 8 = 0 then Some 8
                            else if length stack_data mod 4 = 0 then Some 4 else None)
        in case pointer_size of
             None \<Rightarrow> None
           | Some n \<Rightarrow>
               Some \<lparr>ds_timestamp = sint (word_of_nat (le_nat (take 8 data)) :: u64),
                     ds_stack_process = word_of_nat (le_nat (take 4 (drop 8 data))),
                     ds_stack_thread = word_of_nat (le_nat (take 4 (drop 12 data))),
                     ds_stack_addresses =
                       filter (\<lambda>a. a \<noteq> 0) (map (\<lambda>c. word_of_nat (le_nat c)) (chunks_exact n stack_data))\<rparr>)"

definition decode_stack_walk_event :: "event_record \<Rightarrow> decoded_stack_walk_event option" where
  "decode_stack_walk_event r =
     (if er_provider r \<noteq> StackWalkGuid then None
      else if er_opcode r \<noteq> STACK_WALK_EVENT_TYPE then None
      else case decode_stack_walk_event_with_tdh r of
        Some stack \<Rightarrow> Some stack
      | None \<Rightarrow> decode_stack_walk_user_data (er_user_data r))"

section \<open>One record\<close>

definition process_record :: "event_record \<Rightarrow> etw_processor \<Rightarrow> etw_processor option" where
  "process_record r p =
     (case decode_stack_walk_event r of
        Some stack \<Rightarrow> process_stack_walk_event stack p
      | None \<Rightarrow>
          (let (decoded, ws) = decode_lifecycle_event r (warnings p);
               p1 = p\<lparr>warnings := ws\<rparr>
           in case decoded of
                Some d \<Rightarrow> process_lifecycle_event d p1
              | None \<Rightarrow>
                  if includes_set (settings p1) FileIo then
                    (case decode_file_io_event r of
                       Some d \<Rightarrow> process_file_io_event d p1
                     | None \<Rightarrow> Some p1)
                  else Some p1))"

text \<open>\<open>ProcessTrace\<close> calls the callback once for each record of the trace file.\<close>

fun process_records :: "event_record list \<Rightarrow> etw_processor \<Rightarrow> etw_processor option" where
  "process_records [] p = Some p"
| "process_records (r # rs) p = (case process_record r p of None \<Rightarrow> None | Some p' \<Rightarrow> process_records rs p')"

section \<open>What decoding keeps\<close>

fun le_bytes :: "nat \<Rightarrow> nat \<Rightarrow> byte list" where
  "le_bytes 0 v = []"
| "le_bytes (Suc n) v = word_of_nat (v mod 256) # le_bytes n (v div 256)"

lemma le_bytes_length [simp]: "length (le_bytes n v) = n"
  by (induction n arbitrary: v) auto

lemma le_nat_bytes: "v < 256 ^ n \<Longrightarrow> le_nat (le_bytes n v) = v"
proof (induction n arbitrary: v)
  case (Suc n)
  then have "v div 256 < 256 ^ n" by (simp add: less_mult_imp_div_less mult.commute)
  with Suc.IH show ?case
    by (simp add: unsigned_of_nat take_bit_eq_mod)
qed simp

lemma chunks_exact_concat:
  assumes "\<forall>c \<in> set cs. length c = n" and "n > 0"
  shows "chunks_exact n (concat cs) = cs"
proof -
  have "chunks_exact_loop k n (concat cs) = cs" if "k \<ge> length (concat cs)" for k
    using assms that
  proof (induction cs arbitrary: k)
    case Nil
    then show ?case by (cases k) auto
  next
    case (Cons c cs)
    then obtain k' where k: "k = Suc k'" by (cases k) auto
    with Cons.prems have "length (concat cs) \<le> k'" by simp
    with Cons k show ?case by simp
  qed
  then show ?thesis by (simp add: chunks_exact_def)
qed

text \<open>The user data of a stack walk as the kernel lays it out on a 64-bit system.\<close>

definition encode_stack_walk :: "u64 \<Rightarrow> u32 \<Rightarrow> u32 \<Rightarrow> u64 list \<Rightarrow> byte list" where
  "encode_stack_walk ts pid tid frames =
     le_bytes 8 (unat ts) @ le_bytes 4 (unat pid) @ le_bytes 4 (unat tid)
     @ concat (map (\<lambda>f. le_bytes 8 (unat f)) frames)"

text \<open>
  Decoding the raw user data of a stack walk gives back the timestamp, process, thread and
  frames that were laid out in it, whatever the number of frames; only zero frames are left out.
\<close>

theorem decode_stack_walk_roundtrip:
  "decode_stack_walk_user_data (encode_stack_walk ts pid tid frames) =
     Some \<lparr>ds_timestamp = sint ts, ds_stack_process = pid, ds_stack_thread = tid,
           ds_stack_addresses = filter (\<lambda>a. a \<noteq> 0) frames\<rparr>"
proof -
  let ?cs = "map (\<lambda>f. le_bytes 8 (unat f)) frames"
  have len: "length (concat ?cs) = 8 * length frames"
    by (induction frames) auto
  have chunks: "chunks_exact 8 (concat ?cs) = ?cs"
    by (rule chunks_exact_concat) auto
  have "unat (x :: u64) < 256 ^ 8" "unat (y :: u32) < 256 ^ 4" for x y
    using unsigned_less[of x] unsigned_less[of y] by simp_all
  then have "le_nat (le_bytes 8 (unat (x :: u64))) = unat x" "le_nat (le_bytes 4 (unat (y :: u32))) = unat y" for x y
    by (simp_all add: le_nat_bytes)
  with len chunks show ?thesis
    by (simp add: decode_stack_walk_user_data_def encode_stack_walk_def Let_def comp_def)
qed

end
