(* ===== verification/Etw_Properties.thy ===== *)
theory Etw_Properties
  imports Etw_Trace Etw_Decode
begin

text \<open>
  What the native ETW collector promises, over every stream of kernel records: the callback never
  panics, the rows are those of the traced process in order, and the numbers of the summary agree
  with the rows.
\<close>

section \<open>The state after a stream\<close>

lemma new_stats_sum: "stats_sum stack_stats_default" "st_total stack_stats_default = 0"
  by (simp_all add: stats_sum_def stack_stats_default_def)

lemma warnings_inv: "etw_inv p \<Longrightarrow> etw_inv (p\<lparr>warnings := ws\<rparr>)"
  unfolding etw_inv_def etw_inv_defs by simp

lemma process_record_ok:
  assumes "etw_inv p"
  shows "\<exists>p'. process_record r p = Some p' \<and> etw_inv p' \<and> target_pid p' = target_pid p"
proof (cases "decode_stack_walk_event r")
  case (Some w)
  then show ?thesis
    using process_stack_walk_ok[OF assms, of w] by (auto simp: process_record_def kept_def)
next
  case None
  obtain decoded ws where dec: "decode_lifecycle_event r (warnings p) = (decoded, ws)"
    by fastforce
  have inv: "etw_inv (p\<lparr>warnings := ws\<rparr>)"
    using assms by (rule warnings_inv)
  show ?thesis
    using None dec inv process_lifecycle_ok[OF inv] process_file_io_ok[OF inv]
    by (auto simp: process_record_def kept_def Let_def split: option.split)
qed

lemma process_records_ok:
  "etw_inv p \<Longrightarrow> \<exists>p'. process_records rs p = Some p' \<and> etw_inv p' \<and> target_pid p' = target_pid p"
proof (induction rs arbitrary: p)
  case (Cons r rs)
  obtain q where q: "process_record r p = Some q" "etw_inv q" "target_pid q = target_pid p"
    using process_record_ok[OF Cons.prems] by blast
  with Cons.IH[OF q(2)] show ?case by simp
qed simp

text \<open>
  C33. The trace callback never panics, whatever records arrive in whatever order: every index into
  the parallel vectors is in range. Afterwards the vectors of a row set have one length, rows are
  numbered 1, 2, ... in the order they were recorded, each is a row of the traced process, and the
  timestamp index only points at rows recorded at that timestamp.
\<close>

theorem etw_stream_never_panics:
  "case process_records records (etw_processor_new pid s) of
     None \<Rightarrow> False
   | Some p \<Rightarrow> vectors_ok p \<and> targets_ok p
       \<and> map le_sequence (lifecycle_events p) = [1..<Suc (length (lifecycle_events p))]
       \<and> map fe_sequence (file_io_events p) = [1..<Suc (length (file_io_events p))]
       \<and> list_all (\<lambda>e. le_pid e = pid) (lifecycle_events p)
       \<and> list_all (\<lambda>e. fe_pid e = pid) (file_io_events p)"
proof -
  have "target_pid (etw_processor_new pid s) = pid"
    by (simp add: etw_processor_new_def)
  then obtain p where "process_records records (etw_processor_new pid s) = Some p" "etw_inv p" "target_pid p = pid"
    using process_records_ok[OF etw_inv_new, of records pid s] by auto
  then show ?thesis
    by (auto simp: etw_inv_def rows_ok_def list_all_iff simp del: upt_Suc)
qed

text \<open>
  C34. No kernel stack is counted twice or lost: the stack walks received are exactly those attached
  to a row, those dropped, and those still waiting for a row; and the cache of waiting stacks stays
  within 4096 timestamps with at most 32 stacks each, all of the traced process.
\<close>

theorem stack_walk_accounting:
  "case process_all records (etw_processor_new pid s) of
     None \<Rightarrow> False
   | Some p \<Rightarrow>
       length (filter is_stack_walk records) =
         matched_stack_walk_events p + dropped_pending_stack_walk_events p
           + bt_sum length (pending_stacks_by_timestamp p)
       \<and> length (pending_stacks_by_timestamp p) \<le> 4096
       \<and> bt_all (\<lambda>ts l. length l \<le> 32 \<and> list_all (\<lambda>w. ds_timestamp w = ts \<and> ds_stack_process w = pid) l)
           (pending_stacks_by_timestamp p)"
proof -
  obtain p where p: "process_all records (etw_processor_new pid s) = Some p" "etw_inv p" "target_pid p = pid"
    "stack_walk_events p = length (filter is_stack_walk records)"
    by (rule process_all_new)
  have "pending_ok p" "stack_balance p"
    using p(2) by (simp_all add: etw_inv_def)
  with p show ?thesis
    by (auto simp: pending_ok_def stack_balance_def pending_entry_ok_def list_all_iff
        MAX_PENDING_STACK_TIMESTAMPS_def MAX_PENDING_STACKS_PER_TIMESTAMP_def elim!: bt_all_mono)
qed

text \<open>
  Which row a stack walk goes to: among the rows recorded at the stack's own timestamp, the
  first one whose header thread is the stack's thread; if there is none, the first row of that
  timestamp provided the stack is of the traced process; otherwise none. Attaching cannot fail on
  the chosen row.
\<close>

theorem attach_chooses_row:
  "case process_all records (etw_processor_new pid s) of
     None \<Rightarrow> False
   | Some p \<Rightarrow>
       attach_stack_walk_event w p =
         (case Option.bind (bt_get (event_indices_by_timestamp p) (ds_timestamp w)) (\<lambda>l. chosen_target w l p) of
            None \<Rightarrow> Some (False, p)
          | Some t \<Rightarrow> attach_to t w p)
       \<and> attach_stack_walk_event w p \<noteq> None"
proof -
  obtain p where p: "process_all records (etw_processor_new pid s) = Some p" "etw_inv p"
    by (rule process_all_new)
  then have rest: "rest_ok p" by (simp add: etw_inv_rest)
  show ?thesis
  proof (cases "bt_get (event_indices_by_timestamp p) (ds_timestamp w)")
    case None
    with p(1) show ?thesis by (simp add: attach_stack_walk_event_def)
  next
    case (Some l)
    then show ?thesis
      using p(1) attach_loop_chosen[OF index_ready[OF rest Some]] attach_event_facts[OF rest, of w]
      by (auto simp: attach_stack_walk_event_def)
  qed
qed

text \<open>
  C35. The rows with an IRP add up: each is completed, was abandoned when its IRP was used again, or
  is still in flight; a completion is counted exactly when a row received its completion sequence;
  and every IRP in flight stands for one incomplete row that printed this IRP.
\<close>

theorem irp_accounting:
  "case process_all records (etw_processor_new pid s) of
     None \<Rightarrow> False
   | Some p \<Rightarrow>
       length (filter (\<lambda>e. fe_irp_ptr e \<noteq> None) (file_io_events p)) =
         matched_op_end_count p + reused_irp_without_op_end_count p + length (pending_file_irps p)
       \<and> matched_op_end_count p = length (filter (\<lambda>e. fe_completion_sequence e \<noteq> None) (file_io_events p))
       \<and> bt_all (irp_entry_ok (file_io_events p)) (pending_file_irps p)"
proof -
  obtain p where "process_all records (etw_processor_new pid s) = Some p" "etw_inv p"
    by (rule process_all_new)
  then show ?thesis
    by (simp add: etw_inv_def irp_balance_def irp_rows_def completed_rows_def irps_ok_def)
qed

text \<open>
  Attaching frames to a row only appends: the addresses already there stay in place, and what is
  added are exactly the new non-zero addresses of the stack, each once, so attaching the same stack
  a second time changes nothing.
\<close>

theorem append_stack_frames_correct:
  "(\<exists>added. append_stack_frames target source = target @ added \<and> distinct added
        \<and> set added = set source - insert 0 (set target))
   \<and> append_stack_frames (append_stack_frames target source) source = append_stack_frames target source"
proof -
  have add: "\<exists>added. append_stack_frames target source = target @ added \<and> distinct added
        \<and> set added = set source - insert 0 (set target)" for target source
  proof (induction source arbitrary: target)
    case (Cons a source)
    show ?case
    proof (cases "a \<noteq> 0 \<and> a \<notin> set target")
      case True
      obtain added where "append_stack_frames (target @ [a]) source = (target @ [a]) @ added" "distinct added"
          "set added = set source - insert 0 (set (target @ [a]))"
        using Cons.IH by blast
      with True show ?thesis by (intro exI[of _ "a # added"]) auto
    next
      case False
      then have same: "append_stack_frames target (a # source) = append_stack_frames target source"
        and "set (a # source) - insert 0 (set target) = set source - insert 0 (set target)"
        by auto
      then show ?thesis unfolding same using Cons.IH[of target] by simp
    qed
  qed simp
  obtain added where added: "append_stack_frames target source = target @ added" "distinct added"
      "set added = set source - insert 0 (set target)"
    using add by blast
  have idem: "append_stack_frames t source = t" if "set source \<subseteq> insert 0 (set t)" for t
    using that by (induction source) auto
  have "append_stack_frames (target @ added) source = target @ added"
    using added(3) by (intro idem) auto
  with added show ?thesis by simp
qed

section \<open>The output\<close>

text \<open>What the summary of an event set says of its rows.\<close>

definition counts_rows :: "('e \<Rightarrow> string) \<Rightarrow> 'e list \<Rightarrow> (string, nat) btree \<Rightarrow> bool" where
  "counts_rows name rows counts \<longleftrightarrow>
     list_all (\<lambda>(k, n). n = length (filter (\<lambda>e. name e = k) rows)) counts"

definition frames_add_up :: "nat \<Rightarrow> etw_event_set_summary \<Rightarrow> bool" where
  "frames_add_up frames es \<longleftrightarrow>
     es_stack_frames_total es = frames
     \<and> es_stack_frames_resolved es + es_stack_frames_unresolved es = frames"

lemma stack_text_length: "length (stack_text a ms t) = length a"
  by (simp add: stack_text_def resolve_stack_addresses_def)

lemma finished_frames:
  assumes "vectors_ok p"
  shows "sum_list (map length (lifecycle_stack_addresses p))
       = sum_list (map (length \<circ> le_stack) (map (lifecycle_finished p) [0..<length (lifecycle_events p)]))"
    and "sum_list (map length (file_io_stack_addresses p))
       = sum_list (map (length \<circ> fe_stack) (map (file_io_finished p) [0..<length (file_io_events p)]))"
proof -
  have "map length (lifecycle_stack_addresses p)
      = map (length \<circ> le_stack) (map (lifecycle_finished p) [0..<length (lifecycle_events p)])"
    using assms by (intro nth_equalityI) (simp_all add: vectors_ok_def lifecycle_finished_def stack_text_length)
  moreover have "map length (file_io_stack_addresses p)
      = map (length \<circ> fe_stack) (map (file_io_finished p) [0..<length (file_io_events p)])"
    using assms by (intro nth_equalityI) (simp_all add: vectors_ok_def file_io_finished_def stack_text_length)
  ultimately show "sum_list (map length (lifecycle_stack_addresses p))
       = sum_list (map (length \<circ> le_stack) (map (lifecycle_finished p) [0..<length (lifecycle_events p)]))"
    and "sum_list (map length (file_io_stack_addresses p))
       = sum_list (map (length \<circ> fe_stack) (map (file_io_finished p) [0..<length (file_io_events p)]))"
    by simp_all
qed

text \<open>Finishing the rows changes no field but the stack.\<close>

lemma finished_filter:
  assumes "\<And>e st. P (e\<lparr>le_stack := st\<rparr>) = P e" and "\<And>e st. Q (e\<lparr>fe_stack := st\<rparr>) = Q e"
  shows "length (filter P (map (lifecycle_finished p) [0..<length (lifecycle_events p)]))
       = length (filter P (lifecycle_events p))"
    and "length (filter Q (map (file_io_finished p) [0..<length (file_io_events p)]))
       = length (filter Q (file_io_events p))"
proof -
  have "map P (map (lifecycle_finished p) [0..<length (lifecycle_events p)]) = map P (lifecycle_events p)"
    by (intro nth_equalityI) (simp_all add: lifecycle_finished_def assms(1))
  moreover have "map Q (map (file_io_finished p) [0..<length (file_io_events p)]) = map Q (file_io_events p)"
    by (intro nth_equalityI) (simp_all add: file_io_finished_def assms(2))
  moreover have "length (filter P xs) = length (filter id (map P xs))" for P :: "'e \<Rightarrow> bool" and xs
    by (induction xs) auto
  ultimately show "length (filter P (map (lifecycle_finished p) [0..<length (lifecycle_events p)]))
       = length (filter P (lifecycle_events p))"
    and "length (filter Q (map (file_io_finished p) [0..<length (file_io_events p)]))
       = length (filter Q (file_io_events p))"
    by metis+
qed

lemma summary_sets:
  "bt_get (sm_event_sets (finish_processor p)) ''process'' =
     (if includes_set (settings p) Process
      then Some (summary_lifecycle (lifecycle_event_counts p) (lifecycle_stack_stats p)) else None)"
  "bt_get (sm_event_sets (finish_processor p)) ''file_io'' =
     (if includes_set (settings p) FileIo
      then Some (summary_file_io (file_io_event_counts p) (file_io_stack_stats p)
              (file_path_resolved p) (file_path_unresolved p)
              (matched_op_end_count p) (unmatched_op_end_count p)
              (incomplete_io p) (reused_irp_without_op_end_count p)) else None)"
  by (simp_all add: finish_processor_def Let_def bt_get_def)

definition process_set_agrees :: "lifecycle_event list option \<Rightarrow> etw_event_set_summary option \<Rightarrow> bool" where
  "process_set_agrees rows summary =
     (case (rows, summary) of
        (None, None) \<Rightarrow> True
      | (Some evs, Some es) \<Rightarrow>
          counts_rows le_event evs (es_event_counts es)
          \<and> frames_add_up (sum_list (map (length \<circ> le_stack) evs)) es
      | _ \<Rightarrow> False)"

definition file_io_set_agrees :: "file_io_event list option \<Rightarrow> etw_event_set_summary option \<Rightarrow> bool" where
  "file_io_set_agrees rows summary =
     (case (rows, summary) of
        (None, None) \<Rightarrow> True
      | (Some evs, Some es) \<Rightarrow>
          counts_rows fe_event evs (es_event_counts es)
          \<and> frames_add_up (sum_list (map (length \<circ> fe_stack) evs)) es
          \<and> es_file_path_resolved es = Some (length (filter (\<lambda>e. fe_path e \<noteq> None) evs))
          \<and> es_file_path_unresolved es = Some (length (filter (\<lambda>e. fe_path e = None) evs))
          \<and> es_matched_op_end_count es = Some (length (filter (\<lambda>e. fe_completion_sequence e \<noteq> None) evs))
          \<and> es_incomplete_io_count es =
              Some (length (filter (\<lambda>e. fe_irp_ptr e \<noteq> None) evs)
                    - length (filter (\<lambda>e. fe_completion_sequence e \<noteq> None) evs))
      | _ \<Rightarrow> False)"

text \<open>
  C36. Post-processing of a readable trace always produces its output, and the summary agrees with
  the rows written: an event set is in the summary exactly when its file is written; every event
  counter is the number of rows of that name; the frames of all rows are counted, each as resolved
  or unresolved; and for file I/O the resolved, unresolved, matched and incomplete numbers are the
  numbers of rows with a path, without one, with a completion, and with an IRP but no completion.
\<close>

theorem summary_agrees_with_rows:
  "case post_process_trace True 0 cs (\<lambda>_. None) pid s records of
     Some (Inr out) \<Rightarrow>
       (out_process out \<noteq> None) = includes_set s Process
       \<and> (out_file_io out \<noteq> None) = includes_set s FileIo
       \<and> process_set_agrees (out_process out) (bt_get (sm_event_sets (out_summary out)) ''process'')
       \<and> file_io_set_agrees (out_file_io out) (bt_get (sm_event_sets (out_summary out)) ''file_io'')
   | _ \<Rightarrow> False"
proof -
  obtain p where p: "process_all records (etw_processor_new pid s) = Some p" "etw_inv p" "settings p = s"
    "lifecycle_stack_stats p = stack_stats_default" "file_io_stack_stats p = stack_stats_default"
    by (rule process_all_new)
  note inv = etw_invD[OF p(2)]
  obtain st fstats ws where run:
    "post_process_trace True 0 cs (\<lambda>_. None) pid s records =
       Some (Inr \<lparr>out_process = (if includes_set s Process
                                then Some (map (lifecycle_finished p) [0..<length (lifecycle_events p)]) else None),
                  out_file_io = (if includes_set s FileIo
                                then Some (map (file_io_finished p) [0..<length (file_io_events p)]) else None),
                  out_summary = finish_processor
                    (p\<lparr>lifecycle_events := map (lifecycle_finished p) [0..<length (lifecycle_events p)],
                       lifecycle_stack_stats := st,
                       file_io_events := map (file_io_finished p) [0..<length (file_io_events p)],
                       file_io_stack_stats := fstats, warnings := ws\<rparr>)\<rparr>)"
    and sums: "st_resolved st + st_unresolved st = st_total st"
      "st_resolved fstats + st_unresolved fstats = st_total fstats"
      "st_total st = sum_list (map length (lifecycle_stack_addresses p))"
      "st_total fstats = sum_list (map length (file_io_stack_addresses p))"
    using post_process_run[OF p(1) inv(1)] new_stats_sum p(4,5) by metis
  let ?L = "map (lifecycle_finished p) [0..<length (lifecycle_events p)]"
  let ?F = "map (file_io_finished p) [0..<length (file_io_events p)]"
  have "process_set_agrees (Some ?L) (Some (summary_lifecycle (lifecycle_event_counts p) st))"
    using inv(9) sums finished_frames(1)[OF inv(1)] finished_filter(1)[where P = "\<lambda>e. le_event e = _" and p = p]
    by (simp add: process_set_agrees_def summary_lifecycle_def counts_rows_def counts_ok_def
        frames_add_up_def list_all_iff split_beta del: map_map)
  moreover have "file_io_set_agrees (Some ?F) (Some (summary_file_io (file_io_event_counts p) fstats
      (file_path_resolved p) (file_path_unresolved p) (matched_op_end_count p) (unmatched_op_end_count p)
      (incomplete_io p) (reused_irp_without_op_end_count p)))"
    using inv(7-9) sums finished_frames(2)[OF inv(1)] finished_filter(2)[where Q = "\<lambda>e. fe_event e = _" and p = p]
      finished_filter(2)[where Q = "\<lambda>e. fe_path e = None" and p = p] finished_filter(2)[where Q = "\<lambda>e. fe_path e \<noteq> None" and p = p]
      finished_filter(2)[where Q = "\<lambda>e. fe_irp_ptr e \<noteq> None" and p = p]
      finished_filter(2)[where Q = "\<lambda>e. fe_completion_sequence e \<noteq> None" and p = p]
    by (simp add: file_io_set_agrees_def summary_file_io_def counts_rows_def counts_ok_def path_balance_def
        irp_balance_def irp_rows_def completed_rows_def incomplete_io_def
        frames_add_up_def list_all_iff split_beta del: map_map)
  ultimately show ?thesis
    unfolding run by (simp add: summary_sets p(3) process_set_agrees_def file_io_set_agrees_def incomplete_io_def
        del: map_map)
qed

end
