(* ===== verification/Artifacts.thy ===== *)
theory Artifacts
  imports Common "HOL-Library.Sublist"
begin

text \<open>
  The artifact store (\<open>dbgflow-common/src/artifacts/manager.rs\<close>): where the files of a session,
  profile, recording or reverse session live, and the operations that create, append and write
  them. A path is the list of its components under the artifact root. A file is the list of the
  pieces appended to it, kept as the values the code serialises (\<open>serde_json\<close> is not modelled).
  Whether the operating system refuses an operation on a path, and with which text, is the
  component \<open>fs_error\<close> of the state.
\<close>

section \<open>The store\<close>

type_synonym path = "string list"

datatype artifact_kind =
    CommandOutput | ProfileTrace | ProfileMetadata | ProfileEvents | ProfileStdout | ProfileStderr
  | ProfileCollectorTrace | ProfileCollectorSummary | ProfileCollectorEvents
  | TtdTrace | TtdTraceIndex | TtdRecorderOutput | TtdRecordingMetadata | TtdRecordingEvents
  | TtdTargetStdout | TtdTargetStderr
  | ReverseSessionRequest | ReverseSessionMetadata | ReverseSessionEvents | ReverseSessionOutput

record artifact_ref =
  ar_kind :: artifact_kind
  ar_path :: path

record 'l artifact_manager =
  am_root :: path
  am_show_id :: "128 word \<Rightarrow> string"
  am_poisoned :: bool
  fs_dirs :: "path \<Rightarrow> bool"
  fs_files :: "path \<Rightarrow> 'l list option"
  fs_error :: "path \<Rightarrow> string option"

section \<open>Paths\<close>

definition session_dir :: "'l artifact_manager \<Rightarrow> session_id \<Rightarrow> path" where
  "session_dir a i = am_root a @ [''sessions'', am_show_id a i]"

definition profile_dir :: "'l artifact_manager \<Rightarrow> profile_id \<Rightarrow> path" where
  "profile_dir a i = am_root a @ [''profiles'', am_show_id a i]"

definition ttd_recording_dir :: "'l artifact_manager \<Rightarrow> ttd_recording_id \<Rightarrow> path" where
  "ttd_recording_dir a i = am_root a @ [''ttd_recordings'', am_show_id a i]"

definition reverse_session_dir :: "'l artifact_manager \<Rightarrow> session_id \<Rightarrow> path" where
  "reverse_session_dir a i = am_root a @ [''reverse_sessions'', am_show_id a i]"

definition command_output_path :: "'l artifact_manager \<Rightarrow> session_id \<Rightarrow> string \<Rightarrow> path" where
  "command_output_path a i command_id = session_dir a i @ [''outputs'', command_id @ ''.txt'']"

definition profile_trace_path :: "'l artifact_manager \<Rightarrow> profile_id \<Rightarrow> path" where
  "profile_trace_path a i = profile_dir a i @ [''trace.etl'']"

definition profile_metadata_path :: "'l artifact_manager \<Rightarrow> profile_id \<Rightarrow> path" where
  "profile_metadata_path a i = profile_dir a i @ [''profile.json'']"

definition profile_events_path :: "'l artifact_manager \<Rightarrow> profile_id \<Rightarrow> path" where
  "profile_events_path a i = profile_dir a i @ [''events.jsonl'']"

definition profile_stdout_path :: "'l artifact_manager \<Rightarrow> profile_id \<Rightarrow> path" where
  "profile_stdout_path a i = profile_dir a i @ [''target'', ''stdout.txt'']"

definition profile_stderr_path :: "'l artifact_manager \<Rightarrow> profile_id \<Rightarrow> path" where
  "profile_stderr_path a i = profile_dir a i @ [''target'', ''stderr.txt'']"

definition profile_collector_artifact_path :: "'l artifact_manager \<Rightarrow> profile_id \<Rightarrow> string \<Rightarrow> string \<Rightarrow> path" where
  "profile_collector_artifact_path a i collector_name file_name =
     profile_dir a i @ [''collectors'', collector_name, file_name]"

definition ttd_recording_metadata_path :: "'l artifact_manager \<Rightarrow> ttd_recording_id \<Rightarrow> path" where
  "ttd_recording_metadata_path a i = ttd_recording_dir a i @ [''recording.json'']"

definition ttd_recording_events_path :: "'l artifact_manager \<Rightarrow> ttd_recording_id \<Rightarrow> path" where
  "ttd_recording_events_path a i = ttd_recording_dir a i @ [''events.jsonl'']"

definition ttd_recording_traces_dir :: "'l artifact_manager \<Rightarrow> ttd_recording_id \<Rightarrow> path" where
  "ttd_recording_traces_dir a i = ttd_recording_dir a i @ [''traces'']"

definition ttd_recorder_stdout_path :: "'l artifact_manager \<Rightarrow> ttd_recording_id \<Rightarrow> path" where
  "ttd_recorder_stdout_path a i = ttd_recording_dir a i @ [''recorder'', ''stdout.txt'']"

definition ttd_recorder_stderr_path :: "'l artifact_manager \<Rightarrow> ttd_recording_id \<Rightarrow> path" where
  "ttd_recorder_stderr_path a i = ttd_recording_dir a i @ [''recorder'', ''stderr.txt'']"

definition ttd_recorder_stop_stdout_path :: "'l artifact_manager \<Rightarrow> ttd_recording_id \<Rightarrow> path" where
  "ttd_recorder_stop_stdout_path a i = ttd_recording_dir a i @ [''recorder'', ''stop_stdout.txt'']"

definition ttd_recorder_stop_stderr_path :: "'l artifact_manager \<Rightarrow> ttd_recording_id \<Rightarrow> path" where
  "ttd_recorder_stop_stderr_path a i = ttd_recording_dir a i @ [''recorder'', ''stop_stderr.txt'']"

definition reverse_session_metadata_path :: "'l artifact_manager \<Rightarrow> session_id \<Rightarrow> path" where
  "reverse_session_metadata_path a i = reverse_session_dir a i @ [''session.json'']"

definition reverse_session_request_path :: "'l artifact_manager \<Rightarrow> session_id \<Rightarrow> path" where
  "reverse_session_request_path a i = reverse_session_dir a i @ [''request.json'']"

definition reverse_session_worker_log_path :: "'l artifact_manager \<Rightarrow> session_id \<Rightarrow> path" where
  "reverse_session_worker_log_path a i = reverse_session_dir a i @ [''worker.log'']"

definition reverse_session_output_path :: "'l artifact_manager \<Rightarrow> session_id \<Rightarrow> string \<Rightarrow> path" where
  "reverse_session_output_path a i file_name = reverse_session_dir a i @ [''outputs'', file_name]"

section \<open>File operations\<close>

definition create_dir_all :: "path \<Rightarrow> 'l artifact_manager \<Rightarrow> unit result \<times> 'l artifact_manager" where
  "create_dir_all p a =
     (case fs_error a p of
        Some e \<Rightarrow> (Inl (Artifact e), a)
      | None \<Rightarrow> (Inr (), a\<lparr>fs_dirs := (\<lambda>q. fs_dirs a q \<or> prefix q p)\<rparr>))"

definition file_content :: "path \<Rightarrow> 'l artifact_manager \<Rightarrow> 'l list" where
  "file_content p a = (case fs_files a p of None \<Rightarrow> [] | Some ls \<Rightarrow> ls)"

text \<open>\<open>append_jsonl\<close> and \<open>append_text\<close>; \<open>touch\<close> opens in the same way and writes nothing.\<close>

definition append_pieces :: "path \<Rightarrow> 'l list \<Rightarrow> 'l artifact_manager \<Rightarrow> unit result \<times> 'l artifact_manager" where
  "append_pieces p ls a =
     (case fs_error a p of
        Some e \<Rightarrow> (Inl (Artifact e), a)
      | None \<Rightarrow> (Inr (), a\<lparr>fs_files := (fs_files a)(p \<mapsto> file_content p a @ ls)\<rparr>))"

definition touch :: "path \<Rightarrow> 'l artifact_manager \<Rightarrow> unit result \<times> 'l artifact_manager" where
  "touch p = append_pieces p []"

definition write_file :: "path \<Rightarrow> 'l \<Rightarrow> 'l artifact_manager \<Rightarrow> unit result \<times> 'l artifact_manager" where
  "write_file p l a =
     (case fs_error a p of
        Some e \<Rightarrow> (Inl (Artifact e), a)
      | None \<Rightarrow> (Inr (), a\<lparr>fs_files := (fs_files a)(p \<mapsto> [l])\<rparr>))"

text \<open>A sequence of steps joined by \<open>?\<close>: the first error ends it, what was done stays done.\<close>

fun steps :: "('s \<Rightarrow> unit result \<times> 's) list \<Rightarrow> 's \<Rightarrow> unit result \<times> 's" where
  "steps [] s = (Inr (), s)"
| "steps (f # fs) s = (case f s of (Inl e, s') \<Rightarrow> (Inl e, s') | (Inr _, s') \<Rightarrow> steps fs s')"

text \<open>The manager's own mutex, around every operation.\<close>

definition locked :: "('l artifact_manager \<Rightarrow> 'r result \<times> 'l artifact_manager) \<Rightarrow> 'l artifact_manager
    \<Rightarrow> 'r result \<times> 'l artifact_manager" where
  "locked f a =
     (if am_poisoned a then (Inl (Artifact ''artifact manager lock poisoned''), a) else f a)"

definition returning :: "'r \<Rightarrow> unit result \<times> 's \<Rightarrow> 'r result \<times> 's" where
  "returning r x = (case x of (Inl e, s) \<Rightarrow> (Inl e, s) | (Inr _, s) \<Rightarrow> (Inr r, s))"

definition initialize_session_artifacts :: "session_id \<Rightarrow> 'l artifact_manager \<Rightarrow> path result \<times> 'l artifact_manager" where
  "initialize_session_artifacts i = locked (\<lambda>a.
     (let dir = session_dir a i in
      returning dir (steps
        [create_dir_all dir, create_dir_all (dir @ [''outputs'']), touch (dir @ [''transcript.log'']),
         touch (dir @ [''events.jsonl'']), touch (dir @ [''commands.jsonl''])] a)))"

definition initialize_profile_artifacts :: "profile_id \<Rightarrow> 'l artifact_manager \<Rightarrow> path result \<times> 'l artifact_manager" where
  "initialize_profile_artifacts i = locked (\<lambda>a.
     (let dir = profile_dir a i in
      returning dir (steps
        [create_dir_all dir, create_dir_all (dir @ [''target'']), create_dir_all (dir @ [''collectors'']),
         touch (dir @ [''events.jsonl''])] a)))"

definition initialize_ttd_recording_artifacts ::
    "ttd_recording_id \<Rightarrow> 'l artifact_manager \<Rightarrow> path result \<times> 'l artifact_manager" where
  "initialize_ttd_recording_artifacts i = locked (\<lambda>a.
     (let dir = ttd_recording_dir a i in
      returning dir (steps
        [create_dir_all dir, create_dir_all (dir @ [''recorder'']), create_dir_all (dir @ [''target'']),
         create_dir_all (dir @ [''traces'']), touch (dir @ [''events.jsonl'']),
         touch (dir @ [''recorder'', ''stdout.txt'']), touch (dir @ [''recorder'', ''stderr.txt'']),
         touch (dir @ [''target'', ''stdout.txt'']), touch (dir @ [''target'', ''stderr.txt''])] a)))"

definition initialize_reverse_session_artifacts ::
    "session_id \<Rightarrow> 'l artifact_manager \<Rightarrow> path result \<times> 'l artifact_manager" where
  "initialize_reverse_session_artifacts i = locked (\<lambda>a.
     (let dir = reverse_session_dir a i in
      returning dir (steps
        [create_dir_all dir, create_dir_all (dir @ [''outputs'']), touch (dir @ [''events.jsonl'']),
         touch (dir @ [''worker.log''])] a)))"

text \<open>The file name rule of \<open>profile_collector_dir\<close> and \<open>write_reverse_session_output\<close>.\<close>

definition artifact_name_ok :: "string \<Rightarrow> bool" where
  "artifact_name_ok name =
     (name \<noteq> [] \<and> \<not> (\<exists>ch \<in> set (lit name). ch = slash \<or> ch = backslash \<or> is_control ch))"

definition profile_collector_dir ::
    "profile_id \<Rightarrow> string \<Rightarrow> 'l artifact_manager \<Rightarrow> path result \<times> 'l artifact_manager" where
  "profile_collector_dir i collector_name a =
     (if \<not> artifact_name_ok collector_name
      then (Inl (Artifact ''profile collector artifact name is invalid''), a)
      else locked (\<lambda>a.
        (let dir = profile_dir a i @ [''collectors'', collector_name]
         in returning dir (steps [create_dir_all (profile_dir a i), create_dir_all dir] a))) a)"

text \<open>Appending a line to the log of an owner, below the owner's directory.\<close>

definition append_below ::
    "('l artifact_manager \<Rightarrow> path) \<Rightarrow> string \<Rightarrow> 'l \<Rightarrow> 'l artifact_manager \<Rightarrow> unit result \<times> 'l artifact_manager" where
  "append_below dir_of file l = locked (\<lambda>a.
     (let dir = dir_of a in steps [create_dir_all dir, append_pieces (dir @ [file]) [l]] a))"

definition append_event :: "session_id \<Rightarrow> 'l \<Rightarrow> 'l artifact_manager \<Rightarrow> unit result \<times> 'l artifact_manager" where
  "append_event i = append_below (\<lambda>a. session_dir a i) ''events.jsonl''"

definition append_transcript :: "session_id \<Rightarrow> 'l \<Rightarrow> 'l artifact_manager \<Rightarrow> unit result \<times> 'l artifact_manager" where
  "append_transcript i = append_below (\<lambda>a. session_dir a i) ''transcript.log''"

definition append_command_record :: "session_id \<Rightarrow> 'l \<Rightarrow> 'l artifact_manager \<Rightarrow> unit result \<times> 'l artifact_manager" where
  "append_command_record i = append_below (\<lambda>a. session_dir a i) ''commands.jsonl''"

definition append_profile_event :: "profile_id \<Rightarrow> 'l \<Rightarrow> 'l artifact_manager \<Rightarrow> unit result \<times> 'l artifact_manager" where
  "append_profile_event i = append_below (\<lambda>a. profile_dir a i) ''events.jsonl''"

definition append_ttd_recording_event ::
    "ttd_recording_id \<Rightarrow> 'l \<Rightarrow> 'l artifact_manager \<Rightarrow> unit result \<times> 'l artifact_manager" where
  "append_ttd_recording_event i = append_below (\<lambda>a. ttd_recording_dir a i) ''events.jsonl''"

definition append_reverse_session_event ::
    "session_id \<Rightarrow> 'l \<Rightarrow> 'l artifact_manager \<Rightarrow> unit result \<times> 'l artifact_manager" where
  "append_reverse_session_event i = append_below (\<lambda>a. reverse_session_dir a i) ''events.jsonl''"

definition write_eval_output ::
    "session_id \<Rightarrow> string \<Rightarrow> 'l \<Rightarrow> 'l artifact_manager \<Rightarrow> artifact_ref result \<times> 'l artifact_manager" where
  "write_eval_output i command_id output = locked (\<lambda>a.
     (let dir = session_dir a i; p = command_output_path a i command_id in
      returning \<lparr>ar_kind = CommandOutput, ar_path = p\<rparr> (steps
        [create_dir_all dir, create_dir_all (dir @ [''outputs'']), write_file p output] a)))"

definition write_eval_artifacts ::
    "session_id \<Rightarrow> string \<Rightarrow> 'l \<Rightarrow> 'l \<Rightarrow> 'l artifact_manager \<Rightarrow> artifact_ref result \<times> 'l artifact_manager" where
  "write_eval_artifacts i command_id command_line output a =
     (case write_eval_output i command_id output a of
        (Inl e, a') \<Rightarrow> (Inl e, a')
      | (Inr artifact, a') \<Rightarrow> returning artifact (append_command_record i command_line a'))"

definition write_below ::
    "('l artifact_manager \<Rightarrow> path) \<Rightarrow> artifact_kind \<Rightarrow> string \<Rightarrow> 'l \<Rightarrow> 'l artifact_manager
       \<Rightarrow> artifact_ref result \<times> 'l artifact_manager" where
  "write_below dir_of kind file l = locked (\<lambda>a.
     (let dir = dir_of a; p = dir @ [file] in
      returning \<lparr>ar_kind = kind, ar_path = p\<rparr> (steps [create_dir_all dir, write_file p l] a)))"

definition write_profile_metadata ::
    "profile_id \<Rightarrow> 'l \<Rightarrow> 'l artifact_manager \<Rightarrow> artifact_ref result \<times> 'l artifact_manager" where
  "write_profile_metadata i = write_below (\<lambda>a. profile_dir a i) ProfileMetadata ''profile.json''"

definition write_ttd_recording_metadata ::
    "ttd_recording_id \<Rightarrow> 'l \<Rightarrow> 'l artifact_manager \<Rightarrow> artifact_ref result \<times> 'l artifact_manager" where
  "write_ttd_recording_metadata i =
     write_below (\<lambda>a. ttd_recording_dir a i) TtdRecordingMetadata ''recording.json''"

definition write_reverse_session_request ::
    "session_id \<Rightarrow> 'l \<Rightarrow> 'l artifact_manager \<Rightarrow> artifact_ref result \<times> 'l artifact_manager" where
  "write_reverse_session_request i =
     write_below (\<lambda>a. reverse_session_dir a i) ReverseSessionRequest ''request.json''"

definition write_reverse_session_metadata ::
    "session_id \<Rightarrow> 'l \<Rightarrow> 'l artifact_manager \<Rightarrow> artifact_ref result \<times> 'l artifact_manager" where
  "write_reverse_session_metadata i =
     write_below (\<lambda>a. reverse_session_dir a i) ReverseSessionMetadata ''session.json''"

definition write_reverse_session_output ::
    "session_id \<Rightarrow> string \<Rightarrow> 'l \<Rightarrow> 'l artifact_manager \<Rightarrow> artifact_ref result \<times> 'l artifact_manager" where
  "write_reverse_session_output i file_name output a =
     (if \<not> artifact_name_ok file_name
      then (Inl (Artifact ''reverse output artifact name is invalid''), a)
      else locked (\<lambda>a.
        (let dir = reverse_session_dir a i; p = dir @ [''outputs'', file_name] in
         returning \<lparr>ar_kind = ReverseSessionOutput, ar_path = p\<rparr> (steps
           [create_dir_all dir, create_dir_all (dir @ [''outputs'']), write_file p output] a))) a)"

section \<open>The contract of an append-only log\<close>

text \<open>
  What the managers rely on when they audit: an append either adds exactly its line at the end of
  its own log, or fails and changes no log.
\<close>

locale append_log =
  fixes append :: "'id \<Rightarrow> 'l \<Rightarrow> 's \<Rightarrow> 'r result \<times> 's"
    and lines :: "'id \<Rightarrow> 's \<Rightarrow> 'l list"
    and ok :: "'s \<Rightarrow> bool"
  assumes append_own: "ok s \<Longrightarrow> append i l s = (Inr r, s') \<Longrightarrow> lines i s' = lines i s @ [l]"
    and append_other: "ok s \<Longrightarrow> append i l s = (x, s') \<Longrightarrow> j \<noteq> i \<Longrightarrow> lines j s' = lines j s"
    and append_fail: "ok s \<Longrightarrow> append i l s = (Inl e, s') \<Longrightarrow> lines j s' = lines j s"
    and append_ok: "ok s \<Longrightarrow> append i l s = (x, s') \<Longrightarrow> ok s'"
begin

lemma append_prefix: "ok s \<Longrightarrow> append i l s = (x, s') \<Longrightarrow> prefix (lines j s) (lines j s')"
  using append_own append_other append_fail by (cases x; cases "j = i") fastforce+

text \<open>A run of best-effort appends: errors are dropped.\<close>

definition run :: "('id \<times> 'l) list \<Rightarrow> 's \<Rightarrow> 's" where
  "run ps s = fold (\<lambda>(i, l) s. snd (append i l s)) ps s"

lemma run_prefix: "ok s \<Longrightarrow> prefix (lines j s) (lines j (run ps s)) \<and> ok (run ps s)"
proof (induction ps arbitrary: s)
  case (Cons p ps)
  obtain i l where p: "p = (i, l)" by force
  obtain x s' where a: "append i l s = (x, s')" by force
  have "prefix (lines j s) (lines j s')" and "ok s'"
    using append_prefix[OF Cons.prems a] append_ok[OF Cons.prems a] by blast+
  with Cons.IH[of s'] p a show ?case
    by (auto simp: run_def intro: prefix_order.trans)
qed (simp add: run_def)

end

section \<open>What the store guarantees\<close>

text \<open>The printed ids tell the ids apart, as the \<open>uuid\<close> crate's \<open>Display\<close> does.\<close>

definition store_ok :: "'l artifact_manager \<Rightarrow> bool" where
  "store_ok a \<longleftrightarrow> inj (am_show_id a)"

definition session_log :: "string \<Rightarrow> session_id \<Rightarrow> 'l artifact_manager \<Rightarrow> 'l list" where
  "session_log file i a = file_content (session_dir a i @ [file]) a"

lemma create_dir_all_same [simp]:
  "am_root (snd (create_dir_all p a)) = am_root a" "am_show_id (snd (create_dir_all p a)) = am_show_id a"
  "fs_files (snd (create_dir_all p a)) = fs_files a" "fs_error (snd (create_dir_all p a)) = fs_error a"
  "am_poisoned (snd (create_dir_all p a)) = am_poisoned a"
  by (simp_all add: create_dir_all_def split: option.split)

lemma create_dir_all_result: "fst (create_dir_all p a) = (case fs_error a p of None \<Rightarrow> Inr () | Some e \<Rightarrow> Inl (Artifact e))"
  by (simp add: create_dir_all_def split: option.split)

text \<open>The whole effect of an append below a directory, by its outcome.\<close>

lemma append_below_cases:
  "append_below dir_of file l a =
     (if am_poisoned a then (Inl (Artifact ''artifact manager lock poisoned''), a)
      else case fs_error a (dir_of a) of
        Some e \<Rightarrow> (Inl (Artifact e), a)
      | None \<Rightarrow>
          (let a' = a\<lparr>fs_dirs := (\<lambda>q. fs_dirs a q \<or> prefix q (dir_of a))\<rparr> in
           case fs_error a (dir_of a @ [file]) of
             Some e \<Rightarrow> (Inl (Artifact e), a')
           | None \<Rightarrow> (Inr (), a'\<lparr>fs_files := (fs_files a)(dir_of a @ [file] \<mapsto>
                        file_content (dir_of a @ [file]) a @ [l])\<rparr>)))"
  by (simp add: append_below_def locked_def create_dir_all_def append_pieces_def file_content_def Let_def
      split: option.split)

lemma session_dir_inj: "store_ok a \<Longrightarrow> session_dir a i = session_dir a j \<longleftrightarrow> i = j"
  by (auto simp: session_dir_def store_ok_def inj_eq)

interpretation event_log: append_log append_event "session_log ''events.jsonl''" store_ok
  by unfold_locales
     (auto simp: append_event_def append_below_cases session_log_def file_content_def session_dir_def
       store_ok_def inj_eq Let_def split: if_splits option.splits)

interpretation command_log: append_log append_command_record "session_log ''commands.jsonl''" store_ok
  by unfold_locales
     (auto simp: append_command_record_def append_below_cases session_log_def file_content_def
       session_dir_def store_ok_def inj_eq Let_def split: if_splits option.splits)

interpretation transcript_log: append_log append_transcript "session_log ''transcript.log''" store_ok
  by unfold_locales
     (auto simp: append_transcript_def append_below_cases session_log_def file_content_def
       session_dir_def store_ok_def inj_eq Let_def split: if_splits option.splits)

text \<open>
  The audit log is append-only: whatever session events are appended for whatever sessions,
  and whichever of the appends fail, no line of any session's \<open>events.jsonl\<close> is ever changed or
  removed; it only grows at its end.
\<close>

theorem events_append_only:
  assumes "inj (am_show_id a)"
  shows "prefix (session_log ''events.jsonl'' j a)
           (session_log ''events.jsonl'' j (fold (\<lambda>(i, l) a. snd (append_event i l a)) ps a))"
  using event_log.run_prefix[of a j ps] assms by (simp add: event_log.run_def store_ok_def)

text \<open>An instance over a store that prints an id in unary, with two sessions and three appends.\<close>

definition demo_store :: "nat artifact_manager" where
  "demo_store = \<lparr>am_root = [''artifacts''], am_show_id = (\<lambda>i. replicate (unat i) CHR ''x''),
     am_poisoned = False, fs_dirs = (\<lambda>_. False), fs_files = (\<lambda>_. None), fs_error = (\<lambda>_. None)\<rparr>"

lemma demo_store_ids: "inj (am_show_id demo_store)"
  by (auto simp: demo_store_def inj_def word_unat_eq_iff dest: arg_cong[where f = length])

lemma events_append_only_witness:
  "prefix (session_log ''events.jsonl'' 1 demo_store)
     (session_log ''events.jsonl'' 1 (fold (\<lambda>(i, l) a. snd (append_event i l a)) [(1, 7), (2, 8), (1, 9)] demo_store))"
  using events_append_only[OF demo_store_ids, of 1 "[(1, 7), (2, 8), (1, 9)]"] .

text \<open>Artifacts of different owners never meet.\<close>

lemma artifact_paths_disjoint:
  assumes "store_ok a"
  shows "session_dir a i @ r = session_dir a j @ r' \<longleftrightarrow> i = j \<and> r = r'"
    and "session_dir a i @ r \<noteq> profile_dir a k @ r'"
    and "session_dir a i @ r \<noteq> ttd_recording_dir a k @ r'"
    and "session_dir a i @ r \<noteq> reverse_session_dir a k @ r'"
  using assms
  by (auto simp: session_dir_def profile_dir_def ttd_recording_dir_def reverse_session_dir_def store_ok_def inj_eq)

text \<open>
  Writing the output of a command is all or nothing: on success the reference returned names
  the command's own output file, which holds exactly the output, and no other file changed; on any
  error no file changed at all, so a failed write leaves earlier artifacts intact.
\<close>

theorem write_eval_output_correct:
  "case write_eval_output i command_id output a of
     (Inr ref, a') \<Rightarrow>
       ar_path ref = session_dir a i @ [''outputs'', command_id @ ''.txt'']
       \<and> fs_files a' (ar_path ref) = Some [output]
       \<and> (fs_files a')(ar_path ref := fs_files a (ar_path ref)) = fs_files a
   | (Inl e, a') \<Rightarrow> fs_files a' = fs_files a \<and> (\<exists>msg. e = Artifact msg)"
  by (simp add: write_eval_output_def locked_def returning_def create_dir_all_def write_file_def
      command_output_path_def Let_def session_dir_def split: option.split)

end
