(* ===== verification/Job.thy ===== *)
theory Job
  imports Common
begin

text \<open>
  \<open>dbgflow-common/src/job.rs\<close>: at most one active job. The shared cell
  \<open>Arc<Mutex<Option<I>>>\<close> is the state, a guard is the id it was created with, and dropping
  a guard clears the cell only when the cell still holds that id.
\<close>

record 'i single_active_job =
  job_active :: "'i option"
  job_poisoned :: bool

definition job_default :: "'i single_active_job" where
  "job_default = \<lparr>job_active = None, job_poisoned = False\<rparr>"

definition job_start ::
    "'i \<Rightarrow> ('i \<Rightarrow> string) \<Rightarrow> 'i single_active_job \<Rightarrow> 'i result \<times> 'i single_active_job" where
  "job_start i busy_message j =
     (if job_poisoned j then (Inl (Backend ''active job lock poisoned''), j)
      else case job_active j of
        Some active_id \<Rightarrow> (Inl (Backend (busy_message active_id)), j)
      | None \<Rightarrow> (Inr i, j\<lparr>job_active := Some i\<rparr>))"

definition job_drop :: "'i \<Rightarrow> 'i single_active_job \<Rightarrow> 'i single_active_job" where
  "job_drop i j =
     (if job_poisoned j then j
      else if job_active j = Some i then j\<lparr>job_active := None\<rparr> else j)"

text \<open>
  The contract of a one-slot lock whose holders are identified: what its clients (the
  profile and TTD managers) rely on.
\<close>

locale slot_lock =
  fixes try_start :: "'i \<Rightarrow> 's \<Rightarrow> 'e + 's"
    and release :: "'i \<Rightarrow> 's \<Rightarrow> 's"
    and holder :: "'s \<Rightarrow> 'i option"
  assumes start_ok: "try_start i s = Inr s' \<Longrightarrow> holder s = None \<and> holder s' = Some i"
    and release_other: "holder s \<noteq> Some i \<Longrightarrow> release i s = s"
    and release_own: "holder s = Some i \<Longrightarrow> holder (release i s) = None \<or> release i s = s"
begin

lemma start_busy: "holder s = Some k \<Longrightarrow> \<exists>e. try_start i s = Inl e"
  using start_ok by (cases "try_start i s") fastforce+

lemma release_keeps: "holder s = Some k \<Longrightarrow> i \<noteq> k \<Longrightarrow> holder (release i s) = Some k"
  using release_other by fastforce

end

interpretation job: slot_lock
  "\<lambda>i j. case job_start i busy j of (Inl e, _) \<Rightarrow> Inl e | (Inr _, j') \<Rightarrow> Inr j'"
  job_drop job_active for busy
  by unfold_locales
     (auto simp: job_start_def job_drop_def split: if_splits option.splits)

text \<open>
  A run of the cell: the events are start attempts and drops. A guard exists from a start
  that succeeded to its drop; \<open>held\<close> lists the guards alive.
\<close>

datatype 'i job_event = Start 'i | Drop 'i

fun job_step :: "'i job_event \<Rightarrow> 'i single_active_job \<times> 'i list \<Rightarrow> 'i single_active_job \<times> 'i list" where
  "job_step (Start i) (j, held) =
     (case job_start i (\<lambda>_. '''') j of (Inr _, j') \<Rightarrow> (j', i # held) | (Inl _, j') \<Rightarrow> (j', held))"
| "job_step (Drop i) (j, held) =
     (if i \<in> set held then (job_drop i j, remove1 i held) else (j, held))"

definition job_inv :: "'i single_active_job \<times> 'i list \<Rightarrow> bool" where
  "job_inv = (\<lambda>(j, held). \<not> job_poisoned j \<and> held = (case job_active j of None \<Rightarrow> [] | Some i \<Rightarrow> [i]))"

lemma job_step_inv: "job_inv s \<Longrightarrow> job_inv (job_step e s)"
  by (cases s; cases e)
     (auto simp: job_inv_def job_start_def job_drop_def split: option.splits if_splits)

lemma job_run_inv: "job_inv s \<Longrightarrow> job_inv (fold job_step es s)"
proof (induction es arbitrary: s)
  case (Cons e es)
  from Cons.IH [OF job_step_inv [OF Cons.prems]] show ?case by simp
qed simp

text \<open>
  Whatever sequence of start attempts and guard drops is made from the default state, at
  most one guard is alive at any moment, and the cell names exactly that guard: when no guard
  is alive the cell is empty, so a later start succeeds.
\<close>

lemma single_active_job_exclusive:
  "case fold job_step es (job_default, []) of (j, held) \<Rightarrow>
     length held \<le> 1
     \<and> job_active j = (case held of [] \<Rightarrow> None | i # _ \<Rightarrow> Some i)
     \<and> (held = [] \<longrightarrow> job_start k busy j = (Inr k, j\<lparr>job_active := Some k\<rparr>))"
proof -
  have "job_inv (fold job_step es (job_default, []))"
    by (rule job_run_inv) (simp add: job_inv_def job_default_def)
  then show ?thesis
    by (auto simp: job_inv_def job_start_def split: prod.splits option.splits)
qed

text \<open>An instance: while job 7 runs a second start fails, and after its drop one succeeds.\<close>

lemma single_active_job_exclusive_witness:
  "(case fold job_step [Start 7, Start (8 :: nat), Drop 7] (job_default, []) of (j, held) \<Rightarrow>
     length held \<le> 1 \<and> job_active j = (case held of [] \<Rightarrow> None | i # _ \<Rightarrow> Some i)
     \<and> job_start 9 (\<lambda>_. ''busy'') j = (Inr 9, j\<lparr>job_active := Some 9\<rparr>))"
  using single_active_job_exclusive
    [where es = "[Start 7, Start (8 :: nat), Drop 7]" and k = 9 and busy = "\<lambda>_. ''busy''"]
  by (simp add: job_start_def job_drop_def job_default_def)

end
