(* ===== verification/Session_Types.thy ===== *)
theory Session_Types
  imports Artifacts Hex
begin

text \<open>
  The data of the debug sessions: states (\<open>session/state.rs\<close>), targets (\<open>backend/mod.rs\<close>), their
  validation (\<open>session/validation.rs\<close>), operations (\<open>session/operation.rs\<close>), audit events
  (\<open>session/audit.rs\<close>) and log events (\<open>dbgflow-common/src/logging.rs\<close>). A time in milliseconds
  is a \<open>nat\<close>; a command and whatever quotes it is a \<open>utext\<close>.
\<close>

section \<open>States\<close>

datatype session_state = Created | Starting | Ready | Break | Running | Closing | Closed | Error

definition is_terminal :: "session_state \<Rightarrow> bool" where
  "is_terminal s = (s \<in> {Closed, Error})"

definition is_reusable :: "session_state \<Rightarrow> bool" where
  "is_reusable s = (s \<in> {Created, Starting, Ready, Break, Running})"

lemma is_terminal_simps [session_simps]:
  "is_terminal s = (s = Closed \<or> s = Error)" "is_reusable s = (s \<notin> {Closing, Closed, Error})"
  by (cases s; simp add: is_terminal_def is_reusable_def)+

text \<open>The \<open>Debug\<close> format of a state.\<close>

fun state_name :: "session_state \<Rightarrow> string" where
  "state_name Created = ''Created''"
| "state_name Starting = ''Starting''"
| "state_name Ready = ''Ready''"
| "state_name Break = ''Break''"
| "state_name Running = ''Running''"
| "state_name Closing = ''Closing''"
| "state_name Closed = ''Closed''"
| "state_name Error = ''Error''"

datatype backend_execution_state = BackendBreak | BackendRunning | BackendClosed

fun backend_state_name :: "backend_execution_state \<Rightarrow> string" where
  "backend_state_name BackendBreak = ''Break''"
| "backend_state_name BackendRunning = ''Running''"
| "backend_state_name BackendClosed = ''Closed''"

fun session_state_for_backend_execution_state :: "backend_execution_state \<Rightarrow> session_state" where
  "session_state_for_backend_execution_state BackendBreak = Break"
| "session_state_for_backend_execution_state BackendRunning = Running"
| "session_state_for_backend_execution_state BackendClosed = Closed"

record backend_execution_event =
  be_state :: backend_execution_state
  be_reason :: "utext option"

section \<open>Targets\<close>

datatype debug_target =
    Dump string
  | Attach u32
  | Launch string "utext list"

fun state_for_target :: "debug_target \<Rightarrow> session_state" where
  "state_for_target (Dump path) = Break"
| "state_for_target (Attach pid) = Break"
| "state_for_target (Launch executable args) = Break"

text \<open>What the file system answers for a path: its canonical form or an error, and whether a path
  is a file; and the process id of the server.\<close>

record target_env =
  te_canonicalize :: "string \<Rightarrow> string + string"
  te_is_file :: "string \<Rightarrow> bool"
  te_process_id :: u32

definition validate_dump_target :: "target_env \<Rightarrow> string \<Rightarrow> string result" where
  "validate_dump_target env path =
     (case te_canonicalize env path of
        Inl e \<Rightarrow> Inl (Backend (''invalid dump path: '' @ e))
      | Inr canonical_path \<Rightarrow>
          (if \<not> te_is_file env canonical_path
           then Inl (Backend (''dump path is not a file: '' @ canonical_path))
           else Inr canonical_path))"

definition validate_attach_target :: "target_env \<Rightarrow> u32 \<Rightarrow> debug_target result" where
  "validate_attach_target env pid =
     (if pid = 0 then Inl (Backend ''attach pid must be greater than zero'')
      else if pid = te_process_id env
      then Inl (Backend ''refusing to attach to the current dbgflow process'')
      else Inr (Attach pid))"

definition validate_launch_target :: "target_env \<Rightarrow> string \<Rightarrow> utext list \<Rightarrow> debug_target result" where
  "validate_launch_target env executable args =
     (case te_canonicalize env executable of
        Inl e \<Rightarrow> Inl (Backend (''invalid launch executable: '' @ e))
      | Inr canonical \<Rightarrow>
          (if \<not> te_is_file env canonical
           then Inl (Backend (''launch executable is not a file: '' @ canonical))
           else if \<exists>arg \<in> set args. 0 \<in> set arg
           then Inl (Backend ''launch arguments must not contain NUL bytes'')
           else Inr (Launch canonical args)))"

fun validate_target :: "target_env \<Rightarrow> debug_target \<Rightarrow> debug_target result" where
  "validate_target env (Dump path) =
     (case validate_dump_target env path of Inl e \<Rightarrow> Inl e | Inr p \<Rightarrow> Inr (Dump p))"
| "validate_target env (Attach pid) = validate_attach_target env pid"
| "validate_target env (Launch executable args) = validate_launch_target env executable args"

text \<open>
  Validation accepts exactly the targets that can be opened safely: an accepted dump or
  executable is the canonical path of an existing file, an accepted process id is neither zero nor
  the server's own, accepted arguments have no NUL; the kind, id and arguments are kept, and every
  other target is rejected with a backend error.
\<close>

theorem validate_target_correct:
  "case validate_target env target of
     Inr accepted \<Rightarrow>
       (case (target, accepted) of
          (Dump path, Dump p) \<Rightarrow> te_canonicalize env path = Inr p \<and> te_is_file env p
        | (Attach pid, Attach pid') \<Rightarrow> pid' = pid \<and> pid \<noteq> 0 \<and> pid \<noteq> te_process_id env
        | (Launch executable args, Launch p args') \<Rightarrow>
            te_canonicalize env executable = Inr p \<and> te_is_file env p \<and> args' = args
            \<and> list_all (\<lambda>arg. 0 \<notin> set arg) args
        | _ \<Rightarrow> False)
   | Inl e \<Rightarrow>
       (\<exists>msg. e = Backend msg)
       \<and> (case target of
            Dump path \<Rightarrow> \<nexists>p. te_canonicalize env path = Inr p \<and> te_is_file env p
          | Attach pid \<Rightarrow> pid = 0 \<or> pid = te_process_id env
          | Launch executable args \<Rightarrow>
              \<not> ((\<exists>p. te_canonicalize env executable = Inr p \<and> te_is_file env p)
                 \<and> list_all (\<lambda>arg. 0 \<notin> set arg) args))"
  by (cases target)
     (auto simp: validate_dump_target_def validate_attach_target_def validate_launch_target_def
       list_all_iff split: sum.splits if_splits)

section \<open>Operations and sessions\<close>

datatype operation_status = OpRunning | CancelRequested | Canceled | Finished | Failed

fun operation_status_label :: "operation_status \<Rightarrow> string" where
  "operation_status_label OpRunning = ''Running''"
| "operation_status_label CancelRequested = ''CancelRequested''"
| "operation_status_label Canceled = ''Canceled''"
| "operation_status_label Finished = ''Finished''"
| "operation_status_label Failed = ''Failed''"

record operation_summary =
  op_command_id :: string
  op_command :: utext
  op_status :: operation_status
  op_started_at :: nat
  op_finished_at :: "nat option"
  op_duration_ms :: "nat option"
  op_artifact :: "artifact_ref option"
  op_error :: "string option"
  op_output_bytes :: "nat option"

record session =
  s_id :: session_id
  s_backend :: string
  s_backend_session_id :: "string option"
  s_target :: debug_target
  s_state :: session_state
  s_created_at :: nat
  s_updated_at :: nat
  s_warnings :: "string list"
  s_current_operation :: "utext option"
  s_last_operation :: "operation_summary option"
  s_error :: "string option"

definition is_active :: "operation_status \<Rightarrow> bool" where
  "is_active st = (st \<in> {OpRunning, CancelRequested})"

text \<open>\<open>finalize_canceled_operation\<close>: the operation that was running, ended with a status; the
  clock is read once. \<open>saturating_sub\<close> on \<open>u128\<close> is subtraction on \<open>nat\<close>.\<close>

definition finalize_canceled_operation ::
    "nat \<Rightarrow> operation_status \<Rightarrow> string \<Rightarrow> session \<Rightarrow> operation_summary option \<times> session" where
  "finalize_canceled_operation now status error s =
     (case s_last_operation s of
        None \<Rightarrow> (None, s)
      | Some operation \<Rightarrow>
          (if is_active (op_status operation) then
             (let operation' = operation
                \<lparr>op_status := status, op_finished_at := Some now,
                 op_duration_ms := Some (now - op_started_at operation), op_error := Some error\<rparr>
              in (Some operation', s\<lparr>s_last_operation := Some operation'\<rparr>))
           else (None, s)))"

record command_artifact_record =
  cr_command_id :: string
  cr_command :: utext
  cr_status :: string
  cr_output_path :: "path option"
  cr_started_at :: nat
  cr_duration_ms :: "nat option"
  cr_output_bytes :: "nat option"
  cr_warnings :: "string list"
  cr_error :: "string option"
  cr_backend_session_id :: "string option"

definition command_record_from_operation ::
    "operation_summary \<Rightarrow> string option \<Rightarrow> command_artifact_record" where
  "command_record_from_operation operation backend_session_id =
     \<lparr>cr_command_id = op_command_id operation, cr_command = op_command operation,
      cr_status = operation_status_label (op_status operation),
      cr_output_path = map_option ar_path (op_artifact operation),
      cr_started_at = op_started_at operation, cr_duration_ms = op_duration_ms operation,
      cr_output_bytes = op_output_bytes operation, cr_warnings = [], cr_error = op_error operation,
      cr_backend_session_id = backend_session_id\<rparr>"

section \<open>Audit events\<close>

datatype json_value = JString utext | JNumber nat | JBool bool | JTarget debug_target

record session_artifact_event =
  ev_timestamp :: nat
  ev_event :: string
  ev_session_id :: string
  ev_previous_state :: "string option"
  ev_new_state :: "string option"
  ev_backend :: "string option"
  ev_backend_session_id :: "string option"
  ev_operation :: "utext option"
  ev_command_id :: "string option"
  ev_artifact_path :: "path option"
  ev_error :: "string option"
  ev_fields :: "(string \<times> json_value) list"

definition session_event ::
    "nat \<Rightarrow> (session_id \<Rightarrow> string) \<Rightarrow> string \<Rightarrow> session \<Rightarrow> session_state option \<Rightarrow> utext option \<Rightarrow> string option
       \<Rightarrow> path option \<Rightarrow> string option \<Rightarrow> (string \<times> json_value) list \<Rightarrow> session_artifact_event" where
  "session_event now show_id event s previous_state operation command_id artifact_path error extra =
     \<lparr>ev_timestamp = now, ev_event = event, ev_session_id = show_id (s_id s),
      ev_previous_state = map_option state_name previous_state,
      ev_new_state = Some (state_name (s_state s)),
      ev_backend = Some (s_backend s), ev_backend_session_id = s_backend_session_id s,
      ev_operation = operation, ev_command_id = command_id, ev_artifact_path = artifact_path,
      ev_error = error, ev_fields = extra\<rparr>"

definition operation_artifact_event ::
    "nat \<Rightarrow> (session_id \<Rightarrow> string) \<Rightarrow> session \<Rightarrow> session_state option \<Rightarrow> operation_summary \<Rightarrow> string
       \<Rightarrow> session_artifact_event" where
  "operation_artifact_event now show_id s previous_state operation event =
     session_event now show_id event s previous_state (Some (op_command operation))
       (Some (op_command_id operation)) (map_option ar_path (op_artifact operation)) (op_error operation)
       ([(''status'', JString (lit (operation_status_label (op_status operation))))]
        @ (case op_duration_ms operation of Some d \<Rightarrow> [(''duration_ms'', JNumber d)] | None \<Rightarrow> [])
        @ (case op_output_bytes operation of Some n \<Rightarrow> [(''output_bytes'', JNumber n)] | None \<Rightarrow> []))"

text \<open>What the three files of a session hold, piece by piece.\<close>

datatype session_line =
    EventLine session_artifact_event
  | CommandLine command_artifact_record
  | TextLine utext

section \<open>Log events\<close>

datatype log_level = Info | Warn | LogError

text \<open>Of a log event the level, name, session and error are kept; the other fields are not.\<close>

record log_event =
  lg_level :: log_level
  lg_event :: string
  lg_session :: "session_id option"
  lg_error :: "string option"

end
