(* ===== verification/Worker_Registry.thy ===== *)
theory Worker_Registry
  imports Common
begin

text \<open>
  The registry of session workers (\<open>session/worker_registry.rs\<close>): one map of workers and one set
  of cancelled sessions behind one mutex. A worker is a value of any type \<open>'w\<close>; the call
  \<open>worker.kill(reason)\<close>, made outside the mutex, is the worker the operation returns.
\<close>

record 'w worker_registry =
  wr_workers :: "session_id \<Rightarrow> 'w option"
  wr_cancel_requested :: "session_id \<Rightarrow> bool"
  wr_poisoned :: bool

definition wr_default :: "'w worker_registry" where
  "wr_default = \<lparr>wr_workers = (\<lambda>_. None), wr_cancel_requested = (\<lambda>_. False), wr_poisoned = False\<rparr>"

definition wr_get :: "session_id \<Rightarrow> 'w worker_registry \<Rightarrow> 'w option" where
  "wr_get i r = (if wr_poisoned r then None else wr_workers r i)"

definition wr_insert :: "session_id \<Rightarrow> 'w \<Rightarrow> 'w worker_registry \<Rightarrow> unit result \<times> 'w worker_registry" where
  "wr_insert i w r =
     (if wr_poisoned r then (Inl (Backend ''session worker map poisoned''), r)
      else (Inr (), r\<lparr>wr_cancel_requested := (wr_cancel_requested r)(i := False),
                      wr_workers := (wr_workers r)(i \<mapsto> w)\<rparr>))"

definition wr_remove :: "session_id \<Rightarrow> 'w worker_registry \<Rightarrow> 'w option \<times> 'w worker_registry" where
  "wr_remove i r =
     (if wr_poisoned r then (None, r)
      else (wr_workers r i, r\<lparr>wr_cancel_requested := (wr_cancel_requested r)(i := False),
                              wr_workers := (wr_workers r)(i := None)\<rparr>))"

definition wr_kill_once :: "session_id \<Rightarrow> 'w worker_registry \<Rightarrow> 'w option \<times> 'w worker_registry" where
  "wr_kill_once i r =
     (if wr_poisoned r then (None, r)
      else if wr_cancel_requested r i then (None, r)
      else case wr_workers r i of
        None \<Rightarrow> (None, r)
      | Some worker \<Rightarrow>
          (Some worker, r\<lparr>wr_cancel_requested := (wr_cancel_requested r)(i := True)\<rparr>))"

definition wr_is_cancel_requested :: "session_id \<Rightarrow> 'w worker_registry \<Rightarrow> bool" where
  "wr_is_cancel_requested i r = (if wr_poisoned r then False else wr_cancel_requested r i)"

text \<open>\<open>Drop\<close>: every worker still registered is killed; \<open>order\<close> is the iteration order of the map.\<close>

definition wr_drop :: "session_id list \<Rightarrow> 'w worker_registry \<Rightarrow> 'w list" where
  "wr_drop order r = (if wr_poisoned r then [] else List.map_filter (wr_workers r) order)"

section \<open>The contract\<close>

text \<open>
  What the session manager relies on: a registered worker is found until it is removed, is given
  out for killing at most once, and the sessions do not disturb one another.
\<close>

locale one_shot_registry =
  fixes ins :: "'i \<Rightarrow> 'w \<Rightarrow> 'r \<Rightarrow> 'r"
    and del :: "'i \<Rightarrow> 'r \<Rightarrow> 'w option \<times> 'r"
    and kill :: "'i \<Rightarrow> 'r \<Rightarrow> 'w option \<times> 'r"
    and look :: "'r \<Rightarrow> 'i \<Rightarrow> 'w option"
    and armed :: "'r \<Rightarrow> 'i \<Rightarrow> bool"
    and ok :: "'r \<Rightarrow> bool"
  assumes ins_law: "ok r \<Longrightarrow> ok (ins i w r) \<and> look (ins i w r) = (look r)(i \<mapsto> w)
          \<and> armed (ins i w r) = (armed r)(i := True)"
    and del_law: "ok r \<Longrightarrow> del i r = (x, r') \<Longrightarrow> ok r' \<and> x = look r i
          \<and> look r' = (look r)(i := None) \<and> armed r' = (armed r)(i := False)"
    and kill_law: "ok r \<Longrightarrow> kill i r = (x, r') \<Longrightarrow> ok r' \<and> look r' = look r
          \<and> x = (if armed r i then look r i else None) \<and> armed r' = (armed r)(i := False)"
    and armed_look: "ok r \<Longrightarrow> armed r i \<Longrightarrow> look r i \<noteq> None"
begin

lemma kill_twice: "ok r \<Longrightarrow> kill i r = (x, r') \<Longrightarrow> kill i r' = (y, r'') \<Longrightarrow> y = None"
  using kill_law[of r i x r'] kill_law[of r' i y r''] by simp

lemma kill_registered: "ok r \<Longrightarrow> kill i r = (Some w, r') \<Longrightarrow> armed r i \<and> look r i = Some w"
  using kill_law[of r i "Some w" r'] by (simp split: if_splits)

lemma kill_idle: "ok r \<Longrightarrow> kill i r = (None, r') \<Longrightarrow> \<not> armed r i \<and> armed r' = armed r"
  using kill_law[of r i None r'] armed_look[of r i] by (auto split: if_splits)

end

text \<open>A worker can still be killed when it is registered and no kill was requested. A mutex is
  poisoned only by a panic inside its critical section, and no section of the registry can panic.\<close>

definition wr_armed :: "'w worker_registry \<Rightarrow> session_id \<Rightarrow> bool" where
  "wr_armed r i = (wr_workers r i \<noteq> None \<and> \<not> wr_cancel_requested r i)"

interpretation registry: one_shot_registry "\<lambda>i w r. snd (wr_insert i w r)" wr_remove wr_kill_once
  wr_workers wr_armed "\<lambda>r. \<not> wr_poisoned r"
  by unfold_locales
     (auto simp: wr_insert_def wr_remove_def wr_kill_once_def wr_armed_def fun_eq_iff
       split: if_splits option.splits)

section \<open>Runs\<close>

datatype 'w registry_op = RInsert session_id 'w | RRemove session_id | RKill session_id

text \<open>A run and the kills it gave out, newest first.\<close>

fun registry_step :: "'w registry_op \<Rightarrow> 'w worker_registry \<times> (session_id \<times> 'w) list
    \<Rightarrow> 'w worker_registry \<times> (session_id \<times> 'w) list" where
  "registry_step (RInsert i w) (r, killed) = (snd (wr_insert i w r), killed)"
| "registry_step (RRemove i) (r, killed) = (snd (wr_remove i r), killed)"
| "registry_step (RKill i) (r, killed) =
     (case wr_kill_once i r of
        (Some w, r') \<Rightarrow> (r', (i, w) # killed)
      | (None, r') \<Rightarrow> (r', killed))"

definition inserted :: "'w registry_op list \<Rightarrow> (session_id \<times> 'w) list" where
  "inserted ops = List.map_filter (\<lambda>op. case op of RInsert i w \<Rightarrow> Some (i, w) | _ \<Rightarrow> None) ops"

definition entries :: "session_id \<Rightarrow> (session_id \<times> 'w) list \<Rightarrow> nat" where
  "entries i xs = length (filter (\<lambda>x. fst x = i) xs)"

definition registry_inv :: "'w registry_op list \<Rightarrow> 'w worker_registry \<times> (session_id \<times> 'w) list \<Rightarrow> bool" where
  "registry_inv ops st \<longleftrightarrow>
     (\<forall>i. entries i (snd st) + (if wr_armed (fst st) i then 1 else 0) \<le> entries i (inserted ops))
     \<and> (\<forall>i w. wr_workers (fst st) i = Some w \<longrightarrow> (i, w) \<in> set (inserted ops))
     \<and> set (snd st) \<subseteq> set (inserted ops) \<and> \<not> wr_poisoned (fst st)"

lemma inserted_snoc:
  "inserted (ops @ [RInsert i w]) = inserted ops @ [(i, w)]"
  "inserted (ops @ [RRemove i]) = inserted ops" "inserted (ops @ [RKill i]) = inserted ops"
  by (simp_all add: inserted_def List.map_filter_def)

lemma entries_simps [simp]: "entries i [] = 0" "entries i (x # xs) = (if fst x = i then Suc (entries i xs) else entries i xs)"
  "entries i (xs @ ys) = entries i xs + entries i ys"
  by (simp_all add: entries_def)

lemma registry_step_inv:
  assumes "registry_inv ops st"
  shows "registry_inv (ops @ [op]) (registry_step op st)"
proof -
  obtain r killed where st: "st = (r, killed)" by force
  have count: "entries i killed + (if wr_armed r i then 1 else 0) \<le> entries i (inserted ops)"
    and reg: "wr_workers r i = Some w \<Longrightarrow> (i, w) \<in> set (inserted ops)"
    and sub: "set killed \<subseteq> set (inserted ops)" and ok: "\<not> wr_poisoned r" for i w
    using assms by (auto simp: registry_inv_def st)
  have ok': "\<not> wr_poisoned (fst (registry_step op st))"
    using ok by (cases op) (simp_all add: st wr_insert_def wr_remove_def wr_kill_once_def split: option.split)
  have le: "entries i killed \<le> entries i (inserted ops)" for i
    using count[of i] by simp
  show ?thesis
  proof (cases op)
    case (RInsert i w)
    let ?r = "snd (wr_insert i w r)"
    have r': "wr_armed ?r = (wr_armed r)(i := True)" "wr_workers ?r = (wr_workers r)(i \<mapsto> w)"
      using registry.ins_law[OF ok] by auto
    have "entries j killed + (if wr_armed ?r j then 1 else 0) \<le> entries j (inserted (ops @ [op]))" for j
      using count[of j] le[of j] by (simp add: r' RInsert inserted_snoc split: if_splits)
    moreover have "(j, v) \<in> set (inserted (ops @ [op]))" if "wr_workers ?r j = Some v" for j v
      using that reg[of j v] by (auto simp: r' RInsert inserted_snoc split: if_splits)
    ultimately show ?thesis
      using ok' sub by (auto simp: registry_inv_def st RInsert inserted_snoc)
  next
    case (RRemove i)
    obtain x r'' where k: "wr_remove i r = (x, r'')" by force
    have r': "wr_armed r'' = (wr_armed r)(i := False)" "wr_workers r'' = (wr_workers r)(i := None)"
      using registry.del_law[OF ok k] by auto
    have "entries j killed + (if wr_armed r'' j then 1 else 0) \<le> entries j (inserted (ops @ [op]))" for j
      using count[of j] le[of j] by (simp add: r' RRemove inserted_snoc split: if_splits)
    moreover have "(j, v) \<in> set (inserted (ops @ [op]))" if "wr_workers r'' j = Some v" for j v
      using that reg[of j v] by (auto simp: r' RRemove inserted_snoc split: if_splits)
    ultimately show ?thesis
      using ok' sub k by (auto simp: registry_inv_def st RRemove inserted_snoc)
  next
    case (RKill i)
    obtain x q where k: "wr_kill_once i r = (x, q)" by force
    have q: "wr_workers q = wr_workers r"
      using registry.kill_law[OF ok k] by blast
    have workers: "\<forall>j v. wr_workers q j = Some v \<longrightarrow> (j, v) \<in> set (inserted ops)"
      using reg by (simp add: q)
    show ?thesis
    proof (cases x)
      case None
      then have "wr_armed q = wr_armed r"
        using registry.kill_idle[OF ok] k by simp
      then have "\<forall>j. entries j killed + (if wr_armed q j then 1 else 0) \<le> entries j (inserted ops)"
        using count by simp
      moreover have "registry_step op st = (q, killed)"
        using None k by (simp add: RKill st)
      ultimately show ?thesis
        using workers sub ok' unfolding registry_inv_def RKill inserted_snoc by simp
    next
      case (Some w)
      have a: "wr_armed r i" "wr_workers r i = Some w"
        using registry.kill_registered[OF ok] k Some by simp_all
      have "wr_armed q = (wr_armed r)(i := False)"
        using registry.kill_law[OF ok k] by blast
      then have "\<forall>j. entries j ((i, w) # killed) + (if wr_armed q j then 1 else 0) \<le> entries j (inserted ops)"
        using count a(1) by (metis (full_types) Suc_eq_plus1 add_0_right entries_simps(2) fst_conv fun_upd_apply)
      moreover have "registry_step op st = (q, (i, w) # killed)"
        using Some k by (simp add: RKill st)
      ultimately show ?thesis
        using workers sub ok' reg[OF a(2)] unfolding registry_inv_def RKill inserted_snoc by simp
    qed
  qed
qed

lemma registry_run_inv:
  "registry_inv ops st \<Longrightarrow> registry_inv (ops @ rest) (fold registry_step rest st)"
proof (induction rest arbitrary: ops st)
  case (Cons op rest)
  from Cons.IH[OF registry_step_inv[OF Cons.prems, of op]] show ?case by simp
qed simp

text \<open>
  C37. Over any sequence of registrations, removals and kill requests, a session's worker is given
  out for killing at most as often as a worker was registered for the session, however many kill
  requests race, and only workers that were registered for that very session are killed.
\<close>

theorem kill_once_per_worker:
  "case fold registry_step ops (wr_default, []) of (r, killed) \<Rightarrow>
     entries i killed \<le> entries i (inserted ops) \<and> set killed \<subseteq> set (inserted ops)"
proof -
  have "registry_inv [] (wr_default, [])"
    by (simp add: registry_inv_def wr_default_def wr_armed_def inserted_def List.map_filter_def)
  then have "registry_inv ops (fold registry_step ops (wr_default, []))"
    using registry_run_inv[of "[]" _ ops] by simp
  then show ?thesis
    by (cases "fold registry_step ops (wr_default, [])") (auto simp: registry_inv_def intro: add_leD1)
qed

end
