(* ===== verification/Session_State.thy ===== *)
theory Session_State
  imports Session_Types Worker_Registry
begin

text \<open>
  The state of the session manager (\<open>session/manager.rs\<close>) and the helpers every operation uses:
  locks, logging, notification and the best-effort audit. The manager's mutex-protected maps are
  components of one record; a mutex is poisoned or not by a flag. What a worker answers to a call
  is an argument of the operation that makes the call; the calls made are recorded in \<open>m_calls\<close>,
  and the threads the code spawns in \<open>m_threads\<close>.
\<close>

section \<open>The state\<close>

datatype 'w worker_call = KillWorker 'w string | CloseWorker 'w

datatype 'w session_thread =
    StartupThread session_id debug_target
  | CloseThread session_id
  | MonitorThread session_id 'w

text \<open>A subscriber of session updates; a dropped receiver is no longer alive.\<close>

record subscriber =
  sub_alive :: bool
  sub_inbox :: "session_id list"

record 'w manager =
  m_sessions :: "session_id \<Rightarrow> session option"
  m_sessions_poisoned :: bool
  m_op_locks :: "session_id \<Rightarrow> bool option"
  m_op_locks_poisoned :: bool
  m_workers :: "'w worker_registry"
  m_artifacts :: "session_line artifact_manager"
  m_subscribers :: "subscriber list"
  m_subscribers_poisoned :: bool
  m_now :: nat
  m_show_target :: "debug_target \<Rightarrow> utext"
  m_logs :: "log_event list"
  m_calls :: "'w worker_call list"
  m_threads :: "'w session_thread list"

definition show_session_id :: "'w manager \<Rightarrow> session_id \<Rightarrow> string" where
  "show_session_id m = am_show_id (m_artifacts m)"

section \<open>Small helpers\<close>

definition log_event_of :: "log_level \<Rightarrow> string \<Rightarrow> session_id option \<Rightarrow> string option \<Rightarrow> 'w manager \<Rightarrow> 'w manager" where
  "log_event_of level event i error m =
     m\<lparr>m_logs := m_logs m @ [\<lparr>lg_level = level, lg_event = event, lg_session = i, lg_error = error\<rparr>]\<rparr>"

abbreviation log_info :: "string \<Rightarrow> session_id \<Rightarrow> 'w manager \<Rightarrow> 'w manager" where
  "log_info event i \<equiv> log_event_of Info event (Some i) None"

definition err_text :: "'w manager \<Rightarrow> dbgflow_error \<Rightarrow> string" where
  "err_text m e = error_text (show_session_id m) e"

definition query_session :: "session_id \<Rightarrow> 'w manager \<Rightarrow> session result" where
  "query_session i m =
     (if m_sessions_poisoned m then Inl (Backend ''session manager lock poisoned'')
      else case m_sessions m i of
        None \<Rightarrow> Inl (SessionNotFound i)
      | Some s \<Rightarrow> Inr s)"

definition list_sessions :: "session_id list \<Rightarrow> 'w manager \<Rightarrow> session list result" where
  "list_sessions order m =
     (if m_sessions_poisoned m then Inl (Backend ''session manager lock poisoned'')
      else Inr (sort_key s_created_at (List.map_filter (m_sessions m) order)))"

definition operation_lock :: "session_id \<Rightarrow> 'w manager \<Rightarrow> bool result" where
  "operation_lock i m =
     (if m_op_locks_poisoned m then Inl (Backend ''session lock map poisoned'')
      else case m_op_locks m i of
        None \<Rightarrow> Inl (SessionNotFound i)
      | Some poisoned \<Rightarrow> Inr poisoned)"

definition put_session :: "session \<Rightarrow> 'w manager \<Rightarrow> 'w manager" where
  "put_session s m = m\<lparr>m_sessions := (m_sessions m)(s_id s \<mapsto> s)\<rparr>"

definition set_session :: "session_id \<Rightarrow> session \<Rightarrow> 'w manager \<Rightarrow> 'w manager" where
  "set_session i s m = m\<lparr>m_sessions := (m_sessions m)(i \<mapsto> s)\<rparr>"

definition notify_session_updated :: "session_id \<Rightarrow> 'w manager \<Rightarrow> 'w manager" where
  "notify_session_updated i m =
     (if m_subscribers_poisoned m then m
      else m\<lparr>m_subscribers :=
             map (\<lambda>s. s\<lparr>sub_inbox := sub_inbox s @ [i]\<rparr>) (filter sub_alive (m_subscribers m))\<rparr>)"

definition subscribe_session_updates :: "'w manager \<Rightarrow> 'w manager" where
  "subscribe_session_updates m =
     (if m_subscribers_poisoned m then m
      else m\<lparr>m_subscribers := m_subscribers m @ [\<lparr>sub_alive = True, sub_inbox = []\<rparr>]\<rparr>)"

definition remove_worker :: "session_id \<Rightarrow> 'w manager \<Rightarrow> 'w option \<times> 'w manager" where
  "remove_worker i m = (case wr_remove i (m_workers m) of (w, r) \<Rightarrow> (w, m\<lparr>m_workers := r\<rparr>))"

definition call_worker :: "'w worker_call \<Rightarrow> 'w manager \<Rightarrow> 'w manager" where
  "call_worker c m = m\<lparr>m_calls := m_calls m @ [c]\<rparr>"

text \<open>\<open>kill_once\<close> of the registry and the \<open>kill\<close> it makes.\<close>

definition kill_once :: "session_id \<Rightarrow> string \<Rightarrow> 'w manager \<Rightarrow> bool \<times> 'w manager" where
  "kill_once i reason m =
     (case wr_kill_once i (m_workers m) of
        (None, r) \<Rightarrow> (False, m\<lparr>m_workers := r\<rparr>)
      | (Some w, r) \<Rightarrow> (True, call_worker (KillWorker w reason) (m\<lparr>m_workers := r\<rparr>)))"

definition spawn_thread :: "'w session_thread \<Rightarrow> 'w manager \<Rightarrow> 'w manager" where
  "spawn_thread t m = m\<lparr>m_threads := m_threads m @ [t]\<rparr>"

section \<open>The best-effort audit\<close>

definition write_command_record_best_effort :: "session_id \<Rightarrow> command_artifact_record \<Rightarrow> 'w manager \<Rightarrow> 'w manager" where
  "write_command_record_best_effort i record m =
     (case append_command_record i (CommandLine record) (m_artifacts m) of
        (Inr _, a) \<Rightarrow> m\<lparr>m_artifacts := a\<rparr>
      | (Inl e, a) \<Rightarrow>
          log_event_of Warn ''command_artifact_record_failed'' (Some i) (Some (err_text m e)) (m\<lparr>m_artifacts := a\<rparr>))"

definition record_session_event_best_effort :: "session_id \<Rightarrow> session_artifact_event \<Rightarrow> 'w manager \<Rightarrow> 'w manager" where
  "record_session_event_best_effort i event m =
     (case append_event i (EventLine event) (m_artifacts m) of
        (Inr _, a) \<Rightarrow> m\<lparr>m_artifacts := a\<rparr>
      | (Inl e, a) \<Rightarrow>
          log_event_of Warn ''session_artifact_event_failed'' (Some i) (Some (err_text m e)) (m\<lparr>m_artifacts := a\<rparr>))"

definition append_transcript_best_effort :: "session_id \<Rightarrow> utext \<Rightarrow> 'w manager \<Rightarrow> 'w manager" where
  "append_transcript_best_effort i txt m =
     (case append_transcript i (TextLine txt) (m_artifacts m) of
        (Inr _, a) \<Rightarrow> m\<lparr>m_artifacts := a\<rparr>
      | (Inl e, a) \<Rightarrow>
          log_event_of Warn ''session_transcript_append_failed'' (Some i) (Some (err_text m e)) (m\<lparr>m_artifacts := a\<rparr>))"

text \<open>The line endings and the time stamp of a transcript line.\<close>

definition stamped :: "'w manager \<Rightarrow> utext \<Rightarrow> utext" where
  "stamped m txt = lit (''['' @ show_nat (m_now m) @ ''] '') @ txt @ [10]"

definition event_at ::
    "'w manager \<Rightarrow> string \<Rightarrow> session \<Rightarrow> session_state option \<Rightarrow> utext option \<Rightarrow> string option
       \<Rightarrow> path option \<Rightarrow> string option \<Rightarrow> (string \<times> json_value) list \<Rightarrow> session_artifact_event" where
  "event_at m = session_event (m_now m) (show_session_id m)"

definition initialize_session_audit :: "session \<Rightarrow> 'w manager \<Rightarrow> unit result \<times> 'w manager" where
  "initialize_session_audit s m =
     (let i = s_id s;
          event = event_at m ''session_created'' s None (Some (lit ''create_session'')) None None None
                    [(''target'', JTarget (s_target s))];
          txt = stamped m (lit (''session created state='' @ state_name (s_state s)
                  @ '' backend='' @ s_backend s @ '' target='') @ m_show_target m (s_target s));
          (r, a) = (case initialize_session_artifacts i (m_artifacts m) of
              (Inl e, a1) \<Rightarrow> (Inl e, a1)
            | (Inr _, a1) \<Rightarrow>
                (case append_event i (EventLine event) a1 of
                   (Inl e, a2) \<Rightarrow> (Inl e, a2)
                 | (Inr _, a2) \<Rightarrow> append_transcript i (TextLine txt) a2))
      in (r, m\<lparr>m_artifacts := a\<rparr>))"

section \<open>What the helpers leave alone\<close>

text \<open>An audit step changes nothing but files, logs and inboxes.\<close>

definition audit_only :: "'w manager \<Rightarrow> 'w manager \<Rightarrow> bool" where
  "audit_only m m' \<longleftrightarrow>
     m_sessions m' = m_sessions m \<and> m_sessions_poisoned m' = m_sessions_poisoned m
     \<and> m_op_locks m' = m_op_locks m \<and> m_op_locks_poisoned m' = m_op_locks_poisoned m
     \<and> m_workers m' = m_workers m \<and> m_now m' = m_now m
     \<and> m_calls m' = m_calls m \<and> m_threads m' = m_threads m"

lemma audit_only_refl [simp]: "audit_only m m"
  by (simp add: audit_only_def)

lemma audit_only_trans: "audit_only a b \<Longrightarrow> audit_only b c \<Longrightarrow> audit_only a c"
  by (simp add: audit_only_def)

lemma audit_only_log: "audit_only m (log_event_of l e i t m)"
  by (simp add: audit_only_def log_event_of_def)

lemma audit_only_record: "audit_only m (record_session_event_best_effort i ev m)"
  by (simp add: audit_only_def record_session_event_best_effort_def log_event_of_def split: prod.split sum.split)

lemma audit_only_command: "audit_only m (write_command_record_best_effort i r m)"
  by (simp add: audit_only_def write_command_record_best_effort_def log_event_of_def split: prod.split sum.split)

lemma audit_only_transcript: "audit_only m (append_transcript_best_effort i t m)"
  by (simp add: audit_only_def append_transcript_best_effort_def log_event_of_def split: prod.split sum.split)

lemma audit_only_notify: "audit_only m (notify_session_updated i m)"
  by (simp add: audit_only_def notify_session_updated_def)

lemma audit_only_initialize: "audit_only m (snd (initialize_session_audit s m))"
  by (simp add: audit_only_def initialize_session_audit_def Let_def split: prod.split sum.split)

lemmas audit_only_helpers = audit_only_log audit_only_record audit_only_command audit_only_transcript
  audit_only_notify audit_only_initialize

text \<open>The projections the proofs about operations need.\<close>

lemma audit_projections [manager_simps]:
  "m_sessions (log_event_of l e j t m) = m_sessions m"
  "m_sessions (record_session_event_best_effort i ev m) = m_sessions m"
  "m_sessions (write_command_record_best_effort i r m) = m_sessions m"
  "m_sessions (append_transcript_best_effort i txt m) = m_sessions m"
  "m_sessions (notify_session_updated i m) = m_sessions m"
  "m_sessions (snd (initialize_session_audit s m)) = m_sessions m"
  "m_workers (log_event_of l e j t m) = m_workers m"
  "m_workers (record_session_event_best_effort i ev m) = m_workers m"
  "m_workers (write_command_record_best_effort i r m) = m_workers m"
  "m_workers (append_transcript_best_effort i txt m) = m_workers m"
  "m_workers (notify_session_updated i m) = m_workers m"
  "m_workers (snd (initialize_session_audit s m)) = m_workers m"
  by (simp_all add: audit_only_helpers[unfolded audit_only_def])

lemma worker_projections [manager_simps]:
  "m_sessions (snd (remove_worker i m)) = m_sessions m"
  "m_sessions (snd (kill_once i reason m)) = m_sessions m"
  "m_sessions (call_worker c m) = m_sessions m"
  "m_sessions (spawn_thread t m) = m_sessions m"
  "m_workers (call_worker c m) = m_workers m"
  "m_workers (spawn_thread t m) = m_workers m"
  by (simp_all add: remove_worker_def kill_once_def call_worker_def spawn_thread_def split: prod.split option.split)

lemma session_projections [manager_simps]:
  "m_sessions (put_session s m) = (m_sessions m)(s_id s \<mapsto> s)"
  "m_sessions (set_session i s m) = (m_sessions m)(i \<mapsto> s)"
  "m_workers (put_session s m) = m_workers m" "m_workers (set_session i s m) = m_workers m"
  by (simp_all add: put_session_def set_session_def)

end
