(* ===== verification/Session_Manager.thy ===== *)
theory Session_Manager
  imports Session_State
begin

text \<open>
  The operations of the session manager (\<open>session/manager.rs\<close>), each cut into the sections that run
  under a lock, and each whole operation as the composition of its sections when no other thread
  comes between. The result of a call to a worker is an argument.
\<close>

section \<open>Creating a session\<close>

record create_session_request =
  cs_target :: debug_target
  cs_startup_timeout_ms :: "nat option"

definition reusable_session :: "session_id list \<Rightarrow> debug_target \<Rightarrow> 'w manager \<Rightarrow> session option" where
  "reusable_session order target m =
     List.find (\<lambda>s. s_target s = target \<and> is_reusable (s_state s)) (List.map_filter (m_sessions m) order)"

definition new_session :: "session_id \<Rightarrow> debug_target \<Rightarrow> nat \<Rightarrow> session" where
  "new_session i target now =
     \<lparr>s_id = i, s_backend = ''worker'', s_backend_session_id = None, s_target = target,
      s_state = Starting, s_created_at = now, s_updated_at = now, s_warnings = [],
      s_current_operation = Some (lit ''create_session''), s_last_operation = None, s_error = None\<rparr>"

text \<open>The section under the lock of the sessions: reuse or insert. The flag tells a new session.\<close>

definition create_admit ::
    "session_id list \<Rightarrow> session_id \<Rightarrow> debug_target \<Rightarrow> 'w manager \<Rightarrow> (session \<times> bool) result \<times> 'w manager" where
  "create_admit order fresh target m =
     (if m_sessions_poisoned m then (Inl (Backend ''session manager lock poisoned''), m)
      else case reusable_session order target m of
        Some existing \<Rightarrow> (Inr (existing, False), log_info ''create_session_reused'' (s_id existing) m)
      | None \<Rightarrow>
          (let s = new_session fresh target (m_now m)
           in case initialize_session_audit s m of
                (Inl e, m1) \<Rightarrow> (Inl e, m1)
              | (Inr _, m1) \<Rightarrow> (Inr (s, True), put_session s m1)))"

text \<open>The rest, after the lock of the sessions was given back.\<close>

definition create_publish :: "session \<Rightarrow> nat option \<Rightarrow> 'w manager \<Rightarrow> session result \<times> 'w manager" where
  "create_publish s startup_timeout_ms m =
     (if m_op_locks_poisoned m then (Inl (Backend ''session lock map poisoned''), m)
      else
        let i = s_id s;
            m1 = m\<lparr>m_op_locks := (m_op_locks m)(i \<mapsto> False)\<rparr>;
            m2 = log_info ''create_session_started'' i m1;
            m3 = (if startup_timeout_ms \<noteq> None
                  then log_event_of Warn ''deprecated_startup_timeout_ignored'' (Some i) None m2 else m2);
            m4 = spawn_thread (StartupThread i (s_target s)) m3
        in (Inr s, notify_session_updated i m4))"

definition create_session ::
    "target_env \<Rightarrow> session_id list \<Rightarrow> session_id \<Rightarrow> create_session_request \<Rightarrow> 'w manager
       \<Rightarrow> session result \<times> 'w manager" where
  "create_session env order fresh request m =
     (case validate_target env (cs_target request) of
        Inl e \<Rightarrow> (Inl e, log_event_of LogError ''create_session_rejected'' None (Some (err_text m e)) m)
      | Inr target \<Rightarrow>
          (case create_admit order fresh target m of
             (Inl e, m1) \<Rightarrow> (Inl e, m1)
           | (Inr (s, False), m1) \<Rightarrow> (Inr s, m1)
           | (Inr (s, True), m1) \<Rightarrow> create_publish s (cs_startup_timeout_ms request) m1))"

section \<open>Finishing a close\<close>

definition close_done :: "nat \<Rightarrow> session \<Rightarrow> session" where
  "close_done now s = s\<lparr>s_updated_at := now, s_current_operation := None\<rparr>"

text \<open>The session after its worker was closed, and the operation that this cancelled.\<close>

definition finalize_close ::
    "nat \<Rightarrow> string option \<Rightarrow> session \<Rightarrow> operation_summary option \<times> session" where
  "finalize_close now error s =
     (case error of
        None \<Rightarrow>
          (let (operation, s') = finalize_canceled_operation now Canceled ''operation canceled by close_session'' s
           in (operation, s'\<lparr>s_state := Closed, s_error := None\<rparr>))
      | Some e \<Rightarrow>
          (let (operation, s') = finalize_canceled_operation now Failed e s
           in (operation, s'\<lparr>s_state := Error, s_error := Some e\<rparr>)))"

definition operation_event_name :: "operation_status \<Rightarrow> string" where
  "operation_event_name st =
     (case st of Canceled \<Rightarrow> ''eval_canceled'' | Failed \<Rightarrow> ''eval_failed'' | Finished \<Rightarrow> ''eval_finished''
      | CancelRequested \<Rightarrow> ''eval_cancel_requested'' | OpRunning \<Rightarrow> ''eval_running'')"

text \<open>What is written about the operation that the close cancelled.\<close>

definition audit_canceled_operation ::
    "session_id \<Rightarrow> session \<Rightarrow> operation_summary \<Rightarrow> 'w manager \<Rightarrow> 'w manager" where
  "audit_canceled_operation i s operation m =
     (let name = operation_event_name (op_status operation);
          m1 = write_command_record_best_effort i
                 (command_record_from_operation operation (s_backend_session_id s)) m;
          m2 = record_session_event_best_effort i
                 (operation_artifact_event (m_now m) (show_session_id m) s (Some Closing) operation name) m1
      in append_transcript_best_effort i
           (stamped m (lit (name @ '' command_id='' @ op_command_id operation @ '' command='')
              @ op_command operation
              @ lit ('' error='' @ (case op_error operation of Some e \<Rightarrow> e | None \<Rightarrow> ''''))))
           m2)"

definition finish_worker_close :: "session_id \<Rightarrow> unit result \<Rightarrow> 'w manager \<Rightarrow> 'w manager" where
  "finish_worker_close i close_result m0 =
     (let m = snd (remove_worker i m0) in
      notify_session_updated i
       (if m_sessions_poisoned m then m
        else case m_sessions m i of
          None \<Rightarrow> m
        | Some s \<Rightarrow>
            (let error = (case close_result of Inr _ \<Rightarrow> None | Inl e \<Rightarrow> Some (err_text m e));
                 name = (if error = None then ''worker_close_finished'' else ''worker_close_failed'');
                 m1 = (if error = None then log_info name i m else log_event_of LogError name (Some i) error m);
                 (operation, updated) = finalize_close (m_now m) error s;
                 m2 = set_session i (close_done (m_now m) updated) m1;
                 m3 = record_session_event_best_effort i
                        (event_at m name updated (Some (s_state s)) (Some (lit ''close_session'')) None None error
                           [(''status'', JString (lit (state_name (s_state updated))))]) m2;
                 m4 = append_transcript_best_effort i
                        (stamped m (lit (case error of
                            None \<Rightarrow> ''worker close finished new_state='' @ state_name (s_state updated)
                          | Some e \<Rightarrow> ''worker close failed new_state='' @ state_name (s_state updated)
                                       @ '' error='' @ e))) m3
             in case operation of None \<Rightarrow> m4 | Some op \<Rightarrow> audit_canceled_operation i updated op m4)))"

section \<open>Closing a session\<close>

definition request_cancel :: "operation_summary option \<Rightarrow> operation_summary option" where
  "request_cancel last_op =
     map_option (\<lambda>operation. if op_status operation = OpRunning
                  then operation\<lparr>op_status := CancelRequested\<rparr> else operation) last_op"

text \<open>The section under the lock of the sessions. \<open>None\<close> in the result: the session was closing
  already and is returned as it is.\<close>

definition close_section ::
    "session_id \<Rightarrow> bool \<Rightarrow> 'w manager \<Rightarrow> (session \<times> (bool \<times> session_artifact_event) option) result \<times> 'w manager" where
  "close_section i has_worker m =
     (if m_sessions_poisoned m then (Inl (Backend ''session manager lock poisoned''), m)
      else case m_sessions m i of
        None \<Rightarrow> (Inl (SessionNotFound i), m)
      | Some s \<Rightarrow>
          if s_state s = Closed then (Inl (SessionClosed i), m)
          else if s_state s = Closing then (Inr (s, None), m)
          else
            let should_cancel = s_current_operation s \<noteq> None;
                updated = s\<lparr>s_state := (if has_worker \<or> should_cancel then Closing else Closed),
                            s_updated_at := m_now m, s_current_operation := None,
                            s_last_operation :=
                              (if should_cancel then request_cancel (s_last_operation s) else s_last_operation s)\<rparr>;
                event = event_at m ''close_session_requested'' updated (Some (s_state s))
                          (Some (lit ''close_session'')) None None None
                          [(''had_worker'', JBool has_worker), (''cancel_requested'', JBool should_cancel)]
            in (Inr (updated, Some (should_cancel, event)),
                log_info ''close_session_requested'' i (set_session i updated m)))"

definition bool_name :: "bool \<Rightarrow> string" where
  "bool_name b = (if b then ''true'' else ''false'')"

definition close_audit :: "session_id \<Rightarrow> session \<Rightarrow> bool \<Rightarrow> session_artifact_event \<Rightarrow> 'w manager \<Rightarrow> 'w manager" where
  "close_audit i s should_cancel event m =
     notify_session_updated i
      (append_transcript_best_effort i
        (stamped m (lit (''close_session requested new_state='' @ state_name (s_state s)
           @ '' cancel_requested='' @ bool_name should_cancel)))
        (record_session_event_best_effort i event m))"

text \<open>\<open>kill_result\<close> is what the worker answers, should it be killed.\<close>

definition close_cancel :: "session_id \<Rightarrow> bool \<Rightarrow> unit result \<Rightarrow> 'w manager \<Rightarrow> 'w manager" where
  "close_cancel i should_cancel kill_result m =
     (if \<not> should_cancel then m
      else case kill_once i ''close_session_cancel'' m of
        (False, m1) \<Rightarrow> m1
      | (True, m1) \<Rightarrow>
          (let m2 = log_info ''worker_cancel_requested'' i m1
           in case kill_result of
                Inr _ \<Rightarrow> log_info ''worker_cancel_finished'' i m2
              | Inl e \<Rightarrow> log_event_of Warn ''worker_cancel_failed'' (Some i) (Some (err_text m e)) m2))"

definition close_session :: "session_id \<Rightarrow> unit result \<Rightarrow> 'w manager \<Rightarrow> session result \<times> 'w manager" where
  "close_session i kill_result m =
     (case operation_lock i m of
        Inl e \<Rightarrow> (Inl e, m)
      | Inr _ \<Rightarrow>
          (case close_section i (wr_get i (m_workers m) \<noteq> None) m of
             (Inl e, m1) \<Rightarrow> (Inl e, m1)
           | (Inr (s, None), m1) \<Rightarrow> (Inr s, m1)
           | (Inr (s, Some (should_cancel, event)), m1) \<Rightarrow>
               (let m2 = close_audit i s should_cancel event m1;
                    m3 = close_cancel i should_cancel kill_result m2;
                    m4 = (if s_state s = Closing then spawn_thread (CloseThread i) m3 else m3)
                in (Inr s, m4))))"

text \<open>The thread that \<open>close_session\<close> spawned, by how its wait for the operation lock ends.\<close>

definition close_wait_timed_out :: "session_id \<Rightarrow> 'w manager \<Rightarrow> 'w manager" where
  "close_wait_timed_out i m =
     (let m1 = snd (kill_once i ''close_operation_wait_timed_out'' m);
          m2 = snd (remove_worker i m1);
          error = Backend ''session operation did not finish after close cancellation'';
          m3 = log_event_of LogError ''worker_close_wait_timed_out'' (Some i) (Some (err_text m error)) m2
      in finish_worker_close i (Inl error) m3)"

definition close_lock_poisoned :: "session_id \<Rightarrow> 'w manager \<Rightarrow> 'w manager" where
  "close_lock_poisoned i m = finish_worker_close i (Inl (Backend ''session operation lock poisoned'')) m"

definition close_take_worker :: "session_id \<Rightarrow> 'w manager \<Rightarrow> 'w option \<times> 'w manager" where
  "close_take_worker i m =
     (case remove_worker i (log_info ''worker_close_started'' i m) of
        (None, m1) \<Rightarrow> (None, m1)
      | (Some w, m1) \<Rightarrow> (Some w, call_worker (CloseWorker w) m1))"

definition close_with_lock :: "session_id \<Rightarrow> unit result \<Rightarrow> 'w manager \<Rightarrow> 'w manager" where
  "close_with_lock i close_result m =
     (case close_take_worker i m of
        (None, m1) \<Rightarrow> finish_worker_close i (Inr ()) m1
      | (Some w, m1) \<Rightarrow> finish_worker_close i close_result m1)"

section \<open>Events of the backend\<close>

definition apply_backend_execution_event ::
    "session_id \<Rightarrow> backend_execution_event \<Rightarrow> 'w manager \<Rightarrow> unit result \<times> 'w manager" where
  "apply_backend_execution_event i event m =
     (if m_sessions_poisoned m then (Inl (Backend ''session manager lock poisoned''), m)
      else case m_sessions m i of
        None \<Rightarrow> (Inl (SessionNotFound i), m)
      | Some s \<Rightarrow>
          if s_state s = Closing then (Inr (), m)
          else if is_terminal (s_state s) \<and> s_state s \<noteq> Closed then (Inr (), m)
          else
            let next_state = session_state_for_backend_execution_state (be_state event);
                updated = s\<lparr>s_state := next_state, s_updated_at := m_now m,
                            s_error := (if next_state = Closed then None else s_error s)\<rparr>;
                command = s_current_operation updated;
                command_id = map_option op_command_id (s_last_operation updated);
                m1 = set_session i updated m;
                m2 = record_session_event_best_effort i
                       (event_at m ''backend_execution_state_changed'' updated (Some (s_state s)) command command_id
                          None None
                          ([(''backend_state'', JString (lit (backend_state_name (be_state event))))]
                           @ (case be_reason event of Some r \<Rightarrow> [(''reason'', JString r)] | None \<Rightarrow> []))) m1;
                m3 = append_transcript_best_effort i
                       (stamped m (lit (''backend execution state changed '' @ state_name (s_state s) @ ''->''
                          @ state_name next_state @ '' command_id=''
                          @ (case command_id of Some c \<Rightarrow> c | None \<Rightarrow> ''-'')))) m2
            in (Inr (), notify_session_updated i m3))"

text \<open>The event sink given to the worker: an error is only logged.\<close>

definition sink_event :: "session_id \<Rightarrow> backend_execution_event \<Rightarrow> 'w manager \<Rightarrow> 'w manager" where
  "sink_event i event m =
     (case apply_backend_execution_event i event m of
        (Inr _, m1) \<Rightarrow> m1
      | (Inl e, m1) \<Rightarrow>
          log_event_of Warn ''backend_execution_state_apply_failed'' (Some i) (Some (err_text m e)) m1)"

end
