(* ===== verification/Session_Eval.thy ===== *)
theory Session_Eval
  imports Session_Manager Unicode
begin

text \<open>
  Running a command on a session (\<open>eval\<close> of \<open>session/manager.rs\<close>) and the life of a worker: its
  start-up thread and the monitor that notices its death.
\<close>

section \<open>Starting and finishing an operation\<close>

definition start_operation ::
    "session_id \<Rightarrow> session_state \<Rightarrow> operation_summary \<Rightarrow> 'w manager \<Rightarrow> unit result \<times> 'w manager" where
  "start_operation i st operation m =
     (if m_sessions_poisoned m then (Inl (Backend ''session manager lock poisoned''), m)
      else case m_sessions m i of
        None \<Rightarrow> (Inl (SessionNotFound i), m)
      | Some s \<Rightarrow>
          if is_terminal (s_state s) \<or> s_state s = Closing then (Inr (), m)
          else
            let updated = s\<lparr>s_state := st, s_updated_at := m_now m,
                            s_current_operation := Some (op_command operation),
                            s_last_operation := Some operation, s_error := None\<rparr>;
                m1 = set_session i updated m;
                m2 = record_session_event_best_effort i
                       (event_at m ''eval_started'' updated (Some (s_state s)) (Some (op_command operation))
                          (Some (op_command_id operation)) None None
                          [(''status'', JString (lit ''Running''))]) m1;
                m3 = append_transcript_best_effort i
                       (stamped m (lit (''eval started command_id='' @ op_command_id operation @ '' command='')
                          @ op_command operation)) m2
            in (Inr (), notify_session_updated i m3))"

definition finished_operation ::
    "nat \<Rightarrow> operation_status \<Rightarrow> artifact_ref option \<Rightarrow> string option \<Rightarrow> nat option \<Rightarrow> nat
       \<Rightarrow> operation_summary \<Rightarrow> operation_summary" where
  "finished_operation now status artifact error output_bytes duration_ms operation =
     operation\<lparr>op_status := status, op_finished_at := Some now, op_duration_ms := Some duration_ms,
               op_artifact := artifact, op_error := error, op_output_bytes := output_bytes\<rparr>"

text \<open>The guard of \<open>finish_operation\<close>: a session that is closing or ended is left alone, except that
  a command which itself ended the session may still be recorded as finished.\<close>

definition finish_ignored :: "session_state \<Rightarrow> session_state \<Rightarrow> operation_status \<Rightarrow> bool" where
  "finish_ignored current st status \<longleftrightarrow>
     current = Closing
     \<or> is_terminal current \<and> \<not> (current = Closed \<and> st = Closed \<and> status = Finished)"

definition audit_finished_operation ::
    "session_id \<Rightarrow> session \<Rightarrow> session_state \<Rightarrow> operation_status \<Rightarrow> nat option \<Rightarrow> nat \<Rightarrow> 'w manager \<Rightarrow> 'w manager" where
  "audit_finished_operation i updated previous status output_bytes duration_ms m =
     (let name = operation_event_name status;
          command = map_option op_command (s_last_operation updated);
          command_id = map_option op_command_id (s_last_operation updated);
          artifact_path = map_option ar_path (Option.bind (s_last_operation updated) op_artifact);
          m1 = record_session_event_best_effort i
                 (event_at m name updated (Some previous) command command_id artifact_path (s_error updated)
                    ([(''status'', JString (lit (operation_status_label status)))]
                     @ (case output_bytes of Some n \<Rightarrow> [(''output_bytes'', JNumber n)] | None \<Rightarrow> [])
                     @ [(''duration_ms'', JNumber duration_ms)])) m
      in case s_last_operation updated of
           None \<Rightarrow> m1
         | Some operation \<Rightarrow>
             append_transcript_best_effort i
               (stamped m (lit (name @ '' command_id='' @ op_command_id operation @ '' command='')
                  @ op_command operation
                  @ lit ('' duration_ms='' @ show_nat duration_ms @ '' error=''
                         @ (case s_error updated of Some e \<Rightarrow> e | None \<Rightarrow> '''')))) m1)"

definition finish_operation ::
    "session_id \<Rightarrow> session_state \<Rightarrow> operation_status \<Rightarrow> artifact_ref option \<Rightarrow> string option \<Rightarrow> nat option \<Rightarrow> nat
       \<Rightarrow> 'w manager \<Rightarrow> bool result \<times> 'w manager" where
  "finish_operation i st status artifact error output_bytes duration_ms m =
     (if m_sessions_poisoned m then (Inl (Backend ''session manager lock poisoned''), m)
      else case m_sessions m i of
        None \<Rightarrow> (Inl (SessionNotFound i), m)
      | Some s \<Rightarrow>
          if finish_ignored (s_state s) st status then (Inr False, m)
          else
            let updated = s\<lparr>s_state := st, s_updated_at := m_now m, s_current_operation := None,
                            s_error := error,
                            s_last_operation := map_option
                              (finished_operation (m_now m) status artifact error output_bytes duration_ms)
                              (s_last_operation s)\<rparr>;
                m1 = audit_finished_operation i updated (s_state s) status output_bytes duration_ms
                       (set_session i updated m)
            in (Inr True, notify_session_updated i m1))"

section \<open>Eval\<close>

record eval_request =
  er_session :: session_id
  er_command :: utext
  er_timeout_ms :: "nat option"

definition audit_rejected_eval ::
    "eval_request \<Rightarrow> string \<Rightarrow> dbgflow_error \<Rightarrow> 'w manager \<Rightarrow> 'w manager" where
  "audit_rejected_eval request command_id error m =
     (case query_session (er_session request) m of
        Inl _ \<Rightarrow> m
      | Inr s \<Rightarrow>
          (let i = er_session request;
               text_of = err_text m error;
               m1 = write_command_record_best_effort i
                      \<lparr>cr_command_id = command_id, cr_command = er_command request, cr_status = ''Rejected'',
                       cr_output_path = None, cr_started_at = m_now m, cr_duration_ms = Some 0,
                       cr_output_bytes = None, cr_warnings = [], cr_error = Some text_of,
                       cr_backend_session_id = s_backend_session_id s\<rparr> m;
               m2 = record_session_event_best_effort i
                      (event_at m ''eval_rejected'' s (Some (s_state s)) (Some (er_command request))
                         (Some command_id) None (Some text_of) []) m1
           in append_transcript_best_effort i
                (stamped m (lit (''eval rejected command_id='' @ command_id @ '' command='')
                   @ er_command request @ lit ('' error='' @ text_of))) m2))"

definition reject_eval ::
    "eval_request \<Rightarrow> string \<Rightarrow> dbgflow_error \<Rightarrow> 'w manager \<Rightarrow> dbgflow_error \<times> 'w manager" where
  "reject_eval request command_id error m =
     (error, log_event_of Warn ''eval_rejected'' (Some (er_session request)) (Some (err_text m error))
               (audit_rejected_eval request command_id error m))"

text \<open>Everything before the command is started, with the operation lock held from the second step.\<close>

definition eval_admit ::
    "eval_request \<Rightarrow> string \<Rightarrow> 'w manager \<Rightarrow> (session \<times> 'w) result \<times> 'w manager" where
  "eval_admit request command_id m =
     (let i = er_session request;
          rejected = (\<lambda>e. case reject_eval request command_id e m of (e', m') \<Rightarrow> (Inl e', m'))
      in if trim (er_command request) = [] then rejected (Backend ''empty command'')
         else case operation_lock i m of
           Inl e \<Rightarrow> (Inl e, m)
         | Inr True \<Rightarrow> (Inl (Backend ''session operation lock poisoned''), m)
         | Inr False \<Rightarrow>
             (case query_session i m of
                Inl e \<Rightarrow> (Inl e, m)
              | Inr s \<Rightarrow>
                  if is_terminal (s_state s) then rejected (SessionClosed i)
                  else if s_state s \<noteq> Ready \<and> s_state s \<noteq> Break
                  then rejected (Backend (''session is not ready: '' @ state_name (s_state s)))
                  else case wr_get i (m_workers m) of
                    None \<Rightarrow> rejected (Backend ''session worker is not initialized'')
                  | Some w \<Rightarrow> (Inr (s, w), m)))"

definition running_operation :: "nat \<Rightarrow> string \<Rightarrow> utext \<Rightarrow> operation_summary" where
  "running_operation now command_id command =
     \<lparr>op_command_id = command_id, op_command = command, op_status = OpRunning, op_started_at = now,
      op_finished_at = None, op_duration_ms = None, op_artifact = None, op_error = None,
      op_output_bytes = None\<rparr>"

definition eval_start ::
    "eval_request \<Rightarrow> string \<Rightarrow> session \<Rightarrow> 'w manager \<Rightarrow> unit result \<times> 'w manager" where
  "eval_start request command_id s m =
     (case start_operation (er_session request) (s_state s)
             (running_operation (m_now m) command_id (er_command request)) m of
        (Inl e, m1) \<Rightarrow> (Inl e, m1)
      | (Inr _, m1) \<Rightarrow>
          (let m2 = (if er_timeout_ms request \<noteq> None
                     then log_event_of Warn ''deprecated_eval_timeout_ignored'' (Some (er_session request)) None m1
                     else m1)
           in (Inr (), log_info ''eval_started'' (er_session request) m2)))"

text \<open>What the worker answers: a result, or a failure with the output it had so far.\<close>

datatype exec_outcome =
    ExecOk utext "string list" "backend_execution_state option"
  | ExecFailed dbgflow_error "utext option"

record eval_result =
  evr_session :: session
  evr_output :: utext
  evr_artifact :: artifact_ref
  evr_warnings :: "string list"
  evr_duration_ms :: nat

definition write_output :: "session_id \<Rightarrow> string \<Rightarrow> utext \<Rightarrow> 'w manager \<Rightarrow> artifact_ref result \<times> 'w manager" where
  "write_output i command_id output m =
     (case write_eval_output i command_id (TextLine output) (m_artifacts m) of
        (r, a) \<Rightarrow> (r, m\<lparr>m_artifacts := a\<rparr>))"

definition write_failed_eval_output_best_effort ::
    "session_id \<Rightarrow> string \<Rightarrow> utext \<Rightarrow> 'w manager \<Rightarrow> artifact_ref option \<times> 'w manager" where
  "write_failed_eval_output_best_effort i command_id output m =
     (case write_output i command_id output m of
        (Inr artifact, m1) \<Rightarrow> (Some artifact, m1)
      | (Inl e, m1) \<Rightarrow>
          (None, log_event_of LogError ''eval_partial_artifact_failed'' (Some i) (Some (err_text m e)) m1))"

definition command_block :: "string \<Rightarrow> string \<Rightarrow> utext \<Rightarrow> utext \<Rightarrow> utext" where
  "command_block what command_id command output =
     [10] @ lit (''--- command '' @ command_id @ '' '' @ what @ '': '') @ command @ lit '' ---'' @ [10] @ output
     @ [10] @ lit (''--- end command '' @ command_id @ '' '' @ what @ '' ---'') @ [10]"

definition eval_failed ::
    "eval_request \<Rightarrow> string \<Rightarrow> session \<Rightarrow> nat \<Rightarrow> nat \<Rightarrow> dbgflow_error \<Rightarrow> utext option \<Rightarrow> 'w manager
       \<Rightarrow> dbgflow_error \<times> 'w manager" where
  "eval_failed request command_id s started duration_ms error partial_output m =
     (let i = er_session request;
          error_text = err_text m error;
          (partial_artifact, m1) = (case partial_output of
              None \<Rightarrow> (None, m)
            | Some output \<Rightarrow> write_failed_eval_output_best_effort i command_id output m);
          bytes = map_option byte_len partial_output;
          m2 = log_event_of LogError ''eval_failed'' (Some i) (Some error_text) m1
      in case finish_operation i Error Failed partial_artifact (Some error_text) bytes duration_ms m2 of
           (Inl e, m3) \<Rightarrow> (e, m3)
         | (Inr False, m3) \<Rightarrow> (error, m3)
         | (Inr True, m3) \<Rightarrow>
             (let m4 = write_command_record_best_effort i
                    \<lparr>cr_command_id = command_id, cr_command = er_command request, cr_status = ''Failed'',
                     cr_output_path = map_option ar_path partial_artifact, cr_started_at = started,
                     cr_duration_ms = Some duration_ms, cr_output_bytes = bytes, cr_warnings = [],
                     cr_error = Some error_text, cr_backend_session_id = s_backend_session_id s\<rparr> m3
              in (error, case partial_output of
                    None \<Rightarrow> m4
                  | Some output \<Rightarrow>
                      append_transcript_best_effort i
                        (command_block ''partial output'' command_id (er_command request) output) m4)))"

text \<open>The state a finished command leaves the session in: what the backend reported, else the state
  the session has now.\<close>

definition eval_final_state :: "session_id \<Rightarrow> session \<Rightarrow> backend_execution_state option \<Rightarrow> 'w manager \<Rightarrow> session_state" where
  "eval_final_state i s final_state m =
     (case final_state of
        Some b \<Rightarrow> session_state_for_backend_execution_state b
      | None \<Rightarrow> (case query_session i m of Inr s' \<Rightarrow> s_state s' | Inl _ \<Rightarrow> s_state s))"

definition eval_succeeded ::
    "eval_request \<Rightarrow> string \<Rightarrow> session \<Rightarrow> nat \<Rightarrow> nat \<Rightarrow> utext \<Rightarrow> string list \<Rightarrow> backend_execution_state option
       \<Rightarrow> 'w manager \<Rightarrow> eval_result result \<times> 'w manager" where
  "eval_succeeded request command_id s started duration_ms output ws final_state m =
     (let i = er_session request; bytes = Some (byte_len output) in
      case write_output i command_id output m of
        (Inl e, m1) \<Rightarrow>
          (let m2 = log_event_of LogError ''eval_artifact_failed'' (Some i) (Some (err_text m e)) m1
           in case finish_operation i Error Failed None (Some (err_text m e)) bytes duration_ms m2 of
                (Inl e', m3) \<Rightarrow> (Inl e', m3)
              | (Inr _, m3) \<Rightarrow> (Inl e, m3))
      | (Inr artifact, m1) \<Rightarrow>
          (case finish_operation i (eval_final_state i s final_state m1) Finished (Some artifact) None bytes
                  duration_ms m1 of
             (Inl e, m2) \<Rightarrow> (Inl e, m2)
           | (Inr finished, m2) \<Rightarrow>
               (let m3 = (if finished then
                       append_transcript_best_effort i
                         (command_block ''output'' command_id (er_command request) output)
                         (write_command_record_best_effort i
                           \<lparr>cr_command_id = command_id, cr_command = er_command request, cr_status = ''Finished'',
                            cr_output_path = Some (command_output_path (m_artifacts m) i command_id),
                            cr_started_at = started, cr_duration_ms = Some duration_ms, cr_output_bytes = bytes,
                            cr_warnings = ws, cr_error = None,
                            cr_backend_session_id = s_backend_session_id s\<rparr> m2)
                     else m2);
                    m4 = log_info ''eval_finished'' i m3
                in case query_session i m4 of
                     Inl e \<Rightarrow> (Inl e, m4)
                   | Inr now_s \<Rightarrow>
                       (Inr \<lparr>evr_session = now_s, evr_output = output, evr_artifact = artifact,
                             evr_warnings = ws, evr_duration_ms = duration_ms\<rparr>, m4))))"

text \<open>A whole \<open>eval\<close>. \<open>outcome\<close> is what the worker answers to the command and \<open>events\<close> what it
  reported while it ran; the clock stands at \<open>finished_at\<close> when it answers.\<close>

definition eval_session ::
    "eval_request \<Rightarrow> string \<Rightarrow> backend_execution_event list \<Rightarrow> exec_outcome \<Rightarrow> nat \<Rightarrow> 'w manager
       \<Rightarrow> eval_result result \<times> 'w manager" where
  "eval_session request command_id events outcome duration_ms m =
     (case eval_admit request command_id m of
        (Inl e, m1) \<Rightarrow> (Inl e, m1)
      | (Inr (s, w), m1) \<Rightarrow>
          (case eval_start request command_id s m1 of
             (Inl e, m2) \<Rightarrow> (Inl e, m2)
           | (Inr _, m2) \<Rightarrow>
               (let m3 = fold (sink_event (er_session request)) events m2;
                    m4 = m3\<lparr>m_now := m_now m3 + duration_ms\<rparr>
                in case outcome of
                     ExecFailed error partial_output \<Rightarrow>
                       (case eval_failed request command_id s (m_now m1) duration_ms error partial_output m4 of
                          (e, m5) \<Rightarrow> (Inl e, m5))
                   | ExecOk output ws final_state \<Rightarrow>
                       eval_succeeded request command_id s (m_now m1) duration_ms output ws final_state m4)))"

section \<open>The life of a worker\<close>

record worker_session =
  ws_backend :: string
  ws_backend_session_id :: string
  ws_warnings :: "string list"

definition session_is_closing_or_terminal :: "session_id \<Rightarrow> 'w manager \<Rightarrow> bool" where
  "session_is_closing_or_terminal i m =
     (if m_sessions_poisoned m then False
      else case m_sessions m i of
        None \<Rightarrow> False
      | Some s \<Rightarrow> s_state s = Closing \<or> is_terminal (s_state s))"

text \<open>The session once its worker is up, or once starting it failed with an error text.\<close>

definition startup_done :: "nat \<Rightarrow> worker_session \<Rightarrow> session \<Rightarrow> session" where
  "startup_done now ws s =
     s\<lparr>s_backend := ws_backend ws, s_backend_session_id := Some (ws_backend_session_id ws),
       s_state := state_for_target (s_target s), s_updated_at := now, s_warnings := ws_warnings ws,
       s_current_operation := None, s_error := None\<rparr>"

definition startup_failed :: "nat \<Rightarrow> string \<Rightarrow> session \<Rightarrow> session" where
  "startup_failed now error s =
     (if s_state s = Closing
      then s\<lparr>s_state := Closed, s_updated_at := now, s_current_operation := None, s_error := None\<rparr>
      else s\<lparr>s_state := Error, s_updated_at := now, s_current_operation := None, s_error := Some error\<rparr>)"

definition finish_startup_ok :: "session_id \<Rightarrow> worker_session \<Rightarrow> nat \<Rightarrow> session \<Rightarrow> 'w manager \<Rightarrow> 'w manager" where
  "finish_startup_ok i ws duration_ms s m =
     (let updated = startup_done (m_now m) ws s;
          m1 = set_session i updated m;
          m2 = record_session_event_best_effort i
                 (event_at m ''worker_startup_finished'' updated (Some (s_state s)) (Some (lit ''create_session''))
                    None None None [(''duration_ms'', JNumber duration_ms)]) m1;
          m3 = append_transcript_best_effort i
                 (stamped m (lit (''worker startup finished backend='' @ s_backend updated
                    @ '' backend_session_id='' @ ws_backend_session_id ws
                    @ '' new_state='' @ state_name (s_state updated)
                    @ '' duration_ms='' @ show_nat duration_ms))) m2;
          m4 = notify_session_updated i m3
      in case wr_get i (m_workers m4) of
           None \<Rightarrow> m4
         | Some w \<Rightarrow> spawn_thread (MonitorThread i w) m4)"

text \<open>The worker of a session that was closed while it started; \<open>close_result\<close> is its answer.\<close>

definition discard_started_worker :: "session_id \<Rightarrow> session_state option \<Rightarrow> unit result \<Rightarrow> 'w manager \<Rightarrow> 'w manager" where
  "discard_started_worker i closing_state close_result m =
     (let (result, m1) =
        (if wr_is_cancel_requested i (m_workers m) then (Inr (), snd (remove_worker i m))
         else case remove_worker i m of
           (None, m') \<Rightarrow> (Inr (), m')
         | (Some w, m') \<Rightarrow> (close_result, call_worker (CloseWorker w) m'))
      in if closing_state = Some Closing then finish_worker_close i result m1 else m1)"

definition finish_startup_error :: "session_id \<Rightarrow> dbgflow_error \<Rightarrow> nat \<Rightarrow> 'w manager \<Rightarrow> 'w manager" where
  "finish_startup_error i error duration_ms m =
     (let m1 = (if wr_is_cancel_requested i (m_workers m) then snd (remove_worker i m)
                else case remove_worker i m of
                  (None, m') \<Rightarrow> m'
                | (Some w, m') \<Rightarrow> call_worker (KillWorker w ''startup_failed'') m');
          e = err_text m error;
          m2 = log_event_of LogError ''worker_startup_failed'' (Some i) (Some e) m1
      in if m_sessions_poisoned m2 then m2
         else case m_sessions m2 i of
           None \<Rightarrow> m2
         | Some s \<Rightarrow>
             if s_state s = Closing \<or> \<not> is_terminal (s_state s) then
               (let updated = startup_failed (m_now m2) e s;
                    name = (if s_state s = Closing then ''worker_startup_failed_after_close''
                            else ''worker_startup_failed'');
                    m3 = set_session i updated m2;
                    m4 = record_session_event_best_effort i
                           (event_at m2 name updated (Some (s_state s)) (Some (lit ''create_session''))
                              None None (Some e) [(''duration_ms'', JNumber duration_ms)]) m3;
                    m5 = append_transcript_best_effort i
                           (stamped m2 (lit ((if s_state s = Closing then ''worker startup failed after close new_state=''
                               else ''worker startup failed new_state='')
                              @ state_name (s_state updated) @ '' error='' @ e
                              @ '' duration_ms='' @ show_nat duration_ms))) m4
                in notify_session_updated i m5)
             else m2)"

definition finish_worker_startup ::
    "session_id \<Rightarrow> worker_session result \<Rightarrow> nat \<Rightarrow> unit result \<Rightarrow> 'w manager \<Rightarrow> 'w manager" where
  "finish_worker_startup i startup_result duration_ms close_result m =
     (case startup_result of
        Inl error \<Rightarrow> finish_startup_error i error duration_ms m
      | Inr ws \<Rightarrow>
          (let m1 = log_info ''worker_startup_finished'' i m
           in if m_sessions_poisoned m1 then m1
              else case m_sessions m1 i of
                None \<Rightarrow> discard_started_worker i None close_result m1
              | Some s \<Rightarrow>
                  if is_terminal (s_state s) \<or> s_state s = Closing
                  then discard_started_worker i (Some (s_state s)) close_result m1
                  else finish_startup_ok i ws duration_ms s m1))"

text \<open>The start-up thread up to the call that creates the debug session: \<open>Some w\<close> when that call is
  made on the worker \<open>w\<close>. \<open>spawn_result\<close> is what the launcher returned.\<close>

definition startup_begin ::
    "session_id \<Rightarrow> 'w result \<Rightarrow> nat \<Rightarrow> 'w manager \<Rightarrow> 'w option \<times> 'w manager" where
  "startup_begin i spawn_result duration_ms m =
     (case operation_lock i m of
        Inl e \<Rightarrow> (None, finish_startup_error i e duration_ms m)
      | Inr True \<Rightarrow>
          (None, finish_startup_error i (Backend ''session operation lock poisoned'') duration_ms m)
      | Inr False \<Rightarrow>
          (let m1 = log_info ''worker_startup_thread_spawned'' i m
           in case spawn_result of
                Inl e \<Rightarrow> (None, finish_startup_error i e duration_ms m1)
              | Inr w \<Rightarrow>
                  (case wr_insert i w (m_workers m1) of
                     (Inl e, r) \<Rightarrow>
                       (None, finish_startup_error i e duration_ms
                          (call_worker (KillWorker w ''insert_worker_failed'') (m1\<lparr>m_workers := r\<rparr>)))
                   | (Inr _, r) \<Rightarrow>
                       (let m2 = m1\<lparr>m_workers := r\<rparr>
                        in if session_is_closing_or_terminal i m2
                           then (None, finish_worker_close i (Inr ())
                                   (snd (kill_once i ''startup_canceled_before_create'' m2)))
                           else (Some w, m2)))))"

text \<open>\<open>mark_worker_unavailable\<close>, called by the monitor when the worker is gone.\<close>

definition mark_worker_unavailable :: "session_id \<Rightarrow> string \<Rightarrow> 'w manager \<Rightarrow> 'w manager" where
  "mark_worker_unavailable i error m =
     (if m_sessions_poisoned m then m
      else case m_sessions m i of
        None \<Rightarrow> m
      | Some s \<Rightarrow>
          if s_state s = Closing \<or> is_terminal (s_state s) then m
          else
            let (operation, s') = finalize_canceled_operation (m_now m) Failed error s;
                updated = s'\<lparr>s_state := Error, s_updated_at := m_now m, s_current_operation := None,
                             s_error := Some error\<rparr>;
                m1 = snd (remove_worker i (set_session i updated m));
                m2 = log_event_of LogError ''worker_exited_unexpectedly'' (Some i) (Some error) m1;
                m3 = record_session_event_best_effort i
                       (event_at m ''worker_exited_unexpectedly'' updated (Some (s_state s)) None None None
                          (Some error) []) m2;
                m4 = (case operation of None \<Rightarrow> m3
                      | Some op \<Rightarrow>
                          record_session_event_best_effort i
                            (operation_artifact_event (m_now m) (show_session_id m) updated (Some (s_state s)) op ''eval_failed'')
                            (write_command_record_best_effort i
                              (command_record_from_operation op (s_backend_session_id updated)) m3));
                m5 = append_transcript_best_effort i
                       (stamped m (lit (''worker unavailable new_state='' @ state_name (s_state updated)
                          @ '' error='' @ error))) m4
            in notify_session_updated i m5)"

end
