(* ===== verification/Session_Shape.thy ===== *)
theory Session_Shape
  imports Session_Eval
begin

text \<open>
  What each section of the session manager does to the one session it is about, as a function on
  sessions, and that it touches no other session, no operation lock and no thread.
\<close>

section \<open>Updates of one session\<close>

definition closed_for :: "bool \<Rightarrow> nat \<Rightarrow> session \<Rightarrow> session" where
  "closed_for has_worker now s =
     (if s_state s \<in> {Closed, Closing} then s
      else s\<lparr>s_state := (if has_worker \<or> s_current_operation s \<noteq> None then Closing else Closed),
             s_updated_at := now, s_current_operation := None,
             s_last_operation := (if s_current_operation s \<noteq> None then request_cancel (s_last_operation s)
                                  else s_last_operation s)\<rparr>)"

definition with_event :: "backend_execution_state \<Rightarrow> nat \<Rightarrow> session \<Rightarrow> session" where
  "with_event b now s =
     (if s_state s = Closing \<or> s_state s = Error then s
      else let next_state = session_state_for_backend_execution_state b
           in s\<lparr>s_state := next_state, s_updated_at := now,
                s_error := (if next_state = Closed then None else s_error s)\<rparr>)"

definition with_started :: "session_state \<Rightarrow> operation_summary \<Rightarrow> nat \<Rightarrow> session \<Rightarrow> session" where
  "with_started st operation now s =
     (if is_terminal (s_state s) \<or> s_state s = Closing then s
      else s\<lparr>s_state := st, s_updated_at := now, s_current_operation := Some (op_command operation),
             s_last_operation := Some operation, s_error := None\<rparr>)"

definition with_finished ::
    "session_state \<Rightarrow> operation_status \<Rightarrow> artifact_ref option \<Rightarrow> string option \<Rightarrow> nat option \<Rightarrow> nat
       \<Rightarrow> nat \<Rightarrow> session \<Rightarrow> session" where
  "with_finished st status artifact error output_bytes duration_ms now s =
     (if finish_ignored (s_state s) st status then s
      else s\<lparr>s_state := st, s_updated_at := now, s_current_operation := None, s_error := error,
             s_last_operation := map_option
               (finished_operation now status artifact error output_bytes duration_ms) (s_last_operation s)\<rparr>)"

definition close_finished :: "string option \<Rightarrow> nat \<Rightarrow> session \<Rightarrow> session" where
  "close_finished error now s = close_done now (snd (finalize_close now error s))"

definition startup_error_update :: "string \<Rightarrow> nat \<Rightarrow> session \<Rightarrow> session" where
  "startup_error_update e now s = (if is_terminal (s_state s) then s else startup_failed now e s)"

definition unavailable :: "string \<Rightarrow> nat \<Rightarrow> session \<Rightarrow> session" where
  "unavailable error now s =
     (if s_state s = Closing \<or> is_terminal (s_state s) then s
      else (snd (finalize_canceled_operation now Failed error s))
        \<lparr>s_state := Error, s_updated_at := now, s_current_operation := None, s_error := Some error\<rparr>)"

section \<open>Sections\<close>

text \<open>\<open>on_session\<close>: the sessions map after an update of one session, if the lock is usable.\<close>

definition on_session :: "session_id \<Rightarrow> (session \<Rightarrow> session) \<Rightarrow> 'w manager \<Rightarrow> (session_id \<Rightarrow> session option)" where
  "on_session i f m =
     (if m_sessions_poisoned m then m_sessions m
      else case m_sessions m i of None \<Rightarrow> m_sessions m | Some s \<Rightarrow> (m_sessions m)(i \<mapsto> f s))"

text \<open>The same locks, threads, clock and poison flags.\<close>

definition same_control :: "'w manager \<Rightarrow> 'w manager \<Rightarrow> bool" where
  "same_control m m' \<longleftrightarrow>
     m_op_locks m' = m_op_locks m \<and> m_threads m' = m_threads m \<and> m_now m' = m_now m
     \<and> m_sessions_poisoned m' = m_sessions_poisoned m \<and> m_op_locks_poisoned m' = m_op_locks_poisoned m"

lemma same_control_refl [simp]: "same_control m m"
  by (simp add: same_control_def)

lemma same_control_trans: "same_control a b \<Longrightarrow> same_control b c \<Longrightarrow> same_control a c"
  by (simp add: same_control_def)

lemma control_projections [manager_simps]:
  "same_control m (log_event_of l e j t m') = same_control m m'"
  "same_control m (record_session_event_best_effort i ev m') = same_control m m'"
  "same_control m (write_command_record_best_effort i r m') = same_control m m'"
  "same_control m (append_transcript_best_effort i txt m') = same_control m m'"
  "same_control m (notify_session_updated i m') = same_control m m'"
  "same_control m (set_session i s m') = same_control m m'"
  "same_control m (snd (remove_worker i m')) = same_control m m'"
  "same_control m (snd (kill_once i reason m')) = same_control m m'"
  "same_control m (call_worker c m') = same_control m m'"
  unfolding same_control_def
  by (simp_all add: audit_only_helpers[unfolded audit_only_def] log_event_of_def set_session_def
      remove_worker_def kill_once_def call_worker_def split: prod.split option.split)

lemma op_lock_projections [manager_simps]:
  "m_now (snd (remove_worker i m)) = m_now m"
  "m_sessions_poisoned (snd (remove_worker i m)) = m_sessions_poisoned m"
  "m_now (log_event_of l e j t m) = m_now m"
  "m_sessions_poisoned (log_event_of l e j t m) = m_sessions_poisoned m"
  "m_now (call_worker c m) = m_now m"
  "m_sessions_poisoned (call_worker c m) = m_sessions_poisoned m"
  by (simp_all add: remove_worker_def log_event_of_def call_worker_def split: prod.split)

lemma close_section_shape:
  "m_sessions (snd (close_section i has_worker m)) = on_session i (closed_for has_worker (m_now m)) m
   \<and> same_control m (snd (close_section i has_worker m))"
  by (auto simp: close_section_def on_session_def closed_for_def manager_simps Let_def split: option.split)

lemma apply_event_shape:
  "m_sessions (snd (apply_backend_execution_event i ev m)) = on_session i (with_event (be_state ev) (m_now m)) m
   \<and> same_control m (snd (apply_backend_execution_event i ev m))"
  by (auto simp: apply_backend_execution_event_def on_session_def with_event_def manager_simps Let_def
      is_terminal_simps split: option.split)

lemma start_operation_shape:
  "m_sessions (snd (start_operation i st op m)) = on_session i (with_started st op (m_now m)) m
   \<and> same_control m (snd (start_operation i st op m))"
  by (auto simp: start_operation_def on_session_def with_started_def manager_simps Let_def split: option.split)

lemma audit_finished_shape [manager_simps]:
  "m_sessions (audit_finished_operation i u p st b d m) = m_sessions m"
  "same_control m' (audit_finished_operation i u p st b d m) = same_control m' m"
  by (simp_all add: audit_finished_operation_def manager_simps Let_def split: option.split)

lemma finish_operation_shape:
  "m_sessions (snd (finish_operation i st status a e b d m)) = on_session i (with_finished st status a e b d (m_now m)) m
   \<and> same_control m (snd (finish_operation i st status a e b d m))"
  by (auto simp: finish_operation_def on_session_def with_finished_def manager_simps Let_def split: option.split)

lemma audit_canceled_shape [manager_simps]:
  "m_sessions (audit_canceled_operation i s op m) = m_sessions m"
  "same_control m' (audit_canceled_operation i s op m) = same_control m' m"
  by (simp_all add: audit_canceled_operation_def manager_simps Let_def)

definition close_error :: "'w manager \<Rightarrow> unit result \<Rightarrow> string option" where
  "close_error m r = (case r of Inr _ \<Rightarrow> None | Inl e \<Rightarrow> Some (err_text m e))"

lemma err_text_remove [manager_simps]: "err_text (snd (remove_worker i m)) e = err_text m e"
  by (simp add: err_text_def show_session_id_def remove_worker_def split: prod.split)

lemma finish_worker_close_shape:
  "m_sessions (finish_worker_close i r m) = on_session i (close_finished (close_error m r) (m_now m)) m
   \<and> same_control m (finish_worker_close i r m)"
proof -
  let ?m = "snd (remove_worker i m)"
  have e: "(case r of Inr _ \<Rightarrow> None | Inl e \<Rightarrow> Some (err_text ?m e)) = close_error m r"
    by (cases r) (simp_all add: close_error_def manager_simps)
  have "same_control m ?m"
    by (simp add: manager_simps)
  then show ?thesis
    unfolding finish_worker_close_def Let_def e
    by (auto simp: on_session_def close_finished_def manager_simps split: option.split prod.split)
qed

lemma mark_worker_unavailable_shape:
  "m_sessions (mark_worker_unavailable i e m) = on_session i (unavailable e (m_now m)) m
   \<and> same_control m (mark_worker_unavailable i e m)"
  by (auto simp: mark_worker_unavailable_def on_session_def unavailable_def manager_simps Let_def
      split: option.split prod.split)

lemma finish_startup_error_shape:
  "m_sessions (finish_startup_error i e d m) = on_session i (startup_error_update (err_text m e) (m_now m)) m
   \<and> same_control m (finish_startup_error i e d m)"
proof -
  define m1 where "m1 = (if wr_is_cancel_requested i (m_workers m) then snd (remove_worker i m)
      else case remove_worker i m of
        (None, m') \<Rightarrow> m'
      | (Some w, m') \<Rightarrow> call_worker (KillWorker w ''startup_failed'') m')"
  have m1: "m_sessions m1 = m_sessions m" "same_control m m1" "m_now m1 = m_now m"
      "m_sessions_poisoned m1 = m_sessions_poisoned m"
    unfolding m1_def remove_worker_def call_worker_def same_control_def
    by (simp_all split: prod.split option.split)
  have eq: "is_terminal Closing = False"
    by (simp add: is_terminal_def)
  show ?thesis
    unfolding finish_startup_error_def m1_def[symmetric] Let_def
    using m1 by (auto simp: on_session_def startup_error_update_def manager_simps eq split: option.split)
qed

lemma discard_started_shape:
  assumes "m_sessions m i = Some s"
  shows "\<exists>e. m_sessions (discard_started_worker i (Some (s_state s)) r m) =
      (if s_state s = Closing then on_session i (close_finished e (m_now m)) m else m_sessions m)
    \<and> same_control m (discard_started_worker i (Some (s_state s)) r m)"
proof -
  obtain result m1 where m1: "(if wr_is_cancel_requested i (m_workers m) then (Inr (), snd (remove_worker i m))
         else case remove_worker i m of
           (None, m') \<Rightarrow> (Inr (), m')
         | (Some w, m') \<Rightarrow> (r, call_worker (CloseWorker w) m')) = (result, m1)"
    by force
  then have same: "m_sessions m1 = m_sessions m" "same_control m m1" "m_now m1 = m_now m"
      "m_sessions_poisoned m1 = m_sessions_poisoned m"
    by (auto simp: remove_worker_def call_worker_def same_control_def split: if_splits prod.splits option.splits)
  have eq: "discard_started_worker i (Some (s_state s)) r m =
      (if s_state s = Closing then finish_worker_close i result m1 else m1)"
    by (simp add: discard_started_worker_def m1)
  show ?thesis
    unfolding eq
    using finish_worker_close_shape[of i result m1] same assms
    by (cases "s_state s = Closing") (auto simp: on_session_def dest: same_control_trans
        intro!: exI[of _ "close_error m1 result"])
qed

lemma finish_startup_ok_shape:
  "m_sessions (finish_startup_ok i ws d s m) = (m_sessions m)(i \<mapsto> startup_done (m_now m) ws s)
   \<and> m_op_locks (finish_startup_ok i ws d s m) = m_op_locks m
   \<and> m_sessions_poisoned (finish_startup_ok i ws d s m) = m_sessions_poisoned m
   \<and> (m_threads (finish_startup_ok i ws d s m) = m_threads m
      \<or> (\<exists>w. m_threads (finish_startup_ok i ws d s m) = m_threads m @ [MonitorThread i w]))"
proof -
  define m1 where "m1 = notify_session_updated i (append_transcript_best_effort i
       (stamped m (lit (''worker startup finished backend='' @ s_backend (startup_done (m_now m) ws s)
          @ '' backend_session_id='' @ ws_backend_session_id ws
          @ '' new_state='' @ state_name (s_state (startup_done (m_now m) ws s))
          @ '' duration_ms='' @ show_nat d)))
       (record_session_event_best_effort i
         (event_at m ''worker_startup_finished'' (startup_done (m_now m) ws s) (Some (s_state s))
            (Some (lit ''create_session'')) None None None [(''duration_ms'', JNumber d)])
         (set_session i (startup_done (m_now m) ws s) m)))"
  have "same_control m m1" "m_sessions m1 = (m_sessions m)(i \<mapsto> startup_done (m_now m) ws s)"
    by (simp_all add: m1_def manager_simps)
  moreover have "finish_startup_ok i ws d s m =
      (case wr_get i (m_workers m1) of None \<Rightarrow> m1 | Some w \<Rightarrow> spawn_thread (MonitorThread i w) m1)"
    unfolding finish_startup_ok_def m1_def Let_def by (rule refl)
  ultimately show ?thesis
    by (simp add: same_control_def spawn_thread_def split: option.split)
qed

end
