(* ===== verification/Session_Threads.thy ===== *)
theory Session_Threads
  imports Session_Shape
begin

text \<open>
  The manager under concurrency. The code takes the lock of the sessions for one section at a time,
  so between two sections of an operation any section of another thread may run. A configuration is
  the manager and, for every session, who holds its operation lock and how far that thread is; a
  step is one section. Work of the start-up, close and monitor threads is possible once the thread
  was spawned. Everything that happens outside the lock of the sessions (files, logs, inboxes, the
  registry of workers, calls to workers, the clock) may change between any two sections.
\<close>

section \<open>Configurations and steps\<close>

text \<open>Who holds the operation lock of a session: the start-up thread, or an \<open>eval\<close> that was
  admitted in a state, is running its command, or has looked at the state it will leave.\<close>

datatype holder = HStarting | HAdmitted session_state | HExecuting | HObserved session_state

type_synonym 'w config = "'w manager \<times> (session_id \<Rightarrow> holder option)"

definition drop_thread :: "'w session_thread \<Rightarrow> 'w manager \<Rightarrow> 'w manager" where
  "drop_thread t m = m\<lparr>m_threads := remove1 t (m_threads m)\<rparr>"

definition outside_step :: "'w manager \<Rightarrow> 'w manager \<Rightarrow> bool" where
  "outside_step m m' \<longleftrightarrow>
     m_sessions m' = m_sessions m \<and> m_op_locks m' = m_op_locks m \<and> m_threads m' = m_threads m
     \<and> m_now m \<le> m_now m' \<and> m_sessions_poisoned m' = m_sessions_poisoned m"

inductive session_step :: "'w config \<Rightarrow> 'w config \<Rightarrow> bool" where
  outside: "outside_step m m' \<Longrightarrow> session_step (m, h) (m', h)"
| create: "m_sessions m fresh = None \<Longrightarrow> create_admit order fresh target m = (r, m') \<Longrightarrow>
    session_step (m, h) (m', h)"
| publish: "m_sessions m (s_id s) = Some s \<Longrightarrow> m_op_locks m (s_id s) = None \<Longrightarrow>
    create_publish s timeout m = (r, m') \<Longrightarrow> session_step (m, h) (m', h)"
| close: "operation_lock i m = Inr p \<Longrightarrow> close_section i has_worker m = (Inr (s, Some x), m') \<Longrightarrow>
    session_step (m, h) (if s_state s = Closing then spawn_thread (CloseThread i) m' else m', h)"
| start_lock: "StartupThread i t \<in> set (m_threads m) \<Longrightarrow> h i = None \<Longrightarrow>
    session_step (m, h) (drop_thread (StartupThread i t) m, h(i \<mapsto> HStarting))"
| start_unlocked: "StartupThread i t \<in> set (m_threads m) \<Longrightarrow>
    session_step (m, h) (finish_startup_error i e d (drop_thread (StartupThread i t) m), h)"
| start_canceled: "h i = Some HStarting \<Longrightarrow> session_is_closing_or_terminal i m \<Longrightarrow>
    session_step (m, h) (finish_worker_close i (Inr ()) m, h(i := None))"
| start_finished: "h i = Some HStarting \<Longrightarrow>
    session_step (m, h) (finish_worker_startup i r d close_result m, h(i := None))"
| admit: "h (er_session request) = None \<Longrightarrow> eval_admit request command_id m = (Inr (s, w), m') \<Longrightarrow>
    session_step (m, h) (m', h(er_session request \<mapsto> HAdmitted (s_state s)))"
| started: "h i = Some (HAdmitted st) \<Longrightarrow>
    session_step (m, h)
      (snd (start_operation i st (running_operation now command_id command) m), h(i \<mapsto> HExecuting))"
| event: "h i = Some HExecuting \<Longrightarrow>
    session_step (m, h) (snd (apply_backend_execution_event i ev m), h)"
| failed: "h i = Some HExecuting \<Longrightarrow>
    session_step (m, h) (snd (finish_operation i Error Failed a (Some e) b d m), h(i := None))"
| observed: "h i = Some HExecuting \<Longrightarrow> s_state s = Break \<Longrightarrow>
    session_step (m, h) (m, h(i \<mapsto> HObserved (eval_final_state i s final_state m)))"
| finished: "h i = Some (HObserved st) \<Longrightarrow>
    session_step (m, h) (snd (finish_operation i st Finished (Some a) None b d m), h(i := None))"
| close_thread: "CloseThread i \<in> set (m_threads m) \<Longrightarrow>
    session_step (m, h) (finish_worker_close i r (drop_thread (CloseThread i) m), h)"
| monitor: "MonitorThread i w \<in> set (m_threads m) \<Longrightarrow>
    session_step (m, h) (mark_worker_unavailable i e (drop_thread (MonitorThread i w) m), h)"

text \<open>A server starts with no session and no thread. The mutex of the sessions is never poisoned: no
  section under it can panic.\<close>

definition initial_config :: "'w config \<Rightarrow> bool" where
  "initial_config c \<longleftrightarrow>
     (\<forall>i. m_sessions (fst c) i = None) \<and> (\<forall>i. m_op_locks (fst c) i = None)
     \<and> m_threads (fst c) = [] \<and> (\<forall>i. snd c i = None) \<and> \<not> m_sessions_poisoned (fst c)"

inductive reachable :: "'w config \<Rightarrow> bool" where
  start: "initial_config c \<Longrightarrow> reachable c"
| step: "reachable c \<Longrightarrow> session_step c c' \<Longrightarrow> reachable c'"

section \<open>The invariant\<close>

definition operation_ok :: "operation_summary \<Rightarrow> bool" where
  "operation_ok op \<longleftrightarrow>
     (op_finished_at op = None) = is_active (op_status op) \<and> (op_duration_ms op = None) = is_active (op_status op)"

definition last_operation_ok :: "session \<Rightarrow> bool" where
  "last_operation_ok s =
     (case s_last_operation s of
        None \<Rightarrow> True
      | Some op \<Rightarrow> operation_ok op
          \<and> (op_status op = OpRunning \<longrightarrow>
               s_current_operation s = Some (op_command op) \<and> s_state s \<in> {Break, Running, Closed})
          \<and> (op_status op = CancelRequested \<longrightarrow> s_state s = Closing))"

definition session_ok :: "session_id \<Rightarrow> session \<Rightarrow> bool" where
  "session_ok i s \<longleftrightarrow>
     s_id s = i \<and> s_state s \<notin> {Created, Ready}
     \<and> (s_state s = Starting \<longrightarrow> s_current_operation s \<noteq> None)
     \<and> (s_state s = Closing \<longrightarrow> s_current_operation s = None)
     \<and> (s_state s = Error \<longrightarrow> s_current_operation s = None \<and> s_error s \<noteq> None)
     \<and> last_operation_ok s"

fun is_eval :: "holder option \<Rightarrow> bool" where
  "is_eval (Some (HAdmitted _)) = True"
| "is_eval (Some HExecuting) = True"
| "is_eval (Some (HObserved _)) = True"
| "is_eval _ = False"

definition starts :: "session_id \<Rightarrow> 'w session_thread list \<Rightarrow> nat" where
  "starts i ts = length (filter (\<lambda>t. case t of StartupThread j _ \<Rightarrow> j = i | _ \<Rightarrow> False) ts)"

definition closes :: "session_id \<Rightarrow> 'w session_thread list \<Rightarrow> nat" where
  "closes i ts = length (filter (\<lambda>t. case t of CloseThread j \<Rightarrow> j = i | _ \<Rightarrow> False) ts)"

definition monitors :: "session_id \<Rightarrow> 'w session_thread list \<Rightarrow> nat" where
  "monitors i ts = length (filter (\<lambda>t. case t of MonitorThread j _ \<Rightarrow> j = i | _ \<Rightarrow> False) ts)"

text \<open>How the threads and the holder of the lock fit the state of the session.\<close>

definition idle :: "nat \<Rightarrow> nat \<Rightarrow> nat \<Rightarrow> holder option \<Rightarrow> bool" where
  "idle ns nc nm h \<longleftrightarrow> ns = 0 \<and> nc = 0 \<and> nm = 0 \<and> h = None"

definition starting_ok :: "nat \<Rightarrow> holder option \<Rightarrow> session \<Rightarrow> bool" where
  "starting_ok ns h s \<longleftrightarrow>
     ns \<le> 1 \<and> (ns > 0 \<longrightarrow> h = None)
     \<and> (ns > 0 \<or> h = Some HStarting \<longrightarrow>
          s_state s \<in> {Starting, Closing, Closed, Error} \<and> s_last_operation s = None)"

definition eval_ok :: "nat \<Rightarrow> holder option \<Rightarrow> session \<Rightarrow> bool" where
  "eval_ok nc h s \<longleftrightarrow>
     (nc > 0 \<longrightarrow> s_state s \<in> {Closing, Closed, Error})
     \<and> (is_eval h \<longrightarrow> s_state s \<noteq> Starting \<and> nc \<le> (if s_state s = Closing then 1 else 0))
     \<and> (case h of
          Some (HAdmitted st) \<Rightarrow> st = Break
        | Some (HObserved st) \<Rightarrow>
            st \<in> {Break, Running, Closing, Closed, Error}
            \<and> (st \<in> {Closing, Error} \<longrightarrow> s_state s \<in> {Closing, Closed, Error})
        | _ \<Rightarrow> True)"

definition view_ok :: "session_id \<Rightarrow> session option \<Rightarrow> bool \<Rightarrow> nat \<Rightarrow> nat \<Rightarrow> nat \<Rightarrow> holder option \<Rightarrow> bool" where
  "view_ok i so lock ns nc nm h =
     (case so of
        None \<Rightarrow> \<not> lock \<and> idle ns nc nm h
      | Some s \<Rightarrow>
          session_ok i s
          \<and> (\<not> lock \<longrightarrow> s_state s = Starting \<and> s_last_operation s = None \<and> idle ns nc nm h)
          \<and> starting_ok ns h s \<and> eval_ok nc h s)"

definition config_ok :: "'w config \<Rightarrow> bool" where
  "config_ok c \<longleftrightarrow>
     (\<forall>i. view_ok i (m_sessions (fst c) i) (m_op_locks (fst c) i \<noteq> None) (starts i (m_threads (fst c)))
            (closes i (m_threads (fst c))) (monitors i (m_threads (fst c))) (snd c i))
     \<and> \<not> m_sessions_poisoned (fst c)"

lemma initial_config_ok: "initial_config c \<Longrightarrow> config_ok c"
  by (auto simp: initial_config_def config_ok_def view_ok_def idle_def starts_def closes_def monitors_def)

section \<open>The updates keep the session well formed\<close>

lemmas ok_defs = session_ok_def last_operation_ok_def operation_ok_def

lemma closed_for_ok:
  assumes "session_ok i s"
  shows "session_ok i (closed_for hw now s)"
  using assms
  by (auto simp: ok_defs closed_for_def request_cancel_def is_active_def split: option.splits if_splits)

lemma with_event_ok:
  assumes "session_ok i s"
  shows "session_ok i (with_event b now s)"
  using assms
  by (cases b) (auto simp: ok_defs with_event_def split: option.splits if_splits)

lemma with_started_ok:
  assumes "session_ok i s"
  shows "session_ok i (with_started Break (running_operation t c cmd) now s)"
  using assms
  by (auto simp: ok_defs with_started_def running_operation_def is_active_def split: option.splits if_splits)

lemma with_failed_ok:
  assumes "session_ok i s"
  shows "session_ok i (with_finished Error Failed a (Some e) b d now s)"
  using assms
  by (auto simp: ok_defs with_finished_def finished_operation_def is_active_def split: option.splits if_splits)

lemma with_finished_ok:
  assumes "session_ok i s" and "st \<in> {Break, Running, Closing, Closed, Error}"
    and "st \<in> {Closing, Error} \<Longrightarrow> s_state s \<in> {Closing, Closed, Error}"
  shows "session_ok i (with_finished st Finished a None b d now s)"
  using assms
  by (auto simp: ok_defs with_finished_def finished_operation_def is_active_def finish_ignored_def is_terminal_def
      split: option.splits if_splits)

lemma close_finished_ok:
  assumes "session_ok i s"
  shows "session_ok i (close_finished e now s)"
  using assms
  by (cases e) (auto simp: ok_defs close_finished_def close_done_def finalize_close_def
      finalize_canceled_operation_def is_active_def Let_def split: option.splits if_splits)

lemma startup_error_ok:
  assumes "session_ok i s" and "s_last_operation s = None"
  shows "session_ok i (startup_error_update e now s)"
  using assms
  by (auto simp: ok_defs startup_error_update_def startup_failed_def split: if_splits)

lemma unavailable_ok:
  assumes "session_ok i s"
  shows "session_ok i (unavailable e now s)"
  using assms
  by (auto simp: ok_defs unavailable_def finalize_canceled_operation_def is_active_def is_terminal_def Let_def
      split: option.splits if_splits)

lemma startup_done_ok:
  assumes "session_ok i s" and "s_last_operation s = None"
  shows "session_ok i (startup_done now ws s)"
  using assms by (cases "s_target s") (auto simp: ok_defs startup_done_def)

section \<open>One step, one session\<close>

fun thread_of_session :: "'w session_thread \<Rightarrow> session_id" where
  "thread_of_session (StartupThread i _) = i"
| "thread_of_session (CloseThread i) = i"
| "thread_of_session (MonitorThread i _) = i"

lemma counts_append [simp]:
  "starts i (ts @ [t]) = starts i ts + (case t of StartupThread j _ \<Rightarrow> if j = i then 1 else 0 | _ \<Rightarrow> 0)"
  "closes i (ts @ [t]) = closes i ts + (case t of CloseThread j \<Rightarrow> if j = i then 1 else 0 | _ \<Rightarrow> 0)"
  "monitors i (ts @ [t]) = monitors i ts + (case t of MonitorThread j _ \<Rightarrow> if j = i then 1 else 0 | _ \<Rightarrow> 0)"
  by (cases t; simp add: starts_def closes_def monitors_def)+

lemma count_pos: "t \<in> set ts \<Longrightarrow> P t \<Longrightarrow> 0 < length (filter P ts)"
  by (induction ts) auto

lemma count_remove1:
  "t \<in> set ts \<Longrightarrow> length (filter P (remove1 t ts)) = length (filter P ts) - (if P t then 1 else 0)"
proof (induction ts)
  case (Cons a ts)
  then show ?case
    using count_pos[of t ts P] by (cases "t = a") auto
qed simp

lemma counts_remove1:
  assumes "t \<in> set ts"
  shows "starts i (remove1 t ts) = starts i ts - (case t of StartupThread j _ \<Rightarrow> if j = i then 1 else 0 | _ \<Rightarrow> 0)"
    and "closes i (remove1 t ts) = closes i ts - (case t of CloseThread j \<Rightarrow> if j = i then 1 else 0 | _ \<Rightarrow> 0)"
    and "monitors i (remove1 t ts) = monitors i ts - (case t of MonitorThread j _ \<Rightarrow> if j = i then 1 else 0 | _ \<Rightarrow> 0)"
  unfolding starts_def closes_def monitors_def count_remove1[OF assms]
  by (cases t; simp; fail)+

lemma counts_pos:
  "StartupThread i t \<in> set ts \<Longrightarrow> 0 < starts i ts" "CloseThread i \<in> set ts \<Longrightarrow> 0 < closes i ts"
  "MonitorThread i w \<in> set ts \<Longrightarrow> 0 < monitors i ts"
  unfolding starts_def closes_def monitors_def by (erule count_pos, simp)+

definition same_threads_but :: "session_id \<Rightarrow> 'w session_thread list \<Rightarrow> 'w session_thread list \<Rightarrow> bool" where
  "same_threads_but i ts ts' \<longleftrightarrow>
     (\<forall>j. j \<noteq> i \<longrightarrow> starts j ts' = starts j ts \<and> closes j ts' = closes j ts \<and> monitors j ts' = monitors j ts)"

lemma same_threads_butI:
  "same_threads_but i ts ts"
  "thread_of_session t = i \<Longrightarrow> same_threads_but i ts (ts @ [t])"
  "t \<in> set ts \<Longrightarrow> thread_of_session t = i \<Longrightarrow> same_threads_but i ts (remove1 t ts)"
  by (cases t; simp add: same_threads_but_def counts_remove1)+

definition view_at :: "session_id \<Rightarrow> 'w config \<Rightarrow> bool" where
  "view_at i c \<longleftrightarrow> view_ok i (m_sessions (fst c) i) (m_op_locks (fst c) i \<noteq> None) (starts i (m_threads (fst c)))
      (closes i (m_threads (fst c))) (monitors i (m_threads (fst c))) (snd c i)"

lemma config_ok_view: "config_ok c \<longleftrightarrow> (\<forall>i. view_at i c) \<and> \<not> m_sessions_poisoned (fst c)"
  by (simp add: config_ok_def view_at_def)

text \<open>A step about the session \<open>i\<close>: it is enough to look at that session.\<close>

lemma config_update:
  assumes "config_ok (m, h)"
    and "\<forall>j. j \<noteq> i \<longrightarrow> m_sessions m' j = m_sessions m j \<and> m_op_locks m' j = m_op_locks m j \<and> h' j = h j"
    and "same_threads_but i (m_threads m) (m_threads m')"
    and "m_sessions_poisoned m' = m_sessions_poisoned m"
    and "view_at i (m', h')"
  shows "config_ok (m', h')"
proof -
  have "view_at j (m', h')" for j
    using assms by (cases "j = i") (auto simp: config_ok_view view_at_def same_threads_but_def)
  then show ?thesis
    using assms(1,4) by (simp add: config_ok_view)
qed

text \<open>The common case: a section that updates an existing session.\<close>

lemma section_update:
  assumes "config_ok (m, h)" and s: "m_sessions m i = Some s"
    and "m_sessions m' = on_session i f m0" and "m_sessions m0 = m_sessions m"
    and "m_sessions_poisoned m0 = m_sessions_poisoned m" and "m_op_locks m0 = m_op_locks m"
    and "same_control m0 m'" and "same_threads_but i (m_threads m) (m_threads m0)"
    and "h' = h(i := x)"
    and "session_ok i (f s)"
    and "m_op_locks m i \<noteq> None"
    and "starting_ok (starts i (m_threads m0)) x (f s)" and "eval_ok (closes i (m_threads m0)) x (f s)"
  shows "config_ok (m', h')"
proof (rule config_update[OF assms(1)])
  have m': "m_sessions m' = (m_sessions m)(i \<mapsto> f s)"
    using assms(1-5) by (simp add: on_session_def config_ok_def)
  show "\<forall>j. j \<noteq> i \<longrightarrow> m_sessions m' j = m_sessions m j \<and> m_op_locks m' j = m_op_locks m j \<and> h' j = h j"
    using m' assms(6,7,9) by (simp add: same_control_def)
  show "same_threads_but i (m_threads m) (m_threads m')"
    using assms(7,8) by (simp add: same_control_def)
  show "m_sessions_poisoned m' = m_sessions_poisoned m"
    using assms(5,7) by (simp add: same_control_def)
  show "view_at i (m', h')"
    using assms(6,7,9-) m' by (simp add: view_at_def view_ok_def same_control_def)
qed

text \<open>What the invariant says of the session a step is about.\<close>

lemma view_cases:
  assumes "config_ok (m, h)"
  shows "(m_sessions m i = None \<and> m_op_locks m i = None \<and> h i = None \<and> starts i (m_threads m) = 0
          \<and> closes i (m_threads m) = 0 \<and> monitors i (m_threads m) = 0)
    \<or> (\<exists>s. m_sessions m i = Some s \<and> session_ok i s \<and> starting_ok (starts i (m_threads m)) (h i) s
          \<and> eval_ok (closes i (m_threads m)) (h i) s
          \<and> (m_op_locks m i = None \<longrightarrow> s_state s = Starting \<and> s_last_operation s = None
              \<and> h i = None \<and> starts i (m_threads m) = 0 \<and> closes i (m_threads m) = 0
              \<and> monitors i (m_threads m) = 0))"
  using assms
  by (cases "m_sessions m i") (auto simp: config_ok_def view_ok_def idle_def dest: spec[of _ i])

lemma busy_session:
  assumes "config_ok (m, h)"
    and "h i \<noteq> None \<or> starts i (m_threads m) > 0 \<or> closes i (m_threads m) > 0 \<or> monitors i (m_threads m) > 0"
  obtains s where "m_sessions m i = Some s" "session_ok i s" "starting_ok (starts i (m_threads m)) (h i) s"
    "eval_ok (closes i (m_threads m)) (h i) s" "m_op_locks m i \<noteq> None"
  using view_cases[OF assms(1), of i] assms(2) by auto

end
