(* ===== verification/Session_Invariant.thy ===== *)
theory Session_Invariant
  imports Session_Threads
begin

text \<open>
  Every step of every interleaving keeps the invariant of the sessions, and what follows for the
  sessions of a running server.
\<close>

lemma on_session_threads: "on_session i f (m\<lparr>m_threads := ts\<rparr>) = on_session i f m"
  by (simp add: on_session_def split: option.split)

section \<open>Steps that leave the sessions alone\<close>

lemma same_view:
  assumes "config_ok (m, h)" and "m_sessions m' = m_sessions m" and "m_op_locks m' = m_op_locks m"
    and "m_threads m' = m_threads m" and "m_sessions_poisoned m' = m_sessions_poisoned m"
  shows "config_ok (m', h)"
  using assms by (simp add: config_ok_def)

lemma outside_ok: "config_ok (m, h) \<Longrightarrow> outside_step m m' \<Longrightarrow> config_ok (m', h)"
  by (rule same_view) (auto simp: outside_step_def)

lemma audit_only_ok: "config_ok (m, h) \<Longrightarrow> audit_only m m' \<Longrightarrow> config_ok (m', h)"
  by (rule same_view) (auto simp: audit_only_def)

lemma admit_audit_only: "eval_admit request c m = (r, m') \<Longrightarrow> audit_only m m'"
proof -
  have "audit_only m (audit_rejected_eval request c e m)" for e
    unfolding audit_rejected_eval_def Let_def
    by (auto split: sum.split intro!: audit_only_trans[OF _ audit_only_transcript]
        audit_only_trans[OF _ audit_only_record] audit_only_command)
  then have "audit_only m (snd (reject_eval request c e m))" for e
    by (auto simp: reject_eval_def intro: audit_only_trans[OF _ audit_only_log])
  then show "eval_admit request c m = (r, m') \<Longrightarrow> audit_only m m'"
    unfolding eval_admit_def Let_def
    by (auto split: if_splits sum.splits bool.splits option.splits prod.splits)
       (metis snd_conv audit_only_refl)+
qed

lemma admit_state:
  assumes "eval_admit request c m = (Inr (s, w), m')"
  shows "m_sessions m (er_session request) = Some s \<and> m_op_locks m (er_session request) \<noteq> None
    \<and> s_state s \<in> {Ready, Break}"
  using assms unfolding eval_admit_def Let_def
  by (auto simp: operation_lock_def query_session_def split: if_splits sum.splits bool.splits option.splits prod.splits)

section \<open>Creating\<close>

lemma create_ok:
  assumes "config_ok (m, h)" and "m_sessions m fresh = None" and "create_admit order fresh target m = (r, m')"
  shows "config_ok (m', h)"
proof (cases "reusable_session order target m")
  case (Some s)
  with assms have "m' = log_info ''create_session_reused'' (s_id s) m"
    by (auto simp: create_admit_def config_ok_def)
  then show ?thesis
    using audit_only_ok[OF assms(1) audit_only_log] by simp
next
  case None
  let ?s = "new_session fresh target (m_now m)"
  obtain x m1 where a: "initialize_session_audit ?s m = (x, m1)" by force
  then have audit: "audit_only m m1"
    using audit_only_initialize[of m ?s] by simp
  have "m' = (case x of Inl e \<Rightarrow> m1 | Inr _ \<Rightarrow> put_session ?s m1)"
    using None assms a by (auto simp: create_admit_def config_ok_def Let_def split: sum.splits)
  moreover have "config_ok (put_session ?s m1, h)"
  proof (rule config_update[OF assms(1), where i = fresh])
    show "\<forall>j. j \<noteq> fresh \<longrightarrow> m_sessions (put_session ?s m1) j = m_sessions m j
        \<and> m_op_locks (put_session ?s m1) j = m_op_locks m j \<and> h j = h j"
      using audit by (simp add: put_session_def new_session_def audit_only_def)
    show "same_threads_but fresh (m_threads m) (m_threads (put_session ?s m1))"
      using audit by (simp add: put_session_def audit_only_def same_threads_butI)
    show "m_sessions_poisoned (put_session ?s m1) = m_sessions_poisoned m"
      using audit by (simp add: put_session_def audit_only_def)
    show "view_at fresh (put_session ?s m1, h)"
      using audit assms(2) view_cases[OF assms(1), of fresh]
      by (auto simp: put_session_def audit_only_def view_at_def view_ok_def new_session_def idle_def
          starting_ok_def eval_ok_def ok_defs)
  qed
  ultimately show ?thesis
    using audit_only_ok[OF assms(1) audit] by (simp split: sum.split)
qed

lemma publish_ok:
  assumes ok: "config_ok (m, h)" and s: "m_sessions m (s_id s) = Some s" and "m_op_locks m (s_id s) = None"
    and "create_publish s timeout m = (r, m')"
  shows "config_ok (m', h)"
proof (cases "m_op_locks_poisoned m")
  case True
  with assms show ?thesis by (simp add: create_publish_def)
next
  case False
  let ?i = "s_id s"
  have shape: "m_sessions m' = m_sessions m" "m_op_locks m' = (m_op_locks m)(?i \<mapsto> False)"
      "m_threads m' = m_threads m @ [StartupThread ?i (s_target s)]" "m_sessions_poisoned m' = m_sessions_poisoned m"
    using False assms(4)
    by (auto simp: create_publish_def Let_def log_event_of_def spawn_thread_def notify_session_updated_def
        split: if_splits)
  show ?thesis
  proof (rule config_update[OF ok, where i = ?i])
    show "\<forall>j. j \<noteq> ?i \<longrightarrow> m_sessions m' j = m_sessions m j \<and> m_op_locks m' j = m_op_locks m j \<and> h j = h j"
      by (simp add: shape)
    show "same_threads_but ?i (m_threads m) (m_threads m')"
      by (simp add: shape same_threads_butI)
    show "view_at ?i (m', h)"
      using view_cases[OF ok, of ?i] s assms(3)
      by (auto simp: view_at_def view_ok_def shape starting_ok_def eval_ok_def)
  qed (rule shape)
qed

section \<open>Closing\<close>

lemma close_control:
  assumes "starting_ok ns x s" and "eval_ok nc x s" and "session_ok i s"
  shows "starting_ok ns x (closed_for hw now s)"
    and "s_state s \<in> {Closed, Closing} \<Longrightarrow> closed_for hw now s = s"
    and "s_state s \<notin> {Closed, Closing} \<Longrightarrow> s_state (closed_for hw now s) = Closing
           \<Longrightarrow> eval_ok (Suc nc) x (closed_for hw now s)"
    and "s_state s \<notin> {Closed, Closing} \<Longrightarrow> s_state (closed_for hw now s) \<noteq> Closing
           \<Longrightarrow> eval_ok nc x (closed_for hw now s)"
proof -
  show "starting_ok ns x (closed_for hw now s)"
    using assms(1) by (auto simp: starting_ok_def closed_for_def request_cancel_def)
  show "s_state s \<in> {Closed, Closing} \<Longrightarrow> closed_for hw now s = s"
    by (simp add: closed_for_def)
  show "eval_ok (Suc nc) x (closed_for hw now s)"
    if "s_state s \<notin> {Closed, Closing}" "s_state (closed_for hw now s) = Closing"
    using assms(2) that by (auto simp: eval_ok_def split: option.splits holder.splits)
  show "eval_ok nc x (closed_for hw now s)"
    if "s_state s \<notin> {Closed, Closing}" "s_state (closed_for hw now s) \<noteq> Closing"
    using assms(2) that by (auto simp: eval_ok_def closed_for_def split: option.splits holder.splits if_splits)
qed

lemma close_ok:
  assumes ok: "config_ok (m, h)" and lock: "operation_lock i m = Inr p"
    and sec: "close_section i hw m = (Inr (s', Some x), m')"
  shows "config_ok (if s_state s' = Closing then spawn_thread (CloseThread i) m' else m', h)"
proof -
  have np: "\<not> m_sessions_poisoned m"
    using ok by (simp add: config_ok_def)
  obtain s where s: "m_sessions m i = Some s" and st: "s_state s \<notin> {Closed, Closing}"
    and s': "s' = closed_for hw (m_now m) s"
    using sec np by (auto simp: close_section_def closed_for_def Let_def split: option.splits if_splits)
  have shape: "m_sessions m' = on_session i (closed_for hw (m_now m)) m" "same_control m m'"
    using close_section_shape[of i hw m] sec by simp_all
  have l: "m_op_locks m i \<noteq> None"
    using lock by (auto simp: operation_lock_def split: if_splits option.splits)
  have v: "session_ok i s" "starting_ok (starts i (m_threads m)) (h i) s" "eval_ok (closes i (m_threads m)) (h i) s"
    using view_cases[OF ok, of i] s by auto
  note c = close_control[OF v(2,3,1), of hw "m_now m"]
  show ?thesis
  proof (cases "s_state s' = Closing")
    case False
    have "config_ok (m', h)"
      by (rule section_update[OF ok s shape(1) refl refl refl shape(2) same_threads_butI(1), where x = "h i"])
         (use closed_for_ok[OF v(1)] l c(1) c(4)[OF st] False s' in auto)
    with False show ?thesis by simp
  next
    case True
    let ?t = "spawn_thread (CloseThread i)"
    have "config_ok (?t m', h)"
    proof (rule section_update[OF ok s, where ?m0.0 = "?t m" and x = "h i" and f = "closed_for hw (m_now m)"])
      show "m_sessions (?t m') = on_session i (closed_for hw (m_now m)) (?t m)"
        using shape(1) by (simp add: spawn_thread_def on_session_threads)
      show "same_control (?t m) (?t m')"
        using shape(2) by (simp add: spawn_thread_def same_control_def)
      show "same_threads_but i (m_threads m) (m_threads (?t m))"
        by (simp add: spawn_thread_def same_threads_butI)
      show "starting_ok (starts i (m_threads (?t m))) (h i) (closed_for hw (m_now m) s)"
        using c(1) by (simp add: spawn_thread_def)
      show "eval_ok (closes i (m_threads (?t m))) (h i) (closed_for hw (m_now m) s)"
        using c(3)[OF st] True s' by (simp add: spawn_thread_def)
    qed (use closed_for_ok[OF v(1)] l in \<open>simp_all add: spawn_thread_def\<close>)
    with True show ?thesis by simp
  qed
qed

section \<open>Starting the worker\<close>

lemma drop_thread_simps [simp]:
  "m_sessions (drop_thread t m) = m_sessions m" "m_op_locks (drop_thread t m) = m_op_locks m"
  "m_sessions_poisoned (drop_thread t m) = m_sessions_poisoned m" "m_now (drop_thread t m) = m_now m"
  "m_threads (drop_thread t m) = remove1 t (m_threads m)"
  by (simp_all add: drop_thread_def)

lemma start_lock_ok:
  assumes ok: "config_ok (m, h)" and t: "StartupThread i tg \<in> set (m_threads m)" and h: "h i = None"
  shows "config_ok (drop_thread (StartupThread i tg) m, h(i \<mapsto> HStarting))"
proof -
  obtain s where s: "m_sessions m i = Some s" "session_ok i s" "starting_ok (starts i (m_threads m)) (h i) s"
    "eval_ok (closes i (m_threads m)) (h i) s" "m_op_locks m i \<noteq> None"
    using busy_session[OF ok, of i] counts_pos(1)[OF t] by blast
  show ?thesis
  proof (rule config_update[OF ok, where i = i])
    show "same_threads_but i (m_threads m) (m_threads (drop_thread (StartupThread i tg) m))"
      using same_threads_butI(3)[OF t] by simp
    show "view_at i (drop_thread (StartupThread i tg) m, h(i \<mapsto> HStarting))"
      using s counts_pos(1)[OF t] counts_remove1[OF t, of i] h
      by (auto simp: view_at_def view_ok_def starting_ok_def eval_ok_def)
  qed simp_all
qed

lemma start_unlocked_ok:
  assumes ok: "config_ok (m, h)" and t: "StartupThread i tg \<in> set (m_threads m)"
  shows "config_ok (finish_startup_error i e d (drop_thread (StartupThread i tg) m), h)"
proof -
  obtain s where s: "m_sessions m i = Some s" "session_ok i s" "starting_ok (starts i (m_threads m)) (h i) s"
    "eval_ok (closes i (m_threads m)) (h i) s" "m_op_locks m i \<noteq> None"
    using busy_session[OF ok, of i] counts_pos(1)[OF t] by blast
  let ?m0 = "drop_thread (StartupThread i tg) m"
  let ?f = "startup_error_update (err_text ?m0 e) (m_now ?m0)"
  have last: "s_last_operation s = None" "h i = None" "starts i (m_threads m) = 1"
    using s(3) counts_pos(1)[OF t] by (auto simp: starting_ok_def)
  show ?thesis
  proof (rule section_update[OF ok s(1), where ?m0.0 = ?m0 and f = ?f and x = "h i"])
    show "same_threads_but i (m_threads m) (m_threads ?m0)"
      using same_threads_butI(3)[OF t] by simp
    show "session_ok i (?f s)"
      using s(2) last(1) by (rule startup_error_ok)
    show "starting_ok (starts i (m_threads ?m0)) (h i) (?f s)"
      using last counts_remove1(1)[OF t, of i] by (simp add: starting_ok_def)
    show "eval_ok (closes i (m_threads ?m0)) (h i) (?f s)"
      using s(4) last(2) counts_remove1(2)[OF t, of i]
      by (auto simp: eval_ok_def startup_error_update_def startup_failed_def is_terminal_def)
  qed (use finish_startup_error_shape[of i e d ?m0] s(5) in simp_all)
qed

lemma close_finished_state: "s_state (close_finished e now s) = (if e = None then Closed else Error)"
  by (cases e) (simp_all add: close_finished_def close_done_def finalize_close_def Let_def split: prod.split)

lemma close_finished_last:
  "s_last_operation s = None \<Longrightarrow> s_last_operation (close_finished e now s) = None"
  by (cases e) (simp_all add: close_finished_def close_done_def finalize_close_def finalize_canceled_operation_def
      Let_def split: prod.split)

lemma start_canceled_ok:
  assumes ok: "config_ok (m, h)" and h: "h i = Some HStarting"
  shows "config_ok (finish_worker_close i r m, h(i := None))"
proof -
  obtain s where s: "m_sessions m i = Some s" "session_ok i s" "starting_ok (starts i (m_threads m)) (h i) s"
    "eval_ok (closes i (m_threads m)) (h i) s" "m_op_locks m i \<noteq> None"
    using busy_session[OF ok, of i] h by blast
  let ?f = "close_finished (close_error m r) (m_now m)"
  show ?thesis
  proof (rule section_update[OF ok s(1), where ?m0.0 = m and f = ?f and x = None])
    show "session_ok i (?f s)"
      using s(2) by (rule close_finished_ok)
    show "starting_ok (starts i (m_threads m)) None (?f s)"
      using s(3) h by (auto simp: starting_ok_def)
    show "eval_ok (closes i (m_threads m)) None (?f s)"
      by (simp add: eval_ok_def close_finished_state)
  qed (use finish_worker_close_shape[of i r m] s(5) in \<open>simp_all add: same_threads_butI\<close>)
qed

lemma release_ok:
  assumes ok: "config_ok (m, h)" and "h i = Some HStarting"
  shows "config_ok (m, h(i := None))"
proof (rule config_update[OF ok, where i = i])
  show "view_at i (m, h(i := None))"
    using view_cases[OF ok, of i] assms(2)
    by (auto simp: view_at_def view_ok_def starting_ok_def eval_ok_def)
qed (simp_all add: same_threads_butI)

lemma started_worker_ok:
  assumes ok: "config_ok (m, h)" and h: "h i = Some HStarting" and s: "m_sessions m i = Some s"
    and st: "\<not> (is_terminal (s_state s) \<or> s_state s = Closing)"
  shows "config_ok (finish_startup_ok i ws d s m, h(i := None))"
proof -
  have v: "session_ok i s" "starting_ok (starts i (m_threads m)) (h i) s"
    "eval_ok (closes i (m_threads m)) (h i) s" "m_op_locks m i \<noteq> None"
    using view_cases[OF ok, of i] s h by auto
  have last: "s_last_operation s = None" and st': "s_state s = Starting" and c: "closes i (m_threads m) = 0"
    and n: "starts i (m_threads m) = 0"
    using v(2,3) h st by (auto simp: starting_ok_def eval_ok_def is_terminal_def)
  let ?m = "finish_startup_ok i ws d s m"
  have shape: "m_sessions ?m = (m_sessions m)(i \<mapsto> startup_done (m_now m) ws s)" "m_op_locks ?m = m_op_locks m"
    "m_sessions_poisoned ?m = m_sessions_poisoned m"
    "m_threads ?m = m_threads m \<or> (\<exists>w. m_threads ?m = m_threads m @ [MonitorThread i w])"
    using finish_startup_ok_shape[of i ws d s m] by auto
  show ?thesis
  proof (rule config_update[OF ok, where i = i])
    show "same_threads_but i (m_threads m) (m_threads ?m)"
      using shape(4) by (elim disjE exE) (simp_all add: same_threads_butI)
    have "starts i (m_threads ?m) = 0" "closes i (m_threads ?m) = 0"
      using shape(4) c n by auto
    then show "view_at i (?m, h(i := None))"
      using startup_done_ok[OF v(1) last, of "m_now m" ws] v(4)
      by (cases "s_target s")
         (simp_all add: view_at_def view_ok_def shape(1,2) starting_ok_def eval_ok_def startup_done_def)
  qed (simp_all add: shape)
qed

lemma start_finished_ok:
  assumes ok: "config_ok (m, h)" and h: "h i = Some HStarting"
  shows "config_ok (finish_worker_startup i r d cr m, h(i := None))"
proof (cases r)
  case (Inl e)
  obtain s where s: "m_sessions m i = Some s" "session_ok i s" "starting_ok (starts i (m_threads m)) (h i) s"
    "eval_ok (closes i (m_threads m)) (h i) s" "m_op_locks m i \<noteq> None"
    using busy_session[OF ok, of i] h by blast
  let ?f = "startup_error_update (err_text m e) (m_now m)"
  have last: "s_last_operation s = None" "starts i (m_threads m) = 0"
    using s(3) h by (auto simp: starting_ok_def)
  have "config_ok (finish_startup_error i e d m, h(i := None))"
  proof (rule section_update[OF ok s(1), where ?m0.0 = m and f = ?f and x = None])
    show "session_ok i (?f s)"
      using s(2) last(1) by (rule startup_error_ok)
    show "starting_ok (starts i (m_threads m)) None (?f s)"
      using last by (simp add: starting_ok_def)
    show "eval_ok (closes i (m_threads m)) None (?f s)"
      using s(4) by (auto simp: eval_ok_def startup_error_update_def startup_failed_def is_terminal_def)
  qed (use finish_startup_error_shape[of i e d m] s(5) in \<open>simp_all add: same_threads_butI\<close>)
  with Inl show ?thesis by (simp add: finish_worker_startup_def)
next
  case (Inr ws)
  define m1 where "m1 = log_info ''worker_startup_finished'' i m"
  have ok1: "config_ok (m1, h)"
    unfolding m1_def using ok audit_only_log by (rule audit_only_ok)
  obtain s where s: "m_sessions m1 i = Some s"
    using busy_session[OF ok1, of i] h by blast
  have eq: "finish_worker_startup i r d cr m =
      (if is_terminal (s_state s) \<or> s_state s = Closing
       then discard_started_worker i (Some (s_state s)) cr m1 else finish_startup_ok i ws d s m1)"
    using Inr s ok1 by (simp add: finish_worker_startup_def m1_def[symmetric] Let_def config_ok_def)
  show ?thesis
  proof (cases "is_terminal (s_state s) \<or> s_state s = Closing")
    case False
    then show ?thesis
      using started_worker_ok[OF ok1 h s] by (simp add: eq)
  next
    case True
    obtain e where e: "m_sessions (discard_started_worker i (Some (s_state s)) cr m1) =
        (if s_state s = Closing then on_session i (close_finished e (m_now m1)) m1 else m_sessions m1)"
      and ctl: "same_control m1 (discard_started_worker i (Some (s_state s)) cr m1)"
      using discard_started_shape[OF s, of cr] by blast
    have v: "session_ok i s" "starting_ok (starts i (m_threads m1)) (h i) s" "m_op_locks m1 i \<noteq> None"
      using view_cases[OF ok1, of i] s h by auto
    show ?thesis
    proof (cases "s_state s = Closing")
      case False
      then have "config_ok (discard_started_worker i (Some (s_state s)) cr m1, h)"
        using e ctl by (intro same_view[OF ok1]) (simp_all add: same_control_def)
      then show ?thesis
        using release_ok[where i = i] h True by (simp add: eq)
    next
      case closing: True
      have "config_ok (discard_started_worker i (Some (s_state s)) cr m1, h(i := None))"
      proof (rule section_update[OF ok1 s, where ?m0.0 = m1 and f = "close_finished e (m_now m1)" and x = None])
        show "session_ok i (close_finished e (m_now m1) s)"
          using v(1) by (rule close_finished_ok)
        show "starting_ok (starts i (m_threads m1)) None (close_finished e (m_now m1) s)"
          using v(2) h by (auto simp: starting_ok_def)
        show "eval_ok (closes i (m_threads m1)) None (close_finished e (m_now m1) s)"
          by (simp add: eval_ok_def close_finished_state)
      qed (use e ctl closing v(3) in \<open>simp_all add: same_threads_butI\<close>)
      with True show ?thesis by (simp add: eq)
    qed
  qed
qed

section \<open>Running a command\<close>

lemma admit_ok:
  assumes ok: "config_ok (m, h)" and h: "h (er_session request) = None"
    and adm: "eval_admit request c m = (Inr (s, w), m')"
  shows "config_ok (m', h(er_session request \<mapsto> HAdmitted (s_state s)))"
proof -
  let ?i = "er_session request"
  have ok': "config_ok (m', h)"
    using ok admit_audit_only[OF adm] by (rule audit_only_ok)
  have same: "m_sessions m' = m_sessions m" "m_threads m' = m_threads m" "m_op_locks m' = m_op_locks m"
    using admit_audit_only[OF adm] by (simp_all add: audit_only_def)
  have s: "m_sessions m ?i = Some s" "m_op_locks m ?i \<noteq> None" "s_state s \<in> {Ready, Break}"
    using admit_state[OF adm] by auto
  have v: "session_ok ?i s" "starting_ok (starts ?i (m_threads m)) (h ?i) s"
    "eval_ok (closes ?i (m_threads m)) (h ?i) s"
    using view_cases[OF ok, of ?i] s by auto
  show ?thesis
  proof (rule config_update[OF ok', where i = ?i])
    show "view_at ?i (m', h(?i \<mapsto> HAdmitted (s_state s)))"
      using v s same by (auto simp: view_at_def view_ok_def starting_ok_def eval_ok_def session_ok_def)
  qed (simp_all add: same_threads_butI)
qed

text \<open>The section of the holder of the lock, in general.\<close>

lemma eval_step_ok:
  assumes ok: "config_ok (m, h)" and h: "is_eval (h i)"
    and shape: "m_sessions m' = on_session i f m" "same_control m m'"
    and f: "\<And>s. session_ok i s \<Longrightarrow> eval_ok (closes i (m_threads m)) (h i) s \<Longrightarrow> session_ok i (f s)"
    and x: "\<And>s. session_ok i s \<Longrightarrow> eval_ok (closes i (m_threads m)) (h i) s
        \<Longrightarrow> eval_ok (closes i (m_threads m)) x (f s)"
    and nx: "x \<noteq> Some HStarting"
  shows "config_ok (m', h(i := x))"
proof -
  have "h i \<noteq> None" "h i \<noteq> Some HStarting"
    using h by (cases "h i"; auto)+
  then obtain s where s: "m_sessions m i = Some s" "session_ok i s" "starting_ok (starts i (m_threads m)) (h i) s"
    "eval_ok (closes i (m_threads m)) (h i) s" "m_op_locks m i \<noteq> None"
    using busy_session[OF ok, of i] by blast
  have "starts i (m_threads m) = 0"
    using s(3) \<open>h i \<noteq> None\<close> by (simp add: starting_ok_def)
  then have "starting_ok (starts i (m_threads m)) x (f s)"
    using nx by (simp add: starting_ok_def)
  then show ?thesis
    using section_update[OF ok s(1) shape(1) refl refl refl shape(2) same_threads_butI(1) refl f[OF s(2,4)] s(5)]
      x[OF s(2,4)] by blast
qed

lemma started_ok:
  assumes ok: "config_ok (m, h)" and h: "h i = Some (HAdmitted st)"
  shows "config_ok (snd (start_operation i st (running_operation t c cmd) m), h(i \<mapsto> HExecuting))"
proof (rule eval_step_ok[OF ok])
  let ?f = "with_started st (running_operation t c cmd) (m_now m)"
  show "m_sessions (snd (start_operation i st (running_operation t c cmd) m)) = on_session i ?f m"
    and "same_control m (snd (start_operation i st (running_operation t c cmd) m))"
    using start_operation_shape[of i st "running_operation t c cmd" m] by simp_all
  show "is_eval (h i)"
    by (simp add: h)
  show "session_ok i (?f s)" if "session_ok i s" and "eval_ok (closes i (m_threads m)) (h i) s" for s
    using that h with_started_ok[of i s] by (simp add: eval_ok_def)
  show "eval_ok (closes i (m_threads m)) (Some HExecuting) (?f s)"
    if "session_ok i s" and "eval_ok (closes i (m_threads m)) (h i) s" for s
    using that(2) h by (auto simp: eval_ok_def with_started_def is_terminal_def)
qed simp

lemma event_ok:
  assumes ok: "config_ok (m, h)" and h: "h i = Some HExecuting"
  shows "config_ok (snd (apply_backend_execution_event i ev m), h)"
proof -
  let ?f = "with_event (be_state ev) (m_now m)"
  have "config_ok (snd (apply_backend_execution_event i ev m), h(i := h i))"
  proof (rule eval_step_ok[OF ok])
    show "m_sessions (snd (apply_backend_execution_event i ev m)) = on_session i ?f m"
      and "same_control m (snd (apply_backend_execution_event i ev m))"
      using apply_event_shape[of i ev m] by simp_all
    show "is_eval (h i)" "h i \<noteq> Some HStarting"
      by (simp_all add: h)
    show "session_ok i (?f s)" if "session_ok i s" and "eval_ok (closes i (m_threads m)) (h i) s" for s
      using that(1) by (rule with_event_ok)
    show "eval_ok (closes i (m_threads m)) (h i) (?f s)"
      if "session_ok i s" and "eval_ok (closes i (m_threads m)) (h i) s" for s
      using that(2) h by (cases "be_state ev") (auto simp: eval_ok_def with_event_def split: if_splits)
  qed
  then show ?thesis by simp
qed

lemma eval_ok_released: "eval_ok nc x s \<Longrightarrow> eval_ok nc None s"
  by (auto simp: eval_ok_def)

lemma failed_ok:
  assumes ok: "config_ok (m, h)" and h: "h i = Some HExecuting"
  shows "config_ok (snd (finish_operation i Error Failed a (Some e) b d m), h(i := None))"
proof (rule eval_step_ok[OF ok])
  let ?f = "with_finished Error Failed a (Some e) b d (m_now m)"
  show "m_sessions (snd (finish_operation i Error Failed a (Some e) b d m)) = on_session i ?f m"
    and "same_control m (snd (finish_operation i Error Failed a (Some e) b d m))"
    using finish_operation_shape[of i Error Failed a "Some e" b d m] by simp_all
  show "session_ok i (?f s)" if "session_ok i s" and "eval_ok (closes i (m_threads m)) (h i) s" for s
    using that(1) by (rule with_failed_ok)
  show "eval_ok (closes i (m_threads m)) None (?f s)"
    if "session_ok i s" and "eval_ok (closes i (m_threads m)) (h i) s" for s
    using that(2) h by (auto simp: eval_ok_def with_finished_def)
qed (simp_all add: h)

lemma observed_ok:
  assumes ok: "config_ok (m, h)" and h: "h i = Some HExecuting" and b: "s_state s0 = Break"
  shows "config_ok (m, h(i \<mapsto> HObserved (eval_final_state i s0 fs m)))"
proof -
  obtain s where s: "m_sessions m i = Some s" "session_ok i s" "starting_ok (starts i (m_threads m)) (h i) s"
    "eval_ok (closes i (m_threads m)) (h i) s" "m_op_locks m i \<noteq> None"
    using busy_session[OF ok, of i] h by blast
  have np: "\<not> m_sessions_poisoned m"
    using ok by (simp add: config_ok_def)
  let ?st = "eval_final_state i s0 fs m"
  have st: "?st \<in> {Break, Running, Closing, Closed, Error} \<and> (?st \<in> {Closing, Error} \<longrightarrow> ?st = s_state s)"
  proof (cases fs)
    case None
    then have "?st = s_state s"
      using np s(1) by (simp add: eval_final_state_def query_session_def)
    moreover have "s_state s \<notin> {Starting, Created, Ready}"
      using s(2,4) h by (simp add: eval_ok_def session_ok_def)
    ultimately show ?thesis
      by (cases "s_state s") auto
  next
    case (Some x)
    then show ?thesis by (cases x) (simp_all add: eval_final_state_def)
  qed
  show ?thesis
  proof (rule config_update[OF ok, where i = i])
    show "view_at i (m, h(i \<mapsto> HObserved ?st))"
      using s h st by (auto simp: view_at_def view_ok_def starting_ok_def eval_ok_def)
  qed (simp_all add: same_threads_butI)
qed

lemma finished_ok:
  assumes ok: "config_ok (m, h)" and h: "h i = Some (HObserved st)"
  shows "config_ok (snd (finish_operation i st Finished (Some a) None b d m), h(i := None))"
proof (rule eval_step_ok[OF ok])
  let ?f = "with_finished st Finished (Some a) None b d (m_now m)"
  show "m_sessions (snd (finish_operation i st Finished (Some a) None b d m)) = on_session i ?f m"
    and "same_control m (snd (finish_operation i st Finished (Some a) None b d m))"
    using finish_operation_shape[of i st Finished "Some a" None b d m] by simp_all
  show "session_ok i (?f s)" if "session_ok i s" and "eval_ok (closes i (m_threads m)) (h i) s" for s
    using that h by (intro with_finished_ok) (auto simp: eval_ok_def)
  show "eval_ok (closes i (m_threads m)) None (?f s)"
    if "session_ok i s" and "eval_ok (closes i (m_threads m)) (h i) s" for s
    using that(2) h by (auto simp: eval_ok_def with_finished_def finish_ignored_def is_terminal_def split: if_splits)
qed (simp_all add: h)

section \<open>The close and monitor threads\<close>

lemma close_thread_ok:
  assumes ok: "config_ok (m, h)" and t: "CloseThread i \<in> set (m_threads m)"
  shows "config_ok (finish_worker_close i r (drop_thread (CloseThread i) m), h)"
proof -
  obtain s where s: "m_sessions m i = Some s" "session_ok i s" "starting_ok (starts i (m_threads m)) (h i) s"
    "eval_ok (closes i (m_threads m)) (h i) s" "m_op_locks m i \<noteq> None"
    using busy_session[OF ok, of i] counts_pos(2)[OF t] by blast
  let ?m0 = "drop_thread (CloseThread i) m"
  let ?f = "close_finished (close_error ?m0 r) (m_now ?m0)"
  show ?thesis
  proof (rule section_update[OF ok s(1), where ?m0.0 = ?m0 and f = ?f and x = "h i"])
    show "same_threads_but i (m_threads m) (m_threads ?m0)"
      using same_threads_butI(3)[OF t] by simp
    show "session_ok i (?f s)"
      using s(2) by (rule close_finished_ok)
    show "starting_ok (starts i (m_threads ?m0)) (h i) (?f s)"
      using s(3) counts_remove1(1)[OF t, of i]
      by (auto simp: starting_ok_def close_finished_state close_finished_last)
    show "eval_ok (closes i (m_threads ?m0)) (h i) (?f s)"
      using s(4) counts_remove1(2)[OF t, of i] counts_pos(2)[OF t]
      by (auto simp: eval_ok_def close_finished_state split: option.splits holder.splits if_splits)
  qed (use finish_worker_close_shape[of i r ?m0] s(5) in simp_all)
qed

lemma monitor_ok:
  assumes ok: "config_ok (m, h)" and t: "MonitorThread i w \<in> set (m_threads m)"
  shows "config_ok (mark_worker_unavailable i e (drop_thread (MonitorThread i w) m), h)"
proof -
  obtain s where s: "m_sessions m i = Some s" "session_ok i s" "starting_ok (starts i (m_threads m)) (h i) s"
    "eval_ok (closes i (m_threads m)) (h i) s" "m_op_locks m i \<noteq> None"
    using busy_session[OF ok, of i] counts_pos(3)[OF t] by blast
  let ?m0 = "drop_thread (MonitorThread i w) m"
  let ?f = "unavailable e (m_now ?m0)"
  show ?thesis
  proof (rule section_update[OF ok s(1), where ?m0.0 = ?m0 and f = ?f and x = "h i"])
    show "same_threads_but i (m_threads m) (m_threads ?m0)"
      using same_threads_butI(3)[OF t] by simp
    show "session_ok i (?f s)"
      using s(2) by (rule unavailable_ok)
    show "starting_ok (starts i (m_threads ?m0)) (h i) (?f s)"
      using s(3) counts_remove1(1)[OF t, of i]
      by (auto simp: starting_ok_def unavailable_def finalize_canceled_operation_def)
    show "eval_ok (closes i (m_threads ?m0)) (h i) (?f s)"
      using s(4) counts_remove1(2)[OF t, of i]
      by (auto simp: eval_ok_def unavailable_def split: option.splits holder.splits if_splits)
  qed (use mark_worker_unavailable_shape[of i e ?m0] s(5) in simp_all)
qed

section \<open>All steps\<close>

lemma session_step_ok:
  assumes "session_step c c'" and "config_ok c"
  shows "config_ok c'"
  using assms
proof (cases rule: session_step.cases)
  case outside
  with assms(2) show ?thesis by (metis outside_ok)
next
  case create
  with assms(2) show ?thesis by (metis create_ok)
next
  case publish
  with assms(2) show ?thesis by (metis publish_ok)
next
  case (close i m p hw s x m' h)
  with assms(2) show ?thesis using close_ok[of m h i p hw s x m'] by (simp split del: if_split)
next
  case start_lock
  with assms(2) show ?thesis by (metis start_lock_ok)
next
  case start_unlocked
  with assms(2) show ?thesis by (metis start_unlocked_ok)
next
  case (start_canceled h i m)
  with assms(2) show ?thesis using start_canceled_ok by blast
next
  case start_finished
  with assms(2) show ?thesis by (metis start_finished_ok)
next
  case admit
  with assms(2) show ?thesis by (metis admit_ok)
next
  case started
  with assms(2) show ?thesis by (metis started_ok)
next
  case event
  with assms(2) show ?thesis by (metis event_ok)
next
  case failed
  with assms(2) show ?thesis by (metis failed_ok)
next
  case observed
  with assms(2) show ?thesis by (metis observed_ok)
next
  case finished
  with assms(2) show ?thesis by (metis finished_ok)
next
  case close_thread
  with assms(2) show ?thesis by (metis close_thread_ok)
next
  case monitor
  with assms(2) show ?thesis by (metis monitor_ok)
qed

lemma reachable_ok: "reachable c \<Longrightarrow> config_ok c"
  by (induction rule: reachable.induct) (auto intro: initial_config_ok session_step_ok)

end
