(* ===== verification/Session_Properties.thy ===== *)
theory Session_Properties
  imports Session_Invariant
begin

text \<open>
  What the session manager promises: the states a session can be in and move between under every
  interleaving, one live session per target, and the admission of commands.
\<close>

section \<open>Reachable sessions\<close>

text \<open>A server with an empty store in which nothing has happened yet.\<close>

definition demo_manager :: "nat manager" where
  "demo_manager = \<lparr>m_sessions = (\<lambda>_. None), m_sessions_poisoned = False, m_op_locks = (\<lambda>_. None),
     m_op_locks_poisoned = False, m_workers = wr_default,
     m_artifacts = \<lparr>am_root = [''artifacts''], am_show_id = (\<lambda>i. replicate (unat i) CHR ''x''),
        am_poisoned = False, fs_dirs = (\<lambda>_. False), fs_files = (\<lambda>_. None), fs_error = (\<lambda>_. None)\<rparr>,
     m_subscribers = [], m_subscribers_poisoned = False, m_now = 1000, m_show_target = (\<lambda>_. []),
     m_logs = [], m_calls = [], m_threads = []\<rparr>"

definition demo_created :: "nat manager" where
  "demo_created = snd (create_admit [] 1 (Attach 5) demo_manager)"

text \<open>On a disk without errors every artifact operation succeeds.\<close>

definition store_quiet :: "'l artifact_manager \<Rightarrow> bool" where
  "store_quiet a \<longleftrightarrow> \<not> am_poisoned a \<and> fs_error a = (\<lambda>_. None)"

lemma quiet_create: "store_quiet a \<Longrightarrow> \<exists>a'. create_dir_all p a = (Inr (), a') \<and> store_quiet a'"
  by (simp add: create_dir_all_def store_quiet_def)

lemma quiet_append: "store_quiet a \<Longrightarrow> \<exists>a'. append_pieces p ls a = (Inr (), a') \<and> store_quiet a'"
  by (simp add: append_pieces_def store_quiet_def)

lemma quiet_steps:
  assumes "\<And>f a. f \<in> set fs \<Longrightarrow> store_quiet a \<Longrightarrow> \<exists>a'. f a = (Inr (), a') \<and> store_quiet a'" and "store_quiet a"
  shows "\<exists>a'. steps fs a = (Inr (), a') \<and> store_quiet a'"
  using assms
proof (induction fs arbitrary: a)
  case (Cons f fs)
  then obtain a1 where "f a = (Inr (), a1)" "store_quiet a1" by fastforce
  with Cons show ?case by simp
qed simp

lemma quiet_append_below:
  assumes "store_quiet a"
  shows "\<exists>a'. append_below d file l a = (Inr (), a') \<and> store_quiet a'"
proof -
  have "\<exists>a'. steps [create_dir_all (d a), append_pieces (d a @ [file]) [l]] a = (Inr (), a') \<and> store_quiet a'"
    by (rule quiet_steps[OF _ assms]) (auto intro: quiet_create quiet_append)
  with assms show ?thesis
    by (simp add: append_below_def locked_def Let_def store_quiet_def del: steps.simps)
qed

lemma quiet_initialize:
  assumes "store_quiet a"
  shows "\<exists>p a'. initialize_session_artifacts i a = (Inr p, a') \<and> store_quiet a'"
proof -
  let ?d = "session_dir a i"
  have "\<exists>a'. steps [create_dir_all ?d, create_dir_all (?d @ [''outputs'']), touch (?d @ [''transcript.log'']),
         touch (?d @ [''events.jsonl'']), touch (?d @ [''commands.jsonl''])] a = (Inr (), a') \<and> store_quiet a'"
    by (rule quiet_steps[OF _ assms]) (auto simp: touch_def intro: quiet_create quiet_append)
  with assms show ?thesis
    by (auto simp: initialize_session_artifacts_def locked_def returning_def Let_def store_quiet_def)
qed

lemma quiet_audit:
  assumes "store_quiet (m_artifacts m)"
  shows "fst (initialize_session_audit s m) = Inr ()"
proof -
  obtain p a1 where 1: "initialize_session_artifacts (s_id s) (m_artifacts m) = (Inr p, a1)" "store_quiet a1"
    using quiet_initialize[OF assms] by blast
  have 2: "\<exists>a2. append_event (s_id s) l a1 = (Inr (), a2) \<and> store_quiet a2" for l
    unfolding append_event_def by (rule quiet_append_below) fact
  have 3: "\<exists>a3. append_transcript (s_id s) l a2 = (Inr (), a3) \<and> store_quiet a3" if "store_quiet a2" for l a2
    unfolding append_transcript_def by (rule quiet_append_below) fact
  define event where "event = event_at m ''session_created'' s None (Some (lit ''create_session'')) None None None
                    [(''target'', JTarget (s_target s))]"
  define line1 where "line1 = stamped m (lit (''session created state='' @ state_name (s_state s)
                  @ '' backend='' @ s_backend s @ '' target='') @ m_show_target m (s_target s))"
  obtain a2 where a2: "append_event (s_id s) (EventLine event) a1 = (Inr (), a2)" "store_quiet a2"
    using 2 by blast
  obtain a3 where a3: "append_transcript (s_id s) (TextLine line1) a2 = (Inr (), a3)"
    using 3[OF a2(2)] by blast
  show ?thesis
    unfolding initialize_session_audit_def Let_def event_def[symmetric] line1_def[symmetric]
    by (simp only: 1 a2 a3 sum.case prod.case fst_conv)
qed

lemma demo_audit: "fst (initialize_session_audit s demo_manager) = Inr ()"
  by (rule quiet_audit) (simp add: demo_manager_def store_quiet_def)

lemma demo_created_session:
  "m_sessions demo_created 1 = Some (new_session 1 (Attach 5) 1000)" "m_sessions demo_created 2 = None"
  "create_admit [] 1 (Attach 5) demo_manager = (Inr (new_session 1 (Attach 5) 1000, True), demo_created)"
proof -
  have now: "m_now demo_manager = 1000" "m_sessions_poisoned demo_manager = False"
    "m_sessions demo_manager = (\<lambda>_. None)"
    by (simp_all add: demo_manager_def)
  obtain m1 where a: "initialize_session_audit (new_session 1 (Attach 5) 1000) demo_manager = (Inr (), m1)"
    using demo_audit[of "new_session 1 (Attach 5) 1000"] by (metis prod.collapse)
  then have m1: "m_sessions m1 = (\<lambda>_. None)"
    using audit_only_initialize[of demo_manager "new_session 1 (Attach 5) 1000"] now by (simp add: audit_only_def)
  have eq: "create_admit [] 1 (Attach 5) demo_manager =
      (Inr (new_session 1 (Attach 5) 1000, True), put_session (new_session 1 (Attach 5) 1000) m1)"
    using a now by (simp add: create_admit_def reusable_session_def Let_def)
  then show "create_admit [] 1 (Attach 5) demo_manager = (Inr (new_session 1 (Attach 5) 1000, True), demo_created)"
    and "m_sessions demo_created 1 = Some (new_session 1 (Attach 5) 1000)" "m_sessions demo_created 2 = None"
    using m1 by (simp_all add: demo_created_def put_session_def new_session_def)
qed

lemma demo_initial: "reachable (demo_manager, \<lambda>_. None)"
  by (rule reachable.start) (simp add: initial_config_def demo_manager_def)

lemma demo_step: "session_step (demo_manager, \<lambda>_. None) (demo_created, \<lambda>_. None)"
  using demo_created_session(3) by (rule session_step.create[rotated]) (simp add: demo_manager_def)

lemma demo_reachable: "reachable (demo_created, \<lambda>_. None)"
  using demo_initial demo_step by (rule reachable.step)

text \<open>
  C1. In every reachable configuration of the server, whatever the threads did and however their
  sections interleaved: a session is stored under its own id and never in the states Created or
  Ready; a closing session runs no operation; a failed session runs none either and carries its
  error; the last operation has an end time and a duration exactly when it is over, counts as
  running only while it is the session's current operation, and as cancel-requested only while the
  session closes.
\<close>

theorem reachable_sessions_consistent:
  assumes "reachable c" and "m_sessions (fst c) i = Some s"
  shows "s_id s = i \<and> s_state s \<in> {Starting, Break, Running, Closing, Closed, Error}
    \<and> (s_state s = Closing \<longrightarrow> s_current_operation s = None)
    \<and> (s_state s = Error \<longrightarrow> s_current_operation s = None \<and> s_error s \<noteq> None)
    \<and> (case s_last_operation s of
         None \<Rightarrow> True
       | Some op \<Rightarrow>
           (op_finished_at op = None) = (op_status op \<in> {OpRunning, CancelRequested})
           \<and> (op_duration_ms op = None) = (op_status op \<in> {OpRunning, CancelRequested})
           \<and> (op_status op = OpRunning \<longrightarrow> s_current_operation s = Some (op_command op))
           \<and> (op_status op = CancelRequested \<longrightarrow> s_state s = Closing))"
proof -
  have "session_ok i s"
    using reachable_ok[OF assms(1)] assms(2) by (auto simp: config_ok_def view_ok_def dest: spec[of _ i])
  moreover have "s_state s \<in> {Starting, Break, Running, Closing, Closed, Error}" if "s_state s \<notin> {Created, Ready}"
    using that by (cases "s_state s") auto
  ultimately show ?thesis
    by (auto simp: ok_defs is_active_def split: option.splits)
qed

lemma reachable_sessions_consistent_witness:
  "s_id (new_session 1 (Attach 5) 1000) = 1
    \<and> s_state (new_session 1 (Attach 5) 1000) \<in> {Starting, Break, Running, Closing, Closed, Error}"
  using reachable_sessions_consistent[OF demo_reachable, of 1] demo_created_session(1) by simp

section \<open>Transitions\<close>

text \<open>Where a session in a state can be after one section of any thread. Created and Ready do not occur.\<close>

definition state_edge :: "session_state \<Rightarrow> session_state \<Rightarrow> bool" where
  "state_edge s s' =
     (case s of
        Starting \<Rightarrow> s' \<in> {Starting, Break, Closing, Error}
      | Break \<Rightarrow> s' \<in> {Break, Running, Closing, Closed, Error}
      | Running \<Rightarrow> s' \<in> {Running, Break, Closing, Closed, Error}
      | Closing \<Rightarrow> s' \<in> {Closing, Closed, Error}
      | Closed \<Rightarrow> s' \<in> {Closed, Break, Running, Error}
      | Error \<Rightarrow> s' \<in> {Error, Closing, Closed}
      | _ \<Rightarrow> False)"

text \<open>Every section leaves the sessions alone or updates one of them.\<close>

definition edge_update :: "(session_id \<Rightarrow> session option) \<Rightarrow> (session_id \<Rightarrow> session option) \<Rightarrow> bool" where
  "edge_update ss ss' \<longleftrightarrow>
     (\<forall>i s. ss i = Some s \<longrightarrow> (\<exists>s'. ss' i = Some s' \<and> state_edge (s_state s) (s_state s')))"

lemma state_edge_refl: "s \<notin> {Created, Ready} \<Longrightarrow> state_edge s s"
  by (cases s) (simp_all add: state_edge_def)

lemma config_states:
  "config_ok (m, h) \<Longrightarrow> m_sessions m i = Some s \<Longrightarrow> s_state s \<notin> {Created, Ready}"
  by (auto simp: config_ok_def view_ok_def session_ok_def dest: spec[of _ i])

lemma edge_same: "config_ok (m, h) \<Longrightarrow> m_sessions m' = m_sessions m \<Longrightarrow> edge_update (m_sessions m) (m_sessions m')"
  by (auto simp: edge_update_def intro: state_edge_refl dest: config_states)

lemma edge_on_session:
  assumes "config_ok (m, h)" and "m_sessions m' = on_session i f m0" and "m_sessions m0 = m_sessions m"
    and "\<And>s. m_sessions m i = Some s \<Longrightarrow> state_edge (s_state s) (s_state (f s))"
  shows "edge_update (m_sessions m) (m_sessions m')"
  using assms(2-4) config_states[OF assms(1)]
  by (auto simp: edge_update_def on_session_def intro: state_edge_refl split: option.split)

lemma edge_upd:
  assumes "config_ok (m, h)" and "m_sessions m' = (m_sessions m)(i \<mapsto> s')"
    and "\<And>s. m_sessions m i = Some s \<Longrightarrow> state_edge (s_state s) (s_state s')"
  shows "edge_update (m_sessions m) (m_sessions m')"
  using assms(2,3) config_states[OF assms(1)]
  by (auto simp: edge_update_def intro: state_edge_refl)

lemma session_view:
  assumes "config_ok (m, h)" and "m_sessions m i = Some s"
  shows "session_ok i s" and "starting_ok (starts i (m_threads m)) (h i) s"
    and "eval_ok (closes i (m_threads m)) (h i) s"
  using view_cases[OF assms(1), of i] assms(2) by auto

lemma edge_close_finished:
  assumes "s_state s \<notin> {Created, Ready, Starting}"
  shows "state_edge (s_state s) (s_state (close_finished e now s))"
  using assms by (cases "s_state s") (auto simp: close_finished_state state_edge_def)

lemma edge_startup_error:
  assumes "s_state s \<notin> {Created, Ready}"
  shows "state_edge (s_state s) (s_state (startup_error_update e now s))"
  using assms
  by (cases "s_state s") (auto simp: startup_error_update_def startup_failed_def is_terminal_def state_edge_def)

lemma edge_closed_for:
  assumes "session_ok i s"
  shows "state_edge (s_state s) (s_state (closed_for hw now s))"
  using assms by (cases "s_state s") (auto simp: closed_for_def state_edge_def session_ok_def)

lemma edge_with_event:
  assumes "session_ok i s" and "s_state s \<noteq> Starting"
  shows "state_edge (s_state s) (s_state (with_event b now s))"
  using assms
  by (cases "s_state s"; cases b) (auto simp: with_event_def state_edge_def session_ok_def)

lemma edge_with_started:
  assumes "session_ok i s" and "s_state s \<noteq> Starting"
  shows "state_edge (s_state s) (s_state (with_started Break op now s))"
  using assms by (cases "s_state s") (auto simp: with_started_def is_terminal_def state_edge_def session_ok_def)

lemma edge_with_finished:
  assumes "session_ok i s" and "s_state s \<noteq> Starting" and "st \<in> {Break, Running, Closing, Closed, Error}"
  shows "state_edge (s_state s) (s_state (with_finished st status a e b d now s))"
  using assms
  by (cases "s_state s")
     (auto simp: with_finished_def finish_ignored_def is_terminal_def state_edge_def session_ok_def)

lemma edge_unavailable:
  assumes "session_ok i s"
  shows "state_edge (s_state s) (s_state (unavailable e now s))"
  using assms
  by (cases "s_state s") (auto simp: unavailable_def is_terminal_def state_edge_def session_ok_def)

lemma edge_startup_finished:
  assumes ok: "config_ok (m, h)" and h: "h i = Some HStarting"
  shows "edge_update (m_sessions m) (m_sessions (finish_worker_startup i r d cr m))"
proof (cases r)
  case (Inl e)
  then have "finish_worker_startup i r d cr m = finish_startup_error i e d m"
    by (simp add: finish_worker_startup_def)
  then show ?thesis
    using edge_on_session[OF ok _ refl] finish_startup_error_shape[of i e d m] edge_startup_error
      config_states[OF ok] by metis
next
  case (Inr ws)
  define m1 where "m1 = log_info ''worker_startup_finished'' i m"
  have ok1: "config_ok (m1, h)" and same: "m_sessions m1 = m_sessions m"
    unfolding m1_def using audit_only_ok[OF ok audit_only_log] by (auto simp: log_event_of_def)
  obtain s where s: "m_sessions m1 i = Some s"
    using busy_session[OF ok1, of i] h by blast
  have st: "s_state s \<in> {Starting, Closing, Closed, Error}"
    using session_view(2)[OF ok1 s] h by (simp add: starting_ok_def)
  have eq: "finish_worker_startup i r d cr m =
      (if is_terminal (s_state s) \<or> s_state s = Closing
       then discard_started_worker i (Some (s_state s)) cr m1 else finish_startup_ok i ws d s m1)"
    using Inr s ok1 by (simp add: finish_worker_startup_def m1_def[symmetric] Let_def config_ok_def)
  show ?thesis
  proof (cases "is_terminal (s_state s) \<or> s_state s = Closing")
    case True
    obtain e where e: "m_sessions (discard_started_worker i (Some (s_state s)) cr m1) =
        (if s_state s = Closing then on_session i (close_finished e (m_now m1)) m1 else m_sessions m1)"
      using discard_started_shape[OF s, of cr] by blast
    show ?thesis
    proof (cases "s_state s = Closing")
      case True
      have "edge_update (m_sessions m1) (m_sessions (discard_started_worker i (Some (s_state s)) cr m1))"
      proof (rule edge_on_session[OF ok1 _ refl])
        show "m_sessions (discard_started_worker i (Some (s_state s)) cr m1) = on_session i (close_finished e (m_now m1)) m1"
          using e True by simp
      next
        fix s' assume "m_sessions m1 i = Some s'"
        then have "s' = s" using s by simp
        then show "state_edge (s_state s') (s_state (close_finished e (m_now m1) s'))"
          using True by (intro edge_close_finished) simp
      qed
      with True show ?thesis by (simp add: eq same)
    next
      case False
      then show ?thesis
        using e True edge_same[OF ok1, of "finish_worker_startup i r d cr m"] by (simp add: eq same)
    qed
  next
    case False
    then have "s_state s = Starting"
      using st by (auto simp: is_terminal_def)
    then have "edge_update (m_sessions m1) (m_sessions (finish_startup_ok i ws d s m1))"
      using finish_startup_ok_shape[of i ws d s m1] s
      by (intro edge_upd[OF ok1]) (cases "s_target s"; auto simp: startup_done_def state_edge_def)+
    with False show ?thesis by (simp add: eq same)
  qed
qed

lemma edge_step:
  assumes "session_step c c'" and "config_ok c"
  shows "edge_update (m_sessions (fst c)) (m_sessions (fst c'))"
  using assms(1)
proof (cases rule: session_step.cases)
  case (outside m m' h)
  then show ?thesis using edge_same assms(2) by (auto simp: outside_step_def)
next
  case (create m fresh order target r m' h)
  have ok: "config_ok (m, h)" using create assms(2) by simp
  have "m_sessions m' = m_sessions m \<or> (\<exists>s. m_sessions m' = (m_sessions m)(fresh \<mapsto> s))"
    using create(4) audit_only_initialize[of m]
    by (auto simp: create_admit_def Let_def log_event_of_def put_session_def new_session_def audit_only_def
        split: if_splits option.splits sum.splits prod.splits) (metis snd_conv)+
  then have "edge_update (m_sessions m) (m_sessions m')"
  proof
    assume "\<exists>s. m_sessions m' = (m_sessions m)(fresh \<mapsto> s)"
    then obtain s where "m_sessions m' = (m_sessions m)(fresh \<mapsto> s)" ..
    then show ?thesis by (rule edge_upd[OF ok]) (simp add: create(3))
  qed (rule edge_same[OF ok])
  with create show ?thesis by simp
next
  case (publish m s timeout r m' h)
  then have "m_sessions m' = m_sessions m"
    by (auto simp: create_publish_def Let_def log_event_of_def spawn_thread_def notify_session_updated_def
        split: if_splits)
  with publish show ?thesis using edge_same assms(2) by auto
next
  case (close i m p hw s x m' h)
  have ok: "config_ok (m, h)" using close assms(2) by simp
  have "edge_update (m_sessions m) (m_sessions m')"
    using close_section_shape[of i hw m] close(4) session_view(1)[OF ok]
    by (intro edge_on_session[OF ok, where f = "closed_for hw (m_now m)" and i = i, OF _ refl])
       (auto intro: edge_closed_for)
  with close show ?thesis by (simp add: spawn_thread_def)
next
  case (start_lock i t m h)
  then show ?thesis using edge_same[of m h "drop_thread (StartupThread i t) m"] assms(2) by simp
next
  case (start_unlocked i t m h e d)
  have ok: "config_ok (m, h)" using start_unlocked assms(2) by simp
  let ?m0 = "drop_thread (StartupThread i t) m"
  have "edge_update (m_sessions m) (m_sessions (finish_startup_error i e d ?m0))"
    using finish_startup_error_shape[of i e d ?m0] config_states[OF ok]
    by (intro edge_on_session[OF ok, where i = i and f = "startup_error_update (err_text ?m0 e) (m_now ?m0)" and ?m0.0 = ?m0])
       (simp_all add: edge_startup_error)
  with start_unlocked show ?thesis by simp
next
  case (start_canceled h i m)
  have ok: "config_ok (m, h)" using start_canceled assms(2) by simp
  have "s_state s \<notin> {Created, Ready, Starting}" if "m_sessions m i = Some s" for s
    using start_canceled(4) that config_states[OF ok that]
    by (auto simp: session_is_closing_or_terminal_def is_terminal_def split: if_splits)
  then have "edge_update (m_sessions m) (m_sessions (finish_worker_close i (Inr ()) m))"
    using finish_worker_close_shape[of i "Inr ()" m] edge_close_finished
    by (intro edge_on_session[OF ok, where i = i and f = "close_finished (close_error m (Inr ())) (m_now m)", OF _ refl])
       simp_all
  with start_canceled show ?thesis by simp
next
  case (start_finished h i m r d close_result)
  then show ?thesis using edge_startup_finished assms(2) by auto
next
  case (admit h request command_id m s w m')
  then have "m_sessions m' = m_sessions m"
    using admit_audit_only by (metis audit_only_def)
  with admit show ?thesis using edge_same assms(2) by auto
next
  case (started h i st m now command_id command)
  have ok: "config_ok (m, h)" using started assms(2) by simp
  let ?op = "running_operation now command_id command"
  have "edge_update (m_sessions m) (m_sessions (snd (start_operation i st ?op m)))"
  proof (rule edge_on_session[OF ok _ refl])
    show "m_sessions (snd (start_operation i st ?op m)) = on_session i (with_started st ?op (m_now m)) m"
      using start_operation_shape by blast
    show "state_edge (s_state s) (s_state (with_started st ?op (m_now m) s))" if "m_sessions m i = Some s" for s
      using session_view(1,3)[OF ok that] started(3) edge_with_started[of i s] by (simp add: eval_ok_def)
  qed
  with started show ?thesis by simp
next
  case (event h i m ev)
  have ok: "config_ok (m, h)" using event assms(2) by simp
  have "edge_update (m_sessions m) (m_sessions (snd (apply_backend_execution_event i ev m)))"
  proof (rule edge_on_session[OF ok _ refl])
    show "m_sessions (snd (apply_backend_execution_event i ev m)) = on_session i (with_event (be_state ev) (m_now m)) m"
      using apply_event_shape by blast
    show "state_edge (s_state s) (s_state (with_event (be_state ev) (m_now m) s))" if "m_sessions m i = Some s" for s
      using session_view(1,3)[OF ok that] event(3) edge_with_event[of i s] by (simp add: eval_ok_def)
  qed
  with event show ?thesis by simp
next
  case (failed h i m a e b d)
  have ok: "config_ok (m, h)" using failed assms(2) by simp
  have "edge_update (m_sessions m) (m_sessions (snd (finish_operation i Error Failed a (Some e) b d m)))"
  proof (rule edge_on_session[OF ok _ refl])
    show "m_sessions (snd (finish_operation i Error Failed a (Some e) b d m)) =
        on_session i (with_finished Error Failed a (Some e) b d (m_now m)) m"
      using finish_operation_shape by blast
    show "state_edge (s_state s) (s_state (with_finished Error Failed a (Some e) b d (m_now m) s))"
      if "m_sessions m i = Some s" for s
      using session_view(1,3)[OF ok that] failed(3) edge_with_finished[of i s Error] by (simp add: eval_ok_def)
  qed
  with failed show ?thesis by simp
next
  case (observed h i s m final_state)
  then show ?thesis using edge_same[of m h m] assms(2) by simp
next
  case (finished h i st m a b d)
  have ok: "config_ok (m, h)" using finished assms(2) by simp
  have "edge_update (m_sessions m) (m_sessions (snd (finish_operation i st Finished (Some a) None b d m)))"
  proof (rule edge_on_session[OF ok _ refl])
    show "m_sessions (snd (finish_operation i st Finished (Some a) None b d m)) =
        on_session i (with_finished st Finished (Some a) None b d (m_now m)) m"
      using finish_operation_shape by blast
    show "state_edge (s_state s) (s_state (with_finished st Finished (Some a) None b d (m_now m) s))"
      if "m_sessions m i = Some s" for s
      using session_view(1,3)[OF ok that] finished(3) by (intro edge_with_finished[of i s st]) (auto simp: eval_ok_def)
  qed
  with finished show ?thesis by simp
next
  case (close_thread i m h r)
  have ok: "config_ok (m, h)" using close_thread assms(2) by simp
  let ?m0 = "drop_thread (CloseThread i) m"
  have "s_state s \<notin> {Created, Ready, Starting}" if "m_sessions m i = Some s" for s
    using session_view(3)[OF ok that] counts_pos(2)[OF close_thread(3)] by (auto simp: eval_ok_def)
  then have "edge_update (m_sessions m) (m_sessions (finish_worker_close i r ?m0))"
    using finish_worker_close_shape[of i r ?m0] edge_close_finished
    by (intro edge_on_session[OF ok, where i = i and f = "close_finished (close_error ?m0 r) (m_now ?m0)" and ?m0.0 = ?m0])
       simp_all
  with close_thread show ?thesis by simp
next
  case (monitor i w m h e)
  have ok: "config_ok (m, h)" using monitor assms(2) by simp
  let ?m0 = "drop_thread (MonitorThread i w) m"
  have "edge_update (m_sessions m) (m_sessions (mark_worker_unavailable i e ?m0))"
    using mark_worker_unavailable_shape[of i e ?m0] session_view(1)[OF ok]
    by (intro edge_on_session[OF ok, where i = i and f = "unavailable e (m_now ?m0)" and ?m0.0 = ?m0])
       (auto intro: edge_unavailable)
  with monitor show ?thesis by simp
qed

text \<open>
  C2. The state machine of a session under every interleaving: a session is never lost, and its
  state only moves along the edges of the table. In particular a session that is closing never
  becomes usable again before it is closed or failed, no late result of a command or of the start-up
  revives it, and a failed session can only be closed.
\<close>

theorem session_transitions:
  assumes "reachable c" and "session_step c c'" and "m_sessions (fst c) i = Some s"
  shows "\<exists>s'. m_sessions (fst c') i = Some s' \<and> state_edge (s_state s) (s_state s')"
  using edge_step[OF assms(2) reachable_ok[OF assms(1)]] assms(3) by (auto simp: edge_update_def)

lemma session_transitions_witness:
  "\<exists>s'. m_sessions (snd (create_admit [] 2 (Attach 6) demo_created)) 1 = Some s' \<and>
     s_state s' \<in> {Starting, Break, Closing, Error}"
proof -
  have "session_step (demo_created, \<lambda>_. None) (snd (create_admit [] 2 (Attach 6) demo_created), \<lambda>_. None)"
    using demo_created_session(2) by (rule session_step.create) (rule prod.collapse[symmetric])
  from session_transitions[OF demo_reachable this, of 1] demo_created_session(1)
  show ?thesis by (simp add: new_session_def state_edge_def)
qed

end
