(* ===== verification/Session_Commands.thy ===== *)
theory Session_Commands
  imports Session_Properties
begin

text \<open>
  A whole \<open>eval\<close>, \<open>create_session\<close> and \<open>close_session\<close> with no other thread coming between: what
  the caller gets, what the session is afterwards, and what is on the disk.
\<close>

section \<open>The output file survives the audit\<close>

text \<open>Nothing written under the root of the store except into the logs of a session.\<close>

definition keeps_output :: "path \<Rightarrow> 'w manager \<Rightarrow> 'w manager \<Rightarrow> bool" where
  "keeps_output p m m' \<longleftrightarrow>
     fs_files (m_artifacts m') p = fs_files (m_artifacts m) p
     \<and> am_root (m_artifacts m') = am_root (m_artifacts m)
     \<and> am_show_id (m_artifacts m') = am_show_id (m_artifacts m)"

lemma append_below_keeps:
  assumes "p \<noteq> d a @ [file]"
  shows "fs_files (snd (append_below d file l a)) p = fs_files a p"
    and "am_root (snd (append_below d file l a)) = am_root a"
    and "am_show_id (snd (append_below d file l a)) = am_show_id a"
  using assms by (simp_all add: append_below_cases Let_def split: option.split)

lemma output_not_log: "command_output_path a i c \<noteq> session_dir a j @ [file]"
  by (simp add: command_output_path_def session_dir_def)

lemma keeps_output_refl [simp]: "keeps_output p m m"
  by (simp add: keeps_output_def)

lemma keeps_output_trans: "keeps_output p a b \<Longrightarrow> keeps_output p b c \<Longrightarrow> keeps_output p a c"
  by (simp add: keeps_output_def)

lemma keeps_record:
  assumes "p = command_output_path (m_artifacts m) i c"
  shows "keeps_output p m (record_session_event_best_effort j ev m)"
    and "keeps_output p m (write_command_record_best_effort j rec m)"
    and "keeps_output p m (append_transcript_best_effort j t m)"
  using append_below_keeps[of p "\<lambda>a. session_dir a j" "m_artifacts m" "''events.jsonl''" "EventLine ev"]
    append_below_keeps[of p "\<lambda>a. session_dir a j" "m_artifacts m" "''commands.jsonl''" "CommandLine rec"]
    append_below_keeps[of p "\<lambda>a. session_dir a j" "m_artifacts m" "''transcript.log''" "TextLine t"]
    output_not_log[of "m_artifacts m" i c j] assms
  by (auto simp: keeps_output_def record_session_event_best_effort_def write_command_record_best_effort_def
      append_transcript_best_effort_def append_event_def append_command_record_def append_transcript_def
      log_event_of_def split: prod.splits sum.splits)

lemma keeps_plain [simp]:
  "keeps_output p m (log_event_of l e k t m') = keeps_output p m m'"
  "keeps_output p m (notify_session_updated j m') = keeps_output p m m'"
  "keeps_output p m (set_session j s m') = keeps_output p m m'"
  by (simp_all add: keeps_output_def log_event_of_def notify_session_updated_def set_session_def)

lemma output_path_kept:
  "keeps_output p m m' \<Longrightarrow> command_output_path (m_artifacts m') i c = command_output_path (m_artifacts m) i c"
  by (simp add: keeps_output_def command_output_path_def session_dir_def)

text \<open>The three best-effort writers on top of a manager that kept the output.\<close>

lemma keeps_audit:
  assumes "p = command_output_path (m_artifacts m) i c" and "keeps_output p m m'"
  shows "keeps_output p m (record_session_event_best_effort j ev m')"
    and "keeps_output p m (write_command_record_best_effort j rec m')"
    and "keeps_output p m (append_transcript_best_effort j t m')"
proof -
  have p: "p = command_output_path (m_artifacts m') i c"
    using assms output_path_kept[OF assms(2), of i c] by simp
  show "keeps_output p m (record_session_event_best_effort j ev m')"
    and "keeps_output p m (write_command_record_best_effort j rec m')"
    and "keeps_output p m (append_transcript_best_effort j t m')"
    using keeps_output_trans[OF assms(2) keeps_record(1)[OF p]] keeps_output_trans[OF assms(2) keeps_record(2)[OF p]]
      keeps_output_trans[OF assms(2) keeps_record(3)[OF p]] by auto
qed

lemma keeps_finish:
  assumes "p = command_output_path (m_artifacts m) i c"
  shows "keeps_output p m (snd (finish_operation j st status a e b d m))"
  unfolding finish_operation_def audit_finished_operation_def Let_def
  by (auto intro!: keeps_audit[OF assms] split: option.split)

section \<open>The steps of a command\<close>

lemma on_session_Some:
  "\<not> m_sessions_poisoned m \<Longrightarrow> m_sessions m i = Some s \<Longrightarrow> on_session i f m = (m_sessions m)(i \<mapsto> f s)"
  by (simp add: on_session_def)

lemma eval_admit_ok:
  assumes "eval_admit request command_id m = (Inr (s, w), m1)"
  shows "m1 = m" "m_sessions m (er_session request) = Some s" "\<not> m_sessions_poisoned m"
    "s_state s \<in> {Ready, Break}" "wr_get (er_session request) (m_workers m) = Some w"
  using assms
  by (auto simp: eval_admit_def query_session_def Let_def
      split: if_splits sum.splits bool.splits option.splits prod.splits)

lemma sink_event_shape:
  assumes "\<not> m_sessions_poisoned m" "m_sessions m i = Some s"
  shows "m_sessions (sink_event i ev m) = (m_sessions m)(i \<mapsto> with_event (be_state ev) (m_now m) s)
    \<and> same_control m (sink_event i ev m)"
proof -
  have "fst (apply_backend_execution_event i ev m) = Inr ()"
    using assms by (simp add: apply_backend_execution_event_def Let_def)
  then have "sink_event i ev m = snd (apply_backend_execution_event i ev m)"
    by (cases "apply_backend_execution_event i ev m") (simp add: sink_event_def)
  with apply_event_shape[of i ev m] assms show ?thesis
    by (simp add: on_session_Some)
qed

lemma sink_events_shape:
  assumes "\<not> m_sessions_poisoned m" "m_sessions m i = Some s"
  shows "m_sessions (fold (sink_event i) events m) =
      (m_sessions m)(i \<mapsto> fold (\<lambda>ev. with_event (be_state ev) (m_now m)) events s)
    \<and> same_control m (fold (sink_event i) events m)"
  using assms
proof (induction events arbitrary: m s)
  case Nil
  then show ?case by (simp add: fun_upd_idem)
next
  case (Cons ev events)
  let ?m = "sink_event i ev m"
  have m: "m_sessions ?m = (m_sessions m)(i \<mapsto> with_event (be_state ev) (m_now m) s)" "same_control m ?m"
    using sink_event_shape[OF Cons.prems] by auto
  have now: "m_now ?m = m_now m" and un: "\<not> m_sessions_poisoned ?m"
    using m(2) Cons.prems(1) by (auto simp: same_control_def)
  show ?case
    using Cons.IH[OF un, of "with_event (be_state ev) (m_now m) s"] m now
    by (auto intro: same_control_trans)
qed

text \<open>The state the events of a running command leave the session in.\<close>

definition state_after_events :: "backend_execution_event list \<Rightarrow> session_state \<Rightarrow> session_state" where
  "state_after_events events st =
     (if events = [] then st else session_state_for_backend_execution_state (be_state (last events)))"

lemma with_event_fields:
  assumes "s_state s \<notin> {Closing, Error}"
  shows "s_state (with_event b now s) = session_state_for_backend_execution_state b"
    "s_current_operation (with_event b now s) = s_current_operation s"
    "s_last_operation (with_event b now s) = s_last_operation s"
    "s_id (with_event b now s) = s_id s" "s_target (with_event b now s) = s_target s"
  using assms by (simp_all add: with_event_def Let_def)

lemma backend_state_not: "session_state_for_backend_execution_state b \<notin> {Closing, Error}"
  by (cases b) simp_all

lemma events_fields:
  assumes "s_state s \<notin> {Closing, Error}"
  shows "s_state (fold (\<lambda>ev. with_event (be_state ev) now) events s) = state_after_events events (s_state s)
    \<and> s_current_operation (fold (\<lambda>ev. with_event (be_state ev) now) events s) = s_current_operation s
    \<and> s_last_operation (fold (\<lambda>ev. with_event (be_state ev) now) events s) = s_last_operation s
    \<and> s_id (fold (\<lambda>ev. with_event (be_state ev) now) events s) = s_id s
    \<and> s_target (fold (\<lambda>ev. with_event (be_state ev) now) events s) = s_target s"
  using assms
proof (induction events arbitrary: s)
  case Nil
  then show ?case by (simp add: state_after_events_def)
next
  case (Cons ev events)
  show ?case
    using Cons.IH[of "with_event (be_state ev) now s"] with_event_fields[OF Cons.prems, of "be_state ev" now]
      backend_state_not[of "be_state ev"]
    by (auto simp: state_after_events_def)
qed

lemma eval_start_shape:
  assumes "\<not> m_sessions_poisoned m" "m_sessions m (er_session request) = Some s" "s_state s \<in> {Ready, Break}"
  shows "\<exists>m2. eval_start request command_id s m = (Inr (), m2) \<and> same_control m m2
    \<and> m_sessions m2 = (m_sessions m)(er_session request \<mapsto>
         with_started (s_state s) (running_operation (m_now m) command_id (er_command request)) (m_now m) s)"
proof -
  let ?i = "er_session request"
  let ?op = "running_operation (m_now m) command_id (er_command request)"
  let ?r = "start_operation ?i (s_state s) ?op m"
  have "fst ?r = Inr ()"
    using assms by (simp add: start_operation_def Let_def)
  then obtain m1 where r: "?r = (Inr (), m1)"
    by (cases ?r) simp
  have "m_sessions m1 = (m_sessions m)(?i \<mapsto> with_started (s_state s) ?op (m_now m) s)" "same_control m m1"
    using start_operation_shape[of ?i "s_state s" ?op m] r assms by (auto simp: on_session_Some)
  then show ?thesis
    by (auto simp: eval_start_def r manager_simps)
qed

text \<open>The session and the manager at the moment the worker answers.\<close>

lemma eval_executed:
  assumes "eval_admit request command_id m = (Inr (s, w), m1)"
  defines "i \<equiv> er_session request"
  obtains m4 s4 where
    "eval_session request command_id events outcome d m =
       (case outcome of
          ExecFailed error partial_output \<Rightarrow>
            (case eval_failed request command_id s (m_now m) d error partial_output m4 of (e, m5) \<Rightarrow> (Inl e, m5))
        | ExecOk output ws final_state \<Rightarrow>
            eval_succeeded request command_id s (m_now m) d output ws final_state m4)"
    "\<not> m_sessions_poisoned m4" "m_sessions m4 = (m_sessions m)(i \<mapsto> s4)" "m_now m4 = m_now m + d"
    "s_state s4 = state_after_events events (s_state s)" "s_id s4 = s_id s" "s_target s4 = s_target s"
    "s_current_operation s4 = Some (er_command request)"
    "s_last_operation s4 = Some (running_operation (m_now m) command_id (er_command request))"
proof -
  note adm = eval_admit_ok[OF assms(1)]
  let ?op = "running_operation (m_now m) command_id (er_command request)"
  let ?s = "with_started (s_state s) ?op (m_now m) s"
  have start: "s_state ?s = s_state s" "s_current_operation ?s = Some (er_command request)"
    "s_last_operation ?s = Some ?op" "s_id ?s = s_id s" "s_target ?s = s_target s" "s_state ?s \<notin> {Closing, Error}"
    using adm(4) by (auto simp: with_started_def is_terminal_def running_operation_def)
  obtain m2 where m2: "eval_start request command_id s m = (Inr (), m2)" "same_control m m2"
      "m_sessions m2 = (m_sessions m)(i \<mapsto> ?s)"
    using eval_start_shape[OF adm(3,2,4), of command_id] by (auto simp: i_def)
  have un: "\<not> m_sessions_poisoned m2" and s2: "m_sessions m2 i = Some ?s" and now: "m_now m2 = m_now m"
    using m2 adm(3) by (auto simp: same_control_def)
  define m3 where "m3 = fold (sink_event i) events m2"
  define s4 where "s4 = fold (\<lambda>ev. with_event (be_state ev) (m_now m)) events ?s"
  have m3: "m_sessions m3 = (m_sessions m)(i \<mapsto> s4)" "same_control m2 m3"
    using sink_events_shape[OF un s2, of events] m2(3) now by (simp_all add: m3_def s4_def)
  define m4 where "m4 = m3\<lparr>m_now := m_now m3 + d\<rparr>"
  show ?thesis
  proof (rule that[of m4 s4])
    show "eval_session request command_id events outcome d m =
       (case outcome of
          ExecFailed error partial_output \<Rightarrow>
            (case eval_failed request command_id s (m_now m) d error partial_output m4 of (e, m5) \<Rightarrow> (Inl e, m5))
        | ExecOk output ws final_state \<Rightarrow>
            eval_succeeded request command_id s (m_now m) d output ws final_state m4)"
      using assms(1) adm(1) m2(1)
      by (simp add: eval_session_def m4_def m3_def i_def Let_def cong: exec_outcome.case_cong)
    show "\<not> m_sessions_poisoned m4" "m_now m4 = m_now m + d" "m_sessions m4 = (m_sessions m)(i \<mapsto> s4)"
      using m3 un now by (auto simp: m4_def same_control_def)
  qed (use events_fields[OF start(6), of "m_now m" events] start in \<open>simp_all add: s4_def\<close>)
qed

section \<open>The outcome of a command\<close>

lemma write_output_keeps:
  "m_sessions (snd (write_output i c out m)) = m_sessions m"
  "same_control m (snd (write_output i c out m))"
  by (simp_all add: write_output_def same_control_def split: prod.split)

lemma write_eval_output_file:
  assumes "write_eval_output i c out a = (Inr ref, a')"
  shows "ar_path ref = command_output_path a i c" "fs_files a' (ar_path ref) = Some [out]"
    "am_root a' = am_root a" "am_show_id a' = am_show_id a"
  using assms
  by (auto simp: write_eval_output_def locked_def returning_def create_dir_all_def write_file_def Let_def
      split: if_splits option.splits)

lemma write_eval_output_error:
  "write_eval_output i c out a = (Inl e, a') \<Longrightarrow> \<exists>msg. e = Artifact msg"
  by (auto simp: write_eval_output_def locked_def returning_def create_dir_all_def write_file_def Let_def
      split: if_splits option.splits)

lemma finish_operation_result:
  assumes "\<not> m_sessions_poisoned m" "m_sessions m i = Some s"
  shows "\<exists>m'. finish_operation i st status a e b d m = (Inr (\<not> finish_ignored (s_state s) st status), m')"
  using assms by (simp add: finish_operation_def Let_def)

text \<open>The state of a finished command, seen from the session at the moment the worker answers.\<close>

definition reported_state :: "backend_execution_state option \<Rightarrow> session_state \<Rightarrow> session_state" where
  "reported_state final_state st =
     (case final_state of Some b \<Rightarrow> session_state_for_backend_execution_state b | None \<Rightarrow> st)"

text \<open>The tail of a successful \<open>eval\<close>: what is appended after the operation is finished.\<close>

lemma eval_succeeded_cases:
  assumes "\<not> m_sessions_poisoned m" "m_sessions m (er_session request) = Some s4"
  defines "i \<equiv> er_session request"
  shows "case write_output i c out m of
      (Inl e, m1) \<Rightarrow> \<exists>m'. eval_succeeded request c s t d out ws fs m = (Inl e, m')
         \<and> m_sessions m' = (m_sessions m)(i \<mapsto>
              with_finished Error Failed None (Some (err_text m e)) (Some (byte_len out)) d (m_now m) s4)
    | (Inr ref, m1) \<Rightarrow> \<exists>m' now_s. eval_succeeded request c s t d out ws fs m =
           (Inr \<lparr>evr_session = now_s, evr_output = out, evr_artifact = ref, evr_warnings = ws, evr_duration_ms = d\<rparr>, m')
         \<and> now_s = with_finished (reported_state fs (s_state s4)) Finished (Some ref) None
              (Some (byte_len out)) d (m_now m) s4
         \<and> m_sessions m' = (m_sessions m)(i \<mapsto> now_s)
         \<and> fs_files (m_artifacts m') (ar_path ref) = Some [TextLine out]"
proof -
  obtain r m1 where w: "write_output i c out m = (r, m1)" by force
  have m1: "m_sessions m1 = m_sessions m" "same_control m m1"
    using write_output_keeps[where i = i and c = c and out = out and m = m] w by simp_all
  then have un1: "\<not> m_sessions_poisoned m1" and s1: "m_sessions m1 i = Some s4" and now1: "m_now m1 = m_now m"
    using assms by (auto simp: same_control_def)
  show ?thesis
  proof (cases r)
    case (Inl e)
    define m2 where "m2 = log_event_of LogError ''eval_artifact_failed'' (Some i) (Some (err_text m e)) m1"
    have un2: "\<not> m_sessions_poisoned m2" and s2: "m_sessions m2 i = Some s4"
      and m2: "m_sessions m2 = m_sessions m" "m_now m2 = m_now m"
      using un1 s1 m1 now1 by (simp_all add: m2_def manager_simps)
    obtain m3 b where f: "finish_operation i Error Failed None (Some (err_text m e)) (Some (byte_len out)) d m2 = (Inr b, m3)"
      using finish_operation_result[OF un2 s2] by blast
    have "m_sessions m3 = (m_sessions m)(i \<mapsto>
        with_finished Error Failed None (Some (err_text m e)) (Some (byte_len out)) d (m_now m) s4)"
      using finish_operation_shape[of i Error Failed None "Some (err_text m e)" "Some (byte_len out)" d m2]
        f un2 s2 m2 by (simp add: on_session_Some)
    then show ?thesis
      using w Inl f by (simp add: eval_succeeded_def i_def[symmetric] m2_def[symmetric] Let_def)
  next
    case (Inr ref)
    let ?p = "ar_path ref"
    have disk: "?p = command_output_path (m_artifacts m1) i c" "fs_files (m_artifacts m1) ?p = Some [TextLine out]"
    proof -
      obtain a where "write_eval_output i c (TextLine out) (m_artifacts m) = (Inr ref, a)" "m1 = m\<lparr>m_artifacts := a\<rparr>"
        using w Inr by (auto simp: write_output_def split: prod.splits)
      with write_eval_output_file[OF this(1)]
      show "?p = command_output_path (m_artifacts m1) i c" "fs_files (m_artifacts m1) ?p = Some [TextLine out]"
        by (simp_all add: command_output_path_def session_dir_def)
    qed
    have final: "eval_final_state i s fs m1 = reported_state fs (s_state s4)"
      using un1 s1 by (simp add: eval_final_state_def reported_state_def query_session_def split: option.split)
    let ?st = "reported_state fs (s_state s4)"
    let ?s = "with_finished ?st Finished (Some ref) None (Some (byte_len out)) d (m_now m) s4"
    obtain m2 b where f: "finish_operation i ?st Finished (Some ref) None (Some (byte_len out)) d m1 = (Inr b, m2)"
      using finish_operation_result[OF un1 s1] by blast
    have m2: "m_sessions m2 = (m_sessions m)(i \<mapsto> ?s)" "same_control m1 m2"
      using finish_operation_shape[of i ?st Finished "Some ref" None "Some (byte_len out)" d m1]
        f un1 s1 m1 now1 by (simp_all add: on_session_Some)
    have k2: "keeps_output ?p m1 m2"
      using keeps_finish[OF disk(1), where j = i] f by (metis snd_conv)
    define rec where "rec = \<lparr>cr_command_id = c, cr_command = er_command request, cr_status = ''Finished'',
        cr_output_path = Some (command_output_path (m_artifacts m) i c),
        cr_started_at = t, cr_duration_ms = Some d, cr_output_bytes = Some (byte_len out),
        cr_warnings = ws, cr_error = None, cr_backend_session_id = s_backend_session_id s\<rparr>"
    define m4 where "m4 = log_info ''eval_finished'' i
        (if b then append_transcript_best_effort i
              (command_block ''output'' c (er_command request) out) (write_command_record_best_effort i rec m2)
         else m2)"
    have m4: "m_sessions m4 = m_sessions m2" "same_control m2 m4"
      by (simp_all add: m4_def manager_simps)
    have k4: "keeps_output ?p m1 m4"
      using k2 by (auto simp: m4_def intro!: keeps_audit[OF disk(1)])
    have q: "query_session i m4 = Inr ?s"
      using m4 m2 un1 by (simp add: query_session_def same_control_def)
    have "eval_succeeded request c s t d out ws fs m =
        (Inr \<lparr>evr_session = ?s, evr_output = out, evr_artifact = ref, evr_warnings = ws, evr_duration_ms = d\<rparr>, m4)"
      unfolding eval_succeeded_def i_def[symmetric] Let_def w Inr prod.case sum.case final f
      by (simp only: rec_def[symmetric] m4_def[symmetric] q sum.case)
    then show ?thesis
      using w Inr m4 m2 k4 disk by (simp add: keeps_output_def)
  qed
qed

lemma with_finished_fields:
  assumes "s_last_operation s = Some op"
  shows "if finish_ignored (s_state s) st status then with_finished st status a e b d now s = s
    else s_state (with_finished st status a e b d now s) = st
      \<and> s_current_operation (with_finished st status a e b d now s) = None
      \<and> s_error (with_finished st status a e b d now s) = e
      \<and> s_last_operation (with_finished st status a e b d now s) = Some (finished_operation now status a e b d op)"
  using assms by (simp add: with_finished_def)

lemma finish_ignored_open:
  assumes "st \<notin> {Closing, Error}"
  shows "finish_ignored st st' status \<longleftrightarrow> st = Closed \<and> \<not> (st' = Closed \<and> status = Finished)"
  using assms by (cases st) (auto simp: finish_ignored_def is_terminal_def)

lemma state_after_events_open:
  "st \<in> {Ready, Break} \<Longrightarrow> state_after_events events st \<notin> {Closing, Error}"
  using backend_state_not by (auto simp: state_after_events_def)

text \<open>
  C3. The outcome of a successful command that runs undisturbed: the caller gets the worker's output,
  the output file named in the result holds exactly that output, only this session changed, and its
  last operation is recorded as finished with that artifact, size and duration, in the state the
  backend reported. The exception is a command whose events closed the session but whose result
  reports it open again: the session stays closed and the operation stays recorded as running. A
  command that is not admitted changes no session; when the output cannot be stored the
  artifact error is returned and the session has failed, or stays closed.
\<close>

theorem eval_session_success:
  "case eval_session request command_id events (ExecOk output ws final_state) d m of
     (Inr r, m') \<Rightarrow>
       (\<exists>s. m_sessions m (er_session request) = Some s
         \<and> m_sessions m' = (m_sessions m)(er_session request \<mapsto> evr_session r)
         \<and> evr_output r = output \<and> evr_warnings r = ws \<and> evr_duration_ms r = d
         \<and> fs_files (m_artifacts m') (ar_path (evr_artifact r)) = Some [TextLine output]
         \<and> (if state_after_events events (s_state s) = Closed
               \<and> reported_state final_state (state_after_events events (s_state s)) \<noteq> Closed
            then s_state (evr_session r) = Closed
              \<and> s_last_operation (evr_session r) =
                  Some (running_operation (m_now m) command_id (er_command request))
            else s_state (evr_session r) = reported_state final_state (state_after_events events (s_state s))
              \<and> s_current_operation (evr_session r) = None
              \<and> s_last_operation (evr_session r) =
                  Some (finished_operation (m_now m + d) Finished (Some (evr_artifact r)) None
                    (Some (byte_len output)) d (running_operation (m_now m) command_id (er_command request)))))
   | (Inl e, m') \<Rightarrow>
       m_sessions m' = m_sessions m
       \<or> (\<exists>s' msg. e = Artifact msg \<and> m_sessions m' = (m_sessions m)(er_session request \<mapsto> s')
            \<and> s_state s' \<in> {Error, Closed})"
proof -
  let ?i = "er_session request"
  obtain r0 m1 where adm: "eval_admit request command_id m = (r0, m1)" by force
  show ?thesis
  proof (cases r0)
    case (Inl e)
    then have "eval_session request command_id events (ExecOk output ws final_state) d m = (Inl e, m1)"
      using adm by (simp add: eval_session_def)
    moreover have "m_sessions m1 = m_sessions m"
      using admit_audit_only[OF adm] by (simp add: audit_only_def)
    ultimately show ?thesis by simp
  next
    case (Inr sw)
    then obtain s w where adm': "eval_admit request command_id m = (Inr (s, w), m1)"
      using adm by (cases sw) auto
    note ok = eval_admit_ok[OF adm']
    obtain m4 s4 where run: "eval_session request command_id events (ExecOk output ws final_state) d m =
          eval_succeeded request command_id s (m_now m) d output ws final_state m4"
      and m4: "\<not> m_sessions_poisoned m4" "m_sessions m4 = (m_sessions m)(?i \<mapsto> s4)" "m_now m4 = m_now m + d"
      and s4: "s_state s4 = state_after_events events (s_state s)"
        "s_last_operation s4 = Some (running_operation (m_now m) command_id (er_command request))"
      using eval_executed[OF adm', of events "ExecOk output ws final_state" d] by (metis exec_outcome.case(1))
    have at4: "m_sessions m4 ?i = Some s4" using m4 by simp
    have open4: "s_state s4 \<notin> {Closing, Error}"
      using state_after_events_open[OF ok(4)] s4 by simp
    note tail = eval_succeeded_cases[OF m4(1) at4, where c = command_id and out = "output" and s = s and t = "m_now m" and d = d and ws = ws and fs = final_state]
    obtain r1 m5 where w: "write_output ?i command_id output m4 = (r1, m5)" by force
    show ?thesis
    proof (cases r1)
      case (Inl e)
      then obtain m' where m': "eval_succeeded request command_id s (m_now m) d output ws final_state m4 = (Inl e, m')"
        "m_sessions m' = (m_sessions m4)(?i \<mapsto>
            with_finished Error Failed None (Some (err_text m4 e)) (Some (byte_len output)) d (m_now m4) s4)"
        using tail w by auto
      have "\<exists>msg. e = Artifact msg"
        using w Inl write_eval_output_error by (auto simp: write_output_def split: prod.splits)
      with m' show ?thesis
        using with_finished_fields[OF s4(2), of Error Failed] finish_ignored_open[OF open4, of Error Failed] m4(2)
        by (auto simp: run split: if_splits)
    next
      case (Inr ref)
      then obtain m' now_s where m': "eval_succeeded request command_id s (m_now m) d output ws final_state m4 =
           (Inr \<lparr>evr_session = now_s, evr_output = output, evr_artifact = ref, evr_warnings = ws, evr_duration_ms = d\<rparr>, m')"
         "now_s = with_finished (reported_state final_state (s_state s4)) Finished (Some ref) None
              (Some (byte_len output)) d (m_now m4) s4"
         "m_sessions m' = (m_sessions m4)(?i \<mapsto> now_s)"
         "fs_files (m_artifacts m') (ar_path ref) = Some [TextLine output]"
        using tail w by auto
      show ?thesis
        using m' ok(2) m4 s4 with_finished_fields[OF s4(2), of "reported_state final_state (s_state s4)" Finished "Some ref"
            None "Some (byte_len output)" d "m_now m4"]
          finish_ignored_open[OF open4, of "reported_state final_state (s_state s4)" Finished]
        by (cases "finish_ignored (s_state s4) (reported_state final_state (s_state s4)) Finished") (auto simp: run)
    qed
  qed
qed

lemma partial_output_keeps:
  "m_sessions (snd (write_failed_eval_output_best_effort i c out m)) = m_sessions m
   \<and> same_control m (snd (write_failed_eval_output_best_effort i c out m))"
  using write_output_keeps[where i = i and c = c and out = out and m = m]
  by (auto simp: write_failed_eval_output_best_effort_def manager_simps split: prod.split sum.split)

lemma eval_failed_cases:
  assumes "\<not> m_sessions_poisoned m" "m_sessions m (er_session request) = Some s4"
  defines "i \<equiv> er_session request"
  shows "\<exists>m' a. eval_failed request c s t d error partial_output m = (error, m')
    \<and> m_sessions m' = (m_sessions m)(i \<mapsto>
         with_finished Error Failed a (Some (err_text m error)) (map_option byte_len partial_output) d (m_now m) s4)"
proof -
  define x where "x = (case partial_output of
              None \<Rightarrow> (None, m)
            | Some out \<Rightarrow> write_failed_eval_output_best_effort i c out m)"
  obtain a m1 where x: "x = (a, m1)" by force
  have m1: "m_sessions m1 = m_sessions m" "same_control m m1"
    using partial_output_keeps[where i = i and c = c and m = m] x
    by (auto simp: x_def split: option.splits) (metis snd_conv)+
  define m2 where "m2 = log_event_of LogError ''eval_failed'' (Some i) (Some (err_text m error)) m1"
  have m2: "m_sessions m2 = m_sessions m" "m_now m2 = m_now m" "\<not> m_sessions_poisoned m2" "m_sessions m2 i = Some s4"
    using m1 assms by (auto simp: m2_def manager_simps same_control_def)
  let ?b = "map_option byte_len partial_output"
  obtain m3 b where f: "finish_operation i Error Failed a (Some (err_text m error)) ?b d m2 = (Inr b, m3)"
    using finish_operation_result[OF m2(3,4)] by blast
  have "m_sessions m3 = (m_sessions m)(i \<mapsto>
      with_finished Error Failed a (Some (err_text m error)) ?b d (m_now m) s4)"
    using finish_operation_shape[of i Error Failed a "Some (err_text m error)" ?b d m2] f m2
    by (simp add: on_session_Some)
  moreover have "\<exists>m'. eval_failed request c s t d error partial_output m = (error, m') \<and> m_sessions m' = m_sessions m3"
    using f x[unfolded x_def] m2_def
    by (cases b) (auto simp: eval_failed_def i_def[symmetric] Let_def manager_simps split: option.split)
  ultimately show ?thesis by auto
qed

text \<open>
  C4. The outcome of a command that fails on the worker: the caller gets that error, only this
  session changed, and it is in state Error with the error text, no current operation and its last
  operation recorded as failed with the same text. The exception is a command whose events closed the
  session before it failed: then nothing is recorded, and the closed session keeps the
  command as its current operation and keeps it recorded as running. A command that is not admitted
  changes no session.
\<close>

theorem eval_session_failure:
  "case eval_session request command_id events (ExecFailed error partial_output) d m of
     (Inr r, m') \<Rightarrow> False
   | (Inl e, m') \<Rightarrow>
       m_sessions m' = m_sessions m
       \<or> (\<exists>s s' op txt. e = error \<and> m_sessions m (er_session request) = Some s
            \<and> m_sessions m' = (m_sessions m)(er_session request \<mapsto> s')
            \<and> s_last_operation s' = Some op \<and> op_command_id op = command_id
            \<and> (if state_after_events events (s_state s) = Closed
               then s_state s' = Closed \<and> op_status op = OpRunning
                 \<and> s_current_operation s' = Some (er_command request)
               else s_state s' = Error \<and> s_error s' = Some txt \<and> s_current_operation s' = None
                 \<and> op_status op = Failed \<and> op_error op = Some txt
                 \<and> op_finished_at op = Some (m_now m + d) \<and> op_duration_ms op = Some d))"
proof -
  let ?i = "er_session request"
  obtain r0 m1 where adm: "eval_admit request command_id m = (r0, m1)" by force
  show ?thesis
  proof (cases r0)
    case (Inl e)
    then show ?thesis
      using adm admit_audit_only[OF adm] by (simp add: eval_session_def audit_only_def)
  next
    case (Inr sw)
    then obtain s w where adm': "eval_admit request command_id m = (Inr (s, w), m1)"
      using adm by (cases sw) auto
    note ok = eval_admit_ok[OF adm']
    obtain m4 s4 where run: "eval_session request command_id events (ExecFailed error partial_output) d m =
        (case eval_failed request command_id s (m_now m) d error partial_output m4 of (e, m5) \<Rightarrow> (Inl e, m5))"
      and m4: "\<not> m_sessions_poisoned m4" "m_sessions m4 = (m_sessions m)(?i \<mapsto> s4)" "m_now m4 = m_now m + d"
      and s4: "s_state s4 = state_after_events events (s_state s)" "s_current_operation s4 = Some (er_command request)"
        "s_last_operation s4 = Some (running_operation (m_now m) command_id (er_command request))"
      using eval_executed[OF adm', of events "ExecFailed error partial_output" d] by (metis exec_outcome.case(2))
    have at4: "m_sessions m4 ?i = Some s4" using m4 by simp
    have open4: "s_state s4 \<notin> {Closing, Error}"
      using state_after_events_open[OF ok(4)] s4 by simp
    obtain m' a where m': "eval_failed request command_id s (m_now m) d error partial_output m4 = (error, m')"
      "m_sessions m' = (m_sessions m4)(?i \<mapsto>
         with_finished Error Failed a (Some (err_text m4 error)) (map_option byte_len partial_output) d (m_now m4) s4)"
      using eval_failed_cases[OF m4(1) at4, where c = command_id and s = s and t = "m_now m" and d = d
          and error = error and partial_output = partial_output] by blast
    have "finish_ignored (s_state s4) Error Failed = (state_after_events events (s_state s) = Closed)"
      using finish_ignored_open[OF open4] s4(1) by simp
    with m' ok(2) m4 s4 show ?thesis
      using with_finished_fields[OF s4(3), of Error Failed a "Some (err_text m4 error)"
          "map_option byte_len partial_output" d "m_now m4"]
      by (cases "finish_ignored (s_state s4) Error Failed")
         (auto simp: run finished_operation_def running_operation_def)
  qed
qed

section \<open>Closing\<close>

lemma close_audit_keeps [manager_simps]:
  "m_sessions (close_audit i s c ev m) = m_sessions m" "m_workers (close_audit i s c ev m) = m_workers m"
  "same_control m' (close_audit i s c ev m) = same_control m' m"
  by (simp_all add: close_audit_def manager_simps)

lemma close_cancel_keeps:
  "m_sessions (close_cancel i c k m) = m_sessions m \<and> same_control m (close_cancel i c k m)"
proof -
  obtain b m1 where k: "kill_once i ''close_session_cancel'' m = (b, m1)" by force
  then have "m_sessions m1 = m_sessions m" "same_control m m1"
    using worker_projections(2)[of i "''close_session_cancel''" m]
      control_projections(8)[of m i "''close_session_cancel''" m] by auto
  then show ?thesis
    using k by (auto simp: close_cancel_def Let_def manager_simps split: sum.split bool.split)
qed

lemma wr_get_removed: "wr_get i (m_workers (snd (remove_worker i m))) = None"
  by (simp add: remove_worker_def wr_remove_def wr_get_def Let_def split: prod.split)

lemma finish_worker_close_workers:
  "m_workers (finish_worker_close i r m) = m_workers (snd (remove_worker i m))"
  unfolding finish_worker_close_def Let_def
  by (auto simp: manager_simps audit_canceled_operation_def Let_def set_session_def split: option.split prod.split)

lemma close_with_lock_shape:
  assumes "\<not> m_sessions_poisoned m" "m_sessions m i = Some s"
  shows "\<exists>m1. close_with_lock i r m = finish_worker_close i (if wr_get i (m_workers m) = None then Inr () else r) m1
    \<and> m_sessions m1 = m_sessions m \<and> same_control m m1 \<and> (\<forall>e. err_text m1 e = err_text m e)"
proof -
  let ?m = "log_info ''worker_close_started'' i m"
  obtain w m1 where rm: "remove_worker i ?m = (w, m1)" by force
  then have m1: "m_sessions m1 = m_sessions m" "same_control m m1"
    using worker_projections(1)[of i ?m] control_projections(7)[of m i ?m] by (simp_all add: manager_simps)
  have w: "w = wr_get i (m_workers m)"
    using rm by (auto simp: remove_worker_def wr_remove_def wr_get_def manager_simps split: if_splits)
  have "err_text ?m e = err_text m e" for e
    by (simp add: err_text_def show_session_id_def log_event_of_def)
  moreover have "err_text m1 e = err_text ?m e" for e using err_text_remove[of i ?m e] rm by simp
  moreover have "err_text (call_worker c m1) e = err_text m1 e" for c e
    by (simp add: err_text_def show_session_id_def call_worker_def)
  ultimately show ?thesis
    using rm m1 w by (cases w) (auto simp: close_with_lock_def close_take_worker_def manager_simps intro!: exI)
qed

text \<open>The error with which a close ends: the one that the worker answered, if there was a worker.\<close>

definition close_failure :: "session_id \<Rightarrow> unit result \<Rightarrow> 'w manager \<Rightarrow> string option" where
  "close_failure i answer m = (if wr_get i (m_workers m) = None then None else close_error m answer)"

text \<open>
  C5. Closing completes. Whenever \<open>close_session\<close> answers with a session, no other session changed, and the session is
  as it was if it was closing already; otherwise it is closing, or closed if it had neither a worker nor an operation,
  and has no current operation. Once the closing thread has the operation lock and the worker has answered, whatever it
  answered, the session has no current operation, none left active and no worker registered; it is closed without an
  error if the close worked or there was no worker, and otherwise in the state Error with the text of the error. When
  \<open>close_session\<close> answers with an error, no session changed.
\<close>

theorem close_session_completes:
  "case close_session i kill_result m of
     (Inl e, m') \<Rightarrow> m_sessions m' = m_sessions m
   | (Inr s, m') \<Rightarrow>
       m_sessions m' = (m_sessions m)(i \<mapsto> s)
       \<and> (if map_option s_state (m_sessions m i) = Some Closing then m_sessions m i = Some s else s_current_operation s = None)
       \<and> (if s_state s = Closing
          then \<exists>s'. m_sessions (close_with_lock i answer m') = (m_sessions m)(i \<mapsto> s')
                 \<and> s_state s' = (if close_failure i answer m' = None then Closed else Error) \<and> s_error s' = close_failure i answer m'
                 \<and> s_current_operation s' = None
                 \<and> (case s_last_operation s' of None \<Rightarrow> True | Some op \<Rightarrow> \<not> is_active (op_status op))
                 \<and> wr_get i (m_workers (close_with_lock i answer m')) = None
          else s_state s = Closed \<and> wr_get i (m_workers m') = None)"
proof -
  let ?has = "wr_get i (m_workers m) \<noteq> None"
  obtain r m1 where sec: "close_section i ?has m = (r, m1)" by force
  show ?thesis
  proof (cases "operation_lock i m")
    case (Inl e)
    then show ?thesis by (simp add: close_session_def)
  next
    case (Inr p)
    show ?thesis
    proof (cases r)
      case (Inl e)
      then have "m_sessions m1 = m_sessions m"
        using sec by (auto simp: close_section_def Let_def split: if_splits option.splits)
      then show ?thesis
        using Inl sec \<open>operation_lock i m = Inr p\<close> by (simp add: close_session_def)
    next
      case (Inr sx)
      then obtain s x where r: "r = Inr (s, x)" by (cases sx) auto
      obtain s0 where s0: "m_sessions m i = Some s0" "\<not> m_sessions_poisoned m" "s_state s0 \<noteq> Closed"
        using sec r by (auto simp: close_section_def split: if_splits option.splits)
      have m1: "m_sessions m1 = (m_sessions m)(i \<mapsto> closed_for ?has (m_now m) s0)" "same_control m m1"
        using close_section_shape[of i ?has m] sec s0 by (simp_all add: on_session_Some)
      have s: "s = closed_for ?has (m_now m) s0" "m_workers m1 = m_workers m"
        using sec r s0 by (auto simp: close_section_def closed_for_def Let_def manager_simps set_session_def
            split: if_splits)
      obtain m' where run: "close_session i kill_result m = (Inr s, m')" and m': "m_sessions m' = m_sessions m1"
        "\<not> m_sessions_poisoned m'" and wk: "s_state s \<noteq> Closing \<Longrightarrow> m_workers m' = m_workers m"
      proof (cases x)
        case None
        then show ?thesis
          using that[of m1] sec r \<open>operation_lock i m = Inr p\<close> m1 s0 s by (simp add: close_session_def same_control_def)
      next
        case (Some ce)
        then obtain c ev where x: "x = Some (c, ev)" by (cases ce) auto
        let ?m3 = "close_cancel i c kill_result (close_audit i s c ev m1)"
        let ?m4 = "if s_state s = Closing then spawn_thread (CloseThread i) ?m3 else ?m3"
        have c: "c = (s_current_operation s0 \<noteq> None)" and st: "s_state s0 \<noteq> Closing"
          using sec r x s0 by (auto simp: close_section_def Let_def split: if_splits)
        have m3: "m_sessions ?m3 = m_sessions m1" "same_control m1 ?m3"
          using close_cancel_keeps[of i c kill_result "close_audit i s c ev m1"]
          by (auto simp: manager_simps intro: same_control_trans[of m1 "close_audit i s c ev m1"])
        have "m_workers ?m3 = m_workers m" if "s_state s \<noteq> Closing"
          using that c s st s0 by (auto simp: closed_for_def close_cancel_def manager_simps split: if_splits)
        then show ?thesis
          using that[of ?m4] sec r x \<open>operation_lock i m = Inr p\<close> m3 m1 s0
          by (simp add: close_session_def spawn_thread_def same_control_def)
      qed
      show ?thesis
      proof (cases "s_state s = Closing")
        case False
        then show ?thesis
          using run m' m1 s wk s0 by (auto simp: closed_for_def split: if_splits)
      next
        case True
        have s1: "m_sessions m' i = Some s" using m' m1 s by simp
        let ?r = "if wr_get i (m_workers m') = None then Inr () else answer" and ?e = "close_failure i answer m'"
        obtain m2 where fin: "close_with_lock i answer m' = finish_worker_close i ?r m2"
          "m_sessions m2 = m_sessions m'" "same_control m' m2" "\<And>e. err_text m2 e = err_text m' e"
          using close_with_lock_shape[OF m'(2) s1, of answer] by blast
        have e: "close_error m2 ?r = ?e"
          using fin(4) by (simp add: close_failure_def close_error_def split: sum.split)
        let ?s = "close_finished ?e (m_now m2) s"
        have before: "if map_option s_state (m_sessions m i) = Some Closing then m_sessions m i = Some s else s_current_operation s = None"
          using s0 s(1) by (auto simp: closed_for_def)
        have "m_sessions (finish_worker_close i ?r m2) = (m_sessions m)(i \<mapsto> ?s)"
          using finish_worker_close_shape[of i ?r m2] fin m' m1 s1 e
          by (simp add: on_session_Some same_control_def)
        moreover have "s_state ?s = (if ?e = None then Closed else Error)" "s_error ?s = ?e" "s_current_operation ?s = None"
          "case s_last_operation ?s of None \<Rightarrow> True | Some op \<Rightarrow> \<not> is_active (op_status op)"
          by (auto simp: close_finished_def finalize_close_def close_done_def finalize_canceled_operation_def Let_def
              is_active_def split: prod.splits option.splits if_splits)
        moreover have "wr_get i (m_workers (finish_worker_close i ?r m2)) = None"
          by (simp add: finish_worker_close_workers wr_get_removed)
        ultimately show ?thesis
          using True run m' m1 s fin before by auto
      qed
    qed
  qed
qed

section \<open>Creating\<close>

definition unique_live :: "(session_id \<Rightarrow> session option) \<Rightarrow> bool" where
  "unique_live ss \<longleftrightarrow>
     (\<forall>i j s t. ss i = Some s \<longrightarrow> ss j = Some t \<longrightarrow> is_reusable (s_state s) \<longrightarrow> is_reusable (s_state t)
        \<longrightarrow> s_target s = s_target t \<longrightarrow> i = j)"

definition enumerates :: "session_id list \<Rightarrow> (session_id \<Rightarrow> session option) \<Rightarrow> bool" where
  "enumerates order ss \<longleftrightarrow> (\<forall>i. ss i \<noteq> None \<longrightarrow> i \<in> set order)"

lemma reusable_session_Some:
  assumes "reusable_session order target m = Some s"
  shows "\<exists>i. m_sessions m i = Some s \<and> s_target s = target \<and> is_reusable (s_state s)"
proof -
  have "s \<in> set (List.map_filter (m_sessions m) order)" "s_target s = target \<and> is_reusable (s_state s)"
    using List_find_SomeD[OF assms[unfolded reusable_session_def]] by simp_all
  then show ?thesis by (auto simp: map_filter_def)
qed

lemma reusable_session_None:
  assumes "reusable_session order target m = None" "enumerates order (m_sessions m)"
    "m_sessions m i = Some s" "s_target s = target"
  shows "\<not> is_reusable (s_state s)"
proof -
  have "s \<in> set (List.map_filter (m_sessions m) order)"
    using assms(2,3) by (force simp: map_filter_def enumerates_def)
  then show ?thesis
    using assms(1,4) by (auto simp: reusable_session_def find_None_iff)
qed

text \<open>The outcomes of \<open>create_admit\<close> and of the whole operation on the sessions.\<close>

lemma create_admit_cases:
  assumes "create_admit order fresh target m = (r, m1)"
  shows "case r of
      Inl e \<Rightarrow> m_sessions m1 = m_sessions m
    | Inr (s, False) \<Rightarrow> reusable_session order target m = Some s \<and> m_sessions m1 = m_sessions m
    | Inr (s, True) \<Rightarrow> reusable_session order target m = None \<and> s = new_session fresh target (m_now m)
        \<and> m_sessions m1 = (m_sessions m)(fresh \<mapsto> s)"
    and "m_sessions_poisoned m1 = m_sessions_poisoned m" "m_op_locks_poisoned m1 = m_op_locks_poisoned m"
  using assms audit_only_initialize[of m "new_session fresh target (m_now m)"]
  by (auto simp: create_admit_def audit_only_def Let_def put_session_def new_session_def log_event_of_def
      split: if_splits option.splits prod.splits sum.splits)

lemma create_publish_sessions [manager_simps]:
  "m_sessions (snd (create_publish s t m)) = m_sessions m"
  by (simp add: create_publish_def spawn_thread_def log_event_of_def notify_session_updated_def Let_def)

lemma create_session_sessions:
  assumes "create_session env order fresh request m = (r, m')"
  shows "m_sessions m' = m_sessions m
    \<or> (\<exists>target. validate_target env (cs_target request) = Inr target \<and> reusable_session order target m = None
         \<and> m_sessions m' = (m_sessions m)(fresh \<mapsto> new_session fresh target (m_now m))
         \<and> (\<forall>s. r = Inr s \<longrightarrow> s = new_session fresh target (m_now m)))"
proof (cases "validate_target env (cs_target request)")
  case (Inl e)
  then show ?thesis using assms by (auto simp: create_session_def manager_simps)
next
  case (Inr target)
  obtain a m1 where adm: "create_admit order fresh target m = (a, m1)" by force
  note c = create_admit_cases(1)[OF adm]
  show ?thesis
  proof (cases a)
    case (Inr sb)
    obtain s b where "sb = (s, b)" by force
    then show ?thesis
      using c Inr assms adm \<open>validate_target env (cs_target request) = Inr target\<close>
        create_publish_sessions[of s "cs_startup_timeout_ms request" m1]
      by (cases b) (auto simp: create_session_def create_publish_def Let_def split: if_splits)
  qed (use c assms adm Inr in \<open>auto simp: create_session_def\<close>)
qed

lemma unique_live_create:
  assumes "unique_live (m_sessions m)" "enumerates order (m_sessions m)"
    and "reusable_session order target m = None" "s_target s = target"
  shows "unique_live ((m_sessions m)(i \<mapsto> s))"
proof -
  have "\<not> is_reusable (s_state t)" if "m_sessions m j = Some t" "s_target t = target" for j t
    using reusable_session_None[OF assms(3,2)] that by blast
  then show ?thesis
    using assms(1,4) unfolding unique_live_def fun_upd_apply by (metis option.sel)
qed

text \<open>
  C6. One live session per target: if no two reusable sessions share a target, creating a
  session keeps it so, and creating one again for the same target, before anything else happens to
  the sessions, gives back the very session that the first call returned and changes no session. The
  hypotheses say that the iteration orders of the map cover it.
\<close>

theorem create_session_idempotent:
  assumes "unique_live (m_sessions m)" and "enumerates order (m_sessions m)"
    and "create_session env order fresh request m = (Inr s, m1)"
    and "validate_target env' (cs_target request') = Inr (s_target s)" and "enumerates order' (m_sessions m1)"
  shows "unique_live (m_sessions m1)
    \<and> (\<exists>m2. create_session env' order' fresh' request' m1 = (Inr s, m2) \<and> m_sessions m2 = m_sessions m1)"
proof -
  obtain target where target: "validate_target env (cs_target request) = Inr target"
    using assms(3) by (auto simp: create_session_def split: sum.splits)
  obtain a ma where adm: "create_admit order fresh target m = (a, ma)" by force
  obtain b where a: "a = Inr (s, b)"
    using assms(3) target adm by (auto simp: create_session_def create_publish_def Let_def
        split: sum.splits prod.splits bool.splits if_splits)
  have un: "\<not> m_sessions_poisoned m"
    using adm a by (auto simp: create_admit_def split: if_splits)
  have m1: "m_sessions m1 = m_sessions ma" "m_sessions_poisoned m1 = m_sessions_poisoned ma"
    using assms(3) target adm a
    by (cases b; auto simp: create_session_def create_publish_def spawn_thread_def log_event_of_def
        notify_session_updated_def Let_def split: if_splits)+
  have s: "s_target s = target \<and> is_reusable (s_state s) \<and> (\<exists>i. m_sessions m1 i = Some s)
      \<and> unique_live (m_sessions m1)"
  proof (cases b)
    case True
    then have new: "reusable_session order target m = None" "s = new_session fresh target (m_now m)"
        "m_sessions ma = (m_sessions m)(fresh \<mapsto> s)"
      using create_admit_cases(1)[OF adm] a by auto
    then show ?thesis
      using unique_live_create[OF assms(1,2) new(1), of s fresh] m1
      by (auto simp: new_session_def is_reusable_def)
  next
    case False
    then show ?thesis
      using create_admit_cases(1)[OF adm] a m1 assms(1) reusable_session_Some[of order target m s] by auto
  qed
  obtain t where t: "reusable_session order' (s_target s) m1 = Some t"
    using s reusable_session_None[OF _ assms(5)] by (cases "reusable_session order' (s_target s) m1") blast+
  have "t = s"
    using reusable_session_Some[OF t] s unfolding unique_live_def by (metis option.sel)
  then have "create_session env' order' fresh' request' m1 =
      (Inr s, log_info ''create_session_reused'' (s_id s) m1)"
    using t assms(4) m1(2) create_admit_cases(2)[OF adm] un by (simp add: create_session_def create_admit_def)
  then show ?thesis
    using s by (simp add: manager_simps)
qed

text \<open>Two requests for the process 5 on an empty server.\<close>

definition demo_env :: target_env where
  "demo_env = \<lparr>te_canonicalize = (\<lambda>p. Inr p), te_is_file = (\<lambda>_. True), te_process_id = 1\<rparr>"

definition demo_request :: create_session_request where
  "demo_request = \<lparr>cs_target = Attach 5, cs_startup_timeout_ms = None\<rparr>"

lemma demo_target: "validate_target demo_env (cs_target demo_request) = Inr (Attach 5)"
  by (simp add: demo_env_def demo_request_def validate_attach_target_def)

lemma create_session_idempotent_witness:
  "\<exists>m2. create_session demo_env [1] 2 demo_request (snd (create_publish (new_session 1 (Attach 5) 1000) None demo_created))
     = (Inr (new_session 1 (Attach 5) 1000), m2)"
proof -
  let ?s = "new_session 1 (Attach 5) 1000"
  let ?m1 = "snd (create_publish ?s None demo_created)"
  have locks: "\<not> m_op_locks_poisoned demo_created"
    using create_admit_cases(3)[OF demo_created_session(3)] by (simp add: demo_manager_def)
  then have pub: "create_publish ?s None demo_created = (Inr ?s, ?m1)"
    by (simp add: create_publish_def Let_def)
  then have run: "create_session demo_env [] 1 demo_request demo_manager = (Inr ?s, ?m1)"
    using demo_target demo_created_session(3) by (simp add: create_session_def demo_request_def)
  have "m_sessions ?m1 = (\<lambda>_. None)(1 \<mapsto> ?s)"
    using create_admit_cases(1)[OF demo_created_session(3)] by (simp add: manager_simps demo_manager_def)
  then have "enumerates [1] (m_sessions ?m1)"
    by (simp add: enumerates_def)
  moreover have "unique_live (m_sessions demo_manager)" "enumerates [] (m_sessions demo_manager)"
    by (simp_all add: demo_manager_def unique_live_def enumerates_def)
  moreover have "validate_target demo_env (cs_target demo_request) = Inr (s_target ?s)"
    using demo_target by (simp add: new_session_def)
  ultimately show ?thesis
    using create_session_idempotent[OF _ _ run, of demo_env demo_request "[1]" 2] by blast
qed

end
