(* ===== verification/Launch.thy ===== *)
theory Launch
  imports Unicode "HOL-Library.List_Lexorder"
begin

text \<open>
  Starting child processes (\<open>common/process.rs\<close>, the Windows implementation): whose identity
  a child gets, the command line and the environment block it is given, and which process is at the
  other end of a loopback connection. The Windows calls are the fields of \<open>launch_os\<close>.
\<close>

unbundle bit_operations_syntax

section \<open>Configuration and audit\<close>

datatype child_identity = CurrentProcess | McpPeerSession | ActiveInteractiveSession
datatype fallback_child_identity = FallbackCurrentProcess | FallbackActiveInteractiveSession
datatype process_identity_source = SourceCurrentProcess | SourceMcpPeerSession | SourceActiveInteractiveSession

record process_launch_config =
  plc_child_identity :: child_identity
  plc_fallback_child_identity :: fallback_child_identity
  plc_elevate_if_admin :: bool

definition process_launch_config_default :: process_launch_config where
  "process_launch_config_default =
     \<lparr>plc_child_identity = CurrentProcess, plc_fallback_child_identity = FallbackCurrentProcess,
      plc_elevate_if_admin = False\<rparr>"

definition installed_service_default :: process_launch_config where
  "installed_service_default =
     \<lparr>plc_child_identity = McpPeerSession, plc_fallback_child_identity = FallbackActiveInteractiveSession,
      plc_elevate_if_admin = True\<rparr>"

record tool_call_context =
  tcc_peer_pid :: "u32 option"
  tcc_peer_session_id :: "u32 option"

record process_launch_context =
  ctx_config :: process_launch_config
  ctx_tool_call :: tool_call_context

record process_launch_audit =
  pla_requested_identity :: child_identity
  pla_resolved_source :: process_identity_source
  pla_peer_pid :: "u32 option"
  pla_peer_session_id :: "u32 option"
  pla_target_session_id :: "u32 option"
  pla_elevated :: bool
  pla_fallback_reason :: "string option"

definition current_process_audit :: "process_launch_context \<Rightarrow> string option \<Rightarrow> process_launch_audit" where
  "current_process_audit context fallback_reason =
     \<lparr>pla_requested_identity = plc_child_identity (ctx_config context),
      pla_resolved_source = SourceCurrentProcess,
      pla_peer_pid = tcc_peer_pid (ctx_tool_call context),
      pla_peer_session_id = tcc_peer_session_id (ctx_tool_call context),
      pla_target_session_id = None, pla_elevated = False, pla_fallback_reason = fallback_reason\<rparr>"

section \<open>Text as Windows has it\<close>

text \<open>
  An \<open>OsString\<close> is its list of code points, a lone surrogate counting as one; UTF-16 code units
  are numbers below 65536.
\<close>

type_synonym os_text = "nat list"
type_synonym wide = "nat list"

definition is_surrogate :: "nat \<Rightarrow> bool" where
  "is_surrogate c = (0xD800 \<le> c \<and> c < 0xE000)"

definition is_high :: "nat \<Rightarrow> bool" where
  "is_high u = (0xD800 \<le> u \<and> u < 0xDC00)"

definition is_low :: "nat \<Rightarrow> bool" where
  "is_low u = (0xDC00 \<le> u \<and> u < 0xE000)"

text \<open>\<open>to_string_lossy\<close>, \<open>encode_wide\<close> and \<open>OsString::from_wide\<close>.\<close>

definition to_string_lossy :: "os_text \<Rightarrow> utext" where
  "to_string_lossy t = map (\<lambda>c. if is_surrogate c then 0xFFFD else c) t"

definition encode_char :: "nat \<Rightarrow> wide" where
  "encode_char c =
     (if c < 0x10000 then [c]
      else [0xD800 + (c - 0x10000) div 0x400, 0xDC00 + (c - 0x10000) mod 0x400])"

definition encode_wide :: "os_text \<Rightarrow> wide" where
  "encode_wide t = concat (map encode_char t)"

fun from_wide :: "wide \<Rightarrow> os_text" where
  "from_wide [] = []"
| "from_wide [u] = [u]"
| "from_wide (u # v # us) =
     (if is_high u \<and> is_low v
      then (0x10000 + (u - 0xD800) * 0x400 + (v - 0xDC00)) # from_wide us
      else u # from_wide (v # us))"

section \<open>The command line\<close>

abbreviation quote_mark :: nat where "quote_mark \<equiv> 34"
abbreviation space :: nat where "space \<equiv> 32"

definition needs_quotes :: "utext \<Rightarrow> bool" where
  "needs_quotes arg = (\<exists>ch \<in> set arg. is_whitespace ch \<or> ch = quote_mark \<or> ch = 9)"

text \<open>The loop of \<open>quote_windows_arg\<close>: the characters left, the backslashes counted, the text so far.\<close>

fun quote_loop :: "utext \<Rightarrow> nat \<Rightarrow> utext \<Rightarrow> utext" where
  "quote_loop [] backslashes quoted = quoted @ replicate (backslashes * 2) backslash @ [quote_mark]"
| "quote_loop (ch # chs) backslashes quoted =
     (if ch = backslash then quote_loop chs (backslashes + 1) quoted
      else if ch = quote_mark
      then quote_loop chs 0 (quoted @ replicate (backslashes * 2 + 1) backslash @ [quote_mark])
      else quote_loop chs 0 (quoted @ replicate backslashes backslash @ [ch]))"

definition quote_windows_arg :: "utext \<Rightarrow> utext" where
  "quote_windows_arg arg =
     (if arg = [] then [quote_mark, quote_mark]
      else if \<not> needs_quotes arg then arg
      else quote_loop arg 0 [quote_mark])"

text \<open>\<open>parts.join(" ")\<close>\<close>

fun join_space :: "utext list \<Rightarrow> utext" where
  "join_space [] = []"
| "join_space [p] = p"
| "join_space (p # q # ps) = p @ space # join_space (q # ps)"

definition command_line :: "os_text \<Rightarrow> os_text list \<Rightarrow> utext" where
  "command_line executable args =
     join_space (quote_windows_arg (to_string_lossy executable)
                 # map (\<lambda>arg. quote_windows_arg (to_string_lossy arg)) args)"

definition to_wide_null :: "os_text \<Rightarrow> wide" where
  "to_wide_null t = encode_wide t @ [0]"

section \<open>The environment\<close>

record env_change =
  ec_key :: os_text
  ec_value :: "os_text option"

abbreviation equals :: nat where "equals \<equiv> 61"

type_synonym environment = "(utext, os_text) btree"

text \<open>One entry of a block goes under its upper-cased name, if it has an equals sign.\<close>

definition insert_entry :: "os_text \<Rightarrow> environment \<Rightarrow> environment" where
  "insert_entry entry env =
     (let txt = to_string_lossy entry
      in if equals \<in> set txt
         then bt_insert (to_ascii_uppercase (takeWhile (\<lambda>c. c \<noteq> equals) txt)) entry env
         else env)"

text \<open>
  \<open>parse_environment_block\<close>: the units from the pointer on; \<open>None\<close> when the walk leaves them
  before it finds the terminator.
\<close>

function parse_block :: "wide \<Rightarrow> environment \<Rightarrow> environment option" where
  "parse_block units env =
     (case units of
        [] \<Rightarrow> None
      | u # us \<Rightarrow>
          (if u = 0 then Some env
           else
             let entry = takeWhile (\<lambda>c. c \<noteq> 0) units; rest = drop (length entry) units
             in if rest = [] then None else parse_block (tl rest) (insert_entry (from_wide entry) env)))"
  by pat_completeness auto
termination by (relation "measure (length \<circ> fst)") auto

declare parse_block.simps [simp del]

definition parse_environment_block :: "wide option \<Rightarrow> environment option" where
  "parse_environment_block units = (case units of None \<Rightarrow> Some [] | Some us \<Rightarrow> parse_block us [])"

definition apply_env_change :: "env_change \<Rightarrow> environment \<Rightarrow> environment" where
  "apply_env_change change env =
     (let lookup = to_ascii_uppercase (to_string_lossy (ec_key change))
      in case ec_value change of
           Some v \<Rightarrow> bt_insert lookup (ec_key change @ [equals] @ v) env
         | None \<Rightarrow> bt_remove lookup env)"

definition apply_env_changes :: "env_change list \<Rightarrow> environment \<Rightarrow> environment" where
  "apply_env_changes changes env = fold apply_env_change changes env"

definition build_environment_block :: "environment \<Rightarrow> wide" where
  "build_environment_block env = concat (map (\<lambda>(k, entry). encode_wide entry @ [0]) env) @ [0]"

text \<open>\<open>EnvironmentBlock::current\<close>; the variables are those \<open>std::env::vars_os\<close> yields.\<close>

definition current_environment :: "(os_text \<times> os_text) list \<Rightarrow> env_change list \<Rightarrow> wide" where
  "current_environment vars changes =
     (let env = fold (\<lambda>(key, v) env.
            (if key = [] then env
             else bt_insert (to_ascii_uppercase (to_string_lossy key)) (key @ [equals] @ v) env)) vars []
      in build_environment_block (apply_env_changes changes env))"

section \<open>Creating a process\<close>

datatype launch_stdio = StdioNull | StdioPiped | StdioFile string

record process_launch_spec =
  pls_executable :: os_text
  pls_args :: "os_text list"
  pls_env :: "env_change list"
  pls_stdin :: launch_stdio
  pls_stdout :: launch_stdio
  pls_stderr :: launch_stdio
  pls_creation_flags :: u32
  pls_current_dir :: "os_text option"

definition process_launch_spec_new :: "os_text \<Rightarrow> process_launch_spec" where
  "process_launch_spec_new executable =
     \<lparr>pls_executable = executable, pls_args = [], pls_env = [], pls_stdin = StdioNull,
      pls_stdout = StdioNull, pls_stderr = StdioNull, pls_creation_flags = 0, pls_current_dir = None\<rparr>"

text \<open>The flags of \<open>windows_sys\<close> that the code sets.\<close>

definition CREATE_NO_WINDOW :: u32 where "CREATE_NO_WINDOW = 0x08000000"
definition CREATE_UNICODE_ENVIRONMENT :: u32 where "CREATE_UNICODE_ENVIRONMENT = 0x400"
definition EXTENDED_STARTUPINFO_PRESENT :: u32 where "EXTENDED_STARTUPINFO_PRESENT = 0x80000"

definition hide_console_window :: "process_launch_spec \<Rightarrow> process_launch_spec" where
  "hide_console_window spec =
     spec\<lparr>pls_creation_flags := pls_creation_flags spec OR CREATE_NO_WINDOW\<rparr>"

text \<open>What is handed to \<open>CreateProcessAsUserW\<close> (with a token) or \<open>CreateProcessW\<close> (without).\<close>

record 't create_request =
  cq_token :: "'t option"
  cq_executable :: wide
  cq_command_line :: wide
  cq_flags :: u32
  cq_env :: "wide option"
  cq_current_dir :: "wide option"

text \<open>
  The Windows calls: the token of a session's user, the token linked to one, the active console
  session; opening the three standard streams (the flag tells input); the attribute list; the
  environment block of a user; the variables of this process; and the creation itself, which gives
  the process id. A failed call gives the text of its error.
\<close>

record 't launch_os =
  os_query_user_token :: "u32 \<Rightarrow> string + 't"
  os_linked_token :: "'t \<Rightarrow> 't option"
  os_active_console :: u32
  os_prepare :: "bool \<Rightarrow> launch_stdio \<Rightarrow> unit result"
  os_attribute_list :: "unit result"
  os_user_environment :: "'t \<Rightarrow> string + wide option"
  os_vars :: "(os_text \<times> os_text) list"
  os_create :: "'t create_request \<Rightarrow> string + u32"
  os_show_u32 :: "u32 \<Rightarrow> string"
  os_display_path :: "os_text \<Rightarrow> string"

record managed_child =
  mc_pid :: u32
  mc_has_stdin :: bool
  mc_has_stdout :: bool
  mc_audit :: process_launch_audit

definition prepare_stdio :: "'t launch_os \<Rightarrow> process_launch_spec \<Rightarrow> (bool \<times> bool) result" where
  "prepare_stdio os spec =
     (case os_prepare os True (pls_stdin spec) of
        Inl e \<Rightarrow> Inl e
      | Inr _ \<Rightarrow>
          (case os_prepare os False (pls_stdout spec) of
             Inl e \<Rightarrow> Inl e
           | Inr _ \<Rightarrow>
               (case os_prepare os False (pls_stderr spec) of
                  Inl e \<Rightarrow> Inl e
                | Inr _ \<Rightarrow> Inr (pls_stdin spec = StdioPiped, pls_stdout spec = StdioPiped))))"

text \<open>\<open>EnvironmentBlock::for_user\<close>. A block without its terminator is undefined behaviour; the
  system call never returns one, and it stands here as an error of its own.\<close>

definition environment_for_user :: "'t launch_os \<Rightarrow> 't \<Rightarrow> env_change list \<Rightarrow> wide result" where
  "environment_for_user os token changes =
     (case os_user_environment os token of
        Inl e \<Rightarrow> Inl (Backend (''CreateEnvironmentBlock failed: '' @ e))
      | Inr units \<Rightarrow>
          (case parse_environment_block units of
             None \<Rightarrow> Inl (Backend ''environment block without terminator'')
           | Some env \<Rightarrow> Inr (build_environment_block (apply_env_changes changes env))))"

definition child_environment ::
    "'t launch_os \<Rightarrow> process_launch_spec \<Rightarrow> 't option \<Rightarrow> wide option result" where
  "child_environment os spec token =
     (case token of
        Some t \<Rightarrow>
          (case environment_for_user os t (pls_env spec) of Inl e \<Rightarrow> Inl e | Inr block \<Rightarrow> Inr (Some block))
      | None \<Rightarrow>
          (if pls_env spec = [] then Inr None
           else Inr (Some (current_environment (os_vars os) (pls_env spec)))))"

definition create_request_of ::
    "process_launch_spec \<Rightarrow> 't option \<Rightarrow> wide option \<Rightarrow> 't create_request" where
  "create_request_of spec token env =
     \<lparr>cq_token = token,
      cq_executable = to_wide_null (pls_executable spec),
      cq_command_line = to_wide_null (command_line (pls_executable spec) (pls_args spec)),
      cq_flags = pls_creation_flags spec
        OR (if env \<noteq> None then CREATE_UNICODE_ENVIRONMENT else 0) OR EXTENDED_STARTUPINFO_PRESENT,
      cq_env = env,
      cq_current_dir = map_option to_wide_null (pls_current_dir spec)\<rparr>"

definition create_process_with_optional_token ::
    "'t launch_os \<Rightarrow> process_launch_spec \<Rightarrow> 't option \<Rightarrow> managed_child result" where
  "create_process_with_optional_token os spec token =
     (case prepare_stdio os spec of
        Inl e \<Rightarrow> Inl e
      | Inr (has_stdin, has_stdout) \<Rightarrow>
          (case os_attribute_list os of
             Inl e \<Rightarrow> Inl e
           | Inr _ \<Rightarrow>
               (case child_environment os spec token of
                  Inl e \<Rightarrow> Inl e
                | Inr env \<Rightarrow>
                    (case os_create os (create_request_of spec token env) of
                       Inl e \<Rightarrow> Inl (Backend (''spawn process '' @ os_display_path os (pls_executable spec)
                                  @ '' failed: '' @ e))
                     | Inr pid \<Rightarrow>
                         Inr \<lparr>mc_pid = pid, mc_has_stdin = has_stdin, mc_has_stdout = has_stdout,
                              mc_audit = \<lparr>pla_requested_identity = CurrentProcess,
                                 pla_resolved_source = SourceCurrentProcess, pla_peer_pid = None,
                                 pla_peer_session_id = None, pla_target_session_id = None,
                                 pla_elevated = False, pla_fallback_reason = None\<rparr>\<rparr>))))"

section \<open>Whose identity\<close>

datatype 't resolved_identity = IdToken 't process_launch_audit | IdCurrentProcess "string option"

definition active_console_session_id :: "'t launch_os \<Rightarrow> u32 option" where
  "active_console_session_id os =
     (if os_active_console os \<noteq> - 1 then Some (os_active_console os) else None)"

definition token_for_session ::
    "'t launch_os \<Rightarrow> process_launch_context \<Rightarrow> process_identity_source \<Rightarrow> u32 \<Rightarrow> string option
       \<Rightarrow> ('t \<times> process_launch_audit) result" where
  "token_for_session os context source sid fallback_reason =
     (case os_query_user_token os sid of
        Inl e \<Rightarrow> Inl (Backend (''WTSQueryUserToken('' @ os_show_u32 os sid @ '') failed: '' @ e))
      | Inr token \<Rightarrow>
          (let (token', elevated) =
             (if plc_elevate_if_admin (ctx_config context) then
                (case os_linked_token os token of Some linked \<Rightarrow> (linked, True) | None \<Rightarrow> (token, False))
              else (token, False))
           in Inr (token', \<lparr>pla_requested_identity = plc_child_identity (ctx_config context),
                pla_resolved_source = source,
                pla_peer_pid = tcc_peer_pid (ctx_tool_call context),
                pla_peer_session_id = tcc_peer_session_id (ctx_tool_call context),
                pla_target_session_id = Some sid, pla_elevated = elevated,
                pla_fallback_reason = fallback_reason\<rparr>)))"

text \<open>How an error prints needs no session id here: the errors of this file are \<open>Backend\<close> and
  \<open>Artifact\<close> errors.\<close>

definition launch_error_text :: "dbgflow_error \<Rightarrow> string" where
  "launch_error_text e = error_text (\<lambda>_. '''') e"

definition resolve_fallback_identity ::
    "'t launch_os \<Rightarrow> process_launch_context \<Rightarrow> string \<Rightarrow> 't resolved_identity result" where
  "resolve_fallback_identity os context reason =
     (case plc_fallback_child_identity (ctx_config context) of
        FallbackCurrentProcess \<Rightarrow> Inr (IdCurrentProcess (Some reason))
      | FallbackActiveInteractiveSession \<Rightarrow>
          (case active_console_session_id os of
             None \<Rightarrow> Inr (IdCurrentProcess (Some (reason @ ''; active interactive session was not available'')))
           | Some sid \<Rightarrow>
               (case token_for_session os context SourceActiveInteractiveSession sid (Some reason) of
                  Inr (token, audit) \<Rightarrow> Inr (IdToken token audit)
                | Inl e \<Rightarrow> Inr (IdCurrentProcess (Some (reason
                    @ ''; active interactive session token could not be opened: '' @ launch_error_text e))))))"

definition resolve_user_identity ::
    "'t launch_os \<Rightarrow> process_launch_context \<Rightarrow> 't resolved_identity result" where
  "resolve_user_identity os context =
     (case plc_child_identity (ctx_config context) of
        CurrentProcess \<Rightarrow> Inr (IdCurrentProcess None)
      | McpPeerSession \<Rightarrow>
          (case tcc_peer_session_id (ctx_tool_call context) of
             Some sid \<Rightarrow>
               (case token_for_session os context SourceMcpPeerSession sid None of
                  Inr (token, audit) \<Rightarrow> Inr (IdToken token audit)
                | Inl e \<Rightarrow> resolve_fallback_identity os context
                    (''MCP peer session token could not be opened: '' @ launch_error_text e))
           | None \<Rightarrow> resolve_fallback_identity os context ''MCP peer session was not resolved'')
      | ActiveInteractiveSession \<Rightarrow>
          (case active_console_session_id os of
             Some sid \<Rightarrow>
               (case token_for_session os context SourceActiveInteractiveSession sid None of
                  Inr (token, audit) \<Rightarrow> Inr (IdToken token audit)
                | Inl e \<Rightarrow> resolve_fallback_identity os context
                    (''active interactive session token could not be opened: '' @ launch_error_text e))
           | None \<Rightarrow> resolve_fallback_identity os context ''active interactive session was not available''))"

definition spawn_as_current ::
    "'t launch_os \<Rightarrow> process_launch_spec \<Rightarrow> process_launch_context \<Rightarrow> string option \<Rightarrow> managed_child result" where
  "spawn_as_current os spec context fallback_reason =
     (case create_process_with_optional_token os spec None of
        Inl e \<Rightarrow> Inl e
      | Inr child \<Rightarrow> Inr (child\<lparr>mc_audit := current_process_audit context fallback_reason\<rparr>))"

definition windows_spawn_process ::
    "'t launch_os \<Rightarrow> process_launch_spec \<Rightarrow> process_launch_context \<Rightarrow> managed_child result" where
  "windows_spawn_process os spec context =
     (case resolve_user_identity os context of
        Inr (IdToken token audit) \<Rightarrow>
          (case create_process_with_optional_token os spec (Some token) of
             Inr child \<Rightarrow> Inr (child\<lparr>mc_audit := audit\<rparr>)
           | Inl e \<Rightarrow> spawn_as_current os spec context
               (Some (''CreateProcessAsUserW failed; falling back to current_process: '' @ launch_error_text e)))
      | Inr (IdCurrentProcess fallback_reason) \<Rightarrow> spawn_as_current os spec context fallback_reason
      | Inl e \<Rightarrow> spawn_as_current os spec context
          (Some (launch_error_text e @ ''; falling back to current_process'')))"

section \<open>Waiting for a process\<close>

definition STILL_ACTIVE_EXIT :: u32 where "STILL_ACTIVE_EXIT = 259"

text \<open>The argument is what \<open>GetExitCodeProcess\<close> gives; an exit code is read as signed.\<close>

definition windows_try_wait :: "string + u32 \<Rightarrow> int option option result" where
  "windows_try_wait exit_code =
     (case exit_code of
        Inl e \<Rightarrow> Inl (Backend (''GetExitCodeProcess failed: '' @ e))
      | Inr code \<Rightarrow> (if code = STILL_ACTIVE_EXIT then Inr None else Inr (Some (Some (sint code)))))"

datatype wait_result = WaitObject0 | WaitTimeout | WaitFailed string | WaitOther u32

definition windows_wait :: "(u32 \<Rightarrow> string) \<Rightarrow> wait_result \<Rightarrow> string + u32 \<Rightarrow> int option result" where
  "windows_wait show wait exit_code =
     (case wait of
        WaitFailed e \<Rightarrow> Inl (Backend (''WaitForSingleObject failed: '' @ e))
      | WaitOther w \<Rightarrow> Inl (Backend (''unexpected WaitForSingleObject result '' @ show w))
      | _ \<Rightarrow>
          (case windows_try_wait exit_code of
             Inl e \<Rightarrow> Inl e
           | Inr exit \<Rightarrow> Inr (case exit of Some code \<Rightarrow> code | None \<Rightarrow> None)))"

section \<open>The peer of a connection\<close>

datatype ip_addr = IpV4 u32 | IpV6 "128 word"

record socket_addr =
  sa_ip :: ip_addr
  sa_port :: "16 word"

text \<open>\<open>IpAddr::is_loopback\<close>: 127.0.0.0/8, or ::1.\<close>

fun is_loopback :: "ip_addr \<Rightarrow> bool" where
  "is_loopback (IpV4 a) = (drop_bit 24 a = 127)"
| "is_loopback (IpV6 a) = (a = 1)"

text \<open>\<open>u16::from_be((value & 0xffff) as u16)\<close> on a little-endian machine: the two bytes swapped.\<close>

definition tcp_port :: "u32 \<Rightarrow> 16 word" where
  "tcp_port v = (let w = (ucast (v AND 0xffff) :: 16 word) in push_bit 8 w OR drop_bit 8 w)"

text \<open>A row of the TCP table, with its addresses as \<open>Ipv4Addr\<close> and \<open>Ipv6Addr\<close> read them.\<close>

record tcp_row =
  row_local_ip :: ip_addr
  row_local_port :: u32
  row_remote_ip :: ip_addr
  row_remote_port :: u32
  row_pid :: u32

text \<open>\<open>tcp4_owner_pid\<close> and \<open>tcp6_owner_pid\<close>; the table of their address family is an argument.\<close>

definition tcp_owner_pid :: "string \<Rightarrow> tcp_row list result \<Rightarrow> socket_addr \<Rightarrow> socket_addr \<Rightarrow> u32 result" where
  "tcp_owner_pid not_found table server peer =
     (case table of
        Inl e \<Rightarrow> Inl e
      | Inr rows \<Rightarrow>
          (case List.find (\<lambda>row. row_local_ip row = sa_ip peer \<and> tcp_port (row_local_port row) = sa_port peer
                  \<and> row_remote_ip row = sa_ip server \<and> tcp_port (row_remote_port row) = sa_port server) rows of
             Some row \<Rightarrow> Inr (row_pid row)
           | None \<Rightarrow> Inl (Backend not_found)))"

definition windows_tcp_owner_pid ::
    "tcp_row list result \<Rightarrow> tcp_row list result \<Rightarrow> socket_addr \<Rightarrow> socket_addr \<Rightarrow> u32 result" where
  "windows_tcp_owner_pid table4 table6 server peer =
     (if \<not> is_loopback (sa_ip server) \<or> \<not> is_loopback (sa_ip peer)
      then Inl (Backend ''TCP peer owner lookup requires loopback endpoints'')
      else case (sa_ip server, sa_ip peer) of
        (IpV4 _, IpV4 _) \<Rightarrow> tcp_owner_pid ''TCP peer process was not found'' table4 server peer
      | (IpV6 _, IpV6 _) \<Rightarrow> tcp_owner_pid ''TCP6 peer process was not found'' table6 server peer
      | _ \<Rightarrow> Inl (Backend ''TCP peer owner lookup requires matching IP families''))"

definition ok_opt :: "'a result \<Rightarrow> 'a option" where
  "ok_opt r = (case r of Inl _ \<Rightarrow> None | Inr x \<Rightarrow> Some x)"

definition resolve_peer_process_context ::
    "tcp_row list result \<Rightarrow> tcp_row list result \<Rightarrow> (u32 \<Rightarrow> u32 result) \<Rightarrow> socket_addr \<Rightarrow> socket_addr
       \<Rightarrow> tool_call_context" where
  "resolve_peer_process_context table4 table6 session_of server peer =
     (let peer_pid = ok_opt (windows_tcp_owner_pid table4 table6 server peer)
      in \<lparr>tcc_peer_pid = peer_pid,
          tcc_peer_session_id = Option.bind peer_pid (\<lambda>pid. ok_opt (session_of pid))\<rparr>)"

end
