(* ===== verification/Launch_Properties.thy ===== *)
theory Launch_Properties
  imports Launch
begin

text \<open>
  What starting a process guarantees: the arguments arrive as they were given, the environment
  block says what the changed environment says, and the audit tells whose identity the child has.
\<close>

section \<open>How Windows programs read a command line\<close>

text \<open>
  The documented rules of the C runtime for the arguments behind the program name. In \<open>arg_reads
  quoted txt a r\<close> the text \<open>txt\<close>, read in or outside quotation marks, starts with the rest of an
  argument that stands for \<open>a\<close>, and \<open>r\<close> follows it.
\<close>

abbreviation separator :: "nat \<Rightarrow> bool" where "separator c \<equiv> c = space \<or> c = 9"

abbreviation starts_with :: "(nat \<Rightarrow> bool) \<Rightarrow> nat list \<Rightarrow> bool" where
  "starts_with P t \<equiv> (case t of [] \<Rightarrow> False | c # _ \<Rightarrow> P c)"

inductive arg_reads :: "bool \<Rightarrow> utext \<Rightarrow> utext \<Rightarrow> utext \<Rightarrow> bool" where
  arg_end: "r = [] \<or> starts_with separator r \<Longrightarrow> arg_reads False r [] r"
| arg_plain: "c \<noteq> backslash \<Longrightarrow> c \<noteq> quote_mark \<Longrightarrow> quoted \<or> \<not> separator c \<Longrightarrow> arg_reads quoted t a r \<Longrightarrow>
    arg_reads quoted (c # t) (c # a) r"
| arg_backslashes: "\<not> starts_with (\<lambda>c. c = backslash \<or> c = quote_mark) t \<Longrightarrow> arg_reads quoted t a r \<Longrightarrow>
    arg_reads quoted (replicate n backslash @ t) (replicate n backslash @ a) r"
| arg_mark: "\<not> quoted \<or> \<not> starts_with (\<lambda>c. c = quote_mark) t \<Longrightarrow> arg_reads (\<not> quoted) t a r \<Longrightarrow>
    arg_reads quoted (replicate (2 * n) backslash @ quote_mark # t) (replicate n backslash @ a) r"
| arg_literal_mark: "arg_reads quoted t a r \<Longrightarrow>
    arg_reads quoted (replicate (2 * n + 1) backslash @ quote_mark # t)
      (replicate n backslash @ quote_mark # a) r"

inductive args_read :: "utext \<Rightarrow> utext list \<Rightarrow> bool" where
  args_end: "args_read [] []"
| args_separator: "separator c \<Longrightarrow> args_read t as \<Longrightarrow> args_read (c # t) as"
| args_arg: "starts_with (\<lambda>c. \<not> separator c) t \<Longrightarrow> arg_reads False t a r \<Longrightarrow> args_read r as \<Longrightarrow>
    args_read t (a # as)"

lemma quote_loop_append: "quote_loop chs b q = q @ quote_loop chs b []"
proof (induction chs arbitrary: b q)
  case (Cons ch chs)
  let ?m = "replicate (b * 2 + 1) backslash @ [quote_mark]" and ?c = "replicate b backslash @ [ch]"
  have "quote_loop chs 0 (q @ ?m) = (q @ ?m) @ quote_loop chs 0 []" "quote_loop chs 0 ?m = ?m @ quote_loop chs 0 []"
    "quote_loop chs 0 (q @ ?c) = (q @ ?c) @ quote_loop chs 0 []" "quote_loop chs 0 ?c = ?c @ quote_loop chs 0 []"
    "quote_loop chs (b + 1) q = q @ quote_loop chs (b + 1) []"
    by (rule Cons.IH)+
  then show ?case by simp
qed simp

lemma quoted_reads:
  assumes "r = [] \<or> starts_with separator r"
  shows "arg_reads True (quote_loop chs b [] @ r) (replicate b backslash @ chs) r"
proof (induction chs arbitrary: b)
  case Nil
  have "arg_reads True (replicate (2 * b) backslash @ quote_mark # r) (replicate b backslash @ []) r"
    using assms by (intro arg_mark) (auto intro: arg_end split: list.splits)
  then show ?case by (simp add: mult.commute)
next
  case (Cons ch chs)
  consider "ch = backslash" | "ch = quote_mark" | "ch \<noteq> backslash" "ch \<noteq> quote_mark" by blast
  then show ?case
  proof cases
    case 1
    then show ?thesis using Cons.IH[of "b + 1"] by (simp add: replicate_app_Cons_same)
  next
    case 2
    have "arg_reads True (replicate (2 * b + 1) backslash @ quote_mark # quote_loop chs 0 [] @ r)
        (replicate b backslash @ quote_mark # chs) r"
      using Cons.IH[of 0] by (intro arg_literal_mark) simp
    then show ?thesis
      using 2 quote_loop_append[of chs 0 "replicate (Suc (b * 2)) backslash @ [quote_mark]"]
      by (simp add: mult.commute)
  next
    case 3
    have "arg_reads True (replicate b backslash @ ch # quote_loop chs 0 [] @ r)
        (replicate b backslash @ ch # chs) r"
      using 3 Cons.IH[of 0] by (intro arg_backslashes arg_plain) auto
    then show ?thesis
      using 3 quote_loop_append[of chs 0 "replicate b backslash @ [ch]"] by simp
  qed
qed

lemma plain_reads:
  assumes "r = [] \<or> starts_with separator r"
    and "\<forall>c \<in> set arg. \<not> separator c \<and> c \<noteq> quote_mark"
  shows "arg_reads False (replicate b backslash @ arg @ r) (replicate b backslash @ arg) r"
  using assms(2)
proof (induction arg arbitrary: b)
  case Nil
  have "arg_reads False (replicate b backslash @ r) (replicate b backslash @ []) r"
    using assms(1) by (intro arg_backslashes) (auto intro: arg_end split: list.splits)
  then show ?case by simp
next
  case (Cons ch arg)
  show ?case
  proof (cases "ch = backslash")
    case True
    then show ?thesis using Cons.IH[of "b + 1"] Cons.prems by (simp add: replicate_app_Cons_same)
  next
    case False
    have "arg_reads False (replicate b backslash @ ch # arg @ r) (replicate b backslash @ ch # arg) r"
      using False Cons.prems Cons.IH[of 0] by (intro arg_backslashes arg_plain) auto
    then show ?thesis by simp
  qed
qed

lemma quote_reads:
  assumes "r = [] \<or> starts_with separator r"
  shows "arg_reads False (quote_windows_arg arg @ r) arg r"
    and "starts_with (\<lambda>c. \<not> separator c) (quote_windows_arg arg @ r)"
proof -
  have mark: "arg_reads False (quote_mark # t) a r" if "arg_reads True t a r" for t a
    using arg_mark[of False t a r 0] that by simp
  have quoted: "arg_reads False (quote_loop arg 0 [quote_mark] @ r) arg r"
    using mark[OF quoted_reads[OF assms, of arg 0]] quote_loop_append[of arg 0 "[quote_mark]"] by simp
  have plain: "arg_reads False (arg @ r) arg r" if "\<not> needs_quotes arg"
    using plain_reads[OF assms, of arg 0] that by (auto simp: needs_quotes_def is_whitespace_def)
  have empty: "arg_reads False ([quote_mark, quote_mark] @ r) [] r"
    using mark[OF quoted_reads[OF assms, of "[]" 0]] by simp
  show "arg_reads False (quote_windows_arg arg @ r) arg r"
    using quoted plain empty by (simp add: quote_windows_arg_def)
  show "starts_with (\<lambda>c. \<not> separator c) (quote_windows_arg arg @ r)"
    using quote_loop_append[of arg 0 "[quote_mark]"]
    by (cases arg) (auto simp: quote_windows_arg_def needs_quotes_def is_whitespace_def)
qed

lemma args_reads_all:
  "args_read (concat (map (\<lambda>arg. space # quote_windows_arg arg) args)) args"
proof (induction args)
  case Nil
  show ?case by (simp add: args_end)
next
  case (Cons arg args)
  let ?r = "concat (map (\<lambda>arg. space # quote_windows_arg arg) args)"
  have r: "?r = [] \<or> starts_with separator ?r"
    by (cases args) auto
  have "args_read (quote_windows_arg arg @ ?r) (arg # args)"
    using quote_reads[OF r, of arg] Cons.IH by (intro args_arg)
  then show ?case by (simp add: args_separator)
qed

lemma join_space_concat: "join_space (p # ps) = p @ concat (map (\<lambda>q. space # q) ps)"
  by (induction ps arbitrary: p) simp_all

text \<open>
  A reader that follows all of the rules: behind what \<open>arg_reads\<close> describes, a doubled quotation mark inside
  quotation marks stands for one mark and leaves them open, and marks that stay open reach to the end of the line.
\<close>

fun scan_arg :: "bool \<Rightarrow> nat \<Rightarrow> utext \<Rightarrow> utext \<times> utext" where
  "scan_arg quoted b [] = (replicate b backslash, [])"
| "scan_arg quoted b (c # t) =
     (if c = backslash then scan_arg quoted (b + 1) t
      else if c = quote_mark then
        (if odd b then apfst (\<lambda>a. replicate (b div 2) backslash @ quote_mark # a) (scan_arg quoted 0 t)
         else if quoted \<and> starts_with (\<lambda>c. c = quote_mark) t
         then apfst (\<lambda>a. replicate (b div 2) backslash @ quote_mark # a) (scan_arg True 0 (tl t))
         else apfst (\<lambda>a. replicate (b div 2) backslash @ a) (scan_arg (\<not> quoted) 0 t))
      else if \<not> quoted \<and> separator c then (replicate b backslash, c # t)
      else apfst (\<lambda>a. replicate b backslash @ c # a) (scan_arg quoted 0 t))"

lemma scan_arg_length: "length (snd (scan_arg quoted b t)) \<le> length t"
proof (induction quoted b t rule: scan_arg.induct)
  case (2 quoted b c t)
  have "length (tl t) \<le> length t" by simp
  with 2 show ?case by (auto simp del: length_tl intro: le_SucI order_trans)
qed simp

function scan_args :: "utext \<Rightarrow> utext list" where
  "scan_args [] = []"
| "scan_args (c # t) =
     (if separator c then scan_args t
      else let (a, r) = scan_arg False 0 (c # t) in a # (if length r < length (c # t) then scan_args r else []))"
  by pat_completeness auto
termination by (relation "measure length") auto

lemma scan_backslashes: "scan_arg quoted b (replicate n backslash @ t) = scan_arg quoted (b + n) t"
proof (induction n arbitrary: b)
  case (Suc n)
  then show ?case by simp
qed simp

lemma scan_run:
  assumes "\<not> starts_with (\<lambda>c. c = backslash \<or> c = quote_mark) t"
  shows "scan_arg quoted n t = apfst (\<lambda>a. replicate n backslash @ a) (scan_arg quoted 0 t)"
  using assms by (cases t) (auto simp: apfst_def map_prod_def split: prod.split)

lemma arg_reads_scan: "arg_reads quoted t a r \<Longrightarrow> scan_arg quoted 0 t = (a, r)"
proof (induction rule: arg_reads.induct)
  case (arg_end r)
  then show ?case by (cases r) auto
next
  case (arg_plain c quoted t a r)
  then show ?case by auto
next
  case (arg_backslashes t quoted a r n)
  then show ?case using scan_run[OF arg_backslashes(1), of quoted n] by (simp add: scan_backslashes)
next
  case (arg_mark quoted t a r n)
  then show ?case by (auto simp: scan_backslashes)
next
  case (arg_literal_mark quoted t a r n)
  then show ?case by (simp add: scan_backslashes)
qed

lemma args_read_scan: "args_read t as \<Longrightarrow> scan_args t = as"
proof (induction rule: args_read.induct)
  case (args_arg t a r as)
  then obtain c t' where t: "t = c # t'" "\<not> separator c" by (auto split: list.splits)
  have scan: "scan_arg False 0 t = (a, r)" by (rule arg_reads_scan) (rule args_arg)
  have "length r < length t"
    using t scan scan_arg_length[of False 1 t'] scan_arg_length[of True 0 t'] scan_arg_length[of False 0 t']
    by (auto split: if_splits simp: apfst_def map_prod_def split: prod.splits)
  with t scan args_arg.IH show ?case by simp
qed auto

section \<open>The environment of the child\<close>

definition change_name :: "env_change \<Rightarrow> utext" where
  "change_name change = to_ascii_uppercase (to_string_lossy (ec_key change))"

text \<open>
  The last change of a name decides: a variable that was changed has its last new value, or is
  gone if the last change removed it, names being compared without regard to ASCII case; every other
  variable is what it was.
\<close>

theorem apply_env_changes_correct:
  "bt_get (apply_env_changes changes env) name =
     (case List.find (\<lambda>c. change_name c = name) (rev changes) of
        None \<Rightarrow> bt_get env name
      | Some c \<Rightarrow> map_option (\<lambda>v. ec_key c @ [equals] @ v) (ec_value c))"
  by (induction changes rule: rev_induct)
     (auto simp: apply_env_changes_def apply_env_change_def change_name_def Let_def bt_get_insert bt_get_remove
       split: option.split)

text \<open>Text that UTF-16 can carry: no lone high surrogate directly before a lone low one.\<close>

fun wide_ok :: "os_text \<Rightarrow> bool" where
  "wide_ok [] = True"
| "wide_ok [c] = (c < 0x110000)"
| "wide_ok (c # d # t) = (c < 0x110000 \<and> \<not> (is_high c \<and> is_low d) \<and> wide_ok (d # t))"

lemma encode_first:
  assumes "wide_ok (d # t)"
  shows "\<exists>u us. encode_wide (d # t) = u # us \<and> (is_low u \<longrightarrow> u = d)"
proof (cases "d < 0x10000")
  case True
  then show ?thesis by (simp add: encode_wide_def encode_char_def)
next
  case False
  have "d < 0x110000" using assms by (cases t) auto
  then have "(d - 0x10000) div 0x400 < 0x400" by (simp add: less_mult_imp_div_less)
  with False show ?thesis by (simp add: encode_wide_def encode_char_def is_low_def)
qed

lemma from_wide_single: "\<not> (is_high u \<and> starts_with is_low us) \<Longrightarrow> from_wide (u # us) = u # from_wide us"
  by (cases us) auto

lemma from_wide_encode: "wide_ok t \<Longrightarrow> from_wide (encode_wide t) = t"
proof (induction t rule: wide_ok.induct)
  case 1
  then show ?case by (simp add: encode_wide_def)
next
  case (2 c)
  have "(c - 0x10000) div 0x400 < 0x400" if "\<not> c < 0x10000"
    using 2 that by (simp add: less_mult_imp_div_less)
  then show ?case using 2 by (auto simp: encode_wide_def encode_char_def is_high_def is_low_def)
next
  case (3 c d t)
  have IH: "from_wide (encode_wide (d # t)) = d # t" using 3 by simp
  have enc: "encode_wide (c # d # t) = encode_char c @ encode_wide (d # t)" by (simp add: encode_wide_def)
  show ?case
  proof (cases "c < 0x10000")
    case True
    obtain u us where u: "encode_wide (d # t) = u # us" "is_low u \<longrightarrow> u = d"
      using encode_first[of d t] 3 by auto
    then have "\<not> (is_high c \<and> starts_with is_low (encode_wide (d # t)))"
      using 3 by auto
    then show ?thesis using True IH enc from_wide_single by (simp add: encode_char_def)
  next
    case False
    have "c < 0x110000" using 3 by simp
    then have "(c - 0x10000) div 0x400 < 0x400" by (simp add: less_mult_imp_div_less)
    then show ?thesis using False IH enc by (auto simp: encode_char_def is_high_def is_low_def)
  qed
qed

lemma encode_no_zero: "0 \<notin> set t \<Longrightarrow> 0 \<notin> set (encode_wide t)"
  by (auto simp: encode_wide_def encode_char_def split: if_splits)

lemma encode_Nil: "encode_wide t = [] \<longleftrightarrow> t = []"
  by (cases t) (auto simp: encode_wide_def encode_char_def)

text \<open>An entry that can stand in a block under its name.\<close>

definition entry_name :: "os_text \<Rightarrow> utext" where
  "entry_name e = to_ascii_uppercase (takeWhile (\<lambda>c. c \<noteq> equals) (to_string_lossy e))"

definition entry_ok :: "os_text \<Rightarrow> bool" where
  "entry_ok e \<longleftrightarrow> wide_ok e \<and> 0 \<notin> set e \<and> equals \<in> set e"

definition environment_ok :: "environment \<Rightarrow> bool" where
  "environment_ok env \<longleftrightarrow> bt_ok env \<and> (\<forall>(name, e) \<in> set env. entry_ok e \<and> entry_name e = name)"

lemma equals_lossy: "equals \<in> set (to_string_lossy e) \<longleftrightarrow> equals \<in> set e"
  by (force simp: to_string_lossy_def is_surrogate_def image_iff)

lemma insert_entry_ok: "entry_ok e \<Longrightarrow> insert_entry e env = bt_insert (entry_name e) e env"
  by (simp add: insert_entry_def entry_ok_def entry_name_def equals_lossy)

lemma parse_block_entry:
  assumes "0 \<notin> set entry" "entry \<noteq> []"
  shows "parse_block (entry @ 0 # us) env = parse_block us (insert_entry (from_wide entry) env)"
proof -
  obtain u v where uv: "entry = u # v" using assms(2) by (cases entry) auto
  have "takeWhile (\<lambda>c. c \<noteq> 0) (v @ 0 # us) = v"
    using assms(1) uv by (induction v arbitrary: u entry) auto
  then show ?thesis
    using assms(1) uv by (simp add: parse_block.simps[of "u # v @ 0 # us"])
qed

lemma parse_block_step:
  assumes "entry_ok e"
  shows "parse_block (encode_wide e @ 0 # us) env = parse_block us (bt_insert (entry_name e) e env)"
proof -
  have "e \<noteq> []" "0 \<notin> set (encode_wide e)" "wide_ok e"
    using assms encode_no_zero[of e] by (auto simp: entry_ok_def)
  then show ?thesis
    by (simp add: parse_block_entry encode_Nil from_wide_encode insert_entry_ok[OF assms])
qed

lemma bt_insert_last: "\<forall>k' \<in> fst ` set m. k' < k \<Longrightarrow> bt_insert k v m = m @ [(k, v)]"
  by (induction k v m rule: bt_insert.induct) auto

lemma parse_blocks:
  assumes "\<forall>(name, e) \<in> set env. entry_ok e \<and> entry_name e = name" "bt_ok (acc @ env)"
  shows "parse_block (concat (map (\<lambda>(k, e). encode_wide e @ [0]) env) @ [0]) acc = Some (acc @ env)"
  using assms
proof (induction env arbitrary: acc)
  case Nil
  then show ?case by (subst parse_block.simps) simp
next
  case (Cons ne env)
  obtain name e where ne: "ne = (name, e)" by force
  have "\<forall>k' \<in> fst ` set acc. k' < name"
    using Cons.prems(2) ne by (auto simp: bt_ok_def sorted_wrt_append)
  then have "bt_insert name e acc = acc @ [(name, e)]" by (rule bt_insert_last)
  moreover have "entry_ok e" "entry_name e = name" using Cons.prems(1) ne by auto
  moreover have "parse_block (concat (map (\<lambda>(k, e). encode_wide e @ [0]) env) @ [0]) (acc @ [(name, e)]) =
      Some ((acc @ [(name, e)]) @ env)"
    using Cons.prems ne by (intro Cons.IH) auto
  ultimately show ?case using ne by (simp add: parse_block_step)
qed

text \<open>A change that Windows can represent: names and values without NUL, names without an equals sign.\<close>

definition change_ok :: "env_change \<Rightarrow> bool" where
  "change_ok change \<longleftrightarrow>
     0 \<notin> set (ec_key change) \<and> equals \<notin> set (ec_key change)
     \<and> (case ec_value change of None \<Rightarrow> True
        | Some v \<Rightarrow> 0 \<notin> set v \<and> wide_ok (ec_key change @ [equals] @ v))"

lemma change_entry:
  assumes "change_ok change" "ec_value change = Some v"
  shows "entry_ok (ec_key change @ [equals] @ v)" "entry_name (ec_key change @ [equals] @ v) = change_name change"
proof -
  let ?k = "to_string_lossy (ec_key change)"
  have "equals \<notin> set ?k" using assms(1) equals_lossy by (simp add: change_ok_def)
  then have "takeWhile (\<lambda>c. c \<noteq> equals) (?k @ equals # to_string_lossy v) = ?k"
    by (subst takeWhile_append2) auto
  then show "entry_name (ec_key change @ [equals] @ v) = change_name change"
    by (simp add: entry_name_def change_name_def to_string_lossy_def is_surrogate_def)
  show "entry_ok (ec_key change @ [equals] @ v)"
    using assms by (auto simp: change_ok_def entry_ok_def)
qed

lemma apply_env_change_ok:
  assumes "environment_ok env" "change_ok change"
  shows "environment_ok (apply_env_change change env)"
proof (cases "ec_value change")
  case None
  then show ?thesis
    using assms(1) set_bt_remove[of "change_name change" env]
    by (auto simp: apply_env_change_def environment_ok_def bt_ok_remove change_name_def)
next
  case (Some v)
  then show ?thesis
    using assms(1) change_entry[OF assms(2) Some] set_bt_insert[of "change_name change" "ec_key change @ [equals] @ v" env]
    by (auto simp: apply_env_change_def environment_ok_def bt_ok_insert change_name_def)
qed

lemma apply_env_changes_ok:
  "environment_ok env \<Longrightarrow> \<forall>c \<in> set changes. change_ok c \<Longrightarrow> environment_ok (apply_env_changes changes env)"
  by (induction changes arbitrary: env) (auto simp: apply_env_changes_def apply_env_change_ok)

text \<open>
  The environment block loses nothing: reading back the block that is built for the child gives
  exactly the changed environment, every name with its text, for an environment and changes
  that Windows can represent.
\<close>

theorem environment_block_roundtrip:
  assumes "environment_ok env" and "list_all change_ok changes"
  shows "parse_environment_block (Some (build_environment_block (apply_env_changes changes env)))
    = Some (apply_env_changes changes env)"
  using parse_blocks[of "apply_env_changes changes env" "[]"] apply_env_changes_ok[OF assms(1), of changes] assms(2)
  by (simp add: parse_environment_block_def build_environment_block_def environment_ok_def list_all_iff)

lemma environment_block_roundtrip_witness:
  "parse_environment_block (Some (build_environment_block
      (apply_env_changes [\<lparr>ec_key = [98], ec_value = Some [50]\<rparr>] [([65], [97, 61, 49])])))
   = Some (apply_env_changes [\<lparr>ec_key = [98], ec_value = Some [50]\<rparr>] [([65], [97, 61, 49])])"
  by (rule environment_block_roundtrip)
     (simp_all add: environment_ok_def bt_ok_def entry_ok_def entry_name_def to_string_lossy_def is_surrogate_def
       to_ascii_uppercase_def change_ok_def is_high_def)

section \<open>The identity of the child\<close>

text \<open>A token that may be used for a session: its user's, or the elevated one linked to it.\<close>

definition token_of_session :: "'t launch_os \<Rightarrow> process_launch_context \<Rightarrow> u32 \<Rightarrow> bool \<Rightarrow> 't \<Rightarrow> bool" where
  "token_of_session os context sid elevated token \<longleftrightarrow>
     (\<exists>user. os_query_user_token os sid = Inr user
        \<and> (if elevated then plc_elevate_if_admin (ctx_config context) \<and> os_linked_token os user = Some token
           else token = user))"

text \<open>A resolved identity: resolving never fails, and a token is one of the session it is said to be
  of, the peer's session or the active console's.\<close>

definition identity_ok :: "'t launch_os \<Rightarrow> process_launch_context \<Rightarrow> 't resolved_identity result \<Rightarrow> bool" where
  "identity_ok os context r \<longleftrightarrow>
     (case r of
        Inl e \<Rightarrow> False
      | Inr (IdCurrentProcess reason) \<Rightarrow> (reason = None) = (plc_child_identity (ctx_config context) = CurrentProcess)
      | Inr (IdToken token audit) \<Rightarrow>
          pla_requested_identity audit = plc_child_identity (ctx_config context)
          \<and> plc_child_identity (ctx_config context) \<noteq> CurrentProcess
          \<and> (\<exists>sid. pla_target_session_id audit = Some sid
               \<and> token_of_session os context sid (pla_elevated audit) token
               \<and> (case pla_resolved_source audit of
                    SourceCurrentProcess \<Rightarrow> False
                  | SourceMcpPeerSession \<Rightarrow> tcc_peer_session_id (ctx_tool_call context) = Some sid
                  | SourceActiveInteractiveSession \<Rightarrow> os_active_console os = sid)))"

lemma token_for_session_ok:
  assumes "token_for_session os context source sid reason = Inr (token, audit)"
    and "plc_child_identity (ctx_config context) \<noteq> CurrentProcess"
    and "source = SourceMcpPeerSession \<and> tcc_peer_session_id (ctx_tool_call context) = Some sid
      \<or> source = SourceActiveInteractiveSession \<and> active_console_session_id os = Some sid"
  shows "identity_ok os context (Inr (IdToken token audit))"
  using assms
  by (auto simp: token_for_session_def token_of_session_def identity_ok_def active_console_session_id_def
      split: sum.splits if_splits option.splits)

lemma resolve_fallback_ok:
  assumes "plc_child_identity (ctx_config context) \<noteq> CurrentProcess"
  shows "identity_ok os context (resolve_fallback_identity os context reason)"
proof -
  have plain: "identity_ok os context (Inr (IdCurrentProcess (Some r)))" for r
    using assms by (simp add: identity_ok_def)
  show ?thesis
    unfolding resolve_fallback_identity_def
    by (auto simp: plain split: fallback_child_identity.split option.split sum.split
        intro: token_for_session_ok[OF _ assms])
qed

lemma resolve_user_ok: "identity_ok os context (resolve_user_identity os context)"
proof (cases "plc_child_identity (ctx_config context) = CurrentProcess")
  case True
  then show ?thesis by (simp add: resolve_user_identity_def identity_ok_def)
next
  case False
  then show ?thesis
    unfolding resolve_user_identity_def
    by (auto simp: resolve_fallback_ok split: child_identity.split option.split sum.split
        intro: token_for_session_ok[OF _ False])
qed

text \<open>What the audit of a child says against how the child was created.\<close>

definition audit_true :: "'t launch_os \<Rightarrow> process_launch_spec \<Rightarrow> process_launch_context \<Rightarrow> managed_child \<Rightarrow> bool" where
  "audit_true os spec context child \<longleftrightarrow>
     pla_requested_identity (mc_audit child) = plc_child_identity (ctx_config context)
     \<and> (\<exists>token env. os_create os (create_request_of spec token env) = Inr (mc_pid child)
          \<and> (case token of
               None \<Rightarrow>
                 pla_resolved_source (mc_audit child) = SourceCurrentProcess
                 \<and> pla_target_session_id (mc_audit child) = None \<and> \<not> pla_elevated (mc_audit child)
                 \<and> (pla_fallback_reason (mc_audit child) = None) =
                     (plc_child_identity (ctx_config context) = CurrentProcess)
             | Some t \<Rightarrow>
                 (\<exists>sid. pla_target_session_id (mc_audit child) = Some sid
                    \<and> token_of_session os context sid (pla_elevated (mc_audit child)) t
                    \<and> (case pla_resolved_source (mc_audit child) of
                         SourceCurrentProcess \<Rightarrow> False
                       | SourceMcpPeerSession \<Rightarrow> tcc_peer_session_id (ctx_tool_call context) = Some sid
                       | SourceActiveInteractiveSession \<Rightarrow> os_active_console os = sid))))"

lemma create_process_created:
  "create_process_with_optional_token os spec token = Inr child \<Longrightarrow>
     \<exists>env. os_create os (create_request_of spec token env) = Inr (mc_pid child)"
  by (auto simp: create_process_with_optional_token_def split: sum.splits prod.splits)

lemma spawn_as_current_ok:
  assumes "(reason = None) = (plc_child_identity (ctx_config context) = CurrentProcess)"
  shows "case spawn_as_current os spec context reason of
      Inr child \<Rightarrow> audit_true os spec context child
    | Inl e \<Rightarrow> create_process_with_optional_token os spec None = Inl e"
  using assms create_process_created[of os spec None]
  by (auto simp: spawn_as_current_def audit_true_def current_process_audit_def split: sum.split)

text \<open>
  The audit of a started child is true: it names the requested identity; a child it reports as
  running in a user's session was created with that session's token, elevated exactly when the
  linked token was used, and the session is the caller's or the active console's as reported; a child
  it reports as running like the server was created without a token, and a reason is given exactly
  when another identity was asked for. Starting fails only if the process cannot be created as the
  server's own identity either: trouble with tokens never stops a launch.
\<close>

theorem spawn_audit_correct:
  "case windows_spawn_process os spec context of
     Inr child \<Rightarrow> audit_true os spec context child
   | Inl e \<Rightarrow> create_process_with_optional_token os spec None = Inl e"
proof -
  note ok = resolve_user_ok[of os "context"]
  show ?thesis
  proof (cases "resolve_user_identity os context")
    case (Inl e)
    with ok show ?thesis by (simp add: identity_ok_def)
  next
    case (Inr r)
    show ?thesis
    proof (cases r)
      case (IdCurrentProcess reason)
      then show ?thesis
        using Inr ok spawn_as_current_ok[of reason "context" os spec]
        by (simp add: windows_spawn_process_def identity_ok_def)
    next
      case (IdToken token audit)
      then have id: "identity_ok os context (Inr (IdToken token audit))" using ok Inr by simp
      show ?thesis
      proof (cases "create_process_with_optional_token os spec (Some token)")
        case (Inl e)
        then show ?thesis
          using Inr IdToken id spawn_as_current_ok[of "Some m" "context" os spec for m]
          by (auto simp: windows_spawn_process_def identity_ok_def)
      next
        case (Inr child)
        then show ?thesis
          using \<open>resolve_user_identity os context = Inr r\<close> IdToken id create_process_created[OF Inr]
          by (auto simp: windows_spawn_process_def identity_ok_def audit_true_def intro!: exI[of _ "Some token"])
      qed
    qed
  qed
qed

section \<open>The peer of a connection\<close>

text \<open>
  The process found for a connection owns the client's end of this very connection: its row has
  the client's address and port on its own side and the server's on the other, and both ends are
  loopback addresses of one family. Where no such row exists, or a table cannot be read, there is
  neither a process nor a session.
\<close>

theorem peer_context_correct:
  "case tcc_peer_pid (resolve_peer_process_context table4 table6 session_of server peer) of
     Some pid \<Rightarrow>
       is_loopback (sa_ip server) \<and> is_loopback (sa_ip peer)
       \<and> (\<exists>rows row. Inr rows = (case sa_ip peer of IpV4 _ \<Rightarrow> table4 | IpV6 _ \<Rightarrow> table6) \<and> row \<in> set rows
            \<and> row_pid row = pid \<and> row_local_ip row = sa_ip peer \<and> tcp_port (row_local_port row) = sa_port peer
            \<and> row_remote_ip row = sa_ip server \<and> tcp_port (row_remote_port row) = sa_port server)
       \<and> tcc_peer_session_id (resolve_peer_process_context table4 table6 session_of server peer)
           = ok_opt (session_of pid)
   | None \<Rightarrow> tcc_peer_session_id (resolve_peer_process_context table4 table6 session_of server peer) = None"
  by (auto simp: resolve_peer_process_context_def windows_tcp_owner_pid_def tcp_owner_pid_def ok_opt_def Let_def
      split: ip_addr.splits sum.splits option.splits dest!: List_find_SomeD)

text \<open>
  A finished child whose exit code is 259 is reported as still running, and waiting for it gives
  no exit code; every other exit code is reported as it is, as a signed number.
\<close>

theorem exit_code_correct:
  "windows_try_wait (Inr code) = Inr (if code = 259 then None else Some (Some (sint code)))
   \<and> windows_wait show WaitObject0 (Inr code) = Inr (if code = 259 then None else Some (sint code))"
  by (simp add: windows_try_wait_def windows_wait_def STILL_ACTIVE_EXIT_def)

section \<open>The command line on the wire\<close>

text \<open>Windows is handed UTF-16 and reads it up to the first zero.\<close>

definition no_nul :: "os_text \<Rightarrow> bool" where
  "no_nul t \<longleftrightarrow> (\<forall>c \<in> set t. 0 < c \<and> c < 0x110000)"

lemma no_nul_simps [simp]:
  "no_nul (a @ b) \<longleftrightarrow> no_nul a \<and> no_nul b" "no_nul (c # a) \<longleftrightarrow> 0 < c \<and> c < 0x110000 \<and> no_nul a" "no_nul []"
  "no_nul (replicate n backslash)"
  by (auto simp: no_nul_def)

lemma no_nul_quote_loop: "no_nul t \<Longrightarrow> no_nul q \<Longrightarrow> no_nul (quote_loop t b q)"
  by (induction t b q rule: quote_loop.induct) auto

lemma no_nul_quote: "no_nul t \<Longrightarrow> no_nul (quote_windows_arg t)"
  by (simp add: quote_windows_arg_def no_nul_quote_loop)

lemma no_nul_lossy: "no_nul t \<Longrightarrow> no_nul (to_string_lossy t)"
  by (auto simp: no_nul_def to_string_lossy_def)

lemma no_nul_command_line: "no_nul executable \<Longrightarrow> list_all no_nul args \<Longrightarrow> no_nul (command_line executable args)"
  by (induction args)
    (simp_all add: command_line_def join_space_concat no_nul_quote no_nul_lossy)

lemma set_replicate_subset: "x \<in> set (replicate n backslash) \<Longrightarrow> x = backslash"
  by (induction n) auto

lemma quote_loop_chars: "set (quote_loop t b q) \<subseteq> set t \<union> set q \<union> {backslash, quote_mark}"
proof (induction t b q rule: quote_loop.induct)
  case (2 ch chs backslashes quoted)
  have "set (replicate backslashes backslash) \<subseteq> {backslash}" "set (replicate (backslashes * 2 + 1) backslash) \<subseteq> {backslash}"
    using set_replicate_subset by blast+
  then show ?case using 2 by (cases "ch = backslash"; cases "ch = quote_mark") (simp_all, blast+)
qed (use set_replicate_subset in auto)

lemma command_line_no_surrogate: "c \<in> set (command_line executable args) \<Longrightarrow> \<not> is_surrogate c"
proof -
  have q: "\<not> is_surrogate c" if "c \<in> set (quote_windows_arg (to_string_lossy t))" for t
    using that quote_loop_chars[of "to_string_lossy t" 0 "[quote_mark]"]
    by (auto simp: quote_windows_arg_def to_string_lossy_def is_surrogate_def split: if_splits)
  assume "c \<in> set (command_line executable args)"
  then have "c \<in> set (quote_windows_arg (to_string_lossy executable)) \<or> c = space
      \<or> (\<exists>arg \<in> set args. c \<in> set (quote_windows_arg (to_string_lossy arg)))"
    by (auto simp: command_line_def join_space_concat split: if_splits)
  then show ?thesis using q by (auto simp: is_surrogate_def)
qed

lemma wide_ok_plain: "\<forall>c \<in> set t. c < 0x110000 \<and> \<not> is_surrogate c \<Longrightarrow> wide_ok t"
  by (induction t rule: wide_ok.induct) (auto simp: is_surrogate_def is_high_def)

lemma encode_no_nul: "no_nul t \<Longrightarrow> 0 \<notin> set (encode_wide t)"
  by (auto simp: no_nul_def encode_wide_def encode_char_def split: if_splits)

lemma sent_to_windows:
  assumes "no_nul executable" "list_all no_nul args"
  shows "from_wide (takeWhile (\<lambda>u. u \<noteq> 0) (to_wide_null (command_line executable args))) = command_line executable args"
proof -
  let ?t = "command_line executable args"
  have n: "no_nul ?t" by (rule no_nul_command_line[OF assms])
  have "wide_ok ?t"
    using n command_line_no_surrogate[of _ executable args] by (intro wide_ok_plain) (auto simp: no_nul_def)
  moreover have "takeWhile (\<lambda>u. u \<noteq> 0) (to_wide_null ?t) = encode_wide ?t"
    using encode_no_nul[OF n] by (subst to_wide_null_def, subst takeWhile_append2) (auto intro: gr0I)
  ultimately show ?thesis by (simp add: from_wide_encode)
qed

text \<open>
  C32. The arguments arrive: if neither the program nor an argument has a NUL character, Windows is handed the quoted
  name of the program, and behind it a text in which a program that reads its command line by the documented rules
  finds the arguments that were asked for, empty arguments, blanks, quotation marks and runs of backslashes included.
  What the code does to an argument is that a lone surrogate becomes the replacement character; arguments without
  lone surrogates are found exactly as they were.
\<close>

theorem command_line_roundtrip:
  assumes "\<And>t as. args_read t as \<Longrightarrow> argv t = as" "no_nul executable" "list_all no_nul args"
  shows "\<exists>arguments. from_wide (takeWhile (\<lambda>u. u \<noteq> 0) (to_wide_null (command_line executable args)))
        = quote_windows_arg (to_string_lossy executable) @ arguments
    \<and> argv arguments = map to_string_lossy args
    \<and> (list_all (\<lambda>arg. \<not> list_ex is_surrogate arg) args \<longrightarrow> argv arguments = args)"
proof -
  let ?as = "concat (map (\<lambda>arg. space # quote_windows_arg arg) (map to_string_lossy args))"
  have "command_line executable args = quote_windows_arg (to_string_lossy executable) @ ?as"
    by (simp add: command_line_def join_space_concat comp_def)
  moreover have "argv ?as = map to_string_lossy args" by (rule assms(1)[OF args_reads_all])
  moreover have "map to_string_lossy args = args" if "list_all (\<lambda>arg. \<not> list_ex is_surrogate arg) args"
    using that by (auto simp: list_all_iff list_ex_iff to_string_lossy_def intro!: map_idI)
  ultimately show ?thesis using sent_to_windows[OF assms(2,3)] by auto
qed

lemma command_line_roundtrip_witness:
  "\<exists>arguments. from_wide (takeWhile (\<lambda>u. u \<noteq> 0) (to_wide_null (command_line (lit ''a.exe'') [lit ''x y'', [], [quote_mark, backslash]])))
      = quote_windows_arg (to_string_lossy (lit ''a.exe'')) @ arguments
    \<and> scan_args arguments = [lit ''x y'', [], [quote_mark, backslash]]"
proof -
  let ?args = "[lit ''x y'', [], [quote_mark, backslash]]"
  have "no_nul (lit ''a.exe'')" "list_all no_nul ?args" "list_all (\<lambda>arg. \<not> list_ex is_surrogate arg) ?args"
    by (simp_all add: is_surrogate_def)
  with command_line_roundtrip[of scan_args "lit ''a.exe''" ?args, OF args_read_scan] show ?thesis by blast
qed

end
