(* ===== verification/Json.thy ===== *)
theory Json
  imports Unicode "HOL-Library.List_Lexorder"
begin

text \<open>
  \<open>serde_json::Value\<close> and how derived \<open>Deserialize\<close> implementations read it. An object is the
  \<open>BTreeMap\<close> that \<open>serde_json\<close> uses, ordered by name.
\<close>

section \<open>Values\<close>

text \<open>The text of a literal of the code, kept folded.\<close>

definition chars :: "string \<Rightarrow> utext" where
  "chars s = lit s"

lemma chars_inj [simp]: "(chars a = chars b) = (a = b)"
  by (simp add: chars_def inj_map_eq_map inj_on_def)

lemma chars_Nil [simp]: "(chars s = []) = (s = [])"
  by (simp add: chars_def)

text \<open>A number is an unsigned or a negative 64-bit integer, or a float, which the code never
  computes with.\<close>

datatype json_number = PosInt nat | NegInt int | JFloat string

datatype json =
    JNull
  | JBoolean bool
  | JNum json_number
  | JText utext
  | JArray "json list"
  | JObject "(utext \<times> json) list"

text \<open>The \<open>json!\<close> macro on an object with constant names.\<close>

definition obj :: "(string \<times> json) list \<Rightarrow> json" where
  "obj entries = JObject (foldl (\<lambda>m (k, v). bt_insert (chars k) v m) [] entries)"

abbreviation text_value :: "string \<Rightarrow> json" where
  "text_value s \<equiv> JText (chars s)"

text \<open>A \<open>string\<close> of the model holds the bytes of a text; this is the text.\<close>

definition text_of :: "string \<Rightarrow> utext" where
  "text_of s = utf8_lossy (map of_char s)"

definition string_of :: "utext \<Rightarrow> string" where
  "string_of t = map char_of (utf8_encode t)"

text \<open>\<open>Value::get\<close> with a name, \<open>as_str\<close> and \<open>as_object\<close>.\<close>

fun json_get :: "json \<Rightarrow> utext \<Rightarrow> json option" where
  "json_get (JObject m) k = bt_get m k"
| "json_get _ k = None"

fun as_str :: "json \<Rightarrow> utext option" where
  "as_str (JText t) = Some t"
| "as_str _ = None"

fun as_object :: "json \<Rightarrow> (utext \<times> json) list option" where
  "as_object (JObject m) = Some m"
| "as_object _ = None"

text \<open>Every object within a value is ordered by name, without duplicates.\<close>

fun json_ok :: "json \<Rightarrow> bool" where
  "json_ok (JArray vs) = (\<forall>v \<in> set vs. json_ok v)"
| "json_ok (JObject m) = (bt_ok m \<and> (\<forall>(k, v) \<in> set m. json_ok v))"
| "json_ok _ = True"

lemma json_get_obj: "json_get (obj entries) k = map_of (rev (map (\<lambda>(k, v). (chars k, v)) entries)) k"
proof -
  have "bt_get (foldl (\<lambda>m (k, v). bt_insert (chars k) v m) m0 entries) k
      = (case map_of (rev (map (\<lambda>(k, v). (chars k, v)) entries)) k of Some v \<Rightarrow> Some v | None \<Rightarrow> bt_get m0 k)" for m0
    by (induction entries arbitrary: m0) (auto simp: bt_get_insert map_add_def split: option.split)
  from this[of "[]"] show ?thesis by (auto simp: obj_def bt_get_def split: option.split)
qed

section \<open>Derived decoders\<close>

text \<open>
  A struct is read from an object by the names of its fields, or from an array by their order. Each
  field is given with whether it has \<open>#[serde(default)]\<close>; an array may stop short at such fields
  only. An object field that is absent is \<open>None\<close> here, and up to the field's own decoder. With
  \<open>deny\<close> (\<open>deny_unknown_fields\<close>) an object may have no other names.
\<close>

definition struct_fields :: "bool \<Rightarrow> (string \<times> bool) list \<Rightarrow> json \<Rightarrow> json option list option" where
  "struct_fields deny names v =
     (case v of
        JObject m \<Rightarrow>
          (if deny \<and> (\<exists>k \<in> set (map fst m). k \<notin> set (map (chars \<circ> fst) names)) then None
           else Some (map (\<lambda>(n, _). bt_get m (chars n)) names))
      | JArray vs \<Rightarrow>
          (if length vs \<le> length names \<and> list_all snd (drop (length vs) names)
           then Some (map Some vs @ replicate (length names - length vs) None) else None)
      | _ \<Rightarrow> None)"

fun decode_text :: "json option \<Rightarrow> utext option" where
  "decode_text (Some (JText t)) = Some t"
| "decode_text _ = None"

fun decode_bool :: "json option \<Rightarrow> bool option" where
  "decode_bool (Some (JBoolean b)) = Some b"
| "decode_bool _ = None"

text \<open>An unsigned number of the given width, and an optional one, where \<open>null\<close> counts as absent.\<close>

fun decode_nat :: "nat \<Rightarrow> json option \<Rightarrow> nat option" where
  "decode_nat bits (Some (JNum (PosInt n))) = (if n < 2 ^ bits then Some n else None)"
| "decode_nat bits _ = None"

fun decode_opt :: "(json option \<Rightarrow> 'a option) \<Rightarrow> json option \<Rightarrow> 'a option option" where
  "decode_opt f None = Some None"
| "decode_opt f (Some JNull) = Some None"
| "decode_opt f (Some v) = map_option Some (f (Some v))"

text \<open>A field with a default keeps it when absent, and only then.\<close>

definition decode_default :: "'a \<Rightarrow> (json option \<Rightarrow> 'a option) \<Rightarrow> json option \<Rightarrow> 'a option" where
  "decode_default d f v = (if v = None then Some d else f v)"

fun all_some :: "'a option list \<Rightarrow> 'a list option" where
  "all_some [] = Some []"
| "all_some (None # xs) = None"
| "all_some (Some x # xs) = map_option ((#) x) (all_some xs)"

fun decode_list :: "(json option \<Rightarrow> 'a option) \<Rightarrow> json option \<Rightarrow> 'a list option" where
  "decode_list f (Some (JArray vs)) = all_some (map (\<lambda>v. f (Some v)) vs)"
| "decode_list f _ = None"

text \<open>An internally tagged enum: the tag, and the rest for the variant's struct.\<close>

definition tagged :: "string \<Rightarrow> json option \<Rightarrow> (utext \<times> json) option" where
  "tagged tag v =
     (case v of
        Some (JObject m) \<Rightarrow>
          (case bt_get m (chars tag) of
             Some (JText t) \<Rightarrow> Some (t, JObject (bt_remove (chars tag) m))
           | _ \<Rightarrow> None)
      | Some (JArray (JText t # vs)) \<Rightarrow> Some (t, JArray vs)
      | _ \<Rightarrow> None)"

end
