(* ===== verification/Tools.thy ===== *)
theory Tools
  imports Session_Eval Launch Json
begin

text \<open>
  The tools of the server (\<open>mcp/tools\<close>): how a tool call is decoded and routed
  (\<open>registry.rs\<close>, \<open>adapters.rs\<close>), the debug tools that do more than call the session manager
  (\<open>debug.rs\<close>), and the schemas shown for the tools of IDA. The managers are the fields of
  \<open>tools\<close>, functions on the server's state; their own models are in other theories.
\<close>

section \<open>Requests\<close>

record add_symbols_request =
  as_session :: session_id
  as_paths :: "utext list"

record close_ida_session_request =
  ci_session :: session_id
  ci_save :: bool

text \<open>The libraries: how the \<open>uuid\<close> crate reads a text; how \<open>serde_json\<close> says what it did not
  understand, prints a value (compactly and over several lines) and parses one; and the version of the
  package that the build fills in.\<close>

record serde_lib =
  sl_parse_uuid :: "utext \<Rightarrow> session_id option"
  sl_error :: "string \<Rightarrow> json \<Rightarrow> utext"
  sl_print :: "json \<Rightarrow> byte list"
  sl_pretty :: "json \<Rightarrow> utext"
  sl_parse :: "byte list \<Rightarrow> utext + json"
  sl_pkg_version :: utext

definition decode_id :: "serde_lib \<Rightarrow> json option \<Rightarrow> session_id option" where
  "decode_id lib v = Option.bind (decode_text v) (sl_parse_uuid lib)"

definition decode_get_session :: "serde_lib \<Rightarrow> json \<Rightarrow> session_id option" where
  "decode_get_session lib v =
     (case struct_fields False [(''session_id'', False)] v of
        Some [i] \<Rightarrow> decode_id lib i
      | _ \<Rightarrow> None)"

definition decode_get_ida_session :: "serde_lib \<Rightarrow> json \<Rightarrow> session_id option" where
  "decode_get_ida_session lib v =
     (case struct_fields True [(''session_id'', False)] v of
        Some [i] \<Rightarrow> decode_id lib i
      | _ \<Rightarrow> None)"

definition decode_close_ida_session :: "serde_lib \<Rightarrow> json \<Rightarrow> close_ida_session_request option" where
  "decode_close_ida_session lib v =
     (case struct_fields True [(''session_id'', False), (''save'', True)] v of
        Some [i, sv] \<Rightarrow>
          (case (decode_id lib i, decode_default True decode_bool sv) of
             (Some i', Some sv') \<Rightarrow> Some \<lparr>ci_session = i', ci_save = sv'\<rparr>
           | _ \<Rightarrow> None)
      | _ \<Rightarrow> None)"

definition decode_eval :: "serde_lib \<Rightarrow> json \<Rightarrow> eval_request option" where
  "decode_eval lib v =
     (case struct_fields False [(''session_id'', False), (''command'', False), (''timeout_ms'', False)] v of
        Some [i, c, t] \<Rightarrow>
          (case (decode_id lib i, decode_text c, decode_opt (decode_nat 64) t) of
             (Some i', Some c', Some t') \<Rightarrow> Some \<lparr>er_session = i', er_command = c', er_timeout_ms = t'\<rparr>
           | _ \<Rightarrow> None)
      | _ \<Rightarrow> None)"

definition decode_add_symbols :: "serde_lib \<Rightarrow> json \<Rightarrow> add_symbols_request option" where
  "decode_add_symbols lib v =
     (case struct_fields True [(''session_id'', False), (''paths'', False)] v of
        Some [i, p] \<Rightarrow>
          (case (decode_id lib i, decode_list decode_text p) of
             (Some i', Some p') \<Rightarrow> Some \<lparr>as_session = i', as_paths = p'\<rparr>
           | _ \<Rightarrow> None)
      | _ \<Rightarrow> None)"

text \<open>\<open>McpDebugTarget\<close> and its conversion.\<close>

definition decode_debug_target :: "json option \<Rightarrow> debug_target option" where
  "decode_debug_target v =
     (case tagged ''kind'' v of
        None \<Rightarrow> None
      | Some (kind, r) \<Rightarrow>
          if kind = chars ''dump'' then
            (case struct_fields False [(''path'', False)] r of
               Some [p] \<Rightarrow> map_option (\<lambda>p. Dump (string_of p)) (decode_text p)
             | _ \<Rightarrow> None)
          else if kind = chars ''attach'' then
            (case struct_fields False [(''pid'', False)] r of
               Some [p] \<Rightarrow> map_option (\<lambda>n. Attach (word_of_nat n)) (decode_nat 32 p)
             | _ \<Rightarrow> None)
          else if kind = chars ''launch'' then
            (case struct_fields False [(''executable'', False), (''args'', True)] r of
               Some [e, a] \<Rightarrow>
                 (case (decode_text e, decode_default [] (decode_list decode_text) a) of
                    (Some e', Some a') \<Rightarrow> Some (Session_Types.Launch (string_of e') a')
                  | _ \<Rightarrow> None)
             | _ \<Rightarrow> None)
          else None)"

definition decode_create_session :: "json \<Rightarrow> create_session_request option" where
  "decode_create_session v =
     (case struct_fields False [(''target'', False), (''startup_timeout_ms'', False)] v of
        Some [t, m] \<Rightarrow>
          (case (decode_debug_target t, decode_opt (decode_nat 64) m) of
             (Some t', Some m') \<Rightarrow> Some \<lparr>cs_target = t', cs_startup_timeout_ms = m'\<rparr>
           | _ \<Rightarrow> None)
      | _ \<Rightarrow> None)"

section \<open>Answers\<close>

datatype tool_call_error = InvalidRequest utext | Execution utext

definition decode_arguments :: "serde_lib \<Rightarrow> string \<Rightarrow> (json \<Rightarrow> 'a option) \<Rightarrow> json \<Rightarrow> tool_call_error + 'a" where
  "decode_arguments lib what decode arguments =
     (let arguments = (if arguments = JNull then JObject [] else arguments)
      in case decode arguments of
           Some request \<Rightarrow> Inr request
         | None \<Rightarrow> Inl (InvalidRequest (chars ''invalid tool arguments: '' @ sl_error lib what arguments)))"

text \<open>\<open>to_value\<close>; serializing is the derived code, a parameter.\<close>

definition to_value :: "('a \<Rightarrow> utext + json) \<Rightarrow> 'a \<Rightarrow> tool_call_error + json" where
  "to_value ser x =
     (case ser x of Inr v \<Rightarrow> Inr v | Inl e \<Rightarrow> Inl (Execution (chars ''serialize tool result: '' @ e)))"

text \<open>The managers behind the tools. \<open>tl_run_profile\<close>, \<open>tl_record_ttd\<close>, \<open>tl_create_ida\<close> and
  \<open>tl_call_upstream\<close> decode their own arguments.\<close>

record 's tools =
  tl_show_id :: "session_id \<Rightarrow> string"
  tl_create_session :: "create_session_request \<Rightarrow> tool_call_context \<Rightarrow> 's \<Rightarrow> session result \<times> 's"
  tl_query_session :: "session_id \<Rightarrow> 's \<Rightarrow> session result"
  tl_list_sessions :: "'s \<Rightarrow> session list result"
  tl_close_session :: "session_id \<Rightarrow> 's \<Rightarrow> session result \<times> 's"
  tl_eval :: "eval_request \<Rightarrow> 's \<Rightarrow> eval_result result \<times> 's"
  tl_run_profile :: "json \<Rightarrow> tool_call_context \<Rightarrow> 's \<Rightarrow> (tool_call_error + json) \<times> 's"
  tl_record_ttd :: "json \<Rightarrow> tool_call_context \<Rightarrow> 's \<Rightarrow> (tool_call_error + json) \<times> 's"
  tl_create_ida :: "json \<Rightarrow> tool_call_context \<Rightarrow> 's \<Rightarrow> (tool_call_error + json) \<times> 's"
  tl_get_ida :: "session_id \<Rightarrow> 's \<Rightarrow> json result \<times> 's"
  tl_list_ida :: "'s \<Rightarrow> json result \<times> 's"
  tl_close_ida :: "session_id \<Rightarrow> bool \<Rightarrow> 's \<Rightarrow> json result \<times> 's"
  tl_subscribe :: "'s \<Rightarrow> 's"
  tl_call_upstream :: "utext \<Rightarrow> json \<Rightarrow> 's \<Rightarrow> (tool_call_error + json) \<times> 's"
  tl_session_value :: "session \<Rightarrow> utext + json"
  tl_session_pretty :: "session \<Rightarrow> utext + utext"
  tl_eval_value :: "eval_result \<Rightarrow> utext + json"
  tl_descriptors :: "'s \<Rightarrow> json list"

definition execution_error :: "'s tools \<Rightarrow> dbgflow_error \<Rightarrow> tool_call_error" where
  "execution_error t e = Execution (text_of (error_text (tl_show_id t) e))"

definition answer :: "'s tools \<Rightarrow> ('a \<Rightarrow> utext + json) \<Rightarrow> 'a result \<times> 's \<Rightarrow> (tool_call_error + json) \<times> 's" where
  "answer t ser r =
     (case r of
        (Inl e, s) \<Rightarrow> (Inl (execution_error t e), s)
      | (Inr x, s) \<Rightarrow> (to_value ser x, s))"

text \<open>The value of a list of sessions: the first failure stops.\<close>

fun sessions_value :: "(session \<Rightarrow> utext + json) \<Rightarrow> session list \<Rightarrow> utext + json" where
  "sessions_value ser [] = Inr (JArray [])"
| "sessions_value ser (x # xs) =
     (case ser x of
        Inl e \<Rightarrow> Inl e
      | Inr v \<Rightarrow>
          (case sessions_value ser xs of
             Inr (JArray vs) \<Rightarrow> Inr (JArray (v # vs))
           | r \<Rightarrow> r))"

text \<open>A call with decoded arguments; nothing happens when they are not understood.\<close>

definition with_arguments ::
    "tool_call_error + 'a \<Rightarrow> ('a \<Rightarrow> 's \<Rightarrow> (tool_call_error + json) \<times> 's) \<Rightarrow> 's \<Rightarrow> (tool_call_error + json) \<times> 's" where
  "with_arguments decoded f s = (case decoded of Inl e \<Rightarrow> (Inl e, s) | Inr request \<Rightarrow> f request s)"

section \<open>Adding symbols\<close>

definition symbol_path_forbidden :: "utext \<Rightarrow> bool" where
  "symbol_path_forbidden path =
     (\<exists>ch \<in> set path. ch = 13 \<or> ch = 10 \<or> ch = 0x2028 \<or> ch = 0x2029 \<or> is_control ch)"

text \<open>The loop over the paths, with the result of the last command so far.\<close>

fun add_symbols_loop ::
    "'s tools \<Rightarrow> session_id \<Rightarrow> utext list \<Rightarrow> eval_result option \<Rightarrow> 's \<Rightarrow> eval_result option result \<times> 's" where
  "add_symbols_loop t i [] res s = (Inr res, s)"
| "add_symbols_loop t i (path # paths) res s =
     (if trim path = [] then (Inl (Backend ''symbol path must not be empty''), s)
      else if symbol_path_forbidden path
      then (Inl (Backend ''symbol path contains unsupported control characters''), s)
      else case tl_eval t \<lparr>er_session = i, er_command = chars ''.sympath+ '' @ path, er_timeout_ms = None\<rparr> s of
        (Inl e, s') \<Rightarrow> (Inl e, s')
      | (Inr r, s') \<Rightarrow> add_symbols_loop t i paths (Some r) s')"

definition add_symbols :: "'s tools \<Rightarrow> add_symbols_request \<Rightarrow> 's \<Rightarrow> eval_result result \<times> 's" where
  "add_symbols t request s =
     (if as_paths request = [] then (Inl (Backend ''at least one symbol path is required''), s)
      else case add_symbols_loop t (as_session request) (as_paths request) None s of
        (Inl e, s') \<Rightarrow> (Inl e, s')
      | (Inr None, s') \<Rightarrow> (Inl (Backend ''no symbol paths were applied''), s')
      | (Inr (Some r), s') \<Rightarrow> (Inr r, s'))"

section \<open>Routing\<close>

definition CREATE_SESSION :: utext where "CREATE_SESSION = chars ''dbg.create_session''"
definition GET_SESSION :: utext where "GET_SESSION = chars ''dbg.get_session''"
definition LIST_SESSIONS :: utext where "LIST_SESSIONS = chars ''dbg.list_sessions''"
definition CLOSE_SESSION :: utext where "CLOSE_SESSION = chars ''dbg.close_session''"
definition EVAL :: utext where "EVAL = chars ''dbg.eval''"
definition ADD_SYMBOLS :: utext where "ADD_SYMBOLS = chars ''dbg.add_symbols''"
definition RECORD_PROFILE :: utext where "RECORD_PROFILE = chars ''trace.record_profile''"
definition RECORD_TTD :: utext where "RECORD_TTD = chars ''trace.record_ttd''"
definition IDA_CREATE_SESSION :: utext where "IDA_CREATE_SESSION = chars ''ida.create_session''"
definition IDA_GET_SESSION :: utext where "IDA_GET_SESSION = chars ''ida.get_session''"
definition IDA_LIST_SESSIONS :: utext where "IDA_LIST_SESSIONS = chars ''ida.list_sessions''"
definition IDA_CLOSE_SESSION :: utext where "IDA_CLOSE_SESSION = chars ''ida.close_session''"
definition IDA_PREFIX :: utext where "IDA_PREFIX = chars ''ida.''"

definition call_tool_with_context ::
    "serde_lib \<Rightarrow> 's tools \<Rightarrow> utext \<Rightarrow> json \<Rightarrow> tool_call_context \<Rightarrow> 's \<Rightarrow> (tool_call_error + json) \<times> 's" where
  "call_tool_with_context lib t name arguments context s =
     (if name = CREATE_SESSION then
        with_arguments (decode_arguments lib ''CreateSessionRequest'' decode_create_session arguments)
          (\<lambda>r s. answer t (tl_session_value t) (tl_create_session t r context s)) s
      else if name = GET_SESSION then
        with_arguments (decode_arguments lib ''GetSessionRequest'' (decode_get_session lib) arguments)
          (\<lambda>i s. answer t (tl_session_value t) (tl_query_session t i s, s)) s
      else if name = LIST_SESSIONS then
        answer t (sessions_value (tl_session_value t)) (tl_list_sessions t s, s)
      else if name = CLOSE_SESSION then
        with_arguments (decode_arguments lib ''CloseSessionRequest'' (decode_get_session lib) arguments)
          (\<lambda>i s. answer t (tl_session_value t) (tl_close_session t i s)) s
      else if name = EVAL then
        with_arguments (decode_arguments lib ''EvalRequest'' (decode_eval lib) arguments)
          (\<lambda>r s. answer t (tl_eval_value t) (tl_eval t r s)) s
      else if name = ADD_SYMBOLS then
        with_arguments (decode_arguments lib ''AddSymbolsRequest'' (decode_add_symbols lib) arguments)
          (\<lambda>r s. answer t (tl_eval_value t) (add_symbols t r s)) s
      else if name = RECORD_PROFILE then tl_run_profile t (if arguments = JNull then JObject [] else arguments) context s
      else if name = RECORD_TTD then tl_record_ttd t (if arguments = JNull then JObject [] else arguments) context s
      else if name = IDA_CREATE_SESSION then
        tl_create_ida t (if arguments = JNull then JObject [] else arguments) context s
      else if name = IDA_GET_SESSION then
        with_arguments (decode_arguments lib ''GetIdaSessionRequest'' (decode_get_ida_session lib) arguments)
          (\<lambda>i s. answer t Inr (tl_get_ida t i s)) s
      else if name = IDA_LIST_SESSIONS then answer t Inr (tl_list_ida t s)
      else if name = IDA_CLOSE_SESSION then
        with_arguments (decode_arguments lib ''CloseIdaSessionRequest'' (decode_close_ida_session lib) arguments)
          (\<lambda>r s. answer t Inr (tl_close_ida t (ci_session r) (ci_save r) s)) s
      else case strip_prefix name IDA_PREFIX of
        Some upstream_name \<Rightarrow>
          tl_call_upstream t upstream_name (if arguments = JNull then JObject [] else arguments) s
      | None \<Rightarrow> (Inl (InvalidRequest (chars ''unknown tool: '' @ name)), s))"

end
