(* ===== verification/Tool_Schemas.thy ===== *)
theory Tool_Schemas
  imports Tools
begin

text \<open>
  What \<open>tools/list\<close> shows: the descriptors of the server's own tools (\<open>schema.rs\<close>) and those of the
  tools of IDA with their schemas adapted (\<open>registry.rs\<close>).
\<close>

section \<open>The tools of the server\<close>

record tool_descriptor =
  td_name :: utext
  td_description :: string
  td_input_schema :: json

abbreviation dq :: string where "dq \<equiv> [CHR 0x22]"
abbreviation bs :: string where "bs \<equiv> [CHR 0x5C]"

definition create_session_descriptor :: tool_descriptor where
  "create_session_descriptor =
    \<lparr>td_name = CREATE_SESSION,
     td_description = ''Create a debug session or return an existing session for the same target.'',
     td_input_schema =
      obj [(''type'', text_value ''object''),
      (''description'', text_value (''Example dump target: {'' @ dq @ ''target'' @ dq @ '':{'' @ dq @ ''kind'' @ dq @ '':'' @ dq @ ''dump'' @ dq @ '','' @ dq @ ''path'' @ dq @ '':'' @ dq @ ''C:'' @ bs @ bs @ ''path'' @ bs @ bs @ ''file.dmp'' @ dq @ ''}}'')),
      (''properties'', obj [(''target'', obj [(''type'', text_value ''object''),
          (''description'', text_value ''Debug target.''),
          (''oneOf'', JArray [obj [(''type'', text_value ''object''),
              (''properties'', obj [(''kind'', obj [(''type'', text_value ''string''), (''const'', text_value ''dump'')]),
                (''path'', obj [(''type'', text_value ''string''),
                  (''description'', text_value ''Path to a local Windows dump file.'')])]),
              (''required'', JArray [text_value ''kind'', text_value ''path'']),
              (''additionalProperties'', JBoolean False)], obj [(''type'', text_value ''object''),
              (''properties'', obj [(''kind'', obj [(''type'', text_value ''string''), (''const'', text_value ''attach'')]),
                (''pid'', obj [(''type'', text_value ''integer''),
                  (''minimum'', JNum (PosInt 1)),
                  (''description'', text_value ''Process id to attach.'')])]),
              (''required'', JArray [text_value ''kind'', text_value ''pid'']),
              (''additionalProperties'', JBoolean False)], obj [(''type'', text_value ''object''),
              (''properties'', obj [(''kind'', obj [(''type'', text_value ''string''), (''const'', text_value ''launch'')]),
                (''executable'', obj [(''type'', text_value ''string''),
                  (''description'', text_value ''Path to a local executable.'')]),
                (''args'', obj [(''type'', text_value ''array''),
                  (''items'', obj [(''type'', text_value ''string'')]),
                  (''description'', text_value ''Command-line arguments. Omit for no arguments.'')])]),
              (''required'', JArray [text_value ''kind'', text_value ''executable'']),
              (''additionalProperties'', JBoolean False)]])])]),
      (''required'', JArray [text_value ''target'']),
      (''additionalProperties'', JBoolean False)]\<rparr>"

definition get_session_descriptor :: tool_descriptor where
  "get_session_descriptor =
    \<lparr>td_name = GET_SESSION,
     td_description = ''Get the current state of a debug session.'',
     td_input_schema =
      obj [(''type'', text_value ''object''),
      (''properties'', obj [(''session_id'', obj [(''type'', text_value ''string''),
          (''description'', text_value ''Session id returned by dbg.create_session.'')])]),
      (''required'', JArray [text_value ''session_id'']),
      (''additionalProperties'', JBoolean False)]\<rparr>"

definition list_sessions_descriptor :: tool_descriptor where
  "list_sessions_descriptor =
    \<lparr>td_name = LIST_SESSIONS,
     td_description = ''List debug sessions.'',
     td_input_schema =
      obj [(''type'', text_value ''object''),
      (''properties'', obj []),
      (''additionalProperties'', JBoolean False)]\<rparr>"

definition close_session_descriptor :: tool_descriptor where
  "close_session_descriptor =
    \<lparr>td_name = CLOSE_SESSION,
     td_description = ''Close a debug session.'',
     td_input_schema =
      obj [(''type'', text_value ''object''),
      (''properties'', obj [(''session_id'', obj [(''type'', text_value ''string''),
          (''description'', text_value ''Session id returned by dbg.create_session.'')])]),
      (''required'', JArray [text_value ''session_id'']),
      (''additionalProperties'', JBoolean False)]\<rparr>"

definition eval_descriptor :: tool_descriptor where
  "eval_descriptor =
    \<lparr>td_name = EVAL,
     td_description = ''Evaluate a native WinDbg/DbgEng command in a session. This is the primary debugging interface, including run-control and TTD analysis commands; avoid long serial stepping/navigation loops and prefer targeted debugger queries.'',
     td_input_schema =
      obj [(''type'', text_value ''object''),
      (''properties'', obj [(''session_id'', obj [(''type'', text_value ''string''),
          (''description'', text_value ''Session id returned by dbg.create_session.'')]),
        (''command'', obj [(''type'', text_value ''string''),
          (''description'', text_value ''Native debugger command.'')])]),
      (''required'', JArray [text_value ''session_id'', text_value ''command'']),
      (''additionalProperties'', JBoolean False)]\<rparr>"

definition add_symbols_descriptor :: tool_descriptor where
  "add_symbols_descriptor =
    \<lparr>td_name = ADD_SYMBOLS,
     td_description = ''Append native debugger symbol path entries to a session.'',
     td_input_schema =
      obj [(''type'', text_value ''object''),
      (''properties'', obj [(''session_id'', obj [(''type'', text_value ''string''),
          (''description'', text_value ''Session id returned by dbg.create_session.'')]),
        (''paths'', obj [(''type'', text_value ''array''),
          (''items'', obj [(''type'', text_value ''string'')]),
          (''minItems'', JNum (PosInt 1)),
          (''description'', text_value ''Debugger symbol path entries. Raw WinDbg symbol path strings are accepted.'')])]),
      (''required'', JArray [text_value ''session_id'', text_value ''paths'']),
      (''additionalProperties'', JBoolean False)]\<rparr>"

definition record_profile_descriptor :: tool_descriptor where
  "record_profile_descriptor =
    \<lparr>td_name = RECORD_PROFILE,
     td_description = ''Launch a process and record a native ETW profile trace as a standard ETL artifact.'',
     td_input_schema =
      obj [(''type'', text_value ''object''),
      (''properties'', obj [(''target'', obj [(''type'', text_value ''object''),
          (''properties'', obj [(''kind'', obj [(''type'', text_value ''string''), (''const'', text_value ''launch'')]),
            (''executable'', obj [(''type'', text_value ''string''),
              (''description'', text_value ''Path to a local executable.'')]),
            (''args'', obj [(''type'', text_value ''array''),
              (''items'', obj [(''type'', text_value ''string'')]),
              (''description'', text_value ''Command-line arguments. Omit for no arguments.'')])]),
          (''required'', JArray [text_value ''kind'', text_value ''executable'']),
          (''additionalProperties'', JBoolean False)]),
        (''timeout_ms'', obj [(''type'', text_value ''integer''),
          (''minimum'', JNum (PosInt 1)),
          (''description'', text_value ''Stop collection when the target exits or this timeout expires.'')]),
        (''collectors'', obj [(''type'', text_value ''array''),
          (''minItems'', JNum (PosInt 1)),
          (''items'', obj [(''type'', text_value ''object''),
            (''properties'', obj [(''kind'', obj [(''type'', text_value ''string''), (''const'', text_value ''native_etw'')]),
              (''scope'', obj [(''type'', text_value ''object''),
                (''properties'', obj [(''kind'', obj [(''type'', text_value ''string''), (''const'', text_value ''target_process'')])]),
                (''required'', JArray [text_value ''kind'']),
                (''additionalProperties'', JBoolean False)]),
              (''event_sets'', obj [(''type'', text_value ''array''),
                (''items'', obj [(''type'', text_value ''string''),
                  (''enum'', JArray [text_value ''process'', text_value ''file_io''])]),
                (''minItems'', JNum (PosInt 1))]),
              (''stacks'', obj [(''type'', text_value ''object''),
                (''properties'', obj [(''enabled'', obj [(''type'', text_value ''boolean'')])]),
                (''additionalProperties'', JBoolean False)])]),
            (''required'', JArray [text_value ''kind'', text_value ''scope'', text_value ''event_sets'']),
            (''additionalProperties'', JBoolean False)]),
          (''description'', text_value ''Collectors to run around the same launched target. Omit to use native_etw target_process process and file_io with stacks enabled.'')])]),
      (''required'', JArray [text_value ''target'', text_value ''timeout_ms'']),
      (''additionalProperties'', JBoolean False)]\<rparr>"

definition record_ttd_descriptor :: tool_descriptor where
  "record_ttd_descriptor =
    \<lparr>td_name = RECORD_TTD,
     td_description = ''Record a Time Travel Debugging trace with TTD.exe. Supports launch, attach, and bounded monitor recording into controlled artifacts. This records traces only; analyze .run files with native WinDbg TTD commands through dbg.eval after opening them in a debug session, and avoid long serial stepping/navigation command loops.'',
     td_input_schema =
      obj [(''type'', text_value ''object''),
      (''properties'', obj [(''target'', obj [(''type'', text_value ''object''),
          (''oneOf'', JArray [obj [(''type'', text_value ''object''),
              (''properties'', obj [(''kind'', obj [(''type'', text_value ''string''), (''const'', text_value ''launch'')]),
                (''executable'', obj [(''type'', text_value ''string''),
                  (''description'', text_value ''Path to a local executable.'')]),
                (''args'', obj [(''type'', text_value ''array''),
                  (''items'', obj [(''type'', text_value ''string'')]),
                  (''description'', text_value ''Command-line arguments. Omit for no arguments.'')])]),
              (''required'', JArray [text_value ''kind'', text_value ''executable'']),
              (''additionalProperties'', JBoolean False)], obj [(''type'', text_value ''object''),
              (''properties'', obj [(''kind'', obj [(''type'', text_value ''string''), (''const'', text_value ''attach'')]),
                (''pid'', obj [(''type'', text_value ''integer''),
                  (''minimum'', JNum (PosInt 1)),
                  (''description'', text_value ''Process id to attach and record.'')])]),
              (''required'', JArray [text_value ''kind'', text_value ''pid'']),
              (''additionalProperties'', JBoolean False)], obj [(''type'', text_value ''object''),
              (''properties'', obj [(''kind'', obj [(''type'', text_value ''string''), (''const'', text_value ''monitor'')]),
                (''program'', obj [(''type'', text_value ''string''),
                  (''description'', text_value ''Executable file name or absolute executable path to monitor.'')]),
                (''cmd_line_filter'', obj [(''type'', text_value ''string''),
                  (''description'', text_value ''Optional command-line substring filter for monitor mode.'')])]),
              (''required'', JArray [text_value ''kind'', text_value ''program'']),
              (''additionalProperties'', JBoolean False)]])]),
        (''timeout_ms'', obj [(''type'', text_value ''integer''),
          (''minimum'', JNum (PosInt 1)),
          (''description'', text_value ''Stop recording when the recorder exits or this timeout expires.'')]),
        (''options'', obj [(''type'', text_value ''object''),
          (''properties'', obj [(''children'', obj [(''type'', text_value ''boolean'')]),
            (''no_ui'', obj [(''type'', text_value ''boolean'')]),
            (''accept_eula'', obj [(''type'', text_value ''boolean'')]),
            (''ring'', obj [(''type'', text_value ''boolean'')]),
            (''max_file_mb'', obj [(''type'', text_value ''integer''),
              (''minimum'', JNum (PosInt 1)),
              (''description'', text_value ''Maximum TTD trace size in MiB.'')]),
            (''modules'', obj [(''type'', text_value ''array''),
              (''items'', obj [(''type'', text_value ''string'')])]),
            (''record_mode'', obj [(''type'', text_value ''string''),
              (''enum'', JArray [text_value ''automatic'', text_value ''manual''])]),
            (''replay_cpu_support'', obj [(''type'', text_value ''string''),
              (''enum'', JArray [text_value ''default'', text_value ''most_conservative'', text_value ''most_aggressive'', text_value ''intel_avx_required'', text_value ''intel_avx2_required''])])]),
          (''additionalProperties'', JBoolean False)])]),
      (''required'', JArray [text_value ''target'', text_value ''timeout_ms'']),
      (''additionalProperties'', JBoolean False)]\<rparr>"

definition ida_create_session_descriptor :: tool_descriptor where
  "ida_create_session_descriptor =
    \<lparr>td_name = IDA_CREATE_SESSION,
     td_description = ''Open an IDA database or binary input in a long-lived reverse-analysis session.'',
     td_input_schema =
      obj [(''type'', text_value ''object''),
      (''properties'', obj [(''target'', obj [(''type'', text_value ''object''),
          (''description'', text_value ''IDA target.''),
          (''oneOf'', JArray [obj [(''type'', text_value ''object''),
              (''properties'', obj [(''kind'', obj [(''type'', text_value ''string''), (''const'', text_value ''binary'')]),
                (''path'', obj [(''type'', text_value ''string''),
                  (''description'', text_value ''Path to a local PE, ELF, or other IDA loader-recognized input file.'')])]),
              (''required'', JArray [text_value ''kind'', text_value ''path'']),
              (''additionalProperties'', JBoolean False)], obj [(''type'', text_value ''object''),
              (''properties'', obj [(''kind'', obj [(''type'', text_value ''string''), (''const'', text_value ''database'')]),
                (''path'', obj [(''type'', text_value ''string''),
                  (''description'', text_value ''Path to a local .idb or .i64 database.'')])]),
              (''required'', JArray [text_value ''kind'', text_value ''path'']),
              (''additionalProperties'', JBoolean False)]])]),
        (''run_auto_analysis'', obj [(''type'', text_value ''boolean''),
          (''description'', text_value ''Whether IDA should run auto-analysis while opening the database. Defaults to true.'')]),
        (''build_caches'', obj [(''type'', text_value ''boolean''),
          (''description'', text_value ''Whether ida-pro-mcp should build core caches after opening. Defaults to true.'')]),
        (''init_hexrays'', obj [(''type'', text_value ''boolean''),
          (''description'', text_value ''Whether ida-pro-mcp should initialize Hex-Rays after opening. Defaults to true.'')]),
        (''mode'', obj [(''type'', text_value ''string''),
          (''enum'', JArray [text_value ''prefer_headless'', text_value ''force_headless'', text_value ''prefer_gui'', text_value ''force_gui'']),
          (''description'', text_value ''Headless idalib open mode. Defaults to prefer_headless.'')]),
        (''idle_ttl_sec'', obj [(''type'', text_value ''integer''),
          (''minimum'', JNum (PosInt 10)),
          (''description'', text_value ''Minimum idle TTL in seconds before the headless worker self-exits. Defaults to 3600.'')]),
        (''startup_timeout_ms'', obj [(''type'', text_value ''integer''),
          (''minimum'', JNum (PosInt 1)),
          (''description'', text_value ''Maximum time to wait for ida-pro-mcp to open the target. Defaults to 1800000.'')])]),
      (''required'', JArray [text_value ''target'']),
      (''additionalProperties'', JBoolean False)]\<rparr>"

definition ida_get_session_descriptor :: tool_descriptor where
  "ida_get_session_descriptor =
    \<lparr>td_name = IDA_GET_SESSION,
     td_description = ''Get the current state of an IDA reverse-analysis session.'',
     td_input_schema =
      obj [(''type'', text_value ''object''),
      (''properties'', obj [(''session_id'', obj [(''type'', text_value ''string''),
          (''description'', text_value ''Session id returned by ida.create_session.'')])]),
      (''required'', JArray [text_value ''session_id'']),
      (''additionalProperties'', JBoolean False)]\<rparr>"

definition ida_list_sessions_descriptor :: tool_descriptor where
  "ida_list_sessions_descriptor =
    \<lparr>td_name = IDA_LIST_SESSIONS,
     td_description = ''List IDA reverse-analysis sessions.'',
     td_input_schema =
      obj [(''type'', text_value ''object''),
      (''properties'', obj []),
      (''additionalProperties'', JBoolean False)]\<rparr>"

definition ida_close_session_descriptor :: tool_descriptor where
  "ida_close_session_descriptor =
    \<lparr>td_name = IDA_CLOSE_SESSION,
     td_description = ''Close an IDA reverse-analysis session. Saves the open database by default.'',
     td_input_schema =
      obj [(''type'', text_value ''object''),
      (''properties'', obj [(''session_id'', obj [(''type'', text_value ''string''),
          (''description'', text_value ''Session id returned by ida.create_session.'')]),
        (''save'', obj [(''type'', text_value ''boolean''),
          (''description'', text_value ''Whether to save the open IDA database before closing. Defaults to true.'')])]),
      (''required'', JArray [text_value ''session_id'']),
      (''additionalProperties'', JBoolean False)]\<rparr>"

definition tool_descriptors :: "tool_descriptor list" where
  "tool_descriptors =
    [create_session_descriptor,
     get_session_descriptor,
     list_sessions_descriptor,
     close_session_descriptor,
     eval_descriptor,
     add_symbols_descriptor,
     record_profile_descriptor,
     record_ttd_descriptor,
     ida_create_session_descriptor,
     ida_get_session_descriptor,
     ida_list_sessions_descriptor,
     ida_close_session_descriptor]"

text \<open>The derived serialization of a descriptor.\<close>

definition tool_descriptor_value :: "tool_descriptor \<Rightarrow> json" where
  "tool_descriptor_value d =
     obj [(''name'', JText (td_name d)), (''description'', text_value (td_description d)),
          (''inputSchema'', td_input_schema d)]"

section \<open>The tools of IDA\<close>

text \<open>\<open>item.as_str() != Some(name)\<close>\<close>

definition is_text :: "string \<Rightarrow> json \<Rightarrow> bool" where
  "is_text name v = (as_str v = Some (chars name))"

definition session_id_schema :: json where
  "session_id_schema =
     obj [(''type'', text_value ''string''),
          (''description'', text_value ''dbgflow IDA session id returned by ida.create_session.'')]"

definition with_session_property :: "json option \<Rightarrow> json" where
  "with_session_property properties =
     (let props = (case properties of Some (JObject m) \<Rightarrow> m | _ \<Rightarrow> [])
      in JObject (bt_insert (chars ''session_id'') session_id_schema (bt_remove (chars ''database'') props)))"

definition with_session_required :: "json option \<Rightarrow> json" where
  "with_session_required required =
     (let req = (case required of Some (JArray vs) \<Rightarrow> vs | _ \<Rightarrow> []);
          req' = filter (\<lambda>item. \<not> is_text ''database'' item) req
      in JArray (if \<exists>item \<in> set req'. is_text ''session_id'' item then req'
                 else req' @ [text_value ''session_id'']))"

definition inject_session_id_schema :: "json \<Rightarrow> json" where
  "inject_session_id_schema schema =
     (let m0 = (case schema of JObject m \<Rightarrow> m | _ \<Rightarrow> [(chars ''type'', text_value ''object'')]);
          m1 = bt_insert (chars ''type'') (text_value ''object'') m0;
          m2 = bt_insert (chars ''properties'') (with_session_property (bt_get m1 (chars ''properties''))) m1;
          m3 = bt_insert (chars ''required'') (with_session_required (bt_get m2 (chars ''required''))) m2
      in JObject m3)"

record upstream_tool_descriptor =
  ut_name :: utext
  ut_description :: utext
  ut_input_schema :: json
  ut_output_schema :: "json option"

definition upstream_tool_descriptor_value :: "upstream_tool_descriptor \<Rightarrow> json" where
  "upstream_tool_descriptor_value tool =
     (let d = bt_insert (chars ''name'') (JText (chars ''ida.'' @ ut_name tool)) [];
          d = bt_insert (chars ''description'') (JText (ut_description tool)) d;
          d = bt_insert (chars ''inputSchema'') (inject_session_id_schema (ut_input_schema tool)) d
      in JObject (case ut_output_schema tool of
           Some output_schema \<Rightarrow> bt_insert (chars ''outputSchema'') output_schema d
         | None \<Rightarrow> d))"

definition tool_descriptor_values :: "upstream_tool_descriptor list \<Rightarrow> json list" where
  "tool_descriptor_values upstream =
     map tool_descriptor_value tool_descriptors @ map upstream_tool_descriptor_value upstream"

end
