(* ===== verification/Tool_Properties.thy ===== *)
theory Tool_Properties
  imports Tool_Schemas
begin

text \<open>
  What the tools promise by themselves: which commands \<open>add_symbols\<close> executes, what becomes of the
  schemas of the tools of IDA, and that arguments which conform to a published schema are understood.
\<close>

section \<open>Adding symbols\<close>

text \<open>Commands executed one after the other, up to the first that fails.\<close>

fun eval_all :: "'s tools \<Rightarrow> session_id \<Rightarrow> utext list \<Rightarrow> eval_result option \<Rightarrow> 's \<Rightarrow> eval_result option result \<times> 's" where
  "eval_all t i [] res s = (Inr res, s)"
| "eval_all t i (c # cs) res s =
     (case tl_eval t \<lparr>er_session = i, er_command = c, er_timeout_ms = None\<rparr> s of
        (Inl e, s') \<Rightarrow> (Inl e, s')
      | (Inr r, s') \<Rightarrow> eval_all t i cs (Some r) s')"

definition symbol_path_ok :: "utext \<Rightarrow> bool" where
  "symbol_path_ok path \<longleftrightarrow> trim path \<noteq> [] \<and> (\<forall>ch \<in> set path. \<not> is_control ch \<and> ch \<noteq> 0x2028 \<and> ch \<noteq> 0x2029)"

definition symbol_command :: "utext \<Rightarrow> utext" where
  "symbol_command path = chars ''.sympath+ '' @ path"

lemma symbol_path_ok_iff: "symbol_path_ok path \<longleftrightarrow> trim path \<noteq> [] \<and> \<not> symbol_path_forbidden path"
  by (auto simp: symbol_path_ok_def symbol_path_forbidden_def is_control_def)

lemma add_symbols_loop_evals:
  "add_symbols_loop t i paths res s =
     (case eval_all t i (map symbol_command (takeWhile symbol_path_ok paths)) res s of
        (Inl e, s') \<Rightarrow> (Inl e, s')
      | (Inr r, s') \<Rightarrow>
          (case dropWhile symbol_path_ok paths of
             [] \<Rightarrow> (Inr r, s')
           | bad # _ \<Rightarrow>
               (Inl (Backend (if trim bad = [] then ''symbol path must not be empty''
                              else ''symbol path contains unsupported control characters'')), s')))"
  by (induction paths arbitrary: res s)
     (auto simp: symbol_path_ok_iff symbol_command_def split: prod.split sum.split)

lemma eval_all_Some:
  "eval_all t i cs (Some r) s = (Inr x, s') \<Longrightarrow> x \<noteq> None"
  by (induction cs arbitrary: r s) (auto split: prod.splits sum.splits)

text \<open>
  What \<open>add_symbols\<close> executes: for the paths up to the first unusable one, in order, the command
  that appends the path, as long as the commands succeed; a path that is blank or holds a control
  character or a line separator never reaches the debugger, nor does one behind it. The result is that of
  the last command; the first failure, or else the first unusable path, is reported, and the
  commands before it have been executed all the same.
\<close>

theorem add_symbols_executes:
  "add_symbols t request s =
     (case eval_all t (as_session request) (map symbol_command (takeWhile symbol_path_ok (as_paths request))) None s of
        (Inl e, s') \<Rightarrow> (Inl e, s')
      | (Inr r, s') \<Rightarrow>
          (case (dropWhile symbol_path_ok (as_paths request), r) of
             (bad # _, _) \<Rightarrow>
               (Inl (Backend (if trim bad = [] then ''symbol path must not be empty''
                              else ''symbol path contains unsupported control characters'')), s')
           | ([], Some r') \<Rightarrow> (Inr r', s')
           | ([], None) \<Rightarrow> (Inl (Backend ''at least one symbol path is required''), s')))"
proof (cases "as_paths request")
  case Nil
  then show ?thesis by (simp add: add_symbols_def)
next
  case (Cons p ps)
  define ok bad where "ok = takeWhile symbol_path_ok (as_paths request)" and "bad = dropWhile symbol_path_ok (as_paths request)"
  have some: "ok \<noteq> [] \<or> bad \<noteq> []"
    using Cons by (auto simp: ok_def bad_def)
  have ran: "r \<noteq> None" if "ok \<noteq> []" "eval_all t i (map symbol_command ok) None s = (Inr r, s')" for i r s'
    using that eval_all_Some[of t i] by (cases ok) (auto split: prod.splits sum.splits)
  show ?thesis
    unfolding add_symbols_def add_symbols_loop_evals ok_def[symmetric] bad_def[symmetric]
    using Cons some ran[of "as_session request"]
    by (auto split: prod.split sum.split list.split option.split)
qed

section \<open>The schemas of the tools of IDA\<close>

definition members :: "json option \<Rightarrow> (utext \<times> json) list" where
  "members v = (case v of Some (JObject m) \<Rightarrow> m | _ \<Rightarrow> [])"

definition items :: "json option \<Rightarrow> json list" where
  "items v = (case v of Some (JArray vs) \<Rightarrow> vs | _ \<Rightarrow> [])"

lemma is_text_iff: "is_text n v = (v = text_value n)"
  by (cases v) (auto simp: is_text_def)

lemma with_session_required_eq:
  "with_session_required v =
     (let req = filter (\<lambda>v. v \<noteq> text_value ''database'') (items v)
      in JArray (if text_value ''session_id'' \<in> set req then req else req @ [text_value ''session_id'']))"
  unfolding with_session_required_def items_def Let_def is_text_iff bex_triv_one_point1 by (rule refl)

lemma with_session_property_eq:
  "with_session_property v =
     JObject (bt_insert (chars ''session_id'') session_id_schema (bt_remove (chars ''database'') (members v)))"
  unfolding with_session_property_def members_def Let_def by (rule refl)

text \<open>
  The schema shown for a tool of IDA asks for a session instead of a database, and is otherwise
  what IDA gave: it describes an object; the property \<open>database\<close> is gone and \<open>session_id\<close> is a
  text, every other property is unchanged; \<open>session_id\<close> is required and \<open>database\<close> is not, and the
  other required names are the same in the same order; every other keyword of the schema is kept.
\<close>

theorem inject_session_id_correct:
  "\<exists>m. inject_session_id_schema schema = JObject m
    \<and> bt_get m (chars ''type'') = Some (text_value ''object'')
    \<and> (\<exists>p. bt_get m (chars ''properties'') = Some (JObject p)
         \<and> bt_get p = (bt_get (members (json_get schema (chars ''properties''))))
                        (chars ''database'' := None, chars ''session_id'' \<mapsto> session_id_schema))
    \<and> (\<exists>r. bt_get m (chars ''required'') = Some (JArray r)
         \<and> text_value ''session_id'' \<in> set r \<and> text_value ''database'' \<notin> set r
         \<and> filter (\<lambda>v. v \<noteq> text_value ''session_id'') r =
             filter (\<lambda>v. v \<notin> {text_value ''database'', text_value ''session_id''})
               (items (json_get schema (chars ''required''))))
    \<and> (\<forall>k. k \<in> {chars ''type'', chars ''properties'', chars ''required''} \<or> bt_get m k = json_get schema k)"
proof -
  define m0 where "m0 = (case schema of JObject m \<Rightarrow> m | _ \<Rightarrow> [(chars ''type'', text_value ''object'')])"
  have m0: "k = chars ''type'' \<or> bt_get m0 k = json_get schema k" for k
    by (cases schema) (auto simp: m0_def bt_get_def)
  define p where "p = bt_insert (chars ''session_id'') session_id_schema
    (bt_remove (chars ''database'') (members (bt_get m0 (chars ''properties''))))"
  define req where "req = filter (\<lambda>v. v \<noteq> text_value ''database'') (items (bt_get m0 (chars ''required'')))"
  define r where "r = (if text_value ''session_id'' \<in> set req then req else req @ [text_value ''session_id''])"
  define m where "m = bt_insert (chars ''required'') (JArray r) (bt_insert (chars ''properties'') (JObject p)
    (bt_insert (chars ''type'') (text_value ''object'') m0))"
  have ne: "chars ''type'' \<noteq> chars ''properties''" "chars ''type'' \<noteq> chars ''required''" "chars ''properties'' \<noteq> chars ''required''"
    by simp_all
  note get = bt_get_insert fun_upd_apply ne ne[symmetric]
  have "inject_session_id_schema schema = JObject m"
    unfolding inject_session_id_schema_def m0_def[symmetric] Let_def with_session_property_eq
      with_session_required_eq m_def p_def r_def req_def by (simp only: get if_False)
  moreover have "bt_get m (chars ''type'') = Some (text_value ''object'')"
    "bt_get m (chars ''properties'') = Some (JObject p)" "bt_get m (chars ''required'') = Some (JArray r)"
    unfolding m_def by (simp_all only: get if_True if_False simp_thms)
  moreover have "k \<in> {chars ''type'', chars ''properties'', chars ''required''} \<or> bt_get m k = json_get schema k" for k
    using m0[of k] unfolding m_def by (auto simp only: get insert_iff empty_iff split: if_splits)
  moreover have "bt_get p = (bt_get (members (json_get schema (chars ''properties''))))
      (chars ''database'' := None, chars ''session_id'' \<mapsto> session_id_schema)"
    using m0[of "chars ''properties''"] ne unfolding p_def bt_get_insert bt_get_remove by auto
  moreover have "text_value ''session_id'' \<in> set r \<and> text_value ''database'' \<notin> set r
      \<and> filter (\<lambda>v. v \<noteq> text_value ''session_id'') r =
        filter (\<lambda>v. v \<notin> {text_value ''database'', text_value ''session_id''}) (items (json_get schema (chars ''required'')))"
    using m0[of "chars ''required''"] ne unfolding r_def req_def by (auto simp: filter_filter)
  ultimately show ?thesis by blast
qed

section \<open>Schemas and decoders\<close>

text \<open>
  The part of JSON Schema that the published schemas use. Of the alternatives of \<open>oneOf\<close> one must
  hold; below the given depth nothing is checked.
\<close>

definition has_type :: "utext \<Rightarrow> json \<Rightarrow> bool" where
  "has_type ty v =
     (case v of
        JObject _ \<Rightarrow> ty = chars ''object''
      | JText _ \<Rightarrow> ty = chars ''string''
      | JArray _ \<Rightarrow> ty = chars ''array''
      | JBoolean _ \<Rightarrow> ty = chars ''boolean''
      | JNum (PosInt _) \<Rightarrow> ty = chars ''integer''
      | JNum (NegInt _) \<Rightarrow> ty = chars ''integer''
      | _ \<Rightarrow> False)"

definition at_least :: "nat \<Rightarrow> json \<Rightarrow> bool" where
  "at_least k v =
     (case v of JNum (PosInt n) \<Rightarrow> k \<le> n | JNum (NegInt _) \<Rightarrow> False | _ \<Rightarrow> True)"

fun conforms :: "nat \<Rightarrow> json \<Rightarrow> json \<Rightarrow> bool" where
  "conforms 0 schema v = True"
| "conforms (Suc n) schema v =
     ((case json_get schema (chars ''type'') of Some (JText ty) \<Rightarrow> has_type ty v | _ \<Rightarrow> True)
      \<and> (case json_get schema (chars ''const'') of Some c \<Rightarrow> v = c | _ \<Rightarrow> True)
      \<and> (case json_get schema (chars ''enum'') of Some (JArray cs) \<Rightarrow> v \<in> set cs | _ \<Rightarrow> True)
      \<and> (case json_get schema (chars ''minimum'') of Some (JNum (PosInt k)) \<Rightarrow> at_least k v | _ \<Rightarrow> True)
      \<and> (case (json_get schema (chars ''minItems''), v) of
           (Some (JNum (PosInt k)), JArray vs) \<Rightarrow> k \<le> length vs | _ \<Rightarrow> True)
      \<and> (case (json_get schema (chars ''items''), v) of
           (Some s, JArray vs) \<Rightarrow> (\<forall>x \<in> set vs. conforms n s x) | _ \<Rightarrow> True)
      \<and> (case (json_get schema (chars ''properties''), v) of
           (Some props, JObject m) \<Rightarrow>
             (\<forall>(k, x) \<in> set m. case json_get props k of
                Some s \<Rightarrow> conforms n s x
              | None \<Rightarrow> json_get schema (chars ''additionalProperties'') \<noteq> Some (JBoolean False))
         | _ \<Rightarrow> True)
      \<and> (case (json_get schema (chars ''required''), v) of
           (Some (JArray rs), JObject m) \<Rightarrow>
             (\<forall>r \<in> set rs. case r of JText name \<Rightarrow> bt_get m name \<noteq> None | _ \<Rightarrow> True)
         | _ \<Rightarrow> True)
      \<and> (case json_get schema (chars ''oneOf'') of
           Some (JArray ss) \<Rightarrow> (\<exists>s \<in> set ss. conforms n s v) | _ \<Rightarrow> True))"

declare conforms.simps [simp del]

lemma has_type_cases:
  "has_type (chars ''object'') v \<longleftrightarrow> (\<exists>m. v = JObject m)"
  "has_type (chars ''string'') v \<longleftrightarrow> (\<exists>t. v = JText t)"
  "has_type (chars ''array'') v \<longleftrightarrow> (\<exists>vs. v = JArray vs)"
  "has_type (chars ''boolean'') v \<longleftrightarrow> (\<exists>b. v = JBoolean b)"
  "has_type (chars ''integer'') v \<longleftrightarrow> (\<exists>n. v = JNum (PosInt n)) \<or> (\<exists>n. v = JNum (NegInt n))"
  by (auto simp: has_type_def split: json.split json_number.split)

text \<open>A closed object schema, and the schemas of a text, a flag and a list of texts.\<close>

lemma conforms_object:
  assumes "conforms (Suc n) schema v" and "json_get schema (chars ''type'') = Some (text_value ''object'')"
    and "json_get schema (chars ''properties'') = Some props"
    and "json_get schema (chars ''additionalProperties'') = Some (JBoolean False)"
  shows "\<exists>m. v = JObject m
    \<and> (\<forall>k x. bt_get m k = Some x \<longrightarrow> (\<exists>s. json_get props k = Some s \<and> conforms n s x))
    \<and> (\<forall>k \<in> set (map fst m). json_get props k \<noteq> None)
    \<and> (\<forall>rs name. json_get schema (chars ''required'') = Some (JArray rs) \<longrightarrow> JText name \<in> set rs \<longrightarrow> bt_get m name \<noteq> None)"
proof -
  obtain m where v: "v = JObject m"
    using assms(1,2) unfolding conforms.simps by (auto simp only: option.case json.case has_type_cases)
  have c: "\<forall>(k, x) \<in> set m. case json_get props k of Some s \<Rightarrow> conforms n s x | None \<Rightarrow> False"
    using assms unfolding conforms.simps v by (auto simp only: option.case json.case prod.case simp_thms cong: option.case_cong)
  have r: "\<forall>r \<in> set rs. case r of JText name \<Rightarrow> bt_get m name \<noteq> None | _ \<Rightarrow> True"
    if "json_get schema (chars ''required'') = Some (JArray rs)" for rs
    using assms(1) that unfolding conforms.simps v
    by (simp only: option.case json.case prod.case) (elim conjE, assumption)
  show ?thesis
    using v c r by (fastforce dest: bt_get_in_set split: option.splits)
qed

lemma conforms_text:
  "conforms (Suc n) schema v \<Longrightarrow> json_get schema (chars ''type'') = Some (text_value ''string'') \<Longrightarrow> \<exists>t. v = JText t"
  unfolding conforms.simps by (auto simp only: option.case json.case has_type_cases)

lemma conforms_flag:
  "conforms (Suc n) schema v \<Longrightarrow> json_get schema (chars ''type'') = Some (text_value ''boolean'') \<Longrightarrow> \<exists>b. v = JBoolean b"
  unfolding conforms.simps by (auto simp only: option.case json.case has_type_cases)

lemma conforms_const:
  "conforms (Suc n) schema v \<Longrightarrow> json_get schema (chars ''const'') = Some c \<Longrightarrow> v = c"
  unfolding conforms.simps by (simp only: option.case)

lemma conforms_positive:
  assumes "conforms (Suc n) schema v" and "json_get schema (chars ''type'') = Some (text_value ''integer'')"
    and "json_get schema (chars ''minimum'') = Some (JNum (PosInt k))"
  shows "\<exists>i. v = JNum (PosInt i)"
proof -
  have "has_type (chars ''integer'') v" "at_least k v"
    using assms unfolding conforms.simps by (simp_all only: option.case json.case json_number.case)
  then show ?thesis by (auto simp only: has_type_cases at_least_def json.case json_number.case)
qed

lemma conforms_texts:
  assumes "conforms (Suc (Suc n)) schema v" and "json_get schema (chars ''type'') = Some (text_value ''array'')"
    and "json_get schema (chars ''items'') = Some s" and "json_get s (chars ''type'') = Some (text_value ''string'')"
  shows "\<exists>ts. v = JArray (map JText ts)"
proof -
  have "has_type (chars ''array'') v"
    using assms(1,2) unfolding conforms.simps(2)[of "Suc n" schema] by (simp only: option.case json.case)
  then obtain vs where v: "v = JArray vs" by (auto simp only: has_type_cases)
  have "\<forall>x \<in> set vs. conforms (Suc n) s x"
    using assms(1,3) unfolding conforms.simps(2)[of "Suc n" schema] v
    by (simp only: option.case json.case prod.case) (elim conjE, assumption)
  then have "\<forall>x \<in> set vs. \<exists>t. x = JText t"
    using conforms_text[OF _ assms(4)] by blast
  then have "\<exists>ts. vs = map JText ts"
    by (induction vs) (auto intro: exI[of _ "_ # _"] simp: Cons_eq_map_conv)
  with v show ?thesis by blast
qed

lemma conforms_one_of:
  "conforms (Suc n) schema v \<Longrightarrow> json_get schema (chars ''oneOf'') = Some (JArray ss) \<Longrightarrow> \<exists>s \<in> set ss. conforms n s v"
  unfolding conforms.simps by (simp only: option.case json.case)

lemma all_some_texts: "all_some (map (\<lambda>v. decode_text (Some v)) (map JText ts)) = Some ts"
  by (induction ts) simp_all

text \<open>A struct whose fields are all known reads each of them from the object.\<close>

lemma struct_fields_object:
  "\<forall>k \<in> set (map fst m). k \<in> set (map (chars \<circ> fst) names) \<Longrightarrow>
     struct_fields deny names (JObject m) = Some (map (\<lambda>(n, _). bt_get m (chars n)) names)"
  by (auto simp: struct_fields_def)

text \<open>An object that conforms to a closed schema: its names, and each property by its own schema.\<close>

lemma json_get_obj_iff:
  assumes "distinct (map fst ps)"
  shows "json_get (obj ps) k = Some s \<longleftrightarrow> (\<exists>name. k = chars name \<and> (name, s) \<in> set ps)"
proof -
  have "map fst (rev (map (\<lambda>(k, v). (chars k, v)) ps)) = rev (map chars (map fst ps))"
    by (simp add: rev_map comp_def split_def)
  then have d: "distinct (map fst (rev (map (\<lambda>(k, v). (chars k, v)) ps)))"
    using assms by (simp only: distinct_rev distinct_map) (simp add: inj_on_def)
  have "json_get (obj ps) k = Some s \<longleftrightarrow> (k, s) \<in> (\<lambda>(k, v). (chars k, v)) ` set ps"
    using map_of_eq_Some_iff[OF d, of k s] unfolding json_get_obj by simp
  also have "\<dots> \<longleftrightarrow> (\<exists>name. k = chars name \<and> (name, s) \<in> set ps)" by force
  finally show ?thesis .
qed

lemma conforms_fields:
  assumes "conforms (Suc n) schema v" and "json_get schema (chars ''type'') = Some (text_value ''object'')"
    and "json_get schema (chars ''properties'') = Some (obj ps)" and "distinct (map fst ps)"
    and "json_get schema (chars ''additionalProperties'') = Some (JBoolean False)"
    and "json_get schema (chars ''required'') = Some (JArray (map text_value rs))"
  shows "\<exists>m. v = JObject m \<and> (\<forall>k \<in> set (map fst m). k \<in> set (map (chars \<circ> fst) ps))
    \<and> list_all (\<lambda>(name, s). case bt_get m (chars name) of Some x \<Rightarrow> conforms n s x | None \<Rightarrow> name \<notin> set rs) ps"
proof -
  note get = json_get_obj_iff[OF assms(4)]
  obtain m where m: "v = JObject m" "\<And>k x. bt_get m k = Some x \<Longrightarrow> \<exists>s. json_get (obj ps) k = Some s \<and> conforms n s x"
    "\<And>k. k \<in> set (map fst m) \<Longrightarrow> json_get (obj ps) k \<noteq> None"
    "\<And>name. JText name \<in> set (map text_value rs) \<Longrightarrow> bt_get m name \<noteq> None"
    using conforms_object[OF assms(1,2,3,5)] assms(6) by blast
  have "\<forall>k \<in> set (map fst m). k \<in> set (map (chars \<circ> fst) ps)"
  proof
    fix k assume "k \<in> set (map fst m)"
    then obtain s where "json_get (obj ps) k = Some s" using m(3) by blast
    then obtain name where "k = chars name" "(name, s) \<in> set ps" using get by blast
    then show "k \<in> set (map (chars \<circ> fst) ps)" by force
  qed
  moreover have "list_all (\<lambda>(name, s). case bt_get m (chars name) of Some x \<Rightarrow> conforms n s x | None \<Rightarrow> name \<notin> set rs) ps"
    unfolding list_all_iff
  proof safe
    fix name s assume ns: "(name, s) \<in> set ps"
    then have s: "json_get (obj ps) (chars name) = Some s" using get by blast
    show "case bt_get m (chars name) of Some x \<Rightarrow> conforms n s x | None \<Rightarrow> name \<notin> set rs"
      using m(2)[of "chars name"] m(4)[of "chars name"] s by (cases "bt_get m (chars name)") auto
  qed
  ultimately show ?thesis using m(1) by blast
qed

lemma session_id_fields:
  assumes "conforms (Suc (Suc n)) schema v"
    and "json_get schema (chars ''type'') = Some (text_value ''object'')"
    and "json_get schema (chars ''properties'')
      = Some (obj [(''session_id'', obj [(''type'', text_value ''string''), (''description'', d)])])"
    and "json_get schema (chars ''additionalProperties'') = Some (JBoolean False)"
    and "json_get schema (chars ''required'') = Some (JArray [text_value ''session_id''])"
  shows "\<exists>i. json_get v (chars ''session_id'') = Some (JText i)
    \<and> struct_fields deny [(''session_id'', False)] v = Some [Some (JText i)]"
proof -
  have str: "json_get (obj [(''type'', text_value ''string''), (''description'', d)]) (chars ''type'') = Some (text_value ''string'')"
    by (simp add: json_get_obj)
  obtain m where m: "v = JObject m" "\<forall>k \<in> set (map fst m). k \<in> set (map (chars \<circ> fst) [(''session_id'', False)])"
    "case bt_get m (chars ''session_id'') of
       Some x \<Rightarrow> conforms (Suc n) (obj [(''type'', text_value ''string''), (''description'', d)]) x | None \<Rightarrow> False"
    using conforms_fields[OF assms(1,2,3) _ assms(4), of "[''session_id'']"] assms(5) by (auto split: option.splits)
  then obtain i where "bt_get m (chars ''session_id'') = Some (JText i)"
    using conforms_text[OF _ str] by (auto split: option.splits)
  with m(1) struct_fields_object[OF m(2), of deny] show ?thesis by simp
qed

lemmas descriptor_defs =
  get_session_descriptor_def close_session_descriptor_def eval_descriptor_def add_symbols_descriptor_def
  ida_get_session_descriptor_def ida_close_session_descriptor_def create_session_descriptor_def

text \<open>The ids in the arguments are ids.\<close>

definition ids_parse :: "serde_lib \<Rightarrow> json \<Rightarrow> bool" where
  "ids_parse lib v \<longleftrightarrow> (\<forall>i. json_get v (chars ''session_id'') = Some (JText i) \<longrightarrow> sl_parse_uuid lib i \<noteq> None)"

lemma get_session_understood:
  assumes "ids_parse lib v"
  shows "conforms 5 (td_input_schema get_session_descriptor) v \<Longrightarrow> decode_get_session lib v \<noteq> None"
    and "conforms 5 (td_input_schema close_session_descriptor) v \<Longrightarrow> decode_get_session lib v \<noteq> None"
    and "conforms 5 (td_input_schema ida_get_session_descriptor) v \<Longrightarrow> decode_get_ida_session lib v \<noteq> None"
proof -
  have five: "(5::nat) = Suc (Suc 3)" by simp
  note fields = session_id_fields[of 3, folded five]
  have ok: "decode_get_session lib v \<noteq> None" "decode_get_ida_session lib v \<noteq> None"
    if "\<exists>i. json_get v (chars ''session_id'') = Some (JText i)
      \<and> struct_fields False [(''session_id'', False)] v = Some [Some (JText i)]"
      "\<exists>i. json_get v (chars ''session_id'') = Some (JText i)
      \<and> struct_fields True [(''session_id'', False)] v = Some [Some (JText i)]"
    using that assms by (auto simp: decode_get_session_def decode_get_ida_session_def decode_id_def ids_parse_def)
  show "conforms 5 (td_input_schema get_session_descriptor) v \<Longrightarrow> decode_get_session lib v \<noteq> None"
    by (rule ok(1); rule fields, assumption) (simp_all add: descriptor_defs json_get_obj)
  show "conforms 5 (td_input_schema close_session_descriptor) v \<Longrightarrow> decode_get_session lib v \<noteq> None"
    by (rule ok(1); rule fields, assumption) (simp_all add: descriptor_defs json_get_obj)
  show "conforms 5 (td_input_schema ida_get_session_descriptor) v \<Longrightarrow> decode_get_ida_session lib v \<noteq> None"
    by (rule ok(2); rule fields, assumption) (simp_all add: descriptor_defs json_get_obj)
qed

lemma bt_get_None: "k \<notin> set (map fst m) \<Longrightarrow> bt_get m k = None"
  by (simp add: bt_get_def map_of_eq_None_iff)

lemma string_schema: "json_get (obj [(''type'', text_value ''string''), (''description'', d)]) (chars ''type'') = Some (text_value ''string'')"
  by (simp add: json_get_obj)

abbreviation string_of_description :: "string \<Rightarrow> json" where
  "string_of_description d \<equiv> obj [(''type'', text_value ''string''), (''description'', text_value d)]"

lemma five: "(5::nat) = Suc (Suc (Suc 2))"
  by simp

lemma text_property:
  assumes "case bt_get m k of Some x \<Rightarrow> conforms (Suc n) (obj [(''type'', text_value ''string''), (''description'', d)]) x
           | None \<Rightarrow> False"
  obtains t where "bt_get m k = Some (JText t)"
  using assms conforms_text[OF _ string_schema, of n d] by (cases "bt_get m k") auto

lemma eval_understood:
  assumes "ids_parse lib v" and "conforms 5 (td_input_schema eval_descriptor) v"
  shows "decode_eval lib v \<noteq> None"
proof -
  let ?ps = "[(''session_id'', string_of_description ''Session id returned by dbg.create_session.''),
     (''command'', string_of_description ''Native debugger command.'')]"
  let ?rs = "[''session_id'', ''command'']"
  have "\<exists>m. v = JObject m \<and> (\<forall>k \<in> set (map fst m). k \<in> set (map (chars \<circ> fst) ?ps))
    \<and> list_all (\<lambda>(name, s). case bt_get m (chars name) of
        Some x \<Rightarrow> conforms (Suc (Suc 2)) s x | None \<Rightarrow> name \<notin> set ?rs) ?ps"
    by (rule conforms_fields[OF assms(2)[unfolded five]]) (simp_all add: descriptor_defs json_get_obj)
  then obtain m where m: "v = JObject m" "\<forall>k \<in> set (map fst m). k \<in> set (map (chars \<circ> fst) ?ps)"
    and p: "case bt_get m (chars ''session_id'') of
        Some x \<Rightarrow> conforms (Suc (Suc 2)) (string_of_description ''Session id returned by dbg.create_session.'') x
      | None \<Rightarrow> False"
      "case bt_get m (chars ''command'') of
        Some x \<Rightarrow> conforms (Suc (Suc 2)) (string_of_description ''Native debugger command.'') x | None \<Rightarrow> False"
    by (simp cong: option.case_cong) blast
  obtain i where i: "bt_get m (chars ''session_id'') = Some (JText i)" using p(1) by (rule text_property)
  obtain c where c: "bt_get m (chars ''command'') = Some (JText c)" using p(2) by (rule text_property)
  have "bt_get m (chars ''timeout_ms'') = None" using m(2) by (intro bt_get_None) auto
  with m(1) i c assms(1) show ?thesis
    by (auto simp: decode_eval_def struct_fields_def decode_id_def ids_parse_def)
qed

lemma add_symbols_understood:
  assumes "ids_parse lib v" and "conforms 5 (td_input_schema add_symbols_descriptor) v"
  shows "decode_add_symbols lib v \<noteq> None"
proof -
  define paths where "paths = obj [(''type'', text_value ''array''), (''items'', obj [(''type'', text_value ''string'')]),
    (''minItems'', JNum (PosInt 1)), (''description'', text_value ''Debugger symbol path entries. Raw WinDbg symbol path strings are accepted.'')]"
  let ?ps = "[(''session_id'', string_of_description ''Session id returned by dbg.create_session.''), (''paths'', paths)]"
  let ?rs = "[''session_id'', ''paths'']"
  have "\<exists>m. v = JObject m \<and> (\<forall>k \<in> set (map fst m). k \<in> set (map (chars \<circ> fst) ?ps))
    \<and> list_all (\<lambda>(name, s). case bt_get m (chars name) of
        Some x \<Rightarrow> conforms (Suc (Suc 2)) s x | None \<Rightarrow> name \<notin> set ?rs) ?ps"
    by (rule conforms_fields[OF assms(2)[unfolded five]]) (simp_all add: descriptor_defs json_get_obj paths_def)
  then obtain m where m: "v = JObject m" "\<forall>k \<in> set (map fst m). k \<in> set (map (chars \<circ> fst) ?ps)"
    and p: "case bt_get m (chars ''session_id'') of
        Some x \<Rightarrow> conforms (Suc (Suc 2)) (string_of_description ''Session id returned by dbg.create_session.'') x
      | None \<Rightarrow> False"
      "case bt_get m (chars ''paths'') of Some x \<Rightarrow> conforms (Suc (Suc 2)) paths x | None \<Rightarrow> False"
    by (simp cong: option.case_cong) blast
  obtain i where i: "bt_get m (chars ''session_id'') = Some (JText i)" using p(1) by (rule text_property)
  have "\<exists>ts. x = JArray (map JText ts)" if "conforms (Suc (Suc 2)) paths x" for x
    by (rule conforms_texts[OF that, of "obj [(''type'', text_value ''string'')]"])
      (simp_all add: paths_def json_get_obj)
  then obtain ts where ts: "bt_get m (chars ''paths'') = Some (JArray (map JText ts))"
    using p(2) by (auto split: option.splits)
  have "struct_fields True [(''session_id'', False), (''paths'', False)] v
      = Some [Some (JText i), Some (JArray (map JText ts))]"
    unfolding m(1) using m(2) i ts by (subst struct_fields_object) auto
  then show ?thesis
    using assms(1) i m(1) all_some_texts[of ts]
    by (auto simp: decode_add_symbols_def decode_id_def ids_parse_def comp_def)
qed

lemma close_ida_understood:
  assumes "ids_parse lib v" and "conforms 5 (td_input_schema ida_close_session_descriptor) v"
  shows "decode_close_ida_session lib v \<noteq> None"
proof -
  define sv where "sv = obj [(''type'', text_value ''boolean''),
    (''description'', text_value ''Whether to save the open IDA database before closing. Defaults to true.'')]"
  let ?ps = "[(''session_id'', string_of_description ''Session id returned by ida.create_session.''), (''save'', sv)]"
  let ?rs = "[''session_id'']"
  have "\<exists>m. v = JObject m \<and> (\<forall>k \<in> set (map fst m). k \<in> set (map (chars \<circ> fst) ?ps))
    \<and> list_all (\<lambda>(name, s). case bt_get m (chars name) of
        Some x \<Rightarrow> conforms (Suc (Suc 2)) s x | None \<Rightarrow> name \<notin> set ?rs) ?ps"
    by (rule conforms_fields[OF assms(2)[unfolded five]]) (simp_all add: descriptor_defs json_get_obj sv_def)
  then obtain m where m: "v = JObject m" "\<forall>k \<in> set (map fst m). k \<in> set (map (chars \<circ> fst) ?ps)"
    and p: "case bt_get m (chars ''session_id'') of
        Some x \<Rightarrow> conforms (Suc (Suc 2)) (string_of_description ''Session id returned by ida.create_session.'') x
      | None \<Rightarrow> False"
      "case bt_get m (chars ''save'') of Some x \<Rightarrow> conforms (Suc (Suc 2)) sv x | None \<Rightarrow> True"
    by (simp cong: option.case_cong) blast
  obtain i where i: "bt_get m (chars ''session_id'') = Some (JText i)" using p(1) by (rule text_property)
  have "\<exists>b. x = JBoolean b" if "conforms (Suc (Suc 2)) sv x" for x
    by (rule conforms_flag[OF that]) (simp add: sv_def json_get_obj)
  then have "bt_get m (chars ''save'') = None \<or> (\<exists>b. bt_get m (chars ''save'') = Some (JBoolean b))"
    using p(2) by (auto split: option.splits)
  moreover have "struct_fields True [(''session_id'', False), (''save'', True)] v
      = Some [Some (JText i), bt_get m (chars ''save'')]"
    unfolding m(1) using m(2) i by (subst struct_fields_object) auto
  ultimately show ?thesis
    using assms(1) i m(1)
    by (auto simp: decode_close_ida_session_def decode_id_def ids_parse_def decode_default_def)
qed

lemma const_property:
  assumes "case bt_get m k of Some x \<Rightarrow> conforms (Suc n) (obj [(''type'', ty), (''const'', c)]) x | None \<Rightarrow> False"
  shows "bt_get m k = Some c"
  using assms conforms_const[of n "obj [(''type'', ty), (''const'', c)]" _ c]
  by (cases "bt_get m k") (auto simp: json_get_obj)

text \<open>One alternative of the target: its fields, each by its own schema.\<close>

lemma variant_fields:
  assumes "conforms (Suc n) (obj [(''type'', text_value ''object''), (''properties'', obj ps),
      (''required'', JArray req), (''additionalProperties'', JBoolean False)]) v"
    and "req = map text_value rs" and "distinct (map fst ps)"
  shows "\<exists>m. v = JObject m \<and> list_all (\<lambda>(name, s). case bt_get m (chars name) of
        Some x \<Rightarrow> conforms n s x | None \<Rightarrow> name \<notin> set rs) ps"
proof -
  have "\<exists>m. v = JObject m \<and> (\<forall>k \<in> set (map fst m). k \<in> set (map (chars \<circ> fst) ps))
    \<and> list_all (\<lambda>(name, s). case bt_get m (chars name) of
        Some x \<Rightarrow> conforms n s x | None \<Rightarrow> name \<notin> set rs) ps"
    by (rule conforms_fields[OF assms(1)]) (simp_all add: json_get_obj assms(2,3))
  then show ?thesis by blast
qed

lemma dump_understood:
  assumes "conforms (Suc (Suc n)) (obj [(''type'', text_value ''object''),
      (''properties'', obj [(''kind'', obj [(''type'', text_value ''string''), (''const'', text_value ''dump'')]),
         (''path'', obj [(''type'', text_value ''string''), (''description'', d)])]),
      (''required'', JArray [text_value ''kind'', text_value ''path'']), (''additionalProperties'', JBoolean False)]) t"
  shows "decode_debug_target (Some t) \<noteq> None"
proof -
  obtain m where m: "t = JObject m"
    and k: "case bt_get m (chars ''kind'') of
      Some x \<Rightarrow> conforms (Suc n) (obj [(''type'', text_value ''string''), (''const'', text_value ''dump'')]) x | None \<Rightarrow> False"
    and p: "case bt_get m (chars ''path'') of
      Some x \<Rightarrow> conforms (Suc n) (obj [(''type'', text_value ''string''), (''description'', d)]) x | None \<Rightarrow> False"
    using variant_fields[OF assms, of "[''kind'', ''path'']"] by (simp cong: option.case_cong) blast
  obtain x where "bt_get m (chars ''path'') = Some (JText x)" using p by (rule text_property)
  then show ?thesis
    using m const_property[OF k] by (simp add: decode_debug_target_def tagged_def struct_fields_def bt_get_remove)
qed

lemma attach_understood:
  assumes "conforms (Suc (Suc n)) (obj [(''type'', text_value ''object''),
      (''properties'', obj [(''kind'', obj [(''type'', text_value ''string''), (''const'', text_value ''attach'')]),
         (''pid'', obj [(''type'', text_value ''integer''), (''minimum'', JNum (PosInt 1)), (''description'', d)])]),
      (''required'', JArray [text_value ''kind'', text_value ''pid'']), (''additionalProperties'', JBoolean False)]) t"
  shows "decode_debug_target (Some t) \<noteq> None \<or> (\<exists>i. json_get t (chars ''pid'') = Some (JNum (PosInt i)) \<and> 2 ^ 32 \<le> i)"
proof -
  define pid where "pid = obj [(''type'', text_value ''integer''), (''minimum'', JNum (PosInt 1)), (''description'', d)]"
  obtain m where m: "t = JObject m"
    and k: "case bt_get m (chars ''kind'') of
      Some x \<Rightarrow> conforms (Suc n) (obj [(''type'', text_value ''string''), (''const'', text_value ''attach'')]) x | None \<Rightarrow> False"
    and p: "case bt_get m (chars ''pid'') of Some x \<Rightarrow> conforms (Suc n) pid x | None \<Rightarrow> False"
    using variant_fields[OF assms[folded pid_def], of "[''kind'', ''pid'']"] by (simp cong: option.case_cong) blast
  have "\<exists>i. x = JNum (PosInt i)" if "conforms (Suc n) pid x" for x
    by (rule conforms_positive[OF that]) (simp_all add: pid_def json_get_obj)
  then obtain i where "bt_get m (chars ''pid'') = Some (JNum (PosInt i))" using p by (auto split: option.splits)
  then show ?thesis
    using m const_property[OF k]
    by (auto simp: decode_debug_target_def tagged_def struct_fields_def bt_get_remove not_less)
qed

lemma launch_understood:
  assumes "conforms (Suc (Suc (Suc n))) (obj [(''type'', text_value ''object''),
      (''properties'', obj [(''kind'', obj [(''type'', text_value ''string''), (''const'', text_value ''launch'')]),
         (''executable'', obj [(''type'', text_value ''string''), (''description'', d)]),
         (''args'', obj [(''type'', text_value ''array''), (''items'', obj [(''type'', text_value ''string'')]), (''description'', d')])]),
      (''required'', JArray [text_value ''kind'', text_value ''executable'']), (''additionalProperties'', JBoolean False)]) t"
  shows "decode_debug_target (Some t) \<noteq> None"
proof -
  define args where "args = obj [(''type'', text_value ''array''), (''items'', obj [(''type'', text_value ''string'')]), (''description'', d')]"
  obtain m where m: "t = JObject m"
    and k: "case bt_get m (chars ''kind'') of
      Some x \<Rightarrow> conforms (Suc (Suc n)) (obj [(''type'', text_value ''string''), (''const'', text_value ''launch'')]) x | None \<Rightarrow> False"
    and e: "case bt_get m (chars ''executable'') of
      Some x \<Rightarrow> conforms (Suc (Suc n)) (obj [(''type'', text_value ''string''), (''description'', d)]) x | None \<Rightarrow> False"
    and a: "case bt_get m (chars ''args'') of Some x \<Rightarrow> conforms (Suc (Suc n)) args x | None \<Rightarrow> True"
    using variant_fields[OF assms[folded args_def], of "[''kind'', ''executable'']"] by (simp cong: option.case_cong) blast
  obtain x where x: "bt_get m (chars ''executable'') = Some (JText x)" using e by (rule text_property)
  have "\<exists>ts. y = JArray (map JText ts)" if "conforms (Suc (Suc n)) args y" for y
    by (rule conforms_texts[OF that, of "obj [(''type'', text_value ''string'')]"])
      (simp_all add: args_def json_get_obj)
  then have "bt_get m (chars ''args'') = None \<or> (\<exists>ts. bt_get m (chars ''args'') = Some (JArray (map JText ts)))"
    using a by (auto split: option.splits)
  then show ?thesis
    using m const_property[OF k] x all_some_texts
    by (auto simp: decode_debug_target_def tagged_def struct_fields_def bt_get_remove decode_default_def comp_def)
qed

text \<open>The arguments name a process whose id is out of range.\<close>

definition pid_out_of_range :: "json \<Rightarrow> bool" where
  "pid_out_of_range v \<longleftrightarrow>
     (\<exists>t i. json_get v (chars ''target'') = Some t \<and> json_get t (chars ''pid'') = Some (JNum (PosInt i)) \<and> 2 ^ 32 \<le> i)"

lemma target_understood:
  assumes "conforms (Suc (Suc (Suc (Suc n)))) target t"
    and "json_get (td_input_schema create_session_descriptor) (chars ''properties'') = Some (obj [(''target'', target)])"
  shows "decode_debug_target (Some t) \<noteq> None \<or> (\<exists>i. json_get t (chars ''pid'') = Some (JNum (PosInt i)) \<and> 2 ^ 32 \<le> i)"
proof -
  have "json_get (obj [(''target'', target)]) (chars ''target'') = Some target" by (simp add: json_get_obj)
  moreover obtain alternatives where
    target: "target = obj [(''type'', text_value ''object''), (''description'', text_value ''Debug target.''),
      (''oneOf'', JArray alternatives)]"
    and alternatives: "alternatives =
     [obj [(''type'', text_value ''object''),
       (''properties'', obj [(''kind'', obj [(''type'', text_value ''string''), (''const'', text_value ''dump'')]),
          (''path'', obj [(''type'', text_value ''string''), (''description'', text_value ''Path to a local Windows dump file.'')])]),
       (''required'', JArray [text_value ''kind'', text_value ''path'']), (''additionalProperties'', JBoolean False)],
      obj [(''type'', text_value ''object''),
       (''properties'', obj [(''kind'', obj [(''type'', text_value ''string''), (''const'', text_value ''attach'')]),
          (''pid'', obj [(''type'', text_value ''integer''), (''minimum'', JNum (PosInt 1)), (''description'', text_value ''Process id to attach.'')])]),
       (''required'', JArray [text_value ''kind'', text_value ''pid'']), (''additionalProperties'', JBoolean False)],
      obj [(''type'', text_value ''object''),
       (''properties'', obj [(''kind'', obj [(''type'', text_value ''string''), (''const'', text_value ''launch'')]),
          (''executable'', obj [(''type'', text_value ''string''), (''description'', text_value ''Path to a local executable.'')]),
          (''args'', obj [(''type'', text_value ''array''), (''items'', obj [(''type'', text_value ''string'')]),
             (''description'', text_value ''Command-line arguments. Omit for no arguments.'')])]),
       (''required'', JArray [text_value ''kind'', text_value ''executable'']), (''additionalProperties'', JBoolean False)]]"
  proof -
    have "json_get (obj [(''target'', target)]) (chars ''target'')
      = Option.bind (json_get (td_input_schema create_session_descriptor) (chars ''properties''))
          (\<lambda>p. json_get p (chars ''target''))"
      by (simp add: assms(2))
    then show thesis
      by (intro that) (simp_all add: create_session_descriptor_def json_get_obj)
  qed
  ultimately have "\<exists>s \<in> set alternatives. conforms (Suc (Suc (Suc n))) s t"
    using conforms_one_of[OF assms(1)] by (simp add: json_get_obj)
  then show ?thesis
    unfolding alternatives using dump_understood attach_understood launch_understood by simp blast
qed

lemma create_session_understood:
  assumes "conforms 5 (td_input_schema create_session_descriptor) v"
  shows "decode_create_session v \<noteq> None \<or> pid_out_of_range v"
proof -
  obtain target where target: "json_get (td_input_schema create_session_descriptor) (chars ''properties'')
      = Some (obj [(''target'', target)])"
    by (simp add: create_session_descriptor_def json_get_obj)
  have "\<exists>m. v = JObject m \<and> (\<forall>k \<in> set (map fst m). k \<in> set (map (chars \<circ> fst) [(''target'', target)]))
    \<and> list_all (\<lambda>(name, s). case bt_get m (chars name) of
        Some x \<Rightarrow> conforms (Suc (Suc 2)) s x | None \<Rightarrow> name \<notin> set [''target'']) [(''target'', target)]"
    by (rule conforms_fields[OF assms(1)[unfolded five] _ target])
      (simp_all add: create_session_descriptor_def json_get_obj)
  then obtain m where m: "v = JObject m" "\<forall>k \<in> set (map fst m). k \<in> set (map (chars \<circ> fst) [(''target'', target)])"
    and p: "case bt_get m (chars ''target'') of Some x \<Rightarrow> conforms (Suc (Suc 2)) target x | None \<Rightarrow> False"
    by (simp cong: option.case_cong) blast
  obtain t where t: "bt_get m (chars ''target'') = Some t" "conforms (Suc (Suc 2)) target t"
    using p by (auto split: option.splits)
  have "conforms (Suc (Suc (Suc (Suc 0)))) target t" using t(2) by (simp add: numeral_2_eq_2)
  from target_understood[OF this target] have "decode_debug_target (Some t) \<noteq> None
      \<or> (\<exists>i. json_get t (chars ''pid'') = Some (JNum (PosInt i)) \<and> 2 ^ 32 \<le> i)" .
  moreover have "bt_get m (chars ''startup_timeout_ms'') = None" using m(2) by (intro bt_get_None) auto
  ultimately show ?thesis
    using m(1) t(1) by (auto simp: decode_create_session_def struct_fields_def pid_out_of_range_def)
qed

text \<open>
  C38. For the seven tools that make a debug session or work on one session (\<open>dbg.create_session\<close>, \<open>dbg.get_session\<close>,
  \<open>dbg.close_session\<close>, \<open>dbg.eval\<close>, \<open>dbg.add_symbols\<close>, \<open>ida.get_session\<close>, \<open>ida.close_session\<close>) the published schemas
  are true: arguments that conform to the schema of the tool are understood by its decoder, provided that the id in
  them is one; among these tools the one exception is a process id beyond 32 bits, which the schema of
  \<open>dbg.create_session\<close> allows and the decoder refuses. The tools that list take no arguments; the two tools of
  traces and \<open>ida.create_session\<close> are not part of this statement.
\<close>

theorem conforming_arguments_understood:
  assumes "ids_parse lib v"
  shows "(conforms 5 (td_input_schema create_session_descriptor) v
            \<longrightarrow> decode_create_session v \<noteq> None \<or> pid_out_of_range v)
    \<and> (conforms 5 (td_input_schema get_session_descriptor) v \<longrightarrow> decode_get_session lib v \<noteq> None)
    \<and> (conforms 5 (td_input_schema close_session_descriptor) v \<longrightarrow> decode_get_session lib v \<noteq> None)
    \<and> (conforms 5 (td_input_schema eval_descriptor) v \<longrightarrow> decode_eval lib v \<noteq> None)
    \<and> (conforms 5 (td_input_schema add_symbols_descriptor) v \<longrightarrow> decode_add_symbols lib v \<noteq> None)
    \<and> (conforms 5 (td_input_schema ida_get_session_descriptor) v \<longrightarrow> decode_get_ida_session lib v \<noteq> None)
    \<and> (conforms 5 (td_input_schema ida_close_session_descriptor) v \<longrightarrow> decode_close_ida_session lib v \<noteq> None)"
  by (intro conjI impI create_session_understood get_session_understood(1)[OF assms]
      get_session_understood(2)[OF assms] get_session_understood(3)[OF assms] eval_understood[OF assms]
      add_symbols_understood[OF assms] close_ida_understood[OF assms])

definition demo_arguments :: json where
  "demo_arguments = obj [(''session_id'', text_value ''7'')]"

definition any_uuid :: serde_lib where
  "any_uuid = \<lparr>sl_parse_uuid = (\<lambda>_. Some 7), sl_error = (\<lambda>_ _. []), sl_print = (\<lambda>_. []), sl_pretty = (\<lambda>_. []),
     sl_parse = (\<lambda>_. Inr JNull), sl_pkg_version = []\<rparr>"

lemma demo_arguments_conform: "conforms 5 (td_input_schema get_session_descriptor) demo_arguments"
proof -
  have m: "demo_arguments = JObject [(chars ''session_id'', text_value ''7'')]"
    by (simp add: demo_arguments_def obj_def)
  have "has_type (chars ''object'') (JObject x)" "has_type (chars ''string'') (JText t)" for x t
    by (simp_all add: has_type_def)
  then show ?thesis
    unfolding m by (simp add: numeral_eq_Suc conforms.simps get_session_descriptor_def json_get_obj bt_get_def)
qed

lemma conforming_arguments_understood_witness:
  "decode_get_session any_uuid demo_arguments \<noteq> None"
proof -
  have "ids_parse any_uuid demo_arguments" by (simp add: ids_parse_def any_uuid_def)
  from conforming_arguments_understood[OF this] demo_arguments_conform show ?thesis by blast
qed

end
