(* ===== verification/Mcp.thy ===== *)
theory Mcp
  imports Tool_Schemas
begin

text \<open>
  The JSON-RPC side of the server (\<open>mcp.rs\<close>): \<open>handle_message\<close> with all its methods. What it logs is
  kept as level, event, error and the id of the HTTP request; the other fields are left out.
\<close>

section \<open>The server\<close>

record mcp_log =
  ml_level :: log_level
  ml_component :: string
  ml_event :: string
  ml_error :: "utext option"
  ml_http_request_id :: "nat option"

record 's mcp_server =
  ms_service :: 's
  ms_logs :: "mcp_log list"

definition log_with_context ::
    "log_level \<Rightarrow> string \<Rightarrow> utext option \<Rightarrow> nat option \<Rightarrow> 's mcp_server \<Rightarrow> 's mcp_server" where
  "log_with_context level event error http v =
     v\<lparr>ms_logs := ms_logs v @ [\<lparr>ml_level = level, ml_component = ''mcp'', ml_event = event, ml_error = error,
        ml_http_request_id = http\<rparr>]\<rparr>"

record server_error =
  se_code :: int
  se_message :: utext

abbreviation ServerError :: "int \<Rightarrow> utext \<Rightarrow> server_error" where
  "ServerError c m \<equiv> \<lparr>se_code = c, se_message = m\<rparr>"

section \<open>Responses\<close>

definition JSONRPC_VERSION :: utext where "JSONRPC_VERSION = chars ''2.0''"
definition DEFAULT_PROTOCOL_VERSION :: utext where "DEFAULT_PROTOCOL_VERSION = chars ''2025-06-18''"
definition SUPPORTED_PROTOCOL_VERSIONS :: "utext list" where
  "SUPPORTED_PROTOCOL_VERSIONS = [chars ''2024-11-05'', chars ''2025-03-26'', DEFAULT_PROTOCOL_VERSION]"

definition success_response :: "json \<Rightarrow> json \<Rightarrow> json" where
  "success_response i res =
     obj [(''jsonrpc'', JText JSONRPC_VERSION), (''id'', i), (''result'', res)]"

text \<open>An \<open>i64\<close> as a JSON number.\<close>

definition int_value :: "int \<Rightarrow> json" where
  "int_value n = JNum (if n < 0 then NegInt n else PosInt (nat n))"

definition error_response :: "json \<Rightarrow> int \<Rightarrow> utext \<Rightarrow> json" where
  "error_response i code message =
     obj [(''jsonrpc'', JText JSONRPC_VERSION), (''id'', i),
          (''error'', obj [(''code'', int_value code), (''message'', JText message)])]"

definition tool_content :: "utext \<Rightarrow> bool \<Rightarrow> json" where
  "tool_content txt is_error =
     obj [(''content'', JArray [obj [(''type'', text_value ''text''), (''text'', JText txt)]]),
          (''isError'', JBoolean is_error)]"

definition tool_success :: "serde_lib \<Rightarrow> json \<Rightarrow> json" where
  "tool_success lib v = tool_content (sl_pretty lib v) False"

definition tool_error :: "utext \<Rightarrow> json" where
  "tool_error message = tool_content message True"

definition is_valid_request_id :: "json \<Rightarrow> bool" where
  "is_valid_request_id i = (case i of JText _ \<Rightarrow> True | JNum _ \<Rightarrow> True | JNull \<Rightarrow> True | _ \<Rightarrow> False)"

section \<open>Session resources\<close>

definition session_resource_uri :: "'s tools \<Rightarrow> session_id \<Rightarrow> utext" where
  "session_resource_uri t i = chars ''dbgflow://sessions/'' @ chars (tl_show_id t i)"

definition parse_session_resource_uri :: "serde_lib \<Rightarrow> utext \<Rightarrow> server_error + session_id" where
  "parse_session_resource_uri lib uri =
     (case strip_prefix uri (chars ''dbgflow://sessions/'') of
        None \<Rightarrow> Inl (ServerError (- 32602) (chars ''invalid session resource uri: '' @ uri))
      | Some i \<Rightarrow>
          (case sl_parse_uuid lib i of
             Some sid \<Rightarrow> Inr sid
           | None \<Rightarrow> Inl (ServerError (- 32602)
               (chars ''invalid session id in uri: '' @ sl_error lib ''SessionId'' (JText i)))))"

text \<open>An error of a manager as a server error.\<close>

definition manager_error :: "'s tools \<Rightarrow> dbgflow_error \<Rightarrow> server_error" where
  "manager_error t e = ServerError (- 32000) (text_of (error_text (tl_show_id t) e))"

definition session_resource :: "'s tools \<Rightarrow> session \<Rightarrow> json" where
  "session_resource t s =
     obj [(''uri'', JText (session_resource_uri t (s_id s))),
          (''name'', JText (chars ''dbgflow session '' @ chars (tl_show_id t (s_id s)))),
          (''description'', JText (chars ''dbgflow session state: '' @ chars (state_name (s_state s)))),
          (''mimeType'', text_value ''application/json'')]"

definition resources_list :: "'s tools \<Rightarrow> 's \<Rightarrow> server_error + json" where
  "resources_list t s =
     (case tl_list_sessions t s of
        Inl e \<Rightarrow> Inl (manager_error t e)
      | Inr sessions \<Rightarrow> Inr (obj [(''resources'', JArray (map (session_resource t) sessions))]))"

definition decode_resource_read :: "json \<Rightarrow> utext option" where
  "decode_resource_read v =
     (case struct_fields False [(''uri'', False)] v of Some [u] \<Rightarrow> decode_text u | _ \<Rightarrow> None)"

definition resources_read :: "serde_lib \<Rightarrow> 's tools \<Rightarrow> json \<Rightarrow> 's \<Rightarrow> server_error + json" where
  "resources_read lib t params s =
     (case decode_resource_read params of
        None \<Rightarrow> Inl (ServerError (- 32602)
          (chars ''invalid resources/read params: '' @ sl_error lib ''ResourceReadParams'' params))
      | Some uri \<Rightarrow>
          (case parse_session_resource_uri lib uri of
             Inl e \<Rightarrow> Inl e
           | Inr sid \<Rightarrow>
               (case tl_query_session t sid s of
                  Inl e \<Rightarrow> Inl (manager_error t e)
                | Inr session \<Rightarrow>
                    (case tl_session_pretty t session of
                       Inl e \<Rightarrow> Inl (ServerError (- 32000) (chars ''serialize session: '' @ e))
                     | Inr txt \<Rightarrow>
                         Inr (obj [(''contents'', JArray [obj [(''uri'', JText uri),
                           (''mimeType'', text_value ''application/json''), (''text'', JText txt)]])])))))"

section \<open>Methods\<close>

definition initialize :: "serde_lib \<Rightarrow> json \<Rightarrow> json" where
  "initialize lib params =
     (let requested = (case Option.bind (json_get params (chars ''protocolVersion'')) as_str of
            Some v \<Rightarrow> v | None \<Rightarrow> DEFAULT_PROTOCOL_VERSION);
          version = (if requested \<in> set SUPPORTED_PROTOCOL_VERSIONS then requested else DEFAULT_PROTOCOL_VERSION)
      in obj [(''protocolVersion'', JText version),
              (''capabilities'', obj [(''tools'', obj [(''listChanged'', JBoolean False)]),
                 (''resources'', obj [(''subscribe'', JBoolean False), (''listChanged'', JBoolean False)])]),
              (''serverInfo'', obj [(''name'', text_value ''dbgflow''), (''version'', JText (sl_pkg_version lib))]),
              (''instructions'', text_value ''Use dbgflow tools to create debug sessions and run audited native debugger commands in trusted local environments.'')])"

definition decode_call_tool :: "json \<Rightarrow> (utext \<times> json option) option" where
  "decode_call_tool v =
     (case struct_fields False [(''name'', False), (''arguments'', False)] v of
        Some [n, a] \<Rightarrow>
          (case (decode_text n, decode_opt (\<lambda>x. x) a) of
             (Some n', Some a') \<Rightarrow> Some (n', a')
           | _ \<Rightarrow> None)
      | _ \<Rightarrow> None)"

definition call_tool ::
    "serde_lib \<Rightarrow> 's tools \<Rightarrow> json \<Rightarrow> nat option \<Rightarrow> tool_call_context \<Rightarrow> 's mcp_server
       \<Rightarrow> (server_error + json) \<times> 's mcp_server" where
  "call_tool lib t params http context v =
     (case decode_call_tool params of
        None \<Rightarrow> (Inl (ServerError (- 32602)
          (chars ''invalid tools/call params: '' @ sl_error lib ''CallToolParams'' params)), v)
      | Some (name, args) \<Rightarrow>
          (let arguments = (case args of Some a \<Rightarrow> a | None \<Rightarrow> JObject []);
               v1 = log_with_context Info ''mcp_tool_call_started'' None http v
           in case call_tool_with_context lib t name arguments context (ms_service v1) of
                (Inr res, s) \<Rightarrow>
                  (Inr (tool_success lib res),
                   log_with_context Info ''mcp_tool_call_finished'' None http (v1\<lparr>ms_service := s\<rparr>))
              | (Inl (InvalidRequest message), s) \<Rightarrow>
                  (Inl (ServerError (- 32602) message),
                   log_with_context LogError ''mcp_tool_call_finished'' (Some message) http (v1\<lparr>ms_service := s\<rparr>))
              | (Inl (Execution message), s) \<Rightarrow>
                  (Inr (tool_error message),
                   log_with_context Warn ''mcp_tool_call_finished'' (Some message) http (v1\<lparr>ms_service := s\<rparr>))))"

text \<open>The methods but \<open>notifications/initialized\<close>, which has no result.\<close>

definition run_method ::
    "serde_lib \<Rightarrow> 's tools \<Rightarrow> utext \<Rightarrow> json \<Rightarrow> nat option \<Rightarrow> tool_call_context \<Rightarrow> 's mcp_server
       \<Rightarrow> (server_error + json) \<times> 's mcp_server" where
  "run_method lib t meth params http context v =
     (if meth = chars ''initialize'' then (Inr (initialize lib params), v)
      else if meth = chars ''ping'' then (Inr (obj []), v)
      else if meth = chars ''tools/list'' then (Inr (obj [(''tools'', JArray (tl_descriptors t (ms_service v)))]), v)
      else if meth = chars ''tools/call'' then call_tool lib t params http context v
      else if meth = chars ''resources/list'' then (resources_list t (ms_service v), v)
      else if meth = chars ''resources/read'' then (resources_read lib t params (ms_service v), v)
      else (Inl (ServerError (- 32601) (chars ''method not found: '' @ meth)), v))"

definition reject_message ::
    "json \<Rightarrow> string \<Rightarrow> nat option \<Rightarrow> 's mcp_server \<Rightarrow> json option \<times> 's mcp_server" where
  "reject_message i message http v =
     (Some (error_response i (- 32600) (chars message)),
      log_with_context LogError ''mcp_request_rejected'' (Some (chars message)) http v)"

definition handle_message_with_context ::
    "serde_lib \<Rightarrow> 's tools \<Rightarrow> json \<Rightarrow> nat option \<Rightarrow> tool_call_context \<Rightarrow> 's mcp_server
       \<Rightarrow> json option \<times> 's mcp_server" where
  "handle_message_with_context lib t message http context v =
     (case as_object message of
        None \<Rightarrow> reject_message JNull ''invalid request'' http v
      | Some object \<Rightarrow>
          (let i = bt_get object (chars ''id'');
               response_id = (case i of Some x \<Rightarrow> x | None \<Rightarrow> JNull)
           in if Option.bind (bt_get object (chars ''jsonrpc'')) as_str \<noteq> Some JSONRPC_VERSION
              then reject_message response_id ''invalid JSON-RPC version'' http v
              else if (case i of Some x \<Rightarrow> \<not> is_valid_request_id x | None \<Rightarrow> False)
              then reject_message JNull ''invalid JSON-RPC request id'' http v
              else case Option.bind (json_get message (chars ''method'')) as_str of
                None \<Rightarrow> reject_message response_id ''invalid request'' http v
              | Some meth \<Rightarrow>
                  (let v1 = log_with_context Info ''mcp_request_started'' None http v
                   in if meth = chars ''notifications/initialized''
                      then (None, log_with_context Info ''mcp_request_finished'' None http v1)
                      else
                        let params = (case json_get message (chars ''params'') of Some p \<Rightarrow> p | None \<Rightarrow> JNull);
                            (res, v2) = run_method lib t meth params http context v1
                        in case i of
                             None \<Rightarrow>
                               (Some (error_response JNull (- 32600) (chars ''request method requires id'')),
                                log_with_context LogError ''mcp_request_finished''
                                  (Some (chars ''request method requires id'')) http v2)
                           | Some x \<Rightarrow>
                               (case res of
                                  Inr r \<Rightarrow>
                                    (Some (success_response x r),
                                     log_with_context Info ''mcp_request_finished'' None http v2)
                                | Inl e \<Rightarrow>
                                    (Some (error_response x (se_code e) (se_message e)),
                                     log_with_context LogError ''mcp_request_finished'' (Some (se_message e)) http v2)))))"

end
