(* ===== verification/Http.thy ===== *)
theory Http
  imports Mcp
begin

text \<open>
  The HTTP transport (\<open>http.rs\<close>): reading a request from a connection, routing it, the checks of
  origin and content type, the event stream, and writing the response. A connection is the bytes it
  will deliver and how it ends; the Windows tables for finding the peer are arguments.
\<close>

section \<open>Reading\<close>

datatype io_kind = InvalidInput | InvalidData | UnexpectedEof | WouldBlock | IoTimedOut | OtherIo

record io_error =
  io_kind :: io_kind
  io_text :: utext

abbreviation io_error :: "io_kind \<Rightarrow> utext \<Rightarrow> io_error" where
  "io_error k m \<equiv> \<lparr>io_kind = k, io_text = m\<rparr>"

definition is_incomplete_request_error :: "io_error \<Rightarrow> bool" where
  "is_incomplete_request_error e = (io_kind e \<in> {WouldBlock, IoTimedOut, UnexpectedEof})"

definition invalid_input :: "string \<Rightarrow> io_error" where
  "invalid_input message = io_error InvalidInput (chars message)"

definition incomplete_request :: "string \<Rightarrow> io_error" where
  "incomplete_request message = io_error UnexpectedEof (chars message)"

text \<open>What a connection delivers; \<open>None\<close> is the end of the stream, otherwise reading fails.\<close>

record incoming =
  in_bytes :: "byte list"
  in_end :: "io_error option"

definition decode_line :: "byte list \<Rightarrow> io_error + utext" where
  "decode_line bytes =
     (case utf8_decode (map unat bytes) of
        Some t \<Rightarrow> Inr t
      | None \<Rightarrow> Inl (io_error InvalidData (chars ''stream did not contain valid UTF-8'')))"

text \<open>\<open>BufRead::read_line\<close>: up to and with the next line feed.\<close>

definition read_line :: "incoming \<Rightarrow> io_error + (utext \<times> incoming)" where
  "read_line s =
     (let line = takeWhile (\<lambda>b. b \<noteq> 10) (in_bytes s); more = dropWhile (\<lambda>b. b \<noteq> 10) (in_bytes s)
      in if more \<noteq> [] then
           (case decode_line (line @ [10]) of
              Inl e \<Rightarrow> Inl e
            | Inr t \<Rightarrow> Inr (t, s\<lparr>in_bytes := tl more\<rparr>))
         else
           (case in_end s of
              Some e \<Rightarrow> Inl e
            | None \<Rightarrow> (case decode_line line of Inl e \<Rightarrow> Inl e | Inr t \<Rightarrow> Inr (t, s\<lparr>in_bytes := []\<rparr>))))"

text \<open>\<open>Read::read_exact\<close>\<close>

definition read_exact :: "nat \<Rightarrow> incoming \<Rightarrow> io_error + byte list" where
  "read_exact n s =
     (if n \<le> length (in_bytes s) then Inr (take n (in_bytes s))
      else case in_end s of
        Some e \<Rightarrow> Inl e
      | None \<Rightarrow> Inl (io_error UnexpectedEof (chars ''failed to fill whole buffer'')))"

type_synonym headers = "utext \<Rightarrow> utext option"

record http_request =
  rq_method :: utext
  rq_path :: utext
  rq_headers :: headers
  rq_body :: "byte list"

definition insert_header :: "utext \<times> utext \<Rightarrow> headers \<Rightarrow> headers" where
  "insert_header h m = m(to_ascii_lowercase (trim (fst h)) \<mapsto> trim (snd h))"

lemma read_line_shorter:
  "read_line s = Inr (t, s') \<Longrightarrow> t \<noteq> [] \<Longrightarrow> length (in_bytes s') < length (in_bytes s)"
proof -
  assume r: "read_line s = Inr (t, s')" and t: "t \<noteq> []"
  have le: "length (dropWhile (\<lambda>b. b \<noteq> 10) (in_bytes s)) \<le> length (in_bytes s)" by (rule length_dropWhile_le)
  have "0 < length (in_bytes s)" if "x \<in> set (in_bytes s)" for x using that by (cases "in_bytes s") auto
  then have "length (tl (dropWhile (\<lambda>b. b \<noteq> 10) (in_bytes s))) < length (in_bytes s)"
    if "x \<in> set (in_bytes s)" for x using that le by (simp add: diff_less_mono2 le_less_trans[OF diff_le_mono])
  then show ?thesis
    using r t by (auto simp: read_line_def Let_def decode_line_def split: if_splits sum.splits option.splits)
qed

function read_headers :: "incoming \<Rightarrow> headers \<Rightarrow> io_error + (headers \<times> incoming)" where
  "read_headers s m =
     (case read_line s of
        Inl e \<Rightarrow> Inl e
      | Inr (full, s') \<Rightarrow>
          (if full = [] then Inl (incomplete_request ''HTTP headers were not fully received'')
           else
             let line = trim_end_matches (\<lambda>c. c = 13 \<or> c = 10) full
             in if line = [] then Inr (m, s')
                else case split_once 58 line of
                  None \<Rightarrow> Inl (invalid_input ''invalid HTTP header'')
                | Some h \<Rightarrow> read_headers s' (insert_header h m)))"
  by pat_completeness auto
termination
  by (relation "measure (\<lambda>(s, m). length (in_bytes s))") (auto dest: read_line_shorter)

declare read_headers.simps [simp del]

definition MAX_REQUEST_BYTES :: nat where
  "MAX_REQUEST_BYTES = 16 * 1024 * 1024"

definition parse_request_line :: "utext \<Rightarrow> io_error + (utext \<times> utext)" where
  "parse_request_line request_line =
     (if trim request_line = [] then Inl (invalid_input ''empty request'')
      else case split_whitespace request_line of
        [] \<Rightarrow> Inl (invalid_input ''missing HTTP method'')
      | [meth] \<Rightarrow> Inl (invalid_input ''missing HTTP path'')
      | [meth, path] \<Rightarrow> Inl (invalid_input ''missing HTTP version'')
      | meth # path # version # _ \<Rightarrow>
          (if starts_with_text version (chars ''HTTP/1.'') then Inr (meth, path)
           else Inl (invalid_input ''unsupported HTTP version'')))"

definition content_length_of :: "headers \<Rightarrow> io_error + nat" where
  "content_length_of m =
     (case m (chars ''content-length'') of
        None \<Rightarrow> Inr 0
      | Some v \<Rightarrow>
          (case parse_usize v of
             Some n \<Rightarrow> Inr n
           | None \<Rightarrow> Inl (invalid_input ''invalid content length'')))"

definition read_request :: "incoming \<Rightarrow> io_error + http_request" where
  "read_request s =
     (case read_line s of
        Inl e \<Rightarrow> Inl e
      | Inr (request_line, s1) \<Rightarrow>
          if request_line = [] then Inl (incomplete_request ''HTTP request line was not received'')
          else case parse_request_line request_line of
            Inl e \<Rightarrow> Inl e
          | Inr (meth, path) \<Rightarrow>
              (case read_headers s1 (\<lambda>_. None) of
                 Inl e \<Rightarrow> Inl e
               | Inr (m, s2) \<Rightarrow>
                   (case content_length_of m of
                      Inl e \<Rightarrow> Inl e
                    | Inr content_length \<Rightarrow>
                        if content_length > MAX_REQUEST_BYTES then Inl (invalid_input ''request body too large'')
                        else case read_exact content_length s2 of
                          Inl e \<Rightarrow> Inl e
                        | Inr body \<Rightarrow>
                            Inr \<lparr>rq_method = meth, rq_path = path, rq_headers = m, rq_body = body\<rparr>)))"

section \<open>Responses\<close>

record http_response =
  rs_status :: nat
  rs_content_type :: "string option"
  rs_headers :: "(string \<times> string) list"
  rs_body :: "byte list"

definition json_response :: "serde_lib \<Rightarrow> nat \<Rightarrow> json \<Rightarrow> http_response" where
  "json_response lib status v =
     \<lparr>rs_status = status, rs_content_type = Some ''application/json'', rs_headers = [], rs_body = sl_print lib v\<rparr>"

definition empty_response :: "nat \<Rightarrow> http_response" where
  "empty_response status =
     \<lparr>rs_status = status, rs_content_type = None, rs_headers = [], rs_body = []\<rparr>"

definition error_json :: "utext \<Rightarrow> json" where
  "error_json message = obj [(''error'', JText message)]"

definition reason_phrase :: "nat \<Rightarrow> string" where
  "reason_phrase status =
     (if status = 200 then ''OK''
      else if status = 202 then ''Accepted''
      else if status = 400 then ''Bad Request''
      else if status = 403 then ''Forbidden''
      else if status = 404 then ''Not Found''
      else if status = 405 then ''Method Not Allowed''
      else if status = 408 then ''Request Timeout''
      else if status = 413 then ''Payload Too Large''
      else if status = 415 then ''Unsupported Media Type''
      else ''Internal Server Error'')"

text \<open>ASCII text as bytes; a line with its end.\<close>

definition ascii :: "string \<Rightarrow> byte list" where
  "ascii s = map of_char s"

definition crlf :: "byte list" where
  "crlf = [13, 10]"

definition header_line :: "string \<Rightarrow> string \<Rightarrow> byte list" where
  "header_line name v = ascii (name @ '': '' @ v) @ crlf"

definition write_response :: "http_response \<Rightarrow> byte list" where
  "write_response r =
     ascii (''HTTP/1.1 '' @ show_nat (rs_status r) @ '' '' @ reason_phrase (rs_status r)) @ crlf
     @ header_line ''Content-Length'' (show_nat (length (rs_body r)))
     @ header_line ''Connection'' ''close''
     @ (case rs_content_type r of
          None \<Rightarrow> []
        | Some content_type \<Rightarrow> header_line ''Content-Type'' (content_type @ ''; charset=utf-8''))
     @ concat (map (\<lambda>(name, v). header_line name v) (rs_headers r))
     @ crlf @ rs_body r"

section \<open>Checks\<close>

definition content_type_is_json :: "utext option \<Rightarrow> bool" where
  "content_type_is_json v =
     (case v of
        None \<Rightarrow> False
      | Some v \<Rightarrow> eq_ignore_ascii_case (trim (hd (split_on (\<lambda>c. c = 59) v))) (chars ''application/json''))"

definition local_origins :: "string list" where
  "local_origins =
     [''http://localhost'', ''https://localhost'', ''http://127.0.0.1'', ''https://127.0.0.1'',
      ''http://[::1]'', ''https://[::1]'']"

definition origin_is_allowed :: "utext option \<Rightarrow> bool" where
  "origin_is_allowed v =
     (case v of
        None \<Rightarrow> True
      | Some v \<Rightarrow>
          (let origin = to_ascii_lowercase (trim v)
           in trim v = []
              \<or> (\<exists>o' \<in> set local_origins. origin = chars o' \<or> starts_with_text origin (chars (o' @ '':'')))))"

definition request_path :: "http_request \<Rightarrow> utext" where
  "request_path r = (case split_once 63 (rq_path r) of Some (path, _) \<Rightarrow> path | None \<Rightarrow> rq_path r)"

definition is_mcp_sse_request :: "http_request \<Rightarrow> bool" where
  "is_mcp_sse_request r = (rq_method r = chars ''GET'' \<and> request_path r = chars ''/mcp'')"

definition is_jsonrpc_notification :: "json \<Rightarrow> bool" where
  "is_jsonrpc_notification m = (json_get m (chars ''method'') \<noteq> None \<and> json_get m (chars ''id'') = None)"

definition is_jsonrpc_response :: "json \<Rightarrow> bool" where
  "is_jsonrpc_response m =
     (json_get m (chars ''method'') = None \<and> json_get m (chars ''id'') \<noteq> None
      \<and> (json_get m (chars ''result'') \<noteq> None \<or> json_get m (chars ''error'') \<noteq> None))"

section \<open>Handling a request\<close>

definition http_log :: "log_level \<Rightarrow> string \<Rightarrow> utext option \<Rightarrow> nat \<Rightarrow> 's mcp_server \<Rightarrow> 's mcp_server" where
  "http_log level event error http v =
     v\<lparr>ms_logs := ms_logs v @ [\<lparr>ml_level = level, ml_component = ''http'', ml_event = event, ml_error = error,
        ml_http_request_id = Some http\<rparr>]\<rparr>"

text \<open>The tables and calls of Windows that find the process at the other end.\<close>

record net =
  nt_table4 :: "tcp_row list result"
  nt_table6 :: "tcp_row list result"
  nt_session_of :: "u32 \<Rightarrow> u32 result"

definition resolve_tool_call_context :: "net \<Rightarrow> socket_addr option \<Rightarrow> socket_addr option \<Rightarrow> tool_call_context" where
  "resolve_tool_call_context net local_addr peer_addr =
     (case (local_addr, peer_addr) of
        (Some l, Some p) \<Rightarrow> resolve_peer_process_context (nt_table4 net) (nt_table6 net) (nt_session_of net) l p
      | _ \<Rightarrow> \<lparr>tcc_peer_pid = None, tcc_peer_session_id = None\<rparr>)"

definition handle_mcp_post ::
    "serde_lib \<Rightarrow> 's tools \<Rightarrow> net \<Rightarrow> http_request \<Rightarrow> nat \<Rightarrow> socket_addr option \<Rightarrow> socket_addr option
       \<Rightarrow> 's mcp_server \<Rightarrow> http_response \<times> 's mcp_server" where
  "handle_mcp_post lib t net r request_id local_addr peer_addr v =
     (if \<not> content_type_is_json (rq_headers r (chars ''content-type''))
      then (json_response lib 415 (error_json (chars ''content type must be application/json'')),
            http_log Warn ''http_request_invalid_content_type'' None request_id v)
      else case sl_parse lib (rq_body r) of
        Inl e \<Rightarrow>
          (json_response lib 400 (error_json (chars ''parse error: '' @ e)),
           http_log LogError ''http_json_parse_failed'' (Some e) request_id v)
      | Inr message \<Rightarrow>
          if is_jsonrpc_response message
          then (empty_response 202, http_log Info ''http_mcp_response_accepted'' None request_id v)
          else if is_jsonrpc_notification message then
            (let meth = (case Option.bind (json_get message (chars ''method'')) as_str of
                 Some m \<Rightarrow> m | None \<Rightarrow> chars ''<invalid>'');
                 v1 = (if meth = chars ''notifications/initialized''
                       then snd (handle_message_with_context lib t message (Some request_id)
                              \<lparr>tcc_peer_pid = None, tcc_peer_session_id = None\<rparr> v)
                       else v)
             in (empty_response 202, http_log Info ''http_mcp_notification_accepted'' None request_id v1))
          else
            (let context = resolve_tool_call_context net local_addr peer_addr;
                 v1 = http_log Info ''http_mcp_peer_context_resolved'' None request_id v
             in case handle_message_with_context lib t message (Some request_id) context v1 of
                  (Some response, v2) \<Rightarrow> (json_response lib 200 response, v2)
                | (None, v2) \<Rightarrow> (empty_response 202, v2)))"

definition route_request ::
    "serde_lib \<Rightarrow> 's tools \<Rightarrow> net \<Rightarrow> http_request \<Rightarrow> nat \<Rightarrow> socket_addr option \<Rightarrow> socket_addr option
       \<Rightarrow> 's mcp_server \<Rightarrow> http_response \<times> 's mcp_server" where
  "route_request lib t net r request_id local_addr peer_addr v =
     (if \<not> origin_is_allowed (rq_headers r (chars ''origin''))
      then (json_response lib 403 (error_json (chars ''forbidden origin'')),
            http_log Warn ''http_origin_rejected'' None request_id v)
      else if rq_method r = chars ''GET'' \<and> request_path r = chars ''/healthz''
      then (json_response lib 200 (obj [(''status'', text_value ''ok'')]), v)
      else if rq_method r = chars ''GET'' \<and> request_path r = chars ''/mcp'' then (empty_response 405, v)
      else if rq_method r = chars ''POST'' \<and> request_path r = chars ''/mcp''
      then handle_mcp_post lib t net r request_id local_addr peer_addr v
      else (json_response lib 404 (error_json (chars ''not found'')), v))"

section \<open>A connection\<close>

text \<open>What \<open>set_nonblocking\<close> and \<open>set_read_timeout\<close> give, what arrives, the two addresses, and the error of writing
  the head of an event stream.\<close>

record connection =
  cn_setup :: "io_error option"
  cn_incoming :: incoming
  cn_local :: "socket_addr option"
  cn_peer :: "socket_addr option"
  cn_head_error :: "io_error option"

text \<open>The process-wide counter of requests with the server.\<close>

record 's http_state =
  hs_server :: "'s mcp_server"
  hs_next_request_id :: u64

datatype connection_reply = NoReply | Reply http_response | EventStream

text \<open>When the head of the stream is written, the connection becomes a subscriber of the session manager.\<close>

definition session_update_receiver :: "'s tools \<Rightarrow> 's mcp_server \<Rightarrow> 's mcp_server" where
  "session_update_receiver t v = v\<lparr>ms_service := tl_subscribe t (ms_service v)\<rparr>"

definition handle_mcp_sse ::
    "serde_lib \<Rightarrow> 's tools \<Rightarrow> io_error option \<Rightarrow> nat \<Rightarrow> http_request \<Rightarrow> 's mcp_server \<Rightarrow> connection_reply \<times> 's mcp_server" where
  "handle_mcp_sse lib t head_error request_id r v =
     (if \<not> origin_is_allowed (rq_headers r (chars ''origin''))
      then (Reply (json_response lib 403 (error_json (chars ''forbidden origin''))),
            http_log Warn ''http_origin_rejected'' None request_id v)
      else case head_error of
             Some e \<Rightarrow> (NoReply, v)
           | None \<Rightarrow> (EventStream, session_update_receiver t (http_log Info ''http_sse_opened'' None request_id v)))"

definition handle_connection ::
    "serde_lib \<Rightarrow> 's tools \<Rightarrow> net \<Rightarrow> connection \<Rightarrow> 's http_state \<Rightarrow> connection_reply \<times> 's http_state" where
  "handle_connection lib t net c h =
     (let request_id = unat (hs_next_request_id h);
          h1 = h\<lparr>hs_next_request_id := hs_next_request_id h + 1\<rparr>;
          v = hs_server h1
      in case cn_setup c of
           Some e \<Rightarrow> (NoReply, h1)
         | None \<Rightarrow>
             (case read_request (cn_incoming c) of
                Inl e \<Rightarrow>
                  (if is_incomplete_request_error e
                   then (Reply (json_response lib 408 (error_json (io_text e))),
                         h1\<lparr>hs_server := http_log Warn ''http_request_incomplete'' (Some (io_text e)) request_id v\<rparr>)
                   else (Reply (json_response lib 400 (error_json (io_text e))),
                         h1\<lparr>hs_server := http_log LogError ''http_request_rejected'' (Some (io_text e)) request_id v\<rparr>))
              | Inr r \<Rightarrow>
                  (let v1 = http_log Info ''http_request_started'' None request_id v
                   in if is_mcp_sse_request r
                      then (case handle_mcp_sse lib t (cn_head_error c) request_id r v1 of
                              (reply, v2) \<Rightarrow> (reply, h1\<lparr>hs_server := v2\<rparr>))
                      else (case route_request lib t net r request_id (cn_local c) (cn_peer c) v1 of
                              (response, v2) \<Rightarrow>
                                (Reply response,
                                 h1\<lparr>hs_server := http_log Info ''http_request_finished'' None request_id v2\<rparr>)))))"

section \<open>The event stream\<close>

text \<open>What the receiver of the subscription gives (an update that the session manager has sent, nothing for thirty
  seconds, or that the manager is gone), each with the error if writing the answer fails.\<close>

datatype sse_event = SseUpdate session_id | SseKeepAlive | SseDisconnected

definition sse_start :: "byte list" where
  "sse_start =
     ascii ''HTTP/1.1 200 OK'' @ crlf @ header_line ''Content-Type'' ''text/event-stream; charset=utf-8''
     @ header_line ''Cache-Control'' ''no-cache'' @ header_line ''Connection'' ''keep-alive'' @ crlf"

definition sse_notification :: "'s tools \<Rightarrow> session_id \<Rightarrow> json" where
  "sse_notification t i =
     obj [(''jsonrpc'', text_value ''2.0''), (''method'', text_value ''notifications/resources/updated''),
          (''params'', obj [(''uri'', JText (session_resource_uri t i))])]"

definition write_sse_json :: "serde_lib \<Rightarrow> json \<Rightarrow> byte list" where
  "write_sse_json lib v = ascii ''data: '' @ sl_print lib v @ [10, 10]"

fun sse_loop ::
    "serde_lib \<Rightarrow> 's tools \<Rightarrow> nat \<Rightarrow> (sse_event \<times> io_error option) list \<Rightarrow> 's mcp_server
       \<Rightarrow> byte list list \<times> (io_error option) option \<times> 's mcp_server" where
  "sse_loop lib t request_id [] v = ([], None, v)"
| "sse_loop lib t request_id ((SseDisconnected, w) # evs) v =
     ([], Some None, http_log Info ''http_sse_closed'' None request_id v)"
| "sse_loop lib t request_id ((ev, Some e) # evs) v =
     ([], Some (Some e), http_log Warn ''http_sse_closed'' (Some (io_text e)) request_id v)"
| "sse_loop lib t request_id ((SseUpdate i, None) # evs) v =
     (case sse_loop lib t request_id evs v of
        (out, res, v') \<Rightarrow> (write_sse_json lib (sse_notification t i) # out, res, v'))"
| "sse_loop lib t request_id ((SseKeepAlive, None) # evs) v =
     (case sse_loop lib t request_id evs v of
        (out, res, v') \<Rightarrow> ((ascii '': keepalive'' @ [10, 10]) # out, res, v'))"

end
