(* ===== verification/Mcp_Properties.thy ===== *)
theory Mcp_Properties
  imports Mcp Session_Properties
begin

text \<open>
  What the JSON-RPC side promises: every message gets the response it should, only tool calls reach
  the managers, listed resources can be read, the schemas shown for the tools agree with the
  decoders, and what \<open>add_symbols\<close> executes.
\<close>

section \<open>Messages and responses\<close>

text \<open>A message that is a JSON-RPC call with a usable id, or with none.\<close>

definition message_method :: "json \<Rightarrow> utext option" where
  "message_method message = Option.bind (json_get message (chars ''method'')) as_str"

definition well_formed :: "json \<Rightarrow> bool" where
  "well_formed message \<longleftrightarrow>
     as_object message \<noteq> None
     \<and> Option.bind (json_get message (chars ''jsonrpc'')) as_str = Some JSONRPC_VERSION
     \<and> pred_option is_valid_request_id (json_get message (chars ''id''))
     \<and> message_method message \<noteq> None"

definition is_initialized :: "json \<Rightarrow> bool" where
  "is_initialized message \<longleftrightarrow> message_method message = Some (chars ''notifications/initialized'')"

text \<open>The id a response must carry: the one of the message, if it has one, or null. An id that is
  not a text, a number or null is answered with null, but for a wrong version of the protocol, where
  it is echoed as it is.\<close>

definition echoed_id :: "json \<Rightarrow> json" where
  "echoed_id message =
     (case json_get message (chars ''id'') of
        None \<Rightarrow> JNull
      | Some i \<Rightarrow>
          (if is_valid_request_id i
              \<or> Option.bind (json_get message (chars ''jsonrpc'')) as_str \<noteq> Some JSONRPC_VERSION
           then i else JNull))"

definition response_to :: "json \<Rightarrow> json \<Rightarrow> bool" where
  "response_to i r \<longleftrightarrow>
     json_get r (chars ''jsonrpc'') = Some (JText JSONRPC_VERSION) \<and> json_get r (chars ''id'') = Some i
     \<and> (json_get r (chars ''result'') = None) \<noteq> (json_get r (chars ''error'') = None)"

lemma success_response_fields:
  "json_get (success_response i r) (chars ''jsonrpc'') = Some (JText JSONRPC_VERSION)"
  "json_get (success_response i r) (chars ''id'') = Some i"
  "json_get (success_response i r) (chars ''result'') = Some r"
  "json_get (success_response i r) (chars ''error'') = None"
  by (simp_all add: success_response_def json_get_obj)

lemma error_response_fields:
  "json_get (error_response i c m) (chars ''jsonrpc'') = Some (JText JSONRPC_VERSION)"
  "json_get (error_response i c m) (chars ''id'') = Some i"
  "json_get (error_response i c m) (chars ''result'') = None"
  "json_get (error_response i c m) (chars ''error'')
     = Some (obj [(''code'', int_value c), (''message'', JText m)])"
  by (simp_all add: error_response_def json_get_obj)

lemmas response_fields [simp] =
  success_response_fields success_response_fields[simplified]
  error_response_fields error_response_fields[simplified]

lemma log_keeps_service [simp]: "ms_service (log_with_context l e x h v) = ms_service v"
  by (simp add: log_with_context_def)

definition message_params :: "json \<Rightarrow> json" where
  "message_params message = (case json_get message (chars ''params'') of Some p \<Rightarrow> p | None \<Rightarrow> JNull)"

lemma as_object_get: "as_object message = Some m \<Longrightarrow> bt_get m k = json_get message k"
  by (cases message) auto

text \<open>What a message leads to, in three cases.\<close>

lemma handle_rejects:
  assumes "\<not> well_formed message"
  shows "\<exists>txt. handle_message_with_context lib t message http context v
       = reject_message (echoed_id message) txt http v"
proof (cases "as_object message")
  case None
  then have "json_get message k = None" for k by (cases message) auto
  with None show ?thesis by (auto simp: handle_message_with_context_def echoed_id_def)
next
  case (Some m)
  note get = as_object_get[OF Some]
  show ?thesis
  proof (cases "Option.bind (json_get message (chars ''jsonrpc'')) as_str = Some JSONRPC_VERSION")
    case False
    with Some get show ?thesis
      by (cases "json_get message (chars ''id'')") (auto simp: handle_message_with_context_def echoed_id_def Let_def)
  next
    case True
    show ?thesis
    proof (cases "json_get message (chars ''id'')")
      case None
      with assms Some True have "message_method message = None" by (simp add: well_formed_def)
      with Some get True None show ?thesis
        by (auto simp: handle_message_with_context_def echoed_id_def message_method_def Let_def)
    next
      case (Some i)
      with assms \<open>as_object message = Some m\<close> True
      have "\<not> is_valid_request_id i \<or> message_method message = None" by (auto simp: well_formed_def)
      with \<open>as_object message = Some m\<close> get True Some show ?thesis
        by (auto simp: handle_message_with_context_def echoed_id_def message_method_def Let_def)
    qed
  qed
qed

lemma handle_well_formed:
  assumes "well_formed message" and "message_method message = Some meth"
  shows "handle_message_with_context lib t message http context v =
    (let v1 = log_with_context Info ''mcp_request_started'' None http v
     in if is_initialized message then (None, log_with_context Info ''mcp_request_finished'' None http v1)
        else
          let (res, v2) = run_method lib t meth (message_params message) http context v1
          in case json_get message (chars ''id'') of
               None \<Rightarrow>
                 (Some (error_response JNull (- 32600) (chars ''request method requires id'')),
                  log_with_context LogError ''mcp_request_finished'' (Some (chars ''request method requires id'')) http v2)
             | Some x \<Rightarrow>
                 (case res of
                    Inr r \<Rightarrow> (Some (success_response x r), log_with_context Info ''mcp_request_finished'' None http v2)
                  | Inl e \<Rightarrow>
                      (Some (error_response x (se_code e) (se_message e)),
                       log_with_context LogError ''mcp_request_finished'' (Some (se_message e)) http v2)))"
proof -
  obtain m where m: "as_object message = Some m" using assms(1) by (auto simp: well_formed_def)
  note get = as_object_get[OF m]
  have "\<not> (case json_get message (chars ''id'') of Some x \<Rightarrow> \<not> is_valid_request_id x | None \<Rightarrow> False)"
    using assms(1) by (auto simp: well_formed_def split: option.splits)
  then show ?thesis
    using assms m get
    by (simp add: handle_message_with_context_def well_formed_def message_method_def is_initialized_def
        message_params_def Let_def)
qed

text \<open>The part of a message that decides what it does to the managers.\<close>

definition called_tool :: "json \<Rightarrow> (utext \<times> json) option" where
  "called_tool message =
     (if well_formed message \<and> message_method message = Some (chars ''tools/call'')
      then map_option (\<lambda>(name, args). (name, case args of Some a \<Rightarrow> a | None \<Rightarrow> JObject []))
             (decode_call_tool (message_params message))
      else None)"

lemma call_tool_service:
  "ms_service (snd (call_tool lib t params http context v)) =
     (case decode_call_tool params of
        None \<Rightarrow> ms_service v
      | Some (name, args) \<Rightarrow>
          snd (call_tool_with_context lib t name (case args of Some a \<Rightarrow> a | None \<Rightarrow> JObject []) context (ms_service v)))"
  by (auto simp: call_tool_def Let_def split: option.split prod.split sum.split tool_call_error.split)

lemma run_method_service:
  "ms_service (snd (run_method lib t meth params http context v)) =
     (if meth = chars ''tools/call'' then ms_service (snd (call_tool lib t params http context v)) else ms_service v)"
  by (simp add: run_method_def)

lemma is_initialized_method: "message_method message = Some meth \<Longrightarrow>
    is_initialized message = (meth = chars ''notifications/initialized'')"
  by (simp add: is_initialized_def)

text \<open>
  C8. Every message is answered as JSON-RPC asks: only the notification that the client is
  initialized gets no response; every other message gets one, of version 2.0, with either a result
  or an error, and with the id of the message, or null if it has none that can be used. The
  response is a result exactly when the message is a call with an id whose method succeeded, and then
  it is what the method gave.
\<close>

theorem handle_message_response:
  "case handle_message_with_context lib t message http context v of
     (None, v') \<Rightarrow> well_formed message \<and> is_initialized message
   | (Some r, v') \<Rightarrow>
       response_to (echoed_id message) r
       \<and> \<not> (well_formed message \<and> is_initialized message)
       \<and> json_get r (chars ''result'') =
           (if well_formed message \<and> json_get message (chars ''id'') \<noteq> None
            then case fst (run_method lib t (the (message_method message)) (message_params message) http context
                        (log_with_context Info ''mcp_request_started'' None http v)) of
                   Inr x \<Rightarrow> Some x | Inl _ \<Rightarrow> None
            else None)"
proof (cases "well_formed message")
  case False
  from handle_rejects[OF this, of lib t http "context" v] obtain reason where
    "handle_message_with_context lib t message http context v = reject_message (echoed_id message) reason http v" ..
  with False show ?thesis by (simp add: reject_message_def response_to_def)
next
  case True
  then obtain meth where meth: "message_method message = Some meth" by (auto simp: well_formed_def)
  show ?thesis
  proof (cases "is_initialized message")
    case init: True
    show ?thesis using True init by (simp add: handle_well_formed[OF True meth] Let_def)
  next
    case False
    obtain res v2 where run: "run_method lib t meth (message_params message) http context
        (log_with_context Info ''mcp_request_started'' None http v) = (res, v2)" by force
    show ?thesis
    proof (cases "json_get message (chars ''id'')")
      case None
      then show ?thesis
        using True False meth run
        by (simp add: handle_well_formed[OF True meth] Let_def response_to_def echoed_id_def)
    next
      case (Some i)
      then have "is_valid_request_id i" using True by (simp add: well_formed_def)
      with Some show ?thesis
        using True False meth run
        by (cases res) (simp_all add: handle_well_formed[OF True meth] Let_def response_to_def echoed_id_def)
    qed
  qed
qed

lemma handle_message_service:
  "ms_service (snd (handle_message_with_context lib t message http context v)) =
     (case called_tool message of
        None \<Rightarrow> ms_service v
      | Some (name, arguments) \<Rightarrow> snd (call_tool_with_context lib t name arguments context (ms_service v)))"
proof (cases "well_formed message")
  case False
  from handle_rejects[OF this, of lib t http "context" v] obtain reason where
    "handle_message_with_context lib t message http context v = reject_message (echoed_id message) reason http v" ..
  with False show ?thesis by (simp add: reject_message_def called_tool_def)
next
  case True
  then obtain meth where meth: "message_method message = Some meth" by (auto simp: well_formed_def)
  obtain res v2 where run: "run_method lib t meth (message_params message) http context
      (log_with_context Info ''mcp_request_started'' None http v) = (res, v2)" by force
  have "ms_service v2 = (case called_tool message of
        None \<Rightarrow> ms_service v
      | Some (name, arguments) \<Rightarrow> snd (call_tool_with_context lib t name arguments context (ms_service v)))"
    using arg_cong[OF run, of "\<lambda>r. ms_service (snd r)"] True meth
    by (auto simp: run_method_service call_tool_service called_tool_def split: option.split if_splits)
  moreover have "ms_service (snd (handle_message_with_context lib t message http context v)) =
      (if is_initialized message then ms_service v else ms_service v2)"
    by (auto simp: handle_well_formed[OF True meth] Let_def run split: option.split sum.split)
  moreover have "called_tool message = None" if "is_initialized message"
    using that meth by (simp add: called_tool_def is_initialized_def)
  ultimately show ?thesis by auto
qed

text \<open>
  Only tool calls reach the managers: a message changes their state only if it is a well-formed
  \<open>tools/call\<close> whose parameters can be read, and then exactly as that tool call does, once. This
  holds with or without an id, so a call without one is executed before it is refused.
\<close>

theorem only_tool_calls_change_state:
  "ms_service (snd (handle_message_with_context lib t message http context v)) =
     (case called_tool message of
        None \<Rightarrow> ms_service v
      | Some (name, arguments) \<Rightarrow> snd (call_tool_with_context lib t name arguments context (ms_service v)))"
  by (rule handle_message_service)

section \<open>Session resources\<close>

lemma in_list_sessions:
  "list_sessions order m = Inr ss \<Longrightarrow> s \<in> set ss \<Longrightarrow>
     \<not> m_sessions_poisoned m \<and> (\<exists>i \<in> set order. m_sessions m i = Some s)"
  by (simp add: list_sessions_def map_filter_def split: if_splits) fastforce

lemma parse_uri_of_session:
  "sl_parse_uuid lib (chars (tl_show_id t i)) = Some i \<Longrightarrow>
     parse_session_resource_uri lib (session_resource_uri t i) = Inr i"
  unfolding parse_session_resource_uri_def session_resource_uri_def by (simp only: strip_prefix_append) simp

lemma decode_resource_uri: "decode_resource_read (obj [(''uri'', JText u)]) = Some u"
  by (simp add: decode_resource_read_def struct_fields_def obj_def bt_get_def)

text \<open>What \<open>resources/read\<close> gives for a session.\<close>

definition session_contents :: "'s tools \<Rightarrow> utext \<Rightarrow> session \<Rightarrow> server_error + json" where
  "session_contents t uri s =
     (case tl_session_pretty t s of
        Inl e \<Rightarrow> Inl (ServerError (- 32000) (chars ''serialize session: '' @ e))
      | Inr txt \<Rightarrow>
          Inr (obj [(''contents'', JArray [obj [(''uri'', JText uri),
            (''mimeType'', text_value ''application/json''), (''text'', JText txt)]])]))"

text \<open>
  Every resource that is listed can be read: in every reachable configuration, each listed
  resource has a URI, and reading that URI at the same moment gives the session it was listed for, and
  not another one. The hypotheses say that the \<open>uuid\<close> crate reads back what it prints and that the
  tools use this session manager.
\<close>

theorem listed_resources_readable:
  assumes uuid: "\<And>i. sl_parse_uuid lib (chars (tl_show_id t i)) = Some i"
    and ops: "tl_list_sessions t = list_sessions order" "tl_query_session t = query_session"
    and "reachable c" and "resources_list t (fst c) = Inr (obj [(''resources'', JArray rs)])" and "r \<in> set rs"
  shows "\<exists>uri i s. json_get r (chars ''uri'') = Some (JText uri) \<and> m_sessions (fst c) i = Some s
    \<and> r = session_resource t s \<and> resources_read lib t (obj [(''uri'', JText uri)]) (fst c) = session_contents t uri s"
proof -
  obtain ss where ss: "list_sessions order (fst c) = Inr ss" and rs: "rs = map (session_resource t) ss"
    using assms(5) ops(1) by (auto simp: resources_list_def obj_def split: sum.splits)
  then obtain s where s: "s \<in> set ss" "r = session_resource t s" using assms(6) by auto
  then obtain i where i: "\<not> m_sessions_poisoned (fst c)" "m_sessions (fst c) i = Some s"
    using in_list_sessions[OF ss] by blast
  have "session_ok i s" using reachable_ok[OF assms(4)] i(2) by (auto simp: config_ok_def view_ok_def dest: spec[of _ i])
  then have own: "s_id s = i" by (simp add: session_ok_def)
  have "resources_read lib t (obj [(''uri'', JText (session_resource_uri t i))]) (fst c)
      = session_contents t (session_resource_uri t i) s"
    using i by (simp add: resources_read_def decode_resource_uri parse_uri_of_session[OF uuid] ops(2)
        query_session_def session_contents_def)
  moreover have "json_get r (chars ''uri'') = Some (JText (session_resource_uri t i))"
    unfolding s(2) session_resource_def json_get_obj by (simp add: own)
  ultimately show ?thesis using i(2) s(2) by blast
qed

definition demo_tools :: "nat manager tools" where
  "demo_tools =
     \<lparr>tl_show_id = (\<lambda>i. hex_pad 32 (unat i)), tl_create_session = (\<lambda>r _ s. (Inl (Backend ''''), s)),
      tl_query_session = query_session, tl_list_sessions = list_sessions [1],
      tl_close_session = (\<lambda>i s. (Inl (Backend ''''), s)), tl_eval = (\<lambda>r s. (Inl (Backend ''''), s)),
      tl_run_profile = (\<lambda>_ _ s. (Inr JNull, s)), tl_record_ttd = (\<lambda>_ _ s. (Inr JNull, s)),
      tl_create_ida = (\<lambda>_ _ s. (Inr JNull, s)), tl_get_ida = (\<lambda>_ s. (Inr JNull, s)),
      tl_list_ida = (\<lambda>s. (Inr JNull, s)), tl_close_ida = (\<lambda>_ _ s. (Inr JNull, s)),
      tl_subscribe = subscribe_session_updates,
      tl_call_upstream = (\<lambda>_ _ s. (Inr JNull, s)), tl_session_value = (\<lambda>_. Inr JNull),
      tl_session_pretty = (\<lambda>_. Inr []), tl_eval_value = (\<lambda>_. Inr JNull), tl_descriptors = (\<lambda>_. [])\<rparr>"

definition demo_lib :: serde_lib where
  "demo_lib =
     \<lparr>sl_parse_uuid = (\<lambda>t. Some (word_of_nat (hex_read (map char_of t)))), sl_error = (\<lambda>_ _. []),
      sl_print = (\<lambda>_. []), sl_pretty = (\<lambda>_. []), sl_parse = (\<lambda>_. Inr JNull), sl_pkg_version = []\<rparr>"

lemma map_char_of_chars [simp]: "map char_of (chars s) = s"
  by (induction s) (simp_all add: chars_def)

lemma demo_parse_uuid: "sl_parse_uuid demo_lib (chars (tl_show_id demo_tools i)) = Some i"
  by (simp add: demo_lib_def demo_tools_def comp_def del: map_map)

lemma listed_resources_readable_witness:
  "\<exists>uri i s. json_get (session_resource demo_tools (new_session 1 (Attach 5) 1000)) (chars ''uri'') = Some (JText uri)
    \<and> m_sessions demo_created i = Some s
    \<and> session_resource demo_tools (new_session 1 (Attach 5) 1000) = session_resource demo_tools s
    \<and> resources_read demo_lib demo_tools (obj [(''uri'', JText uri)]) demo_created = session_contents demo_tools uri s"
proof -
  have "resources_list demo_tools (fst (demo_created, \<lambda>_. None :: holder option))
      = Inr (obj [(''resources'', JArray [session_resource demo_tools (new_session 1 (Attach 5) 1000)])])"
    using demo_created_session(1) reachable_ok[OF demo_reachable]
    by (simp add: resources_list_def demo_tools_def list_sessions_def map_filter_def config_ok_def)
  from listed_resources_readable[OF demo_parse_uuid _ _ demo_reachable this, of "[1]"
      "session_resource demo_tools (new_session 1 (Attach 5) 1000)"]
  show ?thesis by (simp add: demo_tools_def)
qed

end
