(* ===== verification/Http_Properties.thy ===== *)
theory Http_Properties
  imports Http Mcp_Properties
begin

text \<open>
  What the HTTP transport promises: requests and responses survive the wire, bodies are bounded, and
  what a connection can do to the server.
\<close>

section \<open>Text on the wire\<close>

definition bytes_of :: "utext \<Rightarrow> byte list" where
  "bytes_of t = map of_nat (utf8_encode t)"

definition chars_ok :: "utext \<Rightarrow> bool" where
  "chars_ok t \<longleftrightarrow> (\<forall>c \<in> set t. is_char c)"

lemma bytes_of_append [simp]: "bytes_of (s @ t) = bytes_of s @ bytes_of t"
  by (simp add: bytes_of_def)

lemma bytes_of_Nil [simp]: "bytes_of [] = []"
  by (simp add: bytes_of_def utf8_encode_def)

lemma unat_bytes_of: "chars_ok t \<Longrightarrow> map unat (bytes_of t) = utf8_encode t"
  using utf8_encode_byte[of t] by (auto simp: bytes_of_def chars_ok_def unat_of_nat intro!: map_idI)

lemma decode_bytes_of: "chars_ok t \<Longrightarrow> decode_line (bytes_of t) = Inr t"
  using utf8_roundtrip[of t] by (simp add: decode_line_def unat_bytes_of chars_ok_def)

lemma newline_bytes_of: "chars_ok t \<Longrightarrow> 10 \<notin> set t \<Longrightarrow> 10 \<notin> set (bytes_of t)"
proof
  assume ok: "chars_ok t" and n: "10 \<notin> set t" and "10 \<in> set (bytes_of t)"
  then have "unat (10 :: byte) \<in> unat ` set (bytes_of t)" by blast
  then have "10 \<in> set (utf8_encode t)" using arg_cong[OF unat_bytes_of[OF ok], of set] by simp
  with utf8_encode_no_ascii[of 10 t] n show False by simp
qed

lemma bytes_newline: "bytes_of [10] = [10]"
  by (simp add: bytes_of_def utf8_encode_def utf8_encode_char_def)

lemma read_line_text:
  assumes "chars_ok t" and "10 \<notin> set t" and "in_bytes s = bytes_of (t @ [10]) @ tail"
  shows "read_line s = Inr (t @ [10], s\<lparr>in_bytes := tail\<rparr>)"
proof -
  have n: "\<forall>b \<in> set (bytes_of t). b \<noteq> 10" using newline_bytes_of[OF assms(1,2)] by auto
  have "takeWhile (\<lambda>b. b \<noteq> 10) (in_bytes s) = bytes_of t" "dropWhile (\<lambda>b. b \<noteq> 10) (in_bytes s) = 10 # tail"
    using n by (simp_all add: assms(3) bytes_newline takeWhile_append2 dropWhile_append2)
  moreover have "decode_line (bytes_of t @ [10]) = Inr (t @ [10])"
    using decode_bytes_of[of "t @ [10]"] assms(1) by (simp add: bytes_newline chars_ok_def is_char_def)
  ultimately show ?thesis by (simp add: read_line_def)
qed

section \<open>Reading what was written\<close>

definition header_text :: "utext \<times> utext \<Rightarrow> utext" where
  "header_text h = fst h @ [58, 32] @ snd h @ [13]"

definition header_ok :: "utext \<times> utext \<Rightarrow> bool" where
  "header_ok h \<longleftrightarrow>
     chars_ok (fst h) \<and> chars_ok (snd h) \<and> 58 \<notin> set (fst h)
     \<and> 10 \<notin> set (fst h) \<and> 10 \<notin> set (snd h) \<and> 13 \<notin> set (snd h)"

definition header_bytes :: "(utext \<times> utext) list \<Rightarrow> byte list" where
  "header_bytes hs = concat (map (\<lambda>h. bytes_of (header_text h @ [10])) hs)"

lemma header_line_trimmed:
  assumes "header_ok h"
  shows "trim_end_matches (\<lambda>c. c = 13 \<or> c = 10) (header_text h @ [10]) = fst h @ 58 # 32 # snd h"
proof -
  have "\<forall>c \<in> set (32 # snd h). c \<noteq> 13 \<and> c \<noteq> 10" using assms by (auto simp: header_ok_def)
  then have "last (32 # snd h) \<noteq> 13 \<and> last (32 # snd h) \<noteq> 10" using last_in_set[of "32 # snd h"] by blast
  then have "dropWhile (\<lambda>c. c = 13 \<or> c = 10) (rev (32 # snd h) @ 58 # rev (fst h)) = rev (32 # snd h) @ 58 # rev (fst h)"
    by (intro dropWhile_id) (simp add: hd_append hd_rev split: if_splits)
  then show ?thesis by (simp add: trim_end_matches_def header_text_def)
qed

lemma read_headers_lines:
  assumes "list_all header_ok hs" and "in_bytes s = header_bytes hs @ [13, 10] @ tail"
  shows "read_headers s m = Inr (fold insert_header hs m, s\<lparr>in_bytes := tail\<rparr>)"
  using assms
proof (induction hs arbitrary: s m)
  case Nil
  have "read_line s = Inr ([13] @ [10], s\<lparr>in_bytes := tail\<rparr>)"
    by (rule read_line_text) (use Nil.prems in \<open>simp_all add: chars_ok_def is_char_def header_bytes_def
        bytes_of_def utf8_encode_def utf8_encode_char_def\<close>)
  then show ?case by (simp add: read_headers.simps[of s] trim_end_matches_def)
next
  case (Cons h hs)
  have ok: "header_ok h" and rest: "list_all header_ok hs" using Cons.prems(1) by simp_all
  let ?s = "s\<lparr>in_bytes := header_bytes hs @ [13, 10] @ tail\<rparr>"
  have line: "read_line s = Inr (header_text h @ [10], ?s)"
    by (rule read_line_text)
      (use ok Cons.prems(2) in \<open>auto simp: header_ok_def header_text_def chars_ok_def is_char_def header_bytes_def\<close>)
  have split: "split_once 58 (fst h @ 58 # 32 # snd h) = Some (fst h, 32 # snd h)"
    using ok by (intro split_once_append) (simp add: header_ok_def)
  have "insert_header (fst h, 32 # snd h) m = insert_header h m"
    by (simp add: insert_header_def trim_space_front is_whitespace_def)
  then show ?case
    using Cons.IH[OF rest, of ?s "insert_header h m"]
    by (simp add: read_headers.simps[of s] line header_line_trimmed[OF ok] split Let_def)
qed

text \<open>A request as a client writes it, with the length of its body as the last header.\<close>

definition token :: "utext \<Rightarrow> bool" where
  "token w \<longleftrightarrow> w \<noteq> [] \<and> chars_ok w \<and> (\<forall>c \<in> set w. \<not> is_whitespace c)"

definition length_header :: "nat \<Rightarrow> utext \<times> utext" where
  "length_header n = (chars ''Content-Length'', show_text n)"

definition render_request :: "utext \<Rightarrow> utext \<Rightarrow> (utext \<times> utext) list \<Rightarrow> byte list \<Rightarrow> byte list" where
  "render_request meth path hs body =
     bytes_of (meth @ [32] @ path @ [32] @ chars ''HTTP/1.1'' @ [13] @ [10])
     @ header_bytes (hs @ [length_header (length body)]) @ [13, 10] @ body"

lemma digits_ok: "chars_ok (show_text n) \<and> 10 \<notin> set (show_text n) \<and> 13 \<notin> set (show_text n)"
  using show_nat_digits[of _ n] by (fastforce simp: chars_ok_def is_char_def)

lemma length_header_ok: "header_ok (length_header n)"
  using digits_ok[of n] by (simp add: header_ok_def length_header_def chars_ok_def chars_def is_char_def)

lemma token_no_newline: "token w \<Longrightarrow> 10 \<notin> set w"
proof
  assume "token w" and "10 \<in> set w"
  then have "\<not> is_whitespace 10" unfolding token_def by blast
  then show False by (simp add: is_whitespace_def)
qed

lemma trim_show: "trim (show_text n) = show_text n"
proof -
  have "\<not> is_whitespace c" if "c \<in> set (show_text n)" for c
    using show_nat_digits[OF that] by (auto simp: is_whitespace_def)
  then show ?thesis by (intro trim_id) (metis hd_in_set last_in_set)
qed

lemma content_length_last:
  assumes "n < 2 ^ 64"
  shows "content_length_of (fold insert_header (hs @ [length_header n]) m) = Inr n"
proof -
  have "to_ascii_lowercase (trim (chars ''Content-Length'')) = chars ''content-length''"
    by (simp add: trim_def chars_def is_whitespace_def to_ascii_lowercase_def)
  then show ?thesis
    by (simp add: insert_header_def length_header_def content_length_of_def trim_show parse_usize_show[OF assms])
qed

lemma trim_Nil: "trim t = [] \<longleftrightarrow> (\<forall>c \<in> set t. is_whitespace c)"
proof -
  have "(\<forall>c \<in> set (dropWhile is_whitespace t). is_whitespace c) \<longleftrightarrow> dropWhile is_whitespace t = []"
    using hd_dropWhile[of is_whitespace t] by (cases "dropWhile is_whitespace t") (auto dest: set_dropWhileD)
  then show ?thesis by (simp add: trim_def)
qed

lemma parse_request_line_text:
  assumes "token meth" and "token path"
  shows "parse_request_line (meth @ [32] @ path @ [32] @ chars ''HTTP/1.1'' @ [13] @ [10]) = Inr (meth, path)"
proof -
  have ws: "is_whitespace 32" "is_whitespace 13" "is_whitespace 10" by (simp_all add: is_whitespace_def)
  have version: "chars ''HTTP/1.1'' \<noteq> []" "\<forall>c \<in> set (chars ''HTTP/1.1''). \<not> is_whitespace c"
    by (simp_all add: chars_def is_whitespace_def)
  have "trim (meth @ [32] @ path @ [32] @ chars ''HTTP/1.1'' @ [13] @ [10]) \<noteq> []"
    using assms(1) unfolding trim_Nil by (auto simp: token_def neq_Nil_conv)
  moreover have "split_whitespace (meth @ 32 # path @ 32 # chars ''HTTP/1.1'' @ 13 # [10]) = [meth, path, chars ''HTTP/1.1'']"
    using assms by (simp add: token_def split_whitespace_word ws version split_whitespace_skip)
  moreover have "starts_with_text (chars ''HTTP/1.1'') (chars ''HTTP/1.'')" by (simp add: chars_def)
  ultimately show ?thesis by (simp add: parse_request_line_def)
qed

text \<open>
  C9. A request survives the wire: what a client writes (method, path, headers, the length of the
  body and the body) is read back exactly, whatever follows it on the connection; header names are
  compared without regard to ASCII case and the last header of a name counts.
\<close>

theorem http_request_roundtrip:
  assumes "token meth" and "token path" and "list_all header_ok hs" and "length body \<le> MAX_REQUEST_BYTES"
  shows "read_request \<lparr>in_bytes = render_request meth path hs body @ tail, in_end = ending\<rparr>
    = Inr \<lparr>rq_method = meth, rq_path = path,
           rq_headers = fold insert_header (hs @ [length_header (length body)]) (\<lambda>_. None), rq_body = body\<rparr>"
proof -
  let ?line = "meth @ [32] @ path @ [32] @ chars ''HTTP/1.1'' @ [13]"
  let ?hs = "hs @ [length_header (length body)]"
  let ?s = "\<lparr>in_bytes = render_request meth path hs body @ tail, in_end = ending\<rparr>"
  let ?s1 = "\<lparr>in_bytes = header_bytes ?hs @ [13, 10] @ body @ tail, in_end = ending\<rparr>"
  have "read_line ?s = Inr (?line @ [10], ?s\<lparr>in_bytes := header_bytes ?hs @ [13, 10] @ body @ tail\<rparr>)"
  proof (rule read_line_text)
    show "chars_ok ?line" using assms(1,2) by (auto simp: token_def chars_ok_def chars_def is_char_def)
    show "10 \<notin> set ?line" using assms(1,2) token_no_newline by (simp add: chars_def)
  qed (simp add: render_request_def)
  moreover have "read_headers ?s1 (\<lambda>_. None)
      = Inr (fold insert_header ?hs (\<lambda>_. None), ?s1\<lparr>in_bytes := body @ tail\<rparr>)"
    using assms(3) by (intro read_headers_lines) (simp_all add: length_header_ok)
  moreover have "content_length_of (fold insert_header ?hs (\<lambda>_. None)) = Inr (length body)"
    using assms(4) by (intro content_length_last) (simp add: MAX_REQUEST_BYTES_def)
  moreover have "parse_request_line (?line @ [10]) = Inr (meth, path)"
    using parse_request_line_text[OF assms(1,2)] by simp
  moreover have "\<not> MAX_REQUEST_BYTES < length body" using assms(4) by simp
  ultimately show ?thesis by (simp add: read_request_def read_exact_def)
qed

lemma http_request_roundtrip_witness:
  "read_request \<lparr>in_bytes = render_request (chars ''GET'') (chars ''/mcp'') [(chars ''A'', chars ''b'')] [7] @ [1], in_end = None\<rparr>
    = Inr \<lparr>rq_method = chars ''GET'', rq_path = chars ''/mcp'',
           rq_headers = fold insert_header ([(chars ''A'', chars ''b'')] @ [length_header (length [7 :: byte])]) (\<lambda>_. None),
           rq_body = [7]\<rparr>"
  by (rule http_request_roundtrip)
    (simp_all add: token_def chars_ok_def chars_def is_char_def is_whitespace_def header_ok_def MAX_REQUEST_BYTES_def)

section \<open>Bounds\<close>

lemma read_line_rest: "read_line s = Inr (t, s') \<Longrightarrow> \<exists>l. in_bytes s = l @ in_bytes s'"
proof -
  assume r: "read_line s = Inr (t, s')"
  let ?P = "\<lambda>b :: byte. b \<noteq> 10"
  have "in_bytes s = takeWhile ?P (in_bytes s) @ dropWhile ?P (in_bytes s)" by simp
  moreover have "dropWhile ?P (in_bytes s) \<noteq> [] \<Longrightarrow>
      dropWhile ?P (in_bytes s) = [hd (dropWhile ?P (in_bytes s))] @ tl (dropWhile ?P (in_bytes s))" by simp
  ultimately have "dropWhile ?P (in_bytes s) \<noteq> [] \<Longrightarrow> \<exists>l. in_bytes s = l @ tl (dropWhile ?P (in_bytes s))"
    by (metis append.assoc)
  then show ?thesis
    using r by (auto simp: read_line_def Let_def split: if_splits sum.splits option.splits simp del: dropWhile_eq_Nil_conv)
qed

lemma read_headers_rest: "read_headers s m = Inr (m', s') \<Longrightarrow> \<exists>l. in_bytes s = l @ in_bytes s'"
proof (induction s m rule: read_headers.induct)
  case (1 s m)
  obtain t s1 where line: "read_line s = Inr (t, s1)"
    using "1.prems" by (subst (asm) read_headers.simps) (auto split: sum.splits)
  obtain l where l: "in_bytes s = l @ in_bytes s1" using read_line_rest[OF line] by blast
  show ?case
  proof (cases "trim_end_matches (\<lambda>c. c = 13 \<or> c = 10) t = []")
    case True
    with "1.prems" line l show ?thesis
      by (subst (asm) read_headers.simps) (auto split: if_splits)
  next
    case False
    then obtain h where "t \<noteq> []" "split_once 58 (trim_end_matches (\<lambda>c. c = 13 \<or> c = 10) t) = Some h"
      "read_headers s1 (insert_header h m) = Inr (m', s')"
      using "1.prems" line by (subst (asm) read_headers.simps) (auto simp: Let_def split: if_splits option.splits)
    with "1.IH"[OF line _ _ refl] False obtain l' where "in_bytes s1 = l' @ in_bytes s'" by (cases h) blast
    with l show ?thesis by simp
  qed
qed

text \<open>
  C40. The server never holds a body of more than 16 MiB: a request that is read has a method and a
  path, and its body is a part of what the connection delivered, of exactly the length its headers
  announce, at most 16 MiB.
\<close>

theorem read_request_bounds:
  "case read_request s of
     Inl e \<Rightarrow> True
   | Inr r \<Rightarrow>
       length (rq_body r) \<le> 16 * 1024 * 1024 \<and> content_length_of (rq_headers r) = Inr (length (rq_body r))
       \<and> rq_method r \<noteq> [] \<and> rq_path r \<noteq> [] \<and> (\<exists>before after. in_bytes s = before @ rq_body r @ after)"
proof (cases "read_request s")
  case (Inr r)
  obtain line s1 m s2 n where line: "read_line s = Inr (line, s1)"
    and req: "parse_request_line line = Inr (rq_method r, rq_path r)"
    and hs: "read_headers s1 (\<lambda>_. None) = Inr (m, s2)" and n: "content_length_of m = Inr n" "n \<le> MAX_REQUEST_BYTES"
    and body: "read_exact n s2 = Inr (rq_body r)" and m: "rq_headers r = m"
    using Inr by (auto simp: read_request_def not_less split: sum.splits prod.splits if_splits)
  obtain a b where "in_bytes s = a @ in_bytes s1" "in_bytes s1 = b @ in_bytes s2"
    using read_line_rest[OF line] read_headers_rest[OF hs] by blast
  moreover have "rq_body r = take n (in_bytes s2)" "n \<le> length (in_bytes s2)"
    using body by (auto simp: read_exact_def split: if_splits option.splits)
  ultimately have "in_bytes s = (a @ b) @ rq_body r @ drop n (in_bytes s2)" "length (rq_body r) = n" by simp_all
  then have "\<exists>before after. in_bytes s = before @ rq_body r @ after" "length (rq_body r) = n" by blast+
  moreover have "rq_method r \<in> set (split_whitespace line)" "rq_path r \<in> set (split_whitespace line)"
    using req by (auto simp: parse_request_line_def split: if_splits list.splits)
  then have "rq_method r \<noteq> []" "rq_path r \<noteq> []" by (auto simp: split_whitespace_def)
  ultimately show ?thesis using Inr n m by (auto simp: MAX_REQUEST_BYTES_def)
qed simp

section \<open>What a connection can do\<close>








section \<open>The response\<close>

definition is_ascii :: "string \<Rightarrow> bool" where
  "is_ascii s \<longleftrightarrow> (\<forall>c \<in> set s. (of_char c :: nat) < 128)"

lemma is_ascii_simps [simp]: "is_ascii []" "is_ascii (c # s) \<longleftrightarrow> (of_char c :: nat) < 128 \<and> is_ascii s"
  by (auto simp: is_ascii_def)

lemma ascii_bytes: "is_ascii s \<Longrightarrow> ascii s = bytes_of (chars s)"
  using utf8_encode_ascii[of "chars s"]
  by (simp add: ascii_def bytes_of_def is_ascii_def chars_def of_char_def)

lemma ascii_chars_ok: "is_ascii s \<Longrightarrow> chars_ok (chars s)"
  by (auto simp: is_ascii_def chars_ok_def chars_def is_char_def)

lemma show_ascii [simp]: "is_ascii (show_nat n)"
  using show_nat_digits[of _ n] by (fastforce simp: is_ascii_def)

lemma is_ascii_append [simp]: "is_ascii (s @ t) \<longleftrightarrow> is_ascii s \<and> is_ascii t"
  by (auto simp: is_ascii_def)

lemma chars_append: "chars (s @ t) = chars s @ chars t"
  by (simp add: chars_def)

lemma crlf_bytes: "crlf = bytes_of ([13] @ [10])"
  by (simp add: crlf_def bytes_of_def utf8_encode_def utf8_encode_char_def)

lemma header_line_bytes:
  assumes "is_ascii n" and "is_ascii v"
  shows "header_line n v = bytes_of (header_text (chars n, chars v) @ [10])"
proof -
  have "chars (n @ '': '' @ v) = chars n @ [58, 32] @ chars v" by (simp add: chars_def)
  then have "ascii (n @ '': '' @ v) = bytes_of (chars n @ [58, 32] @ chars v)"
    using assms ascii_bytes[of "n @ '': '' @ v"] by simp
  then show ?thesis
    by (simp add: header_line_def crlf_bytes header_text_def bytes_of_append[symmetric] del: bytes_of_append)
qed

definition response_headers :: "http_response \<Rightarrow> (utext \<times> utext) list" where
  "response_headers r =
     length_header (length (rs_body r)) # (chars ''Connection'', chars ''close'')
     # (case rs_content_type r of
          None \<Rightarrow> [] | Some ct \<Rightarrow> [(chars ''Content-Type'', chars (ct @ ''; charset=utf-8''))])"

definition status_line :: "nat \<Rightarrow> utext" where
  "status_line status = chars ''HTTP/1.1 '' @ show_text status @ chars '' '' @ chars (reason_phrase status)"

definition plain_response :: "http_response \<Rightarrow> bool" where
  "plain_response r \<longleftrightarrow> rs_headers r = [] \<and> (rs_content_type r = None \<or> rs_content_type r = Some ''application/json'')"

lemma reason_ascii [simp]: "is_ascii (reason_phrase n)"
  by (simp add: reason_phrase_def)

lemma write_response_bytes:
  assumes "plain_response r"
  shows "write_response r = bytes_of (status_line (rs_status r) @ [13] @ [10]) @ header_bytes (response_headers r) @ [13, 10] @ rs_body r"
proof -
  have "ascii (''HTTP/1.1 '' @ show_nat (rs_status r) @ '' '' @ reason_phrase (rs_status r)) = bytes_of (status_line (rs_status r))"
    by (subst ascii_bytes) (simp_all add: status_line_def chars_def)
  moreover have "chars (show_nat n) = show_text n" for n by (simp add: chars_def)
  moreover have "(case rs_content_type r of None \<Rightarrow> [] | Some ct \<Rightarrow> header_line ''Content-Type'' (ct @ ''; charset=utf-8''))
      = header_bytes (case rs_content_type r of
          None \<Rightarrow> [] | Some ct \<Rightarrow> [(chars ''Content-Type'', chars (ct @ ''; charset=utf-8''))])"
    using assms by (auto simp: plain_response_def header_line_bytes header_bytes_def)
  ultimately show ?thesis
    using assms
    by (simp add: write_response_def plain_response_def crlf_bytes header_line_bytes header_bytes_def
        response_headers_def length_header_def) (simp add: bytes_of_def utf8_encode_def utf8_encode_char_def)
qed

lemma fixed_headers_ok:
  "header_ok (chars ''Connection'', chars ''close'')"
  "header_ok (chars ''Content-Type'', chars ''application/json; charset=utf-8'')"
  by (simp_all add: header_ok_def chars_ok_def chars_def is_char_def)

lemma response_headers_ok: "plain_response r \<Longrightarrow> list_all header_ok (response_headers r)"
  by (auto simp: plain_response_def response_headers_def length_header_ok fixed_headers_ok)

lemma content_length_first:
  assumes "n < 2 ^ 64"
    and "\<forall>h \<in> set hs. to_ascii_lowercase (trim (fst h)) \<noteq> chars ''content-length''"
  shows "content_length_of (fold insert_header (length_header n # hs) m) = Inr n"
proof -
  have "fold insert_header hs m' (chars ''content-length'') = m' (chars ''content-length'')" for m'
    using assms(2) by (induction hs arbitrary: m') (auto simp: insert_header_def)
  then show ?thesis
    using content_length_last[OF assms(1), of "[]" m] by (simp add: content_length_of_def)
qed

lemma reason_ok: "chars_ok (chars (reason_phrase n))" "10 \<notin> set (chars (reason_phrase n))"
  by (simp_all add: ascii_chars_ok) (simp add: reason_phrase_def chars_def)

lemma status_line_ok: "chars_ok (status_line n) \<and> 10 \<notin> set (status_line n)"
proof -
  have "chars_ok (chars ''HTTP/1.1 '')" "chars_ok (chars '' '')" "10 \<notin> set (chars ''HTTP/1.1 '')" "10 \<notin> set (chars '' '')"
    by (simp_all add: ascii_chars_ok) (simp_all add: chars_def)
  moreover have "chars_ok (a @ b) \<longleftrightarrow> chars_ok a \<and> chars_ok b" for a b by (auto simp: chars_ok_def)
  ultimately show ?thesis using digits_ok[of n] reason_ok[of n] by (simp only: status_line_def set_append) simp
qed

lemma status_line_words: "split_whitespace (status_line n @ [13] @ [10]) ! 1 = show_text n"
proof -
  have digit: "\<forall>c \<in> set (show_text n). \<not> is_whitespace c"
  proof
    fix c assume "c \<in> set (show_text n)"
    from show_nat_digits[OF this] show "\<not> is_whitespace c" by (simp add: is_whitespace_def)
  qed
  have ne: "show_text n \<noteq> []" using show_nat_append[of n] by auto
  have version: "chars ''HTTP/1.1'' \<noteq> []" "\<forall>c \<in> set (chars ''HTTP/1.1''). \<not> is_whitespace c"
    by (simp_all add: chars_def is_whitespace_def)
  have ws: "is_whitespace 32" by (simp add: is_whitespace_def)
  have "status_line n @ [13] @ [10]
      = chars ''HTTP/1.1'' @ 32 # show_text n @ 32 # (chars (reason_phrase n) @ [13] @ [10])"
    by (simp add: status_line_def chars_def)
  then show ?thesis
    by (simp only: split_whitespace_word[OF version ws] split_whitespace_word[OF ne digit ws]) simp
qed

text \<open>Every reply is plain, and its body is empty or printed JSON.\<close>

definition reply_ok :: "serde_lib \<Rightarrow> nat set \<Rightarrow> http_response \<Rightarrow> bool" where
  "reply_ok lib statuses r \<longleftrightarrow>
     plain_response r \<and> rs_status r \<in> statuses \<and> ((\<exists>v. rs_body r = sl_print lib v) \<or> rs_body r = [])"

lemma response_ok [simp]:
  "reply_ok lib S (json_response lib n v) \<longleftrightarrow> n \<in> S" "reply_ok lib S (empty_response n) \<longleftrightarrow> n \<in> S"
  by (auto simp: reply_ok_def plain_response_def json_response_def empty_response_def)

lemma reply_ok_mono: "reply_ok lib S r \<Longrightarrow> S \<subseteq> S' \<Longrightarrow> reply_ok lib S' r"
  by (auto simp: reply_ok_def)

lemma post_ok: "reply_ok lib {200, 202, 400, 415} (fst (handle_mcp_post lib t net r i la pa v))"
  by (auto simp: handle_mcp_post_def Let_def split: sum.split prod.split option.split)

lemma route_ok:
  "\<not> is_mcp_sse_request r \<Longrightarrow> reply_ok lib {200, 202, 400, 403, 404, 415} (fst (route_request lib t net r i la pa v))"
  using reply_ok_mono[OF post_ok[of lib t net r i la pa v], of "{200, 202, 400, 403, 404, 415}"]
  by (auto simp: route_request_def is_mcp_sse_request_def)

lemma connection_ok:
  "handle_connection lib t net c h = (Reply r, h') \<Longrightarrow> reply_ok lib {200, 202, 400, 403, 404, 408, 415} r"
proof -
  assume reply: "handle_connection lib t net c h = (Reply r, h')"
  have "reply_ok lib {200, 202, 400, 403, 404, 408, 415} (fst (route_request lib t net q i la pa v))"
    if "\<not> is_mcp_sse_request q" for q i la pa v
    by (rule reply_ok_mono[OF route_ok[OF that]]) auto
  with arg_cong[OF reply, of fst] show ?thesis
    by (auto simp: handle_connection_def handle_mcp_sse_def Let_def split_beta split: option.splits sum.splits if_splits)
qed

text \<open>
  C39. Every reply is a well-framed HTTP response: it has one of seven statuses, and a client that reads it
  by the rules the server itself reads by finds a status line with that status, headers that announce
  the length of the body, and then exactly the body; whatever follows is not part of it. The status 405
  of \<open>route_request\<close> is never sent. The hypothesis is that a printed JSON value fits in memory.
\<close>

theorem replies_framed:
  assumes "\<And>v. length (sl_print lib v) < 2 ^ 64"
  shows "case handle_connection lib t net c h of
     (Reply r, _) \<Rightarrow>
       rs_status r \<in> {200, 202, 400, 403, 404, 408, 415}
       \<and> (\<exists>line s1 m s2.
            read_line \<lparr>in_bytes = write_response r @ tail, in_end = ending\<rparr> = Inr (line, s1)
            \<and> split_whitespace line ! 1 = show_text (rs_status r)
            \<and> read_headers s1 (\<lambda>_. None) = Inr (m, s2)
            \<and> content_length_of m = Inr (length (rs_body r))
            \<and> in_bytes s2 = rs_body r @ tail)
   | _ \<Rightarrow> True"
proof (cases "handle_connection lib t net c h")
  case (Pair reply h')
  show ?thesis
  proof (cases reply)
    case (Reply r)
    then have ok: "reply_ok lib {200, 202, 400, 403, 404, 408, 415} r" using connection_ok[of lib t net c h r h'] Pair by simp
    then have plain: "plain_response r" and small: "length (rs_body r) < 2 ^ 64"
      using assms by (auto simp: reply_ok_def)
    let ?s = "\<lparr>in_bytes = write_response r @ tail, in_end = ending\<rparr>"
    let ?s1 = "?s\<lparr>in_bytes := header_bytes (response_headers r) @ [13, 10] @ rs_body r @ tail\<rparr>"
    have "read_line ?s = Inr ((status_line (rs_status r) @ [13]) @ [10], ?s1)"
      by (rule read_line_text)
        (use status_line_ok[of "rs_status r"] in \<open>auto simp: write_response_bytes[OF plain] chars_ok_def is_char_def\<close>)
    moreover have "read_headers ?s1 (\<lambda>_. None)
        = Inr (fold insert_header (response_headers r) (\<lambda>_. None), ?s1\<lparr>in_bytes := rs_body r @ tail\<rparr>)"
      by (rule read_headers_lines) (simp_all add: response_headers_ok[OF plain])
    moreover have "content_length_of (fold insert_header (response_headers r) (\<lambda>_. None)) = Inr (length (rs_body r))"
    proof -
      have "to_ascii_lowercase (trim (chars ''Connection'')) \<noteq> chars ''content-length''"
        "to_ascii_lowercase (trim (chars ''Content-Type'')) \<noteq> chars ''content-length''"
        by (simp_all add: trim_def chars_def is_whitespace_def to_ascii_lowercase_def)
      then show ?thesis
        unfolding response_headers_def by (intro content_length_first[OF small]) (auto split: option.split)
    qed
    ultimately have "\<exists>line s1 m s2. read_line ?s = Inr (line, s1)
        \<and> split_whitespace line ! 1 = show_text (rs_status r) \<and> read_headers s1 (\<lambda>_. None) = Inr (m, s2)
        \<and> content_length_of m = Inr (length (rs_body r)) \<and> in_bytes s2 = rs_body r @ tail"
      using status_line_words[of "rs_status r"] by fastforce
    with Pair Reply ok show ?thesis by (simp add: reply_ok_def)
  qed (simp_all add: Pair)
qed

definition demo_net :: net where
  "demo_net = \<lparr>nt_table4 = Inr [], nt_table6 = Inr [], nt_session_of = (\<lambda>_. Inr 0)\<rparr>"

definition demo_connection :: connection where
  "demo_connection = \<lparr>cn_setup = None, cn_incoming = \<lparr>in_bytes = [], in_end = None\<rparr>, cn_local = None, cn_peer = None, cn_head_error = None\<rparr>"

lemma replies_framed_witness:
  "\<exists>r h'. handle_connection demo_lib demo_tools demo_net demo_connection
        \<lparr>hs_server = \<lparr>ms_service = demo_created, ms_logs = []\<rparr>, hs_next_request_id = 1\<rparr> = (Reply r, h')
      \<and> rs_status r \<in> {200, 202, 400, 403, 404, 408, 415}"
proof -
  have small: "length (sl_print demo_lib v) < 2 ^ 64" for v by (simp add: demo_lib_def)
  obtain r h' where "handle_connection demo_lib demo_tools demo_net demo_connection
      \<lparr>hs_server = \<lparr>ms_service = demo_created, ms_logs = []\<rparr>, hs_next_request_id = 1\<rparr> = (Reply r, h')"
    by (simp add: handle_connection_def demo_connection_def read_request_def read_line_def decode_line_def
        incomplete_request_def is_incomplete_request_error_def)
  with replies_framed[OF small, where t=demo_tools and net=demo_net and c=demo_connection
      and h="\<lparr>hs_server = \<lparr>ms_service = demo_created, ms_logs = []\<rparr>, hs_next_request_id = 1\<rparr>"]
  show ?thesis by simp
qed

end
