(* ===== verification/Os_Path.thy ===== *)
theory Os_Path
  imports Launch Json
begin

text \<open>
  What the components read off the text of a path, of an environment variable and of a program's
  output: the names in a Windows path, \<open>std::env::split_paths\<close>, the lines of a text and the search
  for a word in one.
\<close>

section \<open>Names in a path\<close>

text \<open>The bytes of a path in a message: \<open>Path::display\<close> is lossy.\<close>

definition display :: "os_text \<Rightarrow> string" where
  "display p = string_of (to_string_lossy p)"

text \<open>\<open>Path::file_name\<close> on the text of a Windows path: the last component, behind a drive letter, when
  it is a name; and \<open>Path::extension\<close>, which a name does not have when its only dot is in front.\<close>

definition file_name_of :: "os_text \<Rightarrow> os_text option" where
  "file_name_of path =
     (let p = (if 2 \<le> length path \<and> is_ascii_alphabetic (path ! 0) \<and> path ! 1 = 58 then drop 2 path else path);
          names = filter (\<lambda>n. n \<noteq> [] \<and> n \<noteq> [dot]) (split_on is_separator p)
      in if names = [] \<or> last names = [dot, dot] then None else Some (last names))"

definition extension_of :: "os_text \<Rightarrow> os_text option" where
  "extension_of path =
     (case file_name_of path of
        None \<Rightarrow> None
      | Some n \<Rightarrow>
          (let ext = rev (takeWhile (\<lambda>c. c \<noteq> dot) (rev n))
           in if dot \<in> set (tl n) \<and> length ext + 1 < length n then Some ext else None))"

section \<open>The search path\<close>

text \<open>\<open>split_paths\<close> on Windows: semicolons separate, except between double quotes, which are dropped.\<close>

fun split_paths_from :: "bool \<Rightarrow> os_text \<Rightarrow> os_text \<Rightarrow> os_text list" where
  "split_paths_from quoted piece [] = [piece]"
| "split_paths_from quoted piece (c # cs) =
     (if c = quote_mark then split_paths_from (\<not> quoted) piece cs
      else if c = 59 \<and> \<not> quoted then piece # split_paths_from False [] cs
      else split_paths_from quoted (piece @ [c]) cs)"

definition split_paths :: "os_text \<Rightarrow> os_text list" where
  "split_paths t = split_paths_from False [] t"

lemma split_paths_from_plain:
  "quote_mark \<notin> set t \<Longrightarrow> split_paths_from False piece t =
     (case split_on (\<lambda>c. c = 59) t of [] \<Rightarrow> [piece] | p # ps \<Rightarrow> (piece @ p) # ps)"
  by (induction t arbitrary: piece) (auto split: list.splits)

text \<open>Without quotes, the directories are the pieces between the semicolons.\<close>

lemma split_paths_plain: "quote_mark \<notin> set t \<Longrightarrow> split_paths t = split_on (\<lambda>c. c = 59) t"
  by (auto simp: split_paths_def split_paths_from_plain split: list.split)

section \<open>Lines and words\<close>

text \<open>\<open>str::lines\<close>: a carriage return before the line feed belongs to the end of the line.\<close>

definition strip_cr :: "utext \<Rightarrow> utext" where
  "strip_cr l = (if l \<noteq> [] \<and> last l = 13 then butlast l else l)"

definition text_lines :: "utext \<Rightarrow> utext list" where
  "text_lines t =
     (let pieces = split_on (\<lambda>c. c = 10) t; end_piece = last pieces
      in map strip_cr (butlast pieces) @ (if end_piece = [] then [] else [end_piece]))"

text \<open>What follows the first occurrence of a word (\<open>str::find\<close>), and \<open>str::parse::<u32>\<close>.\<close>

fun after_first :: "utext \<Rightarrow> utext \<Rightarrow> utext option" where
  "after_first word [] = strip_prefix [] word"
| "after_first word (c # t) =
     (case strip_prefix (c # t) word of Some r \<Rightarrow> Some r | None \<Rightarrow> after_first word t)"

definition parse_u32 :: "utext \<Rightarrow> 32 word option" where
  "parse_u32 t =
     (case parse_usize t of Some n \<Rightarrow> if n < 2 ^ 32 then Some (of_nat n) else None | None \<Rightarrow> None)"

lemma after_first_Some: "after_first word t = Some r \<Longrightarrow> \<exists>a. t = a @ word @ r"
proof (induction t)
  case Nil
  then show ?case by (auto simp: strip_prefix_Some)
next
  case (Cons c t)
  show ?case
  proof (cases "strip_prefix (c # t) word")
    case None
    then obtain a where "t = a @ word @ r" using Cons by auto
    then show ?thesis by (intro exI[of _ "c # a"]) simp
  next
    case (Some r')
    then have "after_first word (c # t) = Some r'" by simp
    then have "strip_prefix (c # t) word = Some r" using Some Cons(2) by simp
    then show ?thesis by (intro exI[of _ "[]"]) (simp add: strip_prefix_Some)
  qed
qed

lemma parse_u32_show: "parse_u32 (show_text (unat (w :: 32 word))) = Some w"
proof -
  have "unat w < 2 ^ 32" using unsigned_less[of w] by simp
  then show ?thesis by (simp add: parse_u32_def parse_usize_show)
qed

end
