(* ===== verification/Ida.thy ===== *)
theory Ida
  imports Artifacts Tools Os_Path
begin

text \<open>
  The data of the sessions of IDA (\<open>dbgflow-reverse/src/ida\<close>): \<open>model.rs\<close>, \<open>target.rs\<close> and the
  part of \<open>worker.rs\<close> that builds the requests to the upstream server \<open>ida-pro-mcp\<close> and reads its
  responses. A path is an \<open>os_text\<close>; what the file system says of one is a field of \<open>ida_fs\<close>.
\<close>

section \<open>Sessions\<close>

datatype reverse_session_state = RsStarting | RsReady | RsClosing | RsClosed | RsError

definition reverse_is_reusable :: "reverse_session_state \<Rightarrow> bool" where
  "reverse_is_reusable s = (s = RsStarting \<or> s = RsReady)"

definition reverse_is_terminal :: "reverse_session_state \<Rightarrow> bool" where
  "reverse_is_terminal s = (s = RsClosed \<or> s = RsError)"

text \<open>The derived \<open>Debug\<close>.\<close>

fun reverse_state_name :: "reverse_session_state \<Rightarrow> string" where
  "reverse_state_name RsStarting = ''Starting''"
| "reverse_state_name RsReady = ''Ready''"
| "reverse_state_name RsClosing = ''Closing''"
| "reverse_state_name RsClosed = ''Closed''"
| "reverse_state_name RsError = ''Error''"

datatype ida_open_mode = PreferHeadless | ForceHeadless | PreferGui | ForceGui

fun as_upstream :: "ida_open_mode \<Rightarrow> string" where
  "as_upstream PreferHeadless = ''prefer_headless''"
| "as_upstream ForceHeadless = ''force_headless''"
| "as_upstream PreferGui = ''prefer_gui''"
| "as_upstream ForceGui = ''force_gui''"

definition ida_open_mode_default :: ida_open_mode where
  "ida_open_mode_default = PreferHeadless"

record ida_upstream_session =
  us_database_id :: utext
  us_input_path :: os_text
  us_filename :: utext
  us_backend :: "utext option"
  us_adopted :: "bool option"
  us_owned :: "bool option"
  us_pid :: "u32 option"
  us_worker_pid :: "u32 option"
  us_is_active :: "bool option"
  us_is_analyzing :: "bool option"
  us_metadata :: json

record ida_session_health =
  ih_reachable :: bool
  ih_detail :: "json option"
  ih_error :: "utext option"

section \<open>Targets\<close>

datatype ida_target = Binary os_text | Database os_text

fun target_path :: "ida_target \<Rightarrow> os_text" where
  "target_path (Binary p) = p"
| "target_path (Database p) = p"

fun with_path :: "ida_target \<Rightarrow> os_text \<Rightarrow> ida_target" where
  "with_path (Binary _) p = Binary p"
| "with_path (Database _) p = Database p"

fun is_database :: "ida_target \<Rightarrow> bool" where
  "is_database (Database _) = True"
| "is_database _ = False"

text \<open>What the file system says: \<open>canonicalize\<close> with the text of its error, \<open>is_file\<close>, \<open>is_dir\<close>.\<close>

record ida_fs =
  fs_canonicalize :: "os_text \<Rightarrow> string + os_text"
  fs_is_file :: "os_text \<Rightarrow> bool"
  fs_is_dir :: "os_text \<Rightarrow> bool"

abbreviation verbatim :: utext where "verbatim \<equiv> [92, 92, 63, 92]"
abbreviation verbatim_unc :: utext where "verbatim_unc \<equiv> [92, 92, 63, 92, 85, 78, 67, 92]"

definition normalize_ida_runtime_path :: "os_text \<Rightarrow> os_text" where
  "normalize_ida_runtime_path path =
     (let text = to_string_lossy path
      in case strip_prefix text verbatim_unc of
           Some rest \<Rightarrow> [backslash, backslash] @ rest
         | None \<Rightarrow>
             (case strip_prefix text verbatim of
                Some rest \<Rightarrow> rest
              | None \<Rightarrow> path))"

definition validate_path_text :: "os_text \<Rightarrow> unit result" where
  "validate_path_text path =
     (if path = [] then Inl (Backend ''IDA target path must not be empty'')
      else if 0 \<in> set (to_string_lossy path) then Inl (Backend ''IDA target path must not contain NUL bytes'')
      else Inr ())"

definition is_ida_database_path :: "os_text \<Rightarrow> bool" where
  "is_ida_database_path path =
     (case extension_of path of
        None \<Rightarrow> False
      | Some ext \<Rightarrow>
          \<not> list_ex is_surrogate ext
          \<and> (eq_ignore_ascii_case ext (lit ''idb'') \<or> eq_ignore_ascii_case ext (lit ''i64'')))"

definition validate_ida_target :: "ida_fs \<Rightarrow> ida_target \<Rightarrow> ida_target result" where
  "validate_ida_target fs target =
     (let raw_path = target_path target
      in case validate_path_text raw_path of
           Inl e \<Rightarrow> Inl e
         | Inr _ \<Rightarrow>
             (case fs_canonicalize fs raw_path of
                Inl e \<Rightarrow> Inl (Backend (''invalid IDA target path '' @ display raw_path @ '': '' @ e))
              | Inr canonical \<Rightarrow>
                  (let canonical = normalize_ida_runtime_path canonical
                   in if \<not> fs_is_file fs canonical
                      then Inl (Backend (''invalid IDA target path '' @ display canonical
                             @ ''; expected an existing file''))
                      else if is_database target \<and> \<not> is_ida_database_path canonical
                      then Inl (Backend (''invalid IDA database path '' @ display canonical
                             @ ''; expected .idb or .i64''))
                      else Inr (with_path target canonical))))"

record reverse_session =
  rv_id :: session_id
  rv_backend :: string
  rv_target :: ida_target
  rv_state :: reverse_session_state
  rv_database_id :: "utext option"
  rv_ida_backend :: "utext option"
  rv_adopted :: "bool option"
  rv_owned :: "bool option"
  rv_pid :: "u32 option"
  rv_worker_pid :: "u32 option"
  rv_is_active :: "bool option"
  rv_last_health :: "ida_session_health option"
  rv_created_at :: nat
  rv_updated_at :: nat
  rv_warnings :: "utext list"
  rv_artifacts :: "artifact_ref list"
  rv_error :: "utext option"

record ida_tool_call_result =
  tc_session_id :: session_id
  tc_tool :: utext
  tc_result :: json
  tc_artifact :: artifact_ref
  tc_warnings :: "utext list"

datatype save_status = NotRequested | Saved | SaveFailed | SaveUnknown

record close_database_result =
  cd_save_requested :: bool
  cd_save_status :: save_status
  cd_warning :: "utext option"
  cd_error :: "utext option"

record upstream_ida_tool_request =
  uq_session_id :: session_id
  uq_arguments :: "(utext \<times> json) list"

end
