(* ===== verification/Ida_Worker.thy ===== *)
theory Ida_Worker
  imports Ida Tool_Schemas
begin

text \<open>
  The requests to the upstream server and what is made of its responses (\<open>ida/worker.rs\<close>):
  which of its tools are exposed, the implementation of the trait \<open>IdaSupervisor\<close> by
  \<open>ProcessIdaSupervisor\<close> over its \<open>request\<close>, and the download of a long output.
\<close>

section \<open>The exposed tools\<close>

definition DEFAULT_UPSTREAM_TOOLS :: "string list" where
  "DEFAULT_UPSTREAM_TOOLS =
     [''add_bookmark'', ''analyze_batch'', ''analyze_component'', ''analyze_function'', ''append_comments'',
      ''basic_blocks'', ''callees'', ''callgraph'', ''declare_stack'', ''declare_type'', ''decompile'',
      ''define_code'', ''define_func'', ''delete_stack'', ''diff_before_after'', ''disasm'', ''entity_query'',
      ''enum_upsert'', ''export_funcs'', ''find'', ''find_bytes'', ''find_regex'', ''find_xref_signatures'',
      ''force_recompile'', ''func_profile'', ''func_query'', ''get_bytes'', ''get_global_value'', ''get_int'',
      ''get_string'', ''idb_save'', ''imports'', ''imports_query'', ''infer_types'', ''insn_query'',
      ''int_convert'', ''list_funcs'', ''list_globals'', ''lookup_funcs'', ''make_data'', ''make_signature'',
      ''make_signature_for_function'', ''make_signature_for_range'', ''patch'', ''patch_asm'', ''put_int'',
      ''py_eval'', ''read_struct'', ''rename'', ''search_structs'', ''search_text'', ''server_health'',
      ''set_comments'', ''set_op_type'', ''set_type'', ''stack_frame'', ''survey_binary'', ''trace_data_flow'',
      ''type_apply_batch'', ''type_inspect'', ''type_query'', ''undefine'', ''xref_query'', ''xrefs_to'',
      ''xrefs_to_field'']"

definition UPSTREAM_IDB_OPEN :: utext where "UPSTREAM_IDB_OPEN = chars ''idb_open''"
definition UPSTREAM_IDB_LIST :: utext where "UPSTREAM_IDB_LIST = chars ''idb_list''"
definition UPSTREAM_IDB_SAVE :: utext where "UPSTREAM_IDB_SAVE = chars ''idb_save''"

definition is_allowed_upstream_tool :: "utext \<Rightarrow> bool" where
  "is_allowed_upstream_tool tool_name =
     (tool_name \<in> set (map chars DEFAULT_UPSTREAM_TOOLS)
      \<and> tool_name \<noteq> chars ''py_exec_file'' \<and> tool_name \<noteq> UPSTREAM_IDB_OPEN \<and> tool_name \<noteq> UPSTREAM_IDB_LIST
      \<and> \<not> starts_with_text tool_name (chars ''dbg_''))"

text \<open>The two lines of comment in front of the names are closed by a line feed each, then an empty line.\<close>

definition default_profile_text :: utext where
  "default_profile_text =
     chars ''# dbgflow default ida-pro-mcp profile'' @ [10]
     @ chars ''# Generated by dbgflow; debugger tools and py_exec_file are intentionally excluded.'' @ [10, 10]
     @ concat (map (\<lambda>tool. chars tool @ [10]) DEFAULT_UPSTREAM_TOOLS)"

definition default_upstream_input_schema :: json where
  "default_upstream_input_schema =
     obj [(''type'', text_value ''object''),
          (''properties'', obj [(''session_id'', obj [(''type'', text_value ''string''),
             (''description'', text_value ''dbgflow IDA session id returned by ida.create_session.'')])]),
          (''required'', JArray [text_value ''session_id'']),
          (''additionalProperties'', JBoolean True)]"

definition fallback_tool_descriptors :: "upstream_tool_descriptor list" where
  "fallback_tool_descriptors = map (\<lambda>tool.
     \<lparr>ut_name = chars tool, ut_description = chars ''IDA Pro MCP upstream tool `'' @ chars tool @ chars ''`.'',
      ut_input_schema = default_upstream_input_schema, ut_output_schema = None\<rparr>) DEFAULT_UPSTREAM_TOOLS"

section \<open>Reading responses\<close>

fun as_bool :: "json \<Rightarrow> bool option" where
  "as_bool (JBoolean b) = Some b"
| "as_bool _ = None"

fun as_u64 :: "json \<Rightarrow> nat option" where
  "as_u64 (JNum (PosInt n)) = Some n"
| "as_u64 _ = None"

fun as_array :: "json \<Rightarrow> json list option" where
  "as_array (JArray vs) = Some vs"
| "as_array _ = None"

text \<open>\<open>v.get(name).and_then(read)\<close>.\<close>

definition get_as :: "(json \<Rightarrow> 'a option) \<Rightarrow> string \<Rightarrow> json \<Rightarrow> 'a option" where
  "get_as read name v = Option.bind (json_get v (chars name)) read"

record supervisor_tool_call_result =
  sr_structured_content :: json
  sr_mcp_result :: json
  sr_is_error :: bool
  sr_error_message :: "utext option"

definition text_bytes :: "utext \<Rightarrow> byte list" where
  "text_bytes t = map of_nat (utf8_encode t)"

text \<open>\<open>array.first()\<close>.\<close>

definition first_of :: "'a list \<Rightarrow> 'a option" where
  "first_of xs = (case xs of [] \<Rightarrow> None | x # _ \<Rightarrow> Some x)"

definition first_text :: "json \<Rightarrow> utext option" where
  "first_text res = Option.bind (Option.bind (get_as as_array ''content'' res) first_of) (get_as as_str ''text'')"

definition content_text_json :: "serde_lib \<Rightarrow> json \<Rightarrow> json option" where
  "content_text_json lib res =
     Option.bind (first_text res) (\<lambda>txt. case sl_parse lib (text_bytes txt) of Inr v \<Rightarrow> Some v | Inl _ \<Rightarrow> None)"

definition tool_error_text :: "json \<Rightarrow> utext" where
  "tool_error_text res =
     (case first_text res of Some t \<Rightarrow> t | None \<Rightarrow> chars ''ida-pro-mcp tool call failed'')"

definition decode_tool_result :: "serde_lib \<Rightarrow> json \<Rightarrow> supervisor_tool_call_result" where
  "decode_tool_result lib res =
     (let is_error = (get_as as_bool ''isError'' res = Some True);
          content = (case json_get res (chars ''structuredContent'') of
             Some v \<Rightarrow> v
           | None \<Rightarrow> (case content_text_json lib res of Some v \<Rightarrow> v | None \<Rightarrow> JNull))
      in \<lparr>sr_structured_content = content, sr_mcp_result = res, sr_is_error = is_error,
          sr_error_message = (if is_error then Some (tool_error_text res) else None)\<rparr>)"

definition upstream_tool_descriptor_from_value :: "json \<Rightarrow> upstream_tool_descriptor option" where
  "upstream_tool_descriptor_from_value v =
     (case get_as as_str ''name'' v of
        None \<Rightarrow> None
      | Some name \<Rightarrow> Some
          \<lparr>ut_name = name,
           ut_description = (case get_as as_str ''description'' v of
              Some d \<Rightarrow> d | None \<Rightarrow> chars ''IDA Pro MCP upstream tool''),
           ut_input_schema = (case json_get v (chars ''inputSchema'') of
              Some s \<Rightarrow> s | None \<Rightarrow> default_upstream_input_schema),
           ut_output_schema = json_get v (chars ''outputSchema'')\<rparr>)"

abbreviation backend_error :: "utext \<Rightarrow> dbgflow_error" where
  "backend_error t \<equiv> Backend (string_of t)"

text \<open>\<open>pid as u32\<close> keeps the lower 32 bits.\<close>

definition ida_session_from_value :: "json \<Rightarrow> ida_upstream_session result" where
  "ida_session_from_value v =
     (case as_object v of
        None \<Rightarrow> Inl (Backend ''IDA session entry is not an object'')
      | Some _ \<Rightarrow>
          (let database_id = (case get_as as_str ''session_id'' v of Some t \<Rightarrow> t | None \<Rightarrow> [])
           in if database_id = [] \<and> get_as as_bool ''adopted'' v \<noteq> Some False
              then Inl (Backend ''IDA session entry missing session_id'')
              else Inr
                \<lparr>us_database_id = database_id,
                 us_input_path = (case get_as as_str ''input_path'' v of Some t \<Rightarrow> t | None \<Rightarrow> []),
                 us_filename = (case get_as as_str ''filename'' v of Some t \<Rightarrow> t | None \<Rightarrow> []),
                 us_backend = get_as as_str ''backend'' v,
                 us_adopted = get_as as_bool ''adopted'' v,
                 us_owned = get_as as_bool ''owned'' v,
                 us_pid = map_option of_nat (get_as as_u64 ''pid'' v),
                 us_worker_pid = map_option of_nat (get_as as_u64 ''worker_pid'' v),
                 us_is_active = get_as as_bool ''is_active'' v,
                 us_is_analyzing = get_as as_bool ''is_analyzing'' v,
                 us_metadata = (case json_get v (chars ''metadata'') of Some m \<Rightarrow> m | None \<Rightarrow> JNull)\<rparr>))"

section \<open>The supervisor\<close>

record open_ida_database =
  od_input_path :: os_text
  od_mode :: ida_open_mode
  od_run_auto_analysis :: bool
  od_build_caches :: bool
  od_init_hexrays :: bool
  od_idle_ttl_sec :: nat
  od_preferred_session_id :: utext
  od_startup_timeout_ms :: nat

record open_ida_database_result =
  or_session :: ida_upstream_session
  or_warmup :: "json option"
  or_message :: "utext option"

text \<open>The trait \<open>IdaSupervisor\<close>, as far as the session manager uses it, on the state of the supervisor.\<close>

record 'v ida_supervisor =
  sv_tool_descriptors :: "'v \<Rightarrow> upstream_tool_descriptor list result \<times> 'v"
  sv_open_session :: "open_ida_database \<Rightarrow> 'v \<Rightarrow> open_ida_database_result result \<times> 'v"
  sv_list_sessions :: "'v \<Rightarrow> ida_upstream_session list result \<times> 'v"
  sv_call_tool :: "utext \<Rightarrow> utext \<Rightarrow> (utext \<times> json) list \<Rightarrow> 'v \<Rightarrow> supervisor_tool_call_result result \<times> 'v"

text \<open>
  \<open>ProcessIdaSupervisor::request\<close> with its method, its parameters and its time limit in milliseconds is
  an argument here. So is the quotient of milliseconds by a thousand as a 64-bit float.
\<close>

type_synonym 'v upstream_request = "string \<Rightarrow> json option \<Rightarrow> nat option \<Rightarrow> 'v \<Rightarrow> json result \<times> 'v"

definition SUPERVISOR_REQUEST_TIMEOUT :: nat where "SUPERVISOR_REQUEST_TIMEOUT = 120000"

definition supervisor_tool_descriptors ::
    "'v upstream_request \<Rightarrow> 'v \<Rightarrow> upstream_tool_descriptor list result \<times> 'v" where
  "supervisor_tool_descriptors request v =
     (case request ''tools/list'' None (Some SUPERVISOR_REQUEST_TIMEOUT) v of
        (Inl e, v') \<Rightarrow> (Inl e, v')
      | (Inr res, v') \<Rightarrow>
          (case get_as as_array ''tools'' res of
             None \<Rightarrow> (Inl (Backend ''tools/list response missing tools''), v')
           | Some tools \<Rightarrow>
               (Inr (filter (\<lambda>tool. is_allowed_upstream_tool (ut_name tool))
                  (List.map_filter upstream_tool_descriptor_from_value tools)), v')))"

definition call_management_tool ::
    "serde_lib \<Rightarrow> 'v upstream_request \<Rightarrow> utext \<Rightarrow> (utext \<times> json) list \<Rightarrow> nat option \<Rightarrow> 'v
       \<Rightarrow> supervisor_tool_call_result result \<times> 'v" where
  "call_management_tool lib request tool_name arguments timeout v =
     (case request ''tools/call''
          (Some (obj [(''name'', JText tool_name), (''arguments'', JObject arguments)]))
          (Some (case timeout of Some t \<Rightarrow> t | None \<Rightarrow> SUPERVISOR_REQUEST_TIMEOUT)) v of
        (Inl e, v') \<Rightarrow> (Inl e, v')
      | (Inr res, v') \<Rightarrow> (Inr (decode_tool_result lib res), v'))"

text \<open>\<open>Duration\<close> holds 64 bits of seconds, so adding thirty to at most $2^{64}$ milliseconds never saturates.\<close>

definition open_arguments :: "(nat \<Rightarrow> json_number) \<Rightarrow> open_ida_database \<Rightarrow> (utext \<times> json) list" where
  "open_arguments seconds r =
     foldl (\<lambda>m (k, v). bt_insert (chars k) v m) []
       [(''input_path'', JText (to_string_lossy (od_input_path r))),
        (''mode'', text_value (as_upstream (od_mode r))),
        (''run_auto_analysis'', JBoolean (od_run_auto_analysis r)),
        (''build_caches'', JBoolean (od_build_caches r)),
        (''init_hexrays'', JBoolean (od_init_hexrays r)),
        (''idle_ttl_sec'', JNum (PosInt (od_idle_ttl_sec r))),
        (''preferred_session_id'', JText (od_preferred_session_id r)),
        (''open_timeout_sec'', JNum (seconds (max (od_startup_timeout_ms r) 1)))]"

definition supervisor_open_session ::
    "serde_lib \<Rightarrow> (nat \<Rightarrow> json_number) \<Rightarrow> 'v upstream_request \<Rightarrow> open_ida_database \<Rightarrow> 'v
       \<Rightarrow> open_ida_database_result result \<times> 'v" where
  "supervisor_open_session lib seconds request r v =
     (case call_management_tool lib request UPSTREAM_IDB_OPEN (open_arguments seconds r)
          (Some (max (od_startup_timeout_ms r) 1 + 30000)) v of
        (Inl e, v') \<Rightarrow> (Inl e, v')
      | (Inr response, v') \<Rightarrow>
          (let content = sr_structured_content response
           in case get_as as_str ''error'' content of
                Some e \<Rightarrow> (Inl (backend_error e), v')
              | None \<Rightarrow>
                  (case json_get content (chars ''session'') of
                     None \<Rightarrow> (Inl (Backend ''idb_open response missing session''), v')
                   | Some s \<Rightarrow>
                       (case ida_session_from_value s of
                          Inl e \<Rightarrow> (Inl e, v')
                        | Inr session \<Rightarrow>
                            (Inr \<lparr>or_session = session, or_warmup = json_get content (chars ''warmup''),
                                  or_message = get_as as_str ''message'' content\<rparr>, v')))))"

text \<open>\<open>collect\<close> into a \<open>Result\<close>: the first error is the result.\<close>

fun collect_results :: "('a \<Rightarrow> 'b result) \<Rightarrow> 'a list \<Rightarrow> 'b list result" where
  "collect_results f [] = Inr []"
| "collect_results f (x # xs) =
     (case f x of
        Inl e \<Rightarrow> Inl e
      | Inr y \<Rightarrow> (case collect_results f xs of Inl e \<Rightarrow> Inl e | Inr ys \<Rightarrow> Inr (y # ys)))"

definition supervisor_list_sessions ::
    "serde_lib \<Rightarrow> 'v upstream_request \<Rightarrow> 'v \<Rightarrow> ida_upstream_session list result \<times> 'v" where
  "supervisor_list_sessions lib request v =
     (case call_management_tool lib request UPSTREAM_IDB_LIST [] None v of
        (Inl e, v') \<Rightarrow> (Inl e, v')
      | (Inr response, v') \<Rightarrow>
          (case get_as as_str ''error'' (sr_structured_content response) of
             Some e \<Rightarrow> (Inl (backend_error e), v')
           | None \<Rightarrow>
               (case get_as as_array ''sessions'' (sr_structured_content response) of
                  None \<Rightarrow> (Inl (Backend ''idb_list response missing sessions''), v')
                | Some sessions \<Rightarrow> (collect_results ida_session_from_value sessions, v'))))"

definition supervisor_call_tool ::
    "serde_lib \<Rightarrow> 'v upstream_request \<Rightarrow> utext \<Rightarrow> utext \<Rightarrow> (utext \<times> json) list \<Rightarrow> 'v
       \<Rightarrow> supervisor_tool_call_result result \<times> 'v" where
  "supervisor_call_tool lib request database_id tool_name arguments v =
     call_management_tool lib request tool_name
       (bt_insert (chars ''database'') (JText database_id) arguments) None v"

definition process_ida_supervisor ::
    "serde_lib \<Rightarrow> (nat \<Rightarrow> json_number) \<Rightarrow> 'v upstream_request \<Rightarrow> 'v ida_supervisor" where
  "process_ida_supervisor lib seconds request =
     \<lparr>sv_tool_descriptors = supervisor_tool_descriptors request,
      sv_open_session = supervisor_open_session lib seconds request,
      sv_list_sessions = supervisor_list_sessions lib request,
      sv_call_tool = supervisor_call_tool lib request\<rparr>"

section \<open>Downloading a long output\<close>

record parsed_http_url =
  pu_host :: utext
  pu_host_header :: utext
  pu_port :: nat
  pu_path :: utext

definition parse_http_url :: "utext \<Rightarrow> parsed_http_url result" where
  "parse_http_url url =
     (case strip_prefix url (chars ''http://'') of
        None \<Rightarrow> Inl (Backend ''IDA output download URL must use http://'')
      | Some rest \<Rightarrow>
          (let (authority, path) =
                 (case split_once slash rest of Some (a, p) \<Rightarrow> (a, slash # p) | None \<Rightarrow> (rest, [slash]))
           in case Option.bind (rsplit_once 58 authority)
                     (\<lambda>(host, port). map_option (\<lambda>port. (host, port)) (parse_u16 port)) of
                None \<Rightarrow> Inl (Backend ''IDA output download URL missing port'')
              | Some (host, port) \<Rightarrow>
                  if host \<noteq> chars ''127.0.0.1'' \<and> host \<noteq> chars ''localhost''
                  then Inl (Backend ''IDA output download URL must be loopback'')
                  else Inr \<lparr>pu_host = host, pu_host_header = authority, pu_port = port, pu_path = path\<rparr>))"

definition crlf :: "nat list" where "crlf = [13, 10]"

definition download_request :: "parsed_http_url \<Rightarrow> utext" where
  "download_request u =
     chars ''GET '' @ pu_path u @ chars '' HTTP/1.1'' @ crlf @ chars ''Host: '' @ pu_host_header u @ crlf
     @ chars ''Connection: close'' @ crlf @ chars ''Accept: application/json'' @ crlf @ crlf"

text \<open>The bytes up to and with the first empty line, and those behind it.\<close>

fun split_head :: "byte list \<Rightarrow> (byte list \<times> byte list) option" where
  "split_head [] = None"
| "split_head (b # more_bytes) =
     (if starts_with_text (b # more_bytes) [13, 10, 13, 10] then Some (take 4 (b # more_bytes), drop 4 (b # more_bytes))
      else case split_head more_bytes of None \<Rightarrow> None | Some (h, r) \<Rightarrow> Some (b # h, r))"

text \<open>The first of \<open>str::lines\<close>.\<close>

definition first_line :: "utext \<Rightarrow> utext" where
  "first_line t = (let l = takeWhile (\<lambda>c. c \<noteq> 10) t
     in if l \<noteq> [] \<and> last l = 13 \<and> length l < length t then butlast l else l)"

definition read_download :: "serde_lib \<Rightarrow> byte list \<Rightarrow> json result" where
  "read_download lib response =
     (case split_head response of
        None \<Rightarrow> Inl (Backend ''invalid HTTP response from IDA output endpoint'')
      | Some (head, body) \<Rightarrow>
          (let header = utf8_lossy (map unat head)
           in if \<not> starts_with_text header (chars ''HTTP/1.1 200'')
                 \<and> \<not> starts_with_text header (chars ''HTTP/1.0 200'')
              then Inl (backend_error (chars ''IDA output download failed: '' @ first_line header))
              else case sl_parse lib body of
                Inl e \<Rightarrow> Inl (backend_error (chars ''parse IDA output JSON: '' @ e))
              | Inr v \<Rightarrow> Inr v))"

text \<open>The connection is an argument: it is given host, port and the bytes of the request, and returns
  everything up to the end of the stream, or the text of the step that failed.\<close>

definition download_ida_mcp_output ::
    "serde_lib \<Rightarrow> (utext \<Rightarrow> nat \<Rightarrow> byte list \<Rightarrow> utext + byte list) \<Rightarrow> utext \<Rightarrow> json result" where
  "download_ida_mcp_output lib connect url =
     (case parse_http_url url of
        Inl e \<Rightarrow> Inl e
      | Inr u \<Rightarrow>
          (case connect (pu_host u) (pu_port u) (text_bytes (download_request u)) of
             Inl e \<Rightarrow> Inl (backend_error e)
           | Inr response \<Rightarrow> read_download lib response))"

end
