(* ===== verification/Ida_State.thy ===== *)
theory Ida_State
  imports Ida_Worker
begin

text \<open>
  The state of the manager of IDA sessions (\<open>ida/manager.rs\<close>) and the helpers its operations are made
  of. The mutex-protected maps are components of one record, with a flag each for a poisoned mutex. The
  upstream server is the component \<open>im_supervisor\<close>, changed only by the operations of the trait
  \<open>IdaSupervisor\<close>; the calls made to it are recorded in \<open>im_calls\<close>. The clock is any function of the
  number of times it was read.
\<close>

section \<open>The state\<close>

record create_ida_session =
  ck_target :: ida_target
  ck_run_auto_analysis :: bool
  ck_build_caches :: bool
  ck_init_hexrays :: bool
  ck_mode :: ida_open_mode
  ck_idle_ttl_sec :: nat
  ck_startup_timeout_ms :: "nat option"

record reverse_session_event =
  re_timestamp :: nat
  re_event :: string
  re_session_id :: string
  re_previous_state :: "string option"
  re_new_state :: "string option"
  re_operation :: "utext option"
  re_artifact_path :: "path option"
  re_error :: "utext option"
  re_fields :: json

text \<open>What the files of a session hold.\<close>

datatype reverse_line =
    RequestLine create_ida_session
  | MetadataLine reverse_session
  | ReverseEventLine reverse_session_event
  | OutputLine json

datatype supervisor_call =
    UpstreamList
  | UpstreamOpen open_ida_database
  | UpstreamCall utext utext "(utext \<times> json) list"

record 'v ida_manager =
  im_supervisor :: 'v
  im_sessions :: "session_id \<Rightarrow> reverse_session option"
  im_sessions_poisoned :: bool
  im_database_ids :: "session_id \<Rightarrow> utext option"
  im_database_ids_poisoned :: bool
  im_operation_locks :: "session_id \<Rightarrow> bool option"
  im_operation_locks_poisoned :: bool
  im_create_poisoned :: bool
  im_artifacts :: "reverse_line artifact_manager"
  im_sequence :: "64 word"
  im_clock :: "nat \<Rightarrow> nat"
  im_ticks :: nat
  im_logs :: "log_event list"
  im_calls :: "supervisor_call list"

text \<open>What stays the same: the code of the supervisor, the file system, the libraries, and the connection
  through which a long output is fetched.\<close>

record 'v ida_env =
  ie_supervisor :: "'v ida_supervisor"
  ie_fs :: ida_fs
  ie_lib :: serde_lib
  ie_connect :: "utext \<Rightarrow> nat \<Rightarrow> byte list \<Rightarrow> utext + byte list"

definition BACKEND_NAME :: string where "BACKEND_NAME = ''ida-pro-mcp''"
definition DEFAULT_STARTUP_TIMEOUT_MS :: nat where "DEFAULT_STARTUP_TIMEOUT_MS = 1800000"
definition DEFAULT_IDLE_TTL_SEC :: nat where "DEFAULT_IDLE_TTL_SEC = 3600"

definition ida_manager_new :: "'v \<Rightarrow> reverse_line artifact_manager \<Rightarrow> (nat \<Rightarrow> nat) \<Rightarrow> 'v ida_manager" where
  "ida_manager_new supervisor artifacts clock =
     \<lparr>im_supervisor = supervisor, im_sessions = (\<lambda>_. None), im_sessions_poisoned = False,
      im_database_ids = (\<lambda>_. None), im_database_ids_poisoned = False,
      im_operation_locks = (\<lambda>_. None), im_operation_locks_poisoned = False, im_create_poisoned = False,
      im_artifacts = artifacts, im_sequence = 0, im_clock = clock, im_ticks = 0, im_logs = [], im_calls = []\<rparr>"

section \<open>Values\<close>

definition opt_value :: "('a \<Rightarrow> json) \<Rightarrow> 'a option \<Rightarrow> json" where
  "opt_value f v = (case v of Some x \<Rightarrow> f x | None \<Rightarrow> JNull)"

fun target_value :: "ida_target \<Rightarrow> json" where
  "target_value (Binary p) = obj [(''kind'', text_value ''binary''), (''path'', JText p)]"
| "target_value (Database p) = obj [(''kind'', text_value ''database''), (''path'', JText p)]"

definition upstream_session_value :: "ida_upstream_session \<Rightarrow> json" where
  "upstream_session_value s =
     obj [(''database_id'', JText (us_database_id s)), (''input_path'', JText (us_input_path s)),
          (''filename'', JText (us_filename s)), (''backend'', opt_value JText (us_backend s)),
          (''adopted'', opt_value JBoolean (us_adopted s)), (''owned'', opt_value JBoolean (us_owned s)),
          (''pid'', opt_value (\<lambda>n. JNum (PosInt (unat n))) (us_pid s)),
          (''worker_pid'', opt_value (\<lambda>n. JNum (PosInt (unat n))) (us_worker_pid s)),
          (''is_active'', opt_value JBoolean (us_is_active s)),
          (''is_analyzing'', opt_value JBoolean (us_is_analyzing s)), (''metadata'', us_metadata s)]"

fun save_status_value :: "save_status \<Rightarrow> json" where
  "save_status_value NotRequested = text_value ''not_requested''"
| "save_status_value Saved = text_value ''saved''"
| "save_status_value SaveFailed = text_value ''failed''"
| "save_status_value SaveUnknown = text_value ''unknown''"

definition close_result_value :: "close_database_result \<Rightarrow> json" where
  "close_result_value c =
     obj [(''save_requested'', JBoolean (cd_save_requested c)), (''save_status'', save_status_value (cd_save_status c)),
          (''warning'', opt_value JText (cd_warning c)), (''error'', opt_value JText (cd_error c))]"

definition close_fields :: "bool \<Rightarrow> close_database_result \<Rightarrow> json" where
  "close_fields save c =
     obj [(''save_requested'', JBoolean save), (''save_status'', save_status_value (cd_save_status c)),
          (''warning'', opt_value JText (cd_warning c)), (''error'', opt_value JText (cd_error c)),
          (''detached'', JBoolean True)]"

section \<open>Helpers\<close>

definition now_unix_ms :: "'v ida_manager \<Rightarrow> nat \<times> 'v ida_manager" where
  "now_unix_ms m = (im_clock m (im_ticks m), m\<lparr>im_ticks := Suc (im_ticks m)\<rparr>)"

definition ida_log :: "log_level \<Rightarrow> string \<Rightarrow> session_id option \<Rightarrow> string option \<Rightarrow> 'v ida_manager \<Rightarrow> 'v ida_manager" where
  "ida_log level event i error m =
     m\<lparr>im_logs := im_logs m @ [\<lparr>lg_level = level, lg_event = event, lg_session = i, lg_error = error\<rparr>]\<rparr>"

definition ida_error_string :: "'v ida_manager \<Rightarrow> dbgflow_error \<Rightarrow> string" where
  "ida_error_string m = error_text (am_show_id (im_artifacts m))"

definition ida_error_text :: "'v ida_manager \<Rightarrow> dbgflow_error \<Rightarrow> utext" where
  "ida_error_text m e = text_of (ida_error_string m e)"

definition with_artifacts ::
    "(reverse_line artifact_manager \<Rightarrow> 'r \<times> reverse_line artifact_manager) \<Rightarrow> 'v ida_manager \<Rightarrow> 'r \<times> 'v ida_manager" where
  "with_artifacts f m = (case f (im_artifacts m) of (r, a) \<Rightarrow> (r, m\<lparr>im_artifacts := a\<rparr>))"

definition ida_record_event ::
    "session_id \<Rightarrow> string \<Rightarrow> reverse_session_state option \<Rightarrow> reverse_session_state option \<Rightarrow> utext option
       \<Rightarrow> path option \<Rightarrow> utext option \<Rightarrow> json \<Rightarrow> 'v ida_manager \<Rightarrow> 'v ida_manager" where
  "ida_record_event i event previous_state new_state operation artifact error fs m =
     (let (now, m) = now_unix_ms m
      in snd (with_artifacts (append_reverse_session_event i (ReverseEventLine
           \<lparr>re_timestamp = now, re_event = event, re_session_id = am_show_id (im_artifacts m) i,
            re_previous_state = map_option reverse_state_name previous_state,
            re_new_state = map_option reverse_state_name new_state, re_operation = operation,
            re_artifact_path = artifact, re_error = error, re_fields = fs\<rparr>)) m))"

abbreviation ida_sessions_poisoned :: dbgflow_error where
  "ida_sessions_poisoned \<equiv> Backend ''IDA session manager lock poisoned''"

definition ida_update_session ::
    "session_id \<Rightarrow> (reverse_session \<Rightarrow> reverse_session) \<Rightarrow> 'v ida_manager \<Rightarrow> reverse_session result \<times> 'v ida_manager" where
  "ida_update_session i update m =
     (if im_sessions_poisoned m then (Inl ida_sessions_poisoned, m)
      else case im_sessions m i of
        None \<Rightarrow> (Inl (SessionNotFound i), m)
      | Some s \<Rightarrow>
          (let (now, m) = now_unix_ms m;
               s' = (update s)\<lparr>rv_updated_at := now\<rparr>
           in (Inr s', snd (with_artifacts (write_reverse_session_metadata i (MetadataLine s'))
                          (m\<lparr>im_sessions := (im_sessions m)(i \<mapsto> s')\<rparr>)))))"

definition append_artifact_to_session ::
    "session_id \<Rightarrow> artifact_ref \<Rightarrow> 'v ida_manager \<Rightarrow> unit result \<times> 'v ida_manager" where
  "append_artifact_to_session i artifact m =
     try_then (ida_update_session i (\<lambda>s. s\<lparr>rv_artifacts := rv_artifacts s @ [artifact]\<rparr>) m) (\<lambda>_ m. (Inr (), m))"

definition append_session_warning ::
    "session_id \<Rightarrow> utext \<Rightarrow> 'v ida_manager \<Rightarrow> unit result \<times> 'v ida_manager" where
  "append_session_warning i warning m =
     try_then (ida_update_session i (\<lambda>s. s\<lparr>rv_warnings := rv_warnings s @ [warning]\<rparr>) m) (\<lambda>_ m. (Inr (), m))"

definition ida_operation_lock :: "session_id \<Rightarrow> 'v ida_manager \<Rightarrow> bool result \<times> 'v ida_manager" where
  "ida_operation_lock i m =
     (if im_operation_locks_poisoned m then (Inl (Backend ''IDA operation locks map poisoned''), m)
      else case im_operation_locks m i of
        Some poisoned \<Rightarrow> (Inr poisoned, m)
      | None \<Rightarrow> (Inr False, m\<lparr>im_operation_locks := (im_operation_locks m)(i \<mapsto> False)\<rparr>))"

text \<open>\<open>operation_lock\<close> and the \<open>lock\<close> that follows it everywhere.\<close>

definition lock_operation :: "session_id \<Rightarrow> 'v ida_manager \<Rightarrow> unit result \<times> 'v ida_manager" where
  "lock_operation i m =
     try_then (ida_operation_lock i m) (\<lambda>poisoned m.
       if poisoned then (Inl (Backend ''IDA session operation lock poisoned''), m) else (Inr (), m))"

definition ida_database_id :: "session_id \<Rightarrow> 'v ida_manager \<Rightarrow> utext result" where
  "ida_database_id i m =
     (if im_database_ids_poisoned m then Inl (Backend ''IDA database map lock poisoned'')
      else case im_database_ids m i of
        Some db \<Rightarrow> Inr db
      | None \<Rightarrow> Inl (Backend (''IDA session '' @ am_show_id (im_artifacts m) i
                  @ '' is not bound to an upstream database'')))"

definition reusable_session_for_target ::
    "session_id list \<Rightarrow> ida_target \<Rightarrow> 'v ida_manager \<Rightarrow> reverse_session option result" where
  "reusable_session_for_target order target m =
     (if im_sessions_poisoned m then Inl ida_sessions_poisoned
      else Inr (find (\<lambda>s. rv_target s = target \<and> reverse_is_reusable (rv_state s))
             (List.map_filter (im_sessions m) order)))"

section \<open>The calls to the upstream server\<close>

definition upstream_list :: "'v ida_env \<Rightarrow> 'v ida_manager \<Rightarrow> ida_upstream_session list result \<times> 'v ida_manager" where
  "upstream_list e m =
     (case sv_list_sessions (ie_supervisor e) (im_supervisor m) of
        (r, v) \<Rightarrow> (r, m\<lparr>im_supervisor := v, im_calls := im_calls m @ [UpstreamList]\<rparr>))"

definition upstream_open ::
    "'v ida_env \<Rightarrow> open_ida_database \<Rightarrow> 'v ida_manager \<Rightarrow> open_ida_database_result result \<times> 'v ida_manager" where
  "upstream_open e r m =
     (case sv_open_session (ie_supervisor e) r (im_supervisor m) of
        (x, v) \<Rightarrow> (x, m\<lparr>im_supervisor := v, im_calls := im_calls m @ [UpstreamOpen r]\<rparr>))"

definition upstream_call ::
    "'v ida_env \<Rightarrow> utext \<Rightarrow> utext \<Rightarrow> (utext \<times> json) list \<Rightarrow> 'v ida_manager
       \<Rightarrow> supervisor_tool_call_result result \<times> 'v ida_manager" where
  "upstream_call e database_id tool arguments m =
     (case sv_call_tool (ie_supervisor e) database_id tool arguments (im_supervisor m) of
        (x, v) \<Rightarrow> (x, m\<lparr>im_supervisor := v, im_calls := im_calls m @ [UpstreamCall database_id tool arguments]\<rparr>))"

section \<open>Outputs\<close>

definition ida_mcp_download_url :: "json \<Rightarrow> utext option" where
  "ida_mcp_download_url res =
     Option.bind (Option.bind (json_get res (chars ''_meta'')) (\<lambda>v. json_get v (chars ''ida_mcp'')))
       (get_as as_str ''download_url'')"

definition output_char :: "nat \<Rightarrow> char" where
  "output_char c =
     (if is_ascii_alphabetic c \<or> 48 \<le> c \<and> c \<le> 57 \<or> c = dot \<or> c = 45 \<or> c = 95 then char_of c else CHR ''_'')"

definition unique_output_name :: "utext \<Rightarrow> 'v ida_manager \<Rightarrow> string \<times> 'v ida_manager" where
  "unique_output_name base m =
     (hex_pad 16 (unat (im_sequence m)) @ ''-'' @ map output_char base, m\<lparr>im_sequence := im_sequence m + 1\<rparr>)"

definition output_value :: "(string \<times> json) list \<Rightarrow> (utext \<times> json) list" where
  "output_value es = foldl (\<lambda>m (k, v). bt_insert (chars k) v m) [] es"

definition write_output_file ::
    "session_id \<Rightarrow> utext \<Rightarrow> json \<Rightarrow> 'v ida_manager \<Rightarrow> artifact_ref result \<times> 'v ida_manager" where
  "write_output_file i base output m =
     (let (name, m) = unique_output_name base m
      in with_artifacts (write_reverse_session_output i name (OutputLine output)) m)"

definition write_tool_output ::
    "'v ida_env \<Rightarrow> session_id \<Rightarrow> utext \<Rightarrow> json \<Rightarrow> supervisor_tool_call_result \<Rightarrow> 'v ida_manager
       \<Rightarrow> (artifact_ref \<times> utext list) result \<times> 'v ida_manager" where
  "write_tool_output e i tool_name request response m =
     (let out = output_value [(''tool'', JText (chars ''ida.'' @ tool_name)), (''request'', request),
                 (''structured_content'', sr_structured_content response),
                 (''mcp_result'', sr_mcp_result response)];
          (out, warnings) =
            (case ida_mcp_download_url (sr_mcp_result response) of
               None \<Rightarrow> (out, [])
             | Some url \<Rightarrow>
                 (case download_ida_mcp_output (ie_lib e) (ie_connect e) url of
                    Inr full \<Rightarrow> (bt_insert (chars ''downloaded_full_output'') full out, [])
                  | Inl error \<Rightarrow>
                      (let warning = chars ''download full ida-pro-mcp output failed: '' @ ida_error_text m error
                       in (bt_insert (chars ''download_warning'') (JText warning) out, [warning]))))
      in try_then (write_output_file i (tool_name @ chars ''.json'') (JObject out) m)
           (\<lambda>artifact m. (Inr (artifact, warnings), m)))"

definition write_tool_error_output ::
    "session_id \<Rightarrow> utext \<Rightarrow> json \<Rightarrow> utext \<Rightarrow> 'v ida_manager \<Rightarrow> artifact_ref result \<times> 'v ida_manager" where
  "write_tool_error_output i tool_name request error m =
     write_output_file i (tool_name @ chars ''.error.json'')
       (obj [(''tool'', JText (chars ''ida.'' @ tool_name)), (''request'', request), (''error'', JText error)]) m"

end
