(* ===== verification/Ida_Manager.thy ===== *)
theory Ida_Manager
  imports Ida_State
begin

text \<open>
  The operations of the manager of IDA sessions (\<open>ida/manager.rs\<close>): creating, looking at, closing a
  session, and passing the call of a tool on to the upstream server. Each is the whole function, with
  every call it makes; the fresh identifier and the order in which a hash map is walked are arguments.
\<close>

section \<open>Looking at sessions\<close>

definition set_health :: "bool \<Rightarrow> json option \<Rightarrow> utext option \<Rightarrow> reverse_session \<Rightarrow> reverse_session" where
  "set_health reachable detail error s =
     s\<lparr>rv_last_health := Some \<lparr>ih_reachable = reachable, ih_detail = detail, ih_error = error\<rparr>\<rparr>"

text \<open>The fields of a session that mirror the upstream one.\<close>

definition mirror_upstream :: "ida_upstream_session \<Rightarrow> reverse_session \<Rightarrow> reverse_session" where
  "mirror_upstream u s =
     s\<lparr>rv_ida_backend := us_backend u, rv_adopted := us_adopted u, rv_owned := us_owned u,
       rv_pid := us_pid u, rv_worker_pid := us_worker_pid u, rv_is_active := us_is_active u\<rparr>"

definition UNLISTED :: utext where
  "UNLISTED = chars ''upstream IDA database session is no longer listed''"

definition refresh_session_health :: "'v ida_env \<Rightarrow> session_id \<Rightarrow> 'v ida_manager \<Rightarrow> unit result \<times> 'v ida_manager" where
  "refresh_session_health e i m =
     (if im_sessions_poisoned m then (Inl ida_sessions_poisoned, m)
      else case im_sessions m i of
        None \<Rightarrow> (Inl (SessionNotFound i), m)
      | Some session \<Rightarrow>
          if reverse_is_terminal (rv_state session) then (Inr (), m)
          else case rv_database_id session of
            None \<Rightarrow> (Inr (), m)
          | Some database_id \<Rightarrow>
              (case upstream_list e m of
                 (Inl error, m) \<Rightarrow>
                   try_then (ida_update_session i (set_health False None (Some (ida_error_text m error))) m)
                     (\<lambda>_ m. (Inr (), m))
               | (Inr upstream, m) \<Rightarrow>
                   (case find (\<lambda>entry. us_database_id entry = database_id) upstream of
                      Some entry \<Rightarrow>
                        try_then (ida_update_session i
                            (set_health (case us_is_active entry of Some b \<Rightarrow> b | None \<Rightarrow> True)
                                (Some (upstream_session_value entry)) None \<circ> mirror_upstream entry) m)
                          (\<lambda>_ m. (Inr (), m))
                    | None \<Rightarrow>
                        try_then (append_session_warning i UNLISTED m) (\<lambda>_ m.
                          try_then (ida_update_session i
                              (\<lambda>s. set_health False None (Some UNLISTED)
                                 (s\<lparr>rv_state := RsError, rv_error := Some UNLISTED, rv_is_active := Some False\<rparr>)) m)
                            (\<lambda>_ m. (Inr (), m))))))"

definition ida_get_session :: "'v ida_env \<Rightarrow> session_id \<Rightarrow> 'v ida_manager \<Rightarrow> reverse_session result \<times> 'v ida_manager" where
  "ida_get_session e i m =
     (let (_, m) = refresh_session_health e i m
      in if im_sessions_poisoned m then (Inl ida_sessions_poisoned, m)
         else case im_sessions m i of
           None \<Rightarrow> (Inl (SessionNotFound i), m)
         | Some s \<Rightarrow> (Inr s, m))"

definition ida_list_sessions ::
    "'v ida_env \<Rightarrow> session_id list \<Rightarrow> 'v ida_manager \<Rightarrow> reverse_session list result \<times> 'v ida_manager" where
  "ida_list_sessions e order m =
     (if im_sessions_poisoned m then (Inl ida_sessions_poisoned, m)
      else let m = fold (\<lambda>i m. snd (refresh_session_health e i m)) order m
           in if im_sessions_poisoned m then (Inl ida_sessions_poisoned, m)
              else (Inr (sort_key rv_created_at (List.map_filter (im_sessions m) order)), m))"

definition ida_update_session_state ::
    "'v ida_env \<Rightarrow> session_id \<Rightarrow> reverse_session_state \<Rightarrow> utext \<Rightarrow> utext option \<Rightarrow> 'v ida_manager
       \<Rightarrow> reverse_session_state result \<times> 'v ida_manager" where
  "ida_update_session_state e i state operation error m =
     try_then (ida_get_session e i m) (\<lambda>previous m.
       try_then (ida_update_session i (\<lambda>s. s\<lparr>rv_state := state, rv_error := error\<rparr>) m) (\<lambda>_ m.
         (Inr (rv_state previous),
          ida_record_event i ''state_changed'' (Some (rv_state previous)) (Some state) (Some operation)
            None error (JObject []) m)))"

section \<open>Creating a session\<close>

definition new_reverse_session :: "session_id \<Rightarrow> ida_target \<Rightarrow> nat \<Rightarrow> reverse_session" where
  "new_reverse_session i target now =
     \<lparr>rv_id = i, rv_backend = BACKEND_NAME, rv_target = target, rv_state = RsStarting, rv_database_id = None,
      rv_ida_backend = None, rv_adopted = None, rv_owned = None, rv_pid = None, rv_worker_pid = None,
      rv_is_active = None, rv_last_health = None, rv_created_at = now, rv_updated_at = now,
      rv_warnings = [], rv_artifacts = [], rv_error = None\<rparr>"

definition IDA_CREATE :: utext where "IDA_CREATE = chars ''ida.create_session''"
definition IDA_CLOSE :: utext where "IDA_CLOSE = chars ''ida.close_session''"

definition ida_initialize_session_audit ::
    "reverse_session \<Rightarrow> create_ida_session \<Rightarrow> 'v ida_manager \<Rightarrow> reverse_session result \<times> 'v ida_manager" where
  "ida_initialize_session_audit session request m =
     try_then (with_artifacts (write_reverse_session_request (rv_id session) (RequestLine request)) m) (\<lambda>request_artifact m.
       try_then (with_artifacts (write_reverse_session_metadata (rv_id session) (MetadataLine session)) m) (\<lambda>metadata_artifact m.
         (Inr (session\<lparr>rv_artifacts := rv_artifacts session @ [request_artifact, metadata_artifact]\<rparr>),
          ida_record_event (rv_id session) ''create_session_started'' None (Some RsStarting) (Some IDA_CREATE)
            (Some (ar_path request_artifact)) None
            (obj [(''backend'', text_value BACKEND_NAME), (''target'', target_value (rv_target session))]) m)))"

definition ida_insert_session :: "reverse_session \<Rightarrow> 'v ida_manager \<Rightarrow> unit result \<times> 'v ida_manager" where
  "ida_insert_session s m =
     (if im_sessions_poisoned m then (Inl ida_sessions_poisoned, m)
      else (Inr (), m\<lparr>im_sessions := (im_sessions m)(rv_id s \<mapsto> s)\<rparr>))"

definition bind_database :: "session_id \<Rightarrow> utext \<Rightarrow> 'v ida_manager \<Rightarrow> unit result \<times> 'v ida_manager" where
  "bind_database i db m =
     (if im_database_ids_poisoned m then (Inl (Backend ''IDA database map lock poisoned''), m)
      else (Inr (), m\<lparr>im_database_ids := (im_database_ids m)(i \<mapsto> db)\<rparr>))"

definition open_request_of :: "create_ida_session \<Rightarrow> string \<Rightarrow> open_ida_database" where
  "open_request_of request shown_id =
     \<lparr>od_input_path = target_path (ck_target request), od_mode = ck_mode request,
      od_run_auto_analysis = ck_run_auto_analysis request, od_build_caches = ck_build_caches request,
      od_init_hexrays = ck_init_hexrays request, od_idle_ttl_sec = ck_idle_ttl_sec request,
      od_preferred_session_id = chars (''dbgflow-'' @ shown_id),
      od_startup_timeout_ms =
        max (case ck_startup_timeout_ms request of Some t \<Rightarrow> t | None \<Rightarrow> DEFAULT_STARTUP_TIMEOUT_MS) 1\<rparr>"

definition opened_session :: "open_ida_database_result \<Rightarrow> reverse_session \<Rightarrow> reverse_session" where
  "opened_session opened s =
     set_health True (Some (obj [(''session'', upstream_session_value (or_session opened)),
          (''warmup'', opt_value (\<lambda>v. v) (or_warmup opened)), (''message'', opt_value JText (or_message opened))])) None
       (mirror_upstream (or_session opened)
          (s\<lparr>rv_state := RsReady, rv_database_id := Some (us_database_id (or_session opened)), rv_error := None\<rparr>))"

definition create_opened ::
    "'v ida_env \<Rightarrow> session_id \<Rightarrow> open_ida_database_result \<Rightarrow> 'v ida_manager \<Rightarrow> reverse_session result \<times> 'v ida_manager" where
  "create_opened e i opened m =
     try_then (bind_database i (us_database_id (or_session opened)) m) (\<lambda>_ m.
       try_then (ida_update_session i (opened_session opened) m) (\<lambda>session m.
         ida_get_session e i
           (ida_record_event i ''create_session_finished'' (Some RsStarting) (Some RsReady) (Some IDA_CREATE) None None
              (obj [(''database_id'', opt_value JText (rv_database_id session))])
              (ida_log Info ''create_session_finished'' (Some i) None m))))"

definition create_failed ::
    "session_id \<Rightarrow> dbgflow_error \<Rightarrow> 'v ida_manager \<Rightarrow> reverse_session result \<times> 'v ida_manager" where
  "create_failed i error m =
     (let t = ida_error_text m error
      in try_then (ida_update_session i
             (\<lambda>s. set_health False None (Some t) (s\<lparr>rv_state := RsError, rv_error := Some t\<rparr>)) m) (\<lambda>_ m.
           (Inl error, ida_log LogError ''create_session_failed'' (Some i) (Some (ida_error_string m error)) m)))"

definition create_fresh ::
    "'v ida_env \<Rightarrow> session_id \<Rightarrow> create_ida_session \<Rightarrow> 'v ida_manager \<Rightarrow> reverse_session result \<times> 'v ida_manager" where
  "create_fresh e i request m =
     (let (now, m) = now_unix_ms m
      in try_then (ida_initialize_session_audit (new_reverse_session i (ck_target request) now) request m) (\<lambda>session m.
           try_then (ida_insert_session session m) (\<lambda>_ m.
             try_then (lock_operation i m) (\<lambda>_ m.
               (case upstream_open e (open_request_of request (am_show_id (im_artifacts m) i)) m of
                  (Inr opened, m) \<Rightarrow> create_opened e i opened m
                | (Inl error, m) \<Rightarrow> create_failed i error m)))))"

definition ida_create_session ::
    "'v ida_env \<Rightarrow> session_id list \<Rightarrow> session_id \<Rightarrow> create_ida_session \<Rightarrow> 'v ida_manager
       \<Rightarrow> reverse_session result \<times> 'v ida_manager" where
  "ida_create_session e order i request m =
     (case validate_ida_target (ie_fs e) (ck_target request) of
        Inl error \<Rightarrow>
          (Inl error, ida_log LogError ''create_session_rejected'' None (Some (ida_error_string m error)) m)
      | Inr target \<Rightarrow>
          (let request = request\<lparr>ck_target := target\<rparr>
           in if im_create_poisoned m then (Inl (Backend ''IDA create session lock poisoned''), m)
              else case reusable_session_for_target order target m of
                Inl error \<Rightarrow> (Inl error, m)
              | Inr (Some existing) \<Rightarrow>
                  (Inr existing, ida_log Info ''create_session_reused'' (Some (rv_id existing)) None m)
              | Inr None \<Rightarrow> create_fresh e i request m))"

section \<open>Closing a session\<close>

definition save_outcome :: "supervisor_tool_call_result \<Rightarrow> close_database_result" where
  "save_outcome r =
     \<lparr>cd_save_requested = True,
      cd_save_status = (if sr_is_error r \<or> get_as as_bool ''ok'' (sr_structured_content r) = Some False
                        then SaveFailed else Saved),
      cd_warning = None,
      cd_error = (case sr_error_message r of
         Some e \<Rightarrow> Some e | None \<Rightarrow> get_as as_str ''error'' (sr_structured_content r))\<rparr>"

definition save_database ::
    "'v ida_env \<Rightarrow> session_id \<Rightarrow> utext \<Rightarrow> bool \<Rightarrow> 'v ida_manager \<Rightarrow> close_database_result result \<times> 'v ida_manager" where
  "save_database e i database_id save m =
     (if \<not> save
      then (Inr \<lparr>cd_save_requested = False, cd_save_status = NotRequested, cd_warning = None, cd_error = None\<rparr>, m)
      else case upstream_call e database_id UPSTREAM_IDB_SAVE [] m of
        (Inr res, m) \<Rightarrow>
          try_then (write_tool_output e i (chars ''idb_save'') (JObject []) res m) (\<lambda>(artifact, _) m.
            try_then (append_artifact_to_session i artifact m) (\<lambda>_ m. (Inr (save_outcome res), m)))
      | (Inl error, m) \<Rightarrow>
          (Inr \<lparr>cd_save_requested = True, cd_save_status = SaveFailed, cd_warning = None,
                cd_error = Some (ida_error_text m error)\<rparr>, m))"

definition close_failed_result :: "close_database_result \<Rightarrow> bool" where
  "close_failed_result c = (cd_save_status c = SaveFailed \<or> cd_error c \<noteq> None)"

definition close_failed ::
    "session_id \<Rightarrow> bool \<Rightarrow> reverse_session_state \<Rightarrow> close_database_result \<Rightarrow> 'v ida_manager
       \<Rightarrow> reverse_session result \<times> 'v ida_manager" where
  "close_failed i save previous_state c m =
     (let error = (case cd_error c of Some t \<Rightarrow> t | None \<Rightarrow> chars ''ida-pro-mcp idb_save failed'')
      in try_then (append_session_warning i error m) (\<lambda>_ m.
           try_then (ida_update_session i (\<lambda>s.
               (set_health True (Some (obj [(''save'', close_result_value c), (''detached'', JBoolean False)])) (Some error)
                  (s\<lparr>rv_state := previous_state\<rparr>))\<lparr>rv_error := Some error\<rparr>) m) (\<lambda>_ m.
             (Inl (backend_error error),
              ida_record_event i ''close_session_failed'' (Some RsClosing) (Some previous_state) (Some IDA_CLOSE)
                None (Some error) (close_fields save c)
                (ida_log LogError ''close_session_failed'' (Some i) (Some (string_of error)) m)))))"

definition append_optional_warning ::
    "session_id \<Rightarrow> utext option \<Rightarrow> 'v ida_manager \<Rightarrow> unit result \<times> 'v ida_manager" where
  "append_optional_warning i warning m =
     (case warning of None \<Rightarrow> (Inr (), m) | Some w \<Rightarrow> append_session_warning i w m)"

definition unbind_database :: "session_id \<Rightarrow> 'v ida_manager \<Rightarrow> unit result \<times> 'v ida_manager" where
  "unbind_database i m =
     (if im_database_ids_poisoned m then (Inl (Backend ''IDA database map lock poisoned''), m)
      else (Inr (), m\<lparr>im_database_ids := (im_database_ids m)(i := None)\<rparr>))"

definition closed_session :: "close_database_result \<Rightarrow> reverse_session \<Rightarrow> reverse_session" where
  "closed_session c s =
     (set_health False (Some (obj [(''save'', close_result_value c), (''detached'', JBoolean True),
          (''worker_lifecycle'', text_value ''upstream idle TTL'')])) None
        (s\<lparr>rv_state := RsClosed, rv_database_id := None, rv_is_active := Some False\<rparr>))\<lparr>rv_error := None\<rparr>"

definition close_detached ::
    "'v ida_env \<Rightarrow> session_id \<Rightarrow> bool \<Rightarrow> reverse_session_state \<Rightarrow> close_database_result \<Rightarrow> 'v ida_manager
       \<Rightarrow> reverse_session result \<times> 'v ida_manager" where
  "close_detached e i save previous_state c m =
     try_then (unbind_database i m) (\<lambda>_ m.
       try_then (append_optional_warning i (cd_warning c) m) (\<lambda>_ m.
         try_then (append_optional_warning i (cd_error c) m) (\<lambda>_ m.
           try_then (ida_update_session i (closed_session c) m) (\<lambda>_ m.
             ida_get_session e i
               (ida_record_event i ''close_session_finished'' (Some previous_state) (Some RsClosed) (Some IDA_CLOSE)
                  None None (close_fields save c)
                  (ida_log Info ''close_session_finished'' (Some i) None m))))))"

text \<open>The part of \<open>close_session_with_save\<close> behind its checks.\<close>

definition close_bound ::
    "'v ida_env \<Rightarrow> session_id \<Rightarrow> bool \<Rightarrow> reverse_session_state \<Rightarrow> utext \<Rightarrow> 'v ida_manager
       \<Rightarrow> reverse_session result \<times> 'v ida_manager" where
  "close_bound e i save previous_state database_id m =
     try_then (ida_update_session_state e i RsClosing IDA_CLOSE None m) (\<lambda>_ m.
       try_then (save_database e i database_id save m) (\<lambda>c m.
         if close_failed_result c then close_failed i save previous_state c m
         else close_detached e i save previous_state c m))"

definition close_session_with_save ::
    "'v ida_env \<Rightarrow> session_id \<Rightarrow> bool \<Rightarrow> 'v ida_manager \<Rightarrow> reverse_session result \<times> 'v ida_manager" where
  "close_session_with_save e i save m =
     try_then (lock_operation i m) (\<lambda>_ m.
       try_then (ida_get_session e i m) (\<lambda>session m.
         if rv_state session = RsClosed then (Inl (SessionClosed i), m)
         else case ida_database_id i m of
           Inl error \<Rightarrow> (Inl error, m)
         | Inr database_id \<Rightarrow> close_bound e i save (rv_state session) database_id m))"

section \<open>Calling an upstream tool\<close>

definition ensure_ready ::
    "'v ida_env \<Rightarrow> session_id \<Rightarrow> utext \<Rightarrow> 'v ida_manager \<Rightarrow> unit result \<times> 'v ida_manager" where
  "ensure_ready e i operation m =
     try_then (ida_get_session e i m) (\<lambda>session m.
       (case rv_state session of
          RsReady \<Rightarrow> (Inr (), m)
        | RsClosed \<Rightarrow> (Inl (SessionClosed i), m)
        | state \<Rightarrow> (Inl (backend_error (operation @ chars '' requires Ready IDA session; current state is ''
              @ chars (reverse_state_name state))), m)))"

definition upstream_tool_failed ::
    "session_id \<Rightarrow> utext \<Rightarrow> artifact_ref \<Rightarrow> utext \<Rightarrow> json \<Rightarrow> 'v ida_manager \<Rightarrow> 'v ida_manager" where
  "upstream_tool_failed i tool artifact error fs m =
     ida_record_event i ''upstream_tool_failed'' None None (Some (chars ''ida.'' @ tool)) (Some (ar_path artifact))
       (Some error) fs m"

definition call_failed ::
    "session_id \<Rightarrow> utext \<Rightarrow> json \<Rightarrow> dbgflow_error \<Rightarrow> 'v ida_manager \<Rightarrow> ida_tool_call_result result \<times> 'v ida_manager" where
  "call_failed i tool request error m =
     (let t = ida_error_text m error
      in try_then (write_tool_error_output i tool request t m) (\<lambda>artifact m.
           try_then (append_artifact_to_session i artifact m) (\<lambda>_ m.
             (Inl error, upstream_tool_failed i tool artifact t (obj [(''tool'', JText tool)]) m))))"

definition call_answered ::
    "'v ida_env \<Rightarrow> session_id \<Rightarrow> utext \<Rightarrow> json \<Rightarrow> supervisor_tool_call_result \<Rightarrow> 'v ida_manager
       \<Rightarrow> ida_tool_call_result result \<times> 'v ida_manager" where
  "call_answered e i tool request res m =
     try_then (write_tool_output e i tool request res m) (\<lambda>(artifact, warnings) m.
       try_then (append_artifact_to_session i artifact m) (\<lambda>_ m.
         let fs = obj [(''tool'', JText tool), (''warnings'', JArray (map JText warnings))] in
         if sr_is_error res
         then let error = (case sr_error_message res of
                    Some t \<Rightarrow> t | None \<Rightarrow> chars ''ida-pro-mcp upstream tool failed'')
              in (Inl (backend_error error), upstream_tool_failed i tool artifact error fs m)
         else (Inr \<lparr>tc_session_id = i, tc_tool = chars ''ida.'' @ tool, tc_result = sr_structured_content res,
                    tc_artifact = artifact, tc_warnings = warnings\<rparr>,
               ida_record_event i ''upstream_tool_finished'' None None (Some (chars ''ida.'' @ tool))
                 (Some (ar_path artifact)) None fs m)))"

text \<open>The part of \<open>call_upstream_tool\<close> behind its checks.\<close>

definition call_bound ::
    "'v ida_env \<Rightarrow> session_id \<Rightarrow> utext \<Rightarrow> (utext \<times> json) list \<Rightarrow> utext \<Rightarrow> 'v ida_manager
       \<Rightarrow> ida_tool_call_result result \<times> 'v ida_manager" where
  "call_bound e i tool arguments database_id m =
     (case upstream_call e database_id tool arguments m of
        (Inl error, m) \<Rightarrow> call_failed i tool (JObject arguments) error m
      | (Inr res, m) \<Rightarrow> call_answered e i tool (JObject arguments) res m)"

definition call_upstream_tool ::
    "'v ida_env \<Rightarrow> utext \<Rightarrow> upstream_ida_tool_request \<Rightarrow> 'v ida_manager
       \<Rightarrow> ida_tool_call_result result \<times> 'v ida_manager" where
  "call_upstream_tool e tool request m =
     (if \<not> is_allowed_upstream_tool tool
      then (Inl (backend_error (chars ''IDA upstream tool is not exposed by dbgflow: '' @ tool)), m)
      else if bt_get (uq_arguments request) (chars ''database'') \<noteq> None
      then (Inl (Backend ''IDA tools accept dbgflow session_id, not upstream database''), m)
      else try_then (lock_operation (uq_session_id request) m) (\<lambda>_ m.
        try_then (ensure_ready e (uq_session_id request) tool m) (\<lambda>_ m.
          case ida_database_id (uq_session_id request) m of
            Inl error \<Rightarrow> (Inl error, m)
          | Inr database_id \<Rightarrow> call_bound e (uq_session_id request) tool (uq_arguments request) database_id m)))"

text \<open>The tools shown to clients: those of the upstream server, or the fixed list when it does not answer.\<close>

definition upstream_tool_descriptors ::
    "'v ida_env \<Rightarrow> 'v ida_manager \<Rightarrow> upstream_tool_descriptor list \<times> 'v ida_manager" where
  "upstream_tool_descriptors e m =
     (case sv_tool_descriptors (ie_supervisor e) (im_supervisor m) of
        (r, v) \<Rightarrow> ((case r of Inr tools \<Rightarrow> tools | Inl _ \<Rightarrow> fallback_tool_descriptors), m\<lparr>im_supervisor := v\<rparr>))"

section \<open>What the tools accept\<close>

definition decode_ida_target :: "json option \<Rightarrow> ida_target option" where
  "decode_ida_target v =
     (case tagged ''kind'' v of
        None \<Rightarrow> None
      | Some (kind, r) \<Rightarrow>
          (case struct_fields True [(''path'', False)] r of
             Some [p] \<Rightarrow>
               (if kind = chars ''binary'' then map_option Binary (decode_text p)
                else if kind = chars ''database'' then map_option Database (decode_text p) else None)
           | _ \<Rightarrow> None))"

definition unit_variant :: "json option \<Rightarrow> utext option" where
  "unit_variant v =
     (case v of
        Some (JText t) \<Rightarrow> Some t
      | Some (JObject [(t, JNull)]) \<Rightarrow> Some t
      | _ \<Rightarrow> None)"

definition decode_open_mode :: "json option \<Rightarrow> ida_open_mode option" where
  "decode_open_mode v =
     Option.bind (unit_variant v) (\<lambda>t.
       find (\<lambda>m. chars (as_upstream m) = t) [PreferHeadless, ForceHeadless, PreferGui, ForceGui])"

definition decode_create_ida_session :: "json \<Rightarrow> create_ida_session option" where
  "decode_create_ida_session v =
     (case struct_fields True [(''target'', False), (''run_auto_analysis'', True), (''build_caches'', True),
          (''init_hexrays'', True), (''mode'', True), (''idle_ttl_sec'', True), (''startup_timeout_ms'', False)] v of
        Some [t, r, b, h, md, ttl, st] \<Rightarrow>
          (case (decode_ida_target t, decode_default True decode_bool r, decode_default True decode_bool b,
                 decode_default True decode_bool h, decode_default ida_open_mode_default decode_open_mode md,
                 decode_default DEFAULT_IDLE_TTL_SEC (decode_nat 64) ttl, decode_opt (decode_nat 64) st) of
             (Some t', Some r', Some b', Some h', Some md', Some ttl', Some st') \<Rightarrow> Some
               \<lparr>ck_target = t', ck_run_auto_analysis = r', ck_build_caches = b', ck_init_hexrays = h',
                ck_mode = md', ck_idle_ttl_sec = ttl', ck_startup_timeout_ms = st'\<rparr>
           | _ \<Rightarrow> None)
      | _ \<Rightarrow> None)"

text \<open>A struct with a flattened map: the rest of the object; it cannot be read from an array.\<close>

definition decode_upstream_request :: "serde_lib \<Rightarrow> json \<Rightarrow> upstream_ida_tool_request option" where
  "decode_upstream_request lib v =
     (case v of
        JObject m \<Rightarrow>
          map_option (\<lambda>i. \<lparr>uq_session_id = i, uq_arguments = bt_remove (chars ''session_id'') m\<rparr>)
            (decode_id lib (bt_get m (chars ''session_id'')))
      | _ \<Rightarrow> None)"

end
