(* ===== verification/Ida_Invariant.thy ===== *)
theory Ida_Invariant
  imports Ida_Manager
begin

text \<open>
  An abstract life of an IDA session, and the proof that every operation of the manager moves the session
  it is about along that life and leaves the others alone. The invariant: a session is filed under its own
  id, the table of databases agrees with the sessions, and state, database and error fit together.
\<close>

section \<open>The abstract life of a session\<close>

type_synonym ida_key = "ida_target \<times> reverse_session_state \<times> utext option"

definition key_of :: "reverse_session \<Rightarrow> ida_key" where
  "key_of s = (rv_target s, rv_state s, rv_database_id s)"

inductive key_step :: "ida_key option \<Rightarrow> ida_key option \<Rightarrow> bool" where
  started: "key_step None (Some (t, RsStarting, None))"
| opened: "key_step (Some (t, RsStarting, None)) (Some (t, RsReady, Some db))"
| open_failed: "key_step (Some (t, RsStarting, None)) (Some (t, RsError, None))"
| lost: "st \<in> {RsReady, RsClosing} \<Longrightarrow> key_step (Some (t, st, Some db)) (Some (t, RsError, Some db))"
| closing: "st \<in> {RsReady, RsError} \<Longrightarrow> key_step (Some (t, st, Some db)) (Some (t, RsClosing, Some db))"
| restored: "st \<in> {RsReady, RsError} \<Longrightarrow> key_step (Some (t, RsClosing, Some db)) (Some (t, st, Some db))"
| closed: "key_step (Some (t, RsClosing, Some db)) (Some (t, RsClosed, None))"

inductive_cases closed_key_step: "key_step (Some (t, RsClosed, db)) k"
inductive_simps key_step_Some: "key_step (Some (t, st, db)) k"

definition cell_ok :: "session_id \<Rightarrow> reverse_session option \<Rightarrow> utext option \<Rightarrow> bool" where
  "cell_ok i so d =
     (case so of
        None \<Rightarrow> d = None
      | Some s \<Rightarrow>
          rv_id s = i \<and> d = rv_database_id s
          \<and> (case rv_state s of
               RsStarting \<Rightarrow> d = None
             | RsReady \<Rightarrow> d \<noteq> None
             | RsClosing \<Rightarrow> d \<noteq> None
             | RsClosed \<Rightarrow> d = None \<and> rv_error s = None
             | RsError \<Rightarrow> rv_error s \<noteq> None))"

definition ida_ok :: "'v ida_manager \<Rightarrow> bool" where
  "ida_ok m = (\<forall>i. cell_ok i (im_sessions m i) (im_database_ids m i))"

definition ida_keys :: "'v ida_manager \<Rightarrow> session_id \<Rightarrow> ida_key option" where
  "ida_keys m i = map_option key_of (im_sessions m i)"

section \<open>What leaves the sessions alone\<close>

definition quiet :: "'v ida_manager \<Rightarrow> 'v ida_manager \<Rightarrow> bool" where
  "quiet m m' \<longleftrightarrow> im_sessions m' = im_sessions m \<and> im_sessions_poisoned m' = im_sessions_poisoned m
     \<and> im_database_ids m' = im_database_ids m \<and> im_database_ids_poisoned m' = im_database_ids_poisoned m"

lemma quiet_refl [simp]: "quiet m m"
  by (simp add: quiet_def)

lemma quiet_trans: "quiet a b \<Longrightarrow> quiet b c \<Longrightarrow> quiet a c"
  by (simp add: quiet_def)

named_theorems quiets \<open>helpers that leave the sessions alone\<close>

lemma quiet_now [quiets]: "quiet m (snd (now_unix_ms m))"
  by (simp add: quiet_def now_unix_ms_def)

lemma quiet_log [quiets]: "quiet m (ida_log l ev i err m)"
  by (simp add: quiet_def ida_log_def)

lemma quiet_artifacts [quiets]: "quiet m (snd (with_artifacts f m))"
  by (simp add: quiet_def with_artifacts_def split: prod.split)

lemma quiet_event [quiets]: "quiet m (ida_record_event i ev p n oper a err fs m)"
  by (simp add: ida_record_event_def now_unix_ms_def quiet_def with_artifacts_def Let_def split: prod.split)

lemma quiet_output [quiets]: "quiet m (snd (write_output_file i base out m))"
  by (simp add: write_output_file_def unique_output_name_def quiet_def with_artifacts_def split: prod.split)

lemma quiet_tool_output [quiets]: "quiet m (snd (write_tool_output e i tool req resp m))"
proof -
  have "quiet m (snd (try_then (write_output_file i base out m) (\<lambda>a m. (Inr (a, w), m))))" for base out w
    by (rule try_then_state[of "quiet m"]) (simp_all add: quiets)
  then show ?thesis by (simp add: write_tool_output_def Let_def split_beta)
qed

lemma quiet_error_output [quiets]: "quiet m (snd (write_tool_error_output i tool req err m))"
  by (simp add: write_tool_error_output_def quiets)

lemma quiet_lock [quiets]: "quiet m (snd (lock_operation i m))"
  by (auto simp: lock_operation_def ida_operation_lock_def quiet_def try_then_def split: option.split)

lemma quiet_upstream [quiets]:
  "quiet m (snd (upstream_list e m))" "quiet m (snd (upstream_open e r m))"
  "quiet m (snd (upstream_call e db tool args m))"
  by (simp_all add: quiet_def upstream_list_def upstream_open_def upstream_call_def split: prod.split)

lemma quiet_same: "quiet m m' \<Longrightarrow> im_sessions m' = im_sessions m" "quiet m m' \<Longrightarrow> im_database_ids m' = im_database_ids m"
  by (simp_all add: quiet_def)

section \<open>Evolving one session\<close>

text \<open>The other sessions keep their cells, the flags are as they were, the session moves along its life.\<close>

definition evolves :: "session_id \<Rightarrow> 'v ida_manager \<Rightarrow> 'v ida_manager \<Rightarrow> bool" where
  "evolves i m m' \<longleftrightarrow>
     ida_ok m' \<and> (\<forall>j. j \<noteq> i \<longrightarrow> im_sessions m' j = im_sessions m j \<and> im_database_ids m' j = im_database_ids m j)
     \<and> im_sessions_poisoned m' = im_sessions_poisoned m
     \<and> im_database_ids_poisoned m' = im_database_ids_poisoned m
     \<and> key_step\<^sup>*\<^sup>* (ida_keys m i) (ida_keys m' i)"

lemma evolves_refl [simp]: "evolves i m m = ida_ok m"
  by (simp add: evolves_def)

lemma evolves_trans: "evolves i a b \<Longrightarrow> evolves i b c \<Longrightarrow> evolves i a c"
  by (auto simp: evolves_def)

lemma evolves_ok: "evolves i m m' \<Longrightarrow> ida_ok m'"
  by (simp add: evolves_def)

lemma evolves_quiet: "evolves i m a \<Longrightarrow> quiet a b \<Longrightarrow> evolves i m b"
  by (simp add: evolves_def quiet_def ida_ok_def ida_keys_def)

lemma quiet_evolves: "ida_ok m \<Longrightarrow> quiet m m' \<Longrightarrow> evolves i m m'"
  using evolves_quiet[of i m m] by simp

lemma evolves_flags: "evolves i m m' \<Longrightarrow> im_sessions_poisoned m' = im_sessions_poisoned m"
  by (simp add: evolves_def)

lemma key_path_Some: "key_step\<^sup>*\<^sup>* (Some k) k' \<Longrightarrow> \<exists>k''. k' = Some k'' \<and> fst k'' = fst k"
  by (induction rule: rtranclp_induct) (auto elim!: key_step.cases)

lemma evolves_exists: "evolves i m m' \<Longrightarrow> im_sessions m i \<noteq> None \<Longrightarrow> im_sessions m' i \<noteq> None"
  using key_path_Some by (fastforce simp: evolves_def ida_keys_def)

text \<open>What \<open>update_session\<close> does, and the two ways in which it cannot.\<close>

definition updated :: "'v ida_manager \<Rightarrow> (reverse_session \<Rightarrow> reverse_session) \<Rightarrow> reverse_session \<Rightarrow> reverse_session" where
  "updated m f s = (f s)\<lparr>rv_updated_at := im_clock m (im_ticks m)\<rparr>"

lemma updated_key [simp]: "key_of (updated m f s) = key_of (f s)"
  "rv_id (updated m f s) = rv_id (f s)" "rv_error (updated m f s) = rv_error (f s)"
  "rv_state (updated m f s) = rv_state (f s)" "rv_database_id (updated m f s) = rv_database_id (f s)"
  "rv_target (updated m f s) = rv_target (f s)"
  by (simp_all add: updated_def key_of_def)

lemma update_session_ok:
  assumes "\<not> im_sessions_poisoned m" "im_sessions m i = Some s"
  obtains m' where "ida_update_session i f m = (Inr (updated m f s), m')"
    and "quiet (m\<lparr>im_sessions := (im_sessions m)(i \<mapsto> updated m f s)\<rparr>) m'"
  using assms
  by (auto simp: ida_update_session_def updated_def now_unix_ms_def quiet_def with_artifacts_def Let_def split: prod.splits)

lemma update_session_cases:
  obtains (fails) err where "ida_update_session i f m = (Inl err, m)"
    and "im_sessions_poisoned m \<or> im_sessions m i = None"
  | (succeeds) s m' where "\<not> im_sessions_poisoned m" "im_sessions m i = Some s"
    and "ida_update_session i f m = (Inr (updated m f s), m')"
    and "quiet (m\<lparr>im_sessions := (im_sessions m)(i \<mapsto> updated m f s)\<rparr>) m'"
proof (cases "\<not> im_sessions_poisoned m \<and> im_sessions m i \<noteq> None")
  case True
  then obtain s where "\<not> im_sessions_poisoned m" "im_sessions m i = Some s" by auto
  then show ?thesis by (rule update_session_ok[of m i s f]) (use \<open>im_sessions m i = Some s\<close> True in \<open>auto intro: succeeds\<close>)
next
  case False
  have "\<exists>err. ida_update_session i f m = (Inl err, m)"
    using False by (auto simp: ida_update_session_def split: option.split)
  then show ?thesis using False fails by blast
qed

lemma cell_ok_same: "cell_ok i (Some s) d \<Longrightarrow> key_of s' = key_of s \<Longrightarrow> rv_id s' = rv_id s \<Longrightarrow> rv_error s' = rv_error s
    \<Longrightarrow> cell_ok i (Some s') d"
  by (auto simp: cell_ok_def key_of_def split: reverse_session_state.splits)

lemma update_evolves:
  assumes ok: "ida_ok m" and s: "im_sessions m i = Some s"
    and cell: "cell_ok i (Some (f s)) (im_database_ids m i)"
    and path: "key_step\<^sup>*\<^sup>* (Some (key_of s)) (Some (key_of (f s)))"
    and m': "quiet (m\<lparr>im_sessions := (im_sessions m)(i \<mapsto> updated m f s)\<rparr>) m'"
  shows "evolves i m m'"
proof -
  have "cell_ok i (Some (updated m f s)) (im_database_ids m i)"
    using cell by (rule cell_ok_same) simp_all
  then have "ida_ok m'" using ok m' by (simp add: ida_ok_def quiet_def)
  with s path m' show ?thesis by (simp add: evolves_def quiet_def ida_keys_def)
qed

text \<open>An update that changes neither state nor database nor error.\<close>

lemma cell_of_ok: "ida_ok m \<Longrightarrow> cell_ok i (im_sessions m i) (im_database_ids m i)"
  by (simp add: ida_ok_def)

lemma neutral_update:
  assumes ok: "ida_ok m" and f: "\<And>s. key_of (f s) = key_of s \<and> rv_id (f s) = rv_id s \<and> rv_error (f s) = rv_error s"
  shows "evolves i m (snd (ida_update_session i f m))"
proof (cases rule: update_session_cases[of i f m])
  case (succeeds s m')
  have "cell_ok i (Some (f s)) (im_database_ids m i)"
    using cell_ok_same[of i s _ "f s"] cell_of_ok[OF ok, of i] succeeds(2) f by simp
  from update_evolves[OF ok succeeds(2) this _ succeeds(4)] succeeds(3) f show ?thesis by simp
qed (simp add: ok)

lemma evolves_warning: "ida_ok m \<Longrightarrow> evolves i m (snd (append_session_warning i w m))"
  unfolding append_session_warning_def
  by (rule try_then_state[of "evolves i m"]) (auto simp: key_of_def intro!: neutral_update)

lemma evolves_artifact: "ida_ok m \<Longrightarrow> evolves i m (snd (append_artifact_to_session i a m))"
  unfolding append_artifact_to_session_def
  by (rule try_then_state[of "evolves i m"]) (auto simp: key_of_def intro!: neutral_update)

lemma neutral_keys:
  assumes f: "\<And>s. key_of (f s) = key_of s"
  shows "ida_keys (snd (ida_update_session i f m)) = ida_keys m"
  using f by (cases rule: update_session_cases[of i f m]) (auto simp: ida_keys_def quiet_def fun_eq_iff)

lemma warning_keys: "ida_keys (snd (append_session_warning i w m)) = ida_keys m"
  unfolding append_session_warning_def
  by (rule try_then_state[of "\<lambda>m'. ida_keys m' = ida_keys m"]) (auto simp: key_of_def intro!: neutral_keys)

lemma update_evolves_if:
  assumes ok: "ida_ok m"
    and f: "\<And>s. im_sessions m i = Some s \<Longrightarrow> cell_ok i (Some s) (im_database_ids m i) \<Longrightarrow>
      cell_ok i (Some (f s)) (im_database_ids m i) \<and> key_step\<^sup>*\<^sup>* (Some (key_of s)) (Some (key_of (f s)))"
  shows "evolves i m (snd (ida_update_session i f m))"
proof (cases rule: update_session_cases[of i f m])
  case (succeeds s m')
  have "cell_ok i (Some s) (im_database_ids m i)" using cell_of_ok[OF ok, of i] succeeds(2) by simp
  from f[OF succeeds(2) this] update_evolves[OF ok succeeds(2) _ _ succeeds(4)] succeeds(3)
  show ?thesis by simp
qed (simp add: ok)

section \<open>Looking at a session\<close>

lemma set_health_simps [simp]:
  "key_of (set_health r d e s) = key_of s" "rv_id (set_health r d e s) = rv_id s"
  "rv_error (set_health r d e s) = rv_error s" "rv_state (set_health r d e s) = rv_state s"
  "rv_database_id (set_health r d e s) = rv_database_id s" "rv_target (set_health r d e s) = rv_target s"
  by (simp_all add: set_health_def key_of_def)

lemma mirror_simps [simp]:
  "key_of (mirror_upstream u s) = key_of s" "rv_id (mirror_upstream u s) = rv_id s"
  "rv_error (mirror_upstream u s) = rv_error s" "rv_state (mirror_upstream u s) = rv_state s"
  "rv_database_id (mirror_upstream u s) = rv_database_id s" "rv_target (mirror_upstream u s) = rv_target s"
  by (simp_all add: mirror_upstream_def key_of_def)

lemma lost_cell:
  assumes "cell_ok i (Some s) d" "\<not> reverse_is_terminal (rv_state s)" "rv_database_id s = Some db"
  shows "cell_ok i (Some (set_health r dt er (s\<lparr>rv_state := RsError, rv_error := Some t, rv_is_active := a\<rparr>))) d
    \<and> key_step\<^sup>*\<^sup>* (Some (key_of s)) (Some (rv_target s, RsError, Some db))"
  using assms
  by (cases "rv_state s") (auto simp: cell_ok_def reverse_is_terminal_def key_of_def intro!: r_into_rtranclp lost)

lemma evolves_lost:
  assumes ok: "ida_ok m" and k: "ida_keys m i = Some (t, st, Some db)" and st: "\<not> reverse_is_terminal st"
  shows "evolves i m (snd (ida_update_session i (\<lambda>s. set_health False None (Some UNLISTED)
           (s\<lparr>rv_state := RsError, rv_error := Some UNLISTED, rv_is_active := Some False\<rparr>)) m))"
proof (rule update_evolves_if[OF ok])
  fix s assume "im_sessions m i = Some s" and c: "cell_ok i (Some s) (im_database_ids m i)"
  with k st have "\<not> reverse_is_terminal (rv_state s)" "rv_database_id s = Some db" by (auto simp: ida_keys_def key_of_def)
  from lost_cell[OF c this, where r = False and dt = None and er = "Some UNLISTED" and t = UNLISTED and a = "Some False"] \<open>rv_database_id s = Some db\<close>
  show "cell_ok i (Some (set_health False None (Some UNLISTED)
           (s\<lparr>rv_state := RsError, rv_error := Some UNLISTED, rv_is_active := Some False\<rparr>))) (im_database_ids m i)
    \<and> key_step\<^sup>*\<^sup>* (Some (key_of s)) (Some (key_of (set_health False None (Some UNLISTED)
           (s\<lparr>rv_state := RsError, rv_error := Some UNLISTED, rv_is_active := Some False\<rparr>))))"
    by (simp add: key_of_def)
qed

lemma evolves_unit:
  "evolves i m (snd r) \<Longrightarrow> evolves i m (snd (try_then r (\<lambda>_ m. (Inr (), m))))"
  by (rule try_then_state[of "evolves i m"]) simp_all

lemma refresh_evolves:
  assumes ok: "ida_ok m"
  shows "evolves i m (snd (refresh_session_health e i m))"
proof -
  have listed: "evolves i m (snd (case upstream_list e m of
      (Inl error, m) \<Rightarrow> try_then (ida_update_session i (set_health False None (Some (ida_error_text m error))) m) (\<lambda>_ m. (Inr (), m))
    | (Inr upstream, m) \<Rightarrow>
        (case find (\<lambda>entry. us_database_id entry = db) upstream of
           Some entry \<Rightarrow> try_then (ida_update_session i
                (set_health (case us_is_active entry of Some b \<Rightarrow> b | None \<Rightarrow> True)
                    (Some (upstream_session_value entry)) None \<circ> mirror_upstream entry) m) (\<lambda>_ m. (Inr (), m))
         | None \<Rightarrow> try_then (append_session_warning i UNLISTED m) (\<lambda>_ m.
             try_then (ida_update_session i (\<lambda>s. set_health False None (Some UNLISTED)
                 (s\<lparr>rv_state := RsError, rv_error := Some UNLISTED, rv_is_active := Some False\<rparr>)) m)
               (\<lambda>_ m. (Inr (), m))))))"
    if s: "im_sessions m i = Some s" "\<not> reverse_is_terminal (rv_state s)" "rv_database_id s = Some db" for s db
  proof -
    obtain r m1 where l: "upstream_list e m = (r, m1)" by fastforce
    then have q: "quiet m m1" using quiet_upstream(1)[of m e] by simp
    then have ok1: "ida_ok m1" using ok quiet_evolves evolves_ok by blast
    have k1: "ida_keys m1 i = Some (rv_target s, rv_state s, Some db)"
      using s q by (simp add: quiet_def ida_keys_def key_of_def)
    have neutral: "evolves i m (snd (try_then (ida_update_session i f m1) (\<lambda>_ m. (Inr (), m))))"
      if "\<And>s. key_of (f s) = key_of s \<and> rv_id (f s) = rv_id s \<and> rv_error (f s) = rv_error s" for f
      using evolves_unit evolves_trans[OF quiet_evolves[OF ok q, of i]] neutral_update[OF ok1 that] by blast
    have lost: "evolves i m (snd (try_then (append_session_warning i UNLISTED m1) (\<lambda>_ m.
             try_then (ida_update_session i (\<lambda>s. set_health False None (Some UNLISTED)
                 (s\<lparr>rv_state := RsError, rv_error := Some UNLISTED, rv_is_active := Some False\<rparr>)) m)
               (\<lambda>_ m. (Inr (), m)))))"
    proof (rule try_then_state[of "evolves i m"])
      show w: "evolves i m (snd (append_session_warning i UNLISTED m1))"
        using evolves_warning[OF ok1] evolves_trans[OF quiet_evolves[OF ok q, of i]] by blast
      fix x m2 assume a: "append_session_warning i UNLISTED m1 = (Inr x, m2)" and e2: "evolves i m m2"
      have "ida_keys m2 i = Some (rv_target s, rv_state s, Some db)" using warning_keys[of i UNLISTED m1] a k1 by simp
      from evolves_unit[OF evolves_trans[OF e2 evolves_lost[OF evolves_ok[OF e2] this s(2)]]]
      show "evolves i m (snd (try_then (ida_update_session i (\<lambda>s. set_health False None (Some UNLISTED)
                 (s\<lparr>rv_state := RsError, rv_error := Some UNLISTED, rv_is_active := Some False\<rparr>)) m2)
               (\<lambda>_ m. (Inr (), m))))" .
    qed
    show ?thesis using lost by (auto simp: l intro!: neutral split: sum.split option.split)
  qed
  show ?thesis
    using ok listed unfolding refresh_session_health_def by (auto split: option.split)
qed

lemma get_session_evolves: "ida_ok m \<Longrightarrow> evolves i m (snd (ida_get_session e i m))"
  using refresh_evolves[of m i e] by (auto simp: ida_get_session_def Let_def split: prod.split option.split)

lemma get_session_Inr:
  "ida_get_session e i m = (Inr s, m') \<Longrightarrow> \<not> im_sessions_poisoned m' \<and> im_sessions m' i = Some s"
  by (auto simp: ida_get_session_def Let_def split: prod.splits option.splits if_splits)

section \<open>Whole operations\<close>

lemma evolves_cellI:
  assumes ok: "ida_ok m" and cell: "cell_ok i (Some s') d'"
    and path: "key_step\<^sup>*\<^sup>* (ida_keys m i) (Some (key_of s'))"
    and m': "quiet (m\<lparr>im_sessions := (im_sessions m)(i \<mapsto> s'), im_database_ids := (im_database_ids m)(i := d')\<rparr>) m'"
  shows "evolves i m m'"
proof -
  have "ida_ok m'" using ok cell m' by (auto simp: ida_ok_def quiet_def)
  with path m' show ?thesis by (simp add: evolves_def quiet_def ida_keys_def)
qed

lemma update_dbs [simp]: "im_database_ids (snd (ida_update_session i f m)) = im_database_ids m"
  by (cases rule: update_session_cases[of i f m]) (auto simp: quiet_def)

lemma unit_dbs [simp]: "im_database_ids (snd (try_then r (\<lambda>_ m. (Inr (), m)))) = im_database_ids (snd r)"
  by (simp add: try_then_def split: prod.split sum.split)

lemma warning_dbs [simp]: "im_database_ids (snd (append_session_warning i w m)) = im_database_ids m"
  by (simp add: append_session_warning_def)

lemma upstream_list_dbs: "upstream_list e m = (r, m1) \<Longrightarrow> im_database_ids m1 = im_database_ids m"
  using quiet_upstream(1)[of m e] by (simp add: quiet_def)

lemma refresh_dbs [simp]: "im_database_ids (snd (refresh_session_health e i m)) = im_database_ids m"
proof -
  have w: "im_database_ids (snd (try_then (append_session_warning i w m1) (\<lambda>_ m. try_then (ida_update_session i f m) (\<lambda>_ m. (Inr (), m)))))
      = im_database_ids m1" for w f and m1 :: "'a ida_manager"
    by (rule try_then_state[of "\<lambda>m'. im_database_ids m' = im_database_ids m1"]) simp_all
  show ?thesis
    by (simp add: refresh_session_health_def w split: option.split prod.split sum.split)
      (auto dest: upstream_list_dbs)
qed

lemma get_session_dbs: "ida_get_session e i m = (r, m') \<Longrightarrow> im_database_ids m' = im_database_ids m"
  using refresh_dbs[of e i m] by (cases "refresh_session_health e i m") (auto simp: ida_get_session_def split: option.splits if_splits)

text \<open>A session that is bound to a database is neither starting nor closed.\<close>

lemma bound_state:
  assumes "ida_ok m" "im_sessions m i = Some s" "im_database_ids m i = Some db"
  shows "rv_database_id s = Some db \<and> rv_state s \<in> {RsReady, RsClosing, RsError}"
  using cell_of_ok[OF assms(1), of i] assms(2,3) by (cases "rv_state s") (auto simp: cell_ok_def)

lemma to_closing:
  "st \<in> {RsReady, RsClosing, RsError} \<Longrightarrow> key_step\<^sup>*\<^sup>* (Some (t, st, Some db)) (Some (t, RsClosing, Some db))"
  by (auto intro: closing)

lemma from_closing:
  "st \<in> {RsReady, RsClosing, RsError} \<Longrightarrow> key_step\<^sup>*\<^sup>* (Some (t, RsClosing, Some db)) (Some (t, st, Some db))"
  by (auto intro: restored)

lemma update_state_closing:
  assumes ok: "ida_ok m" and db: "im_database_ids m i = Some db"
  shows "evolves i m (snd (ida_update_session_state e i RsClosing oper None m))"
    and "ida_update_session_state e i RsClosing oper None m = (Inr p, m') \<Longrightarrow>
      \<exists>s. \<not> im_sessions_poisoned m' \<and> im_sessions m' i = Some s \<and> rv_state s = RsClosing \<and> im_database_ids m' i = Some db"
proof -
  obtain r m1 where g: "ida_get_session e i m = (r, m1)" by fastforce
  have e1: "evolves i m m1" using get_session_evolves[OF ok, of i e] g by simp
  have db1: "im_database_ids m1 i = Some db" using get_session_dbs[OF g] db by simp
  have up: "evolves i m1 (snd (ida_update_session i (\<lambda>s. s\<lparr>rv_state := RsClosing, rv_error := None\<rparr>) m1))"
  proof (rule update_evolves_if[OF evolves_ok[OF e1]])
    fix s assume "im_sessions m1 i = Some s"
    with bound_state[OF evolves_ok[OF e1] _ db1] have b: "rv_database_id s = Some db"
      "rv_state s \<in> {RsReady, RsClosing, RsError}" by simp_all
    moreover assume "cell_ok i (Some s) (im_database_ids m1 i)"
    ultimately show "cell_ok i (Some (s\<lparr>rv_state := RsClosing, rv_error := None\<rparr>)) (im_database_ids m1 i)
      \<and> key_step\<^sup>*\<^sup>* (Some (key_of s)) (Some (key_of (s\<lparr>rv_state := RsClosing, rv_error := None\<rparr>)))"
      using to_closing[OF b(2), of "rv_target s" db] db1 by (simp add: cell_ok_def key_of_def)
  qed
  show "evolves i m (snd (ida_update_session_state e i RsClosing oper None m))"
    unfolding ida_update_session_state_def g using e1 evolves_trans[OF e1 up] evolves_quiet[OF _ quiet_event]
    by (auto simp: try_then_def split: sum.split prod.split)
  assume "ida_update_session_state e i RsClosing oper None m = (Inr p, m')"
  then obtain s1 s2 m2 where r: "r = Inr s1"
    and u: "ida_update_session i (\<lambda>s. s\<lparr>rv_state := RsClosing, rv_error := None\<rparr>) m1 = (Inr s2, m2)"
    and m': "quiet m2 m'"
    unfolding ida_update_session_state_def g by (auto simp: try_then_Inr quiets)
  show "\<exists>s. \<not> im_sessions_poisoned m' \<and> im_sessions m' i = Some s \<and> rv_state s = RsClosing \<and> im_database_ids m' i = Some db"
    using u m' db1
    by (cases rule: update_session_cases[of i "\<lambda>s. s\<lparr>rv_state := RsClosing, rv_error := None\<rparr>" m1])
      (auto simp: quiet_def)
qed

text \<open>Saving changes no key and no database.\<close>

definition same_keys :: "'v ida_manager \<Rightarrow> session_id \<Rightarrow> 'v ida_manager \<Rightarrow> bool" where
  "same_keys m i m' \<longleftrightarrow> evolves i m m' \<and> ida_keys m' i = ida_keys m i \<and> im_database_ids m' = im_database_ids m"

lemma same_keys_quiet: "same_keys m i a \<Longrightarrow> quiet a b \<Longrightarrow> same_keys m i b"
  using evolves_quiet[of i m a b] by (simp add: same_keys_def) (simp add: quiet_def ida_keys_def)

lemma same_keys_trans: "same_keys a i b \<Longrightarrow> same_keys b i c \<Longrightarrow> same_keys a i c"
  using evolves_trans by (auto simp: same_keys_def)

lemma same_keys_refl: "ida_ok m \<Longrightarrow> same_keys m i m"
  by (simp add: same_keys_def)

lemma same_keys_warning: "ida_ok m \<Longrightarrow> same_keys m i (snd (append_session_warning i w m))"
  by (simp add: same_keys_def evolves_warning warning_keys)

lemma same_keys_artifact: "ida_ok m \<Longrightarrow> same_keys m i (snd (append_artifact_to_session i a m))"
proof -
  have "ida_keys (snd (append_artifact_to_session i a m)) = ida_keys m"
    unfolding append_artifact_to_session_def
    by (rule try_then_state[of "\<lambda>m'. ida_keys m' = ida_keys m"]) (auto simp: key_of_def intro!: neutral_keys)
  moreover have "im_database_ids (snd (append_artifact_to_session i a m)) = im_database_ids m"
    by (simp add: append_artifact_to_session_def)
  moreover assume "ida_ok m"
  ultimately show ?thesis by (simp add: same_keys_def evolves_artifact)
qed

lemma same_keys_try:
  assumes "same_keys m i (snd r)" and "\<And>x m'. r = (Inr x, m') \<Longrightarrow> same_keys m' i (snd (f x m'))"
  shows "same_keys m i (snd (try_then r f))"
  using assms same_keys_trans by (cases r) (auto simp: try_then_def split: sum.split)

lemma same_keys_ok: "same_keys m i m' \<Longrightarrow> ida_ok m'"
  by (auto simp: same_keys_def dest: evolves_ok)

lemma same_keys_output:
  assumes ok: "ida_ok m" and f: "\<And>a w m'. ida_ok m' \<Longrightarrow> same_keys m' i (snd (f a w m'))"
  shows "same_keys m i (snd (try_then (write_tool_output e i tool req res m) (\<lambda>(a, w) m.
           try_then (append_artifact_to_session i a m) (\<lambda>_ m. f a w m))))"
proof (rule same_keys_try)
  show q: "same_keys m i (snd (write_tool_output e i tool req res m))"
    by (rule same_keys_quiet[OF same_keys_refl[OF ok] quiet_tool_output])
  fix x m1 assume w: "write_tool_output e i tool req res m = (Inr x, m1)"
  then have ok1: "ida_ok m1" using same_keys_ok[OF q] by simp
  obtain a wn where x: "x = (a, wn)" by fastforce
  have "same_keys m1 i (snd (try_then (append_artifact_to_session i a m1) (\<lambda>_ m. f a wn m)))"
    by (rule same_keys_try[OF same_keys_artifact[OF ok1]])
      (use same_keys_ok[OF same_keys_artifact[OF ok1, of i a]] f in auto)
  then show "same_keys m1 i (snd ((case x of (a, w) \<Rightarrow> \<lambda>m. try_then (append_artifact_to_session i a m) (\<lambda>_ m. f a w m)) m1))"
    by (simp add: x)
qed

lemma save_same_keys:
  assumes ok: "ida_ok m"
  shows "same_keys m i (snd (save_database e i db save m))"
proof (cases save)
  case True
  obtain r m1 where c: "upstream_call e db UPSTREAM_IDB_SAVE [] m = (r, m1)" by fastforce
  then have q: "same_keys m i m1"
    using same_keys_quiet[OF same_keys_refl[OF ok] quiet_upstream(3)] by (metis snd_conv)
  show ?thesis
  proof (cases r)
    case (Inr res)
    have "same_keys m1 i (snd (try_then (write_tool_output e i (chars ''idb_save'') (JObject []) res m1) (\<lambda>(a, w) m.
             try_then (append_artifact_to_session i a m) (\<lambda>_ m. (Inr (save_outcome res), m)))))"
      by (rule same_keys_output[OF same_keys_ok[OF q]]) (simp add: same_keys_refl)
    with True Inr c same_keys_trans[OF q] show ?thesis by (simp add: save_database_def)
  qed (use True c q in \<open>simp add: save_database_def\<close>)
qed (simp add: save_database_def same_keys_refl[OF ok])

lemma save_no_warning: "save_database e i db save m = (Inr c, m') \<Longrightarrow> cd_warning c = None"
  by (auto simp: save_database_def try_then_Inr save_outcome_def split: if_splits prod.splits sum.splits)

lemma close_failed_evolves:
  assumes ok: "ida_ok m" and k: "ida_keys m i = Some (t, RsClosing, Some db)"
    and st: "st \<in> {RsReady, RsClosing, RsError}"
  shows "evolves i m (snd (close_failed i save st c m))"
proof -
  have up: "evolves i m1 (snd (ida_update_session i (\<lambda>s. (set_health r d er (s\<lparr>rv_state := st\<rparr>))\<lparr>rv_error := Some e\<rparr>) m1))"
    if ok1: "ida_ok m1" and k1: "ida_keys m1 i = Some (t, RsClosing, Some db)" for m1 :: "'a ida_manager" and r d er e
  proof (rule update_evolves_if[OF ok1])
    fix s assume "im_sessions m1 i = Some s" and cell: "cell_ok i (Some s) (im_database_ids m1 i)"
    with k1 have s: "rv_target s = t" "rv_state s = RsClosing" "rv_database_id s = Some db"
      by (auto simp: ida_keys_def key_of_def)
    with cell st from_closing[OF st, of t db]
    show "cell_ok i (Some ((set_health r d er (s\<lparr>rv_state := st\<rparr>))\<lparr>rv_error := Some e\<rparr>)) (im_database_ids m1 i)
      \<and> key_step\<^sup>*\<^sup>* (Some (key_of s)) (Some (key_of ((set_health r d er (s\<lparr>rv_state := st\<rparr>))\<lparr>rv_error := Some e\<rparr>)))"
      by (auto simp: cell_ok_def key_of_def)
  qed
  show ?thesis
    unfolding close_failed_def Let_def
  proof (rule try_then_state[of "evolves i m"])
    fix w
    show w: "evolves i m (snd (append_session_warning i w m))" for w by (rule evolves_warning[OF ok])
    fix x m1 assume a: "append_session_warning i w m = (Inr x, m1)" and e1: "evolves i m m1"
    have k1: "ida_keys m1 i = Some (t, RsClosing, Some db)" using warning_keys[of i w m] a k by simp
    note e2 = evolves_trans[OF e1 up[OF evolves_ok[OF e1] k1]]
    show "evolves i m (snd (try_then (ida_update_session i (\<lambda>s. (set_health r d er (s\<lparr>rv_state := st\<rparr>))\<lparr>rv_error := Some e\<rparr>) m1)
        (\<lambda>_ m. (Inl z, ida_record_event i ev p n oper art er' fs (ida_log l ev' j er'' m)))))" for r d er e z ev p n oper art er' fs l ev' j er''
      by (rule try_then_state[of "evolves i m", OF e2])
        (auto intro: evolves_quiet[OF _ quiet_trans[OF quiet_log quiet_event]])
  qed
qed

lemma close_detached_evolves:
  assumes ok: "ida_ok m" and s: "im_sessions m i = Some s" "rv_state s = RsClosing" and p: "\<not> im_sessions_poisoned m"
    and db: "rv_database_id s = Some db" and c: "cd_warning c = None" "cd_error c = None"
  shows "evolves i m (snd (close_detached e i save st c m))"
proof (cases "im_database_ids_poisoned m")
  case False
  define m1 where "m1 = m\<lparr>im_database_ids := (im_database_ids m)(i := None)\<rparr>"
  have "im_sessions m1 i = Some s" "\<not> im_sessions_poisoned m1" using s p by (simp_all add: m1_def)
  then obtain m2 where u: "ida_update_session i (closed_session c) m1 = (Inr (updated m1 (closed_session c) s), m2)"
    and q: "quiet (m1\<lparr>im_sessions := (im_sessions m1)(i \<mapsto> updated m1 (closed_session c) s)\<rparr>) m2"
    using update_session_ok by metis
  have cl: "rv_id (closed_session c s) = rv_id s" "rv_error (closed_session c s) = None"
    "rv_state (closed_session c s) = RsClosed" "rv_database_id (closed_session c s) = None"
    "rv_target (closed_session c s) = rv_target s"
    by (simp_all add: closed_session_def set_health_def)
  have "evolves i m m2"
  proof (rule evolves_cellI[OF ok])
    show "cell_ok i (Some (updated m1 (closed_session c) s)) None"
      using cell_of_ok[OF ok, of i] s cl by (simp add: cell_ok_def)
    show "key_step\<^sup>*\<^sup>* (ida_keys m i) (Some (key_of (updated m1 (closed_session c) s)))"
      using s db cl closed by (auto simp: ida_keys_def key_of_def)
    show "quiet (m\<lparr>im_sessions := (im_sessions m)(i \<mapsto> updated m1 (closed_session c) s),
        im_database_ids := (im_database_ids m)(i := None)\<rparr>) m2"
      using q by (simp add: m1_def quiet_def)
  qed
  note e2 = evolves_quiet[OF this quiet_trans[OF quiet_log quiet_event]]
  show ?thesis
    using evolves_trans[OF e2 get_session_evolves[OF evolves_ok[OF e2]]] False u c
    by (simp add: close_detached_def unbind_database_def append_optional_warning_def flip: m1_def)
qed (simp add: close_detached_def unbind_database_def ok)

lemma close_bound_evolves:
  assumes ok: "ida_ok m" and db: "im_database_ids m i = Some db" and st: "st \<in> {RsReady, RsClosing, RsError}"
  shows "evolves i m (snd (close_bound e i save st db m))"
  unfolding close_bound_def
proof (rule try_then_state[of "evolves i m"])
  show "evolves i m (snd (ida_update_session_state e i RsClosing IDA_CLOSE None m))"
    by (rule update_state_closing(1)[OF ok db])
  fix p m3 assume u: "ida_update_session_state e i RsClosing IDA_CLOSE None m = (Inr p, m3)" and e3: "evolves i m m3"
  note ok3 = evolves_ok[OF e3]
  obtain s where s: "\<not> im_sessions_poisoned m3" "im_sessions m3 i = Some s" "rv_state s = RsClosing"
      "im_database_ids m3 i = Some db"
    using update_state_closing(2)[OF ok db u] by blast
  then have k3: "ida_keys m3 i = Some (rv_target s, RsClosing, Some db)"
    using bound_state[OF ok3 s(2,4)] by (simp add: ida_keys_def key_of_def)
  have sk: "same_keys m3 i (snd (save_database e i db save m3))" by (rule save_same_keys[OF ok3])
  show "evolves i m (snd (try_then (save_database e i db save m3) (\<lambda>c m.
           if close_failed_result c then close_failed i save st c m else close_detached e i save st c m)))"
  proof (rule try_then_state[of "evolves i m"])
    show "evolves i m (snd (save_database e i db save m3))"
      using sk evolves_trans[OF e3] by (simp add: same_keys_def)
    fix c m4 assume v: "save_database e i db save m3 = (Inr c, m4)" and e4: "evolves i m m4"
    note ok4 = evolves_ok[OF e4]
    have k4: "ida_keys m4 i = Some (rv_target s, RsClosing, Some db)" and p4: "\<not> im_sessions_poisoned m4"
      using sk v k3 s(1) by (simp_all add: same_keys_def evolves_def)
    obtain s4 where s4: "im_sessions m4 i = Some s4" "rv_state s4 = RsClosing" "rv_database_id s4 = Some db"
      using k4 by (auto simp: ida_keys_def key_of_def)
    show "evolves i m (snd (if close_failed_result c then close_failed i save st c m4
             else close_detached e i save st c m4))"
      using evolves_trans[OF e4 close_failed_evolves[OF ok4 k4 st]]
        evolves_trans[OF e4 close_detached_evolves[OF ok4 s4(1,2) p4 s4(3) save_no_warning[OF v]]]
      by (simp add: close_failed_result_def)
  qed
qed

lemma close_session_evolves:
  assumes ok: "ida_ok m"
  shows "evolves i m (snd (close_session_with_save e i save m))"
  unfolding close_session_with_save_def
proof (rule try_then_state[of "evolves i m"])
  show "evolves i m (snd (lock_operation i m))" by (rule quiet_evolves[OF ok quiet_lock])
  fix x m1 assume e1: "evolves i m m1"
  show "evolves i m (snd (try_then (ida_get_session e i m1) (\<lambda>session m.
         if rv_state session = RsClosed then (Inl (SessionClosed i), m)
         else case ida_database_id i m of
           Inl error \<Rightarrow> (Inl error, m)
         | Inr database_id \<Rightarrow> close_bound e i save (rv_state session) database_id m)))"
  proof (rule try_then_state[of "evolves i m"])
    show "evolves i m (snd (ida_get_session e i m1))"
      by (rule evolves_trans[OF e1 get_session_evolves[OF evolves_ok[OF e1]]])
    fix session m2 assume g: "ida_get_session e i m1 = (Inr session, m2)" and e2: "evolves i m m2"
    have "evolves i m (snd (close_bound e i save (rv_state session) db m2))" if "ida_database_id i m2 = Inr db" for db
    proof -
      have db: "im_database_ids m2 i = Some db" using that by (auto simp: ida_database_id_def split: if_splits option.splits)
      with bound_state[OF evolves_ok[OF e2] _ db] get_session_Inr[OF g]
      have "rv_state session \<in> {RsReady, RsClosing, RsError}" by simp
      from evolves_trans[OF e2 close_bound_evolves[OF evolves_ok[OF e2] db this]] show ?thesis .
    qed
    then show "evolves i m (snd (if rv_state session = RsClosed then (Inl (SessionClosed i), m2)
         else case ida_database_id i m2 of
           Inl error \<Rightarrow> (Inl error, m2)
         | Inr database_id \<Rightarrow> close_bound e i save (rv_state session) database_id m2))"
      using e2 by (simp split: sum.split)
  qed
qed

lemma create_opened_evolves:
  assumes ok: "ida_ok m" and s: "im_sessions m i = Some s" "rv_state s = RsStarting" and p: "\<not> im_sessions_poisoned m"
  shows "evolves i m (snd (create_opened e i opened m))"
proof (cases "im_database_ids_poisoned m")
  case False
  define db where "db = us_database_id (or_session opened)"
  define m1 where "m1 = m\<lparr>im_database_ids := (im_database_ids m)(i \<mapsto> db)\<rparr>"
  have "im_sessions m1 i = Some s" "\<not> im_sessions_poisoned m1" using s p by (simp_all add: m1_def)
  then obtain m2 where u: "ida_update_session i (opened_session opened) m1 = (Inr (updated m1 (opened_session opened) s), m2)"
    and q: "quiet (m1\<lparr>im_sessions := (im_sessions m1)(i \<mapsto> updated m1 (opened_session opened) s)\<rparr>) m2"
    using update_session_ok by metis
  have op: "rv_id (opened_session opened s) = rv_id s" "rv_state (opened_session opened s) = RsReady"
    "rv_database_id (opened_session opened s) = Some db" "rv_target (opened_session opened s) = rv_target s"
    by (simp_all add: opened_session_def db_def)
  have none: "rv_database_id s = None" using cell_of_ok[OF ok, of i] s by (auto simp: cell_ok_def)
  have "evolves i m m2"
  proof (rule evolves_cellI[OF ok])
    show "cell_ok i (Some (updated m1 (opened_session opened) s)) (Some db)"
      using cell_of_ok[OF ok, of i] s op by (simp add: cell_ok_def)
    show "key_step\<^sup>*\<^sup>* (ida_keys m i) (Some (key_of (updated m1 (opened_session opened) s)))"
      using s op none key_step.opened by (auto simp: ida_keys_def key_of_def)
    show "quiet (m\<lparr>im_sessions := (im_sessions m)(i \<mapsto> updated m1 (opened_session opened) s),
        im_database_ids := (im_database_ids m)(i := Some db)\<rparr>) m2"
      using q by (simp add: m1_def quiet_def)
  qed
  note e2 = evolves_quiet[OF this quiet_trans[OF quiet_log quiet_event]]
  show ?thesis
    using evolves_trans[OF e2 get_session_evolves[OF evolves_ok[OF e2]]] False u
    by (simp add: create_opened_def bind_database_def flip: db_def m1_def)
qed (simp add: create_opened_def bind_database_def ok)

lemma create_failed_evolves:
  assumes ok: "ida_ok m" and s: "im_sessions m i = Some s" "rv_state s = RsStarting"
  shows "evolves i m (snd (create_failed i err m))"
  unfolding create_failed_def Let_def
proof (rule try_then_state[of "evolves i m"])
  show "evolves i m (snd (ida_update_session i
      (\<lambda>s. set_health False None (Some t) (s\<lparr>rv_state := RsError, rv_error := Some t\<rparr>)) m))" for t
  proof (rule update_evolves_if[OF ok])
    fix s' assume "im_sessions m i = Some s'" and cell: "cell_ok i (Some s') (im_database_ids m i)"
    then have "rv_state s' = RsStarting" "rv_database_id s' = None" using s by (auto simp: cell_ok_def)
    with cell open_failed[of "rv_target s'"]
    show "cell_ok i (Some (set_health False None (Some t) (s'\<lparr>rv_state := RsError, rv_error := Some t\<rparr>))) (im_database_ids m i)
      \<and> key_step\<^sup>*\<^sup>* (Some (key_of s')) (Some (key_of (set_health False None (Some t) (s'\<lparr>rv_state := RsError, rv_error := Some t\<rparr>))))"
      by (auto simp: cell_ok_def key_of_def)
  qed
qed (simp add: evolves_quiet[OF _ quiet_log])

lemma audit_session:
  "ida_initialize_session_audit s r m = (Inr s', m') \<Longrightarrow> s' = s\<lparr>rv_artifacts := rv_artifacts s'\<rparr> \<and> quiet m m'"
  by (auto simp: ida_initialize_session_audit_def try_then_Inr with_artifacts_def quiet_def quiet_same[OF quiet_event]
      quiet_event[unfolded quiet_def] split: prod.splits)

lemma audit_quiet: "quiet m (snd (ida_initialize_session_audit s r m))"
  unfolding ida_initialize_session_audit_def
  by (intro try_then_state[of "quiet m"] quiet_artifacts)
    (auto intro: quiet_trans[OF _ quiet_artifacts] quiet_trans[OF _ quiet_event])

text \<open>A new session: the state once it is filed, and what follows from there.\<close>

definition filed :: "session_id \<Rightarrow> ida_target \<Rightarrow> 'v ida_manager \<Rightarrow> 'v ida_manager \<Rightarrow> bool" where
  "filed i t m m' \<longleftrightarrow> (\<exists>s. quiet (m\<lparr>im_sessions := (im_sessions m)(i \<mapsto> s)\<rparr>) m'
     \<and> rv_id s = i \<and> rv_target s = t \<and> rv_state s = RsStarting \<and> rv_database_id s = None \<and> \<not> im_sessions_poisoned m)"

lemma filed_evolves:
  assumes ok: "ida_ok m" and new: "im_sessions m i = None" and f: "filed i t m m'"
  shows "evolves i m m'"
proof -
  obtain s where s: "quiet (m\<lparr>im_sessions := (im_sessions m)(i \<mapsto> s)\<rparr>) m'" "rv_id s = i" "rv_target s = t"
    "rv_state s = RsStarting" "rv_database_id s = None" using f unfolding filed_def by blast
  have d: "im_database_ids m i = None" using cell_of_ok[OF ok, of i] new by (simp add: cell_ok_def)
  show ?thesis
  proof (rule evolves_cellI[OF ok])
    show "cell_ok i (Some s) None" using s by (simp add: cell_ok_def)
    show "key_step\<^sup>*\<^sup>* (ida_keys m i) (Some (key_of s))" using s new started by (auto simp: ida_keys_def key_of_def)
    show "quiet (m\<lparr>im_sessions := (im_sessions m)(i \<mapsto> s), im_database_ids := (im_database_ids m)(i := None)\<rparr>) m'"
      using s(1) d by (auto simp: quiet_def)
  qed
qed

lemma create_fresh_cases:
  obtains (unfiled) "quiet m (snd (create_fresh e i request m))"
  | (waiting) "filed i (ck_target request) m (snd (create_fresh e i request m))"
  | (opened) opened m' where "filed i (ck_target request) m m'" "create_fresh e i request m = create_opened e i opened m'"
  | (failed) err m' where "filed i (ck_target request) m m'" "create_fresh e i request m = create_failed i err m'"
proof -
  define m1 s0 where "m1 = snd (now_unix_ms m)" and "s0 = new_reverse_session i (ck_target request) (fst (now_unix_ms m))"
  have q1: "quiet m m1" by (simp add: m1_def quiet_now)
  obtain a m2 where a: "ida_initialize_session_audit s0 request m1 = (a, m2)" by fastforce
  have q2: "quiet m m2" using quiet_trans[OF q1 audit_quiet] a by (metis snd_conv)
  have eq: "create_fresh e i request m = try_then (a, m2) (\<lambda>session m.
      try_then (ida_insert_session session m) (\<lambda>_ m. try_then (lock_operation i m) (\<lambda>_ m.
        (case upstream_open e (open_request_of request (am_show_id (im_artifacts m) i)) m of
           (Inr opened, m) \<Rightarrow> create_opened e i opened m | (Inl error, m) \<Rightarrow> create_failed i error m))))"
    by (simp add: create_fresh_def split_beta m1_def s0_def flip: a)
  show ?thesis
  proof (cases "\<exists>s. a = Inr s \<and> \<not> im_sessions_poisoned m2")
    case False
    then have "quiet m (snd (create_fresh e i request m))"
      using q2 by (cases a) (auto simp: eq ida_insert_session_def)
    then show ?thesis by (rule unfiled)
  next
    case True
    then obtain s where s: "a = Inr s" and p: "\<not> im_sessions_poisoned m2" by blast
    obtain arts where "s = s0\<lparr>rv_artifacts := arts\<rparr>" using audit_session[OF a[unfolded s]] by blast
    then have fields: "rv_id s = i" "rv_target s = ck_target request" "rv_state s = RsStarting" "rv_database_id s = None"
      by (simp_all add: new_reverse_session_def s0_def)
    define m3 where "m3 = m2\<lparr>im_sessions := (im_sessions m2)(i \<mapsto> s)\<rparr>"
    obtain l m4 where l: "lock_operation i m3 = (l, m4)" by fastforce
    then have q4: "quiet m3 m4" using quiet_lock by (metis snd_conv)
    have f: "filed i (ck_target request) m m'" if "quiet m4 m'" for m'
      unfolding filed_def using fields p quiet_trans[OF q4 that] q2
      by (intro exI[of _ s]) (simp add: m3_def quiet_def)
    obtain r m5 where o: "upstream_open e (open_request_of request (am_show_id (im_artifacts m4) i)) m4 = (r, m5)" by fastforce
    then have f5: "filed i (ck_target request) m m5" using f quiet_upstream(2) by (metis snd_conv)
    have eq4: "create_fresh e i request m = try_then (l, m4) (\<lambda>_ m.
        (case upstream_open e (open_request_of request (am_show_id (im_artifacts m) i)) m of
           (Inr opened, m) \<Rightarrow> create_opened e i opened m | (Inl error, m) \<Rightarrow> create_failed i error m))"
      using p fields by (simp add: eq s ida_insert_session_def m3_def[symmetric] l)
    show ?thesis
    proof (cases l)
      case (Inl err)
      then show ?thesis using f[of m4] waiting by (simp add: eq4)
    next
      case (Inr u)
      then show ?thesis using f5 opened failed by (cases r) (auto simp: eq4 o)
    qed
  qed
qed

lemma filed_session:
  assumes "filed i t m m'" obtains s where "im_sessions m' i = Some s" "rv_state s = RsStarting" "rv_target s = t"
    "\<not> im_sessions_poisoned m'"
  using assms that by (auto simp: filed_def quiet_def)

lemma create_fresh_evolves:
  assumes ok: "ida_ok m" and new: "im_sessions m i = None"
  shows "evolves i m (snd (create_fresh e i request m))"
proof (cases rule: create_fresh_cases[of m e i request])
  case unfiled
  then show ?thesis by (rule quiet_evolves[OF ok])
next
  case waiting
  then show ?thesis by (rule filed_evolves[OF ok new])
next
  case (opened op m')
  note e1 = filed_evolves[OF ok new opened(1)]
  obtain s where "im_sessions m' i = Some s" "rv_state s = RsStarting" "\<not> im_sessions_poisoned m'"
    using filed_session[OF opened(1)] by metis
  then show ?thesis
    using evolves_trans[OF e1 create_opened_evolves[OF evolves_ok[OF e1]]] opened(2) by simp
next
  case (failed err m')
  note e1 = filed_evolves[OF ok new failed(1)]
  obtain s where "im_sessions m' i = Some s" "rv_state s = RsStarting" using filed_session[OF failed(1)] by metis
  then show ?thesis
    using evolves_trans[OF e1 create_failed_evolves[OF evolves_ok[OF e1]]] failed(2) by simp
qed

lemma create_session_evolves:
  "ida_ok m \<Longrightarrow> im_sessions m i = None \<Longrightarrow> evolves i m (snd (ida_create_session e order i request m))"
  using quiet_evolves[OF _ quiet_log] create_fresh_evolves
  by (auto simp: ida_create_session_def Let_def split: sum.split option.split)

lemma call_failed_same:
  assumes ok: "ida_ok m"
  shows "same_keys m i (snd (call_failed i tool req err m))"
  unfolding call_failed_def Let_def
proof (rule same_keys_try)
  show q: "same_keys m i (snd (write_tool_error_output i tool req (ida_error_text m err) m))"
    by (rule same_keys_quiet[OF same_keys_refl[OF ok] quiet_error_output])
  fix a m1 assume "write_tool_error_output i tool req (ida_error_text m err) m = (Inr a, m1)"
  then have ok1: "ida_ok m1" using same_keys_ok[OF q] by simp
  show "same_keys m1 i (snd (try_then (append_artifact_to_session i a m1) (\<lambda>_ m2.
      (Inl err, upstream_tool_failed i tool a (ida_error_text m err) (obj [(''tool'', JText tool)]) m2))))"
    by (rule same_keys_try[OF same_keys_artifact[OF ok1]])
      (use same_keys_ok[OF same_keys_artifact[OF ok1, of i a]] in
        \<open>auto simp: upstream_tool_failed_def intro!: same_keys_quiet[OF same_keys_refl quiet_event]\<close>)
qed

lemma call_answered_same:
  assumes ok: "ida_ok m"
  shows "same_keys m i (snd (call_answered e i tool req res m))"
  unfolding call_answered_def
  by (rule same_keys_output[OF ok])
    (auto simp: Let_def upstream_tool_failed_def intro!: same_keys_quiet[OF same_keys_refl quiet_event])

lemma ensure_ready_evolves: "ida_ok m \<Longrightarrow> evolves i m (snd (ensure_ready e i oper m))"
  unfolding ensure_ready_def
  by (rule try_then_state[of "evolves i m"])
    (auto simp: get_session_evolves split: reverse_session_state.split)

lemma call_bound_evolves:
  assumes ok: "ida_ok m"
  shows "evolves i m (snd (call_bound e i tool args db m))"
proof -
  obtain r m2 where c: "upstream_call e db tool args m = (r, m2)" by fastforce
  then have e2: "evolves i m m2" using quiet_evolves[OF ok] quiet_upstream(3) by (metis snd_conv)
  note ok2 = evolves_ok[OF e2]
  show ?thesis
    using evolves_trans[OF e2] call_failed_same[OF ok2] call_answered_same[OF ok2]
    by (cases r) (auto simp: call_bound_def c same_keys_def)
qed

lemma call_tool_evolves:
  assumes ok: "ida_ok m"
  shows "evolves (uq_session_id request) m (snd (call_upstream_tool e tool request m))" (is "evolves ?i m _")
proof -
  have ready: "evolves ?i m (snd (case ida_database_id ?i m2 of Inl error \<Rightarrow> (Inl error, m2)
      | Inr db \<Rightarrow> call_bound e ?i tool (uq_arguments request) db m2))" if e2: "evolves ?i m m2" for m2
    using e2 evolves_trans[OF e2 call_bound_evolves[OF evolves_ok[OF e2]]]
    by (cases "ida_database_id ?i m2") simp_all
  have "evolves ?i m (snd (try_then (lock_operation ?i m) (\<lambda>_ m. try_then (ensure_ready e ?i tool m) (\<lambda>_ m.
          case ida_database_id ?i m of Inl error \<Rightarrow> (Inl error, m)
          | Inr db \<Rightarrow> call_bound e ?i tool (uq_arguments request) db m))))"
  proof (rule try_then_state[of "evolves ?i m", OF quiet_evolves[OF ok quiet_lock]])
    fix x m1 assume e1: "evolves ?i m m1"
    show "evolves ?i m (snd (try_then (ensure_ready e ?i tool m1) (\<lambda>_ m.
          case ida_database_id ?i m of Inl error \<Rightarrow> (Inl error, m)
          | Inr db \<Rightarrow> call_bound e ?i tool (uq_arguments request) db m)))"
      by (rule try_then_state[of "evolves ?i m", OF evolves_trans[OF e1 ensure_ready_evolves[OF evolves_ok[OF e1]]]])
        (rule ready)
  qed
  then show ?thesis using ok by (simp add: call_upstream_tool_def)
qed

end
