(* ===== verification/Ida_Runs.thy ===== *)
theory Ida_Runs
  imports Ida_Invariant
begin

text \<open>
  Every sequence of operations of the manager of IDA sessions, whatever the upstream server answers and
  whatever happens to the files in between: each moves the sessions along their life, and no target ever
  has two sessions that could be reused.
\<close>

section \<open>Runs\<close>

text \<open>One operation, or a change outside the tables of sessions and databases: files, clock, the upstream
  server, a poisoned lock. A new session gets an identifier that was not used before, and the order in
  which the sessions are looked through misses none.\<close>

inductive ida_step :: "'v ida_env \<Rightarrow> 'v ida_manager \<Rightarrow> 'v ida_manager \<Rightarrow> bool" for e where
  create: "im_sessions m i = None \<Longrightarrow> dom (im_sessions m) \<subseteq> set order \<Longrightarrow>
    ida_step e m (snd (ida_create_session e order i request m))"
| get: "ida_step e m (snd (ida_get_session e i m))"
| list_all: "ida_step e m (snd (ida_list_sessions e order m))"
| close: "ida_step e m (snd (close_session_with_save e i save m))"
| call: "ida_step e m (snd (call_upstream_tool e tool request m))"
| outside: "im_sessions m' = im_sessions m \<Longrightarrow> im_database_ids m' = im_database_ids m \<Longrightarrow> ida_step e m m'"

definition advances :: "'v ida_manager \<Rightarrow> 'v ida_manager \<Rightarrow> bool" where
  "advances m m' \<longleftrightarrow> ida_ok m' \<and> (\<forall>i. key_step\<^sup>*\<^sup>* (ida_keys m i) (ida_keys m' i))"

lemma evolves_advances: "evolves i m m' \<Longrightarrow> advances m m'"
  unfolding evolves_def advances_def by (metis ida_keys_def rtranclp.rtrancl_refl)

lemma advances_trans: "advances a b \<Longrightarrow> advances b c \<Longrightarrow> advances a c"
  by (auto simp: advances_def intro: rtranclp_trans)

lemma fold_advances: "ida_ok m \<Longrightarrow> advances m (fold (\<lambda>i m. snd (refresh_session_health e i m)) order m)"
proof (induction order arbitrary: m)
  case Nil
  then show ?case by (simp add: advances_def)
next
  case (Cons i ids)
  have a: "advances m (snd (refresh_session_health e i m))"
    by (rule evolves_advances[OF refresh_evolves[OF Cons.prems]])
  then have "ida_ok (snd (refresh_session_health e i m))" by (simp add: advances_def)
  from advances_trans[OF a Cons.IH[OF this]] show ?case by simp
qed

lemma step_advances:
  assumes "ida_step e m m'" "ida_ok m" shows "advances m m'"
  using assms
proof (cases rule: ida_step.cases)
  case (list_all order)
  then show ?thesis using fold_advances[OF assms(2), of e order] assms(2)
    by (auto simp: ida_list_sessions_def Let_def advances_def)
next
  case outside
  then show ?thesis using assms(2) by (simp add: advances_def ida_ok_def ida_keys_def)
qed (auto intro: evolves_advances create_session_evolves get_session_evolves close_session_evolves call_tool_evolves)

lemma run_advances: "(ida_step e)\<^sup>*\<^sup>* m m' \<Longrightarrow> ida_ok m \<Longrightarrow> advances m m'"
proof (induction rule: rtranclp_induct)
  case base
  then show ?case by (simp add: advances_def)
next
  case (step a b)
  from step.IH[OF step.prems] have a: "advances m a" .
  then have "ida_ok a" by (simp add: advances_def)
  from advances_trans[OF a step_advances[OF step.hyps(2) this]] show ?case .
qed

lemma new_ok: "ida_ok (ida_manager_new v a c)"
  by (simp add: ida_ok_def ida_manager_new_def cell_ok_def)

definition ida_reachable :: "'v ida_env \<Rightarrow> 'v ida_manager \<Rightarrow> bool" where
  "ida_reachable e m \<longleftrightarrow> (\<exists>v a c. (ida_step e)\<^sup>*\<^sup>* (ida_manager_new v a c) m)"

lemma ida_reachable_ok: "ida_reachable e m \<Longrightarrow> ida_ok m"
  using run_advances new_ok by (fastforce simp: ida_reachable_def advances_def)

section \<open>One live session per target\<close>

text \<open>The session \<open>i\<close> is reusable only if it was when the operation began.\<close>

definition guarded :: "session_id \<Rightarrow> bool \<Rightarrow> 'v ida_manager \<Rightarrow> bool" where
  "guarded i R m \<longleftrightarrow> (\<forall>s. im_sessions m i = Some s \<longrightarrow> reverse_is_reusable (rv_state s) \<longrightarrow> R)"

lemma guarded_quiet: "guarded i R m \<Longrightarrow> quiet m m' \<Longrightarrow> guarded i R m'"
  by (simp add: guarded_def quiet_def)

lemma guarded_update:
  assumes g: "guarded i R m" and f: "\<And>s. reverse_is_reusable (rv_state (f s)) \<Longrightarrow> reverse_is_reusable (rv_state s) \<or> R"
  shows "guarded i R (snd (ida_update_session i f m))"
  using g by (cases rule: update_session_cases[of i f m]) (auto simp: guarded_def quiet_def dest: f)

lemma guarded_warning: "guarded i R m \<Longrightarrow> guarded i R (snd (append_session_warning i w m))"
  unfolding append_session_warning_def
  by (rule try_then_state[of "guarded i R"]) (auto intro: guarded_update)

lemma guarded_artifact: "guarded i R m \<Longrightarrow> guarded i R (snd (append_artifact_to_session i a m))"
  unfolding append_artifact_to_session_def
  by (rule try_then_state[of "guarded i R"]) (auto intro: guarded_update)

lemma guarded_unit: "guarded i R (snd r) \<Longrightarrow> guarded i R (snd (try_then r (\<lambda>_ m. (Inr (), m))))"
  by (rule try_then_state[of "guarded i R"]) simp_all

lemma not_reusable [simp]: "\<not> reverse_is_reusable RsError" "\<not> reverse_is_reusable RsClosing" "\<not> reverse_is_reusable RsClosed"
  by (simp_all add: reverse_is_reusable_def)

lemma guarded_refresh:
  assumes "guarded i R m"
  shows "guarded i R (snd (refresh_session_health e i m))"
proof -
  obtain r m1 where l: "upstream_list e m = (r, m1)" by fastforce
  then have g1: "guarded i R m1" using guarded_quiet[OF assms quiet_upstream(1)] by (metis snd_conv)
  have w: "guarded i R (snd (try_then (append_session_warning i UNLISTED m1) (\<lambda>_ m.
             try_then (ida_update_session i (\<lambda>s. set_health False None (Some UNLISTED)
                 (s\<lparr>rv_state := RsError, rv_error := Some UNLISTED, rv_is_active := Some False\<rparr>)) m)
               (\<lambda>_ m. (Inr (), m)))))"
    by (rule try_then_state[of "guarded i R", OF guarded_warning[OF g1]])
      (auto intro!: guarded_unit guarded_update)
  show ?thesis
    using assms w g1 by (auto simp: refresh_session_health_def l intro!: guarded_unit guarded_update
        split: option.split sum.split)
qed

lemma guarded_get: "guarded i R m \<Longrightarrow> guarded i R (snd (ida_get_session e i m))"
  using guarded_refresh[of i R m e] by (cases "refresh_session_health e i m") (auto simp: ida_get_session_def split: option.split)

lemma guarded_event: "guarded i R m \<Longrightarrow> guarded i R (ida_record_event j ev p n oper a er fs m)"
  by (rule guarded_quiet[OF _ quiet_event])

lemma guarded_log: "guarded i R m \<Longrightarrow> guarded i R (ida_log l ev j er m)"
  by (rule guarded_quiet[OF _ quiet_log])

lemmas guarded_intros = guarded_update guarded_warning guarded_artifact guarded_unit guarded_refresh guarded_get
  guarded_event guarded_log guarded_quiet[OF _ quiet_tool_output] guarded_quiet[OF _ quiet_error_output]
  guarded_quiet[OF _ quiet_lock]

lemma guarded_save: "guarded i R m \<Longrightarrow> guarded i R (snd (save_database e i db save m))"
proof -
  assume g: "guarded i R m"
  obtain r m1 where c: "upstream_call e db UPSTREAM_IDB_SAVE [] m = (r, m1)" by fastforce
  then have g1: "guarded i R m1" using guarded_quiet[OF g quiet_upstream(3)] by (metis snd_conv)
  have "guarded i R (snd (try_then (write_tool_output e i (chars ''idb_save'') (JObject []) res m1) (\<lambda>(artifact, _) m.
            try_then (append_artifact_to_session i artifact m) (\<lambda>_ m. (Inr (save_outcome res), m)))))" for res
    by (rule try_then_state[of "guarded i R", OF guarded_quiet[OF g1 quiet_tool_output]])
      (auto intro!: try_then_state[of "guarded i R"] guarded_artifact split: prod.split)
  then show ?thesis using g g1 by (auto simp: save_database_def c split: sum.split)
qed

lemma guarded_close_failed:
  assumes "guarded i R m" "reverse_is_reusable st \<Longrightarrow> R"
  shows "guarded i R (snd (close_failed i save st c m))"
  unfolding close_failed_def Let_def using assms
  by (auto intro!: try_then_state[of "guarded i R"] guarded_intros)

lemma guarded_close_detached:
  assumes g: "guarded i R m"
  shows "guarded i R (snd (close_detached e i save st c m))"
proof -
  have u: "guarded i R (snd (unbind_database i m))"
    using g by (simp add: unbind_database_def guarded_def)
  have w: "guarded i R (snd (append_optional_warning i w m'))" if "guarded i R m'" for w and m' :: "'a ida_manager"
    using that by (auto simp: append_optional_warning_def intro: guarded_warning split: option.split)
  show ?thesis
    unfolding close_detached_def
    by (intro try_then_state[of "guarded i R"] u w guarded_get guarded_event guarded_log)
      (auto intro: guarded_update simp: closed_session_def)
qed

lemma guarded_close:
  assumes g: "guarded i R m"
  shows "guarded i R (snd (close_session_with_save e i save m))"
proof -
  have st: "guarded i R (snd (ida_update_session_state e i RsClosing oper None m'))" if "guarded i R m'"
    for oper and m' :: "'a ida_manager"
    unfolding ida_update_session_state_def
    using that by (auto intro!: try_then_state[of "guarded i R"] guarded_intros)
  have bound: "guarded i R (snd (close_bound e i save st db m'))" if "guarded i R m'" "reverse_is_reusable st \<Longrightarrow> R"
    for st db and m' :: "'a ida_manager"
    unfolding close_bound_def using that
    by (auto intro!: try_then_state[of "guarded i R"] st guarded_save guarded_close_failed guarded_close_detached)
  show ?thesis
    unfolding close_session_with_save_def
  proof (intro try_then_state[of "guarded i R"] guarded_quiet[OF g quiet_lock] guarded_get)
    fix s m2 and x :: unit and m1
    assume a: "ida_get_session e i m1 = (Inr s, m2)" "guarded i R m2"
    then have "reverse_is_reusable (rv_state s) \<Longrightarrow> R" using get_session_Inr[OF a(1)] by (simp add: guarded_def)
    with a(2) show "guarded i R (snd (if rv_state s = RsClosed then (Inl (SessionClosed i), m2)
         else case ida_database_id i m2 of Inl error \<Rightarrow> (Inl error, m2)
         | Inr database_id \<Rightarrow> close_bound e i save (rv_state s) database_id m2))"
      by (auto intro: bound split: sum.split)
  qed
qed

lemma guarded_call:
  assumes g: "guarded i R m" and i: "i = uq_session_id request"
  shows "guarded i R (snd (call_upstream_tool e tool request m))"
proof -
  have up: "guarded i R (snd (upstream_call e db tool args m'))" if "guarded i R m'" for db args and m' :: "'a ida_manager"
    by (rule guarded_quiet[OF that quiet_upstream(3)])
  have bound: "guarded i R (snd (call_bound e i tool args db m'))" if "guarded i R m'" for args db and m' :: "'a ida_manager"
    using up[OF that, of db args]
    by (cases "upstream_call e db tool args m'")
      (auto simp: call_bound_def call_failed_def call_answered_def upstream_tool_failed_def Let_def
        intro!: try_then_state[of "guarded i R"] guarded_intros split: sum.split)
  have ready: "guarded i R (snd (ensure_ready e i tool m'))" if "guarded i R m'" for m' :: "'a ida_manager"
    unfolding ensure_ready_def
    by (rule try_then_state[of "guarded i R", OF guarded_get[OF that]]) (simp split: reverse_session_state.split)
  show ?thesis
    using g unfolding call_upstream_tool_def i[symmetric]
    by (auto intro!: try_then_state[of "guarded i R"] guarded_quiet[OF g quiet_lock] ready bound split: sum.split)
qed

definition one_reusable :: "'v ida_manager \<Rightarrow> bool" where
  "one_reusable m \<longleftrightarrow> (\<forall>i j s s'. im_sessions m i = Some s \<longrightarrow> im_sessions m j = Some s' \<longrightarrow>
     reverse_is_reusable (rv_state s) \<longrightarrow> reverse_is_reusable (rv_state s') \<longrightarrow> rv_target s = rv_target s' \<longrightarrow> i = j)"

lemma evolves_target:
  assumes "evolves i m m'" "im_sessions m i = Some s" "im_sessions m' i = Some s'"
  shows "rv_target s' = rv_target s"
  using assms key_path_Some[of "key_of s" "ida_keys m' i"]
  by (auto simp: evolves_def ida_keys_def key_of_def)

lemma one_reusable_evolves:
  assumes u: "one_reusable m" and e: "evolves i m m'"
    and g: "\<And>R. guarded i R m \<Longrightarrow> guarded i R m'"
  shows "one_reusable m'"
proof -
  have other: "j \<noteq> i \<Longrightarrow> im_sessions m' j = im_sessions m j" for j using e by (simp add: evolves_def)
  have mine: "\<exists>s0. im_sessions m i = Some s0 \<and> reverse_is_reusable (rv_state s0) \<and> rv_target s0 = rv_target s"
    if s: "im_sessions m' i = Some s" "reverse_is_reusable (rv_state s)" for s
  proof -
    have "guarded i (\<exists>s0. im_sessions m i = Some s0 \<and> reverse_is_reusable (rv_state s0)) m'"
      by (rule g) (auto simp: guarded_def)
    then obtain s0 where "im_sessions m i = Some s0" "reverse_is_reusable (rv_state s0)" using s by (auto simp: guarded_def)
    with evolves_target[OF e _ s(1)] show ?thesis by auto
  qed
  have old: "\<exists>s0. im_sessions m j = Some s0 \<and> reverse_is_reusable (rv_state s0) \<and> rv_target s0 = rv_target s"
    if "im_sessions m' j = Some s" "reverse_is_reusable (rv_state s)" for j s
    using that mine other by (cases "j = i") auto
  show ?thesis
    unfolding one_reusable_def
  proof (intro allI impI)
    fix j k s s'
    assume a: "im_sessions m' j = Some s" "im_sessions m' k = Some s'" "reverse_is_reusable (rv_state s)"
      "reverse_is_reusable (rv_state s')" "rv_target s = rv_target s'"
    from old[OF a(1,3)] old[OF a(2,4)] a(5) u show "j = k" by (auto simp: one_reusable_def)
  qed
qed

lemma one_reusable_quiet: "one_reusable m \<Longrightarrow> im_sessions m' = im_sessions m \<Longrightarrow> one_reusable m'"
  by (simp add: one_reusable_def)

lemma one_reusable_fresh:
  assumes u: "one_reusable m" and ok: "ida_ok m" and new: "im_sessions m i = None"
    and none: "\<And>j s. im_sessions m j = Some s \<Longrightarrow> rv_target s = ck_target request \<Longrightarrow> \<not> reverse_is_reusable (rv_state s)"
  shows "one_reusable (snd (create_fresh e i request m))" (is "one_reusable ?m'")
proof -
  have e: "evolves i m ?m'" by (rule create_fresh_evolves[OF ok new])
  then have other: "j \<noteq> i \<Longrightarrow> im_sessions ?m' j = im_sessions m j" for j by (simp add: evolves_def)
  have target: "rv_target s = ck_target request" if s: "im_sessions ?m' i = Some s" for s
  proof (cases rule: create_fresh_cases[of m e i request])
    case unfiled
    then show ?thesis using s new by (simp add: quiet_def)
  next
    case waiting
    then show ?thesis using s filed_session by (metis option.inject)
  next
    case (opened opd m1)
    note e1 = filed_evolves[OF ok new opened(1)]
    obtain s1 where "im_sessions m1 i = Some s1" "rv_state s1 = RsStarting" "rv_target s1 = ck_target request"
      "\<not> im_sessions_poisoned m1" using filed_session[OF opened(1)] by metis
    then show ?thesis
      using evolves_target[OF create_opened_evolves[OF evolves_ok[OF e1]]] s opened(2) by metis
  next
    case (failed err m1)
    note e1 = filed_evolves[OF ok new failed(1)]
    obtain s1 where "im_sessions m1 i = Some s1" "rv_state s1 = RsStarting" "rv_target s1 = ck_target request"
      using filed_session[OF failed(1)] by metis
    then show ?thesis
      using evolves_target[OF create_failed_evolves[OF evolves_ok[OF e1]]] s failed(2) by metis
  qed
  show ?thesis
    unfolding one_reusable_def
  proof (intro allI impI)
    fix j k s s'
    assume a: "im_sessions ?m' j = Some s" "im_sessions ?m' k = Some s'" "reverse_is_reusable (rv_state s)"
      "reverse_is_reusable (rv_state s')" "rv_target s = rv_target s'"
    show "j = k"
    proof (cases "j = i"; cases "k = i")
      assume "j = i" "k \<noteq> i"
      then show ?thesis using a target other none by metis
    next
      assume "j \<noteq> i" "k = i"
      then show ?thesis using a target other none by metis
    next
      assume "j \<noteq> i" "k \<noteq> i"
      then show ?thesis using a other u unfolding one_reusable_def by metis
    qed simp
  qed
qed

lemma find_None: "find P xs = None \<Longrightarrow> x \<in> set xs \<Longrightarrow> \<not> P x"
  by (auto simp: find_None_iff)

lemma in_map_filter: "f i = Some s \<Longrightarrow> i \<in> set order \<Longrightarrow> s \<in> set (List.map_filter f order)"
  by (force simp: map_filter_def)

lemma one_reusable_create:
  assumes "one_reusable m" "ida_ok m" "im_sessions m i = None" "dom (im_sessions m) \<subseteq> set order"
  shows "one_reusable (snd (ida_create_session e order i request m))"
proof -
  have "one_reusable (snd (create_fresh e i r m))"
    if "reusable_session_for_target order (ck_target r) m = Inr None" for r
  proof (rule one_reusable_fresh[OF assms(1-3)])
    fix j s assume s: "im_sessions m j = Some s" "rv_target s = ck_target r"
    then have "s \<in> set (List.map_filter (im_sessions m) order)"
      using assms(4) by (intro in_map_filter) auto
    with that s(2) show "\<not> reverse_is_reusable (rv_state s)"
      by (auto simp: reusable_session_for_target_def dest: find_None split: if_splits)
  qed
  from this[of "request\<lparr>ck_target := t\<rparr>" for t]
  have fresh: "reusable_session_for_target order t m = Inr None \<Longrightarrow>
      one_reusable (snd (create_fresh e i (request\<lparr>ck_target := t\<rparr>) m))" for t
    by simp
  have "one_reusable (ida_log l ev j er m)" for l ev j er
    using assms(1) by (simp add: ida_log_def one_reusable_def)
  with fresh assms(1) show ?thesis
    by (simp add: ida_create_session_def Let_def split: sum.split option.split)
qed

lemma step_one_reusable:
  assumes "ida_step e m m'" "ida_ok m" "one_reusable m"
  shows "one_reusable m'"
  using assms
proof (cases rule: ida_step.cases)
  case (list_all order)
  have "ida_ok a \<Longrightarrow> one_reusable a \<Longrightarrow> one_reusable (fold (\<lambda>i m. snd (refresh_session_health e i m)) order a)" for a
  proof (induction order arbitrary: a)
    case (Cons i ids)
    note r = refresh_evolves[OF Cons.prems(1), of i e]
    have "one_reusable (snd (refresh_session_health e i a))"
      by (rule one_reusable_evolves[OF Cons.prems(2) r guarded_refresh])
    from Cons.IH[OF evolves_ok[OF r] this] show ?case by simp
  qed simp
  from this[OF assms(2,3)] show ?thesis using list_all assms(3) by (simp add: ida_list_sessions_def Let_def)
qed (use assms in \<open>auto intro: one_reusable_create one_reusable_quiet one_reusable_evolves[OF _ get_session_evolves guarded_get]
      one_reusable_evolves[OF _ close_session_evolves guarded_close]
      one_reusable_evolves[OF _ call_tool_evolves guarded_call]\<close>)

lemma new_one_reusable: "one_reusable (ida_manager_new v a c)"
  by (simp add: one_reusable_def ida_manager_new_def)

lemma run_one_reusable: "(ida_step e)\<^sup>*\<^sup>* m0 m \<Longrightarrow> ida_ok m0 \<Longrightarrow> one_reusable m0 \<Longrightarrow> one_reusable m"
proof (induction rule: rtranclp_induct)
  case (step a b)
  then show ?case using step_one_reusable run_advances by (metis advances_def)
qed

lemma reachable_one_reusable: "ida_reachable e m \<Longrightarrow> one_reusable m"
  using run_one_reusable new_ok new_one_reusable unfolding ida_reachable_def by metis

end
