(* ===== verification/Ida_Properties.thy ===== *)
theory Ida_Properties
  imports Ida_Runs
begin

text \<open>
  What the manager of IDA sessions promises: the state of its sessions over every run, which calls reach
  the upstream server, and what a close leaves.
\<close>

section \<open>Calls to the upstream server\<close>

named_theorems calls_simps \<open>what does not call the upstream server\<close>

lemma calls_now [calls_simps]: "im_calls (snd (now_unix_ms m)) = im_calls m"
  by (simp add: now_unix_ms_def)

lemma calls_log [calls_simps]: "im_calls (ida_log l ev i er m) = im_calls m"
  by (simp add: ida_log_def)

lemma calls_artifacts [calls_simps]: "im_calls (snd (with_artifacts f m)) = im_calls m"
  by (simp add: with_artifacts_def split: prod.split)

lemma calls_event [calls_simps]: "im_calls (ida_record_event i ev p n oper a er fs m) = im_calls m"
  by (simp add: ida_record_event_def Let_def split_beta calls_simps)

lemma calls_update [calls_simps]: "im_calls (snd (ida_update_session i f m)) = im_calls m"
  by (simp add: ida_update_session_def Let_def split_beta calls_simps split: option.split)

lemma calls_try:
  "im_calls (snd r) = c \<Longrightarrow> (\<And>x s. r = (Inr x, s) \<Longrightarrow> im_calls (snd (f x s)) = im_calls s) \<Longrightarrow>
    im_calls (snd (try_then r f)) = c"
  by (cases r) (auto simp: try_then_def split: sum.split)

lemma calls_unit [calls_simps]: "im_calls (snd (try_then r (\<lambda>_ m. (Inr (), m)))) = im_calls (snd r)"
  by (rule calls_try) simp_all

lemma calls_warning [calls_simps]: "im_calls (snd (append_session_warning i w m)) = im_calls m"
  by (simp add: append_session_warning_def calls_simps)

lemma calls_artifact [calls_simps]: "im_calls (snd (append_artifact_to_session i a m)) = im_calls m"
  by (simp add: append_artifact_to_session_def calls_simps)

lemma calls_lock [calls_simps]: "im_calls (snd (lock_operation i m)) = im_calls m"
  by (auto simp: lock_operation_def ida_operation_lock_def try_then_def split: option.split)

lemma calls_output [calls_simps]: "im_calls (snd (write_output_file i base out m)) = im_calls m"
  by (simp add: write_output_file_def unique_output_name_def calls_simps)

lemma calls_tool_output [calls_simps]: "im_calls (snd (write_tool_output e i tool req res m)) = im_calls m"
proof -
  have "im_calls (snd (try_then (write_output_file i base out m) (\<lambda>a m. (Inr (a, w), m)))) = im_calls m" for base out w
    by (rule calls_try) (simp_all add: calls_simps)
  then show ?thesis by (simp add: write_tool_output_def Let_def split_beta)
qed

lemma calls_error_output [calls_simps]: "im_calls (snd (write_tool_error_output i tool req er m)) = im_calls m"
  by (simp add: write_tool_error_output_def calls_simps)

text \<open>Looking at a session asks the upstream server for its list at most once.\<close>

definition listed :: "nat \<Rightarrow> 'v ida_manager \<Rightarrow> 'v ida_manager \<Rightarrow> bool" where
  "listed n m m' \<longleftrightarrow> (\<exists>k \<le> n. im_calls m' = im_calls m @ replicate k UpstreamList)"

lemma listed_refl [simp]: "listed n m m"
  by (auto simp: listed_def intro!: exI[of _ 0])

lemma listed_trans: "listed a m m1 \<Longrightarrow> listed b m1 m2 \<Longrightarrow> listed (a + b) m m2"
  by (auto simp: listed_def replicate_add[symmetric])

lemma listed_same: "listed n m m1 \<Longrightarrow> im_calls m2 = im_calls m1 \<Longrightarrow> listed n m m2"
  by (simp add: listed_def)

lemma refresh_listed: "listed 1 m (snd (refresh_session_health e i m))"
proof -
  obtain r m1 where l: "upstream_list e m = (r, m1)" by fastforce
  then have "im_calls m1 = im_calls m @ [UpstreamList]" by (auto simp: upstream_list_def split: prod.splits)
  then have l1: "listed 1 m m1" by (auto simp: listed_def intro!: exI[of _ 1])
  have w: "im_calls (snd (try_then (append_session_warning i w m1) (\<lambda>_ m. try_then (ida_update_session i f m) (\<lambda>_ m. (Inr (), m))))) = im_calls m1" for w f
    by (rule calls_try) (simp_all add: calls_simps)
  show ?thesis
    by (auto simp: refresh_session_health_def l calls_simps w intro: listed_same[OF l1[unfolded One_nat_def]] split: option.split sum.split)
qed

lemma get_listed: "ida_get_session e i m = (r, m') \<Longrightarrow> listed 1 m m'"
  using refresh_listed[of m e i] by (cases "refresh_session_health e i m") (auto simp: ida_get_session_def split: option.splits if_splits)

text \<open>A look leaves the key of a session as it was, or finds that its database is gone.\<close>

lemma refresh_key:
  assumes "im_sessions (snd (refresh_session_health e i m)) i = Some s" "rv_state s \<noteq> RsError"
  shows "\<exists>s0. im_sessions m i = Some s0 \<and> key_of s0 = key_of s"
proof -
  define P where "P m' \<longleftrightarrow> (\<forall>s. im_sessions m' i = Some s \<longrightarrow> rv_state s \<noteq> RsError \<longrightarrow>
      (\<exists>s0. im_sessions m i = Some s0 \<and> key_of s0 = key_of s))" for m' :: "'a ida_manager"
  have upd: "P (snd (ida_update_session i f a))"
    if "P a" "\<And>s. rv_state (f s) = RsError \<or> key_of (f s) = key_of s" for f and a :: "'a ida_manager"
  proof (cases rule: update_session_cases[of i f a])
    case (succeeds s a')
    from that(2)[of s] that(1) succeeds show ?thesis by (auto simp: P_def quiet_def key_of_def)
  qed (use that in simp)
  have unit: "P (snd r) \<Longrightarrow> P (snd (try_then r (\<lambda>_ m. (Inr (), m))))" for r :: "'b result \<times> 'a ida_manager"
    by (rule try_then_state[of P]) simp_all
  have unit': "P (snd r) \<Longrightarrow> P (snd (try_then r (\<lambda>_ m. (Inr (), m))))" for r :: "reverse_session result \<times> 'a ida_manager"
    by (rule try_then_state[of P]) simp_all
  have warn: "P a \<Longrightarrow> P (snd (append_session_warning i w a))" for w and a :: "'a ida_manager"
    unfolding append_session_warning_def by (rule unit', rule upd) (simp_all add: key_of_def)
  have "P m" by (simp add: P_def)
  obtain r m1 where l: "upstream_list e m = (r, m1)" by fastforce
  then have p1: "P m1" using \<open>P m\<close> quiet_upstream(1)[of m e] by (simp add: P_def quiet_def)
  have lost: "P (snd (try_then (append_session_warning i UNLISTED m1) (\<lambda>_ m.
             try_then (ida_update_session i (\<lambda>s. set_health False None (Some UNLISTED)
                 (s\<lparr>rv_state := RsError, rv_error := Some UNLISTED, rv_is_active := Some False\<rparr>)) m)
               (\<lambda>_ m. (Inr (), m)))))"
    by (rule try_then_state[of P, OF warn[OF p1]]) (auto intro!: unit' upd)
  have "P (snd (refresh_session_health e i m))"
    using \<open>P m\<close> lost p1
    by (auto simp: refresh_session_health_def l intro!: unit' upd split: option.split sum.split)
  with assms show ?thesis by (simp add: P_def)
qed

lemma get_key:
  assumes "ida_get_session e i m = (Inr s, m')" "rv_state s \<noteq> RsError"
  shows "\<exists>s0. im_sessions m i = Some s0 \<and> key_of s0 = key_of s"
proof -
  have "im_sessions (snd (refresh_session_health e i m)) i = Some s"
    using assms(1) by (cases "refresh_session_health e i m") (auto simp: ida_get_session_def split: option.splits if_splits)
  from refresh_key[OF this assms(2)] show ?thesis .
qed

section \<open>Closing\<close>

text \<open>The session \<open>i\<close> is closed only if it was when the operation began.\<close>

definition closed_before :: "session_id \<Rightarrow> bool \<Rightarrow> 'v ida_manager \<Rightarrow> bool" where
  "closed_before i R m \<longleftrightarrow> (\<forall>s. im_sessions m i = Some s \<longrightarrow> rv_state s = RsClosed \<longrightarrow> R)"

lemma closed_before_quiet: "closed_before i R m \<Longrightarrow> quiet m m' \<Longrightarrow> closed_before i R m'"
  by (simp add: closed_before_def quiet_def)

lemma closed_before_update:
  assumes "closed_before i R m" "\<And>s. rv_state (f s) = RsClosed \<Longrightarrow> rv_state s = RsClosed"
  shows "closed_before i R (snd (ida_update_session i f m))"
  using assms by (cases rule: update_session_cases[of i f m]) (auto simp: closed_before_def quiet_def)

lemma closed_before_get:
  assumes g: "ida_get_session e i m = (r, m')" and c: "closed_before i R m"
  shows "closed_before i R m'"
  unfolding closed_before_def
proof (intro allI impI)
  fix s assume s: "im_sessions m' i = Some s" "rv_state s = RsClosed"
  have "im_sessions (snd (refresh_session_health e i m)) i = Some s"
    using g s by (cases "refresh_session_health e i m") (auto simp: ida_get_session_def split: option.splits if_splits)
  from refresh_key[OF this] s c show R by (auto simp: closed_before_def key_of_def)
qed

lemma closed_before_state:
  assumes "closed_before i R m" "st \<noteq> RsClosed"
  shows "closed_before i R (snd (ida_update_session_state e i st oper er m))"
  unfolding ida_update_session_state_def
proof (rule try_then_state[of "closed_before i R"])
  show "closed_before i R (snd (ida_get_session e i m))"
    using closed_before_get[OF _ assms(1)] by (cases "ida_get_session e i m") simp
qed (use assms(2) in \<open>auto intro!: try_then_state[of "closed_before i R"] closed_before_update
      closed_before_quiet[OF _ quiet_event]\<close>)

text \<open>What a successful end of a close leaves.\<close>

lemma close_detached_result:
  assumes ok: "ida_ok m" and s: "im_sessions m i = Some s" "rv_state s = RsClosing" and p: "\<not> im_sessions_poisoned m"
    and db: "rv_database_id s = Some db" and c: "cd_warning c = None" "cd_error c = None"
    and r: "close_detached e i save st c m = (r, m')"
  shows "case r of
     Inr s' \<Rightarrow> im_sessions m' i = Some s' \<and> rv_state s' = RsClosed \<and> im_calls m' = im_calls m
   | Inl _ \<Rightarrow> m' = m"
proof (cases "im_database_ids_poisoned m")
  case False
  define m1 where "m1 = m\<lparr>im_database_ids := (im_database_ids m)(i := None)\<rparr>"
  have "im_sessions m1 i = Some s" "\<not> im_sessions_poisoned m1" using s p by (simp_all add: m1_def)
  then obtain m2 where u: "ida_update_session i (closed_session c) m1 = (Inr (updated m1 (closed_session c) s), m2)"
    and q: "quiet (m1\<lparr>im_sessions := (im_sessions m1)(i \<mapsto> updated m1 (closed_session c) s)\<rparr>) m2"
    using update_session_ok by metis
  obtain m3 where m3: "m3 = ida_record_event i ''close_session_finished'' (Some st) (Some RsClosed) (Some IDA_CLOSE)
      None None (close_fields save c) (ida_log Info ''close_session_finished'' (Some i) None m2)" by blast
  have q3: "quiet m2 m3" unfolding m3 by (rule quiet_trans[OF quiet_log quiet_event])
  have "im_calls m2 = im_calls m" using calls_update[of i "closed_session c" m1] u by (simp add: m1_def)
  then have calls: "im_calls m3 = im_calls m" by (simp add: m3 calls_simps)
  have s3: "im_sessions m3 i = Some (updated m1 (closed_session c) s)" "\<not> im_sessions_poisoned m3"
    using q q3 p by (simp_all add: quiet_def m1_def)
  have st3: "rv_state (updated m1 (closed_session c) s) = RsClosed" by (simp add: closed_session_def)
  have "refresh_session_health e i m3 = (Inr (), m3)"
    using s3 st3 by (simp add: refresh_session_health_def reverse_is_terminal_def)
  then have "ida_get_session e i m3 = (Inr (updated m1 (closed_session c) s), m3)"
    using s3 by (simp add: ida_get_session_def)
  then have "close_detached e i save st c m = (Inr (updated m1 (closed_session c) s), m3)"
    using False u c by (simp add: close_detached_def unbind_database_def append_optional_warning_def m3 flip: m1_def)
  with r s3 st3 calls show ?thesis by auto
qed (use r in \<open>auto simp: close_detached_def unbind_database_def\<close>)

text \<open>The calls of a save, and what a failed one leaves.\<close>

lemma save_calls:
  "im_calls (snd (save_database e i db save m)) = im_calls m @ (if save then [UpstreamCall db UPSTREAM_IDB_SAVE []] else [])"
proof (cases save)
  case True
  obtain r m1 where c: "upstream_call e db UPSTREAM_IDB_SAVE [] m = (r, m1)" by fastforce
  then have m1: "im_calls m1 = im_calls m @ [UpstreamCall db UPSTREAM_IDB_SAVE []]"
    by (auto simp: upstream_call_def split: prod.splits)
  have "im_calls (snd (try_then (write_tool_output e i (chars ''idb_save'') (JObject []) res m1) (\<lambda>(a, _) m.
            try_then (append_artifact_to_session i a m) (\<lambda>_ m. (Inr (save_outcome res), m))))) = im_calls m1" for res
    by (rule calls_try, rule calls_tool_output) (auto intro!: calls_try simp: calls_simps split: prod.split)
  with True c m1 show ?thesis by (simp add: save_database_def split: sum.split)
qed (simp add: save_database_def)

lemma update_state_listed:
  "listed 1 m (snd (ida_update_session_state e i st oper er m))"
proof -
  obtain r m1 where g: "ida_get_session e i m = (r, m1)" by fastforce
  have "im_calls (snd (ida_update_session_state e i st oper er m)) = im_calls m1"
    unfolding ida_update_session_state_def g
    by (rule calls_try) (auto intro!: calls_try simp: calls_simps)
  with get_listed[OF g] show ?thesis by (rule listed_same)
qed

lemma close_failed_result_Inl: "close_failed i save st c m = (r, m') \<Longrightarrow> \<exists>err. r = Inl err"
  by (auto simp: close_failed_def Let_def try_then_def split: prod.splits sum.splits)

lemma closed_before_warning:
  "closed_before i R m \<Longrightarrow> closed_before i R (snd (append_session_warning i w m))"
  unfolding append_session_warning_def
  by (rule try_then_state[of "closed_before i R"]) (auto intro: closed_before_update)

lemma closed_before_close_failed:
  assumes "closed_before i R m" "st \<noteq> RsClosed"
  shows "closed_before i R (snd (close_failed i save st c m))"
  unfolding close_failed_def Let_def using assms
  by (auto intro!: try_then_state[of "closed_before i R"] closed_before_warning closed_before_update
      closed_before_quiet[OF _ quiet_trans[OF quiet_log quiet_event]])

lemma close_bound_result:
  assumes ok: "ida_ok m" and db: "im_database_ids m i = Some db" and st: "st \<in> {RsReady, RsClosing, RsError}"
    and r: "close_bound e i save st db m = (r, m')" and R: "closed_before i R m"
  shows "case r of
     Inr s \<Rightarrow> im_sessions m' i = Some s \<and> rv_state s = RsClosed
       \<and> (\<exists>k \<le> 1. im_calls m' = im_calls m @ replicate k UpstreamList
            @ (if save then [UpstreamCall db UPSTREAM_IDB_SAVE []] else []))
   | Inl _ \<Rightarrow> closed_before i R m'"
proof -
  obtain a m3 where u: "ida_update_session_state e i RsClosing IDA_CLOSE None m = (a, m3)" by fastforce
  have ev3: "evolves i m m3" using update_state_closing(1)[OF ok db, of e IDA_CLOSE] u by simp
  note ok3 = evolves_ok[OF ev3]
  have l3: "listed 1 m m3" using update_state_listed[of m e i RsClosing IDA_CLOSE None] u by simp
  show ?thesis
  proof (cases a)
    case (Inl err)
    have "closed_before i R m3"
      using closed_before_state[OF R, of RsClosing e IDA_CLOSE None] u by simp
    then show ?thesis using r by (auto simp: close_bound_def u Inl)
  next
    case (Inr p)
    obtain s3 where s3: "\<not> im_sessions_poisoned m3" "im_sessions m3 i = Some s3" "rv_state s3 = RsClosing"
        "im_database_ids m3 i = Some db"
      using update_state_closing(2)[OF ok db u[unfolded Inr]] by blast
    obtain b m4 where v: "save_database e i db save m3 = (b, m4)" by fastforce
    have sk: "same_keys m3 i m4" using save_same_keys[OF ok3, of i e db save] v by simp
    have db3: "rv_database_id s3 = Some db" using bound_state[OF ok3 s3(2,4)] by simp
    obtain s4 where s4: "im_sessions m4 i = Some s4" "rv_state s4 = RsClosing" "rv_database_id s4 = Some db"
      using sk s3 db3 by (auto simp: same_keys_def ida_keys_def key_of_def)
    have p4: "\<not> im_sessions_poisoned m4" using sk s3(1) by (simp add: same_keys_def evolves_def)
    have calls: "im_calls m4 = im_calls m3 @ (if save then [UpstreamCall db UPSTREAM_IDB_SAVE []] else [])"
      using save_calls[of e i db save m3] v by simp
    have R4: "closed_before i R m4" using s4 by (simp add: closed_before_def)
    show ?thesis
    proof (cases b)
      case (Inl err)
      then show ?thesis using r R4 by (auto simp: close_bound_def u Inr v)
    next
      case (Inr c)
      have eq: "close_bound e i save st db m =
          (if close_failed_result c then close_failed i save st c m4 else close_detached e i save st c m4)"
        by (simp add: close_bound_def u \<open>a = Inr p\<close> v Inr)
      show ?thesis
      proof (cases "close_failed_result c")
        case True
        obtain err where "r = Inl err" using close_failed_result_Inl r eq True by (metis (full_types))
        moreover have "closed_before i R m'" using closed_before_close_failed[OF R4, of st save c] st r eq True by auto
        ultimately show ?thesis by simp
      next
        case False
        then have "cd_error c = None" by (simp add: close_failed_result_def)
        from close_detached_result[OF same_keys_ok[OF sk] s4(1,2) p4 s4(3) save_no_warning[OF v[unfolded Inr]] this, of e save st r m']
        have "case r of Inr s' \<Rightarrow> im_sessions m' i = Some s' \<and> rv_state s' = RsClosed \<and> im_calls m' = im_calls m4
            | Inl _ \<Rightarrow> m' = m4" using r eq False by simp
        with calls l3 R4 show ?thesis by (auto simp: listed_def split: sum.splits)
      qed
    qed
  qed
qed

section \<open>A server to try things on\<close>

definition ida_demo_session :: ida_upstream_session where
  "ida_demo_session =
     \<lparr>us_database_id = [100, 98], us_input_path = [], us_filename = [], us_backend = None, us_adopted = None,
      us_owned = None, us_pid = None, us_worker_pid = None, us_is_active = None, us_is_analyzing = None,
      us_metadata = JNull\<rparr>"

definition ida_demo_env :: "nat ida_env" where
  "ida_demo_env =
     \<lparr>ie_supervisor =
        \<lparr>sv_tool_descriptors = (\<lambda>v. (Inr [], v)),
         sv_open_session = (\<lambda>_ v. (Inr \<lparr>or_session = ida_demo_session, or_warmup = None, or_message = None\<rparr>, Suc v)),
         sv_list_sessions = (\<lambda>v. (Inr [ida_demo_session], v)),
         sv_call_tool = (\<lambda>_ _ _ v. (Inr \<lparr>sr_structured_content = JNull, sr_mcp_result = JNull, sr_is_error = False,
            sr_error_message = None\<rparr>, v))\<rparr>,
      ie_fs = \<lparr>fs_canonicalize = Inr, fs_is_file = (\<lambda>_. True), fs_is_dir = (\<lambda>_. True)\<rparr>,
      ie_lib = \<lparr>sl_parse_uuid = (\<lambda>_. None), sl_error = (\<lambda>_ _. []), sl_print = (\<lambda>_. []), sl_pretty = (\<lambda>_. []),
        sl_parse = (\<lambda>_. Inr JNull), sl_pkg_version = []\<rparr>,
      ie_connect = (\<lambda>_ _ _. Inl [])\<rparr>"

definition ida_demo_new :: "nat ida_manager" where
  "ida_demo_new = ida_manager_new 0
     \<lparr>am_root = [''a''], am_show_id = (\<lambda>i. hex_pad 32 (unat i)), am_poisoned = False, fs_dirs = (\<lambda>_. True),
      fs_files = (\<lambda>_. None), fs_error = (\<lambda>_. None)\<rparr> (\<lambda>n. n)"

definition ida_demo_request :: create_ida_session where
  "ida_demo_request =
     \<lparr>ck_target = Binary [97], ck_run_auto_analysis = True, ck_build_caches = True, ck_init_hexrays = True,
      ck_mode = PreferHeadless, ck_idle_ttl_sec = 3600, ck_startup_timeout_ms = None\<rparr>"

definition ida_demo :: "nat ida_manager" where
  "ida_demo = snd (ida_create_session ida_demo_env [] 7 ida_demo_request ida_demo_new)"

lemma ida_demo_target:
  "validate_ida_target \<lparr>fs_canonicalize = Inr, fs_is_file = \<lambda>_. True, fs_is_dir = \<lambda>_. True\<rparr> (Binary [97]) = Inr (Binary [97])"
proof -
  have t: "to_string_lossy [97] = [97]" by (simp add: to_string_lossy_def is_surrogate_def is_high_def is_low_def)
  then have "normalize_ida_runtime_path [97] = [97]"
    by (simp add: normalize_ida_runtime_path_def strip_prefix_def)
  then show ?thesis by (simp add: validate_ida_target_def validate_path_text_def t)
qed

lemma ida_demo_keys: "ida_keys ida_demo 7 = Some (Binary [97], RsReady, Some [100, 98])"
  unfolding ida_demo_def ida_demo_request_def ida_create_session_def
  by (simp add: ida_demo_target ida_demo_new_def ida_manager_new_def reusable_session_for_target_def map_filter_def
    create_fresh_def now_unix_ms_def ida_initialize_session_audit_def with_artifacts_def write_reverse_session_request_def
    write_reverse_session_metadata_def write_below_def locked_def returning_def create_dir_all_def write_file_def
    ida_record_event_def append_reverse_session_event_def append_below_def append_pieces_def ida_insert_session_def
    new_reverse_session_def lock_operation_def ida_operation_lock_def upstream_open_def ida_demo_env_def
    create_opened_def bind_database_def ida_update_session_def opened_session_def ida_demo_session_def ida_log_def
    ida_get_session_def refresh_session_health_def reverse_is_terminal_def upstream_list_def Let_def
    ida_keys_def key_of_def set_health_def mirror_upstream_def)

lemma ida_demo_step: "ida_step ida_demo_env ida_demo_new ida_demo"
  unfolding ida_demo_def by (rule ida_step.create) (simp_all add: ida_demo_new_def ida_manager_new_def)

lemma ida_demo_reachable: "ida_reachable ida_demo_env ida_demo"
  unfolding ida_reachable_def using ida_demo_step unfolding ida_demo_new_def by blast

section \<open>Properties of every run\<close>

text \<open>
  C28. As long as each operation on the manager of IDA sessions ends before the next one begins, and whatever the
  upstream server answered, every session is filed under its own identifier, the table of databases agrees
  with the sessions, a starting session has no database, a ready or closing one has one, a closed one has
  neither database nor error, one in error says why, and no target has two sessions that could be reused.
\<close>

theorem ida_sessions_consistent:
  assumes "ida_reachable e m"
  shows "(\<forall>i s. im_sessions m i = Some s \<longrightarrow>
      rv_id s = i \<and> im_database_ids m i = rv_database_id s
      \<and> (rv_state s = RsStarting \<longrightarrow> rv_database_id s = None)
      \<and> (rv_state s \<in> {RsReady, RsClosing} \<longrightarrow> rv_database_id s \<noteq> None)
      \<and> (rv_state s = RsClosed \<longrightarrow> rv_database_id s = None \<and> rv_error s = None)
      \<and> (rv_state s = RsError \<longrightarrow> rv_error s \<noteq> None))
    \<and> (\<forall>i. im_sessions m i = None \<longrightarrow> im_database_ids m i = None)
    \<and> one_reusable m"
proof -
  have cell: "cell_ok i (im_sessions m i) (im_database_ids m i)" for i
    using ida_reachable_ok[OF assms] by (simp add: ida_ok_def)
  have s: "rv_id s = i \<and> im_database_ids m i = rv_database_id s
      \<and> (rv_state s = RsStarting \<longrightarrow> rv_database_id s = None)
      \<and> (rv_state s \<in> {RsReady, RsClosing} \<longrightarrow> rv_database_id s \<noteq> None)
      \<and> (rv_state s = RsClosed \<longrightarrow> rv_database_id s = None \<and> rv_error s = None)
      \<and> (rv_state s = RsError \<longrightarrow> rv_error s \<noteq> None)" if "im_sessions m i = Some s" for i s
    using cell[of i] that by (auto simp: cell_ok_def)
  have n: "im_database_ids m i = None" if "im_sessions m i = None" for i
    using cell[of i] that by (simp add: cell_ok_def)
  from s n reachable_one_reusable[OF assms] show ?thesis by blast
qed

lemma ida_sessions_consistent_witness: "im_database_ids ida_demo 7 = Some [100, 98] \<and> one_reusable ida_demo"
proof -
  obtain s where s: "im_sessions ida_demo 7 = Some s" "rv_database_id s = Some [100, 98]"
    using ida_demo_keys by (auto simp: ida_keys_def key_of_def)
  then show ?thesis using ida_sessions_consistent[OF ida_demo_reachable] by auto
qed

text \<open>A session that is bound keeps its database until it is closed; a closed one stays as it is.\<close>

lemma key_path_closed: "key_step\<^sup>*\<^sup>* k k' \<Longrightarrow> k = Some (t, RsClosed, db) \<Longrightarrow> k' = k"
  by (induction rule: rtranclp_induct) (auto elim: closed_key_step)

lemma key_path_database:
  "key_step\<^sup>*\<^sup>* k k' \<Longrightarrow> k = Some (t, st, Some db) \<Longrightarrow> k' = Some (t, RsClosed, None) \<or> (\<exists>st'. k' = Some (t, st', Some db))"
  by (induction rule: rtranclp_induct) (auto elim!: key_step.cases)

text \<open>
  C27. The manager refines the life of a session as long as each of its operations ends before the next one begins:
  from any state that is reached so, whatever operations follow one another, each session only moves along the steps started, opened, open failed, lost, closing, restored, closed.
  In particular its target never changes, a database once bound is kept until the session is closed, and
  a closed session stays closed.
\<close>

theorem ida_manager_refines_life:
  assumes "ida_reachable e m" "(ida_step e)\<^sup>*\<^sup>* m m'"
  shows "key_step\<^sup>*\<^sup>* (ida_keys m i) (ida_keys m' i)
    \<and> (\<forall>t st db. ida_keys m i = Some (t, st, Some db) \<longrightarrow>
         ida_keys m' i = Some (t, RsClosed, None) \<or> (\<exists>st'. ida_keys m' i = Some (t, st', Some db)))
    \<and> (\<forall>t db. ida_keys m i = Some (t, RsClosed, db) \<longrightarrow> ida_keys m' i = ida_keys m i)"
proof -
  have path: "key_step\<^sup>*\<^sup>* (ida_keys m i) (ida_keys m' i)"
    using run_advances[OF assms(2) ida_reachable_ok[OF assms(1)]] by (simp add: advances_def)
  with key_path_database[OF path] key_path_closed[OF path] show ?thesis by blast
qed

lemma ida_manager_refines_life_witness:
  "\<exists>st. ida_keys (snd (close_session_with_save ida_demo_env 7 False ida_demo)) 7 \<in>
     {Some (Binary [97], RsClosed, None), Some (Binary [97], st, Some [100, 98])}"
  using ida_manager_refines_life[OF ida_demo_reachable r_into_rtranclp[of "ida_step ida_demo_env", OF ida_step.close], of 7 7 False]
    ida_demo_keys by blast

lemma call_bound_calls:
  "im_calls (snd (call_bound e i tool args db m)) = im_calls m @ [UpstreamCall db tool args]"
proof -
  obtain r m1 where c: "upstream_call e db tool args m = (r, m1)" by fastforce
  then have m1: "im_calls m1 = im_calls m @ [UpstreamCall db tool args]"
    by (auto simp: upstream_call_def split: prod.splits)
  have "im_calls (snd (call_failed i tool req err m1)) = im_calls m1" for req err
    unfolding call_failed_def Let_def
    by (rule calls_try) (auto intro!: calls_try simp: calls_simps upstream_tool_failed_def)
  moreover have "im_calls (snd (call_answered e i tool req res m1)) = im_calls m1" for req res
    unfolding call_answered_def
    by (rule calls_try, rule calls_tool_output)
      (auto intro!: calls_try simp: calls_simps upstream_tool_failed_def Let_def split: prod.split)
  ultimately show ?thesis using m1 by (simp add: call_bound_def c split: sum.split)
qed

text \<open>
  C29. A tool call reaches the upstream server only for an exposed tool, without a database of the client's
  choosing, and only when the session was ready, and then with exactly the arguments of the client and the
  database of that very session. Otherwise, apart from at most one look at the list of upstream
  sessions, nothing is sent and the call fails.
\<close>

theorem call_upstream_tool_isolated:
  assumes r: "ida_reachable e m" and call: "call_upstream_tool e tool request m = (res, m')"
  shows "\<exists>k made. im_calls m' = im_calls m @ replicate k UpstreamList @ made \<and> k \<le> 1
    \<and> (made = [] \<and> (\<exists>err. res = Inl err)
       \<or> (\<exists>s db. made = [UpstreamCall db tool (uq_arguments request)]
            \<and> im_sessions m (uq_session_id request) = Some s \<and> rv_state s = RsReady \<and> rv_database_id s = Some db
            \<and> is_allowed_upstream_tool tool \<and> bt_get (uq_arguments request) (chars ''database'') = None))"
proof -
  define i where "i = uq_session_id request"
  note ok = ida_reachable_ok[OF r]
  have early: ?thesis if "res = Inl err" "listed 1 m m'" for err
    using that by (auto simp: listed_def intro!: exI[of _ "[]"])
  obtain a m1 where l: "lock_operation i m = (a, m1)" by fastforce
  then have q1: "quiet m m1" "im_calls m1 = im_calls m" using quiet_lock calls_lock by (metis snd_conv)+
  obtain b m2 where g: "ida_get_session e i m1 = (b, m2)" by fastforce
  have l2: "listed 1 m m2" using get_listed[OF g] q1(2) by (simp add: listed_def)
  show ?thesis
  proof (cases "is_allowed_upstream_tool tool \<and> bt_get (uq_arguments request) (chars ''database'') = None
      \<and> a = Inr () \<and> (\<exists>s. b = Inr s \<and> rv_state s = RsReady) \<and> (\<exists>db. ida_database_id i m2 = Inr db)")
    case False
    have "(\<exists>err. res = Inl err) \<and> (m' = m \<or> m' = m1 \<or> m' = m2)"
      using call False unfolding call_upstream_tool_def i_def[symmetric] l ensure_ready_def
      by (auto simp: try_then_def g split: if_splits sum.splits reverse_session_state.splits)
    then show ?thesis using early l2 q1(2) by (auto intro: listed_same[OF listed_refl])
  next
    case True
    then obtain s db where s: "b = Inr s" "rv_state s = RsReady" and db: "ida_database_id i m2 = Inr db" by blast
    have b: "call_bound e i tool (uq_arguments request) db m2 = (res, m')"
      using call True unfolding call_upstream_tool_def i_def[symmetric] l ensure_ready_def
      by (simp add: g s db)
    have calls: "im_calls m' = im_calls m2 @ [UpstreamCall db tool (uq_arguments request)]"
      using call_bound_calls[of e i tool "uq_arguments request" db m2] b by simp
    obtain s0 where s0: "im_sessions m i = Some s0" "key_of s0 = key_of s"
      using get_key[OF g[unfolded s(1)]] s(2) q1(1) by (auto simp: quiet_def)
    have "im_database_ids m i = Some db"
      using db get_session_dbs[OF g] q1(1) by (auto simp: ida_database_id_def quiet_def split: if_splits option.splits)
    with bound_state[OF ok s0(1)] s0 s(2) have "rv_state s0 = RsReady" "rv_database_id s0 = Some db"
      by (auto simp: key_of_def)
    moreover obtain k where "k \<le> 1" "im_calls m2 = im_calls m @ replicate k UpstreamList"
      using l2 by (auto simp: listed_def)
    ultimately show ?thesis
      using True calls s0(1)
      by (intro exI[of _ k] exI[of _ "[UpstreamCall db tool (uq_arguments request)]"]) (auto simp: i_def)
  qed
qed

definition ida_demo_call :: upstream_ida_tool_request where
  "ida_demo_call = \<lparr>uq_session_id = 7, uq_arguments = []\<rparr>"

lemma call_upstream_tool_isolated_witness:
  "\<exists>k made. im_calls (snd (call_upstream_tool ida_demo_env (chars ''decompile'') ida_demo_call ida_demo))
     = im_calls ida_demo @ replicate k UpstreamList @ made \<and> k \<le> 1
     \<and> set made \<subseteq> {UpstreamCall [100, 98] (chars ''decompile'') []}"
proof -
  obtain res m' where c: "call_upstream_tool ida_demo_env (chars ''decompile'') ida_demo_call ida_demo = (res, m')" by fastforce
  from call_upstream_tool_isolated[OF ida_demo_reachable c]
  obtain k made where k: "im_calls m' = im_calls ida_demo @ replicate k UpstreamList @ made" "k \<le> 1"
    and "made = [] \<or> (\<exists>s db. made = [UpstreamCall db (chars ''decompile'') []] \<and> im_sessions ida_demo 7 = Some s
      \<and> rv_database_id s = Some db)"
    unfolding ida_demo_call_def by auto
  then have "set made \<subseteq> {UpstreamCall [100, 98] (chars ''decompile'') []}"
    using ida_demo_keys by (auto simp: ida_keys_def key_of_def)
  with k show ?thesis by (intro exI[of _ k] exI[of _ made]) (simp add: c)
qed

text \<open>
  C30. A close that succeeds leaves the session closed, without error and unbound, and it was bound
  before; the upstream server was asked to save exactly that session's database, once, if the client
  wanted that, and nothing else but its list was asked for. A close that fails never closes a session.
\<close>

theorem close_session_outcome:
  assumes r: "ida_reachable e m" and c: "close_session_with_save e i save m = (res, m')"
  shows "case res of
     Inr s \<Rightarrow> im_sessions m' i = Some s \<and> rv_state s = RsClosed \<and> rv_error s = None \<and> im_database_ids m' i = None
       \<and> (\<exists>db. im_database_ids m i = Some db
            \<and> (\<exists>k \<le> 2. im_calls m' = im_calls m @ replicate k UpstreamList
                 @ (if save then [UpstreamCall db UPSTREAM_IDB_SAVE []] else [])))
   | Inl _ \<Rightarrow> (\<forall>s'. im_sessions m' i = Some s' \<longrightarrow> rv_state s' = RsClosed \<longrightarrow>
       (\<exists>s. im_sessions m i = Some s \<and> rv_state s = RsClosed))"
proof -
  note ok = ida_reachable_ok[OF r]
  define R where "R = (\<exists>s. im_sessions m i = Some s \<and> rv_state s = RsClosed)"
  have R: "closed_before i R m" by (auto simp: R_def closed_before_def)
  obtain a m1 where l: "lock_operation i m = (a, m1)" by fastforce
  then have q1: "quiet m m1" "im_calls m1 = im_calls m" using quiet_lock calls_lock by (metis snd_conv)+
  obtain b m2 where g: "ida_get_session e i m1 = (b, m2)" by fastforce
  have ok1: "ida_ok m1" using evolves_ok[OF quiet_evolves[OF ok q1(1)]] .
  have ok2: "ida_ok m2" using evolves_ok[OF get_session_evolves[OF ok1, of i e]] g by simp
  have R1: "closed_before i R m1" by (rule closed_before_quiet[OF R q1(1)])
  have R2: "closed_before i R m2" by (rule closed_before_get[OF g R1])
  show ?thesis
  proof (cases "a = Inr () \<and> (\<exists>s. b = Inr s \<and> rv_state s \<noteq> RsClosed) \<and> (\<exists>db. ida_database_id i m2 = Inr db)")
    case False
    have "(\<exists>err. res = Inl err) \<and> (m' = m1 \<or> m' = m2)"
      using c False unfolding close_session_with_save_def l by (auto simp: try_then_def g split: if_splits sum.splits)
    then show ?thesis using R1 R2 by (auto simp: closed_before_def R_def)
  next
    case True
    then obtain s db where s: "b = Inr s" "rv_state s \<noteq> RsClosed" and db: "ida_database_id i m2 = Inr db" by blast
    have d2: "im_database_ids m2 i = Some db" using db by (auto simp: ida_database_id_def split: if_splits option.splits)
    have st: "rv_state s \<in> {RsReady, RsClosing, RsError}"
      using bound_state[OF ok2 _ d2] get_session_Inr[OF g[unfolded s(1)]] by simp
    have b: "close_bound e i save (rv_state s) db m2 = (res, m')"
      using c True unfolding close_session_with_save_def l by (simp add: g s db)
    from close_bound_result[OF ok2 d2 st b R2]
    show ?thesis
    proof (cases res)
      case (Inr s')
      then obtain k where k: "im_sessions m' i = Some s'" "rv_state s' = RsClosed" "k \<le> 1"
        "im_calls m' = im_calls m2 @ replicate k UpstreamList @ (if save then [UpstreamCall db UPSTREAM_IDB_SAVE []] else [])"
        using close_bound_result[OF ok2 d2 st b R2] by auto
      have "ida_ok m'" using evolves_ok[OF close_session_evolves[OF ok, of i e save]] c by simp
      from cell_of_ok[OF this, of i] k(1,2) have fin: "rv_error s' = None" "im_database_ids m' i = None"
        by (auto simp: cell_ok_def)
      have d: "im_database_ids m i = Some db" using d2 get_session_dbs[OF g] q1(1) by (simp add: quiet_def)
      obtain k' where "k' \<le> 1" "im_calls m2 = im_calls m @ replicate k' UpstreamList"
        using get_listed[OF g] q1(2) by (auto simp: listed_def)
      with k have "\<exists>j \<le> 2. im_calls m' = im_calls m @ replicate j UpstreamList
          @ (if save then [UpstreamCall db UPSTREAM_IDB_SAVE []] else [])"
        by (intro exI[of _ "k' + k"]) (auto simp: replicate_add)
      with Inr k(1,2) fin d show ?thesis by auto
    qed (auto simp: closed_before_def R_def)
  qed
qed

lemma close_session_outcome_witness:
  "case close_session_with_save ida_demo_env 7 False ida_demo of
     (Inr s, m') \<Rightarrow> im_sessions m' 7 = Some s \<and> rv_state s = RsClosed \<and> im_database_ids m' 7 = None
   | (Inl _, m') \<Rightarrow> \<forall>s. im_sessions m' 7 = Some s \<longrightarrow> rv_state s \<noteq> RsClosed"
proof -
  obtain res m' where c: "close_session_with_save ida_demo_env 7 False ida_demo = (res, m')" by fastforce
  from close_session_outcome[OF ida_demo_reachable c] ida_demo_keys show ?thesis
    by (auto simp: c ida_keys_def key_of_def split: sum.splits)
qed

section \<open>Output files\<close>

definition plain_char :: "char \<Rightarrow> bool" where
  "plain_char c = (let n = of_char c :: nat in 45 \<le> n \<and> n \<noteq> 47 \<and> n \<noteq> 92 \<and> n \<le> 122)"

lemma plain_hex_digit: "n < 16 \<Longrightarrow> plain_char (hex_digit n)"
  using less_16_cases[of n] by (auto simp: plain_char_def hex_digit_def)

lemma plain_hex_min: "\<forall>c \<in> set (hex_min n). plain_char c"
proof (induction n rule: hex_min.induct)
  case (1 n)
  then show ?case
    by (subst hex_min.simps) (auto simp: plain_hex_digit)
qed

lemma plain_output_char: "plain_char (output_char c)"
  by (auto simp: plain_char_def output_char_def is_ascii_alphabetic_def)

lemma plain_name_ok:
  assumes "name \<noteq> []" "\<forall>c \<in> set name. plain_char c"
  shows "artifact_name_ok name"
  using assms by (auto simp: artifact_name_ok_def plain_char_def is_control_def Let_def)

text \<open>
  No tool output overwrites another and none leaves its directory: every name the manager makes is
  accepted by the artifact store, and the names of two outputs differ, whatever the tools are called, as
  long as fewer than \<open>2^64\<close> outputs lie between them.
\<close>

theorem output_names_unique:
  "artifact_name_ok (fst (unique_output_name base m))
   \<and> im_sequence (snd (unique_output_name base m)) = im_sequence m + 1
   \<and> (\<forall>k m' base'. 0 < k \<longrightarrow> k < 2 ^ 64 \<longrightarrow> im_sequence m' = im_sequence m + of_nat k \<longrightarrow>
        fst (unique_output_name base' m') \<noteq> fst (unique_output_name base m))"
proof -
  have len: "length (hex_pad 16 (unat w)) = 16" for w :: "64 word"
    using unsigned_less[of w] by (intro length_hex_pad) simp_all
  have ok: "artifact_name_ok (fst (unique_output_name base m))"
    using plain_hex_min[of "unat (im_sequence m)"]
    by (intro plain_name_ok) (auto simp: unique_output_name_def hex_pad_def plain_output_char, simp_all add: plain_char_def)
  have "fst (unique_output_name base' m') \<noteq> fst (unique_output_name base m)"
    if "0 < k" "k < 2 ^ 64" "im_sequence m' = im_sequence m + of_nat k" for k m' base'
  proof
    assume "fst (unique_output_name base' m') = fst (unique_output_name base m)"
    then have "take 16 (fst (unique_output_name base' m')) = take 16 (fst (unique_output_name base m))" by simp
    then have "hex_pad 16 (unat (im_sequence m')) = hex_pad 16 (unat (im_sequence m))"
      by (simp add: unique_output_name_def len)
    then have "unat (im_sequence m') = unat (im_sequence m)" by (metis hex_read_pad)
    then have "im_sequence m' = im_sequence m" by (simp only: word_unat_eq_iff)
    then have "(of_nat k :: 64 word) = 0" using that(3) by simp
    then show False using that(1,2) by (auto simp: word_of_nat_eq_0_iff dest: dvd_imp_le)
  qed
  moreover have "im_sequence (snd (unique_output_name base m)) = im_sequence m + 1"
    by (simp add: unique_output_name_def)
  ultimately show ?thesis using ok by blast
qed

lemma output_names_unique_witness:
  "artifact_name_ok (fst (unique_output_name [97] ida_demo_new))
   \<and> fst (unique_output_name [97] (snd (unique_output_name [97] ida_demo_new)))
     \<noteq> fst (unique_output_name [97] ida_demo_new)"
proof -
  have p: "artifact_name_ok (fst (unique_output_name [97] ida_demo_new))"
    "im_sequence (snd (unique_output_name [97] ida_demo_new)) = im_sequence ida_demo_new + of_nat 1"
    "\<And>k m' base'. 0 < k \<Longrightarrow> k < 2 ^ 64 \<Longrightarrow> im_sequence m' = im_sequence ida_demo_new + of_nat k \<Longrightarrow>
       fst (unique_output_name base' m') \<noteq> fst (unique_output_name [97] ida_demo_new)"
    using output_names_unique[of "[97]" ida_demo_new] by (simp_all only: of_nat_1 simp_thms) blast+
  with p(3)[OF _ _ p(2)] show ?thesis by simp
qed

section \<open>What is exposed\<close>

lemma starts_chars: "starts_with_text (chars t) (chars p) = starts_with_text t p"
  by (auto simp: starts_with_text_iff chars_def map_eq_append_conv inj_map_eq_map inj_on_def)

lemma of_char_neq: "x \<noteq> y \<Longrightarrow> (of_char x :: nat) \<noteq> of_char y"
  by (metis char_of_char)

lemma no_newline: "CHR 0x0A \<notin> set t \<Longrightarrow> \<forall>c \<in> set (chars t). c \<noteq> 10"
proof
  fix c assume "CHR 0x0A \<notin> set t" "c \<in> set (chars t)"
  then obtain x where x: "x \<in> set t" "c = of_char x" "x \<noteq> CHR 0x0A" by (auto simp: chars_def)
  then show "c \<noteq> 10" using of_char_neq[of x "CHR 0x0A"] by simp
qed

lemma no_forbidden_tool:
  "list_all (\<lambda>t. t \<noteq> ''py_exec_file'' \<and> t \<noteq> ''idb_open'' \<and> t \<noteq> ''idb_list'' \<and> \<not> starts_with_text t ''dbg_''
     \<and> CHR 0x0A \<notin> set t \<and> t \<noteq> [] \<and> hd t \<noteq> CHR ''#'') DEFAULT_UPSTREAM_TOOLS"
  by code_simp

lemma split_lines:
  assumes "\<And>t. t \<in> set ts \<Longrightarrow> CHR 0x0A \<notin> set t"
  shows "split_on (\<lambda>c. c = 10) (concat (map (\<lambda>t. chars t @ [10]) ts)) = map chars ts @ [[]]"
  using assms
proof (induction ts)
  case (Cons t ts)
  then have "\<forall>c \<in> set (chars t). c \<noteq> 10" by (intro no_newline) simp
  then have "split_on (\<lambda>c. c = 10) (chars t @ 10 # concat (map (\<lambda>t. chars t @ [10]) ts))
      = chars t # split_on (\<lambda>c. c = 10) (concat (map (\<lambda>t. chars t @ [10]) ts))"
    by (intro split_on_prefix) auto
  with Cons show ?case by simp
qed simp

text \<open>
  Opening and listing databases, running a script file and the debugger can never be reached as tools
  of the client, whatever the upstream server offers: the exposed tools are exactly those of the fixed list,
  and the same list is what the server falls back to and what the upstream profile enables line by line.
\<close>

theorem exposed_tools:
  "(is_allowed_upstream_tool tool \<longleftrightarrow> tool \<in> chars ` set DEFAULT_UPSTREAM_TOOLS)
   \<and> \<not> is_allowed_upstream_tool (chars ''py_exec_file'') \<and> \<not> is_allowed_upstream_tool UPSTREAM_IDB_OPEN
   \<and> \<not> is_allowed_upstream_tool UPSTREAM_IDB_LIST \<and> \<not> is_allowed_upstream_tool (chars ''dbg_'' @ rest_of_name)
   \<and> map ut_name fallback_tool_descriptors = map chars DEFAULT_UPSTREAM_TOOLS
   \<and> filter (\<lambda>l. l \<noteq> [] \<and> hd l \<noteq> 35) (split_on (\<lambda>c. c = 10) default_profile_text) = map chars DEFAULT_UPSTREAM_TOOLS"
proof -
  have tools: "t \<noteq> ''py_exec_file'' \<and> t \<noteq> ''idb_open'' \<and> t \<noteq> ''idb_list'' \<and> \<not> starts_with_text t ''dbg_''
     \<and> CHR 0x0A \<notin> set t \<and> t \<noteq> [] \<and> hd t \<noteq> CHR ''#''" if "t \<in> set DEFAULT_UPSTREAM_TOOLS" for t
    using no_forbidden_tool that by (simp add: list_all_iff)
  have allowed: "is_allowed_upstream_tool tool \<longleftrightarrow> tool \<in> chars ` set DEFAULT_UPSTREAM_TOOLS"
    using tools by (auto simp: is_allowed_upstream_tool_def UPSTREAM_IDB_OPEN_def UPSTREAM_IDB_LIST_def starts_chars)
  have head: "\<forall>c \<in> set (chars ''# dbgflow default ida-pro-mcp profile''). c \<noteq> 10"
    "\<forall>c \<in> set (chars ''# Generated by dbgflow; debugger tools and py_exec_file are intentionally excluded.''). c \<noteq> 10"
    by (rule no_newline, simp)+
  have "split_on (\<lambda>c. c = 10) default_profile_text
      = [chars ''# dbgflow default ida-pro-mcp profile'',
         chars ''# Generated by dbgflow; debugger tools and py_exec_file are intentionally excluded.'', []]
        @ map chars DEFAULT_UPSTREAM_TOOLS @ [[]]"
    using split_lines[of DEFAULT_UPSTREAM_TOOLS] tools head
    by (simp add: default_profile_text_def split_on_prefix)
  moreover have "filter (\<lambda>l. l \<noteq> [] \<and> hd l \<noteq> 35) (map chars DEFAULT_UPSTREAM_TOOLS) = map chars DEFAULT_UPSTREAM_TOOLS"
  proof (intro filter_True ballI)
    fix x assume "x \<in> set (map chars DEFAULT_UPSTREAM_TOOLS)"
    then obtain t where t: "t \<in> set DEFAULT_UPSTREAM_TOOLS" "x = chars t" by auto
    then have "x \<noteq> []" "hd x = of_char (hd t)" "hd t \<noteq> CHR ''#''" using tools[OF t(1)] by (simp_all add: chars_def hd_map)
    moreover from this(2,3) have "hd x \<noteq> 35" using of_char_neq[of "hd t" "CHR ''#''"] by simp
    ultimately show "x \<noteq> [] \<and> hd x \<noteq> 35" by simp
  qed
  ultimately have profile: "filter (\<lambda>l. l \<noteq> [] \<and> hd l \<noteq> 35) (split_on (\<lambda>c. c = 10) default_profile_text)
      = map chars DEFAULT_UPSTREAM_TOOLS"
    by (simp add: chars_def hd_map)
  have "starts_with_text (chars ''dbg_'' @ rest_of_name) (chars ''dbg_'')" by (simp add: starts_with_text_iff)
  with allowed profile show ?thesis
    by (simp add: is_allowed_upstream_tool_def fallback_tool_descriptors_def comp_def)
qed

end
