(* ===== verification/Worker_Protocol.thy ===== *)
theory Worker_Protocol
  imports Session_Eval Launch
begin

text \<open>
  The message protocol between the server and the worker process of a session
  (\<open>dbgflow-debug/src/session/worker.rs\<close>): the server's side, which writes a request and reads frames
  until the response, and the worker's side, which answers one request after the other from a backend.
  A line of a pipe stands as what \<open>serde_json\<close> makes of it: a frame, or the text of a parse error.
\<close>

section \<open>Frames\<close>

record create_backend_session =
  cb_target :: debug_target
  cb_correlation_id :: "string option"
  cb_symbol_path :: "string option"
  cb_launch_context :: process_launch_context

datatype worker_request =
    CreateRequest create_backend_session
  | ExecuteRequest utext
  | CloseRequest

fun method_name :: "worker_request \<Rightarrow> string" where
  "method_name (CreateRequest _) = ''create_session''"
| "method_name (ExecuteRequest _) = ''execute''"
| "method_name CloseRequest = ''close_session''"

record worker_input =
  wi_request_id :: u64
  wi_request :: worker_request

datatype worker_result =
    SessionCreated worker_session
  | Executed utext "string list" "backend_execution_state option"
  | WorkerClosed

fun result_name :: "worker_result \<Rightarrow> string" where
  "result_name (SessionCreated _) = ''session_created''"
| "result_name (Executed _ _ _) = ''executed''"
| "result_name WorkerClosed = ''closed''"

datatype worker_error = Structured string "utext option" | Legacy string

text \<open>\<open>ExecuteBackendFailure\<close>.\<close>

record execute_failure =
  ef_error :: dbgflow_error
  ef_partial_output :: "utext option"

definition failure_of :: "dbgflow_error \<Rightarrow> execute_failure" where
  "failure_of e = \<lparr>ef_error = e, ef_partial_output = None\<rparr>"

definition with_partial_output :: "dbgflow_error \<Rightarrow> utext \<Rightarrow> execute_failure" where
  "with_partial_output e out = \<lparr>ef_error = e, ef_partial_output = Some out\<rparr>"

definition from_failure :: "(session_id \<Rightarrow> string) \<Rightarrow> execute_failure \<Rightarrow> worker_error" where
  "from_failure show_id f = Structured (error_text show_id (ef_error f)) (ef_partial_output f)"

fun into_execute_failure :: "worker_error \<Rightarrow> execute_failure" where
  "into_execute_failure (Structured message (Some out)) = with_partial_output (Backend message) out"
| "into_execute_failure (Structured message None) = failure_of (Backend message)"
| "into_execute_failure (Legacy message) = failure_of (Backend message)"

datatype worker_output =
    Response u64 "worker_result option" "worker_error option"
  | LogFrame log_event
  | StateChanged backend_execution_event

section \<open>The server's side\<close>

text \<open>
  A worker process as the server sees it: the lines that will still come from it and what comes after
  them (the end of the pipe, or a failing read), what was written to it, what polling, terminating and
  waiting for it give, and what was logged, reported and terminated.
\<close>

record worker_client =
  cl_session :: session_id
  cl_pid_text :: string
  cl_next_id :: u64
  cl_incoming :: "(string + worker_output) list"
  cl_read_error :: "string option"
  cl_sent :: "worker_input list"
  cl_write_error :: "string option"
  cl_request_poisoned :: bool
  cl_stdin_poisoned :: bool
  cl_stdout_poisoned :: bool
  cl_child_poisoned :: bool
  cl_poll :: "string + bool"
  cl_kill :: "string option"
  cl_wait :: "string option"
  cl_logs :: "log_event list"
  cl_events :: "backend_execution_event list"
  cl_killed :: "string list"

type_synonym 'a exec_result = "execute_failure + 'a"

definition client_log :: "log_level \<Rightarrow> string \<Rightarrow> string option \<Rightarrow> worker_client \<Rightarrow> worker_client" where
  "client_log level event error c =
     c\<lparr>cl_logs := cl_logs c @ [\<lparr>lg_level = level, lg_event = event, lg_session = Some (cl_session c), lg_error = error\<rparr>]\<rparr>"

definition worker_has_exited :: "worker_client \<Rightarrow> bool result" where
  "worker_has_exited c =
     (if cl_child_poisoned c then Inl (Backend ''worker child lock poisoned'')
      else case cl_poll c of
        Inl e \<Rightarrow> Inl (Backend (''poll worker failed: '' @ e))
      | Inr exited \<Rightarrow> Inr exited)"

text \<open>\<open>log_worker_request_failed\<close> and the return that follows it everywhere.\<close>

definition request_failed :: "(session_id \<Rightarrow> string) \<Rightarrow> execute_failure \<Rightarrow> worker_client \<Rightarrow> 'a exec_result \<times> worker_client" where
  "request_failed show_id f c =
     (Inl f, client_log LogError ''worker_request_failed'' (Some (error_text show_id (ef_error f))) c)"

definition response_received ::
    "(session_id \<Rightarrow> string) \<Rightarrow> (u64 \<Rightarrow> string) \<Rightarrow> u64 \<Rightarrow> u64 \<Rightarrow> worker_result option \<Rightarrow> worker_error option \<Rightarrow> worker_client
       \<Rightarrow> worker_result exec_result \<times> worker_client" where
  "response_received show_id show_n request_id response_id res err c =
     (if response_id \<noteq> request_id
      then request_failed show_id (failure_of (Backend (''unexpected worker response id: expected ''
             @ show_n request_id @ '', got '' @ show_n response_id))) c
      else case err of
        Some e \<Rightarrow> request_failed show_id (into_execute_failure e) c
      | None \<Rightarrow>
          (case res of
             None \<Rightarrow> request_failed show_id (failure_of (Backend ''worker response missing result'')) c
           | Some r \<Rightarrow> (Inr r, client_log Info ''worker_request_finished'' None c)))"

text \<open>The loop that reads frames, over the lines still to come; \<open>sink\<close> tells whether events are wanted.\<close>

fun await_response ::
    "(session_id \<Rightarrow> string) \<Rightarrow> (u64 \<Rightarrow> string) \<Rightarrow> u64 \<Rightarrow> bool \<Rightarrow> (string + worker_output) list \<Rightarrow> worker_client
       \<Rightarrow> worker_result exec_result \<times> worker_client" where
  "await_response show_id show_n i sink [] c =
     (let c = c\<lparr>cl_incoming := []\<rparr> in
      case cl_read_error c of
        Some e \<Rightarrow> request_failed show_id (failure_of (Backend (''read worker response failed: '' @ e))) c
      | None \<Rightarrow> request_failed show_id (failure_of (Backend (''session worker process exited before response: pid ''
          @ cl_pid_text c))) c)"
| "await_response show_id show_n i sink (line # lines) c =
     (let c = c\<lparr>cl_incoming := lines\<rparr> in
      case line of
        Inl e \<Rightarrow> request_failed show_id (failure_of (Backend (''parse worker response failed: '' @ e))) c
      | Inr (LogFrame event) \<Rightarrow> await_response show_id show_n i sink lines (c\<lparr>cl_logs := cl_logs c @ [event]\<rparr>)
      | Inr (StateChanged event) \<Rightarrow>
          await_response show_id show_n i sink lines (if sink then c\<lparr>cl_events := cl_events c @ [event]\<rparr> else c)
      | Inr (Response response_id res err) \<Rightarrow> response_received show_id show_n i response_id res err c)"

definition request_with_event_sink ::
    "(session_id \<Rightarrow> string) \<Rightarrow> (u64 \<Rightarrow> string) \<Rightarrow> worker_request \<Rightarrow> bool \<Rightarrow> worker_client
       \<Rightarrow> worker_result exec_result \<times> worker_client" where
  "request_with_event_sink show_id show_n request sink c =
     (if cl_request_poisoned c then (Inl (failure_of (Backend ''worker request lock poisoned'')), c)
      else case worker_has_exited c of
        Inl e \<Rightarrow> (Inl (failure_of e), c)
      | Inr True \<Rightarrow> (Inl (failure_of (Backend (''session worker process already exited: pid '' @ cl_pid_text c))), c)
      | Inr False \<Rightarrow>
          (let i = cl_next_id c;
               c = client_log Info ''worker_request_started'' None (c\<lparr>cl_next_id := i + 1\<rparr>)
           in if cl_stdin_poisoned c then (Inl (failure_of (Backend ''worker stdin lock poisoned'')), c)
              else case cl_write_error c of
                Some e \<Rightarrow> request_failed show_id (failure_of (Backend e)) c
              | None \<Rightarrow>
                  (let c = c\<lparr>cl_sent := cl_sent c @ [\<lparr>wi_request_id = i, wi_request = request\<rparr>]\<rparr>
                   in if cl_stdout_poisoned c then (Inl (failure_of (Backend ''worker stdout lock poisoned'')), c)
                      else await_response show_id show_n i sink (cl_incoming c) c)))"

definition without_output :: "'a exec_result \<times> worker_client \<Rightarrow> 'a result \<times> worker_client" where
  "without_output r = (case r of (Inl f, c) \<Rightarrow> (Inl (ef_error f), c) | (Inr x, c) \<Rightarrow> (Inr x, c))"

definition worker_create_session ::
    "(session_id \<Rightarrow> string) \<Rightarrow> (u64 \<Rightarrow> string) \<Rightarrow> (worker_result \<Rightarrow> string) \<Rightarrow> create_backend_session \<Rightarrow> worker_client
       \<Rightarrow> worker_session result \<times> worker_client" where
  "worker_create_session show_id show_n debug request c =
     (case without_output (request_with_event_sink show_id show_n (CreateRequest request) False c) of
        (Inl e, c) \<Rightarrow> (Inl e, c)
      | (Inr (SessionCreated ws), c) \<Rightarrow> (Inr ws, c)
      | (Inr other, c) \<Rightarrow> (Inl (Backend (''unexpected worker create response: '' @ debug other)), c))"

definition worker_execute ::
    "(session_id \<Rightarrow> string) \<Rightarrow> (u64 \<Rightarrow> string) \<Rightarrow> (worker_result \<Rightarrow> string) \<Rightarrow> utext \<Rightarrow> worker_client
       \<Rightarrow> exec_outcome \<times> worker_client" where
  "worker_execute show_id show_n debug command c =
     (case request_with_event_sink show_id show_n (ExecuteRequest command) True c of
        (Inl f, c) \<Rightarrow> (ExecFailed (ef_error f) (ef_partial_output f), c)
      | (Inr (Executed out warnings final_state), c) \<Rightarrow> (ExecOk out warnings final_state, c)
      | (Inr other, c) \<Rightarrow> (ExecFailed (Backend (''unexpected worker execute response: '' @ debug other)) None, c))"

section \<open>Stopping a worker\<close>

definition worker_kill :: "string \<Rightarrow> worker_client \<Rightarrow> unit result \<times> worker_client" where
  "worker_kill reason c =
     (if cl_child_poisoned c then (Inl (Backend ''worker child lock poisoned''), c)
      else case cl_poll c of
        Inl e \<Rightarrow> (Inl (Backend (''poll worker failed: '' @ e)), c)
      | Inr True \<Rightarrow> (Inr (), client_log Info ''worker_already_exited'' None c)
      | Inr False \<Rightarrow>
          (let c = client_log Warn ''worker_terminate_requested'' None c in
           case cl_kill c of
             Some e \<Rightarrow> (Inl (Backend (''terminate worker failed: '' @ e)), c)
           | None \<Rightarrow>
               (let c = c\<lparr>cl_poll := Inr True, cl_killed := cl_killed c @ [reason]\<rparr> in
                case cl_wait c of
                  Some e \<Rightarrow> (Inl (Backend (''wait worker failed: '' @ e)), c)
                | None \<Rightarrow> (Inr (), client_log Info ''worker_terminated'' None c))))"

text \<open>
  \<open>wait_for_exit_or_kill\<close>: \<open>polls n\<close> is what the \<open>n\<close>-th look at the process gives and \<open>elapsed n\<close> the time
  in milliseconds that has passed then; \<open>kill\<close> looks once more. The loop has no bound of its own; \<open>fuel\<close> counts its rounds, and
  \<open>None\<close> says that there were not enough.
\<close>

fun wait_for_exit_or_kill ::
    "nat \<Rightarrow> (nat \<Rightarrow> string + bool) \<Rightarrow> (nat \<Rightarrow> nat) \<Rightarrow> nat \<Rightarrow> string \<Rightarrow> nat \<Rightarrow> worker_client \<Rightarrow> (unit result \<times> worker_client) option" where
  "wait_for_exit_or_kill 0 polls elapsed n reason timeout c = None"
| "wait_for_exit_or_kill (Suc fuel) polls elapsed n reason timeout c =
     (let c = c\<lparr>cl_poll := polls n\<rparr> in
      case worker_has_exited c of
        Inl e \<Rightarrow> Some (Inl e, c)
      | Inr True \<Rightarrow> Some (Inr (), client_log Info ''worker_exited'' None c)
      | Inr False \<Rightarrow>
          if timeout \<le> elapsed n then Some (worker_kill reason (c\<lparr>cl_poll := polls (Suc n)\<rparr>))
          else wait_for_exit_or_kill fuel polls elapsed (Suc n) reason timeout c)"

definition CLOSE_REQUEST_TIMEOUT :: nat where "CLOSE_REQUEST_TIMEOUT = 10000"
definition EXIT_WAIT_TIMEOUT :: nat where "EXIT_WAIT_TIMEOUT = 2000"
definition POLL_INTERVAL :: nat where "POLL_INTERVAL = 25"

text \<open>\<open>request_with_timeout\<close>: the request runs on a thread of its own. \<open>late\<close> is \<open>None\<close> when it answers in
  time, and otherwise what that thread has done to the client when the time is over.\<close>

definition request_with_timeout ::
    "(session_id \<Rightarrow> string) \<Rightarrow> (u64 \<Rightarrow> string) \<Rightarrow> worker_request \<Rightarrow> nat \<Rightarrow> (worker_client \<Rightarrow> worker_client) option
       \<Rightarrow> worker_client \<Rightarrow> worker_result result \<times> worker_client" where
  "request_with_timeout show_id show_n request timeout late c =
     (case late of
        None \<Rightarrow> without_output (request_with_event_sink show_id show_n request False c)
      | Some f \<Rightarrow>
          (case worker_kill ''worker_request_timeout'' (client_log LogError ''worker_request_timeout'' None (f c)) of
             (Inl e, c) \<Rightarrow> (Inl e, c)
           | (Inr _, c) \<Rightarrow> (Inl (Backend (''session worker request timed out after '' @ show_nat timeout @ '' ms'')), c)))"

definition worker_close ::
    "(session_id \<Rightarrow> string) \<Rightarrow> (u64 \<Rightarrow> string) \<Rightarrow> (worker_result \<Rightarrow> string) \<Rightarrow> (worker_client \<Rightarrow> worker_client) option
       \<Rightarrow> nat \<Rightarrow> (nat \<Rightarrow> string + bool) \<Rightarrow> (nat \<Rightarrow> nat) \<Rightarrow> worker_client \<Rightarrow> (unit result \<times> worker_client) option" where
  "worker_close show_id show_n debug late fuel polls elapsed c =
     (case worker_has_exited c of
        Inl e \<Rightarrow> Some (Inl e, c)
      | Inr True \<Rightarrow> Some (Inr (), c)
      | Inr False \<Rightarrow>
          (case request_with_timeout show_id show_n CloseRequest CLOSE_REQUEST_TIMEOUT late c of
             (Inr WorkerClosed, c) \<Rightarrow>
               wait_for_exit_or_kill fuel polls elapsed 0 ''close_session'' EXIT_WAIT_TIMEOUT c
           | (Inr other, c) \<Rightarrow>
               (case worker_kill ''unexpected_close_response'' c of
                  (Inl e, c) \<Rightarrow> Some (Inl e, c)
                | (Inr _, c) \<Rightarrow> Some (Inl (Backend (''unexpected worker close response: '' @ debug other)), c))
           | (Inl e, c) \<Rightarrow> Some (Inl e, snd (worker_kill ''close_session_failed'' c))))"

section \<open>The worker's side\<close>

text \<open>The debug backend behind the worker: its name, and creating, executing and closing on its state.
  While it works it emits frames, log events and changes of the execution state.\<close>

record 'b debug_backend =
  bk_name :: string
  bk_create :: "create_backend_session \<Rightarrow> 'b \<Rightarrow> (dbgflow_error + string \<times> string list) \<times> log_event list \<times> 'b"
  bk_execute :: "string \<Rightarrow> utext \<Rightarrow> 'b \<Rightarrow>
     (execute_failure + utext \<times> string list \<times> backend_execution_state option) \<times> (log_event + backend_execution_event) list \<times> 'b"
  bk_close :: "string \<Rightarrow> 'b \<Rightarrow> unit result \<times> log_event list \<times> 'b"

record 'b worker_runtime =
  rt_backend :: 'b
  rt_session_id :: "string option"

text \<open>The frames the backend emits are written as they come.\<close>

definition emitted :: "(log_event + backend_execution_event) list \<Rightarrow> worker_output list" where
  "emitted = map (\<lambda>x. case x of Inl l \<Rightarrow> LogFrame l | Inr e \<Rightarrow> StateChanged e)"

text \<open>\<open>WorkerRuntime::handle\<close>: the result, whether the worker ends, the frames written meanwhile.\<close>

definition runtime_handle ::
    "'b debug_backend \<Rightarrow> worker_request \<Rightarrow> 'b worker_runtime
       \<Rightarrow> worker_result exec_result \<times> bool \<times> worker_output list \<times> 'b worker_runtime" where
  "runtime_handle bk request rt =
     (case request of
        CreateRequest r \<Rightarrow>
          (case rt_session_id rt of
             Some _ \<Rightarrow> (Inl (failure_of (Backend ''worker backend session already exists'')), True, [], rt)
           | None \<Rightarrow>
               (case bk_create bk r (rt_backend rt) of
                  (Inr (i, warnings), ls, b) \<Rightarrow>
                    (Inr (SessionCreated \<lparr>ws_backend = bk_name bk, ws_backend_session_id = i, ws_warnings = warnings\<rparr>),
                     False, map LogFrame ls, rt\<lparr>rt_backend := b, rt_session_id := Some i\<rparr>)
                | (Inl e, ls, b) \<Rightarrow> (Inl (failure_of e), True, map LogFrame ls, rt\<lparr>rt_backend := b\<rparr>)))
      | ExecuteRequest command \<Rightarrow>
          (case rt_session_id rt of
             None \<Rightarrow> (Inl (failure_of (Backend ''worker backend session is not initialized'')), True, [], rt)
           | Some i \<Rightarrow>
               (case bk_execute bk i command (rt_backend rt) of
                  (Inr (out, warnings, final_state), xs, b) \<Rightarrow>
                    (Inr (Executed out warnings final_state), False, emitted xs, rt\<lparr>rt_backend := b\<rparr>)
                | (Inl f, xs, b) \<Rightarrow> (Inl f, False, emitted xs, rt\<lparr>rt_backend := b\<rparr>)))
      | CloseRequest \<Rightarrow>
          (case rt_session_id rt of
             None \<Rightarrow> (Inr WorkerClosed, True, [], rt)
           | Some i \<Rightarrow>
               (case bk_close bk i (rt_backend rt) of
                  (Inr _, ls, b) \<Rightarrow> (Inr WorkerClosed, True, map LogFrame ls, rt\<lparr>rt_backend := b, rt_session_id := None\<rparr>)
                | (Inl e, ls, b) \<Rightarrow> (Inl (failure_of e), True, map LogFrame ls, rt\<lparr>rt_backend := b, rt_session_id := None\<rparr>))))"

definition response_frame :: "(session_id \<Rightarrow> string) \<Rightarrow> u64 \<Rightarrow> worker_result exec_result \<Rightarrow> worker_output" where
  "response_frame show_id i r =
     (case r of
        Inr x \<Rightarrow> Response i (Some x) None
      | Inl f \<Rightarrow> Response i None (Some (from_failure show_id f)))"

text \<open>A line of the worker's input: a failing read, a blank line, one that does not parse, a request. The
  output pipe takes every frame, or fails once it is broken; then the worker ends with that error.\<close>

datatype input_line = ReadFails string | BlankLine | BadLine string | GoodLine worker_input

fun run_session_worker_stdio ::
    "(session_id \<Rightarrow> string) \<Rightarrow> 'b debug_backend \<Rightarrow> string option \<Rightarrow> input_line list \<Rightarrow> 'b worker_runtime
       \<Rightarrow> (string + unit) \<times> worker_output list \<times> 'b worker_runtime" where
  "run_session_worker_stdio show_id bk broken [] rt = (Inr (), [], rt)"
| "run_session_worker_stdio show_id bk broken (ReadFails e # lines) rt = (Inl e, [], rt)"
| "run_session_worker_stdio show_id bk broken (BlankLine # lines) rt = run_session_worker_stdio show_id bk broken lines rt"
| "run_session_worker_stdio show_id bk broken (BadLine e # lines) rt =
     (case broken of
        Some err \<Rightarrow> (Inl err, [], rt)
      | None \<Rightarrow>
          (case run_session_worker_stdio show_id bk broken lines rt of
             (r, frames, rt') \<Rightarrow>
               (r, response_frame show_id 0 (Inl (failure_of (Backend (''invalid session worker request: '' @ e)))) # frames, rt')))"
| "run_session_worker_stdio show_id bk broken (GoodLine input # lines) rt =
     (case runtime_handle bk (wi_request input) rt of
        (res, should_exit, frames, rt1) \<Rightarrow>
          (case broken of
             Some err \<Rightarrow> (Inl err, [], rt1)
           | None \<Rightarrow>
               (let frames = frames @ [response_frame show_id (wi_request_id input) res]
                in if should_exit then (Inr (), frames, rt1)
                   else case run_session_worker_stdio show_id bk broken lines rt1 of
                     (r, more_frames, rt') \<Rightarrow> (r, frames @ more_frames, rt'))))"

end
