(* ===== verification/Worker_Properties.thy ===== *)
theory Worker_Properties
  imports Worker_Protocol
begin

text \<open>
  What the worker protocol promises: a conversation over the pipes gives what calling the backend
  directly gives, in order and with the events of each request, and stopping a worker comes to an end.
\<close>

section \<open>A conversation\<close>

text \<open>The direct calls: the results of the requests up to the one that ends the worker.\<close>

fun serve :: "'b debug_backend \<Rightarrow> worker_request list \<Rightarrow> 'b worker_runtime \<Rightarrow> (worker_result exec_result \<times> worker_output list) list" where
  "serve bk [] rt = []"
| "serve bk (r # rs) rt =
     (case runtime_handle bk r rt of
        (res, should_exit, frames, rt') \<Rightarrow> (res, frames) # (if should_exit then [] else serve bk rs rt'))"

text \<open>The requests one after the other over the pipes.\<close>

fun ask :: "(session_id \<Rightarrow> string) \<Rightarrow> (u64 \<Rightarrow> string) \<Rightarrow> worker_request list \<Rightarrow> worker_client
    \<Rightarrow> worker_result exec_result list \<times> worker_client" where
  "ask show_id show_n [] c = ([], c)"
| "ask show_id show_n (r # rs) c =
     (case request_with_event_sink show_id show_n r True c of
        (res, c1) \<Rightarrow> (case ask show_id show_n rs c1 of (ress, c2) \<Rightarrow> (res # ress, c2)))"

fun numbered :: "u64 \<Rightarrow> worker_request list \<Rightarrow> input_line list" where
  "numbered i [] = []"
| "numbered i (r # rs) = GoodLine \<lparr>wi_request_id = i, wi_request = r\<rparr> # numbered (i + 1) rs"

text \<open>What becomes of a result on the wire: the text of an error, and its output so far.\<close>

definition transmitted :: "(session_id \<Rightarrow> string) \<Rightarrow> worker_result exec_result \<Rightarrow> worker_result exec_result" where
  "transmitted show_id r =
     (case r of
        Inr x \<Rightarrow> Inr x
      | Inl f \<Rightarrow> Inl \<lparr>ef_error = Backend (error_text show_id (ef_error f)), ef_partial_output = ef_partial_output f\<rparr>)"

definition events_of :: "worker_output list \<Rightarrow> backend_execution_event list" where
  "events_of frames = List.map_filter (\<lambda>f. case f of StateChanged e \<Rightarrow> Some e | _ \<Rightarrow> None) frames"

text \<open>A worker that is alive, with pipes that work.\<close>

definition client_ready :: "worker_client \<Rightarrow> bool" where
  "client_ready c \<longleftrightarrow> \<not> cl_request_poisoned c \<and> \<not> cl_stdin_poisoned c \<and> \<not> cl_stdout_poisoned c
     \<and> \<not> cl_child_poisoned c \<and> cl_poll c = Inr False \<and> cl_write_error c = None"

lemma client_log_simps [simp]:
  "cl_incoming (client_log l ev e c) = cl_incoming c" "cl_events (client_log l ev e c) = cl_events c"
  "cl_next_id (client_log l ev e c) = cl_next_id c" "cl_sent (client_log l ev e c) = cl_sent c"
  "client_ready (client_log l ev e c) = client_ready c" "cl_poll (client_log l ev e c) = cl_poll c"
  "cl_child_poisoned (client_log l ev e c) = cl_child_poisoned c" "cl_killed (client_log l ev e c) = cl_killed c"
  "cl_stdin_poisoned (client_log l ev e c) = cl_stdin_poisoned c"
  "cl_stdout_poisoned (client_log l ev e c) = cl_stdout_poisoned c"
  "cl_write_error (client_log l ev e c) = cl_write_error c"
  by (simp_all add: client_log_def client_ready_def)

lemma events_of_simps [simp]:
  "events_of [] = []" "events_of (LogFrame l # fs) = events_of fs" "events_of (StateChanged e # fs) = e # events_of fs"
  by (simp_all add: events_of_def map_filter_simps)

definition quiet_frames :: "worker_output list \<Rightarrow> bool" where
  "quiet_frames frames \<longleftrightarrow> (\<forall>f \<in> set frames. case f of Response _ _ _ \<Rightarrow> False | _ \<Rightarrow> True)"

lemma handle_quiet: "runtime_handle bk r rt = (res, ex, frames, rt') \<Longrightarrow> quiet_frames frames"
  by (auto simp: runtime_handle_def quiet_frames_def emitted_def
      split: worker_request.splits option.splits prod.splits sum.splits)

lemma received_failure:
  "into_execute_failure (Structured message out) = \<lparr>ef_error = Backend message, ef_partial_output = out\<rparr>"
  by (cases out) (simp_all add: with_partial_output_def failure_of_def)

lemma client_ready_incoming [simp]: "client_ready (c\<lparr>cl_incoming := lines\<rparr>) = client_ready c"
  by (simp add: client_ready_def)

text \<open>Frames that are no response are taken on the way; then comes what is behind them.\<close>

lemma await_quiet:
  assumes "quiet_frames frames"
  obtains c' where "await_response show_id show_n i True (map Inr frames @ lines) c = await_response show_id show_n i True lines c'"
    "cl_events c' = cl_events c @ events_of frames" "cl_next_id c' = cl_next_id c"
    "cl_sent c' = cl_sent c" "client_ready c' = client_ready c"
  using assms
proof (induction frames arbitrary: c thesis)
  case Nil
  then show ?case by simp
next
  case (Cons f fs)
  have q: "quiet_frames fs" and nr: "\<And>i' r e. f \<noteq> Response i' r e"
    using Cons.prems(2) by (auto simp: quiet_frames_def)
  define tail where "tail = map Inr fs @ lines"
  define c1 where "c1 = (case f of LogFrame l \<Rightarrow> c\<lparr>cl_incoming := tail, cl_logs := cl_logs c @ [l]\<rparr>
      | StateChanged e \<Rightarrow> c\<lparr>cl_incoming := tail, cl_events := cl_events c @ [e]\<rparr> | _ \<Rightarrow> c)"
  have step: "await_response show_id show_n i True (map Inr (f # fs) @ lines) c = await_response show_id show_n i True tail c1"
  proof -
    have split: "map Inr (f # fs) @ lines = Inr f # tail" by (simp add: tail_def)
    show ?thesis unfolding split using nr by (cases f) (auto simp: c1_def)
  qed
  have c1: "cl_events c1 @ events_of fs = cl_events c @ events_of (f # fs)" "cl_next_id c1 = cl_next_id c"
    "cl_sent c1 = cl_sent c" "client_ready c1 = client_ready c"
    using nr by (cases f; simp add: c1_def client_ready_def)+
  show ?case
  proof (rule Cons.IH[of c1, OF _ q])
    fix c'
    assume "await_response show_id show_n i True (map Inr fs @ lines) c1 = await_response show_id show_n i True lines c'"
      "cl_events c' = cl_events c1 @ events_of fs" "cl_next_id c' = cl_next_id c1"
      "cl_sent c' = cl_sent c1" "client_ready c' = client_ready c1"
    then show thesis using Cons.prems(1)[of c'] by (simp only: step c1 flip: tail_def)
  qed
qed

lemma await_own_response:
  obtains c' where "await_response show_id show_n i True (Inr (response_frame show_id i res) # lines) c = (transmitted show_id res, c')"
    "cl_incoming c' = lines" "cl_events c' = cl_events c" "cl_next_id c' = cl_next_id c"
    "cl_sent c' = cl_sent c" "client_ready c' = client_ready c"
proof (cases res)
  case (Inl f)
  show ?thesis
    by (rule that[of "client_log LogError ''worker_request_failed''
          (Some (error_text show_id (Backend (error_text show_id (ef_error f))))) (c\<lparr>cl_incoming := lines\<rparr>)"])
      (auto simp: Inl response_frame_def response_received_def transmitted_def from_failure_def request_failed_def
        received_failure)
next
  case (Inr x)
  show ?thesis
    by (rule that[of "client_log Info ''worker_request_finished'' None (c\<lparr>cl_incoming := lines\<rparr>)"])
      (auto simp: Inr response_frame_def response_received_def transmitted_def)
qed

lemma await_other_response:
  assumes "i \<noteq> j"
  obtains f c' where "await_response show_id show_n i True (Inr (response_frame show_id j res) # lines) c = (Inl f, c')"
    "cl_incoming c' = lines" "cl_next_id c' = cl_next_id c" "client_ready c' = client_ready c"
proof -
  obtain r e where j: "response_frame show_id j res = Response j r e" by (cases res) (simp_all add: response_frame_def)
  define f where "f = failure_of (Backend (''unexpected worker response id: expected '' @ show_n i @ '', got '' @ show_n j))"
  have "await_response show_id show_n i True (Inr (response_frame show_id j res) # lines) c
      = request_failed show_id f (c\<lparr>cl_incoming := lines\<rparr>)"
    using assms by (simp add: j response_received_def f_def)
  then show ?thesis using that unfolding request_failed_def by auto
qed

text \<open>A request on a client that is ready is the frames up to its response.\<close>

definition asked :: "worker_request \<Rightarrow> worker_client \<Rightarrow> worker_client" where
  "asked request c = (client_log Info ''worker_request_started'' None (c\<lparr>cl_next_id := cl_next_id c + 1\<rparr>))
      \<lparr>cl_sent := cl_sent c @ [\<lparr>wi_request_id = cl_next_id c, wi_request = request\<rparr>]\<rparr>"

lemma asked_simps:
  "cl_incoming (asked r c) = cl_incoming c" "cl_events (asked r c) = cl_events c" "cl_next_id (asked r c) = cl_next_id c + 1"
  "client_ready (asked r c) = client_ready c"
  "cl_sent (asked r c) = cl_sent c @ [\<lparr>wi_request_id = cl_next_id c, wi_request = r\<rparr>]"
  by (simp_all add: asked_def client_log_def client_ready_def)

lemma request_ready:
  assumes "client_ready c"
  shows "request_with_event_sink show_id show_n r True c
    = await_response show_id show_n (cl_next_id c) True (cl_incoming c) (asked r c)"
  using assms by (simp add: request_with_event_sink_def worker_has_exited_def client_ready_def Let_def asked_def client_log_def)

lemma request_frames:
  assumes q: "quiet_frames frames" and r: "client_ready c"
    and inc: "cl_incoming c = map Inr (frames @ [response_frame show_id (cl_next_id c) res]) @ lines"
  obtains c' where "request_with_event_sink show_id show_n request True c = (transmitted show_id res, c')"
    "cl_incoming c' = lines" "cl_events c' = cl_events c @ events_of frames" "cl_next_id c' = cl_next_id c + 1"
    "cl_sent c' = cl_sent c @ [\<lparr>wi_request_id = cl_next_id c, wi_request = request\<rparr>]" "client_ready c'"
proof -
  obtain c1 where c1: "await_response show_id show_n (cl_next_id c) True (map Inr frames @ Inr (response_frame show_id (cl_next_id c) res) # lines)
      (asked request c) = await_response show_id show_n (cl_next_id c) True (Inr (response_frame show_id (cl_next_id c) res) # lines) c1"
    "cl_events c1 = cl_events c @ events_of frames" "cl_next_id c1 = cl_next_id c + 1" "client_ready c1"
    "cl_sent c1 = cl_sent c @ [\<lparr>wi_request_id = cl_next_id c, wi_request = request\<rparr>]"
    by (rule await_quiet[OF q, of show_id show_n "cl_next_id c" "Inr (response_frame show_id (cl_next_id c) res) # lines" "asked request c"])
      (use r in \<open>simp only: asked_simps\<close>)
  have e: "cl_incoming c = map Inr frames @ Inr (response_frame show_id (cl_next_id c) res) # lines" using inc by simp
  show ?thesis
    by (rule await_own_response[of show_id show_n "cl_next_id c" res lines c1], rule that)
      (simp_all only: request_ready[OF r] e c1 simp_thms)
qed

text \<open>What the worker writes while it serves the numbered requests.\<close>

fun reply_frames :: "(session_id \<Rightarrow> string) \<Rightarrow> u64 \<Rightarrow> (worker_result exec_result \<times> worker_output list) list \<Rightarrow> worker_output list" where
  "reply_frames show_id i [] = []"
| "reply_frames show_id i ((res, frames) # rs) = (frames @ [response_frame show_id i res]) @ reply_frames show_id (i + 1) rs"

lemma worker_writes_replies:
  "\<exists>rt'. run_session_worker_stdio show_id bk None (numbered i reqs) rt = (Inr (), reply_frames show_id i (serve bk reqs rt), rt')"
proof (induction reqs arbitrary: i rt)
  case (Cons r rs)
  obtain res ex frames rt1 where h: "runtime_handle bk r rt = (res, ex, frames, rt1)" by (metis prod_cases4)
  obtain rt2 where "run_session_worker_stdio show_id bk None (numbered (i + 1) rs) rt1
      = (Inr (), reply_frames show_id (i + 1) (serve bk rs rt1), rt2)" using Cons.IH by blast
  then show ?case using h by (cases ex) simp_all
qed simp

lemma serve_quiet: "(res, frames) \<in> set (serve bk reqs rt) \<Longrightarrow> quiet_frames frames"
  by (induction reqs arbitrary: rt) (auto dest: handle_quiet handle_quiet[OF sym] split: prod.splits if_splits)

lemma serve_length: "length (serve bk reqs rt) \<le> length reqs"
  by (induction reqs arbitrary: rt) (auto split: prod.split)

lemma ask_replies:
  assumes "client_ready c" "cl_incoming c = map Inr (reply_frames show_id (cl_next_id c) replies)"
    "\<forall>(res, frames) \<in> set replies. quiet_frames frames" "length reqs = length replies"
  obtains c' where "ask show_id show_n reqs c = (map (transmitted show_id \<circ> fst) replies, c')" "cl_incoming c' = []"
    "cl_events c' = cl_events c @ concat (map (events_of \<circ> snd) replies)" "client_ready c'"
    "map GoodLine (cl_sent c') = map GoodLine (cl_sent c) @ numbered (cl_next_id c) reqs"
  using assms
proof (induction replies arbitrary: c reqs thesis)
  case Nil
  then show ?case by (intro Nil.prems(1)[of c]) simp_all
next
  case (Cons x replies)
  obtain res frames where x: "x = (res, frames)" by (cases x)
  obtain r rs where reqs: "reqs = r # rs" "length rs = length replies" using Cons.prems(5) by (cases reqs) auto
  have inc: "cl_incoming c = map Inr (frames @ [response_frame show_id (cl_next_id c) res])
      @ map Inr (reply_frames show_id (cl_next_id c + 1) replies)" using Cons.prems(3) x by simp
  obtain c1 where c1: "request_with_event_sink show_id show_n r True c = (transmitted show_id res, c1)"
    "cl_incoming c1 = map Inr (reply_frames show_id (cl_next_id c + 1) replies)"
    "cl_events c1 = cl_events c @ events_of frames" "cl_next_id c1 = cl_next_id c + 1"
    "cl_sent c1 = cl_sent c @ [\<lparr>wi_request_id = cl_next_id c, wi_request = r\<rparr>]" "client_ready c1"
    using request_frames[OF _ Cons.prems(2) inc, of show_n r] Cons.prems(4) x by auto
  obtain c2 where c2: "ask show_id show_n rs c1 = (map (transmitted show_id \<circ> fst) replies, c2)" "cl_incoming c2 = []"
    "cl_events c2 = cl_events c1 @ concat (map (events_of \<circ> snd) replies)" "client_ready c2"
    "map GoodLine (cl_sent c2) = map GoodLine (cl_sent c1) @ numbered (cl_next_id c1) rs"
  proof (rule Cons.IH[OF _ c1(6) _ _ reqs(2)])
    show "cl_incoming c1 = map Inr (reply_frames show_id (cl_next_id c1) replies)" using c1(2,4) by simp
    show "\<forall>(res, frames) \<in> set replies. quiet_frames frames" using Cons.prems(4) by simp
  qed
  show ?case by (rule Cons.prems(1)[of c2]) (use c1 c2 x reqs in \<open>simp_all add: comp_def\<close>)
qed


text \<open>A client whose next id is not the one the worker answers next stays out of step.\<close>

lemma request_other:
  assumes "client_ready c" "cl_incoming c = map Inr (reply_frames show_id j replies)" "cl_next_id c \<noteq> j"
    "\<forall>(res, frames) \<in> set replies. quiet_frames frames"
  obtains f c' where "request_with_event_sink show_id show_n request True c = (Inl f, c')" "client_ready c'"
    "cl_incoming c' = map Inr (reply_frames show_id (j + 1) (tl replies))" "cl_next_id c' = cl_next_id c + 1"
proof (cases replies)
  case Nil
  have "\<exists>f c'. await_response show_id show_n (cl_next_id c) True [] (asked request c) = (Inl f, c') \<and> client_ready c'
      \<and> cl_incoming c' = [] \<and> cl_next_id c' = cl_next_id c + 1"
    using assms(1) by (auto simp: request_failed_def Let_def asked_simps split: option.split)
  then show ?thesis using that assms(2) Nil by (auto simp: request_ready[OF assms(1)])
next
  case (Cons x xs)
  obtain res frames where x: "x = (res, frames)" by (cases x)
  have q: "quiet_frames frames" using assms(4) by (simp add: Cons x)
  define lines where "lines = map (Inr :: worker_output \<Rightarrow> string + worker_output) (reply_frames show_id (j + 1) xs)"
  have inc: "cl_incoming c = map Inr frames @ Inr (response_frame show_id j res) # lines"
    using assms(2) by (simp add: Cons x lines_def)
  obtain c1 where c1: "await_response show_id show_n (cl_next_id c) True (map Inr frames @ Inr (response_frame show_id j res) # lines)
      (asked request c) = await_response show_id show_n (cl_next_id c) True (Inr (response_frame show_id j res) # lines) c1"
    "cl_next_id c1 = cl_next_id c + 1" "client_ready c1"
    by (rule await_quiet[OF q, of show_id show_n "cl_next_id c" "Inr (response_frame show_id j res) # lines" "asked request c"])
      (use assms(1) in \<open>simp only: asked_simps\<close>)
  obtain f c' where "await_response show_id show_n (cl_next_id c) True (Inr (response_frame show_id j res) # lines) c1 = (Inl f, c')"
    "cl_incoming c' = lines" "cl_next_id c' = cl_next_id c1" "client_ready c' = client_ready c1"
    by (rule await_other_response[OF assms(3), of show_id show_n res lines c1])
  then show ?thesis by (intro that[of f c']) (simp_all only: request_ready[OF assms(1)] inc c1 Cons list.sel simp_thms flip: lines_def)
qed

lemma ask_other:
  assumes "client_ready c" "cl_incoming c = map Inr (reply_frames show_id j replies)" "cl_next_id c = j + 1"
    "\<forall>(res, frames) \<in> set replies. quiet_frames frames"
  shows "\<forall>res \<in> set (fst (ask show_id show_n reqs c)). isl res"
  using assms
proof (induction reqs arbitrary: c j replies)
  case (Cons r rs)
  have ne: "cl_next_id c \<noteq> j" using Cons.prems(3) by simp
  obtain f c1 where c1: "request_with_event_sink show_id show_n r True c = (Inl f, c1)" "client_ready c1"
    "cl_incoming c1 = map Inr (reply_frames show_id (j + 1) (tl replies))" "cl_next_id c1 = cl_next_id c + 1"
    using request_other[OF Cons.prems(1,2) ne Cons.prems(4), of show_n r] by metis
  have "\<forall>(res, frames) \<in> set (tl replies). quiet_frames frames" using Cons.prems(4) by (cases replies) simp_all
  from Cons.IH[OF c1(2,3) _ this] have "\<forall>res \<in> set (fst (ask show_id show_n rs c1)). isl res"
    using c1(4) Cons.prems(3) by simp
  then show ?case using c1(1) by (simp split: prod.split)
qed simp

section \<open>The end of a worker\<close>

text \<open>At most one termination, and a process that is known to be gone.\<close>

definition killed_once :: "worker_client \<Rightarrow> worker_client \<Rightarrow> bool" where
  "killed_once c c' \<longleftrightarrow> cl_killed c' = cl_killed c \<or> (\<exists>reason. cl_killed c' = cl_killed c @ [reason])"

lemma worker_kill_facts:
  assumes "worker_kill reason c = (r, c')"
  shows "killed_once c c'" "r = Inr () \<Longrightarrow> cl_poll c' = Inr True"
    "cl_killed c' \<noteq> cl_killed c \<Longrightarrow> cl_poll c' = Inr True"
    "cl_poll c = Inr True \<Longrightarrow> cl_killed c' = cl_killed c"
  using assms unfolding worker_kill_def Let_def
  by (auto simp: killed_once_def split: if_splits sum.splits bool.splits option.splits)

lemma wait_facts:
  assumes "wait_for_exit_or_kill fuel polls elapsed n reason timeout c = Some (r, c')"
  shows "killed_once c c' \<and> (r = Inr () \<longrightarrow> cl_poll c' = Inr True)"
  using assms
proof (induction fuel arbitrary: n c)
  case (Suc fuel)
  define d where "d = c\<lparr>cl_poll := polls n\<rparr>"
  have d: "cl_killed d = cl_killed c" "\<And>x. killed_once d x = killed_once c x" by (simp_all add: d_def killed_once_def)
  consider (error) e where "worker_has_exited d = Inl e" | (gone) "worker_has_exited d = Inr True"
    | (over) "worker_has_exited d = Inr False" "timeout \<le> elapsed n"
    | (again) "worker_has_exited d = Inr False" "\<not> timeout \<le> elapsed n"
    by (metis (full_types) obj_sumE)
  then show ?case
  proof cases
    case error
    then show ?thesis using Suc.prems d(1) by (auto simp: Let_def killed_once_def simp flip: d_def)
  next
    case gone
    then have "cl_poll d = Inr True" by (auto simp: worker_has_exited_def split: if_splits sum.splits)
    then show ?thesis using gone Suc.prems d(1) by (auto simp: Let_def killed_once_def simp flip: d_def)
  next
    case over
    define k where "k = d\<lparr>cl_poll := polls (Suc n)\<rparr>"
    have k: "\<And>x. killed_once k x = killed_once c x" by (simp add: k_def d_def killed_once_def)
    have "worker_kill reason k = (r, c')" using over Suc.prems by (simp add: Let_def k_def flip: d_def)
    from worker_kill_facts(1,2)[OF this] show ?thesis by (simp add: k)
  next
    case again
    then show ?thesis using Suc.prems Suc.IH[of "Suc n" d] by (simp add: Let_def d flip: d_def)
  qed
qed simp

lemma wait_ends:
  assumes "\<And>n. POLL_INTERVAL * n \<le> elapsed n" "timeout \<le> POLL_INTERVAL * (n + fuel)"
  shows "wait_for_exit_or_kill (Suc fuel) polls elapsed n reason timeout c \<noteq> None"
  using assms(2)
proof (induction fuel arbitrary: n c)
  case 0
  then show ?case using assms(1)[of n] by (auto simp: Let_def split: sum.split bool.split)
next
  case (Suc fuel)
  show ?case using Suc.IH[of "Suc n"] Suc.prems
    by (subst wait_for_exit_or_kill.simps) (auto simp: Let_def split: sum.split bool.split)
qed

lemma await_killed: "await_response show_id show_n i sink lines c = (r, c') \<Longrightarrow> cl_killed c' = cl_killed c"
proof (induction lines arbitrary: c)
  case (Cons line lines)
  then show ?case
    by (auto simp: request_failed_def response_received_def Let_def split: sum.splits worker_output.splits if_splits option.splits)
qed (auto simp: request_failed_def Let_def split: option.splits)

lemma request_killed:
  "request_with_event_sink show_id show_n request sink c = (r, c') \<Longrightarrow> cl_killed c' = cl_killed c"
  by (auto simp: request_with_event_sink_def request_failed_def Let_def dest: await_killed
      split: if_splits sum.splits bool.splits option.splits)


lemma timeout_killed:
  assumes "request_with_timeout show_id show_n request timeout late c = (r, c')"
    "\<And>f. late = Some f \<Longrightarrow> cl_killed (f c) = cl_killed c"
  shows "killed_once c c'" "cl_killed c' \<noteq> cl_killed c \<Longrightarrow> cl_poll c' = Inr True \<and> isl r"
proof -
  have "killed_once c c' \<and> (cl_killed c' \<noteq> cl_killed c \<longrightarrow> cl_poll c' = Inr True \<and> isl r)"
  proof (cases late)
    case None
    then have "cl_killed c' = cl_killed c" using assms(1) unfolding request_with_timeout_def
      by (auto simp: without_output_def dest: request_killed split: prod.splits sum.splits)
    then show ?thesis by (simp add: killed_once_def)
  next
    case (Some f)
    define d where "d = client_log LogError ''worker_request_timeout'' None (f c)"
    obtain rk ck where k: "worker_kill ''worker_request_timeout'' d = (rk, ck)" by (cases "worker_kill ''worker_request_timeout'' d")
    have d: "cl_killed d = cl_killed c" using assms(2)[OF Some] by (simp add: d_def)
    have c': "c' = ck" "isl r" using assms(1) k
      by (auto simp: request_with_timeout_def Some simp flip: d_def split: sum.splits)
    show ?thesis using worker_kill_facts(1,3)[OF k] d c' by (simp add: killed_once_def)
  qed
  then show "killed_once c c'" "cl_killed c' \<noteq> cl_killed c \<Longrightarrow> cl_poll c' = Inr True \<and> isl r" by auto
qed

lemma kill_after:
  assumes "killed_once c c1" "cl_killed c1 \<noteq> cl_killed c \<Longrightarrow> cl_poll c1 = Inr True" "worker_kill reason c1 = (r, c')"
  shows "killed_once c c'"
  using assms(1,2) worker_kill_facts(1,4)[OF assms(3)] by (auto simp: killed_once_def)

text \<open>A worker at an example: a command that lets the target run and stop again, and the close.\<close>

definition demo_backend :: "unit debug_backend" where
  "demo_backend = \<lparr>bk_name = ''dbgeng'', bk_create = (\<lambda>_ b. (Inr (''0'', []), [], b)),
     bk_execute = (\<lambda>_ _ b. (Inr ([66], [], None), [Inr \<lparr>be_state = BackendRunning, be_reason = None\<rparr>], b)),
     bk_close = (\<lambda>_ b. (Inr (), [], b))\<rparr>"

definition demo_client :: "(string + worker_output) list \<Rightarrow> worker_client" where
  "demo_client lines =
     \<lparr>cl_session = 1, cl_pid_text = ''7'', cl_next_id = 4, cl_incoming = lines, cl_read_error = None, cl_sent = [],
      cl_write_error = None, cl_request_poisoned = False, cl_stdin_poisoned = False, cl_stdout_poisoned = False,
      cl_child_poisoned = False, cl_poll = Inr False, cl_kill = None, cl_wait = None, cl_logs = [], cl_events = [],
      cl_killed = []\<rparr>"

definition demo_runtime :: "unit worker_runtime" where
  "demo_runtime = \<lparr>rt_backend = (), rt_session_id = Some ''0''\<rparr>"

definition demo_show :: "session_id \<Rightarrow> string" where "demo_show i = show_nat (unat i)"

abbreviation demo_requests :: "worker_request list" where
  "demo_requests \<equiv> [ExecuteRequest [65], CloseRequest, ExecuteRequest [67]]"

lemma demo_client_ready: "client_ready (demo_client lines)" "cl_next_id (demo_client lines) = 4"
    "cl_incoming (demo_client lines) = lines" "cl_events (demo_client lines) = []" "cl_sent (demo_client lines) = []"
    "cl_killed (demo_client lines) = []"
  by (simp_all add: demo_client_def client_ready_def)

lemma demo_serve: "serve demo_backend demo_requests demo_runtime
    = [(Inr (Executed [66] [] None), [StateChanged \<lparr>be_state = BackendRunning, be_reason = None\<rparr>]), (Inr WorkerClosed, [])]"
  by (simp add: runtime_handle_def demo_backend_def demo_runtime_def emitted_def)

section \<open>Properties\<close>

text \<open>
  C10. Talking to a worker over its pipes is calling its backend: when the server sends requests to a
  worker that is alive, and reads what the worker writes for them, then it gets for every request what
  the backend gives directly (an error as its text, with the output so far), in order, up to the request
  that ends the worker; the changes of the execution state that the backend reports arrive in order and
  with their request; the requests on the wire carry the ids in order, and nothing stays in the pipe.
\<close>

theorem worker_conversation:
  fixes bk :: "'b debug_backend"
  assumes "client_ready c"
    and "run_session_worker_stdio show_id bk None (numbered (cl_next_id c) reqs) rt = (r, frames, rt')"
    and "cl_incoming c = map Inr frames"
  shows "r = Inr () \<and> (\<exists>c'. ask show_id show_n (take (length (serve bk reqs rt)) reqs) c
      = (map (transmitted show_id \<circ> fst) (serve bk reqs rt), c')
    \<and> cl_incoming c' = [] \<and> cl_events c' = cl_events c @ concat (map (events_of \<circ> snd) (serve bk reqs rt))
    \<and> map GoodLine (cl_sent c') = map GoodLine (cl_sent c) @ numbered (cl_next_id c) (take (length (serve bk reqs rt)) reqs))"
proof -
  let ?replies = "serve bk reqs rt"
  have w: "r = Inr ()" "frames = reply_frames show_id (cl_next_id c) ?replies"
    using worker_writes_replies[of show_id bk "cl_next_id c" reqs rt] assms(2) by auto
  have q: "\<forall>(res, frames) \<in> set ?replies. quiet_frames frames" using serve_quiet by blast
  have l: "length (take (length ?replies) reqs) = length ?replies" using serve_length[of bk reqs rt] by simp
  show ?thesis
    by (rule ask_replies[OF assms(1) _ q l, of show_id show_n]) (use w assms(3) in auto)
qed

lemma worker_conversation_witness:
  "\<exists>lines c'. ask demo_show (\<lambda>_. ''4'') [ExecuteRequest [65], CloseRequest] (demo_client lines)
      = ([Inr (Executed [66] [] None), Inr WorkerClosed], c')
    \<and> cl_events c' = [\<lparr>be_state = BackendRunning, be_reason = None\<rparr>]"
proof -
  define frames where "frames = reply_frames demo_show 4 (serve demo_backend demo_requests demo_runtime)"
  obtain rt' where run: "run_session_worker_stdio demo_show demo_backend None
      (numbered (cl_next_id (demo_client (map Inr frames))) demo_requests) demo_runtime = (Inr (), frames, rt')"
    using worker_writes_replies unfolding frames_def demo_client_ready by blast
  obtain c' where "ask demo_show (\<lambda>_. ''4'') (take (length (serve demo_backend demo_requests demo_runtime)) demo_requests)
        (demo_client (map Inr frames))
      = (map (transmitted demo_show \<circ> fst) (serve demo_backend demo_requests demo_runtime), c')"
    "cl_events c' = cl_events (demo_client (map Inr frames))
      @ concat (map (events_of \<circ> snd) (serve demo_backend demo_requests demo_runtime))"
    using worker_conversation[OF demo_client_ready(1) run demo_client_ready(3), of "\<lambda>_. ''4''"] by blast
  then have "ask demo_show (\<lambda>_. ''4'') [ExecuteRequest [65], CloseRequest] (demo_client (map Inr frames))
        = ([Inr (Executed [66] [] None), Inr WorkerClosed], c')
      \<and> cl_events c' = [\<lparr>be_state = BackendRunning, be_reason = None\<rparr>]"
    unfolding demo_serve by (simp add: transmitted_def demo_client_ready del: ask.simps)
  then show ?thesis by blast
qed

text \<open>
  C12. A line from the worker that does not parse leaves the two sides out of step for good: the request
  that reads it fails, its response stays in the pipe, and every later request, which the worker does
  carry out, fails as well, whatever the worker answers.
\<close>

theorem bad_line_fails_all_requests:
  assumes "client_ready c"
    and "cl_incoming c = Inl e # map Inr (reply_frames show_id (cl_next_id c) (serve bk answered rt))"
  shows "\<forall>res \<in> set (fst (ask show_id show_n reqs c)). isl res"
proof (cases reqs)
  case (Cons r rs)
  define f where "f = failure_of (Backend (''parse worker response failed: '' @ e))"
  obtain c1 where c1: "request_with_event_sink show_id show_n r True c = (Inl f, c1)" "client_ready c1"
    "cl_incoming c1 = map Inr (reply_frames show_id (cl_next_id c) (serve bk answered rt))" "cl_next_id c1 = cl_next_id c + 1"
    using assms by (auto simp: request_ready f_def request_failed_def Let_def asked_simps)
  have "\<forall>res \<in> set (fst (ask show_id show_n rs c1)). isl res"
    by (rule ask_other[OF c1(2-4)]) (use serve_quiet in blast)
  then show ?thesis using c1(1) by (simp add: Cons split: prod.split)
qed simp

lemma bad_line_fails_all_requests_witness:
  "\<exists>lines. \<forall>res \<in> set (fst (ask demo_show (\<lambda>_. ''4'') demo_requests (demo_client lines))). isl res"
proof -
  let ?lines = "Inl ''expected value'' # map Inr (reply_frames demo_show 4 (serve demo_backend demo_requests demo_runtime))"
  have "cl_incoming (demo_client ?lines) = Inl ''expected value''
      # map Inr (reply_frames demo_show (cl_next_id (demo_client ?lines)) (serve demo_backend demo_requests demo_runtime))"
    by (simp only: demo_client_ready)
  from bad_line_fails_all_requests[OF demo_client_ready(1) this] show ?thesis by blast
qed

text \<open>
  C11. Closing a worker comes to an end: with polls 25 ms apart, at most 81 looks at the process are
  needed after the close request, and one more before it is terminated, whatever the looks give; the process is terminated at most once, and
  when closing succeeds the last look has seen that it is gone.
\<close>

theorem worker_close_ends:
  assumes "\<And>n. POLL_INTERVAL * n \<le> elapsed n"
    and "\<And>f. late = Some f \<Longrightarrow> cl_killed (f c) = cl_killed c"
  shows "\<exists>r c'. worker_close show_id show_n debug late 81 polls elapsed c = Some (r, c')
    \<and> killed_once c c' \<and> (r = Inr () \<longrightarrow> cl_poll c' = Inr True)"
proof -
  define P where "P o' \<longleftrightarrow> (\<exists>r c'. o' = Some (r, c') \<and> killed_once c c' \<and> (r = Inr () \<longrightarrow> cl_poll c' = Inr True))"
    for o' :: "(unit result \<times> worker_client) option"
  obtain r1 c1 where t: "request_with_timeout show_id show_n CloseRequest CLOSE_REQUEST_TIMEOUT late c = (r1, c1)"
    by (cases "request_with_timeout show_id show_n CloseRequest CLOSE_REQUEST_TIMEOUT late c")
  have k: "killed_once c c1" "cl_killed c1 \<noteq> cl_killed c \<Longrightarrow> cl_poll c1 = Inr True \<and> isl r1"
    using timeout_killed[OF t] assms(2) by simp_all
  have after: "killed_once c (snd (worker_kill reason c1))" for reason
    by (rule kill_after[of c c1 reason "fst (worker_kill reason c1)"]) (use k in auto)
  then have after': "killed_once c ck" if "worker_kill reason c1 = (rk, ck)" for reason rk ck using that by (metis snd_conv)
  have same: "killed_once c c" by (simp add: killed_once_def)
  have waited: "P (wait_for_exit_or_kill 81 polls elapsed 0 reason EXIT_WAIT_TIMEOUT c1)" if "r1 = Inr x" for reason x
  proof -
    have "wait_for_exit_or_kill (Suc 80) polls elapsed 0 reason EXIT_WAIT_TIMEOUT c1 \<noteq> None"
      by (rule wait_ends[OF assms(1)]) (simp add: EXIT_WAIT_TIMEOUT_def POLL_INTERVAL_def)
    then obtain r c' where w: "wait_for_exit_or_kill 81 polls elapsed 0 reason EXIT_WAIT_TIMEOUT c1 = Some (r, c')"
      by (auto simp del: wait_for_exit_or_kill.simps)
    then show ?thesis using wait_facts[OF w] k that by (auto simp: P_def killed_once_def simp del: wait_for_exit_or_kill.simps)
  qed
  have "P (worker_close show_id show_n debug late 81 polls elapsed c)"
    unfolding worker_close_def t
    using waited after same
    by (auto simp: P_def worker_has_exited_def simp del: wait_for_exit_or_kill.simps dest: after'
        split: sum.split bool.split worker_result.split if_splits prod.split)
  then show ?thesis by (simp only: P_def)
qed

lemma worker_close_ends_witness:
  "\<exists>r c'. worker_close demo_show (\<lambda>_. ''4'') result_name None 81 (\<lambda>_. Inr False) (\<lambda>n. 25 * n) (demo_client []) = Some (r, c')
    \<and> killed_once (demo_client []) c' \<and> (r = Inr () \<longrightarrow> cl_poll c' = Inr True)"
  by (rule worker_close_ends) (simp_all add: POLL_INTERVAL_def)

end
