(* ===== verification/Proxy.thy ===== *)
theory Proxy
  imports Launch_Properties
begin

text \<open>
  The proxy settings (\<open>dbgflow-common/src/proxy.rs\<close>): which proxy variables a worker process is to see, from
  the command line or from the environment of the server, and the changes that make it see exactly those.
\<close>

definition SYMBOL_PROXY_KEY :: utext where "SYMBOL_PROXY_KEY = lit ''_NT_SYMBOL_PROXY''"
definition HTTP_PROXY_KEY :: utext where "HTTP_PROXY_KEY = lit ''HTTP_PROXY''"
definition HTTPS_PROXY_KEY :: utext where "HTTPS_PROXY_KEY = lit ''HTTPS_PROXY''"
definition ALL_PROXY_KEY :: utext where "ALL_PROXY_KEY = lit ''ALL_PROXY''"
definition NO_PROXY_KEY :: utext where "NO_PROXY_KEY = lit ''NO_PROXY''"
definition LOWER_HTTP_PROXY_KEY :: utext where "LOWER_HTTP_PROXY_KEY = lit ''http_proxy''"
definition LOWER_HTTPS_PROXY_KEY :: utext where "LOWER_HTTPS_PROXY_KEY = lit ''https_proxy''"
definition LOWER_ALL_PROXY_KEY :: utext where "LOWER_ALL_PROXY_KEY = lit ''all_proxy''"
definition LOWER_NO_PROXY_KEY :: utext where "LOWER_NO_PROXY_KEY = lit ''no_proxy''"

lemmas proxy_key_defs = SYMBOL_PROXY_KEY_def HTTP_PROXY_KEY_def HTTPS_PROXY_KEY_def ALL_PROXY_KEY_def
  NO_PROXY_KEY_def LOWER_HTTP_PROXY_KEY_def LOWER_HTTPS_PROXY_KEY_def LOWER_ALL_PROXY_KEY_def LOWER_NO_PROXY_KEY_def

definition ALL_PROXY_KEYS :: "utext list" where
  "ALL_PROXY_KEYS =
     [SYMBOL_PROXY_KEY, HTTP_PROXY_KEY, HTTPS_PROXY_KEY, ALL_PROXY_KEY, NO_PROXY_KEY,
      LOWER_HTTP_PROXY_KEY, LOWER_HTTPS_PROXY_KEY, LOWER_ALL_PROXY_KEY, LOWER_NO_PROXY_KEY]"

datatype proxy_source = ProxyCli | ProxyEnvironment | ProxyDisabled | ProxyNone

record proxy_environment =
  px_source :: proxy_source
  px_vars :: "(utext, utext) btree"

definition proxy_none :: proxy_environment where
  "proxy_none = \<lparr>px_source = ProxyNone, px_vars = []\<rparr>"

definition proxy_disabled :: proxy_environment where
  "proxy_disabled = \<lparr>px_source = ProxyDisabled, px_vars = []\<rparr>"

definition validate_proxy_value :: "utext \<Rightarrow> string \<Rightarrow> unit result" where
  "validate_proxy_value v label =
     (if v = [] then Inl (Backend (label @ '' must not be empty''))
      else if \<exists>ch \<in> set v. ch = 0 \<or> ch = 13 \<or> ch = 10 \<or> ch = 8232 \<or> ch = 8233 \<or> is_control ch
      then Inl (Backend (label @ '' contains unsupported control characters''))
      else Inr ())"

definition need_host_and_port :: "'a result" where
  "need_host_and_port = Inl (Backend ''--proxy-url must include host and port'')"

text \<open>The colon is 58, the brackets are 91 and 93.\<close>

definition split_authority_host_port :: "utext \<Rightarrow> (utext \<times> utext) result" where
  "split_authority_host_port authority =
     (case strip_prefix authority [91] of
        Some bracketed_host \<Rightarrow>
          (case split_once 93 bracketed_host of
             None \<Rightarrow> need_host_and_port
           | Some (host, after) \<Rightarrow>
               (let port = (case strip_prefix after [58] of Some p \<Rightarrow> p | None \<Rightarrow> [])
                in if 58 \<in> set port then need_host_and_port else Inr (host, port)))
      | None \<Rightarrow>
          (case rsplit_once 58 authority of
             None \<Rightarrow> need_host_and_port
           | Some (host, port) \<Rightarrow> if 58 \<in> set host then need_host_and_port else Inr (host, port)))"

definition validate_proxy_port :: "utext \<Rightarrow> unit result" where
  "validate_proxy_port port =
     (case parse_u16 port of
        Some 0 \<Rightarrow> Inl (Backend ''--proxy-url port must be a nonzero u16'')
      | Some _ \<Rightarrow> Inr ()
      | None \<Rightarrow> Inl (Backend ''--proxy-url port must be a nonzero u16''))"

text \<open>The slash is 47, the question mark 63, the number sign 35, the at sign 64.\<close>

definition symbol_proxy_from_url :: "utext \<Rightarrow> utext result" where
  "symbol_proxy_from_url v =
     (if \<exists>ch \<in> set v. is_whitespace ch then Inl (Backend ''--proxy-url must not contain whitespace'')
      else case (case strip_prefix v (lit ''http://'') of Some r \<Rightarrow> Some r | None \<Rightarrow> strip_prefix v (lit ''https://'')) of
        None \<Rightarrow> Inl (Backend ''--proxy-url must use http:// or https://'')
      | Some r \<Rightarrow>
          if 63 \<in> set r \<or> 35 \<in> set r then Inl (Backend ''--proxy-url must not include query or fragment'')
          else if slash \<in> set r then Inl (Backend ''--proxy-url must not include a path'')
          else let authority = takeWhile (\<lambda>c. c \<noteq> slash) r in
            if authority = [] then need_host_and_port
            else if 64 \<in> set authority
            then Inl (Backend ''--proxy-url credentials are not supported for _NT_SYMBOL_PROXY'')
            else case split_authority_host_port authority of
              Inl e \<Rightarrow> Inl e
            | Inr (host, port) \<Rightarrow>
                if host = [] \<or> port = [] then need_host_and_port
                else case validate_proxy_port port of
                  Inl e \<Rightarrow> Inl e
                | Inr _ \<Rightarrow> Inr authority)"

definition from_cli_proxy_url :: "utext \<Rightarrow> proxy_environment result" where
  "from_cli_proxy_url v =
     (case validate_proxy_value v ''--proxy-url'' of
        Inl e \<Rightarrow> Inl e
      | Inr _ \<Rightarrow>
          (case symbol_proxy_from_url v of
             Inl e \<Rightarrow> Inl e
           | Inr symbol_proxy \<Rightarrow>
               Inr \<lparr>px_source = ProxyCli,
                    px_vars = bt_insert LOWER_HTTPS_PROXY_KEY v (bt_insert LOWER_HTTP_PROXY_KEY v
                      (bt_insert HTTPS_PROXY_KEY v (bt_insert HTTP_PROXY_KEY v
                      (bt_insert SYMBOL_PROXY_KEY symbol_proxy []))))\<rparr>))"

text \<open>The environment of the server is a function from names to values.\<close>

definition insert_env_pair ::
    "(utext \<Rightarrow> utext option) \<Rightarrow> string \<Rightarrow> utext \<Rightarrow> utext option \<Rightarrow> (utext, utext) btree \<Rightarrow> (utext, utext) btree result" where
  "insert_env_pair env label upper lower vars =
     (case (case env upper of Some v \<Rightarrow> Some v | None \<Rightarrow> Option.bind lower env) of
        None \<Rightarrow> Inr vars
      | Some v \<Rightarrow>
          (case validate_proxy_value v label of
             Inl e \<Rightarrow> Inl e
           | Inr _ \<Rightarrow>
               (let vars = bt_insert upper v vars
                in Inr (case lower of Some l \<Rightarrow> bt_insert l v vars | None \<Rightarrow> vars))))"

fun derive_loop :: "utext list \<Rightarrow> (utext, utext) btree \<Rightarrow> (utext, utext) btree" where
  "derive_loop [] vars = vars"
| "derive_loop (key # keys) vars =
     (case bt_get vars key of
        None \<Rightarrow> derive_loop keys vars
      | Some v \<Rightarrow>
          (case symbol_proxy_from_url v of
             Inl _ \<Rightarrow> derive_loop keys vars
           | Inr symbol_proxy \<Rightarrow> bt_insert SYMBOL_PROXY_KEY symbol_proxy vars))"

definition derive_symbol_proxy_from_network_proxy :: "(utext, utext) btree \<Rightarrow> (utext, utext) btree" where
  "derive_symbol_proxy_from_network_proxy vars =
     (if bt_get vars SYMBOL_PROXY_KEY \<noteq> None then vars
      else derive_loop [HTTPS_PROXY_KEY, HTTP_PROXY_KEY, ALL_PROXY_KEY] vars)"

definition from_environment_map :: "(utext \<Rightarrow> utext option) \<Rightarrow> proxy_environment result" where
  "from_environment_map env =
     (case insert_env_pair env ''_NT_SYMBOL_PROXY'' SYMBOL_PROXY_KEY None [] of Inl e \<Rightarrow> Inl e | Inr v1 \<Rightarrow>
      case insert_env_pair env ''HTTP_PROXY'' HTTP_PROXY_KEY (Some LOWER_HTTP_PROXY_KEY) v1 of Inl e \<Rightarrow> Inl e | Inr v2 \<Rightarrow>
      case insert_env_pair env ''HTTPS_PROXY'' HTTPS_PROXY_KEY (Some LOWER_HTTPS_PROXY_KEY) v2 of Inl e \<Rightarrow> Inl e | Inr v3 \<Rightarrow>
      case insert_env_pair env ''ALL_PROXY'' ALL_PROXY_KEY (Some LOWER_ALL_PROXY_KEY) v3 of Inl e \<Rightarrow> Inl e | Inr v4 \<Rightarrow>
      case insert_env_pair env ''NO_PROXY'' NO_PROXY_KEY (Some LOWER_NO_PROXY_KEY) v4 of Inl e \<Rightarrow> Inl e | Inr v5 \<Rightarrow>
      (let vars = derive_symbol_proxy_from_network_proxy v5
       in Inr (if vars = [] then proxy_none else \<lparr>px_source = ProxyEnvironment, px_vars = vars\<rparr>)))"

definition value_for :: "proxy_environment \<Rightarrow> utext \<Rightarrow> utext option" where
  "value_for p key = bt_get (px_vars p) key"

definition removed_keys :: "proxy_environment \<Rightarrow> utext list" where
  "removed_keys p =
     (case px_source p of
        ProxyNone \<Rightarrow> []
      | ProxyDisabled \<Rightarrow> ALL_PROXY_KEYS
      | ProxyCli \<Rightarrow> filter (\<lambda>key. bt_get (px_vars p) key = None) ALL_PROXY_KEYS
      | ProxyEnvironment \<Rightarrow> filter (\<lambda>key. bt_get (px_vars p) key = None) ALL_PROXY_KEYS)"

definition proxy_keys :: "proxy_environment \<Rightarrow> utext list" where
  "proxy_keys p = filter (\<lambda>key. bt_get (px_vars p) key \<noteq> None)
     [SYMBOL_PROXY_KEY, HTTP_PROXY_KEY, HTTPS_PROXY_KEY, ALL_PROXY_KEY, NO_PROXY_KEY]"

section \<open>Handing them to a worker process\<close>

text \<open>\<open>proxy_env_changes\<close> of \<open>session/worker.rs\<close>.\<close>

definition proxy_env_changes :: "proxy_environment \<Rightarrow> env_change list" where
  "proxy_env_changes p =
     map (\<lambda>key. \<lparr>ec_key = key, ec_value = None\<rparr>) (removed_keys p)
     @ map (\<lambda>(key, v). \<lparr>ec_key = key, ec_value = Some v\<rparr>) (px_vars p)"

definition session_worker_launch_spec :: "os_text \<Rightarrow> proxy_environment \<Rightarrow> process_launch_spec" where
  "session_worker_launch_spec executable p =
     hide_console_window ((process_launch_spec_new executable)
       \<lparr>pls_args := [lit ''worker'', lit ''session''], pls_env := proxy_env_changes p,
        pls_stdin := StdioPiped, pls_stdout := StdioPiped, pls_stderr := StdioNull\<rparr>)"

end
