(* ===== verification/Proxy_Properties.thy ===== *)
theory Proxy_Properties
  imports Proxy
begin

text \<open>
  The proxy variables a worker process sees are exactly the configured ones, whatever environment it
  inherits; which addresses of a proxy are accepted.
\<close>

section \<open>The keys\<close>

lemma upper_keys [simp]:
  "to_ascii_uppercase SYMBOL_PROXY_KEY = SYMBOL_PROXY_KEY" "to_ascii_uppercase HTTP_PROXY_KEY = HTTP_PROXY_KEY"
  "to_ascii_uppercase HTTPS_PROXY_KEY = HTTPS_PROXY_KEY" "to_ascii_uppercase ALL_PROXY_KEY = ALL_PROXY_KEY"
  "to_ascii_uppercase NO_PROXY_KEY = NO_PROXY_KEY" "to_ascii_uppercase LOWER_HTTP_PROXY_KEY = HTTP_PROXY_KEY"
  "to_ascii_uppercase LOWER_HTTPS_PROXY_KEY = HTTPS_PROXY_KEY" "to_ascii_uppercase LOWER_ALL_PROXY_KEY = ALL_PROXY_KEY"
  "to_ascii_uppercase LOWER_NO_PROXY_KEY = NO_PROXY_KEY"
  by (simp_all add: proxy_key_defs to_ascii_uppercase_def)

lemma keys_differ [simp]:
  "SYMBOL_PROXY_KEY \<noteq> HTTP_PROXY_KEY" "SYMBOL_PROXY_KEY \<noteq> HTTPS_PROXY_KEY"
  "SYMBOL_PROXY_KEY \<noteq> ALL_PROXY_KEY" "SYMBOL_PROXY_KEY \<noteq> NO_PROXY_KEY"
  "SYMBOL_PROXY_KEY \<noteq> LOWER_HTTP_PROXY_KEY" "SYMBOL_PROXY_KEY \<noteq> LOWER_HTTPS_PROXY_KEY"
  "SYMBOL_PROXY_KEY \<noteq> LOWER_ALL_PROXY_KEY" "SYMBOL_PROXY_KEY \<noteq> LOWER_NO_PROXY_KEY"
  "HTTP_PROXY_KEY \<noteq> SYMBOL_PROXY_KEY" "HTTP_PROXY_KEY \<noteq> HTTPS_PROXY_KEY"
  "HTTP_PROXY_KEY \<noteq> ALL_PROXY_KEY" "HTTP_PROXY_KEY \<noteq> NO_PROXY_KEY"
  "HTTP_PROXY_KEY \<noteq> LOWER_HTTP_PROXY_KEY" "HTTP_PROXY_KEY \<noteq> LOWER_HTTPS_PROXY_KEY"
  "HTTP_PROXY_KEY \<noteq> LOWER_ALL_PROXY_KEY" "HTTP_PROXY_KEY \<noteq> LOWER_NO_PROXY_KEY"
  "HTTPS_PROXY_KEY \<noteq> SYMBOL_PROXY_KEY" "HTTPS_PROXY_KEY \<noteq> HTTP_PROXY_KEY"
  "HTTPS_PROXY_KEY \<noteq> ALL_PROXY_KEY" "HTTPS_PROXY_KEY \<noteq> NO_PROXY_KEY"
  "HTTPS_PROXY_KEY \<noteq> LOWER_HTTP_PROXY_KEY" "HTTPS_PROXY_KEY \<noteq> LOWER_HTTPS_PROXY_KEY"
  "HTTPS_PROXY_KEY \<noteq> LOWER_ALL_PROXY_KEY" "HTTPS_PROXY_KEY \<noteq> LOWER_NO_PROXY_KEY"
  "ALL_PROXY_KEY \<noteq> SYMBOL_PROXY_KEY" "ALL_PROXY_KEY \<noteq> HTTP_PROXY_KEY"
  "ALL_PROXY_KEY \<noteq> HTTPS_PROXY_KEY" "ALL_PROXY_KEY \<noteq> NO_PROXY_KEY"
  "ALL_PROXY_KEY \<noteq> LOWER_HTTP_PROXY_KEY" "ALL_PROXY_KEY \<noteq> LOWER_HTTPS_PROXY_KEY"
  "ALL_PROXY_KEY \<noteq> LOWER_ALL_PROXY_KEY" "ALL_PROXY_KEY \<noteq> LOWER_NO_PROXY_KEY"
  "NO_PROXY_KEY \<noteq> SYMBOL_PROXY_KEY" "NO_PROXY_KEY \<noteq> HTTP_PROXY_KEY"
  "NO_PROXY_KEY \<noteq> HTTPS_PROXY_KEY" "NO_PROXY_KEY \<noteq> ALL_PROXY_KEY"
  "NO_PROXY_KEY \<noteq> LOWER_HTTP_PROXY_KEY" "NO_PROXY_KEY \<noteq> LOWER_HTTPS_PROXY_KEY"
  "NO_PROXY_KEY \<noteq> LOWER_ALL_PROXY_KEY" "NO_PROXY_KEY \<noteq> LOWER_NO_PROXY_KEY"
  "LOWER_HTTP_PROXY_KEY \<noteq> SYMBOL_PROXY_KEY" "LOWER_HTTP_PROXY_KEY \<noteq> HTTP_PROXY_KEY"
  "LOWER_HTTP_PROXY_KEY \<noteq> HTTPS_PROXY_KEY" "LOWER_HTTP_PROXY_KEY \<noteq> ALL_PROXY_KEY"
  "LOWER_HTTP_PROXY_KEY \<noteq> NO_PROXY_KEY" "LOWER_HTTP_PROXY_KEY \<noteq> LOWER_HTTPS_PROXY_KEY"
  "LOWER_HTTP_PROXY_KEY \<noteq> LOWER_ALL_PROXY_KEY" "LOWER_HTTP_PROXY_KEY \<noteq> LOWER_NO_PROXY_KEY"
  "LOWER_HTTPS_PROXY_KEY \<noteq> SYMBOL_PROXY_KEY" "LOWER_HTTPS_PROXY_KEY \<noteq> HTTP_PROXY_KEY"
  "LOWER_HTTPS_PROXY_KEY \<noteq> HTTPS_PROXY_KEY" "LOWER_HTTPS_PROXY_KEY \<noteq> ALL_PROXY_KEY"
  "LOWER_HTTPS_PROXY_KEY \<noteq> NO_PROXY_KEY" "LOWER_HTTPS_PROXY_KEY \<noteq> LOWER_HTTP_PROXY_KEY"
  "LOWER_HTTPS_PROXY_KEY \<noteq> LOWER_ALL_PROXY_KEY" "LOWER_HTTPS_PROXY_KEY \<noteq> LOWER_NO_PROXY_KEY"
  "LOWER_ALL_PROXY_KEY \<noteq> SYMBOL_PROXY_KEY" "LOWER_ALL_PROXY_KEY \<noteq> HTTP_PROXY_KEY"
  "LOWER_ALL_PROXY_KEY \<noteq> HTTPS_PROXY_KEY" "LOWER_ALL_PROXY_KEY \<noteq> ALL_PROXY_KEY"
  "LOWER_ALL_PROXY_KEY \<noteq> NO_PROXY_KEY" "LOWER_ALL_PROXY_KEY \<noteq> LOWER_HTTP_PROXY_KEY"
  "LOWER_ALL_PROXY_KEY \<noteq> LOWER_HTTPS_PROXY_KEY" "LOWER_ALL_PROXY_KEY \<noteq> LOWER_NO_PROXY_KEY"
  "LOWER_NO_PROXY_KEY \<noteq> SYMBOL_PROXY_KEY" "LOWER_NO_PROXY_KEY \<noteq> HTTP_PROXY_KEY"
  "LOWER_NO_PROXY_KEY \<noteq> HTTPS_PROXY_KEY" "LOWER_NO_PROXY_KEY \<noteq> ALL_PROXY_KEY"
  "LOWER_NO_PROXY_KEY \<noteq> NO_PROXY_KEY" "LOWER_NO_PROXY_KEY \<noteq> LOWER_HTTP_PROXY_KEY"
  "LOWER_NO_PROXY_KEY \<noteq> LOWER_HTTPS_PROXY_KEY" "LOWER_NO_PROXY_KEY \<noteq> LOWER_ALL_PROXY_KEY"
  by (simp_all add: proxy_key_defs)

lemma plain_keys: "k \<in> set ALL_PROXY_KEYS \<Longrightarrow> to_string_lossy k = k \<and> equals \<notin> set k"
  by (auto simp: ALL_PROXY_KEYS_def proxy_key_defs to_string_lossy_def is_surrogate_def)

text \<open>The variables of a proxy environment: known names only, and the two spellings of a name agree.\<close>

definition proxy_ok :: "(utext, utext) btree \<Rightarrow> bool" where
  "proxy_ok vars \<longleftrightarrow> bt_ok vars \<and> dom (bt_get vars) \<subseteq> set ALL_PROXY_KEYS
     \<and> bt_get vars LOWER_HTTP_PROXY_KEY = bt_get vars HTTP_PROXY_KEY
     \<and> bt_get vars LOWER_HTTPS_PROXY_KEY = bt_get vars HTTPS_PROXY_KEY
     \<and> bt_get vars LOWER_ALL_PROXY_KEY = bt_get vars ALL_PROXY_KEY
     \<and> bt_get vars LOWER_NO_PROXY_KEY = bt_get vars NO_PROXY_KEY"

lemma proxy_ok_agree:
  assumes "proxy_ok vars" "k \<in> set ALL_PROXY_KEYS" "k' \<in> set ALL_PROXY_KEYS" "to_ascii_uppercase k = to_ascii_uppercase k'"
  shows "bt_get vars k = bt_get vars k'"
  using assms unfolding proxy_ok_def ALL_PROXY_KEYS_def
  by (simp only: list.set insert_iff empty_iff simp_thms) (elim disjE conjE; simp)

lemma proxy_ok_Nil: "proxy_ok []"
  by (simp add: proxy_ok_def bt_get_def dom_def)

lemma get_Nil [simp]: "bt_get [] k = None"
  by (simp add: bt_get_def)

lemma dom_get_insert: "dom (bt_get (bt_insert k v m)) = insert k (dom (bt_get m))"
  by (auto simp: bt_get_insert)

lemma get_Nil_fun: "bt_get [] = (\<lambda>_. None)"
  by (rule ext) simp

lemma proxy_ok_cli:
  "proxy_ok (bt_insert LOWER_HTTPS_PROXY_KEY v (bt_insert LOWER_HTTP_PROXY_KEY v
     (bt_insert HTTPS_PROXY_KEY v (bt_insert HTTP_PROXY_KEY v (bt_insert SYMBOL_PROXY_KEY w [])))))"
  by (simp add: proxy_ok_def bt_get_insert bt_ok_insert get_Nil_fun ALL_PROXY_KEYS_def del: bt_insert.simps)

lemma cli_ok:
  assumes "from_cli_proxy_url url = Inr p"
  shows "proxy_ok (px_vars p)" "px_source p = ProxyCli"
  using assms
  by (auto simp: from_cli_proxy_url_def proxy_ok_cli simp del: bt_insert.simps split: sum.splits)

text \<open>Taking over a variable keeps the spellings of every name together.\<close>

lemma proxy_ok_symbol: "proxy_ok vars \<Longrightarrow> proxy_ok (bt_insert SYMBOL_PROXY_KEY v vars)"
  by (auto simp: proxy_ok_def bt_get_insert bt_ok_insert ALL_PROXY_KEYS_def)

lemma proxy_ok_pair:
  assumes "proxy_ok vars"
  shows "proxy_ok (bt_insert LOWER_HTTP_PROXY_KEY v (bt_insert HTTP_PROXY_KEY v vars))"
    "proxy_ok (bt_insert LOWER_HTTPS_PROXY_KEY v (bt_insert HTTPS_PROXY_KEY v vars))"
    "proxy_ok (bt_insert LOWER_ALL_PROXY_KEY v (bt_insert ALL_PROXY_KEY v vars))"
    "proxy_ok (bt_insert LOWER_NO_PROXY_KEY v (bt_insert NO_PROXY_KEY v vars))"
  using assms by (simp_all add: proxy_ok_def bt_get_insert bt_ok_insert ALL_PROXY_KEYS_def)

lemma insert_pair_cases:
  assumes "insert_env_pair env label upper lower vars = Inr vars'"
  obtains "vars' = vars" | v where "vars' = (case lower of Some l \<Rightarrow> bt_insert l v (bt_insert upper v vars) | None \<Rightarrow> bt_insert upper v vars)"
  using assms by (auto simp: insert_env_pair_def Let_def split: option.splits sum.splits)

lemma derive_loop_ok:
  "proxy_ok vars \<Longrightarrow> proxy_ok (derive_loop keys vars)"
proof (induction keys)
  case (Cons key keys)
  then show ?case by (auto simp: proxy_ok_symbol split: option.split sum.split)
qed simp

text \<open>The \<open>?\<close> of the code, taken apart.\<close>

lemma case_result_InrE:
  assumes "(case x of Inl e \<Rightarrow> Inl e | Inr v \<Rightarrow> f v) = Inr r"
  obtains v where "x = Inr v" "f v = Inr r"
  using assms by (cases x) auto

lemma environment_ok:
  assumes "from_environment_map env = Inr p"
  shows "proxy_ok (px_vars p) \<and> (px_source p = ProxyEnvironment \<or> p = proxy_none)"
  using assms unfolding from_environment_map_def
proof (elim case_result_InrE)
  fix v1 v2 v3 v4 v5
  assume v1: "insert_env_pair env ''_NT_SYMBOL_PROXY'' SYMBOL_PROXY_KEY None [] = Inr v1"
    and v2: "insert_env_pair env ''HTTP_PROXY'' HTTP_PROXY_KEY (Some LOWER_HTTP_PROXY_KEY) v1 = Inr v2"
    and v3: "insert_env_pair env ''HTTPS_PROXY'' HTTPS_PROXY_KEY (Some LOWER_HTTPS_PROXY_KEY) v2 = Inr v3"
    and v4: "insert_env_pair env ''ALL_PROXY'' ALL_PROXY_KEY (Some LOWER_ALL_PROXY_KEY) v3 = Inr v4"
    and v5: "insert_env_pair env ''NO_PROXY'' NO_PROXY_KEY (Some LOWER_NO_PROXY_KEY) v4 = Inr v5"
    and p: "(let vars = derive_symbol_proxy_from_network_proxy v5
       in Inr (if vars = [] then proxy_none else \<lparr>px_source = ProxyEnvironment, px_vars = vars\<rparr>)) = Inr p"
  have "proxy_ok v1" by (rule insert_pair_cases[OF v1]) (simp_all add: proxy_ok_Nil proxy_ok_symbol del: bt_insert.simps)
  then have "proxy_ok v2" by - (rule insert_pair_cases[OF v2]; simp add: proxy_ok_pair del: bt_insert.simps)
  then have "proxy_ok v3" by - (rule insert_pair_cases[OF v3]; simp add: proxy_ok_pair del: bt_insert.simps)
  then have "proxy_ok v4" by - (rule insert_pair_cases[OF v4]; simp add: proxy_ok_pair del: bt_insert.simps)
  then have "proxy_ok v5" by - (rule insert_pair_cases[OF v5]; simp add: proxy_ok_pair del: bt_insert.simps)
  then have ok: "proxy_ok (derive_symbol_proxy_from_network_proxy v5)"
    by (simp add: derive_symbol_proxy_from_network_proxy_def derive_loop_ok del: derive_loop.simps)
  show ?thesis
    using p ok proxy_ok_Nil by (auto simp: Let_def proxy_none_def)
qed

section \<open>What the worker sees\<close>

text \<open>The value of a variable in an environment whose entries are \<open>NAME=value\<close>.\<close>

definition seen_variable :: "environment \<Rightarrow> utext \<Rightarrow> utext option" where
  "seen_variable env name =
     map_option (\<lambda>entry. tl (dropWhile (\<lambda>c. c \<noteq> equals) entry)) (bt_get env (to_ascii_uppercase name))"

lemma drop_name: "equals \<notin> set k \<Longrightarrow> tl (dropWhile (\<lambda>c. c \<noteq> equals) (k @ [equals] @ v)) = v"
  by (induction k) auto

lemma removed_filter:
  assumes "px_source p \<noteq> ProxyNone" "px_source p = ProxyDisabled \<Longrightarrow> px_vars p = []"
  shows "removed_keys p = filter (\<lambda>key. bt_get (px_vars p) key = None) ALL_PROXY_KEYS"
  using assms by (cases "px_source p") (simp_all add: removed_keys_def)

lemma find_append: "List.find P (xs @ ys) = (case List.find P xs of Some x \<Rightarrow> Some x | None \<Rightarrow> List.find P ys)"
  by (induction xs) auto

lemma find_None_iff: "List.find P xs = None \<longleftrightarrow> (\<forall>x \<in> set xs. \<not> P x)"
  by (induction xs) auto

lemma find_exists: "x \<in> set xs \<Longrightarrow> P x \<Longrightarrow> \<exists>y. List.find P xs = Some y \<and> P y \<and> y \<in> set xs"
  by (induction xs) auto

lemma changes_seen:
  assumes ok: "proxy_ok (px_vars p)" and r: "removed_keys p = filter (\<lambda>key. bt_get (px_vars p) key = None) ALL_PROXY_KEYS"
    and n: "name \<in> set ALL_PROXY_KEYS"
  shows "seen_variable (apply_env_changes (proxy_env_changes p) env) name = value_for p name"
proof -
  let ?set = "map (\<lambda>(key, v). \<lparr>ec_key = key, ec_value = Some v\<rparr>) (px_vars p)"
  let ?rem = "map (\<lambda>key. \<lparr>ec_key = key, ec_value = None\<rparr>) (removed_keys p)"
  let ?P = "\<lambda>c. change_name c = to_ascii_uppercase name"
  have known: "k \<in> set ALL_PROXY_KEYS \<and> bt_get (px_vars p) k = Some v" if "(k, v) \<in> set (px_vars p)" for k v
    using ok that in_set_bt_get[of "px_vars p" k v] by (auto simp: proxy_ok_def)
  have same: "change_name \<lparr>ec_key = k, ec_value = v\<rparr> = to_ascii_uppercase k" if "k \<in> set ALL_PROXY_KEYS" for k v
    using plain_keys[OF that] by (simp add: change_name_def)
  have rev: "rev (proxy_env_changes p) = rev ?set @ rev ?rem" by (simp add: proxy_env_changes_def)
  show ?thesis
  proof (cases "bt_get (px_vars p) name")
    case (Some v)
    then have "\<lparr>ec_key = name, ec_value = Some v\<rparr> \<in> set (rev ?set)" using bt_get_in_set[OF Some] by (simp add: rev_image_eqI)
    moreover have "?P \<lparr>ec_key = name, ec_value = Some v\<rparr>" using same[OF n] by simp
    ultimately obtain c where c: "List.find ?P (rev ?set) = Some c" "?P c" "c \<in> set (rev ?set)"
      using find_exists[of _ "rev ?set" ?P] by blast
    then obtain k w where k: "c = \<lparr>ec_key = k, ec_value = Some w\<rparr>" "(k, w) \<in> set (px_vars p)" by auto
    have "to_ascii_uppercase k = to_ascii_uppercase name" using c(2) same[of k "Some w"] known[OF k(2)] by (simp add: k(1))
    then have w: "w = v" using proxy_ok_agree[OF ok _ n, of k] known[OF k(2)] Some by auto
    have "seen_variable (apply_env_changes (proxy_env_changes p) env) name = Some w"
      using plain_keys[of k] known[OF k(2)] drop_name[of k w]
      by (simp add: seen_variable_def apply_env_changes_correct rev find_append c(1) k(1))
    then show ?thesis using Some w by (simp add: value_for_def)
  next
    case None
    have "\<not> ?P c" if c: "c \<in> set (rev ?set)" for c
    proof
      assume "?P c"
      obtain k w where k: "c = \<lparr>ec_key = k, ec_value = Some w\<rparr>" "(k, w) \<in> set (px_vars p)" using c by auto
      have "to_ascii_uppercase k = to_ascii_uppercase name"
        using \<open>?P c\<close> same[of k "Some w"] known[OF k(2)] by (simp add: k(1))
      then show False using proxy_ok_agree[OF ok _ n, of k] known[OF k(2)] None by auto
    qed
    then have 1: "List.find ?P (rev ?set) = None" by (simp add: find_None_iff)
    have "\<lparr>ec_key = name, ec_value = None\<rparr> \<in> set (rev ?rem)" using n None r by simp
    moreover have "?P \<lparr>ec_key = name, ec_value = None\<rparr>" using same[OF n] by simp
    ultimately obtain c where c: "List.find ?P (rev ?rem) = Some c" "c \<in> set (rev ?rem)"
      using find_exists[of _ "rev ?rem" ?P] by blast
    then have "ec_value c = None" by auto
    then show ?thesis using None 1 c(1) by (simp add: seen_variable_def apply_env_changes_correct rev find_append value_for_def)
  qed
qed

lemma changes_other:
  assumes ok: "proxy_ok (px_vars p)" and r: "set (removed_keys p) \<subseteq> set ALL_PROXY_KEYS"
    and n: "name \<notin> to_ascii_uppercase ` set ALL_PROXY_KEYS"
  shows "bt_get (apply_env_changes (proxy_env_changes p) env) name = bt_get env name"
proof -
  have "change_name c \<noteq> name" if c: "c \<in> set (rev (proxy_env_changes p))" for c
  proof -
    have "ec_key c \<in> set ALL_PROXY_KEYS"
      using c r ok in_set_bt_get[of "px_vars p"] by (auto simp: proxy_env_changes_def proxy_ok_def)
    then have "change_name c = to_ascii_uppercase (ec_key c)" using plain_keys by (simp add: change_name_def)
    with \<open>ec_key c \<in> _\<close> n show ?thesis by blast
  qed
  then have "List.find (\<lambda>c. change_name c = name) (rev (proxy_env_changes p)) = None" by (simp add: find_None_iff)
  then show ?thesis by (simp add: apply_env_changes_correct)
qed

section \<open>What is configured\<close>

text \<open>
  Where the settings come from, and what they say of each of the nine variables: the address that was given, with
  host and port for the symbol server; or the variable of the server, in upper case if it has both spellings, where
  the symbol server gets the first network proxy that it can use if it has none of its own; or nothing.
\<close>

datatype proxy_setting = FromUrl utext | FromServer "utext \<Rightarrow> utext option" | SwitchedOff

fun configured_proxy :: "proxy_setting \<Rightarrow> proxy_environment result" where
  "configured_proxy (FromUrl url) = from_cli_proxy_url url"
| "configured_proxy (FromServer server) = from_environment_map server"
| "configured_proxy SwitchedOff = Inr proxy_disabled"

definition url_authority :: "utext \<Rightarrow> utext" where
  "url_authority url = drop 2 (dropWhile (\<lambda>c. c \<noteq> slash) url)"

definition either_spelling :: "(utext \<Rightarrow> utext option) \<Rightarrow> utext \<Rightarrow> utext \<Rightarrow> utext option" where
  "either_spelling server upper lower = (case server upper of Some v \<Rightarrow> Some v | None \<Rightarrow> server lower)"

definition network_setting :: "(utext \<Rightarrow> utext option) \<Rightarrow> utext \<Rightarrow> utext option" where
  "network_setting server name =
     (if name \<in> {HTTP_PROXY_KEY, LOWER_HTTP_PROXY_KEY} then either_spelling server HTTP_PROXY_KEY LOWER_HTTP_PROXY_KEY
      else if name \<in> {HTTPS_PROXY_KEY, LOWER_HTTPS_PROXY_KEY} then either_spelling server HTTPS_PROXY_KEY LOWER_HTTPS_PROXY_KEY
      else if name \<in> {ALL_PROXY_KEY, LOWER_ALL_PROXY_KEY} then either_spelling server ALL_PROXY_KEY LOWER_ALL_PROXY_KEY
      else if name \<in> {NO_PROXY_KEY, LOWER_NO_PROXY_KEY} then either_spelling server NO_PROXY_KEY LOWER_NO_PROXY_KEY
      else None)"

definition usable_for_symbols :: "utext \<Rightarrow> bool" where
  "usable_for_symbols v \<longleftrightarrow> \<not> isl (symbol_proxy_from_url v)"

fun configured_value :: "proxy_setting \<Rightarrow> utext \<Rightarrow> utext option" where
  "configured_value (FromUrl url) name =
     (if name = SYMBOL_PROXY_KEY then Some (url_authority url)
      else if name \<in> {HTTP_PROXY_KEY, LOWER_HTTP_PROXY_KEY, HTTPS_PROXY_KEY, LOWER_HTTPS_PROXY_KEY} then Some url
      else None)"
| "configured_value (FromServer server) name =
     (if name = SYMBOL_PROXY_KEY
      then (case server SYMBOL_PROXY_KEY of
              Some v \<Rightarrow> Some v
            | None \<Rightarrow>
                map_option url_authority
                  (List.find usable_for_symbols
                    (List.map_filter (network_setting server) [HTTPS_PROXY_KEY, HTTP_PROXY_KEY, ALL_PROXY_KEY])))
      else network_setting server name)"
| "configured_value SwitchedOff name = None"

lemma symbol_proxy_authority: "symbol_proxy_from_url v = Inr a \<Longrightarrow> a = url_authority v"
proof -
  assume a: "symbol_proxy_from_url v = Inr a"
  define stripped where "stripped = (case strip_prefix v (lit ''http://'') of Some r \<Rightarrow> Some r | None \<Rightarrow> strip_prefix v (lit ''https://''))"
  note b = a[unfolded symbol_proxy_from_url_def, folded stripped_def]
  obtain r where o: "stripped = Some r" using b by (cases stripped) (simp_all split: if_splits)
  then have prefix: "strip_prefix v (lit ''http://'') = Some r \<or> strip_prefix v (lit ''https://'') = Some r"
    unfolding stripped_def by (cases "strip_prefix v (lit ''http://'')") simp_all
  define t where "t = takeWhile (\<lambda>c. c \<noteq> slash) r"
  note c = b[unfolded o option.case Let_def need_host_and_port_def, folded t_def]
  have "slash \<notin> set r \<and> a = t"
    using c by (cases "split_authority_host_port t") (auto split: if_splits sum.splits prod.splits)
  then have "slash \<notin> set r \<and> a = takeWhile (\<lambda>c. c \<noteq> slash) r" unfolding t_def .
  then have r: "strip_prefix v (lit ''http://'') = Some r \<or> strip_prefix v (lit ''https://'') = Some r" "slash \<notin> set r"
    "a = takeWhile (\<lambda>c. c \<noteq> slash) r" using prefix by simp_all
  have "takeWhile (\<lambda>c. c \<noteq> slash) r = r" using r(2) by (induction r) simp_all
  then have "a = r" using r(3) by simp
  moreover have "v = lit ''http://'' @ r \<or> v = lit ''https://'' @ r" using r(1) unfolding strip_prefix_Some .
  moreover have "url_authority (lit ''http://'' @ r) = r" "url_authority (lit ''https://'' @ r) = r"
    by (simp_all add: url_authority_def)
  ultimately show ?thesis by (elim disjE) (simp_all only:)
qed

lemma insert_pair_get:
  "insert_env_pair env label upper (Some lower) vars = Inr vars' \<Longrightarrow>
     bt_get vars' k = (if k \<in> {upper, lower} \<and> either_spelling env upper lower \<noteq> None then either_spelling env upper lower else bt_get vars k)"
  by (auto simp: insert_env_pair_def either_spelling_def Let_def bt_get_insert simp del: bt_insert.simps split: option.splits sum.splits)

lemma insert_symbol_get:
  "insert_env_pair env label upper None vars = Inr vars' \<Longrightarrow>
     bt_get vars' k = (if k = upper \<and> env upper \<noteq> None then env upper else bt_get vars k)"
  by (auto simp: insert_env_pair_def Let_def bt_get_insert simp del: bt_insert.simps split: option.splits sum.splits)

lemma derive_loop_get:
  "bt_get (derive_loop keys vars) k
     = (if k = SYMBOL_PROXY_KEY
        then (case List.find usable_for_symbols (List.map_filter (bt_get vars) keys) of
                None \<Rightarrow> bt_get vars k
              | Some v \<Rightarrow> Some (url_authority v))
        else bt_get vars k)"
proof (induction keys)
  case (Cons key keys)
  show ?case
  proof (cases "bt_get vars key")
    case None
    then show ?thesis using Cons.IH by (simp add: map_filter_simps)
  next
    case (Some v)
    then show ?thesis
      using Cons.IH symbol_proxy_authority[of v]
      by (cases "symbol_proxy_from_url v")
        (auto simp: map_filter_simps usable_for_symbols_def bt_get_insert simp del: bt_insert.simps)
  qed
qed (simp add: map_filter_simps)

lemma map_filter_cong: "(\<And>x. x \<in> set xs \<Longrightarrow> f x = g x) \<Longrightarrow> List.map_filter f xs = List.map_filter g xs"
  by (induction xs) (auto simp: map_filter_simps split: option.splits)

lemma environment_value:
  assumes "from_environment_map server = Inr p" "name \<in> set ALL_PROXY_KEYS"
  shows "value_for p name = configured_value (FromServer server) name"
  using assms(1) unfolding from_environment_map_def
proof (elim case_result_InrE)
  fix v1 v2 v3 v4 v5
  assume v1: "insert_env_pair server ''_NT_SYMBOL_PROXY'' SYMBOL_PROXY_KEY None [] = Inr v1"
    and v2: "insert_env_pair server ''HTTP_PROXY'' HTTP_PROXY_KEY (Some LOWER_HTTP_PROXY_KEY) v1 = Inr v2"
    and v3: "insert_env_pair server ''HTTPS_PROXY'' HTTPS_PROXY_KEY (Some LOWER_HTTPS_PROXY_KEY) v2 = Inr v3"
    and v4: "insert_env_pair server ''ALL_PROXY'' ALL_PROXY_KEY (Some LOWER_ALL_PROXY_KEY) v3 = Inr v4"
    and v5: "insert_env_pair server ''NO_PROXY'' NO_PROXY_KEY (Some LOWER_NO_PROXY_KEY) v4 = Inr v5"
    and p: "(let vars = derive_symbol_proxy_from_network_proxy v5
       in Inr (if vars = [] then proxy_none else \<lparr>px_source = ProxyEnvironment, px_vars = vars\<rparr>)) = Inr p"
  note get = insert_pair_get[OF v5] insert_pair_get[OF v4] insert_pair_get[OF v3] insert_pair_get[OF v2] insert_symbol_get[OF v1]
  have five: "bt_get v5 k = (if k = SYMBOL_PROXY_KEY then server SYMBOL_PROXY_KEY else network_setting server k)" for k
    unfolding get network_setting_def by auto
  have derived: "bt_get (derive_symbol_proxy_from_network_proxy v5) name = configured_value (FromServer server) name"
  proof (cases "server SYMBOL_PROXY_KEY")
    case None
    have "List.map_filter (bt_get v5) [HTTPS_PROXY_KEY, HTTP_PROXY_KEY, ALL_PROXY_KEY]
        = List.map_filter (network_setting server) [HTTPS_PROXY_KEY, HTTP_PROXY_KEY, ALL_PROXY_KEY]"
      by (rule map_filter_cong) (auto simp: five)
    then show ?thesis
      using None by (simp add: derive_symbol_proxy_from_network_proxy_def derive_loop_get five del: derive_loop.simps split: option.split)
  next
    case (Some v)
    then show ?thesis by (simp add: derive_symbol_proxy_from_network_proxy_def five)
  qed
  have "px_vars p = derive_symbol_proxy_from_network_proxy v5" using p by (auto simp: Let_def proxy_none_def)
  then show ?thesis using derived by (simp add: value_for_def)
qed

lemma cli_value:
  assumes "from_cli_proxy_url url = Inr p" "name \<in> set ALL_PROXY_KEYS"
  shows "value_for p name = configured_value (FromUrl url) name"
proof -
  obtain a where a: "symbol_proxy_from_url url = Inr a"
    "p = \<lparr>px_source = ProxyCli, px_vars = bt_insert LOWER_HTTPS_PROXY_KEY url (bt_insert LOWER_HTTP_PROXY_KEY url
        (bt_insert HTTPS_PROXY_KEY url (bt_insert HTTP_PROXY_KEY url (bt_insert SYMBOL_PROXY_KEY a []))))\<rparr>"
    using assms(1) by (auto simp: from_cli_proxy_url_def simp del: bt_insert.simps split: sum.splits)
  then show ?thesis
    using symbol_proxy_authority[OF a(1)] by (auto simp: value_for_def bt_get_insert simp del: bt_insert.simps)
qed

lemma configured_value_for:
  assumes "configured_proxy setting = Inr p" "name \<in> set ALL_PROXY_KEYS"
  shows "value_for p name = configured_value setting name"
proof (cases setting)
  case SwitchedOff
  then show ?thesis using assms by (auto simp: value_for_def proxy_disabled_def)
qed (use assms cli_value environment_value in auto)

text \<open>Nothing is configured if the server has none of the variables.\<close>

definition nothing_configured :: "proxy_setting \<Rightarrow> bool" where
  "nothing_configured setting =
     (case setting of FromServer server \<Rightarrow> list_all (\<lambda>name. server name = None) ALL_PROXY_KEYS | _ \<Rightarrow> False)"

lemma btree_empty: "dom (bt_get m) = {} \<Longrightarrow> m = []"
  by (cases m) (simp_all add: dom_bt_get)

lemma nothing_configured_none:
  assumes "configured_proxy setting = Inr p"
  shows "px_source p = ProxyNone \<longleftrightarrow> nothing_configured setting"
proof (cases setting)
  case (FromUrl url)
  then show ?thesis using assms cli_ok(2)[of url p] by (simp add: nothing_configured_def)
next
  case SwitchedOff
  then show ?thesis using assms by (auto simp: nothing_configured_def proxy_disabled_def)
next
  case (FromServer server)
  then have f: "from_environment_map server = Inr p" using assms by simp
  note ok = environment_ok[OF f] and seen = environment_value[OF f]
  have dom: "dom (bt_get (px_vars p)) \<subseteq> set ALL_PROXY_KEYS" using ok by (simp add: proxy_ok_def)
  have "nothing_configured setting \<longleftrightarrow> (\<forall>name \<in> set ALL_PROXY_KEYS. value_for p name = None)"
  proof
    assume "nothing_configured setting"
    then have none: "server name = None" if "name \<in> set ALL_PROXY_KEYS" for name
      using that by (simp add: FromServer nothing_configured_def list_all_iff)
    have "network_setting server name = None" for name
      using none by (auto simp: network_setting_def either_spelling_def ALL_PROXY_KEYS_def)
    then show "\<forall>name \<in> set ALL_PROXY_KEYS. value_for p name = None"
      using seen none[of SYMBOL_PROXY_KEY] by (auto simp: map_filter_simps ALL_PROXY_KEYS_def)
  next
    assume none: "\<forall>name \<in> set ALL_PROXY_KEYS. value_for p name = None"
    have "server name = None" if "name \<in> set ALL_PROXY_KEYS" for name
    proof -
      have k: "configured_value (FromServer server) k = None" if "k \<in> set ALL_PROXY_KEYS" for k
        using none seen[OF that] that by simp
      have n: "network_setting server HTTP_PROXY_KEY = None" "network_setting server HTTPS_PROXY_KEY = None"
        "network_setting server ALL_PROXY_KEY = None" "network_setting server NO_PROXY_KEY = None" "server SYMBOL_PROXY_KEY = None"
        using k[of HTTP_PROXY_KEY] k[of HTTPS_PROXY_KEY] k[of ALL_PROXY_KEY] k[of NO_PROXY_KEY] k[of SYMBOL_PROXY_KEY]
        by (simp_all add: ALL_PROXY_KEYS_def split: option.splits)
      then show ?thesis using that
        by (auto simp: ALL_PROXY_KEYS_def network_setting_def either_spelling_def split: option.splits)
    qed
    then show "nothing_configured setting" by (simp add: FromServer nothing_configured_def list_all_iff)
  qed
  also have "\<dots> \<longleftrightarrow> px_vars p = []"
    using dom btree_empty[of "px_vars p"] by (auto simp: value_for_def)
  also have "\<dots> \<longleftrightarrow> px_source p = ProxyNone"
    using ok f by (auto simp: proxy_none_def from_environment_map_def Let_def elim!: case_result_InrE split: if_splits)
  finally show ?thesis by blast
qed

text \<open>
  C26. A debug worker sees exactly the proxy that is configured. With an address from the command line, the four
  variables for HTTP and HTTPS have this address, the one for the symbol server has its host and port, and the other
  four are not there. With the environment of the server, each network variable has the value of the server in both
  spellings, the upper-case one if it has both, and the symbol server gets its own variable, or host and port of
  the first of HTTPS, HTTP and ALL proxy that is usable for it. With proxies disabled none of the nine is there. This is so
  whatever the worker inherits; all other variables are inherited unchanged, and if the server has no proxy variable
  at all, everything is.
\<close>

theorem worker_sees_configured_proxy:
  assumes "configured_proxy setting = Inr p"
  shows "let env' = apply_env_changes (pls_env (session_worker_launch_spec executable p)) env in
     (if nothing_configured setting then env' = env
      else list_all (\<lambda>name. seen_variable env' name = configured_value setting name) ALL_PROXY_KEYS
        \<and> {name. bt_get env' name \<noteq> bt_get env name} \<subseteq> to_ascii_uppercase ` set ALL_PROXY_KEYS)"
proof -
  have spec: "pls_env (session_worker_launch_spec executable p) = proxy_env_changes p"
    by (simp add: session_worker_launch_spec_def hide_console_window_def)
  have ok: "proxy_ok (px_vars p)" "px_source p = ProxyDisabled \<Longrightarrow> px_vars p = []" "px_source p = ProxyNone \<Longrightarrow> p = proxy_none"
    using assms cli_ok[of _ p] environment_ok[of _ p] proxy_ok_Nil
    by (cases setting; force simp: proxy_disabled_def proxy_none_def)+
  show ?thesis
  proof (cases "px_source p = ProxyNone")
    case True
    then show ?thesis using ok(3) nothing_configured_none[OF assms] unfolding Let_def spec
      by (simp add: proxy_env_changes_def removed_keys_def proxy_none_def apply_env_changes_def)
  next
    case False
    note r = removed_filter[OF False ok(2)]
    have "list_all (\<lambda>name. seen_variable (apply_env_changes (proxy_env_changes p) env) name = configured_value setting name) ALL_PROXY_KEYS"
      using changes_seen[OF ok(1) r] configured_value_for[OF assms] by (simp add: list_all_iff)
    moreover have "{name. bt_get (apply_env_changes (proxy_env_changes p) env) name \<noteq> bt_get env name}
        \<subseteq> to_ascii_uppercase ` set ALL_PROXY_KEYS"
      using changes_other[OF ok(1)] r by auto
    ultimately show ?thesis using False nothing_configured_none[OF assms] by (simp add: Let_def spec)
  qed
qed

lemma worker_sees_configured_proxy_witness:
  "seen_variable (apply_env_changes (pls_env (session_worker_launch_spec [97] proxy_disabled))
      [(HTTP_PROXY_KEY, HTTP_PROXY_KEY @ [equals, 120])]) LOWER_HTTP_PROXY_KEY = None"
proof -
  have "list_all (\<lambda>name. seen_variable (apply_env_changes (pls_env (session_worker_launch_spec [97] proxy_disabled))
      [(HTTP_PROXY_KEY, HTTP_PROXY_KEY @ [equals, 120])]) name = configured_value SwitchedOff name) ALL_PROXY_KEYS"
    using worker_sees_configured_proxy[of SwitchedOff proxy_disabled "[97]" "[(HTTP_PROXY_KEY, HTTP_PROXY_KEY @ [equals, 120])]"]
    by (simp add: Let_def nothing_configured_def)
  then show ?thesis by (simp add: ALL_PROXY_KEYS_def)
qed

end
