(* ===== verification/Native_Collector.thy ===== *)
theory Native_Collector
  imports Etw_Properties Artifacts
begin

text \<open>
  The collector of kernel events as an object (\<open>NativeEtwCollector\<close> in \<open>native_etw.rs\<close>): starting and
  stopping a trace session of Windows, and turning its file into the rows and the summary. The trace
  sessions that run, and the files written here, are the state \<open>trace_world\<close>; the statuses of the Windows
  calls and the failures of the file system are the record \<open>etw_os\<close>.
\<close>

unbundle bit_operations_syntax

section \<open>Windows\<close>

datatype event_guid = ProcessGuid | ThreadGuid | ImageLoadGuid | FileIoGuid

record classic_event_id =
  ce_guid :: event_guid
  ce_type :: nat

text \<open>A running trace session: its name, file, enabled flags and the events whose stacks are taken.\<close>

record trace_session =
  ts_name :: string
  ts_path :: path
  ts_flags :: u32
  ts_stack_events :: "classic_event_id list"

datatype trace_file =
    EmptyRows
  | LifecycleRows "lifecycle_event list"
  | FileIoRows "file_io_event list"
  | SummaryText etw_summary

record trace_world =
  tw_calls :: nat
  tw_running :: "trace_session list"
  tw_files :: "path \<Rightarrow> trace_file option"

text \<open>The statuses are those of the \<open>n\<close>-th call; \<open>eo_trace\<close> is what a trace file holds: whether it can be
  opened, the statuses of processing and closing it, and its records.\<close>

record etw_os =
  eo_uuid :: "nat \<Rightarrow> string"
  eo_start :: "nat \<Rightarrow> nat"
  eo_stacks :: "nat \<Rightarrow> nat"
  eo_stop :: "nat \<Rightarrow> nat"
  eo_fs :: "path \<Rightarrow> string option"
  eo_trace :: "path \<Rightarrow> bool \<times> nat \<times> nat \<times> decoded_record list"

definition ERROR_SUCCESS :: nat where "ERROR_SUCCESS = 0"
definition ERROR_MORE_DATA :: nat where "ERROR_MORE_DATA = 234"

abbreviation etw_message :: "dbgflow_error \<Rightarrow> string" where
  "etw_message e \<equiv> error_text (\<lambda>_. '''') e"

section \<open>Flags and stack events\<close>

text \<open>\<open>EVENT_TRACE_FLAG_PROCESS\<close>, \<open>THREAD\<close>, \<open>IMAGE_LOAD\<close>, \<open>DISK_IO\<close>, \<open>DISK_FILE_IO\<close>, \<open>FILE_IO\<close> and \<open>FILE_IO_INIT\<close>.\<close>

definition enable_flags :: "native_etw_settings \<Rightarrow> u32" where
  "enable_flags wanted =
     (let flags = (if includes_set wanted Process then 0x1 OR 0x2 OR 0x4 else 0)
      in if includes_set wanted FileIo then flags OR (0x100 OR 0x200 OR 0x4000000 OR 0x2000000) else flags)"

definition classic_event :: "event_guid \<Rightarrow> nat \<Rightarrow> classic_event_id" where
  "classic_event guid event_type = \<lparr>ce_guid = guid, ce_type = event_type mod 256\<rparr>"

text \<open>Name, file create and delete name, rundown, and the operations but close and the end of an operation.\<close>

definition file_io_stack_events :: "classic_event_id list" where
  "file_io_stack_events =
     map (classic_event FileIoGuid) [0, 32, 35, 36, 64, 65, 67, 68, 69, 70, 71, 72, 73, 74, 75, 77]"

definition stack_events :: "native_etw_settings \<Rightarrow> classic_event_id list" where
  "stack_events wanted =
     (if includes_set wanted Process
      then [classic_event ProcessGuid EVENT_TRACE_TYPE_START, classic_event ProcessGuid EVENT_TRACE_TYPE_END,
            classic_event ThreadGuid EVENT_TRACE_TYPE_START, classic_event ThreadGuid EVENT_TRACE_TYPE_END,
            classic_event ImageLoadGuid EVENT_TRACE_TYPE_LOAD, classic_event ImageLoadGuid EVENT_TRACE_TYPE_END]
      else [])
     @ (if includes_set wanted FileIo then file_io_stack_events else [])"

section \<open>Trace sessions\<close>

definition called :: "trace_world \<Rightarrow> trace_world" where
  "called w = w\<lparr>tw_calls := tw_calls w + 1\<rparr>"

text \<open>\<open>StartTraceW\<close>, \<open>TraceSetInformation\<close> and \<open>ControlTraceW\<close> with \<open>EVENT_TRACE_CONTROL_STOP\<close>: a session
  runs once it is started and until it is stopped, which \<open>ERROR_MORE_DATA\<close> says as well.\<close>

definition stop_trace_session :: "etw_os \<Rightarrow> string \<Rightarrow> trace_world \<Rightarrow> string list result \<times> trace_world" where
  "stop_trace_session os name w =
     (let status = eo_stop os (tw_calls w); w = called w;
          stopped = w\<lparr>tw_running := filter (\<lambda>s. ts_name s \<noteq> name) (tw_running w)\<rparr>
      in if status = ERROR_MORE_DATA
         then (Inr [''ControlTraceW stop returned ERROR_MORE_DATA after stopping the ETW session''], stopped)
         else if status \<noteq> ERROR_SUCCESS then (Inl (etw_error ''ControlTraceW stop'' status), w)
         else (Inr [], stopped))"

definition enable_stack_tracing ::
    "etw_os \<Rightarrow> string \<Rightarrow> native_etw_settings \<Rightarrow> trace_world \<Rightarrow> unit result \<times> trace_world" where
  "enable_stack_tracing os name wanted w =
     (if stack_events wanted = [] then (Inr (), w)
      else let status = eo_stacks os (tw_calls w); w = called w
           in if status \<noteq> ERROR_SUCCESS
              then (Inl (etw_error ''TraceSetInformation TraceStackTracingInfo'' status), w)
              else (Inr (), w\<lparr>tw_running := map (\<lambda>s. if ts_name s = name
                      then s\<lparr>ts_stack_events := stack_events wanted\<rparr> else s) (tw_running w)\<rparr>))"

definition start_trace_session ::
    "etw_os \<Rightarrow> string \<Rightarrow> path \<Rightarrow> native_etw_settings \<Rightarrow> trace_world \<Rightarrow> unit result \<times> trace_world" where
  "start_trace_session os name trace_path wanted w =
     (let status = eo_start os (tw_calls w); w = called w
      in if status \<noteq> ERROR_SUCCESS then (Inl (etw_error ''StartTraceW'' status), w)
         else let w = w\<lparr>tw_running := \<lparr>ts_name = name, ts_path = trace_path, ts_flags = enable_flags wanted,
                     ts_stack_events = []\<rparr> # tw_running w\<rparr>
              in if \<not> set_stacks_enabled wanted then (Inr (), w)
                 else case enable_stack_tracing os name wanted w of
                   (Inr _, w) \<Rightarrow> (Inr (), w)
                 | (Inl e, w) \<Rightarrow> (Inl e, snd (stop_trace_session os name w)))"

section \<open>The collector\<close>

record native_collector =
  nc_trace_path :: path
  nc_process_path :: path
  nc_file_io_path :: path
  nc_summary_path :: path
  nc_settings :: native_etw_settings
  nc_session_name :: "string option"
  nc_target_pid :: "u32 option"
  nc_poisoned :: bool

definition native_collector_new :: "path \<Rightarrow> path \<Rightarrow> path \<Rightarrow> path \<Rightarrow> native_etw_settings \<Rightarrow> native_collector" where
  "native_collector_new trace_path process_path io_path summary_path wanted =
     \<lparr>nc_trace_path = trace_path, nc_process_path = process_path, nc_file_io_path = io_path,
      nc_summary_path = summary_path, nc_settings = wanted, nc_session_name = None, nc_target_pid = None,
      nc_poisoned = False\<rparr>"

definition native_collector_create :: "native_etw_config \<Rightarrow> path \<Rightarrow> native_collector result" where
  "native_collector_create config output_dir =
     (case native_etw_settings_of config of
        Inl e \<Rightarrow> Inl e
      | Inr wanted \<Rightarrow> Inr (native_collector_new (output_dir @ [''trace.etl'']) (output_dir @ [''process.jsonl''])
          (output_dir @ [''file_io.jsonl'']) (output_dir @ [''summary.json'']) wanted))"

definition collector_poisoned :: "'a result" where
  "collector_poisoned = Inl (Backend ''native ETW collector lock poisoned'')"

definition session_name_of :: "etw_os \<Rightarrow> nat \<Rightarrow> string" where
  "session_name_of os n = ''dbgflow-profile-'' @ eo_uuid os n"

definition collector_start ::
    "etw_os \<Rightarrow> native_collector \<Rightarrow> trace_world \<Rightarrow> string list result \<times> native_collector \<times> trace_world" where
  "collector_start os c w =
     (if nc_poisoned c then (collector_poisoned, c, w)
      else if nc_session_name c \<noteq> None then (Inl (Backend ''native ETW collector already started''), c, w)
      else let name = session_name_of os (tw_calls w)
           in case start_trace_session os name (nc_trace_path c) (nc_settings c) w of
                (Inl e, w) \<Rightarrow> (Inl e, c, w)
              | (Inr _, w) \<Rightarrow> (Inr [], c\<lparr>nc_session_name := Some name, nc_target_pid := None\<rparr>, w))"

definition collector_target_started :: "u32 \<Rightarrow> native_collector \<Rightarrow> native_collector" where
  "collector_target_started pid c = (if nc_poisoned c then c else c\<lparr>nc_target_pid := Some pid\<rparr>)"

definition create_empty_file :: "etw_os \<Rightarrow> path \<Rightarrow> trace_world \<Rightarrow> unit result \<times> trace_world" where
  "create_empty_file os p w =
     (case eo_fs os p of
        Some e \<Rightarrow> (Inl (Artifact e), w)
      | None \<Rightarrow> (Inr (), w\<lparr>tw_files := (tw_files w)(p \<mapsto> EmptyRows)\<rparr>))"

definition ensure_empty_event_set_files :: "etw_os \<Rightarrow> native_collector \<Rightarrow> trace_world \<Rightarrow> unit result \<times> trace_world" where
  "ensure_empty_event_set_files os c =
     steps ((if includes_set (nc_settings c) Process then [create_empty_file os (nc_process_path c)] else [])
            @ (if includes_set (nc_settings c) FileIo then [create_empty_file os (nc_file_io_path c)] else []))"

text \<open>The fallback files: a failure becomes a warning.\<close>

definition fallback_files :: "etw_os \<Rightarrow> native_collector \<Rightarrow> string list \<Rightarrow> trace_world \<Rightarrow> string list \<times> trace_world" where
  "fallback_files os c ws w =
     (case ensure_empty_event_set_files os c w of
        (Inr _, w) \<Rightarrow> (ws, w)
      | (Inl e, w) \<Rightarrow> (ws @ [''native ETW events fallback write failed: '' @ etw_message e], w))"

definition write_summary :: "etw_os \<Rightarrow> path \<Rightarrow> etw_summary \<Rightarrow> string list \<Rightarrow> trace_world \<Rightarrow> string list \<times> trace_world" where
  "write_summary os p summary ws w =
     (case eo_fs os p of
        Some e \<Rightarrow> (ws @ [''native ETW summary write failed: '' @ etw_message (Artifact e)], w)
      | None \<Rightarrow> (ws, w\<lparr>tw_files := (tw_files w)(p \<mapsto> SummaryText summary)\<rparr>))"

definition collector_artifacts :: "native_collector \<Rightarrow> artifact_ref list" where
  "collector_artifacts c =
     [\<lparr>ar_kind = ProfileCollectorTrace, ar_path = nc_trace_path c\<rparr>]
     @ (if includes_set (nc_settings c) Process
        then [\<lparr>ar_kind = ProfileCollectorEvents, ar_path = nc_process_path c\<rparr>] else [])
     @ (if includes_set (nc_settings c) FileIo
        then [\<lparr>ar_kind = ProfileCollectorEvents, ar_path = nc_file_io_path c\<rparr>] else [])
     @ [\<lparr>ar_kind = ProfileCollectorSummary, ar_path = nc_summary_path c\<rparr>]"

definition rows_written :: "native_collector \<Rightarrow> trace_output \<Rightarrow> trace_world \<Rightarrow> trace_world" where
  "rows_written c out w =
     (let w = (case out_process out of
                 Some rows \<Rightarrow> w\<lparr>tw_files := (tw_files w)(nc_process_path c \<mapsto> LifecycleRows rows)\<rparr>
               | None \<Rightarrow> w)
      in case out_file_io out of
           Some rows \<Rightarrow> w\<lparr>tw_files := (tw_files w)(nc_file_io_path c \<mapsto> FileIoRows rows)\<rparr>
         | None \<Rightarrow> w)"

text \<open>What \<open>stop\<close> does after the session is stopped: the summary and the warnings. \<open>None\<close> would be a panic.\<close>

definition collected ::
    "etw_os \<Rightarrow> u32 option \<Rightarrow> native_collector \<Rightarrow> string list \<Rightarrow> trace_world \<Rightarrow> (string list \<times> trace_world) option" where
  "collected os tpid c ws w =
     (case tpid of
        Some pid \<Rightarrow>
          (case eo_trace os (nc_trace_path c) of
             (open_ok, process_status, close_status, records) \<Rightarrow>
               (case post_process_trace open_ok process_status close_status
                       (\<lambda>s. eo_fs os (case s of Process \<Rightarrow> nc_process_path c | FileIo \<Rightarrow> nc_file_io_path c))
                       pid (nc_settings c) records of
                  None \<Rightarrow> None
                | Some post \<Rightarrow>
                    (let (summary, ws, w) =
                       (case post of
                          Inr out \<Rightarrow> (out_summary out, ws, rows_written c out w)
                        | Inl e \<Rightarrow>
                            (let (ws, w) = fallback_files os c
                                   (ws @ [''native ETW post-processing failed: '' @ etw_message e]) w
                             in (summary_empty (Some pid) (nc_settings c) ws, ws, w)));
                         ws = ws @ filter (\<lambda>x. x \<notin> set ws) (sm_warnings summary)
                     in Some (write_summary os (nc_summary_path c) summary ws w))))
      | None \<Rightarrow>
          (let ws = ws @ [''native ETW post-processing skipped because the target pid is unavailable''];
               (ws, w) = fallback_files os c ws w
           in Some (write_summary os (nc_summary_path c) (summary_empty None (nc_settings c) ws) ws w)))"

definition collector_stop ::
    "etw_os \<Rightarrow> u32 option \<Rightarrow> native_collector \<Rightarrow> trace_world
       \<Rightarrow> ((artifact_ref list \<times> string list) result \<times> native_collector \<times> trace_world) option" where
  "collector_stop os tpid c w =
     (if nc_poisoned c then Some (collector_poisoned, c, w)
      else case nc_session_name c of
        None \<Rightarrow> Some (Inr ([], [''native ETW collector was not started'']), c, w)
      | Some name \<Rightarrow>
          (case stop_trace_session os name w of
             (Inl e, w) \<Rightarrow> Some (Inl e, c, w)
           | (Inr ws, w) \<Rightarrow>
               (let c = c\<lparr>nc_session_name := None\<rparr>;
                    pid = (case nc_target_pid c of Some p \<Rightarrow> Some p | None \<Rightarrow> tpid)
                in map_option (\<lambda>(ws, w). (Inr (collector_artifacts c, ws), c, w)) (collected os pid c ws w))))"

definition collector_cleanup ::
    "etw_os \<Rightarrow> native_collector \<Rightarrow> trace_world \<Rightarrow> unit result \<times> native_collector \<times> trace_world" where
  "collector_cleanup os c w =
     (if nc_poisoned c then (collector_poisoned, c, w)
      else case nc_session_name c of
        None \<Rightarrow> (Inr (), c, w)
      | Some name \<Rightarrow>
          (case stop_trace_session os name w of
             (Inr _, w) \<Rightarrow> (Inr (), c\<lparr>nc_session_name := None\<rparr>, w)
           | (Inl _, w) \<Rightarrow> (Inr (), c, w)))"

end
