(* ===== verification/Profile.thy ===== *)
theory Profile
  imports Session_Types Job Launch Native_Collector
begin

text \<open>
  Recording a profile (\<open>dbgflow-trace/src/profile\<close>): the data (\<open>model.rs\<close>), starting the target and
  waiting for it (\<open>target.rs\<close>), the interface of a collector (\<open>collector.rs\<close>) and the manager
  (\<open>manager.rs\<close>), which runs the collectors around the target.
\<close>

section \<open>Data\<close>

datatype profile_target = ProfileLaunch os_text "utext list"

datatype profile_collector_kind = NativeEtw
datatype profile_collector_config = NativeEtwConfig native_etw_config

fun config_kind :: "profile_collector_config \<Rightarrow> profile_collector_kind" where
  "config_kind (NativeEtwConfig _) = NativeEtw"

fun artifact_name :: "profile_collector_config \<Rightarrow> string" where
  "artifact_name (NativeEtwConfig _) = ''native_etw''"

definition default_collector_config :: profile_collector_config where
  "default_collector_config = NativeEtwConfig
     \<lparr>cfg_scope = TargetProcess, cfg_event_sets = [Process, FileIo], cfg_stacks = \<lparr>stack_enabled = True\<rparr>\<rparr>"

record run_profile_request =
  rp_target :: profile_target
  rp_timeout_ms :: nat
  rp_collectors :: "profile_collector_config list"

definition with_default_collectors :: "run_profile_request \<Rightarrow> run_profile_request" where
  "with_default_collectors r =
     (if rp_collectors r = [] then r\<lparr>rp_collectors := [default_collector_config]\<rparr> else r)"

datatype profile_status = ProfileCompleted | ProfileTimedOut | ProfileFailed

datatype completion_reason = TargetExited | TimeoutReached | TargetLaunchFailed | CollectorError

datatype collector_status = CollectorCompleted | CollectorFailed

record profile_collector_result =
  cr_kind :: profile_collector_kind
  cr_name :: string
  cr_status :: collector_status
  cr_artifacts :: "artifact_ref list"
  cr_warnings :: "string list"
  cr_error :: "string option"

record profile_artifacts =
  pa_trace :: "artifact_ref option"
  pa_profile :: artifact_ref
  pa_events :: artifact_ref
  pa_stdout :: artifact_ref
  pa_stderr :: artifact_ref

record profile_result =
  pr_profile_id :: profile_id
  pr_status :: profile_status
  pr_completion_reason :: completion_reason
  pr_target_pid :: "u32 option"
  pr_target_exit_code :: "int option"
  pr_duration_ms :: nat
  pr_artifacts :: profile_artifacts
  pr_collector_results :: "profile_collector_result list"
  pr_warnings :: "string list"
  pr_error :: "string option"

text \<open>What \<open>write_metadata\<close> puts into \<open>profile.json\<close>, and the lines of \<open>events.jsonl\<close>.\<close>

record profile_metadata =
  md_profile_id :: profile_id
  md_target :: profile_target
  md_target_pid :: "u32 option"
  md_start_time :: nat
  md_end_time :: nat
  md_duration_ms :: nat
  md_timeout_ms :: nat
  md_status :: profile_status
  md_completion_reason :: completion_reason
  md_target_exit_code :: "int option"
  md_collectors :: "profile_collector_config list"
  md_trace :: "path option"
  md_collector_results :: "profile_collector_result list"
  md_warnings :: "string list"
  md_error :: "string option"

datatype profile_field =
    TextField string
  | NumberField nat
  | TargetField profile_target
  | NamesField "string list"
  | StatusField profile_status
  | ReasonField completion_reason

record profile_artifact_event =
  pe_timestamp :: nat
  pe_event :: string
  pe_profile_id :: profile_id
  pe_artifact_path :: "path option"
  pe_error :: "string option"
  pe_fields :: "(string \<times> profile_field) list"

datatype profile_line = ProfileEvent profile_artifact_event | ProfileMetadataText profile_metadata

section \<open>The target\<close>

text \<open>What the manager gets from outside: the file system's view of the target, the fresh id, the times, and
  the runner of the target, which logs, tells the pid of a target that has started, and how it ended.\<close>

datatype target_exit = Exited u32 "int option" | TimedOut u32

record profile_env =
  en_canonicalize :: "os_text \<Rightarrow> string + os_text"
  en_is_file :: "os_text \<Rightarrow> bool"
  en_display :: "os_text \<Rightarrow> string"
  en_profile_id :: profile_id
  en_show_id :: "profile_id \<Rightarrow> string"
  en_now :: nat
  en_end_time :: nat
  en_duration_ms :: nat
  en_runner :: "profile_target \<Rightarrow> nat \<Rightarrow> path \<Rightarrow> path \<Rightarrow> process_launch_context
     \<Rightarrow> log_event list \<times> u32 option \<times> target_exit result"

fun validate_profile_target :: "profile_env \<Rightarrow> profile_target \<Rightarrow> profile_target result" where
  "validate_profile_target env (ProfileLaunch executable args) =
     (case en_canonicalize env executable of
        Inl e \<Rightarrow> Inl (Backend (''invalid profile launch executable: '' @ e))
      | Inr executable \<Rightarrow>
          (if \<not> en_is_file env executable
           then Inl (Backend (''profile launch executable is not a file: '' @ en_display env executable))
           else if \<exists>arg \<in> set args. 0 \<in> set arg
           then Inl (Backend ''profile launch arguments must not contain NUL bytes'')
           else Inr (ProfileLaunch executable args)))"

text \<open>
  \<open>ProcessTargetRunner\<close>: \<open>polls n\<close> is what \<open>GetExitCodeProcess\<close> gives at the \<open>n\<close>-th look, \<open>elapsed n\<close> the
  milliseconds since the start then; \<open>fuel\<close> counts the rounds of the loop, \<open>None\<close> says there were too few.
\<close>

definition POLL_MS :: nat where "POLL_MS = 25"

fun wait_for_target ::
    "nat \<Rightarrow> (nat \<Rightarrow> string + u32) \<Rightarrow> (nat \<Rightarrow> nat) \<Rightarrow> nat \<Rightarrow> nat \<Rightarrow> u32 \<Rightarrow> target_exit result option" where
  "wait_for_target 0 polls elapsed n timeout pid = None"
| "wait_for_target (Suc fuel) polls elapsed n timeout pid =
     (case windows_try_wait (polls n) of
        Inl e \<Rightarrow> Some (Inl e)
      | Inr (Some code) \<Rightarrow> Some (Inr (Exited pid code))
      | Inr None \<Rightarrow>
          if timeout \<le> elapsed n then Some (Inr (TimedOut pid))
          else wait_for_target fuel polls elapsed (Suc n) timeout pid)"

definition target_launch_spec :: "profile_target \<Rightarrow> path \<Rightarrow> path \<Rightarrow> (path \<Rightarrow> string) \<Rightarrow> process_launch_spec" where
  "target_launch_spec target stdout_path stderr_path show_path =
     (case target of ProfileLaunch executable args \<Rightarrow>
        (process_launch_spec_new executable)
          \<lparr>pls_args := args, pls_stdout := StdioFile (show_path stdout_path), pls_stderr := StdioFile (show_path stderr_path)\<rparr>)"

definition launch_and_wait ::
    "'t launch_os \<Rightarrow> (path \<Rightarrow> string) \<Rightarrow> nat \<Rightarrow> (nat \<Rightarrow> string + u32) \<Rightarrow> (nat \<Rightarrow> nat)
       \<Rightarrow> profile_target \<Rightarrow> nat \<Rightarrow> path \<Rightarrow> path \<Rightarrow> process_launch_context
       \<Rightarrow> (log_event list \<times> u32 option \<times> target_exit result) option" where
  "launch_and_wait os show_path fuel polls elapsed target timeout stdout_path stderr_path context =
     (case windows_spawn_process os (target_launch_spec target stdout_path stderr_path show_path) context of
        Inl e \<Rightarrow> Some ([], None, Inl (Backend (''launch profile target failed: '' @ launch_error_text e)))
      | Inr child \<Rightarrow>
          map_option (\<lambda>r. ([\<lparr>lg_level = Info, lg_event = ''target_process_launch_resolved'', lg_session = None,
                             lg_error = None\<rparr>], Some (mc_pid child), r))
            (wait_for_target fuel polls elapsed 0 timeout (mc_pid child)))"

section \<open>Collectors\<close>

text \<open>A collector as the manager sees it: a state \<open>'c\<close> of its own, and the machine \<open>'x\<close> it acts on.\<close>

record ('c, 'x) collector_lib =
  co_create :: "profile_collector_config \<Rightarrow> path \<Rightarrow> 'c result"
  co_name :: "'c \<Rightarrow> string"
  co_kind :: "'c \<Rightarrow> profile_collector_kind"
  co_start :: "'c \<Rightarrow> 'x \<Rightarrow> string list result \<times> 'c \<times> 'x"
  co_target_started :: "u32 \<Rightarrow> 'c \<Rightarrow> 'c"
  co_stop :: "u32 option \<Rightarrow> 'c \<Rightarrow> 'x \<Rightarrow> (artifact_ref list \<times> string list) result \<times> 'c \<times> 'x"
  co_cleanup :: "'c \<Rightarrow> 'x \<Rightarrow> unit result \<times> 'c \<times> 'x"

text \<open>The collector of kernel events behind it (\<open>DefaultProfileCollectorFactory\<close>).\<close>

definition native_lib :: "etw_os \<Rightarrow> (native_collector, trace_world) collector_lib" where
  "native_lib os =
     \<lparr>co_create = (\<lambda>config dir. case config of NativeEtwConfig c \<Rightarrow> native_collector_create c dir),
      co_name = (\<lambda>_. ''native_etw''), co_kind = (\<lambda>_. NativeEtw),
      co_start = collector_start os, co_target_started = collector_target_started,
      co_stop = (\<lambda>pid c w. the (collector_stop os pid c w)), co_cleanup = collector_cleanup os\<rparr>"

end
