(* ===== verification/Profile_Manager.thy ===== *)
theory Profile_Manager
  imports Profile
begin

text \<open>
  The profile manager (\<open>dbgflow-trace/src/profile/manager.rs\<close>): one profile at a time, with the collectors
  started in order before the target and stopped in reverse order after it, on every path.
\<close>

section \<open>State\<close>

record 'x profile_manager =
  pm_artifacts :: "profile_line artifact_manager"
  pm_job :: "profile_id single_active_job"
  pm_logs :: "log_event list"
  pm_os :: 'x
  pm_process_launch :: process_launch_config

definition profile_log :: "log_level \<Rightarrow> string \<Rightarrow> string option \<Rightarrow> 'x profile_manager \<Rightarrow> 'x profile_manager" where
  "profile_log level event error m =
     m\<lparr>pm_logs := pm_logs m @ [\<lparr>lg_level = level, lg_event = event, lg_session = None, lg_error = error\<rparr>]\<rparr>"

abbreviation message :: "dbgflow_error \<Rightarrow> string" where
  "message e \<equiv> error_text (\<lambda>_. '''') e"

definition record_event ::
    "profile_env \<Rightarrow> string \<Rightarrow> path option \<Rightarrow> string option \<Rightarrow> (string \<times> profile_field) list \<Rightarrow> 'x profile_manager
       \<Rightarrow> 'x profile_manager" where
  "record_event env event artifact_path error extra m =
     (case append_profile_event (en_profile_id env)
             (ProfileEvent \<lparr>pe_timestamp = en_now env, pe_event = event, pe_profile_id = en_profile_id env,
                pe_artifact_path = artifact_path, pe_error = error, pe_fields = extra\<rparr>) (pm_artifacts m) of
        (Inr _, a) \<Rightarrow> m\<lparr>pm_artifacts := a\<rparr>
      | (Inl e, a) \<Rightarrow> profile_log Warn ''profile_artifact_event_failed'' (Some (message e)) (m\<lparr>pm_artifacts := a\<rparr>))"

text \<open>\<open>ensure_empty_file\<close>: \<open>fs::write\<close> with nothing, beside the artifact manager.\<close>

definition ensure_empty_file :: "path \<Rightarrow> 'x profile_manager \<Rightarrow> unit result \<times> 'x profile_manager" where
  "ensure_empty_file p m =
     (case fs_error (pm_artifacts m) p of
        Some e \<Rightarrow> (Inl (Artifact e), m)
      | None \<Rightarrow> (Inr (), m\<lparr>pm_artifacts := (pm_artifacts m)\<lparr>fs_files := (fs_files (pm_artifacts m))(p \<mapsto> [])\<rparr>\<rparr>))"

definition collector_names :: "run_profile_request \<Rightarrow> string list" where
  "collector_names r = map artifact_name (rp_collectors r)"

definition profile_request_fields :: "run_profile_request \<Rightarrow> (string \<times> profile_field) list" where
  "profile_request_fields r =
     [(''target'', TargetField (rp_target r)), (''timeout_ms'', NumberField (rp_timeout_ms r)),
      (''collectors'', NamesField (collector_names r))]"

definition collector_fields :: "profile_collector_config \<Rightarrow> (string \<times> profile_field) list" where
  "collector_fields config = [(''collector'', TextField (artifact_name config))]"

definition failed_collector_result :: "profile_collector_config \<Rightarrow> string \<Rightarrow> profile_collector_result" where
  "failed_collector_result config error =
     \<lparr>cr_kind = config_kind config, cr_name = artifact_name config, cr_status = CollectorFailed,
      cr_artifacts = [], cr_warnings = [], cr_error = Some error\<rparr>"

fun duplicate_kind :: "profile_collector_kind list \<Rightarrow> profile_collector_config list \<Rightarrow> bool" where
  "duplicate_kind seen [] = False"
| "duplicate_kind seen (c # cs) = (config_kind c \<in> set seen \<or> duplicate_kind (config_kind c # seen) cs)"

definition reject_duplicate_collectors :: "run_profile_request \<Rightarrow> unit result" where
  "reject_duplicate_collectors r =
     (if duplicate_kind [] (rp_collectors r)
      then Inl (Backend ''duplicate profile collector kind is not supported: NativeEtw'') else Inr ())"

fun target_pid_from_exit :: "target_exit result \<Rightarrow> u32 option" where
  "target_pid_from_exit (Inr (Exited pid _)) = Some pid"
| "target_pid_from_exit (Inr (TimedOut pid)) = Some pid"
| "target_pid_from_exit (Inl _) = None"

definition legacy_trace_artifact :: "profile_collector_result list \<Rightarrow> artifact_ref option" where
  "legacy_trace_artifact results =
     map_option (\<lambda>a. \<lparr>ar_kind = ProfileTrace, ar_path = ar_path a\<rparr>)
       (Option.bind (List.find (\<lambda>r. cr_name r = ''native_etw'') results)
          (\<lambda>r. List.find (\<lambda>a. ar_kind a = ProfileCollectorTrace) (cr_artifacts r)))"

section \<open>Metadata\<close>

definition write_metadata ::
    "profile_env \<Rightarrow> run_profile_request \<Rightarrow> profile_status \<Rightarrow> completion_reason \<Rightarrow> u32 option \<Rightarrow> int option
       \<Rightarrow> artifact_ref option \<Rightarrow> profile_collector_result list \<Rightarrow> string list \<Rightarrow> string option
       \<Rightarrow> 'x profile_manager \<Rightarrow> artifact_ref result \<times> 'x profile_manager" where
  "write_metadata env r status reason pid exit_code trace results ws error m =
     (case write_profile_metadata (en_profile_id env)
             (ProfileMetadataText
               \<lparr>md_profile_id = en_profile_id env, md_target = rp_target r, md_target_pid = pid,
                md_start_time = en_now env, md_end_time = en_end_time env, md_duration_ms = en_duration_ms env,
                md_timeout_ms = rp_timeout_ms r, md_status = status, md_completion_reason = reason,
                md_target_exit_code = exit_code, md_collectors = rp_collectors r,
                md_trace = map_option ar_path trace, md_collector_results = results, md_warnings = ws,
                md_error = error\<rparr>) (pm_artifacts m) of
        (res, a) \<Rightarrow> (res, m\<lparr>pm_artifacts := a\<rparr>))"

definition finish_failed_profile ::
    "profile_env \<Rightarrow> run_profile_request \<Rightarrow> completion_reason \<Rightarrow> profile_collector_result list \<Rightarrow> string list \<Rightarrow> string
       \<Rightarrow> 'x profile_manager \<Rightarrow> 'x profile_manager" where
  "finish_failed_profile env r reason results ws error m =
     (let m = record_event env ''profile_failed'' None (Some error)
            [(''status'', StatusField ProfileFailed), (''completion_reason'', ReasonField reason),
             (''duration_ms'', NumberField (en_duration_ms env))] m;
          m = (case write_metadata env r ProfileFailed reason None None None results ws (Some error) m of
                 (Inr artifact, m) \<Rightarrow> record_event env ''profile_metadata_written'' (Some (ar_path artifact)) None [] m
               | (Inl e, m) \<Rightarrow> profile_log LogError ''profile_metadata_write_failed'' (Some (message e)) m)
      in profile_log LogError ''run_profile_failed'' (Some error) m)"

section \<open>Starting and stopping the collectors\<close>

definition named :: "string \<Rightarrow> (string \<times> profile_field) list" where
  "named name = [(''collector'', TextField name)]"

definition stopped_result ::
    "('c, 'x) collector_lib \<Rightarrow> 'c \<Rightarrow> artifact_ref list \<Rightarrow> string list \<Rightarrow> profile_collector_result" where
  "stopped_result lib c artifacts ws =
     \<lparr>cr_kind = co_kind lib c, cr_name = co_name lib c, cr_status = CollectorCompleted, cr_artifacts = artifacts,
      cr_warnings = ws, cr_error = None\<rparr>"

definition stop_failed_result :: "('c, 'x) collector_lib \<Rightarrow> 'c \<Rightarrow> string \<Rightarrow> profile_collector_result" where
  "stop_failed_result lib c error =
     \<lparr>cr_kind = co_kind lib c, cr_name = co_name lib c, cr_status = CollectorFailed, cr_artifacts = [],
      cr_warnings = [], cr_error = Some error\<rparr>"

text \<open>\<open>stop_started_collectors_for_start_failure\<close>; the collectors come last started first.\<close>

fun stop_started ::
    "profile_env \<Rightarrow> ('c, 'x) collector_lib \<Rightarrow> 'c list \<Rightarrow> 'x profile_manager
       \<Rightarrow> profile_collector_result list \<times> 'x profile_manager" where
  "stop_started env lib [] m = ([], m)"
| "stop_started env lib (c # cs) m =
     (let name = co_name lib c;
          m = record_event env ''collector_stopping'' None None (named name) m
      in case co_stop lib None c (pm_os m) of
           (Inr (artifacts, ws), c', x) \<Rightarrow>
             (let m = record_event env ''collector_stopped'' None None (named name) (m\<lparr>pm_os := x\<rparr>);
                  (results, m) = stop_started env lib cs m
              in (stopped_result lib c artifacts ws # results, m))
         | (Inl e, c', x) \<Rightarrow>
             (let m = record_event env ''profile_error'' None (Some (message e)) (named name) (m\<lparr>pm_os := x\<rparr>);
                  (results, m) = stop_started env lib cs m
              in (stop_failed_result lib c (message e) # results, m)))"

text \<open>A collector that could not be started ends the profile: those started are stopped, and the failure is
  written down.\<close>

definition collector_failed ::
    "profile_env \<Rightarrow> ('c, 'x) collector_lib \<Rightarrow> run_profile_request \<Rightarrow> profile_collector_config \<Rightarrow> dbgflow_error \<Rightarrow> bool
       \<Rightarrow> 'c list \<Rightarrow> string list \<Rightarrow> 'x profile_manager \<Rightarrow> 'x profile_manager" where
  "collector_failed env lib r config e event_after started ws m =
     (let (results, m) = stop_started env lib started m;
          m = (if event_after
               then record_event env ''profile_error'' None (Some (message e)) (collector_fields config) m else m)
      in finish_failed_profile env r CollectorError (results @ [failed_collector_result config (message e)]) ws (message e) m)"

text \<open>The loop over the configurations; \<open>started\<close> holds the collectors, last started first.\<close>

fun start_collectors ::
    "profile_env \<Rightarrow> ('c, 'x) collector_lib \<Rightarrow> run_profile_request \<Rightarrow> profile_collector_config list \<Rightarrow> 'c list \<Rightarrow> string list
       \<Rightarrow> 'x profile_manager \<Rightarrow> ('c list \<times> string list) result \<times> 'x profile_manager" where
  "start_collectors env lib r [] started ws m = (Inr (started, ws), m)"
| "start_collectors env lib r (config # configs) started ws m =
     (case profile_collector_dir (en_profile_id env) (artifact_name config) (pm_artifacts m) of
        (Inl e, a) \<Rightarrow>
          (Inl e, collector_failed env lib r config e False started ws
             (record_event env ''profile_error'' None (Some (message e)) (collector_fields config) (m\<lparr>pm_artifacts := a\<rparr>)))
      | (Inr dir, a) \<Rightarrow>
          (let m = record_event env ''collector_starting'' (Some dir) None (collector_fields config) (m\<lparr>pm_artifacts := a\<rparr>) in
           case co_create lib config dir of
             Inl e \<Rightarrow>
               (Inl e, collector_failed env lib r config e False started ws
                  (record_event env ''profile_error'' (Some dir) (Some (message e)) (collector_fields config) m))
           | Inr c \<Rightarrow>
               (case co_start lib c (pm_os m) of
                  (Inr start_warnings, c', x) \<Rightarrow>
                    start_collectors env lib r configs (c' # started) (ws @ start_warnings)
                      (record_event env ''collector_started'' (Some dir) None (collector_fields config) (m\<lparr>pm_os := x\<rparr>))
                | (Inl e, c', x) \<Rightarrow>
                    (let m = (case co_cleanup lib c' x of
                                (Inr _, c'', x) \<Rightarrow>
                                  record_event env ''collector_cleanup_finished'' (Some dir) None (collector_fields config)
                                    (m\<lparr>pm_os := x\<rparr>)
                              | (Inl ce, c'', x) \<Rightarrow>
                                  record_event env ''collector_cleanup_failed'' (Some dir) (Some (message ce))
                                    (collector_fields config @ [(''cleanup_error'', TextField (message ce))]) (m\<lparr>pm_os := x\<rparr>))
                     in (Inl e, collector_failed env lib r config e True started ws m)))))"

text \<open>Stopping after the target: the results as they come, the warnings, the first error.\<close>

fun stop_collectors ::
    "profile_env \<Rightarrow> ('c, 'x) collector_lib \<Rightarrow> u32 option \<Rightarrow> 'c list \<Rightarrow> string list \<Rightarrow> string option \<Rightarrow> 'x profile_manager
       \<Rightarrow> profile_collector_result list \<times> string list \<times> string option \<times> 'x profile_manager" where
  "stop_collectors env lib pid [] ws stop_error m = ([], ws, stop_error, m)"
| "stop_collectors env lib pid (c # cs) ws stop_error m =
     (let name = co_name lib c;
          m = record_event env ''collector_stopping'' None None (named name) m
      in case co_stop lib pid c (pm_os m) of
           (Inr (artifacts, stop_warnings), c', x) \<Rightarrow>
             (let m = record_event env ''collector_stopped'' None None (named name) (m\<lparr>pm_os := x\<rparr>);
                  (results, ws, stop_error, m) = stop_collectors env lib pid cs (ws @ stop_warnings) stop_error m
              in (stopped_result lib c artifacts stop_warnings # results, ws, stop_error, m))
         | (Inl e, c', x) \<Rightarrow>
             (let stop_error = (case stop_error of None \<Rightarrow> Some (message e) | Some first \<Rightarrow> Some first);
                  ws = ws @ [''collector '' @ name @ '' stop failed: '' @ message e];
                  (ws, extra, m) =
                    (case co_cleanup lib c' x of
                       (Inr _, c'', x) \<Rightarrow>
                         (ws, named name,
                          record_event env ''collector_cleanup_finished'' None None (named name) (m\<lparr>pm_os := x\<rparr>))
                     | (Inl ce, c'', x) \<Rightarrow>
                         (let extra = named name @ [(''cleanup_error'', TextField (message ce))]
                          in (ws @ [''collector '' @ name @ '' cleanup after stop failure failed: '' @ message ce], extra,
                              record_event env ''collector_cleanup_failed'' None (Some (message ce)) extra (m\<lparr>pm_os := x\<rparr>))));
                  m = record_event env ''profile_error'' None (Some (message e)) extra m;
                  (results, ws, stop_error, m) = stop_collectors env lib pid cs ws stop_error m
              in (stop_failed_result lib c (message e) # results, ws, stop_error, m)))"

section \<open>Running a profile\<close>

text \<open>What the exit of the target says: the status, the reason, the pid, the exit code and the error.\<close>

definition profile_outcome ::
    "profile_env \<Rightarrow> target_exit result \<Rightarrow> string option \<Rightarrow> 'x profile_manager
       \<Rightarrow> (profile_status \<times> completion_reason \<times> u32 option \<times> int option \<times> string option) \<times> 'x profile_manager" where
  "profile_outcome env target_exit stop_error m =
     (case target_exit of
        Inr (Exited pid exit_code) \<Rightarrow>
          ((ProfileCompleted, TargetExited, Some pid, exit_code, stop_error), record_event env ''target_exited'' None None [] m)
      | Inr (TimedOut pid) \<Rightarrow>
          ((ProfileTimedOut, TimeoutReached, Some pid, None, stop_error), record_event env ''timeout_reached'' None None [] m)
      | Inl e \<Rightarrow>
          ((ProfileFailed, TargetLaunchFailed, None, None, Some (case stop_error of Some first \<Rightarrow> first | None \<Rightarrow> message e)),
           record_event env ''profile_error'' None (Some (message e)) [] m))"

definition record_target_started :: "profile_env \<Rightarrow> u32 \<Rightarrow> 'x profile_manager \<Rightarrow> 'x profile_manager" where
  "record_target_started env pid m =
     profile_log Info ''target_started'' None
       (record_event env ''target_started'' None None [(''pid'', NumberField (unat pid))] m)"

text \<open>Starting the target and waiting for it, with the collectors told its pid.\<close>

definition run_target ::
    "profile_env \<Rightarrow> ('c, 'x) collector_lib \<Rightarrow> run_profile_request \<Rightarrow> tool_call_context \<Rightarrow> 'c list \<Rightarrow> 'x profile_manager
       \<Rightarrow> target_exit result \<times> 'c list \<times> 'x profile_manager" where
  "run_target env lib r tool_context started m =
     (let m = record_event env ''target_launching'' None None [] m;
          (logs, pid, target_exit) = en_runner env (rp_target r) (rp_timeout_ms r)
            (profile_stdout_path (pm_artifacts m) (en_profile_id env)) (profile_stderr_path (pm_artifacts m) (en_profile_id env))
            \<lparr>ctx_config = pm_process_launch m, ctx_tool_call = tool_context\<rparr>;
          m = m\<lparr>pm_logs := pm_logs m @ logs\<rparr>
      in case pid of
           None \<Rightarrow> (target_exit, started, m)
         | Some p \<Rightarrow> (target_exit, map (co_target_started lib p) started, record_target_started env p m))"

text \<open>From the collectors to the end; the profile has its directory and its empty output files.\<close>

definition run_collected ::
    "profile_env \<Rightarrow> ('c, 'x) collector_lib \<Rightarrow> run_profile_request \<Rightarrow> tool_call_context \<Rightarrow> path \<Rightarrow> 'x profile_manager
       \<Rightarrow> profile_result result \<times> 'x profile_manager" where
  "run_collected env lib r tool_context dir m =
     (case start_collectors env lib r (rp_collectors r) [] [] m of
        (Inl e, m) \<Rightarrow> (Inl e, m)
      | (Inr (started, ws), m) \<Rightarrow>
          (case run_target env lib r tool_context started m of
             (target_exit, started, m) \<Rightarrow>
               (case stop_collectors env lib (target_pid_from_exit target_exit) started ws None m of
                  (results, ws, stop_error, m) \<Rightarrow>
                    (let results = rev results; trace = legacy_trace_artifact results;
                         ((status, reason, pid, exit_code, error), m) = profile_outcome env target_exit stop_error m
                     in case write_metadata env r status reason pid exit_code trace results ws error m of
                          (Inl e, m) \<Rightarrow> (Inl e, profile_log LogError ''profile_metadata_write_failed'' (Some (message e)) m)
                        | (Inr artifact, m) \<Rightarrow>
                            (Inr \<lparr>pr_profile_id = en_profile_id env, pr_status = status, pr_completion_reason = reason,
                                  pr_target_pid = pid, pr_target_exit_code = exit_code,
                                  pr_duration_ms = en_duration_ms env,
                                  pr_artifacts =
                                    \<lparr>pa_trace = trace, pa_profile = artifact,
                                     pa_events = \<lparr>ar_kind = ProfileEvents, ar_path = dir @ [''events.jsonl'']\<rparr>,
                                     pa_stdout = \<lparr>ar_kind = ProfileStdout,
                                       ar_path = profile_stdout_path (pm_artifacts m) (en_profile_id env)\<rparr>,
                                     pa_stderr = \<lparr>ar_kind = ProfileStderr,
                                       ar_path = profile_stderr_path (pm_artifacts m) (en_profile_id env)\<rparr>\<rparr>,
                                  pr_collector_results = results, pr_warnings = ws, pr_error = error\<rparr>,
                             profile_log Info ''run_profile_finished'' None
                               (record_event env ''profile_completed'' None None
                                  [(''status'', StatusField status), (''completion_reason'', ReasonField reason),
                                   (''duration_ms'', NumberField (en_duration_ms env))] m))))))"

text \<open>While the slot of the one job is held.\<close>

definition run_admitted ::
    "profile_env \<Rightarrow> ('c, 'x) collector_lib \<Rightarrow> run_profile_request \<Rightarrow> tool_call_context \<Rightarrow> 'x profile_manager
       \<Rightarrow> profile_result result \<times> 'x profile_manager" where
  "run_admitted env lib r tool_context m =
     (let m = profile_log Info ''run_profile_started'' None m in
      case initialize_profile_artifacts (en_profile_id env) (pm_artifacts m) of
        (Inl e, a) \<Rightarrow>
          (Inl e, profile_log LogError ''profile_artifacts_init_failed'' (Some (message e)) (m\<lparr>pm_artifacts := a\<rparr>))
      | (Inr dir, a) \<Rightarrow>
          (let m = record_event env ''profile_created'' None None (profile_request_fields r) (m\<lparr>pm_artifacts := a\<rparr>) in
           case steps [ensure_empty_file (profile_stdout_path (pm_artifacts m) (en_profile_id env)),
                       ensure_empty_file (profile_stderr_path (pm_artifacts m) (en_profile_id env))] m of
             (Inl e, m) \<Rightarrow> (Inl e, finish_failed_profile env r CollectorError [] [] (message e) m)
           | (Inr _, m) \<Rightarrow> run_collected env lib r tool_context dir m))"

definition run_profile ::
    "profile_env \<Rightarrow> ('c, 'x) collector_lib \<Rightarrow> run_profile_request \<Rightarrow> tool_call_context \<Rightarrow> 'x profile_manager
       \<Rightarrow> profile_result result \<times> 'x profile_manager" where
  "run_profile env lib request tool_context m =
     (let reject = (\<lambda>e. (Inl e, profile_log LogError ''run_profile_rejected'' (Some (message e)) m)) in
      case validate_profile_target env (rp_target request) of
        Inl e \<Rightarrow> reject e
      | Inr target \<Rightarrow>
          (let r = with_default_collectors (request\<lparr>rp_target := target\<rparr>) in
           if rp_timeout_ms r = 0 then reject (Backend ''profile timeout_ms must be greater than zero'')
           else case reject_duplicate_collectors r of
             Inl e \<Rightarrow> reject e
           | Inr _ \<Rightarrow>
               (case job_start (en_profile_id env)
                       (\<lambda>active. ''another profile job is already active: '' @ en_show_id env active) (pm_job m) of
                  (Inl e, j) \<Rightarrow> reject e
                | (Inr _, j) \<Rightarrow>
                    (case run_admitted env lib r tool_context (m\<lparr>pm_job := j\<rparr>) of
                       (result, m) \<Rightarrow> (result, m\<lparr>pm_job := job_drop (en_profile_id env) (pm_job m)\<rparr>)))))"

end
