(* ===== verification/Profile_Properties.thy ===== *)
theory Profile_Properties
  imports Profile_Manager
begin

text \<open>
  What a profile leaves behind: collectors are a stack that the manager takes down again on every path
  (locale \<open>profile_collector\<close>, interpreted for the collector of kernel events), the slot of the one job is
  free again, and the result agrees with the exit of the target and with the metadata on the disk.
\<close>

section \<open>Frames\<close>

lemma profile_log_simps [simp]:
  "pm_artifacts (profile_log l e t m) = pm_artifacts m" "pm_job (profile_log l e t m) = pm_job m"
  "pm_os (profile_log l e t m) = pm_os m" "pm_process_launch (profile_log l e t m) = pm_process_launch m"
  by (simp_all add: profile_log_def)

lemma record_event_simps [simp]:
  "pm_job (record_event env e p t x m) = pm_job m" "pm_os (record_event env e p t x m) = pm_os m"
  "pm_process_launch (record_event env e p t x m) = pm_process_launch m"
  by (auto simp: record_event_def split: sum.split prod.split)

lemma write_metadata_frame:
  "write_metadata env r st re pid code tr rs ws err m = (res, m') \<Longrightarrow> pm_job m' = pm_job m \<and> pm_os m' = pm_os m"
  by (auto simp: write_metadata_def split: prod.splits)

lemma finish_failed_frame [simp]:
  "pm_job (finish_failed_profile env r re rs ws e m) = pm_job m"
  "pm_os (finish_failed_profile env r re rs ws e m) = pm_os m"
  by (auto simp: finish_failed_profile_def Let_def dest: write_metadata_frame split: prod.split sum.split)

lemma stop_started_job: "stop_started env lib cs m = (rs, m') \<Longrightarrow> pm_job m' = pm_job m"
proof (induction cs arbitrary: m rs)
  case (Cons c cs)
  obtain stop c' x where s: "co_stop lib None c (pm_os m) = (stop, c', x)" by (metis prod_cases3)
  have IH: "pm_job m' = pm_job m" if "stop_started env lib cs n = (ns, m')" "pm_job n = pm_job m" for n ns
    using Cons.IH[OF that(1)] that(2) by simp
  show ?case
    using Cons.prems s by (cases stop) (auto simp: Let_def split: prod.splits intro: IH)
qed simp

lemma collector_failed_job [simp]: "pm_job (collector_failed env lib r config e b cs ws m) = pm_job m"
  by (cases "stop_started env lib cs m") (auto simp: collector_failed_def Let_def dest: stop_started_job)

lemma run_target_frame:
  assumes "run_target env lib r tc started m = (te, started', m')"
  shows "pm_os m' = pm_os m" "pm_job m' = pm_job m"
    "started' = started \<or> (\<exists>pid. started' = map (co_target_started lib pid) started)"
  using assms by (auto simp: run_target_def record_target_started_def Let_def split: prod.splits option.splits)

lemma profile_outcome_frame:
  assumes "profile_outcome env te err m = (out, m')"
  shows "pm_os m' = pm_os m" "pm_job m' = pm_job m"
  using assms by (auto simp: profile_outcome_def split: sum.splits target_exit.splits)

lemma start_collectors_job:
  "start_collectors env lib r configs started ws m = (res, m') \<Longrightarrow> pm_job m' = pm_job m"
proof (induction configs arbitrary: started ws m)
  case (Cons config configs)
  obtain dr a where d: "profile_collector_dir (en_profile_id env) (artifact_name config) (pm_artifacts m) = (dr, a)"
    by (cases "profile_collector_dir (en_profile_id env) (artifact_name config) (pm_artifacts m)")
  have IH: "pm_job m' = pm_job m" if "start_collectors env lib r configs st v n = (res, m')" "pm_job n = pm_job m" for st v n
    using Cons.IH[OF that(1)] that(2) by simp
  show ?case
  proof (cases dr)
    case (Inl e)
    then show ?thesis using Cons.prems d by auto
  next
    case (Inr dir)
    show ?thesis using Cons.prems d Inr
      by (auto simp: Let_def split: sum.splits prod.splits intro: IH)
  qed
qed simp

lemma stop_collectors_job:
  "stop_collectors env lib pid cs ws err m = (rs, ws', err', m') \<Longrightarrow> pm_job m' = pm_job m"
proof (induction cs arbitrary: m ws err rs)
  case (Cons c cs)
  obtain stop c' x where s: "co_stop lib pid c (pm_os m) = (stop, c', x)" by (metis prod_cases3)
  obtain cl c'' y where c: "co_cleanup lib c' x = (cl, c'', y)" by (metis prod_cases3)
  have IH: "pm_job m' = pm_job m"
    if "stop_collectors env lib pid cs v e n = (ns, ws', err', m')" "pm_job n = pm_job m" for n ns v e
    using Cons.IH[OF that(1)] that(2) by simp
  show ?case
    using Cons.prems s c by (cases stop; cases cl) (auto simp: Let_def split: prod.splits intro: IH)
qed simp

text \<open>\<open>run_collected\<close> in its stages.\<close>

lemma run_collected_cases:
  assumes "run_collected env lib r tc dir m = (res, m')"
  obtains (start) e where "start_collectors env lib r (rp_collectors r) [] [] m = (Inl e, m')" "res = Inl e"
  | (ran) started ws m1 te started' m2 rs ws' err m3 out m4
    where "start_collectors env lib r (rp_collectors r) [] [] m = (Inr (started, ws), m1)"
      "run_target env lib r tc started m1 = (te, started', m2)"
      "stop_collectors env lib (target_pid_from_exit te) started' ws None m2 = (rs, ws', err, m3)"
      "profile_outcome env te err m3 = (out, m4)" "pm_os m' = pm_os m4" "pm_job m' = pm_job m4"
proof -
  obtain sr m1 where s: "start_collectors env lib r (rp_collectors r) [] [] m = (sr, m1)"
    by (cases "start_collectors env lib r (rp_collectors r) [] [] m")
  show thesis
  proof (cases sr)
    case (Inl e)
    then show thesis using assms s start by (simp add: run_collected_def)
  next
    case (Inr sw)
    obtain started ws where sw: "sw = (started, ws)" by (cases sw)
    obtain te started' m2 where t: "run_target env lib r tc started m1 = (te, started', m2)" by (metis prod_cases3)
    obtain rs ws' err m3 where c: "stop_collectors env lib (target_pid_from_exit te) started' ws None m2 = (rs, ws', err, m3)"
      by (metis prod_cases4)
    obtain out m4 where o: "profile_outcome env te err m3 = (out, m4)" by (cases "profile_outcome env te err m3")
    have "pm_os m' = pm_os m4 \<and> pm_job m' = pm_job m4"
      using assms s Inr sw t c o
      by (auto simp: run_collected_def Let_def dest: write_metadata_frame split: prod.splits sum.splits)
    then show thesis using ran s Inr sw t c o by blast
  qed
qed

lemma run_collected_job:
  assumes "run_collected env lib r tc dir m = (res, m')"
  shows "pm_job m' = pm_job m"
  using assms
proof (cases rule: run_collected_cases)
  case (start e)
  then show ?thesis by (auto dest: start_collectors_job)
next
  case (ran started ws m1 te started' m2 rs ws' err m3 out m4)
  then show ?thesis
    using start_collectors_job[OF ran(1)] run_target_frame(2)[OF ran(2)] stop_collectors_job[OF ran(3)]
      profile_outcome_frame(2)[OF ran(4)] by simp
qed

lemma ensure_empty_frame:
  "ensure_empty_file p m = (res, m') \<Longrightarrow> pm_os m' = pm_os m \<and> pm_job m' = pm_job m"
  by (auto simp: ensure_empty_file_def split: option.splits)

lemma steps_two:
  assumes "steps [f, g] m = (res, m')"
    and "\<And>n n' v. f n = (v, n') \<Longrightarrow> P n \<Longrightarrow> P n'" "\<And>n n' v. g n = (v, n') \<Longrightarrow> P n \<Longrightarrow> P n'" "P m"
  shows "P m'"
  using assms by (auto split: prod.splits sum.splits)

lemma run_admitted_cases:
  assumes "run_admitted env lib r tc m = (res, m')"
  obtains (failed) "pm_os m' = pm_os m" "pm_job m' = pm_job m"
  | (ran) dir m1 where "run_collected env lib r tc dir m1 = (res, m')" "pm_os m1 = pm_os m" "pm_job m1 = pm_job m"
proof -
  obtain ir a where i: "initialize_profile_artifacts (en_profile_id env) (pm_artifacts m) = (ir, a)"
    by (cases "initialize_profile_artifacts (en_profile_id env) (pm_artifacts m)")
  show thesis
  proof (cases ir)
    case (Inl e)
    then show thesis using assms i failed by (auto simp: run_admitted_def Let_def)
  next
    case (Inr dir)
    define m0 where "m0 = record_event env ''profile_created'' None None (profile_request_fields r)
        ((profile_log Info ''run_profile_started'' None m)\<lparr>pm_artifacts := a\<rparr>)"
    obtain sr n where st: "steps [ensure_empty_file (profile_stdout_path (pm_artifacts m0) (en_profile_id env)),
        ensure_empty_file (profile_stderr_path (pm_artifacts m0) (en_profile_id env))] m0 = (sr, n)"
      by (metis surj_pair)
    have "pm_os n = pm_os m \<and> pm_job n = pm_job m"
      by (rule steps_two[OF st]) (auto dest: ensure_empty_frame simp: m0_def)
    then show thesis
      using assms i Inr st failed ran
      by (cases sr) (auto simp: run_admitted_def Let_def simp flip: m0_def simp del: steps.simps)
  qed
qed

lemma run_admitted_job: "run_admitted env lib r tc m = (res, m') \<Longrightarrow> pm_job m' = pm_job m"
  by (erule run_admitted_cases) (auto dest: run_collected_job)

section \<open>The stack of collectors\<close>

text \<open>\<open>holds c r0 r\<close>: \<open>c\<close> runs, and has taken the machine from \<open>r0\<close> to \<open>r\<close>.\<close>

primrec stacked :: "('c \<Rightarrow> 'r \<Rightarrow> 'r \<Rightarrow> bool) \<Rightarrow> 'c list \<Rightarrow> 'r \<Rightarrow> 'r \<Rightarrow> bool" where
  "stacked holds [] r0 r = (r = r0)"
| "stacked holds (c # cs) r0 r = (\<exists>r1. holds c r1 r \<and> stacked holds cs r0 r1)"

locale profile_collector =
  fixes lib :: "('c, 'x) collector_lib"
    and world :: "'x \<Rightarrow> 'r"
    and sound :: "'x \<Rightarrow> bool"
    and idle :: "'c \<Rightarrow> bool"
    and holds :: "'c \<Rightarrow> 'r \<Rightarrow> 'r \<Rightarrow> bool"
  assumes created: "co_create lib config dir = Inr c \<Longrightarrow> idle c"
    and start_ok: "sound x \<Longrightarrow> idle c \<Longrightarrow> co_start lib c x = (Inr ws, c', x') \<Longrightarrow> sound x' \<and> holds c' (world x) (world x')"
    and start_err: "sound x \<Longrightarrow> idle c \<Longrightarrow> co_start lib c x = (Inl e, c', x') \<Longrightarrow> sound x' \<and> idle c' \<and> world x' = world x"
    and notified: "holds c r0 r \<Longrightarrow> holds (co_target_started lib pid c) r0 r"
    and stop_restores: "sound x \<Longrightarrow> holds c r0 (world x) \<Longrightarrow> co_stop lib tpid c x = (stop, c', x')
          \<Longrightarrow> sound x' \<and> idle c' \<and> world x' = r0"
    and cleanup_idle: "sound x \<Longrightarrow> idle c \<Longrightarrow> co_cleanup lib c x = (done', c', x') \<Longrightarrow> sound x' \<and> world x' = world x"
begin

lemma notified_all: "stacked holds cs r0 r \<Longrightarrow> stacked holds (map (co_target_started lib pid) cs) r0 r"
  by (induction cs arbitrary: r) (auto intro: notified)

lemma stop_started_restores:
  assumes "stop_started env lib cs m = (rs, m')" "sound (pm_os m)" "stacked holds cs r0 (world (pm_os m))"
  shows "sound (pm_os m') \<and> world (pm_os m') = r0"
  using assms
proof (induction cs arbitrary: m rs)
  case (Cons c cs)
  obtain r1 where r1: "holds c r1 (world (pm_os m))" "stacked holds cs r0 r1" using Cons.prems(3) by auto
  define m1 where "m1 = record_event env ''collector_stopping'' None None (named (co_name lib c)) m"
  obtain stop c' x where s: "co_stop lib None c (pm_os m) = (stop, c', x)" by (metis prod_cases3)
  have x: "sound x" "world x = r1" using stop_restores[OF Cons.prems(2) r1(1) s] by simp_all
  have IH: "sound (pm_os m') \<and> world (pm_os m') = r0" if "stop_started env lib cs n = (ns, m')" "pm_os n = x" for n ns
    using Cons.IH[OF that(1)] x r1(2) that(2) by simp
  show ?case
    using Cons.prems(1) s
    by (cases stop) (auto simp: Let_def split: prod.splits intro: IH[THEN conjunct1] IH[THEN conjunct2])
qed simp

lemma collector_failed_restores:
  assumes "sound (pm_os m)" "stacked holds cs r0 (world (pm_os m))"
  shows "sound (pm_os (collector_failed env lib r config e b cs ws m))
    \<and> world (pm_os (collector_failed env lib r config e b cs ws m)) = r0"
  using stop_started_restores[OF _ assms, of env]
  by (cases "stop_started env lib cs m") (auto simp: collector_failed_def Let_def)

lemma start_collectors_stack:
  assumes "start_collectors env lib r configs started ws m = (res, m')" "sound (pm_os m)"
    "stacked holds started r0 (world (pm_os m))"
  shows "sound (pm_os m') \<and> (case res of Inl e \<Rightarrow> world (pm_os m') = r0
    | Inr (started', ws') \<Rightarrow> stacked holds started' r0 (world (pm_os m')))"
  using assms
proof (induction configs arbitrary: started ws m)
  case Nil
  then show ?case by auto
next
  case (Cons config configs)
  obtain dr a where d: "profile_collector_dir (en_profile_id env) (artifact_name config) (pm_artifacts m) = (dr, a)"
    by (cases "profile_collector_dir (en_profile_id env) (artifact_name config) (pm_artifacts m)")
  have failed: "sound (pm_os n) \<and> world (pm_os n) = r0"
    if "n = collector_failed env lib r config e b started ws k" "sound (pm_os k)" "world (pm_os k) = world (pm_os m)" for n e b k
    using collector_failed_restores[OF that(2), of started r0] that(1,3) Cons.prems(3) by simp
  show ?case
  proof (cases dr)
    case (Inl e)
    then show ?thesis using Cons.prems(1,2) d by (auto intro!: failed[OF refl, THEN conjunct1] failed[OF refl, THEN conjunct2])
  next
    case dir: (Inr dir)
    define m1 where "m1 = record_event env ''collector_starting'' (Some dir) None (collector_fields config) (m\<lparr>pm_artifacts := a\<rparr>)"
    have m1: "pm_os m1 = pm_os m" by (simp add: m1_def)
    show ?thesis
    proof (cases "co_create lib config dir")
      case (Inl e)
      then show ?thesis using Cons.prems(1,2) d dir m1 by (auto simp: m1_def Let_def intro!: failed[OF refl, THEN conjunct1] failed[OF refl, THEN conjunct2])
    next
      case (Inr c)
      note idle = created[OF Inr]
      obtain st c' x where s: "co_start lib c (pm_os m) = (st, c', x)" by (metis prod_cases3)
      show ?thesis
      proof (cases st)
        case (Inr start_warnings)
        have x: "sound x" "holds c' (world (pm_os m)) (world x)"
          using start_ok[OF Cons.prems(2) idle s[unfolded Inr]] by simp_all
        show ?thesis
          by (rule Cons.IH[of "c' # started" "ws @ start_warnings"
                "record_event env ''collector_started'' (Some dir) None (collector_fields config) (m1\<lparr>pm_os := x\<rparr>)"])
            (use Cons.prems(1,3) d dir \<open>co_create lib config dir = Inr c\<close> s Inr x m1 in \<open>auto simp: m1_def Let_def\<close>)
      next
        case (Inl e)
        have x: "sound x" "idle c'" "world x = world (pm_os m)"
          using start_err[OF Cons.prems(2) idle s[unfolded Inl]] by simp_all
        obtain cl c'' y where c: "co_cleanup lib c' x = (cl, c'', y)" by (metis prod_cases3)
        have y: "sound y" "world y = world (pm_os m)" using cleanup_idle[OF x(1,2) c] x(3) by simp_all
        show ?thesis
          using Cons.prems(1) d dir \<open>co_create lib config dir = Inr c\<close> s Inl c y m1
          by (cases cl) (auto simp: Let_def intro!: failed[OF refl, THEN conjunct1] failed[OF refl, THEN conjunct2])
      qed
    qed
  qed
qed

lemma stop_collectors_restores:
  assumes "stop_collectors env lib pid cs ws err m = (rs, ws', err', m')" "sound (pm_os m)"
    "stacked holds cs r0 (world (pm_os m))"
  shows "sound (pm_os m') \<and> world (pm_os m') = r0"
  using assms
proof (induction cs arbitrary: m ws err rs)
  case (Cons c cs)
  obtain r1 where r1: "holds c r1 (world (pm_os m))" "stacked holds cs r0 r1" using Cons.prems(3) by auto
  obtain stop c' x where s: "co_stop lib pid c (pm_os m) = (stop, c', x)" by (metis prod_cases3)
  have x: "sound x" "idle c'" "world x = r1" using stop_restores[OF Cons.prems(2) r1(1) s] by simp_all
  obtain cl c'' y where c: "co_cleanup lib c' x = (cl, c'', y)" by (metis prod_cases3)
  have y: "sound y" "world y = r1" using cleanup_idle[OF x(1,2) c] x(3) by simp_all
  have IH: "sound (pm_os m') \<and> world (pm_os m') = r0"
    if "stop_collectors env lib pid cs v e n = (ns, ws', err', m')" "pm_os n = x \<or> pm_os n = y" for n ns v e
    using Cons.IH[OF that(1)] x y r1(2) that(2) by auto
  show ?case
    using Cons.prems(1) s c
    by (cases stop; cases cl) (auto simp: Let_def split: prod.splits intro: IH[THEN conjunct1] IH[THEN conjunct2])
qed simp

lemma run_collected_restores:
  assumes "run_collected env lib r tc dir m = (res, m')" "sound (pm_os m)"
  shows "sound (pm_os m') \<and> world (pm_os m') = world (pm_os m)"
  using assms(1)
proof (cases rule: run_collected_cases)
  case (start e)
  show ?thesis using start_collectors_stack[OF start(1) assms(2), of "world (pm_os m)"] by simp
next
  case (ran started ws m1 te started' m2 rs ws' err m3 out m4)
  have 1: "sound (pm_os m1)" "stacked holds started (world (pm_os m)) (world (pm_os m1))"
    using start_collectors_stack[OF ran(1) assms(2), of "world (pm_os m)"] by simp_all
  have 2: "sound (pm_os m2)" "stacked holds started' (world (pm_os m)) (world (pm_os m2))"
    using run_target_frame[OF ran(2)] 1 notified_all by auto
  show ?thesis
    using stop_collectors_restores[OF ran(3) 2] profile_outcome_frame(1)[OF ran(4)] ran(5) by simp
qed

lemma run_profile_restores:
  assumes "run_profile env lib r tc m = (res, m')" "sound (pm_os m)"
  shows "sound (pm_os m') \<and> world (pm_os m') = world (pm_os m)"
proof -
  have admitted: "sound (pm_os n') \<and> world (pm_os n') = world (pm_os m)"
    if "run_admitted env lib q tc n = (v, n')" "pm_os n = pm_os m" for q n v n'
    using that(1)
  proof (cases rule: run_admitted_cases)
    case failed
    then show ?thesis using that(2) assms(2) by simp
  next
    case (ran dir m1)
    then show ?thesis using run_collected_restores[OF ran(1)] that(2) assms(2) by simp
  qed
  show ?thesis
    using assms
    by (auto simp: run_profile_def Let_def split: sum.splits if_splits prod.splits dest: admitted)
qed

end

end
