(* ===== verification/Profile_Safety.thy ===== *)
theory Profile_Safety
  imports Profile_Properties
begin

text \<open>
  The collector of kernel events fulfils the contract of a profile collector, so no trace session
  outlives a profile; the properties of the profile manager.
\<close>

section \<open>The collector of kernel events\<close>

lemma post_process_total: "post_process_trace open_ok ps cs fe pid s records \<noteq> None"
proof -
  obtain p where p: "process_all records (etw_processor_new pid s) = Some p" "etw_inv p"
    using process_all_new[of records pid s] by metis
  define q where "q = (if cs \<noteq> 0 then push_warning (''CloseTrace returned Win32 error '' @ show_nat cs) p else p)"
  have "vectors_ok q"
    using p(2) by (auto simp: q_def push_warning_def etw_inv_def rows_ok_def vectors_ok_def)
  then obtain z where "finalize_stacks (set_stacks_enabled s) q = Some z"
    using finalize_stacks_spec[of q "set_stacks_enabled s"] by blast
  then show ?thesis
    unfolding post_process_trace_def p(1) option.case Let_def q_def[symmetric] by (simp split: if_split)
qed

lemma create_empty_running:
  "create_empty_file os p w = (r, w') \<Longrightarrow> tw_running w' = tw_running w \<and> tw_calls w' = tw_calls w"
  by (auto simp: create_empty_file_def split: option.splits)

lemma fallback_running:
  assumes "fallback_files os c ws w = (ws', w')"
  shows "tw_running w' = tw_running w \<and> tw_calls w' = tw_calls w"
  using assms
  by (auto simp: fallback_files_def ensure_empty_event_set_files_def split: prod.splits sum.splits if_splits
      dest!: create_empty_running)

lemma write_summary_running:
  "write_summary os p sm ws w = (ws', w') \<Longrightarrow> tw_running w' = tw_running w \<and> tw_calls w' = tw_calls w"
  by (auto simp: write_summary_def split: option.splits)

lemma rows_written_running [simp]:
  "tw_running (rows_written c out w) = tw_running w" "tw_calls (rows_written c out w) = tw_calls w"
  by (auto simp: rows_written_def Let_def split: option.split)

lemma collected_running:
  obtains (written) ws' w' where "collected os pid c ws w = Some (ws', w')" "tw_running w' = tw_running w" "tw_calls w' = tw_calls w"
proof -
  have found: thesis
    if "collected os pid c ws w = Some (write_summary os p sm v u)" "tw_running u = tw_running w" "tw_calls u = tw_calls w"
    for p sm v u
  proof -
    obtain ws' w' where r: "write_summary os p sm v u = (ws', w')" by (cases "write_summary os p sm v u")
    show thesis
      by (rule written[of ws' w']) (simp_all only: that r write_summary_running[OF r])
  qed
  show thesis
  proof (cases pid)
    case None
    define ws1 where "ws1 = ws @ [''native ETW post-processing skipped because the target pid is unavailable'']"
    obtain ws2 u where f: "fallback_files os c ws1 w = (ws2, u)" by (cases "fallback_files os c ws1 w")
    have "collected os pid c ws w = Some (write_summary os (nc_summary_path c) (summary_empty None (nc_settings c) ws2) ws2 u)"
      unfolding collected_def None Let_def option.case ws1_def[symmetric] f prod.case ..
    then show thesis using found fallback_running[OF f] by blast
  next
    case (Some p)
    obtain ok ps cs records where t: "eo_trace os (nc_trace_path c) = (ok, ps, cs, records)" by (metis prod_cases4)
    define fe where "fe = (\<lambda>s. eo_fs os (case s of Process \<Rightarrow> nc_process_path c | FileIo \<Rightarrow> nc_file_io_path c))"
    obtain post where post: "post_process_trace ok ps cs fe p (nc_settings c) records = Some post"
      using post_process_total by blast
    show thesis
    proof (cases post)
      case (Inr out)
      show thesis
        by (rule found, unfold collected_def Some option.case t prod.case fe_def[symmetric] post Let_def Inr sum.case)
          (rule refl, simp_all)
    next
      case (Inl e)
      define ws1 where "ws1 = ws @ [''native ETW post-processing failed: '' @ etw_message e]"
      obtain ws2 u where f: "fallback_files os c ws1 w = (ws2, u)" by (cases "fallback_files os c ws1 w")
      show thesis
        by (rule found, unfold collected_def Some option.case t prod.case fe_def[symmetric] post Let_def Inl sum.case
            ws1_def[symmetric] f) (rule refl, use fallback_running[OF f] in simp_all)
    qed
  qed
qed

section \<open>Sound machines\<close>

text \<open>Stopping a trace session works, and fresh identifiers are fresh.\<close>

definition etw_sound :: "etw_os \<Rightarrow> trace_world \<Rightarrow> bool" where
  "etw_sound os w \<longleftrightarrow> (\<forall>n. eo_stop os n = ERROR_SUCCESS \<or> eo_stop os n = ERROR_MORE_DATA) \<and> inj (eo_uuid os)
     \<and> (\<forall>n \<ge> tw_calls w. session_name_of os n \<notin> ts_name ` set (tw_running w))"

definition collector_idle :: "native_collector \<Rightarrow> bool" where
  "collector_idle c \<longleftrightarrow> nc_session_name c = None \<and> \<not> nc_poisoned c"

definition collector_holds :: "native_collector \<Rightarrow> trace_session list \<Rightarrow> trace_session list \<Rightarrow> bool" where
  "collector_holds c r0 r \<longleftrightarrow> \<not> nc_poisoned c
     \<and> (\<exists>name. nc_session_name c = Some name \<and> filter (\<lambda>s. ts_name s \<noteq> name) r = r0)"

lemma etw_sound_mono:
  assumes "etw_sound os w" "tw_calls w \<le> tw_calls u" "ts_name ` set (tw_running u) \<subseteq> ts_name ` set (tw_running w)"
  shows "etw_sound os u"
  using assms unfolding etw_sound_def by (meson order_trans subsetD)

lemma stop_session_sound:
  assumes "etw_sound os w"
  obtains ws w' where "stop_trace_session os name w = (Inr ws, w')" "etw_sound os w'"
    "tw_running w' = filter (\<lambda>s. ts_name s \<noteq> name) (tw_running w)"
proof -
  let ?w = "(called w)\<lparr>tw_running := filter (\<lambda>s. ts_name s \<noteq> name) (tw_running w)\<rparr>"
  have "etw_sound os ?w" by (rule etw_sound_mono[OF assms]) (auto simp: called_def)
  moreover have "eo_stop os (tw_calls w) = 0 \<or> eo_stop os (tw_calls w) = 234"
    using assms by (simp add: etw_sound_def ERROR_SUCCESS_def ERROR_MORE_DATA_def)
  then have "\<exists>ws. stop_trace_session os name w = (Inr ws, ?w)"
    by (auto simp: stop_trace_session_def called_def Let_def ERROR_SUCCESS_def ERROR_MORE_DATA_def)
  ultimately show thesis using that by fastforce
qed

lemma filter_fresh: "name \<notin> ts_name ` set r \<Longrightarrow> filter (\<lambda>s. ts_name s \<noteq> name) r = r"
  by (auto simp: filter_id_conv)

lemma map_fresh: "name \<notin> ts_name ` set r \<Longrightarrow> map (\<lambda>s. if ts_name s = name then f s else s) r = r"
  by (auto intro!: map_idI)

lemma start_session_sound:
  assumes "etw_sound os w" "start_trace_session os (session_name_of os (tw_calls w)) p s w = (res, w')"
  shows "etw_sound os w' \<and> (case res of Inl e \<Rightarrow> tw_running w' = tw_running w
    | Inr _ \<Rightarrow> filter (\<lambda>t. ts_name t \<noteq> session_name_of os (tw_calls w)) (tw_running w') = tw_running w)"
proof -
  define name where "name = session_name_of os (tw_calls w)"
  have fresh: "name \<notin> ts_name ` set (tw_running w)" using assms(1) by (simp add: etw_sound_def name_def)
  have later: "session_name_of os n \<noteq> name" if "tw_calls w < n" for n
    using assms(1) that by (auto simp: etw_sound_def name_def session_name_of_def inj_eq)
  define x where "x = \<lparr>ts_name = name, ts_path = p, ts_flags = enable_flags s, ts_stack_events = []\<rparr>"
  define w1 where "w1 = (called w)\<lparr>tw_running := x # tw_running w\<rparr>"
  have sound: "etw_sound os u" if "tw_calls w < tw_calls u" "ts_name ` set (tw_running u) \<subseteq> insert name (ts_name ` set (tw_running w))" for u
  proof -
    have "session_name_of os n \<notin> ts_name ` set (tw_running u)" if n: "tw_calls u \<le> n" for n
    proof -
      have "session_name_of os n \<notin> ts_name ` set (tw_running w)"
        using assms(1) n \<open>tw_calls w < tw_calls u\<close> by (simp add: etw_sound_def)
      moreover have "session_name_of os n \<noteq> name" using later[of n] n \<open>tw_calls w < tw_calls u\<close> by simp
      ultimately show ?thesis using \<open>ts_name ` set (tw_running u) \<subseteq> _\<close> by auto
    qed
    then show ?thesis using assms(1) by (simp add: etw_sound_def)
  qed
  have w1: "tw_calls w < tw_calls w1" "tw_running w1 = x # tw_running w" "ts_name x = name"
    by (simp_all add: w1_def called_def x_def)
  show ?thesis
  proof (cases "eo_start os (tw_calls w) = ERROR_SUCCESS")
    case False
    moreover have "etw_sound os (called w)" by (rule etw_sound_mono[OF assms(1)]) (auto simp: called_def)
    ultimately show ?thesis using assms(2)
      by (auto simp: start_trace_session_def Let_def called_def)
  next
    case started: True
    have run: "start_trace_session os name p s w = (if \<not> set_stacks_enabled s then (Inr (), w1)
       else case enable_stack_tracing os name s w1 of (Inr _, w) \<Rightarrow> (Inr (), w)
          | (Inl e, w) \<Rightarrow> (Inl e, snd (stop_trace_session os name w)))"
      using started by (simp add: start_trace_session_def Let_def w1_def x_def called_def)
    obtain er w2 where e: "enable_stack_tracing os name s w1 = (er, w2)" by (cases "enable_stack_tracing os name s w1")
    have w2: "tw_calls w < tw_calls w2" "filter (\<lambda>t. ts_name t \<noteq> name) (tw_running w2) = tw_running w"
        "ts_name ` set (tw_running w2) \<subseteq> insert name (ts_name ` set (tw_running w))"
      using e w1 map_fresh[OF fresh] filter_fresh[OF fresh]
      by (auto simp: enable_stack_tracing_def Let_def called_def split: if_splits)
    obtain ws w3 where w3: "stop_trace_session os name w2 = (Inr ws, w3)" "etw_sound os w3"
        "tw_running w3 = filter (\<lambda>s. ts_name s \<noteq> name) (tw_running w2)"
      using stop_session_sound[OF sound[OF w2(1,3)]] by metis
    show ?thesis
      using assms(2) run e w2 w3 sound[OF w2(1,3)] sound[OF w1(1)] w1(2,3) filter_fresh[OF fresh]
      unfolding name_def[symmetric] by (auto split: if_splits sum.splits)
  qed
qed

interpretation native: profile_collector "native_lib os" tw_running "etw_sound os" collector_idle collector_holds for os
proof
  fix config dir c
  assume "co_create (native_lib os) config dir = Inr c"
  then show "collector_idle c"
    by (cases config) (auto simp: native_lib_def native_collector_create_def native_collector_new_def collector_idle_def
        split: sum.splits)
next
  fix x c ws c' x'
  assume *: "etw_sound os x" "collector_idle c" "co_start (native_lib os) c x = (Inr ws, c', x')"
  then show "etw_sound os x' \<and> collector_holds c' (tw_running x) (tw_running x')"
    using start_session_sound[OF *(1), of "nc_trace_path c" "nc_settings c"]
    by (auto simp: native_lib_def collector_start_def collector_idle_def collector_holds_def
        Let_def split: prod.splits sum.splits)
next
  fix x c e c' x'
  assume *: "etw_sound os x" "collector_idle c" "co_start (native_lib os) c x = (Inl e, c', x')"
  then show "etw_sound os x' \<and> collector_idle c' \<and> tw_running x' = tw_running x"
    using start_session_sound[OF *(1), of "nc_trace_path c" "nc_settings c"]
    by (auto simp: native_lib_def collector_start_def collector_idle_def
        Let_def split: prod.splits sum.splits)
next
  fix c r0 r pid
  assume "collector_holds c r0 r"
  then show "collector_holds (co_target_started (native_lib os) pid c) r0 r"
    by (simp add: native_lib_def collector_target_started_def collector_holds_def)
next
  fix x c r0 tpid stop c' x'
  assume *: "etw_sound os x" "collector_holds c r0 (tw_running x)" "co_stop (native_lib os) tpid c x = (stop, c', x')"
  obtain name where n: "nc_session_name c = Some name" "filter (\<lambda>s. ts_name s \<noteq> name) (tw_running x) = r0" "\<not> nc_poisoned c"
    using *(2) by (auto simp: collector_holds_def)
  obtain ws w where w: "stop_trace_session os name x = (Inr ws, w)" "etw_sound os w"
      "tw_running w = filter (\<lambda>s. ts_name s \<noteq> name) (tw_running x)"
    using stop_session_sound[OF *(1)] by metis
  define d where "d = c\<lparr>nc_session_name := None\<rparr>"
  define q where "q = (case nc_target_pid d of Some p \<Rightarrow> Some p | None \<Rightarrow> tpid)"
  obtain ws' w' where k: "collected os q d ws w = Some (ws', w')" "tw_running w' = tw_running w" "tw_calls w' = tw_calls w"
    by (rule collected_running)
  have "collector_stop os tpid c x = Some (Inr (collector_artifacts d, ws'), d, w')"
    using n w(1) k(1) by (simp add: collector_stop_def Let_def d_def q_def)
  then have "c' = d" "x' = w'" using *(3) by (simp_all add: native_lib_def)
  then show "etw_sound os x' \<and> collector_idle c' \<and> tw_running x' = r0"
    using w k n by (simp add: etw_sound_def collector_idle_def d_def)
next
  fix x c done' c' x'
  assume "etw_sound os x" "collector_idle c" "co_cleanup (native_lib os) c x = (done', c', x')"
  then show "etw_sound os x' \<and> tw_running x' = tw_running x"
    by (auto simp: native_lib_def collector_cleanup_def collector_idle_def)
qed


section \<open>The result\<close>

text \<open>The metadata that agrees with a result.\<close>

definition metadata_of :: "run_profile_request \<Rightarrow> profile_env \<Rightarrow> profile_result \<Rightarrow> profile_metadata" where
  "metadata_of r env result =
     \<lparr>md_profile_id = pr_profile_id result, md_target = rp_target r, md_target_pid = pr_target_pid result,
      md_start_time = en_now env, md_end_time = en_end_time env, md_duration_ms = pr_duration_ms result,
      md_timeout_ms = rp_timeout_ms r, md_status = pr_status result,
      md_completion_reason = pr_completion_reason result, md_target_exit_code = pr_target_exit_code result,
      md_collectors = rp_collectors r, md_trace = map_option ar_path (pa_trace (pr_artifacts result)),
      md_collector_results = pr_collector_results result, md_warnings = pr_warnings result, md_error = pr_error result\<rparr>"

text \<open>What the exit of the target makes of the result.\<close>

fun outcome_matches :: "target_exit result \<Rightarrow> profile_result \<Rightarrow> bool" where
  "outcome_matches (Inr (Exited pid code)) result \<longleftrightarrow> pr_status result = ProfileCompleted
     \<and> pr_completion_reason result = TargetExited \<and> pr_target_pid result = Some pid \<and> pr_target_exit_code result = code"
| "outcome_matches (Inr (TimedOut pid)) result \<longleftrightarrow> pr_status result = ProfileTimedOut
     \<and> pr_completion_reason result = TimeoutReached \<and> pr_target_pid result = Some pid \<and> pr_target_exit_code result = None"
| "outcome_matches (Inl e) result \<longleftrightarrow> pr_status result = ProfileFailed
     \<and> pr_completion_reason result = TargetLaunchFailed \<and> pr_target_pid result = None
     \<and> pr_target_exit_code result = None \<and> pr_error result \<noteq> None"

lemma stop_collectors_results:
  "stop_collectors env lib pid cs ws err m = (rs, ws', err', m') \<Longrightarrow>
     length rs = length cs \<and> (err \<noteq> None \<longrightarrow> err' = err)
     \<and> (err' = None \<longrightarrow> (\<forall>r \<in> set rs. cr_status r = CollectorCompleted))"
proof (induction cs arbitrary: m ws err rs)
  case (Cons c cs)
  obtain stop c' x where s: "co_stop lib pid c (pm_os m) = (stop, c', x)" by (metis prod_cases3)
  obtain cl c'' y where c: "co_cleanup lib c' x = (cl, c'', y)" by (metis prod_cases3)
  show ?case
  proof (cases stop)
    case (Inr sw)
    obtain artifacts stop_warnings where sw: "sw = (artifacts, stop_warnings)" by (cases sw)
    obtain rs2 n where r: "stop_collectors env lib pid cs (ws @ stop_warnings) err n = (rs2, ws', err', m')"
      "rs = stopped_result lib c artifacts stop_warnings # rs2"
      using Cons.prems s Inr sw by (auto simp: Let_def split: prod.splits)
    show ?thesis using Cons.IH[OF r(1)] r(2) by (simp add: stopped_result_def)
  next
    case (Inl e)
    obtain rs2 n v where r: "stop_collectors env lib pid cs v (case err of None \<Rightarrow> Some (message e) | Some x \<Rightarrow> Some x) n
        = (rs2, ws', err', m')" "rs = stop_failed_result lib c (message e) # rs2"
      using Cons.prems s c Inl by (cases cl) (auto simp: Let_def split: prod.splits)
    show ?thesis using Cons.IH[OF r(1)] r(2) by (cases err) auto
  qed
qed simp

lemma start_collectors_length:
  "start_collectors env lib r configs started ws m = (Inr (started', ws'), m') \<Longrightarrow>
     length started' = length configs + length started"
proof (induction configs arbitrary: started ws m)
  case (Cons config configs)
  obtain dr a where d: "profile_collector_dir (en_profile_id env) (artifact_name config) (pm_artifacts m) = (dr, a)"
    by (cases "profile_collector_dir (en_profile_id env) (artifact_name config) (pm_artifacts m)")
  show ?case
    using Cons.prems d
    by (auto simp: Let_def split: sum.splits prod.splits dest: Cons.IH)
qed simp


lemma write_metadata_file:
  assumes "write_metadata env r st re pid code tr rs ws err m = (Inr artifact, m')"
  shows "ar_path artifact = profile_dir (pm_artifacts m) (en_profile_id env) @ [''profile.json'']"
    "fs_files (pm_artifacts m') (ar_path artifact) = Some [ProfileMetadataText
       \<lparr>md_profile_id = en_profile_id env, md_target = rp_target r, md_target_pid = pid,
        md_start_time = en_now env, md_end_time = en_end_time env, md_duration_ms = en_duration_ms env,
        md_timeout_ms = rp_timeout_ms r, md_status = st, md_completion_reason = re,
        md_target_exit_code = code, md_collectors = rp_collectors r,
        md_trace = map_option ar_path tr, md_collector_results = rs, md_warnings = ws, md_error = err\<rparr>]"
    "am_root (pm_artifacts m') = am_root (pm_artifacts m)" "am_show_id (pm_artifacts m') = am_show_id (pm_artifacts m)"
  using assms
  by (auto simp: write_metadata_def write_profile_metadata_def write_below_def locked_def Let_def returning_def
      create_dir_all_def write_file_def split: if_splits option.splits prod.splits sum.splits)

lemma record_event_other_file:
  assumes "p = profile_dir (pm_artifacts m) (en_profile_id env) @ [''profile.json'']"
  shows "fs_files (pm_artifacts (record_event env e ap err x m)) p = fs_files (pm_artifacts m) p"
  using assms
  by (auto simp: record_event_def append_profile_event_def append_below_cases Let_def profile_dir_def split: option.split)

lemma run_collected_result:
  assumes "run_collected env lib r tc dir m = (Inr result, m')"
  obtains logs pid te out err' cx where "en_runner env (rp_target r) (rp_timeout_ms r) out err' cx = (logs, pid, te)"
    "outcome_matches te result" "length (pr_collector_results result) = length (rp_collectors r)"
    "pr_error result = None \<longrightarrow> (\<forall>c \<in> set (pr_collector_results result). cr_status c = CollectorCompleted)"
    "fs_files (pm_artifacts m') (ar_path (pa_profile (pr_artifacts result))) = Some [ProfileMetadataText (metadata_of r env result)]"
    "pr_profile_id result = en_profile_id env"
proof -
  obtain started ws m1 where s: "start_collectors env lib r (rp_collectors r) [] [] m = (Inr (started, ws), m1)"
    using assms by (auto simp: run_collected_def split: prod.splits sum.splits)
  obtain te started' m2 where t: "run_target env lib r tc started m1 = (te, started', m2)" by (metis prod_cases3)
  obtain rs ws' err m3 where c: "stop_collectors env lib (target_pid_from_exit te) started' ws None m2 = (rs, ws', err, m3)"
    by (metis prod_cases4)
  obtain status reason pid code error m4 where o: "profile_outcome env te err m3 = ((status, reason, pid, code, error), m4)"
    by (metis surj_pair)
  define trace where "trace = legacy_trace_artifact (rev rs)"
  obtain mr m5 where md: "write_metadata env r status reason pid code trace (rev rs) ws' error m4 = (mr, m5)"
    by (cases "write_metadata env r status reason pid code trace (rev rs) ws' error m4")
  obtain artifact where mr: "mr = Inr artifact"
    using assms s t c o md by (cases mr) (simp_all add: run_collected_def Let_def flip: trace_def)
  define extra where "extra = [(''status'', StatusField status), (''completion_reason'', ReasonField reason),
      (''duration_ms'', NumberField (en_duration_ms env))]"
  have res: "m' = profile_log Info ''run_profile_finished'' None (record_event env ''profile_completed'' None None extra m5)"
    "pr_status result = status" "pr_completion_reason result = reason" "pr_target_pid result = pid"
    "pr_target_exit_code result = code" "pr_error result = error" "pr_warnings result = ws'"
    "pr_collector_results result = rev rs" "pa_trace (pr_artifacts result) = trace"
    "pa_profile (pr_artifacts result) = artifact" "pr_profile_id result = en_profile_id env"
    "pr_duration_ms result = en_duration_ms env"
    using assms s t c o md mr by (auto simp: run_collected_def Let_def extra_def simp flip: trace_def)
  note f = write_metadata_file[OF md[unfolded mr]]
  obtain logs spid out e' cx where run: "en_runner env (rp_target r) (rp_timeout_ms r) out e' cx = (logs, spid, te)"
    using t by (auto simp: run_target_def Let_def split: prod.splits option.splits)
  have "outcome_matches te result"
    using o unfolding profile_outcome_def
    by (cases te; auto simp: res split: target_exit.splits)
  moreover have "length started' = length started" using run_target_frame(3)[OF t] by auto
  then have "length rs = length (rp_collectors r)"
    using stop_collectors_results[OF c] start_collectors_length[OF s] by simp
  moreover have "\<forall>x \<in> set rs. cr_status x = CollectorCompleted" if "error = None"
    using stop_collectors_results[OF c] o that by (auto simp: profile_outcome_def split: sum.splits target_exit.splits)
  moreover have "ar_path artifact = profile_dir (pm_artifacts m5) (en_profile_id env) @ [''profile.json'']"
    using f(1,3,4) by (simp add: profile_dir_def)
  then have "fs_files (pm_artifacts m') (ar_path artifact) = fs_files (pm_artifacts m5) (ar_path artifact)"
    unfolding res(1) profile_log_simps by (rule record_event_other_file)
  then have "fs_files (pm_artifacts m') (ar_path artifact) = Some [ProfileMetadataText (metadata_of r env result)]"
    using f(2) res by (simp add: metadata_of_def)
  ultimately show thesis using that[OF run] res by simp
qed


section \<open>Waiting for the target\<close>

lemma wait_for_target_ends:
  assumes "\<And>n. POLL_MS * n \<le> elapsed n" "timeout \<le> POLL_MS * (n + fuel)"
  shows "wait_for_target (Suc fuel) polls elapsed n timeout pid \<noteq> None"
  using assms(2)
proof (induction fuel arbitrary: n)
  case 0
  then show ?case using assms(1)[of n] by (auto split: sum.split option.split)
next
  case (Suc fuel)
  show ?case using Suc.IH[of "Suc n"] Suc.prems
    by (subst wait_for_target.simps) (auto split: sum.split option.split)
qed

lemma wait_for_target_pid:
  "wait_for_target fuel polls elapsed n timeout pid = Some (Inr te) \<Longrightarrow> target_pid_from_exit (Inr te) = Some pid"
  by (induction fuel arbitrary: n) (auto split: sum.splits option.splits if_splits)

lemma run_admitted_Inr:
  assumes "run_admitted env lib r tc m = (Inr result, m')"
  obtains dir k where "run_collected env lib r tc dir k = (Inr result, m')"
proof -
  obtain ir a where i: "initialize_profile_artifacts (en_profile_id env) (pm_artifacts m) = (ir, a)"
    by (cases "initialize_profile_artifacts (en_profile_id env) (pm_artifacts m)")
  define m0 where "m0 = record_event env ''profile_created'' None None (profile_request_fields r)
      ((profile_log Info ''run_profile_started'' None m)\<lparr>pm_artifacts := a\<rparr>)"
  obtain sr n where st: "steps [ensure_empty_file (profile_stdout_path (pm_artifacts m0) (en_profile_id env)),
      ensure_empty_file (profile_stderr_path (pm_artifacts m0) (en_profile_id env))] m0 = (sr, n)"
    by (metis surj_pair)
  show thesis
    using assms i st that
    by (cases ir; cases sr) (simp_all add: run_admitted_def Let_def flip: m0_def del: steps.simps)
qed

lemma run_profile_stages:
  assumes "run_profile env lib request tc m = (Inr result, m')"
  obtains target r dir k n' where "validate_profile_target env (rp_target request) = Inr target"
    "r = with_default_collectors (request\<lparr>rp_target := target\<rparr>)"
    "run_collected env lib r tc dir k = (Inr result, n')" "pm_artifacts m' = pm_artifacts n'"
proof (cases "validate_profile_target env (rp_target request)")
  case (Inl e)
  then show thesis using assms by (simp add: run_profile_def Let_def)
next
  case (Inr target)
  define r where "r = with_default_collectors (request\<lparr>rp_target := target\<rparr>)"
  define busy where "busy = (\<lambda>active. ''another profile job is already active: '' @ en_show_id env active)"
  obtain jr j where j: "job_start (en_profile_id env) busy (pm_job m) = (jr, j)"
    by (cases "job_start (en_profile_id env) busy (pm_job m)")
  obtain v n' where a: "run_admitted env lib r tc (m\<lparr>pm_job := j\<rparr>) = (v, n')"
    by (cases "run_admitted env lib r tc (m\<lparr>pm_job := j\<rparr>)")
  have v: "v = Inr result \<and> pm_artifacts m' = pm_artifacts n'"
    using assms[unfolded run_profile_def Let_def Inr sum.case, folded r_def busy_def, unfolded j prod.case a]
    by (auto split: if_splits sum.splits)
  then obtain dir k where "run_collected env lib r tc dir k = (Inr result, n')"
    using run_admitted_Inr[OF a[unfolded conjunct1[OF v]]] by metis
  then show thesis using that[OF Inr r_def] v by blast
qed

section \<open>An example\<close>

text \<open>A machine where everything works, and a target that ends with exit code 0.\<close>

definition demo_profile_env :: profile_env where
  "demo_profile_env =
     \<lparr>en_canonicalize = Inr, en_is_file = (\<lambda>_. True), en_display = (\<lambda>_. ''a''), en_profile_id = 7, en_show_id = (\<lambda>_. ''7''),
      en_now = 1000, en_end_time = 2000, en_duration_ms = 1000,
      en_runner = (\<lambda>_ _ _ _ _. ([], Some 99, Inr (Exited 99 (Some 0))))\<rparr>"

definition demo_etw :: etw_os where
  "demo_etw =
     \<lparr>eo_uuid = (\<lambda>n. replicate n CHR ''x''), eo_start = (\<lambda>_. 0), eo_stacks = (\<lambda>_. 0), eo_stop = (\<lambda>_. 0),
      eo_fs = (\<lambda>_. None), eo_trace = (\<lambda>_. (True, 0, 0, []))\<rparr>"

definition demo_profiles :: "'x \<Rightarrow> 'x profile_manager" where
  "demo_profiles x =
     \<lparr>pm_artifacts = \<lparr>am_root = [''root''], am_show_id = (\<lambda>_. ''7''), am_poisoned = False, fs_dirs = (\<lambda>_. False),
        fs_files = (\<lambda>_. None), fs_error = (\<lambda>_. None)\<rparr>,
      pm_job = job_default, pm_logs = [], pm_os = x, pm_process_launch = process_launch_config_default\<rparr>"

definition demo_world :: trace_world where
  "demo_world = \<lparr>tw_calls = 0, tw_running = [], tw_files = (\<lambda>_. None)\<rparr>"

definition demo_profile_request :: run_profile_request where
  "demo_profile_request = \<lparr>rp_target = ProfileLaunch [65] [], rp_timeout_ms = 1000, rp_collectors = []\<rparr>"

definition demo_tool_context :: tool_call_context where
  "demo_tool_context = \<lparr>tcc_peer_pid = None, tcc_peer_session_id = None\<rparr>"

definition demo_launch :: "unit launch_os" where
  "demo_launch =
     \<lparr>os_query_user_token = (\<lambda>_. Inl ''no token''), os_linked_token = (\<lambda>_. None), os_active_console = 1,
      os_prepare = (\<lambda>_ _. Inr ()), os_attribute_list = Inr (), os_user_environment = (\<lambda>_. Inr None), os_vars = [],
      os_create = (\<lambda>_. Inr 99), os_show_u32 = (\<lambda>_. ''1''), os_display_path = (\<lambda>_. ''a'')\<rparr>"

text \<open>A store without failures, in which every operation of the manager succeeds.\<close>

definition healthy :: "'l artifact_manager \<Rightarrow> bool" where
  "healthy a \<longleftrightarrow> \<not> am_poisoned a \<and> fs_error a = (\<lambda>_. None)"

lemma healthy_files [simp]: "healthy (a\<lparr>fs_files := f\<rparr>) = healthy a" "healthy (a\<lparr>fs_dirs := d\<rparr>) = healthy a"
  by (simp_all add: healthy_def)

lemma healthy_event [simp]: "healthy (pm_artifacts (record_event env e p t x m)) = healthy (pm_artifacts m)"
  by (auto simp: record_event_def append_profile_event_def append_below_cases healthy_def Let_def split: option.split)

lemma healthy_metadata:
  assumes "healthy (pm_artifacts m)"
  shows "\<exists>artifact m'. write_metadata env r st re pid code tr rs ws err m = (Inr artifact, m')"
  using assms
  by (simp add: write_metadata_def write_profile_metadata_def write_below_def locked_def Let_def returning_def
      create_dir_all_def write_file_def healthy_def)

lemma healthy_collector_dir:
  assumes "healthy a" "artifact_name_ok name"
  shows "\<exists>dir a'. profile_collector_dir i name a = (Inr dir, a') \<and> healthy a'"
  using assms by (simp add: profile_collector_dir_def locked_def Let_def returning_def create_dir_all_def healthy_def)

lemma healthy_initialize:
  assumes "healthy a"
  shows "\<exists>dir a'. initialize_profile_artifacts i a = (Inr dir, a') \<and> healthy a'"
  using assms
  by (simp add: initialize_profile_artifacts_def locked_def Let_def returning_def create_dir_all_def touch_def
      append_pieces_def healthy_def)

lemma healthy_empty_file:
  assumes "healthy (pm_artifacts m)"
  shows "\<exists>m'. ensure_empty_file p m = (Inr (), m') \<and> healthy (pm_artifacts m') \<and> pm_os m' = pm_os m"
  using assms by (simp add: ensure_empty_file_def healthy_def)

text \<open>The collector of kernel events starts and stops on this machine.\<close>

lemma demo_etw_sound: "etw_sound demo_etw demo_world"
  by (auto simp: etw_sound_def demo_etw_def demo_world_def ERROR_SUCCESS_def inj_def)

text \<open>A collector that does nothing, for the instance.\<close>

definition demo_lib :: "(unit, unit) collector_lib" where
  "demo_lib =
     \<lparr>co_create = (\<lambda>_ _. Inr ()), co_name = (\<lambda>_. ''native_etw''), co_kind = (\<lambda>_. NativeEtw),
      co_start = (\<lambda>c x. (Inr [], c, x)), co_target_started = (\<lambda>_ c. c),
      co_stop = (\<lambda>_ c x. (Inr ([], []), c, x)), co_cleanup = (\<lambda>c x. (Inr (), c, x))\<rparr>"

lemma demo_collected:
  assumes "healthy (pm_artifacts m)" "rp_collectors r = [default_collector_config]"
  shows "\<exists>result m'. run_collected demo_profile_env demo_lib r tc dir m = (Inr result, m')"
proof -
  obtain cdir a where d: "profile_collector_dir (en_profile_id demo_profile_env) (artifact_name default_collector_config)
      (pm_artifacts m) = (Inr cdir, a)" "healthy a"
    using healthy_collector_dir[OF assms(1), of "artifact_name default_collector_config" "en_profile_id demo_profile_env"]
    by (auto simp: default_collector_config_def artifact_name_ok_def is_control_def)
  obtain m1 where s: "start_collectors demo_profile_env demo_lib r [default_collector_config] [] [] m = (Inr ([()], []), m1)"
    and h1: "healthy (pm_artifacts m1)"
    using d by (simp add: demo_lib_def Let_def)
  obtain m2 where t: "run_target demo_profile_env demo_lib r tc [()] m1 = (Inr (Exited 99 (Some 0)), [()], m2)"
    and h2: "healthy (pm_artifacts m2)"
    using h1 by (simp add: run_target_def demo_profile_env_def record_target_started_def Let_def demo_lib_def)
  obtain rs m3 where c: "stop_collectors demo_profile_env demo_lib (Some 99) [()] [] None m2 = (rs, [], None, m3)"
    and h3: "healthy (pm_artifacts m3)"
    using h2 by (simp add: demo_lib_def Let_def)
  obtain st re pid code err m4 where o: "profile_outcome demo_profile_env (Inr (Exited 99 (Some 0))) None m3 = ((st, re, pid, code, err), m4)"
    and h4: "healthy (pm_artifacts m4)"
    using h3 by (simp add: profile_outcome_def)
  obtain artifact m5 where w: "write_metadata demo_profile_env r st re pid code (legacy_trace_artifact (rev rs)) (rev rs) [] err m4
      = (Inr artifact, m5)"
    using healthy_metadata[OF h4] by metis
  show ?thesis
    by (simp add: run_collected_def assms(2) s t c o w Let_def del: start_collectors.simps stop_collectors.simps)
qed

lemma demo_profile_runs:
  "\<exists>result m'. run_profile demo_profile_env demo_lib demo_profile_request demo_tool_context (demo_profiles ()) = (Inr result, m')"
proof -
  define r where "r = with_default_collectors (demo_profile_request\<lparr>rp_target := ProfileLaunch [65] []\<rparr>)"
  have r: "rp_collectors r = [default_collector_config]" "rp_timeout_ms r \<noteq> 0" "reject_duplicate_collectors r = Inr ()"
    by (simp_all add: r_def with_default_collectors_def demo_profile_request_def reject_duplicate_collectors_def
        default_collector_config_def)
  define m where "m = (demo_profiles ())\<lparr>pm_job := (pm_job (demo_profiles ()))\<lparr>job_active := Some 7\<rparr>\<rparr>"
  have "healthy (pm_artifacts m)" by (simp add: m_def demo_profiles_def healthy_def)
  then obtain dir a where i: "initialize_profile_artifacts (en_profile_id demo_profile_env) (pm_artifacts m) = (Inr dir, a)" "healthy a"
    using healthy_initialize by metis
  define m0 where "m0 = record_event demo_profile_env ''profile_created'' None None (profile_request_fields r)
      ((profile_log Info ''run_profile_started'' None m)\<lparr>pm_artifacts := a\<rparr>)"
  have "healthy (pm_artifacts m0)" using i by (simp add: m0_def)
  then obtain m1 where e1: "ensure_empty_file (profile_stdout_path (pm_artifacts m0) (en_profile_id demo_profile_env)) m0 = (Inr (), m1)"
    "healthy (pm_artifacts m1)" using healthy_empty_file by metis
  obtain m2 where e2: "ensure_empty_file (profile_stderr_path (pm_artifacts m0) (en_profile_id demo_profile_env)) m1 = (Inr (), m2)"
    "healthy (pm_artifacts m2)" using healthy_empty_file[OF e1(2)] by metis
  obtain result m3 where c: "run_collected demo_profile_env demo_lib r demo_tool_context dir m2 = (Inr result, m3)"
    using demo_collected[OF e2(2) r(1)] by metis
  have admitted: "run_admitted demo_profile_env demo_lib r demo_tool_context m = (Inr result, m3)"
    unfolding run_admitted_def Let_def profile_log_simps i prod.case sum.case m0_def[symmetric]
    by (simp add: e1(1) e2(1) c)
  have "job_start (en_profile_id demo_profile_env) busy (pm_job (demo_profiles ()))
      = (Inr 7, (pm_job (demo_profiles ()))\<lparr>job_active := Some 7\<rparr>)" for busy
    by (simp add: job_start_def demo_profiles_def job_default_def demo_profile_env_def)
  moreover have "validate_profile_target demo_profile_env (rp_target demo_profile_request) = Inr (ProfileLaunch [65] [])"
    by (simp add: demo_profile_env_def demo_profile_request_def)
  ultimately show ?thesis
    using admitted r(2,3) by (simp add: run_profile_def Let_def flip: r_def m_def)
qed

end
