(* ===== verification/Profile_Claims.thy ===== *)
theory Profile_Claims
  imports Profile_Safety
begin

text \<open>
  The properties of the profile manager and their instances on an example.
\<close>

section \<open>Properties\<close>

text \<open>
  C17. No kernel trace session outlives a profile: whatever fails in between (a directory, a collector
  that cannot be created or started, enabling its stack traces, the target, the processing of the trace,
  the file system), when \<open>run_profile\<close> returns, the trace sessions that run are those that ran before,
  provided that Windows stops a session when it is told to and that fresh identifiers are fresh.
\<close>

theorem no_trace_session_outlives_profile:
  assumes "etw_sound os (pm_os m)"
    and "run_profile env (native_lib os) request tc m = (res, m')"
  shows "tw_running (pm_os m') = tw_running (pm_os m)"
  using native.run_profile_restores[OF assms(2,1)] by simp

lemma no_trace_session_outlives_profile_witness:
  "tw_running (pm_os (snd (run_profile demo_profile_env (native_lib demo_etw) demo_profile_request demo_tool_context
      (demo_profiles demo_world)))) = []"
proof -
  obtain res m' where run: "run_profile demo_profile_env (native_lib demo_etw) demo_profile_request demo_tool_context
      (demo_profiles demo_world) = (res, m')" by (metis surj_pair)
  have w: "pm_os (demo_profiles demo_world) = demo_world" by (simp add: demo_profiles_def)
  have "tw_running (pm_os m') = tw_running (pm_os (demo_profiles demo_world))"
    by (rule no_trace_session_outlives_profile[OF _ run]) (simp only: w demo_etw_sound)
  moreover have "tw_running demo_world = []" by (simp add: demo_world_def)
  ultimately have "tw_running (pm_os m') = []" by (simp only: w)
  then show ?thesis by (simp only: run snd_conv)
qed

text \<open>
  One profile at a time: whatever becomes of a profile, afterwards the slot of the one job is what it
  was before; and while another job holds it, a request is refused before anything is written, started
  or run.
\<close>

theorem profile_slot_released:
  "pm_job (snd (run_profile env lib request tc m)) = pm_job m
   \<and> (job_active (pm_job m) \<noteq> None \<longrightarrow>
        isl (fst (run_profile env lib request tc m))
        \<and> pm_os (snd (run_profile env lib request tc m)) = pm_os m
        \<and> pm_artifacts (snd (run_profile env lib request tc m)) = pm_artifacts m)"
proof -
  have "pm_job m' = pm_job m \<and> (job_active (pm_job m) \<noteq> None \<longrightarrow> isl res \<and> pm_os m' = pm_os m \<and> pm_artifacts m' = pm_artifacts m)"
    if "run_profile env lib request tc m = (res, m')" for res m'
    using that
    by (auto simp: run_profile_def Let_def job_start_def job_drop_def dest!: run_admitted_job
        split: sum.splits if_splits prod.splits option.splits)
  then show ?thesis by (metis prod.collapse)
qed

lemma profile_slot_released_witness:
  "isl (fst (run_profile demo_profile_env demo_lib demo_profile_request demo_tool_context
      ((demo_profiles ())\<lparr>pm_job := \<lparr>job_active = Some 3, job_poisoned = False\<rparr>\<rparr>)))"
  using profile_slot_released[of demo_profile_env demo_lib demo_profile_request demo_tool_context
      "(demo_profiles ())\<lparr>pm_job := \<lparr>job_active = Some 3, job_poisoned = False\<rparr>\<rparr>"]
  by simp

text \<open>
  C18. The result of a profile tells what happened: its status, reason, pid and exit code are those of
  the exit of the target, there is one result for every collector that was asked for (the default one if
  none was), no error means that every collector stopped well, and \<open>profile.json\<close> holds the same values.
\<close>

theorem profile_result_agrees:
  assumes "run_profile env lib request tc m = (Inr result, m')"
  shows "\<exists>target r logs pid te out err cx.
      validate_profile_target env (rp_target request) = Inr target
    \<and> r = with_default_collectors (request\<lparr>rp_target := target\<rparr>)
    \<and> en_runner env target (rp_timeout_ms request) out err cx = (logs, pid, te)
    \<and> outcome_matches te result
    \<and> length (pr_collector_results result) = length (rp_collectors r)
    \<and> (pr_error result = None \<longrightarrow> (\<forall>c \<in> set (pr_collector_results result). cr_status c = CollectorCompleted))
    \<and> fs_files (pm_artifacts m') (ar_path (pa_profile (pr_artifacts result)))
        = Some [ProfileMetadataText (metadata_of r env result)]"
proof -
  obtain target r dir k n' where t: "validate_profile_target env (rp_target request) = Inr target"
      "r = with_default_collectors (request\<lparr>rp_target := target\<rparr>)"
    and c: "run_collected env lib r tc dir k = (Inr result, n')" "pm_artifacts m' = pm_artifacts n'"
    by (rule run_profile_stages[OF assms])
  have r: "rp_target r = target" "rp_timeout_ms r = rp_timeout_ms request"
    by (simp_all add: t(2) with_default_collectors_def)
  obtain logs pid te out err cx where e: "en_runner env (rp_target r) (rp_timeout_ms r) out err cx = (logs, pid, te)"
    "outcome_matches te result" "length (pr_collector_results result) = length (rp_collectors r)"
    "pr_error result = None \<longrightarrow> (\<forall>c \<in> set (pr_collector_results result). cr_status c = CollectorCompleted)"
    "fs_files (pm_artifacts n') (ar_path (pa_profile (pr_artifacts result))) = Some [ProfileMetadataText (metadata_of r env result)]"
    by (rule run_collected_result[OF c(1)]) (erule (4) that)
  show ?thesis
    by (intro exI[of _ target] exI[of _ r] exI[of _ logs] exI[of _ pid] exI[of _ te] exI[of _ out] exI[of _ err] exI[of _ cx] conjI)
      (use t e r c(2) in simp_all)
qed

lemma profile_result_agrees_witness:
  "\<exists>result m' logs pid te out err cx.
      run_profile demo_profile_env demo_lib demo_profile_request demo_tool_context (demo_profiles ()) = (Inr result, m')
    \<and> en_runner demo_profile_env (ProfileLaunch [65] []) 1000 out err cx = (logs, pid, te) \<and> outcome_matches te result"
proof -
  obtain result m' where run: "run_profile demo_profile_env demo_lib demo_profile_request demo_tool_context (demo_profiles ()) = (Inr result, m')"
    using demo_profile_runs by blast
  have t: "validate_profile_target demo_profile_env (rp_target demo_profile_request) = Inr (ProfileLaunch [65] [])"
    "rp_timeout_ms demo_profile_request = 1000"
    by (simp_all add: demo_profile_env_def demo_profile_request_def)
  obtain target logs pid te out err cx where "validate_profile_target demo_profile_env (rp_target demo_profile_request) = Inr target"
    "en_runner demo_profile_env target (rp_timeout_ms demo_profile_request) out err cx = (logs, pid, te)" "outcome_matches te result"
    using profile_result_agrees[OF run] by blast
  then have "en_runner demo_profile_env (ProfileLaunch [65] []) 1000 out err cx = (logs, pid, te) \<and> outcome_matches te result"
    using t by simp
  then show ?thesis using run by blast
qed

text \<open>
  Waiting for the target comes to an end: with looks at least 25 ms apart, a timeout of \<open>t\<close> ms needs
  at most \<open>t div 25 + 2\<close> of them, whatever they give, and the exit names the pid that was told before.
\<close>

theorem launch_and_wait_ends:
  assumes "\<And>n. POLL_MS * n \<le> elapsed n"
  shows "\<exists>logs pid te. launch_and_wait os show_path (timeout div POLL_MS + 2) polls elapsed target timeout out err cx
      = Some (logs, pid, te) \<and> (case te of Inr _ \<Rightarrow> target_pid_from_exit te = pid | Inl _ \<Rightarrow> True)"
proof -
  have "timeout \<le> POLL_MS * (0 + (timeout div POLL_MS + 1))"
    using dividend_less_times_div[of POLL_MS timeout] by (simp add: POLL_MS_def)
  from wait_for_target_ends[of elapsed, OF assms this]
  have ends: "wait_for_target (timeout div POLL_MS + 2) polls elapsed 0 timeout pid \<noteq> None" for pid
    by (simp add: eval_nat_numeral del: wait_for_target.simps)
  show ?thesis
  proof (cases "windows_spawn_process os (target_launch_spec target out err show_path) cx")
    case (Inl e)
    then show ?thesis by (simp add: launch_and_wait_def)
  next
    case (Inr child)
    obtain te where te: "wait_for_target (timeout div POLL_MS + 2) polls elapsed 0 timeout (mc_pid child) = Some te"
      using ends[of "mc_pid child"] by blast
    have "case te of Inr _ \<Rightarrow> target_pid_from_exit te = Some (mc_pid child) | Inl _ \<Rightarrow> True"
      using wait_for_target_pid[of _ polls elapsed 0 timeout "mc_pid child"] te
      by (cases te) (auto simp del: wait_for_target.simps)
    with te Inr show ?thesis by (simp add: launch_and_wait_def del: wait_for_target.simps)
  qed
qed

lemma launch_and_wait_ends_witness:
  "\<exists>logs pid te. launch_and_wait demo_launch (\<lambda>_. ''out.txt'') 42 (\<lambda>_. Inr 259) (\<lambda>n. 25 * n) (ProfileLaunch [65] []) 1000 [] []
      \<lparr>ctx_config = process_launch_config_default, ctx_tool_call = demo_tool_context\<rparr> = Some (logs, pid, te)"
  using launch_and_wait_ends[of "\<lambda>n. 25 * n" demo_launch "\<lambda>_. ''out.txt''" 1000 "\<lambda>_. Inr 259" "ProfileLaunch [65] []" "[]" "[]"
      "\<lparr>ctx_config = process_launch_config_default, ctx_tool_call = demo_tool_context\<rparr>"]
  by (auto simp: POLL_MS_def)

end
