(* ===== verification/Ttd.thy ===== *)
theory Ttd
  imports Session_Types Job Artifacts Os_Path
begin

text \<open>
  Time travel recordings (\<open>dbgflow-trace/src/ttd\<close>): the data of \<open>mod.rs\<close>, the checks of
  \<open>validation.rs\<close>, the command line of the recorder (\<open>args.rs\<close>), and what \<open>mod.rs\<close> reads off the
  recorder's output and its directory of traces.
\<close>

section \<open>Data\<close>

datatype ttd_target =
    TtdLaunch os_text "utext list"
  | TtdAttach u32
  | TtdMonitor os_text "utext option"

datatype ttd_record_mode = RecordAutomatic | RecordManual

fun record_mode_arg :: "ttd_record_mode \<Rightarrow> string" where
  "record_mode_arg RecordAutomatic = ''Automatic''"
| "record_mode_arg RecordManual = ''Manual''"

datatype ttd_replay_cpu_support =
    CpuDefault | MostConservative | MostAggressive | IntelAvxRequired | IntelAvx2Required

fun replay_cpu_arg :: "ttd_replay_cpu_support \<Rightarrow> string" where
  "replay_cpu_arg CpuDefault = ''Default''"
| "replay_cpu_arg MostConservative = ''MostConservative''"
| "replay_cpu_arg MostAggressive = ''MostAggressive''"
| "replay_cpu_arg IntelAvxRequired = ''IntelAvxRequired''"
| "replay_cpu_arg IntelAvx2Required = ''IntelAvx2Required''"

record ttd_recording_options =
  to_children :: bool
  to_no_ui :: bool
  to_accept_eula :: bool
  to_ring :: bool
  to_max_file_mb :: u32
  to_modules :: "utext list"
  to_record_mode :: ttd_record_mode
  to_replay_cpu_support :: ttd_replay_cpu_support

definition ttd_recording_options_default :: ttd_recording_options where
  "ttd_recording_options_default =
     \<lparr>to_children = False, to_no_ui = True, to_accept_eula = False, to_ring = False, to_max_file_mb = 2048,
      to_modules = [], to_record_mode = RecordAutomatic, to_replay_cpu_support = CpuDefault\<rparr>"

record record_ttd_request =
  rt_target :: ttd_target
  rt_timeout_ms :: nat
  rt_options :: ttd_recording_options

datatype ttd_recording_status = TtdCompleted | TtdTimedOut | TtdFailed

datatype ttd_completion_reason = TtdTargetExited | TtdTimeout | RecorderError | RecorderUnavailable

record ttd_recorder_exit =
  tx_exit_code :: "int option"
  tx_timed_out :: bool

record ttd_recorder_invocation =
  ti_ttd_exe :: os_text
  ti_args :: "os_text list"
  ti_timeout_ms :: nat
  ti_stdout_path :: path
  ti_stderr_path :: path

record ttd_stop_invocation =
  ts_ttd_exe :: os_text
  ts_stop_target :: os_text
  ts_timeout_ms :: nat
  ts_stdout_path :: path
  ts_stderr_path :: path

record ttd_recording_artifacts =
  ta_metadata :: artifact_ref
  ta_events :: artifact_ref
  ta_traces :: "artifact_ref list"
  ta_trace_indexes :: "artifact_ref list"
  ta_recorder_stdout :: artifact_ref
  ta_recorder_stderr :: artifact_ref
  ta_recorder_stop_stdout :: "artifact_ref option"
  ta_recorder_stop_stderr :: "artifact_ref option"
  ta_recorder_logs :: "artifact_ref list"

record ttd_recording_result =
  tr_recording_id :: ttd_recording_id
  tr_status :: ttd_recording_status
  tr_completion_reason :: ttd_completion_reason
  tr_duration_ms :: nat
  tr_target_pid :: "u32 option"
  tr_recorder_exit_code :: "int option"
  tr_artifacts :: ttd_recording_artifacts
  tr_warnings :: "string list"
  tr_error :: "string option"

section \<open>The environment\<close>

text \<open>What the manager gets from outside: the file system's view of a path, the parts of \<open>Path\<close> that
  depend on the platform, the variable \<open>PATH\<close>, the text of a path of the store, the fresh id and the
  times.\<close>

record ttd_env =
  te_canonicalize :: "os_text \<Rightarrow> string + os_text"
  te_is_file :: "os_text \<Rightarrow> bool"
  te_is_absolute :: "utext \<Rightarrow> bool"
  te_components :: "os_text \<Rightarrow> path_component list"
  te_join :: "os_text \<Rightarrow> utext \<Rightarrow> os_text"
  te_path_var :: "os_text option"
  te_path_text :: "path \<Rightarrow> os_text"
  te_recording_id :: ttd_recording_id
  te_show_id :: "ttd_recording_id \<Rightarrow> string"
  te_now :: nat
  te_end_time :: nat
  te_duration_ms :: nat

section \<open>Validation\<close>

fun validate_each :: "('a \<Rightarrow> unit result) \<Rightarrow> 'a list \<Rightarrow> unit result" where
  "validate_each check [] = Inr ()"
| "validate_each check (x # xs) = (case check x of Inl e \<Rightarrow> Inl e | Inr _ \<Rightarrow> validate_each check xs)"

definition validate_ttd_module :: "utext \<Rightarrow> unit result" where
  "validate_ttd_module module_name =
     (case validate_plain_text module_name ''TTD module'' of
        Inl e \<Rightarrow> Inl e
      | Inr _ \<Rightarrow>
          (if trim module_name = [] then Inl (Backend ''TTD module must not be empty'') else Inr ()))"

fun is_monitor :: "ttd_target \<Rightarrow> bool" where
  "is_monitor (TtdMonitor _ _) = True"
| "is_monitor _ = False"

definition validate_ttd_options :: "ttd_recording_options \<Rightarrow> ttd_target \<Rightarrow> unit result" where
  "validate_ttd_options opts target =
     (if to_max_file_mb opts = 0 then Inl (Backend ''TTD max_file_mb must be greater than zero'')
      else if to_ring opts \<and> 32768 < to_max_file_mb opts
      then Inl (Backend ''TTD ring max_file_mb must be at most 32768'')
      else if \<not> to_ring opts \<and> 1048576 < to_max_file_mb opts
      then Inl (Backend ''TTD max_file_mb must be at most 1048576'')
      else case validate_each validate_ttd_module (to_modules opts) of
        Inl e \<Rightarrow> Inl e
      | Inr _ \<Rightarrow>
          (if \<not> is_monitor target \<and> 64 < length (to_modules opts)
           then Inl (Backend ''TTD modules list is too large'') else Inr ()))"

definition validate_ttd_launch :: "ttd_env \<Rightarrow> os_text \<Rightarrow> utext list \<Rightarrow> ttd_target result" where
  "validate_ttd_launch env executable args =
     (case te_canonicalize env executable of
        Inl e \<Rightarrow> Inl (Backend (''invalid TTD launch executable: '' @ e))
      | Inr executable \<Rightarrow>
          (if \<not> te_is_file env executable
           then Inl (Backend (''TTD launch executable is not a file: '' @ display executable))
           else if \<exists>arg \<in> set args. 0 \<in> set arg
           then Inl (Backend ''TTD launch arguments must not contain NUL bytes'')
           else Inr (TtdLaunch executable args)))"

definition validate_ttd_attach :: "u32 \<Rightarrow> ttd_target result" where
  "validate_ttd_attach pid =
     (if pid = 0 then Inl (Backend ''TTD attach pid must be greater than zero'') else Inr (TtdAttach pid))"

text \<open>The program of a monitor target: a bare name stays, an absolute path is made canonical.\<close>

definition validate_monitor_program :: "ttd_env \<Rightarrow> os_text \<Rightarrow> os_text result" where
  "validate_monitor_program env program =
     (let program_text = to_string_lossy program;
          absolute = te_is_absolute env program \<or> is_absolute_path_text (\<lambda>_. False) program_text
      in case validate_plain_text program_text ''TTD monitor program'' of
           Inl e \<Rightarrow> Inl e
         | Inr _ \<Rightarrow>
             (if trim program_text = [] then Inl (Backend ''TTD monitor program must not be empty'')
              else if has_parent_component (te_components env program) \<or> split_path_text_has_parent program_text
              then Inl (Backend ''TTD monitor program must not contain path traversal'')
              else if path_text_has_separator program_text \<and> \<not> absolute
              then Inl (Backend ''TTD monitor program must be a file name or an absolute path'')
              else if \<not> absolute then Inr program
              else case te_canonicalize env program of
                Inl e \<Rightarrow> Inl (Backend (''invalid TTD monitor program path: '' @ e))
              | Inr canonical \<Rightarrow>
                  (if te_is_file env canonical then Inr canonical
                   else Inl (Backend (''TTD monitor program path is not a file: '' @ display canonical)))))"

definition validate_monitor_filter :: "utext option \<Rightarrow> unit result" where
  "validate_monitor_filter cmd_line_filter =
     (case cmd_line_filter of
        None \<Rightarrow> Inr ()
      | Some text \<Rightarrow>
          (case validate_plain_text text ''TTD monitor cmd_line_filter'' of
             Inl e \<Rightarrow> Inl e
           | Inr _ \<Rightarrow>
               (if trim text = [] then Inl (Backend ''TTD monitor cmd_line_filter must not be empty'') else Inr ())))"

definition validate_ttd_monitor :: "ttd_env \<Rightarrow> os_text \<Rightarrow> utext option \<Rightarrow> ttd_target result" where
  "validate_ttd_monitor env program cmd_line_filter =
     (case validate_monitor_program env program of
        Inl e \<Rightarrow> Inl e
      | Inr program \<Rightarrow>
          (case validate_monitor_filter cmd_line_filter of
             Inl e \<Rightarrow> Inl e
           | Inr _ \<Rightarrow> Inr (TtdMonitor program cmd_line_filter)))"

fun validate_ttd_target :: "ttd_env \<Rightarrow> ttd_target \<Rightarrow> ttd_target result" where
  "validate_ttd_target env (TtdLaunch executable args) = validate_ttd_launch env executable args"
| "validate_ttd_target env (TtdAttach pid) = validate_ttd_attach pid"
| "validate_ttd_target env (TtdMonitor program cmd_line_filter) = validate_ttd_monitor env program cmd_line_filter"

section \<open>The command line of the recorder\<close>

definition flag :: "bool \<Rightarrow> string \<Rightarrow> os_text list" where
  "flag b name = (if b then [chars name] else [])"

definition ttd_option_args :: "ttd_recording_options \<Rightarrow> os_text list" where
  "ttd_option_args opts =
     flag (to_no_ui opts) ''-noUI'' @ flag (to_accept_eula opts) ''-accepteula''
     @ flag (to_children opts) ''-children'' @ flag (to_ring opts) ''-ring''
     @ [chars ''-maxFile'', show_text (unat (to_max_file_mb opts))]
     @ concat (map (\<lambda>module_name. [chars ''-module'', module_name]) (to_modules opts))
     @ (if to_record_mode opts \<noteq> RecordAutomatic
        then [chars ''-recordmode'', chars (record_mode_arg (to_record_mode opts))] else [])
     @ (if to_replay_cpu_support opts \<noteq> CpuDefault
        then [chars ''-replayCpuSupport'', chars (replay_cpu_arg (to_replay_cpu_support opts))] else [])"

fun ttd_target_args :: "ttd_target \<Rightarrow> os_text list" where
  "ttd_target_args (TtdLaunch executable target_args) = chars ''-launch'' # executable # target_args"
| "ttd_target_args (TtdAttach pid) = [chars ''-attach'', show_text (unat pid)]"
| "ttd_target_args (TtdMonitor program cmd_line_filter) =
     (case cmd_line_filter of None \<Rightarrow> [] | Some text \<Rightarrow> [chars ''-cmdLineFilter'', text])
     @ [chars ''-monitor'', program]"

definition build_ttd_args :: "ttd_target \<Rightarrow> ttd_recording_options \<Rightarrow> os_text \<Rightarrow> os_text list" where
  "build_ttd_args target opts traces_dir =
     [chars ''-out'', traces_dir] @ ttd_option_args opts @ ttd_target_args target"

fun ttd_stop_target :: "ttd_target \<Rightarrow> u32 option \<Rightarrow> os_text option" where
  "ttd_stop_target (TtdMonitor _ _) recorded_pid = Some (chars ''all'')"
| "ttd_stop_target (TtdAttach pid) recorded_pid =
     Some (show_text (unat (case recorded_pid of Some p \<Rightarrow> p | None \<Rightarrow> pid)))"
| "ttd_stop_target (TtdLaunch executable _) recorded_pid =
     (case recorded_pid of Some p \<Rightarrow> Some (show_text (unat p)) | None \<Rightarrow> file_name_of executable)"

section \<open>The recorder\<close>

text \<open>\<open>TtdRecorderRuntime::ttd_exe\<close>; the first argument is the configured directory.\<close>

definition find_ttd_exe_in_path :: "ttd_env \<Rightarrow> os_text result" where
  "find_ttd_exe_in_path env =
     (case te_path_var env of
        None \<Rightarrow> Inl (Backend ''TTD.exe was not found in PATH; configure tools.ttd_dir or debugger.dbgeng_dir'')
      | Some paths \<Rightarrow>
          (case List.find (te_is_file env) (map (\<lambda>dir. te_join env dir (chars ''TTD.exe'')) (split_paths paths)) of
             Some candidate \<Rightarrow> Inr candidate
           | None \<Rightarrow>
               Inl (Backend ''TTD.exe was not found in PATH; configure tools.ttd_dir or debugger.dbgeng_dir'')))"

definition ttd_exe :: "ttd_env \<Rightarrow> os_text option \<Rightarrow> os_text result" where
  "ttd_exe env ttd_dir =
     (case ttd_dir of
        None \<Rightarrow> find_ttd_exe_in_path env
      | Some dir \<Rightarrow>
          (let exe = te_join env dir (chars ''TTD.exe'')
           in if te_is_file env exe then Inr exe
              else Inl (Backend (''TTD recorder requires TTD.exe under '' @ display dir))))"

text \<open>The process id in one line of the recorder's output, and the first such line.\<close>

definition is_ascii_digit :: "nat \<Rightarrow> bool" where
  "is_ascii_digit c = (48 \<le> c \<and> c \<le> 57)"

definition pid_after_label :: "utext \<Rightarrow> u32 option" where
  "pid_after_label line =
     (case after_first (chars ''PID:'') line of
        None \<Rightarrow> None
      | Some t \<Rightarrow> parse_u32 (takeWhile is_ascii_digit (dropWhile is_whitespace t)))"

definition pid_in_parentheses :: "utext \<Rightarrow> u32 option" where
  "pid_in_parentheses line =
     (case after_first (chars ''Recording process '') line of
        None \<Rightarrow> None
      | Some _ \<Rightarrow>
          (case rsplit_once 40 line of
             None \<Rightarrow> None
           | Some (_, t) \<Rightarrow> (case split_once 41 t of None \<Rightarrow> None | Some (pid, _) \<Rightarrow> parse_u32 pid)))"

fun first_recorded_pid :: "utext list \<Rightarrow> u32 option" where
  "first_recorded_pid [] = None"
| "first_recorded_pid (line # ls) =
     (case pid_after_label line of
        Some pid \<Rightarrow> Some pid
      | None \<Rightarrow>
          (case pid_in_parentheses line of Some pid \<Rightarrow> Some pid | None \<Rightarrow> first_recorded_pid ls))"

definition parse_first_recorded_pid :: "utext \<Rightarrow> u32 option" where
  "parse_first_recorded_pid t = first_recorded_pid (text_lines t)"

text \<open>The argument of the texts is what \<open>fs::read\<close> gives.\<close>

definition read_text_lossy :: "nat list option \<Rightarrow> utext" where
  "read_text_lossy bytes = (case bytes of None \<Rightarrow> [] | Some bs \<Rightarrow> utf8_lossy bs)"

definition last_non_empty_line :: "utext \<Rightarrow> utext" where
  "last_non_empty_line t =
     (case List.find (\<lambda>line. trim line \<noteq> []) (rev (text_lines t)) of None \<Rightarrow> [] | Some line \<Rightarrow> trim line)"

definition show_exit_code :: "int option \<Rightarrow> string" where
  "show_exit_code code = (case code of None \<Rightarrow> ''None'' | Some c \<Rightarrow> ''Some('' @ show_int c @ '')'')"

definition recorder_error_summary :: "utext \<Rightarrow> utext \<Rightarrow> int option \<Rightarrow> string" where
  "recorder_error_summary out err code =
     (let head = ''TTD recorder exited with code '' @ show_exit_code code in
      if trim err \<noteq> [] then head @ '': '' @ string_of (last_non_empty_line err)
      else if trim out \<noteq> [] then head @ '': '' @ string_of (last_non_empty_line out)
      else head)"

section \<open>The directory of traces\<close>

text \<open>An entry of a directory: its path, the text of the path, and whether it is a file.\<close>

record dir_entry =
  de_path :: path
  de_text :: os_text
  de_is_file :: bool

record discovered_ttd_artifacts =
  dt_traces :: "artifact_ref list"
  dt_trace_indexes :: "artifact_ref list"
  dt_recorder_logs :: "artifact_ref list"

text \<open>\<open>path.extension().and_then(OsStr::to_str)\<close>, in lower case.\<close>

definition lower_extension :: "os_text \<Rightarrow> utext" where
  "lower_extension p =
     (case extension_of p of
        None \<Rightarrow> []
      | Some ext \<Rightarrow> (if list_ex is_surrogate ext then [] else to_ascii_lowercase ext))"

fun read_entries :: "(string + dir_entry) list \<Rightarrow> dir_entry list result" where
  "read_entries [] = Inr []"
| "read_entries (Inl e # es) = Inl (Artifact e)"
| "read_entries (Inr d # es) = (case read_entries es of Inl e \<Rightarrow> Inl e | Inr ds \<Rightarrow> Inr (d # ds))"

text \<open>The files with one of the extensions, in the order of their paths (all in one directory).\<close>

definition entries_with :: "string list \<Rightarrow> artifact_kind \<Rightarrow> dir_entry list \<Rightarrow> artifact_ref list" where
  "entries_with exts kind ds =
     map (\<lambda>d. \<lparr>ar_kind = kind, ar_path = de_path d\<rparr>)
       (sort_key de_text (filter (\<lambda>d. de_is_file d \<and> lower_extension (de_text d) \<in> chars ` set exts) ds))"

text \<open>\<open>None\<close> says that the directory does not exist, the left side that it cannot be read.\<close>

definition discover_ttd_artifacts ::
    "(string + (string + dir_entry) list) option \<Rightarrow> discovered_ttd_artifacts result" where
  "discover_ttd_artifacts listing =
     (case listing of
        None \<Rightarrow> Inr \<lparr>dt_traces = [], dt_trace_indexes = [], dt_recorder_logs = []\<rparr>
      | Some (Inl e) \<Rightarrow> Inl (Artifact e)
      | Some (Inr es) \<Rightarrow>
          (case read_entries es of
             Inl e \<Rightarrow> Inl e
           | Inr ds \<Rightarrow>
               Inr \<lparr>dt_traces = entries_with [''run''] TtdTrace ds,
                    dt_trace_indexes = entries_with [''idx''] TtdTraceIndex ds,
                    dt_recorder_logs = entries_with [''out'', ''err''] TtdRecorderOutput ds\<rparr>))"

end
