(* ===== verification/Ttd_Manager.thy ===== *)
theory Ttd_Manager
  imports Ttd
begin

text \<open>
  Running the recorder (\<open>ProcessTtdRecorderRunner\<close>, \<open>run_ttd_process\<close>) and the manager of recordings
  (\<open>TtdRecordingManager\<close>) of \<open>dbgflow-trace/src/ttd/mod.rs\<close>: one recording at a time, its events, its
  metadata and its result.
\<close>

section \<open>The recorder process\<close>

text \<open>
  \<open>polls n\<close> is what \<open>GetExitCodeProcess\<close> gives at the \<open>n\<close>-th look, \<open>elapsed n\<close> the milliseconds since the
  start then, \<open>killed\<close> what waiting for the process gives after it was killed; \<open>fuel\<close> counts the rounds
  of the loop, \<open>None\<close> says there were too few.
\<close>

fun wait_for_recorder ::
    "nat \<Rightarrow> (nat \<Rightarrow> string + u32) \<Rightarrow> (nat \<Rightarrow> nat) \<Rightarrow> int option result \<Rightarrow> nat \<Rightarrow> nat
       \<Rightarrow> ttd_recorder_exit result option" where
  "wait_for_recorder 0 polls elapsed killed n timeout = None"
| "wait_for_recorder (Suc fuel) polls elapsed killed n timeout =
     (case windows_try_wait (polls n) of
        Inl e \<Rightarrow> Some (Inl e)
      | Inr (Some code) \<Rightarrow> Some (Inr \<lparr>tx_exit_code = code, tx_timed_out = False\<rparr>)
      | Inr None \<Rightarrow>
          if timeout \<le> elapsed n
          then Some (Inr \<lparr>tx_exit_code = (case killed of Inl _ \<Rightarrow> None | Inr code \<Rightarrow> code), tx_timed_out = True\<rparr>)
          else wait_for_recorder fuel polls elapsed killed (Suc n) timeout)"

definition run_ttd_process ::
    "'t launch_os \<Rightarrow> (path \<Rightarrow> string) \<Rightarrow> nat \<Rightarrow> (nat \<Rightarrow> string + u32) \<Rightarrow> (nat \<Rightarrow> nat) \<Rightarrow> int option result
       \<Rightarrow> os_text \<Rightarrow> os_text list \<Rightarrow> nat \<Rightarrow> path \<Rightarrow> path \<Rightarrow> process_launch_context
       \<Rightarrow> (log_event list \<times> ttd_recorder_exit result) option" where
  "run_ttd_process os show_path fuel polls elapsed killed exe args timeout stdout_path stderr_path context =
     (let spec = (process_launch_spec_new exe)
            \<lparr>pls_args := args, pls_stdout := StdioFile (show_path stdout_path), pls_stderr := StdioFile (show_path stderr_path)\<rparr>
      in case windows_spawn_process os spec context of
           Inl e \<Rightarrow> Some ([], Inl (Backend (''start TTD recorder failed: '' @ launch_error_text e)))
         | Inr child \<Rightarrow>
             map_option (\<lambda>r. ([\<lparr>lg_level = Info, lg_event = ''recorder_process_launch_resolved'', lg_session = None,
                                lg_error = None\<rparr>], r))
               (wait_for_recorder fuel polls elapsed killed 0 timeout))"

definition ttd_stop_args :: "os_text \<Rightarrow> os_text list" where
  "ttd_stop_args stop_target = [chars ''-stop'', stop_target, chars ''-wait'', chars ''10'']"

text \<open>The runner as the manager sees it, over a machine \<open>'x\<close> it acts on, with the files that it leaves: the
  bytes of one, and the listing of a directory.\<close>

record 'x ttd_runner =
  rr_run :: "ttd_recorder_invocation \<Rightarrow> process_launch_context \<Rightarrow> 'x \<Rightarrow> log_event list \<times> ttd_recorder_exit result \<times> 'x"
  rr_stop :: "ttd_stop_invocation \<Rightarrow> process_launch_context \<Rightarrow> 'x \<Rightarrow> log_event list \<times> ttd_recorder_exit result \<times> 'x"
  rr_read :: "'x \<Rightarrow> path \<Rightarrow> nat list option"
  rr_listing :: "'x \<Rightarrow> path \<Rightarrow> (string + (string + dir_entry) list) option"

section \<open>Events and metadata\<close>

datatype ttd_field =
    TtdText string
  | TtdNumber nat
  | TtdBool bool
  | TtdCode "int option"
  | TtdTexts "string list"
  | TtdTargetField ttd_target
  | TtdOptionsField ttd_recording_options
  | TtdStatusField ttd_recording_status
  | TtdReasonField ttd_completion_reason
  | TtdKindField artifact_kind

record ttd_artifact_event =
  tv_timestamp :: nat
  tv_event :: string
  tv_recording_id :: ttd_recording_id
  tv_artifact_path :: "path option"
  tv_error :: "string option"
  tv_fields :: "(string \<times> ttd_field) list"

record ttd_metadata =
  tm_recording_id :: ttd_recording_id
  tm_target :: ttd_target
  tm_timeout_ms :: nat
  tm_options :: ttd_recording_options
  tm_target_pid :: "u32 option"
  tm_start_time :: nat
  tm_end_time :: nat
  tm_duration_ms :: nat
  tm_status :: ttd_recording_status
  tm_completion_reason :: ttd_completion_reason
  tm_recorder_exit_code :: "int option"
  tm_traces :: "path list"
  tm_trace_indexes :: "path list"
  tm_recorder_logs :: "path list"
  tm_warnings :: "string list"
  tm_error :: "string option"

datatype ttd_line = TtdEvent ttd_artifact_event | TtdMetadataText ttd_metadata

definition recording_request_fields :: "record_ttd_request \<Rightarrow> (string \<times> ttd_field) list" where
  "recording_request_fields r =
     [(''target'', TtdTargetField (rt_target r)), (''timeout_ms'', TtdNumber (rt_timeout_ms r)),
      (''options'', TtdOptionsField (rt_options r))]"

definition recorder_command_fields :: "os_text \<Rightarrow> os_text list \<Rightarrow> (string \<times> ttd_field) list" where
  "recorder_command_fields exe args =
     [(''ttd_exe'', TtdText (display exe)), (''args'', TtdTexts (map display args))]"

definition recorder_exit_fields :: "ttd_recorder_exit \<Rightarrow> (string \<times> ttd_field) list" where
  "recorder_exit_fields ex =
     [(''timed_out'', TtdBool (tx_timed_out ex)), (''exit_code'', TtdCode (tx_exit_code ex))]"

definition artifact_fields :: "artifact_ref \<Rightarrow> (string \<times> ttd_field) list" where
  "artifact_fields a = [(''kind'', TtdKindField (ar_kind a))]"

definition recording_completed_fields :: "ttd_recording_result \<Rightarrow> (string \<times> ttd_field) list" where
  "recording_completed_fields result =
     [(''status'', TtdStatusField (tr_status result)), (''completion_reason'', TtdReasonField (tr_completion_reason result)),
      (''duration_ms'', TtdNumber (tr_duration_ms result mod 2 ^ 64)),
      (''trace_count'', TtdNumber (length (ta_traces (tr_artifacts result))))]"

section \<open>The manager\<close>

record 'x ttd_manager =
  tg_artifacts :: "ttd_line artifact_manager"
  tg_ttd_dir :: "os_text option"
  tg_job :: "ttd_recording_id single_active_job"
  tg_logs :: "log_event list"
  tg_os :: 'x
  tg_process_launch :: process_launch_config

definition ttd_log :: "log_level \<Rightarrow> string \<Rightarrow> string option \<Rightarrow> 'x ttd_manager \<Rightarrow> 'x ttd_manager" where
  "ttd_log level event error m =
     m\<lparr>tg_logs := tg_logs m @ [\<lparr>lg_level = level, lg_event = event, lg_session = None, lg_error = error\<rparr>]\<rparr>"

abbreviation ttd_message :: "dbgflow_error \<Rightarrow> string" where
  "ttd_message e \<equiv> error_text (\<lambda>_. '''') e"

definition ttd_event ::
    "ttd_env \<Rightarrow> string \<Rightarrow> path option \<Rightarrow> string option \<Rightarrow> (string \<times> ttd_field) list \<Rightarrow> 'x ttd_manager \<Rightarrow> 'x ttd_manager" where
  "ttd_event env event artifact_path error extra m =
     (case append_ttd_recording_event (te_recording_id env)
             (TtdEvent \<lparr>tv_timestamp = te_now env, tv_event = event, tv_recording_id = te_recording_id env,
                tv_artifact_path = artifact_path, tv_error = error, tv_fields = extra\<rparr>) (tg_artifacts m) of
        (Inr _, a) \<Rightarrow> m\<lparr>tg_artifacts := a\<rparr>
      | (Inl e, a) \<Rightarrow> ttd_log Warn ''ttd_artifact_event_failed'' (Some (ttd_message e)) (m\<lparr>tg_artifacts := a\<rparr>))"

definition write_ttd_metadata ::
    "ttd_env \<Rightarrow> record_ttd_request \<Rightarrow> ttd_recording_status \<Rightarrow> ttd_completion_reason \<Rightarrow> u32 option \<Rightarrow> int option
       \<Rightarrow> discovered_ttd_artifacts \<Rightarrow> string list \<Rightarrow> string option \<Rightarrow> 'x ttd_manager \<Rightarrow> artifact_ref result \<times> 'x ttd_manager" where
  "write_ttd_metadata env r status reason pid exit_code discovered ws error m =
     (case write_ttd_recording_metadata (te_recording_id env)
             (TtdMetadataText
               \<lparr>tm_recording_id = te_recording_id env, tm_target = rt_target r, tm_timeout_ms = rt_timeout_ms r,
                tm_options = rt_options r, tm_target_pid = pid, tm_start_time = te_now env, tm_end_time = te_end_time env,
                tm_duration_ms = te_duration_ms env, tm_status = status, tm_completion_reason = reason,
                tm_recorder_exit_code = exit_code, tm_traces = map ar_path (dt_traces discovered),
                tm_trace_indexes = map ar_path (dt_trace_indexes discovered),
                tm_recorder_logs = map ar_path (dt_recorder_logs discovered), tm_warnings = ws, tm_error = error\<rparr>)
             (tg_artifacts m) of
        (res, a) \<Rightarrow> (res, m\<lparr>tg_artifacts := a\<rparr>))"

definition recorder_output :: "path \<Rightarrow> artifact_ref" where
  "recorder_output p = \<lparr>ar_kind = TtdRecorderOutput, ar_path = p\<rparr>"

text \<open>The artifacts of a result; the flag says whether the recorder was told to stop.\<close>

definition result_artifacts ::
    "ttd_env \<Rightarrow> 'l artifact_manager \<Rightarrow> artifact_ref \<Rightarrow> discovered_ttd_artifacts \<Rightarrow> bool \<Rightarrow> ttd_recording_artifacts" where
  "result_artifacts env a metadata discovered stopped =
     (let i = te_recording_id env in
      \<lparr>ta_metadata = metadata,
       ta_events = \<lparr>ar_kind = TtdRecordingEvents, ar_path = ttd_recording_events_path a i\<rparr>,
       ta_traces = dt_traces discovered, ta_trace_indexes = dt_trace_indexes discovered,
       ta_recorder_stdout = recorder_output (ttd_recorder_stdout_path a i),
       ta_recorder_stderr = recorder_output (ttd_recorder_stderr_path a i),
       ta_recorder_stop_stdout = (if stopped then Some (recorder_output (ttd_recorder_stop_stdout_path a i)) else None),
       ta_recorder_stop_stderr = (if stopped then Some (recorder_output (ttd_recorder_stop_stderr_path a i)) else None),
       ta_recorder_logs = dt_recorder_logs discovered\<rparr>)"

text \<open>The recorder could not be run: a failed recording, with what is in the directory of traces.\<close>

definition recorder_failed ::
    "ttd_env \<Rightarrow> 'x ttd_runner \<Rightarrow> record_ttd_request \<Rightarrow> dbgflow_error \<Rightarrow> 'x ttd_manager
       \<Rightarrow> ttd_recording_result result \<times> 'x ttd_manager" where
  "recorder_failed env runner r run_error m =
     (let i = te_recording_id env; error = Some (ttd_message run_error);
          m = ttd_event env ''recording_failed'' None error [] m
      in case discover_ttd_artifacts (rr_listing runner (tg_os m) (ttd_recording_traces_dir (tg_artifacts m) i)) of
           Inl e \<Rightarrow> (Inl e, m)
         | Inr discovered \<Rightarrow>
             (case write_ttd_metadata env r TtdFailed RecorderError None None discovered [] error m of
                (Inl e, m) \<Rightarrow> (Inl e, m)
              | (Inr metadata, m) \<Rightarrow>
                  (Inr \<lparr>tr_recording_id = i, tr_status = TtdFailed, tr_completion_reason = RecorderError,
                        tr_duration_ms = te_duration_ms env, tr_target_pid = None, tr_recorder_exit_code = None,
                        tr_artifacts = result_artifacts env (tg_artifacts m) metadata discovered False,
                        tr_warnings = [], tr_error = error\<rparr>,
                   ttd_log LogError ''record_ttd_failed'' error m)))"

text \<open>After a timeout: the recorder is told to stop, or a warning says why not. The flag says whether it was
  told.\<close>

definition stop_recorder ::
    "ttd_env \<Rightarrow> 'x ttd_runner \<Rightarrow> record_ttd_request \<Rightarrow> os_text \<Rightarrow> process_launch_context \<Rightarrow> u32 option \<Rightarrow> 'x ttd_manager
       \<Rightarrow> string list \<times> bool \<times> 'x ttd_manager" where
  "stop_recorder env runner r exe context target_pid m =
     (let i = te_recording_id env; m = ttd_event env ''timeout_reached'' None None [] m
      in case ttd_stop_target (rt_target r) target_pid of
           None \<Rightarrow>
             ([''TTD recorder timed out, but dbgflow could not determine a safe stop target''], False,
              ttd_event env ''recorder_stop_skipped'' None (Some ''could not determine a safe stop target'') [] m)
         | Some stop_target \<Rightarrow>
             (case rr_stop runner
                     \<lparr>ts_ttd_exe = exe, ts_stop_target = stop_target, ts_timeout_ms = 15000,
                      ts_stdout_path = ttd_recorder_stop_stdout_path (tg_artifacts m) i,
                      ts_stderr_path = ttd_recorder_stop_stderr_path (tg_artifacts m) i\<rparr> context (tg_os m) of
                (logs, stop, x) \<Rightarrow>
                  (let m = m\<lparr>tg_os := x, tg_logs := tg_logs m @ logs\<rparr>;
                       named = [(''stop_target'', TtdText (display stop_target))]
                   in case stop of
                        Inr ex \<Rightarrow>
                          ([], True, ttd_event env ''recorder_stop_finished'' None None (recorder_exit_fields ex @ named) m)
                      | Inl e \<Rightarrow>
                          ([''TTD stop failed after recorder timeout: '' @ ttd_message e], True,
                           ttd_event env ''recorder_stop_failed'' None (Some (ttd_message e)) named m))))"

definition recording_outcome ::
    "bool \<Rightarrow> int option \<Rightarrow> discovered_ttd_artifacts \<Rightarrow> utext \<Rightarrow> utext
       \<Rightarrow> ttd_recording_status \<times> ttd_completion_reason \<times> string option" where
  "recording_outcome timed_out exit_code discovered out err =
     (if timed_out then (TtdTimedOut, TtdTimeout, None)
      else if case exit_code of Some code \<Rightarrow> code \<noteq> 0 | None \<Rightarrow> False
      then (TtdFailed, RecorderError, Some (recorder_error_summary out err exit_code))
      else if dt_traces discovered = []
      then (TtdFailed, RecorderError, Some ''TTD recorder completed but no .run trace was created'')
      else (TtdCompleted, TtdTargetExited, None))"

definition detect_traces :: "ttd_env \<Rightarrow> discovered_ttd_artifacts \<Rightarrow> 'x ttd_manager \<Rightarrow> 'x ttd_manager" where
  "detect_traces env discovered m =
     fold (\<lambda>a. ttd_event env ''trace_detected'' (Some (ar_path a)) None (artifact_fields a))
       (dt_traces discovered @ dt_trace_indexes discovered @ dt_recorder_logs discovered) m"

text \<open>The recorder has ended or has been killed: what it left becomes the result.\<close>

definition finish_recording ::
    "ttd_env \<Rightarrow> 'x ttd_runner \<Rightarrow> record_ttd_request \<Rightarrow> ttd_recorder_exit \<Rightarrow> u32 option \<Rightarrow> string list \<Rightarrow> bool
       \<Rightarrow> 'x ttd_manager \<Rightarrow> ttd_recording_result result \<times> 'x ttd_manager" where
  "finish_recording env runner r ex target_pid ws stopped m =
     (let i = te_recording_id env in
      case discover_ttd_artifacts (rr_listing runner (tg_os m) (ttd_recording_traces_dir (tg_artifacts m) i)) of
        Inl e \<Rightarrow> (Inl e, m)
      | Inr discovered \<Rightarrow>
          (let m = detect_traces env discovered m;
               (status, reason, error) = recording_outcome (tx_timed_out ex) (tx_exit_code ex) discovered
                 (read_text_lossy (rr_read runner (tg_os m) (ttd_recorder_stdout_path (tg_artifacts m) i)))
                 (read_text_lossy (rr_read runner (tg_os m) (ttd_recorder_stderr_path (tg_artifacts m) i)))
           in case write_ttd_metadata env r status reason target_pid (tx_exit_code ex) discovered ws error m of
                (Inl e, m) \<Rightarrow> (Inl e, m)
              | (Inr metadata, m) \<Rightarrow>
                  (let result =
                         \<lparr>tr_recording_id = i, tr_status = status, tr_completion_reason = reason,
                          tr_duration_ms = te_duration_ms env, tr_target_pid = target_pid,
                          tr_recorder_exit_code = tx_exit_code ex,
                          tr_artifacts = result_artifacts env (tg_artifacts m) metadata discovered stopped,
                          tr_warnings = ws, tr_error = error\<rparr>
                   in (Inr result,
                       ttd_log (if status = TtdFailed then LogError else Info) ''record_ttd_finished'' error
                         (ttd_event env ''recording_completed'' None error (recording_completed_fields result) m)))))"

definition recorded_pid :: "'x ttd_runner \<Rightarrow> ttd_env \<Rightarrow> 'x ttd_manager \<Rightarrow> u32 option" where
  "recorded_pid runner env m =
     parse_first_recorded_pid
       (read_text_lossy (rr_read runner (tg_os m) (ttd_recorder_stdout_path (tg_artifacts m) (te_recording_id env)))
        @ [10] @ read_text_lossy (rr_read runner (tg_os m) (ttd_recorder_stderr_path (tg_artifacts m) (te_recording_id env))))"

definition run_recorder ::
    "ttd_env \<Rightarrow> 'x ttd_runner \<Rightarrow> record_ttd_request \<Rightarrow> os_text \<Rightarrow> tool_call_context \<Rightarrow> 'x ttd_manager
       \<Rightarrow> ttd_recording_result result \<times> 'x ttd_manager" where
  "run_recorder env runner r exe tool_context m =
     (let i = te_recording_id env;
          args = build_ttd_args (rt_target r) (rt_options r) (te_path_text env (ttd_recording_traces_dir (tg_artifacts m) i));
          context = \<lparr>ctx_config = tg_process_launch m, ctx_tool_call = tool_context\<rparr>;
          m = ttd_event env ''recorder_starting'' None None (recorder_command_fields exe args) m
      in case rr_run runner
                \<lparr>ti_ttd_exe = exe, ti_args = args, ti_timeout_ms = rt_timeout_ms r,
                 ti_stdout_path = ttd_recorder_stdout_path (tg_artifacts m) i,
                 ti_stderr_path = ttd_recorder_stderr_path (tg_artifacts m) i\<rparr> context (tg_os m) of
           (logs, recorder_exit, x) \<Rightarrow>
             (let m = m\<lparr>tg_os := x, tg_logs := tg_logs m @ logs\<rparr>
              in case recorder_exit of
                   Inl e \<Rightarrow> recorder_failed env runner r e m
                 | Inr ex \<Rightarrow>
                     (let m = ttd_event env ''recorder_finished'' None None (recorder_exit_fields ex) m;
                          target_pid = recorded_pid runner env m;
                          (ws, stopped, m) =
                            (if tx_timed_out ex then stop_recorder env runner r exe context target_pid m
                             else ([], False, m))
                      in finish_recording env runner r ex target_pid ws stopped m)))"

text \<open>While the slot of the one job is held.\<close>

definition record_admitted ::
    "ttd_env \<Rightarrow> 'x ttd_runner \<Rightarrow> record_ttd_request \<Rightarrow> os_text \<Rightarrow> tool_call_context \<Rightarrow> 'x ttd_manager
       \<Rightarrow> ttd_recording_result result \<times> 'x ttd_manager" where
  "record_admitted env runner r exe tool_context m =
     (case initialize_ttd_recording_artifacts (te_recording_id env) (tg_artifacts m) of
        (Inl e, a) \<Rightarrow> (Inl e, m\<lparr>tg_artifacts := a\<rparr>)
      | (Inr dir, a) \<Rightarrow>
          run_recorder env runner r exe tool_context
            (ttd_log Info ''record_ttd_started'' None
              (ttd_event env ''ttd_recording_started'' (Some dir) None (recording_request_fields r) (m\<lparr>tg_artifacts := a\<rparr>))))"

definition check_recording :: "ttd_env \<Rightarrow> os_text option \<Rightarrow> record_ttd_request \<Rightarrow> (record_ttd_request \<times> os_text) result" where
  "check_recording env ttd_dir request =
     (case validate_ttd_target env (rt_target request) of
        Inl e \<Rightarrow> Inl e
      | Inr target \<Rightarrow>
          (let r = request\<lparr>rt_target := target\<rparr> in
           if rt_timeout_ms r = 0 then Inl (Backend ''TTD recording timeout_ms must be greater than zero'')
           else case validate_ttd_options (rt_options r) (rt_target r) of
             Inl e \<Rightarrow> Inl e
           | Inr _ \<Rightarrow> (case ttd_exe env ttd_dir of Inl e \<Rightarrow> Inl e | Inr exe \<Rightarrow> Inr (r, exe))))"

definition record_ttd ::
    "ttd_env \<Rightarrow> 'x ttd_runner \<Rightarrow> record_ttd_request \<Rightarrow> tool_call_context \<Rightarrow> 'x ttd_manager
       \<Rightarrow> ttd_recording_result result \<times> 'x ttd_manager" where
  "record_ttd env runner request tool_context m =
     (let reject = (\<lambda>e. (Inl e, ttd_log LogError ''record_ttd_rejected'' (Some (ttd_message e)) m)) in
      case check_recording env (tg_ttd_dir m) request of
        Inl e \<Rightarrow> reject e
      | Inr (r, exe) \<Rightarrow>
          (case job_start (te_recording_id env)
                  (\<lambda>active. ''another TTD recording job is already active: '' @ te_show_id env active) (tg_job m) of
             (Inl e, j) \<Rightarrow> reject e
           | (Inr _, j) \<Rightarrow>
               (case record_admitted env runner r exe tool_context (m\<lparr>tg_job := j\<rparr>) of
                  (result, m) \<Rightarrow> (result, m\<lparr>tg_job := job_drop (te_recording_id env) (tg_job m)\<rparr>))))"

end
