(* ===== verification/Ttd_Properties.thy ===== *)
theory Ttd_Properties
  imports Ttd_Manager Profile_Safety
begin

text \<open>
  The manager of recordings: what every operation on the way leaves alone, what a request is known to
  satisfy when it reaches the recorder, and what the result says.
\<close>

section \<open>What the steps leave alone\<close>

lemma ttd_log_simps [simp]:
  "tg_artifacts (ttd_log l e x m) = tg_artifacts m" "tg_job (ttd_log l e x m) = tg_job m" "tg_os (ttd_log l e x m) = tg_os m"
  "tg_process_launch (ttd_log l e x m) = tg_process_launch m" "tg_ttd_dir (ttd_log l e x m) = tg_ttd_dir m"
  by (simp_all add: ttd_log_def)

lemma ttd_event_simps [simp]:
  "tg_job (ttd_event env e p x f m) = tg_job m" "tg_os (ttd_event env e p x f m) = tg_os m"
  "tg_process_launch (ttd_event env e p x f m) = tg_process_launch m" "tg_ttd_dir (ttd_event env e p x f m) = tg_ttd_dir m"
  by (auto simp: ttd_event_def split: prod.split sum.split)

lemma write_ttd_metadata_frame:
  "write_ttd_metadata env r st re pid code d ws err m = (res, m') \<Longrightarrow> tg_job m' = tg_job m \<and> tg_os m' = tg_os m"
  by (auto simp: write_ttd_metadata_def split: prod.splits)

lemma detect_traces_frame [simp]:
  "tg_job (detect_traces env d m) = tg_job m" "tg_os (detect_traces env d m) = tg_os m"
proof -
  have frame: "tg_job (fold (\<lambda>a. ttd_event env e (Some (ar_path a)) None (artifact_fields a)) as m) = tg_job m
      \<and> tg_os (fold (\<lambda>a. ttd_event env e (Some (ar_path a)) None (artifact_fields a)) as m) = tg_os m" for e as m
    by (induction as arbitrary: m) auto
  show "tg_job (detect_traces env d m) = tg_job m" "tg_os (detect_traces env d m) = tg_os m"
    by (simp_all add: detect_traces_def frame del: fold_append)
qed

lemma recorder_failed_frame:
  "recorder_failed env runner r e m = (res, m') \<Longrightarrow> tg_job m' = tg_job m \<and> tg_os m' = tg_os m"
  by (auto simp: recorder_failed_def Let_def dest!: write_ttd_metadata_frame split: sum.splits prod.splits)

lemma finish_recording_frame:
  "finish_recording env runner r ex pid ws b m = (res, m') \<Longrightarrow> tg_job m' = tg_job m \<and> tg_os m' = tg_os m"
  by (auto simp: finish_recording_def Let_def dest!: write_ttd_metadata_frame split: sum.splits prod.splits)

lemma stop_recorder_job:
  "stop_recorder env runner r exe cx pid m = (ws, b, m') \<Longrightarrow> tg_job m' = tg_job m"
  by (auto simp: stop_recorder_def Let_def split: sum.splits prod.splits option.splits)

lemma run_recorder_job:
  assumes "run_recorder env runner r exe tc m = (res, m')"
  shows "tg_job m' = tg_job m"
proof -
  define args where "args = build_ttd_args (rt_target r) (rt_options r)
      (te_path_text env (ttd_recording_traces_dir (tg_artifacts m) (te_recording_id env)))"
  show ?thesis
    using assms
    by (auto simp: run_recorder_def Let_def simp flip: args_def split: prod.splits sum.splits if_splits
        dest!: recorder_failed_frame finish_recording_frame stop_recorder_job)
qed

lemma record_admitted_job:
  "record_admitted env runner r exe tc m = (res, m') \<Longrightarrow> tg_job m' = tg_job m"
  by (auto simp: record_admitted_def split: prod.splits sum.splits dest!: run_recorder_job)

section \<open>Requests that reach the recorder\<close>

text \<open>A text the recorder is given: not blank, and without control characters.\<close>

definition plain_text :: "utext \<Rightarrow> bool" where
  "plain_text t \<longleftrightarrow> trim t \<noteq> [] \<and> \<not> (\<exists>ch \<in> set t. is_control ch \<or> ch = 8232 \<or> ch = 8233)"

definition options_ok :: "ttd_recording_options \<Rightarrow> ttd_target \<Rightarrow> bool" where
  "options_ok opts target \<longleftrightarrow>
     0 < to_max_file_mb opts \<and> to_max_file_mb opts \<le> (if to_ring opts then 32768 else 1048576)
     \<and> (\<forall>module_name \<in> set (to_modules opts). plain_text module_name)
     \<and> (is_monitor target \<or> length (to_modules opts) \<le> 64)"

fun target_ok :: "ttd_env \<Rightarrow> ttd_target \<Rightarrow> bool" where
  "target_ok env (TtdLaunch executable args) \<longleftrightarrow>
     (\<exists>p. te_canonicalize env p = Inr executable) \<and> te_is_file env executable \<and> (\<forall>arg \<in> set args. 0 \<notin> set arg)"
| "target_ok env (TtdAttach pid) \<longleftrightarrow> pid \<noteq> 0"
| "target_ok env (TtdMonitor program cmd_line_filter) \<longleftrightarrow>
     ((\<exists>p. te_canonicalize env p = Inr program) \<and> te_is_file env program
        \<or> plain_text (to_string_lossy program) \<and> \<not> path_text_has_separator (to_string_lossy program))
     \<and> (\<forall>t. cmd_line_filter = Some t \<longrightarrow> plain_text t)"

lemma validate_plain_text_Inr: "validate_plain_text t label = Inr u \<Longrightarrow> trim t \<noteq> [] \<Longrightarrow> plain_text t"
  by (auto simp: validate_plain_text_def plain_text_def split: if_splits)

lemma validate_each_Inr: "validate_each check xs = Inr u \<Longrightarrow> x \<in> set xs \<Longrightarrow> check x = Inr ()"
  by (induction xs) (auto split: sum.splits)

lemma validate_ttd_module_Inr: "validate_ttd_module t = Inr u \<Longrightarrow> plain_text t"
  by (auto simp: validate_ttd_module_def intro: validate_plain_text_Inr split: sum.splits if_splits)

lemma validate_ttd_options_sound: "validate_ttd_options opts target = Inr u \<Longrightarrow> options_ok opts target"
  by (auto simp: validate_ttd_options_def options_ok_def word_neq_0_conv not_less
      intro: validate_ttd_module_Inr validate_each_Inr split: if_splits sum.splits)

lemma validate_ttd_target_sound: "validate_ttd_target env target = Inr target' \<Longrightarrow> target_ok env target'"
  by (cases target)
    (auto simp: validate_ttd_launch_def validate_ttd_attach_def validate_ttd_monitor_def
      validate_monitor_program_def validate_monitor_filter_def Let_def
      intro: validate_plain_text_Inr split: if_splits sum.splits option.splits)

lemma ttd_exe_sound: "ttd_exe env dir = Inr exe \<Longrightarrow> te_is_file env exe"
  by (auto simp: ttd_exe_def find_ttd_exe_in_path_def find_Some_iff Let_def split: option.splits if_splits)

definition request_ok :: "ttd_env \<Rightarrow> record_ttd_request \<Rightarrow> bool" where
  "request_ok env r \<longleftrightarrow> target_ok env (rt_target r) \<and> options_ok (rt_options r) (rt_target r) \<and> 0 < rt_timeout_ms r"

lemma check_recording_sound:
  assumes "check_recording env dir request = Inr (r, exe)"
  shows "request_ok env r" "te_is_file env exe" "validate_ttd_target env (rt_target request) = Inr (rt_target r)"
    "rt_timeout_ms r = rt_timeout_ms request" "rt_options r = rt_options request"
  using assms
  by (auto simp: check_recording_def request_ok_def Let_def split: sum.splits if_splits
      dest: validate_ttd_target_sound validate_ttd_options_sound ttd_exe_sound)

section \<open>What the recorder is told\<close>

definition good_run :: "ttd_env \<Rightarrow> record_ttd_request \<Rightarrow> ttd_recorder_invocation \<Rightarrow> bool" where
  "good_run env request iv \<longleftrightarrow> te_is_file env (ti_ttd_exe iv) \<and> ti_timeout_ms iv = rt_timeout_ms request
     \<and> (\<exists>target dir. validate_ttd_target env (rt_target request) = Inr target
          \<and> request_ok env (request\<lparr>rt_target := target\<rparr>) \<and> ti_args iv = build_ttd_args target (rt_options request) dir)"

definition good_stop :: "ttd_env \<Rightarrow> record_ttd_request \<Rightarrow> ttd_stop_invocation \<Rightarrow> bool" where
  "good_stop env request iv \<longleftrightarrow> te_is_file env (ts_ttd_exe iv)
     \<and> (case rt_target request of
          TtdMonitor _ _ \<Rightarrow> ts_stop_target iv = chars ''all''
        | TtdAttach _ \<Rightarrow> (\<exists>pid :: u32. ts_stop_target iv = show_text (unat pid))
        | TtdLaunch p _ \<Rightarrow> (\<exists>pid :: u32. ts_stop_target iv = show_text (unat pid))
            \<or> (\<exists>executable. te_canonicalize env p = Inr executable \<and> file_name_of executable = Some (ts_stop_target iv)))"

lemma ttd_stop_target_good:
  assumes "validate_ttd_target env target = Inr target'" "ttd_stop_target target' pid = Some stop"
  shows "case target of
      TtdMonitor _ _ \<Rightarrow> stop = chars ''all''
    | TtdAttach _ \<Rightarrow> (\<exists>pid :: u32. stop = show_text (unat pid))
    | TtdLaunch p _ \<Rightarrow> (\<exists>pid :: u32. stop = show_text (unat pid))
        \<or> (\<exists>executable. te_canonicalize env p = Inr executable \<and> file_name_of executable = Some stop)"
  using assms
  by (cases target) (auto simp: validate_ttd_launch_def validate_ttd_attach_def validate_ttd_monitor_def
      split: sum.splits if_splits option.splits)

lemma stop_recorder_safe:
  assumes "stop_recorder env runner r exe cx pid m = (ws, b, m')" "P (tg_os m)"
    and "\<And>iv cx x. P x \<Longrightarrow> ts_ttd_exe iv = exe \<Longrightarrow> ttd_stop_target (rt_target r) pid = Some (ts_stop_target iv)
      \<Longrightarrow> P (snd (snd (rr_stop runner iv cx x)))"
  shows "P (tg_os m')"
proof (cases "ttd_stop_target (rt_target r) pid")
  case None
  then show ?thesis using assms(1,2) by (auto simp: stop_recorder_def Let_def)
next
  case (Some stop)
  define k where "k = ttd_event env ''timeout_reached'' None None [] m"
  define iv where "iv = \<lparr>ts_ttd_exe = exe, ts_stop_target = stop, ts_timeout_ms = 15000,
      ts_stdout_path = ttd_recorder_stop_stdout_path (tg_artifacts k) (te_recording_id env),
      ts_stderr_path = ttd_recorder_stop_stderr_path (tg_artifacts k) (te_recording_id env)\<rparr>"
  obtain logs st x where r: "rr_stop runner iv cx (tg_os k) = (logs, st, x)" by (metis prod_cases3)
  have "P (snd (snd (rr_stop runner iv cx (tg_os k))))"
    by (rule assms(3)) (simp_all add: iv_def k_def assms(2) Some)
  then have "P x" by (simp add: r)
  then show ?thesis
    using assms(1) Some r by (auto simp: stop_recorder_def Let_def simp flip: k_def iv_def split: sum.splits)
qed

lemma run_recorder_safe:
  assumes "run_recorder env runner r exe tc m = (res, m')" "P (tg_os m)"
    and "\<And>iv cx x. P x \<Longrightarrow> ti_ttd_exe iv = exe \<Longrightarrow> ti_timeout_ms iv = rt_timeout_ms r
      \<Longrightarrow> \<exists>dir. ti_args iv = build_ttd_args (rt_target r) (rt_options r) dir \<Longrightarrow> P (snd (snd (rr_run runner iv cx x)))"
    and "\<And>iv cx x pid. P x \<Longrightarrow> ts_ttd_exe iv = exe \<Longrightarrow> ttd_stop_target (rt_target r) pid = Some (ts_stop_target iv)
      \<Longrightarrow> P (snd (snd (rr_stop runner iv cx x)))"
  shows "P (tg_os m')"
proof -
  define args where "args = build_ttd_args (rt_target r) (rt_options r)
      (te_path_text env (ttd_recording_traces_dir (tg_artifacts m) (te_recording_id env)))"
  define k where "k = ttd_event env ''recorder_starting'' None None (recorder_command_fields exe args) m"
  define iv where "iv = \<lparr>ti_ttd_exe = exe, ti_args = args, ti_timeout_ms = rt_timeout_ms r,
      ti_stdout_path = ttd_recorder_stdout_path (tg_artifacts k) (te_recording_id env),
      ti_stderr_path = ttd_recorder_stderr_path (tg_artifacts k) (te_recording_id env)\<rparr>"
  define cx where "cx = \<lparr>ctx_config = tg_process_launch m, ctx_tool_call = tc\<rparr>"
  obtain logs ex x where run: "rr_run runner iv cx (tg_os k) = (logs, ex, x)" by (metis prod_cases3)
  have "P (snd (snd (rr_run runner iv cx (tg_os k))))"
    by (rule assms(3)) (auto simp: iv_def k_def args_def assms(2))
  then have x: "P x" by (simp add: run)
  define n where "n = k\<lparr>tg_os := x, tg_logs := tg_logs k @ logs\<rparr>"
  note path = assms(1)[unfolded run_recorder_def Let_def, folded args_def, folded k_def, folded iv_def cx_def,
      unfolded run prod.case, folded n_def]
  show ?thesis
  proof (cases ex)
    case (Inl e)
    have "recorder_failed env runner r e n = (res, m')"
      using path unfolding Inl sum.case .
    from recorder_failed_frame[OF this] x show ?thesis by (simp add: n_def)
  next
    case (Inr e)
    define n2 where "n2 = ttd_event env ''recorder_finished'' None None (recorder_exit_fields e) n"
    obtain ws b n3 where s: "(if tx_timed_out e then stop_recorder env runner r exe cx (recorded_pid runner env n2) n2
        else ([], False, n2)) = (ws, b, n3)" by (metis prod_cases3)
    have "P (tg_os n2)" using x by (simp add: n2_def n_def)
    then have "P (tg_os n3)"
      using s stop_recorder_safe[of env runner r exe cx "recorded_pid runner env n2" n2 ws b n3 P] assms(4)
      by (auto split: if_splits)
    moreover have "finish_recording env runner r e (recorded_pid runner env n2) ws b n3 = (res, m')"
      using path unfolding Inr sum.case n2_def[symmetric] s prod.case .
    ultimately show ?thesis using finish_recording_frame[of env runner r e "recorded_pid runner env n2" ws b n3] by simp
  qed
qed

lemma record_admitted_safe:
  assumes "record_admitted env runner r exe tc m = (res, m')" "P (tg_os m)"
    and "\<And>iv cx x. P x \<Longrightarrow> ti_ttd_exe iv = exe \<Longrightarrow> ti_timeout_ms iv = rt_timeout_ms r
      \<Longrightarrow> \<exists>dir. ti_args iv = build_ttd_args (rt_target r) (rt_options r) dir \<Longrightarrow> P (snd (snd (rr_run runner iv cx x)))"
    and "\<And>iv cx x pid. P x \<Longrightarrow> ts_ttd_exe iv = exe \<Longrightarrow> ttd_stop_target (rt_target r) pid = Some (ts_stop_target iv)
      \<Longrightarrow> P (snd (snd (rr_stop runner iv cx x)))"
  shows "P (tg_os m')"
proof -
  obtain ir a where i: "initialize_ttd_recording_artifacts (te_recording_id env) (tg_artifacts m) = (ir, a)"
    by (metis surj_pair)
  show ?thesis
  proof (cases ir)
    case (Inl e)
    then show ?thesis using assms(1,2) i by (auto simp: record_admitted_def)
  next
    case (Inr dir)
    define k where "k = ttd_log Info ''record_ttd_started'' None
        (ttd_event env ''ttd_recording_started'' (Some dir) None (recording_request_fields r) (m\<lparr>tg_artifacts := a\<rparr>))"
    have "run_recorder env runner r exe tc k = (res, m')" using assms(1) i Inr by (simp add: record_admitted_def k_def)
    moreover have "P (tg_os k)" using assms(2) by (simp add: k_def)
    ultimately show ?thesis using assms(3,4) by (rule run_recorder_safe)
  qed
qed

text \<open>The two ways through \<open>record_ttd\<close>: refused, or admitted with a checked request.\<close>

lemma record_ttd_cases:
  assumes "record_ttd env runner request tc m = (res, m')"
  obtains (refused) e where "res = Inl e" "m' = ttd_log LogError ''record_ttd_rejected'' (Some (ttd_message e)) m"
  | (admitted) r exe j n where "check_recording env (tg_ttd_dir m) request = Inr (r, exe)"
      "job_active (tg_job m) = None" "j = (tg_job m)\<lparr>job_active := Some (te_recording_id env)\<rparr>" "\<not> job_poisoned (tg_job m)"
      "record_admitted env runner r exe tc (m\<lparr>tg_job := j\<rparr>) = (res, n)"
      "m' = n\<lparr>tg_job := job_drop (te_recording_id env) (tg_job n)\<rparr>"
proof (cases "check_recording env (tg_ttd_dir m) request")
  case (Inl e)
  then show thesis using assms refused by (auto simp: record_ttd_def Let_def)
next
  case (Inr q)
  obtain r exe where q: "q = (r, exe)" by (cases q)
  show thesis
  proof (cases "job_poisoned (tg_job m) \<or> job_active (tg_job m) \<noteq> None")
    case True
    then show thesis using assms Inr q refused by (auto simp: record_ttd_def Let_def job_start_def split: if_splits)
  next
    case False
    define j where "j = (tg_job m)\<lparr>job_active := Some (te_recording_id env)\<rparr>"
    obtain v n where a: "record_admitted env runner r exe tc (m\<lparr>tg_job := j\<rparr>) = (v, n)" by (metis surj_pair)
    have "v = res" "m' = n\<lparr>tg_job := job_drop (te_recording_id env) (tg_job n)\<rparr>"
      using assms False Inr q a by (auto simp: record_ttd_def Let_def job_start_def simp flip: j_def)
    then show thesis using admitted Inr q False a j_def by blast
  qed
qed

end
