(* ===== verification/Ttd_Args.thy ===== *)
theory Ttd_Args
  imports Ttd
begin

text \<open>
  The command line of the recorder read back. \<open>read_ttd_args\<close> is the documented reading: an option is
  followed by its value, \<open>-launch\<close> by the program and all of its arguments. Whatever the client puts
  into a module name, a filter or an argument of the target, it stays what it is.
\<close>

record ttd_command =
  tc_out :: "os_text option"
  tc_options :: ttd_recording_options
  tc_filter :: "os_text option"
  tc_target :: "ttd_target option"

definition plain_options :: ttd_recording_options where
  "plain_options =
     \<lparr>to_children = False, to_no_ui = False, to_accept_eula = False, to_ring = False, to_max_file_mb = 0,
      to_modules = [], to_record_mode = RecordAutomatic, to_replay_cpu_support = CpuDefault\<rparr>"

definition no_command :: ttd_command where
  "no_command = \<lparr>tc_out = None, tc_options = plain_options, tc_filter = None, tc_target = None\<rparr>"

definition with_options :: "(ttd_recording_options \<Rightarrow> ttd_recording_options) \<Rightarrow> ttd_command \<Rightarrow> ttd_command" where
  "with_options f c = c\<lparr>tc_options := f (tc_options c)\<rparr>"

definition read_record_mode :: "os_text \<Rightarrow> ttd_record_mode option" where
  "read_record_mode v = List.find (\<lambda>k. chars (record_mode_arg k) = v) [RecordAutomatic, RecordManual]"

definition read_replay_cpu :: "os_text \<Rightarrow> ttd_replay_cpu_support option" where
  "read_replay_cpu v = List.find (\<lambda>k. chars (replay_cpu_arg k) = v)
     [CpuDefault, MostConservative, MostAggressive, IntelAvxRequired, IntelAvx2Required]"

text \<open>A flag, and an option with a value: what it does to the command, when it is one.\<close>

definition read_flag :: "os_text \<Rightarrow> (ttd_recording_options \<Rightarrow> ttd_recording_options) option" where
  "read_flag a =
     (if a = chars ''-noUI'' then Some (to_no_ui_update (\<lambda>_. True))
      else if a = chars ''-accepteula'' then Some (to_accept_eula_update (\<lambda>_. True))
      else if a = chars ''-children'' then Some (to_children_update (\<lambda>_. True))
      else if a = chars ''-ring'' then Some (to_ring_update (\<lambda>_. True))
      else None)"

definition read_value :: "os_text \<Rightarrow> os_text \<Rightarrow> ttd_command \<Rightarrow> ttd_command option" where
  "read_value a v c =
     (if a = chars ''-out'' then Some (c\<lparr>tc_out := Some v\<rparr>)
      else if a = chars ''-maxFile''
      then map_option (\<lambda>n. with_options (to_max_file_mb_update (\<lambda>_. n)) c) (parse_u32 v)
      else if a = chars ''-module'' then Some (with_options (to_modules_update (\<lambda>ms. ms @ [v])) c)
      else if a = chars ''-recordmode''
      then map_option (\<lambda>k. with_options (to_record_mode_update (\<lambda>_. k)) c) (read_record_mode v)
      else if a = chars ''-replayCpuSupport''
      then map_option (\<lambda>k. with_options (to_replay_cpu_support_update (\<lambda>_. k)) c) (read_replay_cpu v)
      else if a = chars ''-attach'' then map_option (\<lambda>pid. c\<lparr>tc_target := Some (TtdAttach pid)\<rparr>) (parse_u32 v)
      else if a = chars ''-cmdLineFilter'' then Some (c\<lparr>tc_filter := Some v\<rparr>)
      else if a = chars ''-monitor'' then Some (c\<lparr>tc_target := Some (TtdMonitor v (tc_filter c))\<rparr>)
      else None)"

fun read_ttd_args :: "ttd_command \<Rightarrow> os_text list \<Rightarrow> ttd_command option" where
  "read_ttd_args c [] = Some c"
| "read_ttd_args c [a] =
     (case read_flag a of None \<Rightarrow> None | Some f \<Rightarrow> Some (with_options f c))"
| "read_ttd_args c (a # v # as) =
     (if a = chars ''-launch'' then Some (c\<lparr>tc_target := Some (TtdLaunch v as)\<rparr>)
      else case read_flag a of
        Some f \<Rightarrow> read_ttd_args (with_options f c) (v # as)
      | None \<Rightarrow> (case read_value a v c of None \<Rightarrow> None | Some c' \<Rightarrow> read_ttd_args c' as))"

lemma read_flag_step:
  "read_flag a = Some f \<Longrightarrow> read_ttd_args c (a # as) = read_ttd_args (with_options f c) as"
  by (cases as) (auto simp: read_flag_def split: if_splits)

lemma read_value_step:
  assumes "read_flag a = None" "a \<noteq> chars ''-launch''" "read_value a v c = Some c'"
  shows "read_ttd_args c (a # v # as) = read_ttd_args c' as"
  using assms by simp

lemma read_flag_arg:
  assumes "read_flag (chars name) = Some f"
  shows "read_ttd_args c (flag b name @ as) = read_ttd_args (with_options (if b then f else id) c) as"
  using read_flag_step[OF assms, of c as] by (auto simp: flag_def with_options_def)

lemma with_options_same: "(\<And>r. f r = r) \<Longrightarrow> with_options f c = c"
  by (simp add: with_options_def)

lemma read_modules:
  "read_ttd_args c (concat (map (\<lambda>module_name. [chars ''-module'', module_name]) ms) @ as)
     = read_ttd_args (with_options (to_modules_update (\<lambda>old. old @ ms)) c) as"
proof (induction ms arbitrary: c)
  case Nil
  have "with_options (to_modules_update (\<lambda>old. old)) c = c" by (rule with_options_same) simp
  then show ?case by simp
next
  case (Cons m ms)
  have "read_ttd_args c (chars ''-module'' # m # concat (map (\<lambda>module_name. [chars ''-module'', module_name]) ms) @ as)
      = read_ttd_args (with_options (to_modules_update (\<lambda>old. old @ [m])) c)
          (concat (map (\<lambda>module_name. [chars ''-module'', module_name]) ms) @ as)"
    by (rule read_value_step) (simp_all add: read_flag_def read_value_def)
  with Cons show ?case by (simp add: with_options_def comp_def)
qed

lemma read_record_mode_arg [simp]: "read_record_mode (chars (record_mode_arg k)) = Some k"
  by (cases k) (simp_all add: read_record_mode_def)

lemma read_replay_cpu_arg [simp]: "read_replay_cpu (chars (replay_cpu_arg k)) = Some k"
  by (cases k) (simp_all add: read_replay_cpu_def)

lemma read_option_args:
  "read_ttd_args (c\<lparr>tc_options := plain_options\<rparr>) (ttd_option_args opts @ as) = read_ttd_args (c\<lparr>tc_options := opts\<rparr>) as"
proof -
  have flags: "read_flag (chars ''-noUI'') = Some (to_no_ui_update (\<lambda>_. True))"
    "read_flag (chars ''-accepteula'') = Some (to_accept_eula_update (\<lambda>_. True))"
    "read_flag (chars ''-children'') = Some (to_children_update (\<lambda>_. True))"
    "read_flag (chars ''-ring'') = Some (to_ring_update (\<lambda>_. True))"
    by (simp_all add: read_flag_def)
  have max_file: "read_ttd_args c (chars ''-maxFile'' # show_text (unat n) # as)
      = read_ttd_args (with_options (to_max_file_mb_update (\<lambda>_. n)) c) as" for c as and n :: u32
    by (rule read_value_step) (simp_all add: read_flag_def read_value_def parse_u32_show)
  have mode: "read_ttd_args c (chars ''-recordmode'' # chars (record_mode_arg k) # as)
      = read_ttd_args (with_options (to_record_mode_update (\<lambda>_. k)) c) as" for c as k
    by (rule read_value_step) (simp_all add: read_flag_def read_value_def)
  have cpu: "read_ttd_args c (chars ''-replayCpuSupport'' # chars (replay_cpu_arg k) # as)
      = read_ttd_args (with_options (to_replay_cpu_support_update (\<lambda>_. k)) c) as" for c as k
    by (rule read_value_step) (simp_all add: read_flag_def read_value_def)
  show ?thesis
    by (cases opts)
      (auto simp: ttd_option_args_def flags[THEN read_flag_arg] max_file mode cpu read_modules with_options_def plain_options_def
        simp del: read_ttd_args.simps)
qed

lemma read_target_args:
  "tc_filter c = None \<Longrightarrow> \<exists>c'. read_ttd_args c (ttd_target_args target) = Some c'
     \<and> tc_out c' = tc_out c \<and> tc_options c' = tc_options c \<and> tc_target c' = Some target"
  by (cases target) (auto simp: read_flag_def read_value_def parse_u32_show split: option.split)

text \<open>
  C21. The command line that is built for a recording is read back as the directory of the traces, the
  options and the target of the request, whatever texts these contain.
\<close>

theorem ttd_args_read_back:
  "\<exists>c. read_ttd_args no_command (build_ttd_args target opts dir) = Some c
     \<and> tc_out c = Some dir \<and> tc_options c = opts \<and> tc_target c = Some target"
proof -
  define c where "c = no_command\<lparr>tc_out := Some dir\<rparr>"
  have "read_ttd_args no_command (build_ttd_args target opts dir)
      = read_ttd_args (c\<lparr>tc_options := plain_options\<rparr>) (ttd_option_args opts @ ttd_target_args target)"
    by (simp add: build_ttd_args_def read_flag_def read_value_def c_def no_command_def)
  also have "\<dots> = read_ttd_args (c\<lparr>tc_options := opts\<rparr>) (ttd_target_args target)" by (rule read_option_args)
  finally show ?thesis
    using read_target_args[of "c\<lparr>tc_options := opts\<rparr>" target] by (simp add: c_def no_command_def)
qed

end
