(* ===== verification/Ttd_Claims.thy ===== *)
theory Ttd_Claims
  imports Ttd_Properties Ttd_Args "HOL-Library.Multiset"
begin

text \<open>
  The properties of the manager of recordings and their instances on an example.
\<close>

section \<open>The result\<close>

text \<open>What \<open>recording.json\<close> holds for a result.\<close>

definition ttd_metadata_of :: "ttd_env \<Rightarrow> record_ttd_request \<Rightarrow> ttd_recording_result \<Rightarrow> ttd_metadata" where
  "ttd_metadata_of env r result =
     \<lparr>tm_recording_id = tr_recording_id result, tm_target = rt_target r, tm_timeout_ms = rt_timeout_ms r,
      tm_options = rt_options r, tm_target_pid = tr_target_pid result, tm_start_time = te_now env,
      tm_end_time = te_end_time env, tm_duration_ms = tr_duration_ms result, tm_status = tr_status result,
      tm_completion_reason = tr_completion_reason result, tm_recorder_exit_code = tr_recorder_exit_code result,
      tm_traces = map ar_path (ta_traces (tr_artifacts result)),
      tm_trace_indexes = map ar_path (ta_trace_indexes (tr_artifacts result)),
      tm_recorder_logs = map ar_path (ta_recorder_logs (tr_artifacts result)),
      tm_warnings = tr_warnings result, tm_error = tr_error result\<rparr>"

text \<open>Status, reason and error as the exit of the recorder and the traces that were found demand.\<close>

definition ttd_outcome :: "ttd_recorder_exit result \<Rightarrow> ttd_recording_result \<Rightarrow> bool" where
  "ttd_outcome ex result \<longleftrightarrow>
     (case ex of
        Inl e \<Rightarrow> tr_status result = TtdFailed \<and> tr_completion_reason result = RecorderError
          \<and> tr_error result = Some (ttd_message e)
      | Inr x \<Rightarrow> tr_recorder_exit_code result = tx_exit_code x
          \<and> (tr_status result = TtdTimedOut \<longleftrightarrow> tx_timed_out x)
          \<and> (tr_status result = TtdCompleted \<longleftrightarrow>
               \<not> tx_timed_out x \<and> tx_exit_code x \<in> {None, Some 0} \<and> ta_traces (tr_artifacts result) \<noteq> [])
          \<and> (tr_error result = None \<longleftrightarrow> tr_status result \<noteq> TtdFailed)
          \<and> tr_completion_reason result =
              (case tr_status result of TtdCompleted \<Rightarrow> TtdTargetExited | TtdTimedOut \<Rightarrow> TtdTimeout | TtdFailed \<Rightarrow> RecorderError))"

text \<open>
  The files of one kind in a directory with entries \<open>ds\<close>: every file with one of the extensions, in upper or lower
  case, is listed once, and nothing else is, in the order of the names.
\<close>

definition listed :: "string list \<Rightarrow> artifact_kind \<Rightarrow> dir_entry list \<Rightarrow> artifact_ref list \<Rightarrow> bool" where
  "listed exts kind ds refs \<longleftrightarrow>
     (\<exists>es. refs = map (\<lambda>d. \<lparr>ar_kind = kind, ar_path = de_path d\<rparr>) es \<and> sorted (map de_text es)
       \<and> mset es = {#d \<in># mset ds. de_is_file d \<and> lower_extension (de_text d) \<in> chars ` set exts#})"

definition ttd_found :: "ttd_env \<Rightarrow> 'x ttd_runner \<Rightarrow> ttd_recording_result \<Rightarrow> 'x ttd_manager \<Rightarrow> bool" where
  "ttd_found env runner result m \<longleftrightarrow>
     (let a = tr_artifacts result
      in case rr_listing runner (tg_os m) (ttd_recording_traces_dir (tg_artifacts m) (te_recording_id env)) of
           None \<Rightarrow> ta_traces a = [] \<and> ta_trace_indexes a = [] \<and> ta_recorder_logs a = []
         | Some (Inl e) \<Rightarrow> False
         | Some (Inr es) \<Rightarrow>
             (\<exists>ds. es = map Inr ds \<and> listed [''run''] TtdTrace ds (ta_traces a)
               \<and> listed [''idx''] TtdTraceIndex ds (ta_trace_indexes a)
               \<and> listed [''out'', ''err''] TtdRecorderOutput ds (ta_recorder_logs a)))"

lemma read_entries_Inr: "read_entries es = Inr ds \<longleftrightarrow> es = map Inr ds"
  by (induction es arbitrary: ds rule: read_entries.induct) (auto split: sum.splits, blast)

lemma entries_listed: "listed exts kind ds (entries_with exts kind ds)"
  by (auto simp: listed_def entries_with_def intro!: exI)

lemma discovered_found:
  assumes "discover_ttd_artifacts (rr_listing runner (tg_os m) (ttd_recording_traces_dir (tg_artifacts m) (te_recording_id env)))
      = Inr \<lparr>dt_traces = ta_traces (tr_artifacts result), dt_trace_indexes = ta_trace_indexes (tr_artifacts result),
             dt_recorder_logs = ta_recorder_logs (tr_artifacts result)\<rparr>"
  shows "ttd_found env runner result m"
proof (cases "rr_listing runner (tg_os m) (ttd_recording_traces_dir (tg_artifacts m) (te_recording_id env))")
  case None
  then show ?thesis using assms by (simp add: ttd_found_def discover_ttd_artifacts_def Let_def)
next
  case (Some listing)
  show ?thesis
  proof (cases listing)
    case (Inl e)
    then show ?thesis using assms Some by (simp add: discover_ttd_artifacts_def)
  next
    case (Inr es)
    then obtain ds where ds: "read_entries es = Inr ds" using assms Some by (cases "read_entries es") (simp_all add: discover_ttd_artifacts_def)
    have "ta_traces (tr_artifacts result) = entries_with [''run''] TtdTrace ds"
      "ta_trace_indexes (tr_artifacts result) = entries_with [''idx''] TtdTraceIndex ds"
      "ta_recorder_logs (tr_artifacts result) = entries_with [''out'', ''err''] TtdRecorderOutput ds"
      using assms Some Inr ds by (simp_all add: discover_ttd_artifacts_def)
    then show ?thesis
      using Some Inr ds[unfolded read_entries_Inr] entries_listed by (auto simp: ttd_found_def Let_def)
  qed
qed

definition ttd_written :: "ttd_env \<Rightarrow> record_ttd_request \<Rightarrow> ttd_recording_result \<Rightarrow> 'x ttd_manager \<Rightarrow> bool" where
  "ttd_written env r result m \<longleftrightarrow>
     fs_files (tg_artifacts m) (ar_path (ta_metadata (tr_artifacts result)))
       = Some [TtdMetadataText (ttd_metadata_of env r result)]"

lemma write_ttd_metadata_file:
  assumes "write_ttd_metadata env r st re pid code d ws err m = (Inr artifact, m')"
  shows "ar_path artifact = ttd_recording_metadata_path (tg_artifacts m) (te_recording_id env)"
    "fs_files (tg_artifacts m') (ar_path artifact) = Some [TtdMetadataText
       \<lparr>tm_recording_id = te_recording_id env, tm_target = rt_target r, tm_timeout_ms = rt_timeout_ms r,
        tm_options = rt_options r, tm_target_pid = pid, tm_start_time = te_now env, tm_end_time = te_end_time env,
        tm_duration_ms = te_duration_ms env, tm_status = st, tm_completion_reason = re,
        tm_recorder_exit_code = code, tm_traces = map ar_path (dt_traces d),
        tm_trace_indexes = map ar_path (dt_trace_indexes d),
        tm_recorder_logs = map ar_path (dt_recorder_logs d), tm_warnings = ws, tm_error = err\<rparr>]"
    "am_root (tg_artifacts m') = am_root (tg_artifacts m)" "am_show_id (tg_artifacts m') = am_show_id (tg_artifacts m)"
    "tg_os m' = tg_os m"
  using assms
  by (auto simp: write_ttd_metadata_def write_ttd_recording_metadata_def write_below_def locked_def Let_def returning_def
      create_dir_all_def write_file_def ttd_recording_metadata_path_def split: if_splits option.splits prod.splits sum.splits)

lemma ttd_event_paths [simp]:
  "am_root (tg_artifacts (ttd_event env e p x f m)) = am_root (tg_artifacts m)"
  "am_show_id (tg_artifacts (ttd_event env e p x f m)) = am_show_id (tg_artifacts m)"
  by (auto simp: ttd_event_def append_ttd_recording_event_def append_below_cases Let_def split: option.split)

lemma ttd_event_other_file:
  "fs_files (tg_artifacts (ttd_event env e p x f m)) (ttd_recording_metadata_path (tg_artifacts m) (te_recording_id env))
     = fs_files (tg_artifacts m) (ttd_recording_metadata_path (tg_artifacts m) (te_recording_id env))"
  by (auto simp: ttd_event_def append_ttd_recording_event_def append_below_cases Let_def ttd_recording_metadata_path_def
      split: option.split)

lemma same_paths:
  assumes "am_root a = am_root b" "am_show_id a = am_show_id b"
  shows "ttd_recording_metadata_path a i = ttd_recording_metadata_path b i"
    "ttd_recording_traces_dir a i = ttd_recording_traces_dir b i"
  using assms by (simp_all add: ttd_recording_metadata_path_def ttd_recording_traces_dir_def ttd_recording_dir_def)

lemma detect_traces_paths [simp]:
  "am_root (tg_artifacts (detect_traces env d m)) = am_root (tg_artifacts m)"
  "am_show_id (tg_artifacts (detect_traces env d m)) = am_show_id (tg_artifacts m)"
proof -
  have frame: "am_root (tg_artifacts (fold (\<lambda>a. ttd_event env e (Some (ar_path a)) None (artifact_fields a)) as m)) = am_root (tg_artifacts m)
      \<and> am_show_id (tg_artifacts (fold (\<lambda>a. ttd_event env e (Some (ar_path a)) None (artifact_fields a)) as m)) = am_show_id (tg_artifacts m)" for e as m
    by (induction as arbitrary: m) auto
  show "am_root (tg_artifacts (detect_traces env d m)) = am_root (tg_artifacts m)"
    "am_show_id (tg_artifacts (detect_traces env d m)) = am_show_id (tg_artifacts m)"
    by (simp_all add: detect_traces_def frame del: fold_append)
qed

lemma recorder_failed_result:
  assumes "recorder_failed env runner r e m = (Inr result, m')"
  shows "ttd_outcome (Inl e) result" "ttd_found env runner result m'" "ttd_written env r result m'"
    "tg_os m' = tg_os m" "am_root (tg_artifacts m') = am_root (tg_artifacts m)"
    "am_show_id (tg_artifacts m') = am_show_id (tg_artifacts m)"
proof -
  define n where "n = ttd_event env ''recording_failed'' None (Some (ttd_message e)) [] m"
  note path = assms[unfolded recorder_failed_def Let_def, folded n_def]
  obtain d where d: "discover_ttd_artifacts (rr_listing runner (tg_os n) (ttd_recording_traces_dir (tg_artifacts n) (te_recording_id env))) = Inr d"
    using path by (auto split: sum.splits)
  obtain wr n' where w: "write_ttd_metadata env r TtdFailed RecorderError None None d [] (Some (ttd_message e)) n = (wr, n')"
    by (metis surj_pair)
  obtain artifact where a: "wr = Inr artifact"
    using path unfolding d sum.case w prod.case by (cases wr) simp_all
  note f = write_ttd_metadata_file[OF w[unfolded a]]
  have res: "result = \<lparr>tr_recording_id = te_recording_id env, tr_status = TtdFailed, tr_completion_reason = RecorderError,
      tr_duration_ms = te_duration_ms env, tr_target_pid = None, tr_recorder_exit_code = None,
      tr_artifacts = result_artifacts env (tg_artifacts n') artifact d False, tr_warnings = [], tr_error = Some (ttd_message e)\<rparr>"
    and m': "m' = ttd_log LogError ''record_ttd_failed'' (Some (ttd_message e)) n'"
    using path unfolding d sum.case w prod.case a by simp_all
  show "ttd_outcome (Inl e) result" by (simp add: ttd_outcome_def res)
  show "ttd_found env runner result m'"
    using d f(5) same_paths(2)[OF f(3,4)] by (intro discovered_found) (simp add: res result_artifacts_def Let_def m')
  show "ttd_written env r result m'"
    using f(2) by (simp add: ttd_written_def ttd_metadata_of_def res result_artifacts_def Let_def m')
  show "tg_os m' = tg_os m" "am_root (tg_artifacts m') = am_root (tg_artifacts m)"
    "am_show_id (tg_artifacts m') = am_show_id (tg_artifacts m)"
    using f(3-5) by (simp_all add: m' n_def)
qed

lemma recording_outcome_ttd_outcome:
  assumes "recording_outcome (tx_timed_out ex) (tx_exit_code ex) d out err = (status, reason, error)"
    and "tr_status result = status" "tr_completion_reason result = reason" "tr_error result = error"
    and "tr_recorder_exit_code result = tx_exit_code ex" "ta_traces (tr_artifacts result) = dt_traces d"
  shows "ttd_outcome (Inr ex) result"
  using assms by (auto simp: recording_outcome_def ttd_outcome_def eq_commute[of "Some _" "tr_error result"] split: if_splits option.splits)

lemma finish_recording_result:
  assumes "finish_recording env runner r ex pid ws b m = (Inr result, m')"
  shows "ttd_outcome (Inr ex) result" "ttd_found env runner result m'" "ttd_written env r result m'"
    "tr_target_pid result = pid" "tr_warnings result = ws"
    "tg_os m' = tg_os m" "am_root (tg_artifacts m') = am_root (tg_artifacts m)"
    "am_show_id (tg_artifacts m') = am_show_id (tg_artifacts m)"
proof -
  define i where "i = te_recording_id env"
  obtain d where d: "discover_ttd_artifacts (rr_listing runner (tg_os m) (ttd_recording_traces_dir (tg_artifacts m) i)) = Inr d"
    using assms by (auto simp: finish_recording_def Let_def i_def split: sum.splits)
  define n where "n = detect_traces env d m"
  obtain status reason error where o: "recording_outcome (tx_timed_out ex) (tx_exit_code ex) d
      (read_text_lossy (rr_read runner (tg_os n) (ttd_recorder_stdout_path (tg_artifacts n) i)))
      (read_text_lossy (rr_read runner (tg_os n) (ttd_recorder_stderr_path (tg_artifacts n) i))) = (status, reason, error)"
    by (metis prod_cases3)
  obtain wr n' where w: "write_ttd_metadata env r status reason pid (tx_exit_code ex) d ws error n = (wr, n')"
    by (metis surj_pair)
  note path = assms[unfolded finish_recording_def Let_def, folded i_def, unfolded d sum.case, folded n_def,
      unfolded o prod.case w]
  obtain artifact where a: "wr = Inr artifact" using path by (cases wr) simp_all
  note f = write_ttd_metadata_file[OF w[unfolded a]]
  define log where "log k = ttd_log (if status = TtdFailed then LogError else Info) ''record_ttd_finished'' error k"
    for k :: "'a ttd_manager"
  have res: "result = \<lparr>tr_recording_id = i, tr_status = status, tr_completion_reason = reason,
      tr_duration_ms = te_duration_ms env, tr_target_pid = pid, tr_recorder_exit_code = tx_exit_code ex,
      tr_artifacts = result_artifacts env (tg_artifacts n') artifact d b, tr_warnings = ws, tr_error = error\<rparr>"
    and m': "m' = log (ttd_event env ''recording_completed'' None error (recording_completed_fields result) n')"
    using path unfolding a sum.case by (auto simp: log_def)
  show "ttd_outcome (Inr ex) result"
    by (rule recording_outcome_ttd_outcome[OF o]) (simp_all add: res result_artifacts_def Let_def)
  have p: "am_root (tg_artifacts m') = am_root (tg_artifacts m)" "am_show_id (tg_artifacts m') = am_show_id (tg_artifacts m)"
    "tg_os m' = tg_os m"
    using f(3,4,5) by (simp_all add: m' log_def n_def)
  show "ttd_found env runner result m'"
    using d same_paths(2)[OF p(1,2)] by (intro discovered_found) (simp add: res result_artifacts_def Let_def p(3) i_def)
  have "ar_path artifact = ttd_recording_metadata_path (tg_artifacts n') (te_recording_id env)"
    using f(1) same_paths(1)[OF f(3,4)] by simp
  then have "fs_files (tg_artifacts m') (ar_path artifact) = fs_files (tg_artifacts n') (ar_path artifact)"
    by (simp add: m' log_def ttd_event_other_file)
  then show "ttd_written env r result m'"
    using f(2) by (simp add: ttd_written_def ttd_metadata_of_def res result_artifacts_def Let_def i_def)
  show "tr_target_pid result = pid" "tr_warnings result = ws" by (simp_all add: res)
  show "tg_os m' = tg_os m" "am_root (tg_artifacts m') = am_root (tg_artifacts m)"
    "am_show_id (tg_artifacts m') = am_show_id (tg_artifacts m)" by (rule p)+
qed

text \<open>
  What the runner was asked to do: one run and, if it timed out, at most one request to stop, each on the machine
  that the one before it left, and nothing else.
\<close>

definition one_run ::
    "'x ttd_runner \<Rightarrow> ttd_recorder_invocation \<Rightarrow> process_launch_context \<Rightarrow> ttd_recorder_exit result \<Rightarrow> 'x \<Rightarrow> 'x \<Rightarrow> bool" where
  "one_run runner iv cx ex x x' \<longleftrightarrow>
     (\<exists>logs y. rr_run runner iv cx x = (logs, ex, y)
       \<and> (x' = y \<or> (\<exists>e. ex = Inr e \<and> tx_timed_out e) \<and> (\<exists>stop. x' = snd (snd (rr_stop runner stop cx y)))))"

lemma stop_recorder_os:
  assumes "stop_recorder env runner r exe cx pid m = (ws, b, m')"
  shows "(tg_os m' = tg_os m \<or> (\<exists>stop. tg_os m' = snd (snd (rr_stop runner stop cx (tg_os m)))))
    \<and> am_root (tg_artifacts m') = am_root (tg_artifacts m) \<and> am_show_id (tg_artifacts m') = am_show_id (tg_artifacts m)"
proof (cases "ttd_stop_target (rt_target r) pid")
  case None
  then show ?thesis using assms by (auto simp: stop_recorder_def Let_def)
next
  case (Some stop_target)
  define k where "k = ttd_event env ''timeout_reached'' None None [] m"
  define iv where "iv = \<lparr>ts_ttd_exe = exe, ts_stop_target = stop_target, ts_timeout_ms = 15000,
      ts_stdout_path = ttd_recorder_stop_stdout_path (tg_artifacts k) (te_recording_id env),
      ts_stderr_path = ttd_recorder_stop_stderr_path (tg_artifacts k) (te_recording_id env)\<rparr>"
  obtain logs stop x where run: "rr_stop runner iv cx (tg_os k) = (logs, stop, x)" by (metis prod_cases3)
  have k: "tg_os k = tg_os m" "am_root (tg_artifacts k) = am_root (tg_artifacts m)"
    "am_show_id (tg_artifacts k) = am_show_id (tg_artifacts m)" by (simp_all add: k_def)
  have "tg_os m' = x \<and> am_root (tg_artifacts m') = am_root (tg_artifacts m) \<and> am_show_id (tg_artifacts m') = am_show_id (tg_artifacts m)"
    using assms[unfolded stop_recorder_def Let_def, folded k_def, unfolded Some option.case, folded iv_def, unfolded run prod.case] k
    by (cases stop) auto
  moreover have "x = snd (snd (rr_stop runner iv cx (tg_os m)))" using run k(1) by simp
  ultimately show ?thesis by blast
qed

lemma run_recorder_result:
  assumes "run_recorder env runner r exe tc m = (Inr result, m')"
  obtains iv cx ex where "one_run runner iv cx ex (tg_os m) (tg_os m')"
    "ti_ttd_exe iv = exe" "ti_timeout_ms iv = rt_timeout_ms r"
    "ti_args iv = build_ttd_args (rt_target r) (rt_options r) (te_path_text env (ttd_recording_traces_dir (tg_artifacts m') (te_recording_id env)))"
    "ttd_outcome ex result" "ttd_found env runner result m'" "ttd_written env r result m'"
proof -
  define args where "args = build_ttd_args (rt_target r) (rt_options r)
      (te_path_text env (ttd_recording_traces_dir (tg_artifacts m) (te_recording_id env)))"
  define k where "k = ttd_event env ''recorder_starting'' None None (recorder_command_fields exe args) m"
  define iv where "iv = \<lparr>ti_ttd_exe = exe, ti_args = args, ti_timeout_ms = rt_timeout_ms r,
      ti_stdout_path = ttd_recorder_stdout_path (tg_artifacts k) (te_recording_id env),
      ti_stderr_path = ttd_recorder_stderr_path (tg_artifacts k) (te_recording_id env)\<rparr>"
  define cx where "cx = \<lparr>ctx_config = tg_process_launch m, ctx_tool_call = tc\<rparr>"
  obtain logs ex x where run: "rr_run runner iv cx (tg_os k) = (logs, ex, x)" by (metis prod_cases3)
  define n where "n = k\<lparr>tg_os := x, tg_logs := tg_logs k @ logs\<rparr>"
  note path = assms(1)[unfolded run_recorder_def Let_def, folded args_def, folded k_def, folded iv_def cx_def,
      unfolded run prod.case, folded n_def]
  have run': "rr_run runner iv cx (tg_os m) = (logs, ex, x)" using run by (simp add: k_def)
  have n: "am_root (tg_artifacts n) = am_root (tg_artifacts m)" "am_show_id (tg_artifacts n) = am_show_id (tg_artifacts m)"
    "tg_os n = x" by (simp_all add: n_def k_def)
  have iv: "ti_ttd_exe iv = exe" "ti_timeout_ms iv = rt_timeout_ms r" by (simp_all add: iv_def)
  have dir: "ti_args iv = build_ttd_args (rt_target r) (rt_options r)
      (te_path_text env (ttd_recording_traces_dir (tg_artifacts m') (te_recording_id env)))"
    if "am_root (tg_artifacts m') = am_root (tg_artifacts m)" "am_show_id (tg_artifacts m') = am_show_id (tg_artifacts m)"
    using same_paths(2)[OF that] by (simp add: iv_def args_def)
  show thesis
  proof (cases ex)
    case (Inl e)
    have "recorder_failed env runner r e n = (Inr result, m')" using path unfolding Inl sum.case .
    note f = recorder_failed_result[OF this]
    have "one_run runner iv cx ex (tg_os m) (tg_os m')" using run' f(4) n(3) by (simp add: one_run_def)
    then show ?thesis using that[OF _ iv dir] f n Inl by simp
  next
    case (Inr e)
    define n2 where "n2 = ttd_event env ''recorder_finished'' None None (recorder_exit_fields e) n"
    obtain ws b n3 where s: "(if tx_timed_out e then stop_recorder env runner r exe cx (recorded_pid runner env n2) n2
        else ([], False, n2)) = (ws, b, n3)" by (metis prod_cases3)
    have n3: "tg_os n3 = x \<or> tx_timed_out e \<and> (\<exists>stop. tg_os n3 = snd (snd (rr_stop runner stop cx x)))"
      "am_root (tg_artifacts n3) = am_root (tg_artifacts m)" "am_show_id (tg_artifacts n3) = am_show_id (tg_artifacts m)"
      using s stop_recorder_os[of env runner r exe cx "recorded_pid runner env n2" n2 ws b n3] n
      by (auto simp: n2_def split: if_splits)
    have "finish_recording env runner r e (recorded_pid runner env n2) ws b n3 = (Inr result, m')"
      using path unfolding Inr sum.case n2_def[symmetric] s prod.case .
    note f = finish_recording_result[OF this]
    have "one_run runner iv cx ex (tg_os m) (tg_os m')" using run' f(6) n3(1) Inr by (auto simp: one_run_def)
    then show ?thesis using that[OF _ iv dir] f n3(2,3) Inr by simp
  qed
qed

section \<open>An example\<close>

text \<open>A recorder that writes one trace and keeps the invocations it gets.\<close>

definition demo_ttd_env :: ttd_env where
  "demo_ttd_env =
     \<lparr>te_canonicalize = Inr, te_is_file = (\<lambda>_. True), te_is_absolute = (\<lambda>_. False), te_components = (\<lambda>_. []),
      te_join = (@), te_path_var = None, te_path_text = (\<lambda>_. [116]), te_recording_id = 7, te_show_id = (\<lambda>_. ''7''),
      te_now = 1000, te_end_time = 2000, te_duration_ms = 1000\<rparr>"

definition demo_recorder :: "ttd_recorder_invocation list ttd_runner" where
  "demo_recorder =
     \<lparr>rr_run = (\<lambda>iv _ x. ([], Inr \<lparr>tx_exit_code = Some 0, tx_timed_out = False\<rparr>, iv # x)),
      rr_stop = (\<lambda>_ _ x. ([], Inr \<lparr>tx_exit_code = Some 0, tx_timed_out = False\<rparr>, x)),
      rr_read = (\<lambda>_ _. None),
      rr_listing = (\<lambda>_ _. Some (Inr [Inr \<lparr>de_path = [''a.run''], de_text = [97, 46, 114, 117, 110], de_is_file = True\<rparr>]))\<rparr>"

definition demo_recordings :: "ttd_recording_id option \<Rightarrow> 'x \<Rightarrow> 'x ttd_manager" where
  "demo_recordings active x =
     \<lparr>tg_artifacts = \<lparr>am_root = [''root''], am_show_id = (\<lambda>_. ''7''), am_poisoned = False, fs_dirs = (\<lambda>_. False),
        fs_files = (\<lambda>_. None), fs_error = (\<lambda>_. None)\<rparr>,
      tg_ttd_dir = Some [100], tg_job = \<lparr>job_active = active, job_poisoned = False\<rparr>, tg_logs = [], tg_os = x,
      tg_process_launch = process_launch_config_default\<rparr>"

definition demo_recording_request :: record_ttd_request where
  "demo_recording_request =
     \<lparr>rt_target = TtdLaunch [65] [], rt_timeout_ms = 1000, rt_options = ttd_recording_options_default\<rparr>"

lemma demo_check_recording: "check_recording demo_ttd_env (Some [100]) demo_recording_request = Inr (demo_recording_request, [100] @ chars ''TTD.exe'')"
  by (simp add: check_recording_def demo_ttd_env_def demo_recording_request_def validate_ttd_launch_def
      validate_ttd_options_def ttd_recording_options_default_def ttd_exe_def Let_def)

lemma ttd_event_healthy [simp]: "healthy (tg_artifacts (ttd_event env e p x f m)) = healthy (tg_artifacts m)"
  by (auto simp: ttd_event_def append_ttd_recording_event_def append_below_cases healthy_def Let_def split: option.split)

lemma detect_traces_healthy [simp]: "healthy (tg_artifacts (detect_traces env d m)) = healthy (tg_artifacts m)"
proof -
  have frame: "healthy (tg_artifacts (fold (\<lambda>a. ttd_event env e (Some (ar_path a)) None (artifact_fields a)) as m))
      = healthy (tg_artifacts m)" for e as m
    by (induction as arbitrary: m) auto
  show ?thesis by (simp add: detect_traces_def frame del: fold_append)
qed

lemma healthy_write_ttd_metadata:
  assumes "healthy (tg_artifacts m)"
  shows "\<exists>artifact m'. write_ttd_metadata env r st re pid code d ws err m = (Inr artifact, m')"
  using assms
  by (simp add: write_ttd_metadata_def write_ttd_recording_metadata_def write_below_def locked_def Let_def returning_def
      create_dir_all_def write_file_def healthy_def)

lemma demo_finish:
  assumes "healthy (tg_artifacts m)"
  shows "\<exists>result m'. finish_recording demo_ttd_env demo_recorder r ex pid ws b m = (Inr result, m')"
proof -
  obtain d where d: "discover_ttd_artifacts (rr_listing demo_recorder x p) = Inr d" for x p
    by (simp add: demo_recorder_def discover_ttd_artifacts_def)
  define i where "i = te_recording_id demo_ttd_env"
  define n where "n = detect_traces demo_ttd_env d m"
  obtain status reason error where o: "recording_outcome (tx_timed_out ex) (tx_exit_code ex) d
      (read_text_lossy (rr_read demo_recorder (tg_os n) (ttd_recorder_stdout_path (tg_artifacts n) i)))
      (read_text_lossy (rr_read demo_recorder (tg_os n) (ttd_recorder_stderr_path (tg_artifacts n) i))) = (status, reason, error)"
    by (metis prod_cases3)
  have "healthy (tg_artifacts n)" using assms by (simp add: n_def)
  then obtain artifact n' where w: "write_ttd_metadata demo_ttd_env r status reason pid (tx_exit_code ex) d ws error n = (Inr artifact, n')"
    using healthy_write_ttd_metadata by metis
  show ?thesis
    unfolding finish_recording_def Let_def d sum.case i_def[symmetric] n_def[symmetric] o prod.case w by blast
qed

lemma demo_run_recorder:
  assumes "healthy (tg_artifacts m)"
  shows "\<exists>result m'. run_recorder demo_ttd_env demo_recorder r exe tc m = (Inr result, m')"
proof -
  define args where "args = build_ttd_args (rt_target r) (rt_options r)
      (te_path_text demo_ttd_env (ttd_recording_traces_dir (tg_artifacts m) (te_recording_id demo_ttd_env)))"
  define k where "k = ttd_event demo_ttd_env ''recorder_starting'' None None (recorder_command_fields exe args) m"
  have run: "rr_run demo_recorder iv cx x = ([], Inr \<lparr>tx_exit_code = Some 0, tx_timed_out = False\<rparr>, iv # x)" for iv cx x
    by (simp add: demo_recorder_def)
  have "healthy (tg_artifacts k)" using assms by (simp add: k_def)
  then show ?thesis
    unfolding run_recorder_def Let_def args_def[symmetric] k_def[symmetric] run prod.case sum.case
      ttd_recorder_exit.simps if_False
    by (intro demo_finish) simp
qed

lemma demo_recording_runs:
  "\<exists>result m'. record_ttd demo_ttd_env demo_recorder demo_recording_request demo_tool_context (demo_recordings None []) = (Inr result, m')"
proof -
  define m :: "ttd_recorder_invocation list ttd_manager" where "m = demo_recordings None []"
  define j where "j = (tg_job m)\<lparr>job_active := Some 7\<rparr>"
  have check: "check_recording demo_ttd_env (tg_ttd_dir m) demo_recording_request = Inr (demo_recording_request, [100] @ chars ''TTD.exe'')"
    using demo_check_recording by (simp add: m_def demo_recordings_def)
  have id: "te_recording_id demo_ttd_env = 7" by (simp add: demo_ttd_env_def)
  have start: "job_start 7 busy (tg_job m) = (Inr 7, j)" for busy
    by (simp add: job_start_def m_def j_def demo_recordings_def)
  obtain dir a where init: "initialize_ttd_recording_artifacts 7 (tg_artifacts m) = (Inr dir, a)" "healthy a"
    by (simp add: m_def demo_recordings_def initialize_ttd_recording_artifacts_def locked_def Let_def returning_def
        create_dir_all_def touch_def append_pieces_def healthy_def)
  obtain result m' where "record_admitted demo_ttd_env demo_recorder demo_recording_request ([100] @ chars ''TTD.exe'')
      demo_tool_context (m\<lparr>tg_job := j\<rparr>) = (Inr result, m')"
    using init demo_run_recorder by (fastforce simp: record_admitted_def id)
  then show ?thesis
    by (simp add: record_ttd_def check id start flip: m_def)
qed

section \<open>Properties\<close>

lemma good_runI:
  assumes "check_recording env dir request = Inr (r, exe)" "ti_ttd_exe iv = exe" "ti_timeout_ms iv = rt_timeout_ms r"
    and "\<exists>dir. ti_args iv = build_ttd_args (rt_target r) (rt_options r) dir"
  shows "good_run env request iv"
proof -
  note c = check_recording_sound[OF assms(1)]
  have "request\<lparr>rt_target := rt_target r\<rparr> = r" using c(4,5) by simp
  then have "request_ok env (request\<lparr>rt_target := rt_target r\<rparr>)" using c(1) by (simp only:)
  then show ?thesis using c(2-5) assms(2-4) by (simp add: good_run_def)
qed

text \<open>
  C19. Nothing unchecked reaches the recorder: it is only run for a target that \<open>validate_ttd_target\<close> gave,
  with options within their bounds, a timeout, an executable that is a file, and a command line built from
  these alone; and it is only told to stop a process id, the program that was launched, or, for a monitor,
  all recordings. So whatever holds of the machine and is kept by such calls still holds after any request.
\<close>

theorem recorder_gets_checked_requests:
  assumes "P (tg_os m)"
    and "\<And>iv cx x. P x \<Longrightarrow> good_run env request iv \<Longrightarrow> P (snd (snd (rr_run runner iv cx x)))"
    and "\<And>iv cx x. P x \<Longrightarrow> good_stop env request iv \<Longrightarrow> P (snd (snd (rr_stop runner iv cx x)))"
  shows "P (tg_os (snd (record_ttd env runner request tc m)))"
proof -
  obtain res m' where run: "record_ttd env runner request tc m = (res, m')" by (metis surj_pair)
  from run have "P (tg_os m')"
  proof (cases rule: record_ttd_cases)
    case (refused e)
    then show ?thesis using assms(1) by simp
  next
    case (admitted r exe j n)
    note c = check_recording_sound[OF admitted(1)]
    have run: "P (snd (snd (rr_run runner iv cx x)))"
      if "P x" "ti_ttd_exe iv = exe" "ti_timeout_ms iv = rt_timeout_ms r"
        "\<exists>dir. ti_args iv = build_ttd_args (rt_target r) (rt_options r) dir" for iv cx x
      by (rule assms(2)[OF that(1) good_runI[OF admitted(1) that(2-4)]])
    have stop: "P (snd (snd (rr_stop runner iv cx x)))"
      if "P x" "ts_ttd_exe iv = exe" "ttd_stop_target (rt_target r) pid = Some (ts_stop_target iv)" for iv cx x pid
    proof (rule assms(3)[OF that(1)])
      show "good_stop env request iv"
        unfolding good_stop_def using ttd_stop_target_good[OF c(3) that(3)] c(2) that(2) by simp
    qed
    have "P (tg_os (m\<lparr>tg_job := j\<rparr>))" using assms(1) by simp
    then have "P (tg_os n)"
      by (rule record_admitted_safe[where P = P, OF admitted(5)]) (erule (3) run, erule (2) stop)
    then show ?thesis by (simp add: admitted(6))
  qed
  then show ?thesis by (simp add: run)
qed

lemma recorder_gets_checked_requests_witness:
  "list_all (good_run demo_ttd_env demo_recording_request)
     (tg_os (snd (record_ttd demo_ttd_env demo_recorder demo_recording_request demo_tool_context (demo_recordings None []))))"
  by (rule recorder_gets_checked_requests
      [where P = "list_all (good_run demo_ttd_env demo_recording_request)"])
    (auto simp: demo_recordings_def demo_recorder_def)

text \<open>
  One recording at a time: whatever becomes of a recording, afterwards the slot of the one job is what
  it was before; and while another recording holds it, a request is refused before anything is written or
  run.
\<close>

theorem recording_slot_released:
  "tg_job (snd (record_ttd env runner request tc m)) = tg_job m
   \<and> (job_active (tg_job m) \<noteq> None \<longrightarrow>
        isl (fst (record_ttd env runner request tc m))
        \<and> tg_os (snd (record_ttd env runner request tc m)) = tg_os m
        \<and> tg_artifacts (snd (record_ttd env runner request tc m)) = tg_artifacts m)"
proof -
  obtain res m' where run: "record_ttd env runner request tc m = (res, m')" by (metis surj_pair)
  from run have "tg_job m' = tg_job m
      \<and> (job_active (tg_job m) \<noteq> None \<longrightarrow> isl res \<and> tg_os m' = tg_os m \<and> tg_artifacts m' = tg_artifacts m)"
  proof (cases rule: record_ttd_cases)
    case (refused e)
    then show ?thesis by simp
  next
    case (admitted r exe j n)
    from record_admitted_job[OF admitted(5)] admitted(2-4,6) show ?thesis by (simp add: job_drop_def)
  qed
  then show ?thesis by (simp add: run)
qed

lemma recording_slot_released_witness:
  "isl (fst (record_ttd demo_ttd_env demo_recorder demo_recording_request demo_tool_context (demo_recordings (Some 3) [])))"
  using recording_slot_released[of demo_ttd_env demo_recorder demo_recording_request demo_tool_context "demo_recordings (Some 3) []"]
  by (simp add: demo_recordings_def)

text \<open>
  C20. The result of a recording tells what happened. The recorder was run exactly once, on the checked request, with
  the directory of the recording as its output; the only other thing it was asked, and only after a timeout, is to
  stop, once: the machine afterwards is the one that these calls left. Status, reason, exit code and error are what
  the exit of that run and the traces demand (a recorder that could not be run is a failed recording; a timeout is no
  error; success needs a trace). The traces, indexes and logs listed are exactly the files with their extensions in
  the directory of the recording, each once and in the order of their names, and \<open>recording.json\<close> holds the same values.
\<close>

theorem ttd_result_agrees:
  assumes "record_ttd env runner request tc m = (Inr result, m')"
  shows "\<exists>r exe iv cx ex.
      check_recording env (tg_ttd_dir m) request = Inr (r, exe)
    \<and> one_run runner iv cx ex (tg_os m) (tg_os m')
    \<and> ti_ttd_exe iv = exe \<and> ti_timeout_ms iv = rt_timeout_ms request
    \<and> ti_args iv = build_ttd_args (rt_target r) (rt_options request)
         (te_path_text env (ttd_recording_traces_dir (tg_artifacts m') (te_recording_id env)))
    \<and> ttd_outcome ex result \<and> ttd_found env runner result m' \<and> ttd_written env r result m'"
  using assms
proof (cases rule: record_ttd_cases)
  case (refused e)
  then show ?thesis by simp
next
  case (admitted r exe j n)
  note c = check_recording_sound[OF admitted(1)]
  obtain k where k: "run_recorder env runner r exe tc k = (Inr result, n)" "tg_os k = tg_os m"
    using admitted(5) by (auto simp: record_admitted_def split: prod.splits sum.splits)
  obtain iv cx ex where e: "one_run runner iv cx ex (tg_os k) (tg_os n)" "ti_ttd_exe iv = exe" "ti_timeout_ms iv = rt_timeout_ms r"
    "ti_args iv = build_ttd_args (rt_target r) (rt_options r)
       (te_path_text env (ttd_recording_traces_dir (tg_artifacts n) (te_recording_id env)))"
    "ttd_outcome ex result" "ttd_found env runner result n" "ttd_written env r result n"
    by (rule run_recorder_result[OF k(1)])
  have "ttd_found env runner result m'" "ttd_written env r result m'"
    using e(6,7) admitted(6) by (simp_all add: ttd_found_def ttd_written_def)
  with e(1-5) admitted(1,6) k(2) c(4,5) show ?thesis
    by (intro exI[of _ r] exI[of _ exe] exI[of _ iv] exI[of _ cx] exI[of _ ex]) simp
qed

lemma ttd_result_agrees_witness:
  "\<exists>result m'. record_ttd demo_ttd_env demo_recorder demo_recording_request demo_tool_context (demo_recordings None []) = (Inr result, m')
     \<and> tr_status result = TtdCompleted \<and> map ar_path (ta_traces (tr_artifacts result)) = [[''a.run'']] \<and> length (tg_os m') = 1"
proof -
  obtain result m' where run: "record_ttd demo_ttd_env demo_recorder demo_recording_request demo_tool_context (demo_recordings None [])
      = (Inr result, m')"
    using demo_recording_runs by blast
  obtain iv cx ex where e: "one_run demo_recorder iv cx ex [] (tg_os m')"
    "ttd_outcome ex result" "ttd_found demo_ttd_env demo_recorder result m'"
    using ttd_result_agrees[OF run] by (auto simp: demo_recordings_def)
  have ext: "lower_extension [97, 46, 114, 117, 110] = chars ''run''"
    by (simp add: lower_extension_def extension_of_def file_name_of_def is_separator_def is_surrogate_def
        to_ascii_lowercase_def chars_def is_ascii_alphabetic_def)
  obtain es where es: "ta_traces (tr_artifacts result) = map (\<lambda>d. \<lparr>ar_kind = TtdTrace, ar_path = de_path d\<rparr>) es"
    "mset es = {#\<lparr>de_path = [''a.run''], de_text = [97, 46, 114, 117, 110], de_is_file = True\<rparr>#}"
    using e(3) by (auto simp: ttd_found_def demo_recorder_def listed_def ext Let_def)
  then have t: "map ar_path (ta_traces (tr_artifacts result)) = [[''a.run'']]" "ta_traces (tr_artifacts result) \<noteq> []"
    by auto
  have o: "ex = Inr \<lparr>tx_exit_code = Some 0, tx_timed_out = False\<rparr>" "tg_os m' = [iv]"
    using e(1) by (auto simp: one_run_def demo_recorder_def)
  then have "tr_status result = TtdCompleted" using e(2) t(2) by (auto simp: ttd_outcome_def)
  with run t(1) o(2) show ?thesis by (intro exI[of _ result] exI[of _ m']) simp
qed

section \<open>Waiting for the recorder\<close>

lemma wait_for_recorder_ends:
  assumes "\<And>n. 25 * n \<le> elapsed n" "timeout \<le> 25 * (n + fuel)"
  shows "wait_for_recorder (Suc fuel) polls elapsed killed n timeout \<noteq> None"
  using assms(2)
proof (induction fuel arbitrary: n)
  case 0
  then show ?case using assms(1)[of n] by (auto split: sum.split option.split)
next
  case (Suc fuel)
  show ?case using Suc.IH[of "Suc n"] Suc.prems
    by (subst wait_for_recorder.simps) (auto split: sum.split option.split)
qed

text \<open>
  With looks at least 25 ms apart, a timeout of \<open>t\<close> ms needs at most \<open>t div 25 + 2\<close> of them, whatever they
  give; a recorder that is seen to have ended is not reported as timed out.
\<close>

theorem run_ttd_process_ends:
  assumes "\<And>n. 25 * n \<le> elapsed n"
  shows "run_ttd_process os show_path (timeout div 25 + 2) polls elapsed killed exe args timeout out err cx \<noteq> None"
proof -
  define fuel where "fuel = timeout div 25 + 2"
  have "timeout \<le> 25 * (0 + (timeout div 25 + 1))" using dividend_less_times_div[of 25 timeout] by simp
  from wait_for_recorder_ends[of elapsed, OF assms this]
  have ends: "wait_for_recorder fuel polls elapsed killed 0 timeout \<noteq> None"
    unfolding fuel_def add_2_eq_Suc' Suc_eq_plus1[symmetric] .
  define spec where "spec = (process_launch_spec_new exe)
      \<lparr>pls_args := args, pls_stdout := StdioFile (show_path out), pls_stderr := StdioFile (show_path err)\<rparr>"
  show ?thesis
    unfolding run_ttd_process_def Let_def fuel_def[symmetric] spec_def[symmetric]
    using ends by (cases "windows_spawn_process os spec cx") (simp_all only: sum.case option.distinct option.map_disc_iff not_False_eq_True)
qed

end
