(* ===== verification/Paths.thy ===== *)
theory Paths
  imports Os_Path
begin

text \<open>
  Paths with their components: what the configuration and the search for the debugger engine share. How a
  text splits into components depends on the platform and is a parameter of the definitions that split.
\<close>

text \<open>A path is its text and its components; a \<open>PathBuf\<close> that the code builds by pushing components has
  the text and the components that \<open>PathBuf::push\<close> gives it on Windows.\<close>

record os_path =
  op_text :: os_text
  op_components :: "path_component list"

definition drive_only :: "os_text \<Rightarrow> bool" where
  "drive_only t = (length t = 2 \<and> is_ascii_alphabetic (t ! 0) \<and> t ! 1 = 58)"

definition append_name :: "os_text \<Rightarrow> os_text \<Rightarrow> os_text" where
  "append_name t n = (if t = [] \<or> is_separator (last t) \<or> drive_only t then t @ n else t @ [backslash] @ n)"

text \<open>A name that begins like a drive replaces the whole path when it is pushed, and is then read as a prefix with
  a name behind it.\<close>

definition drive_prefixed :: "os_text \<Rightarrow> bool" where
  "drive_prefixed n = (2 \<le> length n \<and> is_ascii_alphabetic (n ! 0) \<and> n ! 1 = 58)"

definition push_name :: "os_text \<Rightarrow> os_text \<Rightarrow> os_text" where
  "push_name t n = (if drive_prefixed n then n else append_name t n)"

definition drive_components :: "os_text \<Rightarrow> path_component list" where
  "drive_components n =
     Prefix (take 2 n)
     # (let r = drop 2 n
        in if r = [] then [] else if r = [dot] then [CurDir] else if r = [dot, dot] then [ParentDir] else [Normal r])"

fun push_component :: "path_component list \<Rightarrow> path_component \<Rightarrow> path_component list" where
  "push_component cs (Prefix p) = [Prefix p]"
| "push_component cs RootDir = (case cs of Prefix p # _ \<Rightarrow> [Prefix p, RootDir] | _ \<Rightarrow> [RootDir])"
| "push_component cs CurDir = cs @ [CurDir]"
| "push_component cs ParentDir = cs @ [ParentDir]"
| "push_component cs (Normal n) = (if drive_prefixed n then drive_components n else cs @ [Normal n])"

text \<open>The text of a path with these components.\<close>

fun append_component :: "os_text \<Rightarrow> path_component \<Rightarrow> os_text" where
  "append_component t (Prefix p) = p"
| "append_component t RootDir = t @ [backslash]"
| "append_component t CurDir = append_name t [dot]"
| "append_component t ParentDir = append_name t [dot, dot]"
| "append_component t (Normal n) = append_name t n"

definition path_of :: "path_component list \<Rightarrow> os_path" where
  "path_of cs = \<lparr>op_text = foldl append_component [] cs, op_components = cs\<rparr>"

definition path_join :: "os_path \<Rightarrow> utext \<Rightarrow> os_path" where
  "path_join p name = \<lparr>op_text = push_name (op_text p) name, op_components = push_component (op_components p) (Normal name)\<rparr>"

text \<open>\<open>Path::is_absolute\<close> on Windows: a prefix and a root.\<close>

fun is_absolute :: "path_component list \<Rightarrow> bool" where
  "is_absolute (Prefix _ # RootDir # _) = True"
| "is_absolute _ = False"

fun is_normal :: "path_component \<Rightarrow> bool" where
  "is_normal (Normal _) = True"
| "is_normal _ = False"

definition shown_path :: "os_path \<Rightarrow> string" where
  "shown_path p = display (op_text p)"

definition last_name :: "os_path \<Rightarrow> os_text option" where
  "last_name p =
     (case rev (op_components p) of Normal n # _ \<Rightarrow> Some n | _ \<Rightarrow> None)"

end
