(* ===== verification/Runtime.thy ===== *)
theory Runtime
  imports Proxy Paths
begin

text \<open>
  The configuration of the server (\<open>dbgflow-mcp/src/runtime.rs\<close>): the command line, the configuration
  file, the paths in it with their checks, and the reading of the command line of an installed service.
  Errors are texts. What \<open>toml\<close> makes of the file, the file system, the variables of the process and the
  parts of \<open>Path\<close> that depend on the platform are fields of \<open>runtime_env\<close>.
\<close>

section \<open>Errors\<close>

text \<open>\<open>Option::map(..).transpose()?\<close>, and an error of another type as its text.\<close>

definition check_option :: "('a \<Rightarrow> 'e + 'b) \<Rightarrow> 'a option \<Rightarrow> 'e + 'b option" where
  "check_option f x = (case x of None \<Rightarrow> Inr None | Some v \<Rightarrow> and_then (f v) (\<lambda>w. Inr (Some w)))"

definition error_string :: "'a result \<Rightarrow> string + 'a" where
  "error_string r = (case r of Inl e \<Rightarrow> Inl (error_text (\<lambda>_. '''') e) | Inr v \<Rightarrow> Inr v)"

section \<open>Paths\<close>

record runtime_env =
  re_path :: "os_text \<Rightarrow> path_component list"
  re_is_file :: "os_text \<Rightarrow> bool"
  re_is_dir :: "os_text \<Rightarrow> bool"
  re_lowercase :: "utext \<Rightarrow> utext"
  re_var :: "string \<Rightarrow> os_text option"
  re_proxy_var :: "utext \<Rightarrow> utext option"
  re_current_dir :: "string + os_text"
  re_join :: "os_text \<Rightarrow> os_text \<Rightarrow> os_text"
  re_parse_addr :: "utext \<Rightarrow> string + socket_addr"
  re_ida_install :: "os_text \<Rightarrow> os_path result"
  re_debug :: "utext \<Rightarrow> string"

definition path_new :: "runtime_env \<Rightarrow> os_text \<Rightarrow> os_path" where
  "path_new env t = \<lparr>op_text = t, op_components = re_path env t\<rparr>"

text \<open>\<open>PathBuf::pop\<close> fails at a prefix and at the root.\<close>

fun can_pop :: "path_component list \<Rightarrow> bool" where
  "can_pop cs = (case rev cs of [] \<Rightarrow> False | Prefix _ # _ \<Rightarrow> False | RootDir # _ \<Rightarrow> False | _ \<Rightarrow> True)"

fun normalize_components :: "path_component list \<Rightarrow> path_component list \<Rightarrow> path_component list option" where
  "normalize_components acc [] = Some acc"
| "normalize_components acc (c # cs) =
     (case c of
        CurDir \<Rightarrow> normalize_components acc cs
      | ParentDir \<Rightarrow> if can_pop acc then normalize_components (butlast acc) cs else None
      | other \<Rightarrow> normalize_components (push_component acc other) cs)"

definition normalize_path_lexically :: "os_path \<Rightarrow> string + os_path" where
  "normalize_path_lexically p =
     (case normalize_components [] (op_components p) of
        None \<Rightarrow> Inl (''path escapes its root: '' @ shown_path p)
      | Some cs \<Rightarrow> Inr (path_of cs))"

definition normalize_absolute_required :: "os_path \<Rightarrow> string \<Rightarrow> string + os_path" where
  "normalize_absolute_required p label =
     (if op_text p = [] then Inl (label @ '' must not be empty'')
      else if \<not> is_absolute (op_components p) then Inl (label @ '' must be an absolute path: '' @ shown_path p)
      else normalize_path_lexically p)"

definition normalize_absolute_existing_file :: "runtime_env \<Rightarrow> os_path \<Rightarrow> string \<Rightarrow> string + os_path" where
  "normalize_absolute_existing_file env p label =
     and_then (normalize_absolute_required p label) (\<lambda>p.
       if re_is_file env (op_text p) then Inr p
       else Inl (label @ '' must point to an existing file: '' @ shown_path p))"

definition parse_existing_dir_path :: "runtime_env \<Rightarrow> os_path \<Rightarrow> string \<Rightarrow> string + os_path" where
  "parse_existing_dir_path env p label =
     and_then (normalize_absolute_required p label) (\<lambda>p.
       if re_is_dir env (op_text p) then Inr p
       else Inl (label @ '' must point to an existing directory: '' @ shown_path p))"

definition parse_existing_file_path :: "runtime_env \<Rightarrow> os_path \<Rightarrow> string \<Rightarrow> string + os_path" where
  "parse_existing_file_path env p label = normalize_absolute_existing_file env p label"

definition normalize_cli_path :: "runtime_env \<Rightarrow> os_text \<Rightarrow> string \<Rightarrow> string + os_path" where
  "normalize_cli_path env t label =
     (if t = [] then Inl (label @ '' must not be empty'')
      else if is_absolute (re_path env t) then normalize_path_lexically (path_new env t)
      else case re_current_dir env of
        Inl e \<Rightarrow> Inl (''read current directory for '' @ label @ '': '' @ e)
      | Inr dir \<Rightarrow> normalize_path_lexically (path_new env (re_join env dir t)))"

definition path_starts_with_case_insensitive :: "runtime_env \<Rightarrow> os_path \<Rightarrow> os_path \<Rightarrow> bool" where
  "path_starts_with_case_insensitive env p base =
     (if starts_with_text (op_components p) (op_components base) then True
      else let path = re_lowercase env (to_string_lossy (op_text p));
               base = re_lowercase env (to_string_lossy (op_text base))
           in path = base
              \<or> (case strip_prefix path base of
                    None \<Rightarrow> False
                  | Some r \<Rightarrow> r \<noteq> [] \<and> is_separator (hd r)))"

definition path_eq_case_insensitive :: "os_path \<Rightarrow> os_path \<Rightarrow> bool" where
  "path_eq_case_insensitive l r =
     eq_ignore_ascii_case (to_string_lossy (op_text l)) (to_string_lossy (op_text r))"

section \<open>The install root\<close>

definition GUARDED_ROOTS :: "(string \<times> string) list" where
  "GUARDED_ROOTS =
     [(''USERPROFILE'', ''the user profile root''), (''LOCALAPPDATA'', ''LOCALAPPDATA''), (''APPDATA'', ''APPDATA''),
      (''ProgramData'', ''ProgramData''), (''ProgramFiles'', ''ProgramFiles''), (''ProgramFiles(x86)'', ''ProgramFiles(x86)'')]"

fun reject_guarded_roots :: "runtime_env \<Rightarrow> os_path \<Rightarrow> (string \<times> string) list \<Rightarrow> string + unit" where
  "reject_guarded_roots env p [] = Inr ()"
| "reject_guarded_roots env p ((key, label) # keys) =
     (case re_var env key of
        None \<Rightarrow> reject_guarded_roots env p keys
      | Some root \<Rightarrow>
          and_then (normalize_path_lexically (path_new env root)) (\<lambda>root.
            if path_eq_case_insensitive p root
            then Inl (''service.install_root must not be '' @ label @ '': '' @ shown_path p)
            else reject_guarded_roots env p keys))"

definition HIGH_LEVEL_DIRS :: "os_path list" where
  "HIGH_LEVEL_DIRS =
     [path_of [Prefix (lit ''C:''), RootDir, Normal (lit ''Users'')],
      path_of [Prefix (lit ''C:''), RootDir, Normal (lit ''ProgramData'')]]"

definition reject_shallow_profile_child :: "runtime_env \<Rightarrow> os_path \<Rightarrow> string + unit" where
  "reject_shallow_profile_child env p =
     (case re_var env ''USERPROFILE'' of
        None \<Rightarrow> Inr ()
      | Some t \<Rightarrow>
          and_then (normalize_path_lexically (path_new env t)) (\<lambda>user_profile.
            if path_starts_with_case_insensitive env p user_profile
               \<and> (case re_var env ''LOCALAPPDATA'' of
                     None \<Rightarrow> True
                   | Some root \<Rightarrow> \<not> path_starts_with_case_insensitive env p (path_new env root))
               \<and> length (op_components p) < length (op_components user_profile) + 2
            then Inl (''service.install_root must be a dedicated child directory under the user profile: '' @ shown_path p)
            else Inr ()))"

definition reject_dangerous_install_root :: "runtime_env \<Rightarrow> os_path \<Rightarrow> string + unit" where
  "reject_dangerous_install_root env p =
     (if length (op_components p) \<le> 2
      then Inl (''service.install_root must not be a filesystem root: '' @ shown_path p)
      else if case last_name p of None \<Rightarrow> True | Some n \<Rightarrow> \<not> eq_ignore_ascii_case n (lit ''dbgflow'')
      then Inl (''service.install_root must be a dedicated 'dbgflow' directory: '' @ shown_path p)
      else and_then (reject_guarded_roots env p GUARDED_ROOTS) (\<lambda>_.
        if list_ex (path_eq_case_insensitive p) HIGH_LEVEL_DIRS
        then Inl (''service.install_root must not be a high-level system directory: '' @ shown_path p)
        else reject_shallow_profile_child env p))"

section \<open>The configuration file\<close>

record raw_proxy_config =
  xp_mode :: utext
  xp_url :: "utext option"
  xp_env :: "(utext \<times> utext) list option"

record raw_process_config =
  xr_child_identity :: "utext option"
  xr_fallback_child_identity :: "utext option"
  xr_elevate_if_admin :: "bool option"

record raw_ida_config =
  xi_install_dir :: "os_text option"
  xi_python_executable :: "os_text option"
  xi_vendor_src_dir :: "os_text option"
  xi_max_workers :: "nat option"

record raw_runtime_config =
  xc_version :: nat
  xc_name :: utext
  xc_display_name :: utext
  xc_install_root :: os_text
  xc_bind :: utext
  xc_data_dir :: os_text
  xc_dbgeng_dir :: "os_text option"
  xc_symbol_path :: "utext option"
  xc_ttd_dir :: "os_text option"
  xc_ida :: "raw_ida_config option"
  xc_process :: "raw_process_config option"
  xc_proxy :: "raw_proxy_config option"

record app_config =
  ap_bind :: socket_addr
  ap_data_dir :: os_path
  ap_proxy :: proxy_environment
  ap_process_launch :: process_launch_config
  ap_ttd_dir :: "os_path option"
  ap_dbgeng_dir :: "os_path option"
  ap_ida_install_dir :: "os_path option"
  ap_ida_python_executable :: "os_path option"
  ap_ida_vendor_src_dir :: "os_path option"
  ap_ida_max_workers :: "nat option"
  ap_symbol_path :: "utext option"

record service_settings =
  sv_name :: utext
  sv_display_name :: utext
  sv_install_root :: os_path

record runtime_config =
  rc_config_path :: os_path
  rc_service :: service_settings
  rc_app :: app_config

definition validate_service_name :: "utext \<Rightarrow> string + unit" where
  "validate_service_name v =
     (if trim v = [] then Inl ''service name must not be empty''
      else if \<exists>ch \<in> set v. ch = 47 \<or> ch = 92 \<or> ch = 42 \<or> ch = 63 \<or> ch = 91 \<or> ch = 93 \<or> is_control ch
      then Inl ''service name must not contain path separators, wildcards, or control characters''
      else Inr ())"

definition parse_service_name :: "utext \<Rightarrow> string + utext" where
  "parse_service_name v = and_then (validate_service_name v) (\<lambda>_. Inr v)"

definition parse_bind :: "runtime_env \<Rightarrow> utext \<Rightarrow> string + socket_addr" where
  "parse_bind env v =
     (case re_parse_addr env v of
        Inl e \<Rightarrow> Inl (''invalid bind address '' @ string_of v @ '': '' @ e)
      | Inr bind \<Rightarrow> if is_loopback (sa_ip bind) then Inr bind else Inl ''bind address must be loopback'')"

definition parse_dir_with ::
    "runtime_env \<Rightarrow> os_path \<Rightarrow> string \<Rightarrow> (os_path \<Rightarrow> bool) \<Rightarrow> string \<Rightarrow> string + os_path" where
  "parse_dir_with env p label ok what =
     and_then (parse_existing_dir_path env p label) (\<lambda>p.
       if ok p then Inr p else Inl (label @ what @ shown_path p))"

definition parse_dbgeng_dir_path :: "runtime_env \<Rightarrow> os_path \<Rightarrow> string \<Rightarrow> string + os_path" where
  "parse_dbgeng_dir_path env p label =
     parse_dir_with env p label (\<lambda>p. re_is_file env (op_text (path_join p (lit ''dbgeng.dll''))))
       '' must point to a directory containing dbgeng.dll: ''"

definition parse_ttd_dir_path :: "runtime_env \<Rightarrow> os_path \<Rightarrow> string \<Rightarrow> string + os_path" where
  "parse_ttd_dir_path env p label =
     parse_dir_with env p label (\<lambda>p. re_is_file env (op_text (path_join p (lit ''TTD.exe''))))
       '' must point to a directory containing TTD.exe: ''"

definition parse_ida_vendor_src_dir :: "runtime_env \<Rightarrow> os_path \<Rightarrow> string \<Rightarrow> string + os_path" where
  "parse_ida_vendor_src_dir env p label =
     parse_dir_with env p label (\<lambda>p. re_is_dir env (op_text (path_join p (lit ''ida_pro_mcp''))))
       '' must point to a vendored ida-pro-mcp src directory containing ida_pro_mcp: ''"

definition parse_ida_install_dir_path :: "runtime_env \<Rightarrow> os_path \<Rightarrow> string \<Rightarrow> string + os_path" where
  "parse_ida_install_dir_path env p label =
     and_then (parse_existing_dir_path env p label) (\<lambda>p. error_string (re_ida_install env (op_text p)))"

definition parse_ida_max_workers :: "nat \<Rightarrow> string + nat" where
  "parse_ida_max_workers n =
     (if n = 0 then Inl ''reverse.ida.max_workers must be greater than zero'' else Inr n)"

definition infer_ttd_dir_from_dbgeng_dir :: "runtime_env \<Rightarrow> os_path option \<Rightarrow> os_path option" where
  "infer_ttd_dir_from_dbgeng_dir env dbgeng_dir =
     (case dbgeng_dir of
        None \<Rightarrow> None
      | Some dir \<Rightarrow>
          (let ttd_dir = path_join dir (lit ''ttd'')
           in if re_is_file env (op_text (path_join ttd_dir (lit ''TTD.exe''))) then Some ttd_dir else None))"

definition parse_symbol_path :: "utext \<Rightarrow> string \<Rightarrow> string + utext" where
  "parse_symbol_path v label =
     (if trim v = [] then Inl (label @ '' must not be empty'')
      else if \<exists>ch \<in> set v. ch = 0 \<or> ch = 13 \<or> ch = 10 \<or> ch = 8232 \<or> ch = 8233 \<or> is_control ch
      then Inl (label @ '' contains unsupported control characters'')
      else Inr v)"

definition is_known_proxy_key :: "utext \<Rightarrow> bool" where
  "is_known_proxy_key key = (key \<in> set ALL_PROXY_KEYS)"

definition dquoted :: "string \<Rightarrow> string" where
  "dquoted s = [CHR 0x22] @ s @ [CHR 0x22]"

text \<open>The entries of the table \<open>proxy.env\<close> in the order of the hash map.\<close>

fun check_proxy_env :: "(utext \<times> utext) list \<Rightarrow> string + unit" where
  "check_proxy_env [] = Inr ()"
| "check_proxy_env ((key, v) # env) =
     (if \<not> is_known_proxy_key key then Inl (''proxy.env key is not supported: '' @ string_of key)
      else if v = [] then Inl (''proxy.env value must not be empty for key: '' @ string_of key)
      else check_proxy_env env)"

definition proxy_from_config :: "raw_proxy_config option \<Rightarrow> string + proxy_environment" where
  "proxy_from_config config =
     (case config of
        None \<Rightarrow> Inr proxy_none
      | Some c \<Rightarrow>
          (if xp_mode c = chars ''none'' then Inr proxy_none
           else if xp_mode c = chars ''disabled'' then Inr proxy_disabled
           else if xp_mode c = chars ''url''
           then (case xp_url c of
                   None \<Rightarrow> Inl (''proxy.url is required when proxy.mode = '' @ dquoted ''url'')
                 | Some url \<Rightarrow> error_string (from_cli_proxy_url url))
           else if xp_mode c = chars ''env''
           then (let env = (case xp_env c of None \<Rightarrow> [] | Some e \<Rightarrow> e)
                 in and_then (check_proxy_env env) (\<lambda>_. error_string (from_environment_map (map_of env))))
           else Inl (''proxy.mode must be one of none, disabled, url, env; got '' @ string_of (xp_mode c))))"

definition parse_child_identity :: "runtime_env \<Rightarrow> utext \<Rightarrow> string \<Rightarrow> string + child_identity" where
  "parse_child_identity env v label =
     (if v = chars ''current_process'' then Inr CurrentProcess
      else if v = chars ''mcp_peer_session'' then Inr McpPeerSession
      else if v = chars ''active_interactive_session'' then Inr ActiveInteractiveSession
      else Inl (label @ '' must be one of current_process, mcp_peer_session, active_interactive_session; got ''
                @ re_debug env v))"

definition parse_fallback_child_identity :: "runtime_env \<Rightarrow> utext \<Rightarrow> string \<Rightarrow> string + fallback_child_identity" where
  "parse_fallback_child_identity env v label =
     (if v = chars ''current_process'' then Inr FallbackCurrentProcess
      else if v = chars ''active_interactive_session'' then Inr FallbackActiveInteractiveSession
      else Inl (label @ '' must be one of current_process, active_interactive_session; got '' @ re_debug env v))"

definition process_launch_from_config :: "runtime_env \<Rightarrow> raw_process_config option \<Rightarrow> string + process_launch_config" where
  "process_launch_from_config env config =
     (let d = process_launch_config_default in
      case config of
        None \<Rightarrow> Inr d
      | Some c \<Rightarrow>
          and_then (check_option (\<lambda>v. parse_child_identity env v ''process.child_identity'') (xr_child_identity c)) (\<lambda>child.
          and_then (check_option (\<lambda>v. parse_fallback_child_identity env v ''process.fallback_child_identity'')
              (xr_fallback_child_identity c)) (\<lambda>fallback.
            Inr \<lparr>plc_child_identity = (case child of Some i \<Rightarrow> i | None \<Rightarrow> plc_child_identity d),
                 plc_fallback_child_identity = (case fallback of Some i \<Rightarrow> i | None \<Rightarrow> plc_fallback_child_identity d),
                 plc_elevate_if_admin =
                   (case xr_elevate_if_admin c of Some b \<Rightarrow> b | None \<Rightarrow> plc_elevate_if_admin d)\<rparr>)))"

end
