(* ===== verification/Runtime_Options.thy ===== *)
theory Runtime_Options
  imports Runtime
begin

text \<open>
  The second half of \<open>dbgflow-mcp/src/runtime.rs\<close>: loading the configuration file, the options of the
  commands, the command line of the installed service read back, and the check before the install root is
  removed; and the choice of the command in \<open>main.rs\<close>.
\<close>

section \<open>Loading the configuration\<close>

text \<open>Reading the file as text, and what \<open>toml\<close> makes of it.\<close>

record config_files =
  cf_read :: "os_text \<Rightarrow> string + utext"
  cf_toml :: "utext \<Rightarrow> string + raw_runtime_config"

definition CONFIG_VERSION :: nat where "CONFIG_VERSION = 1"

text \<open>The paths of the file: install root and data directory, the latter and the file below the former.\<close>

definition check_layout :: "runtime_env \<Rightarrow> os_path \<Rightarrow> raw_runtime_config \<Rightarrow> string + os_path \<times> os_path \<times> socket_addr" where
  "check_layout env config_path raw =
     and_then (normalize_absolute_required (path_new env (xc_install_root raw)) ''service.install_root'') (\<lambda>install_root.
     and_then (reject_dangerous_install_root env install_root) (\<lambda>_.
     and_then (normalize_absolute_required (path_new env (xc_data_dir raw)) ''server.data_dir'') (\<lambda>data_dir.
     and_then (parse_bind env (xc_bind raw)) (\<lambda>bind.
       if \<not> path_starts_with_case_insensitive env config_path install_root
       then Inl (''config path must be under service.install_root: '' @ shown_path config_path)
       else if \<not> path_starts_with_case_insensitive env data_dir install_root
       then Inl (''server.data_dir must be under service.install_root: '' @ shown_path data_dir)
       else Inr (install_root, data_dir, bind)))))"

definition ida_field :: "(raw_ida_config \<Rightarrow> 'a option) \<Rightarrow> raw_runtime_config \<Rightarrow> 'a option" where
  "ida_field f raw = Option.bind (xc_ida raw) f"

definition check_app :: "runtime_env \<Rightarrow> raw_runtime_config \<Rightarrow> os_path \<Rightarrow> socket_addr \<Rightarrow> string + app_config" where
  "check_app env raw data_dir bind =
     (let at = (\<lambda>f. check_option (\<lambda>t. f (path_new env t))) in
      and_then (at (\<lambda>p. parse_dbgeng_dir_path env p ''debugger.dbgeng_dir'') (xc_dbgeng_dir raw)) (\<lambda>dbgeng_dir.
      and_then (check_option (\<lambda>v. parse_symbol_path v ''debugger.symbol_path'') (xc_symbol_path raw)) (\<lambda>symbol_path.
      and_then (at (\<lambda>p. parse_ttd_dir_path env p ''tools.ttd_dir'') (xc_ttd_dir raw)) (\<lambda>ttd_dir.
      and_then (at (\<lambda>p. parse_ida_install_dir_path env p ''reverse.ida.install_dir'') (ida_field xi_install_dir raw))
        (\<lambda>ida_install_dir.
      and_then (at (\<lambda>p. parse_existing_file_path env p ''reverse.ida.python_executable'') (ida_field xi_python_executable raw))
        (\<lambda>ida_python_executable.
      and_then (at (\<lambda>p. parse_ida_vendor_src_dir env p ''reverse.ida.vendor_src_dir'') (ida_field xi_vendor_src_dir raw))
        (\<lambda>ida_vendor_src_dir.
      and_then (check_option parse_ida_max_workers (ida_field xi_max_workers raw)) (\<lambda>ida_max_workers.
      and_then (proxy_from_config (xc_proxy raw)) (\<lambda>proxy.
      and_then (process_launch_from_config env (xc_process raw)) (\<lambda>process_launch.
        Inr \<lparr>ap_bind = bind, ap_data_dir = data_dir, ap_proxy = proxy, ap_process_launch = process_launch,
             ap_ttd_dir = (case ttd_dir of Some d \<Rightarrow> Some d | None \<Rightarrow> infer_ttd_dir_from_dbgeng_dir env dbgeng_dir),
             ap_dbgeng_dir = dbgeng_dir, ap_ida_install_dir = ida_install_dir,
             ap_ida_python_executable = ida_python_executable, ap_ida_vendor_src_dir = ida_vendor_src_dir,
             ap_ida_max_workers = ida_max_workers, ap_symbol_path = symbol_path\<rparr>))))))))))"

definition from_raw :: "runtime_env \<Rightarrow> os_path \<Rightarrow> raw_runtime_config \<Rightarrow> string + runtime_config" where
  "from_raw env config_path raw =
     (if xc_version raw \<noteq> CONFIG_VERSION
      then Inl (''unsupported config version '' @ show_nat (xc_version raw) @ ''; expected '' @ show_nat CONFIG_VERSION)
      else and_then (validate_service_name (xc_name raw)) (\<lambda>_.
        if trim (xc_display_name raw) = [] then Inl ''service.display_name must not be empty''
        else and_then (check_layout env config_path raw) (\<lambda>(install_root, data_dir, bind).
        and_then (check_app env raw data_dir bind) (\<lambda>app.
          Inr \<lparr>rc_config_path = config_path,
               rc_service = \<lparr>sv_name = xc_name raw, sv_display_name = xc_display_name raw, sv_install_root = install_root\<rparr>,
               rc_app = app\<rparr>))))"

definition load_config :: "runtime_env \<Rightarrow> config_files \<Rightarrow> os_path \<Rightarrow> string + runtime_config" where
  "load_config env files path =
     and_then (normalize_absolute_existing_file env path ''--config'') (\<lambda>config_path.
       case cf_read files (op_text config_path) of
         Inl e \<Rightarrow> Inl (''read config '' @ shown_path config_path @ '': '' @ e)
       | Inr contents \<Rightarrow>
           (case cf_toml files contents of
              Inl e \<Rightarrow> Inl (''parse config '' @ shown_path config_path @ '': '' @ e)
            | Inr raw \<Rightarrow> from_raw env config_path raw))"

section \<open>Options\<close>

text \<open>\<open>OsString::into_string\<close>.\<close>

definition into_string :: "os_text \<Rightarrow> string \<Rightarrow> string + utext" where
  "into_string t error = (if list_ex is_surrogate t then Inl error else Inr t)"

fun next_value :: "os_text list \<Rightarrow> string \<Rightarrow> string + utext \<times> os_text list" where
  "next_value [] name = Inl (''missing value for '' @ name)"
| "next_value (v # as) name =
     and_then (into_string v (''value for '' @ name @ '' must be valid UTF-8'')) (\<lambda>v. Inr (v, as))"

fun next_command :: "os_text list \<Rightarrow> string \<Rightarrow> string + utext \<times> os_text list" where
  "next_command [] label = Inl (''missing '' @ label @ '' command'')"
| "next_command (v # as) label =
     and_then (into_string v (label @ '' command must be valid UTF-8'')) (\<lambda>v. Inr (v, as))"

definition parse_non_empty :: "utext \<Rightarrow> string \<Rightarrow> string + utext" where
  "parse_non_empty v label = (if v = [] then Inl (label @ '' must not be empty'') else Inr v)"

text \<open>
  An option with a value stands as \<open>--name=value\<close> or as \<open>--name value\<close>: which option the next argument is,
  with its value and the arguments behind it. The flags have no value.
\<close>

datatype cli_item = CliValue string utext "os_text list" | CliFlag string "os_text list" | CliUnknown utext

fun with_value :: "string list \<Rightarrow> utext \<Rightarrow> (string \<times> utext) option" where
  "with_value [] arg = None"
| "with_value (name # names) arg =
     (case strip_prefix arg (chars name @ [61]) of Some v \<Rightarrow> Some (name, v) | None \<Rightarrow> with_value names arg)"

definition next_item :: "string list \<Rightarrow> string list \<Rightarrow> os_text \<Rightarrow> os_text list \<Rightarrow> string + cli_item" where
  "next_item names flags arg as =
     and_then (into_string arg ''arguments must be valid UTF-8'') (\<lambda>arg.
       case with_value names arg of
         Some (name, v) \<Rightarrow> Inr (CliValue name v as)
       | None \<Rightarrow>
           (case List.find (\<lambda>name. chars name = arg) names of
              Some name \<Rightarrow> and_then (next_value as name) (\<lambda>(v, as). Inr (CliValue name v as))
            | None \<Rightarrow>
                (case List.find (\<lambda>name. chars name = arg) flags of
                   Some name \<Rightarrow> Inr (CliFlag name as)
                 | None \<Rightarrow> Inr (CliUnknown arg))))"

lemma next_item_shorter:
  "next_item names flags arg as = Inr (CliValue name v as') \<Longrightarrow> length as' \<le> length as"
  "next_item names flags arg as = Inr (CliFlag name as') \<Longrightarrow> length as' \<le> length as"
  by (cases as; auto simp: next_item_def and_then_Inr split: option.splits)+

abbreviation HELP_FLAGS :: "string list" where "HELP_FLAGS \<equiv> [''--help'', ''-h'']"

definition unknown_option :: "utext \<Rightarrow> string \<Rightarrow> string" where
  "unknown_option other help = ''unknown option: '' @ string_of other @ [CHR 0x0A, CHR 0x0A] @ help"

function required_config_path ::
    "runtime_env \<Rightarrow> string \<Rightarrow> os_path option \<Rightarrow> os_text list \<Rightarrow> string + os_path" where
  "required_config_path env help config_path [] =
     (case config_path of
        Some p \<Rightarrow> Inr p
      | None \<Rightarrow> Inl (''missing required --config <path>'' @ [CHR 0x0A, CHR 0x0A] @ help))"
| "required_config_path env help config_path (arg # as) =
     (case next_item [''--config''] HELP_FLAGS arg as of
        Inl e \<Rightarrow> Inl e
      | Inr (CliValue _ v as') \<Rightarrow>
          (case normalize_absolute_existing_file env (path_new env v) ''--config'' of
             Inl e \<Rightarrow> Inl e
           | Inr p \<Rightarrow> required_config_path env help (Some p) as')
      | Inr (CliFlag _ _) \<Rightarrow> Inl help
      | Inr (CliUnknown other) \<Rightarrow> Inl (unknown_option other help))"
  by pat_completeness auto
termination
  by (relation "measure (\<lambda>(_, _, _, as). length as)") (auto dest: next_item_shorter)

definition parse_required_config_path :: "runtime_env \<Rightarrow> os_text list \<Rightarrow> string \<Rightarrow> string + os_path" where
  "parse_required_config_path env as help = required_config_path env help None as"

text \<open>The options of the direct mode as they are read; a later one replaces an earlier one.\<close>

record legacy_options =
  lo_bind :: socket_addr
  lo_data_dir :: "os_path option"
  lo_proxy_url :: "utext option"
  lo_no_proxy :: bool

definition legacy_option :: "runtime_env \<Rightarrow> string \<Rightarrow> utext \<Rightarrow> legacy_options \<Rightarrow> string + legacy_options" where
  "legacy_option env name v opts =
     (if name = ''--bind'' then and_then (parse_bind env v) (\<lambda>b. Inr (opts\<lparr>lo_bind := b\<rparr>))
      else if name = ''--data-dir''
      then and_then (normalize_cli_path env v ''--data-dir'') (\<lambda>d. Inr (opts\<lparr>lo_data_dir := Some d\<rparr>))
      else and_then (parse_non_empty v ''--proxy-url'') (\<lambda>u. Inr (opts\<lparr>lo_proxy_url := Some u\<rparr>)))"

function legacy_loop :: "runtime_env \<Rightarrow> string \<Rightarrow> legacy_options \<Rightarrow> os_text list \<Rightarrow> string + legacy_options" where
  "legacy_loop env help opts [] = Inr opts"
| "legacy_loop env help opts (arg # as) =
     (case next_item [''--bind'', ''--data-dir'', ''--proxy-url''] (''--no-proxy'' # HELP_FLAGS) arg as of
        Inl e \<Rightarrow> Inl e
      | Inr (CliValue name v as') \<Rightarrow>
          (case legacy_option env name v opts of Inl e \<Rightarrow> Inl e | Inr opts \<Rightarrow> legacy_loop env help opts as')
      | Inr (CliFlag name as') \<Rightarrow>
          (if name = ''--no-proxy'' then legacy_loop env help (opts\<lparr>lo_no_proxy := True\<rparr>) as' else Inl help)
      | Inr (CliUnknown other) \<Rightarrow> Inl (unknown_option other help))"
  by pat_completeness auto
termination
  by (relation "measure (\<lambda>(_, _, _, as). length as)") (auto dest: next_item_shorter)

definition resolve_legacy_proxy :: "runtime_env \<Rightarrow> utext option \<Rightarrow> bool \<Rightarrow> string + proxy_environment" where
  "resolve_legacy_proxy env proxy_url no_proxy =
     (if no_proxy \<and> proxy_url \<noteq> None then Inl ''--proxy-url and --no-proxy cannot be used together''
      else if no_proxy then Inr proxy_disabled
      else case proxy_url of
        Some url \<Rightarrow> error_string (from_cli_proxy_url url)
      | None \<Rightarrow> error_string (from_environment_map (re_proxy_var env)))"

definition parse_legacy_http_options :: "runtime_env \<Rightarrow> string \<Rightarrow> os_text list \<Rightarrow> string + app_config" where
  "parse_legacy_http_options env help as =
     and_then (parse_bind env (chars ''127.0.0.1:7331'')) (\<lambda>bind.
     and_then (legacy_loop env help \<lparr>lo_bind = bind, lo_data_dir = None, lo_proxy_url = None, lo_no_proxy = False\<rparr> as) (\<lambda>opts.
       case lo_data_dir opts of
         None \<Rightarrow> Inl (''missing required --data-dir <path>'' @ [CHR 0x0A, CHR 0x0A] @ help)
       | Some data_dir \<Rightarrow>
           and_then (resolve_legacy_proxy env (lo_proxy_url opts) (lo_no_proxy opts)) (\<lambda>proxy.
             Inr \<lparr>ap_bind = lo_bind opts, ap_data_dir = data_dir, ap_proxy = proxy,
                  ap_process_launch = process_launch_config_default, ap_ttd_dir = None, ap_dbgeng_dir = None,
                  ap_ida_install_dir = None, ap_ida_python_executable = None, ap_ida_vendor_src_dir = None,
                  ap_ida_max_workers = None, ap_symbol_path = None\<rparr>)))"

definition parse_options :: "runtime_env \<Rightarrow> config_files \<Rightarrow> string \<Rightarrow> os_text list \<Rightarrow> string + app_config" where
  "parse_options env files help as =
     (if list_ex (\<lambda>arg. \<not> list_ex is_surrogate arg \<and> (arg = chars ''--config'' \<or> starts_with_text arg (chars ''--config=''))) as
      then and_then (parse_required_config_path env as help) (\<lambda>p.
             and_then (load_config env files p) (\<lambda>c. Inr (rc_app c)))
      else parse_legacy_http_options env help as)"

definition parse_service_process_options ::
    "runtime_env \<Rightarrow> config_files \<Rightarrow> string \<Rightarrow> os_text list \<Rightarrow> string + utext \<times> app_config" where
  "parse_service_process_options env files help as =
     and_then (parse_required_config_path env as help) (\<lambda>p.
     and_then (load_config env files p) (\<lambda>c. Inr (sv_name (rc_service c), rc_app c)))"

definition service_process_options_from_command_line ::
    "runtime_env \<Rightarrow> config_files \<Rightarrow> string \<Rightarrow> os_text list \<Rightarrow> string + utext \<times> app_config" where
  "service_process_options_from_command_line env files help as =
     (case as of
        [] \<Rightarrow> Inl ''missing executable path''
      | _ # as \<Rightarrow>
          and_then (next_command as ''top-level'') (\<lambda>(command, as).
            if command \<noteq> chars ''service'' then Inl (''expected service command, got: '' @ string_of command)
            else and_then (next_command as ''service'') (\<lambda>(subcommand, as).
              if subcommand \<noteq> chars ''run'' then Inl (''expected service run, got service '' @ string_of subcommand)
              else parse_service_process_options env files help as)))"

definition parse_service_install_options ::
    "runtime_env \<Rightarrow> config_files \<Rightarrow> string \<Rightarrow> os_text list \<Rightarrow> string + runtime_config" where
  "parse_service_install_options env files help as =
     and_then (parse_required_config_path env as help) (load_config env files)"

record service_uninstall_config =
  su_service_name :: utext
  su_config_path :: "os_path option"

function uninstall_loop ::
    "runtime_env \<Rightarrow> string \<Rightarrow> utext option \<times> os_path option \<Rightarrow> os_text list \<Rightarrow> string + utext option \<times> os_path option" where
  "uninstall_loop env help opts [] = Inr opts"
| "uninstall_loop env help opts (arg # as) =
     (case next_item [''--service-name'', ''--config''] HELP_FLAGS arg as of
        Inl e \<Rightarrow> Inl e
      | Inr (CliValue name v as') \<Rightarrow>
          (if name = ''--service-name''
           then (case parse_service_name v of
                   Inl e \<Rightarrow> Inl e
                 | Inr n \<Rightarrow> uninstall_loop env help (Some n, snd opts) as')
           else (case normalize_absolute_existing_file env (path_new env v) ''--config'' of
                   Inl e \<Rightarrow> Inl e
                 | Inr p \<Rightarrow> uninstall_loop env help (fst opts, Some p) as'))
      | Inr (CliFlag _ _) \<Rightarrow> Inl help
      | Inr (CliUnknown other) \<Rightarrow> Inl (unknown_option other help))"
  by pat_completeness auto
termination
  by (relation "measure (\<lambda>(_, _, _, as). length as)") (auto dest: next_item_shorter)

definition sq :: "utext \<Rightarrow> string" where
  "sq n = [CHR 0x27] @ string_of n @ [CHR 0x27]"

definition SERVICE_NAME :: utext where "SERVICE_NAME = chars ''dbgflow-mcp''"

definition parse_service_uninstall_options ::
    "runtime_env \<Rightarrow> config_files \<Rightarrow> string \<Rightarrow> os_text list \<Rightarrow> string + service_uninstall_config" where
  "parse_service_uninstall_options env files help as =
     and_then (uninstall_loop env help (None, None) as) (\<lambda>(service_name, config_path).
     and_then
       (case (service_name, config_path) of
          (Some n, Some p) \<Rightarrow>
            and_then (load_config env files p) (\<lambda>c.
              if sv_name (rc_service c) \<noteq> n
              then Inl (''--service-name '' @ sq n @ '' does not match config service.name '' @ sq (sv_name (rc_service c)))
              else Inr n)
        | (Some n, None) \<Rightarrow> Inr n
        | (None, Some p) \<Rightarrow> and_then (load_config env files p) (\<lambda>c. Inr (sv_name (rc_service c)))
        | (None, None) \<Rightarrow> Inr SERVICE_NAME)
       (\<lambda>n. Inr \<lparr>su_service_name = n, su_config_path = config_path\<rparr>))"

text \<open>The arguments of an elevated run.\<close>

definition install_command_args :: "runtime_config \<Rightarrow> os_text list" where
  "install_command_args c = [chars ''service'', chars ''install'', chars ''--config'', op_text (rc_config_path c)]"

definition uninstall_command_args :: "service_uninstall_config \<Rightarrow> os_text list" where
  "uninstall_command_args c =
     [chars ''service'', chars ''uninstall'', chars ''--service-name'', su_service_name c]
     @ (case su_config_path c of None \<Rightarrow> [] | Some p \<Rightarrow> [chars ''--config'', op_text p])"

definition service_launch_arguments :: "runtime_config \<Rightarrow> os_text list" where
  "service_launch_arguments c = [chars ''service'', chars ''run'', chars ''--config'', op_text (rc_config_path c)]"

definition bin_dir :: "runtime_config \<Rightarrow> os_path" where
  "bin_dir c = path_join (sv_install_root (rc_service c)) (lit ''bin'')"

definition installed_exe :: "runtime_config \<Rightarrow> os_path" where
  "installed_exe c = path_join (bin_dir c) (lit ''dbgflow-mcp.exe'')"

text \<open>The variables for the debugger and IDA that the server sets for itself, or removes.\<close>

definition apply_runtime_environment :: "app_config \<Rightarrow> (string \<times> os_text option) list" where
  "apply_runtime_environment c =
     [(''DBGFLOW_DBGENG_DIR'', map_option op_text (ap_dbgeng_dir c)),
      (''DBGFLOW_IDA_DIR'', map_option op_text (ap_ida_install_dir c)),
      (''DBGFLOW_IDA_PYTHON'', map_option op_text (ap_ida_python_executable c)),
      (''DBGFLOW_IDA_PRO_MCP_SRC'', map_option op_text (ap_ida_vendor_src_dir c))]"

section \<open>The command line of the installed service\<close>

text \<open>The loop of \<open>split_windows_command_line\<close>: the arguments so far, the current one, whether inside
  quotation marks, whether inside an argument, and the characters left.\<close>

function split_from :: "utext list \<Rightarrow> utext \<Rightarrow> bool \<Rightarrow> bool \<Rightarrow> utext \<Rightarrow> string + utext list" where
  "split_from args arg in_quotes in_arg [] =
     (if in_quotes then Inl ''service command line has an unterminated quote''
      else Inr (args @ (if in_arg then [arg] else [])))"
| "split_from args arg in_quotes in_arg (ch # cs) =
     (if is_whitespace ch \<and> \<not> in_quotes
      then (if in_arg then split_from (args @ [arg]) [] in_quotes False cs else split_from args arg in_quotes False cs)
      else if ch = backslash
      then (let count = length (takeWhile (\<lambda>c. c = backslash) (ch # cs)); r = dropWhile (\<lambda>c. c = backslash) cs
            in if r \<noteq> [] \<and> hd r = quote_mark
               then (if even count
                     then split_from args (arg @ replicate (count div 2) backslash) (\<not> in_quotes) True (tl r)
                     else split_from args (arg @ replicate (count div 2) backslash @ [quote_mark]) in_quotes True (tl r))
               else split_from args (arg @ replicate count backslash) in_quotes True r)
      else if ch = quote_mark then split_from args arg (\<not> in_quotes) True cs
      else split_from args (arg @ [ch]) in_quotes True cs)"
  by pat_completeness auto
termination
proof (relation "measure (\<lambda>(_, _, _, _, cs). length cs)", goal_cases)
  case (4 args arg q i ch cs count r)
  then show ?case using length_dropWhile_le[of "\<lambda>c. c = backslash" cs] by simp
next
  case (5 args arg q i ch cs count r)
  then show ?case using length_dropWhile_le[of "\<lambda>c. c = backslash" cs] by simp
next
  case (6 args arg q i ch cs count r)
  then show ?case using length_dropWhile_le[of "\<lambda>c. c = backslash" cs] by simp
qed auto

definition split_windows_command_line :: "utext \<Rightarrow> string + utext list" where
  "split_windows_command_line t = split_from [] [] False False t"

record installed_service_command =
  ic_executable_path :: os_path
  ic_config_path :: os_path

fun config_argument :: "utext option \<Rightarrow> utext list \<Rightarrow> string + utext option" where
  "config_argument found [] = Inr found"
| "config_argument found (arg # as) =
     (if arg = chars ''--config''
      then (case as of
              [] \<Rightarrow> Inl ''service command line has --config without a value''
            | v # as' \<Rightarrow> config_argument (Some v) as')
      else case strip_prefix arg (chars ''--config='') of
        Some v \<Rightarrow> config_argument (Some v) as
      | None \<Rightarrow> config_argument found as)"

definition parse_installed_service_command :: "runtime_env \<Rightarrow> utext \<Rightarrow> string + installed_service_command" where
  "parse_installed_service_command env t =
     and_then (split_windows_command_line t) (\<lambda>args.
       if length args < 4 then Inl ''service command line is too short''
       else if args ! 1 \<noteq> chars ''service'' \<or> args ! 2 \<noteq> chars ''run''
       then Inl (''service command line is not '' @ sq (chars ''service run --config <path>''))
       else and_then (config_argument None (drop 3 args)) (\<lambda>config_path.
         case config_path of
           None \<Rightarrow> Inl ''service command line does not include --config <path>''
         | Some p \<Rightarrow> Inr \<lparr>ic_executable_path = path_new env (args ! 0), ic_config_path = path_new env p\<rparr>))"

section \<open>Removing the install root\<close>

definition validate_install_root_removal ::
    "runtime_env \<Rightarrow> runtime_config \<Rightarrow> os_path option \<Rightarrow> string + os_path" where
  "validate_install_root_removal env c exe =
     and_then (normalize_absolute_required (sv_install_root (rc_service c)) ''service.install_root'') (\<lambda>install_root.
     and_then (reject_dangerous_install_root env install_root) (\<lambda>_.
       if \<not> path_starts_with_case_insensitive env (rc_config_path c) install_root
       then Inl (''refusing to remove install root because config is outside it: '' @ shown_path (rc_config_path c))
       else if \<not> path_starts_with_case_insensitive env (ap_data_dir (rc_app c)) install_root
       then Inl (''refusing to remove install root because data_dir is outside it: '' @ shown_path (ap_data_dir (rc_app c)))
       else case exe of
         None \<Rightarrow> Inr install_root
       | Some exe \<Rightarrow>
           and_then (normalize_absolute_required exe ''installed service executable'') (\<lambda>exe.
             if \<not> path_starts_with_case_insensitive env exe install_root
             then Inl (''refusing to remove install root because service executable is outside it: '' @ shown_path exe)
             else Inr install_root)))"

section \<open>Choosing the command\<close>

datatype command_mode = ModeHttp | ModeServiceRun | ModeServiceInstall | ModeServiceUninstall | ModeWorkerSession | ModeHelp

definition parse_command_mode :: "string \<Rightarrow> os_text list \<Rightarrow> string + command_mode" where
  "parse_command_mode help as =
     (case as of
        [] \<Rightarrow> Inl (''missing command'' @ [CHR 0x0A, CHR 0x0A] @ help)
      | command # as \<Rightarrow>
          and_then (into_string command ''command must be valid UTF-8'') (\<lambda>command.
            if command = chars ''worker''
            then (case as of
                    [] \<Rightarrow> Inl ''missing worker kind''
                  | kind # as \<Rightarrow>
                      and_then (into_string kind ''worker kind must be valid UTF-8'') (\<lambda>kind.
                        if kind \<noteq> chars ''session'' then Inl (''unknown worker kind: '' @ string_of kind)
                        else if as \<noteq> [] then Inl ''worker session does not accept extra arguments''
                        else Inr ModeWorkerSession))
            else if command = chars ''http'' then Inr ModeHttp
            else if command = chars ''service''
            then (case as of
                    [] \<Rightarrow> Inl (''missing service command'' @ [CHR 0x0A, CHR 0x0A] @ help)
                  | sub # _ \<Rightarrow>
                      and_then (into_string sub ''service command must be valid UTF-8'') (\<lambda>sub.
                        if sub = chars ''run'' then Inr ModeServiceRun
                        else if sub = chars ''install'' then Inr ModeServiceInstall
                        else if sub = chars ''uninstall'' then Inr ModeServiceUninstall
                        else Inl (''unknown service command: '' @ string_of sub @ [CHR 0x0A, CHR 0x0A] @ help)))
            else if command = chars ''--help'' \<or> command = chars ''-h'' \<or> command = chars ''help'' then Inr ModeHelp
            else Inl (''unknown command: '' @ string_of command @ [CHR 0x0A, CHR 0x0A] @ help)))"

end
