(* ===== verification/Service.thy ===== *)
theory Service
  imports Runtime_Options
begin

text \<open>
  Installing and removing the Windows service (\<open>dbgflow-mcp/src/service.rs\<close>): the service manager, as the
  table of its services, and the file system are the state \<open>service_world\<close>; whether a call fails is
  decided by its number.
\<close>

section \<open>The machine\<close>

text \<open>A service runs or not, and has the command line that it was created with. \<open>sw_removed\<close> keeps what
  \<open>remove_dir_all\<close> was called on, last call first.\<close>

record service_world =
  sw_services :: "utext \<Rightarrow> (bool \<times> utext) option"
  sw_exists :: "os_text \<Rightarrow> bool"
  sw_removed :: "os_text list"
  sw_calls :: nat

text \<open>
  The outside: the error of the \<open>n\<close>-th call if it fails; whether this process is an administrator, why an
  elevated process is not started with some parameters, and why it cannot be waited for; the command line that the crate \<open>windows_service\<close> stores for a
  program and its arguments; what the looks at a service that was told to stop, and at one that was deleted,
  give until the deadline passes; the port; this program; and the answers to \<open>GET /healthz\<close> until the deadline.
\<close>

record service_os =
  so_fail :: "nat \<Rightarrow> string option"
  so_admin :: "string + bool"
  so_launch_error :: "utext \<Rightarrow> string option"
  so_wait_error :: "string option"
  so_escape :: "os_text \<Rightarrow> os_text list \<Rightarrow> utext"
  so_stop_looks :: "(string + bool) list"
  so_gone_looks :: "(string + bool) list"
  so_port_error :: "socket_addr \<Rightarrow> string option"
  so_show_addr :: "socket_addr \<Rightarrow> string"
  so_exe :: "string + os_text"
  so_exe_exists :: bool
  so_health :: "utext option list"

definition attempt ::
    "service_os \<Rightarrow> string \<Rightarrow> (service_world \<Rightarrow> service_world) \<Rightarrow> service_world \<Rightarrow> (string + unit) \<times> service_world" where
  "attempt os message act w =
     (let w' = w\<lparr>sw_calls := sw_calls w + 1\<rparr>
      in case so_fail os (sw_calls w) of Some e \<Rightarrow> (Inl (message @ e), w') | None \<Rightarrow> (Inr (), act w'))"

text \<open>The loops of \<open>wait_service_stopped\<close> and \<open>wait_service_deleted\<close>.\<close>

fun poll_service :: "string \<Rightarrow> (string + bool) list \<Rightarrow> string + unit" where
  "poll_service timed_out [] = Inl timed_out"
| "poll_service timed_out (look # looks) =
     (case look of
        Inl e \<Rightarrow> Inl e
      | Inr True \<Rightarrow> Inr ()
      | Inr False \<Rightarrow> poll_service timed_out looks)"

section \<open>The service manager\<close>

definition for_service :: "string \<Rightarrow> utext \<Rightarrow> string \<Rightarrow> string" where
  "for_service what name after = what @ sq name @ after"

definition open_manager :: "service_os \<Rightarrow> service_world \<Rightarrow> (string + unit) \<times> service_world" where
  "open_manager os w = attempt os ''open service manager: '' id w"

definition open_service_optional ::
    "service_os \<Rightarrow> utext \<Rightarrow> service_world \<Rightarrow> (string + (bool \<times> utext) option) \<times> service_world" where
  "open_service_optional os name w =
     try_then (attempt os (for_service ''open service '' name '': '') id w) (\<lambda>_ w. (Inr (sw_services w name), w))"

definition wait_service_stopped ::
    "service_os \<Rightarrow> utext \<Rightarrow> service_world \<Rightarrow> (string + unit) \<times> service_world" where
  "wait_service_stopped os name w =
     (case poll_service (for_service ''timed out waiting for service '' name '' to stop'') (so_stop_looks os) of
        Inl e \<Rightarrow> (Inl e, w)
      | Inr _ \<Rightarrow>
          (Inr (), w\<lparr>sw_services := (\<lambda>n. if n = name then map_option (\<lambda>(_, c). (False, c)) (sw_services w n)
                                          else sw_services w n)\<rparr>))"

definition stop_and_delete_service ::
    "service_os \<Rightarrow> utext \<Rightarrow> service_world \<Rightarrow> (string + unit) \<times> service_world" where
  "stop_and_delete_service os name w =
     try_then (open_manager os w) (\<lambda>_ w.
     try_then (open_service_optional os name w) (\<lambda>service w.
       case service of
         None \<Rightarrow> (Inr (), w)
       | Some (running, _) \<Rightarrow>
           try_then (attempt os (for_service ''query service '' name '' status: '') id w) (\<lambda>_ w.
           try_then
             (if \<not> running then (Inr (), w)
              else try_then (attempt os (for_service ''stop service '' name '': '') id w) (\<lambda>_ w. wait_service_stopped os name w))
             (\<lambda>_ w.
           try_then (attempt os (for_service ''delete service '' name '': '') (\<lambda>w. w\<lparr>sw_services := (sw_services w)(name := None)\<rparr>) w)
             (\<lambda>_ w.
           (poll_service (for_service ''timed out waiting for service '' name '' to be deleted'') (so_gone_looks os), w))))))"

section \<open>Elevation\<close>

text \<open>\<open>quote_windows_arg\<close> of this file quotes for fewer characters than the one of \<open>process.rs\<close>; the loop is
  the same.\<close>

definition service_needs_quotes :: "utext \<Rightarrow> bool" where
  "service_needs_quotes v = (\<exists>ch \<in> set v. ch = 32 \<or> ch = 9 \<or> ch = 10 \<or> ch = 13 \<or> ch = quote_mark)"

definition service_quote_arg :: "os_text \<Rightarrow> utext" where
  "service_quote_arg arg =
     (let v = to_string_lossy arg
      in if v = [] then [quote_mark, quote_mark]
         else if \<not> service_needs_quotes v then v
         else quote_loop v 0 [quote_mark])"

definition join_windows_command_line :: "os_text list \<Rightarrow> utext" where
  "join_windows_command_line args = join_space (map service_quote_arg args)"

text \<open>
  \<open>run_elevated\<close> starts this program again and waits for it. What the elevated process does with its arguments is
  the parameter \<open>child\<close>, which \<open>main_run\<close> below fills with the program itself; the arguments are what the rules of
  Windows find in the parameters, up to a first NUL. The process ends with exit code 1 if it prints an error.
\<close>

type_synonym service_run = "service_world \<Rightarrow> (string + unit) \<times> service_world"

definition run_elevated ::
    "service_os \<Rightarrow> (os_text list \<Rightarrow> service_run) \<Rightarrow> os_text list \<Rightarrow> service_world \<Rightarrow> (string + u32) \<times> service_world" where
  "run_elevated os child args w =
     (let parameters = join_windows_command_line args in
      case so_launch_error os parameters of
        Some e \<Rightarrow> (Inl e, w)
      | None \<Rightarrow>
          (let (r, w) = child (scan_args (takeWhile (\<lambda>c. c \<noteq> 0) parameters)) w in
           (case so_wait_error os of
              Some e \<Rightarrow> Inl e
            | None \<Rightarrow> Inr (case r of Inl _ \<Rightarrow> 1 | Inr _ \<Rightarrow> 0), w)))"

text \<open>\<open>Ok(true)\<close>: an elevated run did the work.\<close>

definition ensure_elevated ::
    "service_os \<Rightarrow> (os_text list \<Rightarrow> service_run) \<Rightarrow> os_text list \<Rightarrow> service_world \<Rightarrow> (string + bool) \<times> service_world" where
  "ensure_elevated os child args w =
     try_then (so_admin os, w) (\<lambda>admin w.
       if admin then (Inr False, w)
       else try_then (run_elevated os child args w) (\<lambda>code w.
         (if code = 0 then Inr True
          else Inl (''elevated command failed with exit code '' @ show_nat (unat code)), w)))"

section \<open>Installing\<close>

text \<open>The answer to \<open>GET /healthz\<close>: the status of its first line, and the word in its body.\<close>

definition split_at_word :: "utext \<Rightarrow> utext \<Rightarrow> (utext \<times> utext) option" where
  "split_at_word word t =
     map_option (\<lambda>r. (take (length t - length word - length r) t, r)) (after_first word t)"

definition health_ok :: "utext \<Rightarrow> bool" where
  "health_ok response =
     (case split_at_word [13, 10, 13, 10] response of
        None \<Rightarrow> False
      | Some (headers, body) \<Rightarrow>
          (case text_lines headers of
             [] \<Rightarrow> False
           | line # _ \<Rightarrow>
               (case split_whitespace line of
                  _ # code # _ \<Rightarrow> parse_u16 code = Some 200
                | _ \<Rightarrow> False))
          \<and> after_first (chars (dquoted ''status'' @ '':'' @ dquoted ''ok'')) body \<noteq> None)"

definition wait_healthz :: "service_os \<Rightarrow> socket_addr \<Rightarrow> string + unit" where
  "wait_healthz os bind =
     (if list_ex (\<lambda>r. case r of Some response \<Rightarrow> health_ok response | None \<Rightarrow> False) (so_health os) then Inr ()
      else Inl (''service did not pass health check at http://'' @ so_show_addr os bind @ ''/healthz''))"

definition assert_port_available :: "service_os \<Rightarrow> socket_addr \<Rightarrow> string + unit" where
  "assert_port_available os bind =
     (if \<not> is_loopback (sa_ip bind)
      then Inl (''bind address must be loopback; dbgflow does not support remote HTTP access: '' @ so_show_addr os bind)
      else case so_port_error os bind of
        Some e \<Rightarrow> Inl (''bind address '' @ so_show_addr os bind @ '' is not available: '' @ e)
      | None \<Rightarrow> Inr ())"

text \<open>\<open>create_dir_all\<close> makes the directories above as well.\<close>

definition make_dir :: "service_os \<Rightarrow> string \<Rightarrow> os_path \<Rightarrow> service_world \<Rightarrow> (string + unit) \<times> service_world" where
  "make_dir os what dir =
     attempt os (''create '' @ what @ '' directory '' @ shown_path dir @ '': '') 
       (\<lambda>w. w\<lparr>sw_exists := (\<lambda>t. sw_exists w t
          \<or> list_ex (\<lambda>k. t = op_text (path_of (take k (op_components dir)))) [0..<length (op_components dir) + 1])\<rparr>)"

definition create_service :: "service_os \<Rightarrow> runtime_config \<Rightarrow> os_path \<Rightarrow> service_world \<Rightarrow> (string + unit) \<times> service_world" where
  "create_service os c exe w =
     (let name = sv_name (rc_service c) in
      try_then (open_manager os w) (\<lambda>_ w.
      try_then (attempt os (for_service ''create service '' name '': '')
          (\<lambda>w. w\<lparr>sw_services := (sw_services w)(name \<mapsto> (False, so_escape os (op_text exe) (service_launch_arguments c)))\<rparr>) w)
        (\<lambda>_ w. attempt os (for_service ''set service '' name '' description: '') id w)))"

definition start_service :: "service_os \<Rightarrow> utext \<Rightarrow> service_world \<Rightarrow> (string + unit) \<times> service_world" where
  "start_service os name w =
     try_then (open_manager os w) (\<lambda>_ w.
     try_then (attempt os (for_service ''open service '' name '': '') id w) (\<lambda>_ w.
       attempt os (for_service ''start service '' name '': '')
         (\<lambda>w. w\<lparr>sw_services := (\<lambda>n. if n = name then map_option (\<lambda>(_, c). (True, c)) (sw_services w n)
                                    else sw_services w n)\<rparr>) w))"

definition grant_install_root_acl :: "service_os \<Rightarrow> os_path \<Rightarrow> service_world \<Rightarrow> (string + unit) \<times> service_world" where
  "grant_install_root_acl os root w =
     try_then (attempt os (''start icacls.exe for '' @ shown_path root @ '': '') id w) (\<lambda>_ w.
       attempt os (''icacls failed for '' @ shown_path root @ '': '') id w)"

definition install_elevated :: "service_os \<Rightarrow> runtime_config \<Rightarrow> service_world \<Rightarrow> (string + unit) \<times> service_world" where
  "install_elevated os c w =
     try_then (stop_and_delete_service os (sv_name (rc_service c)) w) (\<lambda>_ w.
     try_then (assert_port_available os (ap_bind (rc_app c)), w) (\<lambda>_ w.
     try_then (case so_exe os of Inl e \<Rightarrow> Inl (''resolve current executable: '' @ e) | Inr exe \<Rightarrow> Inr exe, w) (\<lambda>exe w.
       if \<not> so_exe_exists os then (Inl (''current executable was not found: '' @ display exe), w)
       else try_then (make_dir os ''bin'' (bin_dir c) w) (\<lambda>_ w.
            try_then (make_dir os ''data'' (ap_data_dir (rc_app c)) w) (\<lambda>_ w.
            try_then (attempt os (''copy '' @ display exe @ '' to '' @ shown_path (installed_exe c) @ '': '') id w) (\<lambda>_ w.
            try_then (grant_install_root_acl os (sv_install_root (rc_service c)) w) (\<lambda>_ w.
            try_then (create_service os c (installed_exe c) w) (\<lambda>_ w.
            try_then (start_service os (sv_name (rc_service c)) w) (\<lambda>_ w.
            (wait_healthz os (ap_bind (rc_app c)), w))))))))))"

definition install :: "service_os \<Rightarrow> (os_text list \<Rightarrow> service_run) \<Rightarrow> runtime_config \<Rightarrow> service_run" where
  "install os child c w =
     try_then (ensure_elevated os child (install_command_args c) w) (\<lambda>done_elevated w.
       if done_elevated then (Inr (), w) else install_elevated os c w)"

section \<open>Removing\<close>

record uninstall_plan =
  up_service_name :: utext
  up_install_root :: os_path
  up_service_exists :: bool

definition uninstall_plan_from_config ::
    "runtime_env \<Rightarrow> config_files \<Rightarrow> utext \<Rightarrow> os_path \<Rightarrow> os_path option \<Rightarrow> bool \<Rightarrow> string + uninstall_plan" where
  "uninstall_plan_from_config env files name config_path exe exists =
     and_then (load_config env files config_path) (\<lambda>c.
       if sv_name (rc_service c) \<noteq> name
       then Inl (''config service.name '' @ sq (sv_name (rc_service c)) @ '' does not match service '' @ sq name)
       else and_then (validate_install_root_removal env c exe) (\<lambda>root.
         Inr \<lparr>up_service_name = name, up_install_root = root, up_service_exists = exists\<rparr>))"

definition installed_service_command_of ::
    "runtime_env \<Rightarrow> service_os \<Rightarrow> utext \<Rightarrow> service_world \<Rightarrow> (string + installed_service_command option) \<times> service_world" where
  "installed_service_command_of env os name w =
     try_then (open_manager os w) (\<lambda>_ w.
     try_then (open_service_optional os name w) (\<lambda>service w.
       case service of
         None \<Rightarrow> (Inr None, w)
       | Some (_, line) \<Rightarrow>
           try_then (attempt os (for_service ''query service '' name '' config: '') id w) (\<lambda>_ w.
             (case parse_installed_service_command env line of
                Inl e \<Rightarrow> Inl (for_service ''parse service '' name '' command line '' @ sq line @ '': '' @ e
                  @ ''; pass --config <path> to uninstall with an explicit config'')
              | Inr command \<Rightarrow> Inr (Some command), w))))"

definition normalize_existing_config :: "runtime_env \<Rightarrow> config_files \<Rightarrow> os_path \<Rightarrow> string + os_path" where
  "normalize_existing_config env files p = and_then (load_config env files p) (\<lambda>c. Inr (rc_config_path c))"

definition resolve_uninstall_plan ::
    "runtime_env \<Rightarrow> config_files \<Rightarrow> service_os \<Rightarrow> service_uninstall_config \<Rightarrow> service_world
       \<Rightarrow> (string + uninstall_plan) \<times> service_world" where
  "resolve_uninstall_plan env files os request w =
     (let name = su_service_name request in
      case installed_service_command_of env os name w of
        (Inr (Some command), w) \<Rightarrow>
          (and_then
             (case su_config_path request of
                None \<Rightarrow> Inr ()
              | Some explicit \<Rightarrow>
                  and_then (normalize_existing_config env files explicit) (\<lambda>explicit.
                  and_then (normalize_existing_config env files (ic_config_path command)) (\<lambda>installed.
                    if path_eq_case_insensitive explicit installed then Inr ()
                    else Inl (''--config '' @ shown_path explicit @ '' does not match installed service config '' @ shown_path installed))))
             (\<lambda>_. uninstall_plan_from_config env files name (ic_config_path command) (Some (ic_executable_path command)) True), w)
      | (Inr None, w) \<Rightarrow>
          (case su_config_path request of
             None \<Rightarrow> (Inl (for_service ''service '' name '' is not installed and --config was not provided''), w)
           | Some p \<Rightarrow> (uninstall_plan_from_config env files name p None False, w))
      | (Inl e, w) \<Rightarrow>
          (case su_config_path request of
             None \<Rightarrow> (Inl e, w)
           | Some p \<Rightarrow> (uninstall_plan_from_config env files name p None True, w)))"

definition remove_dir_all :: "service_os \<Rightarrow> os_path \<Rightarrow> service_world \<Rightarrow> (string + unit) \<times> service_world" where
  "remove_dir_all os root w =
     attempt os (''remove '' @ shown_path root @ '': '') (\<lambda>w. w\<lparr>sw_exists := (sw_exists w)(op_text root := False)\<rparr>)
       (w\<lparr>sw_removed := op_text root # sw_removed w\<rparr>)"

definition uninstall_elevated ::
    "runtime_env \<Rightarrow> config_files \<Rightarrow> service_os \<Rightarrow> service_uninstall_config \<Rightarrow> service_world
       \<Rightarrow> (string + unit) \<times> service_world" where
  "uninstall_elevated env files os request w =
     try_then (resolve_uninstall_plan env files os request w) (\<lambda>plan w.
     try_then
       (if up_service_exists plan then stop_and_delete_service os (up_service_name plan) w else (Inr (), w)) (\<lambda>_ w.
       if sw_exists w (op_text (up_install_root plan)) then remove_dir_all os (up_install_root plan) w else (Inr (), w)))"

definition uninstall ::
    "runtime_env \<Rightarrow> config_files \<Rightarrow> service_os \<Rightarrow> (os_text list \<Rightarrow> service_run) \<Rightarrow> service_uninstall_config \<Rightarrow> service_run" where
  "uninstall env files os child request w =
     try_then (ensure_elevated os child (uninstall_command_args request) w) (\<lambda>done_elevated w.
       if done_elevated then (Inr (), w) else uninstall_elevated env files os request w)"

section \<open>The program\<close>

text \<open>
  The program with its arguments, as far as it installs and removes: the first machine of the list is what this
  process sees, the others are what the process that it starts elevated sees, and the one that this may start in
  turn. A process that the list has no machine for does not get to do anything.
\<close>

type_synonym machine = "runtime_env \<times> config_files \<times> service_os"

primrec main_run :: "machine list \<Rightarrow> string \<Rightarrow> os_text list \<Rightarrow> service_run" where
  "main_run [] help args w = (Inl [], w)"
| "main_run (m # machines) help args w =
     (case m of (env, files, os) \<Rightarrow>
        try_then (parse_command_mode help args, w) (\<lambda>mode w.
          case mode of
            ModeServiceInstall \<Rightarrow>
              try_then (parse_service_install_options env files help (drop 2 args), w) (\<lambda>c w.
                install os (main_run machines help) c w)
          | ModeServiceUninstall \<Rightarrow>
              try_then (parse_service_uninstall_options env files help (drop 2 args), w) (\<lambda>request w.
                uninstall env files os (main_run machines help) request w)
          | _ \<Rightarrow> (Inr (), w)))"

end
