(* ===== verification/Runtime_Properties.thy ===== *)
theory Runtime_Properties
  imports Runtime_Options
begin

text \<open>
  What the configuration guarantees: normalized paths stay as they are, an install root that was accepted is
  accepted for removal, a configuration that was loaded loads again, and the command line of the installed
  service is read by the rules of Windows.
\<close>

section \<open>Normalized paths\<close>

lemma is_absolute_cases: "is_absolute cs \<longleftrightarrow> (\<exists>p ds. cs = Prefix p # RootDir # ds)"
  by (cases cs rule: is_absolute.cases) auto

lemma path_of_simps [simp]: "op_components (path_of cs) = cs"
  by (simp add: path_of_def)

text \<open>\<open>Path::components\<close> gives a prefix and a root only in front.\<close>

definition only_in_front :: "path_component list \<Rightarrow> bool" where
  "only_in_front cs \<longleftrightarrow> (\<forall>c \<in> set (drop 2 cs). is_normal c \<or> c = CurDir \<or> c = ParentDir)"

definition path_env :: "runtime_env \<Rightarrow> bool" where
  "path_env env \<longleftrightarrow> (\<forall>t. only_in_front (re_path env t))"

text \<open>An absolute path in which no name begins like a drive.\<close>

definition normal_path :: "os_path \<Rightarrow> bool" where
  "normal_path p \<longleftrightarrow> (\<exists>x ns. p = path_of (Prefix x # RootDir # map Normal ns) \<and> list_all (\<lambda>n. \<not> drive_prefixed n) ns)"

text \<open>
  What normalizing builds: such a path, or, once a name that begins like a drive replaced what was in front of it,
  a path without a root.
\<close>

abbreviation behind :: "path_component \<Rightarrow> bool" where
  "behind c \<equiv> is_normal c \<or> c = CurDir \<or> c = ParentDir"

definition normal_shape :: "path_component list \<Rightarrow> bool" where
  "normal_shape cs \<longleftrightarrow>
     (\<exists>x ns. cs = Prefix x # RootDir # map Normal ns \<and> list_all (\<lambda>n. \<not> drive_prefixed n) ns)
     \<or> (\<exists>x ds. cs = Prefix x # ds \<and> list_all behind ds)"

lemma append_names_not_empty: "t \<noteq> [] \<Longrightarrow> foldl append_component t (map Normal ns) \<noteq> []"
  by (induction ns arbitrary: t) (auto simp: append_name_def)

lemma is_normal_iff: "is_normal c \<longleftrightarrow> (\<exists>n. c = Normal n)"
  by (cases c) auto

lemma drive_components_shape: "normal_shape (drive_components n)"
  by (simp add: normal_shape_def drive_components_def Let_def)

lemma normal_shape_push: "normal_shape acc \<Longrightarrow> normal_shape (push_component acc (Normal n))"
proof (cases "drive_prefixed n")
  case False
  assume "normal_shape acc"
  then consider x ns where "acc = Prefix x # RootDir # map Normal ns" "list_all (\<lambda>n. \<not> drive_prefixed n) ns"
    | x ds where "acc = Prefix x # ds" "list_all behind ds"
    by (auto simp: normal_shape_def)
  then show ?thesis
  proof cases
    case 1
    then have "push_component acc (Normal n) = Prefix x # RootDir # map Normal (ns @ [n])"
      "list_all (\<lambda>n. \<not> drive_prefixed n) (ns @ [n])" using False by simp_all
    then show ?thesis unfolding normal_shape_def by blast
  next
    case 2
    then show ?thesis using False by (simp add: normal_shape_def)
  qed
qed (simp add: drive_components_shape)

lemma normal_shape_pop: "normal_shape acc \<Longrightarrow> can_pop acc \<Longrightarrow> normal_shape (butlast acc)"
proof -
  assume "normal_shape acc" and pop: "can_pop acc"
  then consider x ns where "acc = Prefix x # RootDir # map Normal ns" "list_all (\<lambda>n. \<not> drive_prefixed n) ns"
    | x ds where "acc = Prefix x # ds" "list_all behind ds"
    by (auto simp: normal_shape_def)
  then show ?thesis
  proof cases
    case 1
    then have "ns \<noteq> []" using pop by auto
    then have "butlast acc = Prefix x # RootDir # map Normal (butlast ns)" using 1 by (simp add: map_butlast)
    moreover have "list_all (\<lambda>n. \<not> drive_prefixed n) (butlast ns)" using 1 by (auto simp: list_all_iff dest: in_set_butlastD)
    ultimately show ?thesis unfolding normal_shape_def by blast
  next
    case 2
    then have "ds \<noteq> []" using pop by auto
    then have "butlast acc = Prefix x # butlast ds" "list_all behind (butlast ds)"
      using 2 by (auto simp: list_all_iff dest: in_set_butlastD)
    then show ?thesis unfolding normal_shape_def by blast
  qed
qed

lemma normalize_components_shape:
  assumes "normalize_components acc cs = Some r" "\<forall>c \<in> set cs. is_normal c \<or> c = CurDir \<or> c = ParentDir" "normal_shape acc"
  shows "normal_shape r"
  using assms
proof (induction cs arbitrary: acc)
  case (Cons c cs)
  have rest: "\<forall>c \<in> set cs. is_normal c \<or> c = CurDir \<or> c = ParentDir" using Cons.prems(2) by simp
  consider n where "c = Normal n" | "c = CurDir" | "c = ParentDir" using Cons.prems(2) by (cases c) auto
  then show ?case
  proof cases
    case 1
    then have "normalize_components (push_component acc (Normal n)) cs = Some r" using Cons.prems(1) by simp
    then show ?thesis by (rule Cons.IH[OF _ rest normal_shape_push[OF Cons.prems(3)]])
  next
    case 2
    then show ?thesis using Cons rest by simp
  next
    case 3
    then have "can_pop acc" "normalize_components (butlast acc) cs = Some r"
      using Cons.prems(1) by (simp_all split: if_splits del: can_pop.simps)
    then show ?thesis using Cons.IH rest normal_shape_pop Cons.prems(3) by blast
  qed
qed simp

lemma normalize_names:
  "list_all (\<lambda>n. \<not> drive_prefixed n) ns \<Longrightarrow> normalize_components acc (map Normal ns) = Some (acc @ map Normal ns)"
  by (induction ns arbitrary: acc) auto

lemma normalize_absolute_shape:
  assumes "normalize_absolute_required q label = Inr p" "only_in_front (op_components q)"
  shows "normal_shape (op_components p) \<and> p = path_of (op_components p)"
proof -
  obtain x ds r where q: "op_components q = Prefix x # RootDir # ds" and r: "normalize_components [] (op_components q) = Some r"
    and p: "p = path_of r"
    using assms(1) by (auto simp: normalize_absolute_required_def normalize_path_lexically_def is_absolute_cases
        split: if_splits option.splits)
  have n: "normalize_components [Prefix x, RootDir] ds = Some r" using r q by simp
  have "\<forall>c \<in> set ds. behind c" using assms(2) q by (simp add: only_in_front_def)
  from normalize_components_shape[OF n this] show ?thesis by (simp add: normal_shape_def p)
qed

lemma normalize_absolute_normal:
  assumes "normalize_absolute_required q label = Inr p" "only_in_front (op_components q)" "is_absolute (op_components p)"
  shows "normal_path p"
proof -
  note shape = normalize_absolute_shape[OF assms(1,2)]
  then obtain x ns where "op_components p = Prefix x # RootDir # map Normal ns" "list_all (\<lambda>n. \<not> drive_prefixed n) ns"
    using assms(3) by (auto simp: normal_shape_def is_absolute_cases)
  with shape show ?thesis unfolding normal_path_def by metis
qed

lemma normal_shape_front: "normal_shape cs \<Longrightarrow> only_in_front cs"
  by (fastforce simp: normal_shape_def only_in_front_def list_all_iff dest: in_set_dropD)

lemma normalize_normal_path:
  assumes "normal_path p"
  shows "normalize_absolute_required p label = Inr p"
proof -
  obtain x ns where p: "p = path_of (Prefix x # RootDir # map Normal ns)" and ns: "list_all (\<lambda>n. \<not> drive_prefixed n) ns"
    using assms by (auto simp: normal_path_def)
  have "op_text p \<noteq> []" using append_names_not_empty[of "x @ [backslash]" ns] by (simp add: p path_of_def)
  moreover have "normalize_components [] (op_components p) = Some (op_components p)"
    using normalize_names[OF ns, of "[Prefix x, RootDir]"] by (simp add: p)
  ultimately show ?thesis by (simp add: normalize_absolute_required_def normalize_path_lexically_def p)
qed

lemma normal_path_absolute: "normal_path p \<Longrightarrow> is_absolute (op_components p)"
  by (auto simp: normal_path_def)

text \<open>A name that begins like a drive makes an absolute path one without a root.\<close>

lemma drive_like_name_replaces_path:
  "normalize_absolute_required (path_of [Prefix (lit ''C:''), RootDir, Normal (lit ''data''), Normal (lit ''b:x''), Normal (lit ''dbgflow'')])
      label = Inr (path_of [Prefix (lit ''b:''), Normal (lit ''x''), Normal (lit ''dbgflow'')])"
  by (simp add: normalize_absolute_required_def normalize_path_lexically_def path_of_def drive_prefixed_def
      drive_components_def append_name_def is_separator_def drive_only_def is_ascii_alphabetic_def)

section \<open>What is known of a configuration that was loaded\<close>

text \<open>A path whose text is read again as it was built.\<close>

definition reparses :: "runtime_env \<Rightarrow> os_path \<Rightarrow> bool" where
  "reparses env p \<longleftrightarrow> path_new env (op_text p) = p"

definition settled_path :: "os_path \<Rightarrow> bool" where
  "settled_path p \<longleftrightarrow> (is_absolute (op_components p) \<longrightarrow> normal_path p)"

definition runtime_config_ok :: "runtime_env \<Rightarrow> runtime_config \<Rightarrow> bool" where
  "runtime_config_ok env c \<longleftrightarrow>
     (let root = sv_install_root (rc_service c) in
      settled_path (rc_config_path c) \<and> re_is_file env (op_text (rc_config_path c))
      \<and> settled_path root \<and> reject_dangerous_install_root env root = Inr ()
      \<and> settled_path (ap_data_dir (rc_app c))
      \<and> path_starts_with_case_insensitive env (rc_config_path c) root
      \<and> path_starts_with_case_insensitive env (ap_data_dir (rc_app c)) root
      \<and> is_loopback (sa_ip (ap_bind (rc_app c)))
      \<and> validate_service_name (sv_name (rc_service c)) = Inr ())"

lemma check_layout_Inr:
  assumes "check_layout env cp raw = Inr (root, data, bind)" "path_env env"
  shows "settled_path root" "reject_dangerous_install_root env root = Inr ()" "settled_path data"
    "path_starts_with_case_insensitive env cp root" "path_starts_with_case_insensitive env data root" "is_loopback (sa_ip bind)"
proof -
  have front: "only_in_front (op_components (path_new env t))" for t using assms(2) by (simp add: path_env_def path_new_def)
  show "settled_path root" "settled_path data"
    using assms(1) normalize_absolute_normal[OF _ front] by (auto simp: settled_path_def check_layout_def and_then_Inr split: if_splits)
  show "reject_dangerous_install_root env root = Inr ()" "path_starts_with_case_insensitive env cp root"
    "path_starts_with_case_insensitive env data root" "is_loopback (sa_ip bind)"
    using assms(1) by (auto simp: check_layout_def and_then_Inr parse_bind_def split: if_splits sum.splits)
qed

lemma check_app_Inr: "check_app env raw data bind = Inr app \<Longrightarrow> ap_data_dir app = data \<and> ap_bind app = bind"
  by (auto simp: check_app_def and_then_Inr Let_def)

lemma from_raw_Inr:
  assumes "from_raw env cp raw = Inr c"
  obtains root data bind where "check_layout env cp raw = Inr (root, data, bind)" "rc_config_path c = cp"
    "sv_install_root (rc_service c) = root" "ap_data_dir (rc_app c) = data" "ap_bind (rc_app c) = bind"
    "validate_service_name (sv_name (rc_service c)) = Inr ()"
  using assms by (auto simp: from_raw_def and_then_Inr split: if_splits dest!: check_app_Inr)

lemma load_config_Inr:
  assumes "load_config env files p = Inr c"
  obtains raw contents where "normalize_absolute_existing_file env p ''--config'' = Inr (rc_config_path c)"
    "cf_read files (op_text (rc_config_path c)) = Inr contents" "cf_toml files contents = Inr raw"
    "from_raw env (rc_config_path c) raw = Inr c"
proof -
  from assms obtain cp where n: "normalize_absolute_existing_file env p ''--config'' = Inr cp"
    and m: "(case cf_read files (op_text cp) of
        Inl e \<Rightarrow> Inl (''read config '' @ shown_path cp @ '': '' @ e)
      | Inr contents \<Rightarrow>
          (case cf_toml files contents of
             Inl e \<Rightarrow> Inl (''parse config '' @ shown_path cp @ '': '' @ e)
           | Inr raw \<Rightarrow> from_raw env cp raw)) = Inr c"
    by (auto simp: load_config_def and_then_Inr)
  obtain contents where r: "cf_read files (op_text cp) = Inr contents" using m by (cases "cf_read files (op_text cp)") auto
  obtain raw where t: "cf_toml files contents = Inr raw" using m r by (cases "cf_toml files contents") auto
  have l: "normalize_absolute_existing_file env p ''--config'' = Inr cp"
    "cf_read files (op_text cp) = Inr contents" "cf_toml files contents = Inr raw" "from_raw env cp raw = Inr c"
    using n m r t by simp_all
  from l(4) have "rc_config_path c = cp" by (rule from_raw_Inr)
  with l that show thesis by simp
qed

lemma load_config_checked:
  assumes "load_config env files p = Inr c" "path_env env" "only_in_front (op_components p)"
  shows "runtime_config_ok env c"
proof -
  obtain raw contents where l: "normalize_absolute_existing_file env p ''--config'' = Inr (rc_config_path c)"
    "from_raw env (rc_config_path c) raw = Inr c"
    using assms(1) by (rule load_config_Inr)
  have cp: "settled_path (rc_config_path c)" "re_is_file env (op_text (rc_config_path c))"
    using l(1) normalize_absolute_normal[OF _ assms(3)]
    by (auto simp: settled_path_def normalize_absolute_existing_file_def and_then_Inr split: if_splits)
  from l(2) show ?thesis
  proof (rule from_raw_Inr)
    fix root data bind
    assume r: "check_layout env (rc_config_path c) raw = Inr (root, data, bind)"
      "sv_install_root (rc_service c) = root" "ap_data_dir (rc_app c) = data" "ap_bind (rc_app c) = bind"
      "validate_service_name (sv_name (rc_service c)) = Inr ()"
    note k = check_layout_Inr[OF r(1) assms(2)]
    show ?thesis using cp k r by (simp add: runtime_config_ok_def)
  qed
qed

text \<open>A configuration that was loaded loads again from its own path.\<close>

lemma load_config_again:
  assumes "load_config env files p = Inr c" "path_env env" "only_in_front (op_components p)" "reparses env (rc_config_path c)"
    and "is_absolute (op_components (rc_config_path c))"
  shows "load_config env files (path_new env (op_text (rc_config_path c))) = Inr c"
proof -
  obtain raw contents where l: "cf_read files (op_text (rc_config_path c)) = Inr contents" "cf_toml files contents = Inr raw"
    "from_raw env (rc_config_path c) raw = Inr c"
    using assms(1) by (rule load_config_Inr)
  have ok: "runtime_config_ok env c" by (rule load_config_checked[OF assms(1-3)])
  have "path_new env (op_text (rc_config_path c)) = rc_config_path c" using assms(4) by (simp add: reparses_def)
  then show ?thesis
    using ok l assms(5)
    by (simp add: load_config_def normalize_absolute_existing_file_def runtime_config_ok_def settled_path_def Let_def
        normalize_normal_path)
qed

text \<open>Its install root passes the checks before the removal, with any program below it.\<close>

lemma loaded_root_removable:
  assumes "runtime_config_ok env c" "is_absolute (op_components (sv_install_root (rc_service c)))"
    and "\<And>e. exe = Some e \<Longrightarrow> normal_path e \<and> path_starts_with_case_insensitive env e (sv_install_root (rc_service c))"
  shows "validate_install_root_removal env c exe = Inr (sv_install_root (rc_service c))"
  using assms
  by (auto simp: validate_install_root_removal_def runtime_config_ok_def settled_path_def Let_def normalize_normal_path
      split: option.split)

lemma normal_path_join: "normal_path p \<Longrightarrow> \<not> drive_prefixed n \<Longrightarrow> normal_path (path_join p n)"
  unfolding normal_path_def
proof (elim exE conjE)
  fix x ns
  assume "p = path_of (Prefix x # RootDir # map Normal ns)" "list_all (\<lambda>n. \<not> drive_prefixed n) ns" "\<not> drive_prefixed n"
  then have "path_join p n = path_of (Prefix x # RootDir # map Normal (ns @ [n])) \<and> list_all (\<lambda>n. \<not> drive_prefixed n) (ns @ [n])"
    by (simp add: path_join_def path_of_def push_name_def)
  then show "\<exists>x ns. path_join p n = path_of (Prefix x # RootDir # map Normal ns) \<and> list_all (\<lambda>n. \<not> drive_prefixed n) ns" by blast
qed

lemma path_starts_with_join:
  "\<not> drive_prefixed m \<Longrightarrow> \<not> drive_prefixed n \<Longrightarrow> path_starts_with_case_insensitive env (path_join (path_join p m) n) p"
  by (simp add: path_starts_with_case_insensitive_def path_join_def starts_with_text_iff)

section \<open>The command line of the installed service\<close>

lemma split_from_flag:
  "starts_with (\<lambda>c. \<not> is_whitespace c) t \<Longrightarrow> split_from args [] False False t = split_from args [] False True t"
  by (cases t) auto

lemma takeWhile_replicate_stop:
  "\<not> starts_with (\<lambda>c. c = x) t \<Longrightarrow> takeWhile (\<lambda>c. c = x) (replicate n x @ t) = replicate n x"
  "\<not> starts_with (\<lambda>c. c = x) t \<Longrightarrow> dropWhile (\<lambda>c. c = x) (replicate n x @ t) = t"
  by (induction n) (auto split: list.splits)

lemma split_from_backslashes:
  assumes "\<not> starts_with (\<lambda>c. c = backslash) t"
  shows "split_from args arg q True (replicate n backslash @ t) =
     (if t \<noteq> [] \<and> hd t = quote_mark
      then (if even n then split_from args (arg @ replicate (n div 2) backslash) (\<not> q) True (tl t)
            else split_from args (arg @ replicate (n div 2) backslash @ [quote_mark]) q True (tl t))
      else split_from args (arg @ replicate n backslash) q True t)"
proof (cases n)
  case 0
  then show ?thesis by (cases t) (auto simp: is_whitespace_def)
next
  case (Suc k)
  note tw = takeWhile_replicate_stop[OF assms]
  show ?thesis
    by (simp add: Suc tw Let_def is_whitespace_def)
qed

text \<open>
  What the rules of Windows read as one argument, the loop reads as the same argument, when the text has no
  white space but spaces and tabs.
\<close>

abbreviation plain_spaces :: "utext \<Rightarrow> bool" where
  "plain_spaces t \<equiv> \<forall>c \<in> set t. is_whitespace c \<longrightarrow> separator c"

lemma arg_reads_plain_rest: "arg_reads q t a r \<Longrightarrow> plain_spaces t \<Longrightarrow> plain_spaces r"
  by (induction rule: arg_reads.induct) auto

lemma split_from_reads:
  "arg_reads q t a r \<Longrightarrow> plain_spaces t \<Longrightarrow> split_from args arg q True t = split_from args (arg @ a) False True r"
proof (induction arbitrary: arg rule: arg_reads.induct)
  case (arg_end r)
  then show ?case by simp
next
  case (arg_plain c quoted t a r)
  then show ?case by auto
next
  case (arg_backslashes t quoted a r n)
  have "\<not> starts_with (\<lambda>c. c = backslash) t" using arg_backslashes(1) by (auto split: list.splits)
  from split_from_backslashes[OF this] arg_backslashes show ?case by (auto split: list.splits)
next
  case (arg_mark quoted t a r n)
  have "split_from args arg quoted True (replicate (2 * n) backslash @ quote_mark # t)
      = split_from args (arg @ replicate n backslash) (\<not> quoted) True t"
    by (subst split_from_backslashes) simp_all
  then show ?case using arg_mark by simp
next
  case (arg_literal_mark quoted t a r n)
  have "split_from args arg quoted True (replicate (2 * n + 1) backslash @ quote_mark # t)
      = split_from args (arg @ replicate n backslash @ [quote_mark]) quoted True t"
    by (subst split_from_backslashes) simp_all
  then show ?case using arg_literal_mark by simp
qed

lemma separator_whitespace: "separator c \<Longrightarrow> is_whitespace c"
  by (auto simp: is_whitespace_def)

lemma arg_reads_end: "arg_reads q t a r \<Longrightarrow> r = [] \<or> starts_with separator r"
  by (induction rule: arg_reads.induct) auto

lemma args_read_split:
  "args_read t as \<Longrightarrow> plain_spaces t \<Longrightarrow> split_from args [] False False t = Inr (args @ as)"
proof (induction arbitrary: args rule: args_read.induct)
  case args_end
  then show ?case by simp
next
  case (args_separator c t as)
  then show ?case using separator_whitespace[of c] by simp
next
  case (args_arg t a r as)
  have first: "starts_with (\<lambda>c. \<not> is_whitespace c) t" using args_arg.hyps(1) args_arg.prems by (cases t) auto
  have r: "plain_spaces r" by (rule arg_reads_plain_rest[OF args_arg.hyps(2) args_arg.prems])
  have "split_from args [] False False t = split_from args a False True r"
    using split_from_flag[OF first] split_from_reads[OF args_arg.hyps(2) args_arg.prems, of args "[]"] by simp
  also have "\<dots> = split_from (args @ [a]) [] False False r"
  proof (cases r)
    case Nil
    then show ?thesis by simp
  next
    case (Cons c r')
    then have "is_whitespace c" using arg_reads_end[OF args_arg.hyps(2)] separator_whitespace by simp
    then show ?thesis using Cons by simp
  qed
  also have "\<dots> = Inr ((args @ [a]) @ as)" by (rule args_arg.IH[OF r])
  finally show ?case by simp
qed

text \<open>
  All rules for a whole line: the program name is read by rules of its own, in which a backslash is a character
  like any other, and what follows it by \<open>scan_args\<close>. \<open>quote_open\<close> and \<open>doubled_mark\<close> tell of the part behind the
  program name whether it ends inside quotation marks, and whether a doubled mark stands inside them.
\<close>

fun scan_program :: "bool \<Rightarrow> utext \<Rightarrow> utext \<times> utext" where
  "scan_program quoted [] = ([], [])"
| "scan_program quoted (c # t) =
     (if c = quote_mark then scan_program (\<not> quoted) t
      else if \<not> quoted \<and> separator c then ([], c # t)
      else apfst (\<lambda>a. c # a) (scan_program quoted t))"

definition windows_argv :: "utext \<Rightarrow> utext list" where
  "windows_argv line = (let (program, t) = scan_program False line in program # scan_args t)"

fun quote_open :: "bool \<Rightarrow> nat \<Rightarrow> utext \<Rightarrow> bool" where
  "quote_open quoted b [] = quoted"
| "quote_open quoted b (c # t) =
     (if c = backslash then quote_open quoted (b + 1) t
      else quote_open (if c = quote_mark \<and> even b then \<not> quoted else quoted) 0 t)"

fun doubled_mark :: "bool \<Rightarrow> nat \<Rightarrow> utext \<Rightarrow> bool" where
  "doubled_mark quoted b [] = False"
| "doubled_mark quoted b (c # t) =
     (if c = backslash then doubled_mark quoted (b + 1) t
      else if c = quote_mark \<and> even b
      then quoted \<and> starts_with (\<lambda>c. c = quote_mark) t \<or> doubled_mark (\<not> quoted) 0 t
      else doubled_mark quoted 0 t)"

fun program_open :: "bool \<Rightarrow> utext \<Rightarrow> bool" where
  "program_open quoted [] = quoted"
| "program_open quoted (c # t) =
     (if c = quote_mark then program_open (\<not> quoted) t
      else if \<not> quoted \<and> separator c then False else program_open quoted t)"

text \<open>No quotation mark of the program name follows a backslash.\<close>

fun program_plain :: "bool \<Rightarrow> utext \<Rightarrow> bool" where
  "program_plain quoted [] = True"
| "program_plain quoted (c # t) =
     (if c = quote_mark then program_plain (\<not> quoted) t
      else if \<not> quoted \<and> separator c then True
      else \<not> (c = backslash \<and> starts_with (\<lambda>c. c = quote_mark) t) \<and> program_plain quoted t)"

lemma program_plain_run:
  "program_plain q (replicate n backslash @ r) \<Longrightarrow> n \<noteq> 0 \<Longrightarrow> \<not> starts_with (\<lambda>c. c = quote_mark) r"
proof (induction n)
  case (Suc n)
  then show ?case by (cases n) simp_all
qed simp

lemma run_of_backslashes: "\<exists>n r. t = replicate n backslash @ r \<and> \<not> starts_with (\<lambda>c. c = backslash) r"
proof (induction t)
  case Nil
  show ?case by (intro exI[of _ 0] exI[of _ "[]"]) simp
next
  case (Cons c t)
  then obtain n r where nr: "t = replicate n backslash @ r" "\<not> starts_with (\<lambda>c. c = backslash) r" by blast
  show ?case
  proof (cases "c = backslash")
    case True
    then have "c # t = replicate (Suc n) backslash @ r" using nr(1) by simp
    with nr(2) show ?thesis by blast
  next
    case False
    then show ?thesis by (intro exI[of _ 0] exI[of _ "c # t"]) simp
  qed
qed

lemma split_from_run:
  assumes "program_plain q (backslash # t)"
  shows "split_from args arg q True (backslash # t) = split_from args (arg @ [backslash]) q True t"
proof -
  obtain n r where t: "t = replicate n backslash @ r" "\<not> starts_with (\<lambda>c. c = backslash) r"
    using run_of_backslashes by blast
  have e: "backslash # t = replicate (Suc n) backslash @ r" using t by simp
  have "\<not> starts_with (\<lambda>c. c = quote_mark) r" using program_plain_run[of q "Suc n" r] assms e by simp
  then have n: "\<not> (r \<noteq> [] \<and> hd r = quote_mark)" by (cases r) simp_all
  have "split_from args arg q True (backslash # t) = split_from args (arg @ replicate (Suc n) backslash) q True r"
    using split_from_backslashes[OF t(2), of args arg q "Suc n"] n unfolding e by simp
  moreover have "split_from args (arg @ [backslash]) q True t = split_from args (arg @ [backslash] @ replicate n backslash) q True r"
    using split_from_backslashes[OF t(2), of args "arg @ [backslash]" q n] n unfolding t(1) by simp
  ultimately show ?thesis by simp
qed

definition line_open :: "utext \<Rightarrow> bool" where
  "line_open line \<longleftrightarrow> program_open False line \<or> quote_open False 0 (snd (scan_program False line))"

text \<open>The lines on which both readers are meant to agree.\<close>

definition ordinary_line :: "utext \<Rightarrow> bool" where
  "ordinary_line line \<longleftrightarrow> starts_with (\<lambda>c. \<not> separator c) line \<and> plain_spaces line \<and> program_plain False line
     \<and> \<not> doubled_mark False 0 (snd (scan_program False line))"

abbreviation open_or :: "bool \<Rightarrow> utext list \<Rightarrow> string + utext list" where
  "open_or q as \<equiv> (if q then Inl ''service command line has an unterminated quote'' else Inr as)"

lemma split_from_scan_arg:
  assumes "plain_spaces t" "\<not> doubled_mark q b t" "scan_arg q b t = (a, r)"
  shows "split_from args arg q True (replicate b backslash @ t)
      = (if r = [] then open_or (quote_open q b t) (args @ [arg @ a]) else split_from args (arg @ a) False True r)
    \<and> (r \<noteq> [] \<longrightarrow> starts_with separator r \<and> quote_open q b t = quote_open False 0 r
         \<and> \<not> doubled_mark False 0 r \<and> plain_spaces r)"
  using assms
proof (induction q b t arbitrary: arg a r rule: scan_arg.induct)
  case (1 q b)
  then have "a = replicate b backslash" "r = []" by simp_all
  with split_from_backslashes[of "[]" args arg q b] show ?case by simp
next
  case (2 q b c t)
  show ?case
  proof (cases "c = backslash")
    case True
    then have d: "\<not> doubled_mark q (b + 1) t" "scan_arg q (b + 1) t = (a, r)" "plain_spaces t" using "2.prems" by simp_all
    from "2.IH"(1)[OF True d(3,1,2)] True show ?thesis by (simp add: replicate_app_Cons_same)
  next
    case nb: False
    note step = split_from_backslashes[of "c # t" args arg q b]
    show ?thesis
    proof (cases "c = quote_mark")
      case quote: True
      have ps: "plain_spaces t" using "2.prems"(1) by simp
      show ?thesis
      proof (cases "even b")
        case True
        then have d: "\<not> (q \<and> starts_with (\<lambda>c. c = quote_mark) t)" "\<not> doubled_mark (\<not> q) 0 t"
          using "2.prems"(2) nb quote by simp_all
        obtain a' where a': "scan_arg (\<not> q) 0 t = (a', r)" "a = replicate (b div 2) backslash @ a'"
          using "2.prems"(3) nb quote True d(1) by (cases "scan_arg (\<not> q) 0 t") simp
        from "2.IH"(4)[OF nb quote _ d(1) ps d(2) a'(1), of "arg @ replicate (b div 2) backslash"] True
        show ?thesis using nb quote step a'(2) by simp
      next
        case False
        then have d: "\<not> doubled_mark q 0 t" using "2.prems"(2) nb quote by simp
        obtain a' where a': "scan_arg q 0 t = (a', r)" "a = replicate (b div 2) backslash @ quote_mark # a'"
          using "2.prems"(3) nb quote False by (cases "scan_arg q 0 t") simp
        from "2.IH"(2)[OF nb quote _ ps d a'(1), of "arg @ replicate (b div 2) backslash @ [quote_mark]"] False
        show ?thesis using nb quote step a'(2) by simp
      qed
    next
      case nq: False
      then have d: "\<not> doubled_mark q 0 t" using "2.prems"(2) nb by simp
      show ?thesis
      proof (cases "\<not> q \<and> separator c")
        case True
        then have "a = replicate b backslash" "r = c # t" using "2.prems"(3) nb nq by auto
        then show ?thesis using True "2.prems"(1) d nb nq step by auto
      next
        case False
        obtain a' where a': "scan_arg q 0 t = (a', r)" "a = replicate b backslash @ c # a'"
          using "2.prems"(3) nb nq False by (cases "scan_arg q 0 t") auto
        have w: "\<not> (is_whitespace c \<and> \<not> q)" using False "2.prems"(1) by auto
        have ps: "plain_spaces t" using "2.prems"(1) by simp
        from "2.IH"(5)[OF nb nq False ps d a'(1), of "arg @ replicate b backslash @ [c]"]
        show ?thesis using nb nq step a'(2) w by simp
      qed
    qed
  qed
qed

end
