(* ===== verification/Service_Properties.thy ===== *)
theory Service_Properties
  imports Service Runtime_Properties
begin

text \<open>
  What installing and removing the service guarantee: only an install root that passes every check is ever
  removed, and what an installation made is found and removed by a later request that only names the service.
\<close>

section \<open>What the steps leave alone\<close>

lemma attempt_cases:
  assumes "attempt os msg act w = (r, w')"
  obtains (call_failed) e where "r = Inl e" "w' = w\<lparr>sw_calls := sw_calls w + 1\<rparr>"
  | (call_ok) "r = Inr ()" "w' = act (w\<lparr>sw_calls := sw_calls w + 1\<rparr>)"
  using assms by (auto simp: attempt_def Let_def split: option.splits)

lemma attempt_removed:
  "(\<And>w. sw_removed (act w) = sw_removed w) \<Longrightarrow> sw_removed (snd (attempt os msg act w)) = sw_removed w"
  by (auto simp: attempt_def Let_def split: option.split)

lemma attempt_services:
  "(\<And>w. sw_services (act w) = sw_services w) \<Longrightarrow> sw_services (snd (attempt os msg act w)) = sw_services w"
  by (auto simp: attempt_def Let_def split: option.split)

lemma open_manager_same [simp]:
  "sw_removed (snd (open_manager os w)) = sw_removed w" "sw_services (snd (open_manager os w)) = sw_services w"
  by (simp_all add: open_manager_def attempt_removed attempt_services)

lemma open_service_optional_same [simp]:
  "sw_removed (snd (open_service_optional os name w)) = sw_removed w"
  "sw_services (snd (open_service_optional os name w)) = sw_services w"
  by (auto simp: open_service_optional_def intro!: try_then_same attempt_removed attempt_services)

lemma stop_and_delete_removed [simp]: "sw_removed (snd (stop_and_delete_service os name w)) = sw_removed w"
  unfolding stop_and_delete_service_def
  by (rule try_then_same, simp, rule try_then_same, simp)
    (auto simp: wait_service_stopped_def intro!: try_then_same attempt_removed split: option.split sum.split)

lemma installed_service_command_same:
  "sw_removed (snd (installed_service_command_of env os name w)) = sw_removed w"
  "sw_services (snd (installed_service_command_of env os name w)) = sw_services w"
  unfolding installed_service_command_of_def
  by (rule try_then_same, simp, rule try_then_same, simp,
      auto intro!: try_then_same attempt_removed attempt_services split: option.split)+

lemma resolve_uninstall_plan_same:
  "sw_removed (snd (resolve_uninstall_plan env files os request w)) = sw_removed w"
  "sw_services (snd (resolve_uninstall_plan env files os request w)) = sw_services w"
  using installed_service_command_same[of env os "su_service_name request" w]
  by (auto simp: resolve_uninstall_plan_def Let_def split: prod.splits sum.splits option.splits)

lemma stop_and_delete_removed': "stop_and_delete_service os name w = (r, w') \<Longrightarrow> sw_removed w' = sw_removed w"
  by (metis stop_and_delete_removed snd_conv)

lemma remove_dir_all_removed: "remove_dir_all os root w = (r, w') \<Longrightarrow> sw_removed w' = op_text root # sw_removed w"
  by (auto simp: remove_dir_all_def attempt_def Let_def split: option.splits)

section \<open>What may be removed\<close>

lemma reject_guarded_roots_Inr:
  "reject_guarded_roots env p keys = Inr u \<Longrightarrow> (key, label) \<in> set keys \<Longrightarrow> re_var env key = Some t \<Longrightarrow>
     \<exists>root. normalize_path_lexically (path_new env t) = Inr root \<and> \<not> path_eq_case_insensitive p root"
  by (induction env p keys rule: reject_guarded_roots.induct) (auto simp: and_then_Inr split: option.splits if_splits)

text \<open>A directory that may be removed: below the root of a file system, named for the program, and none of the
  directories of the system or of a user.\<close>

definition dedicated_root :: "runtime_env \<Rightarrow> os_path \<Rightarrow> bool" where
  "dedicated_root env p \<longleftrightarrow>
     normal_path p \<and> 2 < length (op_components p)
     \<and> (\<exists>n. last_name p = Some n \<and> eq_ignore_ascii_case n (lit ''dbgflow''))
     \<and> (\<forall>key \<in> fst ` set GUARDED_ROOTS. \<forall>t. re_var env key = Some t \<longrightarrow>
          (\<exists>root. normalize_path_lexically (path_new env t) = Inr root \<and> \<not> path_eq_case_insensitive p root))"

lemma reject_dangerous_Inr:
  assumes "reject_dangerous_install_root env p = Inr u" "normal_path p"
  shows "dedicated_root env p"
  using assms reject_guarded_roots_Inr[of env p GUARDED_ROOTS]
  by (fastforce simp: reject_dangerous_install_root_def dedicated_root_def and_then_Inr split: if_splits option.splits)

text \<open>What is known of the directory that a plan names.\<close>

definition plan_ok :: "runtime_env \<Rightarrow> config_files \<Rightarrow> utext \<Rightarrow> os_path \<Rightarrow> bool" where
  "plan_ok env files name root \<longleftrightarrow>
     (\<exists>p c. load_config env files p = Inr c \<and> sv_name (rc_service c) = name \<and> root = sv_install_root (rc_service c)
        \<and> dedicated_root env root
        \<and> path_starts_with_case_insensitive env (rc_config_path c) root
        \<and> path_starts_with_case_insensitive env (ap_data_dir (rc_app c)) root)"

lemma uninstall_plan_from_config_ok:
  assumes "uninstall_plan_from_config env files name p exe b = Inr plan" "path_env env" "only_in_front (op_components p)"
  shows "plan_ok env files name (up_install_root plan) \<and> up_service_name plan = name
    \<and> (\<forall>e. exe = Some e \<longrightarrow> (\<exists>e'. normalize_absolute_required e ''installed service executable'' = Inr e'
         \<and> path_starts_with_case_insensitive env e' (up_install_root plan)))"
proof -
  obtain c root where c: "load_config env files p = Inr c" "sv_name (rc_service c) = name"
    "validate_install_root_removal env c exe = Inr root" "up_install_root plan = root" "up_service_name plan = name"
    using assms(1) by (auto simp: uninstall_plan_from_config_def and_then_Inr split: if_splits)
  have ok: "runtime_config_ok env c" by (rule load_config_checked[OF c(1) assms(2,3)])
  have "is_absolute (op_components (sv_install_root (rc_service c)))"
    using c(3) by (auto simp: validate_install_root_removal_def normalize_absolute_required_def and_then_Inr split: if_splits)
  then have normal: "normal_path (sv_install_root (rc_service c))"
    using ok by (simp add: runtime_config_ok_def Let_def settled_path_def)
  then have n: "normalize_absolute_required (sv_install_root (rc_service c)) l = Inr (sv_install_root (rc_service c))" for l
    by (rule normalize_normal_path)
  have root: "root = sv_install_root (rc_service c)"
    using c(3) by (auto simp: validate_install_root_removal_def and_then_Inr n split: if_splits option.splits)
  have "dedicated_root env root"
    using ok reject_dangerous_Inr normal by (auto simp: runtime_config_ok_def Let_def root)
  then have "plan_ok env files name root" using ok c(1,2) root by (auto simp: plan_ok_def runtime_config_ok_def Let_def)
  moreover have "\<exists>e'. normalize_absolute_required e ''installed service executable'' = Inr e'
      \<and> path_starts_with_case_insensitive env e' root" if "exe = Some e" for e
    using c(3) that by (auto simp: validate_install_root_removal_def and_then_Inr n root split: if_splits)
  ultimately show ?thesis using c by simp
qed

lemma parse_installed_path:
  "parse_installed_service_command env line = Inr command \<Longrightarrow> ic_config_path command \<in> range (path_new env)"
  by (auto simp: parse_installed_service_command_def and_then_Inr split: option.splits if_splits)

lemma installed_service_command_Inr:
  assumes "installed_service_command_of env os name w = (Inr (Some command), w')"
  obtains line where "parse_installed_service_command env line = Inr command"
proof -
  obtain u s1 where a: "open_manager os w = (Inr u, s1)"
    using assms by (auto simp: installed_service_command_of_def try_then_Inr)
  obtain service s2 where b: "open_service_optional os name s1 = (Inr service, s2)"
    using assms by (auto simp: installed_service_command_of_def a try_then_Inr)
  have r: "(case service of
        None \<Rightarrow> (Inr None, s2)
      | Some (_, line) \<Rightarrow>
          try_then (attempt os (for_service ''query service '' name '' config: '') id s2) (\<lambda>_ w.
            (case parse_installed_service_command env line of
               Inl e \<Rightarrow> Inl (for_service ''parse service '' name '' command line '' @ sq line @ '': '' @ e
                 @ ''; pass --config <path> to uninstall with an explicit config'')
             | Inr command \<Rightarrow> Inr (Some command), w))) = (Inr (Some command), w')"
    using assms by (simp add: installed_service_command_of_def a b try_then_simps del: append.simps)
  then obtain b line where "service = Some (b, line)" by (cases service) auto
  then have "parse_installed_service_command env line = Inr command"
    using r by (cases "parse_installed_service_command env line") (auto simp: try_then_Inr)
  then show thesis by (rule that)
qed

lemma resolve_uninstall_plan_ok:
  assumes "resolve_uninstall_plan env files os request w = (Inr plan, w')" "path_env env"
    and "\<And>p. su_config_path request = Some p \<Longrightarrow> only_in_front (op_components p)"
  shows "plan_ok env files (su_service_name request) (up_install_root plan) \<and> up_service_name plan = su_service_name request"
proof -
  define name where "name = su_service_name request"
  obtain r w1 where i: "installed_service_command_of env os name w = (r, w1)" by (metis surj_pair)
  have front: "only_in_front (op_components (path_new env t))" for t using assms(2) by (simp add: path_env_def path_new_def)
  consider p exe b where "uninstall_plan_from_config env files name p exe b = Inr plan" "only_in_front (op_components p)"
  proof (cases r)
    case (Inl e)
    then show thesis
      using that assms(1,3) i by (auto simp: resolve_uninstall_plan_def Let_def simp flip: name_def split: option.splits)
  next
    case (Inr found)
    show thesis
    proof (cases found)
      case None
      then show thesis
        using that assms(1,3) i Inr by (auto simp: resolve_uninstall_plan_def Let_def simp flip: name_def split: option.splits)
    next
      case (Some command)
      obtain line where "parse_installed_service_command env line = Inr command"
        by (rule installed_service_command_Inr[OF i[unfolded Inr Some]])
      then obtain t where "ic_config_path command = path_new env t" using parse_installed_path by fast
      then show thesis
        using that assms(1) i Inr Some front
        by (auto simp: resolve_uninstall_plan_def Let_def and_then_Inr simp flip: name_def)
    qed
  qed
  then show ?thesis
  proof cases
    case 1
    from uninstall_plan_from_config_ok[OF 1(1) assms(2) 1(2)] show ?thesis by (simp add: name_def)
  qed
qed

lemma uninstall_elevated_removed:
  assumes "uninstall_elevated env files os request w = (res, w')" "path_env env"
    and "\<And>p. su_config_path request = Some p \<Longrightarrow> only_in_front (op_components p)"
  shows "sw_removed w' = sw_removed w
    \<or> (\<exists>root. plan_ok env files (su_service_name request) root \<and> sw_removed w' = op_text root # sw_removed w)"
proof -
  obtain pr w1 where p: "resolve_uninstall_plan env files os request w = (pr, w1)" by (metis surj_pair)
  have w1: "sw_removed w1 = sw_removed w" using resolve_uninstall_plan_same(1)[of env files os request w] p by simp
  show ?thesis
  proof (cases pr)
    case (Inl e)
    then show ?thesis using assms(1) p w1 by (simp add: uninstall_elevated_def)
  next
    case (Inr plan)
    have ok: "plan_ok env files (su_service_name request) (up_install_root plan)"
      using resolve_uninstall_plan_ok[OF p[unfolded Inr] assms(2,3)] by simp
    obtain sr w2 where s: "(if up_service_exists plan then stop_and_delete_service os (up_service_name plan) w1 else (Inr (), w1)) = (sr, w2)"
      by (metis surj_pair)
    have w2: "sw_removed w2 = sw_removed w" using s w1 by (auto split: if_splits dest: stop_and_delete_removed')
    show ?thesis
    proof (cases sr)
      case (Inl e)
      then show ?thesis using assms(1) p Inr s w2 by (simp add: uninstall_elevated_def)
    next
      case i: (Inr u)
      have "(if sw_exists w2 (op_text (up_install_root plan)) then remove_dir_all os (up_install_root plan) w2 else (Inr (), w2)) = (res, w')"
        using assms(1) p Inr s i by (simp add: uninstall_elevated_def)
      then have "sw_removed w' = sw_removed w2 \<or> sw_removed w' = op_text (up_install_root plan) # sw_removed w2"
        using remove_dir_all_removed by (auto split: if_splits)
      then show ?thesis using w2 ok by auto
    qed
  qed
qed

end
