(* ===== verification/Service_Elevated.thy ===== *)
theory Service_Elevated
  imports Service_Properties
begin

text \<open>
  The elevated process: the arguments that it is started with are the ones that were meant, and the request that it
  reads names the same service.
\<close>

section \<open>Its arguments\<close>

lemma service_quote_reads:
  assumes "r = [] \<or> starts_with separator r"
  shows "arg_reads False (service_quote_arg arg @ r) (to_string_lossy arg) r"
    and "starts_with (\<lambda>c. \<not> separator c) (service_quote_arg arg @ r)"
proof -
  let ?v = "to_string_lossy arg"
  have mark: "arg_reads False (quote_mark # t) a r" if "arg_reads True t a r" for t a
    using arg_mark[of False t a r 0] that by simp
  have quoted: "arg_reads False (quote_loop ?v 0 [quote_mark] @ r) ?v r"
    using mark[OF quoted_reads[OF assms, of ?v 0]] quote_loop_append[of ?v 0 "[quote_mark]"] by simp
  have plain: "arg_reads False (?v @ r) ?v r" if "\<not> service_needs_quotes ?v"
    using plain_reads[OF assms, of ?v 0] that by (auto simp: service_needs_quotes_def)
  have empty: "arg_reads False ([quote_mark, quote_mark] @ r) [] r"
    using mark[OF quoted_reads[OF assms, of "[]" 0]] by simp
  show "arg_reads False (service_quote_arg arg @ r) ?v r"
    using quoted plain empty by (simp add: service_quote_arg_def Let_def)
  show "starts_with (\<lambda>c. \<not> separator c) (service_quote_arg arg @ r)"
    using quote_loop_append[of ?v 0 "[quote_mark]"]
    by (cases ?v) (auto simp: service_quote_arg_def service_needs_quotes_def Let_def)
qed

lemma service_args_read:
  "args_read (service_quote_arg a @ concat (map (\<lambda>q. space # q) (map service_quote_arg as))) (map to_string_lossy (a # as))"
proof (induction as arbitrary: a)
  case Nil
  show ?case using service_quote_reads[of "[]" a] args_arg[of "service_quote_arg a" _ "[]" "[]"] args_end by simp
next
  case (Cons b as)
  let ?r = "concat (map (\<lambda>q. space # q) (map service_quote_arg (b # as)))"
  have "args_read ?r (map to_string_lossy (b # as))" using args_separator[OF _ Cons.IH[of b], of space] by simp
  then show ?case
    using service_quote_reads[of ?r a] by (auto intro: args_arg)
qed

lemma nul_free_quote_loop: "0 \<notin> set v \<Longrightarrow> 0 \<notin> set q \<Longrightarrow> 0 \<notin> set (quote_loop v b q)"
  by (induction v b q rule: quote_loop.induct) (auto split: if_splits)

lemma nul_free_lossy: "0 \<notin> set t \<Longrightarrow> 0 \<notin> set (to_string_lossy t)"
  by (auto simp: to_string_lossy_def)

lemma no_nul_service_quote: "0 \<notin> set arg \<Longrightarrow> 0 \<notin> set (service_quote_arg arg)"
  using nul_free_quote_loop[of "to_string_lossy arg" "[quote_mark]" 0] nul_free_lossy[of arg]
  by (simp add: service_quote_arg_def Let_def)

lemma no_nul_join: "\<forall>p \<in> set ps. 0 \<notin> set p \<Longrightarrow> 0 \<notin> set (join_space ps)"
  by (cases ps) (auto simp: join_space_concat)

lemma elevated_arguments:
  assumes "\<forall>a \<in> set (a # as). 0 \<notin> set a"
  shows "scan_args (takeWhile (\<lambda>c. c \<noteq> 0) (join_windows_command_line (a # as))) = map to_string_lossy (a # as)"
proof -
  have none: "0 \<notin> set (join_windows_command_line (a # as))"
    unfolding join_windows_command_line_def using assms no_nul_service_quote by (intro no_nul_join) auto
  have "takeWhile (\<lambda>c. c \<noteq> 0) (join_windows_command_line (a # as)) = join_windows_command_line (a # as)"
    by (subst takeWhile_eq_all_conv) (use none in metis)
  moreover have "scan_args (join_windows_command_line (a # as)) = map to_string_lossy (a # as)"
    using args_read_scan[OF service_args_read[of a as]] by (simp add: join_windows_command_line_def join_space_concat)
  ultimately show ?thesis by (simp only:)
qed

section \<open>Its request\<close>

abbreviation real_text :: "utext \<Rightarrow> bool" where
  "real_text t \<equiv> \<not> list_ex is_surrogate t"

text \<open>
  What is relied on of a machine: the shape of its paths, that no file has a NUL in its name, and that the parser of
  TOML gives texts, which have no lone surrogate.
\<close>

definition machine_ok :: "machine \<Rightarrow> bool" where
  "machine_ok m = (case m of (env, files, os) \<Rightarrow>
     path_env env \<and> (\<forall>t. re_is_file env t \<longrightarrow> 0 \<notin> set t)
     \<and> (\<forall>t raw. cf_toml files t = Inr raw \<longrightarrow> real_text (xc_name raw)))"

definition name_ok :: "utext \<Rightarrow> bool" where
  "name_ok n \<longleftrightarrow> real_text n \<and> validate_service_name n = Inr ()"

definition config_path_ok :: "os_path option \<Rightarrow> bool" where
  "config_path_ok p \<longleftrightarrow> (\<forall>q. p = Some q \<longrightarrow> only_in_front (op_components q) \<and> 0 \<notin> set (op_text q))"

lemma name_no_nul: "name_ok n \<Longrightarrow> 0 \<notin> set n"
proof
  assume n: "name_ok n" "0 \<in> set n"
  have "is_control 0" by (simp add: is_control_def)
  with n(2) have "\<exists>ch \<in> set n. ch = 47 \<or> ch = 92 \<or> ch = 42 \<or> ch = 63 \<or> ch = 91 \<or> ch = 93 \<or> is_control ch" by blast
  then have "validate_service_name n \<noteq> Inr ()" unfolding validate_service_name_def by simp
  with n(1) show False by (simp add: name_ok_def)
qed

lemma lossy_real: "real_text t \<Longrightarrow> to_string_lossy t = t"
  by (auto simp: to_string_lossy_def list_ex_iff intro!: map_idI)

lemma real_lossy: "real_text (to_string_lossy t)"
  by (auto simp: to_string_lossy_def list_ex_iff is_surrogate_def)

lemma existing_file_cases:
  "normalize_absolute_existing_file env q l = Inr p \<Longrightarrow> normalize_absolute_required q l = Inr p \<and> re_is_file env (op_text p)"
  by (cases "normalize_absolute_required q l") (simp_all add: normalize_absolute_existing_file_def split: if_splits)

lemma existing_file_ok:
  assumes "machine_ok (env, files, os)" "normalize_absolute_existing_file env (path_new env v) l = Inr p"
  shows "only_in_front (op_components p) \<and> 0 \<notin> set (op_text p)"
proof
  note n = existing_file_cases[OF assms(2)]
  have "path_env env" using assms(1) by (simp add: machine_ok_def)
  then have "only_in_front (op_components (path_new env v))" by (simp add: path_env_def path_new_def)
  from normal_shape_front[OF conjunct1[OF normalize_absolute_shape[OF conjunct1[OF n] this]]]
  show "only_in_front (op_components p)" .
  show "0 \<notin> set (op_text p)" using conjunct2[OF n] assms(1) unfolding machine_ok_def prod.case by blast
qed

lemma next_item_real: "next_item names flags arg as = Inr (CliValue name v as') \<Longrightarrow> real_text v"
proof -
  assume n: "next_item names flags arg as = Inr (CliValue name v as')"
  then have arg: "real_text arg" by (auto simp: next_item_def and_then_Inr into_string_def split: if_splits)
  have "with_value ns arg = Some (m, r) \<Longrightarrow> real_text r" for ns m r
    using arg by (induction ns) (auto simp: strip_prefix_Some split: option.splits)
  then show ?thesis
    using n by (cases as) (auto simp: next_item_def and_then_Inr into_string_def split: option.splits if_splits)
qed

lemma loaded_name_ok:
  assumes "machine_ok (env, files, os)" "load_config env files p = Inr c"
  shows "name_ok (sv_name (rc_service c))"
proof -
  obtain raw contents where l: "cf_toml files contents = Inr raw" "from_raw env (rc_config_path c) raw = Inr c"
    using assms(2) by (rule load_config_Inr)
  have "sv_name (rc_service c) = xc_name raw"
    using l(2) by (auto simp: from_raw_def and_then_Inr split: if_splits dest: arg_cong[of _ _ "\<lambda>c. sv_name (rc_service c)"])
  moreover have "validate_service_name (sv_name (rc_service c)) = Inr ()" using l(2) by (rule from_raw_Inr)
  ultimately show ?thesis using assms(1) l(1) by (simp add: name_ok_def machine_ok_def)
qed

lemma parse_service_name_ok: "real_text v \<Longrightarrow> parse_service_name v = Inr n \<Longrightarrow> name_ok n"
  by (auto simp: parse_service_name_def and_then_Inr name_ok_def)

lemma uninstall_loop_ok:
  assumes "machine_ok (env, files, os)" "uninstall_loop env help opts args = Inr (n, p)"
    and "\<forall>m. fst opts = Some m \<longrightarrow> name_ok m" "config_path_ok (snd opts)"
  shows "(\<forall>m. n = Some m \<longrightarrow> name_ok m) \<and> config_path_ok p"
  using assms
proof (induction env "help" opts args rule: uninstall_loop.induct)
  case (1 env "help" opts)
  then show ?case by (cases opts) simp
next
  case (2 env "help" opts arg as)
  show ?case
  proof (cases "next_item [''--service-name'', ''--config''] HELP_FLAGS arg as")
    case (Inr item)
    show ?thesis
    proof (cases item)
      case (CliValue name v as')
      note r = next_item_real[OF Inr[unfolded CliValue]]
      show ?thesis
      proof (cases "name = ''--service-name''")
        case True
        then obtain m where m: "parse_service_name v = Inr m" "uninstall_loop env help (Some m, snd opts) as' = Inr (n, p)"
          using "2.prems"(2) Inr CliValue by (auto split: sum.splits)
        show ?thesis
          using "2.IH"(1)[OF Inr CliValue True m(1) "2.prems"(1) m(2)] parse_service_name_ok[OF r m(1)] "2.prems"(4) by simp
      next
        case False
        then obtain q where q: "normalize_absolute_existing_file env (path_new env v) ''--config'' = Inr q"
          "uninstall_loop env help (fst opts, Some q) as' = Inr (n, p)"
          using "2.prems"(2) Inr CliValue by (auto split: sum.splits)
        have "config_path_ok (Some q)" using existing_file_ok[OF "2.prems"(1) q(1)] by (simp add: config_path_ok_def)
        then show ?thesis using "2.IH"(2)[OF Inr CliValue False q(1) "2.prems"(1) q(2)] "2.prems"(3) by simp
      qed
    qed (use "2.prems"(2) Inr in simp_all)
  qed (use "2.prems"(2) in simp)
qed

lemma service_name_default: "name_ok SERVICE_NAME"
  by (simp add: name_ok_def SERVICE_NAME_def chars_def is_surrogate_def validate_service_name_def trim_def is_whitespace_def is_control_def)

lemma parsed_request_ok:
  assumes "machine_ok (env, files, os)" "parse_service_uninstall_options env files help as = Inr request"
  shows "name_ok (su_service_name request) \<and> config_path_ok (su_config_path request)"
proof -
  obtain n p where l: "uninstall_loop env help (None, None) as = Inr (n, p)"
    using assms(2) by (auto simp: parse_service_uninstall_options_def and_then_Inr)
  have ok: "(\<forall>m. n = Some m \<longrightarrow> name_ok m) \<and> config_path_ok p"
    by (rule uninstall_loop_ok[OF assms(1) l]) (simp_all add: config_path_ok_def)
  have "name_ok (su_service_name request) \<and> su_config_path request = p"
    using assms(2) l ok loaded_name_ok[OF assms(1)] service_name_default
    by (cases n; cases p) (auto simp: parse_service_uninstall_options_def and_then_Inr split: if_splits)
  then show ?thesis using ok by simp
qed

text \<open>The elevated process removes a service too, and the same one.\<close>

abbreviation elevated_args :: "service_uninstall_config \<Rightarrow> os_text list" where
  "elevated_args request \<equiv> map to_string_lossy (uninstall_command_args request)"

lemma elevated_mode: "parse_command_mode help (elevated_args request) = Inr ModeServiceUninstall"
  by (simp add: parse_command_mode_def uninstall_command_args_def into_string_def to_string_lossy_def is_surrogate_def chars_def)

lemma option_names_real: "real_text (chars ''--service-name'')" "real_text (chars ''--config'')"
  by (simp_all add: chars_def is_surrogate_def)

abbreviation UNINSTALL_OPTIONS :: "string list" where "UNINSTALL_OPTIONS \<equiv> [''--service-name'', ''--config'']"

lemma option_names_plain: "with_value UNINSTALL_OPTIONS (chars ''--service-name'') = None"
  "with_value UNINSTALL_OPTIONS (chars ''--config'') = None"
  "List.find (\<lambda>name. chars name = chars ''--service-name'') UNINSTALL_OPTIONS = Some ''--service-name''"
  "List.find (\<lambda>name. chars name = chars ''--config'') UNINSTALL_OPTIONS = Some ''--config''"
  by (simp_all add: chars_def strip_prefix_def)

lemma option_item:
  assumes "real_text v"
  shows "next_item UNINSTALL_OPTIONS HELP_FLAGS (chars ''--service-name'') (v # t) = Inr (CliValue ''--service-name'' v t)"
    and "next_item UNINSTALL_OPTIONS HELP_FLAGS (chars ''--config'') (v # t) = Inr (CliValue ''--config'' v t)"
  unfolding next_item_def into_string_def and_then_simps option_names_plain option.case
  using assms option_names_real by (simp_all only: into_string_def next_value.simps if_False and_then_simps prod.case simp_thms option_names_plain option.case)

lemma elevated_tail:
  "drop 2 (elevated_args request) = chars ''--service-name'' # to_string_lossy (su_service_name request)
     # (case su_config_path request of None \<Rightarrow> [] | Some p \<Rightarrow> [chars ''--config'', to_string_lossy (op_text p)])"
  unfolding uninstall_command_args_def
  by (simp add: lossy_real[OF option_names_real(1)] lossy_real[OF option_names_real(2)] split: option.split)

lemma elevated_name:
  assumes "name_ok (su_service_name request)"
    and "parse_service_uninstall_options env files help (drop 2 (elevated_args request)) = Inr request'"
  shows "su_service_name request' = su_service_name request"
proof -
  let ?n = "su_service_name request"
  define tail where "tail = (case su_config_path request of None \<Rightarrow> [] | Some p \<Rightarrow> [chars ''--config'', to_string_lossy (op_text p)])"
  have real: "real_text ?n" using assms(1) by (simp add: name_ok_def)
  have v: "parse_service_name ?n = Inr ?n" using assms(1) by (simp add: parse_service_name_def name_ok_def)
  have tail: "m = Some ?n" if "uninstall_loop env help (Some ?n, None) tail = Inr (m, p)" for m p
  proof (cases "su_config_path request")
    case None
    then show ?thesis using that by (simp add: tail_def)
  next
    case (Some q)
    then show ?thesis
      using that by (simp add: tail_def option_item[OF real_lossy] split: sum.splits)
  qed
  have loop: "m = Some ?n" if "uninstall_loop env help (None, None) (drop 2 (elevated_args request)) = Inr (m, p)" for m p
    using that tail[of m p] unfolding elevated_tail lossy_real[OF real] tail_def[symmetric]
    by (simp add: option_item[OF real] v)
  obtain m p where mp: "uninstall_loop env help (None, None) (drop 2 (elevated_args request)) = Inr (m, p)"
    using assms(2) by (auto simp: parse_service_uninstall_options_def and_then_Inr)
  then show ?thesis
    using assms(2) loop[OF mp]
    by (cases p) (auto simp: parse_service_uninstall_options_def and_then_Inr split: if_splits)
qed

lemma elevated_no_nul:
  assumes "name_ok (su_service_name request)" "config_path_ok (su_config_path request)"
  shows "\<forall>a \<in> set (uninstall_command_args request). 0 \<notin> set a"
  using name_no_nul[OF assms(1)] assms(2) by (auto simp: uninstall_command_args_def chars_def config_path_ok_def split: option.splits)

end
