(* ===== verification/Service_Claims.thy ===== *)
theory Service_Claims
  imports Service_Elevated Launch_Properties Http_Properties
begin

text \<open>
  The properties of the service: how the stored command line is read, what a removal may touch, and that an
  installation is found again and removed.
\<close>

section \<open>Reading the stored command line\<close>

inductive_cases args_read_consE: "args_read (c # t) as"

lemma joined_args_read: "args_read (join_space (map quote_windows_arg (a # as))) (a # as)"
proof -
  have "args_read (space # join_space (map quote_windows_arg (a # as))) (a # as)"
    using args_reads_all[of "a # as"] by (simp add: join_space_concat comp_def)
  then show ?thesis by (rule args_read_consE) auto
qed

lemma split_scan_args:
  assumes "plain_spaces t" "\<not> doubled_mark False 0 t"
  shows "split_from args [] False False t = open_or (quote_open False 0 t) (args @ scan_args t)"
  using assms
proof (induction t arbitrary: args rule: scan_args.induct)
  case (2 c t)
  show ?case
  proof (cases "separator c")
    case True
    then have s: "is_whitespace c" "c \<noteq> backslash" "c \<noteq> quote_mark" using separator_whitespace[of c] by auto
    then have "\<not> doubled_mark False 0 t" "plain_spaces t" "quote_open False 0 (c # t) = quote_open False 0 t" using 2 by simp_all
    then show ?thesis using "2.IH"(1)[OF True] True s by simp
  next
    case False
    have first: "starts_with (\<lambda>c. \<not> is_whitespace c) (c # t)" using False "2.prems"(1) by auto
    obtain a r where ar: "scan_arg False 0 (c # t) = (a, r)" by (metis surj_pair)
    have step: "split_from args [] False False (c # t)
        = (if r = [] then open_or (quote_open False 0 (c # t)) (args @ [a]) else split_from args a False True r)
      \<and> (r \<noteq> [] \<longrightarrow> starts_with separator r \<and> quote_open False 0 (c # t) = quote_open False 0 r
           \<and> \<not> doubled_mark False 0 r \<and> plain_spaces r)"
      using split_from_scan_arg[OF "2.prems" ar, of args "[]"] split_from_flag[OF first, of args] by simp
    have shorter: "length r < length (c # t)"
      using ar False scan_arg_length[of False 1 t] scan_arg_length[of True 0 t] scan_arg_length[of False 0 t]
      by (auto simp: apfst_def map_prod_def split: if_splits prod.splits)
    have scan: "scan_args (c # t) = a # scan_args r" using ar False shorter by simp
    show ?thesis
    proof (cases r)
      case Nil
      then show ?thesis using step scan by simp
    next
      case (Cons d r')
      then have d: "is_whitespace d" using step separator_whitespace[of d] by auto
      have "split_from args a False True r = split_from (args @ [a]) [] False False r" using Cons d by simp
      also have "\<dots> = open_or (quote_open False 0 r) ((args @ [a]) @ scan_args r)"
        using "2.IH"(2)[OF False ar[symmetric] refl shorter] step Cons by simp
      finally show ?thesis using step Cons scan by simp
    qed
  qed
qed simp

lemma split_scan_program:
  assumes "plain_spaces t" "program_plain q t" "\<not> doubled_mark False 0 (snd (scan_program q t))"
  shows "split_from [] arg q True t
    = open_or (program_open q t \<or> quote_open False 0 (snd (scan_program q t)))
        ((arg @ fst (scan_program q t)) # scan_args (snd (scan_program q t)))"
  using assms
proof (induction q t arbitrary: arg rule: scan_program.induct)
  case (2 q c t)
  have ps: "plain_spaces t" using "2.prems"(1) by simp
  show ?case
  proof (cases "c = quote_mark")
    case True
    then show ?thesis using 2 ps by simp
  next
    case nq: False
    show ?thesis
    proof (cases "\<not> q \<and> separator c")
      case True
      then have c: "is_whitespace c" "c \<noteq> backslash" "c \<noteq> quote_mark" using separator_whitespace[of c] by auto
      have "split_from [] arg q True (c # t) = split_from [arg] [] False False (c # t)" using True c by simp
      also have "\<dots> = open_or (quote_open False 0 (c # t)) ([arg] @ scan_args (c # t))"
        using True c "2.prems" by (intro split_scan_args) simp_all
      finally show ?thesis using True c by simp
    next
      case False
      have IH: "split_from [] (arg @ [c]) q True t
          = open_or (program_open q t \<or> quote_open False 0 (snd (scan_program q t)))
              (((arg @ [c]) @ fst (scan_program q t)) # scan_args (snd (scan_program q t)))"
        using 2 nq False ps by (intro "2.IH"(2)) simp_all
      have "split_from [] arg q True (c # t) = split_from [] (arg @ [c]) q True t"
      proof (cases "c = backslash")
        case True
        then show ?thesis using split_from_run[of q t "[]" arg] "2.prems"(2) by simp
      next
        case nb: False
        have "\<not> (is_whitespace c \<and> \<not> q)" using False "2.prems"(1) by auto
        then show ?thesis using nb nq by (simp only: split_from.simps if_False)
      qed
      moreover have "scan_program q (c # t) = apfst (\<lambda>a. c # a) (scan_program q t)" "program_open q (c # t) = program_open q t"
        using nq False by auto
      ultimately show ?thesis unfolding IH by simp
    qed
  qed
qed simp

text \<open>
  C24. The hand-written reader of the command line of an installed service agrees with the rules of Windows, the
  rule for the program name among them: on a line whose white space is blanks and tabs only, that begins with the
  program name, in which no quotation mark of the program name follows a backslash, and in which no doubled
  quotation mark stands inside quotation marks behind it, \<open>split_windows_command_line\<close> finds exactly the program
  name and the arguments that \<open>windows_argv\<close> finds, and it fails exactly if the line ends inside quotation marks.
\<close>

theorem service_line_read_by_windows_rules:
  assumes "ordinary_line line"
  shows "split_windows_command_line line
    = (if line_open line then Inl ''service command line has an unterminated quote'' else Inr (windows_argv line))"
proof -
  have l: "starts_with (\<lambda>c. \<not> separator c) line" "plain_spaces line" "program_plain False line"
    "\<not> doubled_mark False 0 (snd (scan_program False line))"
    using assms by (simp_all add: ordinary_line_def)
  have "starts_with (\<lambda>c. \<not> is_whitespace c) line" using l(1,2) by (cases line) auto
  from split_from_flag[OF this] split_scan_program[OF l(2-4), of "[]"] show ?thesis
    by (simp add: split_windows_command_line_def line_open_def windows_argv_def case_prod_beta Let_def)
qed

lemma service_line_read_by_windows_rules_witness:
  "split_windows_command_line (lit ''a b c'') = Inr [lit ''a'', lit ''b'', lit ''c'']
    \<and> split_windows_command_line (quote_mark # lit ''a b'' @ [quote_mark, space, backslash, quote_mark, space, quote_mark, quote_mark])
       = Inr [lit ''a b'', [quote_mark], []]
    \<and> split_windows_command_line (lit ''a '' @ [quote_mark]) = Inl ''service command line has an unterminated quote''"
  using service_line_read_by_windows_rules[of "lit ''a b c''"]
    service_line_read_by_windows_rules
      [of "quote_mark # lit ''a b'' @ [quote_mark, space, backslash, quote_mark, space, quote_mark, quote_mark]"]
    service_line_read_by_windows_rules[of "lit ''a '' @ [quote_mark]"]
  by (simp add: ordinary_line_def is_whitespace_def line_open_def windows_argv_def)

text \<open>Where they differ: a doubled mark inside marks, and a backslash before a mark of the program name.\<close>

lemma readers_differ:
  "split_windows_command_line (lit ''a '' @ [quote_mark, 98, quote_mark, quote_mark, 99, quote_mark]) = Inr [lit ''a'', lit ''bc'']"
  "windows_argv (lit ''a '' @ [quote_mark, 98, quote_mark, quote_mark, 99, quote_mark]) = [lit ''a'', [98, quote_mark, 99]]"
  "split_windows_command_line ([quote_mark, 97, backslash, quote_mark] @ lit '' b'') = Inl ''service command line has an unterminated quote''"
  "windows_argv ([quote_mark, 97, backslash, quote_mark] @ lit '' b'') = [[97, backslash], lit ''b'']"
  by (simp_all add: split_windows_command_line_def windows_argv_def is_whitespace_def Let_def)

section \<open>What a removal touches\<close>





lemma delete_service_gone:
  assumes "stop_and_delete_service os name w = (Inr u, w')"
  shows "sw_services w' name = None"
  using assms
  by (auto simp: stop_and_delete_service_def try_then_Inr attempt_def Let_def open_service_optional_def
      split: option.splits if_splits)











section \<open>The health check\<close>

lemma after_head_skip:
  "13 \<notin> set line \<Longrightarrow> after_first [13, 10, 13, 10] (line @ t) = after_first [13, 10, 13, 10] t"
  by (induction line) (auto simp: strip_prefix_def)

lemma after_head_line:
  assumes "13 \<notin> set line" "c \<noteq> 13"
  shows "after_first [13, 10, 13, 10] (line @ 13 # 10 # c # t) = after_first [13, 10, 13, 10] (c # t)"
  using assms by (simp add: after_head_skip strip_prefix_def)

lemma after_head_end: "13 \<notin> set line \<Longrightarrow> after_first [13, 10, 13, 10] (line @ 13 # 10 # 13 # 10 # t) = Some t"
  by (simp add: after_head_skip strip_prefix_def)

text \<open>The lines of a response: each ends with CRLF, none is empty or has a CR, and an empty line follows.\<close>

fun crlf_lines :: "utext list \<Rightarrow> utext" where
  "crlf_lines [] = []"
| "crlf_lines (line # lines) = line @ 13 # 10 # crlf_lines lines"

lemma after_head_lines:
  "lines \<noteq> [] \<Longrightarrow> \<forall>l \<in> set lines. l \<noteq> [] \<and> 13 \<notin> set l \<Longrightarrow>
     after_first [13, 10, 13, 10] (crlf_lines lines @ 13 # 10 # t) = Some t"
proof (induction lines rule: crlf_lines.induct)
  case (2 line lines)
  show ?case
  proof (cases lines)
    case Nil
    then show ?thesis using 2 by (simp add: after_head_end)
  next
    case (Cons l ls)
    then obtain c cs where l: "l = c # cs" "c \<noteq> 13" using 2(3) by (cases l) auto
    have "after_first [13, 10, 13, 10] (line @ 13 # 10 # c # (cs @ 13 # 10 # crlf_lines ls @ 13 # 10 # t))
        = after_first [13, 10, 13, 10] (crlf_lines lines @ 13 # 10 # t)"
      using 2(3) l(2) by (subst after_head_line) (simp_all add: Cons l)
    then show ?thesis using 2 Cons l by simp
  qed
qed simp

lemma split_on_line: "c \<notin> set line \<Longrightarrow> split_on (\<lambda>x. x = c) (line @ c # t) = line # split_on (\<lambda>x. x = c) t"
  by (induction line) auto

lemma split_on_not_empty: "split_on P t \<noteq> []"
  by (induction t) (auto split: list.splits)

lemma first_text_line:
  assumes "10 \<notin> set line"
  shows "hd (text_lines (line @ 13 # 10 # t)) = line \<and> text_lines (line @ 13 # 10 # t) \<noteq> []"
proof -
  have "split_on (\<lambda>x. x = 10) ((line @ [13]) @ 10 # t) = (line @ [13]) # split_on (\<lambda>x. x = 10) t"
    using assms by (intro split_on_line) simp
  then show ?thesis
    using split_on_not_empty[of "\<lambda>x. x = 10" t] by (simp add: text_lines_def Let_def strip_cr_def)
qed

lemma crlf_lines_end: "lines \<noteq> [] \<Longrightarrow> \<exists>h. crlf_lines lines = h @ [13, 10]"
proof (induction lines rule: crlf_lines.induct)
  case (2 line lines)
  show ?case
  proof (cases "lines = []")
    case True
    then show ?thesis by simp
  next
    case False
    then obtain h where "crlf_lines lines = h @ [13, 10]" using 2 by blast
    then have "crlf_lines (line # lines) = (line @ 13 # 10 # h) @ [13, 10]" by simp
    then show ?thesis by blast
  qed
qed simp

lemma split_at_head:
  assumes "lines \<noteq> []" "\<forall>l \<in> set lines. l \<noteq> [] \<and> 13 \<notin> set l"
  shows "\<exists>headers. split_at_word [13, 10, 13, 10] (crlf_lines lines @ 13 # 10 # body) = Some (headers, body)
    \<and> crlf_lines lines = headers @ [13, 10]"
proof -
  obtain h where h: "crlf_lines lines = h @ [13, 10]"
    using crlf_lines_end[OF assms(1)] by blast
  show ?thesis
    using after_head_lines[OF assms, of body] by (simp add: split_at_word_def h)
qed

lemma status_code_word:
  "\<exists>a r. split_whitespace (status_line n) = a # show_text n # r"
proof -
  have digit: "\<forall>c \<in> set (show_text n). \<not> is_whitespace c"
    using show_nat_digits[of _ n] by (fastforce simp: is_whitespace_def)
  have ne: "show_text n \<noteq> []" using show_nat_append[of n] by auto
  have version: "chars ''HTTP/1.1'' \<noteq> []" "\<forall>c \<in> set (chars ''HTTP/1.1''). \<not> is_whitespace c"
    by (simp_all add: chars_def is_whitespace_def)
  have ws: "is_whitespace 32" by (simp add: is_whitespace_def)
  have "status_line n = chars ''HTTP/1.1'' @ 32 # show_text n @ 32 # chars (reason_phrase n)"
    by (simp add: status_line_def chars_def)
  then show ?thesis
    by (simp only: split_whitespace_word[OF version ws] split_whitespace_word[OF ne digit ws]) simp
qed

definition response_lines :: "http_response \<Rightarrow> utext list" where
  "response_lines r = status_line (rs_status r) # map (\<lambda>h. fst h @ [58, 32] @ snd h) (response_headers r)"

lemma response_text:
  assumes "plain_response r" "rs_body r = bytes_of body"
  shows "write_response r = bytes_of (crlf_lines (response_lines r) @ 13 # 10 # body)"
proof -
  have "header_bytes hs = bytes_of (crlf_lines (map (\<lambda>h. fst h @ [58, 32] @ snd h) hs))" for hs
  proof (induction hs)
    case Nil
    then show ?case by (simp add: header_bytes_def bytes_of_def utf8_encode_def)
  next
    case (Cons h hs)
    have "header_bytes (h # hs) = bytes_of (header_text h @ [10]) @ header_bytes hs" by (simp add: header_bytes_def)
    also have "\<dots> = bytes_of ((header_text h @ [10]) @ crlf_lines (map (\<lambda>h. fst h @ [58, 32] @ snd h) hs))"
      unfolding Cons by (rule bytes_of_append[symmetric])
    finally show ?case by (simp add: header_text_def del: bytes_of_append)
  qed
  moreover have "[13, 10] = bytes_of [13, 10]" by (simp add: bytes_of_def utf8_encode_def utf8_encode_char_def)
  moreover have "bytes_of a @ bytes_of b @ bytes_of [13, 10] @ bytes_of c = bytes_of (a @ b @ [13, 10] @ c)" for a b c
    by (simp only: bytes_of_append)
  ultimately show ?thesis using assms by (simp add: write_response_bytes response_lines_def del: bytes_of_append)
qed

lemma response_lines_ok:
  assumes "plain_response r"
  shows "\<forall>l \<in> set (response_lines r). l \<noteq> [] \<and> 13 \<notin> set l"
proof -
  have "13 \<notin> set (status_line n)" "status_line n \<noteq> []" for n
    using digits_ok[of n] by (simp_all add: status_line_def chars_def) (simp add: reason_phrase_def)
  moreover have "13 \<notin> set (fst h) \<and> 13 \<notin> set (snd h)" if "h \<in> set (response_headers r)" for h
  proof -
    have "13 \<notin> set (snd h)" using response_headers_ok[OF assms] that by (auto simp: list_all_iff header_ok_def)
    moreover have "fst h \<in> {chars ''Content-Length'', chars ''Connection'', chars ''Content-Type''}"
      using that by (auto simp: response_headers_def length_header_def split: option.splits)
    ultimately show ?thesis by (auto simp: chars_def)
  qed
  ultimately show ?thesis by (auto simp: response_lines_def)
qed

lemma health_of_response:
  assumes "plain_response r" "rs_status r < 2 ^ 16"
  shows "health_ok (crlf_lines (response_lines r) @ 13 # 10 # body)
    = (rs_status r = 200 \<and> after_first (chars (dquoted ''status'' @ '':'' @ dquoted ''ok'')) body \<noteq> None)"
proof -
  have ne: "response_lines r \<noteq> []" by (simp add: response_lines_def)
  obtain headers where h: "split_at_word [13, 10, 13, 10] (crlf_lines (response_lines r) @ 13 # 10 # body) = Some (headers, body)"
    "crlf_lines (response_lines r) = headers @ [13, 10]"
    using split_at_head[OF ne response_lines_ok[OF assms(1)]] by blast
  obtain l ls where l: "response_lines r = status_line (rs_status r) # l # ls"
    by (simp add: response_lines_def response_headers_def)
  obtain t where t: "crlf_lines (l # ls) = t @ [13, 10]" using crlf_lines_end[of "l # ls"] by blast
  have "(status_line (rs_status r) @ 13 # 10 # t) @ [13, 10] = headers @ [13, 10]" using h(2) t by (simp add: l)
  then have headers: "headers = status_line (rs_status r) @ 13 # 10 # t" by simp
  obtain rest_lines where lines: "text_lines headers = status_line (rs_status r) # rest_lines"
    using first_text_line[of "status_line (rs_status r)" t] status_line_ok[of "rs_status r"] unfolding headers
    by (cases "text_lines (status_line (rs_status r) @ 13 # 10 # t)") auto
  obtain a b where words: "split_whitespace (status_line (rs_status r)) = a # show_text (rs_status r) # b"
    using status_code_word by blast
  have "parse_u16 (show_text (rs_status r)) = Some (rs_status r)"
    using assms(2) parse_usize_show[of "rs_status r"] by (simp add: parse_u16_def)
  then show ?thesis unfolding health_ok_def h(1) by (simp add: lines words del: chars_inj)
qed

text \<open>
  C25. The health check of an installation reads the responses that the server writes: for every reply of the
  server that is not a stream of events, the check passes exactly if the status is 200 and the body says
  \<open>"status":"ok"\<close>.
\<close>

theorem health_check_reads_replies:
  assumes "\<not> is_mcp_sse_request q" "rs_body (fst (route_request lib t net q i la pa v)) = bytes_of body"
  shows "\<exists>answer. write_response (fst (route_request lib t net q i la pa v)) = bytes_of answer
    \<and> health_ok answer = (rs_status (fst (route_request lib t net q i la pa v)) = 200
        \<and> after_first (chars (dquoted ''status'' @ '':'' @ dquoted ''ok'')) body \<noteq> None)"
proof -
  let ?r = "fst (route_request lib t net q i la pa v)"
  have r: "plain_response ?r" "rs_status ?r \<in> {200, 202, 400, 403, 404, 415}"
    using route_ok[OF assms(1), of lib t net i la pa v] by (simp_all add: reply_ok_def)
  have "rs_status ?r < 2 ^ 16" using r(2) by auto
  from response_text[OF r(1) assms(2)] health_of_response[OF r(1) this, of body] show ?thesis by blast
qed

definition demo_health :: utext where
  "demo_health = [123] @ chars (dquoted ''status'' @ '':'' @ dquoted ''ok'') @ [125]"

lemma demo_health_word: "after_first (chars (dquoted ''status'' @ '':'' @ dquoted ''ok'')) demo_health \<noteq> None"
proof -
  define word where "word = chars (dquoted ''status'' @ '':'' @ dquoted ''ok'')"
  have "strip_prefix (123 # word @ [125]) word = None" by (simp add: strip_prefix_def word_def chars_def dquoted_def)
  moreover have "after_first word (word @ [125]) \<noteq> None" by (cases word) (simp_all add: strip_prefix_def starts_with_text_iff)
  ultimately show ?thesis unfolding demo_health_def word_def[symmetric] by simp
qed

lemma health_check_reads_replies_witness:
  "\<exists>answer. write_response (fst (route_request (demo_lib\<lparr>sl_print := \<lambda>_. bytes_of demo_health\<rparr>) demo_tools demo_net
        \<lparr>rq_method = chars ''GET'', rq_path = chars ''/healthz'', rq_headers = (\<lambda>_. None), rq_body = []\<rparr> 1 None None
        \<lparr>ms_service = demo_created, ms_logs = []\<rparr>)) = bytes_of answer
    \<and> health_ok answer"
proof -
  let ?q = "\<lparr>rq_method = chars ''GET'', rq_path = chars ''/healthz'', rq_headers = (\<lambda>_. None), rq_body = []\<rparr>"
  let ?lib = "demo_lib\<lparr>sl_print := \<lambda>_. bytes_of demo_health\<rparr>" and ?v = "\<lparr>ms_service = demo_created, ms_logs = []\<rparr>"
  have path: "request_path ?q = chars ''/healthz''" by (simp add: request_path_def split_once_def chars_def)
  have r: "fst (route_request ?lib demo_tools demo_net ?q 1 None None ?v)
      = \<lparr>rs_status = 200, rs_content_type = Some ''application/json'', rs_headers = [], rs_body = bytes_of demo_health\<rparr>"
    by (simp add: route_request_def origin_is_allowed_def path json_response_def)
  have "\<not> is_mcp_sse_request ?q" by (simp add: is_mcp_sse_request_def path)
  from health_check_reads_replies[OF this, of ?lib demo_tools demo_net 1 None None ?v demo_health] r demo_health_word
  show ?thesis by simp
qed

section \<open>A machine for the witnesses\<close>

definition demo_root :: os_path where
  "demo_root = path_of [Prefix (lit ''C:''), RootDir, Normal (lit ''dbgflow'')]"

definition demo_raw :: raw_runtime_config where
  "demo_raw =
     \<lparr>xc_version = 1, xc_name = lit ''dbgflow-mcp'', xc_display_name = lit ''DbgFlow'', xc_install_root = op_text demo_root,
      xc_bind = [], xc_data_dir = op_text (path_join demo_root (lit ''data'')), xc_dbgeng_dir = None, xc_symbol_path = None,
      xc_ttd_dir = None, xc_ida = None, xc_process = None, xc_proxy = None\<rparr>"

definition demo_config :: runtime_config where
  "demo_config =
     \<lparr>rc_config_path = path_join demo_root (lit ''c.toml''),
      rc_service = \<lparr>sv_name = lit ''dbgflow-mcp'', sv_display_name = lit ''DbgFlow'', sv_install_root = demo_root\<rparr>,
      rc_app = \<lparr>ap_bind = \<lparr>sa_ip = IpV6 1, sa_port = 7331\<rparr>, ap_data_dir = path_join demo_root (lit ''data''), ap_proxy = proxy_none,
        ap_process_launch = process_launch_config_default, ap_ttd_dir = None, ap_dbgeng_dir = None,
        ap_ida_install_dir = None, ap_ida_python_executable = None, ap_ida_vendor_src_dir = None,
        ap_ida_max_workers = None, ap_symbol_path = None\<rparr>\<rparr>"

definition demo_paths :: "os_path list" where
  "demo_paths = [demo_root, rc_config_path demo_config, ap_data_dir (rc_app demo_config), installed_exe demo_config]"

definition demo_runtime_env :: runtime_env where
  "demo_runtime_env =
     \<lparr>re_path = (\<lambda>t. case List.find (\<lambda>p. op_text p = t) demo_paths of Some p \<Rightarrow> op_components p | None \<Rightarrow> []),
      re_is_file = (\<lambda>t. 0 \<notin> set t), re_is_dir = (\<lambda>_. True), re_lowercase = id, re_var = (\<lambda>_. None), re_proxy_var = (\<lambda>_. None),
      re_current_dir = Inl [], re_join = (@), re_parse_addr = (\<lambda>_. Inr \<lparr>sa_ip = IpV6 1, sa_port = 7331\<rparr>),
      re_ida_install = (\<lambda>_. Inr demo_root), re_debug = (\<lambda>_. [])\<rparr>"

definition demo_files :: config_files where
  "demo_files = \<lparr>cf_read = (\<lambda>_. Inr []), cf_toml = (\<lambda>_. Inr demo_raw)\<rparr>"

lemma demo_names: "\<not> drive_prefixed (lit ''dbgflow'')" "\<not> drive_prefixed (lit ''c.toml'')" "\<not> drive_prefixed (lit ''data'')"
  "\<not> drive_prefixed (lit ''bin'')" "\<not> drive_prefixed (lit ''dbgflow-mcp.exe'')"
  by (simp_all add: drive_prefixed_def)

lemma demo_join: "\<not> drive_prefixed n \<Longrightarrow> op_text (path_join demo_root n) = lit ''C:'' @ [backslash] @ lit ''dbgflow'' @ [backslash] @ n"
  by (simp add: demo_root_def path_of_def push_name_def append_name_def is_separator_def drive_only_def path_join_def)

lemma demo_texts:
  "op_text demo_root = lit ''C:'' @ [backslash] @ lit ''dbgflow''"
  "op_text (path_join demo_root (lit ''c.toml'')) = lit ''C:'' @ [backslash] @ lit ''dbgflow'' @ [backslash] @ lit ''c.toml''"
  "op_text (path_join demo_root (lit ''data'')) = lit ''C:'' @ [backslash] @ lit ''dbgflow'' @ [backslash] @ lit ''data''"
  "op_text (installed_exe demo_config) = lit ''C:'' @ [backslash] @ lit ''dbgflow'' @ [backslash] @ lit ''bin'' @ [backslash] @ lit ''dbgflow-mcp.exe''"
  by (simp_all add: demo_root_def path_of_def push_name_def append_name_def drive_prefixed_def is_separator_def drive_only_def
      path_join_def installed_exe_def bin_dir_def demo_config_def)

lemma demo_members: "rc_config_path demo_config = path_join demo_root (lit ''c.toml'')"
  "ap_data_dir (rc_app demo_config) = path_join demo_root (lit ''data'')"
  by (simp_all add: demo_config_def)

lemma demo_distinct: "distinct (map (\<lambda>p. length (op_text p)) demo_paths)"
  unfolding demo_paths_def demo_members by (simp add: demo_texts(1,4) demo_join drive_prefixed_def)

lemma find_distinct: "distinct (map f xs) \<Longrightarrow> x \<in> set xs \<Longrightarrow> List.find (\<lambda>y. f y = f x) xs = Some x"
  by (induction xs) auto

lemma demo_reparses:
  assumes "p \<in> set demo_paths"
  shows "path_new demo_runtime_env (op_text p) = p"
proof -
  have "distinct (map op_text demo_paths)"
    using demo_distinct distinct_map[of length "map op_text demo_paths"] by (simp add: comp_def)
  from find_distinct[OF this assms] show ?thesis by (simp add: path_new_def demo_runtime_env_def)
qed

lemma demo_normal: "normal_path demo_root"
  using demo_names(1) by (auto simp: normal_path_def demo_root_def intro!: exI[of _ "lit ''C:''"] exI[of _ "[lit ''dbgflow'']"])

lemma demo_path_env: "path_env demo_runtime_env"
  by (auto simp: path_env_def only_in_front_def demo_runtime_env_def demo_paths_def demo_root_def path_of_def path_join_def
      installed_exe_def bin_dir_def demo_config_def drive_prefixed_def split: option.split)

lemma demo_front: "only_in_front (op_components (rc_config_path demo_config))"
  by (simp add: only_in_front_def demo_root_def path_of_def path_join_def demo_config_def drive_prefixed_def)

lemma starts_with_join: "\<not> drive_prefixed n \<Longrightarrow> path_starts_with_case_insensitive env (path_join p n) p"
  by (simp add: path_starts_with_case_insensitive_def path_join_def starts_with_text_iff)

lemma demo_root_safe: "reject_dangerous_install_root demo_runtime_env demo_root = Inr ()"
  by (simp add: reject_dangerous_install_root_def last_name_def demo_root_def GUARDED_ROOTS_def HIGH_LEVEL_DIRS_def demo_runtime_env_def
      path_eq_case_insensitive_def eq_ignore_ascii_case_def reject_shallow_profile_child_def and_then_def
      path_of_def append_name_def is_separator_def drive_only_def to_string_lossy_def to_ascii_lowercase_def is_surrogate_def)

lemma demo_layout:
  "check_layout demo_runtime_env (rc_config_path demo_config) demo_raw
     = Inr (demo_root, path_join demo_root (lit ''data''), \<lparr>sa_ip = IpV6 1, sa_port = 7331\<rparr>)"
  using demo_reparses[of demo_root] demo_reparses[of "path_join demo_root (lit ''data'')"]
  by (simp add: check_layout_def demo_raw_def demo_paths_def demo_config_def normalize_normal_path demo_normal normal_path_join
      demo_root_safe parse_bind_def starts_with_join drive_prefixed_def)
    (simp add: demo_runtime_env_def)

lemma demo_app: "check_app demo_runtime_env demo_raw d b = Inr ((rc_app demo_config)\<lparr>ap_data_dir := d, ap_bind := b\<rparr>)"
  by (simp add: check_app_def demo_raw_def check_option_def ida_field_def proxy_from_config_def process_launch_from_config_def
      infer_ttd_dir_from_dbgeng_dir_def demo_config_def)

lemma demo_name: "validate_service_name (lit ''dbgflow-mcp'') = Inr ()" "trim (lit ''DbgFlow'') \<noteq> []"
  by (simp_all add: validate_service_name_def trim_def is_whitespace_def is_control_def)

lemma demo_from_raw: "from_raw demo_runtime_env (rc_config_path demo_config) demo_raw = Inr demo_config"
proof -
  have "xc_version demo_raw = CONFIG_VERSION" "xc_name demo_raw = lit ''dbgflow-mcp''" "xc_display_name demo_raw = lit ''DbgFlow''"
    by (simp_all add: demo_raw_def CONFIG_VERSION_def)
  then show ?thesis
    unfolding from_raw_def by (simp only: demo_name demo_layout demo_app and_then_simps prod.case if_False if_True not_True_eq_False simp_thms)
      (simp add: demo_config_def)
qed

lemma demo_loads: "load_config demo_runtime_env demo_files (rc_config_path demo_config) = Inr demo_config"
proof -
  have "normal_path (rc_config_path demo_config)" unfolding demo_members by (rule normal_path_join[OF demo_normal demo_names(2)])
  then have "normalize_absolute_existing_file demo_runtime_env (rc_config_path demo_config) ''--config'' = Inr (rc_config_path demo_config)"
    by (simp add: normalize_absolute_existing_file_def normalize_normal_path)
      (simp add: demo_runtime_env_def demo_members demo_join drive_prefixed_def)
  then show ?thesis by (simp add: load_config_def demo_files_def demo_from_raw)
qed

definition demo_os :: service_os where
  "demo_os =
     \<lparr>so_fail = (\<lambda>_. None), so_admin = Inr True, so_launch_error = (\<lambda>_. None), so_wait_error = None,
      so_escape = (\<lambda>exe args. join_space (map quote_windows_arg (exe # args))),
      so_stop_looks = [Inr False, Inr True], so_gone_looks = [Inr True], so_port_error = (\<lambda>_. None), so_show_addr = (\<lambda>_. []),
      so_exe = Inr [97], so_exe_exists = True,
      so_health = [None, Some (crlf_lines (response_lines (json_response demo_lib 200 JNull)) @ 13 # 10 # demo_health)]\<rparr>"

definition demo_machine :: service_world where
  "demo_machine = \<lparr>sw_services = (\<lambda>_. None), sw_exists = (\<lambda>_. True), sw_removed = [], sw_calls = 0\<rparr>"

definition demo_uninstall :: service_uninstall_config where
  "demo_uninstall = \<lparr>su_service_name = lit ''dbgflow-mcp'', su_config_path = Some (rc_config_path demo_config)\<rparr>"





section \<open>What was installed is found again\<close>

lemma attempt_Inr:
  "attempt os m act w = (Inr u, w') \<longleftrightarrow> so_fail os (sw_calls w) = None \<and> w' = act (w\<lparr>sw_calls := sw_calls w + 1\<rparr>)"
  by (auto simp: attempt_def Let_def split: option.splits)

lemma installed_state:
  assumes "install_elevated os c w = (Inr u, w')" "normal_path (sv_install_root (rc_service c))"
  shows "sw_services w' (sv_name (rc_service c)) = Some (True, so_escape os (op_text (installed_exe c)) (service_launch_arguments c))
    \<and> sw_exists w' (op_text (sv_install_root (rc_service c))) \<and> sw_removed w' = sw_removed w"
proof -
  define name root where "name = sv_name (rc_service c)" and "root = sv_install_root (rc_service c)"
  obtain w1 w2 w3 w4 w5 w6 w7 u1 u2 u3 u4 u5 u6 u7 exe where
    s: "stop_and_delete_service os name w = (Inr u1, w1)" "so_exe os = Inr exe"
      "make_dir os ''bin'' (bin_dir c) w1 = (Inr u2, w2)" "make_dir os ''data'' (ap_data_dir (rc_app c)) w2 = (Inr u3, w3)"
      "attempt os (''copy '' @ display exe @ '' to '' @ shown_path (installed_exe c) @ '': '') id w3 = (Inr u4, w4)"
      "grant_install_root_acl os root w4 = (Inr u5, w5)" "create_service os c (installed_exe c) w5 = (Inr u6, w6)"
      "start_service os name w6 = (Inr u7, w7)" "w' = w7"
    using assms(1) by (auto simp: install_elevated_def try_then_Inr name_def root_def split: sum.splits if_splits)
  have "root = path_of (take (length (op_components root)) (op_components (bin_dir c)))"
    using assms(2) by (auto simp: bin_dir_def path_join_def drive_prefixed_def normal_path_def simp flip: root_def)
  then have "sw_exists w2 (op_text root)"
    using s(3) by (fastforce simp: make_dir_def attempt_Inr list_ex_iff bin_dir_def path_join_def drive_prefixed_def simp flip: root_def)
  then have e: "sw_exists w7 (op_text root)"
    using s by (auto simp: make_dir_def attempt_Inr grant_install_root_acl_def create_service_def start_service_def
        open_manager_def try_then_Inr Let_def)
  have r: "sw_removed w7 = sw_removed w"
    using s(3-8) stop_and_delete_removed'[OF s(1)]
    by (auto simp: make_dir_def attempt_Inr grant_install_root_acl_def create_service_def start_service_def
        open_manager_def try_then_Inr Let_def)
  have "sw_services w7 name = Some (True, so_escape os (op_text (installed_exe c)) (service_launch_arguments c))"
    using s(7,8) by (auto simp: attempt_Inr create_service_def start_service_def open_manager_def try_then_Inr Let_def
        simp flip: name_def)
  with e r s(9) show ?thesis by (simp add: name_def root_def)
qed

lemma attempt_never: "so_fail os = (\<lambda>_. None) \<Longrightarrow> attempt os m act w = (Inr (), act (w\<lparr>sw_calls := sw_calls w + 1\<rparr>))"
  by (simp add: attempt_def Let_def)

lemma installed_line_parsed:
  assumes "split_windows_command_line line = Inr (op_text exe # service_launch_arguments c)"
    and "reparses env exe" "reparses env (rc_config_path c)"
  shows "parse_installed_service_command env line = Inr \<lparr>ic_executable_path = exe, ic_config_path = rc_config_path c\<rparr>"
  using assms
  by (simp add: parse_installed_service_command_def service_launch_arguments_def and_then_Inr reparses_def)

lemma load_config_reparsed:
  assumes "load_config env files p = Inr c" "path_env env" "only_in_front (op_components p)" "reparses env (rc_config_path c)"
    and "is_absolute (op_components (rc_config_path c))"
  shows "load_config env files (rc_config_path c) = Inr c"
  using load_config_again[OF assms] assms(4) by (simp add: reparses_def)

lemma installed_plan:
  assumes "load_config env files p = Inr c" "path_env env" "only_in_front (op_components p)" "reparses env (rc_config_path c)"
    and "is_absolute (op_components (rc_config_path c))" "is_absolute (op_components (sv_install_root (rc_service c)))"
  shows "uninstall_plan_from_config env files (sv_name (rc_service c)) (rc_config_path c) (Some (installed_exe c)) b
     = Inr \<lparr>up_service_name = sv_name (rc_service c), up_install_root = sv_install_root (rc_service c), up_service_exists = b\<rparr>"
proof -
  have ok: "runtime_config_ok env c" by (rule load_config_checked[OF assms(1-3)])
  then have "normal_path (sv_install_root (rc_service c))"
    using assms(6) by (simp add: runtime_config_ok_def settled_path_def Let_def)
  then have "normal_path (installed_exe c)"
    unfolding installed_exe_def bin_dir_def by (intro normal_path_join demo_names)
  then have "validate_install_root_removal env c (Some (installed_exe c)) = Inr (sv_install_root (rc_service c))"
    by (intro loaded_root_removable[OF ok assms(6)]) (auto simp: installed_exe_def bin_dir_def path_starts_with_join drive_prefixed_def)
  then show ?thesis by (simp add: uninstall_plan_from_config_def load_config_reparsed[OF assms(1-5)])
qed

lemma delete_running_service:
  assumes "so_fail os = (\<lambda>_. None)" "sw_services w name = Some (True, line)"
    and "\<And>e. poll_service e (so_stop_looks os) = Inr ()" "\<And>e. poll_service e (so_gone_looks os) = Inr ()"
  shows "\<exists>w'. stop_and_delete_service os name w = (Inr (), w') \<and> sw_exists w' = sw_exists w"
  using assms
  by (simp add: stop_and_delete_service_def open_manager_def open_service_optional_def wait_service_stopped_def attempt_never)

lemma poll_service_ends: "poll_service e (replicate n (Inr False) @ Inr True # r) = Inr ()"
  by (induction n) simp_all

text \<open>
  C23. What an administrator installed is found again: after an installation that succeeded, an uninstallation that
  is only given the name of the service reads program and configuration from the stored command line, loads the
  configuration, accepts its install root, stops and deletes the service, and removes exactly this directory. This
  is so if the configuration is the one that was installed and its file and its install root have absolute paths (no
  name in them begins like a drive), the texts of both paths are read as the paths that they were written from, no
  call to the service manager or the file system fails, the service stops and is gone before the deadlines, and
  the stored command line is one that the rules of Windows read as the program and its arguments and that has no
  white space but blanks and tabs.
\<close>

theorem uninstall_reverses_install:
  assumes "load_config env files p = Inr c" "path_env env" "only_in_front (op_components p)"
    and "is_absolute (op_components (rc_config_path c))" "is_absolute (op_components (sv_install_root (rc_service c)))"
    and "reparses env (rc_config_path c)" "reparses env (installed_exe c)"
    and "so_admin os = Inr True" "so_fail os = (\<lambda>_. None)"
    and "so_stop_looks os = replicate n (Inr False) @ Inr True # r" "so_gone_looks os = replicate m (Inr False) @ Inr True # s"
    and "args_read (so_escape os (op_text (installed_exe c)) (service_launch_arguments c)) (op_text (installed_exe c) # service_launch_arguments c)"
    and "plain_spaces (so_escape os (op_text (installed_exe c)) (service_launch_arguments c))"
    and "install os child c w = (Inr (), w1)"
  shows "\<exists>w2. uninstall env files os child \<lparr>su_service_name = sv_name (rc_service c), su_config_path = None\<rparr> w1 = (Inr (), w2)
    \<and> sw_services w2 (sv_name (rc_service c)) = None
    \<and> sw_removed w2 = op_text (sv_install_root (rc_service c)) # sw_removed w
    \<and> \<not> sw_exists w2 (op_text (sv_install_root (rc_service c)))"
proof -
  define name root line exe where "name = sv_name (rc_service c)" and "root = sv_install_root (rc_service c)"
    and "line = so_escape os (op_text (installed_exe c)) (service_launch_arguments c)" and "exe = installed_exe c"
  have admin: "ensure_elevated os child args v = (Inr False, v)" for args v by (simp add: ensure_elevated_def assms(8))
  have "normal_path root" using load_config_checked[OF assms(1-3)] assms(5)
    by (simp add: runtime_config_ok_def settled_path_def Let_def root_def)
  then have w1: "sw_services w1 name = Some (True, line)" "sw_exists w1 (op_text root)" "sw_removed w1 = sw_removed w"
    using installed_state[of os c w "()" w1] assms(14) by (simp_all add: install_def admin name_def root_def line_def)
  have "split_windows_command_line line = Inr (op_text exe # service_launch_arguments c)"
    using args_read_split[OF assms(12,13), of "[]"] by (simp add: split_windows_command_line_def line_def exe_def)
  from installed_line_parsed[OF this] have parsed: "parse_installed_service_command env line
      = Inr \<lparr>ic_executable_path = exe, ic_config_path = rc_config_path c\<rparr>"
    using assms(6,7) by (simp add: exe_def)
  define w2 where "w2 = w1\<lparr>sw_calls := sw_calls w1 + 3\<rparr>"
  have found: "installed_service_command_of env os name w1
      = (Inr (Some \<lparr>ic_executable_path = exe, ic_config_path = rc_config_path c\<rparr>), w2)"
    using w1(1) parsed
    by (simp add: installed_service_command_of_def open_manager_def open_service_optional_def attempt_never[OF assms(9)] w2_def)
  have plan: "resolve_uninstall_plan env files os \<lparr>su_service_name = name, su_config_path = None\<rparr> w1
      = (Inr \<lparr>up_service_name = name, up_install_root = root, up_service_exists = True\<rparr>, w2)"
    using installed_plan[OF assms(1-3) assms(6) assms(4,5), of True]
    by (simp add: resolve_uninstall_plan_def found name_def[symmetric] root_def[symmetric] exe_def[symmetric])
  have "sw_services w2 name = Some (True, line)" using w1(1) by (simp add: w2_def)
  then obtain w3 where w3: "stop_and_delete_service os name w2 = (Inr (), w3)" "sw_exists w3 = sw_exists w2"
    using delete_running_service[OF assms(9)] assms(10,11) poll_service_ends by metis
  have gone: "sw_services w3 name = None" "sw_removed w3 = sw_removed w"
    using delete_service_gone[OF w3(1)] stop_and_delete_removed'[OF w3(1)] w1(3) by (simp_all add: w2_def)
  have "uninstall env files os child \<lparr>su_service_name = name, su_config_path = None\<rparr> w1 = remove_dir_all os root w3"
    using w1(2) w3 by (simp add: uninstall_def admin uninstall_elevated_def plan w2_def)
  then show ?thesis
    using gone by (simp add: remove_dir_all_def attempt_never[OF assms(9)] name_def root_def)
qed

definition demo_child :: "os_text list \<Rightarrow> service_run" where
  "demo_child = main_run [] []"

lemma demo_plain: "plain_spaces (join_space (map quote_windows_arg (op_text (installed_exe demo_config) # service_launch_arguments demo_config)))"
  unfolding service_launch_arguments_def demo_members demo_texts
  by (simp add: quote_windows_arg_def needs_quotes_def is_whitespace_def chars_def)

lemma demo_healthy: "wait_healthz demo_os b = Inr ()"
proof -
  have "plain_response (json_response demo_lib 200 JNull)" "rs_status (json_response demo_lib 200 JNull) = 200"
    by (simp_all add: plain_response_def json_response_def)
  then show ?thesis
    using health_of_response[of "json_response demo_lib 200 JNull" demo_health] demo_health_word
    by (simp add: wait_healthz_def demo_os_def)
qed

lemma demo_installs: "fst (install demo_os demo_child demo_config demo_machine) = Inr ()"
proof -
  have never: "so_fail demo_os = (\<lambda>_. None)" "so_admin demo_os = Inr True" "so_exe demo_os = Inr [97]" "so_exe_exists demo_os"
    "so_port_error demo_os = (\<lambda>_. None)" by (simp_all add: demo_os_def)
  have "assert_port_available demo_os (ap_bind (rc_app demo_config)) = Inr ()"
    by (simp add: assert_port_available_def never demo_config_def)
  moreover have "\<exists>w. stop_and_delete_service demo_os (sv_name (rc_service demo_config)) demo_machine = (Inr (), w)"
    by (simp add: stop_and_delete_service_def open_manager_def open_service_optional_def attempt_never[OF never(1)] demo_machine_def)
  then obtain w where "stop_and_delete_service demo_os (sv_name (rc_service demo_config)) demo_machine = (Inr (), w)" ..
  ultimately show ?thesis
    by (simp add: install_def ensure_elevated_def never install_elevated_def make_dir_def grant_install_root_acl_def
        create_service_def start_service_def open_manager_def attempt_never[OF never(1)] demo_healthy Let_def)
qed

lemma uninstall_reverses_install_witness:
  "\<exists>w2. uninstall demo_runtime_env demo_files demo_os demo_child \<lparr>su_service_name = sv_name (rc_service demo_config), su_config_path = None\<rparr>
        (snd (install demo_os demo_child demo_config demo_machine)) = (Inr (), w2)
    \<and> sw_services w2 (sv_name (rc_service demo_config)) = None
    \<and> sw_removed w2 = op_text (sv_install_root (rc_service demo_config)) # sw_removed demo_machine
    \<and> \<not> sw_exists w2 (op_text (sv_install_root (rc_service demo_config)))"
proof (rule uninstall_reverses_install[where n = 1 and m = 0])
  show "load_config demo_runtime_env demo_files (rc_config_path demo_config) = Inr demo_config" by (rule demo_loads)
  show "path_env demo_runtime_env" by (rule demo_path_env)
  show "only_in_front (op_components (rc_config_path demo_config))" by (rule demo_front)
  show "is_absolute (op_components (rc_config_path demo_config))"
    "is_absolute (op_components (sv_install_root (rc_service demo_config)))"
    by (simp_all add: demo_config_def demo_root_def path_of_def path_join_def drive_prefixed_def)
  show "reparses demo_runtime_env (rc_config_path demo_config)" "reparses demo_runtime_env (installed_exe demo_config)"
    using demo_reparses by (simp_all add: reparses_def demo_paths_def)
  show "so_admin demo_os = Inr True" "so_fail demo_os = (\<lambda>_. None)"
    "so_stop_looks demo_os = replicate 1 (Inr False) @ Inr True # []"
    "so_gone_looks demo_os = replicate 0 (Inr False) @ Inr True # []" by (simp_all add: demo_os_def)
  have e: "so_escape demo_os exe args = join_space (map quote_windows_arg (exe # args))" for exe args by (simp add: demo_os_def)
  show "args_read (so_escape demo_os (op_text (installed_exe demo_config)) (service_launch_arguments demo_config))
      (op_text (installed_exe demo_config) # service_launch_arguments demo_config)"
    unfolding e by (rule joined_args_read)
  show "plain_spaces (so_escape demo_os (op_text (installed_exe demo_config)) (service_launch_arguments demo_config))"
    unfolding e by (rule demo_plain)
  show "install demo_os demo_child demo_config demo_machine = (Inr (), snd (install demo_os demo_child demo_config demo_machine))"
    using demo_installs by (metis prod.collapse)
qed

end
