(* ===== verification/Dbgeng_Resolver.thy ===== *)
theory Dbgeng_Resolver
  imports Paths
begin

text \<open>
  The search for \<open>dbgeng.dll\<close> (\<open>dbgflow-debug/src/backend/dbgeng/resolver.rs\<close>): a configured directory, the
  packages of the App Store, the Windows SDK, and \<open>System32\<close>, in this order.
\<close>

section \<open>The search\<close>

text \<open>The file system: what is a file, what a directory, and the names that \<open>read_dir\<close> gives, with a gap for an
  entry that cannot be read.\<close>

record dbgeng_fs =
  fs_is_file :: "os_text \<Rightarrow> bool"
  fs_is_dir :: "os_text \<Rightarrow> bool"
  fs_read_dir :: "os_text \<Rightarrow> os_text option list option"

datatype dbgeng_source = SourceEnvironment | SourceAppStore | SourceWindowsSdk | SourceSystem32

record dbgeng_location =
  dl_path :: os_text
  dl_source :: dbgeng_source

record dbgeng_roots =
  dr_environment_dbgeng_dir :: "os_text option"
  dr_program_files_windows_apps :: os_text
  dr_windows_kits_roots :: "os_text list"
  dr_system_root :: os_text

datatype target_arch = ArchX86 | ArchAarch64 | ArchOther

fun debugger_arch :: "target_arch \<Rightarrow> utext" where
  "debugger_arch ArchX86 = chars ''x86''"
| "debugger_arch ArchAarch64 = chars ''arm64''"
| "debugger_arch ArchOther = chars ''x64''"

definition DBGENG_DLL :: utext where "DBGENG_DLL = chars ''dbgeng.dll''"

definition find_dbgeng_in_debuggers_dir :: "dbgeng_fs \<Rightarrow> os_text \<Rightarrow> os_text option" where
  "find_dbgeng_in_debuggers_dir fs dir =
     (let path = push_name dir DBGENG_DLL in if fs_is_file fs path then Some path else None)"

text \<open>The entries that can be read.\<close>

definition dir_names :: "dbgeng_fs \<Rightarrow> os_text \<Rightarrow> os_text list" where
  "dir_names fs root = (case fs_read_dir fs root of None \<Rightarrow> [] | Some entries \<Rightarrow> List.map_filter id entries)"

definition matches_file_name :: "utext \<Rightarrow> os_text \<Rightarrow> bool" where
  "matches_file_name file_name n = (\<not> list_ex is_surrogate n \<and> eq_ignore_ascii_case n file_name)"

text \<open>\<open>find_file_limited\<close>, and its loop over the entries of a directory.\<close>

fun find_file_limited :: "dbgeng_fs \<Rightarrow> utext \<Rightarrow> nat \<Rightarrow> os_text \<Rightarrow> os_text option"
  and find_in_entries :: "dbgeng_fs \<Rightarrow> utext \<Rightarrow> nat \<Rightarrow> os_text \<Rightarrow> os_text list \<Rightarrow> os_text option" where
  "find_file_limited fs file_name 0 root = None"
| "find_file_limited fs file_name (Suc depth) root = find_in_entries fs file_name depth root (dir_names fs root)"
| "find_in_entries fs file_name depth root [] = None"
| "find_in_entries fs file_name depth root (n # ns) =
     (let path = push_name root n in
      if fs_is_file fs path \<and> matches_file_name file_name n then Some path
      else if fs_is_dir fs path
      then (case find_file_limited fs file_name depth path of
              Some found \<Rightarrow> Some found
            | None \<Rightarrow> find_in_entries fs file_name depth root ns)
      else find_in_entries fs file_name depth root ns)"

definition windbg_packages :: "dbgeng_fs \<Rightarrow> os_text \<Rightarrow> os_text list" where
  "windbg_packages fs root =
     map (push_name root)
       (rev (sort (filter (\<lambda>n. \<not> list_ex is_surrogate n \<and> starts_with_text n (chars ''Microsoft.WinDbg''))
          (dir_names fs root))))"

definition find_app_store_dbgeng :: "dbgeng_fs \<Rightarrow> os_text \<Rightarrow> os_text option" where
  "find_app_store_dbgeng fs root = find_map (find_file_limited fs DBGENG_DLL 4) (windbg_packages fs root)"

definition find_sdk_dbgeng :: "dbgeng_fs \<Rightarrow> target_arch \<Rightarrow> os_text list \<Rightarrow> os_text option" where
  "find_sdk_dbgeng fs arch roots =
     find_map (\<lambda>root.
       case find_dbgeng_in_debuggers_dir fs (push_name (push_name root (chars ''Debuggers'')) (debugger_arch arch)) of
         Some p \<Rightarrow> Some p
       | None \<Rightarrow> find_dbgeng_in_debuggers_dir fs root) roots"

definition resolve_dbgeng_from_roots :: "dbgeng_fs \<Rightarrow> target_arch \<Rightarrow> dbgeng_roots \<Rightarrow> dbgeng_location result" where
  "resolve_dbgeng_from_roots fs arch roots =
     (case Option.bind (dr_environment_dbgeng_dir roots) (find_dbgeng_in_debuggers_dir fs) of
        Some p \<Rightarrow> Inr \<lparr>dl_path = p, dl_source = SourceEnvironment\<rparr>
      | None \<Rightarrow>
     (case find_app_store_dbgeng fs (dr_program_files_windows_apps roots) of
        Some p \<Rightarrow> Inr \<lparr>dl_path = p, dl_source = SourceAppStore\<rparr>
      | None \<Rightarrow>
     (case find_sdk_dbgeng fs arch (dr_windows_kits_roots roots) of
        Some p \<Rightarrow> Inr \<lparr>dl_path = p, dl_source = SourceWindowsSdk\<rparr>
      | None \<Rightarrow>
          (let system32 = push_name (push_name (dr_system_root roots) (chars ''System32'')) DBGENG_DLL
           in if fs_is_file fs system32 then Inr \<lparr>dl_path = system32, dl_source = SourceSystem32\<rparr>
              else Inl (Backend ''dbgeng.dll not found in App Store, Windows SDK, or System32 locations'')))))"

definition default_roots :: "(string \<Rightarrow> os_text option) \<Rightarrow> dbgeng_roots" where
  "default_roots var =
     (let or_else = (\<lambda>name t. case var name of Some v \<Rightarrow> v | None \<Rightarrow> t);
          drive = chars ''C:'' @ [backslash];
          program_files = or_else ''ProgramFiles'' (drive @ chars ''Program Files'');
          program_files_x86 = or_else ''ProgramFiles(x86)'' (drive @ chars ''Program Files (x86)'');
          kits = (\<lambda>root. push_name (push_name root (chars ''Windows Kits'')) (chars ''10''))
      in \<lparr>dr_environment_dbgeng_dir = var ''DBGFLOW_DBGENG_DIR'',
          dr_program_files_windows_apps = push_name program_files (chars ''WindowsApps''),
          dr_windows_kits_roots = [kits program_files_x86, kits program_files],
          dr_system_root = or_else ''SystemRoot'' (drive @ chars ''Windows'')\<rparr>)"

definition resolve_dbgeng :: "dbgeng_fs \<Rightarrow> target_arch \<Rightarrow> (string \<Rightarrow> os_text option) \<Rightarrow> dbgeng_location result" where
  "resolve_dbgeng fs arch var = resolve_dbgeng_from_roots fs arch (default_roots var)"

section \<open>What is found\<close>

text \<open>The files below a directory, with the number of directories that have to be read to see them.\<close>

inductive seen_below :: "dbgeng_fs \<Rightarrow> utext \<Rightarrow> nat \<Rightarrow> os_text \<Rightarrow> os_text \<Rightarrow> bool" for fs file_name where
  seen_here: "n \<in> set (dir_names fs root) \<Longrightarrow> fs_is_file fs (push_name root n) \<Longrightarrow> matches_file_name file_name n \<Longrightarrow>
    seen_below fs file_name (Suc depth) root (push_name root n)"
| seen_deeper: "n \<in> set (dir_names fs root) \<Longrightarrow> fs_is_dir fs (push_name root n) \<Longrightarrow>
    seen_below fs file_name depth (push_name root n) p \<Longrightarrow> seen_below fs file_name (Suc depth) root p"

inductive_cases seen_below_SucE: "seen_below fs file_name (Suc depth) root p"

lemma find_sound:
  "find_file_limited fs file_name depth root = Some p \<Longrightarrow> seen_below fs file_name depth root p"
  "find_in_entries fs file_name depth root ns = Some p \<Longrightarrow> set ns \<subseteq> set (dir_names fs root) \<Longrightarrow>
     seen_below fs file_name (Suc depth) root p"
proof (induction fs file_name depth root and fs file_name depth root ns rule: find_file_limited_find_in_entries.induct)
  case (4 fs file_name depth root n ns)
  show ?case
  proof (cases "fs_is_file fs (push_name root n) \<and> matches_file_name file_name n")
    case True
    then have "p = push_name root n" using 4(4) by simp
    then show ?thesis using True 4(5) by (simp add: seen_here)
  next
    case here: False
    show ?thesis
    proof (cases "fs_is_dir fs (push_name root n) \<and> find_file_limited fs file_name depth (push_name root n) = Some p")
      case True
      then show ?thesis using 4(1)[OF refl here] 4(5) by (auto intro: seen_deeper)
    next
      case False
      then have "find_in_entries fs file_name depth root ns = Some p"
        using 4(4) here by (auto simp: Let_def split: if_splits option.splits)
      then show ?thesis
        using 4(2)[OF refl here] 4(3)[OF refl here] 4(4,5) here False
        by (cases "fs_is_dir fs (push_name root n)") (auto simp: Let_def split: option.splits)
    qed
  qed
qed auto

lemma find_in_entries_complete:
  assumes "\<And>path p. seen_below fs file_name depth path p \<Longrightarrow> find_file_limited fs file_name depth path \<noteq> None"
    and "n \<in> set ns"
    and "fs_is_file fs (push_name root n) \<and> matches_file_name file_name n
      \<or> fs_is_dir fs (push_name root n) \<and> seen_below fs file_name depth (push_name root n) p"
  shows "find_in_entries fs file_name depth root ns \<noteq> None"
  using assms(2,3)
proof (induction ns)
  case (Cons m ns)
  then show ?case
    using assms(1)[of "push_name root n" p] by (auto simp: Let_def split: option.split)
qed simp

lemma find_complete: "seen_below fs file_name depth root p \<Longrightarrow> find_file_limited fs file_name depth root \<noteq> None"
proof (induction depth arbitrary: root p)
  case 0
  then show ?case by (auto elim: seen_below.cases)
next
  case (Suc depth)
  note ih = Suc.IH
  from Suc.prems obtain n where "n \<in> set (dir_names fs root)"
    "fs_is_file fs (push_name root n) \<and> matches_file_name file_name n
      \<or> fs_is_dir fs (push_name root n) \<and> seen_below fs file_name depth (push_name root n) p"
    by (elim seen_below_SucE) auto
  from find_in_entries_complete[OF ih this] show ?case by simp
qed

lemma seen_below_file: "seen_below fs file_name depth root p \<Longrightarrow> fs_is_file fs p"
  by (induction rule: seen_below.induct) auto

lemma find_dbgeng_Some: "find_dbgeng_in_debuggers_dir fs dir = Some p \<Longrightarrow> p = push_name dir DBGENG_DLL \<and> fs_is_file fs p"
  by (auto simp: find_dbgeng_in_debuggers_dir_def Let_def split: if_splits)

lemma find_app_store_file: "find_app_store_dbgeng fs root = Some p \<Longrightarrow> fs_is_file fs p"
  using find_sound(1) seen_below_file by (fastforce simp: find_app_store_dbgeng_def dest!: find_map_SomeD)

lemma find_sdk_file: "find_sdk_dbgeng fs arch roots = Some p \<Longrightarrow> fs_is_file fs p"
  by (auto simp: find_sdk_dbgeng_def dest!: find_map_SomeD find_dbgeng_Some split: option.splits)

end
