(* ===== verification/Dbgeng.thy ===== *)
theory Dbgeng
  imports Worker_Protocol Dbgeng_Resolver
begin

text \<open>
  One session of the debugger engine (\<open>dbgflow-debug/src/backend/dbgeng/mod.rs\<close>): opening a target, executing
  a command, closing. The engine is a COM library; every call into it, and into Windows, is a value of
  \<open>engine_call\<close> that is recorded with its session and whether it worked. What a call gives, and what the engine
  prints meanwhile, is decided by its number and by the call.
\<close>

section \<open>The engine\<close>

datatype engine_call =
    CallLoadLibrary os_text bool
  | CallGetProc
  | CallDebugCreate
  | CallFromAbi
  | CallQuery string
  | CallSetSymbolPath wide
  | CallSetInterrupt
  | CallSetCallbacks bool
  | CallOpenDump wide
  | CallAttach u32
  | CallOpenProcess u32
  | CallDebugBreak u32
  | CallCloseHandle u32
  | CallSpawn u32
  | CallResume u32
  | CallKill u32
  | CallWaitForEvent
  | CallExecute wide
  | CallGetStatus
  | CallEndSession

text \<open>A line of the log; its durations and its further fields are left out.\<close>

record dbg_log =
  gl_level :: log_level
  gl_event :: string
  gl_correlation :: "string option"
  gl_session :: "string option"
  gl_operation :: "utext option"
  gl_error :: "string option"

text \<open>
  The calls in order; the output buffer of each session and whether the lock of the buffer is poisoned; for
  which sessions the output callbacks are set; and what was logged and reported, in order.
\<close>

record dbg_world =
  dw_calls :: "(string \<times> engine_call \<times> bool) list"
  dw_output :: "string \<Rightarrow> utext"
  dw_output_poisoned :: "string \<Rightarrow> bool"
  dw_callbacks :: "string \<Rightarrow> bool"
  dw_emitted :: "(dbg_log + backend_execution_event) list"

text \<open>When a cancellation is asked for, see below.\<close>

datatype cancel_moment = BeforeLook nat | AfterLook nat

fun first_seen :: "cancel_moment \<Rightarrow> nat" where
  "first_seen (BeforeLook k) = k"
| "first_seen (AfterLook k) = Suc k"

text \<open>
  The outside: Windows for starting a process, the file system and the variables for the search; the error of a
  call, if it fails; the \<open>HRESULT\<close> of the calls that are made through the table of functions; the execution
  status; what the engine hands to the callbacks of a session during a call (a command prints to all clients, not
  only to its own); when another thread asks to cancel the startup; and
  whether the global lock and the lock of the cancellation are poisoned.
\<close>

record 't dbgeng_env =
  de_os :: "'t launch_os"
  de_fs :: dbgeng_fs
  de_arch :: target_arch
  de_var :: "string \<Rightarrow> os_text option"
  de_error :: "nat \<Rightarrow> engine_call \<Rightarrow> string option"
  de_hresult :: "nat \<Rightarrow> u32"
  de_show_hresult :: "u32 \<Rightarrow> string"
  de_status :: "nat \<Rightarrow> u32"
  de_text :: "nat \<Rightarrow> string \<Rightarrow> wide list"
  de_cancel_at :: "cancel_moment option"
  de_global_poisoned :: bool
  de_cancel_poisoned :: bool

text \<open>\<open>pcwstr_to_string\<close>, and the callback \<open>Output\<close>, which appends unless the lock is poisoned.\<close>

definition pcwstr_to_string :: "wide \<Rightarrow> utext" where
  "pcwstr_to_string units = utf16_lossy (takeWhile (\<lambda>u. u \<noteq> 0) units)"

definition printed :: "'t dbgeng_env \<Rightarrow> string \<Rightarrow> nat \<Rightarrow> utext" where
  "printed env i n = concat (map pcwstr_to_string (de_text env n i))"

definition print_output :: "'t dbgeng_env \<Rightarrow> nat \<Rightarrow> dbg_world \<Rightarrow> dbg_world" where
  "print_output env n w =
     w\<lparr>dw_output := (\<lambda>i. if dw_callbacks w i \<and> \<not> dw_output_poisoned w i
                        then dw_output w i @ printed env i n else dw_output w i)\<rparr>"

definition recorded :: "'t dbgeng_env \<Rightarrow> string \<Rightarrow> engine_call \<Rightarrow> bool \<Rightarrow> dbg_world \<Rightarrow> dbg_world" where
  "recorded env i c ok w = (print_output env (length (dw_calls w)) w)\<lparr>dw_calls := dw_calls w @ [(i, c, ok)]\<rparr>"

definition engine_raw :: "'t dbgeng_env \<Rightarrow> string \<Rightarrow> engine_call \<Rightarrow> dbg_world \<Rightarrow> (string + unit) \<times> dbg_world" where
  "engine_raw env i c w =
     (case de_error env (length (dw_calls w)) c of
        Some e \<Rightarrow> (Inl e, recorded env i c False w)
      | None \<Rightarrow> (Inr (), recorded env i c True w))"

definition engine ::
    "'t dbgeng_env \<Rightarrow> string \<Rightarrow> engine_call \<Rightarrow> (string \<Rightarrow> dbgflow_error) \<Rightarrow> dbg_world \<Rightarrow> unit result \<times> dbg_world" where
  "engine env i c f w = (case engine_raw env i c w of (Inl e, w) \<Rightarrow> (Inl (f e), w) | (Inr u, w) \<Rightarrow> (Inr u, w))"

definition engine_hr :: "'t dbgeng_env \<Rightarrow> string \<Rightarrow> engine_call \<Rightarrow> dbg_world \<Rightarrow> u32 \<times> dbg_world" where
  "engine_hr env i c w = (let hr = de_hresult env (length (dw_calls w)) in (hr, recorded env i c (hr = 0) w))"

definition backend_text :: "string \<Rightarrow> string \<Rightarrow> dbgflow_error" where
  "backend_text what e = Backend (what @ '': '' @ e)"

definition dbg_error_text :: "dbgflow_error \<Rightarrow> string" where
  "dbg_error_text e = error_text (\<lambda>_. '''') e"

definition dbgeng_event ::
    "log_level \<Rightarrow> string \<Rightarrow> string option \<Rightarrow> string option \<Rightarrow> utext option \<Rightarrow> string option \<Rightarrow> dbg_log" where
  "dbgeng_event level event correlation i operation e =
     \<lparr>gl_level = level, gl_event = event, gl_correlation = correlation, gl_session = i, gl_operation = operation,
      gl_error = e\<rparr>"

definition dbg_emit :: "dbg_log \<Rightarrow> dbg_world \<Rightarrow> dbg_world" where
  "dbg_emit l w = w\<lparr>dw_emitted := dw_emitted w @ [Inl l]\<rparr>"

text \<open>A log line about a session, without an operation; \<open>who\<close> is the correlation id and the session.\<close>

type_synonym who = "string option \<times> string"

definition log_dbg :: "log_level \<Rightarrow> string \<Rightarrow> who \<Rightarrow> string option \<Rightarrow> dbg_world \<Rightarrow> dbg_world" where
  "log_dbg level event who e = dbg_emit (dbgeng_event level event (fst who) (Some (snd who)) None e)"

text \<open>A call whose error is logged before it is returned.\<close>

definition engine_logged ::
    "'t dbgeng_env \<Rightarrow> who \<Rightarrow> engine_call \<Rightarrow> string \<Rightarrow> string \<Rightarrow> dbg_world \<Rightarrow> unit result \<times> dbg_world" where
  "engine_logged env who c event what w =
     (case engine_raw env (snd who) c w of
        (Inl e, w) \<Rightarrow> (Inl (backend_text what e), log_dbg LogError event who (Some e) w)
      | (Inr u, w) \<Rightarrow> (Inr u, w))"

section \<open>Cancelling a startup\<close>

text \<open>The startup looks at the cancellation before the calls that begin work, and another thread may ask for it at any
  moment. With the calls numbered, the request comes before the look that precedes the call \<open>k\<close>, or after that look
  and before the call itself or while it runs. The first look that sees it is the one before the call \<open>first_seen\<close>.\<close>

definition cancel_requested :: "'t dbgeng_env \<Rightarrow> dbg_world \<Rightarrow> bool" where
  "cancel_requested env w =
     (case de_cancel_at env of None \<Rightarrow> False | Some c \<Rightarrow> first_seen c \<le> length (dw_calls w))"

definition check_canceled :: "'t dbgeng_env \<Rightarrow> dbg_world \<Rightarrow> unit result \<times> dbg_world" where
  "check_canceled env w =
     (if de_cancel_poisoned env then Inl (Backend ''dbgeng startup cancel lock poisoned'')
      else if cancel_requested env w then Inl (Backend ''dbgeng startup canceled'')
      else Inr (), w)"

definition interrupt :: "'t dbgeng_env \<Rightarrow> who \<Rightarrow> dbg_world \<Rightarrow> unit result \<times> dbg_world" where
  "interrupt env who w =
     (let w = log_dbg Info ''interrupt_requested'' who None w in
      try_then (engine_logged env who CallSetInterrupt ''interrupt_failed'' ''SetInterrupt(DEBUG_INTERRUPT_EXIT) failed'' w)
        (\<lambda>_ w. (Inr (), log_dbg Info ''interrupt_finished'' who None w)))"

definition install_interrupt :: "'t dbgeng_env \<Rightarrow> who \<Rightarrow> dbg_world \<Rightarrow> unit result \<times> dbg_world" where
  "install_interrupt env who w =
     (if de_cancel_poisoned env then (Inl (Backend ''dbgeng startup cancel lock poisoned''), w)
      else if cancel_requested env w
      then try_then (interrupt env who w) (\<lambda>_ w. (Inl (Backend ''dbgeng startup canceled''), w))
      else (Inr (), w))"

section \<open>The parts of opening a target\<close>

definition load_library :: "'t dbgeng_env \<Rightarrow> string \<Rightarrow> os_text \<Rightarrow> dbg_world \<Rightarrow> unit result \<times> dbg_world" where
  "load_library env i path w =
     (case engine_raw env i (CallLoadLibrary path True) w of
        (Inr _, w) \<Rightarrow> (Inr (), w)
      | (Inl _, w) \<Rightarrow> engine env i (CallLoadLibrary path False) (backend_text (''failed to load dbgeng.dll from '' @ display path)) w)"

definition debug_create :: "'t dbgeng_env \<Rightarrow> string \<Rightarrow> dbg_world \<Rightarrow> unit result \<times> dbg_world" where
  "debug_create env i w =
     try_then (engine env i CallGetProc (\<lambda>_. Backend ''DebugCreate export not found'') w) (\<lambda>_ w.
     try_then (engine env i CallDebugCreate (backend_text ''DebugCreate failed'') w) (\<lambda>_ w.
     engine env i CallFromAbi (backend_text ''DebugCreate ABI conversion failed'') w))"

definition query_interface :: "'t dbgeng_env \<Rightarrow> string \<Rightarrow> string \<Rightarrow> dbg_world \<Rightarrow> unit result \<times> dbg_world" where
  "query_interface env i name w = engine env i (CallQuery name) (backend_text (''query '' @ name @ '' failed'')) w"

definition validate_symbol_path :: "utext \<Rightarrow> unit result" where
  "validate_symbol_path p =
     (if trim p = [] then Inl (Backend ''symbol path must not be empty'')
      else if \<exists>ch \<in> set p. ch = 0 \<or> ch = 13 \<or> ch = 10 \<or> ch = 8232 \<or> ch = 8233 \<or> is_control ch
      then Inl (Backend ''symbol path contains unsupported control characters'')
      else Inr ())"

definition set_symbol_path_wide :: "'t dbgeng_env \<Rightarrow> who \<Rightarrow> string \<Rightarrow> dbg_world \<Rightarrow> unit result \<times> dbg_world" where
  "set_symbol_path_wide env who p w =
     try_then (validate_symbol_path (chars p), w) (\<lambda>_ w.
     let w = log_dbg Info ''set_symbol_path_started'' who None w in
     try_then (engine_logged env who (CallQuery ''IDebugSymbols3'') ''query_debug_symbols_failed'' ''query IDebugSymbols3 failed'' w)
       (\<lambda>_ w.
     try_then (engine_logged env who (CallSetSymbolPath (to_wide_null (chars p))) ''set_symbol_path_failed''
        ''IDebugSymbols3::SetSymbolPathWide failed'' w) (\<lambda>_ w.
     (Inr (), log_dbg Info ''set_symbol_path_finished'' who None w))))"

definition attach_process :: "'t dbgeng_env \<Rightarrow> string \<Rightarrow> u32 \<Rightarrow> dbg_world \<Rightarrow> unit result \<times> dbg_world" where
  "attach_process env i pid w =
     (case engine_hr env i (CallAttach pid) w of
        (hr, w) \<Rightarrow> (if hr \<noteq> 0 then Inl (backend_text ''AttachProcess failed'' (de_show_hresult env hr)) else Inr (), w))"

definition break_process :: "'t dbgeng_env \<Rightarrow> string \<Rightarrow> u32 \<Rightarrow> dbg_world \<Rightarrow> unit result \<times> dbg_world" where
  "break_process env i pid w =
     try_then (engine env i (CallOpenProcess pid) (backend_text ''OpenProcess for break failed'') w) (\<lambda>_ w.
     (case engine env i (CallDebugBreak pid) (backend_text ''DebugBreakProcess failed'') w of
        (r, w) \<Rightarrow> (r, snd (engine_raw env i (CallCloseHandle pid) w))))"

record launched_process =
  lp_pid :: u32
  lp_resumed :: bool
  lp_terminated :: bool

definition CREATE_SUSPENDED :: u32 where "CREATE_SUSPENDED = 4"
definition CREATE_NO_WINDOW :: u32 where "CREATE_NO_WINDOW = 0x08000000"

definition suspended_spec :: "string \<Rightarrow> utext list \<Rightarrow> process_launch_spec" where
  "suspended_spec executable args =
     (process_launch_spec_new (chars executable))\<lparr>pls_args := args, pls_stdin := StdioNull, pls_stdout := StdioNull,
        pls_stderr := StdioNull, pls_creation_flags := or CREATE_SUSPENDED CREATE_NO_WINDOW\<rparr>"

definition create_suspended_process ::
    "'t dbgeng_env \<Rightarrow> string \<Rightarrow> string \<Rightarrow> utext list \<Rightarrow> process_launch_context \<Rightarrow> dbg_world
       \<Rightarrow> launched_process result \<times> dbg_world" where
  "create_suspended_process env i executable args ctx w =
     (case windows_spawn_process (de_os env) (suspended_spec executable args) ctx of
        Inl e \<Rightarrow> (Inl (Backend (''CreateProcess suspended failed for '' @ executable @ '': '' @ dbg_error_text e)), w)
      | Inr child \<Rightarrow>
          (Inr \<lparr>lp_pid = mc_pid child, lp_resumed = False, lp_terminated = False\<rparr>,
           dbg_emit (dbgeng_event Info ''launch_target_process_launch_resolved'' None None None None)
             (recorded env i (CallSpawn (mc_pid child)) True w)))"

definition launched_resume ::
    "'t dbgeng_env \<Rightarrow> string \<Rightarrow> launched_process \<Rightarrow> dbg_world \<Rightarrow> launched_process result \<times> dbg_world" where
  "launched_resume env i l w =
     try_then (engine env i (CallResume (lp_pid l)) (\<lambda>_. Backend ''ResumeThread failed'') w) (\<lambda>_ w.
       (Inr (l\<lparr>lp_resumed := True\<rparr>), w))"

definition launched_terminate ::
    "'t dbgeng_env \<Rightarrow> string \<Rightarrow> launched_process \<Rightarrow> dbg_world \<Rightarrow> launched_process result \<times> dbg_world" where
  "launched_terminate env i l w =
     try_then (engine env i (CallKill (lp_pid l)) (backend_text ''TerminateProcess failed'') w) (\<lambda>_ w.
       (Inr (l\<lparr>lp_terminated := True\<rparr>), w))"

text \<open>\<open>Drop\<close>: a process that was not resumed is not left behind.\<close>

definition drop_launched :: "'t dbgeng_env \<Rightarrow> string \<Rightarrow> launched_process \<Rightarrow> dbg_world \<Rightarrow> dbg_world" where
  "drop_launched env i l w =
     (if \<not> lp_resumed l \<and> \<not> lp_terminated l then snd (engine_raw env i (CallKill (lp_pid l)) w) else w)"

definition wait_for_event :: "'t dbgeng_env \<Rightarrow> string \<Rightarrow> string \<Rightarrow> dbg_world \<Rightarrow> unit result \<times> dbg_world" where
  "wait_for_event env i what w = engine env i CallWaitForEvent (backend_text what) w"

text \<open>The three kinds of target. The process that was launched is given back when it became the session's,
  also with an error.\<close>

definition open_dump :: "'t dbgeng_env \<Rightarrow> who \<Rightarrow> string \<Rightarrow> dbg_world \<Rightarrow> unit result \<times> dbg_world" where
  "open_dump env who path w =
     try_then (check_canceled env w) (\<lambda>_ w.
     try_then (engine_logged env who (CallOpenDump (to_wide_null (chars path))) ''open_dump_file_failed'' ''OpenDumpFileWide failed'' w)
       (\<lambda>_ w.
     let w = log_dbg Info ''open_dump_file_finished'' who None w in
     try_then (check_canceled env w) (\<lambda>_ w.
     try_then (engine_logged env who CallWaitForEvent ''wait_for_event_failed'' ''WaitForEvent failed'' w) (\<lambda>_ w.
     (Inr (), log_dbg Info ''wait_for_event_finished'' who None w)))))"

definition open_attach :: "'t dbgeng_env \<Rightarrow> who \<Rightarrow> u32 \<Rightarrow> dbg_world \<Rightarrow> unit result \<times> dbg_world" where
  "open_attach env who pid w =
     try_then (check_canceled env w) (\<lambda>_ w.
     try_then (attach_process env (snd who) pid w) (\<lambda>_ w.
     try_then (break_process env (snd who) pid w) (\<lambda>_ w.
     try_then (check_canceled env w) (\<lambda>_ w.
     wait_for_event env (snd who) ''WaitForEvent after attach failed'' w))))"

definition open_launch ::
    "'t dbgeng_env \<Rightarrow> who \<Rightarrow> string \<Rightarrow> utext list \<Rightarrow> process_launch_context \<Rightarrow> dbg_world
       \<Rightarrow> (unit result \<times> launched_process option) \<times> dbg_world" where
  "open_launch env who executable args ctx w =
     (case try_then (check_canceled env w) (\<lambda>_ w. create_suspended_process env (snd who) executable args ctx w) of
        (Inl e, w) \<Rightarrow> ((Inl e, None), w)
      | (Inr l, w) \<Rightarrow>
          (case try_then (attach_process env (snd who) (lp_pid l) w) (\<lambda>_ w. launched_resume env (snd who) l w) of
             (Inl e, w) \<Rightarrow> ((Inl e, None), drop_launched env (snd who) l w)
           | (Inr l, w) \<Rightarrow>
               (case try_then (check_canceled env w) (\<lambda>_ w.
                   wait_for_event env (snd who) ''WaitForEvent after launch failed'' w) of
                  (r, w) \<Rightarrow> ((r, Some l), w))))"

definition set_callbacks :: "'t dbgeng_env \<Rightarrow> string \<Rightarrow> bool \<Rightarrow> dbg_world \<Rightarrow> (string + unit) \<times> dbg_world" where
  "set_callbacks env i on w =
     try_then (engine_raw env i (CallSetCallbacks on) w) (\<lambda>_ w.
       (Inr (), w\<lparr>dw_callbacks := (dw_callbacks w)(i := on)\<rparr>))"

definition open_on_engine ::
    "'t dbgeng_env \<Rightarrow> who \<Rightarrow> debug_target \<Rightarrow> process_launch_context \<Rightarrow> dbg_world
       \<Rightarrow> (unit result \<times> launched_process option) \<times> dbg_world" where
  "open_on_engine env who target ctx w =
     (case set_callbacks env (snd who) True w of
        (Inl e, w) \<Rightarrow> ((Inl (backend_text ''SetOutputCallbacksWide failed'' e), None), w)
      | (Inr _, w) \<Rightarrow>
          (let w = log_dbg Info ''set_output_callbacks_finished'' who None w in
           case target of
             Dump path \<Rightarrow> (case open_dump env who path w of (r, w) \<Rightarrow> ((r, None), w))
           | Attach pid \<Rightarrow> (case open_attach env who pid w of (r, w) \<Rightarrow> ((r, None), w))
           | Launch executable args \<Rightarrow> open_launch env who executable args ctx w))"

text \<open>The three steps of \<open>cleanup_open_target_failure\<close>: the process, the session of the engine, the callbacks.\<close>

definition cleanup_launched ::
    "'t dbgeng_env \<Rightarrow> who \<Rightarrow> launched_process option \<Rightarrow> dbg_world \<Rightarrow> launched_process option \<times> dbg_world" where
  "cleanup_launched env who launched w =
     (case launched of
        None \<Rightarrow> (None, w)
      | Some l \<Rightarrow>
          (case launched_terminate env (snd who) l w of
             (Inr l', w) \<Rightarrow> (Some l', log_dbg Info ''open_target_launch_terminated'' who None w)
           | (Inl e, w) \<Rightarrow> (Some l, log_dbg LogError ''open_target_launch_terminate_failed'' who (Some (dbg_error_text e)) w)))"

definition cleanup_end_session :: "'t dbgeng_env \<Rightarrow> who \<Rightarrow> dbg_world \<Rightarrow> dbg_world" where
  "cleanup_end_session env who w =
     (case engine_raw env (snd who) CallEndSession w of
        (Inr _, w) \<Rightarrow> log_dbg Info ''open_target_cleanup_end_session_finished'' who None w
      | (Inl e, w) \<Rightarrow> log_dbg Warn ''open_target_cleanup_end_session_failed'' who (Some e) w)"

definition cleanup_callbacks :: "'t dbgeng_env \<Rightarrow> who \<Rightarrow> dbg_world \<Rightarrow> dbg_world" where
  "cleanup_callbacks env who w =
     (case set_callbacks env (snd who) False w of
        (Inr _, w) \<Rightarrow> log_dbg Info ''open_target_cleanup_callbacks_cleared'' who None w
      | (Inl e, w) \<Rightarrow> log_dbg Warn ''open_target_cleanup_callbacks_failed'' who (Some e) w)"

definition cleanup_open_target_failure ::
    "'t dbgeng_env \<Rightarrow> who \<Rightarrow> launched_process option \<Rightarrow> dbgflow_error \<Rightarrow> dbg_world \<Rightarrow> launched_process option \<times> dbg_world" where
  "cleanup_open_target_failure env who launched e w =
     (case cleanup_launched env who launched (log_dbg Warn ''open_target_cleanup_started'' who (Some (dbg_error_text e)) w) of
        (launched, w) \<Rightarrow> (launched, cleanup_callbacks env who (cleanup_end_session env who w)))"

section \<open>A session\<close>

record dbg_session =
  ds_id :: string
  ds_correlation_id :: "string option"
  ds_launched :: "launched_process option"
  ds_warnings :: "string list"

fun source_name :: "dbgeng_source \<Rightarrow> string" where
  "source_name SourceEnvironment = ''Environment''"
| "source_name SourceAppStore = ''AppStore''"
| "source_name SourceWindowsSdk = ''WindowsSdk''"
| "source_name SourceSystem32 = ''System32''"

definition location_warnings :: "dbgeng_location \<Rightarrow> string list" where
  "location_warnings location =
     (''loaded dbgeng.dll from '' @ source_name (dl_source location) @ '': '' @ display (dl_path location))
     # (if dl_source location = SourceSystem32 then [''System32 dbgeng.dll is the last-resort fallback''] else [])"

text \<open>Everything up to the engine that is ready for a target.\<close>

definition prepare_engine ::
    "'t dbgeng_env \<Rightarrow> who \<Rightarrow> string option \<Rightarrow> dbg_world \<Rightarrow> string list result \<times> dbg_world" where
  "prepare_engine env who symbol_path w =
     try_then (check_canceled env w) (\<lambda>_ w.
     if de_global_poisoned env then (Inl (Backend ''global dbgeng operation lock poisoned''), w)
     else try_then (resolve_dbgeng (de_fs env) (de_arch env) (de_var env), w) (\<lambda>location w.
     let w = log_dbg Info ''resolve_dbgeng_finished'' who None w in
     try_then (load_library env (snd who) (dl_path location) w) (\<lambda>_ w.
     let w = log_dbg Info ''load_library_finished'' who None w in
     try_then (debug_create env (snd who) w) (\<lambda>_ w.
     try_then (query_interface env (snd who) ''IDebugClient4'' w) (\<lambda>_ w.
     try_then (query_interface env (snd who) ''IDebugClient5'' w) (\<lambda>_ w.
     try_then (query_interface env (snd who) ''IDebugControl4'' w) (\<lambda>_ w.
     try_then (case symbol_path of None \<Rightarrow> (Inr (), w) | Some p \<Rightarrow> set_symbol_path_wide env who p w) (\<lambda>_ w.
     try_then (install_interrupt env who w) (\<lambda>_ w.
     (Inr (location_warnings location), log_dbg Info ''debug_create_finished'' who None w))))))))))"

definition open_target_inner ::
    "'t dbgeng_env \<Rightarrow> who \<Rightarrow> debug_target \<Rightarrow> string option \<Rightarrow> process_launch_context \<Rightarrow> dbg_world
       \<Rightarrow> dbg_session result \<times> dbg_world" where
  "open_target_inner env who target symbol_path ctx w =
     try_then (prepare_engine env who symbol_path w) (\<lambda>warnings w.
       case open_on_engine env who target ctx (w\<lparr>dw_output := (dw_output w)(snd who := [])\<rparr>) of
         ((Inl e, launched), w) \<Rightarrow>
           (case cleanup_open_target_failure env who launched e w of
              (launched, w) \<Rightarrow> (Inl e, case launched of None \<Rightarrow> w | Some l \<Rightarrow> drop_launched env (snd who) l w))
       | ((Inr _, launched), w) \<Rightarrow>
           (Inr \<lparr>ds_id = snd who, ds_correlation_id = fst who, ds_launched = launched, ds_warnings = warnings\<rparr>,
            log_dbg Info ''open_target_finished'' who None w))"

definition open_target ::
    "'t dbgeng_env \<Rightarrow> who \<Rightarrow> debug_target \<Rightarrow> string option \<Rightarrow> process_launch_context \<Rightarrow> dbg_world
       \<Rightarrow> dbg_session result \<times> dbg_world" where
  "open_target env who target symbol_path ctx w =
     (case open_target_inner env who target symbol_path ctx (log_dbg Info ''open_target_started'' who None w) of
        (Inl e, w) \<Rightarrow> (Inl e, log_dbg LogError ''open_target_failed'' who (Some (dbg_error_text e)) w)
      | r \<Rightarrow> r)"

definition ds_who :: "dbg_session \<Rightarrow> who" where
  "ds_who s = (ds_correlation_id s, ds_id s)"

text \<open>The status values of \<open>dbgeng.h\<close>.\<close>

definition DEBUG_STATUS_MASK :: u32 where "DEBUG_STATUS_MASK = 0x1f"
definition DEBUG_STATUS_BREAK :: u32 where "DEBUG_STATUS_BREAK = 6"
definition DEBUG_STATUS_NO_DEBUGGEE :: u32 where "DEBUG_STATUS_NO_DEBUGGEE = 7"

text \<open>Going, going handled or not, stepping over, into, by branches, and the four ways of going back.\<close>

definition RUNNING_STATUSES :: "u32 list" where "RUNNING_STATUSES = [1, 2, 3, 4, 5, 8, 11, 12, 13, 14]"

definition execution_state_from_dbgeng_status :: "u32 \<Rightarrow> backend_execution_state option" where
  "execution_state_from_dbgeng_status status =
     (let s = and status DEBUG_STATUS_MASK in
      if s \<in> set RUNNING_STATUSES then Some BackendRunning
      else if s = DEBUG_STATUS_BREAK then Some BackendBreak
      else if s = DEBUG_STATUS_NO_DEBUGGEE then Some BackendClosed
      else None)"

definition query_execution_state ::
    "'t dbgeng_env \<Rightarrow> string \<Rightarrow> dbg_world \<Rightarrow> backend_execution_state option result \<times> dbg_world" where
  "query_execution_state env i w =
     try_then (engine env i CallGetStatus (backend_text ''IDebugControl4::GetExecutionStatus failed'') w) (\<lambda>_ w'.
       (Inr (execution_state_from_dbgeng_status (de_status env (length (dw_calls w)))), w'))"

definition E_UNEXPECTED :: u32 where "E_UNEXPECTED = 0x8000FFFF"

definition wait_for_execution_event ::
    "'t dbgeng_env \<Rightarrow> string \<Rightarrow> dbg_world \<Rightarrow> string list result \<times> dbg_world" where
  "wait_for_execution_event env i w =
     (case engine_hr env i CallWaitForEvent w of
        (hr, w) \<Rightarrow>
          (if hr = 0 then Inr []
           else if hr = 1 then Inl (Backend ''WaitForEvent returned without an event'')
           else if hr = E_UNEXPECTED then Inr [''target exited or no debuggee remains'']
           else Inl (backend_text ''WaitForEvent failed'' (de_show_hresult env hr)), w))"

definition report :: "backend_execution_state \<Rightarrow> string \<Rightarrow> dbg_world \<Rightarrow> dbg_world" where
  "report state reason w =
     w\<lparr>dw_emitted := dw_emitted w @ [Inr \<lparr>be_state = state, be_reason = Some (chars reason)\<rparr>]\<rparr>"

text \<open>What follows on a command: the state is looked at, and if the target runs, it is waited for.\<close>

definition follow_execution ::
    "'t dbgeng_env \<Rightarrow> string \<Rightarrow> dbg_world \<Rightarrow> (string list \<times> backend_execution_state option) result \<times> dbg_world" where
  "follow_execution env i w =
     try_then (query_execution_state env i w) (\<lambda>final_state w.
       if final_state = Some BackendRunning
       then (let w = report BackendRunning ''dbgeng execution status running'' w in
             try_then (wait_for_execution_event env i w) (\<lambda>warnings w.
             try_then (query_execution_state env i w) (\<lambda>final_state w.
             (Inr (warnings, final_state),
              case final_state of None \<Rightarrow> w | Some state \<Rightarrow> report state ''dbgeng wait event returned'' w))))
       else if final_state = Some BackendClosed
       then (Inr ([], final_state), report BackendClosed ''dbgeng execution status no debuggee'' w)
       else (Inr ([], final_state), w))"

definition execute_command ::
    "'t dbgeng_env \<Rightarrow> string \<Rightarrow> utext \<Rightarrow> dbg_world
       \<Rightarrow> (utext \<times> string list \<times> backend_execution_state option) result \<times> dbg_world" where
  "execute_command env i command w =
     (if dw_output_poisoned w i then (Inl (Backend ''dbgeng output buffer poisoned''), w)
      else let w = w\<lparr>dw_output := (dw_output w)(i := [])\<rparr> in
      if 0 \<in> set command then (Inl (Backend ''command contains NUL byte''), w)
      else try_then (engine env i (CallExecute (to_wide_null command)) (backend_text ''IDebugControl4::ExecuteWide failed'') w)
        (\<lambda>_ w.
      try_then (follow_execution env i w) (\<lambda>(warnings, final_state) w.
      (if dw_output_poisoned w i then Inl (Backend ''dbgeng output buffer poisoned'')
       else Inr (dw_output w i, warnings, final_state), w))))"

definition operation_event :: "log_level \<Rightarrow> string \<Rightarrow> dbg_session \<Rightarrow> utext \<Rightarrow> string option \<Rightarrow> dbg_log" where
  "operation_event level event s command e =
     dbgeng_event level event (ds_correlation_id s) (Some (ds_id s)) (Some command) e"

definition session_execute ::
    "'t dbgeng_env \<Rightarrow> dbg_session \<Rightarrow> utext \<Rightarrow> dbg_world
       \<Rightarrow> (execute_failure + utext \<times> string list \<times> backend_execution_state option) \<times> dbg_world" where
  "session_execute env s command w =
     (if de_global_poisoned env then (Inl (failure_of (Backend ''global dbgeng operation lock poisoned'')), w)
      else case execute_command env (ds_id s) command (dbg_emit (operation_event Info ''execute_started'' s command None) w) of
        (Inr r, w) \<Rightarrow> (Inr r, dbg_emit (operation_event Info ''execute_finished'' s command None) w)
      | (Inl e, w) \<Rightarrow>
          (let w = snd (query_execution_state env (ds_id s) w);
               partial_output = (if dw_output_poisoned w (ds_id s) then None else Some (dw_output w (ds_id s)));
               w = dbg_emit (operation_event LogError ''execute_failed'' s command (Some (dbg_error_text e))) w
           in (Inl (case partial_output of Some out \<Rightarrow> with_partial_output e out | None \<Rightarrow> failure_of e), w)))"

definition session_close :: "'t dbgeng_env \<Rightarrow> dbg_session \<Rightarrow> dbg_world \<Rightarrow> unit result \<times> dbg_world" where
  "session_close env s w =
     (if de_global_poisoned env then (Inl (Backend ''global dbgeng operation lock poisoned''), w)
      else let w = log_dbg Info ''close_started'' (ds_who s) None w in
      try_then (engine_logged env (ds_who s) CallEndSession ''end_session_failed'' ''EndSession failed'' w) (\<lambda>_ w.
      let w = log_dbg Info ''end_session_finished'' (ds_who s) None w in
      case set_callbacks env (ds_id s) False w of
        (Inl e, w) \<Rightarrow>
          (Inl (backend_text ''clear wide output callbacks failed'' e),
           log_dbg LogError ''clear_output_callbacks_failed'' (ds_who s) (Some e) w)
      | (Inr _, w) \<Rightarrow> (Inr (), log_dbg Info ''close_finished'' (ds_who s) None w)))"

end
