(* ===== verification/Dbgeng_Backend.thy ===== *)
theory Dbgeng_Backend
  imports Dbgeng
begin

text \<open>
  The debugger backend (\<open>DbgEngBackend\<close>, \<open>backend/dbgeng/mod.rs\<close>): the table of its sessions, each served by a
  thread of its own, and the startups that can be cancelled. A session's thread answers one command after the
  other and ends when it was told to close; so a request and its answer are one step here. A thread that panics
  is not modelled; its handle, with nobody behind it, is.
\<close>

section \<open>Startups that can be cancelled\<close>

record startup_cancellation =
  sc_cancel_requested :: bool
  sc_interrupt :: "who option"

definition startup_cancellation_default :: startup_cancellation where
  "startup_cancellation_default = \<lparr>sc_cancel_requested = False, sc_interrupt = None\<rparr>"

text \<open>The sections under the lock: \<open>cancel\<close> gives the interrupt that is to be sent, \<open>install_interrupt\<close> whether
  the startup was cancelled before.\<close>

definition sc_cancel :: "startup_cancellation \<Rightarrow> who option \<times> startup_cancellation" where
  "sc_cancel c = (sc_interrupt c, c\<lparr>sc_cancel_requested := True\<rparr>)"

definition sc_install :: "who \<Rightarrow> startup_cancellation \<Rightarrow> bool \<times> startup_cancellation" where
  "sc_install who c = (sc_cancel_requested c, c\<lparr>sc_interrupt := Some who\<rparr>)"

section \<open>The backend\<close>

text \<open>The handle of a session: what its interrupt names, and the session while its thread serves it.\<close>

record dbg_handle =
  dh_who :: who
  dh_session :: "dbg_session option"

record dbgeng_backend =
  gb_next_id :: u64
  gb_sessions :: "string \<Rightarrow> dbg_handle option"
  gb_pending :: "string \<Rightarrow> startup_cancellation option"
  gb_sessions_poisoned :: bool
  gb_pending_poisoned :: bool
  gb_world :: dbg_world

definition with_world :: "dbgeng_backend \<Rightarrow> 'a \<times> dbg_world \<Rightarrow> 'a \<times> dbgeng_backend" where
  "with_world b r = (fst r, b\<lparr>gb_world := snd r\<rparr>)"

definition dbgeng_session_id :: "u64 \<Rightarrow> string" where
  "dbgeng_session_id n = ''dbgeng-'' @ show_nat (unat n)"

text \<open>What \<open>create_session\<close> does before the thread of the session runs, and after it has opened the target.\<close>

definition create_register :: "string \<Rightarrow> dbgeng_backend \<Rightarrow> unit result \<times> dbgeng_backend" where
  "create_register key b =
     (if gb_pending_poisoned b then (Inl (Backend ''dbgeng startup map poisoned''), b)
      else (Inr (), b\<lparr>gb_pending := (gb_pending b)(key \<mapsto> startup_cancellation_default)\<rparr>))"

definition create_finish ::
    "string \<Rightarrow> dbg_session result \<Rightarrow> dbgeng_backend \<Rightarrow> (string \<times> string list) result \<times> dbgeng_backend" where
  "create_finish key opened b =
     (let b = b\<lparr>gb_pending := (gb_pending b)(key := None)\<rparr> in
      case opened of
        Inl e \<Rightarrow> (Inl e, b)
      | Inr s \<Rightarrow>
          (if gb_sessions_poisoned b then (Inl (Backend ''dbgeng session map poisoned''), b)
           else (Inr (ds_id s, ds_warnings s),
                 b\<lparr>gb_sessions := (gb_sessions b)(ds_id s \<mapsto> \<lparr>dh_who = ds_who s, dh_session = Some s\<rparr>)\<rparr>)))"

definition backend_create ::
    "'t dbgeng_env \<Rightarrow> create_backend_session \<Rightarrow> dbgeng_backend \<Rightarrow> (string \<times> string list) result \<times> dbgeng_backend" where
  "backend_create env request b =
     (let i = dbgeng_session_id (gb_next_id b);
          b = b\<lparr>gb_next_id := gb_next_id b + 1\<rparr>;
          key = (case cb_correlation_id request of Some c \<Rightarrow> c | None \<Rightarrow> i)
      in try_then (create_register key b) (\<lambda>_ b.
         case with_world b (open_target env (cb_correlation_id request, i) (cb_target request) (cb_symbol_path request)
             (cb_launch_context request) (gb_world b)) of
           (opened, b) \<Rightarrow> create_finish key opened b))"

definition find_handle :: "string \<Rightarrow> dbgeng_backend \<Rightarrow> dbg_handle result" where
  "find_handle i b =
     (if gb_sessions_poisoned b then Inl (Backend ''dbgeng session map poisoned'')
      else case gb_sessions b i of
        None \<Rightarrow> Inl (Backend (''dbgeng session not found: '' @ i))
      | Some h \<Rightarrow> Inr h)"

definition backend_execute ::
    "'t dbgeng_env \<Rightarrow> string \<Rightarrow> utext \<Rightarrow> dbgeng_backend
       \<Rightarrow> (execute_failure + utext \<times> string list \<times> backend_execution_state option) \<times> dbgeng_backend" where
  "backend_execute env i command b =
     (case find_handle i b of
        Inl e \<Rightarrow> (Inl (failure_of e), b)
      | Inr h \<Rightarrow>
          (case dh_session h of
             None \<Rightarrow> (Inl (failure_of (Backend ''dbgeng worker is not available'')), b)
           | Some s \<Rightarrow> with_world b (session_execute env s command (gb_world b))))"

definition cancel_session :: "'t dbgeng_env \<Rightarrow> string \<Rightarrow> dbgeng_backend \<Rightarrow> unit result \<times> dbgeng_backend" where
  "cancel_session env i b =
     (case find_handle i b of
        Inl e \<Rightarrow> (Inl e, b)
      | Inr h \<Rightarrow> with_world b (interrupt env (dh_who h) (gb_world b)))"

definition cancel_startup :: "'t dbgeng_env \<Rightarrow> string \<Rightarrow> dbgeng_backend \<Rightarrow> unit result \<times> dbgeng_backend" where
  "cancel_startup env key b =
     (if gb_pending_poisoned b then (Inl (Backend ''dbgeng startup map poisoned''), b)
      else case gb_pending b key of
        None \<Rightarrow> (Inl (Backend (''dbgeng startup not found: '' @ key)), b)
      | Some c \<Rightarrow>
          (if de_cancel_poisoned env then (Inl (Backend ''dbgeng startup cancel lock poisoned''), b)
           else case sc_cancel c of
             (who, c) \<Rightarrow>
               (let b = b\<lparr>gb_pending := (gb_pending b)(key \<mapsto> c)\<rparr> in
                case who of None \<Rightarrow> (Inr (), b) | Some who \<Rightarrow> with_world b (interrupt env who (gb_world b)))))"

definition remove_worker_handle :: "string \<Rightarrow> dbgeng_backend \<Rightarrow> unit result \<times> dbgeng_backend" where
  "remove_worker_handle i b =
     (case find_handle i b of
        Inl e \<Rightarrow> (Inl e, b)
      | Inr _ \<Rightarrow> (Inr (), b\<lparr>gb_sessions := (gb_sessions b)(i := None)\<rparr>))"

definition backend_log :: "string \<Rightarrow> string \<Rightarrow> string \<Rightarrow> dbgeng_backend \<Rightarrow> dbgeng_backend" where
  "backend_log event i e b = b\<lparr>gb_world := dbg_emit (dbgeng_event LogError event None (Some i) None (Some e)) (gb_world b)\<rparr>"

text \<open>\<open>late\<close>: the thread does not answer within \<open>CLOSE_REPLY_TIMEOUT\<close>. It closes the session all the same, later.\<close>

definition backend_close :: "'t dbgeng_env \<Rightarrow> bool \<Rightarrow> string \<Rightarrow> dbgeng_backend \<Rightarrow> unit result \<times> dbgeng_backend" where
  "backend_close env late i b =
     (case find_handle i b of
        Inl e \<Rightarrow> (Inl e, b)
      | Inr h \<Rightarrow>
          (case dh_session h of
             None \<Rightarrow>
               try_then (remove_worker_handle i (backend_log ''close_worker_unavailable'' i ''dbgeng worker is not available'' b))
                 (\<lambda>_ b. (Inl (Backend ''dbgeng worker is not available''), b))
           | Some s \<Rightarrow>
               (if late
                then (let b = snd (remove_worker_handle i (backend_log ''close_timed_out'' i ''dbgeng close timed out'' b))
                      in (Inl (Backend ''dbgeng close timed out''), snd (with_world b (session_close env s (gb_world b)))))
                else (case with_world b (session_close env s (gb_world b)) of
                        (r, b) \<Rightarrow> try_then (remove_worker_handle i b) (\<lambda>_ b. (r, b))))))"

section \<open>As the backend of a worker process\<close>

text \<open>\<open>conv\<close> is the log line as the protocol carries it.\<close>

definition emitted_since :: "dbgeng_backend \<Rightarrow> dbgeng_backend \<Rightarrow> (dbg_log + backend_execution_event) list" where
  "emitted_since b b' = drop (length (dw_emitted (gb_world b))) (dw_emitted (gb_world b'))"

definition logs_of :: "(dbg_log \<Rightarrow> log_event) \<Rightarrow> (dbg_log + backend_execution_event) list \<Rightarrow> log_event list" where
  "logs_of conv xs = List.map_filter (case_sum (\<lambda>l. Some (conv l)) (\<lambda>_. None)) xs"

definition dbgeng_debug_backend ::
    "'t dbgeng_env \<Rightarrow> (dbg_log \<Rightarrow> log_event) \<Rightarrow> bool \<Rightarrow> dbgeng_backend debug_backend" where
  "dbgeng_debug_backend env conv late =
     \<lparr>bk_name = ''dbgeng'',
      bk_create = (\<lambda>request b. case backend_create env request b of (r, b') \<Rightarrow> (r, logs_of conv (emitted_since b b'), b')),
      bk_execute = (\<lambda>i command b. case backend_execute env i command b of
        (r, b') \<Rightarrow> (r, map (map_sum conv id) (emitted_since b b'), b')),
      bk_close = (\<lambda>i b. case backend_close env late i b of (r, b') \<Rightarrow> (r, logs_of conv (emitted_since b b'), b'))\<rparr>"

end
