(* ===== verification/Dbgeng_Properties.thy ===== *)
theory Dbgeng_Properties
  imports Dbgeng_Backend
begin

text \<open>
  What holds of the sessions of the debugger engine: a target that could not be opened leaves no process behind,
  a command gives what was printed while it ran, a cancelled startup never becomes a session.
\<close>

named_theorems engine_simps

lemma recorded_simps [simp, engine_simps]:
  "dw_calls (recorded env i c ok w) = dw_calls w @ [(i, c, ok)]"
  "dw_callbacks (recorded env i c ok w) = dw_callbacks w"
  "dw_emitted (recorded env i c ok w) = dw_emitted w"
  "dw_output_poisoned (recorded env i c ok w) = dw_output_poisoned w"
  by (simp_all add: recorded_def print_output_def)

lemma log_simps [simp, engine_simps]:
  "dw_calls (dbg_emit l w) = dw_calls w" "dw_callbacks (dbg_emit l w) = dw_callbacks w"
  "dw_output (dbg_emit l w) = dw_output w" "dw_output_poisoned (dbg_emit l w) = dw_output_poisoned w"
  "dw_calls (log_dbg v t h e w) = dw_calls w" "dw_callbacks (log_dbg v t h e w) = dw_callbacks w"
  "dw_output (log_dbg v t h e w) = dw_output w" "dw_output_poisoned (log_dbg v t h e w) = dw_output_poisoned w"
  by (simp_all add: dbg_emit_def log_dbg_def)

section \<open>What most calls leave alone\<close>

fun preparing_call :: "engine_call \<Rightarrow> bool" where
  "preparing_call (CallLoadLibrary path how) = True"
| "preparing_call CallGetProc = True"
| "preparing_call CallDebugCreate = True"
| "preparing_call CallFromAbi = True"
| "preparing_call (CallQuery name) = True"
| "preparing_call (CallSetSymbolPath p) = True"
| "preparing_call CallSetInterrupt = True"
| "preparing_call (CallSetCallbacks on) = True"
| "preparing_call CallEndSession = True"
| "preparing_call _ = False"

text \<open>A view of the state that sees neither what is logged nor the quiet calls; the calls that prepare the engine
  and end it are among them.\<close>

locale engine_view =
  fixes view :: "dbg_world \<Rightarrow> 'v" and quiet :: "engine_call \<Rightarrow> bool"
  assumes view_call: "quiet c \<Longrightarrow> view (w\<lparr>dw_output := out, dw_calls := dw_calls w @ [(i, c, ok)]\<rparr>) = view w"
    and view_emit: "view (dbg_emit l w) = view w"
    and quiet_preparing [simp]: "preparing_call c \<Longrightarrow> quiet c"
begin

lemma view_recorded: "quiet c \<Longrightarrow> view (recorded env i c ok w) = view w"
  using view_call[where c = c and w = w and out = "dw_output w" and i = i and ok = ok] by (simp add: recorded_def print_output_def view_call)

lemma view_log [simp]: "view (log_dbg v t h e w) = view w"
  by (simp add: log_dbg_def view_emit)

lemma try_then_view:
  assumes "view (snd r) = view w" "\<And>x s. r = (Inr x, s) \<Longrightarrow> view (snd (g x s)) = view s"
  shows "view (snd (try_then r g)) = view w"
  using assms by (rule try_then_same)

lemma engine_view [simp]:
  "quiet c \<Longrightarrow> view (snd (engine_raw env i c w)) = view w"
  "quiet c \<Longrightarrow> view (snd (engine env i c f w)) = view w"
  "quiet c \<Longrightarrow> view (snd (engine_hr env i c w)) = view w"
  "quiet c \<Longrightarrow> view (snd (engine_logged env who c t u w)) = view w"
  by (auto simp: engine_raw_def engine_def engine_hr_def engine_logged_def view_recorded Let_def split: option.split)

lemma engine_viewD:
  "engine_raw env i c w = (r, w') \<Longrightarrow> quiet c \<Longrightarrow> view w' = view w"
  "engine env i c f w = (q, w') \<Longrightarrow> quiet c \<Longrightarrow> view w' = view w"
  "engine_hr env i c w = (hr, w') \<Longrightarrow> quiet c \<Longrightarrow> view w' = view w"
  using engine_view(1)[of c env i w] engine_view(2)[of c env i f w] engine_view(3)[of c env i w] by auto

lemma check_canceled_same [simp]: "snd (check_canceled env w) = w"
  by (simp add: check_canceled_def)

lemma interrupt_view [simp]: "view (snd (interrupt env who w)) = view w"
  unfolding interrupt_def Let_def by (rule try_then_view) simp_all

lemma install_interrupt_view [simp]: "view (snd (install_interrupt env who w)) = view w"
  by (auto simp: install_interrupt_def intro!: try_then_view)

lemma load_library_view [simp]: "view (snd (load_library env i path w)) = view w"
  by (auto simp: load_library_def split: prod.split sum.split dest: engine_viewD(1))

lemma debug_create_view [simp]: "view (snd (debug_create env i w)) = view w"
  unfolding debug_create_def by (intro try_then_view) simp_all

lemma set_symbol_path_view [simp]: "view (snd (set_symbol_path_wide env who p w)) = view w"
  unfolding set_symbol_path_wide_def Let_def
  by (rule try_then_view, simp)+ simp

lemma symbol_path_view [simp]:
  "view (snd (case symbol_path of None \<Rightarrow> (Inr (), w) | Some p \<Rightarrow> set_symbol_path_wide env who p w)) = view w"
  by (cases symbol_path) simp_all

lemma prepare_engine_view: "view (snd (prepare_engine env who symbol_path w)) = view w"
  unfolding prepare_engine_def Let_def query_interface_def
  by (rule try_then_view, simp, simp split: if_split, intro impI, rule try_then_view, simp)
    (auto intro!: try_then_view)

end

text \<open>It does not see either what is done with a target that runs.\<close>

locale target_view = engine_view +
  assumes quiet_target [simp]:
    "quiet (CallOpenDump p)" "quiet (CallAttach pid)" "quiet (CallOpenProcess pid)" "quiet (CallDebugBreak pid)"
    "quiet (CallCloseHandle pid)" "quiet (CallResume pid)" "quiet CallWaitForEvent"
begin

lemma attach_view [simp]:
  "view (snd (attach_process env i pid w)) = view w" "view (snd (break_process env i pid w)) = view w"
proof -
  show "view (snd (attach_process env i pid w)) = view w"
    by (auto simp: attach_process_def split: prod.split dest: engine_viewD(3))
  have "view (snd (case engine env i (CallDebugBreak pid) f s of (r, w) \<Rightarrow> (r, snd (engine_raw env i (CallCloseHandle pid) w)))) = view s"
    for f s
    by (auto split: prod.split dest: engine_viewD(2))
  then show "view (snd (break_process env i pid w)) = view w"
    unfolding break_process_def by (intro try_then_view) simp_all
qed

lemma open_dump_view: "view (snd (open_dump env who path w)) = view w"
  unfolding open_dump_def Let_def by (rule try_then_view, simp)+ simp

lemma open_attach_view: "view (snd (open_attach env who pid w)) = view w"
  unfolding open_attach_def wait_for_event_def by (rule try_then_view, simp)+ simp

lemma resume_view: "view (snd (launched_resume env i l w)) = view w"
  unfolding launched_resume_def by (rule try_then_view) simp_all

end

section \<open>The ways an opening can go\<close>

lemma open_launch_cases:
  assumes "open_launch env who executable args ctx w = ((r, launched), w')"
  obtains (not_started) e where
      "try_then (check_canceled env w) (\<lambda>_ w. create_suspended_process env (snd who) executable args ctx w) = (Inl e, w')"
      "r = Inl e" "launched = None"
  | (not_resumed) l w1 e w2 where "fst (check_canceled env w) = Inr ()"
      "create_suspended_process env (snd who) executable args ctx w = (Inr l, w1)"
      "try_then (attach_process env (snd who) (lp_pid l) w1) (\<lambda>_ w. launched_resume env (snd who) l w) = (Inl e, w2)"
      "r = Inl e" "launched = None" "w' = drop_launched env (snd who) l w2"
  | (resumed) l w1 l' w2 where "fst (check_canceled env w) = Inr ()"
      "create_suspended_process env (snd who) executable args ctx w = (Inr l, w1)"
      "try_then (attach_process env (snd who) (lp_pid l) w1) (\<lambda>_ w. launched_resume env (snd who) l w) = (Inr l', w2)"
      "lp_resumed l'" "lp_pid l' = lp_pid l"
      "try_then (check_canceled env w2) (\<lambda>_ w. wait_for_event env (snd who) ''WaitForEvent after launch failed'' w) = (r, w')"
      "launched = Some l'"
proof -
  obtain q w1 where q: "try_then (check_canceled env w) (\<lambda>_ w. create_suspended_process env (snd who) executable args ctx w) = (q, w1)"
    by (metis surj_pair)
  show thesis
  proof (cases q)
    case (Inl e)
    then show thesis using not_started assms q by (simp add: open_launch_def)
  next
    case (Inr l)
    have c: "fst (check_canceled env w) = Inr ()" "create_suspended_process env (snd who) executable args ctx w = (Inr l, w1)"
      using q Inr by (auto simp: try_then_Inr check_canceled_def)
    obtain q2 w2 where q2: "try_then (attach_process env (snd who) (lp_pid l) w1) (\<lambda>_ w. launched_resume env (snd who) l w) = (q2, w2)"
      by (metis surj_pair)
    show thesis
    proof (cases q2)
      case (Inl e)
      then show thesis using not_resumed[OF c] assms q Inr q2 by (simp add: open_launch_def)
    next
      case i: (Inr l')
      then have "lp_resumed l'" "lp_pid l' = lp_pid l" using q2 by (auto simp: try_then_Inr launched_resume_def)
      then show thesis using resumed[OF c] assms q Inr q2 i by (auto simp: open_launch_def split: prod.splits)
    qed
  qed
qed

lemma open_on_engine_cases:
  assumes "open_on_engine env who target ctx w = ((r, launched), w')"
  obtains (not_set) e where "set_callbacks env (snd who) True w = (Inl e, w')" "isl r" "launched = None"
  | (dump) path w1 where "set_callbacks env (snd who) True w = (Inr (), w1)" "target = Dump path" "launched = None"
      "open_dump env who path (log_dbg Info ''set_output_callbacks_finished'' who None w1) = (r, w')"
  | (attach) pid w1 where "set_callbacks env (snd who) True w = (Inr (), w1)" "target = Attach pid" "launched = None"
      "open_attach env who pid (log_dbg Info ''set_output_callbacks_finished'' who None w1) = (r, w')"
  | (launch) executable args w1 where "set_callbacks env (snd who) True w = (Inr (), w1)" "target = Launch executable args"
      "open_launch env who executable args ctx (log_dbg Info ''set_output_callbacks_finished'' who None w1) = ((r, launched), w')"
proof -
  obtain q w1 where q: "set_callbacks env (snd who) True w = (q, w1)" by (metis surj_pair)
  show thesis
  proof (cases q)
    case (Inl e)
    then show thesis using not_set assms q by (auto simp: open_on_engine_def)
  next
    case (Inr u)
    then show thesis using dump attach launch assms q
      by (cases target) (auto simp: open_on_engine_def Let_def split: prod.splits)
  qed
qed

lemma open_target_cases:
  assumes "open_target env who target symbol_path ctx w = (r, w')"
  obtains (not_prepared) e w1 where
      "prepare_engine env who symbol_path (log_dbg Info ''open_target_started'' who None w) = (Inl e, w1)"
      "r = Inl e" "w' = log_dbg LogError ''open_target_failed'' who (Some (dbg_error_text e)) w1"
  | (failed) warnings w1 e launched w2 launched' w3 where
      "prepare_engine env who symbol_path (log_dbg Info ''open_target_started'' who None w) = (Inr warnings, w1)"
      "open_on_engine env who target ctx (w1\<lparr>dw_output := (dw_output w1)(snd who := [])\<rparr>) = ((Inl e, launched), w2)"
      "cleanup_open_target_failure env who launched e w2 = (launched', w3)" "r = Inl e"
      "w' = log_dbg LogError ''open_target_failed'' who (Some (dbg_error_text e))
         (case launched' of None \<Rightarrow> w3 | Some l \<Rightarrow> drop_launched env (snd who) l w3)"
  | (opened) warnings w1 launched w2 where
      "prepare_engine env who symbol_path (log_dbg Info ''open_target_started'' who None w) = (Inr warnings, w1)"
      "open_on_engine env who target ctx (w1\<lparr>dw_output := (dw_output w1)(snd who := [])\<rparr>) = ((Inr (), launched), w2)"
      "r = Inr \<lparr>ds_id = snd who, ds_correlation_id = fst who, ds_launched = launched, ds_warnings = warnings\<rparr>"
      "w' = log_dbg Info ''open_target_finished'' who None w2"
proof -
  obtain q w1 where q: "prepare_engine env who symbol_path (log_dbg Info ''open_target_started'' who None w) = (q, w1)"
    by (metis surj_pair)
  show thesis
  proof (cases q)
    case (Inl e)
    then show thesis using not_prepared assms q by (simp add: open_target_def open_target_inner_def)
  next
    case (Inr warnings)
    obtain q2 launched w2 where o: "open_on_engine env who target ctx (w1\<lparr>dw_output := (dw_output w1)(snd who := [])\<rparr>) = ((q2, launched), w2)"
      by (metis surj_pair)
    show thesis
    proof (cases q2)
      case i: (Inl e)
      obtain launched' w3 where "cleanup_open_target_failure env who launched e w2 = (launched', w3)" by (metis surj_pair)
      then show thesis using failed assms q Inr o i by (simp add: open_target_def open_target_inner_def)
    next
      case i: (Inr u)
      then show thesis using opened assms q Inr o by (simp add: open_target_def open_target_inner_def)
    qed
  qed
qed

section \<open>Processes\<close>

text \<open>The processes that were started and not killed.\<close>

fun process_step :: "u32 set \<Rightarrow> string \<times> engine_call \<times> bool \<Rightarrow> u32 set" where
  "process_step A (i, CallSpawn p, ok) = insert p A"
| "process_step A (i, CallKill p, ok) = (if ok then A - {p} else A)"
| "process_step A _ = A"

definition alive :: "dbg_world \<Rightarrow> u32 set" where
  "alive w = foldl process_step {} (dw_calls w)"

lemma alive_recorded [simp]: "alive (recorded env i c ok w) = process_step (alive w) (i, c, ok)"
  by (simp add: alive_def)

lemma alive_simps [simp]:
  "alive (dbg_emit l w) = alive w" "alive (log_dbg v t h e w) = alive w"
  "alive (w\<lparr>dw_output := x\<rparr>) = alive w" "alive (w\<lparr>dw_callbacks := y\<rparr>) = alive w"
  by (simp_all add: alive_def)

text \<open>The calls that start and end no process.\<close>

fun quiet_call :: "engine_call \<Rightarrow> bool" where
  "quiet_call (CallSpawn p) = False"
| "quiet_call (CallKill p) = False"
| "quiet_call _ = True"

lemma preparing_quiet: "preparing_call c \<Longrightarrow> quiet_call c"
  by (cases c) auto

lemma quiet_step: "quiet_call c \<Longrightarrow> process_step A (i, c, ok) = A"
  by (cases c) auto

interpretation alive: target_view alive quiet_call
  by unfold_locales (simp_all add: quiet_step alive_def preparing_quiet)

interpretation callbacks: target_view dw_callbacks "\<lambda>_. True"
  by unfold_locales simp_all

lemma set_callbacks_alive [simp]: "alive (snd (set_callbacks env i on w)) = alive w"
  unfolding set_callbacks_def by (rule alive.try_then_view) simp_all

lemma kill_alive:
  assumes "\<And>n. de_error env n (CallKill p) = None"
  shows "engine env i (CallKill p) f w = (Inr (), recorded env i (CallKill p) True w)"
    "engine_raw env i (CallKill p) w = (Inr (), recorded env i (CallKill p) True w)"
  using assms by (simp_all add: engine_def engine_raw_def)

lemma spawn_alive:
  assumes "create_suspended_process env i executable args ctx w = (r, w')"
  shows "case r of Inl e \<Rightarrow> alive w' = alive w | Inr l \<Rightarrow> alive w' = insert (lp_pid l) (alive w) \<and> \<not> lp_resumed l \<and> \<not> lp_terminated l"
  using assms by (auto simp: create_suspended_process_def split: sum.splits)

text \<open>Launching: on an error either the process is gone again, or it is handed over, resumed.\<close>

lemma wait_alive: "try_then (check_canceled env v) (\<lambda>_ w. wait_for_event env i t w) = (r, w') \<Longrightarrow> alive w' = alive v"
  using alive.try_then_view[of "check_canceled env v" v "\<lambda>_ w. wait_for_event env i t w"] by (simp add: wait_for_event_def)

lemma attach_resume_alive:
  "try_then (attach_process env i pid v) (\<lambda>_ w. launched_resume env i l w) = (r, w') \<Longrightarrow> alive w' = alive v"
  using alive.try_then_view[of "attach_process env i pid v" v "\<lambda>_ w. launched_resume env i l w"]
  by (simp add: alive.resume_view)

lemma open_launch_alive:
  assumes "open_launch env who executable args ctx w = ((r, launched), w')" "\<And>n p. de_error env n (CallKill p) = None"
  shows "case launched of None \<Rightarrow> alive w' \<subseteq> alive w | Some l \<Rightarrow> lp_resumed l \<and> alive w' = insert (lp_pid l) (alive w)"
  using assms(1)
proof (cases rule: open_launch_cases)
  case (not_started e)
  then show ?thesis
    using spawn_alive[of env "snd who" executable args ctx w]
    by (auto simp: check_canceled_def try_then_def split: sum.splits if_splits)
next
  case (not_resumed l w1 e w2)
  then show ?thesis
    using spawn_alive[OF not_resumed(2)] attach_resume_alive[OF not_resumed(3)]
    by (auto simp: drop_launched_def kill_alive[OF assms(2)])
next
  case (resumed l w1 l' w2)
  then show ?thesis
    using spawn_alive[OF resumed(2)] attach_resume_alive[OF resumed(3)] wait_alive[OF resumed(6)] by simp
qed

lemma open_on_engine_alive:
  assumes "open_on_engine env who target ctx w = ((r, launched), w')" "\<And>n p. de_error env n (CallKill p) = None"
  shows "case launched of None \<Rightarrow> alive w' \<subseteq> alive w | Some l \<Rightarrow> lp_resumed l \<and> alive w' = insert (lp_pid l) (alive w)"
proof -
  have set: "set_callbacks env (snd who) True w = (q, w1) \<Longrightarrow> alive w1 = alive w" for q w1
    using set_callbacks_alive[of env "snd who" True w] by simp
  from assms(1) show ?thesis
  proof (cases rule: open_on_engine_cases)
    case (not_set e)
    then show ?thesis using set by simp
  next
    case (dump path w1)
    then show ?thesis
      using set alive.open_dump_view[of env who path "log_dbg Info ''set_output_callbacks_finished'' who None w1"] by simp
  next
    case (attach pid w1)
    then show ?thesis
      using set alive.open_attach_view[of env who pid "log_dbg Info ''set_output_callbacks_finished'' who None w1"] by simp
  next
    case (launch executable args w1)
    then show ?thesis using set[OF launch(1)] open_launch_alive[OF launch(3) assms(2)] by (simp split: option.splits)
  qed
qed

lemma cleanup_steps_alive:
  "alive (cleanup_end_session env who w) = alive w" "alive (cleanup_callbacks env who w) = alive w"
proof -
  show "alive (cleanup_end_session env who w) = alive w"
    by (auto simp: cleanup_end_session_def split: prod.split sum.split dest: alive.engine_viewD(1))
  obtain q v where "set_callbacks env (snd who) False w = (q, v)" by (metis surj_pair)
  then show "alive (cleanup_callbacks env who w) = alive w"
    using set_callbacks_alive[of env "snd who" False w] by (auto simp: cleanup_callbacks_def split: sum.split)
qed

lemma cleanup_alive:
  assumes "cleanup_open_target_failure env who launched e w = (launched', w')" "\<And>n p. de_error env n (CallKill p) = None"
  shows "case launched of None \<Rightarrow> launched' = None \<and> alive w' = alive w
    | Some l \<Rightarrow> launched' = Some (l\<lparr>lp_terminated := True\<rparr>) \<and> alive w' = alive w - {lp_pid l}"
  using assms(1)
  by (auto simp: cleanup_open_target_failure_def cleanup_launched_def cleanup_steps_alive launched_terminate_def
      kill_alive[OF assms(2)] split: option.splits)

lemma prepare_engine_aliveD: "prepare_engine env who symbol_path w = (r, w') \<Longrightarrow> alive w' = alive w"
  using alive.prepare_engine_view[of env who symbol_path w] by simp

lemma open_target_alive:
  assumes "open_target env who target symbol_path ctx w = (r, w')" "\<And>n p. de_error env n (CallKill p) = None"
  shows "case r of Inl e \<Rightarrow> alive w' \<subseteq> alive w
    | Inr s \<Rightarrow> (case ds_launched s of None \<Rightarrow> alive w' \<subseteq> alive w
                | Some l \<Rightarrow> lp_resumed l \<and> alive w' = insert (lp_pid l) (alive w))"
  using assms(1)
proof (cases rule: open_target_cases)
  case (not_prepared e w1)
  then show ?thesis using prepare_engine_aliveD[OF not_prepared(1)] by simp
next
  case (failed warnings w1 e launched w2 launched' w3)
  have "alive w3 \<subseteq> alive w \<and> (\<forall>l. launched' = Some l \<longrightarrow> lp_terminated l)"
    using cleanup_alive[OF failed(3) assms(2)] open_on_engine_alive[OF failed(2) assms(2)] prepare_engine_aliveD[OF failed(1)]
    by (auto split: option.splits)
  then show ?thesis using failed(4,5) by (auto simp: drop_launched_def split: option.splits)
next
  case (opened warnings w1 launched w2)
  then show ?thesis
    using open_on_engine_alive[OF opened(2) assms(2)] prepare_engine_aliveD[OF opened(1)] by (auto split: option.splits)
qed

end
