(* ===== verification/Dbgeng_Claims.thy ===== *)
theory Dbgeng_Claims
  imports Dbgeng_Properties Launch_Properties
begin

text \<open>
  A debug session that could not be made leaves nothing behind.
\<close>

lemma engine_raw_callbacks [simp]: "dw_callbacks (snd (engine_raw env i c w)) = dw_callbacks w"
  by (simp add: callbacks.engine_view)

lemma set_callbacks_effect:
  assumes "set_callbacks env i on w = (r, w')"
  shows "dw_callbacks w' = (if isl r then dw_callbacks w else (dw_callbacks w)(i := on))"
proof -
  obtain q v where q: "engine_raw env i (CallSetCallbacks on) w = (q, v)" by (metis surj_pair)
  have "dw_callbacks v = dw_callbacks w" using engine_raw_callbacks[of env i "CallSetCallbacks on" w] q by simp
  then show ?thesis using assms q by (cases q) (auto simp: set_callbacks_def)
qed

lemma clear_callbacks:
  assumes "\<And>n. de_error env n (CallSetCallbacks False) = None"
  shows "fst (set_callbacks env i False w) = Inr ()"
  using assms by (simp add: set_callbacks_def engine_raw_def)

lemma spawn_callbacks: "dw_callbacks (snd (create_suspended_process env i e as ctx v)) = dw_callbacks v"
  by (simp add: create_suspended_process_def split: sum.split)

lemma drop_callbacks [simp]: "dw_callbacks (drop_launched env i l w) = dw_callbacks w"
  by (simp add: drop_launched_def)

lemma open_launch_callbacks:
  assumes "open_launch env who executable args ctx w = ((r, launched), w')"
  shows "dw_callbacks w' = dw_callbacks w"
proof -
  have wait: "try_then (check_canceled env v) (\<lambda>_ w. wait_for_event env i t w) = (q, v') \<Longrightarrow> dw_callbacks v' = dw_callbacks v"
    for v v' i t q
    using callbacks.try_then_view[of "check_canceled env v" v "\<lambda>_ w. wait_for_event env i t w"] by (simp add: wait_for_event_def)
  have resume: "try_then (attach_process env i pid v) (\<lambda>_ w. launched_resume env i l w) = (q, v') \<Longrightarrow> dw_callbacks v' = dw_callbacks v"
    for v v' i pid l q
    using callbacks.try_then_view[of "attach_process env i pid v" v "\<lambda>_ w. launched_resume env i l w"]
    by (simp add: callbacks.resume_view)
  have spawn: "create_suspended_process env (snd who) executable args ctx w = (q, v') \<Longrightarrow> dw_callbacks v' = dw_callbacks w" for v' q
    using spawn_callbacks[of env "snd who" executable args ctx w] by simp
  from assms show ?thesis
  proof (cases rule: open_launch_cases)
    case (not_started e)
    then show ?thesis
      using spawn by (auto simp: check_canceled_def try_then_def split: sum.splits if_splits prod.splits)
  next
    case (not_resumed l w1 e w2)
    then show ?thesis using spawn resume by auto
  next
    case (resumed l w1 l' w2)
    then show ?thesis using spawn resume wait by metis
  qed
qed

lemma open_on_engine_callbacks:
  assumes "open_on_engine env who target ctx w = ((r, launched), w')" "j \<noteq> snd who"
  shows "dw_callbacks w' j = dw_callbacks w j"
proof -
  have set: "set_callbacks env (snd who) True w = (q, w1) \<Longrightarrow> dw_callbacks w1 j = dw_callbacks w j" for q w1
    using assms(2) by (auto dest!: set_callbacks_effect split: if_splits)
  from assms(1) show ?thesis
  proof (cases rule: open_on_engine_cases)
    case (not_set e)
    then show ?thesis using set by simp
  next
    case (dump path w1)
    then show ?thesis
      using set callbacks.open_dump_view[of env who path "log_dbg Info ''set_output_callbacks_finished'' who None w1"] by simp
  next
    case (attach pid w1)
    then show ?thesis
      using set callbacks.open_attach_view[of env who pid "log_dbg Info ''set_output_callbacks_finished'' who None w1"] by simp
  next
    case (launch executable args w1)
    then show ?thesis using set[OF launch(1)] open_launch_callbacks[OF launch(3)] by simp
  qed
qed

lemma cleanup_launched_callbacks: "dw_callbacks (snd (cleanup_launched env who launched w)) = dw_callbacks w"
proof (cases launched)
  case (Some l)
  obtain q v where t: "launched_terminate env (snd who) l w = (q, v)" by (metis surj_pair)
  have "dw_callbacks (snd (launched_terminate env (snd who) l w)) = dw_callbacks w"
    unfolding launched_terminate_def by (rule callbacks.try_then_view) simp_all
  then show ?thesis using t by (auto simp: cleanup_launched_def Some split: sum.split)
qed (simp add: cleanup_launched_def)

lemma cleanup_clears:
  assumes "cleanup_open_target_failure env who launched e w = (launched', w')"
    and "\<And>n. de_error env n (CallSetCallbacks False) = None"
  shows "dw_callbacks w' = (dw_callbacks w)(snd who := False)"
proof -
  have ends: "dw_callbacks (cleanup_end_session env who v) = dw_callbacks v" for v
    by (auto simp: cleanup_end_session_def split: prod.split sum.split dest: callbacks.engine_viewD(1))
  have clears: "dw_callbacks (cleanup_callbacks env who v) = (dw_callbacks v)(snd who := False)" for v
  proof -
    obtain q v' where c: "set_callbacks env (snd who) False v = (q, v')" by (metis surj_pair)
    then have "q = Inr ()" using clear_callbacks[OF assms(2), of "snd who" v] by simp
    then show ?thesis using c set_callbacks_effect[OF c] by (simp add: cleanup_callbacks_def)
  qed
  obtain l v where l: "cleanup_launched env who launched (log_dbg Warn ''open_target_cleanup_started'' who (Some (dbg_error_text e)) w) = (l, v)"
    by (metis surj_pair)
  then show ?thesis
    using assms(1) cleanup_launched_callbacks[of env who launched "log_dbg Warn ''open_target_cleanup_started'' who (Some (dbg_error_text e)) w"]
    by (auto simp: cleanup_open_target_failure_def ends clears)
qed

lemma failed_open_callbacks:
  assumes "open_target env who target symbol_path ctx w = (Inl e, w')"
    and "\<And>n. de_error env n (CallSetCallbacks False) = None" "dw_callbacks w' j"
  shows "dw_callbacks w j"
  using assms(1)
proof (cases rule: open_target_cases)
  case (not_prepared e w1)
  then show ?thesis
    using callbacks.prepare_engine_view[of env who symbol_path "log_dbg Info ''open_target_started'' who None w"] assms(3) by simp
next
  case (failed warnings w1 e launched w2 launched' w3)
  have w1: "dw_callbacks w1 = dw_callbacks w"
    using callbacks.prepare_engine_view[of env who symbol_path "log_dbg Info ''open_target_started'' who None w"] failed(1) by simp
  have "dw_callbacks w' = dw_callbacks w3" using failed(5) by (simp split: option.splits)
  then have "j \<noteq> snd who \<and> dw_callbacks w2 j" using cleanup_clears[OF failed(3) assms(2)] assms(3) by (simp split: if_splits)
  then show ?thesis using open_on_engine_callbacks[OF failed(2), of j] w1 by simp
qed simp

text \<open>
  C13. A session that could not be made leaves nothing behind: when the backend answers \<open>create_session\<close> with an
  error, every process that it started for the session has been killed again, no output callback is left in the
  engine that was not there before, the table of sessions is unchanged and the startup is not pending. This
  holds wherever the opening fails, if a process can be killed, the callbacks can be cleared, and the map of the
  sessions is not poisoned.
\<close>

theorem failed_create_leaves_nothing:
  assumes "backend_create env request b = (Inl e, b')" "\<not> gb_sessions_poisoned b" "gb_pending b = (\<lambda>_. None)"
    and "\<And>n p. de_error env n (CallKill p) = None" "\<And>n. de_error env n (CallSetCallbacks False) = None"
  shows "alive (gb_world b') \<subseteq> alive (gb_world b)
    \<and> {i. dw_callbacks (gb_world b') i} \<subseteq> {i. dw_callbacks (gb_world b) i}
    \<and> gb_sessions b' = gb_sessions b \<and> gb_pending b' = (\<lambda>_. None)"
proof -
  define i key where "i = dbgeng_session_id (gb_next_id b)" and
    "key = (case cb_correlation_id request of Some c \<Rightarrow> c | None \<Rightarrow> dbgeng_session_id (gb_next_id b))"
  obtain r w' where o: "open_target env (cb_correlation_id request, i) (cb_target request) (cb_symbol_path request)
      (cb_launch_context request) (gb_world b) = (r, w')" by (metis surj_pair)
  show ?thesis
  proof (cases "gb_pending_poisoned b")
    case True
    then show ?thesis
      using assms(1,3) by (auto simp: backend_create_def Let_def create_register_def)
  next
    case False
    then have c: "create_finish key r (b\<lparr>gb_next_id := gb_next_id b + 1,
        gb_pending := (gb_pending b)(key \<mapsto> startup_cancellation_default), gb_world := w'\<rparr>) = (Inl e, b')"
      using assms(1) o by (simp add: backend_create_def Let_def create_register_def with_world_def i_def key_def)
    then obtain e' where r: "r = Inl e'" using assms(2) by (cases r) (auto simp: create_finish_def)
    have b': "gb_world b' = w'" "gb_sessions b' = gb_sessions b" "gb_pending b' = (\<lambda>_. None)"
      using c r assms(3) by (auto simp: create_finish_def)
    show ?thesis
      using open_target_alive[OF o assms(4)] failed_open_callbacks[OF o[unfolded r] assms(5)] r b' by auto
  qed
qed

section \<open>An engine for the witnesses\<close>

definition demo_windows :: "unit launch_os" where
  "demo_windows =
     \<lparr>os_query_user_token = (\<lambda>_. Inr ()), os_linked_token = (\<lambda>_. None), os_active_console = 1, os_prepare = (\<lambda>_ _. Inr ()),
      os_attribute_list = Inr (), os_user_environment = (\<lambda>_. Inl []), os_vars = [], os_create = (\<lambda>_. Inr 7),
      os_show_u32 = (\<lambda>_. []), os_display_path = (\<lambda>_. [])\<rparr>"

text \<open>Every call works but those that \<open>fails\<close> names; every call prints one letter; the status is a break.\<close>

definition demo_dbgeng :: "cancel_moment option \<Rightarrow> (engine_call \<Rightarrow> bool) \<Rightarrow> unit dbgeng_env" where
  "demo_dbgeng cancel fails =
     \<lparr>de_os = demo_windows, de_fs = \<lparr>fs_is_file = (\<lambda>_. True), fs_is_dir = (\<lambda>_. False), fs_read_dir = (\<lambda>_. None)\<rparr>,
      de_arch = ArchOther, de_var = (\<lambda>_. Some []), de_error = (\<lambda>_ c. if fails c then Some [] else None), de_hresult = (\<lambda>_. 0),
      de_show_hresult = (\<lambda>_. []), de_status = (\<lambda>_. 6), de_text = (\<lambda>_ _. [[65]]), de_cancel_at = cancel,
      de_global_poisoned = False, de_cancel_poisoned = False\<rparr>"

definition demo_debuggee :: create_backend_session where
  "demo_debuggee =
     \<lparr>cb_target = Launch ''a.exe'' [], cb_correlation_id = None, cb_symbol_path = None,
      cb_launch_context = \<lparr>ctx_config = process_launch_config_default, ctx_tool_call = \<lparr>tcc_peer_pid = None, tcc_peer_session_id = None\<rparr>\<rparr>\<rparr>"

definition demo_engine :: dbgeng_backend where
  "demo_engine =
     \<lparr>gb_next_id = 0, gb_sessions = (\<lambda>_. None), gb_pending = (\<lambda>_. None), gb_sessions_poisoned = False, gb_pending_poisoned = False,
      gb_world = \<lparr>dw_calls = [], dw_output = (\<lambda>_. []), dw_output_poisoned = (\<lambda>_. False), dw_callbacks = (\<lambda>_. False), dw_emitted = []\<rparr>\<rparr>"

lemma demo_spawns:
  "\<exists>child. windows_spawn_process (de_os (demo_dbgeng cancel fails)) spec
     \<lparr>ctx_config = process_launch_config_default, ctx_tool_call = tc\<rparr> = Inr child \<and> mc_pid child = 7"
  by (simp add: demo_dbgeng_def demo_windows_def windows_spawn_process_def resolve_user_identity_def
      process_launch_config_default_def spawn_as_current_def create_process_with_optional_token_def prepare_stdio_def
      child_environment_def environment_for_user_def split: if_split)

lemma demo_resolves: "\<exists>l. resolve_dbgeng (de_fs (demo_dbgeng cancel fails)) arch (de_var (demo_dbgeng cancel fails)) = Inr l"
  by (simp add: resolve_dbgeng_def resolve_dbgeng_from_roots_def default_roots_def find_dbgeng_in_debuggers_dir_def demo_dbgeng_def Let_def)

lemma demo_calls:
  "engine_raw (demo_dbgeng cancel fails) i c w
     = (if fails c then (Inl [], recorded (demo_dbgeng cancel fails) i c False w) else (Inr (), recorded (demo_dbgeng cancel fails) i c True w))"
  "engine_hr (demo_dbgeng cancel fails) i c w = (0, recorded (demo_dbgeng cancel fails) i c True w)"
  "check_canceled (demo_dbgeng None fails) w = (Inr (), w)"
  "install_interrupt (demo_dbgeng None fails) who w = (Inr (), w)"
  by (simp_all add: engine_raw_def engine_hr_def check_canceled_def cancel_requested_def install_interrupt_def demo_dbgeng_def)

lemma demo_prepares:
  assumes "\<And>c. preparing_call c \<Longrightarrow> \<not> fails c"
  shows "\<exists>ws w'. prepare_engine (demo_dbgeng None fails) who None w = (Inr ws, w') \<and> dw_callbacks w' = dw_callbacks w
    \<and> dw_output_poisoned w' = dw_output_poisoned w"
proof -
  obtain l where "resolve_dbgeng (de_fs (demo_dbgeng None fails)) (de_arch (demo_dbgeng None fails)) (de_var (demo_dbgeng None fails)) = Inr l"
    using demo_resolves by blast
  moreover have "\<not> de_global_poisoned (demo_dbgeng None fails)" by (simp add: demo_dbgeng_def)
  ultimately show ?thesis
    by (simp add: prepare_engine_def demo_calls load_library_def debug_create_def query_interface_def engine_def assms Let_def)
qed

lemma demo_wait_fails:
  "\<exists>e w'. open_target (demo_dbgeng None (\<lambda>c. c = CallWaitForEvent)) (None, i) (cb_target demo_debuggee) None
     (cb_launch_context demo_debuggee) w = (Inl e, w')"
proof -
  let ?env = "demo_dbgeng None (\<lambda>c. c = CallWaitForEvent)"
  obtain ws w1 where p: "prepare_engine ?env (None, i) None (log_dbg Info ''open_target_started'' (None, i) None w) = (Inr ws, w1)"
    using demo_prepares[of "\<lambda>c. c = CallWaitForEvent"] by fastforce
  have fails: "fst (wait_for_event ?env j t v) = Inl (backend_text t [])" for j t v
    by (simp add: wait_for_event_def engine_def demo_calls)
  obtain r l w2 where o: "open_on_engine ?env (None, i) (Launch ''a.exe'' []) (cb_launch_context demo_debuggee)
      (w1\<lparr>dw_output := (dw_output w1)(i := [])\<rparr>) = ((r, l), w2)" by (metis surj_pair)
  from o have "isl r"
  proof (cases rule: open_on_engine_cases)
    case (launch executable args v)
    from launch(3) show ?thesis
    proof (cases rule: open_launch_cases)
      case (resumed l v l' v')
      then show ?thesis
        using fails[of i "''WaitForEvent after launch failed''" v'] by (simp add: demo_calls)
    qed simp_all
  qed simp_all
  then obtain e where "r = Inl e" by (cases r) auto
  then show ?thesis using p o by (simp add: open_target_def open_target_inner_def demo_debuggee_def split: prod.split)
qed

lemma failed_create_leaves_nothing_witness:
  "\<exists>e b'. backend_create (demo_dbgeng None (\<lambda>c. c = CallWaitForEvent)) demo_debuggee demo_engine = (Inl e, b')
    \<and> alive (gb_world b') = {} \<and> gb_sessions b' = (\<lambda>_. None)"
proof -
  let ?env = "demo_dbgeng None (\<lambda>c. c = CallWaitForEvent)"
  obtain e w' where "open_target ?env (None, dbgeng_session_id 0) (cb_target demo_debuggee) None
     (cb_launch_context demo_debuggee) (gb_world demo_engine) = (Inl e, w')" using demo_wait_fails by blast
  then obtain b' where b: "backend_create ?env demo_debuggee demo_engine = (Inl e, b')"
    by (simp add: backend_create_def demo_engine_def create_register_def with_world_def create_finish_def demo_debuggee_def Let_def)
  have "alive (gb_world demo_engine) = {}" by (simp add: alive_def demo_engine_def)
  with failed_create_leaves_nothing[OF b] show ?thesis
    using b by (simp add: demo_engine_def) (simp add: demo_dbgeng_def)
qed

end
