(* ===== verification/Dbgeng_Cancel.thy ===== *)
theory Dbgeng_Cancel
  imports Dbgeng_Claims
begin

text \<open>
  A startup that was cancelled begins no more work and does not become a session.
\<close>

section \<open>Cancelled startups\<close>

text \<open>Starting a process, opening a dump, waiting for the target: what a cancelled startup must not begin.\<close>

fun begins_work :: "engine_call \<Rightarrow> bool" where
  "begins_work (CallSpawn p) = True"
| "begins_work (CallOpenDump p) = True"
| "begins_work CallWaitForEvent = True"
| "begins_work _ = False"

lemma preparing_no_work: "preparing_call c \<Longrightarrow> \<not> begins_work c"
  by (cases c) auto

text \<open>The numbers of such calls from a given one on.\<close>

definition work_since :: "nat \<Rightarrow> dbg_world \<Rightarrow> nat set" where
  "work_since m w = {n. m \<le> n \<and> n < length (dw_calls w) \<and> begins_work (fst (snd (dw_calls w ! n)))}"

lemma work_since_recorded:
  "work_since m (recorded env i c ok w)
     = work_since m w \<union> (if begins_work c \<and> m \<le> length (dw_calls w) then {length (dw_calls w)} else {})"
  by (auto simp: work_since_def nth_append less_Suc_eq)

lemma work_since_simps [simp]:
  "work_since m (dbg_emit l w) = work_since m w" "work_since m (log_dbg v t h e w) = work_since m w"
  "work_since m (w\<lparr>dw_output := x\<rparr>) = work_since m w" "work_since m (w\<lparr>dw_callbacks := y\<rparr>) = work_since m w"
  by (simp_all add: work_since_def)

interpretation work: engine_view "work_since m" "\<lambda>c. \<not> begins_work c" for m
  by unfold_locales (auto simp: work_since_def nth_append less_Suc_eq preparing_no_work)

text \<open>The cancellation was asked for before or while the call \<open>n\<close> is made.\<close>

fun asked_before :: "cancel_moment \<Rightarrow> nat \<Rightarrow> bool" where
  "asked_before (BeforeLook k) n \<longleftrightarrow> k \<le> n"
| "asked_before (AfterLook k) n \<longleftrightarrow> k \<le> n"

text \<open>Work begins only before the call at which the startup is cancelled.\<close>

definition no_late_work :: "nat \<Rightarrow> nat \<Rightarrow> dbg_world \<Rightarrow> bool" where
  "no_late_work k m w \<longleftrightarrow> (\<forall>n \<in> work_since m w. n < k)"

lemma no_late_work_same: "work_since m w' = work_since m w \<Longrightarrow> no_late_work k m w' = no_late_work k m w"
  by (simp add: no_late_work_def)

lemma no_late_recorded [simp]: "\<not> begins_work c \<Longrightarrow> no_late_work k m (recorded env i c ok w) = no_late_work k m w"
  by (simp add: no_late_work_def work_since_recorded)

lemma no_late_simps [simp]:
  "no_late_work k m (dbg_emit l w) = no_late_work k m w" "no_late_work k m (log_dbg v t h e w) = no_late_work k m w"
  "no_late_work k m (w\<lparr>dw_output := x\<rparr>) = no_late_work k m w" "no_late_work k m (w\<lparr>dw_callbacks := y\<rparr>) = no_late_work k m w"
  by (simp_all add: no_late_work_def)

text \<open>A call that begins work, right after a check.\<close>

lemma checked_work:
  assumes "fst (check_canceled env w) = Inr ()" "map_option first_seen (de_cancel_at env) = Some k" "no_late_work k m w"
  shows "no_late_work k m (recorded env i c ok w)"
  using assms by (auto simp: no_late_work_def work_since_recorded check_canceled_def cancel_requested_def split: if_splits)

lemma raw_late:
  "\<not> begins_work c \<or> fst (check_canceled env w) = Inr () \<and> map_option first_seen (de_cancel_at env) = Some k \<Longrightarrow> no_late_work k m w \<Longrightarrow>
     no_late_work k m (snd (engine_raw env i c w))"
  by (auto simp: engine_raw_def checked_work split: option.split)

lemma engine_late:
  assumes "\<not> begins_work c \<or> fst (check_canceled env w) = Inr () \<and> map_option first_seen (de_cancel_at env) = Some k" "no_late_work k m w"
  shows "no_late_work k m (snd (engine env i c f w))" "no_late_work k m (snd (engine_logged env who c t u w))"
    "no_late_work k m (snd (engine_hr env i c w))"
proof -
  have raw: "no_late_work k m (snd (engine_raw env j c w))" for j by (rule raw_late[OF assms])
  show "no_late_work k m (snd (engine env i c f w))"
    using raw[of i] by (auto simp: engine_def split: prod.split sum.split)
  show "no_late_work k m (snd (engine_logged env who c t u w))"
    using raw[of "snd who"] by (auto simp: engine_logged_def split: prod.split sum.split)
  show "no_late_work k m (snd (engine_hr env i c w))"
    using assms by (auto simp: engine_hr_def Let_def checked_work)
qed

text \<open>Check, then one call that begins work.\<close>

lemma check_then:
  assumes "map_option first_seen (de_cancel_at env) = Some k" "no_late_work k m w"
    and "fst (check_canceled env w) = Inr () \<Longrightarrow> no_late_work k m (snd (g w))"
  shows "no_late_work k m (snd (try_then (check_canceled env w) (\<lambda>_. g)))"
  using assms by (cases "check_canceled env w") (auto simp: try_then_def check_canceled_def split: if_splits)

lemma set_callbacks_late: "no_late_work k m w \<Longrightarrow> no_late_work k m (snd (set_callbacks env i on w))"
  unfolding set_callbacks_def by (rule try_then_state) (simp_all add: raw_late)

lemma open_dump_late:
  assumes "map_option first_seen (de_cancel_at env) = Some k" "no_late_work k m w"
  shows "no_late_work k m (snd (open_dump env who path w))"
  unfolding open_dump_def Let_def
  by (rule check_then[OF assms], rule try_then_state[where P = "no_late_work k m"], simp add: engine_late assms,
      rule check_then[OF assms(1)], simp, rule try_then_state[where P = "no_late_work k m"])
    (simp_all add: engine_late assms check_canceled_def cancel_requested_def)

lemma attach_late: "no_late_work k m w \<Longrightarrow> no_late_work k m (snd (attach_process env i pid w))"
  using engine_late(3)[of "CallAttach pid" env w k m i] by (auto simp: attach_process_def split: prod.split)

lemma break_late: "no_late_work k m w \<Longrightarrow> no_late_work k m (snd (break_process env i pid w))"
  unfolding break_process_def
proof (rule try_then_state)
  fix x s
  assume "no_late_work k m s"
  then have late: "no_late_work k m (snd (engine env i (CallDebugBreak pid) f s))" for f by (simp add: engine_late)
  obtain q v where e: "engine env i (CallDebugBreak pid) (backend_text ''DebugBreakProcess failed'') s = (q, v)" by (metis surj_pair)
  have "no_late_work k m v" using late[of "backend_text ''DebugBreakProcess failed''"] e by simp
  then show "no_late_work k m (snd (case engine env i (CallDebugBreak pid) (backend_text ''DebugBreakProcess failed'') s of
      (r, w) \<Rightarrow> (r, snd (engine_raw env i (CallCloseHandle pid) w))))"
    by (simp add: e raw_late)
qed (simp add: engine_late)

lemma wait_late:
  assumes "map_option first_seen (de_cancel_at env) = Some k" "no_late_work k m w"
  shows "no_late_work k m (snd (try_then (check_canceled env w) (\<lambda>_ w. wait_for_event env i t w)))"
  by (rule check_then[OF assms]) (simp add: wait_for_event_def engine_late assms)

lemma open_attach_late:
  assumes "map_option first_seen (de_cancel_at env) = Some k" "no_late_work k m w"
  shows "no_late_work k m (snd (open_attach env who pid w))"
  unfolding open_attach_def
  by (rule check_then[OF assms], rule try_then_state[where P = "no_late_work k m"], simp add: attach_late assms,
      rule try_then_state[where P = "no_late_work k m"], simp add: break_late, rule wait_late[OF assms(1)])

lemma drop_late: "no_late_work k m w \<Longrightarrow> no_late_work k m (drop_launched env i l w)"
  by (simp add: drop_launched_def raw_late)

lemma open_launch_late:
  assumes "open_launch env who executable args ctx w = ((r, launched), w')" "map_option first_seen (de_cancel_at env) = Some k" "no_late_work k m w"
  shows "no_late_work k m w'"
proof -
  have spawn: "no_late_work k m (snd (create_suspended_process env (snd who) executable args ctx w))"
    if "fst (check_canceled env w) = Inr ()"
    using that assms(2,3) by (auto simp: create_suspended_process_def checked_work split: sum.split)
  have resume: "no_late_work k m (snd (try_then (attach_process env i pid v) (\<lambda>_ w. launched_resume env i l w)))"
    if "no_late_work k m v" for i pid l v
    by (rule try_then_state[where P = "no_late_work k m"])
      (auto simp: attach_late that launched_resume_def engine_late intro!: try_then_state[where P = "no_late_work k m"])
  from assms(1) show ?thesis
  proof (cases rule: open_launch_cases)
    case (not_started e)
    then show ?thesis
      using check_then[where g = "create_suspended_process env (snd who) executable args ctx", OF assms(2,3) spawn] by simp
  next
    case (not_resumed l w1 e w2)
    then show ?thesis using spawn resume[of w1 "snd who" "lp_pid l" l] by (simp add: drop_late)
  next
    case (resumed l w1 l' w2)
    then show ?thesis
      using spawn resume[of w1 "snd who" "lp_pid l" l]
        wait_late[OF assms(2), of m w2 "snd who" "''WaitForEvent after launch failed''"] by simp
  qed
qed

lemma open_on_engine_late:
  assumes "open_on_engine env who target ctx w = ((r, launched), w')" "map_option first_seen (de_cancel_at env) = Some k" "no_late_work k m w"
  shows "no_late_work k m w'"
proof -
  have set: "set_callbacks env (snd who) True w = (q, w1) \<Longrightarrow> no_late_work k m w1" for q w1
    using set_callbacks_late[OF assms(3), of env "snd who" True] by simp
  from assms(1) show ?thesis
  proof (cases rule: open_on_engine_cases)
    case (not_set e)
    then show ?thesis using set by simp
  next
    case (dump path w1)
    then show ?thesis
      using set open_dump_late[OF assms(2), of m "log_dbg Info ''set_output_callbacks_finished'' who None w1" who path] by simp
  next
    case (attach pid w1)
    then show ?thesis
      using set open_attach_late[OF assms(2), of m "log_dbg Info ''set_output_callbacks_finished'' who None w1" who pid] by simp
  next
    case (launch executable args w1)
    then show ?thesis using set[OF launch(1)] open_launch_late[OF launch(3) assms(2)] by simp
  qed
qed

lemma terminate_late: "no_late_work k m w \<Longrightarrow> no_late_work k m (snd (launched_terminate env i l w))"
  unfolding launched_terminate_def by (rule try_then_state) (simp_all add: engine_late)

lemma cleanup_late:
  assumes "cleanup_open_target_failure env who launched e w = (launched', w')" "no_late_work k m w"
  shows "no_late_work k m w'"
proof -
  have ends: "no_late_work k m v \<Longrightarrow> no_late_work k m (cleanup_end_session env who v)" for v
    using raw_late[of CallEndSession env v k m "snd who"] by (auto simp: cleanup_end_session_def split: prod.split sum.split)
  have clears: "no_late_work k m v \<Longrightarrow> no_late_work k m (cleanup_callbacks env who v)" for v
    using set_callbacks_late[of k m v env "snd who" False] by (auto simp: cleanup_callbacks_def split: prod.split sum.split)
  have kills: "no_late_work k m v \<Longrightarrow> no_late_work k m (snd (cleanup_launched env who launched v))" for v
    using terminate_late[of k m v env "snd who"] by (auto simp: cleanup_launched_def split: option.split prod.split sum.split)
      (metis snd_conv)+
  show ?thesis
    using assms kills[of "log_dbg Warn ''open_target_cleanup_started'' who (Some (dbg_error_text e)) w"]
    by (auto simp: cleanup_open_target_failure_def ends clears split: prod.splits)
qed

lemma prepare_late: "prepare_engine env who symbol_path w = (r, w') \<Longrightarrow> no_late_work k m w' = no_late_work k m w"
  using work.prepare_engine_view[of m env who symbol_path w] by (simp add: no_late_work_def)

lemma open_target_late:
  assumes "open_target env who target symbol_path ctx w = (r, w')" "map_option first_seen (de_cancel_at env) = Some k" "no_late_work k m w"
  shows "no_late_work k m w'"
  using assms(1)
proof (cases rule: open_target_cases)
  case (not_prepared e w1)
  then show ?thesis using prepare_late[OF not_prepared(1)] assms(3) by simp
next
  case (failed warnings w1 e launched w2 launched' w3)
  have "no_late_work k m w3"
    using cleanup_late[OF failed(3)] open_on_engine_late[OF failed(2) assms(2)] prepare_late[OF failed(1)] assms(3) by simp
  then show ?thesis using failed(5) by (auto simp: drop_late split: option.split)
next
  case (opened warnings w1 launched w2)
  then show ?thesis
    using open_on_engine_late[OF opened(2) assms(2)] prepare_late[OF opened(1)] assms(3) by simp
qed

text \<open>A target that was opened was waited for last.\<close>

lemma engine_length:
  "engine env i c f w = (r, w') \<Longrightarrow> length (dw_calls w') = Suc (length (dw_calls w))"
  "engine_logged env who c t u w = (r, w') \<Longrightarrow> length (dw_calls w') = Suc (length (dw_calls w))"
  by (auto simp: engine_def engine_logged_def engine_raw_def split: option.splits)

lemma wait_not_canceled:
  assumes "try_then (check_canceled env w) (\<lambda>_ w. wait_for_event env i t w) = (Inr u, w')" "map_option first_seen (de_cancel_at env) = Some k"
  shows "length (dw_calls w') \<le> k"
proof -
  have "\<not> k \<le> length (dw_calls w)" "wait_for_event env i t w = (Inr u, w')"
    using assms by (auto simp: try_then_Inr check_canceled_def cancel_requested_def split: if_splits)
  then show ?thesis using engine_length(1)[of env i CallWaitForEvent _ w "Inr u" w'] by (simp add: wait_for_event_def)
qed

lemma opened_not_canceled:
  assumes "open_on_engine env who target ctx w = ((Inr u, launched), w')" "map_option first_seen (de_cancel_at env) = Some k"
  shows "length (dw_calls w') \<le> k"
  using assms(1)
proof (cases rule: open_on_engine_cases)
  case (not_set e)
  then show ?thesis by simp
next
  case (dump path w1)
  from dump(4) obtain v v' where v: "fst (check_canceled env v) = Inr ()"
    "engine_logged env who CallWaitForEvent ''wait_for_event_failed'' ''WaitForEvent failed'' v = (Inr (), v')"
    "length (dw_calls w') = length (dw_calls v')"
    by (auto simp: open_dump_def try_then_Inr Let_def check_canceled_def)
  then show ?thesis
    using engine_length(2)[OF v(2)] assms(2) by (simp add: check_canceled_def cancel_requested_def split: if_splits)
next
  case (attach pid w1)
  from attach(4) obtain v where
    "try_then (check_canceled env v) (\<lambda>_ w. wait_for_event env (snd who) ''WaitForEvent after attach failed'' w) = (Inr u, w')"
    by (auto simp: open_attach_def try_then_Inr)
  from wait_not_canceled[OF this assms(2)] show ?thesis .
next
  case (launch executable args w1)
  from launch(3) show ?thesis
  proof (cases rule: open_launch_cases)
    case (resumed l v l' v')
    from wait_not_canceled[OF resumed(6) assms(2)] show ?thesis .
  qed simp_all
qed

text \<open>
  C14. A cancelled startup comes to its end: of the calls that are made after the cancellation was asked for, only one
  that had been looked at before can still begin work, that is start a process, open a dump or wait for the target;
  every later look stops the startup. The opening ends with an error unless the last such call was its last wait; and
  if a look before the first call sees the cancellation, nothing at all is called.
\<close>

theorem canceled_startup_begins_nothing:
  assumes "open_target env who target symbol_path ctx w = (r, w')" "de_cancel_at env = Some moment"
  shows "(\<forall>n. length (dw_calls w) \<le> n \<and> asked_before moment n \<and> n < length (dw_calls w')
            \<and> begins_work (fst (snd (dw_calls w' ! n))) \<longrightarrow> moment = AfterLook n)
    \<and> (isl r \<or> length (dw_calls w') \<le> first_seen moment)
    \<and> (first_seen moment \<le> length (dw_calls w) \<longrightarrow> isl r \<and> dw_calls w' = dw_calls w)"
proof -
  let ?k = "first_seen moment"
  have seen: "map_option first_seen (de_cancel_at env) = Some ?k" using assms(2) by simp
  have "no_late_work ?k (length (dw_calls w)) w" by (auto simp: no_late_work_def work_since_def)
  from open_target_late[OF assms(1) seen this] have late: "no_late_work ?k (length (dw_calls w)) w'" .
  have work: "moment = AfterLook n" if "length (dw_calls w) \<le> n" "asked_before moment n" "n < length (dw_calls w')"
    "begins_work (fst (snd (dw_calls w' ! n)))" for n
  proof -
    have "n < ?k" using late that by (simp add: no_late_work_def work_since_def)
    then show ?thesis using that(2) by (cases moment) auto
  qed
  have opened: "isl r \<or> length (dw_calls w') \<le> ?k"
    using assms(1)
  proof (cases rule: open_target_cases)
    case (opened warnings w1 launched w2)
    then show ?thesis using opened_not_canceled[OF opened(2) seen] by simp
  qed simp_all
  have first: "isl r \<and> dw_calls w' = dw_calls w" if "?k \<le> length (dw_calls w)"
  proof -
    have "\<exists>e. prepare_engine env who symbol_path v = (Inl e, v)" if "dw_calls v = dw_calls w" for v
      using \<open>?k \<le> length (dw_calls w)\<close> that assms(2) by (simp add: prepare_engine_def check_canceled_def cancel_requested_def)
    then obtain e where "prepare_engine env who symbol_path (log_dbg Info ''open_target_started'' who None w)
        = (Inl e, log_dbg Info ''open_target_started'' who None w)" by fastforce
    then show ?thesis using assms(1) by (auto simp: open_target_def open_target_inner_def)
  qed
  show ?thesis using work opened first by blast
qed

lemma canceled_startup_begins_nothing_witness:
  "isl (fst (open_target (demo_dbgeng (Some (BeforeLook 0)) (\<lambda>_. False)) (None, []) (cb_target demo_debuggee) None
     (cb_launch_context demo_debuggee) (gb_world demo_engine)))"
proof -
  obtain r w' where o: "open_target (demo_dbgeng (Some (BeforeLook 0)) (\<lambda>_. False)) (None, []) (cb_target demo_debuggee) None
     (cb_launch_context demo_debuggee) (gb_world demo_engine) = (r, w')" by (metis surj_pair)
  have "de_cancel_at (demo_dbgeng (Some (BeforeLook 0)) (\<lambda>_. False)) = Some (BeforeLook 0)" by (simp add: demo_dbgeng_def)
  from canceled_startup_begins_nothing[OF o this] show ?thesis using o by simp
qed

end
