(* ===== verification/Dbgeng_Commands.thy ===== *)
theory Dbgeng_Commands
  imports Dbgeng_Claims
begin

text \<open>
  What a command gives, what the table of the sessions keeps, and which engine library is found.
\<close>

section \<open>Output and states\<close>

text \<open>What is printed to a session during the calls with the numbers from \<open>m\<close> to \<open>n\<close>.\<close>

definition printed_between :: "'t dbgeng_env \<Rightarrow> string \<Rightarrow> nat \<Rightarrow> nat \<Rightarrow> utext" where
  "printed_between env i m n = concat (map (printed env i) [m..<n])"

lemma printed_between_simps [simp]:
  "printed_between env i m m = []"
  "m \<le> n \<Longrightarrow> printed_between env i m (Suc n) = printed_between env i m n @ printed env i n"
  by (simp_all add: printed_between_def)

text \<open>The buffer of a session holds what was printed since the call with the number \<open>m\<close>.\<close>

definition collects :: "'t dbgeng_env \<Rightarrow> string \<Rightarrow> nat \<Rightarrow> dbg_world \<Rightarrow> bool" where
  "collects env i m w \<longleftrightarrow>
     dw_callbacks w i \<and> \<not> dw_output_poisoned w i \<and> m \<le> length (dw_calls w)
     \<and> dw_output w i = printed_between env i m (length (dw_calls w))"

lemma collects_recorded: "collects env i m w \<Longrightarrow> collects env i m (recorded env i c ok w)"
  by (auto simp: collects_def recorded_def print_output_def)

lemma collects_emit [simp]: "collects env i m (dbg_emit l w) = collects env i m w" "collects env i m (report st t w) = collects env i m w"
  by (simp_all add: collects_def report_def)

lemma collects_engine: "collects env i m w \<Longrightarrow> collects env i m (snd (engine env i c f w))"
  by (auto simp: engine_def engine_raw_def collects_recorded split: option.split)

lemma collects_query: "collects env i m w \<Longrightarrow> collects env i m (snd (query_execution_state env i w))"
  unfolding query_execution_state_def by (rule try_then_state) (simp_all add: collects_engine)

lemma collects_wait: "collects env i m w \<Longrightarrow> collects env i m (snd (wait_for_execution_event env i w))"
  by (auto simp: wait_for_execution_event_def engine_hr_def Let_def collects_recorded)

lemma collects_follow: "collects env i m w \<Longrightarrow> collects env i m (snd (follow_execution env i w))"
  unfolding follow_execution_def
proof (rule try_then_state, erule collects_query)
  fix st s
  assume s: "collects env i m s"
  have "collects env i m (snd (try_then (wait_for_execution_event env i (report BackendRunning t s)) (\<lambda>warnings w.
      try_then (query_execution_state env i w) (\<lambda>final_state w.
        (Inr (warnings, final_state), case final_state of None \<Rightarrow> w | Some state \<Rightarrow> report state u w)))))" for t u
    by (rule try_then_state[where P = "collects env i m"], rule collects_wait, simp add: s,
        rule try_then_state[where P = "collects env i m"], erule collects_query)
      (simp split: option.split)
  then show "collects env i m (snd (if st = Some BackendRunning
       then (let w = report BackendRunning ''dbgeng execution status running'' s in
             try_then (wait_for_execution_event env i w) (\<lambda>warnings w.
             try_then (query_execution_state env i w) (\<lambda>final_state w.
             (Inr (warnings, final_state),
              case final_state of None \<Rightarrow> w | Some state \<Rightarrow> report state ''dbgeng wait event returned'' w))))
       else if st = Some BackendClosed
       then (Inr ([], st), report BackendClosed ''dbgeng execution status no debuggee'' s)
       else (Inr ([], st), s)))"
    using s by (simp add: Let_def)
qed

text \<open>The states that were reported, in order.\<close>

definition reports :: "dbg_world \<Rightarrow> backend_execution_state list" where
  "reports w = List.map_filter (case_sum (\<lambda>_. None) (\<lambda>e. Some (be_state e))) (dw_emitted w)"

lemma reports_simps [simp]:
  "reports (recorded env i c ok w) = reports w" "reports (dbg_emit l w) = reports w"
  "reports (w\<lparr>dw_output := x\<rparr>) = reports w" "reports (report st t w) = reports w @ [st]"
  by (simp_all add: reports_def dbg_emit_def report_def map_filter_def)

lemma reports_engine: "engine env i c f w = (r, w') \<Longrightarrow> reports w' = reports w"
  by (auto simp: engine_def engine_raw_def split: option.splits)

lemma reports_query: "query_execution_state env i w = (r, w') \<Longrightarrow> reports w' = reports w"
  by (auto simp: query_execution_state_def try_then_def split: prod.splits sum.splits dest: reports_engine)

lemma reports_wait: "wait_for_execution_event env i w = (r, w') \<Longrightarrow> reports w' = reports w"
  by (auto simp: wait_for_execution_event_def engine_hr_def Let_def)

text \<open>What a command may report, given the state it ended in: nothing, that there is no target any more, or that
  the target ran and what it came to.\<close>

definition reports_fit :: "backend_execution_state list \<Rightarrow> backend_execution_state option \<Rightarrow> bool" where
  "reports_fit rs st \<longleftrightarrow>
     rs = [] \<and> st \<in> {None, Some BackendBreak} \<or> rs = [BackendClosed] \<and> st = Some BackendClosed
     \<or> rs = BackendRunning # (case st of None \<Rightarrow> [] | Some s \<Rightarrow> [s])"

lemma follow_execution_reports:
  assumes "follow_execution env i w = (r, w')"
  shows "\<exists>rs. reports w' = reports w @ rs \<and> (case r of Inl _ \<Rightarrow> rs \<in> {[], [BackendRunning]} | Inr (_, st) \<Rightarrow> reports_fit rs st)"
proof -
  obtain q w1 where q: "query_execution_state env i w = (q, w1)" by (metis surj_pair)
  note w1 = reports_query[OF q]
  show ?thesis
  proof (cases q)
    case (Inl e)
    then show ?thesis using assms q w1 by (auto simp: follow_execution_def)
  next
    case (Inr st)
    show ?thesis
    proof (cases "st = Some BackendRunning")
      case False
      then show ?thesis
        using assms q Inr w1
        by (cases st rule: option.exhaust; cases "the st") (auto simp: follow_execution_def reports_fit_def)
    next
      case running: True
      obtain q2 w2 where q2: "wait_for_execution_event env i (report BackendRunning ''dbgeng execution status running'' w1) = (q2, w2)"
        by (metis surj_pair)
      have w2: "reports w2 = reports w @ [BackendRunning]" using reports_wait[OF q2] w1 by simp
      show ?thesis
      proof (cases q2)
        case (Inl e)
        then show ?thesis using assms q running q2 w2 \<open>q = Inr st\<close> by (auto simp: follow_execution_def)
      next
        case i: (Inr warnings)
        obtain q3 w3 where q3: "query_execution_state env i w2 = (q3, w3)" by (metis surj_pair)
        have w3: "reports w3 = reports w @ [BackendRunning]" using reports_query[OF q3] w2 by simp
        show ?thesis
          using assms q Inr running q2 i q3 w3
          by (cases q3) (auto simp: follow_execution_def reports_fit_def split: option.split)
      qed
    qed
  qed
qed

text \<open>The two results together.\<close>

definition command_ok ::
    "'t dbgeng_env \<Rightarrow> string \<Rightarrow> dbg_world \<Rightarrow> (utext \<times> string list \<times> backend_execution_state option) result \<Rightarrow> dbg_world \<Rightarrow> bool" where
  "command_ok env i w r w' \<longleftrightarrow>
     collects env i (length (dw_calls w)) w'
     \<and> (\<exists>rs. reports w' = reports w @ rs
          \<and> (case r of Inl _ \<Rightarrow> rs \<in> {[], [BackendRunning]}
             | Inr (out, _, st) \<Rightarrow> out = dw_output w' i \<and> reports_fit rs st))"

lemma execute_command_ok:
  assumes "execute_command env i command w = (r, w')" "dw_callbacks w i" "\<not> dw_output_poisoned w i"
  shows "command_ok env i w r w'"
proof -
  let ?m = "length (dw_calls w)" and ?w = "w\<lparr>dw_output := (dw_output w)(i := [])\<rparr>"
  have start: "collects env i ?m ?w" using assms(2,3) by (simp add: collects_def)
  show ?thesis
  proof (cases "0 \<in> set command")
    case True
    then have "r = Inl (Backend ''command contains NUL byte'')" "w' = ?w"
      using assms(1,3) by (simp_all add: execute_command_def Let_def)
    then show ?thesis using start by (auto simp: command_ok_def)
  next
    case False
    obtain q w1 where q: "engine env i (CallExecute (to_wide_null command)) (backend_text ''IDebugControl4::ExecuteWide failed'') ?w = (q, w1)"
      by (metis surj_pair)
    have w1: "collects env i ?m w1" "reports w1 = reports w"
      using collects_engine[OF start, of "CallExecute (to_wide_null command)" "backend_text ''IDebugControl4::ExecuteWide failed''"]
        reports_engine[OF q] q by simp_all
    show ?thesis
    proof (cases q)
      case (Inl e)
      then show ?thesis using assms(1,3) False q w1 by (auto simp: execute_command_def Let_def command_ok_def)
    next
      case (Inr u)
      obtain q2 w2 where q2: "follow_execution env i w1 = (q2, w2)" by (metis surj_pair)
      have w2: "collects env i ?m w2" using collects_follow[OF w1(1)] q2 by (metis snd_conv)
      then have poison: "\<not> dw_output_poisoned w2 i" by (simp add: collects_def)
      obtain rs where rs: "reports w2 = reports w @ rs"
        "case q2 of Inl _ \<Rightarrow> rs \<in> {[], [BackendRunning]} | Inr (_, st) \<Rightarrow> reports_fit rs st"
        using follow_execution_reports[OF q2] w1(2) by auto
      have "r = (case q2 of Inl e \<Rightarrow> Inl e | Inr (ws, st) \<Rightarrow> Inr (dw_output w2 i, ws, st)) \<and> w' = w2"
        using assms(1,3) False q Inr q2 poison by (cases q2) (auto simp: execute_command_def Let_def)
      then show ?thesis using w2 rs by (cases q2) (auto simp: command_ok_def)
    qed
  qed
qed

text \<open>
  C15. A command gives exactly what the engine handed to the callbacks of its session while it ran, and nothing that was
  printed before: with its result,
  and just as well, as the partial output, when it fails at whatever step. The states that it reports fit the
  final state that it gives: none if the target stands still, that it is closed if there is no target, and
  otherwise that it runs and then what it came to; a command that fails has reported nothing or that the target
  runs.
\<close>

theorem command_result_correct:
  assumes "dw_callbacks w (ds_id s)" "\<not> dw_output_poisoned w (ds_id s)" "\<not> de_global_poisoned env"
  shows "case session_execute env s command w of
     (Inr (out, warnings, st), w') \<Rightarrow>
       out = printed_between env (ds_id s) (length (dw_calls w)) (length (dw_calls w'))
       \<and> (\<exists>rs. reports w' = reports w @ rs \<and> reports_fit rs st)
   | (Inl f, w') \<Rightarrow>
       ef_partial_output f = Some (printed_between env (ds_id s) (length (dw_calls w)) (length (dw_calls w')))
       \<and> reports w' \<in> {reports w, reports w @ [BackendRunning]}"
proof -
  define w0 where "w0 = dbg_emit (operation_event Info ''execute_started'' s command None) w"
  obtain r w1 where e: "execute_command env (ds_id s) command w0 = (r, w1)" by (metis surj_pair)
  have ok: "command_ok env (ds_id s) w0 r w1"
    by (rule execute_command_ok[OF e]) (simp_all add: w0_def assms(1,2))
  have w0: "dw_calls w0 = dw_calls w" "reports w0 = reports w" by (simp_all add: w0_def)
  show ?thesis
  proof (cases r)
    case (Inr x)
    obtain out warnings st where "x = (out, warnings, st)" by (cases x)
    then show ?thesis
      using ok Inr assms(3) e by (auto simp: session_execute_def w0_def[symmetric] w0 command_ok_def collects_def)
  next
    case (Inl f)
    obtain q w2 where q: "query_execution_state env (ds_id s) w1 = (q, w2)" by (metis surj_pair)
    have "collects env (ds_id s) (length (dw_calls w)) w2"
      using ok collects_query[of env "ds_id s" "length (dw_calls w)" w1] q by (simp add: command_ok_def w0)
    moreover have "reports w2 = reports w1" by (rule reports_query[OF q])
    ultimately show ?thesis
      using ok Inl assms(3) e q
      by (auto simp: session_execute_def w0_def[symmetric] w0 command_ok_def collects_def with_partial_output_def)
  qed
qed

definition demo_listening :: dbg_world where
  "demo_listening = (gb_world demo_engine)\<lparr>dw_output := (\<lambda>_. [66]), dw_callbacks := (\<lambda>_. True)\<rparr>"

definition demo_opened :: dbg_session where
  "demo_opened = \<lparr>ds_id = ''dbgeng-0'', ds_correlation_id = None, ds_launched = None, ds_warnings = []\<rparr>"

lemma demo_gives:
  "execution_state_from_dbgeng_status (de_status (demo_dbgeng cancel fails) n) = Some BackendBreak"
  "printed (demo_dbgeng cancel fails) i n = [65]" "\<not> de_global_poisoned (demo_dbgeng cancel fails)"
proof -
  have "and (6::u32) 31 = 6" by simp
  then show "execution_state_from_dbgeng_status (de_status (demo_dbgeng cancel fails) n) = Some BackendBreak"
    by (simp add: demo_dbgeng_def execution_state_from_dbgeng_status_def DEBUG_STATUS_MASK_def RUNNING_STATUSES_def DEBUG_STATUS_BREAK_def)
  show "printed (demo_dbgeng cancel fails) i n = [65]"
    by (simp add: demo_dbgeng_def printed_def pcwstr_to_string_def)
qed (simp add: demo_dbgeng_def)

lemma command_result_correct_witness:
  "\<exists>w'. session_execute (demo_dbgeng None (\<lambda>_. False)) demo_opened [103] demo_listening = (Inr ([65, 65], [], Some BackendBreak), w')
     \<and> [65, 65] = printed_between (demo_dbgeng None (\<lambda>_. False)) ''dbgeng-0'' 0 (length (dw_calls w'))"
proof -
  have "\<exists>w'. session_execute (demo_dbgeng None (\<lambda>_. False)) demo_opened [103] demo_listening = (Inr ([65, 65], [], Some BackendBreak), w')"
    by (simp add: session_execute_def execute_command_def follow_execution_def query_execution_state_def engine_def demo_calls
        demo_listening_def demo_engine_def demo_opened_def Let_def recorded_def print_output_def demo_gives)
  then obtain w' where w': "session_execute (demo_dbgeng None (\<lambda>_. False)) demo_opened [103] demo_listening
      = (Inr ([65, 65], [], Some BackendBreak), w')" by blast
  have "dw_callbacks demo_listening (ds_id demo_opened)" "\<not> dw_output_poisoned demo_listening (ds_id demo_opened)"
    "\<not> de_global_poisoned (demo_dbgeng None (\<lambda>_. False))" "dw_calls demo_listening = []" "ds_id demo_opened = ''dbgeng-0''"
    by (simp_all add: demo_listening_def demo_engine_def demo_gives demo_opened_def)
  with command_result_correct[of demo_listening demo_opened "demo_dbgeng None (\<lambda>_. False)" "[103]"] show ?thesis
    using w' by simp
qed

end
