(* ===== verification/Dbgeng_Table.thy ===== *)
theory Dbgeng_Table
  imports Dbgeng_Commands
begin

text \<open>
  The table of the sessions: no operation touches a session that it does not name.
\<close>

section \<open>Names\<close>

lemma session_id_inj: "dbgeng_session_id m = dbgeng_session_id n \<longleftrightarrow> m = n"
proof
  assume "dbgeng_session_id m = dbgeng_session_id n"
  then have "parse_digits 0 (show_text (unat m)) = parse_digits 0 (show_text (unat n))" by (simp add: dbgeng_session_id_def)
  moreover have "unat k < 2 ^ 64" for k :: u64 using unsigned_less[of k] by simp
  ultimately show "m = n" by (simp add: parse_digits_show word_unat_eq_iff)
qed simp

section \<open>Calls for one session\<close>

text \<open>The calls that were added are those of the session \<open>i\<close>; the others have kept what they had, and have got what
  the engine printed to them meanwhile: commands print to all clients.\<close>

definition touches_only :: "'t dbgeng_env \<Rightarrow> string \<Rightarrow> dbg_world \<Rightarrow> dbg_world \<Rightarrow> bool" where
  "touches_only env i w w' \<longleftrightarrow>
     (\<exists>cs. dw_calls w' = dw_calls w @ cs \<and> list_all (\<lambda>c. fst c = i) cs) \<and> dw_output_poisoned w' = dw_output_poisoned w
     \<and> (\<forall>j. j \<noteq> i \<longrightarrow> dw_callbacks w' j = dw_callbacks w j \<and> dw_output w' j = dw_output w j @
          (if dw_callbacks w j \<and> \<not> dw_output_poisoned w j
           then printed_between env j (length (dw_calls w)) (length (dw_calls w')) else []))"

lemma touches_refl [simp]: "touches_only env i w w"
  by (simp add: touches_only_def)

lemma touches_recorded: "touches_only env i w v \<Longrightarrow> touches_only env i w (recorded env i c ok v)"
  by (auto simp: touches_only_def recorded_def print_output_def)

lemma touches_simps [simp]:
  "touches_only env i w (dbg_emit l v) = touches_only env i w v" "touches_only env i w (log_dbg a b c d v) = touches_only env i w v"
  "touches_only env i w (report st t v) = touches_only env i w v"
  by (simp_all add: touches_only_def report_def)

lemma touches_own [simp]:
  "touches_only env i w v \<Longrightarrow> touches_only env i w (v\<lparr>dw_output := (dw_output v)(i := x)\<rparr>)"
  "touches_only env i w v \<Longrightarrow> touches_only env i w (v\<lparr>dw_callbacks := (dw_callbacks v)(i := y)\<rparr>)"
  by (auto simp: touches_only_def)

lemma touches_engine:
  assumes "touches_only env i w v"
  shows "touches_only env i w (snd (engine_raw env i c v))" "touches_only env i w (snd (engine env i c f v))"
    "touches_only env i w (snd (engine_hr env i c v))" "snd who = i \<Longrightarrow> touches_only env i w (snd (engine_logged env who c t u v))"
  using assms
  by (auto simp: engine_raw_def engine_def engine_hr_def engine_logged_def touches_recorded Let_def split: option.split)

lemma touches_interrupt: "touches_only env (snd who) w v \<Longrightarrow> touches_only env (snd who) w (snd (interrupt env who v))"
  unfolding interrupt_def Let_def by (rule try_then_state) (simp_all add: touches_engine)

lemma touches_query: "touches_only env i w v \<Longrightarrow> touches_only env i w (snd (query_execution_state env i v))"
  unfolding query_execution_state_def by (rule try_then_state) (simp_all add: touches_engine)

lemma touches_wait: "touches_only env i w v \<Longrightarrow> touches_only env i w (snd (wait_for_execution_event env i v))"
  using touches_engine(3)[of env i w v CallWaitForEvent] by (auto simp: wait_for_execution_event_def split: prod.split)

lemma touches_follow:
  assumes "touches_only env i w v"
  shows "touches_only env i w (snd (follow_execution env i v))"
  unfolding follow_execution_def Let_def
proof (rule try_then_state[where P = "touches_only env i w"], rule touches_query[OF assms])
  fix st s
  assume s: "touches_only env i w s"
  have run: "touches_only env i w (snd (try_then (wait_for_execution_event env i (report BackendRunning t s)) (\<lambda>warnings w.
      try_then (query_execution_state env i w) (\<lambda>final_state w.
        (Inr (warnings, final_state), case final_state of None \<Rightarrow> w | Some state \<Rightarrow> report state u w)))))" for t u
    by (rule try_then_state[where P = "touches_only env i w"], rule touches_wait, simp add: s,
        rule try_then_state[where P = "touches_only env i w"], erule touches_query)
      (simp split: option.split)
  show "touches_only env i w (snd (if st = Some BackendRunning
       then try_then (wait_for_execution_event env i (report BackendRunning ''dbgeng execution status running'' s)) (\<lambda>warnings w.
             try_then (query_execution_state env i w) (\<lambda>final_state w.
             (Inr (warnings, final_state),
              case final_state of None \<Rightarrow> w | Some state \<Rightarrow> report state ''dbgeng wait event returned'' w)))
       else if st = Some BackendClosed
       then (Inr ([], st), report BackendClosed ''dbgeng execution status no debuggee'' s)
       else (Inr ([], st), s)))"
    using run[of "''dbgeng execution status running''" "''dbgeng wait event returned''"] s by simp
qed

lemma touches_command: "touches_only env i w v \<Longrightarrow> touches_only env i w (snd (execute_command env i command v))"
  unfolding execute_command_def Let_def
  by (auto intro!: try_then_state[where P = "touches_only env i w"] touches_follow touches_engine split: prod.split)

lemma touches_execute: "touches_only env (ds_id s) w (snd (session_execute env s command w))"
proof -
  obtain r v where e: "execute_command env (ds_id s) command (dbg_emit (operation_event Info ''execute_started'' s command None) w) = (r, v)"
    by (metis surj_pair)
  have "touches_only env (ds_id s) w v"
    using touches_command[of env "ds_id s" w "dbg_emit (operation_event Info ''execute_started'' s command None) w" command] e by simp
  then show ?thesis using e touches_query by (auto simp: session_execute_def Let_def split: sum.split)
qed

lemma touches_set_callbacks: "touches_only env i w v \<Longrightarrow> touches_only env i w (snd (set_callbacks env i on v))"
  unfolding set_callbacks_def by (rule try_then_state) (simp_all add: touches_engine)

lemma touches_close: "touches_only env (ds_id s) w (snd (session_close env s w))"
proof -
  have clear: "touches_only env (ds_id s) w (snd (case set_callbacks env (ds_id s) False v of
        (Inl e, w) \<Rightarrow> (Inl (backend_text t e), log_dbg LogError t' (ds_who s) (Some e) w)
      | (Inr _, w) \<Rightarrow> (Inr (), log_dbg Info t'' (ds_who s) None w)))"
    if "touches_only env (ds_id s) w v" for v t t' t''
    using touches_set_callbacks[OF that, of False] by (auto split: prod.split sum.split)
  have "touches_only env (ds_id s) w (snd (engine_logged env (ds_who s) CallEndSession t u (log_dbg a b (ds_who s) d w)))" for t u a b d
    by (rule touches_engine(4)) (simp_all add: ds_who_def)
  then show ?thesis
    unfolding session_close_def Let_def
    by (auto intro!: try_then_state[where P = "touches_only env (ds_id s) w"] clear simp del: prod.collapse)
qed

section \<open>The operations\<close>

datatype backend_op =
    OpCreate create_backend_session
  | OpExecute string utext
  | OpCancel string
  | OpCancelStartup string
  | OpClose bool string

fun backend_step :: "'t dbgeng_env \<Rightarrow> backend_op \<Rightarrow> dbgeng_backend \<Rightarrow> dbgeng_backend" where
  "backend_step env (OpCreate request) b = snd (backend_create env request b)"
| "backend_step env (OpExecute i command) b = snd (backend_execute env i command b)"
| "backend_step env (OpCancel i) b = snd (cancel_session env i b)"
| "backend_step env (OpCancelStartup key) b = snd (cancel_startup env key b)"
| "backend_step env (OpClose late i) b = snd (backend_close env late i b)"

text \<open>The handles are filed under the names of their sessions, and the names were given before.\<close>

definition table_ok :: "dbgeng_backend \<Rightarrow> bool" where
  "table_ok b \<longleftrightarrow>
     (\<forall>i h. gb_sessions b i = Some h \<longrightarrow>
        (\<exists>n < gb_next_id b. i = dbgeng_session_id n) \<and> snd (dh_who h) = i
        \<and> (case dh_session h of None \<Rightarrow> True | Some s \<Rightarrow> ds_id s = i))"

lemma table_okD:
  assumes "table_ok b" "gb_sessions b i = Some h"
  shows "snd (dh_who h) = i" "dh_session h = Some s \<Longrightarrow> ds_id s = i"
  using assms by (auto simp: table_ok_def split: option.splits)

lemma table_fresh: "table_ok b \<Longrightarrow> gb_sessions b (dbgeng_session_id (gb_next_id b)) = None"
  by (cases "gb_sessions b (dbgeng_session_id (gb_next_id b))") (fastforce simp: table_ok_def session_id_inj)+

lemma table_ok_simps [simp]:
  "table_ok (b\<lparr>gb_world := w\<rparr>) = table_ok b" "table_ok (b\<lparr>gb_pending := p\<rparr>) = table_ok b"
  by (simp_all add: table_ok_def)

lemma table_ok_remove: "table_ok b \<Longrightarrow> table_ok (b\<lparr>gb_sessions := (gb_sessions b)(i := None)\<rparr>)"
  by (auto simp: table_ok_def)

lemma table_ok_next:
  assumes "table_ok b" "gb_next_id b \<noteq> - 1"
  shows "table_ok (b\<lparr>gb_next_id := gb_next_id b + 1\<rparr>)"
proof -
  have "n < gb_next_id b + 1" if "n < gb_next_id b" for n
  proof -
    have "unat (gb_next_id b + 1) = unat (gb_next_id b) + 1" using assms(2) unatSuc[of "gb_next_id b"] by (simp add: add.commute add_eq_0_iff)
    then show ?thesis using that by (simp add: word_less_nat_alt)
  qed
  then show ?thesis using assms(1) by (fastforce simp: table_ok_def)
qed

lemma find_handle_cases:
  "find_handle i b = Inr h \<longleftrightarrow> \<not> gb_sessions_poisoned b \<and> gb_sessions b i = Some h"
  "\<not> gb_sessions_poisoned b \<Longrightarrow> find_handle i b = Inl e \<Longrightarrow> gb_sessions b i = None"
  by (auto simp: find_handle_def split: option.splits if_splits)

lemma remove_table:
  assumes "remove_worker_handle i b = (r, b')" "\<not> gb_sessions_poisoned b"
  shows "gb_sessions b' = (gb_sessions b)(i := None)" "gb_world b' = gb_world b" "gb_next_id b' = gb_next_id b"
    "gb_sessions_poisoned b' = gb_sessions_poisoned b"
  using assms by (auto simp: remove_worker_handle_def find_handle_def split: option.splits)

text \<open>What an operation on a session does to the table and to the engine.\<close>

lemma execute_table:
  assumes "backend_execute env i command b = (r, b')" "table_ok b"
  shows "gb_sessions b' = gb_sessions b" "gb_next_id b' = gb_next_id b" "touches_only env i (gb_world b) (gb_world b')"
    "gb_sessions b i = None \<Longrightarrow> b' = b"
proof -
  have "b' = b \<or> (\<exists>h s. gb_sessions b i = Some h \<and> dh_session h = Some s \<and> b' = b\<lparr>gb_world := snd (session_execute env s command (gb_world b))\<rparr>)"
    using assms(1) by (auto simp: backend_execute_def find_handle_def with_world_def split: sum.splits option.splits if_splits)
  then show "gb_sessions b' = gb_sessions b" "gb_next_id b' = gb_next_id b" "touches_only env i (gb_world b) (gb_world b')"
    "gb_sessions b i = None \<Longrightarrow> b' = b"
    using touches_execute[of env _ "gb_world b" command] table_okD(2)[OF assms(2)] by fastforce+
qed

lemma cancel_table:
  assumes "cancel_session env i b = (r, b')" "table_ok b"
  shows "gb_sessions b' = gb_sessions b" "gb_next_id b' = gb_next_id b" "touches_only env i (gb_world b) (gb_world b')"
    "gb_sessions b i = None \<Longrightarrow> b' = b"
proof -
  have "b' = b \<or> (\<exists>h. gb_sessions b i = Some h \<and> b' = b\<lparr>gb_world := snd (interrupt env (dh_who h) (gb_world b))\<rparr>)"
    using assms(1) by (auto simp: cancel_session_def find_handle_def with_world_def split: sum.splits option.splits if_splits)
  then show "gb_sessions b' = gb_sessions b" "gb_next_id b' = gb_next_id b" "touches_only env i (gb_world b) (gb_world b')"
    "gb_sessions b i = None \<Longrightarrow> b' = b"
    using touches_interrupt[OF touches_refl] table_okD(1)[OF assms(2)] by fastforce+
qed

lemma close_table:
  assumes "backend_close env late i b = (r, b')" "table_ok b" "\<not> gb_sessions_poisoned b"
  shows "gb_sessions b' = (gb_sessions b)(i := None)" "gb_next_id b' = gb_next_id b" "touches_only env i (gb_world b) (gb_world b')"
    "gb_sessions b i = None \<Longrightarrow> b' = b"
proof -
  have "gb_sessions b i = None \<and> b' = b
    \<or> (\<exists>h. gb_sessions b i = Some h \<and> gb_sessions b' = (gb_sessions b)(i := None) \<and> gb_next_id b' = gb_next_id b
         \<and> (gb_world b' = dbg_emit (dbgeng_event LogError ''close_worker_unavailable'' None (Some i) None (Some ''dbgeng worker is not available'')) (gb_world b)
            \<or> (\<exists>s. dh_session h = Some s \<and> gb_world b' = snd (session_close env s (gb_world b)))
            \<or> (\<exists>s l. dh_session h = Some s \<and> gb_world b' = snd (session_close env s (dbg_emit l (gb_world b))))))"
    using assms(1,3)
    by (auto simp: backend_close_def find_handle_def with_world_def backend_log_def remove_worker_handle_def Let_def
        split: sum.splits option.splits if_splits prod.splits)
  moreover have "touches_only env (ds_id s) w (snd (session_close env s (dbg_emit l w)))" for s l w
    using touches_close[of env s "dbg_emit l w"] by (simp add: touches_only_def dbg_emit_def)
  ultimately show "gb_sessions b' = (gb_sessions b)(i := None)" "gb_next_id b' = gb_next_id b"
    "touches_only env i (gb_world b) (gb_world b')" "gb_sessions b i = None \<Longrightarrow> b' = b"
    using touches_close[of env _ "gb_world b"] table_okD(2)[OF assms(2)] by (fastforce simp: fun_upd_idem)+
qed

lemma create_table:
  assumes "backend_create env request b = (r, b')"
  shows "gb_next_id b' = gb_next_id b + 1"
    "gb_sessions b' = gb_sessions b
     \<or> (\<exists>s. ds_id s = dbgeng_session_id (gb_next_id b)
          \<and> gb_sessions b' = (gb_sessions b)(ds_id s \<mapsto> \<lparr>dh_who = ds_who s, dh_session = Some s\<rparr>))"
proof -
  let ?i = "dbgeng_session_id (gb_next_id b)"
  obtain q w where o: "open_target env (cb_correlation_id request, ?i) (cb_target request) (cb_symbol_path request)
      (cb_launch_context request) (gb_world b) = (q, w)" by (metis surj_pair)
  have named: "ds_id s = ?i" if "q = Inr s" for s
    using o that by (cases rule: open_target_cases) auto
  show "gb_next_id b' = gb_next_id b + 1"
    using assms o by (cases q; cases "gb_pending_poisoned b")
      (auto simp: backend_create_def create_register_def create_finish_def with_world_def Let_def split: if_splits)
  show "gb_sessions b' = gb_sessions b \<or> (\<exists>s. ds_id s = ?i
      \<and> gb_sessions b' = (gb_sessions b)(ds_id s \<mapsto> \<lparr>dh_who = ds_who s, dh_session = Some s\<rparr>))"
    using assms o named by (cases q; cases "gb_pending_poisoned b")
      (auto simp: backend_create_def create_register_def create_finish_def with_world_def Let_def split: if_splits)
qed

lemma cancel_startup_table:
  assumes "cancel_startup env key b = (r, b')"
  shows "gb_sessions b' = gb_sessions b" "gb_next_id b' = gb_next_id b"
  using assms by (auto simp: cancel_startup_def with_world_def Let_def split: if_splits option.splits prod.splits)

lemma table_ok_same:
  "table_ok b \<Longrightarrow> gb_sessions b' = gb_sessions b \<Longrightarrow> gb_next_id b' = gb_next_id b \<Longrightarrow> table_ok b'"
  by (simp add: table_ok_def)

lemma table_ok_insert:
  assumes "table_ok b" "n < gb_next_id b" "ds_id s = dbgeng_session_id n"
  shows "table_ok (b\<lparr>gb_sessions := (gb_sessions b)(ds_id s \<mapsto> \<lparr>dh_who = ds_who s, dh_session = Some s\<rparr>)\<rparr>)"
  using assms by (fastforce simp: table_ok_def ds_who_def split: if_splits)

lemma table_ok_create:
  assumes "backend_create env request b = (r, b')" "table_ok b" "gb_next_id b \<noteq> - 1"
  shows "table_ok b'"
proof -
  let ?b = "b\<lparr>gb_next_id := gb_next_id b + 1\<rparr>"
  have ok: "table_ok ?b" by (rule table_ok_next[OF assms(2,3)])
  have less: "gb_next_id b < gb_next_id b + 1"
    using assms(3) unatSuc[of "gb_next_id b"] by (simp add: word_less_nat_alt add.commute add_eq_0_iff)
  from create_table(2)[OF assms(1)] show ?thesis
  proof
    assume "gb_sessions b' = gb_sessions b"
    then show ?thesis using ok create_table(1)[OF assms(1)] by (simp add: table_ok_def)
  next
    assume "\<exists>s. ds_id s = dbgeng_session_id (gb_next_id b)
          \<and> gb_sessions b' = (gb_sessions b)(ds_id s \<mapsto> \<lparr>dh_who = ds_who s, dh_session = Some s\<rparr>)"
    then obtain s where s: "ds_id s = dbgeng_session_id (gb_next_id b)"
      "gb_sessions b' = (gb_sessions b)(ds_id s \<mapsto> \<lparr>dh_who = ds_who s, dh_session = Some s\<rparr>)" by blast
    show ?thesis
      by (rule table_ok_same[OF table_ok_insert[OF ok _ s(1)]]) (simp_all add: s(2) less create_table(1)[OF assms(1)])
  qed
qed

text \<open>The session that an operation names, or makes.\<close>

fun op_session :: "dbgeng_backend \<Rightarrow> backend_op \<Rightarrow> string option" where
  "op_session b (OpCreate request) = Some (dbgeng_session_id (gb_next_id b))"
| "op_session b (OpExecute i command) = Some i"
| "op_session b (OpCancel i) = Some i"
| "op_session b (OpCancelStartup key) = None"
| "op_session b (OpClose late i) = Some i"

fun makes_session :: "backend_op \<Rightarrow> bool" where
  "makes_session (OpCreate request) = True"
| "makes_session _ = False"

text \<open>
  C16. Sessions stay apart: whatever the backend is asked to do, the entries of all other sessions stay as they are;
  a new session gets a name that no session has; an operation on a session makes only calls for that session, leaves
  the callbacks of all others as they are, and what happens to the output of another session is only that the engine
  prints to its callbacks, too, during these calls: nothing of its buffer is lost; on a name that is not in the table it does
  nothing at all; and a session that was closed is gone, whatever its thread answered, and even if it did not
  answer. The table keeps its invariant.
\<close>

theorem sessions_stay_apart:
  assumes "table_ok b" "\<not> gb_sessions_poisoned b" "gb_next_id b \<noteq> - 1"
  shows "table_ok (backend_step env q b)
    \<and> (\<forall>i. Some i \<noteq> op_session b q \<longrightarrow> gb_sessions (backend_step env q b) i = gb_sessions b i)
    \<and> (if makes_session q then gb_sessions b (dbgeng_session_id (gb_next_id b)) = None
       else \<forall>i. op_session b q = Some i \<longrightarrow>
         touches_only env i (gb_world b) (gb_world (backend_step env q b)) \<and> (gb_sessions b i = None \<longrightarrow> backend_step env q b = b))
    \<and> (case q of OpClose late i \<Rightarrow> gb_sessions (backend_step env q b) i = None | _ \<Rightarrow> True)"
proof (cases q)
  case (OpCreate request)
  obtain r b' where c: "backend_create env request b = (r, b')" by (metis surj_pair)
  show ?thesis
    using create_table(2)[OF c] table_ok_create[OF c assms(1,3)] table_fresh[OF assms(1)] c OpCreate by auto
next
  case (OpExecute i command)
  obtain r b' where c: "backend_execute env i command b = (r, b')" by (metis surj_pair)
  note t = execute_table[OF c assms(1)]
  show ?thesis using t table_ok_same[OF assms(1) t(1,2)] c OpExecute by auto
next
  case (OpCancel i)
  obtain r b' where c: "cancel_session env i b = (r, b')" by (metis surj_pair)
  note t = cancel_table[OF c assms(1)]
  show ?thesis using t table_ok_same[OF assms(1) t(1,2)] c OpCancel by auto
next
  case (OpCancelStartup key)
  obtain r b' where c: "cancel_startup env key b = (r, b')" by (metis surj_pair)
  note t = cancel_startup_table[OF c]
  show ?thesis using t table_ok_same[OF assms(1) t] c OpCancelStartup by auto
next
  case (OpClose late i)
  obtain r b' where c: "backend_close env late i b = (r, b')" by (metis surj_pair)
  note t = close_table[OF c assms(1,2)]
  have "table_ok b'" using table_ok_same[OF table_ok_remove[OF assms(1), of i], of b'] t by simp
  then show ?thesis using t c OpClose by auto
qed

lemma sessions_stay_apart_witness:
  "table_ok (backend_step (demo_dbgeng None (\<lambda>_. False)) (OpCreate demo_debuggee) demo_engine)"
proof -
  have "table_ok demo_engine" "\<not> gb_sessions_poisoned demo_engine" "gb_next_id demo_engine \<noteq> - 1"
    by (simp_all add: table_ok_def demo_engine_def)
  from sessions_stay_apart[OF this] show ?thesis by blast
qed

end
