(* ===== verification/Dbgeng_Found.thy ===== *)
theory Dbgeng_Found
  imports Dbgeng_Resolver
begin

text \<open>
  Which engine library is found, against a description of the four places it may lie in.
\<close>

text \<open>The libraries that a place offers.\<close>

fun offers :: "dbgeng_fs \<Rightarrow> target_arch \<Rightarrow> dbgeng_roots \<Rightarrow> dbgeng_source \<Rightarrow> os_text \<Rightarrow> bool" where
  "offers fs arch roots SourceEnvironment p \<longleftrightarrow>
     (\<exists>dir. dr_environment_dbgeng_dir roots = Some dir \<and> p = push_name dir DBGENG_DLL \<and> fs_is_file fs p)"
| "offers fs arch roots SourceAppStore p \<longleftrightarrow>
     (\<exists>package \<in> set (windbg_packages fs (dr_program_files_windows_apps roots)). seen_below fs DBGENG_DLL 4 package p)"
| "offers fs arch roots SourceWindowsSdk p \<longleftrightarrow>
     (\<exists>root \<in> set (dr_windows_kits_roots roots).
        p \<in> {push_name (push_name (push_name root (chars ''Debuggers'')) (debugger_arch arch)) DBGENG_DLL, push_name root DBGENG_DLL}
        \<and> fs_is_file fs p)"
| "offers fs arch roots SourceSystem32 p \<longleftrightarrow>
     p = push_name (push_name (dr_system_root roots) (chars ''System32'')) DBGENG_DLL \<and> fs_is_file fs p"

text \<open>The places, the preferred ones first.\<close>

fun preference :: "dbgeng_source \<Rightarrow> nat" where
  "preference SourceEnvironment = 0"
| "preference SourceAppStore = 1"
| "preference SourceWindowsSdk = 2"
| "preference SourceSystem32 = 3"

lemma find_dbgeng_None: "find_dbgeng_in_debuggers_dir fs dir = None \<longleftrightarrow> \<not> fs_is_file fs (push_name dir DBGENG_DLL)"
  by (simp add: find_dbgeng_in_debuggers_dir_def Let_def)

lemma environment_offers:
  "Option.bind (dr_environment_dbgeng_dir roots) (find_dbgeng_in_debuggers_dir fs) = Some p \<longleftrightarrow> offers fs arch roots SourceEnvironment p"
  by (auto simp: find_dbgeng_in_debuggers_dir_def Let_def bind_eq_Some_conv split: if_splits)

lemma app_store_offers:
  "find_app_store_dbgeng fs (dr_program_files_windows_apps roots) = Some p \<Longrightarrow> offers fs arch roots SourceAppStore p"
  "find_app_store_dbgeng fs (dr_program_files_windows_apps roots) = None \<Longrightarrow> \<not> offers fs arch roots SourceAppStore q"
  using find_sound(1) find_complete by (fastforce simp: find_app_store_dbgeng_def find_map_None dest!: find_map_SomeD)+

lemma sdk_offers:
  "find_sdk_dbgeng fs arch (dr_windows_kits_roots roots) = Some p \<Longrightarrow> offers fs arch roots SourceWindowsSdk p"
  "find_sdk_dbgeng fs arch (dr_windows_kits_roots roots) = None \<Longrightarrow> \<not> offers fs arch roots SourceWindowsSdk q"
proof -
  assume "find_sdk_dbgeng fs arch (dr_windows_kits_roots roots) = Some p"
  then obtain root where "root \<in> set (dr_windows_kits_roots roots)"
    "find_dbgeng_in_debuggers_dir fs (push_name (push_name root (chars ''Debuggers'')) (debugger_arch arch)) = Some p
     \<or> find_dbgeng_in_debuggers_dir fs root = Some p"
    by (auto simp: find_sdk_dbgeng_def dest!: find_map_SomeD split: option.splits)
  then show "offers fs arch roots SourceWindowsSdk p" by (auto dest!: find_dbgeng_Some)
next
  assume "find_sdk_dbgeng fs arch (dr_windows_kits_roots roots) = None"
  then have "\<forall>root \<in> set (dr_windows_kits_roots roots).
      find_dbgeng_in_debuggers_dir fs (push_name (push_name root (chars ''Debuggers'')) (debugger_arch arch)) = None
      \<and> find_dbgeng_in_debuggers_dir fs root = None"
    by (auto simp: find_sdk_dbgeng_def find_map_None split: option.splits)
  then show "\<not> offers fs arch roots SourceWindowsSdk q" by (auto simp: find_dbgeng_None)
qed

text \<open>Of two packages the one with the greater name is looked at first.\<close>

lemma windbg_packages_sorted:
  "\<exists>ns. windbg_packages fs root = map (push_name root) ns \<and> sorted (rev ns)
     \<and> (\<forall>n \<in> set ns. starts_with_text n (chars ''Microsoft.WinDbg''))"
  by (auto simp: windbg_packages_def)

text \<open>
  C31. The library that is loaded exists and lies in the most preferred of the four places that offers one: the
  configured directory, the packages of the App Store (to a depth of four directories), the SDK, and \<open>System32\<close>;
  the error is given only if none of them offers one.
\<close>

theorem most_preferred_engine_found:
  "case resolve_dbgeng_from_roots fs arch roots of
     Inr l \<Rightarrow> offers fs arch roots (dl_source l) (dl_path l) \<and> fs_is_file fs (dl_path l)
       \<and> (\<forall>source p. offers fs arch roots source p \<longrightarrow> preference (dl_source l) \<le> preference source)
   | Inl e \<Rightarrow> \<forall>source p. \<not> offers fs arch roots source p"
proof -
  have all: "(\<forall>source. Q source) \<longleftrightarrow> Q SourceEnvironment \<and> Q SourceAppStore \<and> Q SourceWindowsSdk \<and> Q SourceSystem32" for Q
    by (metis dbgeng_source.exhaust)
  have isfile: "offers fs arch roots source p \<Longrightarrow> fs_is_file fs p" for source p
    by (cases source) (auto dest: seen_below_file)
  note app = app_store_offers[of fs roots, where arch = arch] and sdk = sdk_offers[of fs arch roots]
  show ?thesis
  proof (cases "Option.bind (dr_environment_dbgeng_dir roots) (find_dbgeng_in_debuggers_dir fs)")
    case (Some p)
    then have "offers fs arch roots SourceEnvironment p" using environment_offers by blast
    with Some isfile show ?thesis by (simp add: resolve_dbgeng_from_roots_def del: offers.simps)
  next
    case env: None
    then have no_env: "\<not> offers fs arch roots SourceEnvironment p" for p
      using environment_offers[of roots fs p arch] by (simp del: offers.simps)
    show ?thesis
    proof (cases "find_app_store_dbgeng fs (dr_program_files_windows_apps roots)")
      case (Some p)
      with app no_env isfile env show ?thesis
        by (simp add: resolve_dbgeng_from_roots_def all del: offers.simps)
    next
      case app_none: None
      show ?thesis
      proof (cases "find_sdk_dbgeng fs arch (dr_windows_kits_roots roots)")
        case (Some p)
        with app app_none sdk no_env isfile env show ?thesis
          by (simp add: resolve_dbgeng_from_roots_def all del: offers.simps)
      next
        case None
        have "offers fs arch roots SourceSystem32 p \<longleftrightarrow>
            p = push_name (push_name (dr_system_root roots) (chars ''System32'')) DBGENG_DLL \<and> fs_is_file fs p" for p by simp
        with app app_none sdk no_env isfile env None show ?thesis
          by (simp add: resolve_dbgeng_from_roots_def all Let_def del: offers.simps)
      qed
    qed
  qed
qed

lemma most_preferred_engine_found_witness:
  "\<exists>l. resolve_dbgeng_from_roots \<lparr>fs_is_file = (\<lambda>_. True), fs_is_dir = (\<lambda>_. False), fs_read_dir = (\<lambda>_. None)\<rparr> ArchOther
       \<lparr>dr_environment_dbgeng_dir = None, dr_program_files_windows_apps = [], dr_windows_kits_roots = [], dr_system_root = []\<rparr> = Inr l
     \<and> dl_source l = SourceSystem32 \<and> preference (dl_source l) \<le> 3"
  (is "\<exists>l. resolve_dbgeng_from_roots ?fs ?arch ?roots = Inr l \<and> _")
proof -
  have "windbg_packages ?fs [] = []" by (simp add: windbg_packages_def dir_names_def)
  then have "resolve_dbgeng_from_roots ?fs ?arch ?roots
      = Inr \<lparr>dl_path = push_name (push_name [] (chars ''System32'')) DBGENG_DLL, dl_source = SourceSystem32\<rparr>"
    by (simp add: resolve_dbgeng_from_roots_def find_app_store_dbgeng_def find_sdk_dbgeng_def Let_def)
  with most_preferred_engine_found[of ?fs ?arch ?roots] show ?thesis by auto
qed

end
