(* ===== verification/Spec2Isabelle.thy ===== *)
theory Spec2Isabelle
  imports Etw_Properties Etw_Decode Artifacts Job Session_Commands Launch_Properties Tool_Properties Http_Properties Ida_Properties Worker_Properties
    Proxy_Properties Profile_Claims Ttd_Claims Service_Claims Dbgeng_Cancel Dbgeng_Table Dbgeng_Found
begin

text \<open>
  dbgflow: a server through which a client on the same machine runs Windows debugger sessions,
  records kernel traces and drives a disassembler. This development models the program's own logic,
  from its Rust sources under \<open>src/crates\<close>, as executable definitions, and proves what makes its
  parts correct.

  \<^bold>\<open>The program.\<close> A client connects over HTTP (\<open>dbgflow-mcp/src/http.rs\<close>); a request carries a
  JSON-RPC message (\<open>mcp.rs\<close>) which calls a tool (\<open>tools/\<close>). The tools of the debugger call the session
  manager (\<open>dbgflow-debug/src/session/manager.rs\<close>), which keeps the sessions, starts one worker process
  for each (through \<open>dbgflow-common/src/process.rs\<close>), passes commands to it and writes what happened to
  the artifact store (\<open>dbgflow-common/src/artifacts/manager.rs\<close>). The tool \<open>trace.record_profile\<close> runs
  the native collector of kernel events (\<open>dbgflow-trace/src/profile/native_etw.rs\<close>), whose rows also end
  up in the store; \<open>trace.record_ttd\<close> runs the recorder of time travel traces. The tools of the disassembler call the manager of IDA sessions
  (\<open>dbgflow-reverse/src/ida/manager.rs\<close>), which keeps one upstream server process and opens databases in it. The
  program reads its configuration and installs itself as a service (\<open>runtime.rs\<close>, \<open>service.rs\<close>).

  \<^bold>\<open>Conventions.\<close> Every Rust function is one definition of (nearly) its name; a struct is a record, an
  enum a datatype, a method with \<open>&mut self\<close> returns the new state. \<open>Result\<close> is \<open>'a result\<close>, a sum whose
  left side is the error; an expression that would panic in Rust (an index out of range) gives \<open>None\<close>.
  Text that is only stored or compared is a \<open>string\<close>; text whose characters are looked at is \<open>utext\<close>, a
  list of code points; raw bytes are \<open>8 word list\<close>. Pointers, process ids and flags are words of their
  width, a \<open>u64\<close> counter or a \<open>usize\<close> is a \<open>nat\<close>, an \<open>i64\<close> timestamp an \<open>int\<close>. A mutex is a component
  of the state and a flag that tells whether it is poisoned. What the code gets from outside (the
  Windows API, the file system's failures, the clock, fresh identifiers, answers of a worker, the crates
  \<open>serde_json\<close> and \<open>uuid\<close>) is an argument of the definitions: a field of the records \<open>launch_os\<close>,
  \<open>serde_lib\<close>, \<open>tools\<close>, a component of the state, or a plain parameter.

  \<^bold>\<open>Shared ground.\<close>
  \<^item> \<open>Prelude\<close>: ordered association lists for \<open>BTreeMap\<close> (locale \<open>ordered_map\<close>), checked indexing, the
    theorem collections. \<open>Hex\<close>: printing of numbers. \<open>Unicode\<close>: UTF-8, trimming, splitting, case.
    \<open>Json\<close>: \<open>serde_json::Value\<close> and what derived \<open>Deserialize\<close> implementations accept.
  \<^item> \<open>Common\<close>: \<open>error.rs\<close>, \<open>ids.rs\<close>, \<open>validation.rs\<close>. \<open>Job\<close>: the slot of the one active job
    (\<open>job.rs\<close>, locale \<open>slot_lock\<close>).
  \<^item> \<open>Artifacts\<close>: the artifact store as a map from paths to what was written; its logs are only appended
    to (locale \<open>append_log\<close>, interpreted for the three logs of a session).

  \<^bold>\<open>Debug sessions.\<close>
  \<^item> \<open>Session_Types\<close>: states, targets with their validation, operations, audit records.
    \<open>Worker_Registry\<close>: the table of workers and cancelled sessions (locale \<open>one_shot_registry\<close>).
  \<^item> \<open>Session_State\<close>, \<open>Session_Manager\<close>, \<open>Session_Eval\<close>: the manager. Every operation is cut into the
    sections that the code runs under one hold of the lock of the sessions (\<open>close_section\<close>,
    \<open>start_operation\<close>, \<open>finish_operation\<close>, \<open>finish_worker_startup\<close>, \<open>mark_worker_unavailable\<close>,
    \<open>apply_backend_execution_event\<close>, ...), and the whole operations (\<open>create_session\<close>, \<open>eval_session\<close>,
    \<open>close_session\<close>) are their composition with no other thread coming between.
  \<^item> \<open>Session_Shape\<close>, \<open>Session_Threads\<close>, \<open>Session_Invariant\<close>: the sections as steps of any number of
    threads in any order (\<open>session_step\<close>, \<open>reachable\<close>), and the invariant of every reachable server.
    \<open>Session_Properties\<close> states what follows for states and transitions, \<open>Session_Commands\<close> what a whole
    operation gives its caller and leaves on the disk.

  \<^bold>\<open>Debug workers.\<close> \<open>Worker_Protocol\<close> (\<open>session/worker.rs\<close>): the frames on the pipes, the client side
  (\<open>request_with_event_sink\<close>, closing, terminating) and the message loop of the worker process over any
  debug backend. \<open>Worker_Properties\<close>: the conversation refines direct calls of the backend, one bad line
  spoils all later requests, and closing comes to an end.

  \<^bold>\<open>The debugger engine.\<close> The backend that the worker process runs (\<open>backend/dbgeng\<close>).
  \<^item> \<open>Dbgeng_Resolver\<close> (\<open>resolver.rs\<close>): the search for \<open>dbgeng.dll\<close>; \<open>Dbgeng_Found\<close>: it finds the most preferred one.
  \<^item> \<open>Dbgeng\<close> (\<open>mod.rs\<close>): opening a target, with the cleanup when that fails, commands, closing. The engine is a COM
    library; a call into it is a value of \<open>engine_call\<close> that is recorded in the state (\<open>dbg_world\<close>), and what it gives
    and prints, to every session with callbacks, is decided by the number of the call (\<open>dbgeng_env\<close>); when another thread
    cancels, before or after the look at a cancellation (\<open>cancel_moment\<close>), is a parameter too. \<open>Dbgeng_Backend\<close>: the table of sessions, each served by one thread, and \<open>dbgeng_debug_backend\<close>, the
    backend as \<open>Worker_Protocol\<close> uses it.
  \<^item> \<open>Dbgeng_Properties\<close> has the locales \<open>engine_view\<close> and \<open>target_view\<close>: a view of the state that does not see certain
    calls is kept by all the operations that only make such calls. Interpreted for the processes that live
    (\<open>alive\<close>), the callbacks and the work that is begun, they carry \<open>Dbgeng_Claims\<close> (a session that could not be made
    leaves nothing behind) and \<open>Dbgeng_Cancel\<close> (a cancelled startup begins nothing more). \<open>Dbgeng_Commands\<close>: what a
    command gives. \<open>Dbgeng_Table\<close>: sessions stay apart.

  \<^bold>\<open>Sessions of the disassembler.\<close>
  \<^item> \<open>Ida\<close> (\<open>ida/model.rs\<close>, \<open>target.rs\<close>): the data and the target paths. \<open>Ida_Worker\<close> (\<open>ida/worker.rs\<close>): the
    tools that are exposed, every request to the upstream server and the reading of its responses.
  \<^item> \<open>Ida_State\<close>, \<open>Ida_Manager\<close> (\<open>ida/manager.rs\<close>): the state with its helpers, and creating, looking at,
    listing and closing sessions and passing tool calls on; every \<open>?\<close> of the code is a \<open>try_then\<close>.
  \<^item> \<open>Ida_Invariant\<close>, \<open>Ida_Runs\<close>, \<open>Ida_Properties\<close>: the abstract life of a session (\<open>key_step\<close>: its state and
    its binding to a database), which every operation refines, the invariant of all runs (\<open>ida_reachable\<close>),
    and that a tool call only touches the database of its own session. A run is a sequence of whole operations, one
    after the other; two races of operations that overlap are known and break these properties.

  \<^bold>\<open>Starting processes.\<close> \<open>Launch\<close> models the Windows implementation in \<open>process.rs\<close>: whose identity a
  child gets, with the fallbacks and the audit, its command line and environment block, its exit code,
  and which process is behind a loopback connection. \<open>Launch_Properties\<close> proves the round trips through
  the documented reading of a command line (\<open>arg_reads\<close>) and of an environment block.

  \<^bold>\<open>The kernel trace.\<close>
  \<^item> \<open>Etw_Stack\<close> (\<open>native_etw/stack.rs\<close>, \<open>settings.rs\<close>), \<open>Etw_Events\<close> (rows, counters and the state of
    \<open>EtwProcessor\<close>), \<open>Etw_Processor\<close> (one definition per method), \<open>Etw_Decode\<close> (the decoders of event
    records), \<open>Etw_Trace\<close> (\<open>post_process_trace\<close>).
  \<^item> \<open>Native_Collector\<close>: the collector as an object, which starts and stops a trace session of Windows
    (\<open>trace_world\<close> holds the sessions that run) and writes rows and summary.
  \<^item> \<open>Etw_Invariants\<close>, \<open>Etw_Run\<close>, \<open>Etw_Properties\<close>: the invariant of the processor, that no stream of
    records makes it panic, and that its numbers agree with the rows.

  \<^bold>\<open>Profiles.\<close> \<open>Profile\<close> (\<open>profile/model.rs\<close>, \<open>target.rs\<close>, \<open>collector.rs\<close>) and \<open>Profile_Manager\<close>
  (\<open>profile/manager.rs\<close>): \<open>run_profile\<close> over any collectors (\<open>collector_lib\<close>). \<open>Profile_Properties\<close> holds the
  locale \<open>profile_collector\<close>, under which collectors are a stack that is taken down on every path;
  \<open>Profile_Safety\<close> interprets it for the native collector, and \<open>Profile_Claims\<close> states the properties: no
  trace session outlives a profile, the slot is free again, the result agrees with exit and metadata.

  \<^bold>\<open>Time travel recordings.\<close> \<open>Ttd\<close> (\<open>ttd/mod.rs\<close>): requests with their checks, the arguments for the recorder, and
  the process that runs it; \<open>Ttd_Manager\<close>: \<open>record_ttd\<close>, with the files it leaves. \<open>Ttd_Properties\<close>: the recorder only
  gets what was checked, the slot is free again on every path. \<open>Ttd_Args\<close>: a reader of the arguments by the documented
  options of \<open>TTD.exe\<close> finds the request again. \<open>Ttd_Claims\<close>: the properties, among them that result, metadata and
  traces agree. \<open>Os_Path\<close> holds the reading of file names that these and \<open>Ida\<close> share.

  \<^bold>\<open>Proxies.\<close> \<open>Proxy\<close> (\<open>common/proxy.rs\<close>): the settings and the changes they make in the environment of a
  worker. \<open>Proxy_Properties\<close>: the worker sees exactly what is configured.

  \<^bold>\<open>The server.\<close>
  \<^item> \<open>Tools\<close> (\<open>tools/registry.rs\<close>, \<open>adapters.rs\<close>, \<open>debug.rs\<close>): decoding and routing of tool calls over
    the record \<open>tools\<close> of what the managers offer. \<open>Tool_Schemas\<close> (\<open>schema.rs\<close>): what \<open>tools/list\<close>
    shows. \<open>Tool_Properties\<close>: arguments that conform to a published schema are understood.
  \<^item> \<open>Mcp\<close>, \<open>Mcp_Properties\<close> (\<open>mcp.rs\<close>): the methods of the protocol and the shape of their responses.
  \<^item> \<open>Http\<close>, \<open>Http_Properties\<close> (\<open>http.rs\<close>): reading requests, the checks of origin and content type,
    routing, writing responses; a request and a response survive the wire, and only a checked request
    reaches a tool, a stream only subscribes to the changes of the sessions.

  \<^bold>\<open>Configuration and service.\<close>
  \<^item> \<open>Runtime\<close>, \<open>Runtime_Options\<close> (\<open>runtime.rs\<close>, \<open>main.rs\<close>): a path is its text with its components
    (\<open>os_path\<close>); the file of the configuration with every check, the options of the commands as loops over the
    arguments, the command line of the installed service, and the checks before an install root is removed.
    \<open>Runtime_Properties\<close>: normalized absolute paths stay as they are, a loaded configuration loads again, the reader of
    command lines follows the rules of Windows (\<open>windows_argv\<close>) on ordinary lines.
  \<^item> \<open>Service\<close> (\<open>service.rs\<close>): \<open>install\<close> and \<open>uninstall\<close> on a table of services and the existing directories
    (\<open>service_world\<close>); each call into Windows is an \<open>attempt\<close> that may fail by its number. Without the rights of an
    administrator the program starts itself again elevated: \<open>main_run\<close> is the program over the list of the machines
    that it and these processes see. \<open>Service_Elevated\<close>: the elevated process is asked for the same service.
    \<open>Service_Properties\<close>, \<open>Service_Claims\<close>: only a dedicated install root is ever removed, what was installed is found again and
    removed, and the health check reads what \<open>Http\<close> writes.

  \<^bold>\<open>Bounds and fuel.\<close> Fuel is used three times: \<open>wait_for_exit_or_kill\<close> counts its rounds, and 81 of them are
  proved to be enough for the wait of 2 s with polls 25 ms apart; \<open>wait_for_target\<close> and \<open>wait_for_recorder\<close> need
  \<open>t div 25 + 2\<close> for a timeout of \<open>t\<close> ms (\<open>run_ttd_process_ends\<close>). All other loops recurse on their input (a list of bytes, records,
  frames, threads' steps), and where they do not, a measure is given with \<open>termination\<close>. The limits of the
  code (bytes of a request, of a header line, of an event, the pending stacks, the size of an IDA path)
  are constants of the model with the values of the code.

  \<^bold>\<open>Not modelled.\<close>
  \<^item> What the debugger engine does in a call, its COM pointers, and a panic of the thread of a session; the property
    buffers that are handed to the trace calls of Windows. What such calls return is a parameter here.
  \<^item> The dispatcher of Windows services with the body of the service process, and the look at the token
    (\<open>service.rs\<close>): foreign calls. An elevated process that is killed before its end. Logging to files and the formatting of times.
  \<^item> Of IDA: the search for its installation (\<open>install.rs\<close>) and the pipe to
    the upstream process, which is the argument \<open>request\<close> of the definitions.
  \<^item> Machine limits that Rust code cannot reach in practice: overflow of a \<open>u64\<close> counter, exhaustion of
    memory, a thread that cannot be spawned.
\<close>

end
